(* ===== verification/Py_Values.thy ===== *)
theory Py_Values
  imports Prelude
begin

text \<open>
  The JSON-like part of Python's dynamic values, as the code receives them in metadata, patches and
  extension mappings, with \<open>str\<close>, \<open>repr\<close> and truthiness.  Floats are not modelled.
\<close>

datatype pyval = PNone | PBool bool | PInt int | PStr string | PList "pyval list"
  | PDict "(string \<times> pyval) list"

subsection \<open>Decimal numerals\<close>

definition digit_char :: "nat \<Rightarrow> char" where
  "digit_char n = char_of (48 + n)"

fun show_nat :: "nat \<Rightarrow> string" where
  "show_nat n = (if n < 10 then [digit_char n] else show_nat (n div 10) @ [digit_char (n mod 10)])"

declare show_nat.simps [simp del]

definition show_int :: "int \<Rightarrow> string" where
  "show_int i = (if i < 0 then ''-'' @ show_nat (nat (- i)) else show_nat (nat i))"

subsection \<open>repr and str\<close>

definition hex_digit :: "nat \<Rightarrow> char" where
  "hex_digit n = (if n < 10 then char_of (48 + n) else char_of (87 + n))"

definition repr_char :: "char \<Rightarrow> char \<Rightarrow> string" where
  "repr_char q c =
     (let n = (of_char c :: nat) in
      if c = q \<or> n = 92 then [char_of (92::nat), c]
      else if n = 10 then [char_of (92::nat), CHR ''n'']
      else if n = 13 then [char_of (92::nat), CHR ''r'']
      else if n = 9 then [char_of (92::nat), CHR ''t'']
      else if n < 32 \<or> n = 127
        then [char_of (92::nat), CHR ''x'', hex_digit (n div 16), hex_digit (n mod 16)]
      else [c])"

definition repr_str :: "string \<Rightarrow> string" where
  "repr_str s =
     (let q = (if char_of (39::nat) \<in> set s \<and> char_of (34::nat) \<notin> set s
               then char_of (34::nat) else char_of (39::nat))
      in [q] @ concat (map (repr_char q) s) @ [q])"

fun join :: "string \<Rightarrow> string list \<Rightarrow> string" where
  "join sep [] = []"
| "join sep [x] = x"
| "join sep (x # y # ys) = x @ sep @ join sep (y # ys)"

fun py_repr :: "pyval \<Rightarrow> string" where
  "py_repr PNone = ''None''"
| "py_repr (PBool b) = (if b then ''True'' else ''False'')"
| "py_repr (PInt i) = show_int i"
| "py_repr (PStr s) = repr_str s"
| "py_repr (PList xs) = ''['' @ join '', '' (map py_repr xs) @ '']''"
| "py_repr (PDict kvs) =
     ''{'' @ join '', '' (map (\<lambda>kv. repr_str (fst kv) @ '': '' @ py_repr (snd kv)) kvs) @ ''}''"

fun py_str :: "pyval \<Rightarrow> string" where
  "py_str (PStr s) = s"
| "py_str v = py_repr v"

fun py_truthy :: "pyval \<Rightarrow> bool" where
  "py_truthy PNone = False"
| "py_truthy (PBool b) = b"
| "py_truthy (PInt i) = (i \<noteq> 0)"
| "py_truthy (PStr s) = (s \<noteq> [])"
| "py_truthy (PList xs) = (xs \<noteq> [])"
| "py_truthy (PDict kvs) = (kvs \<noteq> [])"

definition py_or :: "pyval \<Rightarrow> pyval \<Rightarrow> pyval" where
  "py_or a b = (if py_truthy a then a else b)"

subsection \<open>dict.get and the shared coercions\<close>

definition py_get :: "(string, pyval) dict \<Rightarrow> string \<Rightarrow> pyval" where
  "py_get d k = (case map_of d k of None \<Rightarrow> PNone | Some v \<Rightarrow> v)"

text \<open>\<open>dict.update\<close>: the new keys are appended in order, the known ones overwritten in place.\<close>

definition py_update :: "(string, pyval) dict \<Rightarrow> (string, pyval) dict \<Rightarrow> (string, pyval) dict" where
  "py_update d e = fold (\<lambda>(k, v) acc. AList.update k v acc) e d"

text \<open>\<open>_coerce_optional_string\<close> on any value, and \<open>_coerce_mapping\<close>.\<close>

fun coerce_optional_value :: "pyval \<Rightarrow> string option" where
  "coerce_optional_value PNone = None"
| "coerce_optional_value v = (if strip (py_str v) = [] then None else Some (strip (py_str v)))"

fun coerce_mapping :: "pyval \<Rightarrow> (string, pyval) dict" where
  "coerce_mapping (PDict kvs) = kvs"
| "coerce_mapping v = []"

fun coerce_optional_mapping :: "pyval \<Rightarrow> (string, pyval) dict option" where
  "coerce_optional_mapping (PDict kvs) = Some kvs"
| "coerce_optional_mapping v = None"

lemma coerce_optional_value_nonempty:
  "coerce_optional_value x = Some s \<Longrightarrow> s \<noteq> [] \<and> strip s = s"
  by (cases x) (auto split: if_splits)

lemma coerce_optional_value_PStr [simp]: "coerce_optional_value (PStr s) = coerce_optional_string (Some s)"
  by simp

lemma map_of_py_update:
  "map_of (py_update d e) = (\<lambda>k. case map_of (rev e) k of None \<Rightarrow> map_of d k | Some v \<Rightarrow> Some v)"
  unfolding py_update_def
  by (induction e arbitrary: d) (auto simp: fun_eq_iff map_add_def dict_simps split: option.splits)

end
