(* ===== verification/Task_Lists_Data.thy ===== *)
theory Task_Lists_Data
  imports Py_Values
begin

text \<open>
  The data of \<open>weavert/task_lists.py\<close>: entries, snapshots, orchestration views, the error classes,
  and the projections that hide archived tasks.
\<close>

datatype task_status = PENDING | IN_PROGRESS | COMPLETED

datatype readiness_state = RS_AVAILABLE | RS_BLOCKED | RS_CLAIMED | RS_IN_PROGRESS | RS_COMPLETED

fun status_value :: "task_status \<Rightarrow> string" where
  "status_value PENDING = ''pending''"
| "status_value IN_PROGRESS = ''in_progress''"
| "status_value COMPLETED = ''completed''"

text \<open>The status is an option because \<open>update\<close> stores \<open>_coerce_task_status(None)\<close>, which is
  \<open>None\<close>, when a patch carries a null status.\<close>

record task_entry =
  task_id :: string
  subject :: string
  description :: "string option"
  active_form :: "string option"
  status :: "task_status option"
  owner :: "string option"
  blocks :: "string list"
  blocked_by :: "string list"
  metadata :: "(string, pyval) dict"
  is_archived :: bool
  archived_at :: "time option"
  archived_by :: "string option"
  created_at :: time
  updated_at :: time

text \<open>\<open>TaskListEntry.__post_init__\<close>, which every constructor call and every \<open>replace\<close> runs.\<close>

definition task_post_init :: "task_entry \<Rightarrow> task_entry" where
  "task_post_init t =
     (if is_archived t then t\<lparr>archived_by := coerce_optional_string (archived_by t)\<rparr>
      else t\<lparr>archived_at := None, archived_by := None\<rparr>)"

record snapshot =
  list_id :: string
  tasks :: "task_entry list"
  snapshot_updated_at :: time

definition task_key :: "task_entry \<Rightarrow> time \<times> string" where
  "task_key t = (created_at t, task_id t)"

text \<open>\<open>TaskListSnapshot.__post_init__\<close>: the tasks in creation order, ties by id.\<close>

definition mk_snapshot :: "string \<Rightarrow> task_entry list \<Rightarrow> time \<Rightarrow> snapshot" where
  "mk_snapshot lid ts now =
     \<lparr>list_id = lid, tasks = sort_key task_key ts, snapshot_updated_at = now\<rparr>"

record orch_entry =
  orch_task :: task_entry
  readiness_state :: readiness_state
  unresolved_blockers :: "string list"

record orch_snapshot =
  orch_list_id :: string
  orch_tasks :: "orch_entry list"
  available_task_ids :: "string list"
  blocked_task_ids :: "string list"
  claimed_task_ids :: "string list"
  in_progress_task_ids :: "string list"
  completed_task_ids :: "string list"
  unresolved_blocker_ids :: "string list"
  orch_updated_at :: time

subsection \<open>The error classes\<close>

datatype task_list_error =
    TaskListNotFoundError string string
  | TaskListInvalidRequestError string
  | TaskListLifecycleError string string string
  | TaskListMultipleInProgressError string string string
  | TaskListBlockedError string string "string list"
  | TaskListAlreadyClaimedError string string "string option"
  | TaskListOwnerBusyError string string string string
  | TaskListDependencyCycleError string string string
  | TaskStatusValueError string

text \<open>The \<open>code\<close> attribute of the \<open>TaskListError\<close> subclasses; the last constructor is the
  \<open>ValueError\<close> of the enum constructor, which has none.\<close>

fun error_code :: "task_list_error \<Rightarrow> string option" where
  "error_code (TaskListNotFoundError lid tid) = Some ''not_found''"
| "error_code (TaskListInvalidRequestError msg) = Some ''invalid_request''"
| "error_code (TaskListLifecycleError code lid tid) = Some code"
| "error_code (TaskListMultipleInProgressError lid tid ex) = Some ''multiple_in_progress''"
| "error_code (TaskListBlockedError lid tid bs) = Some ''blocked''"
| "error_code (TaskListAlreadyClaimedError lid tid ow) = Some ''already_claimed''"
| "error_code (TaskListOwnerBusyError lid tid ow ex) = Some ''owner_busy''"
| "error_code (TaskListDependencyCycleError lid b c) = Some ''dependency_cycle''"
| "error_code (TaskStatusValueError v) = None"

fun coerce_task_status :: "pyval \<Rightarrow> task_list_error + task_status option" where
  "coerce_task_status PNone = Inr None"
| "coerce_task_status v =
     (let s = py_str v in
      if s = ''pending'' then Inr (Some PENDING)
      else if s = ''in_progress'' then Inr (Some IN_PROGRESS)
      else if s = ''completed'' then Inr (Some COMPLETED)
      else Inl (TaskStatusValueError s))"

lemma coerce_task_status_value [simp]: "coerce_task_status (PStr (status_value s)) = Inr (Some s)"
  by (cases s) simp_all

subsection \<open>Lookups and projections\<close>

fun find_index_from :: "nat \<Rightarrow> task_entry list \<Rightarrow> string \<Rightarrow> nat option" where
  "find_index_from i [] tid = None"
| "find_index_from i (t # ts) tid = (if task_id t = tid then Some i else find_index_from (Suc i) ts tid)"

definition find_task_index :: "task_entry list \<Rightarrow> string \<Rightarrow> string \<Rightarrow> task_list_error + nat" where
  "find_task_index ts lid tid =
     (case find_index_from 0 ts tid of
        Some i \<Rightarrow> Inr i
      | None \<Rightarrow> Inl (TaskListNotFoundError lid tid))"

definition task_map :: "task_entry list \<Rightarrow> string \<Rightarrow> task_entry option" where
  "task_map ts = map_of (rev (map (\<lambda>t. (task_id t, t)) ts))"

text \<open>The sort key \<open>(order.get(item, len(order)), item)\<close> with
  \<open>order = {task.task_id: index}\<close>.\<close>

definition order_key :: "task_entry list \<Rightarrow> string \<Rightarrow> nat \<times> string" where
  "order_key ts item =
     (let ids = map task_id ts in
      (case map_of (rev (zip ids [0..<length ids])) item of
         Some i \<Rightarrow> i
       | None \<Rightarrow> length (remdups ids), item))"

definition archived_task_ids :: "task_entry list \<Rightarrow> string list" where
  "archived_task_ids ts = map task_id (filter is_archived ts)"

definition visible_tasks :: "bool \<Rightarrow> task_entry list \<Rightarrow> task_entry list" where
  "visible_tasks include_archived ts =
     (if include_archived then ts else filter (\<lambda>t. \<not> is_archived t) ts)"

definition project_task_entry :: "string list \<Rightarrow> bool \<Rightarrow> task_entry \<Rightarrow> task_entry" where
  "project_task_entry archived include_archived t =
     (if include_archived \<or> archived = [] then t
      else
        let pb = filter (\<lambda>i. i \<notin> set archived) (blocks t);
            pbb = filter (\<lambda>i. i \<notin> set archived) (blocked_by t)
        in if pb = blocks t \<and> pbb = blocked_by t then t
           else task_post_init (t\<lparr>blocks := pb, blocked_by := pbb\<rparr>))"

definition assert_task_mutable :: "string \<Rightarrow> task_entry \<Rightarrow> task_list_error + unit" where
  "assert_task_mutable lid t =
     ensure (\<not> is_archived t) (TaskListLifecycleError ''archived_task_immutable'' lid (task_id t))"

definition readiness_of :: "task_entry \<Rightarrow> string list \<Rightarrow> readiness_state" where
  "readiness_of t unresolved =
     (if status t = Some COMPLETED then RS_COMPLETED
      else if status t = Some IN_PROGRESS then RS_IN_PROGRESS
      else if owner t \<noteq> None then RS_CLAIMED
      else if unresolved \<noteq> [] then RS_BLOCKED
      else RS_AVAILABLE)"

subsection \<open>Facts about the lookups\<close>

lemma find_index_from_Some:
  "find_index_from k ts tid = Some i \<Longrightarrow>
     k \<le> i \<and> i - k < length ts \<and> task_id (ts ! (i - k)) = tid"
proof (induction ts arbitrary: k)
  case Nil
  then show ?case by simp
next
  case (Cons t ts)
  show ?case
  proof (cases "task_id t = tid")
    case True
    with Cons.prems show ?thesis by simp
  next
    case False
    with Cons.prems Cons.IH [of "Suc k"]
    have "Suc k \<le> i" "i - Suc k < length ts" "task_id (ts ! (i - Suc k)) = tid" by auto
    moreover from this have "i - k = Suc (i - Suc k)" by simp
    ultimately show ?thesis by simp
  qed
qed

lemma find_index_from_None: "find_index_from k ts tid = None \<longleftrightarrow> tid \<notin> task_id ` set ts"
  by (induction ts arbitrary: k) auto

lemma find_task_index_Inr:
  "find_task_index ts lid tid = Inr i \<Longrightarrow> i < length ts \<and> task_id (ts ! i) = tid"
  using find_index_from_Some [of 0 ts tid i]
  by (auto simp: find_task_index_def split: option.splits)

lemma find_task_index_Inl:
  "find_task_index ts lid tid = Inl e \<longleftrightarrow>
     tid \<notin> task_id ` set ts \<and> e = TaskListNotFoundError lid tid"
  using find_index_from_None [of 0 ts tid]
  by (auto simp: find_task_index_def split: option.splits)

lemma find_task_index_ex: "tid \<in> task_id ` set ts \<Longrightarrow> \<exists>i. find_task_index ts lid tid = Inr i"
  using find_task_index_Inl [of ts lid tid] by (cases "find_task_index ts lid tid") auto

lemma task_map_distinct:
  assumes "distinct (map task_id ts)" and "t \<in> set ts"
  shows "task_map ts (task_id t) = Some t"
proof -
  have "distinct (map fst (rev (map (\<lambda>t. (task_id t, t)) ts)))"
    using assms(1) by (simp add: comp_def flip: rev_map)
  moreover have "(task_id t, t) \<in> set (rev (map (\<lambda>t. (task_id t, t)) ts))"
    using assms(2) by auto
  ultimately show ?thesis unfolding task_map_def by (rule map_of_is_SomeI)
qed

lemma task_map_SomeD: "task_map ts tid = Some t \<Longrightarrow> t \<in> set ts \<and> task_id t = tid"
  unfolding task_map_def by (drule map_of_SomeD) auto

lemma task_map_None: "task_map ts tid = None \<longleftrightarrow> tid \<notin> task_id ` set ts"
  by (simp add: task_map_def map_of_eq_None_iff image_image)

lemma order_key_snd [simp]: "snd (order_key ts i) = i"
  by (simp add: order_key_def Let_def)

lemma order_key_inj: "inj_on (order_key ts) A"
  by (rule inj_onI) (metis order_key_snd)

lemma task_post_init_simps [simp]:
  "task_id (task_post_init t) = task_id t" "subject (task_post_init t) = subject t"
  "status (task_post_init t) = status t" "owner (task_post_init t) = owner t"
  "blocks (task_post_init t) = blocks t" "blocked_by (task_post_init t) = blocked_by t"
  "is_archived (task_post_init t) = is_archived t" "created_at (task_post_init t) = created_at t"
  "updated_at (task_post_init t) = updated_at t" "metadata (task_post_init t) = metadata t"
  "description (task_post_init t) = description t" "active_form (task_post_init t) = active_form t"
  by (simp_all add: task_post_init_def)

lemma project_task_entry_simps [simp]:
  "task_id (project_task_entry a b t) = task_id t" "status (project_task_entry a b t) = status t"
  "owner (project_task_entry a b t) = owner t"
  "is_archived (project_task_entry a b t) = is_archived t"
  "created_at (project_task_entry a b t) = created_at t"
  by (simp_all add: project_task_entry_def Let_def)

lemma project_task_entry_blocked_by [simp]:
  "blocked_by (project_task_entry a b t) =
     (if b then blocked_by t else filter (\<lambda>i. i \<notin> set a) (blocked_by t))"
  by (auto simp: project_task_entry_def Let_def filter_empty_conv intro!: filter_True [symmetric])

lemma snapshot_tasks [simp]:
  "set (tasks (mk_snapshot lid ts now)) = set ts" "list_id (mk_snapshot lid ts now) = lid"
  "distinct (map task_id (tasks (mk_snapshot lid ts now))) = distinct (map task_id ts)"
proof -
  have "mset (map task_id (sort_key task_key ts)) = mset (map task_id ts)" by simp
  then show "distinct (map task_id (tasks (mk_snapshot lid ts now))) = distinct (map task_id ts)"
    unfolding mk_snapshot_def by (metis mset_eq_imp_distinct_iff snapshot.select_convs(2))
qed (simp_all add: mk_snapshot_def)

end
