(* ===== verification/Task_Lists_Graph.thy ===== *)
theory Task_Lists_Graph
  imports Task_Lists_Data
begin

text \<open>
  The dependency graph of a task list (\<open>_normalized_dependency_graph\<close>, \<open>_tasks_from_graph\<close>,
  \<open>_path_exists\<close>, \<open>_mutate_dependency_graph\<close>, \<open>_apply_dependency_overrides\<close>).  A Python dictionary of
  sets of ids is the list of its (blocker, blocked) pairs, each pair once.
\<close>

type_synonym edges = "(string \<times> string) list"

definition succs :: "edges \<Rightarrow> string \<Rightarrow> string list" where
  "succs g b = map snd (filter (\<lambda>e. fst e = b) g)"

definition preds :: "edges \<Rightarrow> string \<Rightarrow> string list" where
  "preds g c = map fst (filter (\<lambda>e. snd e = c) g)"

definition task_edges :: "string list \<Rightarrow> task_entry \<Rightarrow> edges \<Rightarrow> edges" where
  "task_edges ids t g =
     (let g1 = fold (\<lambda>c g. if c \<in> set ids \<and> c \<noteq> task_id t
                           then List.insert (task_id t, c) g else g) (blocks t) g
      in fold (\<lambda>b g. if b \<in> set ids \<and> b \<noteq> task_id t
                     then List.insert (b, task_id t) g else g) (blocked_by t) g1)"

definition normalized_edges :: "task_entry list \<Rightarrow> edges" where
  "normalized_edges ts = fold (task_edges (map task_id ts)) ts []"

definition relink_task :: "task_entry list \<Rightarrow> edges \<Rightarrow> time \<Rightarrow> task_entry \<Rightarrow> task_entry \<times> bool" where
  "relink_task ts g now t =
     (let nb = sort_key (order_key ts) (succs g (task_id t));
          nbb = sort_key (order_key ts) (preds g (task_id t))
      in if nb \<noteq> blocks t \<or> nbb \<noteq> blocked_by t
         then (task_post_init (t\<lparr>blocks := nb, blocked_by := nbb, updated_at := now\<rparr>), True)
         else (t, False))"

definition tasks_from_graph :: "task_entry list \<Rightarrow> edges \<Rightarrow> time \<Rightarrow> task_entry list \<times> bool" where
  "tasks_from_graph ts g now =
     (map (\<lambda>t. fst (relink_task ts g now t)) ts, list_ex (\<lambda>t. snd (relink_task ts g now t)) ts)"

definition unresolved_blockers_of :: "task_entry list \<Rightarrow> string \<Rightarrow> string list" where
  "unresolved_blockers_of ts tid =
     filter (\<lambda>b. case task_map ts b of Some u \<Rightarrow> status u \<noteq> Some COMPLETED | None \<Rightarrow> False)
       (sort_key (order_key ts) (preds (normalized_edges ts) tid))"

subsection \<open>The depth-first search of \<open>_path_exists\<close>\<close>

text \<open>The stack is held with its top first, so a \<open>pop\<close> takes the head and a run of \<open>append\<close>s
  puts the reversed candidates in front.\<close>

function path_loop :: "edges \<Rightarrow> string \<Rightarrow> string list \<Rightarrow> string list \<Rightarrow> bool" where
  "path_loop g target [] seen = False"
| "path_loop g target (current # stack) seen =
     (if current \<in> set seen then path_loop g target stack seen
      else if target \<in> set (succs g current) then True
      else path_loop g target (rev (succs g current) @ stack) (current # seen))"
  by pat_completeness auto
termination
proof (relation "measures [\<lambda>(g, target, stack, seen). card (fst ` set g - set seen),
                           \<lambda>(g, target, stack, seen). length (filter (\<lambda>x. x \<notin> set seen \<and> x \<notin> fst ` set g) stack),
                           \<lambda>(g, target, stack, seen). length stack]", goal_cases)
  case 1
  show ?case by simp
next
  case (2 g target current stack seen)
  then show ?case by auto
next
  case (3 g target current stack seen)
  show ?case
  proof (cases "current \<in> fst ` set g")
    case True
    with 3(1) have "card (fst ` set g - insert current (set seen)) < card (fst ` set g - set seen)"
      by (intro psubset_card_mono) auto
    then show ?thesis by simp
  next
    case False
    then have "succs g current = []" by (force simp: succs_def filter_empty_conv)
    moreover from False have "fst ` set g - insert current (set seen) = fst ` set g - set seen" by auto
    moreover have "length (filter (\<lambda>x. x \<noteq> current \<and> x \<notin> set seen \<and> x \<notin> fst ` set g) stack)
        \<le> length (filter (\<lambda>x. x \<notin> set seen \<and> x \<notin> fst ` set g) stack)"
      by (induction stack) auto
    ultimately show ?thesis using False 3(1) by (simp add: conj_assoc)
  qed
qed

definition path_exists :: "edges \<Rightarrow> string \<Rightarrow> string \<Rightarrow> bool" where
  "path_exists g start target = (start = target \<or> path_loop g target [start] [])"

subsection \<open>Mutations of the graph\<close>

definition mutate_dependency_graph ::
  "task_entry list \<Rightarrow> string \<Rightarrow> string \<Rightarrow> string \<Rightarrow> bool \<Rightarrow> time \<Rightarrow>
   task_list_error + task_entry list \<times> bool" where
  "mutate_dependency_graph ts lid blocker blocked remove now =
     rbind (find_task_index ts lid blocker) (\<lambda>i.
     rbind (find_task_index ts lid blocked) (\<lambda>j.
     rbind (assert_task_mutable lid (ts ! i)) (\<lambda>_.
     rbind (assert_task_mutable lid (ts ! j)) (\<lambda>_.
     if \<not> remove \<and> blocker = blocked then Inl (TaskListDependencyCycleError lid blocker blocked)
     else
       let g = normalized_edges ts in
       if remove then Inr (tasks_from_graph ts (filter (\<lambda>e. e \<noteq> (blocker, blocked)) g) now)
       else if (blocker, blocked) \<in> set g then Inr (tasks_from_graph ts g now)
       else if path_exists g blocked blocker
         then Inl (TaskListDependencyCycleError lid blocker blocked)
       else Inr (tasks_from_graph ts (List.insert (blocker, blocked) g) now)))))"

definition coerce_string_sequence :: "string list \<Rightarrow> string list" where
  "coerce_string_sequence xs = List.map_filter (\<lambda>s. coerce_optional_string (Some s)) xs"

text \<open>One requested edge: the other end must exist and be mutable, and the edge must not close a
  cycle.\<close>

definition override_edge ::
  "task_entry list \<Rightarrow> string \<Rightarrow> string \<Rightarrow> string \<Rightarrow> string \<Rightarrow> edges \<Rightarrow> task_list_error + edges" where
  "override_edge ts lid other blocker blocked g =
     (case task_map ts other of
        None \<Rightarrow> Inl (TaskListNotFoundError lid other)
      | Some u \<Rightarrow>
          rbind (assert_task_mutable lid u) (\<lambda>_.
          if blocker = blocked \<or> path_exists g blocked blocker
          then Inl (TaskListDependencyCycleError lid blocker blocked)
          else Inr (List.insert (blocker, blocked) g)))"

fun override_blocks ::
  "task_entry list \<Rightarrow> string \<Rightarrow> string \<Rightarrow> string list \<Rightarrow> edges \<Rightarrow> task_list_error + edges" where
  "override_blocks ts lid tid [] g = Inr g"
| "override_blocks ts lid tid (c # cs) g =
     rbind (override_edge ts lid c tid c g) (override_blocks ts lid tid cs)"

fun override_blocked_by ::
  "task_entry list \<Rightarrow> string \<Rightarrow> string \<Rightarrow> string list \<Rightarrow> edges \<Rightarrow> task_list_error + edges" where
  "override_blocked_by ts lid tid [] g = Inr g"
| "override_blocked_by ts lid tid (b # bs) g =
     rbind (override_edge ts lid b b tid g) (override_blocked_by ts lid tid bs)"

definition apply_dependency_overrides ::
  "task_entry list \<Rightarrow> string \<Rightarrow> string \<Rightarrow> string list \<Rightarrow> string list \<Rightarrow> time \<Rightarrow>
   task_list_error + task_entry list \<times> bool" where
  "apply_dependency_overrides ts lid tid bs bbs now =
     rbind (find_task_index ts lid tid) (\<lambda>i.
     rbind (assert_task_mutable lid (ts ! i)) (\<lambda>_.
     rbind (override_blocks ts lid tid (coerce_string_sequence bs) (normalized_edges ts)) (\<lambda>g1.
     rbind (override_blocked_by ts lid tid (coerce_string_sequence bbs) g1) (\<lambda>g2.
     Inr (tasks_from_graph ts g2 now)))))"

subsection \<open>Search correctness\<close>

lemma set_succs: "set (succs g b) = {c. (b, c) \<in> set g}"
  by (force simp: succs_def)

lemma set_preds: "set (preds g c) = {b. (b, c) \<in> set g}"
  by (force simp: preds_def)

lemma path_loop_sound:
  "path_loop g target stack seen \<Longrightarrow> \<exists>s \<in> set stack. (s, target) \<in> (set g)\<^sup>+"
proof (induction g target stack seen rule: path_loop.induct)
  case (1 g target seen)
  then show ?case by simp
next
  case (2 g target current stack seen)
  show ?case
  proof (cases "current \<in> set seen")
    case True
    with 2 show ?thesis by auto
  next
    case False
    show ?thesis
    proof (cases "target \<in> set (succs g current)")
      case True
      then show ?thesis by (auto simp: set_succs)
    next
      case not_next: False
      with False 2 obtain s where "s \<in> set (succs g current) \<union> set stack" "(s, target) \<in> (set g)\<^sup>+"
        by auto
      then show ?thesis by (auto simp: set_succs intro: trancl_into_trancl2)
    qed
  qed
qed

text \<open>When the loop gives up, the seen nodes and the stack are closed under edges and miss the
  target.\<close>

lemma path_loop_complete:
  assumes "\<not> path_loop g target stack seen"
    and "\<forall>x \<in> set seen. \<forall>y. (x, y) \<in> set g \<longrightarrow> y \<noteq> target \<and> y \<in> set seen \<union> set stack"
  shows "\<exists>S. set seen \<union> set stack \<subseteq> S \<and> (\<forall>x \<in> S. \<forall>y. (x, y) \<in> set g \<longrightarrow> y \<noteq> target \<and> y \<in> S)"
  using assms
proof (induction g target stack seen rule: path_loop.induct)
  case (1 g target seen)
  then show ?case by auto
next
  case (2 g target current stack seen)
  show ?case
  proof (cases "current \<in> set seen")
    case True
    with "2.prems" "2.IH"(1) show ?thesis by (auto simp: insert_absorb)
  next
    case False
    with "2.prems"(1) have nt: "target \<notin> set (succs g current)"
      and rest: "\<not> path_loop g target (rev (succs g current) @ stack) (current # seen)"
      by (auto split: if_splits)
    have "\<forall>x \<in> set (current # seen). \<forall>y. (x, y) \<in> set g \<longrightarrow>
        y \<noteq> target \<and> y \<in> set (current # seen) \<union> set (rev (succs g current) @ stack)"
      using nt "2.prems"(2) by (auto simp: set_succs)
    from "2.IH"(2) [OF False nt rest this] show ?thesis by auto
  qed
qed

lemma path_exists_iff: "path_exists g start target \<longleftrightarrow> (start, target) \<in> (set g)\<^sup>*"
proof
  assume "path_exists g start target"
  then show "(start, target) \<in> (set g)\<^sup>*"
    using path_loop_sound [of g target "[start]" "[]"]
    by (auto simp: path_exists_def intro: trancl_into_rtrancl)
next
  assume path: "(start, target) \<in> (set g)\<^sup>*"
  show "path_exists g start target"
  proof (rule ccontr)
    assume "\<not> path_exists g start target"
    then have ne: "start \<noteq> target" and "\<not> path_loop g target [start] []"
      by (auto simp: path_exists_def)
    then obtain S where "start \<in> S" and closed: "\<forall>x \<in> S. \<forall>y. (x, y) \<in> set g \<longrightarrow> y \<noteq> target \<and> y \<in> S"
      using path_loop_complete [of g target "[start]" "[]"] by auto
    have "start = target \<or> target \<in> S \<and> False" if "(start, target) \<in> (set g)\<^sup>*"
      using that
    proof (cases rule: rtranclE)
      case base
      then show ?thesis by simp
    next
      case (step y)
      have "y \<in> S" using step(1) \<open>start \<in> S\<close> closed by (induction rule: rtrancl_induct) auto
      with step(2) closed show ?thesis by auto
    qed
    with path ne show False by simp
  qed
qed

subsection \<open>The normalised graph\<close>

lemma set_fold_insert_if:
  "set (fold (\<lambda>c g. if P c then List.insert (f c) g else g) cs g) = set g \<union> {f c |c. c \<in> set cs \<and> P c}"
  by (induction cs arbitrary: g) auto

lemma distinct_fold_insert_if:
  "distinct g \<Longrightarrow> distinct (fold (\<lambda>c g. if P c then List.insert (f c) g else g) cs g)"
  by (induction cs arbitrary: g) auto

lemma set_task_edges:
  "set (task_edges ids t g) = set g
     \<union> {(task_id t, c) |c. c \<in> set (blocks t) \<and> c \<in> set ids \<and> c \<noteq> task_id t}
     \<union> {(b, task_id t) |b. b \<in> set (blocked_by t) \<and> b \<in> set ids \<and> b \<noteq> task_id t}"
  unfolding task_edges_def Let_def set_fold_insert_if by auto

lemma distinct_task_edges: "distinct g \<Longrightarrow> distinct (task_edges ids t g)"
  unfolding task_edges_def Let_def by (intro distinct_fold_insert_if)

lemma set_fold_task_edges:
  "set (fold (task_edges ids) ts g) = set g
     \<union> {(b, c). b \<noteq> c \<and> (\<exists>t \<in> set ts. task_id t = b \<and> c \<in> set (blocks t) \<and> c \<in> set ids)}
     \<union> {(b, c). b \<noteq> c \<and> (\<exists>t \<in> set ts. task_id t = c \<and> b \<in> set (blocked_by t) \<and> b \<in> set ids)}"
  by (induction ts arbitrary: g) (auto simp: set_task_edges)

lemma set_normalized_edges:
  "set (normalized_edges ts) =
     {(b, c). b \<noteq> c \<and> b \<in> task_id ` set ts \<and> c \<in> task_id ` set ts \<and>
        ((\<exists>t \<in> set ts. task_id t = b \<and> c \<in> set (blocks t)) \<or>
         (\<exists>t \<in> set ts. task_id t = c \<and> b \<in> set (blocked_by t)))}"
  unfolding normalized_edges_def set_fold_task_edges by auto

lemma distinct_normalized_edges: "distinct (normalized_edges ts)"
proof -
  have "distinct g \<Longrightarrow> distinct (fold (task_edges ids) ts g)" for ids g
    by (induction ts arbitrary: g) (auto intro: distinct_task_edges)
  then show ?thesis by (simp add: normalized_edges_def)
qed

lemma distinct_succs: "distinct g \<Longrightarrow> distinct (succs g b)"
  by (auto simp: succs_def distinct_map inj_on_def prod_eq_iff)

lemma distinct_preds: "distinct g \<Longrightarrow> distinct (preds g b)"
  by (auto simp: preds_def distinct_map inj_on_def prod_eq_iff)

end
