(* ===== verification/Task_Lists_Service.thy ===== *)
theory Task_Lists_Service
  imports Task_Lists_Graph
begin

text \<open>
  The operations of \<open>DefaultTaskListService\<close>.  Each mutation is a function of the loaded snapshot that
  raises, or returns the snapshot to save (if any) and the result; \<open>service_mutation\<close> is the shared
  frame: load under the list's lock, save, then notify the watchers.  The lock makes a mutation one
  step, and the in-memory store never suspends inside it.
\<close>

subsection \<open>The orchestration view\<close>

definition derive_entry :: "snapshot \<Rightarrow> bool \<Rightarrow> task_entry \<Rightarrow> orch_entry" where
  "derive_entry snap include_archived t =
     (let ts = tasks snap;
          p = project_task_entry (archived_task_ids ts) include_archived t;
          bs = filter (\<lambda>b. case task_map ts b of
                             None \<Rightarrow> False
                           | Some u \<Rightarrow> \<not> is_archived u \<and> status u \<noteq> Some COMPLETED)
                 (sort_key (order_key ts) (blocked_by p))
      in \<lparr>orch_task = p, readiness_state = readiness_of p bs, unresolved_blockers = bs\<rparr>)"

definition ids_in_state :: "orch_entry list \<Rightarrow> readiness_state \<Rightarrow> string list" where
  "ids_in_state es rs =
     map (\<lambda>e. task_id (orch_task e))
       (filter (\<lambda>e. \<not> is_archived (orch_task e) \<and> readiness_state e = rs) es)"

definition derive_orchestration_snapshot :: "snapshot \<Rightarrow> bool \<Rightarrow> orch_snapshot" where
  "derive_orchestration_snapshot snap include_archived =
     (let ts = tasks snap;
          es = map (derive_entry snap include_archived) (visible_tasks include_archived ts);
          live = filter (\<lambda>e. \<not> is_archived (orch_task e)) es
      in \<lparr>orch_list_id = list_id snap,
          orch_tasks = sort_key (\<lambda>e. task_key (orch_task e)) es,
          available_task_ids = ids_in_state es RS_AVAILABLE,
          blocked_task_ids = ids_in_state es RS_BLOCKED,
          claimed_task_ids = ids_in_state es RS_CLAIMED,
          in_progress_task_ids = ids_in_state es RS_IN_PROGRESS,
          completed_task_ids = ids_in_state es RS_COMPLETED,
          unresolved_blocker_ids =
            sort_key (order_key ts) (remdups (concat (map unresolved_blockers live))),
          orch_updated_at = snapshot_updated_at snap\<rparr>)"

subsection \<open>Snapshot mutations\<close>

type_synonym 'r mutation = "snapshot \<Rightarrow> task_list_error + snapshot option \<times> 'r"

definition create_mutation ::
  "time \<Rightarrow> string \<Rightarrow> string \<Rightarrow> string option \<Rightarrow> string option \<Rightarrow> string option \<Rightarrow> string list \<Rightarrow>
   string list \<Rightarrow> (string, pyval) dict \<Rightarrow> task_entry mutation" where
  "create_mutation now new_id subj desc form own bs bbs md snap =
     (let t = task_post_init
            \<lparr>task_id = new_id, subject = strip subj, description = coerce_optional_string desc,
             active_form = coerce_optional_string form, status = Some PENDING,
             owner = coerce_optional_string own, blocks = [], blocked_by = [], metadata = md,
             is_archived = False, archived_at = None, archived_by = None,
             created_at = now, updated_at = now\<rparr>;
          ts = tasks snap @ [t];
          lid = list_id snap
      in if bs \<noteq> [] \<or> bbs \<noteq> []
         then rbind (apply_dependency_overrides ts lid new_id bs bbs now) (\<lambda>(ts', _).
              case List.find (\<lambda>u. task_id u = new_id) ts' of
                None \<Rightarrow> Inl (TaskListNotFoundError lid new_id)
              | Some t' \<Rightarrow> Inr (Some (mk_snapshot lid ts' now), t'))
         else Inr (Some (mk_snapshot lid ts now), t))"

definition allowed_patch_keys :: "string list" where
  "allowed_patch_keys = [''status'', ''subject'', ''description'', ''active_form'', ''metadata'']"

definition task_update_unsupported_message :: "string list \<Rightarrow> string" where
  "task_update_unsupported_message unsupported =
     (let fields = join '', '' unsupported;
          guidance =
            (if ''owner'' \<in> set unsupported
             then [''Use task_claim or task_release for ownership changes.''] else [])
            @ (if ''blocks'' \<in> set unsupported \<or> ''blocked_by'' \<in> set unsupported
               then [''Use task_block or task_unblock for dependency changes.''] else [])
      in if guidance \<noteq> []
         then ''task_update does not support fields: '' @ fields @ ''. '' @ join '' '' guidance
         else ''task_update does not support fields: '' @ fields)"

definition apply_patch ::
  "time \<Rightarrow> task_entry \<Rightarrow> (string, pyval) dict \<Rightarrow> task_list_error + task_entry" where
  "apply_patch now t patch =
     (let unsupported = sort (filter (\<lambda>k. k \<notin> set allowed_patch_keys) (map fst patch));
          has = (\<lambda>k. k \<in> fst ` set patch)
      in rbind (ensure (unsupported = [])
                  (TaskListInvalidRequestError (task_update_unsupported_message unsupported))) (\<lambda>_.
         rbind (ensure (list_ex has allowed_patch_keys)
                  (TaskListInvalidRequestError
                     ''task_update requires at least one supported mutable field'')) (\<lambda>_.
         let md = (if has ''metadata''
                   then py_update (metadata t) (coerce_mapping (py_get patch ''metadata''))
                   else metadata t)
         in rbind (if has ''subject''
                   then (case coerce_optional_value (py_get patch ''subject'') of
                           None \<Rightarrow> Inl (TaskListInvalidRequestError
                             ''task_update requires subject to be a non-empty string when provided'')
                         | Some s \<Rightarrow> Inr s)
                   else Inr (subject t)) (\<lambda>subj.
            rbind (if has ''status'' then coerce_task_status (py_get patch ''status'')
                   else Inr (status t)) (\<lambda>st.
            Inr (task_post_init
                  (t\<lparr>subject := subj,
                     description := (if has ''description''
                                     then coerce_optional_value (py_get patch ''description'')
                                     else description t),
                     active_form := (if has ''active_form''
                                     then coerce_optional_value (py_get patch ''active_form'')
                                     else active_form t),
                     status := st, metadata := md, updated_at := now\<rparr>)))))))"

definition validate_single_in_progress ::
  "task_entry list \<Rightarrow> string \<Rightarrow> string \<Rightarrow> task_list_error + unit" where
  "validate_single_in_progress ts lid tid =
     (case List.find (\<lambda>t. task_id t \<noteq> tid \<and> status t = Some IN_PROGRESS) ts of
        None \<Rightarrow> Inr ()
      | Some u \<Rightarrow> Inl (TaskListMultipleInProgressError lid tid (task_id u)))"

definition assert_owner_available ::
  "task_entry list \<Rightarrow> string \<Rightarrow> string \<Rightarrow> string \<Rightarrow> task_list_error + unit" where
  "assert_owner_available ts lid tid own =
     (case List.find (\<lambda>t. task_id t \<noteq> tid \<and> owner t = Some own \<and> status t \<noteq> Some COMPLETED) ts of
        None \<Rightarrow> Inr ()
      | Some u \<Rightarrow> Inl (TaskListOwnerBusyError lid tid own (task_id u)))"

definition update_mutation ::
  "time \<Rightarrow> string \<Rightarrow> (string, pyval) dict \<Rightarrow> bool \<Rightarrow> task_entry mutation" where
  "update_mutation now tid patch strict snap =
     (let ts = tasks snap; lid = list_id snap in
      rbind (find_task_index ts lid tid) (\<lambda>i.
      rbind (assert_task_mutable lid (ts ! i)) (\<lambda>_.
      rbind (apply_patch now (ts ! i) patch) (\<lambda>t'.
      rbind (if strict \<and> status t' = Some IN_PROGRESS
             then validate_single_in_progress ts lid tid else Inr ()) (\<lambda>_.
      Inr (Some (mk_snapshot lid (ts[i := t']) (updated_at t')), t'))))))"

definition archive_mutation :: "time \<Rightarrow> string \<Rightarrow> string option \<Rightarrow> task_entry mutation" where
  "archive_mutation now tid by snap =
     (let ts = tasks snap; lid = list_id snap in
      rbind (find_task_index ts lid tid) (\<lambda>i.
      rbind (ensure (\<not> is_archived (ts ! i))
               (TaskListLifecycleError ''already_archived'' lid tid)) (\<lambda>_.
      rbind (ensure (status (ts ! i) = Some COMPLETED)
               (TaskListLifecycleError ''archive_requires_completed'' lid tid)) (\<lambda>_.
      let t' = task_post_init ((ts ! i)\<lparr>is_archived := True, archived_at := Some now,
                 archived_by := coerce_optional_string by, updated_at := now\<rparr>)
      in Inr (Some (mk_snapshot lid (ts[i := t']) now), t')))))"

definition unarchive_mutation :: "time \<Rightarrow> string \<Rightarrow> task_entry mutation" where
  "unarchive_mutation now tid snap =
     (let ts = tasks snap; lid = list_id snap in
      rbind (find_task_index ts lid tid) (\<lambda>i.
      rbind (ensure (is_archived (ts ! i)) (TaskListLifecycleError ''not_archived'' lid tid)) (\<lambda>_.
      let t' = task_post_init ((ts ! i)\<lparr>is_archived := False, archived_at := None,
                 archived_by := None, updated_at := now\<rparr>)
      in Inr (Some (mk_snapshot lid (ts[i := t']) now), t'))))"

definition delete_mutation :: "time \<Rightarrow> string \<Rightarrow> task_entry mutation" where
  "delete_mutation now tid snap =
     (let ts = tasks snap; lid = list_id snap in
      rbind (find_task_index ts lid tid) (\<lambda>i.
      rbind (ensure (is_archived (ts ! i))
               (TaskListLifecycleError ''delete_requires_archived'' lid tid)) (\<lambda>_.
      let remaining = filter (\<lambda>t. task_id t \<noteq> tid) ts
      in rbind (ensure (length remaining \<noteq> length ts) (TaskListNotFoundError lid tid)) (\<lambda>_.
         let ts' = fst (tasks_from_graph remaining (normalized_edges remaining) now)
         in Inr (Some (mk_snapshot lid ts' now), ts ! i)))))"

definition claim_task ::
  "time \<Rightarrow> task_entry list \<Rightarrow> string \<Rightarrow> string \<Rightarrow> string option \<Rightarrow> bool \<Rightarrow> bool \<Rightarrow> bool \<Rightarrow>
   task_list_error + (task_entry list \<times> task_entry \<times> bool)" where
  "claim_task now ts lid tid own set_in_progress enforce_owner_busy strict =
     (case coerce_optional_string own of
        None \<Rightarrow> Inl (TaskListInvalidRequestError ''task_claim requires a non-empty owner'')
      | Some o' \<Rightarrow>
          rbind (find_task_index ts lid tid) (\<lambda>i.
          let t = ts ! i in
          rbind (assert_task_mutable lid t) (\<lambda>_.
          rbind (ensure (status t \<noteq> Some COMPLETED)
                   (TaskListInvalidRequestError ''task_claim does not support completed tasks'')) (\<lambda>_.
          let desired = (if set_in_progress then Some IN_PROGRESS else status t);
              unresolved = unresolved_blockers_of ts tid
          in if owner t = Some o' then
               (if desired = status t then Inr (ts, t, False)
                else
                  rbind (ensure (unresolved = []) (TaskListBlockedError lid tid unresolved)) (\<lambda>_.
                  rbind (if strict \<and> desired = Some IN_PROGRESS
                         then validate_single_in_progress ts lid tid else Inr ()) (\<lambda>_.
                  let t' = task_post_init (t\<lparr>status := desired, updated_at := now\<rparr>)
                  in Inr (ts[i := t'], t', True))))
             else
               rbind (ensure (owner t = None) (TaskListAlreadyClaimedError lid tid (owner t))) (\<lambda>_.
               rbind (ensure (unresolved = []) (TaskListBlockedError lid tid unresolved)) (\<lambda>_.
               rbind (if enforce_owner_busy then assert_owner_available ts lid tid o' else Inr ()) (\<lambda>_.
               rbind (if strict \<and> desired = Some IN_PROGRESS
                      then validate_single_in_progress ts lid tid else Inr ()) (\<lambda>_.
               let t' = task_post_init (t\<lparr>owner := Some o', status := desired, updated_at := now\<rparr>)
               in Inr (ts[i := t'], t', True)))))))))"

definition release_task ::
  "time \<Rightarrow> task_entry list \<Rightarrow> string \<Rightarrow> string \<Rightarrow>
   task_list_error + (task_entry list \<times> task_entry \<times> bool)" where
  "release_task now ts lid tid =
     rbind (find_task_index ts lid tid) (\<lambda>i.
     let t = ts ! i in
     rbind (assert_task_mutable lid t) (\<lambda>_.
     let desired = (if status t = Some COMPLETED then status t else Some PENDING)
     in if owner t = None \<and> status t = desired then Inr (ts, t, False)
        else let t' = task_post_init (t\<lparr>owner := None, status := desired, updated_at := now\<rparr>)
             in Inr (ts[i := t'], t', True)))"

definition saved_if_changed ::
  "string \<Rightarrow> task_entry list \<times> task_entry \<times> bool \<Rightarrow> snapshot option \<times> task_entry" where
  "saved_if_changed lid r =
     (case r of (ts', t', changed) \<Rightarrow>
        (if changed then Some (mk_snapshot lid ts' (updated_at t')) else None, t'))"

definition claim_mutation ::
  "time \<Rightarrow> string \<Rightarrow> string option \<Rightarrow> bool \<Rightarrow> bool \<Rightarrow> bool \<Rightarrow> task_entry mutation" where
  "claim_mutation now tid own set_in_progress enforce_owner_busy strict snap =
     (let ts = tasks snap; lid = list_id snap in
      rbind (find_task_index ts lid tid) (\<lambda>i.
      rbind (assert_task_mutable lid (ts ! i)) (\<lambda>_.
      rbind (claim_task now ts lid tid own set_in_progress enforce_owner_busy strict) (\<lambda>r.
      Inr (saved_if_changed lid r)))))"

definition release_mutation :: "time \<Rightarrow> string \<Rightarrow> task_entry mutation" where
  "release_mutation now tid snap =
     (let ts = tasks snap; lid = list_id snap in
      rbind (find_task_index ts lid tid) (\<lambda>i.
      rbind (assert_task_mutable lid (ts ! i)) (\<lambda>_.
      rbind (release_task now ts lid tid) (\<lambda>r.
      Inr (saved_if_changed lid r)))))"

definition next_available :: "snapshot \<Rightarrow> string option" where
  "next_available snap =
     map_option (\<lambda>e. task_id (orch_task e))
       (List.find (\<lambda>e. readiness_state e = RS_AVAILABLE)
          (orch_tasks (derive_orchestration_snapshot snap False)))"

definition assign_next_mutation ::
  "time \<Rightarrow> string option \<Rightarrow> bool \<Rightarrow> bool \<Rightarrow> bool \<Rightarrow> task_entry option mutation" where
  "assign_next_mutation now own set_in_progress enforce_owner_busy strict snap =
     (case coerce_optional_string own of
        None \<Rightarrow> Inl (TaskListInvalidRequestError ''task_assign_next requires a non-empty owner'')
      | Some o' \<Rightarrow>
          (case next_available snap of
             None \<Rightarrow> Inr (None, None)
           | Some tid \<Rightarrow>
               rbind (claim_task now (tasks snap) (list_id snap) tid (Some o') set_in_progress
                        enforce_owner_busy strict) (\<lambda>r.
               Inr (map_prod id Some (saved_if_changed (list_id snap) r)))))"

definition dependency_mutation ::
  "time \<Rightarrow> string \<Rightarrow> string \<Rightarrow> bool \<Rightarrow> (task_entry \<times> task_entry) mutation" where
  "dependency_mutation now blocker blocked remove snap =
     (let lid = list_id snap in
      rbind (mutate_dependency_graph (tasks snap) lid blocker blocked remove now) (\<lambda>(ts', changed).
      case (List.find (\<lambda>t. task_id t = blocker) ts', List.find (\<lambda>t. task_id t = blocked) ts') of
        (Some b, Some c) \<Rightarrow>
          Inr (if changed then Some (mk_snapshot lid ts' now) else None, (b, c))
      | _ \<Rightarrow> Inl (TaskListNotFoundError lid blocker)))"

end
