(* ===== verification/Task_Lists_Inv.thy ===== *)
theory Task_Lists_Inv
  imports Task_Lists_Service
begin

text \<open>
  The invariant of a stored task list and its preservation by every mutation: unique ids, creation
  order, well-formed entries, a mutual (\<open>blocks\<close> against \<open>blocked_by\<close>) and acyclic dependency graph.
\<close>

definition wf_task :: "task_entry \<Rightarrow> bool" where
  "wf_task t \<longleftrightarrow>
     status t \<noteq> None \<and> subject t \<noteq> [] \<and> strip (subject t) = subject t \<and>
     coerce_optional_string (owner t) = owner t \<and>
     (is_archived t \<longrightarrow> status t = Some COMPLETED \<and> archived_at t \<noteq> None) \<and>
     (\<not> is_archived t \<longrightarrow> archived_at t = None \<and> archived_by t = None)"

definition edge_set :: "task_entry list \<Rightarrow> (string \<times> string) set" where
  "edge_set ts = set (normalized_edges ts)"

definition wf_links :: "task_entry list \<Rightarrow> bool" where
  "wf_links ts \<longleftrightarrow>
     (\<forall>t \<in> set ts. set (blocks t) = {c. (task_id t, c) \<in> edge_set ts} \<and>
        set (blocked_by t) = {b. (b, task_id t) \<in> edge_set ts} \<and>
        distinct (blocks t) \<and> distinct (blocked_by t))"

definition wf_tasks :: "task_entry list \<Rightarrow> bool" where
  "wf_tasks ts \<longleftrightarrow>
     distinct (map task_id ts) \<and> (\<forall>t \<in> set ts. wf_task t) \<and> wf_links ts \<and> acyclic (edge_set ts)"

definition wf_snapshot :: "snapshot \<Rightarrow> bool" where
  "wf_snapshot snap \<longleftrightarrow> sorted (map task_key (tasks snap)) \<and> wf_tasks (tasks snap)"

subsection \<open>The graph depends on the ids and links only\<close>

definition dep :: "task_entry \<Rightarrow> string \<times> string list \<times> string list" where
  "dep t = (task_id t, blocks t, blocked_by t)"

definition dep_edges :: "(string \<times> string list \<times> string list) set \<Rightarrow> (string \<times> string) set" where
  "dep_edges D =
     {(b, c). b \<noteq> c \<and> b \<in> fst ` D \<and> c \<in> fst ` D \<and>
        ((\<exists>d \<in> D. fst d = b \<and> c \<in> set (fst (snd d))) \<or> (\<exists>d \<in> D. fst d = c \<and> b \<in> set (snd (snd d))))}"

lemma edge_set_dep: "edge_set ts = dep_edges (dep ` set ts)"
  by (simp add: edge_set_def set_normalized_edges dep_edges_def dep_def image_image)

lemma edge_set_cong: "dep ` set ts = dep ` set ts' \<Longrightarrow> edge_set ts = edge_set ts'"
  by (simp add: edge_set_dep)

lemma wf_links_dep:
  "wf_links ts \<longleftrightarrow>
     (\<forall>d \<in> dep ` set ts. set (fst (snd d)) = {c. (fst d, c) \<in> dep_edges (dep ` set ts)} \<and>
        set (snd (snd d)) = {b. (b, fst d) \<in> dep_edges (dep ` set ts)} \<and>
        distinct (fst (snd d)) \<and> distinct (snd (snd d)))"
  by (simp add: wf_links_def edge_set_dep dep_def)

lemma wf_links_cong: "dep ` set ts = dep ` set ts' \<Longrightarrow> wf_links ts \<longleftrightarrow> wf_links ts'"
  unfolding wf_links_dep by simp

lemma dep_update: "i < length ts \<Longrightarrow> dep t' = dep (ts ! i) \<Longrightarrow> dep ` set (ts[i := t']) = dep ` set ts"
  by (metis map_update_same set_map)

lemma edge_set_ids: "(b, c) \<in> edge_set ts \<Longrightarrow> b \<noteq> c \<and> b \<in> task_id ` set ts \<and> c \<in> task_id ` set ts"
  by (auto simp: edge_set_def set_normalized_edges)

lemma map_task_id_update:
  "i < length ts \<Longrightarrow> task_id t' = task_id (ts ! i) \<Longrightarrow> map task_id (ts[i := t']) = map task_id ts"
  by (rule map_update_same) auto

lemma wf_tasks_update:
  assumes "wf_tasks ts" and "i < length ts" and "wf_task t'" and "dep t' = dep (ts ! i)"
  shows "wf_tasks (ts[i := t'])"
proof -
  have D: "dep ` set (ts[i := t']) = dep ` set ts" using assms(2,4) by (rule dep_update)
  have "map task_id (ts[i := t']) = map task_id ts"
    using assms(2,4) by (intro map_task_id_update) (auto simp: dep_def)
  moreover have "\<forall>t \<in> set (ts[i := t']). wf_task t"
    using assms(1,3) set_update_subset_insert [of ts i t'] by (auto simp: wf_tasks_def)
  ultimately show ?thesis
    using assms(1) edge_set_cong [OF D] wf_links_cong [OF D] by (simp add: wf_tasks_def)
qed

lemma wf_mk_snapshot: "wf_tasks ts \<Longrightarrow> wf_snapshot (mk_snapshot lid ts now)"
  using edge_set_cong [of "tasks (mk_snapshot lid ts now)" ts]
    wf_links_cong [of "tasks (mk_snapshot lid ts now)" ts]
  by (simp add: wf_snapshot_def wf_tasks_def) (simp add: mk_snapshot_def)

lemma wf_snapshot_empty: "wf_snapshot (mk_snapshot lid [] now)"
  by (rule wf_mk_snapshot)
    (simp add: wf_tasks_def wf_links_def edge_set_def normalized_edges_def acyclic_def)

subsection \<open>Rebuilding the entries from a graph\<close>

lemma wf_task_relink: "wf_task t \<Longrightarrow> wf_task (fst (relink_task ts g now t))"
  by (auto simp: wf_task_def relink_task_def Let_def task_post_init_def)

lemma relink_task_simps [simp]:
  "task_id (fst (relink_task ts g now t)) = task_id t"
  "blocks (fst (relink_task ts g now t)) = sort_key (order_key ts) (succs g (task_id t))"
  "blocked_by (fst (relink_task ts g now t)) = sort_key (order_key ts) (preds g (task_id t))"
  by (auto simp: relink_task_def Let_def)

lemma map_task_id_from_graph [simp]: "map task_id (fst (tasks_from_graph ts g now)) = map task_id ts"
  by (simp add: tasks_from_graph_def)

lemma edge_set_from_graph:
  assumes "\<And>b c. (b, c) \<in> set g \<Longrightarrow> b \<noteq> c \<and> b \<in> task_id ` set ts \<and> c \<in> task_id ` set ts"
  shows "edge_set (fst (tasks_from_graph ts g now)) = set g"
  unfolding edge_set_def set_normalized_edges tasks_from_graph_def
  using assms by (auto simp: set_succs set_preds image_image)

lemma wf_tasks_from_graph:
  assumes "distinct (map task_id ts)" and "\<forall>t \<in> set ts. wf_task t" and "distinct g"
    and ends: "\<And>b c. (b, c) \<in> set g \<Longrightarrow> b \<noteq> c \<and> b \<in> task_id ` set ts \<and> c \<in> task_id ` set ts"
    and "acyclic (set g)"
  shows "wf_tasks (fst (tasks_from_graph ts g now))"
proof -
  let ?ts' = "fst (tasks_from_graph ts g now)"
  have E: "edge_set ?ts' = set g" using ends by (rule edge_set_from_graph)
  have "\<forall>t \<in> set ?ts'. wf_task t" using assms(2) by (auto simp: tasks_from_graph_def wf_task_relink)
  moreover have "wf_links ?ts'" unfolding wf_links_def E
    using assms(3) by (auto simp: tasks_from_graph_def set_succs set_preds distinct_succs distinct_preds)
  ultimately show ?thesis using assms(1,5) E by (simp add: wf_tasks_def)
qed

definition wf_graph :: "task_entry list \<Rightarrow> edges \<Rightarrow> bool" where
  "wf_graph ts g \<longleftrightarrow> distinct g \<and> acyclic (set g) \<and>
     (\<forall>b c. (b, c) \<in> set g \<longrightarrow> b \<noteq> c \<and> b \<in> task_id ` set ts \<and> c \<in> task_id ` set ts)"

lemma wf_graph_normalized: "acyclic (edge_set ts) \<Longrightarrow> wf_graph ts (normalized_edges ts)"
  using edge_set_ids [of _ _ ts] distinct_normalized_edges [of ts]
  by (auto simp: wf_graph_def edge_set_def)

lemma wf_graph_insert:
  assumes "wf_graph ts g" and "b \<noteq> c" and "b \<in> task_id ` set ts" and "c \<in> task_id ` set ts"
    and "\<not> path_exists g c b"
  shows "wf_graph ts (List.insert (b, c) g)"
  using assms by (auto simp: wf_graph_def acyclic_insert path_exists_iff)

lemma wf_graph_remove:
  assumes "wf_graph ts g"
  shows "wf_graph ts (filter P g)"
proof -
  have "acyclic (set (filter P g))"
    using assms by (auto simp: wf_graph_def intro: acyclic_subset)
  with assms show ?thesis by (auto simp: wf_graph_def)
qed

lemma wf_tasks_rebuild:
  assumes "distinct (map task_id ts)" and "\<forall>t \<in> set ts. wf_task t" and "wf_graph ts g"
  shows "wf_tasks (fst (tasks_from_graph ts g now))"
  using assms by (intro wf_tasks_from_graph) (auto simp: wf_graph_def)

lemma wf_graph_override_edge:
  assumes "override_edge ts lid other b c g = Inr g'" and "wf_graph ts g"
    and "b \<in> task_id ` set ts \<or> b = other" and "c \<in> task_id ` set ts \<or> c = other"
  shows "wf_graph ts g'"
proof -
  obtain u where "task_map ts other = Some u" using assms(1)
    by (auto simp: override_edge_def split: option.splits)
  then have "other \<in> task_id ` set ts" by (auto dest: task_map_SomeD)
  with assms show ?thesis
    by (auto simp: override_edge_def result_simps split: option.splits if_splits
        intro!: wf_graph_insert)
qed

lemma wf_graph_override_blocks:
  "override_blocks ts lid tid cs g = Inr g' \<Longrightarrow> wf_graph ts g \<Longrightarrow> tid \<in> task_id ` set ts \<Longrightarrow>
     wf_graph ts g'"
  by (induction cs arbitrary: g) (auto simp: result_simps dest!: wf_graph_override_edge)

lemma wf_graph_override_blocked_by:
  "override_blocked_by ts lid tid bs g = Inr g' \<Longrightarrow> wf_graph ts g \<Longrightarrow> tid \<in> task_id ` set ts \<Longrightarrow>
     wf_graph ts g'"
  by (induction bs arbitrary: g) (auto simp: result_simps dest!: wf_graph_override_edge)

lemma wf_apply_dependency_overrides:
  assumes "apply_dependency_overrides ts lid tid bs bbs now = Inr (ts', ch)" and "wf_tasks ts"
  shows "wf_tasks ts' \<and> map task_id ts' = map task_id ts"
proof -
  obtain i g1 g2 where i: "find_task_index ts lid tid = Inr i"
    and g1: "override_blocks ts lid tid (coerce_string_sequence bs) (normalized_edges ts) = Inr g1"
    and g2: "override_blocked_by ts lid tid (coerce_string_sequence bbs) g1 = Inr g2"
    and ts': "(ts', ch) = tasks_from_graph ts g2 now"
    using assms(1) by (auto simp: apply_dependency_overrides_def result_simps)
  have tid: "tid \<in> task_id ` set ts" using find_task_index_Inr [OF i] by force
  have "wf_graph ts g2"
    using assms(2) wf_graph_override_blocked_by [OF g2 wf_graph_override_blocks [OF g1 _ tid] tid]
    by (simp add: wf_tasks_def wf_graph_normalized)
  then have "wf_tasks (fst (tasks_from_graph ts g2 now))"
    using assms(2) by (intro wf_tasks_rebuild) (auto simp: wf_tasks_def)
  then show ?thesis using ts' map_task_id_from_graph [of ts g2 now] by (metis fst_conv)
qed

lemma mutate_dependency_graph_Inr:
  assumes "mutate_dependency_graph ts lid b c rm now = Inr r"
  shows "b \<in> task_id ` set ts \<and> c \<in> task_id ` set ts \<and>
    (\<exists>g. r = tasks_from_graph ts g now \<and>
      (rm \<and> g = filter (\<lambda>e. e \<noteq> (b, c)) (normalized_edges ts) \<or>
       \<not> rm \<and> b \<noteq> c \<and> (b, c) \<in> set (normalized_edges ts) \<and> g = normalized_edges ts \<or>
       \<not> rm \<and> b \<noteq> c \<and> \<not> path_exists (normalized_edges ts) c b \<and>
         g = List.insert (b, c) (normalized_edges ts)))"
proof -
  obtain i j where i: "find_task_index ts lid b = Inr i" and j: "find_task_index ts lid c = Inr j"
    using assms by (auto simp: mutate_dependency_graph_def result_simps)
  have "b \<in> task_id ` set ts" "c \<in> task_id ` set ts"
    using find_task_index_Inr [OF i] find_task_index_Inr [OF j] by force+
  moreover from assms i j have "(if \<not> rm \<and> b = c then Inl (TaskListDependencyCycleError lid b c)
     else
       let g = normalized_edges ts in
       if rm then Inr (tasks_from_graph ts (filter (\<lambda>e. e \<noteq> (b, c)) g) now)
       else if (b, c) \<in> set g then Inr (tasks_from_graph ts g now)
       else if path_exists g c b then Inl (TaskListDependencyCycleError lid b c)
       else Inr (tasks_from_graph ts (List.insert (b, c) g) now)) = Inr r"
    by (auto simp: mutate_dependency_graph_def result_simps)
  ultimately show ?thesis by (cases rm) (force simp: Let_def split: if_splits)+
qed

lemma wf_mutate_dependency_graph:
  assumes "mutate_dependency_graph ts lid b c rm now = Inr (ts', ch)" and "wf_tasks ts"
  shows "wf_tasks ts' \<and> map task_id ts' = map task_id ts"
proof -
  have N: "wf_graph ts (normalized_edges ts)"
    using assms(2) by (intro wf_graph_normalized) (simp add: wf_tasks_def)
  from mutate_dependency_graph_Inr [OF assms(1)] obtain g
    where "(ts', ch) = tasks_from_graph ts g now" "wf_graph ts g"
    using N wf_graph_insert [OF N, of b c] wf_graph_remove [OF N] by metis
  moreover from this have "wf_tasks (fst (tasks_from_graph ts g now))"
    using assms(2) by (intro wf_tasks_rebuild) (auto simp: wf_tasks_def)
  ultimately show ?thesis using map_task_id_from_graph [of ts g now] by (metis fst_conv)
qed

subsection \<open>Preservation by each mutation\<close>

lemma edge_set_append_unlinked:
  assumes "wf_links ts" and "task_id t \<notin> task_id ` set ts" and "blocks t = []" and "blocked_by t = []"
  shows "edge_set (ts @ [t]) = edge_set ts"
proof -
  have ids: "set (blocks u) \<union> set (blocked_by u) \<subseteq> task_id ` set ts - {task_id u}" if "u \<in> set ts" for u
    using assms(1) that by (auto simp: wf_links_def dest: edge_set_ids)
  have "(b, c) \<in> edge_set ts" if "(b, c) \<in> edge_set (ts @ [t])" for b c
  proof -
    from that assms(3,4) obtain u where "u \<in> set ts" and "b \<noteq> c"
      and "task_id u = b \<and> c \<in> set (blocks u) \<or> task_id u = c \<and> b \<in> set (blocked_by u)"
      by (auto simp: edge_set_def set_normalized_edges)
    with ids [of u] show ?thesis by (auto simp: edge_set_def set_normalized_edges)
  qed
  moreover have "(b, c) \<in> edge_set (ts @ [t])" if "(b, c) \<in> edge_set ts" for b c
    using that by (auto simp: edge_set_def set_normalized_edges)
  ultimately show ?thesis by auto
qed

lemma wf_tasks_append:
  assumes "wf_tasks ts" and "task_id t \<notin> task_id ` set ts" and "wf_task t"
    and "blocks t = []" and "blocked_by t = []"
  shows "wf_tasks (ts @ [t])"
proof -
  have E: "edge_set (ts @ [t]) = edge_set ts"
    using assms by (intro edge_set_append_unlinked) (auto simp: wf_tasks_def)
  have "{c. (task_id t, c) \<in> edge_set ts} = {}" "{b. (b, task_id t) \<in> edge_set ts} = {}"
    using assms(2) by (auto dest: edge_set_ids)
  then show ?thesis using assms unfolding wf_tasks_def wf_links_def E by auto
qed

lemma wf_create_mutation:
  assumes "create_mutation now nid subj desc form own bs bbs md snap = Inr (Some snap', t)"
    and "wf_snapshot snap" and "nid \<notin> task_id ` set (tasks snap)" and "strip subj \<noteq> []"
  shows "wf_snapshot snap'"
proof -
  define t0 where "t0 = task_post_init
            \<lparr>task_id = nid, subject = strip subj, description = coerce_optional_string desc,
             active_form = coerce_optional_string form, status = Some PENDING,
             owner = coerce_optional_string own, blocks = [], blocked_by = [], metadata = md,
             is_archived = False, archived_at = None, archived_by = None,
             created_at = now, updated_at = now\<rparr>"
  have "wf_task t0" using assms(4) by (simp add: t0_def wf_task_def task_post_init_def)
  then have T: "wf_tasks (tasks snap @ [t0])"
    using assms(2,3) by (intro wf_tasks_append) (simp_all add: wf_snapshot_def t0_def)
  show ?thesis
  proof (cases "bs \<noteq> [] \<or> bbs \<noteq> []")
    case True
    have "rbind (apply_dependency_overrides (tasks snap @ [t0]) (list_id snap) nid bs bbs now)
            (\<lambda>(ts', _).
              case List.find (\<lambda>u. task_id u = nid) ts' of
                None \<Rightarrow> Inl (TaskListNotFoundError (list_id snap) nid)
              | Some t' \<Rightarrow> Inr (Some (mk_snapshot (list_id snap) ts' now), t')) = Inr (Some snap', t)"
      using assms(1) True unfolding create_mutation_def Let_def t0_def [symmetric] by simp
    then obtain ts' ch where
      "apply_dependency_overrides (tasks snap @ [t0]) (list_id snap) nid bs bbs now = Inr (ts', ch)"
      and "snap' = mk_snapshot (list_id snap) ts' now"
      by (auto simp: result_simps split: option.splits)
    then show ?thesis using wf_apply_dependency_overrides [OF _ T] by (auto intro: wf_mk_snapshot)
  next
    case False
    with assms(1) have "snap' = mk_snapshot (list_id snap) (tasks snap @ [t0]) now"
      by (auto simp: create_mutation_def Let_def t0_def)
    then show ?thesis using wf_mk_snapshot [OF T] by simp
  qed
qed

lemma coerce_task_status_None: "coerce_task_status v = Inr None \<longleftrightarrow> v = PNone"
  by (cases v) (auto simp: Let_def)

lemma wf_task_at: "wf_tasks ts \<Longrightarrow> i < length ts \<Longrightarrow> wf_task (ts ! i)"
  by (simp add: wf_tasks_def)

text \<open>A patch may set the status only to a real one.\<close>

definition patch_status_ok :: "(string, pyval) dict \<Rightarrow> bool" where
  "patch_status_ok patch \<longleftrightarrow> (''status'' \<in> fst ` set patch \<longrightarrow> py_get patch ''status'' \<noteq> PNone)"

lemma apply_patch_frame:
  assumes "apply_patch now t patch = Inr t'"
  shows "dep t' = dep t \<and> owner t' = owner t \<and> is_archived t' = is_archived t \<and>
    created_at t' = created_at t \<and> updated_at t' = now"
  using assms by (auto simp: apply_patch_def Let_def result_simps dep_def)

lemma apply_patch_status:
  assumes "apply_patch now t patch = Inr t'"
  shows "if ''status'' \<in> fst ` set patch
    then coerce_task_status (py_get patch ''status'') = Inr (status t') else status t' = status t"
  using assms by (auto simp: apply_patch_def Let_def result_simps split: if_splits)

lemma apply_patch_subject:
  assumes "apply_patch now t patch = Inr t'"
  shows "subject t' = subject t \<or> coerce_optional_value (py_get patch ''subject'') = Some (subject t')"
  using assms by (auto simp: apply_patch_def Let_def result_simps split: if_splits option.splits)

lemma apply_patch_unarchived:
  assumes "apply_patch now t patch = Inr t'" and "\<not> is_archived t"
  shows "archived_at t' = None \<and> archived_by t' = None"
  using assms by (auto simp: apply_patch_def Let_def result_simps task_post_init_def)

lemma wf_apply_patch:
  assumes "apply_patch now t patch = Inr t'" and "wf_task t" and "\<not> is_archived t"
    and "patch_status_ok patch"
  shows "wf_task t'"
proof -
  have "status t' \<noteq> None"
    using apply_patch_status [OF assms(1)] assms(2,4) coerce_task_status_None
      [of "py_get patch ''status''"]
    by (metis patch_status_ok_def wf_task_def)
  moreover have "subject t' \<noteq> [] \<and> strip (subject t') = subject t'"
    using apply_patch_subject [OF assms(1)] assms(2) coerce_optional_value_nonempty
    by (auto simp: wf_task_def)
  ultimately show ?thesis
    using apply_patch_frame [OF assms(1)] apply_patch_unarchived [OF assms(1,3)] assms(2,3)
    by (simp add: wf_task_def)
qed

lemma wf_update_mutation:
  assumes "update_mutation now tid patch strict snap = Inr (Some snap', t)"
    and "wf_snapshot snap" and "patch_status_ok patch"
  shows "wf_snapshot snap'"
proof -
  obtain i where "find_task_index (tasks snap) (list_id snap) tid = Inr i"
    and m: "\<not> is_archived (tasks snap ! i)" and p: "apply_patch now (tasks snap ! i) patch = Inr t"
    and s: "snap' = mk_snapshot (list_id snap) ((tasks snap)[i := t]) (updated_at t)"
    using assms(1) by (auto simp: update_mutation_def Let_def result_simps assert_task_mutable_def)
  then have i: "i < length (tasks snap)" by (auto dest: find_task_index_Inr)
  have T: "wf_tasks (tasks snap)" using assms(2) by (simp add: wf_snapshot_def)
  have "wf_tasks ((tasks snap)[i := t])"
    using wf_apply_patch [OF p wf_task_at [OF T i] m assms(3)] apply_patch_frame [OF p]
    by (intro wf_tasks_update T i) auto
  then show ?thesis using s by (auto intro: wf_mk_snapshot)
qed

lemma wf_archive_mutation:
  assumes "archive_mutation now tid by snap = Inr (Some snap', t)" and "wf_snapshot snap"
  shows "wf_snapshot snap'"
proof -
  obtain i where "find_task_index (tasks snap) (list_id snap) tid = Inr i"
    and c: "status (tasks snap ! i) = Some COMPLETED"
    and t: "t = task_post_init ((tasks snap ! i)\<lparr>is_archived := True, archived_at := Some now,
                 archived_by := coerce_optional_string by, updated_at := now\<rparr>)"
    and s: "snap' = mk_snapshot (list_id snap) ((tasks snap)[i := t]) now"
    using assms(1) by (auto simp: archive_mutation_def Let_def result_simps)
  then have i: "i < length (tasks snap)" by (auto dest: find_task_index_Inr)
  have T: "wf_tasks (tasks snap)" using assms(2) by (simp add: wf_snapshot_def)
  have "wf_tasks ((tasks snap)[i := t])" using wf_task_at [OF T i] c
    by (intro wf_tasks_update T i) (auto simp: t wf_task_def dep_def task_post_init_def)
  then show ?thesis using s by (auto intro: wf_mk_snapshot)
qed

lemma wf_unarchive_mutation:
  assumes "unarchive_mutation now tid snap = Inr (Some snap', t)" and "wf_snapshot snap"
  shows "wf_snapshot snap'"
proof -
  obtain i where "find_task_index (tasks snap) (list_id snap) tid = Inr i"
    and t: "t = task_post_init ((tasks snap ! i)\<lparr>is_archived := False, archived_at := None,
                 archived_by := None, updated_at := now\<rparr>)"
    and s: "snap' = mk_snapshot (list_id snap) ((tasks snap)[i := t]) now"
    using assms(1) by (auto simp: unarchive_mutation_def Let_def result_simps)
  then have i: "i < length (tasks snap)" by (auto dest: find_task_index_Inr)
  have T: "wf_tasks (tasks snap)" using assms(2) by (simp add: wf_snapshot_def)
  have "wf_tasks ((tasks snap)[i := t])" using wf_task_at [OF T i]
    by (intro wf_tasks_update T i) (auto simp: t wf_task_def dep_def task_post_init_def)
  then show ?thesis using s by (auto intro: wf_mk_snapshot)
qed

lemma edge_set_filter_subset: "edge_set (filter P ts) \<subseteq> edge_set ts"
  unfolding edge_set_def set_normalized_edges by auto

lemma wf_delete_mutation:
  assumes "delete_mutation now tid snap = Inr (Some snap', t)" and "wf_snapshot snap"
  shows "wf_snapshot snap'"
proof -
  let ?r = "filter (\<lambda>t. task_id t \<noteq> tid) (tasks snap)"
  have T: "wf_tasks (tasks snap)" using assms(2) by (simp add: wf_snapshot_def)
  have "acyclic (edge_set ?r)"
    using T edge_set_filter_subset by (auto simp: wf_tasks_def intro: acyclic_subset)
  then have "wf_tasks (fst (tasks_from_graph ?r (normalized_edges ?r) now))"
    using T by (intro wf_tasks_rebuild wf_graph_normalized) (auto simp: wf_tasks_def distinct_map_filter)
  then show ?thesis
    using assms(1) by (auto simp: delete_mutation_def Let_def result_simps intro: wf_mk_snapshot)
qed

definition claimed_entry :: "time \<Rightarrow> string \<Rightarrow> bool \<Rightarrow> task_entry \<Rightarrow> task_entry" where
  "claimed_entry now o' sip t =
     task_post_init (t\<lparr>owner := Some o', status := (if sip then Some IN_PROGRESS else status t),
                       updated_at := now\<rparr>)"

lemma claimed_entry_same_owner:
  "owner t = Some o' \<Longrightarrow>
     claimed_entry now o' sip t =
       task_post_init (t\<lparr>status := (if sip then Some IN_PROGRESS else status t), updated_at := now\<rparr>)"
  by (simp add: claimed_entry_def task_post_init_def)

text \<open>Everything a successful claim has checked.\<close>

lemma claim_task_Inr:
  assumes "claim_task now ts lid tid own sip eob strict = Inr (ts', t', ch)"
  obtains i o' where "coerce_optional_string own = Some o'" and "find_task_index ts lid tid = Inr i"
    and "\<not> is_archived (ts ! i)" and "status (ts ! i) \<noteq> Some COMPLETED"
    and "\<not> ch \<and> ts' = ts \<and> t' = ts ! i \<and> owner (ts ! i) = Some o' \<and>
           (sip \<longrightarrow> status (ts ! i) = Some IN_PROGRESS)
         \<or> ch \<and> unresolved_blockers_of ts tid = [] \<and> t' = claimed_entry now o' sip (ts ! i) \<and>
           ts' = ts[i := t'] \<and> (owner (ts ! i) = None \<or> owner (ts ! i) = Some o') \<and>
           (eob \<and> owner (ts ! i) = None \<longrightarrow> assert_owner_available ts lid tid o' = Inr ()) \<and>
           (strict \<and> status t' = Some IN_PROGRESS \<longrightarrow> validate_single_in_progress ts lid tid = Inr ())"
proof -
  obtain o' where o': "coerce_optional_string own = Some o'"
    using assms by (auto simp: claim_task_def split: option.splits)
  obtain i where i: "find_task_index ts lid tid = Inr i"
    using assms o' by (auto simp: claim_task_def result_simps Let_def)
  have m: "\<not> is_archived (ts ! i)" and c: "status (ts ! i) \<noteq> Some COMPLETED"
    using assms o' i by (auto simp: claim_task_def result_simps Let_def assert_task_mutable_def)
  show ?thesis
  proof (rule that [OF o' i m c], cases "owner (ts ! i) = Some o'")
    case True
    then show "\<not> ch \<and> ts' = ts \<and> t' = ts ! i \<and> owner (ts ! i) = Some o' \<and>
           (sip \<longrightarrow> status (ts ! i) = Some IN_PROGRESS)
         \<or> ch \<and> unresolved_blockers_of ts tid = [] \<and> t' = claimed_entry now o' sip (ts ! i) \<and>
           ts' = ts[i := t'] \<and> (owner (ts ! i) = None \<or> owner (ts ! i) = Some o') \<and>
           (eob \<and> owner (ts ! i) = None \<longrightarrow> assert_owner_available ts lid tid o' = Inr ()) \<and>
           (strict \<and> status t' = Some IN_PROGRESS \<longrightarrow> validate_single_in_progress ts lid tid = Inr ())"
      using assms o' i m c
      by (auto simp: claim_task_def result_simps Let_def assert_task_mutable_def
          claimed_entry_same_owner split: if_splits)
  next
    case False
    then show "\<not> ch \<and> ts' = ts \<and> t' = ts ! i \<and> owner (ts ! i) = Some o' \<and>
           (sip \<longrightarrow> status (ts ! i) = Some IN_PROGRESS)
         \<or> ch \<and> unresolved_blockers_of ts tid = [] \<and> t' = claimed_entry now o' sip (ts ! i) \<and>
           ts' = ts[i := t'] \<and> (owner (ts ! i) = None \<or> owner (ts ! i) = Some o') \<and>
           (eob \<and> owner (ts ! i) = None \<longrightarrow> assert_owner_available ts lid tid o' = Inr ()) \<and>
           (strict \<and> status t' = Some IN_PROGRESS \<longrightarrow> validate_single_in_progress ts lid tid = Inr ())"
      using assms o' i m c
      by (auto simp: claim_task_def result_simps Let_def assert_task_mutable_def
          claimed_entry_def split: if_splits)
  qed
qed

lemma wf_claim_task:
  assumes "claim_task now ts lid tid own sip eob strict = Inr (ts', t', ch)" and T: "wf_tasks ts"
  shows "wf_tasks ts'"
  using assms(1)
proof (rule claim_task_Inr)
  fix i o'
  assume o': "coerce_optional_string own = Some o'" and "find_task_index ts lid tid = Inr i"
    and m: "\<not> is_archived (ts ! i)"
    and d: "\<not> ch \<and> ts' = ts \<and> t' = ts ! i \<and> owner (ts ! i) = Some o' \<and>
           (sip \<longrightarrow> status (ts ! i) = Some IN_PROGRESS)
         \<or> ch \<and> unresolved_blockers_of ts tid = [] \<and> t' = claimed_entry now o' sip (ts ! i) \<and>
           ts' = ts[i := t'] \<and> (owner (ts ! i) = None \<or> owner (ts ! i) = Some o') \<and>
           (eob \<and> owner (ts ! i) = None \<longrightarrow> assert_owner_available ts lid tid o' = Inr ()) \<and>
           (strict \<and> status t' = Some IN_PROGRESS \<longrightarrow> validate_single_in_progress ts lid tid = Inr ())"
  then have i: "i < length ts" by (auto dest: find_task_index_Inr)
  have "coerce_optional_string (Some o') = Some o'" using coerce_optional_string_nonempty [OF o'] by simp
  then have "wf_task (claimed_entry now o' sip (ts ! i))"
    using wf_task_at [OF T i] m by (simp add: wf_task_def claimed_entry_def task_post_init_def)
  then have "wf_tasks (ts[i := claimed_entry now o' sip (ts ! i)])"
    by (intro wf_tasks_update T i) (auto simp: claimed_entry_def dep_def)
  with d T show "wf_tasks ts'" by auto
qed

definition released_status :: "task_entry \<Rightarrow> task_status option" where
  "released_status t = (if status t = Some COMPLETED then status t else Some PENDING)"

definition released_entry :: "time \<Rightarrow> task_entry \<Rightarrow> task_entry" where
  "released_entry now t =
     task_post_init (t\<lparr>owner := None, status := released_status t, updated_at := now\<rparr>)"

lemma release_task_Inr:
  assumes "release_task now ts lid tid = Inr (ts', t', ch)"
  obtains i where "find_task_index ts lid tid = Inr i" and "\<not> is_archived (ts ! i)"
    and "owner t' = None" and "status t' = (if status (ts ! i) = Some COMPLETED then Some COMPLETED else Some PENDING)"
    and "ts' = ts[i := t']" and "ch \<or> ts' = ts" and "dep t' = dep (ts ! i)" and "\<not> is_archived t'"
    and "wf_task (ts ! i) \<longrightarrow> wf_task t'"
proof -
  obtain i where i: "find_task_index ts lid tid = Inr i" and m: "\<not> is_archived (ts ! i)"
    using assms by (auto simp: release_task_def result_simps Let_def assert_task_mutable_def)
  have "rbind (assert_task_mutable lid (ts ! i)) (\<lambda>_.
      if owner (ts ! i) = None \<and> status (ts ! i) = released_status (ts ! i)
      then Inr (ts, ts ! i, False)
      else Inr (ts[i := released_entry now (ts ! i)], released_entry now (ts ! i), True))
    = Inr (ts', t', ch)"
    using assms unfolding release_task_def i rbind_simps Let_def released_entry_def released_status_def .
  then have r: "(if owner (ts ! i) = None \<and> status (ts ! i) = released_status (ts ! i)
      then (ts, ts ! i, False) else (ts[i := released_entry now (ts ! i)], released_entry now (ts ! i), True))
    = (ts', t', ch)"
    using m by (simp add: assert_task_mutable_def if_distrib [where f = Inr, symmetric] cong: if_cong)
  show ?thesis
  proof (cases "owner (ts ! i) = None \<and> status (ts ! i) = released_status (ts ! i)")
    case True
    with r have e: "ts' = ts" "t' = ts ! i" by auto
    show ?thesis
    proof (rule that [OF i m])
      show "status t' = (if status (ts ! i) = Some COMPLETED then Some COMPLETED else Some PENDING)"
        using True e(2)
        by (cases "status (ts ! i) = Some COMPLETED") (simp_all add: released_status_def)
    qed (use True e m in simp_all)
  next
    case False
    with r have e: "ts' = ts[i := t']" "t' = released_entry now (ts ! i)" "ch"
      by (simp_all only: if_False prod.inject) auto
    show ?thesis
    proof (rule that [OF i m])
      show "wf_task (ts ! i) \<longrightarrow> wf_task t'"
        using m by (auto simp: e(2) released_status_def released_entry_def wf_task_def task_post_init_def)
    qed (use e(1,3) m in \<open>simp_all add: e(2) released_status_def released_entry_def dep_def\<close>)
  qed
qed

lemma wf_release_task:
  assumes "release_task now ts lid tid = Inr (ts', t', ch)" and T: "wf_tasks ts"
  shows "wf_tasks ts'"
  using assms(1)
proof (rule release_task_Inr)
  fix i
  assume "find_task_index ts lid tid = Inr i" and "ts' = ts[i := t']" and "dep t' = dep (ts ! i)"
    and "wf_task (ts ! i) \<longrightarrow> wf_task t'"
  then show "wf_tasks ts'"
    using T by (auto dest!: find_task_index_Inr simp: wf_task_at intro!: wf_tasks_update)
qed

lemma wf_claim_mutation:
  assumes "claim_mutation now tid own sip eob strict snap = Inr (Some snap', t)" and "wf_snapshot snap"
  shows "wf_snapshot snap'"
  using assms
  by (auto simp: claim_mutation_def Let_def result_simps saved_if_changed_def wf_snapshot_def [of snap]
      split: prod.splits if_splits intro: wf_mk_snapshot wf_claim_task)

lemma wf_release_mutation:
  assumes "release_mutation now tid snap = Inr (Some snap', t)" and "wf_snapshot snap"
  shows "wf_snapshot snap'"
  using assms
  by (auto simp: release_mutation_def Let_def result_simps saved_if_changed_def wf_snapshot_def [of snap]
      split: prod.splits if_splits intro: wf_mk_snapshot wf_release_task)

lemma wf_assign_next_mutation:
  assumes "assign_next_mutation now own sip eob strict snap = Inr (Some snap', t)"
    and "wf_snapshot snap"
  shows "wf_snapshot snap'"
proof -
  obtain ts' t' ch tid o' where
    "claim_task now (tasks snap) (list_id snap) tid (Some o') sip eob strict = Inr (ts', t', ch)"
    and "snap' = mk_snapshot (list_id snap) ts' (updated_at t')"
    using assms(1)
    by (auto simp: assign_next_mutation_def result_simps saved_if_changed_def
        split: option.splits prod.splits if_splits)
  then show ?thesis
    using assms(2) by (auto simp: wf_snapshot_def [of snap] intro: wf_mk_snapshot wf_claim_task)
qed

lemma wf_dependency_mutation:
  assumes "dependency_mutation now b c rm snap = Inr (Some snap', r)" and "wf_snapshot snap"
  shows "wf_snapshot snap'"
  using assms
  by (auto simp: dependency_mutation_def Let_def result_simps wf_snapshot_def [of snap]
      split: prod.splits if_splits option.splits
      intro!: wf_mk_snapshot dest: wf_mutate_dependency_graph)

lemmas wf_mutations =
  wf_create_mutation wf_update_mutation wf_archive_mutation wf_unarchive_mutation wf_delete_mutation
  wf_claim_mutation wf_release_mutation wf_assign_next_mutation wf_dependency_mutation

end
