(* ===== verification/Task_Lists_Api.thy ===== *)
theory Task_Lists_Api
  imports Task_Lists_Inv
begin

text \<open>
  The task-list service over its store: the \<open>TaskListStore\<close> protocol as a locale, the in-memory store
  that provides it, the watcher registry, the public operations of \<open>DefaultTaskListService\<close> and the
  states a sequence of operations reaches.
\<close>

subsection \<open>The store protocol\<close>

definition get_snapshot ::
  "(string \<Rightarrow> 's \<Rightarrow> snapshot option) \<Rightarrow> time \<Rightarrow> string \<Rightarrow> 's \<Rightarrow> snapshot" where
  "get_snapshot ld now lid s = (case ld lid s of None \<Rightarrow> mk_snapshot lid [] now | Some snap \<Rightarrow> snap)"

text \<open>The body every mutating method has inside \<open>async with self._lock_for(list_id)\<close>.\<close>

definition locked_mutation ::
  "(string \<Rightarrow> 's \<Rightarrow> snapshot option) \<Rightarrow> (snapshot \<Rightarrow> 's \<Rightarrow> 's) \<Rightarrow> time \<Rightarrow> string \<Rightarrow> 'r mutation \<Rightarrow> 's \<Rightarrow>
   task_list_error + 's \<times> snapshot option \<times> 'r" where
  "locked_mutation ld sv now lid f s =
     rbind (f (get_snapshot ld now lid s)) (\<lambda>(saved, r).
     Inr (case saved of None \<Rightarrow> s | Some snap \<Rightarrow> sv snap s, saved, r))"

locale task_list_store =
  fixes ld :: "string \<Rightarrow> 's \<Rightarrow> snapshot option"
    and sv :: "snapshot \<Rightarrow> 's \<Rightarrow> 's"
  assumes load_save: "ld lid (sv snap s) = (if lid = list_id snap then Some snap else ld lid s)"
begin

text \<open>A mutation of one list leaves every other list as it was.\<close>

lemma mutation_frame:
  assumes "locked_mutation ld sv now lid f s = Inr (s', saved, r)"
    and "\<And>snap snap' r. f snap = Inr (Some snap', r) \<Longrightarrow> list_id snap' = list_id snap"
    and "list_id (get_snapshot ld now lid s) = lid" and "lid' \<noteq> lid"
  shows "ld lid' s' = ld lid' s"
  using assms
  by (force simp: locked_mutation_def result_simps load_save split: option.splits prod.splits)

text \<open>What a mutation saves is what the next load returns.\<close>

lemma mutation_read_back:
  assumes "locked_mutation ld sv now lid f s = Inr (s', Some snap, r)"
  shows "ld (list_id snap) s' = Some snap"
  using assms by (auto simp: locked_mutation_def result_simps load_save split: prod.splits)

text \<open>A snapshot property that the empty list has and the mutation keeps is kept by the store.\<close>

lemma mutation_invariant:
  assumes run: "locked_mutation ld sv now lid f s = Inr (s', saved, r)"
    and inv: "\<forall>lid snap. ld lid s = Some snap \<longrightarrow> list_id snap = lid \<and> P snap"
    and empty: "\<And>lid now. P (mk_snapshot lid [] now)"
    and keep: "\<And>snap snap' r. f snap = Inr (Some snap', r) \<Longrightarrow> P snap \<Longrightarrow> list_id snap = lid \<Longrightarrow>
      snap = get_snapshot ld now lid s \<Longrightarrow> P snap' \<and> list_id snap' = lid"
  shows "\<forall>lid snap. ld lid s' = Some snap \<longrightarrow> list_id snap = lid \<and> P snap"
proof -
  let ?snap = "get_snapshot ld now lid s"
  have P: "P ?snap \<and> list_id ?snap = lid"
    using inv empty by (auto simp: get_snapshot_def split: option.splits)
  from run obtain fr: "f ?snap = Inr (saved, r)"
    and s': "s' = (case saved of None \<Rightarrow> s | Some snap \<Rightarrow> sv snap s)"
    by (auto simp: locked_mutation_def result_simps split: prod.splits)
  show ?thesis
  proof (cases saved)
    case None
    with s' inv show ?thesis by simp
  next
    case (Some snap')
    with fr P keep [of ?snap snap' r] have "P snap' \<and> list_id snap' = lid" by simp
    with Some s' inv show ?thesis by (simp add: load_save)
  qed
qed

end

subsection \<open>The in-memory store\<close>

type_synonym mem_store = "(string, snapshot) dict"

definition mem_load :: "string \<Rightarrow> mem_store \<Rightarrow> snapshot option" where
  "mem_load lid st = map_of st lid"

definition mem_save :: "snapshot \<Rightarrow> mem_store \<Rightarrow> mem_store" where
  "mem_save snap st = AList.update (list_id snap) snap st"

definition mem_list_snapshots :: "mem_store \<Rightarrow> snapshot list" where
  "mem_list_snapshots st = map snd (sort_key fst st)"

interpretation mem: task_list_store mem_load mem_save
  by unfold_locales (simp add: mem_load_def mem_save_def dict_simps)

subsection \<open>Watchers\<close>

text \<open>A callback is the function that says whether it returns (\<open>True\<close>) or raises on a snapshot.\<close>

type_synonym watcher = "snapshot \<Rightarrow> bool"

record service =
  store :: mem_store
  watchers :: "(string, (string, watcher) dict) dict"

definition watchers_for :: "service \<Rightarrow> string \<Rightarrow> (string, watcher) dict" where
  "watchers_for s lid = (case map_of (watchers s) lid of None \<Rightarrow> [] | Some ws \<Rightarrow> ws)"

definition remove_watcher :: "string \<Rightarrow> string \<Rightarrow> service \<Rightarrow> service" where
  "remove_watcher lid wid s =
     (case map_of (watchers s) lid of
        None \<Rightarrow> s
      | Some ws \<Rightarrow>
          let ws' = AList.delete wid ws
          in s\<lparr>watchers := (if ws' = [] then AList.delete lid (watchers s)
                           else AList.update lid ws' (watchers s))\<rparr>)"

definition notify_watchers :: "snapshot \<Rightarrow> service \<Rightarrow> service" where
  "notify_watchers snap s =
     fold (\<lambda>(wid, cb) s. if cb snap then s else remove_watcher (list_id snap) wid s)
       (watchers_for s (list_id snap)) s"

definition watch :: "time \<Rightarrow> string \<Rightarrow> string \<Rightarrow> watcher \<Rightarrow> service \<Rightarrow> service \<times> bool" where
  "watch now lid wid cb s =
     (let s1 = s\<lparr>watchers := AList.update lid (AList.update wid cb (watchers_for s lid)) (watchers s)\<rparr>
      in if cb (get_snapshot mem_load now lid (store s1)) then (s1, True)
         else (remove_watcher lid wid s1, False))"

definition service_mutation ::
  "time \<Rightarrow> string \<Rightarrow> 'r mutation \<Rightarrow> service \<Rightarrow> task_list_error + service \<times> 'r" where
  "service_mutation now lid f s =
     rbind (locked_mutation mem_load mem_save now lid f (store s)) (\<lambda>(st', saved, r).
     let s' = s\<lparr>store := st'\<rparr>
     in Inr (case saved of None \<Rightarrow> s' | Some snap \<Rightarrow> notify_watchers snap s', r))"

subsection \<open>The public operations\<close>

datatype task_op =
    Create string "string option" "string option" "string option" "string list" "string list"
      "(string, pyval) dict"
  | Update string "(string, pyval) dict" bool
  | Archive string "string option"
  | Unarchive string
  | Delete string
  | Claim string "string option" bool bool bool
  | Release string
  | Assign_Next "string option" bool bool bool
  | Add_Dependency string string
  | Remove_Dependency string string

text \<open>An operation as a mutation of the loaded snapshot, its result a list of entries.  The checks
  \<open>create\<close> and \<open>update\<close> make before they take the lock come first.\<close>

fun op_mutation :: "time \<Rightarrow> string \<Rightarrow> task_op \<Rightarrow> task_entry list mutation" where
  "op_mutation now nid (Create subj desc form own bs bbs md) snap =
     rbind (ensure (strip subj \<noteq> [])
              (TaskListInvalidRequestError ''task_create requires a non-empty subject'')) (\<lambda>_.
     rbind (create_mutation now nid subj desc form own bs bbs md snap) (\<lambda>(s, t). Inr (s, [t])))"
| "op_mutation now nid (Update tid patch strict) snap =
     rbind (ensure (patch \<noteq> [])
              (TaskListInvalidRequestError
                 ''task_update requires at least one supported mutable field'')) (\<lambda>_.
     rbind (update_mutation now tid patch strict snap) (\<lambda>(s, t). Inr (s, [t])))"
| "op_mutation now nid (Archive tid by) snap =
     rbind (archive_mutation now tid by snap) (\<lambda>(s, t). Inr (s, [t]))"
| "op_mutation now nid (Unarchive tid) snap =
     rbind (unarchive_mutation now tid snap) (\<lambda>(s, t). Inr (s, [t]))"
| "op_mutation now nid (Delete tid) snap =
     rbind (delete_mutation now tid snap) (\<lambda>(s, t). Inr (s, [t]))"
| "op_mutation now nid (Claim tid own sip eob strict) snap =
     rbind (claim_mutation now tid own sip eob strict snap) (\<lambda>(s, t). Inr (s, [t]))"
| "op_mutation now nid (Release tid) snap =
     rbind (release_mutation now tid snap) (\<lambda>(s, t). Inr (s, [t]))"
| "op_mutation now nid (Assign_Next own sip eob strict) snap =
     rbind (assign_next_mutation now own sip eob strict snap)
       (\<lambda>(s, t). Inr (s, case t of None \<Rightarrow> [] | Some t \<Rightarrow> [t]))"
| "op_mutation now nid (Add_Dependency b c) snap =
     rbind (dependency_mutation now b c False snap) (\<lambda>(s, t, u). Inr (s, [t, u]))"
| "op_mutation now nid (Remove_Dependency b c) snap =
     rbind (dependency_mutation now b c True snap) (\<lambda>(s, t, u). Inr (s, [t, u]))"

definition run_op ::
  "time \<Rightarrow> string \<Rightarrow> string \<Rightarrow> task_op \<Rightarrow> service \<Rightarrow> task_list_error + service \<times> task_entry list" where
  "run_op now nid lid op s = service_mutation now lid (op_mutation now nid op) s"

definition get_task :: "service \<Rightarrow> string \<Rightarrow> string \<Rightarrow> task_entry option" where
  "get_task s lid tid =
     List.find (\<lambda>t. task_id t = tid) (tasks (get_snapshot mem_load 0 lid (store s)))"

definition list_tasks :: "service \<Rightarrow> string \<Rightarrow> bool \<Rightarrow> task_entry list" where
  "list_tasks s lid include_archived =
     (let ts = tasks (get_snapshot mem_load 0 lid (store s))
      in map (project_task_entry (archived_task_ids ts) include_archived)
           (visible_tasks include_archived ts))"

definition get_orchestration_snapshot :: "time \<Rightarrow> service \<Rightarrow> string \<Rightarrow> bool \<Rightarrow> orch_snapshot" where
  "get_orchestration_snapshot now s lid include_archived =
     derive_orchestration_snapshot (get_snapshot mem_load now lid (store s)) include_archived"

definition get_orchestration_task ::
  "time \<Rightarrow> service \<Rightarrow> string \<Rightarrow> string \<Rightarrow> bool \<Rightarrow> orch_entry option" where
  "get_orchestration_task now s lid tid include_archived =
     List.find (\<lambda>e. task_id (orch_task e) = tid)
       (orch_tasks (get_orchestration_snapshot now s lid include_archived))"

subsection \<open>List ids\<close>

text \<open>\<open>resolve_task_list_id\<close> on the extensions of the private context.\<close>

definition resolve_task_list_id :: "string \<Rightarrow> (string, pyval) dict \<Rightarrow> string" where
  "resolve_task_list_id session_id ext =
     (case coerce_optional_value (py_get ext ''task_list_id'') of
        Some e \<Rightarrow> e
      | None \<Rightarrow>
     (case coerce_optional_value
             (py_or (py_get ext ''orchestration_id'') (py_get ext ''orchestration_scope_id'')) of
        Some e \<Rightarrow> ''orchestration:'' @ e
      | None \<Rightarrow>
     (case coerce_optional_value (py_get ext ''team_id'') of
        Some e \<Rightarrow> ''team:'' @ e
      | None \<Rightarrow>
     (case coerce_optional_value (py_get ext ''resolved_task_list_id'') of
        Some e \<Rightarrow> e
      | None \<Rightarrow> ''session:'' @ session_id))))"

subsection \<open>Reachable services\<close>

text \<open>The ids \<open>uuid4\<close> returns are new, and no patch carries a null status.\<close>

fun op_ok :: "string \<Rightarrow> task_op \<Rightarrow> snapshot \<Rightarrow> bool" where
  "op_ok nid (Create subj desc form own bs bbs md) snap = (nid \<notin> task_id ` set (tasks snap))"
| "op_ok nid (Update tid patch strict) snap = patch_status_ok patch"
| "op_ok nid op snap = True"

inductive reachable :: "service \<Rightarrow> bool" where
  init: "reachable \<lparr>store = [], watchers = []\<rparr>"
| op: "reachable s \<Longrightarrow> op_ok nid op (get_snapshot mem_load now lid (store s)) \<Longrightarrow>
     run_op now nid lid op s = Inr (s', r) \<Longrightarrow> reachable s'"
| watch: "reachable s \<Longrightarrow> watch now lid wid cb s = (s', ok) \<Longrightarrow> reachable s'"
| unsubscribe: "reachable s \<Longrightarrow> reachable (remove_watcher lid wid s)"

lemma store_remove_watcher [simp]: "store (remove_watcher lid wid s) = store s"
  by (simp add: remove_watcher_def Let_def split: option.splits)

lemma store_notify_watchers [simp]: "store (notify_watchers snap s) = store s"
proof -
  have "store (fold (\<lambda>(wid, cb) s. if cb snap then s else remove_watcher (list_id snap) wid s) ws s)
      = store s" for ws s
    by (induction ws arbitrary: s) (auto split: prod.splits)
  then show ?thesis by (simp add: notify_watchers_def)
qed

lemma store_watch: "watch now lid wid cb s = (s', ok) \<Longrightarrow> store s' = store s"
  by (auto simp: watch_def Let_def split: if_splits)

lemma run_op_store:
  assumes "run_op now nid lid op s = Inr (s', r)"
  obtains saved where
    "locked_mutation mem_load mem_save now lid (op_mutation now nid op) (store s) = Inr (store s', saved, r)"
  using assms
  by (fastforce simp: run_op_def service_mutation_def result_simps Let_def split: option.splits prod.splits)

lemma op_mutation_wf:
  assumes "op_mutation now nid op snap = Inr (Some snap', r)" and "wf_snapshot snap"
    and "op_ok nid op snap"
  shows "wf_snapshot snap'"
  using assms
  by (cases op) (auto simp: result_simps split: prod.splits intro: wf_mutations)

lemma op_mutation_list_id:
  assumes "op_mutation now nid op snap = Inr (Some snap', r)"
  shows "list_id snap' = list_id snap"
  using assms
  by (cases op)
    (auto simp: result_simps create_mutation_def update_mutation_def archive_mutation_def
      unarchive_mutation_def delete_mutation_def claim_mutation_def release_mutation_def
      assign_next_mutation_def dependency_mutation_def saved_if_changed_def Let_def
      split: prod.splits if_splits option.splits)

end
