(* ===== verification/Task_Lists_Props.thy ===== *)
theory Task_Lists_Props
  imports Task_Lists_Api
begin

text \<open>
  The properties of the task-list component, with their witnesses on a small list of three tasks.
\<close>

subsection \<open>Shared facts\<close>

lemma sort_key_eqI:
  assumes "distinct xs" and "distinct ys" and "set xs = set ys" and "inj_on f (set xs)"
  shows "sort_key f xs = sort_key f ys"
proof (rule sort_key_inj_key_eq)
  show "mset xs = mset (sort_key f ys)"
    using assms(1-3) by (simp add: set_eq_iff_mset_eq_distinct)
qed (use assms(4) in simp_all)

text \<open>The blockers the view shows are the blockers a claim checks.\<close>

lemma view_blockers_eq:
  assumes "wf_snapshot snap" and "t \<in> set (tasks snap)" and "inc \<or> \<not> is_archived t"
  shows "unresolved_blockers (derive_entry snap inc t) = unresolved_blockers_of (tasks snap) (task_id t)"
proof -
  let ?ts = "tasks snap" and ?p = "project_task_entry (archived_task_ids (tasks snap)) inc t"
  let ?V = "\<lambda>b. case task_map ?ts b of None \<Rightarrow> False | Some u \<Rightarrow> \<not> is_archived u \<and> status u \<noteq> Some COMPLETED"
  let ?C = "\<lambda>b. case task_map ?ts b of Some u \<Rightarrow> status u \<noteq> Some COMPLETED | None \<Rightarrow> False"
  have T: "wf_tasks ?ts" using assms(1) by (simp add: wf_snapshot_def)
  have VC: "?V = ?C"
    using T by (auto simp: fun_eq_iff wf_tasks_def wf_task_def split: option.splits dest!: task_map_SomeD)
  have "\<not> ?C b" if "b \<in> set (archived_task_ids ?ts)" for b
  proof -
    from that obtain u where "u \<in> set ?ts" "task_id u = b" "is_archived u"
      by (auto simp: archived_task_ids_def)
    moreover from this T have "task_map ?ts b = Some u" by (auto simp: wf_tasks_def task_map_distinct)
    ultimately show ?thesis using T by (auto simp: wf_tasks_def wf_task_def)
  qed
  then have F: "filter (\<lambda>b. b \<notin> set (archived_task_ids ?ts) \<and> ?C b) (blocked_by t) = filter ?C (blocked_by t)"
    by (intro filter_cong) auto
  have "distinct (blocked_by t)"
    and "set (blocked_by t) = set (preds (normalized_edges ?ts) (task_id t))"
    using T assms(2) by (auto simp: wf_tasks_def wf_links_def edge_set_def set_preds)
  then have "sort_key (order_key ?ts) (filter ?C (blocked_by t))
      = sort_key (order_key ?ts) (filter ?C (preds (normalized_edges ?ts) (task_id t)))"
    by (intro sort_key_eqI order_key_inj) (simp_all add: distinct_preds distinct_normalized_edges)
  then show ?thesis
    by (simp add: derive_entry_def unresolved_blockers_of_def Let_def VC filter_sort F)
qed

lemma derive_entry_simps [simp]:
  "task_id (orch_task (derive_entry snap inc t)) = task_id t"
  "status (orch_task (derive_entry snap inc t)) = status t"
  "owner (orch_task (derive_entry snap inc t)) = owner t"
  "is_archived (orch_task (derive_entry snap inc t)) = is_archived t"
  "created_at (orch_task (derive_entry snap inc t)) = created_at t"
  "readiness_state (derive_entry snap inc t) = readiness_of t (unresolved_blockers (derive_entry snap inc t))"
  by (simp_all add: derive_entry_def Let_def readiness_of_def)

lemma readiness_available_iff:
  assumes "wf_snapshot snap" and "t \<in> set (tasks snap)" and "\<not> is_archived t"
  shows "readiness_state (derive_entry snap False t) = RS_AVAILABLE \<longleftrightarrow>
    status t = Some PENDING \<and> owner t = None \<and> unresolved_blockers_of (tasks snap) (task_id t) = []"
proof -
  have "wf_task t" using assms(1,2) by (simp add: wf_snapshot_def wf_tasks_def)
  then obtain st where "status t = Some st" by (auto simp: wf_task_def)
  then show ?thesis
    using view_blockers_eq [OF assms(1,2), of False] assms(3)
    by (cases st) (auto simp: readiness_of_def)
qed

lemma sort_key_sorted: "sorted (map f xs) \<Longrightarrow> sort_key f xs = xs"
  by (simp add: sort_key_id_if_sorted)

lemma find_map: "List.find P (map f xs) = map_option f (List.find (\<lambda>x. P (f x)) xs)"
  by (induction xs) auto

lemma find_filter: "List.find P (filter Q xs) = List.find (\<lambda>x. Q x \<and> P x) xs"
  by (induction xs) auto

lemma orch_tasks_sorted:
  assumes "wf_snapshot snap"
  shows "orch_tasks (derive_orchestration_snapshot snap inc) =
    map (derive_entry snap inc) (visible_tasks inc (tasks snap))"
proof -
  have "sorted (map task_key (filter P (tasks snap)))" for P
    using assms by (simp add: wf_snapshot_def sorted_filter)
  then have "sorted (map task_key (visible_tasks inc (tasks snap)))"
    using assms by (simp add: visible_tasks_def wf_snapshot_def)
  moreover have "task_key (orch_task (derive_entry snap inc t)) = task_key t" for t
    by (simp add: task_key_def)
  ultimately have "sort_key (\<lambda>e. task_key (orch_task e)) (map (derive_entry snap inc) (visible_tasks inc (tasks snap)))
      = map (derive_entry snap inc) (visible_tasks inc (tasks snap))"
    by (intro sort_key_sorted) (simp add: comp_def)
  then show ?thesis by (simp only: derive_orchestration_snapshot_def Let_def orch_snapshot.select_convs)
qed

definition is_available :: "snapshot \<Rightarrow> task_entry \<Rightarrow> bool" where
  "is_available snap t \<longleftrightarrow>
     \<not> is_archived t \<and> status t = Some PENDING \<and> owner t = None \<and>
     unresolved_blockers_of (tasks snap) (task_id t) = []"

lemma next_available_eq:
  assumes "wf_snapshot snap"
  shows "next_available snap = map_option task_id (List.find (is_available snap) (tasks snap))"
proof -
  have "List.find (\<lambda>t. \<not> is_archived t \<and> readiness_state (derive_entry snap False t) = RS_AVAILABLE) (tasks snap)
      = List.find (is_available snap) (tasks snap)"
    using readiness_available_iff [OF assms]
    by (intro find_cong) (auto simp: is_available_def)
  then show ?thesis
    by (simp add: next_available_def orch_tasks_sorted [OF assms] find_map find_filter visible_tasks_def
        option.map_comp comp_def)
qed

lemma find_task_index_at:
  assumes "distinct (map task_id ts)" and "t \<in> set ts"
  obtains i where "find_task_index ts lid (task_id t) = Inr i" and "i < length ts" and "ts ! i = t"
proof -
  obtain i where i: "find_task_index ts lid (task_id t) = Inr i"
    using find_task_index_ex [of "task_id t" ts lid] assms(2) by auto
  with find_task_index_Inr [OF i] have "i < length ts" "task_id (ts ! i) = task_id t" by auto
  moreover from this assms have "ts ! i = t" by (intro distinct_map_in_eq [of task_id ts]) auto
  ultimately show ?thesis using that i by blast
qed

subsection \<open>A list to try the properties on\<close>

text \<open>Three tasks, the first blocking the second, in the states the operations leave.\<close>

definition demo_task :: "string \<Rightarrow> time \<Rightarrow> task_entry" where
  "demo_task i n = \<lparr>task_id = i, subject = ''write'', description = None, active_form = None,
     status = Some PENDING, owner = None, blocks = [], blocked_by = [], metadata = [],
     is_archived = False, archived_at = None, archived_by = None, created_at = n, updated_at = n\<rparr>"

definition demo_a :: task_entry where
  "demo_a = demo_task ''a'' 1\<lparr>blocks := [''b'']\<rparr>"

definition demo_b :: task_entry where
  "demo_b = demo_task ''b'' 2\<lparr>blocked_by := [''a'']\<rparr>"

definition demo_snap :: snapshot where
  "demo_snap = \<lparr>list_id = ''L'', tasks = [demo_a, demo_b, demo_task ''c'' 3], snapshot_updated_at = 4\<rparr>"

lemma demo_simps [simp]:
  "demo_a \<in> set (tasks demo_snap)" "demo_b \<in> set (tasks demo_snap)" "list_id demo_snap = ''L''"
  "task_id demo_a = ''a''" "task_id demo_b = ''b''" "\<not> is_archived demo_a" "\<not> is_archived demo_b"
  by (simp_all add: demo_snap_def demo_a_def demo_b_def demo_task_def)

definition demo_service :: service where
  "demo_service = \<lparr>store = [(''L'', mk_snapshot ''L'' [demo_task ''a'' 1] 1)], watchers = []\<rparr>"

lemma demo_edges: "edge_set (tasks demo_snap) = {(''a'', ''b'')}"
  by code_simp

lemma demo_wf: "wf_snapshot demo_snap"
proof -
  have "wf_links (tasks demo_snap)"
    by (auto simp: wf_links_def demo_edges) (auto simp: demo_snap_def demo_task_def demo_a_def demo_b_def)
  moreover have "\<forall>t \<in> set (tasks demo_snap). wf_task t" by code_simp
  moreover have "distinct (map task_id (tasks demo_snap)) \<and> sorted (map task_key (tasks demo_snap))"
    by code_simp
  moreover have "acyclic (edge_set (tasks demo_snap))"
    by (simp add: demo_edges acyclic_def trancl_insert)
  ultimately show ?thesis by (simp add: wf_snapshot_def wf_tasks_def)
qed

lemma demo_reachable: "reachable demo_service"
proof (rule reachable.op [OF reachable.init])
  show "run_op 1 ''a'' ''L'' (Create '' write '' None None None [] [] []) \<lparr>store = [], watchers = []\<rparr>
      = Inr (demo_service, [demo_task ''a'' 1])"
  proof -
    have "op_mutation 1 ''a'' (Create '' write '' None None None [] [] []) (mk_snapshot ''L'' [] 1)
        = Inr (Some (mk_snapshot ''L'' [demo_task ''a'' 1] 1), [demo_task ''a'' 1])"
      by code_simp
    then show ?thesis
      by (simp add: run_op_def service_mutation_def locked_mutation_def get_snapshot_def mem_load_def
          mem_save_def notify_watchers_def watchers_for_def demo_service_def del: op_mutation.simps)
  qed
qed (simp add: get_snapshot_def mem_load_def)

subsection \<open>Every reachable list is well formed\<close>

lemma reachable_store:
  "reachable s \<Longrightarrow> \<forall>lid snap. mem_load lid (store s) = Some snap \<longrightarrow> list_id snap = lid \<and> wf_snapshot snap"
proof (induction rule: reachable.induct)
  case init
  show ?case by (simp add: mem_load_def)
next
  case (op s nid opn now lid s' r)
  from op.hyps(3) obtain saved where
    "locked_mutation mem_load mem_save now lid (op_mutation now nid opn) (store s) = Inr (store s', saved, r)"
    by (rule run_op_store)
  then show ?case
    by (rule mem.mutation_invariant [where P = wf_snapshot, OF _ op.IH wf_snapshot_empty])
      (use op.hyps(2) in \<open>auto dest: op_mutation_wf op_mutation_list_id\<close>)
next
  case (watch s now lid wid cb s' ok)
  then show ?case by (auto dest: store_watch)
next
  case (unsubscribe s lid wid)
  then show ?case by simp
qed

lemma reachable_get_snapshot:
  "reachable s \<Longrightarrow> list_id (get_snapshot mem_load now lid (store s)) = lid \<and>
     wf_snapshot (get_snapshot mem_load now lid (store s))"
  using reachable_store [of s] wf_snapshot_empty by (auto simp: get_snapshot_def split: option.splits)



text \<open>an operation on one list leaves every other list of the service as it was.\<close>

theorem run_op_frame:
  assumes "reachable s" and "run_op now nid lid opn s = Inr (s', r)" and "lid' \<noteq> lid"
  shows "mem_load lid' (store s') = mem_load lid' (store s)"
proof -
  from assms(2) obtain saved where
    "locked_mutation mem_load mem_save now lid (op_mutation now nid opn) (store s) = Inr (store s', saved, r)"
    by (rule run_op_store)
  with reachable_get_snapshot [OF assms(1), of now lid] assms(3) show ?thesis
    by (intro mem.mutation_frame) (auto dest: op_mutation_list_id)
qed

theorem run_op_frame_witness:
  "\<exists>s' r. run_op 9 ''z'' ''M'' (Create ''x'' None None None [] [] []) demo_service = Inr (s', r) \<and>
     mem_load ''L'' (store s') = Some (mk_snapshot ''L'' [demo_task ''a'' 1] 1)"
proof -
  have "isl (run_op 9 ''z'' ''M'' (Create ''x'' None None None [] [] []) demo_service) = False"
    by code_simp
  then obtain s' r where
    r: "run_op 9 ''z'' ''M'' (Create ''x'' None None None [] [] []) demo_service = Inr (s', r)"
    by (cases "run_op 9 ''z'' ''M'' (Create ''x'' None None None [] [] []) demo_service") auto
  then show ?thesis
    using run_op_frame [OF demo_reachable r, of "''L''"] by (simp add: demo_service_def mem_load_def)
qed

subsection \<open>The dependency graph\<close>

lemma edge_set_mk_snapshot [simp]: "edge_set (tasks (mk_snapshot lid ts now)) = edge_set ts"
  by (intro edge_set_cong) simp

lemma tasks_from_graph_unchanged:
  "\<not> snd (tasks_from_graph ts g now) \<Longrightarrow> fst (tasks_from_graph ts g now) = ts"
  by (auto simp: tasks_from_graph_def list_ex_iff relink_task_def Let_def split: if_splits intro!: map_idI)

lemma find_relinked:
  assumes "distinct (map task_id ts)" and "t \<in> set ts"
  shows "List.find (\<lambda>u. task_id u = task_id t) (fst (tasks_from_graph ts g now))
    = Some (fst (relink_task ts g now t))"
proof -
  have "(\<lambda>u. task_id u = task_id t) = (\<lambda>u. task_id u = task_id (fst (relink_task ts g now t)))" by simp
  then show ?thesis
    using assms find_unique [of task_id "fst (tasks_from_graph ts g now)" "fst (relink_task ts g now t)"]
    by (simp only: map_task_id_from_graph) (simp add: tasks_from_graph_def)
qed

text \<open>What a dependency operation makes of a graph that passed its checks.\<close>

lemma dependency_commit:
  assumes "distinct (map task_id (tasks snap))" and "tb \<in> set (tasks snap)" and "tc \<in> set (tasks snap)"
    and g: "wf_graph (tasks snap) g"
    and m: "mutate_dependency_graph (tasks snap) (list_id snap) (task_id tb) (task_id tc) rm now
      = Inr (tasks_from_graph (tasks snap) g now)"
  shows "\<exists>saved u v. dependency_mutation now (task_id tb) (task_id tc) rm snap = Inr (saved, u, v) \<and>
      (task_id tc \<in> set (blocks u) \<longleftrightarrow> (task_id tb, task_id tc) \<in> set g) \<and>
      (task_id tb \<in> set (blocked_by v) \<longleftrightarrow> (task_id tb, task_id tc) \<in> set g) \<and>
      edge_set (tasks (case saved of None \<Rightarrow> snap | Some s \<Rightarrow> s)) = set g"
proof -
  have E: "edge_set (fst (tasks_from_graph (tasks snap) g now)) = set g"
    using g by (intro edge_set_from_graph) (auto simp: wf_graph_def)
  then have U: "\<not> snd (tasks_from_graph (tasks snap) g now) \<Longrightarrow> edge_set (tasks snap) = set g"
    using tasks_from_graph_unchanged by metis
  show ?thesis
    using assms(1-3) E U
    by (auto simp: dependency_mutation_def m Let_def find_relinked set_succs set_preds split_beta)
qed

lemma acyclic_insert_path: "acyclic (set g) \<Longrightarrow> acyclic (insert (b, c) (set g)) \<longleftrightarrow> \<not> path_exists g c b"
  by (simp add: acyclic_insert path_exists_iff)



text \<open>removing a dependency between two live tasks never fails, and leaves exactly the other
  edges; neither returned entry names the other through that edge.\<close>

theorem remove_dependency:
  assumes wf: "wf_snapshot snap" and b: "tb \<in> set (tasks snap)" "\<not> is_archived tb"
    and c: "tc \<in> set (tasks snap)" "\<not> is_archived tc"
  shows "\<exists>saved u v.
      dependency_mutation now (task_id tb) (task_id tc) True snap = Inr (saved, u, v) \<and>
      task_id tc \<notin> set (blocks u) \<and> task_id tb \<notin> set (blocked_by v) \<and>
      edge_set (tasks (case saved of None \<Rightarrow> snap | Some s \<Rightarrow> s)) =
        edge_set (tasks snap) - {(task_id tb, task_id tc)}"
proof -
  let ?ts = "tasks snap" and ?b = "task_id tb" and ?c = "task_id tc"
  let ?g = "filter (\<lambda>e. e \<noteq> (?b, ?c)) (normalized_edges ?ts)"
  have T: "distinct (map task_id ?ts)" and G: "wf_graph ?ts ?g"
    using wf by (simp_all add: wf_snapshot_def wf_tasks_def wf_graph_normalized wf_graph_remove)
  obtain i j where "find_task_index ?ts (list_id snap) ?b = Inr i" "?ts ! i = tb"
      "find_task_index ?ts (list_id snap) ?c = Inr j" "?ts ! j = tc"
    using find_task_index_at [OF T b(1)] find_task_index_at [OF T c(1)] by metis
  with b(2) c(2)
  have "mutate_dependency_graph ?ts (list_id snap) ?b ?c True now = Inr (tasks_from_graph ?ts ?g now)"
    by (simp add: mutate_dependency_graph_def assert_task_mutable_def Let_def)
  moreover have "set ?g = edge_set ?ts - {(?b, ?c)}" by (auto simp: edge_set_def)
  ultimately show ?thesis using dependency_commit [OF T b(1) c(1) G, of True now] by simp
qed

theorem remove_dependency_witness:
  "\<exists>saved u v. dependency_mutation 9 ''a'' ''b'' True demo_snap = Inr (saved, u, v) \<and>
     edge_set (tasks (case saved of None \<Rightarrow> demo_snap | Some s \<Rightarrow> s)) = {}"
  using remove_dependency [OF demo_wf, of demo_a demo_b 9] by (simp add: demo_edges) blast

subsection \<open>Claiming and assigning\<close>

lemma rbind_assoc: "rbind (rbind m f) g = rbind m (\<lambda>x. rbind (f x) g)"
  by (cases m) simp_all

lemma claimed_entry_updated_at: "updated_at (claimed_entry now o' sip t) = now"
  by (simp add: claimed_entry_def)

text \<open>\<open>assign_next\<close> gives the owner the first task in creation order that is pending, unowned,
  not archived and has no unresolved blocker, or nothing when there is none.  The only errors it can
  raise then are the two opt-in checks: the owner is busy, or another task is in progress.\<close>

theorem assign_next_first_available:
  assumes wf: "wf_snapshot snap" and own: "coerce_optional_string own = Some o'"
  shows "assign_next_mutation now own sip eob strict snap =
    (case List.find (is_available snap) (tasks snap) of
       None \<Rightarrow> Inr (None, None)
     | Some t \<Rightarrow>
         rbind (if eob then assert_owner_available (tasks snap) (list_id snap) (task_id t) o' else Inr ()) (\<lambda>_.
         rbind (if strict \<and> sip then validate_single_in_progress (tasks snap) (list_id snap) (task_id t)
                else Inr ()) (\<lambda>_.
         Inr (Some (mk_snapshot (list_id snap)
                (map (\<lambda>u. if u = t then claimed_entry now o' sip t else u) (tasks snap)) now),
              Some (claimed_entry now o' sip t)))))"
proof (cases "List.find (is_available snap) (tasks snap)")
  case None
  then show ?thesis using wf own by (simp add: assign_next_mutation_def next_available_eq)
next
  case (Some t)
  then have t: "t \<in> set (tasks snap)" "is_available snap t"
    by (auto simp: find_Some_iff)
  have T: "distinct (map task_id (tasks snap))" using wf by (simp add: wf_snapshot_def wf_tasks_def)
  obtain i where i: "find_task_index (tasks snap) (list_id snap) (task_id t) = Inr i"
      "i < length (tasks snap)" "tasks snap ! i = t"
    using find_task_index_at [OF T t(1)] .
  have upd: "(tasks snap)[i := x] = map (\<lambda>u. if u = t then x else u) (tasks snap)" for x
    using i T by (intro nth_equalityI) (auto simp: nth_list_update nth_eq_iff_index_eq distinct_map)
  have "coerce_optional_string (Some o') = Some o'" using coerce_optional_string_nonempty [OF own] by simp
  then have "claim_task now (tasks snap) (list_id snap) (task_id t) (Some o') sip eob strict =
      rbind (if eob then assert_owner_available (tasks snap) (list_id snap) (task_id t) o' else Inr ()) (\<lambda>_.
      rbind (if strict \<and> sip then validate_single_in_progress (tasks snap) (list_id snap) (task_id t)
             else Inr ()) (\<lambda>_.
      Inr ((tasks snap)[i := claimed_entry now o' sip t], claimed_entry now o' sip t, True)))"
    using t(2) i by (cases sip; cases strict; cases eob)
      (simp_all add: claim_task_def Let_def is_available_def assert_task_mutable_def claimed_entry_def)
  then show ?thesis
    using Some own
    by (simp add: assign_next_mutation_def next_available_eq [OF wf] rbind_assoc saved_if_changed_def upd
        claimed_entry_updated_at)
qed

theorem assign_next_first_available_witness:
  "\<exists>saved. assign_next_mutation 9 (Some '' w '') True True True demo_snap =
     Inr (saved, Some (claimed_entry 9 ''w'' True demo_a))"
proof -
  have "List.find (is_available demo_snap) (tasks demo_snap) = Some demo_a" by code_simp
  moreover have "assert_owner_available (tasks demo_snap) ''L'' ''a'' ''w'' = Inr ()"
    "validate_single_in_progress (tasks demo_snap) ''L'' ''a'' = Inr ()" by code_simp+
  moreover have "coerce_optional_string (Some '' w '') = Some ''w''" by code_simp
  ultimately show ?thesis
    using assign_next_first_available [OF demo_wf, of "Some '' w ''" "''w''" 9 True True True] by simp
qed

text \<open>a claim that succeeds leaves the task owned by the claimant, live and uncompleted, in
  progress when asked; if it changed anything, the task had no unresolved blocker, nobody else owned
  it, and with the opt-in checks the owner had no other unfinished task and no other task was in
  progress.  The stored list holds the returned entry.\<close>

theorem claim_post:
  assumes wf: "wf_snapshot snap" and run: "claim_mutation now tid own sip eob strict snap = Inr (saved, t)"
  shows "task_id t = tid \<and> owner t = coerce_optional_string own \<and> owner t \<noteq> None \<and> \<not> is_archived t \<and>
    status t \<noteq> Some COMPLETED \<and> (sip \<longrightarrow> status t = Some IN_PROGRESS) \<and>
    t \<in> set (tasks (case saved of None \<Rightarrow> snap | Some s \<Rightarrow> s)) \<and>
    (saved \<noteq> None \<longrightarrow>
      unresolved_blockers_of (tasks snap) tid = [] \<and>
      (\<forall>u \<in> set (tasks snap).
         (task_id u = tid \<longrightarrow> owner u \<in> {None, owner t}) \<and>
         (task_id u = tid \<and> owner u = None \<and> eob \<longrightarrow>
            (\<forall>v \<in> set (tasks snap). task_id v \<noteq> tid \<and> owner v = owner t \<longrightarrow> status v = Some COMPLETED)) \<and>
         (strict \<and> status t = Some IN_PROGRESS \<and> task_id u \<noteq> tid \<longrightarrow> status u \<noteq> Some IN_PROGRESS)))"
proof -
  have T: "distinct (map task_id (tasks snap))" using wf by (simp add: wf_snapshot_def wf_tasks_def)
  from run obtain ts' ch where
    r: "claim_task now (tasks snap) (list_id snap) tid own sip eob strict = Inr (ts', t, ch)"
    and saved: "saved = (if ch then Some (mk_snapshot (list_id snap) ts' (updated_at t)) else None)"
    by (auto simp: claim_mutation_def Let_def result_simps saved_if_changed_def)
  from r obtain i o' where o': "coerce_optional_string own = Some o'"
    and i: "find_task_index (tasks snap) (list_id snap) tid = Inr i"
    and m: "\<not> is_archived (tasks snap ! i)" "status (tasks snap ! i) \<noteq> Some COMPLETED"
    and d: "\<not> ch \<and> ts' = tasks snap \<and> t = tasks snap ! i \<and> owner (tasks snap ! i) = Some o' \<and>
           (sip \<longrightarrow> status (tasks snap ! i) = Some IN_PROGRESS)
         \<or> ch \<and> unresolved_blockers_of (tasks snap) tid = [] \<and> t = claimed_entry now o' sip (tasks snap ! i) \<and>
           ts' = (tasks snap)[i := t] \<and> (owner (tasks snap ! i) = None \<or> owner (tasks snap ! i) = Some o') \<and>
           (eob \<and> owner (tasks snap ! i) = None \<longrightarrow>
              assert_owner_available (tasks snap) (list_id snap) tid o' = Inr ()) \<and>
           (strict \<and> status t = Some IN_PROGRESS \<longrightarrow>
              validate_single_in_progress (tasks snap) (list_id snap) tid = Inr ())"
    by (rule claim_task_Inr)
  have il: "i < length (tasks snap)" "task_id (tasks snap ! i) = tid"
    using find_task_index_Inr [OF i] by auto
  have U: "u = tasks snap ! i" if "u \<in> set (tasks snap)" "task_id u = tid" for u
    using distinct_map_in_eq [OF T that(1), of "tasks snap ! i"] il that(2) by simp
  show ?thesis
  proof (rule disjE [OF d]; elim conjE)
    assume "\<not> ch" "t = tasks snap ! i" "owner (tasks snap ! i) = Some o'"
      "sip \<longrightarrow> status (tasks snap ! i) = Some IN_PROGRESS"
    then show ?thesis using saved il m o' by simp
  next
    assume ch: "ch" and ub: "unresolved_blockers_of (tasks snap) tid = []"
      and t: "t = claimed_entry now o' sip (tasks snap ! i)" and ts': "ts' = (tasks snap)[i := t]"
      and ow: "owner (tasks snap ! i) = None \<or> owner (tasks snap ! i) = Some o'"
      and eo: "eob \<and> owner (tasks snap ! i) = None \<longrightarrow>
        assert_owner_available (tasks snap) (list_id snap) tid o' = Inr ()"
      and st: "strict \<and> status t = Some IN_PROGRESS \<longrightarrow>
        validate_single_in_progress (tasks snap) (list_id snap) tid = Inr ()"
    have own_t: "task_id t = tid" "owner t = Some o'" "\<not> is_archived t" "status t \<noteq> Some COMPLETED"
        "sip \<longrightarrow> status t = Some IN_PROGRESS"
      using t il m by (auto simp: claimed_entry_def)
    have "t \<in> set ts'" using ts' il(1) by (simp add: set_update_memI)
    moreover have "owner u \<in> {None, owner t}" if "u \<in> set (tasks snap)" "task_id u = tid" for u
      using U [OF that] ow own_t by auto
    moreover have "status v = Some COMPLETED"
      if "u \<in> set (tasks snap)" "task_id u = tid" "owner u = None" "eob" "v \<in> set (tasks snap)"
        "task_id v \<noteq> tid" "owner v = owner t" for u v
      using eo U [OF that(1,2)] that own_t
      by (auto simp: assert_owner_available_def find_None_iff split: option.splits)
    moreover have "status u \<noteq> Some IN_PROGRESS"
      if "strict" "status t = Some IN_PROGRESS" "u \<in> set (tasks snap)" "task_id u \<noteq> tid" for u
      using st that by (auto simp: validate_single_in_progress_def find_None_iff split: option.splits)
    ultimately show ?thesis using ch saved ub own_t o' by simp
  qed
qed

theorem claim_post_witness:
  "\<exists>saved t. claim_mutation 9 ''c'' (Some ''w'') True True True demo_snap = Inr (saved, t) \<and>
     owner t = Some ''w'' \<and> status t = Some IN_PROGRESS \<and>
     unresolved_blockers_of (tasks demo_snap) ''c'' = []"
proof -
  have "isl (claim_mutation 9 ''c'' (Some ''w'') True True True demo_snap) = False" by code_simp
  moreover have "coerce_optional_string (Some ''w'') = Some ''w''" by code_simp
  moreover have "unresolved_blockers_of (tasks demo_snap) ''c'' = []" by code_simp
  ultimately show ?thesis
    using claim_post [OF demo_wf, of 9 "''c''" "Some ''w''" True True True]
    by (cases "claim_mutation 9 ''c'' (Some ''w'') True True True demo_snap") auto
qed

end
