(* ===== verification/Task_Lists_Views.thy ===== *)
theory Task_Lists_Views
  imports Task_Lists_Props
begin

text \<open>
  The second part of the task-list properties: the orchestration view, the opt-in single-in-progress
  rule, archiving and deletion, the null-status patch, and the watchers.
\<close>

subsection \<open>The orchestration view\<close>

text \<open>the five id lists of the view partition the live tasks: together they hold the id of each
  task that is not archived exactly as often as the list does.\<close>

theorem view_partitions_live_tasks:
  "mset (available_task_ids v @ blocked_task_ids v @ claimed_task_ids v @ in_progress_task_ids v @
     completed_task_ids v) = mset (map task_id (filter (\<lambda>t. \<not> is_archived t) (tasks snap)))"
  if "v = derive_orchestration_snapshot snap inc"
proof -
  have split5: "mset (ids_in_state es RS_AVAILABLE) + mset (ids_in_state es RS_BLOCKED) +
      mset (ids_in_state es RS_CLAIMED) + mset (ids_in_state es RS_IN_PROGRESS) +
      mset (ids_in_state es RS_COMPLETED)
    = mset (map (\<lambda>e. task_id (orch_task e)) (filter (\<lambda>e. \<not> is_archived (orch_task e)) es))" for es
  proof (induction es)
    case (Cons e es)
    then show ?case
      by (cases "readiness_state e") (auto simp: ids_in_state_def)
  qed (simp add: ids_in_state_def)
  have "filter (\<lambda>t. \<not> is_archived t) (visible_tasks inc (tasks snap)) = filter (\<lambda>t. \<not> is_archived t) (tasks snap)"
    by (simp add: visible_tasks_def)
  then show ?thesis
    using split5 [of "map (derive_entry snap inc) (visible_tasks inc (tasks snap))"]
    by (simp add: that derive_orchestration_snapshot_def Let_def filter_map comp_def add.assoc)
qed

theorem view_partitions_live_tasks_witness:
  "mset (available_task_ids (derive_orchestration_snapshot demo_snap False) @ [''b'']) = {#''a'', ''b'', ''c''#}"
proof -
  have "blocked_task_ids (derive_orchestration_snapshot demo_snap False) = [''b'']"
    "claimed_task_ids (derive_orchestration_snapshot demo_snap False) = []"
    "in_progress_task_ids (derive_orchestration_snapshot demo_snap False) = []"
    "completed_task_ids (derive_orchestration_snapshot demo_snap False) = []"
    "map task_id (filter (\<lambda>t. \<not> is_archived t) (tasks demo_snap)) = [''a'', ''b'', ''c'']"
    by code_simp+
  then show ?thesis
    using view_partitions_live_tasks [of "derive_orchestration_snapshot demo_snap False" demo_snap False]
    by (simp add: add.commute)
qed

text \<open>Completing a task touches no id and no link.\<close>

lemma task_edges_dep:
  assumes "dep t = dep u"
  shows "task_edges ids t g = task_edges ids u g"
proof -
  have "task_id t = task_id u" "blocks t = blocks u" "blocked_by t = blocked_by u"
    using assms by (simp_all add: dep_def)
  then show ?thesis by (simp only: task_edges_def)
qed

lemma fold_task_edges_dep:
  "length xs = length ys \<Longrightarrow> map dep xs = map dep ys \<Longrightarrow> fold (task_edges ids) xs g = fold (task_edges ids) ys g"
proof (induction xs ys arbitrary: g rule: list_induct2)
  case (Cons x xs y ys)
  from Cons.prems have d: "dep x = dep y" and m: "map dep xs = map dep ys" by (simp_all only: list.map list.inject)
  show ?case using Cons.IH [OF m] task_edges_dep [OF d, of ids g] by (simp only: fold_simps)
qed simp

lemma normalized_edges_dep:
  assumes d: "map dep ts = map dep ts'"
  shows "normalized_edges ts = normalized_edges ts'"
proof -
  have "map fst (map dep ts) = map task_id ts" for ts by (simp add: dep_def)
  with d have ids: "map task_id ts = map task_id ts'" by metis
  show ?thesis
    unfolding normalized_edges_def ids by (intro fold_task_edges_dep map_eq_imp_length_eq [OF d] d)
qed

lemma update_mutation_Inr:
  assumes "update_mutation now tid patch strict snap = Inr (saved, t)"
  obtains i snap' where "saved = Some snap'" and "find_task_index (tasks snap) (list_id snap) tid = Inr i"
    and "i < length (tasks snap)" and "task_id (tasks snap ! i) = tid" and "\<not> is_archived (tasks snap ! i)"
    and "apply_patch now (tasks snap ! i) patch = Inr t"
    and "snap' = mk_snapshot (list_id snap) ((tasks snap)[i := t]) (updated_at t)"
    and "strict \<and> status t = Some IN_PROGRESS \<longrightarrow>
      validate_single_in_progress (tasks snap) (list_id snap) tid = Inr ()"
proof -
  obtain i where i: "find_task_index (tasks snap) (list_id snap) tid = Inr i"
    using assms by (auto simp: update_mutation_def Let_def result_simps)
  show ?thesis
    using assms i find_task_index_Inr [OF i]
    by (auto simp: update_mutation_def Let_def result_simps assert_task_mutable_def split: if_splits
        intro!: that)
qed

text \<open>completing a task through \<open>update\<close> removes exactly that task from the unresolved blockers of
  every task of the list, and nothing else.\<close>

theorem completing_unblocks:
  assumes wf: "wf_snapshot snap"
    and run: "update_mutation now tid [(''status'', PStr ''completed'')] strict snap = Inr (Some snap', t)"
  shows "unresolved_blockers_of (tasks snap') c = filter (\<lambda>b. b \<noteq> tid) (unresolved_blockers_of (tasks snap) c)"
proof -
  let ?ts = "tasks snap"
  have T: "distinct (map task_id ?ts)" and S: "sorted (map task_key ?ts)"
    using wf by (simp_all add: wf_snapshot_def wf_tasks_def)
  from run obtain i where il: "i < length ?ts" "task_id (?ts ! i) = tid"
    and a: "apply_patch now (?ts ! i) [(''status'', PStr ''completed'')] = Inr t"
    and s': "snap' = mk_snapshot (list_id snap) (?ts[i := t]) (updated_at t)"
    by (rule update_mutation_Inr) simp
  have td: "dep t = dep (?ts ! i)" "task_key t = task_key (?ts ! i)"
    using apply_patch_frame [OF a] by (simp_all add: task_key_def dep_def)
  have st: "status t = Some COMPLETED"
    using apply_patch_status [OF a] coerce_task_status_value [of COMPLETED] by (simp add: py_get_def)
  have "map task_key (?ts[i := t]) = map task_key ?ts" using il(1) td(2) by (rule map_update_same)
  then have ts': "tasks snap' = ?ts[i := t]" using s' S by (simp add: mk_snapshot_def sort_key_sorted)
  have D: "map dep (?ts[i := t]) = map dep ?ts" using il(1) td(1) by (rule map_update_same)
  have ids: "map task_id (?ts[i := t]) = map task_id ?ts"
    using il(1) td(1) by (intro map_task_id_update) (auto simp: dep_def)
  have M: "task_map (?ts[i := t]) = (task_map ?ts)(tid \<mapsto> t)"
  proof
    fix b
    show "task_map (?ts[i := t]) b = ((task_map ?ts)(tid \<mapsto> t)) b"
    proof (cases "b \<in> task_id ` set ?ts")
      case True
      then obtain j where j: "j < length ?ts" "task_id (?ts ! j) = b" by (auto simp: in_set_conv_nth)
      have "task_map (?ts[i := t]) (task_id (?ts[i := t] ! j)) = Some (?ts[i := t] ! j)"
        using j T ids by (intro task_map_distinct) (auto simp: nth_mem)
      moreover have "task_map ?ts b = Some (?ts ! j)"
        using j T task_map_distinct [of ?ts "?ts ! j"] by auto
      moreover have "j = i \<longleftrightarrow> b = tid"
        using j il nth_eq_iff_index_eq [OF T, of j i] by auto
      ultimately show ?thesis using td(1) j il by (auto simp: nth_list_update dep_def split: if_splits)
    next
      case False
      then have "b \<notin> task_id ` set (?ts[i := t])" using ids by (metis set_map)
      with False have "task_map (?ts[i := t]) b = None" "task_map ?ts b = None"
        by (simp_all only: task_map_None not_False_eq_True)
      moreover from False il have "b \<noteq> tid" by auto
      ultimately show ?thesis by simp
    qed
  qed
  have K: "order_key (?ts[i := t]) = order_key ?ts" by (simp add: order_key_def fun_eq_iff ids Let_def)
  show ?thesis
    unfolding ts' unresolved_blockers_of_def normalized_edges_dep [OF D] K M filter_filter
    by (intro filter_cong refl) (auto simp: st)
qed

theorem completing_unblocks_witness:
  "\<exists>snap' t. update_mutation 9 ''a'' [(''status'', PStr ''completed'')] False demo_snap = Inr (Some snap', t) \<and>
     unresolved_blockers_of (tasks snap') ''b'' = []"
proof -
  have "isl (update_mutation 9 ''a'' [(''status'', PStr ''completed'')] False demo_snap) = False"
    by code_simp
  then obtain sv t where "update_mutation 9 ''a'' [(''status'', PStr ''completed'')] False demo_snap = Inr (sv, t)"
    by (cases "update_mutation 9 ''a'' [(''status'', PStr ''completed'')] False demo_snap") auto
  moreover from this obtain snap' where "sv = Some snap'" by (rule update_mutation_Inr)
  ultimately have
    r: "update_mutation 9 ''a'' [(''status'', PStr ''completed'')] False demo_snap = Inr (Some snap', t)"
    by simp
  have "unresolved_blockers_of (tasks demo_snap) ''b'' = [''a'']" by code_simp
  with completing_unblocks [OF demo_wf r, of "''b''"] r show ?thesis by auto
qed

subsection \<open>One task in progress\<close>

definition single_in_progress :: "task_entry list \<Rightarrow> bool" where
  "single_in_progress ts \<longleftrightarrow>
     (\<forall>t \<in> set ts. \<forall>u \<in> set ts.
        status t = Some IN_PROGRESS \<and> status u = Some IN_PROGRESS \<longrightarrow> task_id t = task_id u)"

text \<open>The operations called with \<open>strict_single_in_progress\<close>, where they have that argument.\<close>

fun strict_op :: "task_op \<Rightarrow> bool" where
  "strict_op (Update tid patch strict) = strict"
| "strict_op (Claim tid own sip eob strict) = strict"
| "strict_op (Assign_Next own sip eob strict) = strict"
| "strict_op _ = True"

definition id_status :: "task_entry \<Rightarrow> string \<times> task_status option" where
  "id_status t = (task_id t, status t)"

lemma single_in_progress_mono:
  assumes "single_in_progress ts"
    and "\<And>t. t \<in> set ts' \<Longrightarrow> status t = Some IN_PROGRESS \<Longrightarrow> id_status t \<in> id_status ` set ts"
  shows "single_in_progress ts'"
proof -
  have "task_id t = task_id u"
    if tu: "t \<in> set ts'" "u \<in> set ts'" "status t = Some IN_PROGRESS" "status u = Some IN_PROGRESS" for t u
  proof -
    obtain t' where t': "t' \<in> set ts" "task_id t' = task_id t" "status t' = Some IN_PROGRESS"
      using assms(2) [OF tu(1,3)] tu(3) by (auto simp: id_status_def)
    obtain u' where u': "u' \<in> set ts" "task_id u' = task_id u" "status u' = Some IN_PROGRESS"
      using assms(2) [OF tu(2,4)] tu(4) by (auto simp: id_status_def)
    have "task_id t' = task_id u'" using assms(1) t' u' unfolding single_in_progress_def by blast
    with t' u' show ?thesis by simp
  qed
  then show ?thesis unfolding single_in_progress_def by blast
qed

lemma single_in_progress_update:
  assumes "single_in_progress ts" and "distinct (map task_id ts)" and "i < length ts"
    and t': "task_id t' = task_id (ts ! i)"
    and "status t' = Some IN_PROGRESS \<longrightarrow>
      status (ts ! i) = Some IN_PROGRESS \<or> validate_single_in_progress ts lid (task_id t') = Inr ()"
  shows "single_in_progress (ts[i := t'])"
proof (cases "status t' = Some IN_PROGRESS \<and> status (ts ! i) \<noteq> Some IN_PROGRESS")
  case True
  with assms(5) have V: "\<forall>u \<in> set ts. task_id u \<noteq> task_id t' \<longrightarrow> status u \<noteq> Some IN_PROGRESS"
    by (auto simp: validate_single_in_progress_def find_None_iff split: option.splits)
  have "task_id u = task_id t'" if "u \<in> set (ts[i := t'])" "status u = Some IN_PROGRESS" for u
    using that V set_update_subset_insert [of ts i t'] by auto
  then show ?thesis by (auto simp: single_in_progress_def)
next
  case False
  show ?thesis
  proof (rule single_in_progress_mono [OF assms(1)])
    fix t assume "t \<in> set (ts[i := t'])" "status t = Some IN_PROGRESS"
    with False assms(3) t' set_update_subset_insert [of ts i t'] show "id_status t \<in> id_status ` set ts"
      by (cases "t = t'") (force simp: id_status_def)+
  qed
qed

lemma id_status_from_graph:
  "id_status ` set (fst (tasks_from_graph ts g now)) = id_status ` set ts"
proof -
  have "id_status (fst (relink_task ts g now t)) = id_status t" for t
    by (simp add: id_status_def relink_task_def Let_def)
  then show ?thesis by (simp add: tasks_from_graph_def image_image)
qed

lemma id_status_overrides:
  "apply_dependency_overrides ts lid tid bs bbs now = Inr (ts', ch) \<Longrightarrow> id_status ` set ts' = id_status ` set ts"
proof -
  assume "apply_dependency_overrides ts lid tid bs bbs now = Inr (ts', ch)"
  then obtain g where "tasks_from_graph ts g now = (ts', ch)"
    by (auto simp: apply_dependency_overrides_def result_simps)
  with id_status_from_graph [of ts g now] show ?thesis by simp
qed

lemma id_status_mutate:
  "mutate_dependency_graph ts lid b c rm now = Inr (ts', ch) \<Longrightarrow> id_status ` set ts' = id_status ` set ts"
  by (drule mutate_dependency_graph_Inr) (metis fst_conv id_status_from_graph)

lemma single_in_progress_image:
  "single_in_progress ts \<Longrightarrow> id_status ` set ts' \<subseteq> id_status ` set ts \<Longrightarrow> single_in_progress ts'"
  by (rule single_in_progress_mono) auto

lemma single_in_progress_create:
  assumes "create_mutation now nid subj desc form own bs bbs md snap = Inr (Some snap', t)"
    and "single_in_progress (tasks snap)"
  shows "single_in_progress (tasks snap')"
proof -
  obtain t0 ts' where "status t0 = Some PENDING" and s': "snap' = mk_snapshot (list_id snap) ts' now"
    and ts': "id_status ` set ts' = id_status ` set (tasks snap @ [t0])"
  proof (cases "bs \<noteq> [] \<or> bbs \<noteq> []")
    case True
    with assms(1) show ?thesis
      by (auto simp: create_mutation_def Let_def result_simps split: option.splits
          dest!: id_status_overrides intro!: that)
  next
    case False
    with assms(1) show ?thesis by (auto simp: create_mutation_def Let_def intro!: that)
  qed
  then have "single_in_progress (tasks snap @ [t0])"
    by (intro single_in_progress_mono [OF assms(2)]) auto
  then show ?thesis
    unfolding s' by (rule single_in_progress_image) (simp only: ts' snapshot_tasks subset_refl)
qed

lemma single_in_progress_claim:
  assumes "claim_task now ts lid tid own sip eob True = Inr (ts', t, ch)"
    and "single_in_progress ts" and "distinct (map task_id ts)"
  shows "single_in_progress ts'"
  using assms(1)
proof (rule claim_task_Inr)
  fix i o'
  assume i: "find_task_index ts lid tid = Inr i"
    and d: "\<not> ch \<and> ts' = ts \<and> t = ts ! i \<and> owner (ts ! i) = Some o' \<and>
           (sip \<longrightarrow> status (ts ! i) = Some IN_PROGRESS)
         \<or> ch \<and> unresolved_blockers_of ts tid = [] \<and> t = claimed_entry now o' sip (ts ! i) \<and>
           ts' = ts[i := t] \<and> (owner (ts ! i) = None \<or> owner (ts ! i) = Some o') \<and>
           (eob \<and> owner (ts ! i) = None \<longrightarrow> assert_owner_available ts lid tid o' = Inr ()) \<and>
           (True \<and> status t = Some IN_PROGRESS \<longrightarrow> validate_single_in_progress ts lid tid = Inr ())"
  then have il: "i < length ts" "task_id (ts ! i) = tid" by (auto dest: find_task_index_Inr)
  have "task_id t = tid" using d il by (auto simp: claimed_entry_def)
  then have "single_in_progress (ts[i := t])"
    using d il by (intro single_in_progress_update [where lid = lid] assms(2,3)) auto
  with d assms(2) show ?thesis by auto
qed

lemma single_in_progress_release:
  assumes "release_task now ts lid tid = Inr (ts', t, ch)"
    and "single_in_progress ts" and "distinct (map task_id ts)"
  shows "single_in_progress ts'"
  using assms(1)
proof (rule release_task_Inr)
  fix i
  assume "find_task_index ts lid tid = Inr i" and "ts' = ts[i := t]" and "dep t = dep (ts ! i)"
    and "status t = (if status (ts ! i) = Some COMPLETED then Some COMPLETED else Some PENDING)"
  then show ?thesis
    by (auto dest!: find_task_index_Inr simp: dep_def split: if_splits
        intro!: single_in_progress_update [where lid = lid] assms(2,3))
qed

lemma single_in_progress_snapshot [simp]:
  "single_in_progress (tasks (mk_snapshot lid ts now)) \<longleftrightarrow> single_in_progress ts"
  by (simp only: single_in_progress_def snapshot_tasks)

lemma single_in_progress_update_op:
  assumes "single_in_progress (tasks snap)" "distinct (map task_id (tasks snap))"
    "update_mutation now tid patch True snap = Inr (Some snap', t)"
  shows "single_in_progress (tasks snap')"
  using assms(3)
proof (rule update_mutation_Inr)
  fix i s
  assume "Some snap' = Some s" and i: "i < length (tasks snap)" "task_id (tasks snap ! i) = tid"
    and a: "apply_patch now (tasks snap ! i) patch = Inr t"
    and "s = mk_snapshot (list_id snap) ((tasks snap)[i := t]) (updated_at t)"
    and v: "True \<and> status t = Some IN_PROGRESS \<longrightarrow>
      validate_single_in_progress (tasks snap) (list_id snap) tid = Inr ()"
  moreover have "task_id t = tid" using apply_patch_frame [OF a] i by (simp add: dep_def)
  ultimately show ?thesis by (auto intro!: single_in_progress_update [OF assms(1,2), where lid = "list_id snap"])
qed

lemma single_in_progress_delete:
  assumes "single_in_progress (tasks snap)" "delete_mutation now tid snap = Inr (Some snap', t)"
  shows "single_in_progress (tasks snap')"
proof -
  obtain ts' where "snap' = mk_snapshot (list_id snap) ts' now"
    "id_status ` set ts' = id_status ` {t \<in> set (tasks snap). task_id t \<noteq> tid}"
    using assms(2) by (auto simp: result_simps delete_mutation_def Let_def id_status_from_graph)
  then show ?thesis by (auto intro!: single_in_progress_image [OF assms(1)])
qed

lemma single_in_progress_dependency:
  assumes "single_in_progress (tasks snap)" "dependency_mutation now b c rm snap = Inr (Some snap', ts)"
  shows "single_in_progress (tasks snap')"
proof -
  obtain ts' ch where "mutate_dependency_graph (tasks snap) (list_id snap) b c rm now = Inr (ts', ch)"
    and s': "snap' = mk_snapshot (list_id snap) ts' now"
    using assms(2) by (auto simp: result_simps dependency_mutation_def Let_def split: option.splits if_splits)
  then have "single_in_progress ts'" by (intro single_in_progress_image [OF assms(1)]) (simp add: id_status_mutate)
  with s' show ?thesis by simp
qed

text \<open>C36: under \<open>strict_single_in_progress\<close>, no operation makes a second task of the list in progress.\<close>

theorem strict_single_in_progress:
  assumes wf: "wf_snapshot snap" and one: "single_in_progress (tasks snap)" and "strict_op opn"
    and run: "op_mutation now nid opn snap = Inr (Some snap', r)"
  shows "single_in_progress (tasks snap')"
proof -
  have T: "distinct (map task_id (tasks snap))" using wf by (simp add: wf_snapshot_def wf_tasks_def)
  note upd = single_in_progress_update [OF one T]
  show ?thesis
  proof (cases opn)
    case (Create subj desc form own bs bbs md)
    with run one show ?thesis by (auto simp: result_simps intro: single_in_progress_create)
  next
    case (Update tid patch strict)
    then show ?thesis using run assms(3) single_in_progress_update_op [OF one T] by (auto simp: result_simps)
  next
    case (Archive tid who)
    with run show ?thesis
      by (auto simp: result_simps archive_mutation_def Let_def dest!: find_task_index_Inr intro!: upd)
  next
    case (Unarchive tid)
    have "wf_task (tasks snap ! i)" if "i < length (tasks snap)" for i
      using wf that by (simp add: wf_snapshot_def wf_tasks_def)
    with Unarchive run show ?thesis
      by (auto simp: result_simps unarchive_mutation_def Let_def wf_task_def dest!: find_task_index_Inr
          intro!: upd)
  next
    case (Delete tid)
    with run show ?thesis using single_in_progress_delete [OF one] by (auto simp: result_simps)
  next
    case (Claim tid own sip eob strict)
    with run assms(3) show ?thesis
      by (auto simp: result_simps claim_mutation_def Let_def saved_if_changed_def split: if_splits
          intro: single_in_progress_claim [OF _ one T])
  next
    case (Release tid)
    with run show ?thesis
      by (auto simp: result_simps release_mutation_def Let_def saved_if_changed_def split: if_splits
          intro: single_in_progress_release [OF _ one T])
  next
    case (Assign_Next own sip eob strict)
    with run assms(3) show ?thesis
      by (auto simp: result_simps assign_next_mutation_def saved_if_changed_def
          split: option.splits if_splits prod.splits intro: single_in_progress_claim [OF _ one T])
  next
    case (Add_Dependency b c)
    with run show ?thesis using single_in_progress_dependency [OF one] by (auto simp: result_simps)
  next
    case (Remove_Dependency b c)
    with run show ?thesis using single_in_progress_dependency [OF one] by (auto simp: result_simps)
  qed
qed

theorem strict_single_in_progress_witness:
  "\<exists>snap' r. op_mutation 9 ''z'' (Claim ''c'' (Some ''w'') True False True) demo_snap = Inr (Some snap', r) \<and>
     single_in_progress (tasks snap')"
proof -
  have "(case op_mutation 9 ''z'' (Claim ''c'' (Some ''w'') True False True) demo_snap of
      Inr p \<Rightarrow> \<not> Option.is_none (fst p) | Inl e \<Rightarrow> False)" by code_simp
  then obtain snap' r where
    "op_mutation 9 ''z'' (Claim ''c'' (Some ''w'') True False True) demo_snap = Inr (Some snap', r)"
    by (auto simp: Option.is_none_def simp del: op_mutation.simps split: sum.splits)
  moreover have "single_in_progress (tasks demo_snap)" by code_simp
  ultimately show ?thesis
    using strict_single_in_progress [OF demo_wf, of "Claim ''c'' (Some ''w'') True False True" 9 "''z''" snap' r]
    by simp
qed

subsection \<open>Archiving and deleting\<close>

lemma wf_index:
  assumes "wf_snapshot snap" and "t \<in> set (tasks snap)"
  obtains i where "find_task_index (tasks snap) lid (task_id t) = Inr i" and "i < length (tasks snap)"
    and "tasks snap ! i = t"
  using find_task_index_at [of "tasks snap" t lid] assms by (auto simp: wf_snapshot_def wf_tasks_def)

lemma find_index_from_ids: "map task_id ts = map task_id ts' \<Longrightarrow> find_index_from k ts = find_index_from k ts'"
proof (induction ts arbitrary: k ts')
  case (Cons t ts)
  then obtain u us where "ts' = u # us" "task_id t = task_id u" "map task_id ts = map task_id us"
    by (cases ts') auto
  with Cons.IH [of us] show ?case by (simp add: fun_eq_iff)
qed simp

lemma find_task_index_ids: "map task_id ts = map task_id ts' \<Longrightarrow> find_task_index ts = find_task_index ts'"
  by (simp add: find_task_index_def find_index_from_ids [of ts ts'] fun_eq_iff)

lemma tasks_update_sorted:
  assumes "wf_snapshot snap" and "i < length (tasks snap)" and "task_key t' = task_key (tasks snap ! i)"
  shows "tasks (mk_snapshot lid ((tasks snap)[i := t']) now) = (tasks snap)[i := t']"
proof -
  have "map task_key ((tasks snap)[i := t']) = map task_key (tasks snap)"
    using assms(2,3) by (rule map_update_same)
  with assms(1) show ?thesis by (simp add: mk_snapshot_def wf_snapshot_def sort_key_sorted)
qed

text \<open>archiving a completed task and unarchiving it again restores the list, up to the two
  \<open>updated_at\<close> stamps; between the two the entry is archived by the given actor.\<close>

theorem archive_unarchive:
  assumes wf: "wf_snapshot snap" and t: "t \<in> set (tasks snap)" "\<not> is_archived t" "status t = Some COMPLETED"
  shows "\<exists>snap1 t1 snap2.
    archive_mutation now1 (task_id t) who snap = Inr (Some snap1, t1) \<and>
    is_archived t1 \<and> archived_at t1 = Some now1 \<and> archived_by t1 = coerce_optional_string who \<and>
    unarchive_mutation now2 (task_id t) snap1 = Inr (Some snap2, t\<lparr>updated_at := now2\<rparr>) \<and>
    map (\<lambda>u. u\<lparr>updated_at := 0\<rparr>) (tasks snap2) = map (\<lambda>u. u\<lparr>updated_at := 0\<rparr>) (tasks snap)"
proof -
  let ?t1 = "task_post_init (t\<lparr>is_archived := True, archived_at := Some now1,
      archived_by := coerce_optional_string who, updated_at := now1\<rparr>)"
  let ?t2 = "t\<lparr>updated_at := now2\<rparr>"
  obtain i where i: "find_task_index (tasks snap) (list_id snap) (task_id t) = Inr i" "i < length (tasks snap)"
      "tasks snap ! i = t"
    using wf t(1) by (rule wf_index)
  have k: "task_key ?t1 = task_key (tasks snap ! i)" by (simp add: task_key_def i)
  let ?s1 = "mk_snapshot (list_id snap) ((tasks snap)[i := ?t1]) now1"
  have a: "archive_mutation now1 (task_id t) who snap = Inr (Some ?s1, ?t1)"
    using t i by (simp add: archive_mutation_def Let_def)
  have ts1: "tasks ?s1 = (tasks snap)[i := ?t1]" using wf i(2) k by (rule tasks_update_sorted)
  have "map task_id (tasks ?s1) = map task_id (tasks snap)"
    using ts1 i by (simp add: map_task_id_update)
  then have j: "find_task_index (tasks ?s1) (list_id ?s1) (task_id t) = Inr i"
    using i(1) find_task_index_ids [of "tasks ?s1" "tasks snap"] by simp
  have t2: "task_post_init (?t1\<lparr>is_archived := False, archived_at := None, archived_by := None, updated_at := now2\<rparr>) = ?t2"
    using wf t i by (simp add: task_post_init_def wf_snapshot_def wf_tasks_def wf_task_def)
  let ?s2 = "mk_snapshot (list_id snap) ((tasks ?s1)[i := ?t2]) now2"
  have b: "unarchive_mutation now2 (task_id t) ?s1 = Inr (Some ?s2, ?t2)"
    using j t2 ts1 i(2) by (simp add: unarchive_mutation_def Let_def del: task_entry.simps)
  have "(tasks ?s1)[i := ?t2] = (tasks snap)[i := ?t2]" by (simp add: ts1)
  moreover have "tasks (mk_snapshot (list_id snap) ((tasks snap)[i := ?t2]) now2) = (tasks snap)[i := ?t2]"
    using wf i(2) by (rule tasks_update_sorted) (simp add: task_key_def i)
  ultimately have "tasks ?s2 = (tasks snap)[i := ?t2]" by simp
  moreover have "map (\<lambda>u. u\<lparr>updated_at := 0\<rparr>) ((tasks snap)[i := ?t2]) = map (\<lambda>u. u\<lparr>updated_at := 0\<rparr>) (tasks snap)"
    using i(2) by (rule map_update_same) (simp add: i(3))
  ultimately have "map (\<lambda>u. u\<lparr>updated_at := 0\<rparr>) (tasks ?s2) = map (\<lambda>u. u\<lparr>updated_at := 0\<rparr>) (tasks snap)"
    by simp
  moreover have "is_archived ?t1 \<and> archived_at ?t1 = Some now1 \<and> archived_by ?t1 = coerce_optional_string who"
    by (simp add: task_post_init_def)
  ultimately show ?thesis using a b by blast
qed

theorem archive_unarchive_witness:
  "\<exists>snap1 t1 snap2.
     archive_mutation 5 ''d'' (Some ''me'') (mk_snapshot ''L'' [demo_task ''d'' 1\<lparr>status := Some COMPLETED\<rparr>] 2)
       = Inr (Some snap1, t1) \<and> is_archived t1 \<and>
     unarchive_mutation 6 ''d'' snap1
       = Inr (Some snap2, demo_task ''d'' 1\<lparr>status := Some COMPLETED, updated_at := 6\<rparr>)"
proof -
  let ?d = "demo_task ''d'' 1\<lparr>status := Some COMPLETED\<rparr>"
  have "wf_task ?d" "normalized_edges [?d] = []" by code_simp+
  then have "wf_snapshot (mk_snapshot ''L'' [?d] 2)"
    by (intro wf_mk_snapshot) (simp add: wf_tasks_def wf_links_def edge_set_def acyclic_def demo_task_def)
  from archive_unarchive [OF this, of ?d 5 "Some ''me''" 6] show ?thesis
    by (simp add: demo_task_def) blast
qed

lemma normalized_edges_ids:
  "(b, c) \<in> set (normalized_edges ts) \<Longrightarrow> b \<noteq> c \<and> b \<in> task_id ` set ts \<and> c \<in> task_id ` set ts"
  by (rule edge_set_ids) (simp add: edge_set_def)

text \<open>deleting is for archived tasks only; the deleted id disappears from the list and from every
  remaining link, and every other task and every edge between other tasks stays.\<close>

theorem delete_no_dangling:
  assumes wf: "wf_snapshot snap" and run: "delete_mutation now tid snap = Inr (Some snap', t)"
  shows "task_id t = tid \<and> is_archived t \<and> t \<in> set (tasks snap) \<and>
    map task_id (tasks snap') = filter (\<lambda>i. i \<noteq> tid) (map task_id (tasks snap)) \<and>
    (\<forall>u \<in> set (tasks snap'). tid \<notin> set (blocks u) \<and> tid \<notin> set (blocked_by u)) \<and>
    edge_set (tasks snap') = {(b, c) \<in> edge_set (tasks snap). b \<noteq> tid \<and> c \<noteq> tid}"
proof -
  let ?rest = "filter (\<lambda>t. task_id t \<noteq> tid) (tasks snap)"
  from run obtain i where i: "find_task_index (tasks snap) (list_id snap) tid = Inr i"
    and ar: "is_archived (tasks snap ! i)" and t: "t = tasks snap ! i"
    and s': "snap' = mk_snapshot (list_id snap) (fst (tasks_from_graph ?rest (normalized_edges ?rest) now)) now"
    by (auto simp: delete_mutation_def Let_def result_simps)
  have w': "wf_tasks (tasks snap')" using wf_delete_mutation [OF run wf] by (simp add: wf_snapshot_def)
  have W: "wf_links (tasks snap)" using wf by (simp add: wf_snapshot_def wf_tasks_def)
  have E: "edge_set (tasks snap') = edge_set ?rest"
    unfolding s' edge_set_mk_snapshot edge_set_def [of ?rest]
    by (rule edge_set_from_graph) (rule normalized_edges_ids)
  have E2: "edge_set ?rest = {(b, c) \<in> edge_set (tasks snap). b \<noteq> tid \<and> c \<noteq> tid}"
  proof (intro subset_antisym subsetI)
    fix e assume "e \<in> edge_set ?rest"
    then show "e \<in> {(b, c) \<in> edge_set (tasks snap). b \<noteq> tid \<and> c \<noteq> tid}"
      using edge_set_filter_subset [of "\<lambda>t. task_id t \<noteq> tid" "tasks snap"] edge_set_ids [of "fst e" "snd e" ?rest]
      by (cases e) auto
  next
    fix e assume "e \<in> {(b, c) \<in> edge_set (tasks snap). b \<noteq> tid \<and> c \<noteq> tid}"
    then obtain b c where e: "e = (b, c)" "(b, c) \<in> edge_set (tasks snap)" "b \<noteq> tid" "c \<noteq> tid" by auto
    from edge_set_ids [OF e(2)] obtain tb tc where
      "tb \<in> set (tasks snap)" "task_id tb = b" "tc \<in> set (tasks snap)" "task_id tc = c" "b \<noteq> c" by auto
    moreover from this W e(2) have "c \<in> set (blocks tb)" by (auto simp: wf_links_def)
    ultimately show "e \<in> edge_set ?rest"
      using e unfolding edge_set_def set_normalized_edges by force
  qed
  have "\<forall>u \<in> set (tasks snap'). tid \<notin> set (blocks u) \<and> tid \<notin> set (blocked_by u)"
    using w' E E2 by (auto simp: wf_tasks_def wf_links_def)
  moreover have "map task_id (tasks snap') = filter (\<lambda>i. i \<noteq> tid) (map task_id (tasks snap))"
  proof -
    have "sorted (map task_key ?rest)" using wf by (simp add: wf_snapshot_def sorted_filter)
    moreover have "map task_key (fst (tasks_from_graph ?rest g now)) = map task_key ?rest" for g
      by (simp add: tasks_from_graph_def task_key_def relink_task_def Let_def)
    ultimately have "tasks snap' = fst (tasks_from_graph ?rest (normalized_edges ?rest) now)"
      by (simp add: s' mk_snapshot_def sort_key_sorted)
    then show ?thesis by (simp add: filter_map comp_def)
  qed
  ultimately show ?thesis using find_task_index_Inr [OF i] ar t E E2 by auto
qed

theorem delete_no_dangling_witness:
  "\<exists>snap' t. delete_mutation 9 ''d''
       (mk_snapshot ''L'' [demo_task ''d'' 1\<lparr>status := Some COMPLETED, is_archived := True, archived_at := Some 2\<rparr>] 2)
     = Inr (Some snap', t) \<and> tasks snap' = []"
proof -
  let ?d = "demo_task ''d'' 1\<lparr>status := Some COMPLETED, is_archived := True, archived_at := Some 2\<rparr>"
  have "wf_task ?d" "normalized_edges [?d] = []" by code_simp+
  then have w: "wf_snapshot (mk_snapshot ''L'' [?d] 2)"
    by (intro wf_mk_snapshot) (simp add: wf_tasks_def wf_links_def edge_set_def acyclic_def demo_task_def)
  have "(case delete_mutation 9 ''d'' (mk_snapshot ''L'' [?d] 2) of
      Inr p \<Rightarrow> \<not> Option.is_none (fst p) | Inl e \<Rightarrow> False)" by code_simp
  then obtain snap' t where r: "delete_mutation 9 ''d'' (mk_snapshot ''L'' [?d] 2) = Inr (Some snap', t)"
    by (auto simp: Option.is_none_def split: sum.splits)
  moreover have "map task_id (tasks (mk_snapshot ''L'' [?d] 2)) = [''d'']" by code_simp
  ultimately show ?thesis using delete_no_dangling [OF w r] by simp
qed

text \<open>an archived task is immutable: updating, claiming, releasing or archiving it, or changing a
  dependency at either end of which it stands, raises a lifecycle error and saves nothing.\<close>

theorem archived_immutable:
  assumes wf: "wf_snapshot snap" and t: "t \<in> set (tasks snap)" "is_archived t"
    and u: "u \<in> set (tasks snap)" "\<not> is_archived u" and id: "tid = task_id t"
  shows "update_mutation now tid patch strict snap
      = Inl (TaskListLifecycleError ''archived_task_immutable'' (list_id snap) tid) \<and>
    claim_mutation now tid own sip eob strict snap
      = Inl (TaskListLifecycleError ''archived_task_immutable'' (list_id snap) tid) \<and>
    release_mutation now tid snap
      = Inl (TaskListLifecycleError ''archived_task_immutable'' (list_id snap) tid) \<and>
    archive_mutation now tid who snap
      = Inl (TaskListLifecycleError ''already_archived'' (list_id snap) tid) \<and>
    dependency_mutation now tid (task_id u) rm snap
      = Inl (TaskListLifecycleError ''archived_task_immutable'' (list_id snap) tid) \<and>
    dependency_mutation now (task_id u) tid rm snap
      = Inl (TaskListLifecycleError ''archived_task_immutable'' (list_id snap) tid)"
proof -
  let ?e = "TaskListLifecycleError ''archived_task_immutable'' (list_id snap) tid"
  obtain i where i: "find_task_index (tasks snap) (list_id snap) tid = Inr i" "tasks snap ! i = t"
    using wf t(1) unfolding id by (rule wf_index)
  obtain j where j: "find_task_index (tasks snap) (list_id snap) (task_id u) = Inr j" "tasks snap ! j = u"
    using wf u(1) by (rule wf_index)
  have m: "assert_task_mutable (list_id snap) t = Inl ?e" "assert_task_mutable (list_id snap) u = Inr ()"
    using t(2) u(2) id by (simp_all add: assert_task_mutable_def)
  have "update_mutation now tid patch strict snap = Inl ?e"
    by (simp only: update_mutation_def Let_def i m rbind_simps)
  moreover have "claim_mutation now tid own sip eob strict snap = Inl ?e"
    by (simp only: claim_mutation_def Let_def i m rbind_simps)
  moreover have "release_mutation now tid snap = Inl ?e"
    by (simp only: release_mutation_def Let_def i m rbind_simps)
  moreover have "archive_mutation now tid who snap
      = Inl (TaskListLifecycleError ''already_archived'' (list_id snap) tid)"
    using t(2) by (simp only: archive_mutation_def Let_def i ensure_simps simp_thms rbind_simps)
  moreover have "dependency_mutation now tid (task_id u) rm snap = Inl ?e"
    "dependency_mutation now (task_id u) tid rm snap = Inl ?e"
    by (simp_all only: dependency_mutation_def mutate_dependency_graph_def Let_def i j m rbind_simps)
  ultimately show ?thesis by simp
qed

definition demo_archived :: task_entry where
  "demo_archived = demo_task ''d'' 1\<lparr>status := Some COMPLETED, is_archived := True, archived_at := Some 2\<rparr>"

theorem archived_immutable_witness:
  "release_mutation 9 ''d'' (mk_snapshot ''L'' [demo_archived, demo_task ''e'' 2] 2)
     = Inl (TaskListLifecycleError ''archived_task_immutable'' ''L'' ''d'')"
proof -
  have "wf_task demo_archived" "wf_task (demo_task ''e'' 2)"
    "normalized_edges [demo_archived, demo_task ''e'' 2] = []" by code_simp+
  then have "wf_snapshot (mk_snapshot ''L'' [demo_archived, demo_task ''e'' 2] 2)"
    by (intro wf_mk_snapshot)
      (simp add: wf_tasks_def wf_links_def edge_set_def acyclic_def demo_task_def demo_archived_def)
  moreover have "demo_archived \<in> set (tasks (mk_snapshot ''L'' [demo_archived, demo_task ''e'' 2] 2))"
    "demo_task ''e'' 2 \<in> set (tasks (mk_snapshot ''L'' [demo_archived, demo_task ''e'' 2] 2))" by simp_all
  moreover have "is_archived demo_archived" "\<not> is_archived (demo_task ''e'' 2)" "''d'' = task_id demo_archived"
    by (simp_all add: demo_archived_def demo_task_def)
  ultimately have "release_mutation 9 ''d'' (mk_snapshot ''L'' [demo_archived, demo_task ''e'' 2] 2)
      = Inl (TaskListLifecycleError ''archived_task_immutable''
          (list_id (mk_snapshot ''L'' [demo_archived, demo_task ''e'' 2] 2)) ''d'')"
    using archived_immutable by blast
  then show ?thesis by simp
qed

subsection \<open>A patch with a null status\<close>

text \<open>a patch whose status is null is accepted and stores an entry without a status, which is in
  no task state: the stored list is no longer well formed.\<close>

theorem null_status_breaks_list:
  assumes wf: "wf_snapshot snap" and t: "t \<in> set (tasks snap)" "\<not> is_archived t"
  shows "\<exists>snap' t'. update_mutation now (task_id t) [(''status'', PNone)] strict snap = Inr (Some snap', t') \<and>
    status t' = None \<and> t' \<in> set (tasks snap') \<and> \<not> wf_snapshot snap'"
proof -
  obtain i where i: "find_task_index (tasks snap) (list_id snap) (task_id t) = Inr i" "i < length (tasks snap)"
      "tasks snap ! i = t"
    using wf t(1) by (rule wf_index)
  obtain t' where a: "apply_patch now t [(''status'', PNone)] = Inr t'" and st: "status t' = None"
    by (simp add: apply_patch_def allowed_patch_keys_def py_get_def)
  let ?s = "mk_snapshot (list_id snap) ((tasks snap)[i := t']) (updated_at t')"
  have "update_mutation now (task_id t) [(''status'', PNone)] strict snap = Inr (Some ?s, t')"
    using i a st t(2) by (simp add: update_mutation_def assert_task_mutable_def Let_def)
  moreover have "t' \<in> set (tasks ?s)" using i(2) by (simp add: set_update_memI)
  moreover from this st have "\<not> wf_snapshot ?s" by (auto simp: wf_snapshot_def wf_tasks_def wf_task_def)
  ultimately show ?thesis using st by blast
qed

theorem null_status_breaks_list_witness:
  "\<exists>snap' t'. update_mutation 9 ''a'' [(''status'', PNone)] True demo_snap = Inr (Some snap', t') \<and>
     status t' = None"
  using null_status_breaks_list [OF demo_wf, of demo_a 9 True] by auto

subsection \<open>Watchers\<close>

lemma notify_fold_watchers:
  "watchers_for (fold (\<lambda>(wid, cb) s. if cb snap then s else remove_watcher (list_id snap) wid s) ws s) lid =
     (if lid = list_id snap
      then filter (\<lambda>(w, _). w \<notin> {wid. \<exists>cb. (wid, cb) \<in> set ws \<and> \<not> cb snap}) (watchers_for s lid)
      else watchers_for s lid)"
proof (induction ws arbitrary: s)
  case Nil
  show ?case by simp
next
  case (Cons w ws)
  obtain wid cb where w: "w = (wid, cb)" by (cases w)
  have R: "watchers_for (remove_watcher l wid s) lid =
      (if lid = l then AList.delete wid (watchers_for s lid) else watchers_for s lid)" for l
    by (auto simp: remove_watcher_def watchers_for_def Let_def dict_simps split: option.splits)
  have D: "AList.delete wid d = filter (\<lambda>(w, _). w \<noteq> wid) d" for d
    by (auto simp: AList.delete_eq intro: filter_cong)
  have step: "fold (\<lambda>(wid, cb) s. if cb snap then s else remove_watcher (list_id snap) wid s) (w # ws) s
      = fold (\<lambda>(wid, cb) s. if cb snap then s else remove_watcher (list_id snap) wid s) ws
          (if cb snap then s else remove_watcher (list_id snap) wid s)"
    by (simp add: w)
  show ?case
  proof (cases "cb snap")
    case True
    then show ?thesis unfolding step Cons.IH by (auto simp: w intro!: filter_cong)
  next
    case False
    then have A: "watchers_for (if cb snap then s else remove_watcher (list_id snap) wid s) lid =
        (if lid = list_id snap then filter (\<lambda>(w, _). w \<noteq> wid) (watchers_for s lid) else watchers_for s lid)"
      by (simp add: R D)
    show ?thesis
    proof (cases "lid = list_id snap")
      case True
      then show ?thesis unfolding step Cons.IH A using False by (simp add: w) (rule filter_cong, auto)
    next
      case False
      then show ?thesis unfolding step Cons.IH A by simp
    qed
  qed
qed

text \<open>a notification drops exactly the watchers of the saved list whose callback raises; the others
  stay in their order, and the watchers of other lists are untouched.\<close>

theorem notify_drops_raising:
  assumes "distinct (map fst (watchers_for s (list_id snap)))"
  shows "watchers_for (notify_watchers snap s) (list_id snap) =
      filter (\<lambda>(wid, cb). cb snap) (watchers_for s (list_id snap)) \<and>
    (\<forall>lid. lid \<noteq> list_id snap \<longrightarrow> watchers_for (notify_watchers snap s) lid = watchers_for s lid)"
proof -
  have "cb snap \<longleftrightarrow> wid \<notin> {wid. \<exists>cb. (wid, cb) \<in> set (watchers_for s (list_id snap)) \<and> \<not> cb snap}"
    if "(wid, cb) \<in> set (watchers_for s (list_id snap))" for wid cb
    using that eq_key_imp_eq_value [OF assms] by blast
  then show ?thesis
    by (auto simp: notify_watchers_def notify_fold_watchers intro!: filter_cong)
qed

theorem notify_drops_raising_witness:
  "map fst (watchers_for (notify_watchers demo_snap
     \<lparr>store = [], watchers = [(''L'', [(''x'', \<lambda>_. False), (''y'', \<lambda>_. True)])]\<rparr>) ''L'') = [''y'']"
  using notify_drops_raising [of "\<lparr>store = [], watchers = [(''L'', [(''x'', \<lambda>_. False), (''y'', \<lambda>_. True)])]\<rparr>"
      demo_snap]
  by (simp add: watchers_for_def)

end
