(* ===== verification/Jobs_Data.thy ===== *)
theory Jobs_Data
  imports Py_Values
begin

text \<open>
  The data of \<open>weavert/jobs.py\<close>: statuses, records, requests and executor results, the transition table,
  the visibility filter, the payload codec of a record, and the projections of compat metadata.
\<close>

datatype job_status = J_PENDING | J_RUNNING | J_COMPLETED | J_FAILED | J_STOPPED

fun job_status_value :: "job_status \<Rightarrow> string" where
  "job_status_value J_PENDING = ''pending''"
| "job_status_value J_RUNNING = ''running''"
| "job_status_value J_COMPLETED = ''completed''"
| "job_status_value J_FAILED = ''failed''"
| "job_status_value J_STOPPED = ''stopped''"

definition job_status_terminal :: "job_status \<Rightarrow> bool" where
  "job_status_terminal st \<longleftrightarrow> st \<in> {J_COMPLETED, J_FAILED, J_STOPPED}"

text \<open>\<open>JobControlCapabilities\<close> has one field, so it is that boolean.\<close>

type_synonym job_capabilities = bool

record job_sidecar =
  sc_kind :: string
  sc_ref :: string
  sc_metadata :: "(string, pyval) dict"

record job_record =
  job_id :: string
  executor_kind :: string
  job_summary :: string
  job_description :: "string option"
  job_status :: job_status
  job_caps :: "job_capabilities option"
  stop_requested :: bool
  job_created_at :: time
  job_updated_at :: time
  started_at :: "time option"
  ended_at :: "time option"
  job_session_id :: "string option"
  job_team_id :: "string option"
  submitted_by :: "string option"
  projection_kind :: "string option"
  parent_run_id :: "string option"
  parent_turn_id :: "string option"
  job_result :: "(string, pyval) dict option"
  job_error :: "string option"
  job_metadata :: "(string, pyval) dict"
  sidecar_refs :: "job_sidecar list"

record job_scope_filter =
  sf_session_id :: "string option"
  sf_team_id :: "string option"
  sf_submitted_by :: "string option"
  sf_projection_kind :: "string option"

record job_submit_request =
  rq_executor_kind :: string
  rq_summary :: string
  rq_description :: "string option"
  rq_session_id :: "string option"
  rq_team_id :: "string option"
  rq_submitted_by :: "string option"
  rq_projection_kind :: "string option"
  rq_parent_run_id :: "string option"
  rq_parent_turn_id :: "string option"
  requested_job_id :: "string option"
  rq_metadata :: "(string, pyval) dict"
  rq_capabilities :: "job_capabilities option"
  rq_sidecar_refs :: "job_sidecar list"

text \<open>\<open>JobStartResult\<close> and \<open>JobRecoveryResult\<close> have the same fields.\<close>

record job_start_result =
  sr_status :: job_status
  sr_capabilities :: "job_capabilities option"
  sr_metadata :: "(string, pyval) dict"
  sr_sidecar_refs :: "job_sidecar list"
  sr_result :: "(string, pyval) dict option"
  sr_error :: "string option"

type_synonym job_recovery_result = job_start_result

record job_stop_result =
  st_status :: job_status
  st_stop_requested :: bool
  st_metadata :: "(string, pyval) dict"
  st_sidecar_refs :: "job_sidecar list"
  st_result :: "(string, pyval) dict option"
  st_error :: "string option"

datatype job_error =
    JobExecutorResolutionError string
  | JobLifecycleError string job_status job_status string
  | JobStopNotFoundError string
  | JobNotRunningError string job_status
  | JobNotStoppableError string
  | JobKeyError string
  | JobExistsError string
  | JobExecutorRegisteredError string
  | JobNonEmptyError string
  | JobUnboundError
  | JobStatusValueError string
  | JobPayloadTypeError
  | JobExecutorException string

text \<open>The \<open>code\<close> of the \<open>JobControlError\<close> subclasses; the others are built-in exceptions.\<close>

fun job_error_code :: "job_error \<Rightarrow> string option" where
  "job_error_code (JobExecutorResolutionError k) = Some ''executor_not_found''"
| "job_error_code (JobLifecycleError j c n p) = Some ''invalid_transition''"
| "job_error_code (JobStopNotFoundError j) = Some ''not_found''"
| "job_error_code (JobNotRunningError j st) = Some ''not_running''"
| "job_error_code (JobNotStoppableError j) = Some ''not_stoppable''"
| "job_error_code e = None"

subsection \<open>The transition table\<close>

definition allowed_transitions :: "string \<Rightarrow> job_status \<Rightarrow> job_status list" where
  "allowed_transitions phase current =
     (if phase = ''start'' then
        (if current = J_PENDING then [J_RUNNING, J_COMPLETED, J_FAILED] else [])
      else if phase = ''stop'' then
        (if current = J_PENDING then [J_STOPPED]
         else if current = J_RUNNING then [J_RUNNING, J_STOPPED] else [])
      else if phase = ''recovery'' then
        (if current = J_RUNNING then [J_RUNNING, J_COMPLETED, J_FAILED, J_STOPPED] else [])
      else if phase = ''compat'' then
        (if current = J_PENDING then [J_PENDING, J_RUNNING, J_COMPLETED, J_FAILED, J_STOPPED]
         else if current = J_RUNNING then [J_RUNNING, J_COMPLETED, J_FAILED, J_STOPPED] else [])
      else [])"

definition validate_job_transition ::
  "job_status \<Rightarrow> job_status \<Rightarrow> string \<Rightarrow> string \<Rightarrow> job_error + job_status" where
  "validate_job_transition current proposed phase jid =
     (if current = proposed then Inr proposed
      else if job_status_terminal current then Inl (JobLifecycleError jid current proposed phase)
      else if proposed \<notin> set (allowed_transitions phase current)
        then Inl (JobLifecycleError jid current proposed phase)
      else Inr proposed)"

subsection \<open>Visibility\<close>

definition scope_matches :: "job_scope_filter \<Rightarrow> job_record \<Rightarrow> bool" where
  "scope_matches f r =
     (let visible =
            (if sf_session_id f \<noteq> None \<or> sf_team_id f \<noteq> None
             then (sf_session_id f \<noteq> None \<and> job_session_id r = sf_session_id f) \<or>
                  (sf_team_id f \<noteq> None \<and> job_team_id r = sf_team_id f)
             else True)
      in if \<not> visible then False
         else if sf_submitted_by f \<noteq> None \<and> submitted_by r \<noteq> sf_submitted_by f then False
         else if sf_projection_kind f \<noteq> None \<and> projection_kind r \<noteq> sf_projection_kind f then False
         else True)"

definition scope_allows :: "job_scope_filter option \<Rightarrow> job_record \<Rightarrow> bool" where
  "scope_allows f r = (case f of None \<Rightarrow> True | Some f \<Rightarrow> scope_matches f r)"

definition is_stoppable :: "job_record \<Rightarrow> bool" where
  "is_stoppable r = (case job_caps r of None \<Rightarrow> False | Some b \<Rightarrow> b)"

subsection \<open>Coercions\<close>

fun coerce_bool :: "pyval \<Rightarrow> bool \<Rightarrow> bool" where
  "coerce_bool (PBool b) d = b"
| "coerce_bool PNone d = d"
| "coerce_bool (PStr s) d =
     (let n = map lower_char (strip s) in
      if n \<in> {''1'', ''true'', ''yes'', ''on''} then True
      else if n \<in> {''0'', ''false'', ''no'', ''off''} then False
      else s \<noteq> [])"
| "coerce_bool v d = py_truthy v"

definition coerce_job_status :: "pyval \<Rightarrow> job_error + job_status option" where
  "coerce_job_status v =
     (case coerce_optional_value v of
        None \<Rightarrow> Inr None
      | Some s \<Rightarrow>
          (if s = ''pending'' then Inr (Some J_PENDING)
           else if s = ''running'' then Inr (Some J_RUNNING)
           else if s = ''completed'' then Inr (Some J_COMPLETED)
           else if s = ''failed'' then Inr (Some J_FAILED)
           else if s = ''stopped'' then Inr (Some J_STOPPED)
           else Inl (JobStatusValueError s)))"

text \<open>\<open>datetime.fromisoformat\<close> is a parameter: the instant, or \<open>None\<close> for the \<open>ValueError\<close>.\<close>

fun coerce_datetime :: "(string \<Rightarrow> time option) \<Rightarrow> pyval \<Rightarrow> time option" where
  "coerce_datetime fromisoformat (PStr s) = (if s = [] then None else fromisoformat s)"
| "coerce_datetime fromisoformat v = None"

definition of_opt_string :: "string option \<Rightarrow> pyval" where
  "of_opt_string s = (case s of None \<Rightarrow> PNone | Some x \<Rightarrow> PStr x)"

subsection \<open>The payload codec\<close>

definition capabilities_from_payload :: "pyval \<Rightarrow> job_capabilities option" where
  "capabilities_from_payload v =
     (case v of PDict kvs \<Rightarrow> Some (coerce_bool (py_get kvs ''stoppable'') False) | _ \<Rightarrow> None)"

definition sidecar_serialize :: "job_sidecar \<Rightarrow> pyval" where
  "sidecar_serialize sc =
     PDict [(''kind'', PStr (sc_kind sc)), (''ref'', PStr (sc_ref sc)), (''metadata'', PDict (sc_metadata sc))]"

definition sidecar_from_payload :: "(string, pyval) dict \<Rightarrow> job_sidecar" where
  "sidecar_from_payload p =
     \<lparr>sc_kind = py_str (py_or (py_get p ''kind'') (PStr [])),
      sc_ref = py_str (py_or (py_get p ''ref'') (PStr [])),
      sc_metadata = coerce_mapping (py_get p ''metadata'')\<rparr>"

definition sidecars_of_items :: "pyval list \<Rightarrow> job_sidecar list" where
  "sidecars_of_items xs =
     List.map_filter (\<lambda>v. case v of PDict p \<Rightarrow> Some (sidecar_from_payload p) | _ \<Rightarrow> None) xs"

text \<open>Iterating over \<open>payload.get("sidecar_refs", ())\<close>: a list gives its items, a string its
  characters and a mapping its keys (none of them a mapping); the rest is not iterable.\<close>

definition payload_sidecars :: "pyval option \<Rightarrow> job_error + job_sidecar list" where
  "payload_sidecars v =
     (case v of
        None \<Rightarrow> Inr []
      | Some (PList xs) \<Rightarrow> Inr (sidecars_of_items xs)
      | Some (PStr s) \<Rightarrow> Inr []
      | Some (PDict kvs) \<Rightarrow> Inr []
      | Some _ \<Rightarrow> Inl JobPayloadTypeError)"

definition job_serialize :: "(time \<Rightarrow> string) \<Rightarrow> job_record \<Rightarrow> (string, pyval) dict" where
  "job_serialize isoformat r =
     [(''job_id'', PStr (job_id r)),
      (''executor_kind'', PStr (executor_kind r)),
      (''summary'', PStr (job_summary r)),
      (''description'', of_opt_string (job_description r)),
      (''status'', PStr (job_status_value (job_status r))),
      (''capabilities'', case job_caps r of None \<Rightarrow> PNone | Some b \<Rightarrow> PDict [(''stoppable'', PBool b)]),
      (''stop_requested'', PBool (stop_requested r)),
      (''created_at'', PStr (isoformat (job_created_at r))),
      (''updated_at'', PStr (isoformat (job_updated_at r))),
      (''started_at'', of_opt_string (map_option isoformat (started_at r))),
      (''ended_at'', of_opt_string (map_option isoformat (ended_at r))),
      (''session_id'', of_opt_string (job_session_id r)),
      (''team_id'', of_opt_string (job_team_id r)),
      (''submitted_by'', of_opt_string (submitted_by r)),
      (''projection_kind'', of_opt_string (projection_kind r)),
      (''parent_run_id'', of_opt_string (parent_run_id r)),
      (''parent_turn_id'', of_opt_string (parent_turn_id r)),
      (''result'', case job_result r of None \<Rightarrow> PNone | Some d \<Rightarrow> PDict d),
      (''error'', of_opt_string (job_error r)),
      (''metadata'', PDict (job_metadata r)),
      (''sidecar_refs'', PList (map sidecar_serialize (sidecar_refs r)))]"

text \<open>The fresh id and the two clock readings of \<open>from_payload\<close> are inputs.\<close>

definition job_from_payload ::
  "(string \<Rightarrow> time option) \<Rightarrow> string \<Rightarrow> time \<Rightarrow> (string, pyval) dict \<Rightarrow> job_error + job_record" where
  "job_from_payload fromisoformat nid now p =
     rbind (coerce_job_status (py_get p ''status'')) (\<lambda>st.
     rbind (payload_sidecars (map_of p ''sidecar_refs'')) (\<lambda>scs.
     let str_or = (\<lambda>k d. py_str (py_or (py_get p k) (PStr d)));
         opt = (\<lambda>k. coerce_optional_value (py_get p k));
         dt = (\<lambda>k. coerce_datetime fromisoformat (py_get p k))
     in Inr
       \<lparr>job_id = str_or ''job_id'' nid,
        executor_kind = str_or ''executor_kind'' ''legacy'',
        job_summary = str_or ''summary'' '''',
        job_description = opt ''description'',
        job_status = (case st of None \<Rightarrow> J_PENDING | Some s \<Rightarrow> s),
        job_caps = capabilities_from_payload (py_get p ''capabilities''),
        stop_requested = coerce_bool (py_get p ''stop_requested'') False,
        job_created_at = (case dt ''created_at'' of None \<Rightarrow> now | Some t \<Rightarrow> t),
        job_updated_at = (case dt ''updated_at'' of None \<Rightarrow> now | Some t \<Rightarrow> t),
        started_at = dt ''started_at'',
        ended_at = dt ''ended_at'',
        job_session_id = opt ''session_id'',
        job_team_id = opt ''team_id'',
        submitted_by = opt ''submitted_by'',
        projection_kind = opt ''projection_kind'',
        parent_run_id = opt ''parent_run_id'',
        parent_turn_id = opt ''parent_turn_id'',
        job_result = coerce_optional_mapping (py_get p ''result''),
        job_error = opt ''error'',
        job_metadata = coerce_mapping (py_get p ''metadata''),
        sidecar_refs = scs\<rparr>))"

definition job_record_to_payload :: "(time \<Rightarrow> string) \<Rightarrow> job_record \<Rightarrow> (string, pyval) dict" where
  "job_record_to_payload isoformat r =
     [(''job_id'', PStr (job_id r)),
      (''executor_kind'', PStr (executor_kind r)),
      (''summary'', PStr (job_summary r)),
      (''description'', of_opt_string (job_description r)),
      (''status'', PStr (job_status_value (job_status r))),
      (''control'', PDict [(''stoppable'', PBool (is_stoppable r)), (''stop_requested'', PBool (stop_requested r))]),
      (''timestamps'', PDict
        [(''created_at'', PStr (isoformat (job_created_at r))), (''updated_at'', PStr (isoformat (job_updated_at r))),
         (''started_at'', of_opt_string (map_option isoformat (started_at r))),
         (''ended_at'', of_opt_string (map_option isoformat (ended_at r)))]),
      (''visibility'', PDict
        [(''session_id'', of_opt_string (job_session_id r)), (''team_id'', of_opt_string (job_team_id r)),
         (''submitted_by'', of_opt_string (submitted_by r)),
         (''projection_kind'', of_opt_string (projection_kind r))]),
      (''linkage'', PDict
        [(''parent_run_id'', of_opt_string (parent_run_id r)),
         (''parent_turn_id'', of_opt_string (parent_turn_id r))]),
      (''result'', case job_result r of None \<Rightarrow> PNone | Some d \<Rightarrow> PDict d),
      (''error'', of_opt_string (job_error r)),
      (''metadata'', PDict (job_metadata r)),
      (''sidecars'', PList (map sidecar_serialize (sidecar_refs r)))]"

subsection \<open>Patches and compat projections\<close>

text \<open>\<open>_apply_result_patch\<close>, the arguments its callers may leave out being the options \<open>caps\<close> (all
  other arguments are always passed).\<close>

definition apply_result_patch ::
  "time \<Rightarrow> job_record \<Rightarrow> job_status \<Rightarrow> job_capabilities option option \<Rightarrow> (string, pyval) dict \<Rightarrow>
   job_sidecar list \<Rightarrow> (string, pyval) dict option \<Rightarrow> string option \<Rightarrow> bool \<Rightarrow> job_record" where
  "apply_result_patch now r st caps md scs res err stop =
     r\<lparr>job_status := st,
       job_caps := (case caps of None \<Rightarrow> job_caps r | Some c \<Rightarrow> c),
       stop_requested := stop,
       job_updated_at := now,
       started_at := (if st \<in> {J_RUNNING, J_COMPLETED, J_FAILED, J_STOPPED} \<and> started_at r = None
                      then Some now else started_at r),
       ended_at := (if job_status_terminal st then Some now else ended_at r),
       job_result := res,
       job_error := coerce_optional_string err,
       job_metadata := py_update (job_metadata r) md,
       sidecar_refs := scs\<rparr>"

definition compat_executor_kind :: "(string, pyval) dict \<Rightarrow> job_record option \<Rightarrow> string" where
  "compat_executor_kind md current =
     (case coerce_optional_value (py_get md ''executor_kind'') of
        Some k \<Rightarrow> k
      | None \<Rightarrow>
          (let kind = coerce_optional_value (py_get md ''kind'') in
           if kind = Some ''background_agent'' then ''agent''
           else if kind \<in> {Some ''background_memory_extraction'', Some ''background_memory_consolidation''}
             then ''memory''
           else if kind = Some ''teammate_projection'' then ''teammate_projection''
           else case current of None \<Rightarrow> ''legacy'' | Some r \<Rightarrow> executor_kind r))"

definition compat_sidecar_refs :: "job_record option \<Rightarrow> (string, pyval) dict \<Rightarrow> job_sidecar list" where
  "compat_sidecar_refs current md =
     (let explicit = (case py_get md ''sidecars'' of PList xs \<Rightarrow> sidecars_of_items xs | _ \<Rightarrow> []);
          existing = (case current of None \<Rightarrow> [] | Some r \<Rightarrow> sidecar_refs r);
          opt = (\<lambda>k. coerce_optional_value (py_get md k))
      in if explicit \<noteq> [] then explicit
         else if opt ''kind'' = Some ''background_agent'' \<and> opt ''run_id'' \<noteq> None
           then [\<lparr>sc_kind = ''agent_run'', sc_ref = the (opt ''run_id''),
                  sc_metadata = [(''agent'', of_opt_string (opt ''agent''))]\<rparr>]
         else if opt ''kind'' = Some ''teammate_projection'' \<and> opt ''team_id'' \<noteq> None \<and>
                 opt ''teammate_id'' \<noteq> None \<and> opt ''message_id'' \<noteq> None
           then [\<lparr>sc_kind = ''teammate_projection'',
                  sc_ref = the (opt ''team_id'') @ ''/'' @ the (opt ''teammate_id'') @ ''/'' @ the (opt ''message_id''),
                  sc_metadata = [(''claim_id'', of_opt_string (opt ''claim_id''))]\<rparr>]
         else existing)"

text \<open>\<open>x or y\<close> on optional strings that are never empty.\<close>

definition opt_or :: "'a option \<Rightarrow> 'a option \<Rightarrow> 'a option" where
  "opt_or a b = (case a of None \<Rightarrow> b | Some x \<Rightarrow> Some x)"

subsection \<open>Facts about the data\<close>

lemma validate_job_transition_Inr:
  "validate_job_transition cur nxt phase jid = Inr st \<Longrightarrow>
     st = nxt \<and> (nxt = cur \<or> \<not> job_status_terminal cur \<and> nxt \<in> set (allowed_transitions phase cur))"
  by (auto simp: validate_job_transition_def split: if_splits)

lemma coerce_job_status_value [simp]: "coerce_job_status (PStr (job_status_value st)) = Inr (Some st)"
proof -
  have "\<forall>st \<in> set [J_PENDING, J_RUNNING, J_COMPLETED, J_FAILED, J_STOPPED].
      coerce_job_status (PStr (job_status_value st)) = Inr (Some st)"
    by code_simp
  then show ?thesis by (cases st) auto
qed

end
