(* ===== verification/Jobs_Service.thy ===== *)
theory Jobs_Service
  imports Jobs_Data
begin

text \<open>
  The stores and \<open>DefaultJobService\<close> of \<open>weavert/jobs.py\<close>.  An operation returns the state it leaves and
  either the exception it raises or its result, because some raise after they have changed the state.
  Where the code awaits an executor or a callback, whatever the rest of the program does to the service
  meanwhile is the parameter \<open>env\<close>; the service's own methods run between two awaits as one step.
\<close>

subsection \<open>The store protocol and the in-memory store\<close>

lemma distinct_keyed: "distinct (map f xs) \<Longrightarrow> distinct (map (\<lambda>x. (g x, f x)) xs)"
  by (induction xs) auto

locale job_store =
  fixes upsert :: "job_record \<Rightarrow> 's \<Rightarrow> 's"
    and lookup :: "string \<Rightarrow> 's \<Rightarrow> job_record option"
    and listing :: "'s \<Rightarrow> job_record list"
    and wf :: "'s \<Rightarrow> bool"
  assumes lookup_upsert: "lookup j (upsert r s) = (if j = job_id r then Some r else lookup j s)"
    and set_listing: "wf s \<Longrightarrow> set (listing s) = {r. lookup (job_id r) s = Some r}"
    and sorted_listing: "sorted (map (\<lambda>r. (job_created_at r, job_id r)) (listing s))"
    and distinct_listing: "wf s \<Longrightarrow> distinct (map job_id (listing s))"
    and lookup_id: "wf s \<Longrightarrow> lookup j s = Some r \<Longrightarrow> job_id r = j"
    and wf_upsert: "wf s \<Longrightarrow> wf (upsert r s)"
begin

lemma lookup_other: "j \<noteq> job_id r \<Longrightarrow> lookup j (upsert r s) = lookup j s"
  by (simp add: lookup_upsert)

lemma in_listing: "wf s \<Longrightarrow> lookup j s = Some r \<Longrightarrow> r \<in> set (listing s)"
  using lookup_id set_listing by fastforce

text \<open>After an upsert the listing holds the new record in place of the one with its id.\<close>

lemma set_listing_upsert:
  "wf s \<Longrightarrow> set (listing (upsert r s)) = insert r {q \<in> set (listing s). job_id q \<noteq> job_id r}"
  by (auto simp: set_listing wf_upsert lookup_upsert)

text \<open>Two listings in which the same records occur are equal: the order leaves no choice.\<close>

lemma listing_determined:
  assumes "wf s" and "wf s'" and "\<And>j. lookup j s = lookup j s'"
  shows "listing s = listing s'"
proof (rule map_sorted_distinct_set_unique [where f = "\<lambda>r. (job_created_at r, job_id r)"])
  show "inj_on (\<lambda>r. (job_created_at r, job_id r)) (set (listing s) \<union> set (listing s'))"
  proof (rule inj_onI)
    fix x y
    assume "x \<in> set (listing s) \<union> set (listing s')" "y \<in> set (listing s) \<union> set (listing s')"
    then have "lookup (job_id x) s = Some x" "lookup (job_id y) s = Some y"
      by (simp_all add: set_listing [OF assms(1)] set_listing [OF assms(2)] assms(3))
    moreover assume "(job_created_at x, job_id x) = (job_created_at y, job_id y)"
    ultimately show "x = y" by (metis option.inject prod.inject)
  qed
  show "distinct (map (\<lambda>r. (job_created_at r, job_id r)) (listing s))"
    using distinct_listing [OF assms(1)] by (rule distinct_keyed)
  show "distinct (map (\<lambda>r. (job_created_at r, job_id r)) (listing s'))"
    using distinct_listing [OF assms(2)] by (rule distinct_keyed)
  show "set (listing s) = set (listing s')" by (simp add: set_listing [OF assms(1)] set_listing [OF assms(2)] assms(3))
qed (rule sorted_listing)+

end

type_synonym mem_jobs = "(string, job_record) dict"

definition jobs_upsert :: "job_record \<Rightarrow> mem_jobs \<Rightarrow> mem_jobs" where
  "jobs_upsert r s = AList.update (job_id r) r s"

definition jobs_get :: "string \<Rightarrow> mem_jobs \<Rightarrow> job_record option" where
  "jobs_get j s = map_of s j"

definition jobs_list :: "mem_jobs \<Rightarrow> job_record list" where
  "jobs_list s = sort_key (\<lambda>r. (job_created_at r, job_id r)) (map snd s)"

definition jobs_create :: "job_record \<Rightarrow> mem_jobs \<Rightarrow> job_error + mem_jobs" where
  "jobs_create r s =
     (if map_of s (job_id r) \<noteq> None then Inl (JobExistsError (job_id r)) else Inr (jobs_upsert r s))"

text \<open>The dictionary is keyed by the ids of its records.\<close>

definition wf_jobs :: "mem_jobs \<Rightarrow> bool" where
  "wf_jobs s \<longleftrightarrow> distinct (map fst s) \<and> list_all (\<lambda>(j, r). job_id r = j) s"

lemma wf_jobs_upsert: "wf_jobs s \<Longrightarrow> wf_jobs (jobs_upsert r s)"
proof -
  assume wf: "wf_jobs s"
  have "list_all (\<lambda>(j, r). job_id r = j) (AList.update (job_id r) r s)"
    using wf unfolding wf_jobs_def
    by (induction s) (auto split: if_splits)
  with wf show ?thesis by (simp add: wf_jobs_def jobs_upsert_def)
qed

lemma wf_jobs_lookup: "wf_jobs s \<Longrightarrow> map_of s j = Some r \<Longrightarrow> job_id r = j"
  by (auto simp: wf_jobs_def list_all_iff dest: map_of_SomeD)

lemma wf_jobs_ids: "wf_jobs s \<Longrightarrow> map job_id (map snd s) = map fst s"
  by (auto simp: wf_jobs_def list_all_iff)

interpretation mem_jobs: job_store jobs_upsert jobs_get jobs_list wf_jobs
proof unfold_locales
  fix s r j
  show "jobs_get j (jobs_upsert r s) = (if j = job_id r then Some r else jobs_get j s)"
    by (simp add: jobs_get_def jobs_upsert_def dict_simps)
  show "set (jobs_list s) = {r. jobs_get (job_id r) s = Some r}" if "wf_jobs s"
    using that by (auto simp: jobs_list_def jobs_get_def wf_jobs_def list_all_iff)
      (metis (no_types, lifting) map_of_SomeD snd_conv image_eqI)
  show "sorted (map (\<lambda>r. (job_created_at r, job_id r)) (jobs_list s))"
    by (simp add: jobs_list_def)
  show "distinct (map job_id (jobs_list s))" if "wf_jobs s"
  proof -
    have "mset (map job_id (jobs_list s)) = mset (map job_id (map snd s))"
      by (simp add: jobs_list_def image_mset.compositionality comp_def)
    with that show ?thesis
      unfolding wf_jobs_ids [OF that] by (metis mset_eq_imp_distinct_iff wf_jobs_def)
  qed
  show "job_id r = j" if "wf_jobs s" "jobs_get j s = Some r"
    using that wf_jobs_lookup by (simp add: jobs_get_def)
  show "wf_jobs (jobs_upsert r s)" if "wf_jobs s" using that by (rule wf_jobs_upsert)
qed

subsection \<open>The executor registry\<close>

record 'e executor_registry =
  executors :: "(string, 'e) dict"
  builtins :: "string list"

definition register_executor ::
  "string option \<Rightarrow> 'e \<Rightarrow> bool \<Rightarrow> bool \<Rightarrow> 'e executor_registry \<Rightarrow>
   job_error + 'e option \<times> 'e executor_registry" where
  "register_executor kind ex builtin override reg =
     (case coerce_optional_string kind of
        None \<Rightarrow> Inl (JobNonEmptyError ''executor_kind'')
      | Some k \<Rightarrow>
          (let previous = map_of (executors reg) k in
           if previous \<noteq> None \<and> \<not> override then Inl (JobExecutorRegisteredError k)
           else Inr (previous,
                  reg\<lparr>executors := AList.update k ex (executors reg),
                      builtins := (if builtin then List.insert k (builtins reg) else builtins reg)\<rparr>)))"

definition get_executor :: "string \<Rightarrow> 'e executor_registry \<Rightarrow> 'e option" where
  "get_executor kind reg = map_of (executors reg) kind"

definition unregister_executor ::
  "string \<Rightarrow> 'e executor_registry \<Rightarrow> 'e option \<times> 'e executor_registry" where
  "unregister_executor kind reg =
     (map_of (executors reg) kind,
      reg\<lparr>builtins := removeAll kind (builtins reg), executors := AList.delete kind (executors reg)\<rparr>)"

definition executor_kinds :: "'e executor_registry \<Rightarrow> string list" where
  "executor_kinds reg = sort (map fst (executors reg))"

definition is_builtin_executor :: "string \<Rightarrow> 'e executor_registry \<Rightarrow> bool" where
  "is_builtin_executor kind reg \<longleftrightarrow> kind \<in> set (builtins reg)"

subsection \<open>The service\<close>

text \<open>A watcher: its scope, whether its event loop is closed, and whether its callback (awaited when it
  returns an awaitable) returns or raises on a snapshot.\<close>

record job_watcher =
  jw_scope :: "job_scope_filter option"
  jw_loop_closed :: bool
  jw_callback :: "job_record list \<Rightarrow> bool"

text \<open>\<open>pending_notifications\<close> are the calls handed to the event loops and not yet run.\<close>

record 'e job_service =
  jobs :: mem_jobs
  registry :: "'e executor_registry"
  bound :: bool
  job_watchers :: "(string, job_watcher) dict"
  pending_notifications :: "(string \<times> job_record list) list"
  compat_handlers :: "string list"

definition get_sync :: "string \<Rightarrow> job_scope_filter option \<Rightarrow> 'e job_service \<Rightarrow> job_record option" where
  "get_sync j scope s =
     (case jobs_get j (jobs s) of
        None \<Rightarrow> None
      | Some r \<Rightarrow> if scope_allows scope r then Some r else None)"

definition list_sync :: "job_scope_filter option \<Rightarrow> 'e job_service \<Rightarrow> job_record list" where
  "list_sync scope s = filter (scope_allows scope) (jobs_list (jobs s))"

definition schedule_watch_notifications :: "'e job_service \<Rightarrow> 'e job_service" where
  "schedule_watch_notifications s =
     s\<lparr>job_watchers := filter (\<lambda>(w, reg). \<not> jw_loop_closed reg) (job_watchers s),
       pending_notifications := pending_notifications s @
         map (\<lambda>(w, reg). (w, filter (scope_allows (jw_scope reg)) (jobs_list (jobs s))))
           (filter (\<lambda>(w, reg). \<not> jw_loop_closed reg) (job_watchers s))\<rparr>"

definition dispatch_watcher_notification :: "'e job_service \<Rightarrow> 'e job_service" where
  "dispatch_watcher_notification s =
     (case pending_notifications s of
        [] \<Rightarrow> s
      | (w, snap) # rest \<Rightarrow>
          (let s1 = s\<lparr>pending_notifications := rest\<rparr> in
           case map_of (job_watchers s) w of
             None \<Rightarrow> s1
           | Some reg \<Rightarrow>
               if jw_callback reg snap then s1
               else s1\<lparr>job_watchers := AList.delete w (job_watchers s)\<rparr>))"

definition upsert_record :: "bool \<Rightarrow> job_record \<Rightarrow> 'e job_service \<Rightarrow> 'e job_service" where
  "upsert_record notify r s =
     (let s1 = s\<lparr>jobs := jobs_upsert r (jobs s)\<rparr>
      in if notify then schedule_watch_notifications s1 else s1)"

definition watch_jobs ::
  "string \<Rightarrow> job_watcher \<Rightarrow> 'e job_service \<Rightarrow> 'e job_service \<times> bool" where
  "watch_jobs w reg s =
     (let s1 = s\<lparr>job_watchers := AList.update w reg (job_watchers s)\<rparr>
      in if jw_callback reg (list_sync (jw_scope reg) s1) then (s1, True)
         else (s1\<lparr>job_watchers := AList.delete w (job_watchers s1)\<rparr>, False))"

definition unsubscribe_jobs :: "string \<Rightarrow> 'e job_service \<Rightarrow> 'e job_service" where
  "unsubscribe_jobs w s = s\<lparr>job_watchers := AList.delete w (job_watchers s)\<rparr>"

type_synonym ('e, 'r) job_call = "'e job_service \<Rightarrow> 'e job_service \<times> (job_error + 'r)"

subsection \<open>Compat operations\<close>

definition create_or_update_compat ::
  "time \<Rightarrow> string \<Rightarrow> string \<Rightarrow> string option \<Rightarrow> (string, pyval) dict \<Rightarrow> ('e, job_record) job_call" where
  "create_or_update_compat now j summary desc md s =
     (let existing = get_sync j None s;
          opt = (\<lambda>k. coerce_optional_value (py_get md k));
          opt2 = (\<lambda>k l. coerce_optional_value (py_or (py_get md k) (py_get md l)));
          r = \<lparr>job_id = j, executor_kind = compat_executor_kind md None, job_summary = summary,
               job_description = desc, job_status = J_PENDING,
               job_caps = Some (j \<in> set (compat_handlers s)), stop_requested = False,
               job_created_at = (case existing of None \<Rightarrow> now | Some e \<Rightarrow> job_created_at e),
               job_updated_at = now,
               started_at = (case existing of None \<Rightarrow> None | Some e \<Rightarrow> started_at e),
               ended_at = (case existing of None \<Rightarrow> None | Some e \<Rightarrow> ended_at e),
               job_session_id = opt ''session_id'', job_team_id = opt ''team_id'',
               submitted_by = opt2 ''submitted_by'' ''agent'',
               projection_kind = opt2 ''projection_kind'' ''kind'',
               parent_run_id = opt ''run_id'', parent_turn_id = opt ''turn_id'',
               job_result = (case existing of None \<Rightarrow> None | Some e \<Rightarrow> job_result e),
               job_error = (case existing of None \<Rightarrow> None | Some e \<Rightarrow> job_error e),
               job_metadata = md, sidecar_refs = compat_sidecar_refs existing md\<rparr>
      in (upsert_record True r s, Inr r))"

text \<open>The keyword arguments of \<open>update_compat\<close>; \<open>None\<close> on the outside is the \<open>_MISSING\<close> default.\<close>

record compat_update =
  cu_status :: "job_status option"
  cu_description :: "string option option"
  cu_result :: "pyval option"
  cu_error :: "string option option"
  cu_metadata :: "(string, pyval) dict"
  cu_stop_requested :: "bool option"

definition compat_updated_record ::
  "time \<Rightarrow> bool \<Rightarrow> job_status \<Rightarrow> compat_update \<Rightarrow> job_record \<Rightarrow> job_record" where
  "compat_updated_record now stoppable st u r =
     (let md = py_update (job_metadata r) (cu_metadata u);
          opt = (\<lambda>k. coerce_optional_value (py_get md k));
          opt2 = (\<lambda>k l. coerce_optional_value (py_or (py_get md k) (py_get md l)))
      in r\<lparr>executor_kind := compat_executor_kind md (Some r),
           job_description := (case cu_description u of None \<Rightarrow> job_description r
                                                      | Some d \<Rightarrow> coerce_optional_string d),
           job_status := st,
           job_caps := Some stoppable,
           stop_requested := (case cu_stop_requested u of None \<Rightarrow> stop_requested r | Some b \<Rightarrow> b),
           job_updated_at := now,
           started_at := (if st \<in> {J_RUNNING, J_COMPLETED, J_FAILED, J_STOPPED} \<and> started_at r = None
                          then Some now else started_at r),
           ended_at := (if job_status_terminal st then Some now else ended_at r),
           job_session_id := opt_or (opt ''session_id'') (job_session_id r),
           job_team_id := opt_or (opt ''team_id'') (job_team_id r),
           submitted_by := opt_or (opt2 ''submitted_by'' ''agent'') (submitted_by r),
           projection_kind := opt_or (opt2 ''projection_kind'' ''kind'') (projection_kind r),
           parent_run_id := opt_or (opt ''run_id'') (parent_run_id r),
           parent_turn_id := opt_or (opt ''turn_id'') (parent_turn_id r),
           job_result := (case cu_result u of None \<Rightarrow> job_result r | Some v \<Rightarrow> coerce_optional_mapping v),
           job_error := (case cu_error u of None \<Rightarrow> job_error r | Some e \<Rightarrow> coerce_optional_string e),
           job_metadata := md,
           sidecar_refs := compat_sidecar_refs (Some r) md\<rparr>)"

definition update_compat :: "time \<Rightarrow> string \<Rightarrow> compat_update \<Rightarrow> ('e, job_record) job_call" where
  "update_compat now j u s =
     (case get_sync j None s of
        None \<Rightarrow> (s, Inl (JobKeyError j))
      | Some r \<Rightarrow>
          (case (case cu_status u of
                   None \<Rightarrow> Inr (job_status r)
                 | Some st \<Rightarrow> validate_job_transition (job_status r) st ''compat'' (job_id r)) of
             Inl e \<Rightarrow> (s, Inl e)
           | Inr st \<Rightarrow>
               (let r' = compat_updated_record now (j \<in> set (compat_handlers s)) st u r
                in (upsert_record True r' s, Inr r'))))"

definition register_compat_stop_handler :: "string \<Rightarrow> 'e job_service \<Rightarrow> 'e job_service" where
  "register_compat_stop_handler j s =
     (let s1 = s\<lparr>compat_handlers := List.insert j (compat_handlers s)\<rparr>
      in case get_sync j None s1 of
           None \<Rightarrow> s1
         | Some r \<Rightarrow> if is_stoppable r then s1 else upsert_record True (r\<lparr>job_caps := Some True\<rparr>) s1)"

definition unregister_compat_stop_handler :: "string \<Rightarrow> 'e job_service \<Rightarrow> 'e job_service" where
  "unregister_compat_stop_handler j s = s\<lparr>compat_handlers := removeAll j (compat_handlers s)\<rparr>"

subsection \<open>Executor results\<close>

definition apply_transition ::
  "string \<Rightarrow> string \<Rightarrow> job_status \<Rightarrow> (job_record \<Rightarrow> job_record) \<Rightarrow> ('e, job_record) job_call" where
  "apply_transition phase j st patch s =
     (case get_sync j None s of
        None \<Rightarrow> (s, Inl (JobKeyError j))
      | Some r \<Rightarrow>
          (case validate_job_transition (job_status r) st phase j of
             Inl e \<Rightarrow> (s, Inl e)
           | Inr st' \<Rightarrow> (let r' = patch r in (upsert_record True r' s, Inr r'))))"

definition apply_start_result :: "time \<Rightarrow> string \<Rightarrow> job_start_result \<Rightarrow> ('e, job_record) job_call" where
  "apply_start_result now j res =
     apply_transition ''start'' j (sr_status res) (\<lambda>r.
       apply_result_patch now r (sr_status res) (Some (sr_capabilities res)) (sr_metadata res)
         (if sr_sidecar_refs res \<noteq> [] then sr_sidecar_refs res else sidecar_refs r)
         (sr_result res) (sr_error res) (stop_requested r))"

definition apply_stop_result :: "time \<Rightarrow> string \<Rightarrow> job_stop_result \<Rightarrow> ('e, job_record) job_call" where
  "apply_stop_result now j res =
     apply_transition ''stop'' j (st_status res) (\<lambda>r.
       apply_result_patch now r (st_status res) None (st_metadata res)
         (if st_sidecar_refs res \<noteq> [] then st_sidecar_refs res else sidecar_refs r)
         (st_result res) (st_error res) (st_stop_requested res))"

definition apply_recovery_result :: "time \<Rightarrow> string \<Rightarrow> job_recovery_result \<Rightarrow> ('e, job_record) job_call" where
  "apply_recovery_result now j res =
     apply_transition ''recovery'' j (sr_status res) (\<lambda>r.
       apply_result_patch now r (sr_status res) (Some (sr_capabilities res)) (sr_metadata res)
         (if sr_sidecar_refs res \<noteq> [] then sr_sidecar_refs res else sidecar_refs r)
         (sr_result res) (sr_error res) (stop_requested r))"

subsection \<open>submit\<close>

definition pending_record :: "time \<Rightarrow> string \<Rightarrow> job_submit_request \<Rightarrow> job_record" where
  "pending_record now j rq =
     \<lparr>job_id = j, executor_kind = rq_executor_kind rq, job_summary = rq_summary rq,
      job_description = rq_description rq, job_status = J_PENDING, job_caps = rq_capabilities rq,
      stop_requested = False, job_created_at = now, job_updated_at = now, started_at = None,
      ended_at = None, job_session_id = rq_session_id rq, job_team_id = rq_team_id rq,
      submitted_by = rq_submitted_by rq, projection_kind = rq_projection_kind rq,
      parent_run_id = rq_parent_run_id rq, parent_turn_id = rq_parent_turn_id rq, job_result = None,
      job_error = None, job_metadata = rq_metadata rq, sidecar_refs = rq_sidecar_refs rq\<rparr>"

text \<open>Up to the \<open>await\<close>: the job id, or the exception.\<close>

definition submit_begin ::
  "time \<Rightarrow> string \<Rightarrow> bool \<Rightarrow> job_submit_request \<Rightarrow> ('e, string) job_call" where
  "submit_begin now nid has_context rq s =
     (if get_executor (rq_executor_kind rq) (registry s) = None
      then (s, Inl (JobExecutorResolutionError (rq_executor_kind rq)))
      else if \<not> has_context \<and> \<not> bound s then (s, Inl JobUnboundError)
      else
        let j = (case requested_job_id rq of None \<Rightarrow> nid | Some i \<Rightarrow> if i = [] then nid else i)
        in (upsert_record False (pending_record now j rq) s, Inr j))"

text \<open>After the \<open>await\<close>: the executor raised (with the text of its exception), or returned.\<close>

definition submit_finish ::
  "time \<Rightarrow> string \<Rightarrow> job_capabilities option \<Rightarrow> string + job_start_result \<Rightarrow> ('e, job_record) job_call" where
  "submit_finish now j caps outcome s =
     (case outcome of
        Inl msg \<Rightarrow>
          (case apply_start_result now j
                  \<lparr>sr_status = J_FAILED, sr_capabilities = caps,
                   sr_metadata = [(''submit_failed'', PBool True)], sr_sidecar_refs = [],
                   sr_result = None, sr_error = Some msg\<rparr> s of
             (s', Inl e) \<Rightarrow> (s', Inl e)
           | (s', Inr r) \<Rightarrow> (s', Inl (JobExecutorException msg)))
      | Inr res \<Rightarrow> apply_start_result now j res s)"

definition submit ::
  "('e job_service \<Rightarrow> 'e job_service) \<Rightarrow> string + job_start_result \<Rightarrow> time \<Rightarrow> time \<Rightarrow> string \<Rightarrow> bool \<Rightarrow>
   job_submit_request \<Rightarrow> ('e, job_record) job_call" where
  "submit env outcome now1 now2 nid has_context rq s =
     (case submit_begin now1 nid has_context rq s of
        (s1, Inl e) \<Rightarrow> (s1, Inl e)
      | (s1, Inr j) \<Rightarrow> submit_finish now2 j (rq_capabilities rq) outcome (env s1))"

subsection \<open>stop\<close>

definition stop_result :: "job_status \<Rightarrow> job_stop_result" where
  "stop_result st = \<lparr>st_status = st, st_stop_requested = True, st_metadata = [], st_sidecar_refs = [],
     st_result = None, st_error = None\<rparr>"

text \<open>The checks before anything is awaited, as the record to stop.\<close>

definition stop_checks ::
  "string \<Rightarrow> job_scope_filter option \<Rightarrow> 'e job_service \<Rightarrow> job_error + job_record" where
  "stop_checks j scope s =
     (case get_sync j scope s of
        None \<Rightarrow> Inl (JobStopNotFoundError j)
      | Some r \<Rightarrow>
          if job_status r \<notin> {J_PENDING, J_RUNNING} then Inl (JobNotRunningError j (job_status r))
          else if \<not> is_stoppable r then Inl (JobNotStoppableError j)
          else Inr r)"

text \<open>The compat handler's turn, after the stop has been accepted: it raises (\<open>Some\<close> the text of the
  exception) or returns, and the job is read again.\<close>

definition stop_after_handler ::
  "time \<Rightarrow> string \<Rightarrow> job_record \<Rightarrow> string option \<Rightarrow> ('e, job_record) job_call" where
  "stop_after_handler now j accepted raised s =
     (case raised of
        Some msg \<Rightarrow> (s, Inl (JobExecutorException msg))
      | None \<Rightarrow>
          (case get_sync j None s of
             None \<Rightarrow> (s, Inr accepted)
           | Some r \<Rightarrow>
               if job_status r = J_RUNNING then apply_stop_result now j (stop_result J_STOPPED) s
               else (s, Inr r)))"

definition stop_job ::
  "('e job_service \<Rightarrow> 'e job_service) \<Rightarrow> string + job_stop_result \<Rightarrow> string option \<Rightarrow> time \<Rightarrow> time \<Rightarrow>
   string \<Rightarrow> job_scope_filter option \<Rightarrow> ('e, job_record) job_call" where
  "stop_job env outcome raised now1 now2 j scope s =
     (case stop_checks j scope s of
        Inl e \<Rightarrow> (s, Inl e)
      | Inr r \<Rightarrow>
          (let executor = get_executor (executor_kind r) (registry s);
               handler = (j \<in> set (compat_handlers s))
           in if executor = None \<and> \<not> handler
              then (upsert_record True (r\<lparr>job_caps := Some False\<rparr>) s, Inl (JobNotStoppableError j))
              else if executor \<noteq> None
              then (if \<not> bound s then (s, Inl JobUnboundError)
                    else case outcome of
                           Inl msg \<Rightarrow> (env s, Inl (JobExecutorException msg))
                         | Inr res \<Rightarrow> apply_stop_result now2 j res (env s))
              else
                (case apply_stop_result now1 j
                        (stop_result (if job_status r = J_RUNNING then job_status r else J_STOPPED)) s of
                   (s1, Inl e) \<Rightarrow> (s1, Inl e)
                 | (s1, Inr accepted) \<Rightarrow> stop_after_handler now2 j accepted raised (env s1))))"

subsection \<open>recover\<close>

text \<open>The records are those listed when the call starts.  For each, \<open>env j\<close> is what happens to the service
  during the await, and \<open>outcome j\<close> what the executor's \<open>recover\<close> raises or returns.\<close>

fun recover_records ::
  "(string \<Rightarrow> 'e job_service \<Rightarrow> 'e job_service) \<Rightarrow> (string \<Rightarrow> string + job_recovery_result option) \<Rightarrow>
   time \<Rightarrow> job_record list \<Rightarrow> ('e, job_record list) job_call" where
  "recover_records env outcome now [] s = (s, Inr [])"
| "recover_records env outcome now (r # rs) s =
     (if job_status r \<noteq> J_RUNNING then recover_records env outcome now rs s
      else if get_executor (executor_kind r) (registry s) = None then recover_records env outcome now rs s
      else if \<not> bound s then (s, Inl JobUnboundError)
      else
        let s1 = env (job_id r) s in
        case outcome (job_id r) of
          Inl msg \<Rightarrow> (s1, Inl (JobExecutorException msg))
        | Inr None \<Rightarrow> recover_records env outcome now rs s1
        | Inr (Some res) \<Rightarrow>
            (case apply_recovery_result now (job_id r) res s1 of
               (s2, Inl e) \<Rightarrow> (s2, Inl e)
             | (s2, Inr r') \<Rightarrow>
                 (case recover_records env outcome now rs s2 of
                    (s3, Inl e) \<Rightarrow> (s3, Inl e)
                  | (s3, Inr out) \<Rightarrow> (s3, Inr (r' # out)))))"

definition recover_inflight ::
  "(string \<Rightarrow> 'e job_service \<Rightarrow> 'e job_service) \<Rightarrow> (string \<Rightarrow> string + job_recovery_result option) \<Rightarrow>
   time \<Rightarrow> ('e, job_record list) job_call" where
  "recover_inflight env outcome now s = recover_records env outcome now (list_sync None s) s"

end
