(* ===== verification/Jobs_Props.thy ===== *)
theory Jobs_Props
  imports Jobs_Service
begin

text \<open>
  The properties of the job service: the life of a job under every interleaving of the service's steps,
  the outcomes of \<open>submit\<close>, \<open>stop\<close> and \<open>recover_inflight\<close>, visibility, notifications, and the payload
  codec.
\<close>

subsection \<open>Steps of the service\<close>

text \<open>The atomic steps: what runs between two awaits.  \<open>submit\<close> and \<open>create_or_update_compat\<close> are taken
  on an id that is not in the store.\<close>

inductive job_step :: "'e job_service \<Rightarrow> 'e job_service \<Rightarrow> bool" where
  begun: "submit_begin now nid ctx rq s = (s', Inr j) \<Longrightarrow> jobs_get j (jobs s) = None \<Longrightarrow> job_step s s'"
| started: "apply_start_result now j res s = (s', x) \<Longrightarrow> job_step s s'"
| stopped: "apply_stop_result now j sres s = (s', x) \<Longrightarrow> job_step s s'"
| recovered: "apply_recovery_result now j res s = (s', x) \<Longrightarrow> job_step s s'"
| created: "create_or_update_compat now j summary desc md s = (s', x) \<Longrightarrow> jobs_get j (jobs s) = None \<Longrightarrow>
    job_step s s'"
| updated: "update_compat now j u s = (s', x) \<Longrightarrow> job_step s s'"
| handler_on: "job_step s (register_compat_stop_handler j s)"
| handler_off: "job_step s (unregister_compat_stop_handler j s)"
| unstoppable: "jobs_get j (jobs s) = Some r \<Longrightarrow>
    job_step s (upsert_record True (r\<lparr>job_caps := Some False\<rparr>) s)"
| watch: "job_step s (fst (watch_jobs w reg s))"
| unsubscribe: "job_step s (unsubscribe_jobs w s)"
| dispatch: "job_step s (dispatch_watcher_notification s)"
| environment: "job_step s (s\<lparr>registry := rg, bound := b\<rparr>)"

inductive_simps job_step_simps: "job_step s s'"

definition job_empty :: "'e executor_registry \<Rightarrow> bool \<Rightarrow> 'e job_service" where
  "job_empty rg b = \<lparr>jobs = [], registry = rg, bound = b, job_watchers = [],
     pending_notifications = [], compat_handlers = []\<rparr>"

lemma jobs_upsert_record [simp]: "jobs (upsert_record notify r s) = jobs_upsert r (jobs s)"
  by (simp add: upsert_record_def schedule_watch_notifications_def Let_def)

lemma jobs_other_steps [simp]:
  "jobs (dispatch_watcher_notification s) = jobs s" "jobs (unsubscribe_jobs w s) = jobs s"
  "jobs (fst (watch_jobs w reg s)) = jobs s" "jobs (unregister_compat_stop_handler j s) = jobs s"
  by (simp_all add: dispatch_watcher_notification_def unsubscribe_jobs_def watch_jobs_def Let_def
      unregister_compat_stop_handler_def split: list.splits option.splits prod.splits)

lemma get_sync_None [simp]: "get_sync j None s = jobs_get j (jobs s)"
  by (simp add: get_sync_def scope_allows_def split: option.splits)

lemma apply_transition_cases:
  assumes "apply_transition phase j st patch s = (s', x)"
  shows "s' = s \<and> (\<exists>e. x = Inl e) \<or>
    (\<exists>r. jobs_get j (jobs s) = Some r \<and> validate_job_transition (job_status r) st phase j = Inr st \<and>
       s' = upsert_record True (patch r) s \<and> x = Inr (patch r))"
  using assms
  by (auto simp: apply_transition_def Let_def split: option.splits sum.splits dest: validate_job_transition_Inr)

fun status_rank :: "job_status \<Rightarrow> nat" where
  "status_rank J_PENDING = 0"
| "status_rank J_RUNNING = 1"
| "status_rank st = 2"

text \<open>How a record may change: forward only, with its creation time and its first start time kept.\<close>

definition advances :: "job_record \<Rightarrow> job_record \<Rightarrow> bool" where
  "advances r r' \<longleftrightarrow>
     (job_status r' = job_status r \<or>
      \<not> job_status_terminal (job_status r) \<and> status_rank (job_status r) < status_rank (job_status r')) \<and>
     job_created_at r' = job_created_at r \<and>
     (started_at r \<noteq> None \<longrightarrow> started_at r' = started_at r)"

definition stamped :: "job_record \<Rightarrow> bool" where
  "stamped r \<longleftrightarrow>
     (job_status r \<noteq> J_PENDING \<longrightarrow> started_at r \<noteq> None) \<and>
     (job_status_terminal (job_status r) \<longrightarrow> ended_at r \<noteq> None)"

lemma stamped_pending: "job_status r = J_PENDING \<Longrightarrow> stamped r"
  by (simp add: stamped_def job_status_terminal_def)

lemma validate_advances:
  "validate_job_transition cur nxt phase j = Inr st \<Longrightarrow>
     st = cur \<or> \<not> job_status_terminal cur \<and> status_rank cur < status_rank st"
  by (cases cur; cases nxt)
    (auto simp: validate_job_transition_def allowed_transitions_def job_status_terminal_def split: if_splits)

lemma patch_advances:
  assumes "validate_job_transition (job_status r) st phase j = Inr st"
  shows "advances r (apply_result_patch now r st caps md scs res err stop) \<and>
    stamped (apply_result_patch now r st caps md scs res err stop) \<and>
    job_id (apply_result_patch now r st caps md scs res err stop) = job_id r"
  using validate_advances [OF assms]
  by (cases st) (auto simp: advances_def stamped_def apply_result_patch_def job_status_terminal_def)

lemma compat_advances:
  assumes "validate_job_transition (job_status r) st phase j = Inr st"
  shows "advances r (compat_updated_record now b st u r) \<and> stamped (compat_updated_record now b st u r) \<and>
    job_id (compat_updated_record now b st u r) = job_id r"
  using validate_advances [OF assms]
  by (cases st) (auto simp: advances_def stamped_def compat_updated_record_def Let_def job_status_terminal_def)

lemma advances_refl [simp]: "advances r r"
  by (simp add: advances_def)

lemma advances_trans: "advances r r' \<Longrightarrow> advances r' r'' \<Longrightarrow> advances r r''"
  by (auto simp: advances_def)

text \<open>What a step does to the store: nothing, one new job, or one job replaced by a later version.\<close>

definition store_step :: "mem_jobs \<Rightarrow> mem_jobs \<Rightarrow> bool" where
  "store_step m m' \<longleftrightarrow>
     m' = m \<or>
     (\<exists>r. m' = jobs_upsert r m \<and> jobs_get (job_id r) m = None \<and> job_status r = J_PENDING) \<or>
     (\<exists>r r'. m' = jobs_upsert r' m \<and> jobs_get (job_id r') m = Some r \<and> advances r r' \<and>
        (stamped r \<longrightarrow> stamped r'))"

lemma store_step_refl [simp]: "store_step m m"
  by (simp add: store_step_def)

lemma store_step_replace:
  "jobs_get (job_id r') m = Some r \<Longrightarrow> advances r r' \<Longrightarrow> (stamped r \<Longrightarrow> stamped r') \<Longrightarrow>
     store_step m (jobs_upsert r' m)"
  by (auto simp: store_step_def)

lemma store_step_transition:
  assumes "apply_transition phase j st patch s = (s', x)" and "wf_jobs (jobs s)"
    and "\<And>r. validate_job_transition (job_status r) st phase j = Inr st \<Longrightarrow>
      advances r (patch r) \<and> stamped (patch r) \<and> job_id (patch r) = job_id r"
  shows "store_step (jobs s) (jobs s')"
  using apply_transition_cases [OF assms(1)]
proof (elim disjE exE conjE)
  fix r
  assume r: "jobs_get j (jobs s) = Some r" and v: "validate_job_transition (job_status r) st phase j = Inr st"
    and s': "s' = upsert_record True (patch r) s"
  have "job_id r = j" using mem_jobs.lookup_id [OF assms(2) r] .
  with r s' assms(3) [OF v] show ?thesis by (auto intro!: store_step_replace [where r = r])
qed simp_all

lemma job_step_store:
  assumes "job_step s s'" and wf: "wf_jobs (jobs s)"
  shows "store_step (jobs s) (jobs s')"
  using assms(1)
proof cases
  case (begun now nid ctx rq j)
  then show ?thesis
    by (auto simp: submit_begin_def Let_def store_step_def pending_record_def split: if_splits option.splits)
next
  case (started now j res x)
  then show ?thesis
    unfolding apply_start_result_def by (rule store_step_transition [OF _ wf]) (rule patch_advances)
next
  case (stopped now j sres x)
  then show ?thesis
    unfolding apply_stop_result_def by (rule store_step_transition [OF _ wf]) (rule patch_advances)
next
  case (recovered now j res x)
  then show ?thesis
    unfolding apply_recovery_result_def by (rule store_step_transition [OF _ wf]) (rule patch_advances)
next
  case (created now j summary desc md x)
  then show ?thesis by (auto simp: create_or_update_compat_def Let_def store_step_def)
next
  case (updated now j u x)
  show ?thesis
  proof (cases "jobs_get j (jobs s)")
    case None
    with updated show ?thesis by (simp add: update_compat_def)
  next
    case (Some r)
    have id: "job_id r = j" using mem_jobs.lookup_id [OF wf Some] .
    show ?thesis
    proof (cases "case cu_status u of None \<Rightarrow> Inr (job_status r)
        | Some st \<Rightarrow> validate_job_transition (job_status r) st ''compat'' (job_id r)")
      case (Inl e)
      with updated Some Inl show ?thesis by (simp add: update_compat_def)
    next
      case (Inr st)
      have "validate_job_transition (job_status r) st ''compat'' j = Inr st"
        using Inr id
        by (auto simp: validate_job_transition_def split: option.splits if_splits)
      from compat_advances [OF this] have
        "store_step (jobs s) (jobs_upsert (compat_updated_record now (j \<in> set (compat_handlers s)) st u r) (jobs s))"
        using Some id by (intro store_step_replace [where r = r]) auto
      with updated Some Inr show ?thesis by (auto simp: update_compat_def Let_def)
    qed
  qed
next
  case (handler_on j)
  then show ?thesis
    using mem_jobs.lookup_id [OF wf]
    by (auto simp: register_compat_stop_handler_def Let_def advances_def stamped_def
        split: option.splits intro!: store_step_replace)
next
  case (unstoppable j r)
  then show ?thesis
    using mem_jobs.lookup_id [OF wf]
    by (auto simp: advances_def stamped_def intro!: store_step_replace [where r = r])
qed simp_all

lemma store_step_lookup:
  assumes "store_step m m'" and "jobs_get j m = Some r"
  shows "\<exists>r'. jobs_get j m' = Some r' \<and> advances r r'"
  using assms
  by (auto simp: store_step_def mem_jobs.lookup_upsert)

lemma wf_store_step: "store_step m m' \<Longrightarrow> wf_jobs m \<Longrightarrow> wf_jobs m'"
  by (auto simp: store_step_def wf_jobs_upsert)

lemma job_steps_advance:
  assumes "job_step\<^sup>*\<^sup>* s s'" and "wf_jobs (jobs s)" and "jobs_get j (jobs s) = Some r"
  shows "wf_jobs (jobs s') \<and> (\<exists>r'. jobs_get j (jobs s') = Some r' \<and> advances r r')"
  using assms(1)
proof (induction rule: rtranclp_induct)
  case base
  with assms(2,3) show ?case by simp
next
  case (step s1 s2)
  then obtain r1 where "jobs_get j (jobs s1) = Some r1" "advances r r1" and wf: "wf_jobs (jobs s1)" by auto
  moreover have "store_step (jobs s1) (jobs s2)" using step.hyps(2) wf by (rule job_step_store)
  ultimately show ?case
    using store_step_lookup wf_store_step by (meson advances_trans)
qed

subsection \<open>A job to try the properties on\<close>

definition demo_request :: job_submit_request where
  "demo_request = \<lparr>rq_executor_kind = ''agent'', rq_summary = ''run'', rq_description = None,
     rq_session_id = Some ''s1'', rq_team_id = None, rq_submitted_by = None, rq_projection_kind = None,
     rq_parent_run_id = None, rq_parent_turn_id = None, requested_job_id = Some ''j1'',
     rq_metadata = [], rq_capabilities = Some True, rq_sidecar_refs = []\<rparr>"

definition demo_start :: "job_status \<Rightarrow> job_start_result" where
  "demo_start st = \<lparr>sr_status = st, sr_capabilities = Some True, sr_metadata = [], sr_sidecar_refs = [],
     sr_result = None, sr_error = None\<rparr>"

definition demo_jobs :: "unit job_service" where
  "demo_jobs = job_empty \<lparr>executors = [(''agent'', ())], builtins = []\<rparr> True"

definition demo_pending :: "unit job_service" where
  "demo_pending = fst (submit_begin 1 ''x'' True demo_request demo_jobs)"

definition demo_running :: "unit job_service" where
  "demo_running = fst (apply_start_result 2 ''j1'' (demo_start J_RUNNING) demo_pending)"

definition demo_stopped :: "unit job_service" where
  "demo_stopped = fst (apply_stop_result 3 ''j1'' (stop_result J_STOPPED) demo_running)"

lemma demo_job_steps: "job_step\<^sup>*\<^sup>* demo_jobs demo_pending" "job_step\<^sup>*\<^sup>* demo_pending demo_running"
  "job_step\<^sup>*\<^sup>* demo_running demo_stopped"
proof -
  have "submit_begin 1 ''x'' True demo_request demo_jobs = (demo_pending, Inr ''j1'')"
    by (simp add: demo_pending_def submit_begin_def demo_request_def demo_jobs_def job_empty_def
        get_executor_def Let_def)
  moreover have "jobs_get ''j1'' (jobs demo_jobs) = None"
    by (simp add: demo_jobs_def job_empty_def jobs_get_def)
  ultimately show "job_step\<^sup>*\<^sup>* demo_jobs demo_pending" by (blast intro: job_step.begun)
  show "job_step\<^sup>*\<^sup>* demo_pending demo_running"
    unfolding demo_running_def by (rule r_into_rtranclp) (rule job_step.started, rule prod.collapse [symmetric])
  show "job_step\<^sup>*\<^sup>* demo_running demo_stopped"
    unfolding demo_stopped_def by (rule r_into_rtranclp) (rule job_step.stopped, rule prod.collapse [symmetric])
qed

lemma demo_job_lookups:
  "wf_jobs (jobs demo_jobs)" "wf_jobs (jobs demo_pending)" "wf_jobs (jobs demo_running)"
  "map_option job_status (jobs_get ''j1'' (jobs demo_pending)) = Some J_PENDING"
  "map_option job_status (jobs_get ''j1'' (jobs demo_running)) = Some J_RUNNING"
  "map_option job_status (jobs_get ''j1'' (jobs demo_stopped)) = Some J_STOPPED"
  by code_simp+

subsection \<open>The life of a job\<close>



text \<open>in every state the steps reach from an empty store, the store is keyed by job id, a job that
  left the pending state has a start time, and a terminal one an end time.\<close>

theorem job_timestamps:
  assumes "job_step\<^sup>*\<^sup>* (job_empty rg b) s" and "jobs_get j (jobs s) = Some r"
  shows "job_id r = j \<and> stamped r"
proof -
  have "wf_jobs (jobs s) \<and> (\<forall>j r. jobs_get j (jobs s) = Some r \<longrightarrow> stamped r)"
    using assms(1)
  proof (induction rule: rtranclp_induct)
    case base
    show ?case by (simp add: job_empty_def wf_jobs_def jobs_get_def)
  next
    case (step s1 s2)
    then have st: "store_step (jobs s1) (jobs s2)" by (blast intro: job_step_store)
    then have "\<forall>j r. jobs_get j (jobs s2) = Some r \<longrightarrow> stamped r"
      using step.IH
      by (auto simp: store_step_def mem_jobs.lookup_upsert split: if_splits intro: stamped_pending)
    with st step.IH wf_store_step show ?case by blast
  qed
  with assms(2) show ?thesis using mem_jobs.lookup_id by blast
qed

theorem job_timestamps_witness:
  "\<exists>r. jobs_get ''j1'' (jobs demo_stopped) = Some r \<and> ended_at r \<noteq> None"
proof -
  obtain r where r: "jobs_get ''j1'' (jobs demo_stopped) = Some r" "job_status r = J_STOPPED"
    using demo_job_lookups(6) by auto
  have "job_step\<^sup>*\<^sup>* demo_jobs demo_stopped"
    using demo_job_steps by (meson rtranclp_trans)
  from job_timestamps [OF this [unfolded demo_jobs_def] r(1)] r show ?thesis
    by (simp add: stamped_def job_status_terminal_def)
qed

subsection \<open>submit\<close>

lemma apply_transition_ok:
  assumes "jobs_get j (jobs s) = Some r" and "validate_job_transition (job_status r) st phase j = Inr st"
  shows "apply_transition phase j st patch s = (upsert_record True (patch r) s, Inr (patch r))"
  using assms by (simp add: apply_transition_def Let_def)

lemma apply_transition_refused:
  assumes "jobs_get j (jobs s) = Some r" and "validate_job_transition (job_status r) st phase j = Inl e"
  shows "apply_transition phase j st patch s = (s, Inl e)"
  using assms by (simp add: apply_transition_def)

lemma apply_result_patch_simps [simp]:
  "job_status (apply_result_patch now r st caps md scs res err stop) = st"
  "job_id (apply_result_patch now r st caps md scs res err stop) = job_id r"
  "stop_requested (apply_result_patch now r st caps md scs res err stop) = stop"
  "job_error (apply_result_patch now r st caps md scs res err stop) = coerce_optional_string err"
  "job_metadata (apply_result_patch now r st caps md scs res err stop) = py_update (job_metadata r) md"
  "executor_kind (apply_result_patch now r st caps md scs res err stop) = executor_kind r"
  by (simp_all add: apply_result_patch_def)

lemma submit_begin_ok:
  assumes "get_executor (rq_executor_kind rq) (registry s) \<noteq> None" and "ctx \<or> bound s"
    and "requested_job_id rq = Some j" and "j \<noteq> []"
  shows "submit_begin now nid ctx rq s = (upsert_record False (pending_record now j rq) s, Inr j)"
  using assms by (auto simp: submit_begin_def Let_def)

text \<open>a submission whose job nobody else touches during the await ends in one of three ways.  The
  executor's failure is re-raised and the job recorded as failed, with the error and the
  \<open>submit_failed\<close> mark; a start result with status stopped is refused and the job stays pending; any
  other result is stored and returned with the status the executor gave.\<close>

theorem submit_outcome:
  assumes "get_executor (rq_executor_kind rq) (registry s) \<noteq> None" and "ctx \<or> bound s"
    and "requested_job_id rq = Some j" and "j \<noteq> []"
    and quiet: "\<And>s. jobs_get j (jobs (env s)) = jobs_get j (jobs s)"
    and run: "submit env outcome now1 now2 nid ctx rq s = (s', x)"
  shows "case outcome of
      Inl msg \<Rightarrow> x = Inl (JobExecutorException msg) \<and>
        (\<exists>r. jobs_get j (jobs s') = Some r \<and> job_status r = J_FAILED \<and>
             job_error r = coerce_optional_string (Some msg) \<and>
             map_of (job_metadata r) ''submit_failed'' = Some (PBool True))
    | Inr res \<Rightarrow>
        (if sr_status res = J_STOPPED
         then x = Inl (JobLifecycleError j J_PENDING J_STOPPED ''start'') \<and>
              jobs_get j (jobs s') = Some (pending_record now1 j rq)
         else (\<exists>r. x = Inr r \<and> jobs_get j (jobs s') = Some r \<and> job_status r = sr_status res \<and>
                   job_error r = coerce_optional_string (sr_error res)))"
proof -
  let ?p = "pending_record now1 j rq"
  let ?s1 = "env (upsert_record False ?p s)"
  have get: "jobs_get j (jobs ?s1) = Some ?p"
    by (simp add: quiet mem_jobs.lookup_upsert) (simp add: pending_record_def)
  have id: "job_id ?p = j" and st: "job_status ?p = J_PENDING" by (simp_all add: pending_record_def)
  have fin: "submit_finish now2 j (rq_capabilities rq) outcome ?s1 = (s', x)"
    using run by (simp add: submit_def submit_begin_ok [OF assms(1-4)])
  have ok: "validate_job_transition J_PENDING st ''start'' j = Inr st \<longleftrightarrow> st \<noteq> J_STOPPED" for st
    by (cases st) (simp_all add: validate_job_transition_def allowed_transitions_def job_status_terminal_def)
  show ?thesis
  proof (cases outcome)
    case (Inl msg)
    with fin get st id ok [of J_FAILED] show ?thesis
      by (auto simp: submit_finish_def apply_start_result_def apply_transition_ok mem_jobs.lookup_upsert
          map_of_py_update)
  next
    case (Inr res)
    show ?thesis
    proof (cases "sr_status res = J_STOPPED")
      case True
      have "validate_job_transition J_PENDING J_STOPPED ''start'' j
          = Inl (JobLifecycleError j J_PENDING J_STOPPED ''start'')"
        by (simp add: validate_job_transition_def allowed_transitions_def job_status_terminal_def)
      with fin get st True Inr show ?thesis
        by (auto simp: submit_finish_def apply_start_result_def apply_transition_refused)
    next
      case False
      with fin get st id Inr ok [of "sr_status res"] show ?thesis
        by (auto simp: submit_finish_def apply_start_result_def apply_transition_ok mem_jobs.lookup_upsert)
    qed
  qed
qed

theorem submit_outcome_witness:
  "\<exists>s' r. submit (\<lambda>s. s) (Inr (demo_start J_RUNNING)) 1 2 ''x'' False demo_request demo_jobs = (s', Inr r) \<and>
     job_status r = J_RUNNING"
proof -
  obtain s' x where
    r: "submit (\<lambda>s. s) (Inr (demo_start J_RUNNING)) 1 2 ''x'' False demo_request demo_jobs = (s', x)"
    by (rule prod.exhaust)
  have "get_executor (rq_executor_kind demo_request) (registry demo_jobs) \<noteq> None" "False \<or> bound demo_jobs"
    "requested_job_id demo_request = Some ''j1''"
    by (simp_all add: demo_jobs_def demo_request_def job_empty_def get_executor_def)
  from submit_outcome [OF this _ _ r] r show ?thesis by (auto simp: demo_start_def)
qed

text \<open>when the executor has already moved the job to running and then raises, the caller sees a
  lifecycle error instead of the executor's exception, and the job stays as it was, in a running
  state that nothing is running.\<close>

theorem submit_failure_masked:
  assumes "get_executor (rq_executor_kind rq) (registry s) \<noteq> None" and "ctx \<or> bound s"
    and "requested_job_id rq = Some j" and "j \<noteq> []"
    and "jobs_get j (jobs (env (upsert_record False (pending_record now1 j rq) s))) = Some r"
    and "job_status r = J_RUNNING"
  shows "submit env (Inl msg) now1 now2 nid ctx rq s =
    (env (upsert_record False (pending_record now1 j rq) s),
     Inl (JobLifecycleError j J_RUNNING J_FAILED ''start''))"
proof -
  have "validate_job_transition J_RUNNING J_FAILED ''start'' j
      = Inl (JobLifecycleError j J_RUNNING J_FAILED ''start'')"
    by (simp add: validate_job_transition_def allowed_transitions_def job_status_terminal_def)
  with assms(5,6) show ?thesis
    by (simp add: submit_def submit_begin_ok [OF assms(1-4)] submit_finish_def apply_start_result_def
        apply_transition_refused)
qed

definition demo_to_running :: "unit job_service \<Rightarrow> unit job_service" where
  "demo_to_running s = fst (update_compat 2 ''j1'' \<lparr>cu_status = Some J_RUNNING, cu_description = None,
     cu_result = None, cu_error = None, cu_metadata = [], cu_stop_requested = None\<rparr> s)"

theorem submit_failure_masked_witness:
  "snd (submit demo_to_running (Inl ''boom'') 1 2 ''x'' False demo_request demo_jobs)
     = Inl (JobLifecycleError ''j1'' J_RUNNING J_FAILED ''start'')"
proof -
  have "map_option job_status (jobs_get ''j1'' (jobs (demo_to_running
      (upsert_record False (pending_record 1 ''j1'' demo_request) demo_jobs)))) = Some J_RUNNING"
    by code_simp
  then obtain r where "jobs_get ''j1'' (jobs (demo_to_running
      (upsert_record False (pending_record 1 ''j1'' demo_request) demo_jobs))) = Some r"
      "job_status r = J_RUNNING" by auto
  moreover have "get_executor (rq_executor_kind demo_request) (registry demo_jobs) \<noteq> None"
    "False \<or> bound demo_jobs" "requested_job_id demo_request = Some ''j1''"
    by (simp_all add: demo_jobs_def demo_request_def job_empty_def get_executor_def)
  ultimately show ?thesis
    using submit_failure_masked [of demo_request demo_jobs False "''j1''" demo_to_running 1] by simp
qed

end
