(* ===== verification/Jobs_Control.thy ===== *)
theory Jobs_Control
  imports Jobs_Props
begin

text \<open>
  The second part of the job properties: stopping, recovery after a restart, visibility and
  notifications, the compat entry point, and the payload codec.
\<close>

subsection \<open>stop\<close>

text \<open>stopping a job that has only a compat handler: if the handler returns and nobody else touches
  the job, it is stopped and flagged as stop-requested, whatever it was before (pending or running);
  if the handler raises, the exception is passed on, a running job stays running with the flag set and
  a pending job is already stopped.\<close>

theorem stop_compat_outcome:
  assumes wf: "wf_jobs (jobs s)" and r: "get_sync j scope s = Some r"
    and act: "job_status r \<in> {J_PENDING, J_RUNNING}" and "is_stoppable r"
    and "get_executor (executor_kind r) (registry s) = None" and "j \<in> set (compat_handlers s)"
    and quiet: "\<And>s. jobs_get j (jobs (env s)) = jobs_get j (jobs s)"
    and run: "stop_job env outcome raised now1 now2 j scope s = (s', x)"
  shows "\<exists>r'. jobs_get j (jobs s') = Some r' \<and> stop_requested r' \<and>
    (case raised of
       None \<Rightarrow> x = Inr r' \<and> job_status r' = J_STOPPED
     | Some msg \<Rightarrow> x = Inl (JobExecutorException msg) \<and>
         job_status r' = (if job_status r = J_RUNNING then J_RUNNING else J_STOPPED))"
proof -
  have get: "jobs_get j (jobs s) = Some r" and id: "job_id r = j"
    using r mem_jobs.lookup_id [OF wf] by (auto simp: get_sync_def split: option.splits if_splits)
  let ?st = "if job_status r = J_RUNNING then J_RUNNING else J_STOPPED"
  have v: "validate_job_transition (job_status r) ?st ''stop'' j = Inr ?st"
    using act by (auto simp: validate_job_transition_def allowed_transitions_def job_status_terminal_def)
  have v2: "validate_job_transition J_RUNNING J_STOPPED ''stop'' j = Inr J_STOPPED"
    by (simp add: validate_job_transition_def allowed_transitions_def job_status_terminal_def)
  obtain a where a: "apply_stop_result now1 j (stop_result ?st) s = (upsert_record True a s, Inr a)"
    and a': "job_id a = j" "job_status a = ?st" "stop_requested a"
    using v id
    by (simp add: apply_stop_result_def stop_result_def apply_transition_ok [OF get])
  let ?s1 = "env (upsert_record True a s)"
  have g1: "jobs_get j (jobs ?s1) = Some a" using a'(1) by (simp add: quiet mem_jobs.lookup_upsert)
  have "stop_checks j scope s = Inr r" using r act assms(4) by (auto simp: stop_checks_def)
  then have "stop_after_handler now2 j a raised ?s1 = (s', x)"
    using run assms(5,6) a by (simp add: stop_job_def Let_def cong: if_cong split: if_splits)
  then show ?thesis
    using g1 a' v2
    by (auto simp: stop_after_handler_def apply_stop_result_def stop_result_def mem_jobs.lookup_upsert
        apply_transition_ok [OF g1] split: option.splits if_splits)
qed

definition demo_compat :: "unit job_service" where
  "demo_compat = register_compat_stop_handler ''c1''
     (fst (create_or_update_compat 1 ''c1'' ''sum'' None [] demo_jobs))"

theorem stop_compat_outcome_witness:
  "\<exists>s' r. stop_job (\<lambda>s. s) (Inl []) None 5 6 ''c1'' None demo_compat = (s', Inr r) \<and> job_status r = J_STOPPED"
proof -
  obtain s' x where run: "stop_job (\<lambda>s. s) (Inl []) None 5 6 ''c1'' None demo_compat = (s', x)"
    by (rule prod.exhaust)
  have "map_option (\<lambda>r. (job_status r, is_stoppable r, executor_kind r)) (get_sync ''c1'' None demo_compat)
      = Some (J_PENDING, True, ''legacy'')" by code_simp
  then obtain r where r: "get_sync ''c1'' None demo_compat = Some r" "job_status r = J_PENDING"
    "is_stoppable r" "executor_kind r = ''legacy''" by auto
  have "wf_jobs (jobs demo_compat)" by code_simp
  moreover have "get_executor ''legacy'' (registry demo_compat) = None" by code_simp
  moreover have "''c1'' \<in> set (compat_handlers demo_compat)" by code_simp
  ultimately show ?thesis
    using stop_compat_outcome [OF _ r(1) _ r(3) _ _ _ run] r run by auto
qed

text \<open>a job whose executor is gone and that has no handler is not stoppable: the first \<open>stop\<close> clears
  the capability, and from then on \<open>stop\<close> refuses without touching the service; the status never
  changes.\<close>

theorem stop_without_target:
  assumes wf: "wf_jobs (jobs s)" and r: "get_sync j None s = Some r"
    and act: "job_status r \<in> {J_PENDING, J_RUNNING}"
    and "get_executor (executor_kind r) (registry s) = None" and "j \<notin> set (compat_handlers s)"
    and run: "stop_job env outcome raised now1 now2 j None s = (s', x)"
  shows "x = Inl (JobNotStoppableError j) \<and>
    (\<exists>r'. get_sync j None s' = Some r' \<and> job_status r' = job_status r \<and> \<not> is_stoppable r') \<and>
    stop_job env outcome raised now3 now4 j None s' = (s', Inl (JobNotStoppableError j))"
proof -
  have id: "job_id r = j" using r mem_jobs.lookup_id [OF wf] by simp
  have x: "x = Inl (JobNotStoppableError j)"
    and r': "\<exists>r'. get_sync j None s' = Some r' \<and> job_status r' = job_status r \<and> \<not> is_stoppable r'"
    using r act assms(4,5) run id
    by (auto simp: stop_job_def stop_checks_def Let_def is_stoppable_def mem_jobs.lookup_upsert split: if_splits)
  then obtain r' where "get_sync j None s' = Some r'" "job_status r' = job_status r" "\<not> is_stoppable r'"
    by blast
  then have "stop_job env outcome raised now3 now4 j None s' = (s', Inl (JobNotStoppableError j))"
    using act by (auto simp: stop_job_def stop_checks_def)
  with x r' show ?thesis by blast
qed

definition demo_orphan :: "unit job_service" where
  "demo_orphan = demo_running\<lparr>registry := \<lparr>executors = [], builtins = []\<rparr>\<rparr>"

theorem stop_without_target_witness:
  "snd (stop_job (\<lambda>s. s) (Inl []) None 5 6 ''j1'' None demo_orphan) = Inl (JobNotStoppableError ''j1'')"
proof -
  obtain s' x where run: "stop_job (\<lambda>s. s) (Inl []) None 5 6 ''j1'' None demo_orphan = (s', x)"
    by (rule prod.exhaust)
  have "map_option job_status (get_sync ''j1'' None demo_orphan) = Some J_RUNNING" by code_simp
  then obtain r where r: "get_sync ''j1'' None demo_orphan = Some r" "job_status r = J_RUNNING" by auto
  have "wf_jobs (jobs demo_orphan)" by code_simp
  moreover have "get_executor (executor_kind r) (registry demo_orphan) = None"
    by (simp add: demo_orphan_def get_executor_def)
  moreover have "''j1'' \<notin> set (compat_handlers demo_orphan)" by code_simp
  ultimately show ?thesis using stop_without_target [OF _ r(1) _ _ _ run] r(2) run by simp
qed

subsection \<open>Recovery after a restart\<close>

text \<open>The job is one that \<open>recover_inflight\<close> acts on, and the status it then gets.\<close>

definition recovers ::
  "(string \<Rightarrow> string + job_recovery_result option) \<Rightarrow> 'e executor_registry \<Rightarrow> job_record \<Rightarrow> bool" where
  "recovers outcome reg r \<longleftrightarrow>
     job_status r = J_RUNNING \<and> get_executor (executor_kind r) reg \<noteq> None \<and>
     (\<exists>res. outcome (job_id r) = Inr (Some res))"

definition recovered_status ::
  "(string \<Rightarrow> string + job_recovery_result option) \<Rightarrow> 'e executor_registry \<Rightarrow> job_record \<Rightarrow> job_status" where
  "recovered_status outcome reg r =
     (case outcome (job_id r) of
        Inr (Some res) \<Rightarrow> if recovers outcome reg r then sr_status res else job_status r
      | _ \<Rightarrow> job_status r)"

definition recovery_ok :: "(string \<Rightarrow> string + job_recovery_result option) \<Rightarrow> bool" where
  "recovery_ok outcome \<longleftrightarrow>
     (\<forall>j. (\<exists>e. outcome j = Inl e) \<longrightarrow> False) \<and>
     (\<forall>j res. outcome j = Inr (Some res) \<longrightarrow> sr_status res \<noteq> J_PENDING)"

lemma recover_records_skip:
  assumes "\<not> recovers outcome (registry s) r" and "bound s" and "recovery_ok outcome"
  shows "recover_records (\<lambda>j s. s) outcome now (r # rs) s = recover_records (\<lambda>j s. s) outcome now rs s"
  using assms by (auto simp: recovers_def recovery_ok_def Let_def split: sum.splits option.splits)

lemma registry_upsert_record [simp]:
  "registry (upsert_record b r s) = registry s" "bound (upsert_record b r s) = bound s"
  by (simp_all add: upsert_record_def schedule_watch_notifications_def Let_def)

lemma apply_recovery_ok:
  assumes "jobs_get j (jobs s) = Some r" and "job_status r = J_RUNNING" and "sr_status res \<noteq> J_PENDING"
    and "job_id r = j"
  obtains r' where "apply_recovery_result now j res s = (upsert_record True r' s, Inr r')"
    and "job_id r' = j" and "job_status r' = sr_status res"
proof -
  have "validate_job_transition (job_status r) (sr_status res) ''recovery'' j = Inr (sr_status res)"
    using assms(2,3)
    by (cases "sr_status res")
      (auto simp: validate_job_transition_def allowed_transitions_def job_status_terminal_def)
  then show ?thesis
    using assms(4) that by (simp add: apply_recovery_result_def apply_transition_ok [OF assms(1)])
qed

lemma recover_records_spec:
  assumes "wf_jobs (jobs s)" and "bound s" and "recovery_ok outcome" and "distinct (map job_id rs)"
    and "\<forall>r \<in> set rs. jobs_get (job_id r) (jobs s) = Some r"
  shows "\<exists>s' out. recover_records (\<lambda>j s. s) outcome now rs s = (s', Inr out) \<and>
    map job_id out = map job_id (filter (recovers outcome (registry s)) rs) \<and>
    (\<forall>j. map_option job_status (jobs_get j (jobs s')) =
       map_option (\<lambda>r. if r \<in> set rs then recovered_status outcome (registry s) r else job_status r)
         (jobs_get j (jobs s)))"
  using assms
proof (induction rs arbitrary: s)
  case Nil
  then show ?case by simp
next
  case (Cons r rs)
  have g: "jobs_get (job_id r) (jobs s) = Some r" using Cons.prems(5) by simp
  show ?case
  proof (cases "recovers outcome (registry s) r")
    case False
    then have "recovered_status outcome (registry s) r = job_status r"
      by (auto simp: recovered_status_def split: sum.splits option.splits)
    then have "map_option (\<lambda>q. if q \<in> set (r # rs) then recovered_status outcome (registry s) q else job_status q) x
        = map_option (\<lambda>q. if q \<in> set rs then recovered_status outcome (registry s) q else job_status q) x" for x
      by (cases x) auto
    moreover have "distinct (map job_id rs)" "\<forall>r \<in> set rs. jobs_get (job_id r) (jobs s) = Some r"
      using Cons.prems(4,5) by simp_all
    ultimately show ?thesis
      using Cons.IH [OF Cons.prems(1-3)] False
      by (simp only: recover_records_skip [OF False Cons.prems(2,3)] filter.simps if_False simp_thms)
  next
    case True
    then obtain res where res: "outcome (job_id r) = Inr (Some res)" and run: "job_status r = J_RUNNING"
      and ex: "get_executor (executor_kind r) (registry s) \<noteq> None" by (auto simp: recovers_def)
    have "sr_status res \<noteq> J_PENDING" using res Cons.prems(3) by (auto simp: recovery_ok_def)
    with g run obtain r' where a: "apply_recovery_result now (job_id r) res s = (upsert_record True r' s, Inr r')"
      and r': "job_id r' = job_id r" "job_status r' = sr_status res"
      by (rule apply_recovery_ok) simp
    let ?s2 = "upsert_record True r' s"
    have neq: "job_id q \<noteq> job_id r" if "q \<in> set rs" for q
      using imageI [OF that, of job_id] Cons.prems(4) by auto
    have "\<exists>s' out. recover_records (\<lambda>j s. s) outcome now rs ?s2 = (s', Inr out) \<and>
        map job_id out = map job_id (filter (recovers outcome (registry s)) rs) \<and>
        (\<forall>j. map_option job_status (jobs_get j (jobs s')) =
           map_option (\<lambda>r. if r \<in> set rs then recovered_status outcome (registry s) r else job_status r)
             (jobs_get j (jobs ?s2)))"
    proof -
      have "wf_jobs (jobs ?s2)" "bound ?s2" using Cons.prems(1,2) by (simp_all add: wf_jobs_upsert)
      moreover have "distinct (map job_id rs)" using Cons.prems(4) by simp
      moreover have "\<forall>q \<in> set rs. jobs_get (job_id q) (jobs ?s2) = Some q"
        using Cons.prems(5) neq r'(1) by (simp add: mem_jobs.lookup_upsert)
      ultimately show ?thesis
        using Cons.IH [of ?s2] Cons.prems(3) by (simp only: registry_upsert_record simp_thms)
    qed
    then obtain s' out where rec: "recover_records (\<lambda>j s. s) outcome now rs ?s2 = (s', Inr out)"
      and out: "map job_id out = map job_id (filter (recovers outcome (registry s)) rs)"
      and st: "\<And>j. map_option job_status (jobs_get j (jobs s')) =
           map_option (\<lambda>r. if r \<in> set rs then recovered_status outcome (registry s) r else job_status r)
             (jobs_get j (jobs ?s2))" by blast
    have "recover_records (\<lambda>j s. s) outcome now (r # rs) s = (s', Inr (r' # out))"
      using run ex Cons.prems(2) res a rec by (auto simp: Let_def)
    moreover have "map_option job_status (jobs_get j (jobs s')) =
       map_option (\<lambda>q. if q \<in> set (r # rs) then recovered_status outcome (registry s) q else job_status q)
         (jobs_get j (jobs s))" for j
    proof (cases "j = job_id r")
      case True
      then have "r' \<notin> set rs" using neq r'(1) by auto
      with True st [of j] g r' res \<open>recovers outcome (registry s) r\<close> show ?thesis
        by (simp add: mem_jobs.lookup_upsert recovered_status_def)
    next
      case False
      then have "q \<noteq> r" if "jobs_get j (jobs s) = Some q" for q
        using that mem_jobs.lookup_id [OF Cons.prems(1)] by auto
      with False st [of j] r'(1) show ?thesis
        by (cases "jobs_get j (jobs s)") (simp_all add: mem_jobs.lookup_upsert)
    qed
    ultimately show ?thesis using out r'(1) True by simp
  qed
qed

text \<open>after a restart, when every executor answers with a status other than pending and nothing else
  touches the service, \<open>recover_inflight\<close> returns one record for each running job whose executor is
  registered and reports something, in listing order; exactly those jobs take the reported status,
  every other job keeps its own.\<close>

theorem recover_inflight_outcome:
  assumes "wf_jobs (jobs s)" and "bound s" and "recovery_ok outcome"
  shows "\<exists>s' out. recover_inflight (\<lambda>j s. s) outcome now s = (s', Inr out) \<and>
    map job_id out = map job_id (filter (recovers outcome (registry s)) (list_sync None s)) \<and>
    (\<forall>j. map_option job_status (jobs_get j (jobs s')) =
       map_option (recovered_status outcome (registry s)) (jobs_get j (jobs s)))"
proof -
  let ?rs = "list_sync None s"
  have rs: "?rs = jobs_list (jobs s)" by (simp add: list_sync_def scope_allows_def)
  have "\<forall>r \<in> set ?rs. jobs_get (job_id r) (jobs s) = Some r"
    using mem_jobs.set_listing [OF assms(1)] by (auto simp: rs)
  then obtain s' out where A: "recover_records (\<lambda>j s. s) outcome now ?rs s = (s', Inr out)"
    "map job_id out = map job_id (filter (recovers outcome (registry s)) ?rs)"
    "\<And>j. map_option job_status (jobs_get j (jobs s')) =
       map_option (\<lambda>r. if r \<in> set ?rs then recovered_status outcome (registry s) r else job_status r)
         (jobs_get j (jobs s))"
    using recover_records_spec [OF assms, of ?rs now] mem_jobs.distinct_listing [OF assms(1)] rs by auto
  have B: "map_option (\<lambda>r. if r \<in> set ?rs then recovered_status outcome (registry s) r else job_status r)
      (jobs_get j (jobs s)) = map_option (recovered_status outcome (registry s)) (jobs_get j (jobs s))" for j
    using mem_jobs.in_listing [OF assms(1), of j] rs by (cases "jobs_get j (jobs s)") auto
  show ?thesis
    unfolding recover_inflight_def by (intro exI conjI allI) (rule A(1), rule A(2), simp only: A(3) B)
qed

theorem recover_inflight_outcome_witness:
  "\<exists>s' out. recover_inflight (\<lambda>j s. s) (\<lambda>j. Inr (Some (demo_start J_COMPLETED))) 9 demo_running = (s', Inr out) \<and>
     map_option job_status (jobs_get ''j1'' (jobs s')) = Some J_COMPLETED"
proof -
  let ?o = "\<lambda>j :: string. Inr (Some (demo_start J_COMPLETED)) :: string + job_start_result option"
  have "map_option (\<lambda>r. (job_status r, executor_kind r)) (jobs_get ''j1'' (jobs demo_running))
      = Some (J_RUNNING, ''agent'')" by code_simp
  then obtain r where r: "jobs_get ''j1'' (jobs demo_running) = Some r" "job_status r = J_RUNNING"
    "executor_kind r = ''agent''" by auto
  have "get_executor ''agent'' (registry demo_running) = Some ()" by code_simp
  with r have st: "map_option (recovered_status ?o (registry demo_running)) (jobs_get ''j1'' (jobs demo_running))
      = Some J_COMPLETED"
    by (simp add: recovered_status_def recovers_def demo_start_def)
  have "recovery_ok ?o" by (simp add: recovery_ok_def demo_start_def)
  moreover have "bound demo_running" by code_simp
  ultimately obtain s' out where "recover_inflight (\<lambda>j s. s) ?o 9 demo_running = (s', Inr out)"
    and "\<forall>j. map_option job_status (jobs_get j (jobs s')) =
       map_option (recovered_status ?o (registry demo_running)) (jobs_get j (jobs demo_running))"
    using recover_inflight_outcome [OF demo_job_lookups(3), of ?o 9] by blast
  with st show ?thesis by metis
qed

subsection \<open>Visibility and notifications\<close>

text \<open>\<open>get\<close> and \<open>list\<close> agree under every scope: the list holds exactly the stored jobs the scope
  lets \<open>get\<close> return, once each, by creation time and then id; and a scope naming a session and a team
  shows the jobs of either, never hiding what one of the two alone would show.\<close>

theorem list_get_agree:
  assumes "wf_jobs (jobs s)"
  shows "set (list_sync scope s) = {r. get_sync (job_id r) scope s = Some r} \<and>
    distinct (map job_id (list_sync scope s)) \<and>
    sorted (map (\<lambda>r. (job_created_at r, job_id r)) (list_sync scope s)) \<and>
    (\<forall>f. scope = Some f \<and> sf_session_id f \<noteq> None \<and> sf_team_id f \<noteq> None \<longrightarrow>
       set (list_sync scope s) =
         set (list_sync (Some (f\<lparr>sf_team_id := None\<rparr>)) s) \<union> set (list_sync (Some (f\<lparr>sf_session_id := None\<rparr>)) s))"
proof -
  have "set (list_sync scope s) = {r. get_sync (job_id r) scope s = Some r}"
    using mem_jobs.set_listing [OF assms]
    by (auto simp: list_sync_def get_sync_def split: option.splits)
  moreover have "distinct (map job_id (list_sync scope s))"
    using mem_jobs.distinct_listing [OF assms] by (simp add: list_sync_def distinct_map_filter)
  moreover have "sorted (map (\<lambda>r. (job_created_at r, job_id r)) (list_sync scope s))"
    using mem_jobs.sorted_listing by (simp add: list_sync_def sorted_filter)
  moreover have "scope_matches f r \<longleftrightarrow>
      scope_matches (f\<lparr>sf_team_id := None\<rparr>) r \<or> scope_matches (f\<lparr>sf_session_id := None\<rparr>) r"
    if "sf_session_id f \<noteq> None" "sf_team_id f \<noteq> None" for f r
    using that by (auto simp: scope_matches_def Let_def)
  ultimately show ?thesis by (auto simp: list_sync_def scope_allows_def)
qed

theorem list_get_agree_witness:
  "set (list_sync (Some \<lparr>sf_session_id = Some ''s1'', sf_team_id = None, sf_submitted_by = None,
     sf_projection_kind = None\<rparr>) demo_pending) =
   {r. get_sync (job_id r) (Some \<lparr>sf_session_id = Some ''s1'', sf_team_id = None, sf_submitted_by = None,
     sf_projection_kind = None\<rparr>) demo_pending = Some r}"
  using list_get_agree [OF demo_job_lookups(2)] by blast

text \<open>saving a record hands to every watcher whose loop is open, in registration order, exactly one
  call with what \<open>list\<close> returns in its scope after the save, and forgets the watchers whose loop is
  closed; nothing handed over earlier is lost.\<close>

theorem upsert_notifies:
  "pending_notifications (upsert_record True r s) =
     pending_notifications s @
     map (\<lambda>(w, reg). (w, list_sync (jw_scope reg) (upsert_record True r s)))
       (job_watchers (upsert_record True r s)) \<and>
   job_watchers (upsert_record True r s) = filter (\<lambda>(w, reg). \<not> jw_loop_closed reg) (job_watchers s) \<and>
   (wf_jobs (jobs s) \<longrightarrow>
      (\<forall>w snap. (w, snap) \<in> set (pending_notifications (upsert_record True r s)) - set (pending_notifications s) \<longrightarrow>
        (\<exists>reg. (w, reg) \<in> set (job_watchers s) \<and> \<not> jw_loop_closed reg \<and>
           (r \<in> set snap \<longleftrightarrow> scope_allows (jw_scope reg) r))))"
proof -
  let ?s = "upsert_record True r s"
  have p: "pending_notifications ?s = pending_notifications s @
      map (\<lambda>(w, reg). (w, list_sync (jw_scope reg) ?s)) (job_watchers ?s)"
    and w: "job_watchers ?s = filter (\<lambda>(w, reg). \<not> jw_loop_closed reg) (job_watchers s)"
    by (simp_all add: upsert_record_def schedule_watch_notifications_def list_sync_def Let_def)
  have "r \<in> set (list_sync scope ?s) \<longleftrightarrow> scope_allows scope r" if "wf_jobs (jobs s)" for scope
    using mem_jobs.set_listing_upsert [OF that] by (auto simp: list_sync_def)
  with p w show ?thesis by auto
qed

theorem upsert_notifies_witness:
  "wf_jobs (jobs demo_pending) \<and>
   job_watchers (upsert_record True (pending_record 1 ''j2'' demo_request) demo_pending) = []"
  using upsert_notifies [of "pending_record 1 ''j2'' demo_request" demo_pending] demo_job_lookups(2)
  by (simp add: demo_pending_def submit_begin_def demo_jobs_def job_empty_def upsert_record_def demo_request_def
      get_executor_def Let_def)

subsection \<open>The compat entry point\<close>

text \<open>\<open>create_or_update_compat\<close> on a job that already exists puts it back to pending whatever its
  status, terminal ones included, past the transition table; it keeps the old result, error and end
  time, and clears the stop request.\<close>

theorem compat_create_resets:
  assumes "wf_jobs (jobs s)" and "jobs_get j (jobs s) = Some r"
  shows "\<exists>s' r'. create_or_update_compat now j summary desc md s = (s', Inr r') \<and>
    jobs_get j (jobs s') = Some r' \<and> job_status r' = J_PENDING \<and> \<not> stop_requested r' \<and>
    job_created_at r' = job_created_at r \<and> ended_at r' = ended_at r \<and> job_result r' = job_result r \<and>
    job_error r' = job_error r"
  using assms by (simp add: create_or_update_compat_def Let_def mem_jobs.lookup_upsert)

theorem compat_create_resets_witness:
  "\<exists>s' r'. create_or_update_compat 9 ''j1'' ''again'' None [] demo_stopped = (s', Inr r') \<and>
     job_status r' = J_PENDING \<and> ended_at r' = Some 3"
proof -
  have "map_option ended_at (jobs_get ''j1'' (jobs demo_stopped)) = Some (Some 3)" by code_simp
  then obtain r where r: "jobs_get ''j1'' (jobs demo_stopped) = Some r" "ended_at r = Some 3" by auto
  have "wf_jobs (jobs demo_stopped)" by code_simp
  from compat_create_resets [OF this r(1), of 9 "''again''" None "[]"] r(2) show ?thesis by metis
qed

subsection \<open>The payload codec\<close>

text \<open>The values a record has after its own normalisation: no empty id or kind, optional strings stripped
  and not empty.\<close>

definition normal_job :: "job_record \<Rightarrow> bool" where
  "normal_job r \<longleftrightarrow>
     job_id r \<noteq> [] \<and> executor_kind r \<noteq> [] \<and>
     list_all (\<lambda>x. coerce_optional_string x = x)
       [job_description r, job_session_id r, job_team_id r, submitted_by r, projection_kind r,
        parent_run_id r, parent_turn_id r, job_error r]"

lemma coerce_of_opt_string [simp]: "coerce_optional_value (of_opt_string x) = coerce_optional_string x"
  by (cases x) (simp_all add: of_opt_string_def)

lemma sidecar_roundtrip [simp]: "sidecar_serialize sc = PDict p \<Longrightarrow> sidecar_from_payload p = sc"
  by (cases sc) (auto simp: sidecar_serialize_def sidecar_from_payload_def py_get_def py_or_def)

lemma sidecars_roundtrip [simp]: "sidecars_of_items (map sidecar_serialize scs) = scs"
proof (induction scs)
  case (Cons sc scs)
  obtain p where "sidecar_serialize sc = PDict p" by (simp add: sidecar_serialize_def)
  with Cons show ?case by (simp add: sidecars_of_items_def List.map_filter_simps)
qed (simp add: sidecars_of_items_def List.map_filter_simps)

lemma coerce_datetime_roundtrip:
  assumes "\<And>t. isoformat t \<noteq> []" and "\<And>t. fromisoformat (isoformat t) = Some t"
  shows "coerce_datetime fromisoformat (of_opt_string (map_option isoformat x)) = x"
    and "coerce_datetime fromisoformat (PStr (isoformat t)) = Some t"
  using assms by (cases x; simp add: of_opt_string_def)+

text \<open>reading back what \<open>serialize\<close> wrote gives the record again, field by field, whatever its
  status, result and sidecars, provided the ISO format of an instant is not empty and parses back.\<close>

theorem job_payload_roundtrip:
  assumes "normal_job r" and "\<And>t. isoformat t \<noteq> []" and "\<And>t. fromisoformat (isoformat t) = Some t"
  shows "job_from_payload fromisoformat nid now (job_serialize isoformat r) = Inr r"
proof -
  note rt = coerce_datetime_roundtrip [of isoformat fromisoformat, OF assms(2,3)]
  have "job_caps r = capabilities_from_payload
      (case job_caps r of None \<Rightarrow> PNone | Some b \<Rightarrow> PDict [(''stoppable'', PBool b)])"
    by (cases "job_caps r") (simp_all add: capabilities_from_payload_def py_get_def)
  moreover have "coerce_optional_mapping (case job_result r of None \<Rightarrow> PNone | Some d \<Rightarrow> PDict d) = job_result r"
    by (cases "job_result r") simp_all
  ultimately show ?thesis
    using assms(1)
    by (simp add: job_from_payload_def job_serialize_def py_get_def payload_sidecars_def rt assms(2,3)
        normal_job_def py_or_def)
qed

theorem job_payload_roundtrip_witness:
  "job_from_payload (\<lambda>s. Some (length s - 1)) ''n'' 0
     (job_serialize (\<lambda>t. replicate (Suc t) CHR ''x'') (pending_record 1 ''j1'' demo_request))
     = Inr (pending_record 1 ''j1'' demo_request)"
proof -
  have "normal_job (pending_record 1 ''j1'' demo_request)" by code_simp
  then show ?thesis by (rule job_payload_roundtrip) simp_all
qed

end
