(* ===== verification/Mailbox_Data.thy ===== *)
theory Mailbox_Data
  imports Py_Values
begin

text \<open>
  The data of \<open>weavert/teammate_orchestration/models.py\<close>: mailbox envelopes with their claim, retry and
  terminal fields, and the lifecycle snapshots of a teammate.  Instants are microseconds and leases
  milliseconds; a clock reading is an argument.
\<close>

datatype mailbox_terminal = MT_DONE | MT_FAILED | MT_RETRY

record mailbox_sender =
  sender_type :: string
  sender_id :: string

definition sender_from_value :: "(string, pyval) dict option \<Rightarrow> mailbox_sender" where
  "sender_from_value v =
     (let p = (case v of None \<Rightarrow> [] | Some d \<Rightarrow> d)
      in \<lparr>sender_type = py_str (py_or (py_get p ''type'') (PStr ''leader'')),
          sender_id = py_str (py_or (py_get p ''id'') (PStr ''main''))\<rparr>)"

record envelope =
  message_id :: string
  env_team_id :: string
  env_teammate_id :: string
  env_kind :: string
  env_sender :: mailbox_sender
  env_created_at :: time
  attempt :: int
  correlation_id :: "string option"
  env_payload :: "(string, pyval) dict"
  payload_ref :: "string option"
  claim_id :: "string option"
  claimed_at :: "time option"
  claim_lease_ms :: "int option"
  last_heartbeat_at :: "time option"
  claimer_identity :: "string option"
  current_run_id :: "string option"
  retry_max_attempts :: "int option"
  retry_reason :: "string option"
  next_retry_after :: "time option"
  terminal_state :: "mailbox_terminal option"
  terminal_reason :: "string option"
  completed_at :: "time option"

definition with_claim :: "string \<Rightarrow> string \<Rightarrow> int \<Rightarrow> time \<Rightarrow> envelope \<Rightarrow> envelope" where
  "with_claim cid who lease now e =
     e\<lparr>claim_id := Some cid, claimed_at := Some now, claim_lease_ms := Some lease,
       last_heartbeat_at := Some now, claimer_identity := Some who,
       terminal_state := None, terminal_reason := None, completed_at := None\<rparr>"

definition with_heartbeat :: "time \<Rightarrow> envelope \<Rightarrow> envelope" where
  "with_heartbeat now e = e\<lparr>last_heartbeat_at := Some now\<rparr>"

definition with_run_linkage :: "string \<Rightarrow> envelope \<Rightarrow> envelope" where
  "with_run_linkage run e = e\<lparr>current_run_id := Some run\<rparr>"

definition with_terminal :: "mailbox_terminal \<Rightarrow> string option \<Rightarrow> time \<Rightarrow> envelope \<Rightarrow> envelope" where
  "with_terminal st reason now e =
     e\<lparr>terminal_state := Some st, terminal_reason := reason, completed_at := Some now\<rparr>"

definition for_retry :: "string \<Rightarrow> time option \<Rightarrow> envelope \<Rightarrow> envelope" where
  "for_retry reason after e =
     e\<lparr>attempt := attempt e + 1, claim_id := None, claimed_at := None, last_heartbeat_at := None,
       claimer_identity := None, current_run_id := None, retry_reason := Some reason,
       next_retry_after := after, terminal_state := None, terminal_reason := None, completed_at := None\<rparr>"

definition retry_ready :: "time \<Rightarrow> envelope \<Rightarrow> bool" where
  "retry_ready now e = (case next_retry_after e of None \<Rightarrow> True | Some t \<Rightarrow> t \<le> now)"

definition lease_expired :: "time \<Rightarrow> envelope \<Rightarrow> bool" where
  "lease_expired now e =
     (case (claimed_at e, claim_lease_ms e) of
        (Some c, Some lease) \<Rightarrow>
          int (case last_heartbeat_at e of None \<Rightarrow> c | Some h \<Rightarrow> h) + lease * 1000 \<le> int now
      | _ \<Rightarrow> False)"

text \<open>\<open>x or y\<close> on optional integers: zero is false.\<close>

definition int_or :: "int option \<Rightarrow> int option \<Rightarrow> int option" where
  "int_or a b = (case a of None \<Rightarrow> b | Some i \<Rightarrow> if i = 0 then b else Some i)"

subsection \<open>The lifecycle of a teammate\<close>

datatype teammate_state = TM_STARTING | TM_IDLE | TM_ACTIVE | TM_WAITING_PERMISSION | TM_STOPPING | TM_STOPPED

record teammate =
  tm_team_id :: string
  tm_teammate_id :: string
  tm_state :: teammate_state
  tm_updated_at :: time
  tm_message_id :: "string option"
  tm_run_id :: "string option"
  tm_claim_id :: "string option"
  tm_permission_id :: "string option"
  tm_shutdown_id :: "string option"
  tm_agent_name :: "string option"
  tm_session_id :: "string option"
  tm_working_directory :: "string option"
  tm_metadata :: "(string, pyval) dict"

definition current_work_attached :: "teammate \<Rightarrow> bool" where
  "current_work_attached t \<longleftrightarrow>
     tm_message_id t \<noteq> None \<or> tm_run_id t \<noteq> None \<or> tm_claim_id t \<noteq> None \<or> tm_permission_id t \<noteq> None"

definition tm_with_registration ::
  "time \<Rightarrow> string \<Rightarrow> string \<Rightarrow> string \<Rightarrow> (string, pyval) dict \<Rightarrow> teammate \<Rightarrow> teammate" where
  "tm_with_registration now agent session dir md t =
     t\<lparr>tm_agent_name := Some agent, tm_session_id := Some session, tm_working_directory := Some dir,
       tm_metadata := md, tm_updated_at := now\<rparr>"

definition tm_activate :: "time \<Rightarrow> string \<Rightarrow> string \<Rightarrow> string \<Rightarrow> teammate \<Rightarrow> teammate" where
  "tm_activate now msg run claim t =
     t\<lparr>tm_state := TM_ACTIVE, tm_message_id := Some msg, tm_run_id := Some run, tm_claim_id := Some claim,
       tm_permission_id := None, tm_updated_at := now\<rparr>"

definition tm_waiting_permission :: "time \<Rightarrow> string \<Rightarrow> teammate \<Rightarrow> teammate" where
  "tm_waiting_permission now p t =
     t\<lparr>tm_state := (if tm_state t \<in> {TM_STOPPING, TM_STOPPED} then tm_state t else TM_WAITING_PERMISSION),
       tm_permission_id := Some p, tm_updated_at := now\<rparr>"

definition tm_resume_active :: "time \<Rightarrow> teammate \<Rightarrow> teammate" where
  "tm_resume_active now t =
     t\<lparr>tm_state := (if tm_shutdown_id t \<noteq> None then TM_STOPPING else TM_ACTIVE),
       tm_permission_id := None, tm_updated_at := now\<rparr>"

definition tm_stopping :: "time \<Rightarrow> string \<Rightarrow> teammate \<Rightarrow> teammate" where
  "tm_stopping now w t = t\<lparr>tm_state := TM_STOPPING, tm_shutdown_id := Some w, tm_updated_at := now\<rparr>"

definition tm_stopped :: "time \<Rightarrow> teammate \<Rightarrow> teammate" where
  "tm_stopped now t =
     t\<lparr>tm_state := TM_STOPPED, tm_message_id := None, tm_run_id := None, tm_claim_id := None,
       tm_permission_id := None, tm_updated_at := now\<rparr>"

definition tm_idle :: "time \<Rightarrow> teammate \<Rightarrow> teammate" where
  "tm_idle now t =
     t\<lparr>tm_state := TM_IDLE, tm_message_id := None, tm_run_id := None, tm_claim_id := None,
       tm_permission_id := None, tm_shutdown_id := None, tm_updated_at := now\<rparr>"

subsection \<open>Facts about the envelopes\<close>

lemma envelope_frames [simp]:
  "message_id (with_claim c w l n e) = message_id e" "env_team_id (with_claim c w l n e) = env_team_id e"
  "env_teammate_id (with_claim c w l n e) = env_teammate_id e" "attempt (with_claim c w l n e) = attempt e"
  "claim_id (with_claim c w l n e) = Some c"
  "retry_max_attempts (with_claim c w l n e) = retry_max_attempts e"
  "message_id (with_heartbeat n e) = message_id e" "env_team_id (with_heartbeat n e) = env_team_id e"
  "env_teammate_id (with_heartbeat n e) = env_teammate_id e" "claim_id (with_heartbeat n e) = claim_id e"
  "message_id (with_terminal st r n e) = message_id e" "env_team_id (with_terminal st r n e) = env_team_id e"
  "env_teammate_id (with_terminal st r n e) = env_teammate_id e" "claim_id (with_terminal st r n e) = claim_id e"
  "attempt (with_terminal st r n e) = attempt e" "terminal_state (with_terminal st r n e) = Some st"
  "message_id (for_retry s a e) = message_id e" "env_team_id (for_retry s a e) = env_team_id e"
  "env_teammate_id (for_retry s a e) = env_teammate_id e" "attempt (for_retry s a e) = attempt e + 1"
  "claim_id (for_retry s a e) = None" "retry_max_attempts (for_retry s a e) = retry_max_attempts e"
  "next_retry_after (for_retry s a e) = a" "terminal_state (for_retry s a e) = None"
  "retry_max_attempts (with_terminal st r n e) = retry_max_attempts e"
  "terminal_reason (with_terminal st r n e) = r"
  "next_retry_after (with_terminal st r n e) = next_retry_after e"
  "next_retry_after (with_claim c w l n e) = next_retry_after e"
  by (simp_all add: with_claim_def with_heartbeat_def with_terminal_def for_retry_def)

end
