(* ===== verification/Mailbox.thy ===== *)
theory Mailbox
  imports Mailbox_Data
begin

text \<open>
  \<open>InMemoryTeammateMailbox\<close> and \<open>FileBackedTeammateMailbox\<close> of
  \<open>weavert/teammate_orchestration/mailbox.py\<close>.  An operation returns the state it leaves and either the
  exception or the result.  A teammate's directories are dictionaries from file name to envelope: the
  JSON text of a file is taken to be the envelope that was written to it.
\<close>

type_synonym tm_key = "string \<times> string"

datatype mailbox_error = FileExistsError string | FileNotFoundError string

definition env_key :: "envelope \<Rightarrow> tm_key" where
  "env_key e = (env_team_id e, env_teammate_id e)"

subsection \<open>The in-memory mailbox\<close>

type_synonym inbox_map = "(tm_key, (string, envelope) dict) dict"
type_synonym claim_map = "(tm_key, (string \<times> string, envelope) dict) dict"

record mailbox =
  default_claim_lease_ms :: int
  default_retry_max_attempts :: int
  retry_backoff_ms :: nat
  mb_states :: "(tm_key, teammate) dict"
  mb_inbox :: inbox_map
  mb_claimed :: claim_map
  mb_done :: claim_map
  mb_failed :: claim_map
  mb_retry :: claim_map

text \<open>\<open>dict.setdefault(key, {})\<close> as a read; a write puts the inner dictionary back.\<close>

definition sub :: "('k, ('a, 'b) dict) dict \<Rightarrow> 'k \<Rightarrow> ('a, 'b) dict" where
  "sub d k = (case map_of d k of None \<Rightarrow> [] | Some x \<Rightarrow> x)"

definition new_mailbox :: "int \<Rightarrow> int \<Rightarrow> int \<Rightarrow> mailbox" where
  "new_mailbox lease attempts backoff =
     \<lparr>default_claim_lease_ms = lease, default_retry_max_attempts = attempts,
      retry_backoff_ms = nat backoff, mb_states = [], mb_inbox = [], mb_claimed = [], mb_done = [],
      mb_failed = [], mb_retry = []\<rparr>"

definition scan_teammates :: "mailbox \<Rightarrow> tm_key list" where
  "scan_teammates s =
     sort (remdups (map fst (mb_states s) @ map fst (mb_inbox s) @ map fst (mb_claimed s)
       @ map fst (mb_done s) @ map fst (mb_failed s) @ map fst (mb_retry s)))"

definition read_state :: "tm_key \<Rightarrow> mailbox \<Rightarrow> teammate option" where
  "read_state k s = map_of (mb_states s) k"

definition write_state :: "teammate \<Rightarrow> mailbox \<Rightarrow> mailbox" where
  "write_state t s = s\<lparr>mb_states := AList.update (tm_team_id t, tm_teammate_id t) t (mb_states s)\<rparr>"

definition publish :: "envelope \<Rightarrow> mailbox \<Rightarrow> mailbox \<times> (mailbox_error + envelope)" where
  "publish e s =
     (let k = env_key e; box = sub (mb_inbox s) k in
      if map_of box (message_id e) \<noteq> None
      then (s\<lparr>mb_inbox := AList.update k box (mb_inbox s)\<rparr>, Inl (FileExistsError (message_id e)))
      else (s\<lparr>mb_inbox := AList.update k (AList.update (message_id e) e box) (mb_inbox s)\<rparr>, Inr e))"

definition claim_lease :: "int option \<Rightarrow> envelope \<Rightarrow> int \<Rightarrow> int" where
  "claim_lease arg e dflt = the (int_or (int_or arg (claim_lease_ms e)) (Some dflt))"

definition claim_next ::
  "tm_key \<Rightarrow> string \<Rightarrow> int option \<Rightarrow> time \<Rightarrow> string \<Rightarrow> mailbox \<Rightarrow> mailbox \<times> envelope option" where
  "claim_next k who lease now cid s =
     (let box = sub (mb_inbox s) k;
          s0 = s\<lparr>mb_inbox := AList.update k box (mb_inbox s)\<rparr>
      in case List.find (\<lambda>m. case map_of box m of None \<Rightarrow> False | Some e \<Rightarrow> retry_ready now e)
                (sort (map fst box)) of
           None \<Rightarrow> (s0, None)
         | Some m \<Rightarrow>
             (let e = the (map_of box m);
                  c = with_claim cid who (claim_lease lease e (default_claim_lease_ms s)) now e
              in (s\<lparr>mb_inbox := AList.update k (AList.delete m box) (mb_inbox s),
                    mb_claimed := AList.update k (AList.update (message_id c, cid) c (sub (mb_claimed s) k))
                                    (mb_claimed s)\<rparr>, Some c)))"

definition claim_key :: "string \<Rightarrow> string option \<Rightarrow> mailbox_error + string \<times> string" where
  "claim_key m cid = (case cid of None \<Rightarrow> Inl (FileNotFoundError m) | Some c \<Rightarrow> Inr (m, c))"

definition update_claim :: "envelope \<Rightarrow> mailbox \<Rightarrow> mailbox \<times> (mailbox_error + envelope)" where
  "update_claim e s =
     (case claim_key (message_id e) (claim_id e) of
        Inl err \<Rightarrow> (s, Inl err)
      | Inr ck \<Rightarrow>
          (let k = env_key e; cs = sub (mb_claimed s) k in
           if map_of cs ck = None
           then (s\<lparr>mb_claimed := AList.update k cs (mb_claimed s)\<rparr>, Inl (FileNotFoundError (message_id e)))
           else (s\<lparr>mb_claimed := AList.update k (AList.update ck e cs) (mb_claimed s)\<rparr>, Inr e)))"

definition read_claim :: "tm_key \<Rightarrow> string \<Rightarrow> string option \<Rightarrow> mailbox \<Rightarrow> mailbox_error + envelope" where
  "read_claim k m cid s =
     (let cs = sub (mb_claimed s) k in
      case cid of
        Some c \<Rightarrow> (case map_of cs (m, c) of None \<Rightarrow> Inl (FileNotFoundError m) | Some e \<Rightarrow> Inr e)
      | None \<Rightarrow>
          (case List.find (\<lambda>ck. fst ck = m) (sort (map fst cs)) of
             None \<Rightarrow> Inl (FileNotFoundError m)
           | Some ck \<Rightarrow> Inr (the (map_of cs ck))))"

definition heartbeat ::
  "tm_key \<Rightarrow> string \<Rightarrow> string \<Rightarrow> time \<Rightarrow> mailbox \<Rightarrow> mailbox \<times> (mailbox_error + envelope)" where
  "heartbeat k m cid now s =
     (case read_claim k m (Some cid) s of
        Inl err \<Rightarrow> (s, Inl err)
      | Inr e \<Rightarrow> update_claim (with_heartbeat now e) s)"

definition list_claimed :: "tm_key \<Rightarrow> mailbox \<Rightarrow> envelope list" where
  "list_claimed k s =
     (let cs = sub (mb_claimed s) k in map (\<lambda>ck. the (map_of cs ck)) (sort (map fst cs)))"

definition has_pending_inbox :: "tm_key \<Rightarrow> mailbox \<Rightarrow> bool" where
  "has_pending_inbox k s \<longleftrightarrow> sub (mb_inbox s) k \<noteq> []"

definition delete_teammate :: "tm_key \<Rightarrow> mailbox \<Rightarrow> mailbox" where
  "delete_teammate k s =
     s\<lparr>mb_states := AList.delete k (mb_states s), mb_inbox := AList.delete k (mb_inbox s),
       mb_claimed := AList.delete k (mb_claimed s), mb_done := AList.delete k (mb_done s),
       mb_failed := AList.delete k (mb_failed s), mb_retry := AList.delete k (mb_retry s)\<rparr>"

definition delete_team :: "string \<Rightarrow> mailbox \<Rightarrow> mailbox" where
  "delete_team team s =
     fold (\<lambda>k s. if fst k = team then delete_teammate k s else s) (scan_teammates s) s"

definition move_claim_to_terminal ::
  "mailbox_terminal \<Rightarrow> envelope \<Rightarrow> mailbox \<Rightarrow> mailbox \<times> (mailbox_error + envelope)" where
  "move_claim_to_terminal bucket e s =
     (case claim_key (message_id e) (claim_id e) of
        Inl err \<Rightarrow> (s, Inl err)
      | Inr ck \<Rightarrow>
          (let k = env_key e; cs = sub (mb_claimed s) k in
           if map_of cs ck = None
           then (s\<lparr>mb_claimed := AList.update k cs (mb_claimed s)\<rparr>, Inl (FileNotFoundError (message_id e)))
           else
             (let s1 = s\<lparr>mb_claimed := AList.update k (AList.delete ck cs) (mb_claimed s)\<rparr>;
                  put = (\<lambda>d. AList.update k (AList.update ck e (sub d k)) d)
              in (case bucket of
                    MT_DONE \<Rightarrow> s1\<lparr>mb_done := put (mb_done s)\<rparr>
                  | MT_FAILED \<Rightarrow> s1\<lparr>mb_failed := put (mb_failed s)\<rparr>
                  | MT_RETRY \<Rightarrow> s1\<lparr>mb_retry := put (mb_retry s)\<rparr>, Inr e))))"

definition complete_done ::
  "time \<Rightarrow> envelope \<Rightarrow> string option \<Rightarrow> mailbox \<Rightarrow> mailbox \<times> (mailbox_error + envelope)" where
  "complete_done now e reason s = move_claim_to_terminal MT_DONE (with_terminal MT_DONE reason now e) s"

definition retry_ceiling :: "int option \<Rightarrow> envelope \<Rightarrow> int \<Rightarrow> int" where
  "retry_ceiling arg e dflt = the (int_or (int_or arg (retry_max_attempts e)) (Some dflt))"

definition fail_or_retry ::
  "time \<Rightarrow> time \<Rightarrow> envelope \<Rightarrow> string \<Rightarrow> int option \<Rightarrow> mailbox \<Rightarrow>
   mailbox \<times> (mailbox_error + envelope \<times> envelope option)" where
  "fail_or_retry now now2 e reason arg s =
     (if attempt e \<ge> retry_ceiling arg e (default_retry_max_attempts s)
      then (case move_claim_to_terminal MT_FAILED (with_terminal MT_FAILED (Some reason) now e) s of
              (s1, Inl err) \<Rightarrow> (s1, Inl err)
            | (s1, Inr t) \<Rightarrow> (s1, Inr (t, None)))
      else
        (case move_claim_to_terminal MT_RETRY (with_terminal MT_RETRY (Some reason) now e) s of
           (s1, Inl err) \<Rightarrow> (s1, Inl err)
         | (s1, Inr archived) \<Rightarrow>
             (let after = (if retry_backoff_ms s > 0 then Some (now2 + 1000 * retry_backoff_ms s) else None);
                  requeued = for_retry reason after archived
              in case publish requeued s1 of
                   (s2, Inl err) \<Rightarrow> (s2, Inl err)
                 | (s2, Inr r) \<Rightarrow> (s2, Inr (archived, Some r)))))"

definition stale_claim :: "envelope \<Rightarrow> bool \<Rightarrow> bool \<Rightarrow> time \<Rightarrow> bool" where
  "stale_claim e active_run_linked waiting_permission now =
     (if terminal_state e \<noteq> None then False
      else if waiting_permission \<or> active_run_linked then False
      else lease_expired now e)"

subsection \<open>The file-backed mailbox\<close>

type_synonym directory = "(string, envelope) dict"

record tm_dirs =
  d_inbox :: directory
  d_claimed :: directory
  d_done :: directory
  d_failed :: directory
  d_retry :: directory

record file_mailbox =
  fm_default_claim_lease_ms :: int
  fm_default_retry_max_attempts :: int
  fm_retry_backoff_ms :: nat
  fm_teams :: "(tm_key, tm_dirs) dict"

text \<open>\<open>ensure_paths\<close> makes the directories when they are missing.\<close>

definition dirs :: "tm_key \<Rightarrow> file_mailbox \<Rightarrow> tm_dirs" where
  "dirs k s =
     (case map_of (fm_teams s) k of
        None \<Rightarrow> \<lparr>d_inbox = [], d_claimed = [], d_done = [], d_failed = [], d_retry = []\<rparr>
      | Some d \<Rightarrow> d)"

definition put_dirs :: "tm_key \<Rightarrow> tm_dirs \<Rightarrow> file_mailbox \<Rightarrow> file_mailbox" where
  "put_dirs k d s = s\<lparr>fm_teams := AList.update k d (fm_teams s)\<rparr>"

text \<open>\<open>glob("*.json")\<close> and \<open>glob(f"{message_id}--*.json")\<close>; \<open>pathlib\<close> patterns match names with a
  leading dot too.\<close>

definition ends_with :: "string \<Rightarrow> string \<Rightarrow> bool" where
  "ends_with suffix name \<longleftrightarrow>
     length suffix \<le> length name \<and> drop (length name - length suffix) name = suffix"

definition inbox_file :: "string \<Rightarrow> string" where
  "inbox_file m = m @ ''.json''"

definition temp_file :: "string \<Rightarrow> string \<Rightarrow> string" where
  "temp_file m u = ''.tmp-'' @ m @ ''-'' @ u @ ''.json''"

definition claim_file :: "string \<Rightarrow> string \<Rightarrow> string" where
  "claim_file m c = m @ ''--'' @ c @ ''.json''"

definition glob_json :: "directory \<Rightarrow> string list" where
  "glob_json d = sort (filter (ends_with ''.json'') (map fst d))"

definition glob_claims :: "string \<Rightarrow> directory \<Rightarrow> string list" where
  "glob_claims m d =
     (let pre = m @ ''--'' in
      sort (filter (\<lambda>n. take (length pre) n = pre \<and> ends_with ''.json'' (drop (length pre) n)) (map fst d)))"

definition f_publish :: "string \<Rightarrow> envelope \<Rightarrow> file_mailbox \<Rightarrow> file_mailbox \<times> (mailbox_error + envelope)" where
  "f_publish tmp e s =
     (let k = env_key e; d = dirs k s;
          target = inbox_file (message_id e);
          temp = temp_file (message_id e) tmp;
          inbox = AList.update temp e (d_inbox d)
      in if map_of inbox target \<noteq> None
         then (put_dirs k (d\<lparr>d_inbox := inbox\<rparr>) s, Inl (FileExistsError target))
         else (put_dirs k (d\<lparr>d_inbox := AList.update target e (AList.delete temp inbox)\<rparr>) s, Inr e))"

definition f_claim_next ::
  "tm_key \<Rightarrow> string \<Rightarrow> int option \<Rightarrow> time \<Rightarrow> string \<Rightarrow> file_mailbox \<Rightarrow> file_mailbox \<times> envelope option" where
  "f_claim_next k who lease now cid s =
     (let d = dirs k s in
      case List.find (\<lambda>n. case map_of (d_inbox d) n of None \<Rightarrow> False | Some e \<Rightarrow> retry_ready now e)
             (glob_json (d_inbox d)) of
        None \<Rightarrow> (put_dirs k d s, None)
      | Some n \<Rightarrow>
          (let e = the (map_of (d_inbox d) n);
               c = with_claim cid who (claim_lease lease e (fm_default_claim_lease_ms s)) now e;
               dest = claim_file (message_id e) cid
           in (put_dirs k (d\<lparr>d_inbox := AList.delete n (d_inbox d),
                             d_claimed := AList.update dest c (d_claimed d)\<rparr>) s, Some c)))"

definition f_claim_path :: "tm_key \<Rightarrow> string \<Rightarrow> string option \<Rightarrow> file_mailbox \<Rightarrow> mailbox_error + string" where
  "f_claim_path k m cid s =
     (let d = d_claimed (dirs k s);
          first = (case glob_claims m d of [] \<Rightarrow> Inl (FileNotFoundError m) | n # ns \<Rightarrow> Inr n)
      in case cid of
           None \<Rightarrow> first
         | Some c \<Rightarrow>
             (let candidate = claim_file m c in
              if c \<noteq> [] \<and> map_of d candidate \<noteq> None then Inr candidate else first))"

definition f_read_claim :: "tm_key \<Rightarrow> string \<Rightarrow> string option \<Rightarrow> file_mailbox \<Rightarrow> mailbox_error + envelope" where
  "f_read_claim k m cid s =
     rbind (f_claim_path k m cid s) (\<lambda>n. Inr (the (map_of (d_claimed (dirs k s)) n)))"

definition f_update_claim :: "envelope \<Rightarrow> file_mailbox \<Rightarrow> file_mailbox \<times> (mailbox_error + envelope)" where
  "f_update_claim e s =
     (let k = env_key e; d = dirs k s in
      case f_claim_path k (message_id e) (claim_id e) s of
        Inl err \<Rightarrow> (put_dirs k d s, Inl err)
      | Inr n \<Rightarrow> (put_dirs k (d\<lparr>d_claimed := AList.update n e (d_claimed d)\<rparr>) s, Inr e))"

definition f_heartbeat ::
  "tm_key \<Rightarrow> string \<Rightarrow> string \<Rightarrow> time \<Rightarrow> file_mailbox \<Rightarrow> file_mailbox \<times> (mailbox_error + envelope)" where
  "f_heartbeat k m cid now s =
     (case f_read_claim k m (Some cid) s of
        Inl err \<Rightarrow> (put_dirs k (dirs k s) s, Inl err)
      | Inr e \<Rightarrow> f_update_claim (with_heartbeat now e) s)"

definition f_list_claimed :: "tm_key \<Rightarrow> file_mailbox \<Rightarrow> envelope list" where
  "f_list_claimed k s =
     (let d = d_claimed (dirs k s) in map (\<lambda>n. the (map_of d n)) (glob_json d))"

definition f_has_pending_inbox :: "tm_key \<Rightarrow> file_mailbox \<Rightarrow> bool" where
  "f_has_pending_inbox k s \<longleftrightarrow> glob_json (d_inbox (dirs k s)) \<noteq> []"

definition f_move_claim_to_terminal ::
  "mailbox_terminal \<Rightarrow> envelope \<Rightarrow> file_mailbox \<Rightarrow> file_mailbox \<times> (mailbox_error + envelope)" where
  "f_move_claim_to_terminal bucket e s =
     (let k = env_key e; d = dirs k s in
      case f_claim_path k (message_id e) (claim_id e) s of
        Inl err \<Rightarrow> (put_dirs k d s, Inl err)
      | Inr n \<Rightarrow>
          (let d1 = d\<lparr>d_claimed := AList.delete n (d_claimed d)\<rparr>
           in (put_dirs k
                 (case bucket of
                    MT_DONE \<Rightarrow> d1\<lparr>d_done := AList.update n e (d_done d)\<rparr>
                  | MT_FAILED \<Rightarrow> d1\<lparr>d_failed := AList.update n e (d_failed d)\<rparr>
                  | MT_RETRY \<Rightarrow> d1\<lparr>d_retry := AList.update n e (d_retry d)\<rparr>) s, Inr e)))"

definition f_complete_done ::
  "time \<Rightarrow> envelope \<Rightarrow> string option \<Rightarrow> file_mailbox \<Rightarrow> file_mailbox \<times> (mailbox_error + envelope)" where
  "f_complete_done now e reason s = f_move_claim_to_terminal MT_DONE (with_terminal MT_DONE reason now e) s"

definition f_fail_or_retry ::
  "time \<Rightarrow> time \<Rightarrow> string \<Rightarrow> envelope \<Rightarrow> string \<Rightarrow> int option \<Rightarrow> file_mailbox \<Rightarrow>
   file_mailbox \<times> (mailbox_error + envelope \<times> envelope option)" where
  "f_fail_or_retry now now2 tmp e reason arg s =
     (if attempt e \<ge> retry_ceiling arg e (fm_default_retry_max_attempts s)
      then (case f_move_claim_to_terminal MT_FAILED (with_terminal MT_FAILED (Some reason) now e) s of
              (s1, Inl err) \<Rightarrow> (s1, Inl err)
            | (s1, Inr t) \<Rightarrow> (s1, Inr (t, None)))
      else
        (case f_move_claim_to_terminal MT_RETRY (with_terminal MT_RETRY (Some reason) now e) s of
           (s1, Inl err) \<Rightarrow> (s1, Inl err)
         | (s1, Inr archived) \<Rightarrow>
             (let after = (if fm_retry_backoff_ms s > 0 then Some (now2 + 1000 * fm_retry_backoff_ms s)
                           else None);
                  requeued = for_retry reason after archived
              in case f_publish tmp requeued s1 of
                   (s2, Inl err) \<Rightarrow> (s2, Inl err)
                 | (s2, Inr r) \<Rightarrow> (s2, Inr (archived, Some r)))))"

definition f_delete_teammate :: "tm_key \<Rightarrow> file_mailbox \<Rightarrow> file_mailbox" where
  "f_delete_teammate k s = s\<lparr>fm_teams := AList.delete k (fm_teams s)\<rparr>"

definition f_delete_team :: "string \<Rightarrow> file_mailbox \<Rightarrow> file_mailbox" where
  "f_delete_team team s = s\<lparr>fm_teams := filter (\<lambda>(k, _). fst k \<noteq> team) (fm_teams s)\<rparr>"

end
