(* ===== verification/Mailbox_Contract.thy ===== *)
theory Mailbox_Contract
  imports Mailbox
begin

text \<open>
  The \<open>TeammateMailboxStore\<close> protocol as a locale: what a client may count on however the messages are
  kept, and its interpretations by the in-memory and the file-backed mailbox.
\<close>

subsection \<open>Runs of a client\<close>

text \<open>What a client does with a mailbox, every call it makes succeeding: the list holds the messages it
  has published.  A nonce is the \<open>uuid4\<close> of a claim or of a temporary file.\<close>

inductive client_run ::
  "(string \<Rightarrow> envelope \<Rightarrow> 's \<Rightarrow> 's \<times> (mailbox_error + envelope)) \<Rightarrow>
   (tm_key \<Rightarrow> string \<Rightarrow> int option \<Rightarrow> time \<Rightarrow> string \<Rightarrow> 's \<Rightarrow> 's \<times> envelope option) \<Rightarrow>
   (time \<Rightarrow> envelope \<Rightarrow> string option \<Rightarrow> 's \<Rightarrow> 's \<times> (mailbox_error + envelope)) \<Rightarrow>
   (time \<Rightarrow> time \<Rightarrow> string \<Rightarrow> envelope \<Rightarrow> string \<Rightarrow> int option \<Rightarrow> 's \<Rightarrow>
      's \<times> (mailbox_error + envelope \<times> envelope option)) \<Rightarrow>
   (envelope \<Rightarrow> 's \<Rightarrow> bool) \<Rightarrow> (string \<Rightarrow> 's \<Rightarrow> bool) \<Rightarrow> 's \<Rightarrow> (tm_key \<times> string) list \<Rightarrow> 's \<Rightarrow> bool"
  for pub clm fin fl held fresh where
  start: "client_run pub clm fin fl held fresh s [] s"
| published: "client_run pub clm fin fl held fresh s ms s1 \<Longrightarrow> fresh nonce s1 \<Longrightarrow>
    pub nonce e s1 = (s2, Inr r) \<Longrightarrow>
    client_run pub clm fin fl held fresh s ((env_key e, message_id e) # ms) s2"
| claimed: "client_run pub clm fin fl held fresh s ms s1 \<Longrightarrow> fresh cid s1 \<Longrightarrow>
    clm k who lease now cid s1 = (s2, c) \<Longrightarrow> client_run pub clm fin fl held fresh s ms s2"
| finished: "client_run pub clm fin fl held fresh s ms s1 \<Longrightarrow> held e s1 \<Longrightarrow>
    fin now e reason s1 = (s2, Inr r) \<Longrightarrow> client_run pub clm fin fl held fresh s ms s2"
| failed: "client_run pub clm fin fl held fresh s ms s1 \<Longrightarrow> held e s1 \<Longrightarrow> fresh nonce s1 \<Longrightarrow>
    fl now now2 nonce e why ceiling s1 = (s2, Inr r') \<Longrightarrow> client_run pub clm fin fl held fresh s ms s2"

subsection \<open>The contract\<close>

lemma count_list_distinct: "distinct xs \<Longrightarrow> count_list xs x = (if x \<in> set xs then 1 else 0)"
  by (induction xs) auto

text \<open>\<open>copies k m s\<close> counts the copies of message \<open>m\<close> of teammate \<open>k\<close> that are pending, claimed, done or
  failed; the archive of earlier attempts is not counted.\<close>

locale mailbox_contract =
  fixes pub :: "string \<Rightarrow> envelope \<Rightarrow> 's \<Rightarrow> 's \<times> (mailbox_error + envelope)"
    and clm :: "tm_key \<Rightarrow> string \<Rightarrow> int option \<Rightarrow> time \<Rightarrow> string \<Rightarrow> 's \<Rightarrow> 's \<times> envelope option"
    and fin :: "time \<Rightarrow> envelope \<Rightarrow> string option \<Rightarrow> 's \<Rightarrow> 's \<times> (mailbox_error + envelope)"
    and fl :: "time \<Rightarrow> time \<Rightarrow> string \<Rightarrow> envelope \<Rightarrow> string \<Rightarrow> int option \<Rightarrow> 's \<Rightarrow>
      's \<times> (mailbox_error + envelope \<times> envelope option)"
    and held :: "envelope \<Rightarrow> 's \<Rightarrow> bool"
    and fresh :: "string \<Rightarrow> 's \<Rightarrow> bool"
    and wf :: "'s \<Rightarrow> bool"
    and copies :: "tm_key \<Rightarrow> string \<Rightarrow> 's \<Rightarrow> nat"
  assumes pub_ok: "wf s \<Longrightarrow> fresh nonce s \<Longrightarrow> pub nonce e s = (s', Inr r) \<Longrightarrow>
      wf s' \<and> copies k m s' = copies k m s + (if (k, m) = (env_key e, message_id e) then 1 else 0)"
    and clm_ok: "wf s \<Longrightarrow> fresh cid s \<Longrightarrow> clm k' who lease now cid s = (s', c) \<Longrightarrow>
      wf s' \<and> copies k m s' = copies k m s"
    and fin_ok: "wf s \<Longrightarrow> held e s \<Longrightarrow> fin now e reason s = (s', Inr r) \<Longrightarrow>
      wf s' \<and> copies k m s' = copies k m s"
    and fl_ok: "wf s \<Longrightarrow> held e s \<Longrightarrow> fresh nonce s \<Longrightarrow> fl now now2 nonce e why ceiling s = (s', Inr r') \<Longrightarrow>
      wf s' \<and> copies k m s' = copies k m s"
begin

lemma conservation:
  assumes "client_run pub clm fin fl held fresh s ms s'" and "wf s"
  shows "wf s' \<and> (\<forall>k m. copies k m s' = copies k m s + count_list ms (k, m))"
  using assms
proof (induction rule: client_run.induct)
  case (published s ms s1 nonce e s2 r)
  with pub_ok [OF _ published.hyps(2,3)] show ?case by auto
next
  case (claimed s ms s1 cid k who lease now s2 c)
  with clm_ok [OF _ claimed.hyps(2,3)] show ?case by auto
next
  case (finished s ms s1 e now reason s2 r)
  with fin_ok [OF _ finished.hyps(2,3)] show ?case by auto
next
  case (failed s ms s1 e nonce now now2 why ceiling s2 r')
  with fl_ok [OF _ failed.hyps(2,3,4)] show ?case by auto
qed simp

text \<open>A message published once is in one place only.\<close>

lemma no_duplicates:
  assumes "client_run pub clm fin fl held fresh s ms s'" and "wf s" and "distinct ms"
    and "\<And>k m. copies k m s = 0"
  shows "copies k m s' = (if (k, m) \<in> set ms then 1 else 0)"
  using conservation [OF assms(1,2)] assms(3,4) by (simp add: count_list_distinct del: split_paired_All)

end

subsection \<open>Dictionaries with a fresh or a present key\<close>

lemma update_fresh_key: "k \<notin> fst ` set d \<Longrightarrow> AList.update k v d = d @ [(k, v)]"
  by (induction d) auto

lemma keys_update_present: "k \<in> fst ` set d \<Longrightarrow> map fst (AList.update k v d) = map fst d"
  by (induction d) auto

lemma keys_delete: "map fst (AList.delete k d) = filter (\<lambda>x. x \<noteq> k) (map fst d)"
  by (induction d) auto

lemma map_of_None_keys: "map_of d k = None \<longleftrightarrow> k \<notin> set (map fst d)"
  by (simp add: map_of_eq_None_iff)

lemma length_filter_remove1:
  "distinct xs \<Longrightarrow> x \<in> set xs \<Longrightarrow>
     length (filter P xs) = length (filter P (filter (\<lambda>y. y \<noteq> x) xs)) + (if P x then 1 else 0)"
proof (induction xs)
  case (Cons y ys)
  then show ?case
  proof (cases "y = x")
    case True
    with Cons.prems have "filter (\<lambda>y. y \<noteq> x) ys = ys" by (auto intro: filter_True)
    with True show ?thesis by simp
  next
    case False
    with Cons show ?thesis by auto
  qed
qed simp

lemma sub_update: "sub (AList.update k d' d) k2 = (if k2 = k then d' else sub d k2)"
  by (simp add: sub_def dict_simps)

subsection \<open>The in-memory mailbox\<close>

definition keys_of :: "('k, ('a, 'b) dict) dict \<Rightarrow> 'k \<Rightarrow> 'a list" where
  "keys_of d k = map fst (sub d k)"

definition mb_copies :: "tm_key \<Rightarrow> string \<Rightarrow> mailbox \<Rightarrow> nat" where
  "mb_copies k m s =
     count_list (keys_of (mb_inbox s) k) m
     + length (filter (\<lambda>ck. fst ck = m) (keys_of (mb_claimed s) k))
     + length (filter (\<lambda>ck. fst ck = m) (keys_of (mb_done s) k))
     + length (filter (\<lambda>ck. fst ck = m) (keys_of (mb_failed s) k))"

definition mb_wf_at :: "mailbox \<Rightarrow> tm_key \<Rightarrow> bool" where
  "mb_wf_at s k \<longleftrightarrow>
     distinct (keys_of (mb_inbox s) k) \<and> distinct (keys_of (mb_claimed s) k) \<and>
     set (keys_of (mb_claimed s) k) \<inter> (set (keys_of (mb_done s) k) \<union> set (keys_of (mb_failed s) k)) = {} \<and>
     (\<forall>(m, e) \<in> set (sub (mb_inbox s) k). message_id e = m)"

definition mb_wf :: "mailbox \<Rightarrow> bool" where
  "mb_wf s \<longleftrightarrow> (\<forall>k. mb_wf_at s k)"

lemma mb_wfI: "(\<And>k. mb_wf_at s k) \<Longrightarrow> mb_wf s"
  by (simp add: mb_wf_def)

lemma mb_wfD: "mb_wf s \<Longrightarrow> mb_wf_at s k"
  by (simp only: mb_wf_def)

definition mb_fresh :: "string \<Rightarrow> mailbox \<Rightarrow> bool" where
  "mb_fresh c s \<longleftrightarrow>
     (\<forall>k m. (m, c) \<notin> set (keys_of (mb_claimed s) k) \<union> set (keys_of (mb_done s) k) \<union> set (keys_of (mb_failed s) k))"

lemma keys_of_update: "keys_of (AList.update k d' d) k2 = (if k2 = k then map fst d' else keys_of d k2)"
  by (simp add: keys_of_def sub_update)

lemma count_list_filter: "count_list xs m = length (filter (\<lambda>x. x = m) xs)"
  by (induction xs) auto

lemma publish_spec:
  assumes "publish e s = (s', Inr r)"
  shows "r = e \<and> message_id e \<notin> set (keys_of (mb_inbox s) (env_key e)) \<and>
    s' = s\<lparr>mb_inbox := AList.update (env_key e) (sub (mb_inbox s) (env_key e) @ [(message_id e, e)]) (mb_inbox s)\<rparr>"
  using assms
  by (auto simp: publish_def Let_def map_of_None_keys keys_of_def update_fresh_key split: if_splits)

lemma publish_ok:
  assumes "mb_wf s" and "publish e s = (s', Inr r)"
  shows "mb_wf s' \<and> mb_copies k m s' = mb_copies k m s + (if (k, m) = (env_key e, message_id e) then 1 else 0)"
proof -
  from publish_spec [OF assms(2)] have n: "message_id e \<notin> set (keys_of (mb_inbox s) (env_key e))"
    and s': "s' = s\<lparr>mb_inbox := AList.update (env_key e) (sub (mb_inbox s) (env_key e) @ [(message_id e, e)]) (mb_inbox s)\<rparr>"
    by auto
  have "mb_wf_at s' k2" for k2
    using mb_wfD [OF assms(1), of k2] n
    by (cases "k2 = env_key e") (auto simp: mb_wf_at_def s' keys_of_def sub_update image_iff)
  then have "mb_wf s'" by (rule mb_wfI)
  moreover have "keys_of (mb_inbox s') k = keys_of (mb_inbox s) k @ (if k = env_key e then [message_id e] else [])"
    by (simp add: s' keys_of_update) (simp add: keys_of_def)
  then have "mb_copies k m s' = mb_copies k m s + (if (k, m) = (env_key e, message_id e) then 1 else 0)"
    by (simp add: mb_copies_def) (simp add: s')
  ultimately show ?thesis by simp
qed

lemma move_claim_spec:
  assumes "move_claim_to_terminal bucket e s = (s', Inr r)"
  obtains c where "claim_id e = Some c" and "(message_id e, c) \<in> set (keys_of (mb_claimed s) (env_key e))"
    and "r = e"
    and "s' = (let s1 = s\<lparr>mb_claimed := AList.update (env_key e)
                 (AList.delete (message_id e, c) (sub (mb_claimed s) (env_key e))) (mb_claimed s)\<rparr>;
              put = (\<lambda>d. AList.update (env_key e) (AList.update (message_id e, c) e (sub d (env_key e))) d)
          in case bucket of
               MT_DONE \<Rightarrow> s1\<lparr>mb_done := put (mb_done s)\<rparr>
             | MT_FAILED \<Rightarrow> s1\<lparr>mb_failed := put (mb_failed s)\<rparr>
             | MT_RETRY \<Rightarrow> s1\<lparr>mb_retry := put (mb_retry s)\<rparr>)"
  using assms
  by (auto simp: move_claim_to_terminal_def claim_key_def Let_def map_of_None_keys keys_of_def
      split: option.splits if_splits)

text \<open>Moving a claim to the done or the failed bucket keeps the copies, to the retry archive takes one.\<close>

lemma move_claim_ok:
  assumes wf: "mb_wf s" and run: "move_claim_to_terminal bucket e s = (s', Inr r)"
  shows "mb_wf s' \<and> mb_copies k m s =
    mb_copies k m s' + (if bucket = MT_RETRY \<and> (k, m) = (env_key e, message_id e) then 1 else 0) \<and>
    mb_inbox s' = mb_inbox s"
  using run
proof (rule move_claim_spec)
  fix c :: string
  let ?k = "env_key e" and ?ck = "(message_id e, c)"
  assume ck: "?ck \<in> set (keys_of (mb_claimed s) ?k)" and "claim_id e = Some c" and "r = e"
    and s': "s' = (let s1 = s\<lparr>mb_claimed := AList.update ?k (AList.delete ?ck (sub (mb_claimed s) ?k)) (mb_claimed s)\<rparr>;
              put = (\<lambda>d. AList.update ?k (AList.update ?ck e (sub d ?k)) d)
          in case bucket of
               MT_DONE \<Rightarrow> s1\<lparr>mb_done := put (mb_done s)\<rparr>
             | MT_FAILED \<Rightarrow> s1\<lparr>mb_failed := put (mb_failed s)\<rparr>
             | MT_RETRY \<Rightarrow> s1\<lparr>mb_retry := put (mb_retry s)\<rparr>)"
  have d: "distinct (keys_of (mb_claimed s) ?k)"
    and nd: "?ck \<notin> set (keys_of (mb_done s) ?k)" and nf: "?ck \<notin> set (keys_of (mb_failed s) ?k)"
    using mb_wfD [OF wf, of ?k] ck by (auto simp: mb_wf_at_def)
  have put: "map fst (AList.update ?ck e (sub d ?k)) = keys_of d ?k @ [?ck]"
    if "?ck \<notin> set (keys_of d ?k)" for d :: claim_map
    using that by (simp add: update_fresh_key keys_of_def)
  have cl: "keys_of (mb_claimed s') k2 =
      (if k2 = ?k then filter (\<lambda>x. x \<noteq> ?ck) (keys_of (mb_claimed s) ?k) else keys_of (mb_claimed s) k2)" for k2
    by (cases bucket; simp add: s' Let_def keys_of_update keys_delete) (simp_all add: keys_of_def)
  have dn: "keys_of (mb_done s') k2 =
      (if bucket = MT_DONE \<and> k2 = ?k then keys_of (mb_done s) ?k @ [?ck] else keys_of (mb_done s) k2)" for k2
    by (cases bucket) (simp_all add: s' Let_def keys_of_update put nd)
  have fa: "keys_of (mb_failed s') k2 =
      (if bucket = MT_FAILED \<and> k2 = ?k then keys_of (mb_failed s) ?k @ [?ck] else keys_of (mb_failed s) k2)" for k2
    by (cases bucket) (simp_all add: s' Let_def keys_of_update put nf)
  have ib: "mb_inbox s' = mb_inbox s" by (cases bucket) (simp_all add: s' Let_def)
  have "mb_wf_at s' k2" for k2
    using mb_wfD [OF wf, of k2] d unfolding mb_wf_at_def cl dn fa ib by auto
  then have "mb_wf s'" by (rule mb_wfI)
  moreover have "mb_copies k m s =
      mb_copies k m s' + (if bucket = MT_RETRY \<and> (k, m) = (?k, message_id e) then 1 else 0)"
    unfolding mb_copies_def cl dn fa ib
    using length_filter_remove1 [OF d ck, of "\<lambda>x. fst x = m"] by (cases bucket) auto
  ultimately show ?thesis using ib by simp
qed

lemma claim_next_spec:
  assumes "claim_next k who lease now cid s = (s', c)"
  shows "(c = None \<and> s' = s\<lparr>mb_inbox := AList.update k (sub (mb_inbox s) k) (mb_inbox s)\<rparr> \<and>
      (\<forall>(m, e) \<in> set (sub (mb_inbox s) k). map_of (sub (mb_inbox s) k) m = Some e \<longrightarrow> \<not> retry_ready now e)) \<or>
    (\<exists>m e. map_of (sub (mb_inbox s) k) m = Some e \<and> retry_ready now e \<and>
      (\<forall>m' e'. map_of (sub (mb_inbox s) k) m' = Some e' \<and> retry_ready now e' \<longrightarrow> m \<le> m') \<and>
      c = Some (with_claim cid who (claim_lease lease e (default_claim_lease_ms s)) now e) \<and>
      s' = s\<lparr>mb_inbox := AList.update k (AList.delete m (sub (mb_inbox s) k)) (mb_inbox s),
             mb_claimed := AList.update k (AList.update (message_id e, cid) (the c) (sub (mb_claimed s) k))
                             (mb_claimed s)\<rparr>)"
proof -
  let ?box = "sub (mb_inbox s) k"
  let ?P = "\<lambda>m. case map_of ?box m of None \<Rightarrow> False | Some e \<Rightarrow> retry_ready now e"
  show ?thesis
  proof (cases "List.find ?P (sort (map fst ?box))")
    case None
    then have "\<forall>m \<in> fst ` set ?box. \<not> ?P m" by (simp add: find_None_iff)
    with None assms show ?thesis by (auto simp: claim_next_def Let_def)
  next
    case (Some m)
    then obtain i where i: "i < length (sort (map fst ?box))" "m = sort (map fst ?box) ! i" "?P m"
      and first: "\<forall>j<i. \<not> ?P (sort (map fst ?box) ! j)"
      by (auto simp: find_Some_iff)
    from i(3) obtain e where e: "map_of ?box m = Some e" "retry_ready now e"
      by (auto split: option.splits)
    have "m \<le> m'" if "map_of ?box m' = Some e'" "retry_ready now e'" for m' e'
    proof -
      have "m' \<in> set (sort (map fst ?box))" using map_of_SomeD [OF that(1)] by force
      then obtain j where j: "j < length (sort (map fst ?box))" "m' = sort (map fst ?box) ! j"
        by (metis in_set_conv_nth)
      with that first have "\<not> j < i" by auto
      with i j show ?thesis using sorted_nth_mono [OF sorted_sort [of "map fst ?box"], of i j] by simp
    qed
    moreover have "c = Some (with_claim cid who (claim_lease lease e (default_claim_lease_ms s)) now e)"
      and "s' = s\<lparr>mb_inbox := AList.update k (AList.delete m ?box) (mb_inbox s),
             mb_claimed := AList.update k (AList.update (message_id e, cid) (the c) (sub (mb_claimed s) k))
                             (mb_claimed s)\<rparr>"
      using Some e assms by (auto simp: claim_next_def Let_def)
    ultimately show ?thesis using e by blast
  qed
qed

lemma claim_next_ok:
  assumes wf: "mb_wf s" and fr: "mb_fresh cid s" and run: "claim_next k' who lease now cid s = (s', c)"
  shows "mb_wf s' \<and> mb_copies k m s' = mb_copies k m s"
  using claim_next_spec [OF run]
proof (elim disjE exE conjE)
  assume "c = None" and s': "s' = s\<lparr>mb_inbox := AList.update k' (sub (mb_inbox s) k') (mb_inbox s)\<rparr>"
  have "keys_of (mb_inbox s') k2 = keys_of (mb_inbox s) k2" "sub (mb_inbox s') k2 = sub (mb_inbox s) k2" for k2
    by (simp_all add: s' keys_of_update sub_update) (simp add: keys_of_def)
  then show ?thesis using wf by (auto simp: mb_wf_def mb_wf_at_def mb_copies_def s' simp del: split_paired_All)
next
  fix m0 e
  let ?box = "sub (mb_inbox s) k'"
  assume e: "map_of ?box m0 = Some e"
    and s': "s' = s\<lparr>mb_inbox := AList.update k' (AList.delete m0 ?box) (mb_inbox s),
             mb_claimed := AList.update k' (AList.update (message_id e, cid) (the c) (sub (mb_claimed s) k'))
                             (mb_claimed s)\<rparr>"
  note W = mb_wfD [OF wf, of k', unfolded mb_wf_at_def]
  have me: "message_id e = m0" using W map_of_SomeD [OF e] by blast
  have di: "distinct (keys_of (mb_inbox s) k')" using W by blast
  have m0: "m0 \<in> set (keys_of (mb_inbox s) k')" using map_of_SomeD [OF e] by (force simp: keys_of_def)
  have n: "(m0, cid) \<notin> set (keys_of (mb_claimed s) k') \<union> set (keys_of (mb_done s) k') \<union> set (keys_of (mb_failed s) k')"
    using fr by (simp add: mb_fresh_def del: split_paired_All)
  have ib: "keys_of (mb_inbox s') k2 =
      (if k2 = k' then filter (\<lambda>x. x \<noteq> m0) (keys_of (mb_inbox s) k') else keys_of (mb_inbox s) k2)" for k2
    by (simp add: s' keys_of_update keys_delete) (simp add: keys_of_def)
  have cl: "keys_of (mb_claimed s') k2 =
      (if k2 = k' then keys_of (mb_claimed s) k' @ [(m0, cid)] else keys_of (mb_claimed s) k2)" for k2
    using n by (simp add: s' me keys_of_update) (simp add: keys_of_def update_fresh_key)
  have rest: "mb_done s' = mb_done s" "mb_failed s' = mb_failed s" by (simp_all add: s')
  have sb: "set (sub (mb_inbox s') k2) \<subseteq> set (sub (mb_inbox s) k2)" for k2
    by (auto simp: s' sub_update AList.delete_eq)
  have "mb_wf_at s' k2" for k2
    using mb_wfD [OF wf, of k2] n sb [of k2] unfolding mb_wf_at_def ib cl rest by auto
  then have "mb_wf s'" by (rule mb_wfI)
  moreover have "mb_copies k m s' = mb_copies k m s"
    unfolding mb_copies_def ib cl rest count_list_filter
    using length_filter_remove1 [OF di m0, of "\<lambda>x. x = m"] by auto
  ultimately show ?thesis by simp
qed

interpretation mem_mailbox: mailbox_contract "\<lambda>_. publish" claim_next complete_done
  "\<lambda>now now2 _. fail_or_retry now now2" "\<lambda>_ _. True" mb_fresh mb_wf mb_copies
proof
  fix s s' :: mailbox and nonce e r k m
  assume "mb_wf s" "publish e s = (s', Inr r)"
  then show "mb_wf s' \<and> mb_copies k m s' = mb_copies k m s + (if (k, m) = (env_key e, message_id e) then 1 else 0)"
    by (rule publish_ok)
next
  fix s s' :: mailbox and cid k' who lease now c k m
  assume "mb_wf s" "mb_fresh cid s" "claim_next k' who lease now cid s = (s', c)"
  then show "mb_wf s' \<and> mb_copies k m s' = mb_copies k m s" by (rule claim_next_ok)
next
  fix s s' :: mailbox and e now reason r k m
  assume wf: "mb_wf s" and run: "complete_done now e reason s = (s', Inr r)"
  from move_claim_ok [OF wf run [unfolded complete_done_def], of k m]
  show "mb_wf s' \<and> mb_copies k m s' = mb_copies k m s" by simp
next
  fix s s' :: mailbox and e nonce now now2 why ceiling r' k m
  assume wf: "mb_wf s" and run: "fail_or_retry now now2 e why ceiling s = (s', Inr r')"
  show "mb_wf s' \<and> mb_copies k m s' = mb_copies k m s"
  proof (cases "attempt e \<ge> retry_ceiling ceiling e (default_retry_max_attempts s)")
    case True
    then obtain r where "move_claim_to_terminal MT_FAILED (with_terminal MT_FAILED (Some why) now e) s = (s', Inr r)"
      using run by (auto simp: fail_or_retry_def split: prod.splits sum.splits)
    from move_claim_ok [OF wf this, of k m] show ?thesis by simp
  next
    case False
    then obtain s1 a q where
      mv: "move_claim_to_terminal MT_RETRY (with_terminal MT_RETRY (Some why) now e) s = (s1, Inr a)"
      and pb: "publish (for_retry why q a) s1 = (s', Inr (for_retry why q a))"
      using run by (auto simp: fail_or_retry_def Let_def split: prod.splits sum.splits dest: publish_spec)
    have "a = with_terminal MT_RETRY (Some why) now e" using mv by (rule move_claim_spec)
    moreover have "mb_wf s1" using move_claim_ok [OF wf mv] by blast
    ultimately show ?thesis
      using move_claim_ok [OF wf mv, of k m] publish_ok [OF _ pb, of k m] by (simp add: env_key_def)
  qed
qed

subsection \<open>The file-backed mailbox\<close>

definition ecount :: "string \<Rightarrow> directory \<Rightarrow> nat" where
  "ecount m d = length (filter (\<lambda>(n, e). message_id e = m) d)"

lemma ecount_append [simp]: "ecount m (d @ d') = ecount m d + ecount m d'"
  by (simp add: ecount_def)

lemma ecount_single [simp]: "ecount m [(n, e)] = (if message_id e = m then 1 else 0)"
  by (simp add: ecount_def)

lemma delete_absent: "n \<notin> fst ` set d \<Longrightarrow> AList.delete n d = d"
  by (induction d) auto

lemma delete_appended: "n \<notin> fst ` set d \<Longrightarrow> AList.delete n (d @ [(n, e)]) = d"
  by (induction d) auto

lemma ecount_delete:
  "distinct (map fst d) \<Longrightarrow> map_of d n = Some e \<Longrightarrow>
     ecount m d = ecount m (AList.delete n d) + (if message_id e = m then 1 else 0)"
proof (induction d)
  case (Cons x d)
  obtain n' e' where x: "x = (n', e')" by (cases x)
  show ?case
  proof (cases "n' = n")
    case True
    with Cons.prems x have "n \<notin> fst ` set d" by auto
    with True Cons.prems x show ?thesis by (simp add: ecount_def delete_absent)
  next
    case False
    with Cons x show ?thesis by (auto simp: ecount_def)
  qed
qed simp

definition fm_copies :: "tm_key \<Rightarrow> string \<Rightarrow> file_mailbox \<Rightarrow> nat" where
  "fm_copies k m s =
     (let d = dirs k s in ecount m (d_inbox d) + ecount m (d_claimed d) + ecount m (d_done d) + ecount m (d_failed d))"

definition wf_dirs :: "tm_dirs \<Rightarrow> bool" where
  "wf_dirs d \<longleftrightarrow>
     distinct (map fst (d_inbox d)) \<and> distinct (map fst (d_claimed d)) \<and>
     set (map fst (d_claimed d)) \<inter> (set (map fst (d_done d)) \<union> set (map fst (d_failed d))) = {}"

definition fm_wf :: "file_mailbox \<Rightarrow> bool" where
  "fm_wf s \<longleftrightarrow> (\<forall>k. wf_dirs (dirs k s))"

definition fm_fresh :: "string \<Rightarrow> file_mailbox \<Rightarrow> bool" where
  "fm_fresh u s \<longleftrightarrow>
     (\<forall>k m. temp_file m u \<notin> set (map fst (d_inbox (dirs k s))) \<and>
        claim_file m u \<notin> set (map fst (d_claimed (dirs k s))) \<union> set (map fst (d_done (dirs k s)))
          \<union> set (map fst (d_failed (dirs k s))))"

text \<open>The claim the caller names is there: without it the file-backed mailbox takes another one.\<close>

definition fm_held :: "envelope \<Rightarrow> file_mailbox \<Rightarrow> bool" where
  "fm_held e s \<longleftrightarrow>
     (\<exists>c e0. claim_id e = Some c \<and> c \<noteq> [] \<and>
        map_of (d_claimed (dirs (env_key e) s)) (claim_file (message_id e) c) = Some e0 \<and>
        message_id e0 = message_id e)"

lemma dirs_put [simp]: "dirs k2 (put_dirs k d s) = (if k2 = k then d else dirs k2 s)"
  by (simp add: dirs_def put_dirs_def dict_simps)

lemma fm_copies_put: "fm_copies k2 m (put_dirs k d s) =
    (if k2 = k then ecount m (d_inbox d) + ecount m (d_claimed d) + ecount m (d_done d) + ecount m (d_failed d)
     else fm_copies k2 m s)"
  by (simp add: fm_copies_def Let_def)

lemma fm_wf_put: "fm_wf s \<Longrightarrow> wf_dirs d \<Longrightarrow> fm_wf (put_dirs k d s)"
  by (simp add: fm_wf_def del: split_paired_All)

lemma f_publish_spec:
  assumes "fm_fresh u s" and "f_publish u e s = (s', Inr r)"
  shows "r = e \<and> inbox_file (message_id e) \<notin> set (map fst (d_inbox (dirs (env_key e) s))) \<and>
    s' = put_dirs (env_key e)
      (dirs (env_key e) s\<lparr>d_inbox := d_inbox (dirs (env_key e) s) @ [(inbox_file (message_id e), e)]\<rparr>) s"
proof -
  let ?d = "dirs (env_key e) s" and ?tmp = "temp_file (message_id e) u"
    and ?target = "inbox_file (message_id e)"
  have t: "?tmp \<notin> fst ` set (d_inbox ?d)" using assms(1) unfolding fm_fresh_def set_map by blast
  have ne: "?tmp \<noteq> ?target"
    by (rule notI, drule arg_cong [where f = length]) (simp add: temp_file_def inbox_file_def)
  have upd: "AList.update ?tmp e (d_inbox ?d) = d_inbox ?d @ [(?tmp, e)]" using t by (rule update_fresh_key)
  have del: "AList.delete ?tmp (d_inbox ?d @ [(?tmp, e)]) = d_inbox ?d"
    using t by (rule delete_appended)
  from assms(2) have a: "map_of (AList.update ?tmp e (d_inbox ?d)) ?target = None"
    and r: "r = e" and s': "s' = put_dirs (env_key e)
      (?d\<lparr>d_inbox := AList.update ?target e (AList.delete ?tmp (AList.update ?tmp e (d_inbox ?d)))\<rparr>) s"
    by (auto simp: f_publish_def Let_def split: if_splits)
  from a ne have n: "?target \<notin> fst ` set (d_inbox ?d)"
    by (simp only: map_of_update fun_upd_apply) (simp add: map_of_eq_None_iff split: if_splits)
  show ?thesis
    using r s' n unfolding upd del by (simp add: update_fresh_key)
qed

lemma f_publish_ok:
  assumes "fm_wf s" and "fm_fresh u s" and "f_publish u e s = (s', Inr r)"
  shows "fm_wf s' \<and> fm_copies k m s' = fm_copies k m s + (if (k, m) = (env_key e, message_id e) then 1 else 0)"
proof -
  let ?d = "dirs (env_key e) s"
  from f_publish_spec [OF assms(2,3)] have n: "inbox_file (message_id e) \<notin> set (map fst (d_inbox ?d))"
    and s': "s' = put_dirs (env_key e) (?d\<lparr>d_inbox := d_inbox ?d @ [(inbox_file (message_id e), e)]\<rparr>) s"
    by blast+
  have "wf_dirs ?d" using assms(1) by (simp add: fm_wf_def del: split_paired_All)
  then have "fm_wf s'" unfolding s' using n by (intro fm_wf_put assms(1)) (simp add: wf_dirs_def)
  moreover have "fm_copies k m s' = fm_copies k m s + (if (k, m) = (env_key e, message_id e) then 1 else 0)"
    unfolding s' fm_copies_put by (simp add: fm_copies_def Let_def)
  ultimately show ?thesis by simp
qed

lemma f_claim_ok:
  assumes wf: "fm_wf s" and fr: "fm_fresh cid s" and run: "f_claim_next k' who lease now cid s = (s', c)"
  shows "fm_wf s' \<and> fm_copies k m s' = fm_copies k m s"
proof -
  let ?d = "dirs k' s"
  have w: "wf_dirs ?d" using wf by (simp add: fm_wf_def del: split_paired_All)
  show ?thesis
  proof (cases "List.find (\<lambda>n. case map_of (d_inbox ?d) n of None \<Rightarrow> False | Some e \<Rightarrow> retry_ready now e)
      (glob_json (d_inbox ?d))")
    case None
    with run have "s' = put_dirs k' ?d s" by (simp add: f_claim_next_def Let_def)
    then show ?thesis using fm_wf_put [OF wf w] by (simp add: fm_copies_put) (simp add: fm_copies_def Let_def)
  next
    case (Some n)
    then obtain e where e: "map_of (d_inbox ?d) n = Some e"
      by (auto simp: find_Some_iff split: option.splits)
    let ?dest = "claim_file (message_id e) cid"
    let ?x = "with_claim cid who (claim_lease lease e (fm_default_claim_lease_ms s)) now e"
    have "s' = put_dirs k' (?d\<lparr>d_inbox := AList.delete n (d_inbox ?d),
        d_claimed := AList.update ?dest ?x (d_claimed ?d)\<rparr>) s"
      using run Some e by (auto simp: f_claim_next_def Let_def)
    moreover have "message_id ?x = message_id e" by simp
    ultimately obtain x where x: "message_id x = message_id e" and s': "s' = put_dirs k'
        (?d\<lparr>d_inbox := AList.delete n (d_inbox ?d), d_claimed := AList.update ?dest x (d_claimed ?d)\<rparr>) s"
      by blast
    have fresh: "?dest \<notin> set (map fst (d_claimed ?d)) \<union> set (map fst (d_done ?d)) \<union> set (map fst (d_failed ?d))"
      using fr unfolding fm_fresh_def by blast
    then have upd: "AList.update ?dest x (d_claimed ?d) = d_claimed ?d @ [(?dest, x)]"
      by (intro update_fresh_key) simp
    have "wf_dirs (?d\<lparr>d_inbox := AList.delete n (d_inbox ?d), d_claimed := d_claimed ?d @ [(?dest, x)]\<rparr>)"
      using w fresh by (simp add: wf_dirs_def)
    moreover have "distinct (map fst (d_inbox ?d))" using w by (simp add: wf_dirs_def)
    ultimately show ?thesis
      unfolding s' upd fm_copies_put using fm_wf_put [OF wf] ecount_delete [OF _ e, of m] x
      by (simp add: fm_copies_def Let_def)
  qed
qed

lemma f_move_ok:
  assumes wf: "fm_wf s" and held: "fm_held e s" and run: "f_move_claim_to_terminal bucket e s = (s', Inr r)"
  shows "fm_wf s' \<and> fm_copies k m s =
    fm_copies k m s' + (if bucket = MT_RETRY \<and> (k, m) = (env_key e, message_id e) then 1 else 0) \<and> r = e \<and>
    (fm_fresh u s \<longrightarrow> fm_fresh u s')"
proof -
  let ?k = "env_key e" and ?d = "dirs (env_key e) s"
  from held obtain c e0 where c: "claim_id e = Some c" "c \<noteq> []"
    and e0: "map_of (d_claimed ?d) (claim_file (message_id e) c) = Some e0" "message_id e0 = message_id e"
    by (auto simp: fm_held_def)
  define n where "n = claim_file (message_id e) c"
  have e0': "map_of (d_claimed ?d) n = Some e0" using e0(1) by (simp only: n_def)
  define d1 where "d1 = ?d\<lparr>d_claimed := AList.delete n (d_claimed ?d)\<rparr>"
  define d2 where "d2 = (case bucket of MT_DONE \<Rightarrow> d1\<lparr>d_done := AList.update n e (d_done ?d)\<rparr>
      | MT_FAILED \<Rightarrow> d1\<lparr>d_failed := AList.update n e (d_failed ?d)\<rparr>
      | MT_RETRY \<Rightarrow> d1\<lparr>d_retry := AList.update n e (d_retry ?d)\<rparr>)"
  have path: "f_claim_path ?k (message_id e) (claim_id e) s = Inr n"
    using c e0' by (simp add: f_claim_path_def Let_def n_def)
  have "f_move_claim_to_terminal bucket e s = (put_dirs ?k d2 s, Inr e)"
    by (cases bucket) (simp_all add: f_move_claim_to_terminal_def Let_def path d1_def d2_def)
  then have s': "s' = put_dirs ?k d2 s" and r: "r = e" using run by simp_all
  have w: "wf_dirs ?d" using wf by (simp add: fm_wf_def del: split_paired_All)
  have inn: "n \<in> fst ` set (d_claimed ?d)" using map_of_SomeD [OF e0'] by force
  then have nn: "n \<notin> fst ` set (d_done ?d)" "n \<notin> fst ` set (d_failed ?d)"
    using w by (auto simp: wf_dirs_def)
  have dc: "distinct (map fst (d_claimed ?d))" using w by (simp add: wf_dirs_def)
  have keys: "set (map fst (AList.delete n (d_claimed ?d))) = set (map fst (d_claimed ?d)) - {n}"
    by (auto simp: keys_delete simp del: set_map)
  have ib: "d_inbox d2 = d_inbox ?d" and cl: "d_claimed d2 = AList.delete n (d_claimed ?d)"
    and dn: "d_done d2 = d_done ?d @ (if bucket = MT_DONE then [(n, e)] else [])"
    and fa: "d_failed d2 = d_failed ?d @ (if bucket = MT_FAILED then [(n, e)] else [])"
    by (cases bucket; simp add: d1_def d2_def update_fresh_key nn)+
  have "wf_dirs d2"
    using w dc unfolding wf_dirs_def ib cl dn fa keys by (auto simp: image_Un)
  moreover have "fm_copies k m s = fm_copies k m s' + (if bucket = MT_RETRY \<and> (k, m) = (?k, message_id e) then 1 else 0)"
    unfolding s' fm_copies_put ib cl dn fa using ecount_delete [OF dc e0', of m] e0(2)
    by (cases bucket; cases "m = message_id e") (simp_all add: fm_copies_def Let_def)
  moreover have "fm_fresh u s'" if fu: "fm_fresh u s"
  proof -
    have sub: "set (map fst (d_claimed d2)) \<union> set (map fst (d_done d2)) \<union> set (map fst (d_failed d2))
        \<subseteq> set (map fst (d_claimed ?d)) \<union> set (map fst (d_done ?d)) \<union> set (map fst (d_failed ?d))"
      unfolding cl dn fa keys using inn by (cases bucket) auto
    show ?thesis
      unfolding fm_fresh_def
    proof (intro allI conjI)
      fix k2 m2
      note F = spec [OF spec [OF fu [unfolded fm_fresh_def], of k2], of m2]
      have same: "d_inbox (dirs k2 s') = d_inbox (dirs k2 s)" by (simp add: s' ib)
      show "temp_file m2 u \<notin> set (map fst (d_inbox (dirs k2 s')))"
        unfolding same by (rule conjunct1 [OF F])
      have "set (map fst (d_claimed (dirs k2 s'))) \<union> set (map fst (d_done (dirs k2 s'))) \<union> set (map fst (d_failed (dirs k2 s')))
          \<subseteq> set (map fst (d_claimed (dirs k2 s))) \<union> set (map fst (d_done (dirs k2 s))) \<union> set (map fst (d_failed (dirs k2 s)))"
        using sub unfolding s' dirs_put by (cases "k2 = ?k") (simp_all only: refl if_True if_False subset_refl)
      with F show "claim_file m2 u \<notin> set (map fst (d_claimed (dirs k2 s'))) \<union> set (map fst (d_done (dirs k2 s')))
          \<union> set (map fst (d_failed (dirs k2 s')))" by blast
    qed
  qed
  ultimately show ?thesis using fm_wf_put [OF wf] s' r by blast
qed

interpretation file_mailbox: mailbox_contract f_publish f_claim_next f_complete_done f_fail_or_retry
  fm_held fm_fresh fm_wf fm_copies
proof
  fix s s' :: file_mailbox and nonce e r k m
  assume "fm_wf s" "fm_fresh nonce s" "f_publish nonce e s = (s', Inr r)"
  then show "fm_wf s' \<and> fm_copies k m s' = fm_copies k m s + (if (k, m) = (env_key e, message_id e) then 1 else 0)"
    by (rule f_publish_ok)
next
  fix s s' :: file_mailbox and cid k' who lease now c k m
  assume "fm_wf s" "fm_fresh cid s" "f_claim_next k' who lease now cid s = (s', c)"
  then show "fm_wf s' \<and> fm_copies k m s' = fm_copies k m s" by (rule f_claim_ok)
next
  fix s s' :: file_mailbox and e now reason r k m
  assume wf: "fm_wf s" and h: "fm_held e s" and run: "f_complete_done now e reason s = (s', Inr r)"
  have "fm_held (with_terminal MT_DONE reason now e) s" using h by (simp add: fm_held_def env_key_def)
  from f_move_ok [OF wf this run [unfolded f_complete_done_def], of k m]
  show "fm_wf s' \<and> fm_copies k m s' = fm_copies k m s" by simp
next
  fix s s' :: file_mailbox and e nonce now now2 why ceiling r' k m
  assume wf: "fm_wf s" and h: "fm_held e s" and fr: "fm_fresh nonce s"
    and run: "f_fail_or_retry now now2 nonce e why ceiling s = (s', Inr r')"
  have h': "fm_held (with_terminal st (Some why) now e) s" for st using h by (simp add: fm_held_def env_key_def)
  show "fm_wf s' \<and> fm_copies k m s' = fm_copies k m s"
  proof (cases "attempt e \<ge> retry_ceiling ceiling e (fm_default_retry_max_attempts s)")
    case True
    then obtain r where "f_move_claim_to_terminal MT_FAILED (with_terminal MT_FAILED (Some why) now e) s = (s', Inr r)"
      using run by (auto simp: f_fail_or_retry_def split: prod.splits sum.splits)
    from f_move_ok [OF wf h' this, of k m] show ?thesis by simp
  next
    case False
    then obtain s1 a q r where
      mv: "f_move_claim_to_terminal MT_RETRY (with_terminal MT_RETRY (Some why) now e) s = (s1, Inr a)"
      and pb: "f_publish nonce (for_retry why q a) s1 = (s', Inr r)"
      using run by (auto simp: f_fail_or_retry_def Let_def split: prod.splits sum.splits)
    from f_move_ok [OF wf h' mv, of k m nonce] fr
    show ?thesis using f_publish_ok [OF _ _ pb, of k m] by (simp add: env_key_def)
  qed
qed

end
