(* ===== verification/Mailbox_Props.thy ===== *)
theory Mailbox_Props
  imports Mailbox_Contract
begin

text \<open>
  The properties of the teammate mailbox: conservation of messages in both stores, the order and the
  lease of claims, bounded retries, and two places where the stores behave differently.
\<close>

definition demo_env :: "string \<Rightarrow> envelope" where
  "demo_env m = \<lparr>message_id = m, env_team_id = ''t'', env_teammate_id = ''a'', env_kind = ''work_item'',
     env_sender = \<lparr>sender_type = ''leader'', sender_id = ''main''\<rparr>, env_created_at = 0, attempt = 1,
     correlation_id = None, env_payload = [], payload_ref = None, claim_id = None, claimed_at = None,
     claim_lease_ms = None, last_heartbeat_at = None, claimer_identity = None, current_run_id = None,
     retry_max_attempts = None, retry_reason = None, next_retry_after = None, terminal_state = None,
     terminal_reason = None, completed_at = None\<rparr>"

abbreviation demo_key :: tm_key where "demo_key \<equiv> (''t'', ''a'')"

lemma demo_env_simps [simp]:
  "message_id (demo_env m) = m" "env_key (demo_env m) = demo_key" "attempt (demo_env m) = 1"
  "next_retry_after (demo_env m) = None" "retry_max_attempts (demo_env m) = None"
  by (simp_all add: demo_env_def env_key_def)

subsection \<open>Conservation\<close>

lemma new_mailbox_wf [simp]: "mb_wf (new_mailbox l a b)" "mb_copies k m (new_mailbox l a b) = 0"
  by (simp_all add: mb_wf_def mb_wf_at_def mb_copies_def new_mailbox_def keys_of_def sub_def)

text \<open>C13: in the in-memory mailbox no message is lost or duplicated: after any run of successful
  publications, claims, completions and failures, each message published once is in exactly one of
  the inbox, the claims, the done and the failed buckets, and nothing else is there.\<close>

theorem memory_mailbox_conserves:
  assumes "client_run (\<lambda>_. publish) claim_next complete_done (\<lambda>now now2 _. fail_or_retry now now2)
      (\<lambda>_ _. True) mb_fresh (new_mailbox lease attempts backoff) ms s"
    and "distinct ms"
  shows "mb_copies k m s = (if (k, m) \<in> set ms then 1 else 0)"
  by (rule mem_mailbox.no_duplicates [OF assms(1) _ assms(2)]) simp_all

theorem memory_mailbox_conserves_witness:
  "mb_copies demo_key ''m'' (fst (claim_next demo_key ''w'' None 5 ''c'' (fst (publish (demo_env ''m'') (new_mailbox 1 3 0))))) = 1"
proof -
  let ?s0 = "new_mailbox 1 3 0" and ?s1 = "fst (publish (demo_env ''m'') (new_mailbox 1 3 0))"
  have "mb_fresh u (new_mailbox 1 3 0)" for u
    by (simp add: mb_fresh_def new_mailbox_def keys_of_def sub_def)
  moreover have "publish (demo_env ''m'') ?s0 = (?s1, Inr (demo_env ''m''))"
    by (simp add: publish_def new_mailbox_def sub_def Let_def)
  ultimately have r1: "client_run (\<lambda>_. publish) claim_next complete_done (\<lambda>now now2 _. fail_or_retry now now2)
      (\<lambda>_ _. True) mb_fresh ?s0 [(env_key (demo_env ''m''), message_id (demo_env ''m''))] ?s1"
    by (blast intro: client_run.intros)
  have "mb_fresh ''c'' ?s1"
    by (simp add: mb_fresh_def publish_def new_mailbox_def keys_of_def sub_def Let_def)
  from client_run.claimed [OF r1 this prod.collapse [symmetric], of demo_key "''w''" None 5] show ?thesis
    using memory_mailbox_conserves [of 1 3 0 "[(demo_key, ''m'')]"] by simp
qed

text \<open>C34: the file-backed mailbox keeps the same contract, as long as the claims a client completes or
  fails are the ones it holds.\<close>

theorem file_mailbox_conserves:
  assumes "client_run f_publish f_claim_next f_complete_done f_fail_or_retry fm_held fm_fresh
      \<lparr>fm_default_claim_lease_ms = lease, fm_default_retry_max_attempts = attempts,
       fm_retry_backoff_ms = backoff, fm_teams = []\<rparr> ms s"
    and "distinct ms"
  shows "fm_copies k m s = (if (k, m) \<in> set ms then 1 else 0)"
  by (rule file_mailbox.no_duplicates [OF assms(1) _ assms(2)])
    (simp_all add: fm_wf_def wf_dirs_def dirs_def fm_copies_def ecount_def Let_def)

definition demo_files :: file_mailbox where
  "demo_files = \<lparr>fm_default_claim_lease_ms = 1, fm_default_retry_max_attempts = 3,
       fm_retry_backoff_ms = 0, fm_teams = []\<rparr>"

theorem file_mailbox_conserves_witness:
  "fm_copies demo_key ''m'' (fst (f_publish ''u'' (demo_env ''m'') demo_files)) = 1"
proof -
  let ?s1 = "fst (f_publish ''u'' (demo_env ''m'') demo_files)"
  have fr: "fm_fresh ''u'' demo_files" by (simp add: fm_fresh_def demo_files_def dirs_def)
  have "snd (f_publish ''u'' (demo_env ''m'') demo_files) = Inr (demo_env ''m'')" by code_simp
  then have "f_publish ''u'' (demo_env ''m'') demo_files = (?s1, Inr (demo_env ''m''))"
    by (metis prod.collapse)
  with fr have "client_run f_publish f_claim_next f_complete_done f_fail_or_retry fm_held fm_fresh
      demo_files [(env_key (demo_env ''m''), message_id (demo_env ''m''))] ?s1"
    by (blast intro: client_run.intros)
  then show ?thesis
    using file_mailbox_conserves [of 1 3 0 "[(demo_key, ''m'')]" ?s1] by (simp add: demo_files_def)
qed

subsection \<open>Claims\<close>

text \<open>\<open>claim_next\<close> takes the least message id among those whose retry time has come, whatever the
  order of arrival, stamps it with the claim, the claimer and a lease (the caller's, else the
  message's, else the default), and returns nothing exactly when no message is ready.\<close>

theorem claim_next_takes_least_ready:
  assumes "claim_next k who lease now cid s = (s', c)" and "mb_wf s"
  shows "case c of
      None \<Rightarrow> \<forall>m e. map_of (sub (mb_inbox s) k) m = Some e \<longrightarrow> \<not> retry_ready now e
    | Some x \<Rightarrow> (\<exists>e. map_of (sub (mb_inbox s) k) (message_id x) = Some e \<and> retry_ready now e \<and>
        (\<forall>m' e'. map_of (sub (mb_inbox s) k) m' = Some e' \<and> retry_ready now e' \<longrightarrow> message_id x \<le> m') \<and>
        x = with_claim cid who (claim_lease lease e (default_claim_lease_ms s)) now e) \<and>
        map_of (sub (mb_inbox s') k) (message_id x) = None \<and>
        map_of (sub (mb_claimed s') k) (message_id x, cid) = Some x"
  using claim_next_spec [OF assms(1)]
proof (elim disjE exE conjE)
  assume "c = None"
    and "\<forall>(m, e) \<in> set (sub (mb_inbox s) k). map_of (sub (mb_inbox s) k) m = Some e \<longrightarrow> \<not> retry_ready now e"
  then show ?thesis using map_of_SomeD by fastforce
next
  fix m e
  assume e: "map_of (sub (mb_inbox s) k) m = Some e" "retry_ready now e"
    "\<forall>m' e'. map_of (sub (mb_inbox s) k) m' = Some e' \<and> retry_ready now e' \<longrightarrow> m \<le> m'"
    and c: "c = Some (with_claim cid who (claim_lease lease e (default_claim_lease_ms s)) now e)"
    and s': "s' = s\<lparr>mb_inbox := AList.update k (AList.delete m (sub (mb_inbox s) k)) (mb_inbox s),
             mb_claimed := AList.update k (AList.update (message_id e, cid) (the c) (sub (mb_claimed s) k))
                             (mb_claimed s)\<rparr>"
  have "message_id e = m" using mb_wfD [OF assms(2), of k] map_of_SomeD [OF e(1)] by (auto simp: mb_wf_at_def)
  with e c s' show ?thesis by (simp add: sub_update dict_simps)
qed

theorem claim_next_takes_least_ready_witness:
  "\<exists>s' x. claim_next demo_key ''w'' None 5 ''c''
       (fst (publish (demo_env ''a'') (fst (publish (demo_env ''b'') (new_mailbox 1 3 0))))) = (s', Some x) \<and>
     message_id x \<le> ''b''"
proof -
  let ?s = "fst (publish (demo_env ''a'') (fst (publish (demo_env ''b'') (new_mailbox 1 3 0))))"
  obtain s' c where r: "claim_next demo_key ''w'' None 5 ''c'' ?s = (s', c)" by (rule prod.exhaust)
  have p1: "publish (demo_env ''b'') (new_mailbox 1 3 0)
      = (fst (publish (demo_env ''b'') (new_mailbox 1 3 0)), Inr (demo_env ''b''))"
    by (simp add: publish_def new_mailbox_def sub_def Let_def)
  have "snd (publish (demo_env ''a'') (fst (publish (demo_env ''b'') (new_mailbox 1 3 0)))) = Inr (demo_env ''a'')"
    by code_simp
  then have p2: "publish (demo_env ''a'') (fst (publish (demo_env ''b'') (new_mailbox 1 3 0)))
      = (?s, Inr (demo_env ''a''))"
    by (metis prod.collapse)
  have w: "mb_wf ?s" using publish_ok [OF _ p2] publish_ok [OF _ p1] by simp
  have g: "map_of (sub (mb_inbox ?s) demo_key) ''b'' = Some (demo_env ''b'')" by code_simp
  have "retry_ready 5 (demo_env ''b'')" by (simp add: retry_ready_def)
  with claim_next_takes_least_ready [OF r w] g r show ?thesis by (auto split: option.splits)
qed

text \<open>a heartbeat keeps a claim alive for exactly one lease: an unterminated claim that no run is
  linked to and that waits for no permission is stale from the instant the lease after its last
  heartbeat has run out, not before; a linked or waiting one is never stale.\<close>

theorem heartbeat_extends_lease:
  assumes "claimed_at e \<noteq> None" and "claim_lease_ms e = Some lease" and "terminal_state e = None"
  shows "stale_claim (with_heartbeat t e) linked waiting now \<longleftrightarrow>
    \<not> linked \<and> \<not> waiting \<and> int t + lease * 1000 \<le> int now"
  using assms by (auto simp: stale_claim_def lease_expired_def with_heartbeat_def)

theorem heartbeat_extends_lease_witness:
  "stale_claim (with_heartbeat 7 (with_claim ''c'' ''w'' 2 1 (demo_env ''m''))) False False 2007"
  using heartbeat_extends_lease [of "with_claim ''c'' ''w'' 2 1 (demo_env ''m'')" 2 7 False False 2007]
  by (simp add: with_claim_def)

subsection \<open>Retries\<close>

lemma move_claim_result:
  assumes "move_claim_to_terminal bucket e s = (s', Inr a)"
  shows "a = e \<and> mb_inbox s' = mb_inbox s \<and>
    default_retry_max_attempts s' = default_retry_max_attempts s \<and> retry_backoff_ms s' = retry_backoff_ms s \<and>
    (\<exists>c. claim_id e = Some c \<and>
      map_of (sub (case bucket of MT_DONE \<Rightarrow> mb_done s' | MT_FAILED \<Rightarrow> mb_failed s' | MT_RETRY \<Rightarrow> mb_retry s')
        (env_key e)) (message_id e, c) = Some e \<and>
      map_of (sub (mb_claimed s') (env_key e)) (message_id e, c) = None)"
  using assms
  by (rule move_claim_spec) (cases bucket; simp add: Let_def sub_update dict_simps)

lemma env_key_frames [simp]:
  "env_key (with_terminal st r n e) = env_key e" "env_key (for_retry why q e) = env_key e"
  by (simp_all add: env_key_def)

text \<open>a failed claim is retried exactly while its attempt is below the ceiling (the caller's, else
  the message's, else the default).  A retry goes back to the inbox as the next attempt, unclaimed,
  not before the back-off, and never above the ceiling; a last failure goes to the failed bucket.\<close>

theorem fail_or_retry_outcome:
  assumes "fail_or_retry now now2 e why arg s = (s', Inr (a, q))"
  defines "ceiling \<equiv> retry_ceiling arg e (default_retry_max_attempts s)"
  shows "case q of
      None \<Rightarrow> ceiling \<le> attempt e \<and> terminal_state a = Some MT_FAILED \<and>
        (\<exists>c. map_of (sub (mb_failed s') (env_key e)) (message_id e, c) = Some a)
    | Some r \<Rightarrow> attempt e < ceiling \<and> terminal_state a = Some MT_RETRY \<and>
        (\<exists>c. map_of (sub (mb_retry s') (env_key e)) (message_id e, c) = Some a) \<and>
        map_of (sub (mb_inbox s') (env_key e)) (message_id e) = Some r \<and>
        attempt r = attempt e + 1 \<and> attempt r \<le> ceiling \<and> claim_id r = None \<and> terminal_state r = None \<and>
        retry_ready (now2 + 1000 * retry_backoff_ms s) r \<and>
        (\<forall>t. t < now2 + 1000 * retry_backoff_ms s \<and> 0 < retry_backoff_ms s \<longrightarrow> \<not> retry_ready t r)"
proof (cases "ceiling \<le> attempt e")
  case True
  then have mv: "move_claim_to_terminal MT_FAILED (with_terminal MT_FAILED (Some why) now e) s = (s', Inr a)"
    and q: "q = None"
    using assms(1) by (auto simp: fail_or_retry_def ceiling_def split: prod.splits sum.splits)
  from move_claim_result [OF mv] True q show ?thesis by auto
next
  case False
  let ?after = "if retry_backoff_ms s > 0 then Some (now2 + 1000 * retry_backoff_ms s) else None"
  from False obtain s1 r where
    mv: "move_claim_to_terminal MT_RETRY (with_terminal MT_RETRY (Some why) now e) s = (s1, Inr a)"
    and pb: "publish (for_retry why ?after a) s1 = (s', Inr r)" and q: "q = Some r"
    using assms(1) by (auto simp: fail_or_retry_def ceiling_def Let_def split: prod.splits sum.splits)
  from publish_spec [OF pb] have r: "r = for_retry why ?after a"
    and s': "s' = s1\<lparr>mb_inbox := AList.update (env_key a)
      (sub (mb_inbox s1) (env_key a) @ [(message_id a, r)]) (mb_inbox s1)\<rparr>"
    and n: "message_id a \<notin> fst ` set (sub (mb_inbox s1) (env_key a))"
    by (auto simp: keys_of_def)
  have "map_of (sub (mb_inbox s') (env_key a)) (message_id a) = Some r"
    using n by (force simp: s' sub_update map_add_def split: option.split dest: map_of_SomeD)
  moreover have "mb_retry s' = mb_retry s1" by (simp add: s')
  ultimately show ?thesis
    using move_claim_result [OF mv] False q r by (auto simp: retry_ready_def)
qed

definition demo_claimed :: mailbox where
  "demo_claimed = fst (claim_next demo_key ''w'' None 5 ''c'' (fst (publish (demo_env ''m'') (new_mailbox 1 3 0))))"

definition demo_claim :: envelope where
  "demo_claim = with_claim ''c'' ''w'' 1 5 (demo_env ''m'')"

theorem fail_or_retry_outcome_witness:
  "\<exists>s' a r. fail_or_retry 6 7 demo_claim ''boom'' None demo_claimed = (s', Inr (a, Some r)) \<and> attempt r = 2"
proof -
  have "(case snd (fail_or_retry 6 7 demo_claim ''boom'' None demo_claimed) of
      Inr p \<Rightarrow> \<not> Option.is_none (snd p) | Inl e \<Rightarrow> False)" by code_simp
  then obtain s' a r where f: "fail_or_retry 6 7 demo_claim ''boom'' None demo_claimed = (s', Inr (a, Some r))"
    by (cases "fail_or_retry 6 7 demo_claim ''boom'' None demo_claimed")
      (auto simp: Option.is_none_def split: sum.splits)
  from fail_or_retry_outcome [OF f] f show ?thesis by (simp add: demo_claim_def)
qed

text \<open>A worker that claims the next message and fails, once for each nonce.\<close>

fun fail_rounds :: "tm_key \<Rightarrow> string \<Rightarrow> string list \<Rightarrow> mailbox \<Rightarrow> mailbox" where
  "fail_rounds k why [] s = s"
| "fail_rounds k why (cid # cids) s =
     (case claim_next k ''worker'' None 0 cid s of
        (s1, None) \<Rightarrow> s1
      | (s1, Some x) \<Rightarrow> fail_rounds k why cids (fst (fail_or_retry 0 0 x why None s1)))"

definition lone_message :: "tm_key \<Rightarrow> envelope \<Rightarrow> int \<Rightarrow> mailbox \<Rightarrow> bool" where
  "lone_message k e limit s \<longleftrightarrow>
     sub (mb_inbox s) k = [(message_id e, e)] \<and> sub (mb_claimed s) k = [] \<and> env_key e = k \<and>
     next_retry_after e = None \<and> retry_max_attempts e = None \<and> retry_backoff_ms s = 0 \<and>
     default_retry_max_attempts s = limit \<and> limit \<noteq> 0"

lemma fail_round:
  assumes "lone_message k e limit s"
  obtains s1 x where "claim_next k ''worker'' None 0 cid s = (s1, Some x)" and "attempt x = attempt e"
    and "if attempt e < limit
      then \<exists>e'. lone_message k e' limit (fst (fail_or_retry 0 0 x why None s1)) \<and> attempt e' = attempt e + 1 \<and>
        message_id e' = message_id e
      else sub (mb_inbox (fst (fail_or_retry 0 0 x why None s1))) k = [] \<and>
        sub (mb_claimed (fst (fail_or_retry 0 0 x why None s1))) k = [] \<and>
        (\<exists>c a. map_of (sub (mb_failed (fst (fail_or_retry 0 0 x why None s1))) k) (message_id e, c) = Some a \<and>
          attempt a = attempt e \<and> terminal_reason a = Some why)"
proof -
  let ?x = "with_claim cid ''worker'' (claim_lease None e (default_claim_lease_ms s)) 0 e"
  let ?s1 = "s\<lparr>mb_inbox := AList.update k [] (mb_inbox s),
    mb_claimed := AList.update k [((message_id e, cid), ?x)] (mb_claimed s)\<rparr>"
  have kx: "env_key ?x = k" using assms by (simp add: lone_message_def env_key_def)
  have c: "claim_next k ''worker'' None 0 cid s = (?s1, Some ?x)"
    using assms by (simp add: lone_message_def claim_next_def retry_ready_def Let_def)
  have ceil: "retry_ceiling None ?x limit = limit"
    using assms by (simp add: lone_message_def retry_ceiling_def int_or_def)
  show ?thesis
  proof (rule that [OF c], simp, cases "attempt e < limit")
    case True
    let ?a = "with_terminal MT_RETRY (Some why) 0 ?x"
    have "\<exists>e'. lone_message k e' limit (fst (fail_or_retry 0 0 ?x why None ?s1)) \<and>
        attempt e' = attempt e + 1 \<and> message_id e' = message_id e"
      using assms True kx ceil
      by (intro exI [of _ "for_retry why None ?a"])
        (simp add: lone_message_def fail_or_retry_def move_claim_to_terminal_def claim_key_def publish_def
          sub_update Let_def)
    with True show "if attempt e < limit
      then \<exists>e'. lone_message k e' limit (fst (fail_or_retry 0 0 ?x why None ?s1)) \<and> attempt e' = attempt e + 1 \<and>
        message_id e' = message_id e
      else sub (mb_inbox (fst (fail_or_retry 0 0 ?x why None ?s1))) k = [] \<and>
        sub (mb_claimed (fst (fail_or_retry 0 0 ?x why None ?s1))) k = [] \<and>
        (\<exists>c a. map_of (sub (mb_failed (fst (fail_or_retry 0 0 ?x why None ?s1))) k) (message_id e, c) = Some a \<and>
          attempt a = attempt e \<and> terminal_reason a = Some why)" by simp
  next
    case False
    have "sub (mb_inbox (fst (fail_or_retry 0 0 ?x why None ?s1))) k = [] \<and>
        sub (mb_claimed (fst (fail_or_retry 0 0 ?x why None ?s1))) k = [] \<and>
        (\<exists>c a. map_of (sub (mb_failed (fst (fail_or_retry 0 0 ?x why None ?s1))) k) (message_id e, c) = Some a \<and>
          attempt a = attempt e \<and> terminal_reason a = Some why)"
      using assms False kx ceil
      by (auto simp: lone_message_def fail_or_retry_def move_claim_to_terminal_def claim_key_def
          sub_update dict_simps Let_def intro!: exI [of _ cid])
    with False show "if attempt e < limit
      then \<exists>e'. lone_message k e' limit (fst (fail_or_retry 0 0 ?x why None ?s1)) \<and> attempt e' = attempt e + 1 \<and>
        message_id e' = message_id e
      else sub (mb_inbox (fst (fail_or_retry 0 0 ?x why None ?s1))) k = [] \<and>
        sub (mb_claimed (fst (fail_or_retry 0 0 ?x why None ?s1))) k = [] \<and>
        (\<exists>c a. map_of (sub (mb_failed (fst (fail_or_retry 0 0 ?x why None ?s1))) k) (message_id e, c) = Some a \<and>
          attempt a = attempt e \<and> terminal_reason a = Some why)" by simp
  qed
qed

text \<open>a message that always fails is not retried for ever: with a limit of \<open>n\<close> attempts and no
  back-off, \<open>n - attempt + 1\<close> rounds of claiming and failing empty the inbox and the claims and leave it
  in the failed bucket, at attempt \<open>n\<close>, with the reason of its last failure.\<close>

theorem retries_exhaust:
  assumes "lone_message k e limit s" and "attempt e \<le> limit" and "length cids = nat (limit - attempt e + 1)"
  shows "sub (mb_inbox (fail_rounds k why cids s)) k = [] \<and> sub (mb_claimed (fail_rounds k why cids s)) k = [] \<and>
    (\<exists>c a. map_of (sub (mb_failed (fail_rounds k why cids s)) k) (message_id e, c) = Some a \<and>
       attempt a = limit \<and> terminal_reason a = Some why)"
  using assms
proof (induction cids arbitrary: e s)
  case Nil
  then show ?case by simp
next
  case (Cons cid cids)
  from Cons.prems(1) obtain s1 x where c: "claim_next k ''worker'' None 0 cid s = (s1, Some x)"
    and "attempt x = attempt e"
    and r: "if attempt e < limit
      then \<exists>e'. lone_message k e' limit (fst (fail_or_retry 0 0 x why None s1)) \<and> attempt e' = attempt e + 1 \<and>
        message_id e' = message_id e
      else sub (mb_inbox (fst (fail_or_retry 0 0 x why None s1))) k = [] \<and>
        sub (mb_claimed (fst (fail_or_retry 0 0 x why None s1))) k = [] \<and>
        (\<exists>c a. map_of (sub (mb_failed (fst (fail_or_retry 0 0 x why None s1))) k) (message_id e, c) = Some a \<and>
          attempt a = attempt e \<and> terminal_reason a = Some why)"
    by (rule fail_round)
  show ?case
  proof (cases "attempt e < limit")
    case True
    with r obtain e' where e': "lone_message k e' limit (fst (fail_or_retry 0 0 x why None s1))"
      "attempt e' = attempt e + 1" "message_id e' = message_id e" by auto
    moreover have "length cids = nat (limit - attempt e' + 1)" using Cons.prems(3) True e'(2) by simp
    ultimately show ?thesis using Cons.IH [of e' "fst (fail_or_retry 0 0 x why None s1)"] True c by simp
  next
    case False
    with Cons.prems(2,3) have "attempt e = limit" "cids = []" by auto
    with False r c show ?thesis by simp
  qed
qed

theorem retries_exhaust_witness:
  "sub (mb_inbox (fail_rounds demo_key ''boom'' [''1'', ''2'', ''3'']
     (fst (publish (demo_env ''m'') (new_mailbox 1 3 0))))) demo_key = []"
proof -
  have "lone_message demo_key (demo_env ''m'') 3 (fst (publish (demo_env ''m'') (new_mailbox 1 3 0)))"
    by (simp add: lone_message_def publish_def new_mailbox_def sub_def Let_def)
  from retries_exhaust [OF this, of "[''1'', ''2'', ''3'']" "''boom''"] show ?thesis by simp
qed

subsection \<open>Where the two stores differ\<close>

text \<open>in the file-backed store a publication refused because the message is already in the inbox
  still leaves a file there that \<open>claim_next\<close> takes for a message: the refused envelope is delivered
  (here before the accepted one, its name beginning with a dot).  The in-memory store keeps only the
  accepted message.\<close>

theorem refused_publication_delivered:
  fixes u c m :: string
  assumes "dirs k s = \<lparr>d_inbox = [(inbox_file m, e)], d_claimed = [], d_done = [], d_failed = [], d_retry = []\<rparr>"
    and "env_key e' = k" and "message_id e' = m" and "next_retry_after e' = None"
    and "temp_file m u < inbox_file m"
  shows "\<exists>s1 s2 x. f_publish u e' s = (s1, Inl (FileExistsError (inbox_file m))) \<and>
    f_claim_next k who lease now c s1 = (s2, Some x) \<and> message_id x = m \<and> env_payload x = env_payload e' \<and>
    d_inbox (dirs k s2) = [(inbox_file m, e)]"
proof -
  define t n where "t = temp_file m u" and "n = inbox_file m"
  have lt: "t < n" using assms(5) by (simp only: t_def n_def)
  then have neq: "t \<noteq> n" "n \<noteq> t" by auto
  have ends: "ends_with ''.json'' (x @ ''.json'')" for x :: string by (simp add: ends_with_def)
  have en: "ends_with ''.json'' n" using ends [of m] by (simp only: n_def inbox_file_def)
  have et: "ends_with ''.json'' t"
    using ends [of "''.tmp-'' @ m @ ''-'' @ u"] by (simp only: t_def temp_file_def append_assoc)
  let ?d = "dirs k s\<lparr>d_inbox := [(n, e), (t, e')]\<rparr>"
  have p: "f_publish u e' s = (put_dirs k ?d s, Inl (FileExistsError n))"
    using assms(1-3) lt by (simp add: f_publish_def Let_def flip: t_def n_def)
  have g: "glob_json [(n, e), (t, e')] = [t, n]"
  proof -
    have "\<not> n \<le> t" "t \<le> n" using lt by (simp_all only: not_le less_imp_le)
    then show ?thesis using en et by (simp add: glob_json_def)
  qed
  let ?x = "with_claim c who (claim_lease lease e' (fm_default_claim_lease_ms s)) now e'"
  have "snd (f_claim_next k who lease now c (put_dirs k ?d s)) = Some ?x"
    using neq assms(4) g
    by (simp add: f_claim_next_def Let_def retry_ready_def) (simp add: put_dirs_def)
  moreover have "d_inbox (dirs k (fst (f_claim_next k who lease now c (put_dirs k ?d s)))) = [(n, e)]"
    using neq assms(4) g by (simp add: f_claim_next_def Let_def retry_ready_def)
  moreover have "message_id ?x = m \<and> env_payload ?x = env_payload e'"
    using assms(3) by (simp add: with_claim_def)
  ultimately show ?thesis
    using p unfolding n_def by (metis prod.collapse)
qed

theorem refused_publication_delivered_witness:
  "\<exists>s2 x. f_claim_next demo_key ''w'' None 5 ''c''
     (fst (f_publish ''u'' (demo_env ''m'') (fst (f_publish ''v'' (demo_env ''m'') demo_files)))) = (s2, Some x)"
proof -
  let ?s = "fst (f_publish ''v'' (demo_env ''m'') demo_files)"
  have "dirs demo_key ?s = \<lparr>d_inbox = [(inbox_file ''m'', demo_env ''m'')], d_claimed = [], d_done = [],
      d_failed = [], d_retry = []\<rparr>" by code_simp
  moreover have "temp_file ''m'' ''u'' < inbox_file ''m''" by code_simp
  ultimately obtain s1 s2 x where "f_publish ''u'' (demo_env ''m'') ?s = (s1, Inl (FileExistsError (inbox_file ''m'')))"
    "f_claim_next demo_key ''w'' None 5 ''c'' s1 = (s2, Some x)"
    using refused_publication_delivered [of demo_key ?s "''m''" "demo_env ''m''" "demo_env ''m''" "''u''" "''w''" None 5 "''c''"]
    by auto
  then show ?thesis by auto
qed

text \<open>completing with a claim id that is not there fails in the in-memory store, and in the
  file-backed store moves the first other claim of that message to the done bucket, under the
  caller's envelope.\<close>

theorem missing_claim_differs:
  assumes "env_key e = k" and "claim_id e = Some c"
    and "map_of (sub (mb_claimed s) k) (message_id e, c) = None"
    and "map_of (d_claimed (dirs k fs)) (claim_file (message_id e) c) = None"
    and "glob_claims (message_id e) (d_claimed (dirs k fs)) = n # ns"
  shows "snd (complete_done now e reason s) = Inl (FileNotFoundError (message_id e)) \<and>
    (\<exists>fs'. f_complete_done now e reason fs = (fs', Inr (with_terminal MT_DONE reason now e)) \<and>
        map_of (d_claimed (dirs k fs')) n = None \<and>
        map_of (d_done (dirs k fs')) n = Some (with_terminal MT_DONE reason now e))"
proof -
  have "snd (complete_done now e reason s) = Inl (FileNotFoundError (message_id e))"
    using assms(1-3) by (simp add: complete_done_def move_claim_to_terminal_def claim_key_def Let_def)
  moreover have "f_claim_path k (message_id e) (Some c) fs = Inr n"
    using assms(4,5) by (simp add: f_claim_path_def Let_def)
  ultimately show ?thesis
    using assms(1,2) by (simp add: f_complete_done_def f_move_claim_to_terminal_def Let_def dict_simps)
qed

definition demo_claimed_files :: file_mailbox where
  "demo_claimed_files =
     fst (f_claim_next demo_key ''w'' None 5 ''c'' (fst (f_publish ''u'' (demo_env ''m'') demo_files)))"

theorem missing_claim_differs_witness:
  "\<exists>fs'. f_complete_done 9 (demo_claim\<lparr>claim_id := Some ''x''\<rparr>) None demo_claimed_files
     = (fs', Inr (with_terminal MT_DONE None 9 (demo_claim\<lparr>claim_id := Some ''x''\<rparr>)))"
proof -
  let ?e = "demo_claim\<lparr>claim_id := Some ''x''\<rparr>"
  have m1: "map_of (sub (mb_claimed demo_claimed) demo_key) (message_id ?e, ''x'') = None" by code_simp
  have m2: "map_of (d_claimed (dirs demo_key demo_claimed_files)) (claim_file (message_id ?e) ''x'') = None"
    by code_simp
  have g: "glob_claims (message_id ?e) (d_claimed (dirs demo_key demo_claimed_files)) = [''m--c.json'']"
    by code_simp
  have k: "env_key ?e = demo_key" and c: "claim_id ?e = Some ''x''" by code_simp+
  from missing_claim_differs [OF k c m1 m2 g, of 9 None] show ?thesis by blast
qed

end
