(* ===== verification/Packages_Data.thy ===== *)
theory Packages_Data
  imports Py_Values
begin

text \<open>
  The package system's data (\<open>package_system/resolution.py\<close>, \<open>package_system/protocols.py\<close>,
  \<open>extension_contracts/public_contract.py\<close>): manifests, dependency constraints and their
  normalisation, candidate descriptors, the comparison of version strings, the catalog and the
  request.  A manifest keeps its name, dependencies and metadata; its entry point and its other
  fields play no part in the resolution.
\<close>

datatype package_error = ValueError string | AttributeError string | KeyError string

text \<open>\<open>'{x}'\<close> in a formatted message.\<close>

definition quoted :: "string \<Rightarrow> string" where
  "quoted s = [char_of (39::nat)] @ s @ [char_of (39::nat)]"

subsection \<open>Names\<close>

definition first_party_names :: "string list" where
  "first_party_names =
     [''weavert-core'', ''weavert-default'', ''weavert-full'', ''weavert-memory'', ''weavert-team'',
      ''weavert-compaction'', ''weavert-isolation'', ''weavert-openai'',
      ''weavert-hosts-reference'', ''weavert-stores-file'', ''weavert-builtin-workflows'',
      ''weavert-planning'', ''weavert-devtools'']"

definition first_party_name_map :: "(string, string) dict" where
  "first_party_name_map = map (\<lambda>n. (n, n)) first_party_names"

definition canonical_first_party_name :: "string \<Rightarrow> string" where
  "canonical_first_party_name n = (case map_of first_party_name_map n of None \<Rightarrow> n | Some m \<Rightarrow> m)"

definition canonical_distribution_name :: "string \<Rightarrow> string" where
  "canonical_distribution_name n = canonical_first_party_name n"

lemma map_of_diagonal: "map_of (map (\<lambda>n. (n, n)) ns) x = (if x \<in> set ns then Some x else None)"
  by (induction ns) auto

lemma canonical_name_id [simp]: "canonical_first_party_name n = n"
  unfolding canonical_first_party_name_def first_party_name_map_def map_of_diagonal by simp

lemma canonical_distribution_id [simp]: "canonical_distribution_name n = n"
  by (simp add: canonical_distribution_name_def)

definition require_non_empty :: "string \<Rightarrow> string \<Rightarrow> package_error + string" where
  "require_non_empty v field =
     (if strip v = [] then Inl (ValueError (field @ '' must be a non-empty string'')) else Inr (strip v))"

fun stable_unique :: "string list \<Rightarrow> string list \<Rightarrow> string list \<Rightarrow> string list" where
  "stable_unique seen ordered [] = ordered"
| "stable_unique seen ordered (raw # raws) =
     (if strip raw = [] \<or> strip raw \<in> set seen then stable_unique seen ordered raws
      else stable_unique (strip raw # seen) (ordered @ [strip raw]) raws)"

definition stable_unique_names :: "string list \<Rightarrow> string list" where
  "stable_unique_names raws = stable_unique [] [] raws"

lemma set_stable_unique:
  "set seen = set ordered \<Longrightarrow>
   set (stable_unique seen ordered raws) = set ordered \<union> (strip ` set raws - {[]})"
  by (induction raws arbitrary: seen ordered) auto

lemma set_stable_unique_names [simp]: "set (stable_unique_names raws) = strip ` set raws - {[]}"
  by (simp add: stable_unique_names_def set_stable_unique)

lemma distinct_stable_unique:
  "set seen = set ordered \<Longrightarrow> distinct ordered \<Longrightarrow> distinct (stable_unique seen ordered raws)"
  by (induction raws arbitrary: seen ordered) auto

lemma distinct_stable_unique_names [simp]: "distinct (stable_unique_names raws)"
  by (simp add: stable_unique_names_def distinct_stable_unique)

subsection \<open>Version strings\<close>

text \<open>A part is \<open>(0, int)\<close> or \<open>(1, str)\<close>, compared as a Python tuple.\<close>

datatype ver_part = VNum nat | VStr string

instantiation ver_part :: linorder
begin

fun less_eq_ver_part :: "ver_part \<Rightarrow> ver_part \<Rightarrow> bool" where
  "less_eq_ver_part (VNum m) (VNum n) = (m \<le> n)"
| "less_eq_ver_part (VNum m) (VStr t) = True"
| "less_eq_ver_part (VStr s) (VNum n) = False"
| "less_eq_ver_part (VStr s) (VStr t) = (s \<le> t)"

definition less_ver_part :: "ver_part \<Rightarrow> ver_part \<Rightarrow> bool" where
  "less_ver_part x y = (x \<le> y \<and> \<not> y \<le> x)"

instance
proof
  fix x y z :: ver_part
  show "(x < y) = (x \<le> y \<and> \<not> y \<le> x)" by (rule less_ver_part_def)
  show "x \<le> x" by (cases x) auto
  show "x \<le> y \<Longrightarrow> y \<le> z \<Longrightarrow> x \<le> z" by (cases x; cases y; cases z) auto
  show "x \<le> y \<Longrightarrow> y \<le> x \<Longrightarrow> x = y" by (cases x; cases y) auto
  show "x \<le> y \<or> y \<le> x" by (cases x; cases y) auto
qed

end

definition is_digit :: "char \<Rightarrow> bool" where
  "is_digit c = (let n = (of_char c :: nat) in 48 \<le> n \<and> n \<le> 57)"

definition digits_value :: "string \<Rightarrow> nat" where
  "digits_value s = fold (\<lambda>c v. 10 * v + (of_char c - 48)) s 0"

definition is_separator :: "char \<Rightarrow> bool" where
  "is_separator c = (c \<in> set ''.-_+'')"

fun split_tokens :: "string \<Rightarrow> string \<Rightarrow> string list" where
  "split_tokens cur [] = [rev cur]"
| "split_tokens cur (c # cs) =
     (if is_separator c then rev cur # split_tokens [] cs else split_tokens (c # cur) cs)"

definition version_part :: "string \<Rightarrow> ver_part" where
  "version_part token =
     (if list_all is_digit token then VNum (digits_value token) else VStr (map lower_char token))"

definition version_parts :: "string \<Rightarrow> ver_part list" where
  "version_parts v = map version_part (filter (\<lambda>t. t \<noteq> []) (split_tokens [] (strip v)))"

definition compare_step :: "ver_part \<Rightarrow> ver_part \<Rightarrow> int \<Rightarrow> int" where
  "compare_step l r rest = (if l = r then rest else if l < r then -1 else 1)"

fun compare_parts :: "ver_part list \<Rightarrow> ver_part list \<Rightarrow> int" where
  "compare_parts [] [] = 0"
| "compare_parts (l # ls) [] = compare_step l (VNum 0) (compare_parts ls [])"
| "compare_parts [] (r # rs) = compare_step (VNum 0) r (compare_parts [] rs)"
| "compare_parts (l # ls) (r # rs) = compare_step l r (compare_parts ls rs)"

definition compare_versions :: "string \<Rightarrow> string \<Rightarrow> int" where
  "compare_versions l r = compare_parts (version_parts l) (version_parts r)"

text \<open>The comparison reads the part lists as sequences padded with \<open>VNum 0\<close>.\<close>

definition part_at :: "ver_part list \<Rightarrow> nat \<Rightarrow> ver_part" where
  "part_at ps i = (if i < length ps then ps ! i else VNum 0)"

lemma part_at_simps [simp]:
  "part_at [] i = VNum 0" "part_at (p # ps) 0 = p" "part_at (p # ps) (Suc i) = part_at ps i"
  by (simp_all add: part_at_def)

definition parts_less :: "ver_part list \<Rightarrow> ver_part list \<Rightarrow> bool" where
  "parts_less ls rs = (\<exists>i. part_at ls i < part_at rs i \<and> (\<forall>j<i. part_at ls j = part_at rs j))"

lemma parts_less_step:
  "parts_less ls rs \<longleftrightarrow> part_at ls 0 < part_at rs 0 \<or>
     (part_at ls 0 = part_at rs 0 \<and> (\<exists>i. part_at ls (Suc i) < part_at rs (Suc i) \<and>
        (\<forall>j<i. part_at ls (Suc j) = part_at rs (Suc j))))" (is "?l \<longleftrightarrow> ?r")
proof
  assume ?l
  then obtain i where i: "part_at ls i < part_at rs i" "\<forall>j<i. part_at ls j = part_at rs j"
    by (auto simp: parts_less_def)
  show ?r
  proof (cases i)
    case 0
    with i show ?thesis by simp
  next
    case (Suc k)
    with i show ?thesis by auto
  qed
next
  assume ?r
  then show ?l
  proof
    assume "part_at ls 0 < part_at rs 0"
    then show ?l unfolding parts_less_def by (intro exI [of _ 0]) simp
  next
    assume "part_at ls 0 = part_at rs 0 \<and> (\<exists>i. part_at ls (Suc i) < part_at rs (Suc i) \<and>
        (\<forall>j<i. part_at ls (Suc j) = part_at rs (Suc j)))"
    then obtain i where i: "part_at ls 0 = part_at rs 0" "part_at ls (Suc i) < part_at rs (Suc i)"
      "\<forall>j<i. part_at ls (Suc j) = part_at rs (Suc j)" by auto
    then show ?l unfolding parts_less_def
      by (intro exI [of _ "Suc i"]) (auto simp: less_Suc_eq_0_disj)
  qed
qed

lemma parts_less_simps [simp]:
  "\<not> parts_less [] []"
  "parts_less (l # ls) (r # rs) \<longleftrightarrow> l < r \<or> l = r \<and> parts_less ls rs"
  "parts_less (l # ls) [] \<longleftrightarrow> l < VNum 0 \<or> l = VNum 0 \<and> parts_less ls []"
  "parts_less [] (r # rs) \<longleftrightarrow> VNum 0 < r \<or> VNum 0 = r \<and> parts_less [] rs"
proof -
  show "\<not> parts_less [] []" by (simp add: parts_less_def)
  show "parts_less (l # ls) (r # rs) \<longleftrightarrow> l < r \<or> l = r \<and> parts_less ls rs"
    by (subst parts_less_step) (simp add: parts_less_def)
  show "parts_less (l # ls) [] \<longleftrightarrow> l < VNum 0 \<or> l = VNum 0 \<and> parts_less ls []"
    by (subst parts_less_step) (simp add: parts_less_def)
  show "parts_less [] (r # rs) \<longleftrightarrow> VNum 0 < r \<or> VNum 0 = r \<and> parts_less [] rs"
    by (subst parts_less_step) (simp add: parts_less_def)
qed

lemma compare_parts_sign:
  "compare_parts ls rs = (if parts_less ls rs then -1 else if parts_less rs ls then 1 else 0)"
  by (induction ls rs rule: compare_parts.induct)
    (auto simp: compare_step_def dest: less_asym not_less_iff_gr_or_eq [THEN iffD1])

lemma parts_less_irrefl [simp]: "\<not> parts_less ps ps"
  by (simp add: parts_less_def)

lemma parts_less_total:
  "parts_less ls rs \<or> parts_less rs ls \<or> (\<forall>i. part_at ls i = part_at rs i)"
proof (cases "\<forall>i. part_at ls i = part_at rs i")
  case False
  then obtain n where n: "part_at ls n \<noteq> part_at rs n" by blast
  define i where "i = (LEAST i. part_at ls i \<noteq> part_at rs i)"
  have ne: "part_at ls i \<noteq> part_at rs i"
    unfolding i_def by (rule LeastI [of "\<lambda>i. part_at ls i \<noteq> part_at rs i", OF n])
  have eq: "\<forall>j<i. part_at ls j = part_at rs j" unfolding i_def using not_less_Least by blast
  from ne consider "part_at ls i < part_at rs i" | "part_at rs i < part_at ls i"
    using less_linear by blast
  then show ?thesis
  proof cases
    case 1
    with eq show ?thesis unfolding parts_less_def by blast
  next
    case 2
    with eq have "parts_less rs ls" unfolding parts_less_def by (intro exI [of _ i]) simp
    then show ?thesis by simp
  qed
qed simp

lemma parts_less_trans: "parts_less a b \<Longrightarrow> parts_less b c \<Longrightarrow> parts_less a c"
proof -
  assume "parts_less a b" "parts_less b c"
  then obtain i j where i: "part_at a i < part_at b i" "\<forall>k<i. part_at a k = part_at b k"
    and j: "part_at b j < part_at c j" "\<forall>k<j. part_at b k = part_at c k"
    by (auto simp: parts_less_def)
  show "parts_less a c"
    unfolding parts_less_def
  proof (intro exI conjI)
    show "part_at a (min i j) < part_at c (min i j)"
      using i j by (cases i j rule: linorder_cases) (auto simp: min_def)
    show "\<forall>k<min i j. part_at a k = part_at c k" using i j by simp
  qed
qed

subsection \<open>Manifests, constraints and candidates\<close>

record manifest =
  mf_name :: string
  mf_dependencies :: "string list"
  mf_metadata :: "(string, pyval) dict"

definition mk_manifest :: "string \<Rightarrow> string list \<Rightarrow> (string, pyval) dict \<Rightarrow> package_error + manifest" where
  "mk_manifest n deps md =
     rbind (require_non_empty n ''name'') (\<lambda>n.
     Inr \<lparr>mf_name = canonical_first_party_name n,
          mf_dependencies = map canonical_first_party_name deps, mf_metadata = md\<rparr>)"

record dependency_constraint =
  dc_package :: string
  dc_candidate_id :: "string option"
  dc_version :: "string option"
  dc_minimum :: "string option"
  dc_maximum :: "string option"
  dc_include_minimum :: bool
  dc_include_maximum :: bool
  dc_kind :: string
  dc_metadata :: "(string, pyval) dict"

text \<open>\<open>__post_init__\<close> of a constraint, whose kind is one of the literals of the code.\<close>

definition mk_constraint :: "dependency_constraint \<Rightarrow> package_error + dependency_constraint" where
  "mk_constraint c =
     rbind (require_non_empty (dc_package c) ''package_name'') (\<lambda>p.
     rbind (require_non_empty (dc_kind c) ''kind'') (\<lambda>k.
     Inr (c\<lparr>dc_package := canonical_first_party_name p,
            dc_candidate_id := coerce_optional_string (dc_candidate_id c),
            dc_version := coerce_optional_string (dc_version c),
            dc_minimum := coerce_optional_string (dc_minimum c),
            dc_maximum := coerce_optional_string (dc_maximum c),
            dc_kind := k\<rparr>)))"

definition plain_constraint :: "string \<Rightarrow> string \<Rightarrow> dependency_constraint" where
  "plain_constraint p kind =
     \<lparr>dc_package = p, dc_candidate_id = None, dc_version = None, dc_minimum = None, dc_maximum = None,
      dc_include_minimum = True, dc_include_maximum = False, dc_kind = kind, dc_metadata = []\<rparr>"

record candidate =
  cd_package :: string
  cd_id :: string
  cd_manifest :: manifest
  cd_source :: "(string, pyval) dict"
  cd_constraints :: "dependency_constraint list"
  cd_version :: "string option"
  cd_compatibility :: "(string, pyval) dict"

definition in_lower_bound :: "string option \<Rightarrow> bool \<Rightarrow> string option \<Rightarrow> bool" where
  "in_lower_bound minimum inclusive version =
     (case minimum of None \<Rightarrow> True
      | Some m \<Rightarrow> (case version of None \<Rightarrow> False
         | Some v \<Rightarrow> \<not> (compare_versions v m < 0 \<or> compare_versions v m = 0 \<and> \<not> inclusive)))"

definition in_upper_bound :: "string option \<Rightarrow> bool \<Rightarrow> string option \<Rightarrow> bool" where
  "in_upper_bound maximum inclusive version =
     (case maximum of None \<Rightarrow> True
      | Some m \<Rightarrow> (case version of None \<Rightarrow> False
         | Some v \<Rightarrow> \<not> (compare_versions v m > 0 \<or> compare_versions v m = 0 \<and> \<not> inclusive)))"

definition matches :: "dependency_constraint \<Rightarrow> candidate \<Rightarrow> bool" where
  "matches c cand =
     (if cd_package cand \<noteq> dc_package c then False
      else if dc_candidate_id c \<noteq> None \<and> dc_candidate_id c \<noteq> Some (cd_id cand) then False
      else if dc_version c \<noteq> None \<and> cd_version cand \<noteq> dc_version c then False
      else in_lower_bound (dc_minimum c) (dc_include_minimum c) (cd_version cand) \<and>
           in_upper_bound (dc_maximum c) (dc_include_maximum c) (cd_version cand))"

text \<open>Iterating over a compatibility value: a list, the keys of a dict, the characters of a string.
  On a number, a bool or an explicit null Python raises; there the model reads no entries.\<close>

fun iter_values :: "pyval \<Rightarrow> pyval list" where
  "iter_values (PList xs) = xs"
| "iter_values (PDict kvs) = map (\<lambda>kv. PStr (fst kv)) kvs"
| "iter_values (PStr s) = map (\<lambda>c. PStr [c]) s"
| "iter_values v = []"

definition compatibility_names :: "(string, pyval) dict \<Rightarrow> string \<Rightarrow> string list" where
  "compatibility_names cm key =
     map canonical_distribution_name (List.map_filter coerce_optional_value (iter_values (py_get cm key)))"

definition supports_distribution :: "candidate \<Rightarrow> string \<Rightarrow> bool" where
  "supports_distribution cand dist =
     (let d = canonical_distribution_name dist;
          allowed = compatibility_names (cd_compatibility cand) ''distributions'';
          denied = compatibility_names (cd_compatibility cand) ''excluded_distributions''
      in if allowed \<noteq> [] \<and> d \<notin> set allowed then False
         else if d \<in> set denied then False
         else True)"

subsection \<open>Candidate descriptors\<close>

definition py_get_default :: "(string, pyval) dict \<Rightarrow> string \<Rightarrow> pyval \<Rightarrow> pyval" where
  "py_get_default d k v = (case map_of d k of None \<Rightarrow> v | Some x \<Rightarrow> x)"

definition structured_dependency_keys :: "string list" where
  "structured_dependency_keys =
     [''package_name'', ''name'', ''candidate_id'', ''version'', ''minimum_version'',
      ''maximum_version'', ''include_minimum'', ''include_maximum'', ''version_range'']"

text \<open>One entry of \<open>dependencies\<close> in the candidate metadata.  An absent version range is the empty
  mapping; an explicit null passes the type check, and its \<open>.get\<close> raises.\<close>

definition structured_constraint :: "string \<Rightarrow> pyval \<Rightarrow> package_error + dependency_constraint" where
  "structured_constraint owner raw =
     (case raw of
        PDict kvs \<Rightarrow>
          (case coerce_optional_value (py_or (py_get kvs ''package_name'') (py_get kvs ''name'')) of
             None \<Rightarrow> Inl (ValueError (''Structured package dependency for '' @ quoted owner @
                                     '' must declare package_name''))
           | Some p \<Rightarrow>
             (case py_get_default kvs ''version_range'' (PDict []) of
                PDict vr \<Rightarrow>
                  mk_constraint
                    \<lparr>dc_package = p,
                     dc_candidate_id = coerce_optional_value (py_get kvs ''candidate_id''),
                     dc_version = coerce_optional_value (py_get kvs ''version''),
                     dc_minimum = coerce_optional_value
                       (py_or (py_get kvs ''minimum_version'') (py_get vr ''minimum_version'')),
                     dc_maximum = coerce_optional_value
                       (py_or (py_get kvs ''maximum_version'') (py_get vr ''maximum_version'')),
                     dc_include_minimum = py_truthy (py_get_default kvs ''include_minimum''
                       (py_get_default vr ''include_minimum'' (PBool True))),
                     dc_include_maximum = py_truthy (py_get_default kvs ''include_maximum''
                       (py_get_default vr ''include_maximum'' (PBool False))),
                     dc_kind = ''structured'',
                     dc_metadata = filter (\<lambda>kv. fst kv \<notin> set structured_dependency_keys) kvs\<rparr>
              | PNone \<Rightarrow> Inl (AttributeError ''get'')
              | _ \<Rightarrow> Inl (ValueError (''Structured package dependency for '' @ quoted owner @
                                     '' has invalid version_range''))))
      | _ \<Rightarrow> Inl (ValueError (''Structured package dependency for '' @ quoted owner @
                             '' must be a mapping'')))"

fun map_result :: "('a \<Rightarrow> 'e + 'b) \<Rightarrow> 'a list \<Rightarrow> 'e + 'b list" where
  "map_result f [] = Inr []"
| "map_result f (x # xs) = rbind (f x) (\<lambda>y. rbind (map_result f xs) (\<lambda>ys. Inr (y # ys)))"

definition normalized_dependency_constraints ::
  "manifest \<Rightarrow> (string, pyval) dict \<Rightarrow> package_error + dependency_constraint list" where
  "normalized_dependency_constraints m md =
     rbind (map_result (\<lambda>d. mk_constraint (plain_constraint d ''legacy'')) (mf_dependencies m)) (\<lambda>legacy.
     case py_get md ''dependencies'' of
       PList raws \<Rightarrow>
         rbind (map_result (structured_constraint (mf_name m)) raws) (\<lambda>structured.
         Inr (legacy @ structured))
     | _ \<Rightarrow> Inr legacy)"

definition starts_with :: "string \<Rightarrow> string \<Rightarrow> bool" where
  "starts_with s p = (take (length p) s = p)"

definition candidate_metadata :: "manifest \<Rightarrow> (string, pyval) dict" where
  "candidate_metadata m = coerce_mapping (py_get (mf_metadata m) ''package_candidate'')"

text \<open>\<open>_candidate_descriptor\<close>.  The compatibility value is a mapping, as the catalog documents it.\<close>

definition candidate_descriptor ::
  "manifest \<Rightarrow> (string, pyval) dict \<Rightarrow> string option \<Rightarrow> package_error + candidate" where
  "candidate_descriptor m source default_candidate_id =
     (let md = candidate_metadata m in
     rbind (normalized_dependency_constraints m md) (\<lambda>cs.
     let names = stable_unique_names (mf_dependencies m @ map dc_package cs);
         m' = (if names = mf_dependencies m then m
               else m\<lparr>mf_dependencies := map canonical_first_party_name names\<rparr>);
         cid = (case coerce_optional_value (py_get md ''candidate_id'') of
                  Some c \<Rightarrow> c
                | None \<Rightarrow> (case default_candidate_id of
                     Some d \<Rightarrow> (if d \<noteq> [] then d else ''official::'' @ mf_name m)
                   | None \<Rightarrow> ''official::'' @ mf_name m));
         version = coerce_optional_value (py_get md ''version'');
         cid = (case version of
                  Some v \<Rightarrow> (if CHR ''@'' \<notin> set cid \<and> starts_with cid ''official::''
                            then cid @ ''@'' @ v else cid)
                | None \<Rightarrow> cid)
     in rbind (require_non_empty (mf_name m) ''package_name'') (\<lambda>p.
        rbind (require_non_empty cid ''candidate_id'') (\<lambda>cid.
        Inr \<lparr>cd_package = canonical_first_party_name p, cd_id = cid, cd_manifest = m',
             cd_source = source, cd_constraints = cs, cd_version = version,
             cd_compatibility = coerce_mapping (py_get md ''compatibility'')\<rparr>))))"

subsection \<open>The catalog\<close>

text \<open>An accepted external registration: its manifest, its provenance and its index.\<close>

definition external_default_id :: "manifest \<Rightarrow> nat \<Rightarrow> string" where
  "external_default_id m i = ''external::'' @ mf_name m @ ''#'' @ show_nat i"

definition first_party_source :: "manifest \<Rightarrow> (string, pyval) dict" where
  "first_party_source m =
     [(''origin'', PStr ''first_party''), (''source_kind'', PStr ''official-catalog''),
      (''source_ref'', PStr (''weavert.package_system.catalog:OFFICIAL_RUNTIME_PACKAGE_CATALOG['' @
         quoted (mf_name m) @ '']''))]"

definition build_runtime_package_catalog ::
  "manifest list \<Rightarrow> (manifest \<times> (string, pyval) dict \<times> nat) list \<Rightarrow> package_error + candidate list" where
  "build_runtime_package_catalog first_party accepted =
     rbind (map_result (\<lambda>m. candidate_descriptor m (first_party_source m) None) first_party) (\<lambda>fs.
     rbind (map_result (\<lambda>(m, provenance, i).
              candidate_descriptor m provenance (Some (external_default_id m i))) accepted) (\<lambda>es.
     Inr (fs @ es)))"

definition candidate_sort_key :: "candidate \<Rightarrow> nat \<times> string \<times> string" where
  "candidate_sort_key c =
     (let origin = strip (py_str (py_get_default (cd_source c) ''origin'' (PStr ''external'')))
      in (if origin = ''first_party'' then 0 else 1, cd_package c, cd_id c))"

type_synonym catalog = "(string, candidate list) dict"

definition candidates_for :: "catalog \<Rightarrow> string \<Rightarrow> candidate list" where
  "candidates_for cat p = (case map_of cat p of None \<Rightarrow> [] | Some cs \<Rightarrow> cs)"

definition by_package_name :: "candidate list \<Rightarrow> catalog" where
  "by_package_name cs =
     fold (\<lambda>c g. AList.update (cd_package c) (candidates_for g (cd_package c) @ [c]) g)
       (sort_key candidate_sort_key cs) []"

subsection \<open>The request\<close>

record package_request =
  rq_distribution :: string
  rq_baseline :: "string list"
  rq_enabled :: "string list"
  rq_disabled :: "string list"
  rq_explicit :: "string list"
  rq_requested :: "string list"

definition sorted_names :: "string \<Rightarrow> string list \<Rightarrow> package_error + string list" where
  "sorted_names field names =
     rbind (map_result (\<lambda>n. require_non_empty n field) names) (\<lambda>ns.
     Inr (sort (remdups (map canonical_first_party_name ns))))"

definition build_runtime_package_request ::
  "string \<Rightarrow> string list \<Rightarrow> string list \<Rightarrow> string list \<Rightarrow> string list \<Rightarrow> string list \<Rightarrow> string list
   \<Rightarrow> package_error + package_request" where
  "build_runtime_package_request dist baseline enabled disabled explicit sel first_party =
     rbind (sorted_names ''enabled_package'' enabled) (\<lambda>en.
     rbind (sorted_names ''disabled_package'' disabled) (\<lambda>dis.
     rbind (sorted_names ''explicit_package_request'' explicit) (\<lambda>ex.
     let normalized_selected = map canonical_first_party_name sel;
         conflicting = sort (filter (\<lambda>p. p \<in> set (map canonical_first_party_name first_party) \<and>
                                          p \<notin> set normalized_selected) ex)
     in rbind (ensure (conflicting = [])
                (ValueError (''Explicit package requests must target admitted external package names; use enabled_packages/disabled_packages for first-party packages: '' @ join '', '' conflicting))) (\<lambda>_.
        rbind (require_non_empty dist ''distribution'') (\<lambda>d.
        Inr \<lparr>rq_distribution = canonical_distribution_name d,
             rq_baseline = map canonical_first_party_name baseline,
             rq_enabled = en, rq_disabled = dis, rq_explicit = ex,
             rq_requested = stable_unique_names (normalized_selected @ ex)\<rparr>)))))"

end
