(* ===== verification/Packages_Resolve.thy ===== *)
theory Packages_Resolve
  imports Packages_Data
begin

text \<open>
  The backtracking resolver of \<open>package_system/resolution.py\<close> and \<open>order_package_manifests\<close> of
  \<open>package_system/protocols.py\<close>.  The \<open>on_success\<close> closures of the code are the values of a
  datatype, one constructor per lambda; the dictionaries the code mutates and restores from its
  snapshots are passed along, so a failed branch leaves the caller's state.
\<close>

subsection \<open>Requirements and diagnostics\<close>

record requirement =
  req_constraint :: dependency_constraint
  req_source :: string
  req_requester :: string
  req_requester_id :: "string option"

text \<open>One constructor per diagnostic; the arguments are what the code puts in its details.\<close>

datatype diagnostic =
  D_Cycle "string list" "string option" "requirement list"
| D_Missing string "requirement list"
| D_No_Distribution string string "requirement list" "candidate list"
| D_Conflicting string string "(requirement \<times> candidate list) list" "candidate list"
| D_Unsatisfied string string "requirement list" "candidate list"
| D_Duplicate_Id string string "candidate list"

fun diag_code :: "diagnostic \<Rightarrow> string" where
  "diag_code (D_Cycle path cid rs) = ''runtime_package_cyclic_dependency''"
| "diag_code (D_Missing p rs) = ''runtime_package_missing''"
| "diag_code (D_No_Distribution p d rs cs) = ''runtime_package_incompatible_candidate''"
| "diag_code (D_Conflicting p d ms cs) = ''runtime_package_conflicting_constraints''"
| "diag_code (D_Unsatisfied p d rs cs) = ''runtime_package_incompatible_candidate''"
| "diag_code (D_Duplicate_Id p cid cs) = ''runtime_package_duplicate_candidate_id''"

fun diag_message :: "diagnostic \<Rightarrow> string" where
  "diag_message (D_Cycle path cid rs) =
     ''Package resolution detected a cyclic dependency: '' @ join '' -> '' path"
| "diag_message (D_Missing p rs) =
     ''Package resolution could not find any candidate for '' @ quoted p"
| "diag_message (D_No_Distribution p d rs cs) =
     ''Package resolution found candidates for '' @ quoted p @
     '', but none are compatible with distribution '' @ quoted d"
| "diag_message (D_Conflicting p d ms cs) =
     ''Package resolution could not satisfy all constraints for '' @ quoted p @
     '' with one concrete candidate''"
| "diag_message (D_Unsatisfied p d rs cs) =
     ''Package resolution found candidates for '' @ quoted p @
     '', but none satisfy the active constraints''"
| "diag_message (D_Duplicate_Id p cid cs) =
     ''Package catalog defines duplicate candidate_id '' @ quoted cid @ '' for '' @ quoted p"

definition candidate_satisfies :: "candidate \<Rightarrow> requirement list \<Rightarrow> string \<Rightarrow> bool" where
  "candidate_satisfies c rs dist =
     (supports_distribution c dist \<and> list_all (\<lambda>r. matches (req_constraint r) c) rs)"

definition constraint_failure ::
  "string \<Rightarrow> requirement list \<Rightarrow> candidate list \<Rightarrow> string \<Rightarrow> diagnostic" where
  "constraint_failure p rs cands dist =
     (let compatible = filter (\<lambda>c. supports_distribution c dist) cands in
      if compatible = [] then D_No_Distribution p dist rs cands
      else
        let ms = map (\<lambda>r. (r, filter (matches (req_constraint r)) compatible)) rs
        in if rs \<noteq> [] \<and> list_all (\<lambda>m. snd m \<noteq> []) ms then D_Conflicting p dist ms compatible
           else D_Unsatisfied p dist rs compatible)"

definition catalog_diagnostics :: "catalog \<Rightarrow> diagnostic list" where
  "catalog_diagnostics cat =
     concat (map (\<lambda>(p, cands).
       List.map_filter (\<lambda>cid.
         let entries = filter (\<lambda>c. cd_id c = cid) cands
         in if length entries < 2 then None else Some (D_Duplicate_Id p cid entries))
       (rev (remdups (rev (map cd_id cands))))) cat)"

subsection \<open>The search\<close>

record search_state =
  selected :: "(string, candidate) dict"
  constraints_by_package :: "(string, requirement list) dict"

definition requirements_of :: "search_state \<Rightarrow> string \<Rightarrow> requirement list" where
  "requirements_of st p = (case map_of (constraints_by_package st) p of None \<Rightarrow> [] | Some rs \<Rightarrow> rs)"

definition add_requirement :: "string \<Rightarrow> requirement \<Rightarrow> search_state \<Rightarrow> search_state" where
  "add_requirement p r st =
     st\<lparr>constraints_by_package := AList.update p (requirements_of st p @ [r]) (constraints_by_package st)\<rparr>"

definition select :: "string \<Rightarrow> candidate \<Rightarrow> search_state \<Rightarrow> search_state" where
  "select p c st = st\<lparr>selected := AList.update p c (selected st)\<rparr>"

definition dependency_requirement :: "candidate \<Rightarrow> dependency_constraint \<Rightarrow> requirement" where
  "dependency_requirement c d =
     \<lparr>req_constraint = d, req_source = ''dependency'', req_requester = cd_package c,
      req_requester_id = coerce_optional_string (Some (cd_id c))\<rparr>"

text \<open>The closures: the remaining requested packages; or the remaining dependencies of a candidate,
  the stack they are resolved on, and what follows them.\<close>

datatype on_success =
  K_Requested "string list"
| K_Dependencies candidate "dependency_constraint list" "string list" on_success

fun kont_size :: "on_success \<Rightarrow> nat" where
  "kont_size (K_Requested ps) = Suc (length ps)"
| "kont_size (K_Dependencies c ds stack k) = Suc (length ds + kont_size k)"

text \<open>The loop over the matching candidates: the first success, or else the first failure.\<close>

fun try_branches :: "('c \<Rightarrow> 'e + 's) \<Rightarrow> 'c list \<Rightarrow> 'e list \<Rightarrow> 'e + 's" where
  "try_branches f [] failures = Inl (hd failures)"
| "try_branches f (c # cs) failures =
     (case f c of Inr s \<Rightarrow> Inr s | Inl e \<Rightarrow> try_branches f cs (failures @ [e]))"

lemma try_branches_cong [fundef_cong]:
  assumes "cs = cs'" and "fs = fs'" and "\<And>c. c \<in> set cs' \<Longrightarrow> f c = g c"
  shows "try_branches f cs fs = try_branches g cs' fs'"
  unfolding assms(1,2) using assms(3)
proof (induction cs' arbitrary: fs')
  case (Cons c cs')
  then show ?case by (cases "g c") auto
qed simp

lemma try_branches_Inr:
  "try_branches f cs fs = Inr s \<Longrightarrow> \<exists>c \<in> set cs. f c = Inr s"
  by (induction cs arbitrary: fs) (auto split: sum.splits)

lemma try_branches_complete:
  "c \<in> set cs \<Longrightarrow> f c = Inr s \<Longrightarrow> \<exists>s'. try_branches f cs fs = Inr s'"
  by (induction cs arbitrary: fs) (auto split: sum.splits)

definition cycle_path :: "string \<Rightarrow> string list \<Rightarrow> string list" where
  "cycle_path p stack = dropWhile (\<lambda>q. q \<noteq> p) stack @ [p]"

definition unselected :: "catalog \<Rightarrow> search_state \<Rightarrow> nat" where
  "unselected cat st = card (set (map fst cat) - set (map fst (selected st)))"

lemma unselected_add [simp]: "unselected cat (add_requirement p r st) = unselected cat st"
  by (simp add: unselected_def add_requirement_def)

lemma unselected_select:
  assumes "candidates_for cat p \<noteq> []" and "map_of (selected st) p = None"
  shows "unselected cat (select p c st) < unselected cat st"
proof -
  have "p \<in> set (map fst cat)" using assms(1)
    by (auto simp: candidates_for_def split: option.splits dest!: map_of_SomeD intro!: rev_image_eqI)
  moreover have "p \<notin> set (map fst (selected st))" using assms(2) by (simp add: map_of_eq_None_iff)
  moreover have "set (map fst (selected (select p c st))) = insert p (set (map fst (selected st)))"
    by (simp add: select_def map_of_update flip: dom_map_of_conv_image_fst)
  ultimately show ?thesis unfolding unselected_def by (intro psubset_card_mono) auto
qed

text \<open>\<open>run_kont\<close> calls a closure (the two clauses of its second constructor are
  \<open>_resolve_candidate_dependencies\<close>, those of the first \<open>_resolve_requested_packages\<close>);
  \<open>resolve_package\<close> is \<open>_resolve_package\<close>.  Without a failure the result is the final state.\<close>

function run_kont :: "string \<Rightarrow> catalog \<Rightarrow> on_success \<Rightarrow> search_state \<Rightarrow> diagnostic + search_state"
  and resolve_package ::
    "string \<Rightarrow> catalog \<Rightarrow> string \<Rightarrow> string list \<Rightarrow> on_success \<Rightarrow> search_state \<Rightarrow> diagnostic + search_state"
where
  "run_kont dist cat (K_Requested []) st = Inr st"
| "run_kont dist cat (K_Requested (p # ps)) st = resolve_package dist cat p [] (K_Requested ps) st"
| "run_kont dist cat (K_Dependencies c [] stack k) st = run_kont dist cat k st"
| "run_kont dist cat (K_Dependencies c (d # ds) stack k) st =
     resolve_package dist cat (dc_package d) stack (K_Dependencies c ds stack k)
       (add_requirement (dc_package d) (dependency_requirement c d) st)"
| "resolve_package dist cat p stack k st =
     (let rs = requirements_of st p in
      if p \<in> set stack then
        Inl (D_Cycle (cycle_path p stack) (map_option cd_id (map_of (selected st) p)) rs)
      else case map_of (selected st) p of
        Some existing \<Rightarrow>
          if candidate_satisfies existing rs dist then run_kont dist cat k st
          else Inl (constraint_failure p rs (candidates_for cat p) dist)
      | None \<Rightarrow>
          (let cands = candidates_for cat p;
               matching = filter (\<lambda>c. candidate_satisfies c rs dist) cands
           in if cands = [] then Inl (D_Missing p rs)
              else if matching = [] then Inl (constraint_failure p rs cands dist)
              else try_branches (\<lambda>c.
                     run_kont dist cat (K_Dependencies c (cd_constraints c) (stack @ [p]) k)
                       (select p c st)) matching []))"
  by pat_completeness auto

termination
proof (relation "measures
    [\<lambda>x. case x of Inl (dist, cat, k, st) \<Rightarrow> unselected cat st
        | Inr (dist, cat, p, stack, k, st) \<Rightarrow> unselected cat st,
     \<lambda>x. case x of Inl (dist, cat, k, st) \<Rightarrow> 2 * kont_size k
        | Inr (dist, cat, p, stack, k, st) \<Rightarrow> 2 * kont_size k + 1]")
qed (auto simp: unselected_select)

declare run_kont.simps [simp del] resolve_package.simps [simp del]

subsection \<open>Ordering the selected manifests\<close>

type_synonym manifest_catalog = "(string, manifest) dict"

text \<open>\<open>visit\<close> with the set it marks \<open>visiting\<close>, and \<open>visited\<close> and \<open>ordered\<close> as state; \<open>visit_all\<close>
  is its loop over the dependencies.\<close>

function visit ::
    "manifest_catalog \<Rightarrow> string set \<Rightarrow> string list \<Rightarrow> string \<Rightarrow> string list \<times> manifest list
     \<Rightarrow> package_error + string list \<times> manifest list"
  and visit_all ::
    "manifest_catalog \<Rightarrow> string set \<Rightarrow> string list \<Rightarrow> string \<Rightarrow> string list
     \<Rightarrow> string list \<times> manifest list \<Rightarrow> package_error + string list \<times> manifest list"
where
  "visit mc requested visiting name (visited, ordered) =
     (if name \<in> set visited then Inr (visited, ordered)
      else if name \<in> set visiting then
        Inl (ValueError (''Cyclic package dependency detected at '' @ quoted name))
      else case map_of mc name of
        None \<Rightarrow> Inl (KeyError (''Unknown runtime package manifest '' @ quoted name))
      | Some m \<Rightarrow>
          rbind (visit_all mc requested (name # visiting) name (mf_dependencies m) (visited, ordered))
            (\<lambda>(visited, ordered). Inr (name # visited, ordered @ [m])))"
| "visit_all mc requested visiting name [] st = Inr st"
| "visit_all mc requested visiting name (d # ds) st =
     (if d \<notin> requested then
        Inl (ValueError (''Package '' @ quoted name @ '' requires dependency '' @ quoted d @
                         '' to be selected''))
      else rbind (visit mc requested visiting d st) (visit_all mc requested visiting name ds))"
  by pat_completeness auto

termination
proof (relation "measures
    [\<lambda>x. case x of Inl (mc, requested, visiting, name, st) \<Rightarrow> card (set (map fst mc) - set visiting)
        | Inr (mc, requested, visiting, name, ds, st) \<Rightarrow> card (set (map fst mc) - set visiting),
     \<lambda>x. case x of Inl (mc, requested, visiting, name, st) \<Rightarrow> 0
        | Inr (mc, requested, visiting, name, ds, st) \<Rightarrow> Suc (length ds)]", goal_cases)
  case (2 mc requested visiting name visited ordered m)
  then have "name \<in> set (map fst mc) - set visiting" by (force dest: map_of_SomeD)
  then have "set (map fst mc) - set (name # visiting) \<subset> set (map fst mc) - set visiting" by auto
  then show ?case by (auto intro: psubset_card_mono)
qed auto

declare visit.simps [simp del]

definition order_package_manifests ::
  "string list \<Rightarrow> manifest_catalog \<Rightarrow> package_error + manifest list" where
  "order_package_manifests names mc =
     (let requested = map canonical_first_party_name names in
      rbind (foldl (\<lambda>r p. rbind r (visit mc (set requested) [] p)) (Inr ([], [])) requested)
        (\<lambda>(visited, ordered). Inr ordered))"

subsection \<open>Resolving a request\<close>

record resolution_report =
  rp_candidates :: "candidate list"
  rp_manifests :: "manifest list"
  rp_diagnostics :: "diagnostic list"

definition request_requirement :: "string \<Rightarrow> package_error + requirement" where
  "request_requirement p =
     rbind (mk_constraint (plain_constraint p ''request'')) (\<lambda>c.
     Inr \<lparr>req_constraint = c, req_source = ''runtime_request'',
          req_requester = ''RuntimeConfig.requested_packages'', req_requester_id = None\<rparr>)"

definition initial_state :: "string list \<Rightarrow> package_error + search_state" where
  "initial_state ps =
     foldl (\<lambda>r p. rbind r (\<lambda>st. rbind (request_requirement p) (\<lambda>q. Inr (add_requirement p q st))))
       (Inr \<lparr>selected = [], constraints_by_package = []\<rparr>) ps"

definition resolve_runtime_package_graph ::
  "package_request \<Rightarrow> candidate list \<Rightarrow> package_error + resolution_report" where
  "resolve_runtime_package_graph rq cands =
     (let cat = by_package_name cands; ds = catalog_diagnostics cat in
      if ds \<noteq> [] then Inr \<lparr>rp_candidates = [], rp_manifests = [], rp_diagnostics = ds\<rparr>
      else
        rbind (initial_state (rq_requested rq)) (\<lambda>st0.
        case run_kont (rq_distribution rq) cat (K_Requested (rq_requested rq)) st0 of
          Inl failure \<Rightarrow> Inr \<lparr>rp_candidates = [], rp_manifests = [], rp_diagnostics = [failure]\<rparr>
        | Inr st \<Rightarrow>
            rbind (order_package_manifests (map fst (selected st))
                     (map (\<lambda>(p, c). (p, cd_manifest c)) (selected st))) (\<lambda>ms.
            rbind (map_result (\<lambda>m. case map_of (selected st) (mf_name m) of
                                     None \<Rightarrow> Inl (KeyError (mf_name m)) | Some c \<Rightarrow> Inr c) ms) (\<lambda>cs.
            Inr \<lparr>rp_candidates = cs, rp_manifests = ms, rp_diagnostics = []\<rparr>))))"

end
