(* ===== verification/Packages_Search.thy ===== *)
theory Packages_Search
  imports Packages_Resolve
begin

text \<open>
  The search finds a selection exactly when there is one: the abstract contract
  (\<open>valid_selection\<close>: closed under dependencies, every constraint met, acyclic), the invariant of
  the backtracking search that gives it, and the argument that no such selection is missed.
\<close>

subsection \<open>The contract\<close>

definition dependency_edges :: "(string \<Rightarrow> candidate option) \<Rightarrow> (string \<times> string) set" where
  "dependency_edges S = {(p, dc_package d) | p c d. S p = Some c \<and> d \<in> set (cd_constraints c)}"

definition met :: "(string \<Rightarrow> candidate option) \<Rightarrow> dependency_constraint \<Rightarrow> bool" where
  "met S d = (case S (dc_package d) of None \<Rightarrow> False | Some c \<Rightarrow> matches d c)"

definition valid_selection ::
  "string \<Rightarrow> catalog \<Rightarrow> string list \<Rightarrow> (string \<Rightarrow> candidate option) \<Rightarrow> bool" where
  "valid_selection dist cat requested S \<longleftrightarrow>
     (\<forall>p \<in> set requested. met S (plain_constraint p ''request'')) \<and>
     (\<forall>p c. S p = Some c \<longrightarrow> c \<in> set (candidates_for cat p) \<and> supports_distribution c dist \<and>
            (\<forall>d \<in> set (cd_constraints c). met S d)) \<and>
     acyclic (dependency_edges S)"

definition wf_catalog :: "catalog \<Rightarrow> bool" where
  "wf_catalog cat = (\<forall>p. \<forall>c \<in> set (candidates_for cat p). cd_package c = p)"

lemma met_Some: "met S d \<longleftrightarrow> (\<exists>c. S (dc_package d) = Some c \<and> matches d c)"
  by (auto simp: met_def split: option.splits)

lemma map_of_select [simp]: "map_of (selected (select p c st)) = (map_of (selected st))(p \<mapsto> c)"
  by (simp add: select_def map_of_update)

lemma requirements_select [simp]: "requirements_of (select p c st) q = requirements_of st q"
  by (simp add: select_def requirements_of_def)

lemma selected_add [simp]: "selected (add_requirement p r st) = selected st"
  by (simp add: add_requirement_def)

lemma requirements_add:
  "requirements_of (add_requirement p r st) q =
     (if q = p then requirements_of st p @ [r] else requirements_of st q)"
  by (simp add: add_requirement_def requirements_of_def map_of_update)

subsection \<open>What the search finds is valid\<close>

definition in_force :: "search_state \<Rightarrow> string \<Rightarrow> dependency_constraint \<Rightarrow> bool" where
  "in_force st p d = (dc_package d = p \<and> d \<in> req_constraint ` set (requirements_of st p))"

definition settled ::
  "(string \<Rightarrow> candidate option) \<Rightarrow> string set \<Rightarrow> dependency_constraint \<Rightarrow> bool" where
  "settled S F d = (dc_package d \<in> F \<and> met S d)"

fun top_stack :: "on_success \<Rightarrow> string list" where
  "top_stack (K_Requested ps) = []"
| "top_stack (K_Dependencies c ds stack k) = stack"

text \<open>The closures still to run: every constraint they have passed is settled, or is the one being
  resolved (\<open>q\<close>).\<close>

fun kont_inv :: "string list \<Rightarrow> (string \<Rightarrow> candidate option) \<Rightarrow> string set \<Rightarrow>
    (dependency_constraint \<Rightarrow> bool) \<Rightarrow> on_success \<Rightarrow> bool" where
  "kont_inv rq S F q (K_Requested ps) =
     (\<exists>pre. rq = pre @ ps \<and>
        (\<forall>p \<in> set pre. settled S F (plain_constraint p ''request'') \<or> q (plain_constraint p ''request'')))"
| "kont_inv rq S F q (K_Dependencies c ds stack k) =
     (S (cd_package c) = Some c \<and> stack = top_stack k @ [cd_package c] \<and>
      cd_package c \<notin> set (top_stack k) \<and>
      (\<exists>pre. cd_constraints c = pre @ ds \<and> (\<forall>d \<in> set pre. settled S F d \<or> q d)) \<and>
      kont_inv rq S F (\<lambda>d. dc_package d = cd_package c \<and> matches d c) k)"

lemma kont_inv_mono:
  assumes "kont_inv rq S F q k" and "\<And>d. settled S F d \<Longrightarrow> settled S' F' d"
    and "\<And>p c. S p = Some c \<Longrightarrow> S' p = Some c" and "\<And>d. q d \<Longrightarrow> settled S' F' d \<or> q' d"
  shows "kont_inv rq S' F' q' k"
  using assms(1,4)
proof (induction k arbitrary: q q')
  case (K_Requested ps)
  then show ?case using assms(2) by simp blast
next
  case (K_Dependencies c ds stack k)
  have "kont_inv rq S' F' (\<lambda>d. dc_package d = cd_package c \<and> matches d c) k"
    by (rule K_Dependencies.IH [of "\<lambda>d. dc_package d = cd_package c \<and> matches d c"])
      (use K_Dependencies.prems in auto)
  then show ?case using K_Dependencies.prems assms(2,3) by simp blast
qed

definition search_inv :: "string \<Rightarrow> catalog \<Rightarrow> string list \<Rightarrow> string set \<Rightarrow>
    (dependency_constraint \<Rightarrow> bool) \<Rightarrow> on_success \<Rightarrow> search_state \<Rightarrow> bool" where
  "search_inv dist cat rq F q k st \<longleftrightarrow>
     (let S = map_of (selected st) in
      kont_inv rq S F q k \<and> dom S = F \<union> set (top_stack k) \<and> F \<inter> set (top_stack k) = {} \<and>
      (\<forall>p c. S p = Some c \<longrightarrow> c \<in> set (candidates_for cat p) \<and> supports_distribution c dist) \<and>
      (\<forall>p c. p \<in> F \<longrightarrow> S p = Some c \<longrightarrow> (\<forall>d \<in> set (cd_constraints c). settled S F d)) \<and>
      acyclic (dependency_edges (S |` F)) \<and>
      (\<forall>p \<in> set rq. in_force st p (plain_constraint p ''request'')))"

lemma acyclic_insert_source:
  assumes "acyclic r" and "\<And>y x. (y, x) \<in> r \<Longrightarrow> x \<noteq> p" and "p \<notin> A"
  shows "acyclic (r \<union> {p} \<times> A)"
proof -
  have "(x, y) \<in> (r \<union> {p} \<times> A)\<^sup>+ \<Longrightarrow> y \<noteq> p \<and> ((x, y) \<in> r\<^sup>+ \<or> x = p)" for x y
  proof (induction rule: trancl.induct)
    case (r_into_trancl a b)
    then show ?case using assms(2,3) by auto
  next
    case (trancl_into_trancl a b c)
    then have "(b, c) \<in> r" by auto
    then have "c \<noteq> p" "(a, b) \<in> r\<^sup>+ \<Longrightarrow> (a, c) \<in> r\<^sup>+" using assms(2) by (auto intro: trancl.trancl_into_trancl)
    then show ?case using trancl_into_trancl.IH by blast
  qed
  then show ?thesis using assms(1) unfolding acyclic_def by blast
qed

lemma edges_insert:
  assumes "S p = Some c"
  shows "dependency_edges (S |` insert p F) = dependency_edges (S |` F) \<union> {p} \<times> (dc_package ` set (cd_constraints c))"
proof -
  have "(S |` insert p F) q = Some b \<longleftrightarrow> (S |` F) q = Some b \<or> (q = p \<and> b = c)" for q b
    using assms by (auto simp: restrict_map_def)
  then show ?thesis unfolding dependency_edges_def by blast
qed

text \<open>Closing the frame of a candidate settles its package.\<close>

lemma search_inv_pop:
  assumes inv: "search_inv dist cat rq F (\<lambda>d. False) (K_Dependencies c [] stack k) st"
    and wf: "wf_catalog cat"
  shows "search_inv dist cat rq (insert (cd_package c) F) (\<lambda>d. False) k st"
proof -
  define S where "S = map_of (selected st)"
  let ?p = "cd_package c" and ?F = "insert (cd_package c) F"
  from inv have ki: "S ?p = Some c" "stack = top_stack k @ [?p]" "?p \<notin> set (top_stack k)"
      "\<forall>d \<in> set (cd_constraints c). settled S F d"
      "kont_inv rq S F (\<lambda>d. dc_package d = ?p \<and> matches d c) k"
    and dm: "dom S = F \<union> set stack" "F \<inter> set stack = {}"
    and cl: "\<forall>p c. p \<in> F \<longrightarrow> S p = Some c \<longrightarrow> (\<forall>d \<in> set (cd_constraints c). settled S F d)"
    and ac: "acyclic (dependency_edges (S |` F))"
    by (auto simp: search_inv_def Let_def S_def)
  have grow: "settled S F d \<Longrightarrow> settled S ?F d" for d by (auto simp: settled_def)
  have "kont_inv rq S ?F (\<lambda>d. False) k"
    using ki(1) by (intro kont_inv_mono [OF ki(5)]) (auto simp: settled_def met_Some)
  moreover have "acyclic (dependency_edges (S |` ?F))"
    unfolding edges_insert [of S ?p c F, OF ki(1)]
  proof (rule acyclic_insert_source [OF ac])
    fix y x assume "(y, x) \<in> dependency_edges (S |` F)"
    then have "x \<in> F" using cl
      by (auto simp: dependency_edges_def settled_def restrict_map_def split: if_splits)
    then show "x \<noteq> ?p" using dm ki(2) by auto
  next
    show "?p \<notin> dc_package ` set (cd_constraints c)" using ki(2,4) dm by (auto simp: settled_def)
  qed
  moreover have "\<forall>p c. p \<in> ?F \<longrightarrow> S p = Some c \<longrightarrow> (\<forall>d \<in> set (cd_constraints c). settled S ?F d)"
    using ki(1,4) cl grow by auto
  ultimately show ?thesis using inv dm ki(2,3) by (auto simp: search_inv_def Let_def S_def)
qed

text \<open>Calling a closure on its next dependency, or its next requested package.\<close>

lemma in_force_add: "in_force st p d \<Longrightarrow> in_force (add_requirement q r st) p d"
  by (auto simp: in_force_def requirements_add)

lemma search_inv_next:
  assumes "search_inv dist cat rq F (\<lambda>d. False) (K_Dependencies c (d # ds) stack k) st"
  shows "search_inv dist cat rq F
    (in_force (add_requirement (dc_package d) (dependency_requirement c d) st) (dc_package d))
    (K_Dependencies c ds stack k) (add_requirement (dc_package d) (dependency_requirement c d) st)"
proof -
  let ?st = "add_requirement (dc_package d) (dependency_requirement c d) st"
  let ?S = "map_of (selected st)"
  from assms obtain pre where pre: "cd_constraints c = pre @ d # ds" "\<forall>d \<in> set pre. settled ?S F d"
    by (auto simp: search_inv_def Let_def)
  have "in_force ?st (dc_package d) d"
    by (simp add: in_force_def requirements_add dependency_requirement_def)
  then have "\<exists>pre. cd_constraints c = pre @ ds \<and>
      (\<forall>d' \<in> set pre. settled ?S F d' \<or> in_force ?st (dc_package d) d')"
    using pre by (intro exI [of _ "pre @ [d]"]) auto
  then show ?thesis using assms by (auto simp: search_inv_def Let_def intro: in_force_add)
qed

lemma search_inv_next_requested:
  assumes "search_inv dist cat rq F (\<lambda>d. False) (K_Requested (p # ps)) st"
  shows "search_inv dist cat rq F (in_force st p) (K_Requested ps) st"
proof -
  let ?S = "map_of (selected st)"
  from assms obtain pre where pre: "rq = pre @ p # ps"
      "\<forall>p \<in> set pre. settled ?S F (plain_constraint p ''request'')"
    and rs: "\<forall>p \<in> set rq. in_force st p (plain_constraint p ''request'')"
    by (auto simp: search_inv_def Let_def)
  have "\<exists>pre. rq = pre @ ps \<and> (\<forall>q \<in> set pre. settled ?S F (plain_constraint q ''request'') \<or>
      in_force st p (plain_constraint q ''request''))"
    using pre rs by (intro exI [of _ "pre @ [p]"]) auto
  then show ?thesis using assms by (auto simp: search_inv_def Let_def)
qed

text \<open>A package already selected and off the stack is settled; a new one opens a frame.\<close>

lemma search_inv_existing:
  assumes inv: "search_inv dist cat rq F (in_force st p) k st" and off: "p \<notin> set (top_stack k)"
    and ex: "map_of (selected st) p = Some c" "candidate_satisfies c (requirements_of st p) dist"
  shows "search_inv dist cat rq F (\<lambda>d. False) k st"
proof -
  let ?S = "map_of (selected st)"
  have pF: "p \<in> F" using inv off ex(1) by (auto simp: search_inv_def Let_def)
  have "kont_inv rq ?S F (\<lambda>d. False) k"
  proof (rule kont_inv_mono)
    show "kont_inv rq ?S F (in_force st p) k" using inv by (simp add: search_inv_def Let_def)
  next
    fix d assume "in_force st p d"
    then show "settled ?S F d \<or> False" using ex pF
      by (auto simp: in_force_def settled_def met_Some candidate_satisfies_def list_all_iff)
  qed auto
  then show ?thesis using inv by (auto simp: search_inv_def Let_def)
qed

lemma search_inv_push:
  assumes inv: "search_inv dist cat rq F (in_force st p) k st" and off: "p \<notin> set (top_stack k)"
    and new: "map_of (selected st) p = None" and wf: "wf_catalog cat"
    and c: "c \<in> set (candidates_for cat p)" "candidate_satisfies c (requirements_of st p) dist"
  shows "search_inv dist cat rq F (\<lambda>d. False)
    (K_Dependencies c (cd_constraints c) (top_stack k @ [p]) k) (select p c st)"
proof -
  let ?S = "map_of (selected st)" and ?S' = "(map_of (selected st))(p \<mapsto> c)"
  have pkg: "cd_package c = p" using wf c(1) by (simp add: wf_catalog_def)
  have dm: "dom ?S = F \<union> set (top_stack k)" "F \<inter> set (top_stack k) = {}"
    using inv by (auto simp: search_inv_def Let_def)
  have pF: "p \<notin> F" using dm new by auto
  have grow: "settled ?S F d \<Longrightarrow> settled ?S' F d" for d
    using pF by (auto simp: settled_def met_Some)
  have "kont_inv rq ?S' F (\<lambda>d. dc_package d = cd_package c \<and> matches d c) k"
  proof (rule kont_inv_mono [OF _ grow])
    show "kont_inv rq ?S F (in_force st p) k" using inv by (simp add: search_inv_def Let_def)
  next
    fix q b assume "?S q = Some b" then show "?S' q = Some b" using new by auto
  next
    fix d assume "in_force st p d"
    then show "settled ?S' F d \<or> dc_package d = cd_package c \<and> matches d c" using c(2) pkg
      by (auto simp: in_force_def candidate_satisfies_def list_all_iff)
  qed
  moreover have "?S' |` F = ?S |` F" using pF by (auto simp: restrict_map_def fun_eq_iff)
  moreover have "\<forall>q b. q \<in> F \<longrightarrow> ?S' q = Some b \<longrightarrow> (\<forall>d \<in> set (cd_constraints b). settled ?S' F d)"
    using inv pF grow by (auto simp: search_inv_def Let_def)
  moreover have "\<forall>q b. ?S' q = Some b \<longrightarrow> b \<in> set (candidates_for cat q) \<and> supports_distribution b dist"
    using inv c by (auto simp: search_inv_def Let_def candidate_satisfies_def)
  ultimately show ?thesis using inv dm off new pkg pF
    by (auto simp: search_inv_def Let_def in_force_def)
qed

lemma search_sound:
  assumes "wf_catalog cat"
  shows "run_kont dist cat k st = Inr st' \<Longrightarrow> search_inv dist cat rq F (\<lambda>d. False) k st \<Longrightarrow>
      \<exists>F. search_inv dist cat rq F (\<lambda>d. False) (K_Requested []) st'"
    and "resolve_package dist cat p stack k st = Inr st' \<Longrightarrow> stack = top_stack k \<Longrightarrow>
      search_inv dist cat rq F (in_force st p) k st \<Longrightarrow>
      \<exists>F. search_inv dist cat rq F (\<lambda>d. False) (K_Requested []) st'"
  using assms
proof (induction dist cat k st and dist cat p stack k st arbitrary: F and F
    rule: run_kont_resolve_package.induct)
  case (1 dist cat st)
  then show ?case by (auto simp: run_kont.simps)
next
  case (2 dist cat p ps st)
  then show ?case using search_inv_next_requested [OF 2(3)] by (simp add: run_kont.simps)
next
  case (3 dist cat c stack k st)
  then show ?case using search_inv_pop [OF 3(3,4)] by (simp add: run_kont.simps)
next
  case (4 dist cat c d ds stack k st)
  then show ?case using search_inv_next [OF 4(3)] by (simp add: run_kont.simps)
next
  case (5 dist cat p stack k st)
  let ?rs = "requirements_of st p"
  have off: "p \<notin> set stack" using 5(3) by (subst (asm) resolve_package.simps) (auto split: if_splits)
  show ?case
  proof (cases "map_of (selected st) p")
    case (Some c)
    with 5(3) off have "candidate_satisfies c ?rs dist" "run_kont dist cat k st = Inr st'"
      by (simp_all add: resolve_package.simps Let_def split: if_splits)
    then show ?thesis using 5(2) [OF refl off Some] search_inv_existing [OF 5(5) _ Some] off 5(4,6) by auto
  next
    case None
    let ?m = "filter (\<lambda>c. candidate_satisfies c ?rs dist) (candidates_for cat p)"
    from 5(3) off None have ne: "candidates_for cat p \<noteq> []" "?m \<noteq> []"
      and r: "try_branches (\<lambda>c. run_kont dist cat (K_Dependencies c (cd_constraints c) (stack @ [p]) k)
        (select p c st)) ?m [] = Inr st'"
      by (simp_all add: resolve_package.simps Let_def split: if_splits)
    from try_branches_Inr [OF r] obtain c where c: "c \<in> set ?m"
      "run_kont dist cat (K_Dependencies c (cd_constraints c) (stack @ [p]) k) (select p c st) = Inr st'"
      by auto
    have "search_inv dist cat rq F (\<lambda>d. False)
        (K_Dependencies c (cd_constraints c) (stack @ [p]) k) (select p c st)"
      using search_inv_push [OF 5(5) _ None 5(6)] c off 5(4) by auto
    then show ?thesis using 5(1) [OF refl off None refl refl ne c(1) c(2)] 5(6) by blast
  qed
qed

lemma search_inv_valid:
  assumes "search_inv dist cat rq F (\<lambda>d. False) (K_Requested []) st"
  shows "valid_selection dist cat rq (map_of (selected st))"
proof -
  let ?S = "map_of (selected st)"
  from assms have dm: "dom ?S = F" by (simp add: search_inv_def Let_def)
  then have "?S |` F = ?S" by (auto simp: restrict_map_def fun_eq_iff)
  moreover have "?S p = Some c \<Longrightarrow> p \<in> F" for p c using dm by auto
  ultimately show ?thesis using assms
    by (auto simp: search_inv_def Let_def valid_selection_def settled_def)
qed

definition requested_ready :: "string list \<Rightarrow> search_state \<Rightarrow> bool" where
  "requested_ready rq st \<longleftrightarrow> selected st = [] \<and>
     (\<forall>p \<in> set rq. in_force st p (plain_constraint p ''request''))"

lemma search_inv_init:
  "requested_ready rq st \<Longrightarrow> search_inv dist cat rq {} (\<lambda>d. False) (K_Requested rq) st"
  by (auto simp: search_inv_def requested_ready_def Let_def dependency_edges_def acyclic_def)

theorem search_finds_valid:
  assumes "wf_catalog cat" and "requested_ready rq st"
    and "run_kont dist cat (K_Requested rq) st = Inr st'"
  shows "valid_selection dist cat rq (map_of (selected st'))"
  using search_sound(1) [OF assms(1,3) search_inv_init [OF assms(2)]] search_inv_valid by blast

subsection \<open>No valid selection is missed\<close>

fun kont_ok :: "(string \<Rightarrow> candidate option) \<Rightarrow> on_success \<Rightarrow> bool" where
  "kont_ok S (K_Requested ps) = (set ps \<subseteq> dom S)"
| "kont_ok S (K_Dependencies c ds stack k) =
     (S (cd_package c) = Some c \<and> set ds \<subseteq> set (cd_constraints c) \<and>
      (\<forall>q \<in> set stack. (q, cd_package c) \<in> (dependency_edges S)\<^sup>*) \<and> kont_ok S k)"

definition within :: "(string \<Rightarrow> candidate option) \<Rightarrow> search_state \<Rightarrow> bool" where
  "within S st \<longleftrightarrow>
     (\<forall>p c. map_of (selected st) p = Some c \<longrightarrow> S p = Some c) \<and>
     (\<forall>p c. S p = Some c \<longrightarrow> list_all (\<lambda>r. matches (req_constraint r) c) (requirements_of st p))"

lemma within_add:
  assumes "within S st" and "met S d" and "req_constraint r = d"
  shows "within S (add_requirement (dc_package d) r st)"
  using assms by (auto simp: within_def requirements_add met_Some)

lemma search_complete:
  assumes "valid_selection dist cat rq S" and "wf_catalog cat"
  shows "kont_ok S k \<Longrightarrow> within S st \<Longrightarrow> \<exists>st'. run_kont dist cat k st = Inr st'"
    and "kont_ok S k \<Longrightarrow> within S st \<Longrightarrow> p \<in> dom S \<Longrightarrow>
      \<forall>q \<in> set stack. (q, p) \<in> (dependency_edges S)\<^sup>+ \<Longrightarrow>
      \<exists>st'. resolve_package dist cat p stack k st = Inr st'"
  using assms
proof (induction dist cat k st and dist cat p stack k st rule: run_kont_resolve_package.induct)
  case (1 dist cat st)
  then show ?case by (simp add: run_kont.simps)
next
  case (2 dist cat p ps st)
  then show ?case by (simp add: run_kont.simps)
next
  case (3 dist cat c stack k st)
  then show ?case by (simp add: run_kont.simps)
next
  case (4 dist cat c d ds stack k st)
  have S: "S (cd_package c) = Some c" "d \<in> set (cd_constraints c)"
    "\<forall>q \<in> set stack. (q, cd_package c) \<in> (dependency_edges S)\<^sup>*" using 4(2) by auto
  then have "met S d" using 4(4) by (auto simp: valid_selection_def)
  moreover have "(cd_package c, dc_package d) \<in> dependency_edges S"
    using S(1,2) by (auto simp: dependency_edges_def)
  ultimately show ?case
    unfolding run_kont.simps
    using S(3) 4(2-5) by (intro 4(1) within_add)
      (auto simp: met_Some dependency_requirement_def intro: rtrancl_into_trancl1)
next
  case (5 dist cat p stack k st)
  let ?rs = "requirements_of st p"
  obtain c where c: "S p = Some c" using 5(5) by auto
  have ac: "acyclic (dependency_edges S)" and
    cm: "c \<in> set (candidates_for cat p)" "supports_distribution c dist"
    using 5(7) c by (auto simp: valid_selection_def)
  have off: "p \<notin> set stack" using 5(6) ac by (auto simp: acyclic_def)
  have sat: "candidate_satisfies c ?rs dist"
    using 5(4) c cm by (simp add: candidate_satisfies_def within_def)
  show ?case
  proof (cases "map_of (selected st) p")
    case (Some b)
    then have "b = c" using 5(4) c by (auto simp: within_def)
    then show ?thesis using 5(2) [OF refl off Some] Some off sat 5(3,4,7,8)
      by (simp add: resolve_package.simps)
  next
    case None
    let ?m = "filter (\<lambda>c. candidate_satisfies c ?rs dist) (candidates_for cat p)"
    let ?f = "\<lambda>c. run_kont dist cat (K_Dependencies c (cd_constraints c) (stack @ [p]) k) (select p c st)"
    have m: "c \<in> set ?m" "?m \<noteq> []" "candidates_for cat p \<noteq> []" using cm(1) sat by (auto simp: filter_empty_conv)
    have pkg: "cd_package c = p" using 5(8) cm(1) by (simp add: wf_catalog_def)
    have "\<exists>st'. ?f c = Inr st'"
    proof (rule 5(1) [OF refl off None refl refl m(3,2,1) _ _ 5(7,8)])
      show "kont_ok S (K_Dependencies c (cd_constraints c) (stack @ [p]) k)"
        using c pkg 5(3,6) by (auto intro: trancl_into_rtrancl)
      show "within S (select p c st)" using 5(4) c by (auto simp: within_def)
    qed
    then obtain st' where "?f c = Inr st'" by blast
    from try_branches_complete [of c ?m ?f, OF m(1) this] show ?thesis
      using off None m(2,3) by (auto simp: resolve_package.simps Let_def)
  qed
qed

theorem search_misses_nothing:
  assumes "wf_catalog cat" and "valid_selection dist cat rq S" and "selected st = []"
    and "\<And>p c. S p = Some c \<Longrightarrow> list_all (\<lambda>r. matches (req_constraint r) c) (requirements_of st p)"
  shows "\<exists>st'. run_kont dist cat (K_Requested rq) st = Inr st'"
  using assms by (intro search_complete(1) [OF assms(2,1)])
    (auto simp: within_def valid_selection_def met_Some plain_constraint_def)

end
