(* ===== verification/Packages_Props.thy ===== *)
theory Packages_Props
  imports Packages_Search
begin

text \<open>
  The facts about catalogs, requests and the manifest order that connect the search to
  \<open>resolve_runtime_package_graph\<close>, and the properties of the package system.
\<close>

subsection \<open>Catalogs and requests the builders return\<close>

lemma map_result_Inr:
  "map_result f xs = Inr ys \<Longrightarrow> list_all2 (\<lambda>x y. f x = Inr y) xs ys"
  by (induction xs arbitrary: ys) (auto simp: result_simps)

lemma map_result_Inr_set: "map_result f xs = Inr ys \<Longrightarrow> y \<in> set ys \<Longrightarrow> \<exists>x \<in> set xs. f x = Inr y"
  by (induction xs arbitrary: ys) (auto simp: result_simps)

lemma map_result_all: "\<forall>x \<in> set xs. f x = Inr (g x) \<Longrightarrow> map_result f xs = Inr (map g xs)"
  by (induction xs) auto

lemma by_package_name_wf:
  assumes "\<forall>p. \<forall>c \<in> set (candidates_for g p). cd_package c = p \<and> c \<in> C" and "set cs \<subseteq> C"
  shows "\<forall>p. \<forall>c \<in> set (candidates_for
      (fold (\<lambda>c g. AList.update (cd_package c) (candidates_for g (cd_package c) @ [c]) g) cs g) p).
      cd_package c = p \<and> c \<in> C"
  using assms
proof (induction cs arbitrary: g)
  case (Cons c cs)
  show ?case unfolding fold.simps o_apply
  proof (rule Cons.IH)
    show "\<forall>p. \<forall>x \<in> set (candidates_for (AList.update (cd_package c)
        (candidates_for g (cd_package c) @ [c]) g) p). cd_package x = p \<and> x \<in> C"
      using Cons.prems by (auto simp: candidates_for_def map_of_update split: option.splits)
  qed (use Cons.prems in auto)
qed simp

lemma by_package_name_members:
  assumes "c \<in> set (candidates_for (by_package_name cands) p)"
  shows "cd_package c = p \<and> c \<in> set cands"
proof -
  have "set (sort_key candidate_sort_key cands) \<subseteq> set cands" by (simp only: set_sort)
  then have "\<forall>p. \<forall>c \<in> set (candidates_for (by_package_name cands) p). cd_package c = p \<and> c \<in> set cands"
    unfolding by_package_name_def by (rule by_package_name_wf [rotated]) (simp add: candidates_for_def)
  with assms show ?thesis by blast
qed

lemma wf_by_package_name: "wf_catalog (by_package_name cands)"
  by (simp add: wf_catalog_def by_package_name_members)

text \<open>What \<open>__post_init__\<close> of a manifest establishes, and the descriptors built from it.\<close>

definition wf_manifest :: "manifest \<Rightarrow> bool" where
  "wf_manifest m = (mf_name m \<noteq> [] \<and> strip (mf_name m) = mf_name m)"

lemma mk_manifest_wf: "mk_manifest n deps md = Inr m \<Longrightarrow> wf_manifest m"
  by (auto simp: mk_manifest_def require_non_empty_def wf_manifest_def split: if_splits)

definition wf_candidate :: "candidate \<Rightarrow> bool" where
  "wf_candidate c \<longleftrightarrow> mf_name (cd_manifest c) = cd_package c \<and>
     set (mf_dependencies (cd_manifest c)) = dc_package ` set (cd_constraints c)"

lemma mk_constraint_package: "mk_constraint c = Inr d \<Longrightarrow> dc_package d = strip (dc_package c) \<and> strip (dc_package c) \<noteq> []"
  by (auto simp: mk_constraint_def require_non_empty_def result_simps split: if_splits)

lemma structured_constraint_package:
  assumes "structured_constraint owner raw = Inr d"
  shows "strip (dc_package d) = dc_package d \<and> dc_package d \<noteq> []"
proof -
  have "\<exists>c. mk_constraint c = Inr d"
    using assms by (auto simp: structured_constraint_def split: pyval.splits option.splits)
  then show ?thesis using mk_constraint_package by (metis strip_idem)
qed

lemma legacy_packages:
  assumes "map_result (\<lambda>d. mk_constraint (plain_constraint d ''legacy'')) deps = Inr cs"
  shows "dc_package ` set cs = strip ` set deps \<and> (\<forall>d \<in> set deps. strip d \<noteq> [])"
  using assms
proof (induction deps arbitrary: cs)
  case (Cons d ds)
  from Cons.prems obtain c cs' where c: "mk_constraint (plain_constraint d ''legacy'') = Inr c"
      "map_result (\<lambda>d. mk_constraint (plain_constraint d ''legacy'')) ds = Inr cs'" "cs = c # cs'"
    by (auto simp: result_simps)
  with Cons.IH mk_constraint_package [OF c(1)] show ?case by (simp add: plain_constraint_def)
qed simp

lemma normalized_packages:
  assumes "normalized_dependency_constraints m md = Inr cs"
  shows "set (stable_unique_names (mf_dependencies m @ map dc_package cs)) = dc_package ` set cs"
proof -
  obtain legacy where l: "map_result (\<lambda>d. mk_constraint (plain_constraint d ''legacy''))
      (mf_dependencies m) = Inr legacy" and t: "(case py_get md ''dependencies'' of
       PList raws \<Rightarrow> rbind (map_result (structured_constraint (mf_name m)) raws)
         (\<lambda>structured. Inr (legacy @ structured))
     | _ \<Rightarrow> Inr legacy) = Inr cs"
    using assms unfolding normalized_dependency_constraints_def rbind_Inr_iff by blast
  have "\<exists>rest. cs = legacy @ rest \<and>
      (\<forall>d \<in> set rest. strip (dc_package d) = dc_package d \<and> dc_package d \<noteq> [])"
  proof (cases "py_get md ''dependencies''")
    case (PList raws)
    with t have "rbind (map_result (structured_constraint (mf_name m)) raws)
        (\<lambda>structured. Inr (legacy @ structured)) = Inr cs" by simp
    then obtain rest where rest: "map_result (structured_constraint (mf_name m)) raws = Inr rest"
      and cs: "legacy @ rest = cs" unfolding rbind_Inr_iff by blast
    have "strip (dc_package d) = dc_package d \<and> dc_package d \<noteq> []" if "d \<in> set rest" for d
      using map_result_Inr_set [OF rest that] structured_constraint_package by blast
    with cs show ?thesis by blast
  qed (use t in simp_all)
  then obtain rest where cs: "cs = legacy @ rest"
    and r: "\<forall>d \<in> set rest. strip (dc_package d) = dc_package d \<and> dc_package d \<noteq> []" by blast
  have lp: "dc_package ` set legacy = strip ` set (mf_dependencies m)"
    "\<forall>d \<in> set (mf_dependencies m). strip d \<noteq> []" using legacy_packages [OF l] by auto
  have ls: "\<forall>d \<in> set legacy. strip (dc_package d) = dc_package d \<and> dc_package d \<noteq> []"
    using lp by (metis (no_types, lifting) image_iff strip_idem)
  have all: "strip (dc_package d) = dc_package d \<and> dc_package d \<noteq> []" if "d \<in> set cs" for d
    using that ls r cs by auto
  have "strip ` (dc_package ` set cs) = dc_package ` set cs"
    unfolding image_image by (rule image_cong) (simp_all add: all)
  moreover have "[] \<notin> dc_package ` set cs" using all by (metis imageE)
  moreover have "set (stable_unique_names (mf_dependencies m @ map dc_package cs)) =
      (dc_package ` set legacy \<union> strip ` (dc_package ` set cs)) - {[]}"
    unfolding lp(1) by (simp only: set_stable_unique_names set_append image_Un set_map)
  moreover have "dc_package ` set legacy \<union> dc_package ` set cs = dc_package ` set cs" using cs by auto
  ultimately show ?thesis by simp
qed

lemma candidate_descriptor_wf:
  assumes "candidate_descriptor m src def_id = Inr c" and "wf_manifest m"
  shows "wf_candidate c"
proof -
  let ?md = "candidate_metadata m"
  from assms(1) obtain cs where cs: "normalized_dependency_constraints m ?md = Inr cs"
    "cd_constraints c = cs" "cd_package c = strip (mf_name m)"
    "cd_manifest c = (let names = stable_unique_names (mf_dependencies m @ map dc_package cs) in
       if names = mf_dependencies m then m
       else m\<lparr>mf_dependencies := map canonical_first_party_name names\<rparr>)"
    by (auto simp: candidate_descriptor_def Let_def result_simps require_non_empty_def split: if_splits)
  then show ?thesis using normalized_packages [OF cs(1)] assms(2)
    by (auto simp: wf_candidate_def wf_manifest_def Let_def simp del: set_stable_unique_names
        split: if_splits)
qed

subsection \<open>The requirements of the request\<close>

lemma request_requirement_stripped:
  assumes "strip p = p" and "p \<noteq> []"
  shows "\<exists>q. request_requirement p = Inr q \<and> req_constraint q = plain_constraint p ''request''"
  using assms by (simp add: request_requirement_def mk_constraint_def require_non_empty_def
      plain_constraint_def strip_def is_space_def)

lemma initial_state_snoc:
  "initial_state (ps @ [p]) = rbind (initial_state ps) (\<lambda>st. rbind (request_requirement p)
     (\<lambda>q. Inr (add_requirement p q st)))"
  by (simp add: initial_state_def)

lemma initial_state_ready:
  assumes "\<forall>p \<in> set ps. strip p = p \<and> p \<noteq> []"
  shows "\<exists>st. initial_state ps = Inr st \<and> requested_ready ps st \<and>
    (\<forall>p. \<forall>r \<in> set (requirements_of st p). req_constraint r = plain_constraint p ''request'')"
  using assms
proof (induction ps rule: rev_induct)
  case Nil
  then show ?case by (simp add: initial_state_def requested_ready_def requirements_of_def)
next
  case (snoc p ps)
  then obtain st where st: "initial_state ps = Inr st" "requested_ready ps st"
    "\<forall>p. \<forall>r \<in> set (requirements_of st p). req_constraint r = plain_constraint p ''request''" by auto
  obtain q where q: "request_requirement p = Inr q" "req_constraint q = plain_constraint p ''request''"
    using request_requirement_stripped snoc.prems by auto
  have "in_force (add_requirement p q st) p (plain_constraint p ''request'')"
    using q by (auto simp: in_force_def requirements_add plain_constraint_def)
  then show ?case using st q
    by (auto simp: initial_state_snoc requested_ready_def requirements_add intro: in_force_add)
qed

lemma request_names:
  assumes "build_runtime_package_request dist bl en dis ex sl fp = Inr rq"
  shows "\<forall>p \<in> set (rq_requested rq). strip p = p \<and> p \<noteq> []"
  using assms unfolding build_runtime_package_request_def Let_def
  by (auto simp: result_simps)

subsection \<open>The manifest order\<close>

fun dependencies_first :: "string set \<Rightarrow> manifest list \<Rightarrow> bool" where
  "dependencies_first seen [] = True"
| "dependencies_first seen (m # ms) =
     (set (mf_dependencies m) \<subseteq> seen \<and> dependencies_first (insert (mf_name m) seen) ms)"

lemma dependencies_first_append [simp]:
  "dependencies_first seen (xs @ ys) \<longleftrightarrow>
     dependencies_first seen xs \<and> dependencies_first (seen \<union> mf_name ` set xs) ys"
  by (induction xs arbitrary: seen) auto

definition manifest_edges :: "manifest_catalog \<Rightarrow> (string \<times> string) set" where
  "manifest_edges mc = {(p, d) | p d m. map_of mc p = Some m \<and> d \<in> set (mf_dependencies m)}"

definition closed_manifests :: "manifest_catalog \<Rightarrow> string set \<Rightarrow> bool" where
  "closed_manifests mc requested \<longleftrightarrow>
     (\<forall>p \<in> requested. \<exists>m. map_of mc p = Some m \<and> mf_name m = p \<and> set (mf_dependencies m) \<subseteq> requested)"

definition order_inv :: "manifest_catalog \<Rightarrow> string set \<Rightarrow> string list \<times> manifest list \<Rightarrow> bool" where
  "order_inv mc requested st \<longleftrightarrow>
     set (fst st) = mf_name ` set (snd st) \<and> distinct (map mf_name (snd st)) \<and>
     dependencies_first {} (snd st) \<and> set (fst st) \<subseteq> requested \<and>
     (\<forall>m \<in> set (snd st). map_of mc (mf_name m) = Some m)"

lemma visit_orders:
  assumes "closed_manifests mc requested" and "acyclic (manifest_edges mc)"
  shows "order_inv mc requested st \<Longrightarrow> name \<in> requested \<Longrightarrow>
      \<forall>v \<in> set visiting. (v, name) \<in> (manifest_edges mc)\<^sup>+ \<Longrightarrow>
      \<exists>st'. visit mc requested visiting name st = Inr st' \<and> order_inv mc requested st' \<and>
        insert name (set (fst st)) \<subseteq> set (fst st') \<and>
        (\<forall>x \<in> set (fst st'). x \<in> set (fst st) \<or> (name, x) \<in> (manifest_edges mc)\<^sup>*)"
    and "order_inv mc requested st \<Longrightarrow> \<forall>d \<in> set ds. d \<in> requested \<and> (name, d) \<in> manifest_edges mc \<Longrightarrow>
      \<forall>v \<in> set visiting. (v, name) \<in> (manifest_edges mc)\<^sup>* \<Longrightarrow>
      \<exists>st'. visit_all mc requested visiting name ds st = Inr st' \<and> order_inv mc requested st' \<and>
        set ds \<union> set (fst st) \<subseteq> set (fst st') \<and>
        (\<forall>x \<in> set (fst st'). x \<in> set (fst st) \<or> (name, x) \<in> (manifest_edges mc)\<^sup>+)"
  using assms
proof (induction mc requested visiting name st and mc requested visiting name ds st
    rule: visit_visit_all.induct)
  case (1 mc requested visiting name visited ordered)
  show ?case
  proof (cases "name \<in> set visited")
    case True
    then show ?thesis using 1(2) by (simp add: visit.simps)
  next
    case False
    have nv: "name \<notin> set visiting" using 1(4,6) by (auto simp: acyclic_def)
    obtain m where m: "map_of mc name = Some m" "mf_name m = name"
      "set (mf_dependencies m) \<subseteq> requested" using 1(3,5) by (auto simp: closed_manifests_def)
    have e: "\<forall>d \<in> set (mf_dependencies m). d \<in> requested \<and> (name, d) \<in> manifest_edges mc"
      using m by (auto simp: manifest_edges_def)
    have v: "\<forall>v \<in> set (name # visiting). (v, name) \<in> (manifest_edges mc)\<^sup>*"
      using 1(4) by (auto intro: trancl_into_rtrancl)
    obtain vis' ord' where r: "visit_all mc requested (name # visiting) name (mf_dependencies m)
          (visited, ordered) = Inr (vis', ord')" "order_inv mc requested (vis', ord')"
        "set (mf_dependencies m) \<union> set visited \<subseteq> set vis'"
        "\<forall>x \<in> set vis'. x \<in> set visited \<or> (name, x) \<in> (manifest_edges mc)\<^sup>+"
      using 1(1) [OF False nv m(1) 1(2) e v 1(5,6)] by auto
    have fresh: "name \<notin> set vis'" using r(4) False 1(6) by (auto simp: acyclic_def)
    have "visit mc requested visiting name (visited, ordered) = Inr (name # vis', ord' @ [m])"
      using False nv m(1) r(1) by (simp add: visit.simps)
    moreover have "order_inv mc requested (name # vis', ord' @ [m])"
      using r(2,3) m fresh 1(3) by (auto simp: order_inv_def)
    ultimately show ?thesis using r(3,4) by (auto intro: trancl_into_rtrancl)
  qed
next
  case (2 mc requested visiting name st)
  then show ?case by simp
next
  case (3 mc requested visiting name d ds st)
  have d: "d \<in> requested" "(name, d) \<in> manifest_edges mc" using 3(4) by auto
  have v: "\<forall>v \<in> set visiting. (v, d) \<in> (manifest_edges mc)\<^sup>+"
    using 3(5) d(2) by (auto intro: rtrancl_into_trancl1)
  obtain st1 where r1: "visit mc requested visiting d st = Inr st1" "order_inv mc requested st1"
      "insert d (set (fst st)) \<subseteq> set (fst st1)"
      "\<forall>x \<in> set (fst st1). x \<in> set (fst st) \<or> (d, x) \<in> (manifest_edges mc)\<^sup>*"
    using 3(1) [OF _ 3(3) d(1) v 3(6,7)] d(1) by auto
  obtain st2 where r2: "visit_all mc requested visiting name ds st1 = Inr st2" "order_inv mc requested st2"
      "set ds \<union> set (fst st1) \<subseteq> set (fst st2)"
      "\<forall>x \<in> set (fst st2). x \<in> set (fst st1) \<or> (name, x) \<in> (manifest_edges mc)\<^sup>+"
    using 3(2) [OF _ r1(2) _ 3(5-7)] d(1) 3(4) by auto
  have "\<forall>x \<in> set (fst st2). x \<in> set (fst st) \<or> (name, x) \<in> (manifest_edges mc)\<^sup>+"
    using r1(4) r2(4) d(2) by (meson rtrancl_into_trancl2)
  then show ?case using d(1) r1 r2 by auto
qed

lemma visits_order:
  assumes "closed_manifests mc requested" and "acyclic (manifest_edges mc)" and "set ps \<subseteq> requested"
  shows "\<exists>st. foldl (\<lambda>r p. rbind r (visit mc requested [] p)) (Inr ([], [])) ps = Inr st \<and>
    order_inv mc requested st \<and> set ps \<subseteq> set (fst st)"
  using assms(3)
proof (induction ps rule: rev_induct)
  case Nil
  then show ?case by (simp add: order_inv_def)
next
  case (snoc p ps)
  then obtain st where st: "foldl (\<lambda>r p. rbind r (visit mc requested [] p)) (Inr ([], [])) ps = Inr st"
    "order_inv mc requested st" "set ps \<subseteq> set (fst st)" by auto
  obtain st' where "visit mc requested [] p st = Inr st'" "order_inv mc requested st'"
      "insert p (set (fst st)) \<subseteq> set (fst st')"
    using visit_orders(1) [OF assms(1,2) st(2), of p "[]"] snoc.prems by auto
  with st show ?case by auto
qed

lemma order_package_manifests_orders:
  assumes "closed_manifests mc (set names)" and "acyclic (manifest_edges mc)"
  shows "\<exists>ms. order_package_manifests names mc = Inr ms \<and> distinct (map mf_name ms) \<and>
    mf_name ` set ms = set names \<and> dependencies_first {} ms \<and>
    (\<forall>m \<in> set ms. map_of mc (mf_name m) = Some m)"
proof -
  obtain st where st: "foldl (\<lambda>r p. rbind r (visit mc (set names) [] p)) (Inr ([], [])) names = Inr st"
    "order_inv mc (set names) st" "set names \<subseteq> set (fst st)"
    using visits_order [OF assms order.refl] by blast
  have "map canonical_first_party_name names = names" by (induction names) simp_all
  then have "order_package_manifests names mc = Inr (snd st)"
    using st(1) by (simp add: order_package_manifests_def case_prod_beta)
  then show ?thesis using st(2,3) by (auto simp: order_inv_def)
qed

subsection \<open>The resolved graph\<close>

lemma catalog_candidates_wf:
  assumes "build_runtime_package_catalog fp acc = Inr cands"
    and "\<forall>m \<in> set fp \<union> fst ` set acc. wf_manifest m" and "c \<in> set cands"
  shows "wf_candidate c"
proof -
  from assms(1) obtain fs es where
    "map_result (\<lambda>m. candidate_descriptor m (first_party_source m) None) fp = Inr fs"
    "map_result (\<lambda>(m, provenance, i).
       candidate_descriptor m provenance (Some (external_default_id m i))) acc = Inr es"
    "cands = fs @ es"
    unfolding build_runtime_package_catalog_def rbind_Inr_iff by blast
  with assms(3) have "\<exists>m \<in> set fp \<union> fst ` set acc. \<exists>src did. candidate_descriptor m src did = Inr c"
    by (auto dest!: map_result_Inr_set) force+
  with assms(2) show ?thesis using candidate_descriptor_wf by blast
qed

definition resolved_map :: "resolution_report \<Rightarrow> string \<Rightarrow> candidate option" where
  "resolved_map rep = map_of (map (\<lambda>c. (cd_package c, c)) (rp_candidates rep))"

lemma map_of_by_key:
  "distinct (map f xs) \<Longrightarrow> x \<in> set xs \<Longrightarrow> map_of (map (\<lambda>x. (f x, x)) xs) (f x) = Some x"
  by (rule map_of_is_SomeI) (simp_all add: o_def)

text \<open>The step after a successful search: the manifests are ordered without an error.\<close>

lemma ordered_selection:
  assumes v: "valid_selection dist (by_package_name cands) ps (map_of sel)"
    and wf: "\<forall>c \<in> set cands. wf_candidate c"
  shows "\<exists>ms cs. order_package_manifests (map fst sel) (map (\<lambda>(p, c). (p, cd_manifest c)) sel) = Inr ms \<and>
    map_result (\<lambda>m. case map_of sel (mf_name m) of None \<Rightarrow> Inl (KeyError (mf_name m)) | Some c \<Rightarrow> Inr c) ms
      = Inr cs \<and> ms = map cd_manifest cs \<and> distinct (map cd_package cs) \<and> dependencies_first {} ms \<and>
    map_of (map (\<lambda>c. (cd_package c, c)) cs) = map_of sel"
proof -
  let ?mc = "map (\<lambda>(p, c). (p, cd_manifest c)) sel"
  have mc: "map_of ?mc p = map_option cd_manifest (map_of sel p)" for p by (simp add: map_of_map)
  have dm: "set (map fst sel) = dom (map_of sel)" by (simp add: dom_map_of_conv_image_fst)
  have S: "wf_candidate c \<and> cd_package c = p \<and> (\<forall>d \<in> set (cd_constraints c). dc_package d \<in> dom (map_of sel))"
    if "map_of sel p = Some c" for p c
  proof -
    have "c \<in> set (candidates_for (by_package_name cands) p)" "\<forall>d \<in> set (cd_constraints c). met (map_of sel) d"
      using v that by (auto simp: valid_selection_def)
    then show ?thesis using by_package_name_members wf by (auto simp: met_Some)
  qed
  have edges: "manifest_edges ?mc = dependency_edges (map_of sel)"
    using S by (auto simp: manifest_edges_def dependency_edges_def mc wf_candidate_def)
  have "closed_manifests ?mc (set (map fst sel))"
    unfolding closed_manifests_def dm using S by (fastforce simp: mc wf_candidate_def)
  moreover have "acyclic (manifest_edges ?mc)" using v by (simp add: edges valid_selection_def)
  ultimately obtain ms where ms: "order_package_manifests (map fst sel) ?mc = Inr ms"
      "distinct (map mf_name ms)" "mf_name ` set ms = dom (map_of sel)" "dependencies_first {} ms"
      "\<forall>m \<in> set ms. map_of ?mc (mf_name m) = Some m"
    using order_package_manifests_orders [of ?mc "map fst sel"] unfolding dm by blast
  define cs where "cs = map (\<lambda>m. the (map_of sel (mf_name m))) ms"
  have some: "\<forall>m \<in> set ms. \<exists>c. map_of sel (mf_name m) = Some c \<and> cd_manifest c = m \<and> cd_package c = mf_name m"
    using ms(5) S by (fastforce simp: mc)
  have r: "map_result (\<lambda>m. case map_of sel (mf_name m) of None \<Rightarrow> Inl (KeyError (mf_name m))
      | Some c \<Rightarrow> Inr c) ms = Inr cs"
    unfolding cs_def by (rule map_result_all) (use some in auto)
  have man: "map cd_manifest cs = ms" and pkg: "map cd_package cs = map mf_name ms"
    unfolding cs_def map_map o_def using some by (auto intro!: map_idI map_cong)
  have dist: "distinct (map cd_package cs)" using pkg ms(2) by simp
  have "map_of (map (\<lambda>c. (cd_package c, c)) cs) p = map_of sel p" for p
  proof (cases "map_of sel p")
    case None
    then have "p \<notin> cd_package ` set cs" using ms(3) pkg by (metis domIff image_set)
    then have "map_of (map (\<lambda>c. (cd_package c, c)) cs) p = None"
      by (simp add: map_of_eq_None_iff image_image)
    then show ?thesis using None by simp
  next
    case (Some c)
    then obtain m where "m \<in> set ms" "mf_name m = p" using ms(3) by (metis domI imageE)
    then have "c \<in> set cs" "cd_package c = p" using Some S by (force simp: cs_def)+
    then show ?thesis using map_of_by_key [OF dist] Some by auto
  qed
  then have "map_of (map (\<lambda>c. (cd_package c, c)) cs) = map_of sel" by (rule ext)
  then show ?thesis using ms(1,4) r man [symmetric] dist by blast
qed

subsection \<open>A catalog\<close>

text \<open>\<open>app\<close> wants a \<open>lib\<close> below 2.0; the first candidate for \<open>lib\<close> is 2.0, so the search backtracks.\<close>

definition demo_app :: manifest where
  "demo_app = \<lparr>mf_name = ''app'', mf_dependencies = [],
     mf_metadata = [(''package_candidate'', PDict [(''dependencies'',
       PList [PDict [(''name'', PStr ''lib''), (''maximum_version'', PStr ''2.0'')]])])]\<rparr>"

definition demo_lib :: "string \<Rightarrow> string \<Rightarrow> manifest" where
  "demo_lib cid v = \<lparr>mf_name = ''lib'', mf_dependencies = [],
     mf_metadata = [(''package_candidate'', PDict [(''candidate_id'', PStr cid), (''version'', PStr v)])]\<rparr>"

definition demo_accepted :: "(manifest \<times> (string, pyval) dict \<times> nat) list" where
  "demo_accepted = [(demo_app, [], 0), (demo_lib ''a'' ''2.0'', [], 1), (demo_lib ''b'' ''1.9'', [], 2)]"

definition demo_candidates :: "candidate list" where
  "demo_candidates = (case build_runtime_package_catalog [] demo_accepted of Inr cs \<Rightarrow> cs | Inl e \<Rightarrow> [])"

definition demo_package_request :: package_request where
  "demo_package_request =
     \<lparr>rq_distribution = ''core'', rq_baseline = [], rq_enabled = [], rq_disabled = [], rq_explicit = [],
      rq_requested = [''lib'', ''app'']\<rparr>"

lemma demo_catalog_built: "build_runtime_package_catalog [] demo_accepted = Inr demo_candidates"
  by code_simp

lemma demo_request_built:
  "build_runtime_package_request ''core'' [] [] [] [] [''lib'', ''app''] [] = Inr demo_package_request"
  by code_simp

lemma demo_manifests_wf: "\<forall>m \<in> set [] \<union> fst ` set demo_accepted. wf_manifest m"
  by (simp add: demo_accepted_def demo_app_def demo_lib_def wf_manifest_def strip_def is_space_def)

lemma demo_resolved:
  "map_sum (\<lambda>_. ()) (\<lambda>rep. (map cd_id (rp_candidates rep), rp_diagnostics rep))
     (resolve_runtime_package_graph demo_package_request demo_candidates)
   = Inr ([''b'', ''external::app#0''], [])"
  by code_simp



definition demo_selection :: "(string, candidate) dict" where
  "demo_selection = [(''lib'', demo_candidates ! 2), (''app'', demo_candidates ! 0)]"

lemma demo_selection_checks:
  "list_all (\<lambda>p. met (map_of demo_selection) (plain_constraint p ''request'')) [''lib'', ''app'']"
  "list_all (\<lambda>(p, c). c \<in> set (candidates_for (by_package_name demo_candidates) p) \<and>
      supports_distribution c ''core'' \<and>
      list_all (met (map_of demo_selection)) (cd_constraints c)) demo_selection"
  "map (\<lambda>(p, c). (p, map dc_package (cd_constraints c))) demo_selection = [(''lib'', []), (''app'', [''lib''])]"
  by code_simp+

lemma demo_selection_valid:
  "valid_selection ''core'' (by_package_name demo_candidates) [''lib'', ''app''] (map_of demo_selection)"
proof -
  have m: "map_of demo_selection p = Some c \<Longrightarrow> (p, c) \<in> set demo_selection" for p c by (rule map_of_SomeD)
  have "dependency_edges (map_of demo_selection) \<subseteq> {(''app'', ''lib'')}"
  proof
    fix e assume "e \<in> dependency_edges (map_of demo_selection)"
    then obtain p c d where e: "e = (p, dc_package d)" "(p, c) \<in> set demo_selection" "d \<in> set (cd_constraints c)"
      by (auto simp: dependency_edges_def dest: m)
    then have "(p, map dc_package (cd_constraints c)) \<in> set [(''lib'', []), (''app'', [''lib''])]"
      unfolding demo_selection_checks(3) [symmetric] by force
    with e show "e \<in> {(''app'', ''lib'')}" by (auto dest: arg_cong [where f = set])
  qed
  moreover have "acyclic {(''app'', ''lib'')}" unfolding acyclic_insert by (simp add: acyclic_def)
  ultimately have "acyclic (dependency_edges (map_of demo_selection))" by (rule acyclic_subset [rotated])
  then show ?thesis using demo_selection_checks(1,2) m
    unfolding valid_selection_def list_all_iff by fast
qed

text \<open>
  C3: The backtracking search misses no solution.  When the catalog has no duplicate candidate id
  and some selection meets the request (closed under dependencies, every constraint met, acyclic),
  the resolution succeeds; so it reports a failure only when there is no such selection.
\<close>

theorem resolution_complete:
  assumes "build_runtime_package_catalog fp acc = Inr cands"
    and "\<forall>m \<in> set fp \<union> fst ` set acc. wf_manifest m"
    and "build_runtime_package_request dist bl en dis ex sl names = Inr rq"
    and "catalog_diagnostics (by_package_name cands) = []"
    and "valid_selection (rq_distribution rq) (by_package_name cands) (rq_requested rq) S"
  shows "\<exists>rep. resolve_runtime_package_graph rq cands = Inr rep \<and> rp_diagnostics rep = []"
proof -
  obtain st0 where st0: "initial_state (rq_requested rq) = Inr st0" "requested_ready (rq_requested rq) st0"
    "\<forall>p. \<forall>r \<in> set (requirements_of st0 p). req_constraint r = plain_constraint p ''request''"
    using initial_state_ready [OF request_names [OF assms(3)]] by blast
  have pkg: "S p = Some c \<Longrightarrow> cd_package c = p" for p c
    using assms(5) unfolding valid_selection_def by (blast dest: by_package_name_members)
  obtain st where r: "run_kont (rq_distribution rq) (by_package_name cands)
      (K_Requested (rq_requested rq)) st0 = Inr st"
    using search_misses_nothing [OF wf_by_package_name assms(5), of st0] st0(2,3) pkg
    by (auto simp: requested_ready_def list_all_iff plain_constraint_def matches_def
        in_lower_bound_def in_upper_bound_def)
  have v: "valid_selection (rq_distribution rq) (by_package_name cands) (rq_requested rq) (map_of (selected st))"
    using search_finds_valid [OF wf_by_package_name st0(2) r] .
  have wf: "\<forall>c \<in> set cands. wf_candidate c" using catalog_candidates_wf [OF assms(1,2)] by blast
  show ?thesis
    using ordered_selection [OF v wf] st0(1) r assms(4)
    by (auto simp: resolve_runtime_package_graph_def Let_def)
qed

theorem resolution_complete_witness:
  "\<exists>rep. resolve_runtime_package_graph demo_package_request demo_candidates = Inr rep \<and>
    rp_diagnostics rep = []"
proof -
  have "catalog_diagnostics (by_package_name demo_candidates) = []" by code_simp
  moreover have "valid_selection (rq_distribution demo_package_request) (by_package_name demo_candidates)
      (rq_requested demo_package_request) (map_of demo_selection)"
    using demo_selection_valid by (simp add: demo_package_request_def)
  ultimately show ?thesis
    by (rule resolution_complete [OF demo_catalog_built demo_manifests_wf demo_request_built])
qed

text \<open>
  The comparison of version strings is a total preorder: it is antisymmetric in its sign and
  transitive, so a version range holds every version between two versions that it holds.
\<close>

theorem compare_versions_total_preorder:
  "compare_versions u v = - compare_versions v u \<and> compare_versions v v = 0 \<and>
   (compare_versions u v \<le> 0 \<longrightarrow> compare_versions v w \<le> 0 \<longrightarrow> compare_versions u w \<le> 0)"
proof -
  have asym: "parts_less a b \<Longrightarrow> \<not> parts_less b a" for a b using parts_less_trans by (metis parts_less_irrefl)
  have same: "(\<forall>i. part_at a i = part_at b i) \<Longrightarrow> parts_less b c \<Longrightarrow> parts_less a c"
    "(\<forall>i. part_at a i = part_at b i) \<Longrightarrow> parts_less c a \<Longrightarrow> parts_less c b" for a b c
    by (auto simp: parts_less_def)
  have le: "compare_versions a b \<le> 0 \<longleftrightarrow> \<not> parts_less (version_parts b) (version_parts a)" for a b
    using asym by (auto simp: compare_versions_def compare_parts_sign)
  have tr: "\<not> parts_less b a \<Longrightarrow> \<not> parts_less c b \<Longrightarrow> \<not> parts_less c a" for a b c
    using parts_less_total [of a b] parts_less_total [of b c] parts_less_trans same by metis
  have "compare_versions u v = - compare_versions v u"
    using asym by (simp add: compare_versions_def compare_parts_sign)
  moreover have "compare_versions v v = 0" by (simp add: compare_versions_def compare_parts_sign)
  moreover have "compare_versions u v \<le> 0 \<Longrightarrow> compare_versions v w \<le> 0 \<Longrightarrow> compare_versions u w \<le> 0"
    unfolding le by (rule tr)
  ultimately show ?thesis by blast
qed

theorem compare_versions_total_preorder_witness:
  "compare_versions ''1.9'' ''1.10'' = -1 \<and> compare_versions ''1.10'' ''2.0-rc1'' = -1 \<and>
   compare_versions ''1.9'' ''2.0-rc1'' \<le> 0 \<and> compare_versions ''2'' ''2.0'' = 0"
proof -
  have e: "compare_versions ''1.9'' ''1.10'' = -1" "compare_versions ''1.10'' ''2.0-rc1'' = -1"
    "compare_versions ''2'' ''2.0'' = 0" by code_simp+
  with compare_versions_total_preorder [of "''1.9''" "''1.10''" "''2.0-rc1''"] show ?thesis by simp
qed

lemma legacy_constraint_ok:
  "strip d \<noteq> [] \<Longrightarrow> mk_constraint (plain_constraint d ''legacy'') = Inr (plain_constraint (strip d) ''legacy'')"
proof -
  assume "strip d \<noteq> []"
  moreover have "strip ''legacy'' = ''legacy''" by code_simp
  ultimately show ?thesis by (simp add: mk_constraint_def require_non_empty_def plain_constraint_def)
qed

text \<open>
  A structured dependency whose version range is an explicit null passes the type check of the
  code, and then \<open>.get\<close> on it raises: the descriptor of the package, and with it the catalog, fails
  with an \<open>AttributeError\<close> and not with the \<open>ValueError\<close> the check is for.
\<close>

theorem null_version_range_raises:
  assumes "\<forall>d \<in> set (mf_dependencies m). strip d \<noteq> []"
    and "py_get (candidate_metadata m) ''dependencies'' = PList (pre @ PDict kvs # post)"
    and "map_result (structured_constraint (mf_name m)) pre = Inr cs"
    and "map_of kvs ''package_name'' = Some (PStr p)" and "strip p \<noteq> []"
    and "map_of kvs ''version_range'' = Some PNone"
  shows "candidate_descriptor m source default_id = Inl (AttributeError ''get'')"
proof -
  have p: "p \<noteq> []" using assms(5) by (auto simp: strip_def)
  then have bad: "structured_constraint (mf_name m) (PDict kvs) = Inl (AttributeError ''get'')"
    using assms(4-6) by (simp add: structured_constraint_def py_get_default_def py_get_def py_or_def)
  have "map_result f (pre @ x # post) = Inl e" if "map_result f pre = Inr ys" "f x = Inl e"
    for f :: "pyval \<Rightarrow> package_error + dependency_constraint" and x ys e
    using that by (induction pre arbitrary: ys) (auto simp: result_simps)
  from this [OF assms(3) bad]
  have "map_result (structured_constraint (mf_name m)) (pre @ PDict kvs # post) = Inl (AttributeError ''get'')" .
  moreover have "map_result (\<lambda>d. mk_constraint (plain_constraint d ''legacy'')) (mf_dependencies m) =
      Inr (map (\<lambda>d. plain_constraint (strip d) ''legacy'') (mf_dependencies m))"
    by (rule map_result_all) (simp add: legacy_constraint_ok assms(1))
  ultimately have "normalized_dependency_constraints m (candidate_metadata m) = Inl (AttributeError ''get'')"
    using assms(2) by (simp add: normalized_dependency_constraints_def)
  then show ?thesis by (simp add: candidate_descriptor_def)
qed

definition demo_null_range :: manifest where
  "demo_null_range = \<lparr>mf_name = ''app'', mf_dependencies = [], mf_metadata = [(''package_candidate'',
     PDict [(''dependencies'', PList [PDict [(''package_name'', PStr ''lib''), (''version_range'', PNone)]])])]\<rparr>"

theorem null_version_range_raises_witness:
  "candidate_descriptor demo_null_range [] None = Inl (AttributeError ''get'')"
  by (rule null_version_range_raises [where pre = "[]" and post = "[]" and cs = "[]" and p = "''lib''"
        and kvs = "[(''package_name'', PStr ''lib''), (''version_range'', PNone)]"])
    (simp_all add: demo_null_range_def candidate_metadata_def py_get_def strip_def is_space_def)

end
