(* ===== verification/Permissions_Data.thy ===== *)
theory Permissions_Data
  imports Py_Values
begin

text \<open>
  The permission system's data (\<open>permissions/models.py\<close>): the shell patterns of \<open>fnmatch\<close>, rules,
  policies, requests and their match snapshots, evaluations, contexts and outcomes, with the
  dictionaries the explanations are built from.
\<close>

datatype permission_behavior = ALLOW | ASK | DENY

datatype permission_mode = M_DEFAULT | M_PLAN | M_ACCEPT_EDITS | M_BYPASS | M_DONT_ASK | M_AUTO | M_BUBBLE

datatype permission_target = T_TOOL | T_SKILL | T_AGENT | T_HOST

datatype risk_level = R_READ | R_WRITE | R_EXEC | R_NETWORK | R_DELEGATE

fun behavior_value :: "permission_behavior \<Rightarrow> string" where
  "behavior_value ALLOW = ''allow''"
| "behavior_value ASK = ''ask''"
| "behavior_value DENY = ''deny''"

fun mode_value :: "permission_mode \<Rightarrow> string" where
  "mode_value M_DEFAULT = ''default''"
| "mode_value M_PLAN = ''plan''"
| "mode_value M_ACCEPT_EDITS = ''acceptEdits''"
| "mode_value M_BYPASS = ''bypassPermissions''"
| "mode_value M_DONT_ASK = ''dontAsk''"
| "mode_value M_AUTO = ''auto''"
| "mode_value M_BUBBLE = ''bubble''"

fun target_value :: "permission_target \<Rightarrow> string" where
  "target_value T_TOOL = ''tool''"
| "target_value T_SKILL = ''skill''"
| "target_value T_AGENT = ''agent''"
| "target_value T_HOST = ''host''"

fun risk_value :: "risk_level \<Rightarrow> string" where
  "risk_value R_READ = ''read''"
| "risk_value R_WRITE = ''write''"
| "risk_value R_EXEC = ''exec''"
| "risk_value R_NETWORK = ''network''"
| "risk_value R_DELEGATE = ''delegate''"

subsection \<open>Shell patterns\<close>

text \<open>A character class, after its optional \<open>!\<close>: single characters and ranges; a range whose ends are
  out of order holds nothing.\<close>

fun class_member :: "char \<Rightarrow> string \<Rightarrow> bool" where
  "class_member c [] = False"
| "class_member c (a # m # b # rest) =
     (if m = CHR ''-'' then (a \<le> c \<and> c \<le> b) \<or> class_member c rest
      else c = a \<or> class_member c (m # b # rest))"
| "class_member c (a # rest) = (c = a \<or> class_member c rest)"

definition class_matches :: "string \<Rightarrow> char \<Rightarrow> bool" where
  "class_matches cls c =
     (case cls of
        [] \<Rightarrow> False
      | x # xs \<Rightarrow> if x = CHR ''!'' then \<not> class_member c xs else class_member c cls)"

text \<open>The class that \<open>[\<close> opens and the pattern after its \<open>]\<close>: a \<open>!\<close> and a \<open>]\<close> right after the bracket
  belong to the class; without a closing bracket \<open>[\<close> is a literal.\<close>

definition class_prefix :: "string \<Rightarrow> nat" where
  "class_prefix p =
     (let j = (if take 1 p = ''!'' then 1 else 0)
      in if take 1 (drop j p) = '']'' then j + 1 else j)"

definition split_class :: "string \<Rightarrow> (string \<times> string) option" where
  "split_class p =
     (let j = class_prefix p; body = takeWhile (\<lambda>c. c \<noteq> CHR '']'') (drop j p)
      in if j + length body < length p
         then Some (take j p @ body, drop (j + length body + 1) p) else None)"

lemma split_class_length: "split_class p = Some (cls, rest) \<Longrightarrow> length rest < length p"
  by (auto simp: split_class_def Let_def split: if_splits)

function fnmatch :: "string \<Rightarrow> string \<Rightarrow> bool" where
  "fnmatch [] s = (s = [])"
| "fnmatch (c # p) s =
     (if c = CHR ''*'' then fnmatch p s \<or> (case s of [] \<Rightarrow> False | x # xs \<Rightarrow> fnmatch (c # p) xs)
      else case s of
        [] \<Rightarrow> False
      | x # xs \<Rightarrow>
          if c = CHR ''?'' then fnmatch p xs
          else if c = CHR ''['' then
            (case split_class p of
               None \<Rightarrow> x = c \<and> fnmatch p xs
             | Some (cls, rest) \<Rightarrow> class_matches cls x \<and> fnmatch rest xs)
          else x = c \<and> fnmatch p xs)"
  by pat_completeness auto

termination
  by (relation "measure (\<lambda>(p, s). length p + length s)") (auto dest: split_class_length)

definition matches_selector :: "string list \<Rightarrow> string \<Rightarrow> bool" where
  "matches_selector candidates selector =
     (if selector = ''*'' then True
      else if list_ex (\<lambda>c. c \<in> set selector) ''*?[]'' then list_ex (\<lambda>n. fnmatch selector n) candidates
      else list_ex (\<lambda>n. n = selector) candidates)"

subsection \<open>Rules, policies and requests\<close>

record permission_rule =
  ru_selector :: string
  ru_behavior :: permission_behavior
  ru_target :: "permission_target option"
  ru_message :: "string option"
  ru_scopes :: "string list"
  ru_risk_levels :: "risk_level list"
  ru_operations :: "string list"
  ru_tags :: "string list"
  ru_read_only :: "bool option"
  ru_metadata :: "(string, pyval) dict"

record permission_policy =
  po_name :: string
  po_rules :: "permission_rule list"
  po_fallback :: "permission_behavior option"
  po_fallback_message :: "string option"
  po_metadata :: "(string, pyval) dict"
  po_fallback_metadata :: "(string, pyval) dict"
  po_source :: "string option"

record match_snapshot =
  sn_target :: permission_target
  sn_name :: string
  sn_candidate_names :: "string list"
  sn_scopes :: "string list"
  sn_risk_level :: "risk_level option"
  sn_operation :: "string option"
  sn_read_only :: "bool option"
  sn_tags :: "string list"
  sn_metadata :: "(string, pyval) dict"

record permission_context =
  pc_session_id :: string
  pc_mode :: permission_mode
  pc_rules :: "permission_rule list"
  pc_policies :: "permission_policy list"
  pc_metadata :: "(string, pyval) dict"

record classifier_input =
  cl_operation :: string
  cl_target_paths :: "string list"
  cl_target_urls :: "string list"
  cl_risk_level :: risk_level
  cl_tags :: "string list"

text \<open>Of a tool definition: its name, its aliases, and the resolvers the tool provides, functions of
  the input.\<close>

record tool_definition =
  td_name :: string
  td_aliases :: "string list"
  td_is_read_only :: "(string, pyval) dict \<Rightarrow> bool"
  td_classifier :: "(string, pyval) dict \<Rightarrow> classifier_input option"

record permission_request =
  pr_session_id :: string
  pr_turn_id :: "string option"
  pr_target :: permission_target
  pr_name :: string
  pr_payload :: "(string, pyval) dict"
  pr_context :: "permission_context option"
  pr_message :: "string option"
  pr_definition :: "tool_definition option"
  pr_metadata :: "(string, pyval) dict"

record permission_outcome =
  oc_behavior :: permission_behavior
  oc_message :: "string option"
  oc_updated_input :: "(string, pyval) dict option"
  oc_details :: "(string, pyval) dict"
  oc_source :: "string option"

definition rule_matches :: "permission_rule \<Rightarrow> permission_request \<Rightarrow> match_snapshot \<Rightarrow> bool" where
  "rule_matches r q sn =
     (if ru_target r \<noteq> None \<and> ru_target r \<noteq> Some (pr_target q) then False
      else if \<not> matches_selector (sn_candidate_names sn) (ru_selector r) then False
      else if ru_scopes r \<noteq> [] \<and> \<not> list_ex (matches_selector (sn_scopes sn)) (ru_scopes r) then False
      else if ru_risk_levels r \<noteq> [] \<and> sn_risk_level sn \<notin> Some ` set (ru_risk_levels r) then False
      else if ru_operations r \<noteq> [] \<and>
        (case sn_operation sn of None \<Rightarrow> True
         | Some op \<Rightarrow> \<not> list_ex (\<lambda>pat. fnmatch pat op) (ru_operations r)) then False
      else if ru_tags r \<noteq> [] \<and> \<not> list_ex (matches_selector (sn_tags sn)) (ru_tags r) then False
      else if ru_read_only r \<noteq> None \<and> sn_read_only sn \<noteq> ru_read_only r then False
      else True)"

definition coerce_scope_tokens :: "(string, pyval) dict \<Rightarrow> string list" where
  "coerce_scope_tokens md =
     (case (case map_of md ''policy_scopes'' of Some v \<Rightarrow> v
            | None \<Rightarrow> (case map_of md ''scopes'' of Some v \<Rightarrow> v | None \<Rightarrow> py_get md ''scope'')) of
        PNone \<Rightarrow> []
      | PStr s \<Rightarrow> [s]
      | PList xs \<Rightarrow> map py_str xs
      | v \<Rightarrow> [py_str v])"

definition policy_scopes :: "permission_context \<Rightarrow> string list" where
  "policy_scopes c = coerce_scope_tokens (pc_metadata c)"

definition with_rule :: "permission_rule \<Rightarrow> permission_context \<Rightarrow> permission_context" where
  "with_rule r c = c\<lparr>pc_rules := pc_rules c @ [r]\<rparr>"

definition with_policy :: "permission_policy \<Rightarrow> permission_context \<Rightarrow> permission_context" where
  "with_policy p c = c\<lparr>pc_policies := pc_policies c @ [p]\<rparr>"

definition dict_fromkeys :: "string list \<Rightarrow> string list" where
  "dict_fromkeys xs = rev (remdups (rev xs))"

definition with_scopes :: "string list \<Rightarrow> permission_context \<Rightarrow> permission_context" where
  "with_scopes scopes c =
     c\<lparr>pc_metadata := AList.update ''policy_scopes''
        (PList (map PStr (dict_fromkeys (policy_scopes c @ scopes)))) (pc_metadata c)\<rparr>"

definition with_payload :: "(string, pyval) dict \<Rightarrow> permission_request \<Rightarrow> permission_request" where
  "with_payload p q = q\<lparr>pr_payload := p\<rparr>"

subsection \<open>Explanations\<close>

definition of_opt :: "('a \<Rightarrow> pyval) \<Rightarrow> 'a option \<Rightarrow> pyval" where
  "of_opt f x = (case x of None \<Rightarrow> PNone | Some y \<Rightarrow> f y)"

definition strs :: "string list \<Rightarrow> pyval" where
  "strs xs = PList (map PStr xs)"

definition opt_entry :: "string \<Rightarrow> pyval option \<Rightarrow> (string, pyval) dict" where
  "opt_entry k v = (case v of None \<Rightarrow> [] | Some v \<Rightarrow> [(k, v)])"

definition list_entry :: "string \<Rightarrow> pyval list \<Rightarrow> (string, pyval) dict" where
  "list_entry k vs = (if vs = [] then [] else [(k, PList vs)])"

definition rule_entries :: "permission_rule \<Rightarrow> (string, pyval) dict" where
  "rule_entries r =
     [(''selector'', PStr (ru_selector r)), (''behavior'', PStr (behavior_value (ru_behavior r)))] @
     opt_entry ''target'' (map_option (PStr o target_value) (ru_target r)) @
     opt_entry ''message'' (map_option PStr (ru_message r)) @
     list_entry ''scopes'' (map PStr (ru_scopes r)) @
     list_entry ''risk_levels'' (map (PStr o risk_value) (ru_risk_levels r)) @
     list_entry ''operations'' (map PStr (ru_operations r)) @
     list_entry ''tags'' (map PStr (ru_tags r)) @
     opt_entry ''read_only'' (map_option PBool (ru_read_only r)) @
     (if ru_metadata r = [] then [] else [(''metadata'', PDict (ru_metadata r))])"

record rule_evaluation =
  re_index :: nat
  re_rule :: permission_rule

definition rule_evaluation_to_dict :: "rule_evaluation \<Rightarrow> pyval" where
  "rule_evaluation_to_dict e = PDict ((''rule_index'', PInt (int (re_index e))) # rule_entries (re_rule e))"

record policy_evaluation =
  pe_policy_name :: string
  pe_policy_index :: nat
  pe_decision :: "permission_behavior option"
  pe_matched_rules :: "rule_evaluation list"
  pe_fallback_used :: bool
  pe_fallback_behavior :: "permission_behavior option"
  pe_fallback_message :: "string option"
  pe_source :: "string option"
  pe_metadata :: "(string, pyval) dict"

definition winning_rule :: "policy_evaluation \<Rightarrow> rule_evaluation option" where
  "winning_rule e = (if pe_matched_rules e = [] then None else Some (last (pe_matched_rules e)))"

definition policy_evaluation_to_dict :: "policy_evaluation \<Rightarrow> pyval" where
  "policy_evaluation_to_dict e = PDict (
     [(''policy_name'', PStr (pe_policy_name e)), (''policy_index'', PInt (int (pe_policy_index e))),
      (''matched_rules'', PList (map rule_evaluation_to_dict (pe_matched_rules e))),
      (''fallback_used'', PBool (pe_fallback_used e)), (''metadata'', PDict (pe_metadata e))] @
     opt_entry ''decision'' (map_option (PStr o behavior_value) (pe_decision e)) @
     opt_entry ''fallback_behavior'' (map_option (PStr o behavior_value) (pe_fallback_behavior e)) @
     opt_entry ''fallback_message'' (map_option PStr (pe_fallback_message e)) @
     opt_entry ''source'' (map_option PStr (pe_source e)) @
     opt_entry ''winning_rule'' (map_option rule_evaluation_to_dict (winning_rule e)))"

definition snapshot_to_dict :: "match_snapshot \<Rightarrow> pyval" where
  "snapshot_to_dict s = PDict (
     [(''target'', PStr (target_value (sn_target s))), (''name'', PStr (sn_name s)),
      (''candidate_names'', strs (sn_candidate_names s)), (''scopes'', strs (sn_scopes s)),
      (''read_only'', of_opt PBool (sn_read_only s)), (''metadata'', PDict (sn_metadata s))] @
     opt_entry ''risk_level'' (map_option (PStr o risk_value) (sn_risk_level s)) @
     opt_entry ''operation'' (map_option PStr (sn_operation s)) @
     list_entry ''tags'' (map PStr (sn_tags s)))"

definition composition :: string where
  "composition = ''ordered-policy-stack:last-decision-wins''"

definition explanation_to_dict ::
  "match_snapshot \<Rightarrow> policy_evaluation list \<Rightarrow> nat option \<Rightarrow> (string, pyval) dict \<Rightarrow> pyval" where
  "explanation_to_dict sn layers winning md =
     PDict ([(''composition'', PStr composition), (''request'', snapshot_to_dict sn),
             (''layers'', PList (map policy_evaluation_to_dict layers)), (''metadata'', PDict md)] @
       opt_entry ''winner'' (case winning of None \<Rightarrow> None
         | Some i \<Rightarrow> map_option policy_evaluation_to_dict (List.find (\<lambda>l. pe_policy_index l = i) layers)))"

end
