(* ===== verification/Permissions.thy ===== *)
theory Permissions
  imports Permissions_Data
begin

text \<open>
  The permission engine (\<open>permissions/engine.py\<close>), the preset policies (\<open>permissions/presets.py\<close>)
  and the permission stage of \<open>resolve_tool_call\<close> (\<open>tool_resolution.py\<close>).  The host's
  \<open>request_permission\<close>, a tool's \<open>check_permissions\<close> and the effect of the pre-tool hook are
  arguments: the host and the tools are other parts of the program or the user.
\<close>

subsection \<open>The request snapshot\<close>

datatype runtime_context = RC_None | RC_Mapping "(string, pyval) dict"
  | RC_Object "(string, pyval) dict" "(string, pyval) dict option"

fun as_mapping :: "runtime_context \<Rightarrow> (string, pyval) dict option" where
  "as_mapping RC_None = None"
| "as_mapping (RC_Mapping d) = Some d"
| "as_mapping (RC_Object attrs md) = md"

fun lookup_value :: "runtime_context \<Rightarrow> string \<Rightarrow> pyval" where
  "lookup_value RC_None k = PNone"
| "lookup_value (RC_Mapping d) k = py_get d k"
| "lookup_value (RC_Object attrs md) k =
     (case map_of attrs k of Some v \<Rightarrow> v
      | None \<Rightarrow> (case md of None \<Rightarrow> PNone | Some d \<Rightarrow> py_get d k))"

definition scope_tokens_of :: "(string, pyval) dict option \<Rightarrow> string list" where
  "scope_tokens_of md = (case md of None \<Rightarrow> [] | Some d \<Rightarrow> coerce_scope_tokens d)"

definition prefixed :: "string \<Rightarrow> pyval \<Rightarrow> string list" where
  "prefixed p v = (if v = PNone then [] else [p @ py_str v])"

definition base_scopes ::
  "permission_request \<Rightarrow> permission_context \<Rightarrow> runtime_context \<Rightarrow> string list" where
  "base_scopes q pc rc =
     [target_value (pr_target q), ''target:'' @ target_value (pr_target q), ''session'',
      ''session:'' @ pr_session_id q, ''name:'' @ pr_name q] @
     (case pr_turn_id q of None \<Rightarrow> [] | Some t \<Rightarrow> [''turn'', ''turn:'' @ t]) @
     policy_scopes pc @ coerce_scope_tokens (pr_metadata q) @ scope_tokens_of (as_mapping rc) @
     prefixed ''agent:'' (lookup_value rc ''agent_name'') @
     prefixed ''query:'' (lookup_value rc ''query_source'') @
     prefixed ''spawn:'' (lookup_value rc ''spawn_mode'') @
     (let depth = lookup_value rc ''delegation_depth'' in
      if depth = PNone then []
      else [''delegation-depth:'' @ py_str depth,
            if py_str depth \<noteq> ''0'' then ''delegated'' else ''root''])"

definition build_request_snapshot ::
  "permission_request \<Rightarrow> permission_context \<Rightarrow> runtime_context \<Rightarrow> match_snapshot" where
  "build_request_snapshot q pc rc =
     (let plain = \<lparr>sn_target = pr_target q, sn_name = pr_name q, sn_candidate_names = [pr_name q],
            sn_scopes = sort (remdups (base_scopes q pc rc)), sn_risk_level = None,
            sn_operation = None, sn_read_only = None, sn_tags = [], sn_metadata = []\<rparr>
      in case (if pr_target q = T_TOOL then pr_definition q else None) of
           None \<Rightarrow> plain
         | Some td \<Rightarrow>
             let s = plain\<lparr>sn_candidate_names := dict_fromkeys (pr_name q # td_aliases td),
                           sn_read_only := Some (td_is_read_only td (pr_payload q))\<rparr>
             in case td_classifier td (pr_payload q) of
                  None \<Rightarrow> s
                | Some cl \<Rightarrow>
                    s\<lparr>sn_risk_level := Some (cl_risk_level cl), sn_operation := Some (cl_operation cl),
                      sn_tags := cl_tags cl,
                      sn_metadata := list_entry ''target_paths'' (map PStr (cl_target_paths cl)) @
                                     list_entry ''target_urls'' (map PStr (cl_target_urls cl)),
                      sn_scopes := sort (remdups (base_scopes q pc rc @
                        map (\<lambda>p. ''path:'' @ p) (cl_target_paths cl) @
                        map (\<lambda>u. ''url:'' @ u) (cl_target_urls cl)))\<rparr>)"

subsection \<open>The policy stack\<close>

definition setdefault :: "string \<Rightarrow> pyval \<Rightarrow> (string, pyval) dict \<Rightarrow> (string, pyval) dict" where
  "setdefault k v d = (if map_of d k = None then d @ [(k, v)] else d)"

text \<open>\<open>_PolicyLayerResult\<close>: the outcome of a layer that decides, and its evaluation.\<close>

type_synonym layer_result = "permission_outcome option \<times> policy_evaluation"

definition matched_rules ::
  "permission_policy \<Rightarrow> permission_request \<Rightarrow> match_snapshot \<Rightarrow> rule_evaluation list" where
  "matched_rules p q sn =
     map (\<lambda>(i, r). \<lparr>re_index = i, re_rule = r\<rparr>)
       (filter (\<lambda>(i, r). rule_matches r q sn) (enumerate 0 (po_rules p)))"

definition evaluate_policy ::
  "permission_policy \<Rightarrow> permission_request \<Rightarrow> match_snapshot \<Rightarrow> nat \<Rightarrow> layer_result" where
  "evaluate_policy p q sn i =
     (let ms = matched_rules p q sn;
          winner = (if ms = [] then None else Some (re_rule (last ms)));
          fallback_used = (winner = None \<and> po_fallback p \<noteq> None);
          decision = (case winner of Some r \<Rightarrow> Some (ru_behavior r) | None \<Rightarrow> po_fallback p);
          message = (case winner of Some r \<Rightarrow> ru_message r
                     | None \<Rightarrow> if fallback_used then po_fallback_message p else None);
          details = (case winner of Some r \<Rightarrow> py_update (po_metadata p) (ru_metadata r)
                     | None \<Rightarrow> py_update (po_metadata p) (po_fallback_metadata p));
          evaluation = \<lparr>pe_policy_name = po_name p, pe_policy_index = i, pe_decision = decision,
            pe_matched_rules = ms, pe_fallback_used = fallback_used,
            pe_fallback_behavior = (if fallback_used then po_fallback p else None),
            pe_fallback_message = (if fallback_used then po_fallback_message p else None),
            pe_source = po_source p, pe_metadata = po_metadata p\<rparr>
      in case decision of
           None \<Rightarrow> (None, evaluation)
         | Some b \<Rightarrow>
             let d = setdefault ''policy_name'' (PStr (po_name p)) details;
                 d = setdefault ''policy_index'' (PInt (int i)) d;
                 d = (case winner of None \<Rightarrow> d | Some r \<Rightarrow> setdefault ''policy_rule'' (PStr (ru_selector r)) d);
                 d = (case po_source p of None \<Rightarrow> d | Some s \<Rightarrow> setdefault ''policy_source'' (PStr s) d);
                 d = (if po_source p = Some ''preset''
                      then setdefault ''preset_target'' (PStr (target_value (pr_target q))) d else d)
             in (Some \<lparr>oc_behavior = b, oc_message = message, oc_updated_input = None, oc_details = d,
                      oc_source = Some (case po_source p of
                        Some s \<Rightarrow> if s \<noteq> [] then s else ''policy'' | None \<Rightarrow> ''policy'')\<rparr>,
                 evaluation))"

definition resolved_policies :: "permission_context \<Rightarrow> permission_policy list" where
  "resolved_policies pc =
     pc_policies pc @
     (if pc_rules pc = [] then []
      else [\<lparr>po_name = ''legacy-rules'', po_rules = pc_rules pc, po_fallback = None,
             po_fallback_message = None, po_metadata = [], po_fallback_metadata = [],
             po_source = Some ''rule''\<rparr>])"

definition layer_results ::
  "permission_context \<Rightarrow> permission_request \<Rightarrow> match_snapshot \<Rightarrow> layer_result list" where
  "layer_results pc q sn =
     map (\<lambda>(i, p). evaluate_policy p q sn i) (enumerate 0 (resolved_policies pc))"

definition apply_policy_stack ::
  "permission_context \<Rightarrow> permission_request \<Rightarrow> match_snapshot \<Rightarrow> (string, pyval) dict \<Rightarrow>
   permission_outcome \<Rightarrow> permission_outcome" where
  "apply_policy_stack pc q sn payload base =
     (let base' = base\<lparr>oc_updated_input := Some payload\<rparr> in
      if resolved_policies pc = [] then base'
      else
        let layers = layer_results pc q sn;
            winner = List.find (\<lambda>l. fst l \<noteq> None) (rev layers);
            explanation = explanation_to_dict sn (map snd layers)
              (map_option (\<lambda>l. pe_policy_index (snd l)) winner)
              [(''policy_count'', PInt (int (length layers)))];
            details = setdefault ''policy_composition'' (PStr composition)
              (AList.update ''policy_explanation'' explanation (oc_details base))
        in case winner of
             None \<Rightarrow> base'\<lparr>oc_details := details\<rparr>
           | Some (w, e) \<Rightarrow>
               (case w of None \<Rightarrow> base'\<lparr>oc_details := details\<rparr>
                | Some o' \<Rightarrow>
                    \<lparr>oc_behavior = oc_behavior o',
                     oc_message = (if oc_message o' = None \<and> oc_behavior o' = oc_behavior base
                                   then oc_message base else oc_message o'),
                     oc_updated_input = Some payload,
                     oc_details = py_update details (oc_details o'),
                     oc_source = oc_source o'\<rparr>))"

subsection \<open>The engine\<close>

record permission_engine =
  en_mode :: permission_mode
  en_rules :: "permission_rule list"
  en_policies :: "permission_policy list"
  en_metadata :: "(string, pyval) dict"

definition resolve_context ::
  "permission_engine \<Rightarrow> permission_context option \<Rightarrow> string \<Rightarrow> permission_context" where
  "resolve_context en c session_id =
     (case c of
        Some c \<Rightarrow> \<lparr>pc_session_id = pc_session_id c, pc_mode = pc_mode c,
          pc_rules = (if pc_rules c \<noteq> [] then pc_rules c else en_rules en),
          pc_policies = en_policies en @ pc_policies c,
          pc_metadata = py_update (en_metadata en) (pc_metadata c)\<rparr>
      | None \<Rightarrow> \<lparr>pc_session_id = session_id, pc_mode = en_mode en, pc_rules = en_rules en,
          pc_policies = en_policies en, pc_metadata = en_metadata en\<rparr>)"

record hook_effect =
  hk_updated_input :: "(string, pyval) dict option"
  hk_continue :: bool

definition dict_or :: "(string, pyval) dict option \<Rightarrow> (string, pyval) dict \<Rightarrow> (string, pyval) dict" where
  "dict_or a b = (case a of None \<Rightarrow> b | Some d \<Rightarrow> if d = [] then b else d)"

definition allow_outcome :: permission_outcome where
  "allow_outcome = \<lparr>oc_behavior = ALLOW, oc_message = None, oc_updated_input = None, oc_details = [],
     oc_source = None\<rparr>"

definition coerce_permission_outcome :: "permission_outcome option \<Rightarrow> permission_outcome" where
  "coerce_permission_outcome v = (case v of None \<Rightarrow> allow_outcome | Some oc \<Rightarrow> oc)"

definition message_or :: "string option \<Rightarrow> string \<Rightarrow> string option" where
  "message_or m d = Some (case m of Some s \<Rightarrow> if s \<noteq> [] then s else d | None \<Rightarrow> d)"

text \<open>\<open>evaluate\<close> from the policy stack on: the modes and the host.\<close>

definition settle_outcome ::
  "permission_mode \<Rightarrow> (permission_request \<Rightarrow> permission_outcome) option \<Rightarrow> permission_request \<Rightarrow>
   (string, pyval) dict \<Rightarrow> permission_outcome \<Rightarrow> permission_outcome" where
  "settle_outcome mode host q payload oc =
     (if oc_behavior oc = ASK \<and> mode = M_DONT_ASK then
        \<lparr>oc_behavior = DENY,
         oc_message = message_or (oc_message oc) ''Interactive permission prompts are disabled'',
         oc_updated_input = Some payload,
         oc_details = AList.update ''mode'' (PStr (mode_value mode)) (oc_details oc),
         oc_source = Some ''mode''\<rparr>
      else if oc_behavior oc \<noteq> ASK then oc
      else if mode = M_BUBBLE then
        \<lparr>oc_behavior = ASK,
         oc_message = message_or (oc_message oc) ''Permission request bubbled to caller'',
         oc_updated_input = Some payload,
         oc_details = py_update (oc_details oc) [(''mode'', PStr (mode_value mode)), (''bubbled'', PBool True)],
         oc_source = Some ''mode''\<rparr>
      else case host of
        None \<Rightarrow>
          \<lparr>oc_behavior = DENY, oc_message = message_or (oc_message oc) ''Permission required'',
           oc_updated_input = Some payload,
           oc_details = AList.update ''source'' (PStr ''host_missing'') (oc_details oc),
           oc_source = Some ''host''\<rparr>
      | Some ask \<Rightarrow>
          let r = ask (with_payload payload q)
          in \<lparr>oc_behavior = oc_behavior r, oc_message = oc_message r,
              oc_updated_input = Some (case oc_updated_input r of None \<Rightarrow> payload | Some p \<Rightarrow> p),
              oc_details = py_update (oc_details oc) (oc_details r),
              oc_source = Some (case oc_source r of Some s \<Rightarrow> if s \<noteq> [] then s else ''host'' | None \<Rightarrow> ''host'')\<rparr>)"

definition effective_payload ::
  "permission_request \<Rightarrow> permission_outcome \<Rightarrow> hook_effect option \<Rightarrow> (string, pyval) dict" where
  "effective_payload q oc hook =
     (case hook of
        Some h \<Rightarrow> (case hk_updated_input h of
                     Some p \<Rightarrow> p | None \<Rightarrow> dict_or (oc_updated_input oc) (pr_payload q))
      | None \<Rightarrow> dict_or (oc_updated_input oc) (pr_payload q))"

definition evaluate ::
  "permission_engine \<Rightarrow> permission_request \<Rightarrow> permission_outcome option \<Rightarrow> hook_effect option \<Rightarrow>
   runtime_context \<Rightarrow> (permission_request \<Rightarrow> permission_outcome) option \<Rightarrow> permission_outcome" where
  "evaluate en q initial hook rc host =
     (let pc = resolve_context en (pr_context q) (pr_session_id q);
          oc = coerce_permission_outcome initial;
          payload = effective_payload q oc hook
      in if (case hook of None \<Rightarrow> False | Some h \<Rightarrow> \<not> hk_continue h) then
           \<lparr>oc_behavior = DENY, oc_message = Some ''Execution blocked by runtime hook'',
            oc_updated_input = Some payload, oc_details = [(''source'', PStr ''hook'')],
            oc_source = Some ''hook''\<rparr>
         else if pc_mode pc = M_BYPASS then
           \<lparr>oc_behavior = ALLOW, oc_message = None, oc_updated_input = Some payload,
            oc_details = [(''mode'', PStr (mode_value (pc_mode pc)))], oc_source = Some ''mode''\<rparr>
         else
           settle_outcome (pc_mode pc) host q payload
             (apply_policy_stack pc q (build_request_snapshot q pc rc) payload oc))"

subsection \<open>authorize, and the permission stage of tool resolution\<close>

record permission_decision =
  de_behavior :: permission_behavior
  de_message :: "string option"
  de_updated_input :: "(string, pyval) dict option"
  de_details :: "(string, pyval) dict"

definition to_decision :: "permission_outcome \<Rightarrow> permission_decision" where
  "to_decision oc =
     \<lparr>de_behavior = oc_behavior oc, de_message = oc_message oc, de_updated_input = oc_updated_input oc,
      de_details = (case oc_source oc of None \<Rightarrow> oc_details oc
        | Some s \<Rightarrow> AList.update ''source'' (PStr s) (oc_details oc))\<rparr>"

definition outcome_of_decision :: "permission_decision \<Rightarrow> permission_outcome" where
  "outcome_of_decision d =
     \<lparr>oc_behavior = de_behavior d, oc_message = de_message d, oc_updated_input = de_updated_input d,
      oc_details = de_details d, oc_source = None\<rparr>"

text \<open>What the call context provides: ids, the permission context, the pending hook effect and the
  host.  The metadata of the request holds the definition, the decision and the context, and none of
  the scope keys.\<close>

record call_context =
  cc_session_id :: string
  cc_turn_id :: "string option"
  cc_permission_context :: "permission_context option"
  cc_runtime :: runtime_context
  cc_host :: "(permission_request \<Rightarrow> permission_outcome) option"

definition tool_request ::
  "tool_definition \<Rightarrow> (string, pyval) dict \<Rightarrow> permission_decision \<Rightarrow> call_context \<Rightarrow> permission_request" where
  "tool_request td tool_input d cc =
     \<lparr>pr_session_id = cc_session_id cc, pr_turn_id = cc_turn_id cc, pr_target = T_TOOL,
      pr_name = td_name td, pr_payload = tool_input, pr_context = cc_permission_context cc,
      pr_message = de_message d, pr_definition = Some td, pr_metadata = []\<rparr>"

definition authorize ::
  "permission_engine \<Rightarrow> tool_definition \<Rightarrow> (string, pyval) dict \<Rightarrow> permission_decision \<Rightarrow>
   hook_effect option \<Rightarrow> call_context \<Rightarrow> permission_decision" where
  "authorize en td tool_input d hook cc =
     to_decision (evaluate en (tool_request td tool_input d cc) (Some (outcome_of_decision d)) hook
       (cc_runtime cc) (cc_host cc))"

datatype call_denied = ST_CANCELLED | ST_DENIED

definition denied_status :: "permission_behavior \<Rightarrow> call_denied" where
  "denied_status b = (if b = ASK then ST_CANCELLED else ST_DENIED)"

datatype permission_stage_result =
  Blocked_By_Hook "(string, pyval) dict"
| Denied call_denied string "(string, pyval) dict"
| Executable "(string, pyval) dict" permission_decision

text \<open>From the pre-tool hook to the resolved call, when the runtime services are present.\<close>

definition permission_stage ::
  "permission_engine \<Rightarrow> tool_definition \<Rightarrow> ((string, pyval) dict \<Rightarrow> permission_decision) option \<Rightarrow>
   call_context \<Rightarrow> ((string, pyval) dict \<Rightarrow> hook_effect) \<Rightarrow> (string, pyval) dict \<Rightarrow> permission_stage_result" where
  "permission_stage en td check cc run_hook validated =
     (let hook = run_hook validated;
          tool_input = (case hk_updated_input hook of None \<Rightarrow> validated | Some p \<Rightarrow> p)
      in if \<not> hk_continue hook then Blocked_By_Hook tool_input
         else
           let d = (case check of
                      None \<Rightarrow> \<lparr>de_behavior = ALLOW, de_message = None, de_updated_input = None, de_details = []\<rparr>
                    | Some f \<Rightarrow> f tool_input);
               tool_input = dict_or (de_updated_input d) tool_input;
               d = authorize en td tool_input d (Some hook) cc;
               tool_input = dict_or (de_updated_input d) tool_input
           in if de_behavior d \<noteq> ALLOW
              then Denied (denied_status (de_behavior d))
                     (case de_message d of Some m \<Rightarrow> if m \<noteq> [] then m else ''Tool use denied''
                      | None \<Rightarrow> ''Tool use denied'') tool_input
              else Executable tool_input d)"

subsection \<open>Presets\<close>

definition plain_rule :: "string \<Rightarrow> permission_target option \<Rightarrow> permission_behavior \<Rightarrow> (string, pyval) dict
    \<Rightarrow> permission_rule" where
  "plain_rule sel target b md =
     \<lparr>ru_selector = sel, ru_behavior = b, ru_target = target, ru_message = None, ru_scopes = [],
      ru_risk_levels = [], ru_operations = [], ru_tags = [], ru_read_only = None, ru_metadata = md\<rparr>"

definition selector_rules ::
  "permission_target \<Rightarrow> string list \<Rightarrow> permission_behavior \<Rightarrow> string \<Rightarrow> permission_rule list" where
  "selector_rules target selectors b detail_key =
     map (\<lambda>s. plain_rule s (Some target) b
       [(''preset_path'', PStr (''selector:'' @ s)), (detail_key, PStr s)]) selectors"

definition coerce_fallback_behavior :: "permission_behavior \<Rightarrow> permission_behavior option" where
  "coerce_fallback_behavior b = (if b = ALLOW then None else Some b)"

definition allow_all_policy :: permission_policy where
  "allow_all_policy =
     \<lparr>po_name = ''preset:allow-all'', po_rules = [], po_fallback = Some ALLOW,
      po_fallback_message = None, po_metadata = [(''preset'', PStr ''allow-all'')],
      po_fallback_metadata = [(''preset_path'', PStr ''preset:allow-all'')],
      po_source = Some ''preset''\<rparr>"

definition deny_all_policy :: "string \<Rightarrow> permission_policy" where
  "deny_all_policy message =
     \<lparr>po_name = ''preset:deny-all'', po_rules = [], po_fallback = Some DENY,
      po_fallback_message = Some message, po_metadata = [(''preset'', PStr ''deny-all'')],
      po_fallback_metadata = [(''preset_path'', PStr ''preset:deny-all'')],
      po_source = Some ''preset''\<rparr>"

definition side_effect_risks :: "risk_level list" where
  "side_effect_risks = [R_WRITE, R_EXEC, R_NETWORK, R_DELEGATE]"

definition fallback_metadata :: "permission_behavior \<Rightarrow> (string, pyval) dict" where
  "fallback_metadata b = [(''preset_path'', PStr (''fallback:'' @ behavior_value b)),
     (''preset_fallback'', PStr (behavior_value b))]"

definition read_only_rules ::
  "string list \<Rightarrow> string list \<Rightarrow> string list \<Rightarrow> permission_behavior \<Rightarrow> permission_rule list" where
  "read_only_rules tools skills agents fb =
     selector_rules T_TOOL tools ALLOW ''preset_selector'' @
     selector_rules T_SKILL skills ALLOW ''preset_selector'' @
     selector_rules T_AGENT agents ALLOW ''preset_selector'' @
     [(plain_rule ''*'' (Some T_TOOL) ALLOW
         [(''preset_path'', PStr ''tool-traits:read-only''), (''preset_match'', PStr ''read_only_traits'')])
        \<lparr>ru_read_only := Some True\<rparr>,
      (plain_rule ''*'' (Some T_TOOL) ALLOW
         [(''preset_path'', PStr ''tool-risk:read''), (''preset_risk'', PStr (risk_value R_READ))])
        \<lparr>ru_risk_levels := [R_READ]\<rparr>] @
     map (\<lambda>risk. (plain_rule ''*'' (Some T_TOOL) fb
         [(''preset_path'', PStr (''tool-risk:'' @ risk_value risk)),
          (''preset_risk'', PStr (risk_value risk)), (''preset_fallback'', PStr (behavior_value fb))])
        \<lparr>ru_risk_levels := [risk],
         ru_message := Some (''Read-only preset blocks '' @ risk_value risk @ '' requests'')\<rparr>)
       side_effect_risks"

definition read_only_policy ::
  "string list \<Rightarrow> string list \<Rightarrow> string list \<Rightarrow> permission_behavior \<Rightarrow> string \<Rightarrow> permission_policy option" where
  "read_only_policy tools skills agents fallback message =
     map_option (\<lambda>fb.
       \<lparr>po_name = ''preset:read-only'', po_rules = read_only_rules tools skills agents fb,
        po_fallback = Some fb, po_fallback_message = (if fb = DENY then Some message else None),
        po_metadata = [(''preset'', PStr ''read-only'')],
        po_fallback_metadata = fallback_metadata fb, po_source = Some ''preset''\<rparr>)
       (coerce_fallback_behavior fallback)"

definition selective_auto_approve_policy ::
  "string list \<Rightarrow> string list \<Rightarrow> string list \<Rightarrow> risk_level list \<Rightarrow> permission_behavior \<Rightarrow> string
   \<Rightarrow> permission_policy option" where
  "selective_auto_approve_policy tools skills agents risks fallback message =
     map_option (\<lambda>fb.
       \<lparr>po_name = ''preset:selective-auto-approve'',
        po_rules = selector_rules T_TOOL tools ALLOW ''preset_selector'' @
          selector_rules T_SKILL skills ALLOW ''preset_selector'' @
          selector_rules T_AGENT agents ALLOW ''preset_selector'' @
          map (\<lambda>risk. (plain_rule ''*'' (Some T_TOOL) ALLOW
              [(''preset_path'', PStr (''risk:'' @ risk_value risk)), (''preset_risk'', PStr (risk_value risk))])
             \<lparr>ru_risk_levels := [risk]\<rparr>) risks,
        po_fallback = Some fb, po_fallback_message = (if fb = DENY then Some message else None),
        po_metadata = [(''preset'', PStr ''selective-auto-approve'')],
        po_fallback_metadata = fallback_metadata fb, po_source = Some ''preset''\<rparr>)
       (coerce_fallback_behavior fallback)"

text \<open>A preset service: the engine with the preset's policy after its default policies.\<close>

definition with_preset :: "permission_policy \<Rightarrow> permission_engine \<Rightarrow> permission_engine" where
  "with_preset p en = en\<lparr>en_policies := en_policies en @ [p]\<rparr>"

end
