(* ===== verification/Permissions_Props.thy ===== *)
theory Permissions_Props
  imports Permissions
begin

text \<open>
  What the permission engine decides.  A reference definition reads the policy stack in one pass
  (\<open>stack_decision\<close>: the last layer that decides, the last rule that matches); the properties relate
  the engine, the read-only preset and the permission stage of a tool call to it.
\<close>

subsection \<open>The reference decision\<close>

definition policy_decision ::
  "permission_policy \<Rightarrow> permission_request \<Rightarrow> match_snapshot \<Rightarrow> permission_behavior option" where
  "policy_decision p q sn =
     foldl (\<lambda>d r. if rule_matches r q sn then Some (ru_behavior r) else d) (po_fallback p) (po_rules p)"

definition stack_decision ::
  "permission_policy list \<Rightarrow> permission_request \<Rightarrow> match_snapshot \<Rightarrow> permission_behavior \<Rightarrow>
   permission_behavior" where
  "stack_decision ps q sn base =
     foldl (\<lambda>b p. case policy_decision p q sn of None \<Rightarrow> b | Some d \<Rightarrow> d) base ps"

lemma stack_decision_snoc [simp]:
  "stack_decision (ps @ [p]) q sn b =
     (case policy_decision p q sn of None \<Rightarrow> stack_decision ps q sn b | Some d \<Rightarrow> d)"
  by (simp add: stack_decision_def split: option.splits)

lemma filter_enumerate: "map snd (filter (\<lambda>(i, x). P x) (enumerate n xs)) = filter P xs"
  by (induction xs arbitrary: n) auto

lemma matched_rules_eq:
  "map re_rule (matched_rules p q sn) = filter (\<lambda>r. rule_matches r q sn) (po_rules p)"
  using filter_enumerate [of "\<lambda>r. rule_matches r q sn" 0 "po_rules p"]
  by (simp add: matched_rules_def o_def case_prod_beta)

lemma matched_rules_Nil:
  "matched_rules p q sn = [] \<longleftrightarrow> filter (\<lambda>r. rule_matches r q sn) (po_rules p) = []"
  by (metis matched_rules_eq map_is_Nil_conv)

lemma last_matched_rule:
  "matched_rules p q sn \<noteq> [] \<Longrightarrow>
   re_rule (last (matched_rules p q sn)) = last (filter (\<lambda>r. rule_matches r q sn) (po_rules p))"
  by (metis last_map matched_rules_eq)

lemma last_match_fold:
  "foldl (\<lambda>d r. if P r then Some (f r) else d) d rs =
     (if filter P rs = [] then d else Some (f (last (filter P rs))))"
  by (induction rs rule: rev_induct) auto

lemma evaluate_policy_behavior:
  "map_option oc_behavior (fst (evaluate_policy p q sn i)) = policy_decision p q sn"
  unfolding evaluate_policy_def policy_decision_def last_match_fold
  by (cases "matched_rules p q sn = []"; cases "po_fallback p")
    (auto simp: Let_def matched_rules_Nil [symmetric] last_matched_rule)

lemma find_rev_layers:
  "case List.find (\<lambda>l. fst l \<noteq> None)
     (rev (map (\<lambda>(i, p). evaluate_policy p q sn i) (enumerate n ps))) of
     None \<Rightarrow> stack_decision ps q sn b = b
   | Some l \<Rightarrow> map_option oc_behavior (fst l) = Some (stack_decision ps q sn b)"
proof (induction ps rule: rev_induct)
  case Nil
  then show ?case by (simp add: stack_decision_def)
next
  case (snoc p ps)
  show ?case
    using snoc.IH evaluate_policy_behavior [of p q sn "n + length ps", symmetric]
    by (cases "fst (evaluate_policy p q sn (n + length ps))")
      (auto simp: enumerate_append_eq split: option.splits)
qed

lemma apply_policy_stack_behavior:
  "oc_behavior (apply_policy_stack pc q sn payload oc) =
     stack_decision (resolved_policies pc) q sn (oc_behavior oc)"
  using find_rev_layers [where q = q and sn = sn and n = 0 and ps = "resolved_policies pc"
      and b = "oc_behavior oc"]
  by (auto simp: apply_policy_stack_def Let_def layer_results_def stack_decision_def
      split: option.splits)

lemma apply_policy_stack_input [simp]:
  "oc_updated_input (apply_policy_stack pc q sn payload oc) = Some payload"
  by (auto simp: apply_policy_stack_def Let_def split: option.splits)

subsection \<open>The engine\<close>

definition blocked_by_hook :: "hook_effect option \<Rightarrow> bool" where
  "blocked_by_hook hook = (case hook of None \<Rightarrow> False | Some h \<Rightarrow> \<not> hk_continue h)"

definition engine_decision ::
  "permission_engine \<Rightarrow> permission_request \<Rightarrow> permission_outcome option \<Rightarrow> runtime_context \<Rightarrow>
   permission_behavior" where
  "engine_decision en q initial rc =
     (let pc = resolve_context en (pr_context q) (pr_session_id q)
      in stack_decision (resolved_policies pc) q (build_request_snapshot q pc rc)
           (oc_behavior (coerce_permission_outcome initial)))"

definition engine_mode :: "permission_engine \<Rightarrow> permission_request \<Rightarrow> permission_mode" where
  "engine_mode en q = pc_mode (resolve_context en (pr_context q) (pr_session_id q))"

definition host_allows ::
  "(permission_request \<Rightarrow> permission_outcome) option \<Rightarrow> permission_request \<Rightarrow> (string, pyval) dict \<Rightarrow> bool" where
  "host_allows host q payload =
     (case host of None \<Rightarrow> False | Some ask \<Rightarrow> oc_behavior (ask (with_payload payload q)) = ALLOW)"

text \<open>C4: The engine allows a request exactly when no hook blocks it and either the mode bypasses
  permissions, or the policy stack read in order (the last deciding layer wins, and in it the last
  matching rule, else its fallback; without a deciding layer, the decision of the tool) says allow,
  or it says ask, the mode permits a prompt, and the host answers allow for the payload to be run.\<close>

theorem evaluate_allows_iff:
  "oc_behavior (evaluate en q initial hook rc host) = ALLOW \<longleftrightarrow>
     \<not> blocked_by_hook hook \<and>
     (engine_mode en q = M_BYPASS \<or>
      engine_decision en q initial rc = ALLOW \<or>
      engine_decision en q initial rc = ASK \<and> engine_mode en q \<notin> {M_DONT_ASK, M_BUBBLE} \<and>
      host_allows host q (effective_payload q (coerce_permission_outcome initial) hook))"
  by (auto simp: evaluate_def blocked_by_hook_def engine_mode_def engine_decision_def Let_def
      settle_outcome_def host_allows_def apply_policy_stack_behavior split: option.splits)

subsection \<open>The read-only preset\<close>

lemma matches_star [simp]: "matches_selector ns ''*''"
  by (simp add: matches_selector_def)

lemma plain_rule_behavior [simp]: "ru_behavior (plain_rule sel t b md) = b"
  by (simp add: plain_rule_def)

lemma side_effect_rule_matches:
  assumes "pr_target q = T_TOOL" and "sn_risk_level sn = Some risk"
  shows "rule_matches ((plain_rule ''*'' (Some T_TOOL) b md)
    \<lparr>ru_risk_levels := [risk'], ru_message := m\<rparr>) q sn \<longleftrightarrow> risk' = risk"
  using assms by (auto simp: rule_matches_def plain_rule_def)

lemma read_only_decision:
  assumes "pr_target q = T_TOOL" and "sn_risk_level sn = Some risk" and "risk \<in> set side_effect_risks"
    and "po_rules p = read_only_rules tools skills agents fb"
  shows "policy_decision p q sn = Some fb"
  using assms
  by (cases risk) (simp_all add: policy_decision_def read_only_rules_def side_effect_risks_def
      side_effect_rule_matches)

lemma snapshot_risk:
  assumes "pr_target q = T_TOOL" and "pr_definition q = Some td"
    and "td_classifier td (pr_payload q) = Some cl"
  shows "sn_risk_level (build_request_snapshot q pc rc) = Some (cl_risk_level cl)"
  using assms by (simp add: build_request_snapshot_def Let_def)

definition demo_tool :: tool_definition where
  "demo_tool = \<lparr>td_name = ''edit'', td_aliases = [''write''], td_is_read_only = (\<lambda>_. False),
     td_classifier = (\<lambda>p. Some \<lparr>cl_operation = ''write'',
       cl_target_paths = (case py_get p ''path'' of PStr s \<Rightarrow> [s] | _ \<Rightarrow> []), cl_target_urls = [],
       cl_risk_level = R_WRITE, cl_tags = []\<rparr>)\<rparr>"

definition demo_allow :: permission_decision where
  "demo_allow = \<lparr>de_behavior = ALLOW, de_message = None, de_updated_input = None, de_details = []\<rparr>"

definition demo_call :: call_context where
  "demo_call = \<lparr>cc_session_id = ''s'', cc_turn_id = None, cc_permission_context = None,
     cc_runtime = RC_None, cc_host = None\<rparr>"

definition demo_engine :: permission_engine where
  "demo_engine = \<lparr>en_mode = M_DEFAULT, en_rules = [], en_policies = [], en_metadata = []\<rparr>"

definition ask_rule :: permission_rule where
  "ask_rule = plain_rule ''wr?t[a-e]'' (Some T_TOOL) ASK []"

theorem evaluate_allows_iff_witness:
  "oc_behavior (evaluate (demo_engine\<lparr>en_rules := [ask_rule]\<rparr>)
     (tool_request demo_tool [(''path'', PStr ''/tmp/x'')] demo_allow demo_call)
     None None RC_None (Some (\<lambda>q. allow_outcome))) = ALLOW"
proof -
  let ?en = "demo_engine\<lparr>en_rules := [ask_rule]\<rparr>"
  let ?q = "tool_request demo_tool [(''path'', PStr ''/tmp/x'')] demo_allow demo_call"
  have "engine_decision ?en ?q None RC_None = ASK" by code_simp
  moreover have "engine_mode ?en ?q = M_DEFAULT" by code_simp
  moreover have "host_allows (Some (\<lambda>q. allow_outcome)) ?q x" for x
    by (simp add: host_allows_def allow_outcome_def)
  ultimately show ?thesis by (simp add: evaluate_allows_iff blocked_by_hook_def)
qed

text \<open>Under the read-only preset, with no policy or rule of the session after it and outside the
  bypass mode, a tool call that is classified as a write, an execution, a network access or a
  delegation is allowed only if the host says so; selectors that name the tool do not help, and with
  the deny fallback not even the host is asked.\<close>

theorem read_only_preset_blocks:
  assumes "read_only_policy tools skills agents fallback message = Some p"
    and "pr_target q = T_TOOL" and "pr_definition q = Some td"
    and "td_classifier td (pr_payload q) = Some cl" and "cl_risk_level cl \<in> set side_effect_risks"
    and "case pr_context q of None \<Rightarrow> True | Some c \<Rightarrow> pc_policies c = [] \<and> pc_rules c = []"
    and "en_rules en = []" and "engine_mode (with_preset p en) q \<noteq> M_BYPASS"
  shows "let oc = evaluate (with_preset p en) q initial hook rc host in
    (oc_behavior oc = ALLOW \<longrightarrow> fallback = ASK \<and>
       host_allows host q (effective_payload q (coerce_permission_outcome initial) hook)) \<and>
    (fallback = DENY \<longrightarrow> oc_behavior oc = DENY)"
proof -
  let ?pc = "resolve_context (with_preset p en) (pr_context q) (pr_session_id q)"
  let ?sn = "build_request_snapshot q ?pc rc"
  from assms(1) have fb: "fallback \<noteq> ALLOW" "po_rules p = read_only_rules tools skills agents fallback"
    by (auto simp: read_only_policy_def coerce_fallback_behavior_def split: if_splits)
  have "policy_decision p q ?sn = Some fallback"
    using read_only_decision [OF assms(2) snapshot_risk [OF assms(2-4)] assms(5) fb(2)] .
  moreover have "resolved_policies ?pc = en_policies en @ [p]"
    using assms(6,7)
    by (cases "pr_context q") (simp_all add: resolved_policies_def resolve_context_def with_preset_def)
  ultimately have d: "stack_decision (resolved_policies ?pc) q ?sn b = fallback" for b by simp
  have m: "pc_mode ?pc \<noteq> M_BYPASS" using assms(8) by (simp add: engine_mode_def)
  have e: "engine_decision (with_preset p en) q initial rc = fallback"
    by (simp add: engine_decision_def Let_def d)
  have "fallback = DENY \<Longrightarrow> oc_behavior (evaluate (with_preset p en) q initial hook rc host) = DENY"
    using m by (auto simp: evaluate_def Let_def settle_outcome_def apply_policy_stack_behavior d)
  then show ?thesis
    using fb(1) m unfolding Let_def evaluate_allows_iff e engine_mode_def by auto
qed

definition demo_read_only :: permission_policy where
  "demo_read_only = the (read_only_policy [''edit''] [] [] DENY ''read only'')"

theorem read_only_preset_blocks_witness:
  "oc_behavior (evaluate (with_preset demo_read_only demo_engine)
     (tool_request demo_tool [(''path'', PStr ''/tmp/x'')] demo_allow demo_call) None None RC_None None) = DENY"
proof -
  let ?q = "tool_request demo_tool [(''path'', PStr ''/tmp/x'')] demo_allow demo_call"
  have p: "read_only_policy [''edit''] [] [] DENY ''read only'' = Some demo_read_only"
    by (simp add: demo_read_only_def read_only_policy_def coerce_fallback_behavior_def)
  have m: "engine_mode (with_preset demo_read_only demo_engine) ?q \<noteq> M_BYPASS" by code_simp
  show ?thesis
    using read_only_preset_blocks [OF p, where q = ?q and td = demo_tool and en = demo_engine
        and initial = None and hook = None and rc = RC_None and host = None] m
    by (simp add: Let_def tool_request_def demo_tool_def demo_call_def demo_engine_def
        side_effect_risks_def)
qed

subsection \<open>The permission stage of a tool call\<close>

text \<open>The input that a tool's own permission check puts in place of a hook's is judged, and the
  hook's is run.  When the pre-tool hook replaced the input and the tool's check then replaced it
  again, the engine classifies the second input, and the executable call carries the first.\<close>

theorem hook_input_overrides_check:
  assumes "hk_updated_input (run_hook v) = Some x" and "x \<noteq> []" and "hk_continue (run_hook v)"
    and "de_updated_input (f x) = Some y" and "y \<noteq> []" and "cc_host cc = None"
    and "permission_stage en td (Some f) cc run_hook v = Executable inp d"
  shows "inp = x \<and>
    (engine_mode en (tool_request td y (f x) cc) = M_BYPASS \<or>
     engine_decision en (tool_request td y (f x) cc) (Some (outcome_of_decision (f x))) (cc_runtime cc)
       = ALLOW)"
proof -
  let ?q = "tool_request td y (f x) cc" and ?o = "outcome_of_decision (f x)"
  let ?e = "evaluate en ?q (Some ?o) (Some (run_hook v)) (cc_runtime cc) None"
  have y: "dict_or (de_updated_input (f x)) x = y" using assms(4,5) by (simp add: dict_or_def)
  have "oc_behavior ?e = ALLOW" and "inp = dict_or (oc_updated_input ?e) y"
    using assms(1,3,6,7)
    by (simp_all add: permission_stage_def Let_def authorize_def to_decision_def y split: if_splits)
  moreover have "effective_payload ?q ?o (Some (run_hook v)) = x"
    using assms(1) by (simp add: effective_payload_def)
  then have "oc_behavior ?e = ALLOW \<Longrightarrow> oc_updated_input ?e = Some x"
    by (auto simp: evaluate_def Let_def settle_outcome_def coerce_permission_outcome_def split: if_splits option.splits)
  ultimately show ?thesis
    using assms(2) by (auto simp: dict_or_def evaluate_allows_iff host_allows_def)
qed

text \<open>A policy that allows only the path below: the check moves the hook's path there.\<close>

definition path_policy :: permission_policy where
  "path_policy = \<lparr>po_name = ''paths'', po_rules =
     [(plain_rule ''*'' None ALLOW [])\<lparr>ru_scopes := [''path:/tmp/x'']\<rparr>], po_fallback = Some DENY,
     po_fallback_message = None, po_metadata = [], po_fallback_metadata = [], po_source = None\<rparr>"

definition demo_check :: "(string, pyval) dict \<Rightarrow> permission_decision" where
  "demo_check p = demo_allow\<lparr>de_updated_input := Some [(''path'', PStr ''/tmp/x'')]\<rparr>"

definition demo_hook :: "(string, pyval) dict \<Rightarrow> hook_effect" where
  "demo_hook p = \<lparr>hk_updated_input = Some [(''path'', PStr ''/etc/x'')], hk_continue = True\<rparr>"

fun stage_input :: "permission_stage_result \<Rightarrow> (string, pyval) dict option" where
  "stage_input (Executable inp d) = Some inp"
| "stage_input r = None"

theorem hook_input_overrides_check_witness:
  "\<exists>d. permission_stage (demo_engine\<lparr>en_policies := [path_policy]\<rparr>) demo_tool (Some demo_check) demo_call
     demo_hook [] = Executable [(''path'', PStr ''/etc/x'')] d \<and>
   engine_decision (demo_engine\<lparr>en_policies := [path_policy]\<rparr>)
     (tool_request demo_tool [(''path'', PStr ''/etc/x'')] demo_allow demo_call) None RC_None = DENY"
proof -
  let ?en = "demo_engine\<lparr>en_policies := [path_policy]\<rparr>"
  have "stage_input (permission_stage ?en demo_tool (Some demo_check) demo_call demo_hook []) \<noteq> None"
    by code_simp
  then obtain inp d where r: "permission_stage ?en demo_tool (Some demo_check) demo_call demo_hook []
      = Executable inp d"
    by (cases "permission_stage ?en demo_tool (Some demo_check) demo_call demo_hook []") auto
  moreover have "engine_decision ?en
     (tool_request demo_tool [(''path'', PStr ''/etc/x'')] demo_allow demo_call) None RC_None = DENY"
    by code_simp
  ultimately show ?thesis
    using hook_input_overrides_check [of demo_hook "[]" "[(''path'', PStr ''/etc/x'')]" demo_check
        "[(''path'', PStr ''/tmp/x'')]" demo_call, OF _ _ _ _ _ _ r]
    by (simp add: demo_hook_def demo_check_def demo_call_def)
qed

end
