(* ===== verification/Tool_Scheduler.thy ===== *)
theory Tool_Scheduler
  imports Py_Values
begin

text \<open>
  The streaming tool orchestrator (\<open>tool_orchestration.py\<close>) and the lifecycle projection it emits its
  events through (\<open>tool_lifecycle.py\<close>).  Every \<open>asyncio\<close> task is an entry of a list, in the order of
  creation, with its phase; a step of the event loop is one function on the state: an observation
  before and after its \<open>await\<close>, a task that enters its coroutine, starts, ends or gives up, an
  interrupt.  What a tool returns is an argument of the step that ends its call.  The resolution of
  paths is an argument too; result blocks and messages are not modelled.
\<close>

subsection \<open>Data\<close>

datatype call_status = CS_SUCCESS | CS_ERROR | CS_CANCELLED | CS_DENIED

datatype failure_mode = FM_REPORT_ONLY | FM_ERROR_RESULT | FM_FATAL

datatype failure_classifier = FC_EXCEPTION_ONLY | FC_NONZERO_EXIT | FC_CUSTOM

record failure_policy =
  fp_mode :: failure_mode
  fp_classifier :: failure_classifier
  fp_cancel_running :: bool
  fp_block_queued :: bool
  fp_abort_stream :: bool
  fp_surfaced :: call_status

datatype lane_kind = LK_CONCURRENT | LK_EXCLUSIVE | LK_CONFLICT

record lane =
  la_kind :: lane_kind
  la_key :: "string option"
  la_domains :: "string list"
  la_shares :: bool
  la_precise :: bool

record semantics =
  sm_read_only :: bool
  sm_concurrency_safe :: bool
  sm_policy :: failure_policy
  sm_target_paths :: "string list option"

datatype resolution_status = RS_EXECUTABLE | RS_DENIED | RS_INVALID

record resolved_call =
  rc_id :: string
  rc_replay :: nat
  rc_tool :: string
  rc_status :: resolution_status
  rc_denial :: "(call_status \<times> string) option"
  rc_semantics :: "semantics option"
  rc_lane :: "lane option"

datatype update_phase = BEFORE_REPLAY | WITH_REPLAY | AFTER_REPLAY

datatype context_update = File_Observation string string string | Other_Update update_phase pyval

record tool_result =
  tr_status :: call_status
  tr_output :: pyval
  tr_error :: "string option"

record outcome =
  ou_call :: resolved_call
  ou_status :: call_status
  ou_error :: "string option"
  ou_output :: pyval
  ou_updates :: "context_update list"
  ou_completion :: nat
  ou_replay :: nat

subsection \<open>The lifecycle projection\<close>

datatype stage = ST_OBSERVED | ST_RESOLVING | ST_NON_EXECUTABLE | ST_QUEUED | ST_RUNNING
  | ST_TERMINAL | ST_REPLAYED

datatype event_kind = Envelope_Observed | Resolution_Started | Resolution_Completed resolution_status
  | Execution_Queued lane_kind "string option" | Execution_Started lane_kind | Progress_Emitted
  | Outcome_Recorded nat call_status | Replay_Committed nat call_status

record event =
  ev_id :: string
  ev_replay :: nat
  ev_kind :: event_kind

datatype scheduler_error = Lifecycle_Transition_Error "stage option"

definition require_transition :: "stage option \<Rightarrow> stage option \<Rightarrow> scheduler_error + unit" where
  "require_transition current expected = ensure (current = expected) (Lifecycle_Transition_Error current)"

fun project_stage :: "stage option \<Rightarrow> event_kind \<Rightarrow> scheduler_error + stage" where
  "project_stage cur Envelope_Observed =
     rbind (require_transition cur None) (\<lambda>_. Inr ST_OBSERVED)"
| "project_stage cur Resolution_Started =
     rbind (require_transition cur (Some ST_OBSERVED)) (\<lambda>_. Inr ST_RESOLVING)"
| "project_stage cur (Resolution_Completed rs) =
     rbind (require_transition cur (Some ST_RESOLVING))
       (\<lambda>_. Inr (if rs = RS_EXECUTABLE then ST_QUEUED else ST_NON_EXECUTABLE))"
| "project_stage cur (Execution_Queued k key) =
     (if cur \<noteq> Some ST_QUEUED then Inl (Lifecycle_Transition_Error cur) else Inr ST_QUEUED)"
| "project_stage cur (Execution_Started k) =
     rbind (require_transition cur (Some ST_QUEUED)) (\<lambda>_. Inr ST_RUNNING)"
| "project_stage cur Progress_Emitted =
     (if cur \<noteq> Some ST_RUNNING then Inl (Lifecycle_Transition_Error cur) else Inr ST_RUNNING)"
| "project_stage cur (Outcome_Recorded c s) =
     (if cur \<notin> {Some ST_RUNNING, Some ST_QUEUED, Some ST_NON_EXECUTABLE}
      then Inl (Lifecycle_Transition_Error cur) else Inr ST_TERMINAL)"
| "project_stage cur (Replay_Committed c s) =
     rbind (require_transition cur (Some ST_TERMINAL)) (\<lambda>_. Inr ST_REPLAYED)"

subsection \<open>Lanes\<close>

definition plain_lane :: "lane_kind \<Rightarrow> lane" where
  "plain_lane k = \<lparr>la_kind = k, la_key = None, la_domains = [], la_shares = False, la_precise = False\<rparr>"

definition derive_lane :: "(string \<Rightarrow> string) \<Rightarrow> resolved_call \<Rightarrow> lane option" where
  "derive_lane conflict_key c =
     (if rc_status c \<noteq> RS_EXECUTABLE then None
      else case rc_semantics c of
        None \<Rightarrow> Some (plain_lane LK_EXCLUSIVE)
      | Some sm \<Rightarrow>
          if \<not> sm_concurrency_safe sm then Some (plain_lane LK_EXCLUSIVE)
          else
            let domains = (case sm_target_paths sm of None \<Rightarrow> [] | Some ps \<Rightarrow> map conflict_key ps)
            in if sm_read_only sm \<and> domains = []
               then Some ((plain_lane LK_CONCURRENT)\<lparr>la_shares := True, la_precise := True\<rparr>)
               else if domains \<noteq> []
               then Some ((plain_lane LK_CONFLICT)\<lparr>la_key := Some (join ''|'' domains),
                      la_domains := domains, la_precise := True\<rparr>)
               else Some (plain_lane LK_EXCLUSIVE))"

definition lane_domains :: "lane \<Rightarrow> string set" where
  "lane_domains l =
     (if la_domains l \<noteq> [] then set (la_domains l)
      else case la_key l of None \<Rightarrow> {} | Some k \<Rightarrow> if k \<noteq> [] then {k} else {})"

definition lanes_overlap :: "lane \<Rightarrow> lane \<Rightarrow> bool" where
  "lanes_overlap l r =
     (if LK_EXCLUSIVE \<in> {la_kind l, la_kind r} then True
      else if LK_CONCURRENT \<in> {la_kind l, la_kind r} then False
      else if lane_domains l = {} \<or> lane_domains r = {} then True
      else lane_domains l \<inter> lane_domains r \<noteq> {})"

subsection \<open>The orchestrator's state\<close>

datatype phase = PH_CREATED | PH_WAITING | PH_RUNNING | PH_DONE

record sched_task =
  tk_call :: resolved_call
  tk_lane :: "lane option"
  tk_wait_for :: "nat list"
  tk_phase :: phase
  tk_cancelled :: bool

record orchestrator =
  or_tasks :: "sched_task list"
  or_scheduled :: "(string, nat) dict"
  or_lanes :: "(string, lane) dict"
  or_outcomes :: "(nat, outcome) dict"
  or_stages :: "(string, stage) dict"
  or_started :: "string list"
  or_pending :: "(string, nat) dict"
  or_observed :: nat
  or_completion :: nat
  or_interrupt :: "string option"
  or_events :: "event list"

definition new_orchestrator :: orchestrator where
  "new_orchestrator = \<lparr>or_tasks = [], or_scheduled = [], or_lanes = [], or_outcomes = [], or_stages = [],
     or_started = [], or_pending = [], or_observed = 0, or_completion = 0, or_interrupt = None,
     or_events = []\<rparr>"

definition emit_lifecycle :: "event \<Rightarrow> orchestrator \<Rightarrow> scheduler_error + orchestrator" where
  "emit_lifecycle e s =
     rbind (project_stage (map_of (or_stages s) (ev_id e)) (ev_kind e)) (\<lambda>st.
     Inr (s\<lparr>or_stages := AList.update (ev_id e) st (or_stages s), or_events := or_events s @ [e]\<rparr>))"

definition done_task :: "orchestrator \<Rightarrow> nat \<Rightarrow> bool" where
  "done_task s i = (tk_phase (or_tasks s ! i) = PH_DONE)"

definition dependencies_for_lane :: "lane option \<Rightarrow> orchestrator \<Rightarrow> nat list" where
  "dependencies_for_lane l s =
     (case l of
        None \<Rightarrow> []
      | Some l \<Rightarrow> remdups (map snd (filter (\<lambda>(cid, i).
          \<not> done_task s i \<and>
          (case map_of (or_lanes s) cid of None \<Rightarrow> False | Some prior \<Rightarrow> lanes_overlap prior l))
          (or_scheduled s))))"

subsection \<open>Outcomes\<close>

definition record_outcome :: "outcome \<Rightarrow> orchestrator \<Rightarrow> scheduler_error + orchestrator" where
  "record_outcome out s =
     emit_lifecycle \<lparr>ev_id = rc_id (ou_call out), ev_replay = ou_replay out,
         ev_kind = Outcome_Recorded (ou_completion out) (ou_status out)\<rparr>
       (s\<lparr>or_outcomes := AList.update (ou_replay out) out (or_outcomes s)\<rparr>)"

definition synthetic_outcome :: "resolved_call \<Rightarrow> orchestrator \<Rightarrow> outcome \<times> orchestrator" where
  "synthetic_outcome c s =
     (let (st, err) = (if rc_status c = RS_DENIED
            then (case rc_denial c of Some d \<Rightarrow> d | None \<Rightarrow> (CS_DENIED, ''Tool use denied''))
            else (CS_ERROR, ''Invalid tool call: '' @ rc_tool c))
      in (\<lparr>ou_call = c, ou_status = st, ou_error = Some err, ou_output = PNone, ou_updates = [],
           ou_completion = or_completion s, ou_replay = rc_replay c\<rparr>,
          s\<lparr>or_completion := or_completion s + 1\<rparr>))"

definition cancelled_outcome :: "resolved_call \<Rightarrow> orchestrator \<Rightarrow> outcome \<times> orchestrator" where
  "cancelled_outcome c s =
     (\<lparr>ou_call = c, ou_status = CS_CANCELLED, ou_error = Some ''Tool execution cancelled'',
       ou_output = PNone, ou_updates = [], ou_completion = or_completion s, ou_replay = rc_replay c\<rparr>,
      s\<lparr>or_completion := or_completion s + 1\<rparr>)"

text \<open>\<open>int(output.get("exit_code", 0))\<close> where the exit code is an integer or a bool; on other values
  the conversion raises (\<open>None\<close>), and the exception ends the task.\<close>

fun exit_code :: "pyval \<Rightarrow> int option" where
  "exit_code (PDict kvs) =
     (case map_of kvs ''exit_code'' of
        None \<Rightarrow> Some 0
      | Some (PInt i) \<Rightarrow> Some i
      | Some (PBool b) \<Rightarrow> Some (of_bool b)
      | Some v \<Rightarrow> None)"
| "exit_code v = Some 0"

definition classify_result :: "tool_result \<Rightarrow> resolved_call \<Rightarrow> tool_result option" where
  "classify_result r c =
     (case rc_semantics c of
        None \<Rightarrow> Some r
      | Some sm \<Rightarrow>
          if tr_status r \<noteq> CS_SUCCESS then Some r
          else if fp_classifier (sm_policy sm) = FC_NONZERO_EXIT then
            (case exit_code (tr_output r) of
               None \<Rightarrow> None
             | Some code \<Rightarrow>
                 if code = 0 then Some r
                 else Some (r\<lparr>tr_status := fp_surfaced (sm_policy sm),
                      tr_error := Some (py_str (py_or (py_or (py_get (coerce_mapping (tr_output r)) ''stderr'')
                          (py_get (coerce_mapping (tr_output r)) ''stdout''))
                          (PStr ''Tool execution failed'')))\<rparr>))
          else Some r)"

definition derived_context_updates ::
  "(string \<Rightarrow> string) \<Rightarrow> resolved_call \<Rightarrow> tool_result \<Rightarrow> context_update list" where
  "derived_context_updates conflict_key c r =
     (if tr_status r \<noteq> CS_SUCCESS then []
      else case rc_semantics c of
        None \<Rightarrow> []
      | Some sm \<Rightarrow>
          (case sm_target_paths sm of
             None \<Rightarrow> []
           | Some ps \<Rightarrow> map (\<lambda>p. File_Observation (if sm_read_only sm then ''read'' else ''write_commit'')
                p (conflict_key p)) ps))"

definition build_outcome ::
  "(string \<Rightarrow> string) \<Rightarrow> resolved_call \<Rightarrow> tool_result \<Rightarrow> context_update list \<Rightarrow> orchestrator
   \<Rightarrow> (outcome \<times> orchestrator) option" where
  "build_outcome conflict_key c executed updates s =
     (case classify_result executed c of
        None \<Rightarrow> None
      | Some r \<Rightarrow>
          Some (\<lparr>ou_call = c, ou_status = tr_status r, ou_error = tr_error r, ou_output = tr_output r,
                 ou_updates = updates @ derived_context_updates conflict_key c r,
                 ou_completion = or_completion s, ou_replay = rc_replay c\<rparr>,
                s\<lparr>or_completion := or_completion s + 1\<rparr>))"

subsection \<open>Cancellation\<close>

text \<open>\<open>task.cancel()\<close>.  A task that waits is suspended in \<open>gather\<close>, and cancelling it cancels the
  future it awaits: \<open>gather\<close> cancels every task it gathers that is not done.  Those were created
  before the task that waits for them.\<close>

function cancel_task :: "nat \<Rightarrow> sched_task list \<Rightarrow> sched_task list" where
  "cancel_task i ts =
     (if i < length ts \<and> tk_phase (ts ! i) \<noteq> PH_DONE then
        (let ts' = ts[i := (ts ! i)\<lparr>tk_cancelled := True\<rparr>]
         in if tk_phase (ts ! i) = PH_WAITING
            then foldl (\<lambda>ts d. if d < i then cancel_task d ts else ts) ts' (tk_wait_for (ts ! i))
            else ts')
      else ts)"
  by pat_completeness auto
termination
  by (relation "measure fst") auto

declare cancel_task.simps [simp del]

definition should_cancel :: "failure_policy \<Rightarrow> bool \<Rightarrow> bool" where
  "should_cancel p started =
     (if started \<and> \<not> fp_cancel_running p then False
      else if \<not> started \<and> \<not> fp_block_queued p then False
      else True)"

definition cascade_failure :: "outcome \<Rightarrow> orchestrator \<Rightarrow> orchestrator" where
  "cascade_failure out s =
     (case rc_semantics (ou_call out) of
        None \<Rightarrow> s
      | Some sm \<Rightarrow>
          let p = sm_policy sm in
          if fp_mode p \<noteq> FM_FATAL then s
          else if ou_status out = CS_SUCCESS then s
          else
            let s1 = (if fp_abort_stream p
                      then s\<lparr>or_interrupt := Some (''tool_failure:'' @ rc_id (ou_call out))\<rparr> else s)
            in s1\<lparr>or_tasks := foldl (\<lambda>ts (cid, i).
                 if cid = rc_id (ou_call out) \<or> tk_phase (ts ! i) = PH_DONE then ts
                 else if should_cancel p (cid \<in> set (or_started s)) then cancel_task i ts
                 else ts) (or_tasks s) (or_scheduled s)\<rparr>)"

definition interrupt :: "string \<Rightarrow> orchestrator \<Rightarrow> orchestrator" where
  "interrupt reason s =
     s\<lparr>or_interrupt := Some reason,
       or_tasks := foldl (\<lambda>ts (cid, i). if tk_phase (ts ! i) = PH_DONE then ts else cancel_task i ts)
         (or_tasks s) (or_scheduled s)\<rparr>"

subsection \<open>Observing a call\<close>

definition observe_begin :: "string \<Rightarrow> orchestrator \<Rightarrow> scheduler_error + orchestrator" where
  "observe_begin cid s =
     (let n = or_observed s;
          s = s\<lparr>or_observed := n + 1\<rparr>
      in rbind (emit_lifecycle \<lparr>ev_id = cid, ev_replay = n, ev_kind = Envelope_Observed\<rparr> s) (\<lambda>s.
         rbind (emit_lifecycle \<lparr>ev_id = cid, ev_replay = n, ev_kind = Resolution_Started\<rparr> s) (\<lambda>s.
         Inr (s\<lparr>or_pending := AList.update cid n (or_pending s)\<rparr>))))"

text \<open>After \<open>resolve_tool_call\<close> has returned the resolved call (without its lane).\<close>

definition observe_end ::
  "(string \<Rightarrow> string) \<Rightarrow> resolved_call \<Rightarrow> orchestrator \<Rightarrow> scheduler_error + orchestrator" where
  "observe_end conflict_key c0 s =
     (let l = derive_lane conflict_key c0;
          c = c0\<lparr>rc_lane := l\<rparr>;
          s = s\<lparr>or_pending := AList.delete (rc_id c) (or_pending s)\<rparr>;
          ev = (\<lambda>k. \<lparr>ev_id = rc_id c, ev_replay = rc_replay c, ev_kind = k\<rparr>)
      in rbind (emit_lifecycle (ev (Resolution_Completed (rc_status c))) s) (\<lambda>s.
         if rc_status c \<noteq> RS_EXECUTABLE then
           (let (out, s) = synthetic_outcome c s in record_outcome out s)
         else
           rbind (emit_lifecycle (ev (case l of Some l \<Rightarrow> Execution_Queued (la_kind l) (la_key l)
                                     | None \<Rightarrow> Execution_Queued LK_EXCLUSIVE None)) s) (\<lambda>s.
           let t = \<lparr>tk_call = c, tk_lane = l, tk_wait_for = dependencies_for_lane l s,
                    tk_phase = PH_CREATED, tk_cancelled = False\<rparr>
           in Inr (s\<lparr>or_tasks := or_tasks s @ [t],
                     or_scheduled := AList.update (rc_id c) (length (or_tasks s)) (or_scheduled s),
                     or_lanes := (case l of None \<Rightarrow> or_lanes s
                                  | Some l \<Rightarrow> AList.update (rc_id c) l (or_lanes s))\<rparr>))))"

subsection \<open>The task of a call\<close>

definition set_phase :: "nat \<Rightarrow> phase \<Rightarrow> orchestrator \<Rightarrow> orchestrator" where
  "set_phase i p s = s\<lparr>or_tasks := (or_tasks s)[i := (or_tasks s ! i)\<lparr>tk_phase := p\<rparr>]\<rparr>"

text \<open>The first step of the coroutine: a task cancelled before it ends there, outside the \<open>try\<close>.\<close>

definition enter_task :: "nat \<Rightarrow> orchestrator \<Rightarrow> orchestrator" where
  "enter_task i s =
     (if tk_cancelled (or_tasks s ! i) then set_phase i PH_DONE s else set_phase i PH_WAITING s)"

definition waits_over :: "nat \<Rightarrow> orchestrator \<Rightarrow> bool" where
  "waits_over i s = list_all (done_task s) (tk_wait_for (or_tasks s ! i))"

definition task_lane :: "resolved_call \<Rightarrow> lane" where
  "task_lane c = (case rc_lane c of Some l \<Rightarrow> l | None \<Rightarrow> plain_lane LK_EXCLUSIVE)"

definition start_task :: "nat \<Rightarrow> orchestrator \<Rightarrow> scheduler_error + orchestrator" where
  "start_task i s =
     (let c = tk_call (or_tasks s ! i) in
      emit_lifecycle \<lparr>ev_id = rc_id c, ev_replay = rc_replay c,
          ev_kind = Execution_Started (la_kind (task_lane c))\<rparr>
        (set_phase i PH_RUNNING (s\<lparr>or_started := List.insert (rc_id c) (or_started s)\<rparr>)))"

text \<open>The end of \<open>_run_scheduled_call\<close>: the outcome is recorded, the call leaves the started set, the
  failure cascades, and the task is done.\<close>

definition end_task :: "nat \<Rightarrow> outcome \<times> orchestrator \<Rightarrow> scheduler_error + orchestrator" where
  "end_task i os =
     rbind (record_outcome (fst os) (snd os)) (\<lambda>s.
     Inr (set_phase i PH_DONE (cascade_failure (fst os)
       (s\<lparr>or_started := removeAll (rc_id (ou_call (fst os))) (or_started s)\<rparr>))))"

definition finish_task ::
  "(string \<Rightarrow> string) \<Rightarrow> nat \<Rightarrow> tool_result \<Rightarrow> context_update list \<Rightarrow> orchestrator \<Rightarrow> scheduler_error + orchestrator"
where
  "finish_task conflict_key i executed updates s =
     (case build_outcome conflict_key (tk_call (or_tasks s ! i)) executed updates s of
        None \<Rightarrow> Inr (set_phase i PH_DONE s)
      | Some os \<Rightarrow> end_task i os)"

definition give_up_task :: "nat \<Rightarrow> orchestrator \<Rightarrow> scheduler_error + orchestrator" where
  "give_up_task i s = end_task i (cancelled_outcome (tk_call (or_tasks s ! i)) s)"

subsection \<open>finalize\<close>

definition ordered_outcomes :: "orchestrator \<Rightarrow> outcome list" where
  "ordered_outcomes s = map snd (sort_key fst (or_outcomes s))"

fun update_phase_of :: "context_update \<Rightarrow> update_phase" where
  "update_phase_of (File_Observation k p ck) = BEFORE_REPLAY"
| "update_phase_of (Other_Update ph v) = ph"

definition updates_in :: "update_phase \<Rightarrow> outcome \<Rightarrow> context_update list" where
  "updates_in ph out = filter (\<lambda>u. update_phase_of u = ph) (ou_updates out)"

datatype replay_action = Apply context_update | Commit nat

text \<open>The actions of \<open>finalize\<close> in order, and the state after its \<open>ReplayCommitted\<close> events.\<close>

definition replay_actions :: "outcome list \<Rightarrow> replay_action list" where
  "replay_actions outs =
     concat (map (\<lambda>out. map Apply (updates_in BEFORE_REPLAY out)) outs) @
     concat (map (\<lambda>out. Commit (ou_replay out) # map Apply (updates_in WITH_REPLAY out)) outs) @
     concat (map (\<lambda>out. map Apply (updates_in AFTER_REPLAY out)) outs)"

fun commit_replay :: "outcome list \<Rightarrow> orchestrator \<Rightarrow> scheduler_error + orchestrator" where
  "commit_replay [] s = Inr s"
| "commit_replay (out # outs) s =
     rbind (emit_lifecycle \<lparr>ev_id = rc_id (ou_call out), ev_replay = ou_replay out,
              ev_kind = Replay_Committed (ou_completion out) (ou_status out)\<rparr> s) (commit_replay outs)"

definition finalize ::
  "orchestrator \<Rightarrow> scheduler_error + outcome list \<times> replay_action list \<times> orchestrator" where
  "finalize s =
     rbind (commit_replay (ordered_outcomes s) s) (\<lambda>s'.
     Inr (ordered_outcomes s, replay_actions (ordered_outcomes s), s'))"

subsection \<open>Steps\<close>

text \<open>A running tool that is cancelled ends in \<open>CancelledError\<close>, which \<open>abandon\<close> models.  A resolved call
  carries the id and the replay index of its observation.\<close>

inductive sched_step :: "(string \<Rightarrow> string) \<Rightarrow> orchestrator \<Rightarrow> orchestrator \<Rightarrow> bool" for ck where
  obs: "observe_begin cid s = Inr s' \<Longrightarrow> sched_step ck s s'"
| resolve: "map_of (or_pending s) (rc_id c) = Some (rc_replay c) \<Longrightarrow> observe_end ck c s = Inr s' \<Longrightarrow>
     sched_step ck s s'"
| enter: "i < length (or_tasks s) \<Longrightarrow> tk_phase (or_tasks s ! i) = PH_CREATED \<Longrightarrow>
     sched_step ck s (enter_task i s)"
| start: "i < length (or_tasks s) \<Longrightarrow> tk_phase (or_tasks s ! i) = PH_WAITING \<Longrightarrow> waits_over i s \<Longrightarrow>
     \<not> tk_cancelled (or_tasks s ! i) \<Longrightarrow> start_task i s = Inr s' \<Longrightarrow> sched_step ck s s'"
| give_up: "i < length (or_tasks s) \<Longrightarrow> tk_phase (or_tasks s ! i) = PH_WAITING \<Longrightarrow> waits_over i s \<Longrightarrow>
     tk_cancelled (or_tasks s ! i) \<Longrightarrow> give_up_task i s = Inr s' \<Longrightarrow> sched_step ck s s'"
| finish: "i < length (or_tasks s) \<Longrightarrow> tk_phase (or_tasks s ! i) = PH_RUNNING \<Longrightarrow>
     finish_task ck i r us s = Inr s' \<Longrightarrow> sched_step ck s s'"
| abandon: "i < length (or_tasks s) \<Longrightarrow> tk_phase (or_tasks s ! i) = PH_RUNNING \<Longrightarrow> give_up_task i s = Inr s' \<Longrightarrow>
     sched_step ck s s'"
| interrupt: "sched_step ck s (interrupt reason s)"

inductive sched_reachable :: "(string \<Rightarrow> string) \<Rightarrow> orchestrator \<Rightarrow> bool" for ck where
  init: "sched_reachable ck new_orchestrator"
| step: "sched_reachable ck s \<Longrightarrow> sched_step ck s s' \<Longrightarrow> sched_reachable ck s'"

inductive_cases sched_stepE [elim!]: "sched_step ck s s'"

end
