(* ===== verification/Tool_Scheduler_Inv.thy ===== *)
theory Tool_Scheduler_Inv
  imports Tool_Scheduler
begin

text \<open>
  The invariant of the tool orchestrator and its preservation by every step of the event loop: tasks
  and dictionaries agree, an unfinished task waits for every unfinished earlier task whose lane
  overlaps its own, a running task has nothing left to wait for, and the lifecycle stage of a call
  follows the phase of its task.
\<close>

definition stage_ok :: "phase \<Rightarrow> stage option \<Rightarrow> bool" where
  "stage_ok p st =
     (case p of PH_CREATED \<Rightarrow> st = Some ST_QUEUED | PH_WAITING \<Rightarrow> st = Some ST_QUEUED
      | PH_RUNNING \<Rightarrow> st = Some ST_RUNNING
      | PH_DONE \<Rightarrow> st \<in> {Some ST_QUEUED, Some ST_RUNNING, Some ST_TERMINAL})"

definition tasks_inv :: "sched_task list \<Rightarrow> bool" where
  "tasks_inv ts \<longleftrightarrow>
     (\<forall>j < length ts. \<forall>d \<in> set (tk_wait_for (ts ! j)). d < j) \<and>
     (\<forall>j < length ts. \<forall>i < j. tk_phase (ts ! i) \<noteq> PH_DONE \<longrightarrow> tk_phase (ts ! j) \<noteq> PH_DONE \<longrightarrow>
        lanes_overlap (the (tk_lane (ts ! i))) (the (tk_lane (ts ! j))) \<longrightarrow> i \<in> set (tk_wait_for (ts ! j))) \<and>
     (\<forall>j < length ts. tk_phase (ts ! j) = PH_RUNNING \<longrightarrow>
        (\<forall>d \<in> set (tk_wait_for (ts ! j)). tk_phase (ts ! d) = PH_DONE)) \<and>
     (\<forall>j < length ts. \<forall>i < j. rc_replay (tk_call (ts ! i)) \<noteq> rc_replay (tk_call (ts ! j)))"

definition dicts_inv :: "sched_task list \<Rightarrow> (string, nat) dict \<Rightarrow> (string, lane) dict \<Rightarrow> bool" where
  "dicts_inv ts sch lanes \<longleftrightarrow>
     distinct (map fst sch) \<and>
     (\<forall>cid i. map_of sch cid = Some i \<longleftrightarrow> i < length ts \<and> rc_id (tk_call (ts ! i)) = cid) \<and>
     (\<forall>i < length ts. \<exists>l. tk_lane (ts ! i) = Some l \<and> map_of lanes (rc_id (tk_call (ts ! i))) = Some l)"

definition stages_inv ::
  "sched_task list \<Rightarrow> (string, stage) dict \<Rightarrow> (string, nat) dict \<Rightarrow> (nat, outcome) dict \<Rightarrow> nat \<Rightarrow> bool" where
  "stages_inv ts stages pend outs obs \<longleftrightarrow>
     (\<forall>i < length ts. stage_ok (tk_phase (ts ! i)) (map_of stages (rc_id (tk_call (ts ! i)))) \<and>
        rc_replay (tk_call (ts ! i)) < obs \<and>
        (map_of stages (rc_id (tk_call (ts ! i))) = Some ST_TERMINAL \<longrightarrow>
           (\<exists>out. map_of outs (rc_replay (tk_call (ts ! i))) = Some out \<and> ou_call out = tk_call (ts ! i)))) \<and>
     (\<forall>cid n. map_of pend cid = Some n \<longrightarrow> map_of stages cid = Some ST_RESOLVING \<and> n < obs \<and>
        (\<forall>i < length ts. rc_replay (tk_call (ts ! i)) \<noteq> n)) \<and>
     (\<forall>c c' n. map_of pend c = Some n \<longrightarrow> map_of pend c' = Some n \<longrightarrow> c = c') \<and>
     (\<forall>n out. map_of outs n = Some out \<longrightarrow> ou_replay out = n \<and>
        map_of stages (rc_id (ou_call out)) = Some ST_TERMINAL) \<and>
     (\<forall>n out m out'. map_of outs n = Some out \<longrightarrow> map_of outs m = Some out' \<longrightarrow>
        rc_id (ou_call out) = rc_id (ou_call out') \<longrightarrow> n = m)"

definition sched_inv :: "orchestrator \<Rightarrow> bool" where
  "sched_inv s \<longleftrightarrow> tasks_inv (or_tasks s) \<and> dicts_inv (or_tasks s) (or_scheduled s) (or_lanes s) \<and>
     stages_inv (or_tasks s) (or_stages s) (or_pending s) (or_outcomes s) (or_observed s) \<and>
     distinct (map fst (or_outcomes s))"

lemma sched_inv_init: "sched_inv new_orchestrator"
  by (simp add: sched_inv_def new_orchestrator_def tasks_inv_def dicts_inv_def stages_inv_def)

subsection \<open>Cancelling changes only the cancel flags\<close>

definition same_tasks :: "sched_task list \<Rightarrow> sched_task list \<Rightarrow> bool" where
  "same_tasks ts ts' \<longleftrightarrow> length ts' = length ts \<and>
     (\<forall>i < length ts. tk_call (ts' ! i) = tk_call (ts ! i) \<and> tk_lane (ts' ! i) = tk_lane (ts ! i) \<and>
        tk_wait_for (ts' ! i) = tk_wait_for (ts ! i) \<and> tk_phase (ts' ! i) = tk_phase (ts ! i))"

lemma same_tasks_refl [simp]: "same_tasks ts ts"
  by (simp add: same_tasks_def)

lemma same_tasks_trans: "same_tasks a b \<Longrightarrow> same_tasks b c \<Longrightarrow> same_tasks a c"
  by (simp add: same_tasks_def)

lemma same_tasks_flag: "same_tasks ts (ts[i := (ts ! i)\<lparr>tk_cancelled := b\<rparr>])"
  by (cases "i < length ts") (auto simp: same_tasks_def nth_list_update)

lemma same_tasks_foldl:
  "(\<And>ts x. x \<in> set xs \<Longrightarrow> same_tasks ts (f ts x)) \<Longrightarrow> same_tasks ts (foldl f ts xs)"
proof (induction xs arbitrary: ts)
  case (Cons x xs)
  have "same_tasks (f ts x) (foldl f (f ts x) xs)" by (rule Cons.IH) (simp add: Cons.prems)
  moreover have "same_tasks ts (f ts x)" by (simp add: Cons.prems)
  ultimately show ?case by (simp add: same_tasks_trans)
qed simp

lemma same_tasks_cancel: "same_tasks ts (cancel_task i ts)"
proof (induction i ts rule: cancel_task.induct)
  case (1 i ts)
  show ?case
  proof (cases "i < length ts \<and> tk_phase (ts ! i) = PH_WAITING")
    case True
    let ?ts = "ts[i := (ts ! i)\<lparr>tk_cancelled := True\<rparr>]"
    have "same_tasks ?ts (foldl (\<lambda>ts d. if d < i then cancel_task d ts else ts) ?ts (tk_wait_for (ts ! i)))"
      using 1 True by (intro same_tasks_foldl) auto
    from same_tasks_trans [OF same_tasks_flag this] show ?thesis
      using True by (subst cancel_task.simps) simp
  next
    case False
    then show ?thesis using same_tasks_flag by (subst cancel_task.simps) (simp add: Let_def)
  qed
qed

lemma tasks_inv_same:
  assumes "same_tasks ts ts'" and "tasks_inv ts"
  shows "tasks_inv ts'"
proof -
  have l: "length ts' = length ts" and
    f: "\<And>i. i < length ts \<Longrightarrow> tk_call (ts' ! i) = tk_call (ts ! i)"
      "\<And>i. i < length ts \<Longrightarrow> tk_lane (ts' ! i) = tk_lane (ts ! i)"
      "\<And>i. i < length ts \<Longrightarrow> tk_wait_for (ts' ! i) = tk_wait_for (ts ! i)"
      "\<And>i. i < length ts \<Longrightarrow> tk_phase (ts' ! i) = tk_phase (ts ! i)"
    using assms(1) by (auto simp: same_tasks_def)
  have t: "\<And>j d. j < length ts \<Longrightarrow> d \<in> set (tk_wait_for (ts ! j)) \<Longrightarrow> d < j"
    "\<And>i j. j < length ts \<Longrightarrow> i < j \<Longrightarrow> tk_phase (ts ! i) \<noteq> PH_DONE \<Longrightarrow> tk_phase (ts ! j) \<noteq> PH_DONE \<Longrightarrow>
       lanes_overlap (the (tk_lane (ts ! i))) (the (tk_lane (ts ! j))) \<Longrightarrow> i \<in> set (tk_wait_for (ts ! j))"
    "\<And>j d. j < length ts \<Longrightarrow> tk_phase (ts ! j) = PH_RUNNING \<Longrightarrow> d \<in> set (tk_wait_for (ts ! j)) \<Longrightarrow>
       tk_phase (ts ! d) = PH_DONE"
    "\<And>i j. j < length ts \<Longrightarrow> i < j \<Longrightarrow> rc_replay (tk_call (ts ! i)) \<noteq> rc_replay (tk_call (ts ! j))"
    using assms(2) by (simp_all add: tasks_inv_def)
  show ?thesis
    unfolding tasks_inv_def l
  proof (intro conjI allI impI ballI)
    fix j d assume "j < length ts" "d \<in> set (tk_wait_for (ts' ! j))"
    then show "d < j" using t(1) by (simp add: f)
  next
    fix j i assume "j < length ts" "i < j" "tk_phase (ts' ! i) \<noteq> PH_DONE" "tk_phase (ts' ! j) \<noteq> PH_DONE"
      "lanes_overlap (the (tk_lane (ts' ! i))) (the (tk_lane (ts' ! j)))"
    then show "i \<in> set (tk_wait_for (ts' ! j))" using t(2) by (simp add: f)
  next
    fix j d assume j: "j < length ts" "tk_phase (ts' ! j) = PH_RUNNING" "d \<in> set (tk_wait_for (ts' ! j))"
    then have "d < j" using t(1) by (simp add: f)
    then show "tk_phase (ts' ! d) = PH_DONE" using j t(3) by (simp add: f)
  next
    fix j i assume "j < length ts" "i < j"
    then show "rc_replay (tk_call (ts' ! i)) \<noteq> rc_replay (tk_call (ts' ! j))" using t(4) by (simp add: f)
  qed
qed

lemma dicts_inv_same: "same_tasks ts ts' \<Longrightarrow> dicts_inv ts sch lanes \<Longrightarrow> dicts_inv ts' sch lanes"
  by (auto simp: dicts_inv_def same_tasks_def)

lemma stages_inv_same:
  assumes "same_tasks ts ts'" and "stages_inv ts st pend outs obs"
  shows "stages_inv ts' st pend outs obs"
proof -
  have l: "length ts' = length ts" and
    f: "\<And>i. i < length ts \<Longrightarrow> tk_call (ts' ! i) = tk_call (ts ! i)"
      "\<And>i. i < length ts \<Longrightarrow> tk_phase (ts' ! i) = tk_phase (ts ! i)"
    using assms(1) by (auto simp: same_tasks_def)
  show ?thesis using assms(2) unfolding stages_inv_def l by (simp add: f cong: conj_cong)
qed

lemma sched_inv_same:
  "sched_inv s \<Longrightarrow> same_tasks (or_tasks s) ts \<Longrightarrow> sched_inv (s\<lparr>or_tasks := ts\<rparr>)"
  by (auto simp: sched_inv_def intro: tasks_inv_same dicts_inv_same stages_inv_same)

subsection \<open>Changes of phase\<close>

lemma phase_update_nth [simp]:
  "tk_call (ts[i := (ts ! i)\<lparr>tk_phase := p\<rparr>] ! j) = tk_call (ts ! j)"
  "tk_lane (ts[i := (ts ! i)\<lparr>tk_phase := p\<rparr>] ! j) = tk_lane (ts ! j)"
  "tk_wait_for (ts[i := (ts ! i)\<lparr>tk_phase := p\<rparr>] ! j) = tk_wait_for (ts ! j)"
  "i < length ts \<Longrightarrow> tk_phase (ts[i := (ts ! i)\<lparr>tk_phase := p\<rparr>] ! j) = (if j = i then p else tk_phase (ts ! j))"
proof -
  show "tk_call (ts[i := (ts ! i)\<lparr>tk_phase := p\<rparr>] ! j) = tk_call (ts ! j)"
    by (cases "i < length ts"; cases "i = j") (simp_all add: list_update_beyond)
  show "tk_lane (ts[i := (ts ! i)\<lparr>tk_phase := p\<rparr>] ! j) = tk_lane (ts ! j)"
    by (cases "i < length ts"; cases "i = j") (simp_all add: list_update_beyond)
  show "tk_wait_for (ts[i := (ts ! i)\<lparr>tk_phase := p\<rparr>] ! j) = tk_wait_for (ts ! j)"
    by (cases "i < length ts"; cases "i = j") (simp_all add: list_update_beyond)
  show "i < length ts \<Longrightarrow> tk_phase (ts[i := (ts ! i)\<lparr>tk_phase := p\<rparr>] ! j) = (if j = i then p else tk_phase (ts ! j))"
    by (cases "i = j") simp_all
qed

text \<open>A task may leave its phase for running when its waits are over, and for done or waiting at any
  time; it may not come back from done.\<close>

lemma tasks_inv_phase:
  assumes "tasks_inv ts" and "i < length ts" and "tk_phase (ts ! i) \<noteq> PH_DONE"
    and "p = PH_RUNNING \<Longrightarrow> \<forall>d \<in> set (tk_wait_for (ts ! i)). tk_phase (ts ! d) = PH_DONE"
  shows "tasks_inv (ts[i := (ts ! i)\<lparr>tk_phase := p\<rparr>])"
proof -
  have t: "\<And>j d. j < length ts \<Longrightarrow> d \<in> set (tk_wait_for (ts ! j)) \<Longrightarrow> d < j"
    "\<And>k j. j < length ts \<Longrightarrow> k < j \<Longrightarrow> tk_phase (ts ! k) \<noteq> PH_DONE \<Longrightarrow> tk_phase (ts ! j) \<noteq> PH_DONE \<Longrightarrow>
       lanes_overlap (the (tk_lane (ts ! k))) (the (tk_lane (ts ! j))) \<Longrightarrow> k \<in> set (tk_wait_for (ts ! j))"
    "\<And>j d. j < length ts \<Longrightarrow> tk_phase (ts ! j) = PH_RUNNING \<Longrightarrow> d \<in> set (tk_wait_for (ts ! j)) \<Longrightarrow>
       tk_phase (ts ! d) = PH_DONE"
    "\<And>k j. j < length ts \<Longrightarrow> k < j \<Longrightarrow> rc_replay (tk_call (ts ! k)) \<noteq> rc_replay (tk_call (ts ! j))"
    using assms(1) by (simp_all add: tasks_inv_def)
  note ph = phase_update_nth(4) [OF assms(2), of p]
  show ?thesis
    unfolding tasks_inv_def length_list_update phase_update_nth(1-3) ph
  proof (intro conjI allI impI ballI)
    fix j d assume "j < length ts" "d \<in> set (tk_wait_for (ts ! j))"
    then show "d < j" by (rule t(1))
  next
    fix j k assume "j < length ts" "k < j" "(if k = i then p else tk_phase (ts ! k)) \<noteq> PH_DONE"
      "(if j = i then p else tk_phase (ts ! j)) \<noteq> PH_DONE"
      "lanes_overlap (the (tk_lane (ts ! k))) (the (tk_lane (ts ! j)))"
    then show "k \<in> set (tk_wait_for (ts ! j))" using t(2) assms(3) by (auto split: if_splits)
  next
    fix j d assume "j < length ts" "(if j = i then p else tk_phase (ts ! j)) = PH_RUNNING"
      "d \<in> set (tk_wait_for (ts ! j))"
    then have "tk_phase (ts ! d) = PH_DONE" using t(3) assms(4) by (auto split: if_splits)
    then show "(if d = i then p else tk_phase (ts ! d)) = PH_DONE" using assms(3) by auto
  next
    fix j k assume "j < length ts" "k < j"
    then show "rc_replay (tk_call (ts ! k)) \<noteq> rc_replay (tk_call (ts ! j))" by (rule t(4))
  qed
qed

lemma dicts_inv_phase:
  "dicts_inv ts sch lanes \<Longrightarrow> dicts_inv (ts[i := (ts ! i)\<lparr>tk_phase := p\<rparr>]) sch lanes"
  by (simp add: dicts_inv_def)

lemma dicts_inv_ids:
  assumes "dicts_inv ts sch lanes" and "i < length ts" and "j < length ts"
    and "rc_id (tk_call (ts ! i)) = rc_id (tk_call (ts ! j))"
  shows "i = j"
  using assms unfolding dicts_inv_def by (metis option.inject)

lemma stages_invD:
  assumes "stages_inv ts st pend outs obs"
  shows "i < length ts \<Longrightarrow> stage_ok (tk_phase (ts ! i)) (map_of st (rc_id (tk_call (ts ! i))))"
    and "i < length ts \<Longrightarrow> rc_replay (tk_call (ts ! i)) < obs"
    and "map_of pend cid = Some n \<Longrightarrow> map_of st cid = Some ST_RESOLVING"
    and "map_of pend cid = Some n \<Longrightarrow> n < obs"
    and "map_of pend cid = Some n \<Longrightarrow> i < length ts \<Longrightarrow> rc_replay (tk_call (ts ! i)) \<noteq> n"
    and "map_of outs n = Some out \<Longrightarrow> ou_replay out = n"
    and "map_of outs n = Some out \<Longrightarrow> map_of st (rc_id (ou_call out)) = Some ST_TERMINAL"
  using assms by (simp_all add: stages_inv_def)

text \<open>A change of phase together with the stage of the same call.\<close>

lemma stages_inv_phase:
  assumes "stages_inv ts st pend outs obs" and "i < length ts" and "dicts_inv ts sch lanes"
    and "stage_ok p (Some sg)" and "sg \<noteq> ST_TERMINAL"
    and "map_of st (rc_id (tk_call (ts ! i))) \<noteq> Some ST_TERMINAL"
  shows "stages_inv (ts[i := (ts ! i)\<lparr>tk_phase := p\<rparr>]) (AList.update (rc_id (tk_call (ts ! i))) sg st) pend outs obs"
proof -
  let ?id = "rc_id (tk_call (ts ! i))"
  note ph = phase_update_nth(4) [OF assms(2), of p]
  have same: "j < length ts \<Longrightarrow> rc_id (tk_call (ts ! j)) = ?id \<Longrightarrow> j = i" for j
    using dicts_inv_ids [OF assms(3)] assms(2) by blast
  have "stage_ok (tk_phase (ts ! i)) (map_of st ?id)" using assms(1,2) by (simp add: stages_inv_def)
  then have nr: "map_of st ?id \<noteq> Some ST_RESOLVING"
    by (auto simp: stage_ok_def split: phase.splits)
  have outs: "map_of outs n = Some out \<Longrightarrow> rc_id (ou_call out) \<noteq> ?id" for n out
    using stages_invD(7) [OF assms(1)] assms(6) by metis
  show ?thesis
    using assms(1,4,5) nr same outs unfolding stages_inv_def length_list_update phase_update_nth(1-3) ph map_of_update
    by (intro conjI) (auto simp: fun_upd_def)
qed

lemma stages_inv_phase_same:
  assumes "stages_inv ts st pend outs obs" and "i < length ts" and "dicts_inv ts sch lanes"
    and "map_of st (rc_id (tk_call (ts ! i))) = Some sg" and "stage_ok p (Some sg)" and "sg \<noteq> ST_TERMINAL"
  shows "stages_inv (ts[i := (ts ! i)\<lparr>tk_phase := p\<rparr>]) st pend outs obs"
proof -
  have "map_of (AList.update (rc_id (tk_call (ts ! i))) sg st) = map_of st"
    using assms(4) by (simp add: AList.update_conv' fun_upd_idem)
  with stages_inv_phase [OF assms(1-3,5,6)] assms(4,6) show ?thesis by (simp add: stages_inv_def)
qed

text \<open>The end of a task: its outcome, its terminal stage and its phase change together.\<close>

lemma stages_inv_end:
  assumes inv: "stages_inv ts st pend outs obs" and i: "i < length ts" and "dicts_inv ts sch lanes"
    and "tasks_inv ts" and out: "ou_call out = tk_call (ts ! i)" "ou_replay out = rc_replay (tk_call (ts ! i))"
    and nt: "map_of st (rc_id (tk_call (ts ! i))) \<noteq> Some ST_TERMINAL"
  shows "stages_inv (ts[i := (ts ! i)\<lparr>tk_phase := PH_DONE\<rparr>])
     (AList.update (rc_id (tk_call (ts ! i))) ST_TERMINAL st) pend
     (AList.update (rc_replay (tk_call (ts ! i))) out outs) obs"
proof -
  let ?id = "rc_id (tk_call (ts ! i))" and ?n = "rc_replay (tk_call (ts ! i))"
  note ph = phase_update_nth(4) [OF i, of PH_DONE]
  have same: "j < length ts \<Longrightarrow> rc_id (tk_call (ts ! j)) = ?id \<Longrightarrow> j = i" for j
    using dicts_inv_ids [OF assms(3)] i by blast
  have rep: "j < length ts \<Longrightarrow> j \<noteq> i \<Longrightarrow> rc_replay (tk_call (ts ! j)) \<noteq> ?n" for j
    using assms(4) i unfolding tasks_inv_def by (metis linorder_neqE_nat)
  have nr: "map_of st ?id \<noteq> Some ST_RESOLVING"
    using stages_invD(1) [OF inv i] by (auto simp: stage_ok_def split: phase.splits)
  have outs: "map_of outs n = Some ot \<Longrightarrow> rc_id (ou_call ot) \<noteq> ?id" for n ot
    using stages_invD(7) [OF inv] nt by metis
  have outs': "map_of outs n = Some ot \<Longrightarrow> ?id \<noteq> rc_id (ou_call ot)" for n ot
    using outs by metis
  have np: "map_of pend ?id = None"
    using stages_invD(3) [OF inv] nr by (cases "map_of pend ?id") auto
  show ?thesis
    using inv np same rep outs outs'
    unfolding stages_inv_def length_list_update phase_update_nth(1-3) ph map_of_update
    by (intro conjI) (auto simp: fun_upd_def out stage_ok_def)
qed

subsection \<open>Preservation by the steps\<close>

lemma stage_ok_cases: "stage_ok p st \<Longrightarrow> st \<in> {Some ST_QUEUED, Some ST_RUNNING, Some ST_TERMINAL}"
  by (simp add: stage_ok_def split: phase.splits)

lemma emit_lifecycle_iff:
  "emit_lifecycle e s = Inr s' \<longleftrightarrow>
     (\<exists>st. project_stage (map_of (or_stages s) (ev_id e)) (ev_kind e) = Inr st \<and>
       s' = s\<lparr>or_stages := AList.update (ev_id e) st (or_stages s), or_events := or_events s @ [e]\<rparr>)"
  by (auto simp: emit_lifecycle_def rbind_def split: sum.splits)

lemma project_stage_iff:
  "project_stage cur k = Inr st \<longleftrightarrow>
     (case k of
        Envelope_Observed \<Rightarrow> cur = None \<and> st = ST_OBSERVED
      | Resolution_Started \<Rightarrow> cur = Some ST_OBSERVED \<and> st = ST_RESOLVING
      | Resolution_Completed rs \<Rightarrow> cur = Some ST_RESOLVING \<and>
          st = (if rs = RS_EXECUTABLE then ST_QUEUED else ST_NON_EXECUTABLE)
      | Execution_Queued a b \<Rightarrow> cur = Some ST_QUEUED \<and> st = ST_QUEUED
      | Execution_Started a \<Rightarrow> cur = Some ST_QUEUED \<and> st = ST_RUNNING
      | Progress_Emitted \<Rightarrow> cur = Some ST_RUNNING \<and> st = ST_RUNNING
      | Outcome_Recorded a b \<Rightarrow> cur \<in> {Some ST_RUNNING, Some ST_QUEUED, Some ST_NON_EXECUTABLE} \<and> st = ST_TERMINAL
      | Replay_Committed a b \<Rightarrow> cur = Some ST_TERMINAL \<and> st = ST_REPLAYED)"
  by (cases k) (auto simp: require_transition_def ensure_def)

lemma sched_inv_observe_begin:
  assumes "sched_inv s" and "observe_begin cid s = Inr s'"
  shows "sched_inv s'"
proof -
  have new: "map_of (or_stages s) cid = None" and
    s': "or_tasks s' = or_tasks s" "or_scheduled s' = or_scheduled s" "or_lanes s' = or_lanes s"
      "or_outcomes s' = or_outcomes s" "or_observed s' = or_observed s + 1"
      "or_pending s' = AList.update cid (or_observed s) (or_pending s)"
      "map_of (or_stages s') = (map_of (or_stages s))(cid \<mapsto> ST_RESOLVING)"
    using assms(2) by (auto simp: observe_begin_def rbind_Inr_iff emit_lifecycle_iff project_stage_iff Let_def
        AList.update_conv' require_transition_def rbind_Inr_iff ensure_Inr_iff)
  have inv: "stages_inv (or_tasks s) (or_stages s) (or_pending s) (or_outcomes s) (or_observed s)"
    using assms(1) by (simp add: sched_inv_def)
  have ids: "i < length (or_tasks s) \<Longrightarrow> rc_id (tk_call (or_tasks s ! i)) \<noteq> cid" for i
    using stage_ok_cases [OF stages_invD(1) [OF inv]] new by fastforce
  have outs: "map_of (or_outcomes s) n = Some out \<Longrightarrow> rc_id (ou_call out) \<noteq> cid" for n out
    using stages_invD(7) [OF inv] new by fastforce
  have obs: "i < length (or_tasks s) \<Longrightarrow> rc_replay (tk_call (or_tasks s ! i)) \<noteq> or_observed s" for i
    using stages_invD(2) [OF inv] by fastforce
  have "stages_inv (or_tasks s) (or_stages s') (or_pending s') (or_outcomes s) (or_observed s + 1)"
    using inv ids outs obs unfolding stages_inv_def s' AList.update_conv'
    by (intro conjI) (auto simp: less_SucI)
  then show ?thesis using assms(1) by (simp add: sched_inv_def s')
qed

lemma sched_inv_enter:
  assumes "sched_inv s" and "i < length (or_tasks s)" and "tk_phase (or_tasks s ! i) = PH_CREATED"
    and "p \<in> {PH_WAITING, PH_DONE}"
  shows "sched_inv (set_phase i p s)"
proof -
  have inv: "stages_inv (or_tasks s) (or_stages s) (or_pending s) (or_outcomes s) (or_observed s)"
    "dicts_inv (or_tasks s) (or_scheduled s) (or_lanes s)" "tasks_inv (or_tasks s)"
    using assms(1) by (simp_all add: sched_inv_def)
  have "map_of (or_stages s) (rc_id (tk_call (or_tasks s ! i))) = Some ST_QUEUED"
    using stages_invD(1) [OF inv(1) assms(2)] assms(3) by (simp add: stage_ok_def)
  from stages_inv_phase_same [OF inv(1) assms(2) inv(2) this, of p] assms(4)
  have "stages_inv ((or_tasks s)[i := (or_tasks s ! i)\<lparr>tk_phase := p\<rparr>]) (or_stages s) (or_pending s)
      (or_outcomes s) (or_observed s)" by (auto simp: stage_ok_def)
  moreover have "tasks_inv ((or_tasks s)[i := (or_tasks s ! i)\<lparr>tk_phase := p\<rparr>])"
    using tasks_inv_phase [OF inv(3) assms(2), of p] assms(3,4) by auto
  ultimately show ?thesis
    using assms(1) dicts_inv_phase [OF inv(2)] by (simp add: sched_inv_def set_phase_def)
qed

lemma sched_inv_crash:
  assumes "sched_inv s" and "i < length (or_tasks s)" and "tk_phase (or_tasks s ! i) = PH_RUNNING"
  shows "sched_inv (set_phase i PH_DONE s)"
proof -
  have inv: "stages_inv (or_tasks s) (or_stages s) (or_pending s) (or_outcomes s) (or_observed s)"
    "dicts_inv (or_tasks s) (or_scheduled s) (or_lanes s)" "tasks_inv (or_tasks s)"
    using assms(1) by (simp_all add: sched_inv_def)
  have "map_of (or_stages s) (rc_id (tk_call (or_tasks s ! i))) = Some ST_RUNNING"
    using stages_invD(1) [OF inv(1) assms(2)] assms(3) by (simp add: stage_ok_def)
  from stages_inv_phase_same [OF inv(1) assms(2) inv(2) this, of PH_DONE]
  have "stages_inv ((or_tasks s)[i := (or_tasks s ! i)\<lparr>tk_phase := PH_DONE\<rparr>]) (or_stages s) (or_pending s)
      (or_outcomes s) (or_observed s)" by (auto simp: stage_ok_def)
  moreover have "tasks_inv ((or_tasks s)[i := (or_tasks s ! i)\<lparr>tk_phase := PH_DONE\<rparr>])"
    using tasks_inv_phase [OF inv(3) assms(2), of PH_DONE] assms(3) by auto
  ultimately show ?thesis
    using assms(1) dicts_inv_phase [OF inv(2)] by (simp add: sched_inv_def set_phase_def)
qed

text \<open>A task that waits for nothing unfinished starts.\<close>

lemma sched_inv_start:
  assumes "sched_inv s" and i: "i < length (or_tasks s)" and ph: "tk_phase (or_tasks s ! i) = PH_WAITING"
    and "waits_over i s" and "start_task i s = Inr s'"
  shows "sched_inv s'"
proof -
  have inv: "stages_inv (or_tasks s) (or_stages s) (or_pending s) (or_outcomes s) (or_observed s)"
    "dicts_inv (or_tasks s) (or_scheduled s) (or_lanes s)" "tasks_inv (or_tasks s)"
    using assms(1) by (simp_all add: sched_inv_def)
  let ?id = "rc_id (tk_call (or_tasks s ! i))"
  have s': "or_tasks s' = (or_tasks s)[i := (or_tasks s ! i)\<lparr>tk_phase := PH_RUNNING\<rparr>]"
    "or_scheduled s' = or_scheduled s" "or_lanes s' = or_lanes s" "or_pending s' = or_pending s"
    "or_outcomes s' = or_outcomes s" "or_observed s' = or_observed s"
    "or_stages s' = AList.update ?id ST_RUNNING (or_stages s)"
    using assms(5) by (auto simp: start_task_def emit_lifecycle_iff project_stage_iff set_phase_def Let_def
        require_transition_def rbind_Inr_iff ensure_Inr_iff)
  have "map_of (or_stages s) ?id = Some ST_QUEUED"
    using stages_invD(1) [OF inv(1) i] ph by (simp add: stage_ok_def)
  then have "stages_inv (or_tasks s') (or_stages s') (or_pending s') (or_outcomes s') (or_observed s')"
    using stages_inv_phase [OF inv(1) i inv(2), of PH_RUNNING ST_RUNNING] by (simp add: s' stage_ok_def)
  moreover have "tasks_inv (or_tasks s')"
    unfolding s'(1) using tasks_inv_phase [OF inv(3) i] ph assms(4)
    by (simp add: waits_over_def done_task_def list_all_iff)
  moreover have "dicts_inv (or_tasks s') (or_scheduled s') (or_lanes s')"
    using dicts_inv_phase [OF inv(2)] by (simp add: s')
  ultimately show ?thesis using assms(1) by (simp add: sched_inv_def s'(5))
qed

lemma same_tasks_phase:
  "same_tasks ts ts' \<Longrightarrow> same_tasks (ts[i := (ts ! i)\<lparr>tk_phase := p\<rparr>]) (ts'[i := (ts' ! i)\<lparr>tk_phase := p\<rparr>])"
  by (cases "i < length ts") (auto simp: same_tasks_def nth_list_update list_update_beyond)

lemma cascade_simps [simp]:
  "or_scheduled (cascade_failure out s) = or_scheduled s"
  "or_lanes (cascade_failure out s) = or_lanes s"
  "or_outcomes (cascade_failure out s) = or_outcomes s"
  "or_stages (cascade_failure out s) = or_stages s"
  "or_pending (cascade_failure out s) = or_pending s"
  "or_observed (cascade_failure out s) = or_observed s"
  by (simp_all add: cascade_failure_def Let_def split: option.splits)

lemma cascade_same_tasks: "same_tasks (or_tasks s) (or_tasks (cascade_failure out s))"
proof -
  have "same_tasks ts (foldl (\<lambda>ts (cid, i).
                 if cid = rc_id (ou_call out) \<or> tk_phase (ts ! i) = PH_DONE then ts
                 else if should_cancel p (cid \<in> set st) then cancel_task i ts
                 else ts) ts xs)" for p st xs ts
    by (rule same_tasks_foldl) (auto simp: same_tasks_cancel split: prod.splits)
  then show ?thesis
    by (simp add: cascade_failure_def Let_def split: option.splits)
qed

lemma sched_inv_interrupt: "sched_inv s \<Longrightarrow> sched_inv (interrupt reason s)"
proof -
  assume "sched_inv s"
  moreover have "same_tasks (or_tasks s) (foldl (\<lambda>ts (cid, i). if tk_phase (ts ! i) = PH_DONE then ts
      else cancel_task i ts) (or_tasks s) (or_scheduled s))"
    by (rule same_tasks_foldl) (auto simp: same_tasks_cancel split: prod.splits)
  ultimately have "sched_inv (s\<lparr>or_tasks := foldl (\<lambda>ts (cid, i). if tk_phase (ts ! i) = PH_DONE then ts
      else cancel_task i ts) (or_tasks s) (or_scheduled s)\<rparr>)" by (rule sched_inv_same)
  then show ?thesis by (simp add: interrupt_def sched_inv_def)
qed

text \<open>The end of a task whose outcome is recorded.\<close>

lemma end_task_fields:
  assumes "end_task i os = Inr s'" and "os = (out, s)"
  shows "or_scheduled s' = or_scheduled s" and "or_lanes s' = or_lanes s" and "or_pending s' = or_pending s"
    and "or_observed s' = or_observed s"
    and "or_outcomes s' = AList.update (ou_replay out) out (or_outcomes s)"
    and "or_stages s' = AList.update (rc_id (ou_call out)) ST_TERMINAL (or_stages s)"
    and "same_tasks ((or_tasks s)[i := (or_tasks s ! i)\<lparr>tk_phase := PH_DONE\<rparr>]) (or_tasks s')"
    and "map_of (or_stages s) (rc_id (ou_call out)) \<in> {Some ST_RUNNING, Some ST_QUEUED, Some ST_NON_EXECUTABLE}"
proof -
  let ?ev = "\<lparr>ev_id = rc_id (ou_call out), ev_replay = ou_replay out,
      ev_kind = Outcome_Recorded (ou_completion out) (ou_status out)\<rparr>"
  let ?s1 = "s\<lparr>or_outcomes := AList.update (ou_replay out) out (or_outcomes s),
      or_stages := AList.update (rc_id (ou_call out)) ST_TERMINAL (or_stages s),
      or_events := or_events s @ [?ev], or_started := removeAll (rc_id (ou_call out)) (or_started s)\<rparr>"
  have s': "s' = set_phase i PH_DONE (cascade_failure out ?s1)" and
    "map_of (or_stages s) (rc_id (ou_call out)) \<in> {Some ST_RUNNING, Some ST_QUEUED, Some ST_NON_EXECUTABLE}"
    using assms by (auto simp: end_task_def record_outcome_def rbind_Inr_iff emit_lifecycle_iff project_stage_iff
        simp del: project_stage.simps)
  then show "map_of (or_stages s) (rc_id (ou_call out)) \<in> {Some ST_RUNNING, Some ST_QUEUED, Some ST_NON_EXECUTABLE}"
    by simp
  show "or_scheduled s' = or_scheduled s" "or_lanes s' = or_lanes s" "or_pending s' = or_pending s"
    "or_observed s' = or_observed s" "or_outcomes s' = AList.update (ou_replay out) out (or_outcomes s)"
    "or_stages s' = AList.update (rc_id (ou_call out)) ST_TERMINAL (or_stages s)"
    by (simp_all add: s' set_phase_def)
  show "same_tasks ((or_tasks s)[i := (or_tasks s ! i)\<lparr>tk_phase := PH_DONE\<rparr>]) (or_tasks s')"
    using same_tasks_phase [OF cascade_same_tasks [of ?s1 out], of i PH_DONE] by (simp add: s' set_phase_def)
qed

lemma sched_inv_end:
  assumes "sched_inv s" and i: "i < length (or_tasks s)" and ph: "tk_phase (or_tasks s ! i) \<in> {PH_WAITING, PH_RUNNING}"
    and e: "end_task i (out, s1) = Inr s'" and s1: "s1 = s\<lparr>or_completion := n\<rparr>"
    and out: "ou_call out = tk_call (or_tasks s ! i)" "ou_replay out = rc_replay (tk_call (or_tasks s ! i))"
  shows "sched_inv s'"
proof -
  have inv: "stages_inv (or_tasks s) (or_stages s) (or_pending s) (or_outcomes s) (or_observed s)"
    "dicts_inv (or_tasks s) (or_scheduled s) (or_lanes s)" "tasks_inv (or_tasks s)"
    using assms(1) by (simp_all add: sched_inv_def)
  note f = end_task_fields [OF e refl, unfolded s1, simplified]
  let ?ts = "(or_tasks s)[i := (or_tasks s ! i)\<lparr>tk_phase := PH_DONE\<rparr>]"
  have nt: "map_of (or_stages s) (rc_id (tk_call (or_tasks s ! i))) \<noteq> Some ST_TERMINAL"
    using stages_invD(1) [OF inv(1) i] ph by (auto simp: stage_ok_def)
  have "stages_inv ?ts (or_stages s') (or_pending s') (or_outcomes s') (or_observed s')"
    using stages_inv_end [OF inv(1) i inv(2,3) out nt] by (simp add: f(1-6) out)
  moreover have "tasks_inv ?ts" using tasks_inv_phase [OF inv(3) i, of PH_DONE] ph by auto
  moreover have "dicts_inv ?ts (or_scheduled s') (or_lanes s')"
    using dicts_inv_phase [OF inv(2)] by (simp add: f(1-6))
  moreover have "distinct (map fst (or_outcomes s'))"
    using assms(1) by (simp add: f(1-6) sched_inv_def distinct_update)
  ultimately show ?thesis
    using f(7) unfolding sched_inv_def by (blast intro: tasks_inv_same dicts_inv_same stages_inv_same)
qed

lemma sched_inv_finish:
  assumes "sched_inv s" and "i < length (or_tasks s)" and "tk_phase (or_tasks s ! i) = PH_RUNNING"
    and "finish_task ck i r us s = Inr s'"
  shows "sched_inv s'"
proof (cases "build_outcome ck (tk_call (or_tasks s ! i)) r us s")
  case None
  then show ?thesis using assms(4) sched_inv_crash [OF assms(1-3)] by (auto simp: finish_task_def)
next
  case (Some os)
  then obtain out where os: "os = (out, s\<lparr>or_completion := or_completion s + 1\<rparr>)"
    and "ou_call out = tk_call (or_tasks s ! i)" "ou_replay out = rc_replay (tk_call (or_tasks s ! i))"
    by (auto simp: build_outcome_def split: option.splits)
  with sched_inv_end [OF assms(1,2) _ _ refl] assms(3,4) Some show ?thesis by (simp add: finish_task_def)
qed

lemma sched_inv_give_up:
  assumes "sched_inv s" and "i < length (or_tasks s)" and "tk_phase (or_tasks s ! i) \<in> {PH_WAITING, PH_RUNNING}"
    and "give_up_task i s = Inr s'"
  shows "sched_inv s'"
  using assms(3,4) sched_inv_end [OF assms(1,2) _ _ refl]
  by (simp add: give_up_task_def cancelled_outcome_def)

subsection \<open>The end of an observation\<close>

lemma stages_inv_settled:
  assumes inv: "stages_inv ts st pend outs obs" and "map_of pend (rc_id c) = Some (rc_replay c)"
    and "ou_call out = c" and "ou_replay out = rc_replay c"
  shows "stages_inv ts (AList.update (rc_id c) ST_TERMINAL st) (AList.delete (rc_id c) pend)
     (AList.update (rc_replay c) out outs) obs"
proof -
  have r: "map_of st (rc_id c) = Some ST_RESOLVING" using stages_invD(3) [OF inv assms(2)] .
  have ids: "i < length ts \<Longrightarrow> rc_id (tk_call (ts ! i)) \<noteq> rc_id c" for i
    using stage_ok_cases [OF stages_invD(1) [OF inv]] r by fastforce
  have os: "map_of outs n = Some ot \<Longrightarrow> rc_id (ou_call ot) \<noteq> rc_id c \<and> rc_id c \<noteq> rc_id (ou_call ot)" for n ot
    using stages_invD(7) [OF inv] r by fastforce
  have reps: "i < length ts \<Longrightarrow> rc_replay (tk_call (ts ! i)) \<noteq> rc_replay c" for i
    using stages_invD(5) [OF inv assms(2)] .
  show ?thesis
    using inv assms(2-4) ids os reps unfolding stages_inv_def map_of_update AList.delete_conv'
    by (intro conjI) (auto simp: fun_upd_def)
qed

lemma derive_lane_executable: "rc_status c = RS_EXECUTABLE \<Longrightarrow> derive_lane ck c \<noteq> None"
  by (simp add: derive_lane_def Let_def split: option.splits)

lemma set_dependencies:
  "set (dependencies_for_lane (Some l) s) =
     {i. \<exists>cid. (cid, i) \<in> set (or_scheduled s) \<and> tk_phase (or_tasks s ! i) \<noteq> PH_DONE \<and>
        (\<exists>prior. map_of (or_lanes s) cid = Some prior \<and> lanes_overlap prior l)}"
  by (force simp: dependencies_for_lane_def done_task_def split: option.splits)

lemma dependencies_inv:
  assumes "dicts_inv (or_tasks s) (or_scheduled s) (or_lanes s)"
  shows "set (dependencies_for_lane (Some l) s) =
     {i. i < length (or_tasks s) \<and> tk_phase (or_tasks s ! i) \<noteq> PH_DONE \<and>
        lanes_overlap (the (tk_lane (or_tasks s ! i))) l}"
proof -
  have d: "distinct (map fst (or_scheduled s))" and
    m: "\<And>cid i. map_of (or_scheduled s) cid = Some i \<longleftrightarrow> i < length (or_tasks s) \<and> rc_id (tk_call (or_tasks s ! i)) = cid" and
    l: "\<And>i. i < length (or_tasks s) \<Longrightarrow>
      map_of (or_lanes s) (rc_id (tk_call (or_tasks s ! i))) = tk_lane (or_tasks s ! i) \<and> tk_lane (or_tasks s ! i) \<noteq> None"
    using assms unfolding dicts_inv_def by (blast, blast, force)
  have "(cid, i) \<in> set (or_scheduled s) \<longleftrightarrow> i < length (or_tasks s) \<and> rc_id (tk_call (or_tasks s ! i)) = cid" for cid i
    using m [of cid i] map_of_eq_Some_iff [OF d, of cid i] by simp
  then show ?thesis unfolding set_dependencies using l by force
qed

text \<open>A new task waits for the unfinished tasks whose lanes overlap its own.\<close>

lemma tasks_inv_new:
  assumes "tasks_inv ts" and "tk_phase t = PH_CREATED"
    and w: "set (tk_wait_for t) =
      {i. i < length ts \<and> tk_phase (ts ! i) \<noteq> PH_DONE \<and> lanes_overlap (the (tk_lane (ts ! i))) (the (tk_lane t))}"
    and r: "\<And>i. i < length ts \<Longrightarrow> rc_replay (tk_call (ts ! i)) \<noteq> rc_replay (tk_call t)"
  shows "tasks_inv (ts @ [t])"
proof -
  have t: "\<And>j d. j < length ts \<Longrightarrow> d \<in> set (tk_wait_for (ts ! j)) \<Longrightarrow> d < j"
    "\<And>i j. j < length ts \<Longrightarrow> i < j \<Longrightarrow> tk_phase (ts ! i) \<noteq> PH_DONE \<Longrightarrow> tk_phase (ts ! j) \<noteq> PH_DONE \<Longrightarrow>
       lanes_overlap (the (tk_lane (ts ! i))) (the (tk_lane (ts ! j))) \<Longrightarrow> i \<in> set (tk_wait_for (ts ! j))"
    "\<And>j d. j < length ts \<Longrightarrow> tk_phase (ts ! j) = PH_RUNNING \<Longrightarrow> d \<in> set (tk_wait_for (ts ! j)) \<Longrightarrow>
       tk_phase (ts ! d) = PH_DONE"
    "\<And>i j. j < length ts \<Longrightarrow> i < j \<Longrightarrow> rc_replay (tk_call (ts ! i)) \<noteq> rc_replay (tk_call (ts ! j))"
    using assms(1) by (simp_all add: tasks_inv_def)
  show ?thesis
    unfolding tasks_inv_def
  proof (intro conjI allI impI ballI)
    fix j d assume "j < length (ts @ [t])" "d \<in> set (tk_wait_for ((ts @ [t]) ! j))"
    then show "d < j" using t(1) w by (auto simp: nth_append less_Suc_eq)
  next
    fix j i assume "j < length (ts @ [t])" "i < j" "tk_phase ((ts @ [t]) ! i) \<noteq> PH_DONE"
      "tk_phase ((ts @ [t]) ! j) \<noteq> PH_DONE"
      "lanes_overlap (the (tk_lane ((ts @ [t]) ! i))) (the (tk_lane ((ts @ [t]) ! j)))"
    then show "i \<in> set (tk_wait_for ((ts @ [t]) ! j))"
      using t(2) w by (auto simp: nth_append less_Suc_eq)
  next
    fix j d assume j: "j < length (ts @ [t])" "tk_phase ((ts @ [t]) ! j) = PH_RUNNING"
      "d \<in> set (tk_wait_for ((ts @ [t]) ! j))"
    then have jl: "j < length ts" using assms(2) by (auto simp: nth_append less_Suc_eq)
    then have "d < j" "tk_phase (ts ! d) = PH_DONE" using j t(1,3) by (auto simp: nth_append)
    then show "tk_phase ((ts @ [t]) ! d) = PH_DONE" using jl by (simp add: nth_append)
  next
    fix j i assume "j < length (ts @ [t])" "i < j"
    then show "rc_replay (tk_call ((ts @ [t]) ! i)) \<noteq> rc_replay (tk_call ((ts @ [t]) ! j))"
      using t(4) r by (auto simp: nth_append less_Suc_eq)
  qed
qed

lemma dicts_inv_new:
  assumes "dicts_inv ts sch lanes" and "tk_lane t = Some l"
    and new: "\<And>i. i < length ts \<Longrightarrow> rc_id (tk_call (ts ! i)) \<noteq> rc_id (tk_call t)"
  shows "dicts_inv (ts @ [t]) (AList.update (rc_id (tk_call t)) (length ts) sch)
     (AList.update (rc_id (tk_call t)) l lanes)"
proof -
  have m: "map_of sch cid = Some i \<longleftrightarrow> i < length ts \<and> rc_id (tk_call (ts ! i)) = cid" for cid i
    using assms(1) by (simp add: dicts_inv_def)
  have "map_of (AList.update (rc_id (tk_call t)) (length ts) sch) cid = Some i \<longleftrightarrow>
      i < length (ts @ [t]) \<and> rc_id (tk_call ((ts @ [t]) ! i)) = cid" for cid i
    unfolding map_of_update using m new by (auto simp: nth_append less_Suc_eq)
  moreover have "\<exists>k. tk_lane ((ts @ [t]) ! i) = Some k \<and>
      map_of (AList.update (rc_id (tk_call t)) l lanes) (rc_id (tk_call ((ts @ [t]) ! i))) = Some k"
    if "i < length (ts @ [t])" for i
    using that assms new by (auto simp: nth_append less_Suc_eq map_of_update dicts_inv_def)
  ultimately show ?thesis using assms(1) unfolding dicts_inv_def by (simp add: distinct_update)
qed

lemma stages_inv_new:
  assumes inv: "stages_inv ts st pend outs obs" and p: "map_of pend (rc_id c) = Some (rc_replay c)"
    and t: "tk_call t = c" "tk_phase t = PH_CREATED"
  shows "stages_inv (ts @ [t]) (AList.update (rc_id c) ST_QUEUED st) (AList.delete (rc_id c) pend) outs obs"
proof -
  have r: "map_of st (rc_id c) = Some ST_RESOLVING" using stages_invD(3) [OF inv p] .
  have ids: "i < length ts \<Longrightarrow> rc_id (tk_call (ts ! i)) \<noteq> rc_id c" for i
    using stage_ok_cases [OF stages_invD(1) [OF inv]] r by fastforce
  have os: "map_of outs n = Some ot \<Longrightarrow> rc_id (ou_call ot) \<noteq> rc_id c" for n ot
    using stages_invD(7) [OF inv] r by fastforce
  have obs: "rc_replay c < obs" using stages_invD(4) [OF inv p] .
  have "stage_ok (tk_phase ((ts @ [t]) ! i))
      (map_of (AList.update (rc_id c) ST_QUEUED st) (rc_id (tk_call ((ts @ [t]) ! i)))) \<and>
    rc_replay (tk_call ((ts @ [t]) ! i)) < obs \<and>
    (map_of (AList.update (rc_id c) ST_QUEUED st) (rc_id (tk_call ((ts @ [t]) ! i))) = Some ST_TERMINAL \<longrightarrow>
       (\<exists>out. map_of outs (rc_replay (tk_call ((ts @ [t]) ! i))) = Some out \<and> ou_call out = tk_call ((ts @ [t]) ! i)))"
    if "i < length (ts @ [t])" for i
    using that inv ids t obs
    by (cases "i < length ts") (auto simp: nth_append stages_inv_def map_of_update less_Suc_eq, simp add: stage_ok_def)
  moreover have "map_of (AList.delete (rc_id c) pend) cid = Some n \<Longrightarrow> i < length (ts @ [t]) \<Longrightarrow>
      rc_replay (tk_call ((ts @ [t]) ! i)) \<noteq> n" for cid n i
    using inv p t unfolding stages_inv_def AList.delete_conv'
    by (auto simp: nth_append less_Suc_eq split: if_splits)
  ultimately show ?thesis
    using inv os unfolding stages_inv_def map_of_update AList.delete_conv' 
    by (intro conjI) (auto simp: fun_upd_def split: if_splits)
qed

lemma synthetic_outcome_fields:
  obtains out where "synthetic_outcome c s = (out, s\<lparr>or_completion := or_completion s + 1\<rparr>)"
    and "ou_call out = c" and "ou_replay out = rc_replay c"
  by (rule that [of "fst (synthetic_outcome c s)"]) (simp_all add: synthetic_outcome_def Let_def case_prod_beta)

lemma dependencies_cong:
  "or_tasks s' = or_tasks s \<Longrightarrow> or_scheduled s' = or_scheduled s \<Longrightarrow> or_lanes s' = or_lanes s \<Longrightarrow>
   dependencies_for_lane l s' = dependencies_for_lane l s"
  by (cases l) (simp_all add: dependencies_for_lane_def done_task_def)

lemma sched_inv_resolve:
  assumes "sched_inv s" and p: "map_of (or_pending s) (rc_id c0) = Some (rc_replay c0)"
    and e: "observe_end ck c0 s = Inr s'"
  shows "sched_inv s'"
proof -
  define l where "l = derive_lane ck c0"
  define c where "c = c0\<lparr>rc_lane := l\<rparr>"
  have [simp]: "rc_id c = rc_id c0" "rc_replay c = rc_replay c0" by (simp_all add: c_def)
  have inv: "stages_inv (or_tasks s) (or_stages s) (or_pending s) (or_outcomes s) (or_observed s)"
    "dicts_inv (or_tasks s) (or_scheduled s) (or_lanes s)" "tasks_inv (or_tasks s)"
    using assms(1) by (simp_all add: sched_inv_def)
  show ?thesis
  proof (cases "rc_status c0 = RS_EXECUTABLE")
    case False
    define sa where "sa = s\<lparr>or_pending := AList.delete (rc_id c0) (or_pending s),
      or_stages := AList.update (rc_id c0) ST_NON_EXECUTABLE (or_stages s),
      or_events := or_events s @ [\<lparr>ev_id = rc_id c0, ev_replay = rc_replay c0,
        ev_kind = Resolution_Completed (rc_status c0)\<rparr>]\<rparr>"
    obtain out where out: "synthetic_outcome c sa = (out, sa\<lparr>or_completion := or_completion sa + 1\<rparr>)"
      "ou_call out = c" "ou_replay out = rc_replay c" by (rule synthetic_outcome_fields)
    have "record_outcome out (sa\<lparr>or_completion := or_completion sa + 1\<rparr>) = Inr s'"
      using e False by (auto simp: observe_end_def rbind_Inr_iff emit_lifecycle_iff project_stage_iff Let_def
          l_def [symmetric] c_def [symmetric] out sa_def [symmetric] simp del: project_stage.simps)
    then have s': "or_tasks s' = or_tasks s" "or_scheduled s' = or_scheduled s" "or_lanes s' = or_lanes s"
      "or_observed s' = or_observed s" "or_pending s' = AList.delete (rc_id c0) (or_pending s)"
      "or_stages s' = AList.update (rc_id c0) ST_TERMINAL (or_stages s)"
      "or_outcomes s' = AList.update (rc_replay c0) out (or_outcomes s)"
      by (auto simp: record_outcome_def emit_lifecycle_iff project_stage_iff out sa_def
          simp del: project_stage.simps)
    show ?thesis
      using stages_inv_settled [OF inv(1) _ out(2,3)] p assms(1)
      by (simp add: sched_inv_def s' distinct_update)
  next
    case True
    then obtain k where k: "l = Some k" using derive_lane_executable l_def by blast
    define sb where "sb = s\<lparr>or_pending := AList.delete (rc_id c0) (or_pending s),
      or_stages := AList.update (rc_id c0) ST_QUEUED (or_stages s),
      or_events := or_events s @ [\<lparr>ev_id = rc_id c0, ev_replay = rc_replay c0,
        ev_kind = Resolution_Completed (rc_status c0)\<rparr>, \<lparr>ev_id = rc_id c0, ev_replay = rc_replay c0,
        ev_kind = Execution_Queued (la_kind k) (la_key k)\<rparr>]\<rparr>"
    define t where "t = \<lparr>tk_call = c, tk_lane = l, tk_wait_for = dependencies_for_lane l sb,
      tk_phase = PH_CREATED, tk_cancelled = False\<rparr>"
    have dep: "dependencies_for_lane (Some k) sb = dependencies_for_lane (Some k) s"
      by (rule dependencies_cong) (simp_all add: sb_def)
    have "s' = sb\<lparr>or_tasks := or_tasks sb @ [t],
      or_scheduled := AList.update (rc_id c0) (length (or_tasks sb)) (or_scheduled sb),
      or_lanes := AList.update (rc_id c0) k (or_lanes sb)\<rparr>"
      using e by (auto simp: observe_end_def rbind_Inr_iff emit_lifecycle_iff project_stage_iff Let_def True
          l_def [symmetric] c_def k t_def sb_def simp del: project_stage.simps)
    then have s': "or_tasks s' = or_tasks s @ [t]" "or_scheduled s' = AList.update (rc_id c0) (length (or_tasks s)) (or_scheduled s)"
      "or_lanes s' = AList.update (rc_id c0) k (or_lanes s)"
      "or_observed s' = or_observed s" "or_pending s' = AList.delete (rc_id c0) (or_pending s)"
      "or_stages s' = AList.update (rc_id c0) ST_QUEUED (or_stages s)" "or_outcomes s' = or_outcomes s"
      by (simp_all add: sb_def)
    have tf: "tk_call t = c" "tk_phase t = PH_CREATED" "tk_lane t = Some k" by (simp_all add: t_def k)
    have r: "map_of (or_stages s) (rc_id c0) = Some ST_RESOLVING" using stages_invD(3) [OF inv(1) p] .
    have ids: "i < length (or_tasks s) \<Longrightarrow> rc_id (tk_call (or_tasks s ! i)) \<noteq> rc_id c0" for i
      using stage_ok_cases [OF stages_invD(1) [OF inv(1)]] r by fastforce
    have "tasks_inv (or_tasks s @ [t])"
      using inv(3) tf(2) dependencies_inv [OF inv(2), of k] stages_invD(5) [OF inv(1) p]
      by (intro tasks_inv_new) (simp_all add: t_def k dep)
    moreover have "dicts_inv (or_tasks s @ [t]) (or_scheduled s') (or_lanes s')"
      using dicts_inv_new [OF inv(2) tf(3)] ids by (simp add: s' tf(1))
    moreover have "stages_inv (or_tasks s @ [t]) (or_stages s') (or_pending s') (or_outcomes s') (or_observed s')"
      using stages_inv_new [OF inv(1) _ tf(1,2)] p by (simp add: s')
    ultimately show ?thesis using assms(1) by (simp add: sched_inv_def s')
  qed
qed

lemma sched_inv_step: "sched_step ck s s' \<Longrightarrow> sched_inv s \<Longrightarrow> sched_inv s'"
proof (induction rule: sched_step.induct)
  case (obs cid s s')
  then show ?case using sched_inv_observe_begin by blast
next
  case (resolve s c s')
  then show ?case using sched_inv_resolve by blast
next
  case (enter i s)
  then show ?case using sched_inv_enter [of s i] by (auto simp: enter_task_def)
next
  case (start i s s')
  then show ?case using sched_inv_start by blast
next
  case (give_up i s s')
  then show ?case using sched_inv_give_up by blast
next
  case (abandon i s s')
  then show ?case using sched_inv_give_up by blast
next
  case (finish i s r us s')
  then show ?case using sched_inv_finish by blast
next
  case (interrupt s reason)
  then show ?case by (rule sched_inv_interrupt)
qed

lemma sched_inv_reachable: "sched_reachable ck s \<Longrightarrow> sched_inv s"
  by (induction rule: sched_reachable.induct) (simp_all add: sched_inv_init sched_inv_step)

end
