(* ===== verification/Tool_Scheduler_Props.thy ===== *)
theory Tool_Scheduler_Props
  imports Tool_Scheduler_Inv
begin

text \<open>
  What the tool orchestrator promises: calls that may interfere never run at the same time, every
  scheduled call can finish, the outcomes are replayed in the order of the stream; and what its
  cancellation does.
\<close>

subsection \<open>The tasks of a state\<close>

definition call_lane :: "sched_task \<Rightarrow> resolved_call \<times> lane option" where
  "call_lane t = (tk_call t, tk_lane t)"

lemma same_tasks_call_lane: "same_tasks ts ts' \<Longrightarrow> map call_lane ts' = map call_lane ts"
  by (simp add: same_tasks_def list_eq_iff_nth_eq call_lane_def)

lemma phase_call_lane: "map call_lane (ts[i := (ts ! i)\<lparr>tk_phase := p\<rparr>]) = map call_lane ts"
  by (simp add: list_eq_iff_nth_eq call_lane_def)

lemma end_task_call_lane:
  assumes "end_task i (out, s1) = Inr s'" and "or_tasks s1 = or_tasks s"
  shows "map call_lane (or_tasks s') = map call_lane (or_tasks s)"
  using same_tasks_call_lane [OF end_task_fields(7) [OF assms(1) refl]] assms(2)
  by (simp add: phase_call_lane del: map_update)

lemma give_up_call_lane:
  "give_up_task i s = Inr s' \<Longrightarrow> map call_lane (or_tasks s') = map call_lane (or_tasks s)"
  unfolding give_up_task_def cancelled_outcome_def by (erule end_task_call_lane) simp

lemma step_call_lane:
  "sched_step ck s s' \<Longrightarrow> map call_lane (or_tasks s') = map call_lane (or_tasks s) \<or>
     (\<exists>t. or_tasks s' = or_tasks s @ [t] \<and> tk_lane t = derive_lane ck (tk_call t) \<and>
        rc_status (tk_call t) = RS_EXECUTABLE)"
proof (induction rule: sched_step.induct)
  case (obs cid s s')
  then show ?case
    by (auto simp: observe_begin_def rbind_Inr_iff emit_lifecycle_iff Let_def)
next
  case (resolve s c s')
  show ?case
  proof (cases "rc_status c = RS_EXECUTABLE")
    case True
    have "derive_lane ck (c\<lparr>rc_lane := l\<rparr>) = derive_lane ck c" for l
      by (simp add: derive_lane_def)
    then show ?thesis using resolve True
      by (auto simp: observe_end_def rbind_Inr_iff emit_lifecycle_iff Let_def simp del: project_stage.simps)
  next
    case False
    then show ?thesis using resolve
      by (auto simp: observe_end_def rbind_Inr_iff emit_lifecycle_iff Let_def record_outcome_def
          synthetic_outcome_def simp del: project_stage.simps split: prod.splits)
  qed
next
  case (enter i s)
  then show ?case by (simp add: enter_task_def set_phase_def phase_call_lane del: map_update)
next
  case (start i s s')
  then show ?case
    by (auto simp: start_task_def emit_lifecycle_iff set_phase_def Let_def phase_call_lane
        simp del: map_update project_stage.simps)
next
  case (give_up i s s')
  then show ?case using give_up_call_lane by blast
next
  case (finish i s r us s')
  then show ?case using end_task_call_lane
    by (fastforce simp: finish_task_def build_outcome_def set_phase_def phase_call_lane
        simp del: map_update split: option.splits)
next
  case (abandon i s s')
  then show ?case using give_up_call_lane by blast
next
  case (interrupt s reason)
  have "same_tasks (or_tasks s) (or_tasks (interrupt reason s))"
    by (simp add: interrupt_def, rule same_tasks_foldl) (auto simp: same_tasks_cancel split: prod.splits)
  then show ?case by (simp add: same_tasks_call_lane)
qed

lemma reachable_lanes:
  "sched_reachable ck s \<Longrightarrow>
   \<forall>(c, l) \<in> set (map call_lane (or_tasks s)). l = derive_lane ck c \<and> rc_status c = RS_EXECUTABLE"
proof (induction rule: sched_reachable.induct)
  case init
  then show ?case by (simp add: new_orchestrator_def)
next
  case (step s s')
  from step_call_lane [OF step.hyps(2)] show ?case
  proof
    assume "map call_lane (or_tasks s') = map call_lane (or_tasks s)"
    then show ?thesis using step.IH by (simp only:)
  next
    assume "\<exists>t. or_tasks s' = or_tasks s @ [t] \<and> tk_lane t = derive_lane ck (tk_call t) \<and>
      rc_status (tk_call t) = RS_EXECUTABLE"
    then show ?thesis using step.IH by (auto simp: call_lane_def)
  qed
qed

lemma reachable_lane:
  assumes "sched_reachable ck s" and "i < length (or_tasks s)"
  shows "tk_lane (or_tasks s ! i) = derive_lane ck (tk_call (or_tasks s ! i))"
    and "rc_status (tk_call (or_tasks s ! i)) = RS_EXECUTABLE"
  using reachable_lanes [OF assms(1)] nth_mem [OF assms(2)] by (auto simp: call_lane_def)

lemma running_no_overlap:
  assumes "sched_inv s" and "i < j" and "j < length (or_tasks s)"
    and "tk_phase (or_tasks s ! i) = PH_RUNNING" and "tk_phase (or_tasks s ! j) = PH_RUNNING"
  shows "\<not> lanes_overlap (the (tk_lane (or_tasks s ! i))) (the (tk_lane (or_tasks s ! j)))"
proof
  have w: "\<And>j i. j < length (or_tasks s) \<Longrightarrow> i < j \<Longrightarrow> tk_phase (or_tasks s ! i) \<noteq> PH_DONE \<Longrightarrow>
      tk_phase (or_tasks s ! j) \<noteq> PH_DONE \<Longrightarrow>
      lanes_overlap (the (tk_lane (or_tasks s ! i))) (the (tk_lane (or_tasks s ! j))) \<Longrightarrow>
      i \<in> set (tk_wait_for (or_tasks s ! j))"
    "\<And>j d. j < length (or_tasks s) \<Longrightarrow> tk_phase (or_tasks s ! j) = PH_RUNNING \<Longrightarrow>
      d \<in> set (tk_wait_for (or_tasks s ! j)) \<Longrightarrow> tk_phase (or_tasks s ! d) = PH_DONE"
    using assms(1) by (simp_all add: sched_inv_def tasks_inv_def)
  assume "lanes_overlap (the (tk_lane (or_tasks s ! i))) (the (tk_lane (or_tasks s ! j)))"
  then have "i \<in> set (tk_wait_for (or_tasks s ! j))"
    using w(1) [OF assms(3,2)] assms(4,5) by simp
  then have "tk_phase (or_tasks s ! i) = PH_DONE"
    by (rule w(2) [OF assms(3,5)])
  then show False using assms(4) by simp
qed

definition call_paths :: "resolved_call \<Rightarrow> string list" where
  "call_paths c = (case rc_semantics c of None \<Rightarrow> []
     | Some sm \<Rightarrow> (case sm_target_paths sm of None \<Rightarrow> [] | Some ps \<Rightarrow> ps))"

definition call_concurrency_safe :: "resolved_call \<Rightarrow> bool" where
  "call_concurrency_safe c = (case rc_semantics c of None \<Rightarrow> False | Some sm \<Rightarrow> sm_concurrency_safe sm)"

lemma disjoint_lanes:
  assumes "derive_lane ck c = Some l" and "derive_lane ck c' = Some l'" and "\<not> lanes_overlap l l'"
  shows "call_concurrency_safe c \<and> call_concurrency_safe c' \<and>
     (\<forall>p \<in> set (call_paths c). \<forall>q \<in> set (call_paths c'). ck p \<noteq> ck q)"
proof -
  have lane: "call_concurrency_safe x \<and> la_domains k = map ck (call_paths x) \<and>
      (call_paths x \<noteq> [] \<longrightarrow> la_kind k = LK_CONFLICT)"
    if "derive_lane ck x = Some k" "la_kind k \<noteq> LK_EXCLUSIVE" for x k
    using that by (auto simp: derive_lane_def call_paths_def call_concurrency_safe_def Let_def plain_lane_def
        split: if_splits option.splits)
  have ne: "la_kind l \<noteq> LK_EXCLUSIVE" "la_kind l' \<noteq> LK_EXCLUSIVE"
    using assms(3) by (auto simp: lanes_overlap_def split: if_splits)
  note a = lane [OF assms(1) ne(1)] and b = lane [OF assms(2) ne(2)]
  have "ck p \<noteq> ck q" if "p \<in> set (call_paths c)" "q \<in> set (call_paths c')" for p q
  proof -
    have "call_paths c \<noteq> []" "call_paths c' \<noteq> []" using that by auto
    with a b have "la_kind l = LK_CONFLICT" "la_kind l' = LK_CONFLICT" "lane_domains l = ck ` set (call_paths c)"
      "lane_domains l' = ck ` set (call_paths c')" by (auto simp: lane_domains_def)
    with assms(3) that show ?thesis by (auto simp: lanes_overlap_def split: if_splits)
  qed
  then show ?thesis using a b by blast
qed

text \<open>C5: Calls that may interfere never run at the same time: of two running calls, both have
  concurrency-safe semantics and no path of the one has the conflict key of a path of the other.  A
  call without semantics, or one that is not concurrency safe, runs alone.\<close>

theorem running_calls_do_not_interfere:
  assumes "sched_reachable ck s \<and> i \<noteq> j \<and> i < length (or_tasks s) \<and> j < length (or_tasks s) \<and>
     tk_phase (or_tasks s ! i) = PH_RUNNING \<and> tk_phase (or_tasks s ! j) = PH_RUNNING"
  shows "call_concurrency_safe (tk_call (or_tasks s ! i)) \<and>
     (\<forall>p \<in> set (call_paths (tk_call (or_tasks s ! i))).
        \<forall>q \<in> set (call_paths (tk_call (or_tasks s ! j))). ck p \<noteq> ck q)"
proof -
  have *: "call_concurrency_safe (tk_call (or_tasks s ! i)) \<and> call_concurrency_safe (tk_call (or_tasks s ! j)) \<and>
     (\<forall>p \<in> set (call_paths (tk_call (or_tasks s ! i))).
        \<forall>q \<in> set (call_paths (tk_call (or_tasks s ! j))). ck p \<noteq> ck q)"
    if "i < j" "j < length (or_tasks s)" "tk_phase (or_tasks s ! i) = PH_RUNNING"
      "tk_phase (or_tasks s ! j) = PH_RUNNING" for i j
  proof -
    have r: "sched_reachable ck s" using assms by simp
    have il: "i < length (or_tasks s)" using that by simp
    note jl = that(2)
    obtain l l' where "derive_lane ck (tk_call (or_tasks s ! i)) = Some l" "derive_lane ck (tk_call (or_tasks s ! j)) = Some l'"
      using derive_lane_executable reachable_lane(2) [OF r il] reachable_lane(2) [OF r jl] by blast
    then show ?thesis
      using running_no_overlap [OF sched_inv_reachable [OF r] that] reachable_lane(1) [OF r il]
        reachable_lane(1) [OF r jl] by (intro disjoint_lanes) auto
  qed
  show ?thesis
  proof (cases "i < j")
    case True
    then show ?thesis using * assms by blast
  next
    case False
    then have "j < i" using assms by simp
    then show ?thesis using * [of j i] assms by metis
  qed
qed

subsection \<open>Every scheduled call can finish\<close>

lemma end_task_done:
  assumes "end_task i (out, s1) = Inr s'" and "or_tasks s1 = or_tasks s" and "i < length (or_tasks s)"
  shows "map tk_phase (or_tasks s') = (map tk_phase (or_tasks s))[i := PH_DONE]"
  using end_task_fields(7) [OF assms(1) refl] assms(2,3)
  by (auto simp: same_tasks_def list_eq_iff_nth_eq nth_list_update)

lemma end_task_succeeds:
  assumes "sched_inv s" and i: "i < length (or_tasks s)" and ph: "tk_phase (or_tasks s ! i) \<in> {PH_WAITING, PH_RUNNING}"
    and "or_tasks s1 = or_tasks s" and "or_stages s1 = or_stages s" and out: "ou_call out = tk_call (or_tasks s ! i)"
  shows "\<exists>s'. end_task i (out, s1) = Inr s' \<and>
     map tk_phase (or_tasks s') = (map tk_phase (or_tasks s))[i := PH_DONE]"
proof -
  have "stage_ok (tk_phase (or_tasks s ! i)) (map_of (or_stages s) (rc_id (tk_call (or_tasks s ! i))))"
    using stages_invD(1) [OF _ i] assms(1) by (auto simp: sched_inv_def)
  then have "map_of (or_stages s1) (rc_id (ou_call out)) \<in> {Some ST_QUEUED, Some ST_RUNNING}"
    using ph out assms(5) by (auto simp: stage_ok_def)
  then have "\<exists>s'. end_task i (out, s1) = Inr s'"
    by (auto simp: end_task_def record_outcome_def emit_lifecycle_def)
  then show ?thesis using end_task_done [OF _ assms(4) i] by blast
qed

lemma give_up_succeeds:
  assumes "sched_inv s" and "i < length (or_tasks s)" and "tk_phase (or_tasks s ! i) \<in> {PH_WAITING, PH_RUNNING}"
  shows "\<exists>s'. give_up_task i s = Inr s' \<and>
     map tk_phase (or_tasks s') = (map tk_phase (or_tasks s))[i := PH_DONE]"
  unfolding give_up_task_def cancelled_outcome_def by (rule end_task_succeeds [OF assms]) simp_all

lemma start_succeeds:
  assumes "sched_inv s" and i: "i < length (or_tasks s)" and "tk_phase (or_tasks s ! i) = PH_WAITING"
  shows "\<exists>s'. start_task i s = Inr s' \<and>
     map tk_phase (or_tasks s') = (map tk_phase (or_tasks s))[i := PH_RUNNING]"
proof -
  have "map_of (or_stages s) (rc_id (tk_call (or_tasks s ! i))) = Some ST_QUEUED"
    using stages_invD(1) [OF _ i] assms(1,3) by (auto simp: sched_inv_def stage_ok_def)
  then show ?thesis
    by (simp add: start_task_def emit_lifecycle_def set_phase_def Let_def require_transition_def map_update)
qed

lemma finish_succeeds:
  assumes "sched_inv s" and i: "i < length (or_tasks s)" and ph: "tk_phase (or_tasks s ! i) = PH_RUNNING"
  shows "\<exists>s'. finish_task ck i r us s = Inr s' \<and>
     map tk_phase (or_tasks s') = (map tk_phase (or_tasks s))[i := PH_DONE]"
proof (cases "build_outcome ck (tk_call (or_tasks s ! i)) r us s")
  case None
  then show ?thesis by (simp add: finish_task_def set_phase_def map_update)
next
  case (Some os)
  then obtain out where os: "os = (out, s\<lparr>or_completion := or_completion s + 1\<rparr>)"
    and out: "ou_call out = tk_call (or_tasks s ! i)"
    by (auto simp: build_outcome_def split: option.splits)
  show ?thesis
    using end_task_succeeds [OF assms(1) i _ _ _ out, of "s\<lparr>or_completion := or_completion s + 1\<rparr>"] ph Some os
    by (simp add: finish_task_def)
qed

lemma waits_are_earlier:
  assumes "sched_inv s" and "i < length (or_tasks s)" and "\<forall>k < i. tk_phase (or_tasks s ! k) = PH_DONE"
  shows "waits_over i s"
  using assms by (auto simp: sched_inv_def tasks_inv_def waits_over_def done_task_def list_all_iff)

text \<open>C6: The oldest unfinished call always moves on: nothing it waits for is left, it starts (or
  records its cancellation) without a lifecycle error, and whatever its tool returns the step that
  ends it succeeds.  So no set of lanes deadlocks.\<close>

theorem oldest_call_progresses:
  assumes "sched_reachable ck s \<and> i < length (or_tasks s) \<and> \<not> done_task s i \<and> (\<forall>k < i. done_task s k)"
  shows "waits_over i s \<and>
     (tk_phase (or_tasks s ! i) = PH_WAITING \<longrightarrow>
        (\<exists>s'. (if tk_cancelled (or_tasks s ! i) then give_up_task i s = Inr s' \<and> done_task s' i
              else start_task i s = Inr s' \<and> tk_phase (or_tasks s' ! i) = PH_RUNNING))) \<and>
     (tk_phase (or_tasks s ! i) = PH_RUNNING \<longrightarrow>
        (\<forall>r us. \<exists>s'. finish_task ck i r us s = Inr s' \<and> done_task s' i))"
proof -
  have inv: "sched_inv s" and i: "i < length (or_tasks s)" and w: "waits_over i s"
    using assms sched_inv_reachable waits_are_earlier by (auto simp: done_task_def)
  have nth: "tk_phase (or_tasks s' ! i) = p" if "map tk_phase (or_tasks s') = (map tk_phase (or_tasks s))[i := p]" for s' p
  proof -
    have "i < length (or_tasks s')" using that i by (metis length_list_update length_map)
    then have "tk_phase (or_tasks s' ! i) = map tk_phase (or_tasks s') ! i" by simp
    then show ?thesis using that i by simp
  qed
  have "\<exists>s'. (if tk_cancelled (or_tasks s ! i) then give_up_task i s = Inr s' \<and> done_task s' i
              else start_task i s = Inr s' \<and> tk_phase (or_tasks s' ! i) = PH_RUNNING)"
    if ph: "tk_phase (or_tasks s ! i) = PH_WAITING"
  proof (cases "tk_cancelled (or_tasks s ! i)")
    case True
    then show ?thesis using give_up_succeeds [OF inv i] ph nth by (auto simp: done_task_def)
  next
    case False
    then show ?thesis using start_succeeds [OF inv i ph] nth by auto
  qed
  moreover have "\<exists>s'. finish_task ck i r us s = Inr s' \<and> done_task s' i"
    if "tk_phase (or_tasks s ! i) = PH_RUNNING" for r us
    using finish_succeeds [OF inv i that] nth unfolding done_task_def by blast
  ultimately show ?thesis using w by blast
qed

subsection \<open>All calls finish\<close>

primrec phase_rank :: "phase \<Rightarrow> nat" where
  "phase_rank PH_CREATED = 3"
| "phase_rank PH_WAITING = 2"
| "phase_rank PH_RUNNING = 1"
| "phase_rank PH_DONE = 0"

definition work :: "orchestrator \<Rightarrow> nat" where
  "work s = sum_list (map phase_rank (map tk_phase (or_tasks s)))"

lemma work_decreases:
  assumes "map tk_phase (or_tasks s') = (map tk_phase (or_tasks s))[i := p]" and "i < length (or_tasks s)"
    and "phase_rank p < phase_rank (tk_phase (or_tasks s ! i))"
  shows "work s' < work s"
proof -
  let ?rs = "map phase_rank (map tk_phase (or_tasks s))"
  have "work s' = sum_list ?rs + phase_rank p - ?rs ! i"
    unfolding work_def assms(1) map_update using assms(2) by (simp add: sum_list_update)
  moreover have "?rs ! i \<le> sum_list ?rs" using assms(2) by (intro elem_le_sum_list) simp
  moreover have "?rs ! i = phase_rank (tk_phase (or_tasks s ! i))" using assms(2) by simp
  ultimately show ?thesis using assms(3) unfolding work_def by linarith
qed

lemma unfinished_steps:
  assumes r: "sched_reachable ck s" and "i < length (or_tasks s)" and "\<not> done_task s i"
  shows "\<exists>s'. sched_step ck s s' \<and> map call_lane (or_tasks s') = map call_lane (or_tasks s) \<and> work s' < work s"
proof -
  let ?P = "\<lambda>k. k < length (or_tasks s) \<and> \<not> done_task s k"
  have "\<exists>k. ?P k" using assms(2,3) by blast
  then obtain k where k: "k < length (or_tasks s)" "\<not> done_task s k" and "\<forall>m < k. \<not> ?P m"
    unfolding exists_least_iff [of ?P] by blast
  then have before: "\<forall>m < k. done_task s m" by auto
  have inv: "sched_inv s" using r by (rule sched_inv_reachable)
  have w: "waits_over k s" using waits_are_earlier [OF inv k(1)] before by (simp add: done_task_def)
  have step: ?thesis if "sched_step ck s s'" "map tk_phase (or_tasks s') = (map tk_phase (or_tasks s))[k := p]"
    "phase_rank p < phase_rank (tk_phase (or_tasks s ! k))" for s' p
  proof -
    have "length (or_tasks s') = length (or_tasks s)" using that(2) by (metis length_list_update length_map)
    then have "map call_lane (or_tasks s') = map call_lane (or_tasks s)"
      using step_call_lane [OF that(1)] by auto
    then show ?thesis using that(1) work_decreases [OF that(2) k(1) that(3)] by (intro exI [of _ s'] conjI)
  qed
  show ?thesis
  proof (cases "tk_phase (or_tasks s ! k)")
    case PH_CREATED
    define p where "p = (if tk_cancelled (or_tasks s ! k) then PH_DONE else PH_WAITING)"
    have "map tk_phase (or_tasks (enter_task k s)) = (map tk_phase (or_tasks s))[k := p]"
      by (simp add: enter_task_def set_phase_def map_update p_def)
    then show ?thesis using step [OF sched_step.enter [OF k(1) PH_CREATED]] PH_CREATED by (simp add: p_def)
  next
    case PH_WAITING
    show ?thesis
    proof (cases "tk_cancelled (or_tasks s ! k)")
      case True
      then obtain s' where "give_up_task k s = Inr s'" "map tk_phase (or_tasks s') = (map tk_phase (or_tasks s))[k := PH_DONE]"
        using give_up_succeeds [OF inv k(1)] PH_WAITING by auto
      then show ?thesis using step [OF sched_step.give_up [OF k(1) PH_WAITING w True]] PH_WAITING by simp
    next
      case False
      then obtain s' where "start_task k s = Inr s'" "map tk_phase (or_tasks s') = (map tk_phase (or_tasks s))[k := PH_RUNNING]"
        using start_succeeds [OF inv k(1) PH_WAITING] by auto
      then show ?thesis using step [OF sched_step.start [OF k(1) PH_WAITING w False]] PH_WAITING by simp
    qed
  next
    case PH_RUNNING
    fix r us
    obtain s' where "finish_task ck k r us s = Inr s'" "map tk_phase (or_tasks s') = (map tk_phase (or_tasks s))[k := PH_DONE]"
      using finish_succeeds [OF inv k(1) PH_RUNNING] by blast
    then show ?thesis using step [OF sched_step.finish [OF k(1) PH_RUNNING]] PH_RUNNING by simp
  next
    case PH_DONE
    then show ?thesis using k(2) by (simp add: done_task_def)
  qed
qed

text \<open>From every reachable state the calls scheduled so far can all be brought to their end,
  without a new call and without losing one.\<close>

theorem all_calls_finish:
  assumes "sched_reachable ck s"
  shows "\<exists>s'. (sched_step ck)\<^sup>*\<^sup>* s s' \<and> map call_lane (or_tasks s') = map call_lane (or_tasks s) \<and>
     list_all (\<lambda>t. tk_phase t = PH_DONE) (or_tasks s')"
  using assms
proof (induction "work s" arbitrary: s rule: less_induct)
  case less
  show ?case
  proof (cases "\<exists>i < length (or_tasks s). \<not> done_task s i")
    case True
    then obtain i where "i < length (or_tasks s)" "\<not> done_task s i" by blast
    then obtain s1 where s1: "sched_step ck s s1" "map call_lane (or_tasks s1) = map call_lane (or_tasks s)" "work s1 < work s"
      using unfinished_steps [OF less.prems] by (metis (no_types))
    obtain s' where s': "(sched_step ck)\<^sup>*\<^sup>* s1 s'" "map call_lane (or_tasks s') = map call_lane (or_tasks s1)"
      "list_all (\<lambda>t. tk_phase t = PH_DONE) (or_tasks s')"
      using less.hyps [OF s1(3) sched_reachable.step [OF less.prems s1(1)]] by blast
    then have "(sched_step ck)\<^sup>*\<^sup>* s s'" using s1(1) by (meson converse_rtranclp_into_rtranclp)
    then show ?thesis using s1(2) s'(2,3) by auto
  next
    case False
    then show ?thesis by (intro exI [of _ s]) (auto simp: list_all_length done_task_def)
  qed
qed

subsection \<open>finalize\<close>

lemma commit_replay_succeeds:
  "distinct (map (rc_id \<circ> ou_call) outs) \<Longrightarrow>
   \<forall>out \<in> set outs. map_of (or_stages s) (rc_id (ou_call out)) = Some ST_TERMINAL \<Longrightarrow>
   \<exists>s'. commit_replay outs s = Inr s' \<and>
     (\<forall>cid. map_of (or_stages s') cid =
        (if cid \<in> (rc_id \<circ> ou_call) ` set outs then Some ST_REPLAYED else map_of (or_stages s) cid))"
proof (induction outs arbitrary: s)
  case (Cons out outs)
  let ?ev = "\<lparr>ev_id = rc_id (ou_call out), ev_replay = ou_replay out,
      ev_kind = Replay_Committed (ou_completion out) (ou_status out)\<rparr>"
  let ?s1 = "s\<lparr>or_stages := AList.update (rc_id (ou_call out)) ST_REPLAYED (or_stages s), or_events := or_events s @ [?ev]\<rparr>"
  have e: "emit_lifecycle ?ev s = Inr ?s1"
    using Cons.prems(2) by (simp add: emit_lifecycle_iff project_stage_iff del: project_stage.simps)
  have d: "distinct (map (rc_id \<circ> ou_call) outs)" using Cons.prems(1) by (simp add: comp_def)
  have "\<forall>u \<in> set outs. map_of (or_stages ?s1) (rc_id (ou_call u)) = Some ST_TERMINAL"
  proof
    fix u assume u: "u \<in> set outs"
    then have "rc_id (ou_call u) \<in> set (map (rc_id \<circ> ou_call) outs)" by simp
    then have "rc_id (ou_call u) \<noteq> rc_id (ou_call out)" using Cons.prems(1) by auto
    then show "map_of (or_stages ?s1) (rc_id (ou_call u)) = Some ST_TERMINAL"
      using u Cons.prems(2) by (simp add: map_of_update)
  qed
  from Cons.IH [OF d this] obtain s' where s': "commit_replay outs ?s1 = Inr s'"
    "\<forall>cid. map_of (or_stages s') cid = (if cid \<in> (rc_id \<circ> ou_call) ` set outs then Some ST_REPLAYED
       else map_of (or_stages ?s1) cid)" by (elim exE conjE)
  have "commit_replay (out # outs) s = Inr s'" using e s'(1) by simp
  then show ?case using s'(2) by (auto simp: map_of_update intro!: exI [of _ s'])
qed simp

text \<open>The outcomes by replay index.\<close>

lemma ordered_outcomes_facts:
  assumes "sched_inv s"
  shows "sorted_wrt (<) (map ou_replay (ordered_outcomes s))"
    and "distinct (map (rc_id \<circ> ou_call) (ordered_outcomes s))"
    and "set (ordered_outcomes s) = ran (map_of (or_outcomes s))"
proof -
  let ?xs = "sort_key fst (or_outcomes s)"
  have d: "distinct (map fst (or_outcomes s))" using assms by (simp add: sched_inv_def)
  have rep: "map_of (or_outcomes s) n = Some out \<Longrightarrow> ou_replay out = n" for n out
    using assms stages_invD(6) by (metis sched_inv_def)
  have fst_eq: "map ou_replay (ordered_outcomes s) = map fst ?xs"
    using rep d by (auto simp: ordered_outcomes_def)
  have "mset (map fst ?xs) = mset (map fst (or_outcomes s))" by simp
  then have dx: "distinct (map fst ?xs)" using d mset_eq_imp_distinct_iff by blast
  then show "sorted_wrt (<) (map ou_replay (ordered_outcomes s))"
    unfolding fst_eq by (simp add: strict_sorted_iff del: distinct_map)
  show r: "set (ordered_outcomes s) = ran (map_of (or_outcomes s))"
    using d by (simp add: ordered_outcomes_def ran_distinct)
  have "distinct (map ou_replay (ordered_outcomes s))" unfolding fst_eq by (rule dx)
  moreover have "ou_replay a = ou_replay b"
    if "a \<in> set (ordered_outcomes s)" "b \<in> set (ordered_outcomes s)" "rc_id (ou_call a) = rc_id (ou_call b)" for a b
  proof -
    note same = that(3) and mem = that(1,2)
    obtain m n where mn: "map_of (or_outcomes s) m = Some a" "map_of (or_outcomes s) n = Some b"
      using mem unfolding r ran_def by blast
    moreover have "m = n" using assms same mn unfolding sched_inv_def stages_inv_def by metis
    ultimately show ?thesis by simp
  qed
  ultimately show "distinct (map (rc_id \<circ> ou_call) (ordered_outcomes s))"
    by (simp add: distinct_map) (metis (mono_tags, lifting) comp_apply inj_on_def)
qed

text \<open>C7: \<open>finalize\<close> succeeds in every reachable state and commits the recorded outcomes in the order
  in which the calls were observed, whatever the order of their completion.  Every finished call
  has its outcome there, unless it was cancelled before its task first ran (then it is still queued)
  or its result could not be classified (then it is still running).\<close>

theorem finalize_in_stream_order:
  assumes "sched_reachable ck s"
  shows "\<exists>outs s'. finalize s = Inr (outs, replay_actions outs, s') \<and>
     sorted_wrt (<) (map ou_replay outs) \<and> set outs = ran (map_of (or_outcomes s)) \<and>
     (\<forall>out \<in> set outs. map_of (or_stages s') (rc_id (ou_call out)) = Some ST_REPLAYED) \<and>
     (\<forall>t \<in> set (or_tasks s). tk_phase t = PH_DONE \<longrightarrow> tk_call t \<in> ou_call ` set outs \<or>
        map_of (or_stages s') (rc_id (tk_call t)) \<in> {Some ST_QUEUED, Some ST_RUNNING})"
proof -
  have inv: "sched_inv s" using assms by (rule sched_inv_reachable)
  note os = ordered_outcomes_facts [OF inv]
  have st: "stages_inv (or_tasks s) (or_stages s) (or_pending s) (or_outcomes s) (or_observed s)"
    using inv by (simp add: sched_inv_def)
  have "\<forall>out \<in> set (ordered_outcomes s). map_of (or_stages s) (rc_id (ou_call out)) = Some ST_TERMINAL"
    using stages_invD(7) [OF st] unfolding os(3) ran_def by blast
  from commit_replay_succeeds [OF os(2) this] obtain s' where s': "commit_replay (ordered_outcomes s) s = Inr s'"
    "\<forall>cid. map_of (or_stages s') cid = (if cid \<in> (rc_id \<circ> ou_call) ` set (ordered_outcomes s) then Some ST_REPLAYED
        else map_of (or_stages s) cid)" by (metis (no_types, lifting))
  have "tk_call t \<in> ou_call ` set (ordered_outcomes s) \<or>
        map_of (or_stages s') (rc_id (tk_call t)) \<in> {Some ST_QUEUED, Some ST_RUNNING}"
    if t: "t \<in> set (or_tasks s)" "tk_phase t = PH_DONE" for t
  proof -
    obtain i where i: "i < length (or_tasks s)" "or_tasks s ! i = t" using t(1) by (auto simp: in_set_conv_nth)
    show ?thesis
    proof (cases "map_of (or_stages s) (rc_id (tk_call t)) = Some ST_TERMINAL")
      case True
      then obtain out where "map_of (or_outcomes s) (rc_replay (tk_call t)) = Some out" "ou_call out = tk_call t"
        using st i unfolding stages_inv_def by auto
      then have "tk_call t \<in> ou_call ` set (ordered_outcomes s)" unfolding os(3) ran_def by force
      then show ?thesis by blast
    next
      case False
      then have q: "map_of (or_stages s) (rc_id (tk_call t)) \<in> {Some ST_QUEUED, Some ST_RUNNING}"
        using stage_ok_cases [OF stages_invD(1) [OF st i(1)]] i(2) by auto
      then have "rc_id (tk_call t) \<notin> (rc_id \<circ> ou_call) ` set (ordered_outcomes s)"
        using stages_invD(7) [OF st] unfolding os(3) ran_def by fastforce
      then show ?thesis using q s'(2) by simp
    qed
  qed
  then show ?thesis
    using s' os(1,3) by (intro exI [of _ "ordered_outcomes s"] exI [of _ s']) (simp add: finalize_def)
qed

subsection \<open>Runs\<close>

text \<open>A run of the event loop as a list of actions, each of them one step.\<close>

datatype sched_action = Do_Observe string | Do_Resolve resolved_call | Do_Enter nat | Do_Start nat
  | Do_Give_Up nat | Do_Finish nat tool_result "context_update list" | Do_Interrupt string

definition ok_state :: "scheduler_error + orchestrator \<Rightarrow> orchestrator option" where
  "ok_state r = (case r of Inl e \<Rightarrow> None | Inr s \<Rightarrow> Some s)"

definition in_phase :: "phase \<Rightarrow> nat \<Rightarrow> orchestrator \<Rightarrow> bool" where
  "in_phase p i s = (i < length (or_tasks s) \<and> tk_phase (or_tasks s ! i) = p)"

fun perform :: "(string \<Rightarrow> string) \<Rightarrow> sched_action \<Rightarrow> orchestrator \<Rightarrow> orchestrator option" where
  "perform ck (Do_Observe cid) s = ok_state (observe_begin cid s)"
| "perform ck (Do_Resolve c) s =
     (if map_of (or_pending s) (rc_id c) = Some (rc_replay c) then ok_state (observe_end ck c s) else None)"
| "perform ck (Do_Enter i) s = (if in_phase PH_CREATED i s then Some (enter_task i s) else None)"
| "perform ck (Do_Start i) s =
     (if in_phase PH_WAITING i s \<and> waits_over i s \<and> \<not> tk_cancelled (or_tasks s ! i)
      then ok_state (start_task i s) else None)"
| "perform ck (Do_Give_Up i) s =
     (if in_phase PH_WAITING i s \<and> waits_over i s \<and> tk_cancelled (or_tasks s ! i)
      then ok_state (give_up_task i s) else None)"
| "perform ck (Do_Finish i r us) s =
     (if in_phase PH_RUNNING i s then ok_state (finish_task ck i r us s) else None)"
| "perform ck (Do_Interrupt reason) s = Some (interrupt reason s)"

fun run :: "(string \<Rightarrow> string) \<Rightarrow> sched_action list \<Rightarrow> orchestrator \<Rightarrow> orchestrator option" where
  "run ck [] s = Some s"
| "run ck (a # as) s = Option.bind (perform ck a s) (run ck as)"

lemma ok_state_iff: "ok_state r = Some s \<longleftrightarrow> r = Inr s"
  by (cases r) (simp_all add: ok_state_def)

lemma perform_step: "perform ck a s = Some s' \<Longrightarrow> sched_step ck s s'"
  by (cases a) (auto simp: ok_state_iff in_phase_def intro: sched_step.intros split: if_splits)

lemma run_reachable: "run ck as s = Some s' \<Longrightarrow> sched_reachable ck s \<Longrightarrow> sched_reachable ck s'"
proof (induction "as" arbitrary: s)
  case (Cons a as)
  then obtain s1 where "perform ck a s = Some s1" "run ck as s1 = Some s'"
    by (auto simp: Option.bind_eq_Some_conv)
  then show ?case using Cons.IH Cons.prems(2) perform_step sched_reachable.step by blast
qed simp

definition sample_policy :: "failure_mode \<Rightarrow> failure_policy" where
  "sample_policy m = \<lparr>fp_mode = m, fp_classifier = FC_EXCEPTION_ONLY, fp_cancel_running = False,
     fp_block_queued = True, fp_abort_stream = False, fp_surfaced = CS_ERROR\<rparr>"

definition sample_call :: "string \<Rightarrow> nat \<Rightarrow> failure_mode \<Rightarrow> string list option \<Rightarrow> resolved_call" where
  "sample_call cid n m ps = \<lparr>rc_id = cid, rc_replay = n, rc_tool = ''t'', rc_status = RS_EXECUTABLE,
     rc_denial = None, rc_semantics = Some \<lparr>sm_read_only = True, sm_concurrency_safe = True,
       sm_policy = sample_policy m, sm_target_paths = ps\<rparr>, rc_lane = None\<rparr>"

definition sample_result :: "call_status \<Rightarrow> tool_result" where
  "sample_result st = \<lparr>tr_status = st, tr_output = PNone, tr_error = None\<rparr>"

definition sample_state :: "sched_action list \<Rightarrow> orchestrator" where
  "sample_state as = (case run id as new_orchestrator of None \<Rightarrow> new_orchestrator | Some s \<Rightarrow> s)"

lemma sample_reachable: "sched_reachable id (sample_state as)"
  by (auto simp: sample_state_def intro: run_reachable sched_reachable.init split: option.splits)

text \<open>Three calls: the first on its own lane, the others on the same path.\<close>

definition three_calls :: "sched_action list" where
  "three_calls = [Do_Observe ''a'', Do_Resolve (sample_call ''a'' 0 FM_FATAL None),
     Do_Observe ''b'', Do_Resolve (sample_call ''b'' 1 FM_REPORT_ONLY (Some [''f''])),
     Do_Observe ''c'', Do_Resolve (sample_call ''c'' 2 FM_REPORT_ONLY (Some [''f''])),
     Do_Enter 0, Do_Enter 1, Do_Enter 2, Do_Start 0, Do_Start 1]"

lemma three_calls_phases:
  "map tk_phase (or_tasks (sample_state three_calls)) = [PH_RUNNING, PH_RUNNING, PH_WAITING]"
  by code_simp

lemma running_calls_do_not_interfere_witness:
  "sched_reachable id (sample_state three_calls) \<and>
   call_concurrency_safe (tk_call (or_tasks (sample_state three_calls) ! 0))"
proof -
  have "length (or_tasks (sample_state three_calls)) = 3" by code_simp
  moreover have "tk_phase (or_tasks (sample_state three_calls) ! 0) = PH_RUNNING" by code_simp
  moreover have "tk_phase (or_tasks (sample_state three_calls) ! 1) = PH_RUNNING" by code_simp
  ultimately show ?thesis
    using running_calls_do_not_interfere [where ck = id and s = "sample_state three_calls" and i = 0 and j = 1]
      sample_reachable by simp
qed

lemma oldest_call_progresses_witness:
  "waits_over 0 (sample_state three_calls) \<and>
   (\<exists>s'. finish_task id 0 (sample_result CS_ERROR) [] (sample_state three_calls) = Inr s' \<and> done_task s' 0)"
proof -
  have "length (or_tasks (sample_state three_calls)) = 3" by code_simp
  moreover have p: "tk_phase (or_tasks (sample_state three_calls) ! 0) = PH_RUNNING" by code_simp
  ultimately show ?thesis
    using oldest_call_progresses [where ck = id and s = "sample_state three_calls" and i = 0] sample_reachable
    by (simp add: done_task_def)
qed

lemma all_calls_finish_witness:
  "sched_reachable id (sample_state three_calls) \<and>
   (\<exists>s'. (sched_step id)\<^sup>*\<^sup>* (sample_state three_calls) s' \<and>
     list_all (\<lambda>t. tk_phase t = PH_DONE) (or_tasks s'))"
  using all_calls_finish [OF sample_reachable, of three_calls] sample_reachable by blast

definition finished_calls :: "sched_action list" where
  "finished_calls = [Do_Observe ''a'', Do_Resolve (sample_call ''a'' 0 FM_REPORT_ONLY None),
     Do_Observe ''b'', Do_Resolve (sample_call ''b'' 1 FM_REPORT_ONLY None),
     Do_Enter 0, Do_Enter 1, Do_Start 0, Do_Start 1,
     Do_Finish 1 (sample_result CS_SUCCESS) [], Do_Finish 0 (sample_result CS_SUCCESS) []]"

lemma finalize_in_stream_order_witness:
  "map fst (or_outcomes (sample_state finished_calls)) = [1, 0] \<and>
   (\<exists>outs s'. finalize (sample_state finished_calls) = Inr (outs, replay_actions outs, s') \<and>
     sorted_wrt (<) (map ou_replay outs))"
proof
  show "map fst (or_outcomes (sample_state finished_calls)) = [1, 0]" by code_simp
  show "\<exists>outs s'. finalize (sample_state finished_calls) = Inr (outs, replay_actions outs, s') \<and>
     sorted_wrt (<) (map ou_replay outs)"
    using finalize_in_stream_order [OF sample_reachable, of finished_calls] by blast
qed

subsection \<open>What cancellation does\<close>

text \<open>A failing call whose policy spares its running siblings (\<open>cancel_running_siblings\<close> is false)
  still cancels a running one, when a queued sibling waits for it: the cancelled sibling waits in
  \<open>gather\<close>, which passes the cancellation on.\<close>

theorem spared_running_call_cancelled:
  "\<exists>s. sched_reachable id s \<and> in_phase PH_RUNNING 0 s \<and> in_phase PH_RUNNING 1 s \<and>
     (\<exists>sm. rc_semantics (tk_call (or_tasks s ! 0)) = Some sm \<and> \<not> fp_cancel_running (sm_policy sm)) \<and>
     \<not> tk_cancelled (or_tasks s ! 1) \<and>
     (\<exists>s'. finish_task id 0 (sample_result CS_ERROR) [] s = Inr s' \<and> tk_cancelled (or_tasks s' ! 1))"
proof (rule exI [of _ "sample_state three_calls"], intro conjI)
  show "sched_reachable id (sample_state three_calls)" by (rule sample_reachable)
  show "in_phase PH_RUNNING 0 (sample_state three_calls)" by code_simp
  show "in_phase PH_RUNNING 1 (sample_state three_calls)" by code_simp
  have "map_option (fp_cancel_running \<circ> sm_policy) (rc_semantics (tk_call (or_tasks (sample_state three_calls) ! 0))) = Some False"
    by code_simp
  then show "\<exists>sm. rc_semantics (tk_call (or_tasks (sample_state three_calls) ! 0)) = Some sm \<and>
      \<not> fp_cancel_running (sm_policy sm)" by auto
  show "\<not> tk_cancelled (or_tasks (sample_state three_calls) ! 1)" by code_simp
  have "map_option (\<lambda>s. tk_cancelled (or_tasks s ! 1))
      (ok_state (finish_task id 0 (sample_result CS_ERROR) [] (sample_state three_calls))) = Some True"
    by code_simp
  then show "\<exists>s'. finish_task id 0 (sample_result CS_ERROR) [] (sample_state three_calls) = Inr s' \<and>
      tk_cancelled (or_tasks s' ! 1)" by (auto simp: ok_state_iff)
qed

text \<open>A call that is interrupted before its task has run for the first time ends without an outcome:
  the coroutine is cancelled outside its \<open>try\<close>, and \<open>finalize\<close> returns nothing for the call.\<close>

theorem early_interrupt_loses_outcome:
  "\<exists>s. sched_reachable id s \<and> map tk_phase (or_tasks s) = [PH_DONE] \<and> finalize s = Inr ([], [], s)"
proof -
  let ?as = "[Do_Observe ''a'', Do_Resolve (sample_call ''a'' 0 FM_REPORT_ONLY None), Do_Interrupt ''user'', Do_Enter 0]"
  have "or_outcomes (sample_state ?as) = []" by code_simp
  then have "finalize (sample_state ?as) = Inr ([], [], sample_state ?as)"
    by (simp add: finalize_def ordered_outcomes_def replay_actions_def)
  moreover have "map tk_phase (or_tasks (sample_state ?as)) = [PH_DONE]" by code_simp
  ultimately show ?thesis by (intro exI [of _ "sample_state ?as"] conjI sample_reachable)
qed

end
