(* ===== verification/Py_Parse.thy ===== *)
theory Py_Parse
  imports Py_Values
begin

text \<open>
  \<open>int(str(value).strip())\<close> on the values the code coerces to integers: an optional sign and decimal
  digits with single underscores between them.  Python's limit on the number of digits is not
  modelled.
\<close>

definition digit_value :: "char \<Rightarrow> nat option" where
  "digit_value c = (let n = (of_char c :: nat) in if 48 \<le> n \<and> n \<le> 57 then Some (n - 48) else None)"

fun parse_digits :: "nat \<Rightarrow> bool \<Rightarrow> string \<Rightarrow> nat option" where
  "parse_digits acc after_digit [] = (if after_digit then Some acc else None)"
| "parse_digits acc after_digit (c # cs) =
     (case digit_value c of
        Some d \<Rightarrow> parse_digits (10 * acc + d) True cs
      | None \<Rightarrow> if c = CHR ''_'' \<and> after_digit then parse_digits acc False cs else None)"

definition parse_int :: "string \<Rightarrow> int option" where
  "parse_int s =
     (case strip s of
        [] \<Rightarrow> None
      | c # cs \<Rightarrow>
          if c = CHR ''-'' then map_option (\<lambda>n. - int n) (parse_digits 0 False cs)
          else if c = CHR ''+'' then map_option int (parse_digits 0 False cs)
          else map_option int (parse_digits 0 False (c # cs)))"

text \<open>The text of a list or a dictionary starts with a bracket and is never a number.\<close>

fun coerce_optional_int :: "pyval \<Rightarrow> int option" where
  "coerce_optional_int (PInt i) = Some i"
| "coerce_optional_int (PStr s) = parse_int s"
| "coerce_optional_int v = None"

text \<open>\<open>_coerce_optional_string\<close> on any value: anything but a string is \<open>None\<close>.\<close>

fun coerce_str :: "pyval \<Rightarrow> string option" where
  "coerce_str (PStr s) = (if strip s = [] then None else Some (strip s))"
| "coerce_str v = None"

subsection \<open>Numerals are parsed back\<close>

lemma digit_value_digit [simp]: "d < 10 \<Longrightarrow> digit_value (digit_char d) = Some d"
  by (simp add: digit_value_def digit_char_def)

lemma parse_digits_snoc:
  "parse_digits acc b xs = Some n \<Longrightarrow> d < 10 \<Longrightarrow>
   parse_digits acc b (xs @ [digit_char d]) = Some (10 * n + d)"
  by (induction acc b xs rule: parse_digits.induct) (auto split: option.splits if_splits)

lemma parse_show_nat: "parse_digits 0 False (show_nat n) = Some n"
proof (induction n rule: show_nat.induct)
  case (1 n)
  show ?case
  proof (cases "n < 10")
    case True
    then show ?thesis by (subst show_nat.simps) simp
  next
    case False
    then have "parse_digits 0 False (show_nat (n div 10) @ [digit_char (n mod 10)]) = Some (10 * (n div 10) + n mod 10)"
      using 1 by (intro parse_digits_snoc) simp_all
    then show ?thesis using False by (subst show_nat.simps) simp
  qed
qed

lemma digit_char_code: "d < 10 \<Longrightarrow> of_char (digit_char d) = 48 + d"
  by (simp add: digit_char_def)

lemma show_nat_chars: "c \<in> set (show_nat n) \<Longrightarrow> \<exists>d < 10. c = digit_char d"
proof (induction n rule: show_nat.induct)
  case (1 n)
  show ?case
  proof (cases "n < 10")
    case True
    then have "c = digit_char n" using 1(2) by (subst (asm) show_nat.simps) simp
    then show ?thesis using True by blast
  next
    case False
    then have "c \<in> set (show_nat (n div 10)) \<or> c = digit_char (n mod 10)"
      using 1(2) by (subst (asm) show_nat.simps) auto
    then show ?thesis using 1(1) False by (metis mod_less_divisor zero_less_numeral)
  qed
qed

lemma show_nat_nonempty: "show_nat n \<noteq> []"
  by (subst show_nat.simps) simp

lemma strip_no_space: "\<forall>c \<in> set s. \<not> is_space c \<Longrightarrow> strip s = s"
  by (simp add: strip_def dropWhile_eq_self_iff) (metis hd_in_set rev_is_Nil_conv set_rev dropWhile_eq_self_iff rev_rev_ident)

lemma digit_not_space: "d < 10 \<Longrightarrow> \<not> is_space (digit_char d)"
  by (simp add: is_space_def digit_char_code Let_def)

lemma parse_show_int: "parse_int (show_int i) = Some i"
proof -
  have ns: "\<forall>c \<in> set (show_nat n). \<not> is_space c" for n
    using show_nat_chars digit_not_space by blast
  have sgn: "c \<in> set (show_nat n) \<Longrightarrow> c \<noteq> CHR ''-'' \<and> c \<noteq> CHR ''+''" for c n
    using show_nat_chars [of c n] digit_char_code by force
  show ?thesis
  proof (cases "i < 0")
    case True
    have "strip (show_int i) = CHR ''-'' # show_nat (nat (- i))"
      using True ns by (subst strip_no_space) (auto simp: show_int_def is_space_def)
    then show ?thesis using True by (simp add: parse_int_def parse_show_nat)
  next
    case False
    obtain c cs where c: "show_nat (nat i) = c # cs" using show_nat_nonempty by (meson neq_Nil_conv)
    have "show_int i = c # cs" using False c by (simp add: show_int_def)
    then have "strip (show_int i) = c # cs" using ns [of "nat i"] c strip_no_space by metis
    moreover have "c \<noteq> CHR ''-''" "c \<noteq> CHR ''+''" using sgn [of c "nat i"] c by simp_all
    ultimately show ?thesis
      using False parse_show_nat [of "nat i"] by (simp add: parse_int_def c)
  qed
qed

end
