(* ===== verification/Context_Window.thy ===== *)
theory Context_Window
  imports Complex_Main Permissions_Data Py_Parse
begin

text \<open>
  Context-window profiles (\<open>context_window.py\<close>): the records, model selectors and the test whether
  two selector patterns overlap, the diagnostics of a set of profiles, the resolution of the profile
  for a provider and a model, the snapshot a route policy narrows, and the token estimates.  A float
  is an exact rational here; the rounding of a float division is not modelled.
\<close>

subsection \<open>Selector patterns\<close>

definition selector_has_pattern :: "string \<Rightarrow> bool" where
  "selector_has_pattern s = list_ex (\<lambda>c. c \<in> set s) ''*?[]''"

text \<open>\<open>string.printable\<close> without its white space.\<close>

definition selector_alphabet :: "char set" where
  "selector_alphabet = set (map char_of [33..<127::nat])"

datatype pattern_token = Star | Chars "char set"

definition char_range :: "char \<Rightarrow> char \<Rightarrow> char set" where
  "char_range a b = set (map char_of [of_char (min a b)..<Suc (of_char (max a b))])"

fun class_chars :: "string \<Rightarrow> char set" where
  "class_chars [] = {}"
| "class_chars (a # m # b # rest) =
     (if m = CHR ''-'' \<and> b \<noteq> CHR ''-'' then char_range a b \<union> class_chars rest
      else insert a (class_chars (m # b # rest)))"
| "class_chars (a # rest) = insert a (class_chars rest)"

definition class_token :: "string \<Rightarrow> pattern_token" where
  "class_token body =
     (case body of
        [] \<Rightarrow> Chars {}
      | c # cs \<Rightarrow>
          if c = CHR ''!'' \<or> c = CHR ''^'' then Chars (selector_alphabet - class_chars cs)
          else Chars (selector_alphabet \<inter> class_chars body))"

function tokenize_selector_pattern :: "string \<Rightarrow> pattern_token list" where
  "tokenize_selector_pattern [] = []"
| "tokenize_selector_pattern (c # p) =
     (if c = CHR ''*'' then Star # tokenize_selector_pattern p
      else if c = CHR ''?'' then Chars selector_alphabet # tokenize_selector_pattern p
      else if c = CHR ''['' \<and> CHR '']'' \<in> set p
      then class_token (takeWhile (\<lambda>x. x \<noteq> CHR '']'') p) #
             tokenize_selector_pattern (tl (dropWhile (\<lambda>x. x \<noteq> CHR '']'') p))
      else Chars {c} # tokenize_selector_pattern p)"
  by pat_completeness auto

termination
proof (relation "measure length")
  show "((tl (dropWhile (\<lambda>x. x \<noteq> CHR '']'') p)), c # p) \<in> measure length" for p and c :: char
    using length_dropWhile_le [of "\<lambda>x. x \<noteq> CHR '']''" p] by simp
qed simp_all

fun is_star :: "pattern_token \<Rightarrow> bool" where
  "is_star Star = True"
| "is_star (Chars S) = False"

text \<open>\<open>intersects\<close> on the tokens from the two indices on; its cache has no effect on the result.\<close>

fun intersects :: "pattern_token list \<Rightarrow> pattern_token list \<Rightarrow> bool" where
  "intersects [] us = list_all is_star us"
| "intersects ts [] = list_all is_star ts"
| "intersects (Star # ts) (Star # us) = (intersects ts (Star # us) \<or> intersects (Star # ts) us)"
| "intersects (Star # ts) (Chars B # us) = (intersects ts (Chars B # us) \<or> intersects (Star # ts) us)"
| "intersects (Chars A # ts) (Star # us) = (intersects (Chars A # ts) us \<or> intersects ts (Star # us))"
| "intersects (Chars A # ts) (Chars B # us) = (A \<inter> B \<noteq> {} \<and> intersects ts us)"

definition selector_patterns_overlap :: "string \<Rightarrow> string \<Rightarrow> bool" where
  "selector_patterns_overlap l r = intersects (tokenize_selector_pattern l) (tokenize_selector_pattern r)"

subsection \<open>Token estimates\<close>

record token_hint =
  th_tokenizer_name :: "string option"
  th_chars_per_token :: "rat option"
  th_advisory_only :: bool
  th_metadata :: "(string, pyval) dict"

definition estimate_tokens :: "token_hint \<Rightarrow> nat \<Rightarrow> nat option" where
  "estimate_tokens h n =
     (if n = 0 then Some 0
      else case th_chars_per_token h of
        None \<Rightarrow> None
      | Some r \<Rightarrow> if r \<le> 0 then None else Some (max 1 (nat \<lceil>of_nat n / r\<rceil>)))"

definition default_hint :: token_hint where
  "default_hint = \<lparr>th_tokenizer_name = None, th_chars_per_token = Some 4, th_advisory_only = True,
     th_metadata = []\<rparr>"

definition estimate_tokens_from_length :: "token_hint option \<Rightarrow> nat \<Rightarrow> nat" where
  "estimate_tokens_from_length hint n =
     (case estimate_tokens (case hint of None \<Rightarrow> default_hint | Some h \<Rightarrow> h) n of
        Some k \<Rightarrow> k
      | None \<Rightarrow> if n = 0 then 0 else max 1 (nat \<lceil>of_nat n / (4 :: rat)\<rceil>))"

definition estimate_tokens_from_text :: "token_hint option \<Rightarrow> string \<Rightarrow> nat" where
  "estimate_tokens_from_text hint text =
     (if text = [] then 0 else estimate_tokens_from_length hint (length text))"

definition estimate_tokens_from_fragments :: "token_hint option \<Rightarrow> string list \<Rightarrow> nat" where
  "estimate_tokens_from_fragments hint fragments =
     estimate_tokens_from_length hint (sum_list (map length fragments))"

subsection \<open>Recovery rules, profiles and policies\<close>

record recovery_rule =
  rr_stop_reasons :: "string list"
  rr_provider_error_codes :: "string list"
  rr_http_statuses :: "int list"
  rr_message_substrings :: "string list"
  rr_retryable :: "bool option"
  rr_metadata :: "(string, pyval) dict"

record recovery_hints =
  rh_context_limit :: recovery_rule
  rh_output_limit :: "recovery_rule option"
  rh_metadata :: "(string, pyval) dict"

record window_profile =
  wp_provider_name :: "string option"
  wp_model_selector :: "string option"
  wp_profile_name :: "string option"
  wp_max_input_tokens :: "int option"
  wp_reserved_output_tokens :: "int option"
  wp_token_hint :: "token_hint option"
  wp_recovery_hints :: "recovery_hints option"
  wp_source :: string
  wp_confidence :: string

record route_policy =
  rp_profile_ref :: "string option"
  rp_narrow_to_max_input_tokens :: "int option"
  rp_reserved_output_tokens_override :: "int option"
  rp_trigger_buffer_tokens :: "int option"
  rp_fallback_mode :: "string option"
  rp_policy_tag :: "string option"
  rp_source :: "string option"
  rp_confidence :: "string option"
  rp_metadata :: "(string, pyval) dict"

record window_snapshot =
  ws_provider_name :: "string option"
  ws_model_name :: "string option"
  ws_route_name :: "string option"
  ws_profile_name :: "string option"
  ws_max_input_tokens :: "int option"
  ws_reserved_output_tokens :: "int option"
  ws_remaining_input_tokens :: "int option"
  ws_estimated_input_tokens :: "int option"
  ws_token_hint :: "token_hint option"
  ws_fallback_mode :: string
  ws_recovery_hints :: "recovery_hints option"
  ws_source :: string
  ws_confidence :: string
  ws_trigger_buffer_tokens :: "int option"
  ws_policy_tag :: "string option"
  ws_metadata :: "(string, pyval) dict"

subsection \<open>Payloads\<close>

definition opt_int :: "int option \<Rightarrow> pyval" where
  "opt_int x = (case x of None \<Rightarrow> PNone | Some i \<Rightarrow> PInt i)"

definition opt_str :: "string option \<Rightarrow> pyval" where
  "opt_str x = (case x of None \<Rightarrow> PNone | Some s \<Rightarrow> PStr s)"

definition opt_bool :: "bool option \<Rightarrow> pyval" where
  "opt_bool x = (case x of None \<Rightarrow> PNone | Some b \<Rightarrow> PBool b)"

fun coerce_sequence :: "pyval \<Rightarrow> pyval list" where
  "coerce_sequence (PList xs) = xs"
| "coerce_sequence v = []"

fun coerce_retryable :: "pyval \<Rightarrow> bool option" where
  "coerce_retryable (PBool b) = Some b"
| "coerce_retryable v = None"

definition serialize_recovery_classification_rule :: "recovery_rule option \<Rightarrow> pyval" where
  "serialize_recovery_classification_rule v =
     (case v of
        None \<Rightarrow> PNone
      | Some r \<Rightarrow> PDict
          [(''stop_reasons'', PList (map PStr (rr_stop_reasons r))),
           (''provider_error_codes'', PList (map PStr (rr_provider_error_codes r))),
           (''http_statuses'', PList (map PInt (rr_http_statuses r))),
           (''message_substrings'', PList (map PStr (rr_message_substrings r))),
           (''retryable'', opt_bool (rr_retryable r)),
           (''metadata'', PDict (rr_metadata r))])"

definition coerce_recovery_classification_rule :: "pyval \<Rightarrow> recovery_rule option" where
  "coerce_recovery_classification_rule v =
     (case v of
        PDict d \<Rightarrow> Some
          \<lparr>rr_stop_reasons = map py_str (coerce_sequence (py_get d ''stop_reasons'')),
           rr_provider_error_codes = map py_str (coerce_sequence (py_get d ''provider_error_codes'')),
           rr_http_statuses =
             List.map_filter coerce_optional_int (coerce_sequence (py_get d ''http_statuses'')),
           rr_message_substrings = map py_str (coerce_sequence (py_get d ''message_substrings'')),
           rr_retryable = coerce_retryable (py_get d ''retryable''),
           rr_metadata = coerce_mapping (py_get d ''metadata'')\<rparr>
      | _ \<Rightarrow> None)"

definition serialize_minimal_recovery_classification_hints :: "recovery_hints option \<Rightarrow> pyval" where
  "serialize_minimal_recovery_classification_hints v =
     (case v of
        None \<Rightarrow> PNone
      | Some h \<Rightarrow> PDict
          [(''context_limit'', serialize_recovery_classification_rule (Some (rh_context_limit h))),
           (''output_limit'', serialize_recovery_classification_rule (rh_output_limit h)),
           (''metadata'', PDict (rh_metadata h))])"

definition coerce_minimal_recovery_classification_hints :: "pyval \<Rightarrow> recovery_hints option" where
  "coerce_minimal_recovery_classification_hints v =
     (case v of
        PDict d \<Rightarrow>
          (case coerce_recovery_classification_rule (py_get d ''context_limit'') of
             None \<Rightarrow> None
           | Some cl \<Rightarrow> Some
               \<lparr>rh_context_limit = cl,
                rh_output_limit = coerce_recovery_classification_rule (py_get d ''output_limit''),
                rh_metadata = coerce_mapping (py_get d ''metadata'')\<rparr>)
      | _ \<Rightarrow> None)"

definition serialize_route_context_window_policy :: "route_policy option \<Rightarrow> pyval" where
  "serialize_route_context_window_policy v =
     (case v of
        None \<Rightarrow> PNone
      | Some p \<Rightarrow> PDict
          [(''profile_ref'', opt_str (rp_profile_ref p)),
           (''narrow_to_max_input_tokens'', opt_int (rp_narrow_to_max_input_tokens p)),
           (''reserved_output_tokens_override'', opt_int (rp_reserved_output_tokens_override p)),
           (''trigger_buffer_tokens'', opt_int (rp_trigger_buffer_tokens p)),
           (''fallback_mode'', opt_str (rp_fallback_mode p)),
           (''policy_tag'', opt_str (rp_policy_tag p)),
           (''source'', opt_str (rp_source p)),
           (''confidence'', opt_str (rp_confidence p)),
           (''metadata'', PDict (rp_metadata p))])"

definition coerce_route_context_window_policy :: "pyval \<Rightarrow> route_policy option" where
  "coerce_route_context_window_policy v =
     (case v of
        PDict d \<Rightarrow> Some
          \<lparr>rp_profile_ref = coerce_str (py_get d ''profile_ref''),
           rp_narrow_to_max_input_tokens = coerce_optional_int (py_get d ''narrow_to_max_input_tokens''),
           rp_reserved_output_tokens_override =
             coerce_optional_int (py_get d ''reserved_output_tokens_override''),
           rp_trigger_buffer_tokens = coerce_optional_int (py_get d ''trigger_buffer_tokens''),
           rp_fallback_mode = coerce_str (py_get d ''fallback_mode''),
           rp_policy_tag = coerce_str (py_get d ''policy_tag''),
           rp_source = coerce_str (py_get d ''source''),
           rp_confidence = coerce_str (py_get d ''confidence''),
           rp_metadata = coerce_mapping (py_get d ''metadata'')\<rparr>
      | _ \<Rightarrow> None)"

subsection \<open>Resolving a profile\<close>

datatype selector_class = Provider_Default | Exact | Pattern

definition selector_kind :: "window_profile \<Rightarrow> selector_class" where
  "selector_kind p =
     (case wp_model_selector p of
        None \<Rightarrow> Provider_Default
      | Some s \<Rightarrow> if selector_has_pattern s then Pattern else Exact)"

definition provider_matches :: "string option \<Rightarrow> string option \<Rightarrow> bool" where
  "provider_matches own asked = (own = None \<or> asked = None \<or> own = asked)"

definition profile_matches :: "string option \<Rightarrow> string option \<Rightarrow> window_profile \<Rightarrow> bool" where
  "profile_matches provider model p =
     (if \<not> provider_matches (wp_provider_name p) provider then False
      else case wp_model_selector p of
        None \<Rightarrow> True
      | Some s \<Rightarrow>
          (case model of
             None \<Rightarrow> False
           | Some m \<Rightarrow> if selector_has_pattern s then fnmatch s m else s = m))"

datatype window_error = Ambiguous_Profile_Ref | Unknown_Profile_Ref | Ambiguous_Profiles selector_class

definition single_match :: "selector_class \<Rightarrow> window_profile list \<Rightarrow> window_error + window_profile option" where
  "single_match k ps =
     (case ps of [] \<Rightarrow> Inr None | [p] \<Rightarrow> Inr (Some p) | _ \<Rightarrow> Inl (Ambiguous_Profiles k))"

definition matching_of_kind ::
  "string option \<Rightarrow> string option \<Rightarrow> selector_class \<Rightarrow> window_profile list \<Rightarrow> window_profile list" where
  "matching_of_kind provider model k ps =
     filter (\<lambda>p. profile_matches provider model p \<and> selector_kind p = k) ps"

definition resolve_context_window_profile ::
  "string option \<Rightarrow> string option \<Rightarrow> window_profile list \<Rightarrow> string option \<Rightarrow> window_error + window_profile option"
where
  "resolve_context_window_profile provider model ps ref =
     (case ref of
        Some r \<Rightarrow>
          (case filter (\<lambda>p. wp_profile_name p = Some r \<and> provider_matches (wp_provider_name p) provider) ps of
             [] \<Rightarrow> Inl Unknown_Profile_Ref
           | [p] \<Rightarrow> Inr (Some p)
           | _ \<Rightarrow> Inl Ambiguous_Profile_Ref)
      | None \<Rightarrow>
          rbind (single_match Exact (matching_of_kind provider model Exact ps)) (\<lambda>e.
          if e \<noteq> None then Inr e
          else rbind (single_match Pattern (matching_of_kind provider model Pattern ps)) (\<lambda>q.
          if q \<noteq> None then Inr q
          else single_match Provider_Default (matching_of_kind provider model Provider_Default ps))))"

subsection \<open>The diagnostics of a set of profiles\<close>

definition provider_scopes_overlap :: "string option \<Rightarrow> string option \<Rightarrow> bool" where
  "provider_scopes_overlap l r = (l = None \<or> r = None \<or> l = r)"

definition provider_overlap_label :: "string option \<Rightarrow> string option \<Rightarrow> string" where
  "provider_overlap_label l r =
     (case (if l \<noteq> None \<and> l \<noteq> Some [] then l else if l = r then None else r) of
        Some s \<Rightarrow> if s = [] then ''<any>'' else s
      | None \<Rightarrow> ''<any>'')"

definition pair_diagnostics :: "window_profile \<Rightarrow> window_profile \<Rightarrow> string list" where
  "pair_diagnostics p q =
     (if \<not> provider_scopes_overlap (wp_provider_name p) (wp_provider_name q) then []
      else
        let label = provider_overlap_label (wp_provider_name p) (wp_provider_name q);
            refs = (case wp_profile_name p of
                None \<Rightarrow> []
              | Some n \<Rightarrow> if wp_profile_name q = Some n
                  then [''duplicate_profile_ref:'' @ label @ '':'' @ n] else [])
        in refs @
           (if selector_kind p \<noteq> selector_kind q then []
            else case (wp_model_selector p, wp_model_selector q) of
              (Some s, Some t) \<Rightarrow>
                (case selector_kind p of
                   Exact \<Rightarrow> if s = t then [''duplicate_exact_profile:'' @ label @ '':'' @ s] else []
                 | _ \<Rightarrow>
                     if s = t then [''duplicate_pattern_profile:'' @ label @ '':'' @ s]
                     else if selector_patterns_overlap s t
                     then [''ambiguous_pattern_profile:'' @ label @ '':'' @ t @ '':'' @ s]
                     else [])
            | _ \<Rightarrow> [''duplicate_provider_default:'' @ label]))"

definition validate_model_context_window_profiles :: "window_profile list \<Rightarrow> string list" where
  "validate_model_context_window_profiles ps =
     concat (map (\<lambda>(i, p). concat (map (pair_diagnostics p) (take i ps))) (enumerate 0 ps))"

subsection \<open>The snapshot\<close>

definition str_or :: "string option \<Rightarrow> string \<Rightarrow> string" where
  "str_or x s = (case x of Some t \<Rightarrow> if t \<noteq> [] then t else s | None \<Rightarrow> s)"

definition narrowed_max :: "int option \<Rightarrow> route_policy option \<Rightarrow> int option" where
  "narrowed_max m rp =
     (case Option.bind rp rp_narrow_to_max_input_tokens of
        None \<Rightarrow> m
      | Some n \<Rightarrow> (case m of None \<Rightarrow> Some n | Some k \<Rightarrow> Some (min k n)))"

definition overridden_reserve :: "int option \<Rightarrow> route_policy option \<Rightarrow> int option" where
  "overridden_reserve m rp =
     (case Option.bind rp rp_reserved_output_tokens_override of None \<Rightarrow> m | Some n \<Rightarrow> Some n)"

definition route_applied :: "route_policy option \<Rightarrow> bool" where
  "route_applied rp =
     (case rp of None \<Rightarrow> False
      | Some p \<Rightarrow> rp_narrow_to_max_input_tokens p \<noteq> None \<or> rp_reserved_output_tokens_override p \<noteq> None)"

definition snapshot_of ::
  "string option \<Rightarrow> string option \<Rightarrow> string option \<Rightarrow> window_profile option \<Rightarrow> route_policy option \<Rightarrow>
   int option \<Rightarrow> window_snapshot" where
  "snapshot_of provider model route profile rp estimated =
     (let m = narrowed_max (Option.bind profile wp_max_input_tokens) rp;
          reserve = overridden_reserve (Option.bind profile wp_reserved_output_tokens) rp;
          src = (case profile of None \<Rightarrow> ''unknown'' | Some p \<Rightarrow> wp_source p);
          conf = (case profile of None \<Rightarrow> ''unknown'' | Some p \<Rightarrow> wp_confidence p)
      in \<lparr>ws_provider_name = provider, ws_model_name = model, ws_route_name = route,
          ws_profile_name = Option.bind profile wp_profile_name, ws_max_input_tokens = m,
          ws_reserved_output_tokens = reserve,
          ws_remaining_input_tokens =
            (case (m, estimated) of
               (Some k, Some e) \<Rightarrow> Some (k - (case reserve of None \<Rightarrow> 0 | Some r \<Rightarrow> r) - e)
             | _ \<Rightarrow> None),
          ws_estimated_input_tokens = estimated,
          ws_token_hint = Option.bind profile wp_token_hint,
          ws_fallback_mode =
            (if m = None then ''reactive_only''
             else case Option.bind rp rp_fallback_mode of
               Some f \<Rightarrow> f | None \<Rightarrow> ''proactive_and_reactive''),
          ws_recovery_hints = Option.bind profile wp_recovery_hints,
          ws_source = (if route_applied rp then str_or (Option.bind rp rp_source) ''route_override'' else src),
          ws_confidence = (if route_applied rp then str_or (Option.bind rp rp_confidence) conf else conf),
          ws_trigger_buffer_tokens = Option.bind rp rp_trigger_buffer_tokens,
          ws_policy_tag = Option.bind rp rp_policy_tag,
          ws_metadata = [(''profile_ref'', opt_str (Option.bind rp rp_profile_ref)),
            (''route_policy_applied'', PBool (route_applied rp))]\<rparr>)"

definition resolve_context_window_snapshot ::
  "string option \<Rightarrow> string option \<Rightarrow> string option \<Rightarrow> window_profile list \<Rightarrow> route_policy option \<Rightarrow>
   int option \<Rightarrow> window_error + window_snapshot" where
  "resolve_context_window_snapshot provider model route ps rp estimated =
     rbind (resolve_context_window_profile provider model ps (Option.bind rp rp_profile_ref)) (\<lambda>profile.
     Inr (snapshot_of provider model route profile rp estimated))"

end
