(* ===== verification/Context_Window_Props.thy ===== *)
theory Context_Window_Props
  imports Context_Window
begin

text \<open>
  Context windows: the overlap test of selector patterns decides whether their languages meet, sets
  of profiles without diagnostics resolve without ambiguity and to the most specific profile, a
  route policy only narrows, payloads are read back, and the bounds of the token estimates.
\<close>

subsection \<open>The language of a pattern\<close>

function tok_match :: "pattern_token list \<Rightarrow> string \<Rightarrow> bool" where
  "tok_match [] w = (w = [])"
| "tok_match (Star # ts) w = (tok_match ts w \<or> (case w of [] \<Rightarrow> False | x # xs \<Rightarrow> tok_match (Star # ts) xs))"
| "tok_match (Chars A # ts) w = (case w of [] \<Rightarrow> False | x # xs \<Rightarrow> x \<in> A \<and> tok_match ts xs)"
  by pat_completeness auto

termination
  by (relation "measure (\<lambda>(ts, w). length ts + length w)") auto

lemma tok_match_simps [simp]:
  "tok_match (Star # ts) [] = tok_match ts []"
  "tok_match (Star # ts) (x # xs) = (tok_match ts (x # xs) \<or> tok_match (Star # ts) xs)"
  "\<not> tok_match (Chars A # ts) []"
  "tok_match (Chars A # ts) (x # xs) = (x \<in> A \<and> tok_match ts xs)"
  by simp_all

declare tok_match.simps(2,3) [simp del]

lemma tok_match_star_drop: "tok_match ts w \<Longrightarrow> tok_match (Star # ts) (u @ w)"
proof (induction u)
  case Nil
  then show ?case by (cases w) simp_all
qed simp

lemma tok_match_nil: "tok_match ts [] \<longleftrightarrow> list_all is_star ts"
proof (induction ts)
  case (Cons t ts)
  then show ?case by (cases t) simp_all
qed simp

definition lawful_token :: "pattern_token \<Rightarrow> bool" where
  "lawful_token t = (case t of Star \<Rightarrow> True | Chars A \<Rightarrow> A \<noteq> {} \<and> A \<subseteq> selector_alphabet)"

lemma intersects_complete: "tok_match ts w \<Longrightarrow> tok_match us w \<Longrightarrow> intersects ts us"
proof (induction "length ts + length us + length w" arbitrary: ts us w rule: less_induct)
  case less
  note IH = less.hyps
  show ?case
  proof (cases ts)
    case Nil
    then show ?thesis using less.prems by (simp add: tok_match_nil)
  next
    case ts: (Cons t ts')
    show ?thesis
    proof (cases us)
      case Nil
      then show ?thesis using less.prems ts by (cases t) (simp_all add: tok_match_nil)
    next
      case us: (Cons u us')
      show ?thesis
      proof (cases w)
        case Nil
        then show ?thesis
          using less.prems IH [of ts' us "[]"] unfolding ts us by (cases t; cases u) simp_all
      next
        case w: (Cons x xs)
        show ?thesis
          using less.prems IH [of ts' us w] IH [of ts us' w] IH [of ts us xs] IH [of ts' us' xs]
            IH [of ts us' xs] IH [of ts' us xs]
          unfolding ts us w by (cases t; cases u) auto
      qed
    qed
  qed
qed

lemma intersects_sound:
  "intersects ts us \<Longrightarrow> \<forall>t \<in> set ts \<union> set us. lawful_token t \<Longrightarrow>
   \<exists>w. set w \<subseteq> selector_alphabet \<and> tok_match ts w \<and> tok_match us w"
proof (induction ts us rule: intersects.induct)
  case (1 us)
  then show ?case by (intro exI [of _ "[]"]) (simp add: tok_match_nil)
next
  case (2 t ts)
  then show ?case by (intro exI [of _ "[]"]) (simp add: tok_match_nil del: tok_match_simps)
next
  case (3 ts us)
  then show ?case using tok_match_star_drop [of _ _ "[]"] by fastforce
next
  case (4 ts B us)
  show ?case
  proof (cases "intersects ts (Chars B # us)")
    case True
    then show ?thesis using 4 tok_match_star_drop [of ts _ "[]"] by fastforce
  next
    case False
    then obtain w b where "set w \<subseteq> selector_alphabet" "tok_match (Star # ts) w" "tok_match us w"
      "b \<in> B" "b \<in> selector_alphabet"
      using 4 by (fastforce simp: lawful_token_def)
    then show ?thesis by (intro exI [of _ "b # w"]) simp
  qed
next
  case (5 A ts us)
  show ?case
  proof (cases "intersects (Chars A # ts) us")
    case True
    then show ?thesis using 5 tok_match_star_drop [of us _ "[]"] by fastforce
  next
    case False
    then obtain w a where "set w \<subseteq> selector_alphabet" "tok_match ts w" "tok_match (Star # us) w"
      "a \<in> A" "a \<in> selector_alphabet"
      using 5 by (fastforce simp: lawful_token_def)
    then show ?thesis by (intro exI [of _ "a # w"]) simp
  qed
next
  case (6 A ts B us)
  then obtain w a where "set w \<subseteq> selector_alphabet" "tok_match ts w" "tok_match us w" "a \<in> A" "a \<in> B"
    "a \<in> selector_alphabet"
    by (fastforce simp: lawful_token_def)
  then show ?case by (intro exI [of _ "a # w"]) simp
qed

text \<open>A selector of literals, \<open>*\<close> and \<open>?\<close>.\<close>

definition plain_selector :: "string \<Rightarrow> bool" where
  "plain_selector s = (CHR ''['' \<notin> set s \<and> set s \<subseteq> selector_alphabet)"

lemma alphabet_iff: "c \<in> selector_alphabet \<longleftrightarrow> 33 \<le> (of_char c :: nat) \<and> (of_char c :: nat) < 127"
proof -
  have "c = char_of n \<longleftrightarrow> of_char c = n" if "n < 256" for n :: nat
    using that by (metis char_of_char of_char_of mod_less)
  then have "(\<exists>n \<in> {33..<127::nat}. c = char_of n) \<longleftrightarrow> (\<exists>n \<in> {33..<127::nat}. of_char c = n)"
    by (intro bex_cong) simp_all
  then show ?thesis by (simp only: selector_alphabet_def set_map set_upt image_iff) auto
qed

lemma plain_selector_Cons: "plain_selector (c # p) \<longleftrightarrow> c \<noteq> CHR ''['' \<and> c \<in> selector_alphabet \<and> plain_selector p"
  by (auto simp: plain_selector_def)

lemma plain_lawful: "plain_selector p \<Longrightarrow> t \<in> set (tokenize_selector_pattern p) \<Longrightarrow> lawful_token t"
proof (induction p)
  case (Cons c p)
  have "selector_alphabet \<noteq> {}" by (simp add: selector_alphabet_def)
  then show ?case using Cons by (auto simp: plain_selector_Cons lawful_token_def split: if_splits)
qed simp

lemma fnmatch_tok_match:
  "plain_selector p \<Longrightarrow> set w \<subseteq> selector_alphabet \<Longrightarrow> fnmatch p w \<longleftrightarrow> tok_match (tokenize_selector_pattern p) w"
proof (induction p w rule: fnmatch.induct)
  case (1 s)
  then show ?case by simp
next
  case (2 c p s)
  then show ?case by (cases s) (auto simp: plain_selector_Cons)
qed

lemma overlap_language:
  assumes "plain_selector l" and "plain_selector r"
  shows "selector_patterns_overlap l r \<longleftrightarrow> (\<exists>w. set w \<subseteq> selector_alphabet \<and> fnmatch l w \<and> fnmatch r w)"
  unfolding selector_patterns_overlap_def
  using assms fnmatch_tok_match intersects_complete intersects_sound plain_lawful by (metis Un_iff)

text \<open>C38: The overlap test of two selectors made of literals, \<open>*\<close> and \<open>?\<close> decides whether some model
  name, of printable ASCII without spaces, is matched by both under \<open>fnmatch\<close>.\<close>

theorem patterns_overlap_iff:
  assumes "plain_selector l \<and> plain_selector r"
  shows "selector_patterns_overlap l r \<longleftrightarrow> (\<exists>w. set w \<subseteq> selector_alphabet \<and> fnmatch l w \<and> fnmatch r w)"
  using assms overlap_language by blast

theorem patterns_overlap_iff_witness:
  "plain_selector ''gpt-*'' \<and> selector_patterns_overlap ''gpt-*'' ''*-mini'' \<and>
   (\<exists>w. set w \<subseteq> selector_alphabet \<and> fnmatch ''gpt-*'' w \<and> fnmatch ''*-mini'' w)"
proof -
  have "plain_selector ''gpt-*'' \<and> plain_selector ''*-mini''"
    by (simp add: plain_selector_def alphabet_iff)
  moreover have "selector_patterns_overlap ''gpt-*'' ''*-mini''"
    by (simp add: selector_patterns_overlap_def)
  ultimately show ?thesis using patterns_overlap_iff [of "''gpt-*''" "''*-mini''"] by blast
qed

subsection \<open>Profiles without diagnostics\<close>

definition plain_profile :: "window_profile \<Rightarrow> bool" where
  "plain_profile p =
     (selector_kind p = Pattern \<longrightarrow> (case wp_model_selector p of None \<Rightarrow> False | Some s \<Rightarrow> plain_selector s))"

lemma validated_pairs:
  assumes "validate_model_context_window_profiles ps = []" and "i < j" and "j < length ps"
  shows "pair_diagnostics (ps ! j) (ps ! i) = []"
proof -
  have "(j, ps ! j) \<in> set (enumerate 0 ps)" using assms(3) by (simp add: in_set_enumerate_eq)
  then have "concat (map (pair_diagnostics (ps ! j)) (take j ps)) = []"
    using assms(1) unfolding validate_model_context_window_profiles_def by fastforce
  moreover have "ps ! i \<in> set (take j ps)" using assms(2,3) by (auto simp: in_set_conv_nth intro!: exI [of _ i])
  ultimately show ?thesis by simp
qed

lemma profile_matches_iff:
  "profile_matches (Some prov) (Some m) p \<longleftrightarrow> wp_provider_name p \<in> {None, Some prov} \<and>
     (case wp_model_selector p of None \<Rightarrow> True
      | Some s \<Rightarrow> if selector_has_pattern s then fnmatch s m else s = m)"
  by (auto simp: profile_matches_def provider_matches_def split: option.splits)

lemma same_kind_diagnosed:
  assumes "profile_matches (Some prov) (Some m) p" and "profile_matches (Some prov) (Some m) q"
    and "selector_kind p = selector_kind q" and "plain_profile p" and "plain_profile q"
    and "set m \<subseteq> selector_alphabet"
  shows "pair_diagnostics p q \<noteq> []"
proof -
  have sc: "provider_scopes_overlap (wp_provider_name p) (wp_provider_name q)"
    using assms(1,2) by (auto simp: profile_matches_iff provider_scopes_overlap_def)
  show ?thesis
  proof (cases "wp_model_selector p")
    case None
    then show ?thesis using sc assms(3)
      by (auto simp: pair_diagnostics_def selector_kind_def Let_def split: option.splits if_splits)
  next
    case p: (Some s)
    show ?thesis
    proof (cases "wp_model_selector q")
      case None
      then show ?thesis using sc assms(3) p
        by (auto simp: pair_diagnostics_def selector_kind_def Let_def split: option.splits if_splits)
    next
      case q: (Some t)
      show ?thesis
      proof (cases "selector_has_pattern s")
        case False
        then have "s = t" "selector_kind p = Exact"
          using assms(1-3) p q by (auto simp: profile_matches_iff selector_kind_def split: if_splits)
        then show ?thesis using sc assms(3) p q by (auto simp: pair_diagnostics_def Let_def)
      next
        case True
        then have k: "selector_kind p = Pattern" "selector_kind q = Pattern"
          using assms(3) p by (simp_all add: selector_kind_def)
        then have pt: "plain_selector s" "plain_selector t" and "fnmatch s m" "fnmatch t m"
          using assms p q True by (auto simp: plain_profile_def profile_matches_iff selector_kind_def split: if_splits)
        then have "selector_patterns_overlap s t" using overlap_language assms(6) by blast
        then show ?thesis using sc k p q by (auto simp: pair_diagnostics_def Let_def)
      qed
    qed
  qed
qed

lemma validated_unique:
  assumes "validate_model_context_window_profiles ps = []" and "list_all plain_profile ps"
    and "set m \<subseteq> selector_alphabet"
  shows "length (matching_of_kind (Some prov) (Some m) k ps) \<le> 1"
proof (rule ccontr)
  assume many: "\<not> ?thesis"
  let ?P = "\<lambda>p. profile_matches (Some prov) (Some m) p \<and> selector_kind p = k"
  have "1 < card {i. i < length ps \<and> ?P (ps ! i)}"
    using many by (simp add: matching_of_kind_def length_filter_conv_card)
  then have "\<not> card {i. i < length ps \<and> ?P (ps ! i)} \<le> Suc 0" by simp
  moreover have "finite {i. i < length ps \<and> ?P (ps ! i)}" by simp
  ultimately obtain i j where ij: "i < length ps" "?P (ps ! i)" "j < length ps" "?P (ps ! j)" "i \<noteq> j"
    using card_le_Suc0_iff_eq [of "{i. i < length ps \<and> ?P (ps ! i)}"] by blast
  have no: False if "i < j" "j < length ps" "?P (ps ! i)" "?P (ps ! j)" for i j
    using validated_pairs [OF assms(1) that(1,2)] same_kind_diagnosed [of prov m "ps ! j" "ps ! i"] that assms(2,3)
    by (simp add: list_all_length)
  show False using no [of i j] no [of j i] ij by linarith
qed

lemma single_match_short: "length ps \<le> 1 \<Longrightarrow> single_match k ps = Inr (case ps of [] \<Rightarrow> None | p # _ \<Rightarrow> Some p)"
  by (cases ps) (auto simp: single_match_def)

definition specificity :: "selector_class \<Rightarrow> nat" where
  "specificity k = (case k of Exact \<Rightarrow> 2 | Pattern \<Rightarrow> 1 | Provider_Default \<Rightarrow> 0)"

text \<open>A set of profiles that gets no diagnostics, with selectors made of literals, \<open>*\<close> and \<open>?\<close>,
  resolves without an ambiguity error for every named provider and model, and to the most specific
  profile that matches: an exact selector before a pattern before a provider default.\<close>

theorem validated_profiles_resolve:
  assumes "validate_model_context_window_profiles ps = [] \<and> list_all plain_profile ps \<and> set m \<subseteq> selector_alphabet"
  shows "case resolve_context_window_profile (Some prov) (Some m) ps None of
      Inl e \<Rightarrow> False
    | Inr None \<Rightarrow> \<not> (\<exists>p \<in> set ps. profile_matches (Some prov) (Some m) p)
    | Inr (Some p) \<Rightarrow> p \<in> set ps \<and> profile_matches (Some prov) (Some m) p \<and>
        filter (\<lambda>q. profile_matches (Some prov) (Some m) q \<and>
          specificity (selector_kind p) \<le> specificity (selector_kind q)) ps = [p]"
proof -
  let ?M = "\<lambda>k. matching_of_kind (Some prov) (Some m) k ps"
  have len: "length (?M k) \<le> 1" for k using validated_unique assms by blast
  have mem: "p \<in> set (?M k) \<longleftrightarrow> p \<in> set ps \<and> profile_matches (Some prov) (Some m) p \<and> selector_kind p = k" for p k
    by (auto simp: matching_of_kind_def)
  have win: "filter (\<lambda>q. profile_matches (Some prov) (Some m) q \<and>
      specificity (selector_kind p) \<le> specificity (selector_kind q)) ps = [p]"
    if p: "?M k = p # xs" and above: "\<And>k'. specificity k < specificity k' \<Longrightarrow> ?M k' = []" for k p xs
  proof -
    have k: "selector_kind p = k" using mem [of p k] p by simp
    have inj: "specificity k' = specificity k'' \<Longrightarrow> k' = k''" for k' k''
      by (cases k'; cases k'') (simp_all add: specificity_def)
    have "(profile_matches (Some prov) (Some m) q \<and> specificity k \<le> specificity (selector_kind q)) \<longleftrightarrow>
        (profile_matches (Some prov) (Some m) q \<and> selector_kind q = k)" if "q \<in> set ps" for q
    proof -
      have "\<not> specificity k < specificity (selector_kind q)" if "profile_matches (Some prov) (Some m) q"
        using above [of "selector_kind q"] mem [of q "selector_kind q"] \<open>q \<in> set ps\<close> that by auto
      then show ?thesis using inj by (metis le_neq_implies_less order_refl)
    qed
    then have "filter (\<lambda>q. profile_matches (Some prov) (Some m) q \<and> specificity k \<le> specificity (selector_kind q)) ps = ?M k"
      unfolding matching_of_kind_def by (intro filter_cong) auto
    moreover have "?M k = [p]" using len [of k] p by simp
    ultimately show ?thesis by (simp add: k)
  qed
  have above: "?M k' = []" if "?M Exact = []" "specificity Pattern < specificity k'" for k'
    using that by (cases k') (simp_all add: specificity_def)
  have above2: "?M k' = []" if "?M Exact = []" "?M Pattern = []" "specificity Provider_Default < specificity k'" for k'
    using that by (cases k') (simp_all add: specificity_def)
  have top: "\<not> specificity Exact < specificity k'" for k' by (cases k') (simp_all add: specificity_def)
  show ?thesis
  proof (cases "?M Exact")
    case (Cons p xs)
    then have r: "resolve_context_window_profile (Some prov) (Some m) ps None = Inr (Some p)"
      using len [of Exact] by (simp add: resolve_context_window_profile_def single_match_short)
    show ?thesis using win [OF Cons] top mem [of p Exact] Cons by (simp add: r)
  next
    case e: Nil
    show ?thesis
    proof (cases "?M Pattern")
      case (Cons p xs)
      then have r: "resolve_context_window_profile (Some prov) (Some m) ps None = Inr (Some p)"
        using e len [of Pattern] by (simp add: resolve_context_window_profile_def single_match_short)
      show ?thesis using win [OF Cons above [OF e]] mem [of p Pattern] Cons by (simp add: r)
    next
      case q: Nil
      show ?thesis
      proof (cases "?M Provider_Default")
        case (Cons p xs)
        then have r: "resolve_context_window_profile (Some prov) (Some m) ps None = Inr (Some p)"
          using e q len [of Provider_Default] by (simp add: resolve_context_window_profile_def single_match_short)
        show ?thesis using win [OF Cons above2 [OF e q]] mem [of p Provider_Default] Cons by (simp add: r)
      next
        case Nil
        then have r: "resolve_context_window_profile (Some prov) (Some m) ps None = Inr None"
          using e q by (simp add: resolve_context_window_profile_def single_match_short)
        have "?M k = []" for k using e q Nil by (cases k) simp_all
        then show ?thesis using mem unfolding r by (auto simp: set_empty [symmetric] simp del: set_empty)
      qed
    qed
  qed
qed

definition sample_profile :: "string option \<Rightarrow> window_profile" where
  "sample_profile sel = \<lparr>wp_provider_name = Some ''acme'', wp_model_selector = sel, wp_profile_name = None,
     wp_max_input_tokens = Some 1000, wp_reserved_output_tokens = Some 100, wp_token_hint = None,
     wp_recovery_hints = None, wp_source = ''integration'', wp_confidence = ''high''\<rparr>"

theorem validated_profiles_resolve_witness:
  "case resolve_context_window_profile (Some ''acme'') (Some ''m1'')
      [sample_profile (Some ''m*''), sample_profile None, sample_profile (Some ''n'')] None of
      Inl e \<Rightarrow> False
    | Inr r \<Rightarrow> r = Some (sample_profile (Some ''m*''))"
proof -
  let ?ps = "[sample_profile (Some ''m*''), sample_profile None, sample_profile (Some ''n'')]"
  have "validate_model_context_window_profiles ?ps = []" by code_simp
  moreover have "list_all plain_profile ?ps"
    by (simp add: plain_profile_def sample_profile_def plain_selector_def alphabet_iff selector_kind_def)
  moreover have "set ''m1'' \<subseteq> selector_alphabet" by (simp add: alphabet_iff)
  ultimately have "case resolve_context_window_profile (Some ''acme'') (Some ''m1'') ?ps None of
      Inl e \<Rightarrow> False
    | Inr None \<Rightarrow> \<not> (\<exists>p \<in> set ?ps. profile_matches (Some ''acme'') (Some ''m1'') p)
    | Inr (Some p) \<Rightarrow> p \<in> set ?ps \<and> profile_matches (Some ''acme'') (Some ''m1'') p \<and>
        filter (\<lambda>q. profile_matches (Some ''acme'') (Some ''m1'') q \<and>
          specificity (selector_kind p) \<le> specificity (selector_kind q)) ?ps = [p]"
    using validated_profiles_resolve [where ps = ?ps and m = "''m1''" and prov = "''acme''"] by blast
  moreover have "profile_matches (Some ''acme'') (Some ''m1'') (sample_profile (Some ''m*''))" by code_simp
  moreover have "\<not> profile_matches (Some ''acme'') (Some ''m1'') (sample_profile (Some ''n''))" by code_simp
  moreover have "selector_kind (sample_profile (Some ''m*'')) = Pattern" by code_simp
  moreover have "selector_kind (sample_profile None) = Provider_Default" by code_simp
  ultimately show ?thesis
    by (auto simp: specificity_def split: sum.splits option.splits if_splits)
qed

text \<open>A class that starts with a caret is a negation to the overlap test and not to \<open>fnmatch\<close>, so two
  patterns that both match a model name get no diagnostic, and the resolution for that model fails.\<close>

theorem caret_class_undiagnosed:
  "validate_model_context_window_profiles [sample_profile (Some ''[^a]*''), sample_profile (Some ''a*'')] = [] \<and>
   resolve_context_window_profile (Some ''acme'') (Some ''a1'')
     [sample_profile (Some ''[^a]*''), sample_profile (Some ''a*'')] None = Inl (Ambiguous_Profiles Pattern)"
proof
  show "validate_model_context_window_profiles [sample_profile (Some ''[^a]*''), sample_profile (Some ''a*'')] = []"
    by code_simp
  have "map_sum id (\<lambda>_. ()) (resolve_context_window_profile (Some ''acme'') (Some ''a1'')
     [sample_profile (Some ''[^a]*''), sample_profile (Some ''a*'')] None) = Inl (Ambiguous_Profiles Pattern)"
    by code_simp
  then show "resolve_context_window_profile (Some ''acme'') (Some ''a1'')
     [sample_profile (Some ''[^a]*''), sample_profile (Some ''a*'')] None = Inl (Ambiguous_Profiles Pattern)"
    by (cases "resolve_context_window_profile (Some ''acme'') (Some ''a1'')
      [sample_profile (Some ''[^a]*''), sample_profile (Some ''a*'')] None") simp_all
qed

subsection \<open>Snapshots\<close>

text \<open>A route policy only narrows the input limit: the limit of the snapshot is the least of the
  profile's and the policy's, unknown only when both are; without a limit the fallback is reactive
  only, and what remains is the limit less the reserve and the estimate.\<close>

theorem snapshot_narrows:
  "case resolve_context_window_snapshot prov model route ps rp est of
     Inl e \<Rightarrow> resolve_context_window_profile prov model ps (Option.bind rp rp_profile_ref) = Inl e
   | Inr s \<Rightarrow>
       (\<exists>profile. resolve_context_window_profile prov model ps (Option.bind rp rp_profile_ref) = Inr profile \<and>
         (let limits = set_option (Option.bind profile wp_max_input_tokens) \<union>
                       set_option (Option.bind rp rp_narrow_to_max_input_tokens)
          in ws_max_input_tokens s = (if limits = {} then None else Some (Min limits)))) \<and>
       (case ws_max_input_tokens s of
          None \<Rightarrow> ws_fallback_mode s = ''reactive_only'' \<and> ws_remaining_input_tokens s = None
        | Some k \<Rightarrow> ws_remaining_input_tokens s =
            map_option (\<lambda>e. k - (case ws_reserved_output_tokens s of None \<Rightarrow> 0 | Some r \<Rightarrow> r) - e) est)"
proof (cases "resolve_context_window_profile prov model ps (Option.bind rp rp_profile_ref)")
  case (Inl e)
  then show ?thesis by (simp add: resolve_context_window_snapshot_def)
next
  case (Inr profile)
  have "narrowed_max m rp =
      (let limits = set_option m \<union> set_option (Option.bind rp rp_narrow_to_max_input_tokens)
       in if limits = {} then None else Some (Min limits))" for m
    by (cases m; cases "Option.bind rp rp_narrow_to_max_input_tokens") (simp_all add: narrowed_max_def)
  note nm = this
  let ?s = "snapshot_of prov model route profile rp est"
  let ?m = "narrowed_max (Option.bind profile wp_max_input_tokens) rp"
  have s: "resolve_context_window_snapshot prov model route ps rp est = Inr ?s"
    by (simp add: resolve_context_window_snapshot_def Inr)
  have m: "ws_max_input_tokens ?s = ?m" by (simp add: snapshot_of_def Let_def)
  have "case ?m of None \<Rightarrow> ws_fallback_mode ?s = ''reactive_only'' \<and> ws_remaining_input_tokens ?s = None
    | Some k \<Rightarrow> ws_remaining_input_tokens ?s =
        map_option (\<lambda>e. k - (case ws_reserved_output_tokens ?s of None \<Rightarrow> 0 | Some r \<Rightarrow> r) - e) est"
    by (cases ?m; cases est) (simp_all add: snapshot_of_def Let_def)
  then show ?thesis unfolding s sum.case m Inr
    using nm [of "Option.bind profile wp_max_input_tokens"]
    by (intro conjI exI [of _ profile]) (simp_all only: Let_def)
qed

subsection \<open>Payloads\<close>

definition normal_policy :: "route_policy \<Rightarrow> route_policy" where
  "normal_policy p = p
     \<lparr>rp_profile_ref := coerce_optional_string (rp_profile_ref p),
      rp_fallback_mode := coerce_optional_string (rp_fallback_mode p),
      rp_policy_tag := coerce_optional_string (rp_policy_tag p),
      rp_source := coerce_optional_string (rp_source p),
      rp_confidence := coerce_optional_string (rp_confidence p)\<rparr>"

lemma coerce_opt_str [simp]: "coerce_str (opt_str x) = coerce_optional_string x"
  by (cases x) (simp_all add: opt_str_def)

lemma coerce_opt_int [simp]: "coerce_optional_int (opt_int x) = x"
  by (cases x) (simp_all add: opt_int_def)

lemma coerce_opt_bool [simp]: "coerce_retryable (opt_bool x) = x"
  by (cases x) (simp_all add: opt_bool_def)

lemma map_filter_PInt: "List.map_filter coerce_optional_int (map PInt xs) = xs"
  by (induction xs) (simp_all add: List.map_filter_simps)

lemma rule_roundtrip:
  "coerce_recovery_classification_rule (serialize_recovery_classification_rule x) = x"
  by (cases x) (simp_all add: coerce_recovery_classification_rule_def serialize_recovery_classification_rule_def
      py_get_def map_filter_PInt comp_def)

text \<open>Recovery hints are read back from their payload as they were; a route policy is read back with
  its strings stripped and the empty ones dropped, so that reading twice changes nothing more.\<close>

theorem window_payload_roundtrip:
  "coerce_minimal_recovery_classification_hints (serialize_minimal_recovery_classification_hints h) = h \<and>
   coerce_route_context_window_policy (serialize_route_context_window_policy (Some p)) = Some (normal_policy p) \<and>
   normal_policy (normal_policy p) = normal_policy p"
proof (intro conjI)
  show "coerce_minimal_recovery_classification_hints (serialize_minimal_recovery_classification_hints h) = h"
    by (cases h) (simp_all add: coerce_minimal_recovery_classification_hints_def
        serialize_minimal_recovery_classification_hints_def py_get_def rule_roundtrip)
  show "coerce_route_context_window_policy (serialize_route_context_window_policy (Some p)) = Some (normal_policy p)"
    by (cases p) (simp add: coerce_route_context_window_policy_def serialize_route_context_window_policy_def
        py_get_def normal_policy_def)
  show "normal_policy (normal_policy p) = normal_policy p"
    by (simp add: normal_policy_def)
qed

subsection \<open>Token estimates\<close>

lemma nat_ceiling_mono: "0 < r \<Longrightarrow> m \<le> n \<Longrightarrow> nat \<lceil>of_nat m / r\<rceil> \<le> nat \<lceil>of_nat n / (r :: rat)\<rceil>"
  by (intro nat_mono ceiling_mono divide_right_mono) simp_all

definition hint_ratio :: "token_hint option \<Rightarrow> rat" where
  "hint_ratio hint = (case Option.bind hint th_chars_per_token of None \<Rightarrow> 4 | Some r \<Rightarrow> if r \<le> 0 then 4 else r)"

lemma estimate_length:
  "estimate_tokens_from_length hint n =
     (if n = 0 then 0 else max 1 (nat \<lceil>of_nat n / hint_ratio hint\<rceil>))"
  by (simp add: hint_ratio_def estimate_tokens_from_length_def estimate_tokens_def default_hint_def split: option.splits)

text \<open>Estimates: an empty text counts nothing and any other at least one token, an estimate never
  falls when text is added, with and without a hint, and the estimate from fragments is that of
  their concatenation.\<close>

theorem estimate_bounds:
  "estimate_tokens_from_text hint t \<le> estimate_tokens_from_text hint (t @ u) \<and>
   (estimate_tokens_from_text hint t = 0 \<longleftrightarrow> t = []) \<and>
   estimate_tokens_from_fragments hint fs = estimate_tokens_from_text hint (concat fs)"
proof -
  have "0 < hint_ratio hint" by (simp add: hint_ratio_def split: option.splits)
  from nat_ceiling_mono [OF this] have "estimate_tokens_from_length hint m \<le> estimate_tokens_from_length hint n"
    if "m \<le> n" for m n using that unfolding estimate_length by (auto intro: le_max_iff_disj [THEN iffD2])
  then have "estimate_tokens_from_text hint t \<le> estimate_tokens_from_text hint (t @ u)"
    by (auto simp: estimate_tokens_from_text_def)
  moreover have "estimate_tokens_from_text hint t = 0 \<longleftrightarrow> t = []"
    by (simp add: estimate_tokens_from_text_def estimate_length)
  moreover have "estimate_tokens_from_fragments hint fs = estimate_tokens_from_text hint (concat fs)"
    by (simp add: estimate_tokens_from_fragments_def estimate_tokens_from_text_def length_concat estimate_length)
  ultimately show ?thesis by blast
qed

end
