(* ===== verification/Execution_Policy.thy ===== *)
theory Execution_Policy
  imports Permissions Py_Parse
begin

text \<open>
  Execution policies of agents and skills and the delegation policy of child agents
  (\<open>execution_policy.py\<close>), with the choice of the base pools an invocation makes
  (\<open>agent_execution_service.py\<close>) and the depth a child invocation is given (\<open>agent_runtime.py\<close>).
\<close>

subsection \<open>Data\<close>

datatype memory_scope = MS_LOCAL | MS_PROJECT | MS_USER

datatype isolation_mode = IM_NONE | IM_WORKTREE | IM_REMOTE

fun memory_value :: "memory_scope \<Rightarrow> string" where
  "memory_value MS_LOCAL = ''local''"
| "memory_value MS_PROJECT = ''project''"
| "memory_value MS_USER = ''user''"

fun isolation_value :: "isolation_mode \<Rightarrow> string" where
  "isolation_value IM_NONE = ''none''"
| "isolation_value IM_WORKTREE = ''worktree''"
| "isolation_value IM_REMOTE = ''remote''"

fun memory_order :: "memory_scope \<Rightarrow> nat" where
  "memory_order MS_LOCAL = 0"
| "memory_order MS_PROJECT = 1"
| "memory_order MS_USER = 2"

fun isolation_order :: "isolation_mode \<Rightarrow> nat" where
  "isolation_order IM_NONE = 0"
| "isolation_order IM_WORKTREE = 1"
| "isolation_order IM_REMOTE = 2"

record agent_definition =
  ad_name :: string
  ad_tools :: "string list"
  ad_disallowed_tools :: "string list"
  ad_permission_mode :: "permission_mode option"
  ad_memory :: "memory_scope option"
  ad_isolation :: "isolation_mode option"
  ad_skills :: "string list"

datatype skill_execution_context = Inline | Fork

record skill_definition =
  sd_name :: string
  sd_execution_context :: skill_execution_context
  sd_allowed_tools :: "string list"

record execution_policy =
  ep_tool_pool :: "tool_definition list"
  ep_skill_pool :: "skill_definition list"
  ep_permission_context :: permission_context
  ep_effective_permission_policies :: "permission_policy list"
  ep_memory_scope :: "memory_scope option"
  ep_isolation_mode :: isolation_mode
  ep_trace :: "(string, pyval) dict"

subsection \<open>Narrowing\<close>

definition narrow_memory_scope :: "memory_scope option \<Rightarrow> memory_scope option \<Rightarrow> memory_scope option" where
  "narrow_memory_scope parent requested =
     (case parent of
        None \<Rightarrow> requested
      | Some p \<Rightarrow>
          (case requested of
             None \<Rightarrow> Some p
           | Some r \<Rightarrow> if memory_order p \<le> memory_order r then Some p else Some r))"

definition narrow_isolation_mode :: "isolation_mode option \<Rightarrow> isolation_mode option \<Rightarrow> isolation_mode" where
  "narrow_isolation_mode parent requested =
     (let p = (case parent of None \<Rightarrow> IM_NONE | Some x \<Rightarrow> x);
          r = (case requested of None \<Rightarrow> IM_NONE | Some x \<Rightarrow> x)
      in if isolation_order r \<le> isolation_order p then p else r)"

definition default_permission_modes :: "permission_mode list" where
  "default_permission_modes = [M_DEFAULT, M_AUTO, M_PLAN, M_ACCEPT_EDITS]"

definition narrow_permission_mode :: "permission_mode \<Rightarrow> permission_mode option \<Rightarrow> permission_mode" where
  "narrow_permission_mode parent requested =
     (case requested of
        None \<Rightarrow> parent
      | Some r \<Rightarrow>
          if parent = M_BYPASS then r
          else if parent \<in> set default_permission_modes then (if r = M_BYPASS then parent else r)
          else if parent = M_BUBBLE then (if r = M_BUBBLE \<or> r = M_DONT_ASK then r else parent)
          else if parent = M_DONT_ASK then M_DONT_ASK
          else if r = parent then r else parent)"

definition matches_tool_selector :: "tool_definition \<Rightarrow> string \<Rightarrow> bool" where
  "matches_tool_selector d sel =
     (if sel = ''*'' then True
      else if list_ex (\<lambda>c. c \<in> set sel) ''*?[]''
      then list_ex (\<lambda>n. fnmatch sel n) (td_name d # td_aliases d)
      else sel = td_name d \<or> sel \<in> set (td_aliases d))"

text \<open>\<open>deduped\<close> keeps the last definition of a name; its values are sorted by name.\<close>

definition dedup_tools :: "tool_definition list \<Rightarrow> tool_definition list" where
  "dedup_tools ds =
     sort_key td_name (map snd (fold (\<lambda>d acc. AList.update (td_name d) d acc) ds []))"

definition narrow_tool_pool ::
  "tool_definition list \<Rightarrow> string list \<Rightarrow> string list \<Rightarrow> tool_definition list" where
  "narrow_tool_pool base allowed disallowed =
     (let selected = (if allowed = [] then base
            else filter (\<lambda>d. list_ex (matches_tool_selector d) allowed) base);
          selected = (if disallowed = [] then selected
            else filter (\<lambda>d. \<not> list_ex (matches_tool_selector d) disallowed) selected)
      in dedup_tools selected)"

definition resolve_skill_pool :: "skill_definition list \<Rightarrow> string list \<Rightarrow> skill_definition list" where
  "resolve_skill_pool base selectors =
     (if selectors = [] \<or> selectors = [''*''] then base
      else filter (\<lambda>k. sd_name k \<in> set selectors) base)"

definition policy_allows_skill :: "string \<Rightarrow> skill_definition list \<Rightarrow> bool" where
  "policy_allows_skill name pool = list_ex (\<lambda>k. sd_name k = name) pool"

subsection \<open>Resolving policies\<close>

definition effective_trace ::
  "tool_definition list \<Rightarrow> skill_definition list \<Rightarrow> permission_mode \<Rightarrow> memory_scope option \<Rightarrow>
   isolation_mode \<Rightarrow> (string, pyval) dict" where
  "effective_trace ts ks mode mem isol =
     [(''effective_tools'', strs (map td_name ts)), (''effective_skills'', strs (map sd_name ks)),
      (''effective_permission_mode'', PStr (mode_value mode)),
      (''effective_memory_scope'', of_opt (PStr o memory_value) mem),
      (''effective_isolation_mode'', PStr (isolation_value isol))]"

definition build_root_execution_policy ::
  "agent_definition \<Rightarrow> tool_definition list \<Rightarrow> skill_definition list \<Rightarrow> permission_context \<Rightarrow>
   memory_scope option \<Rightarrow> isolation_mode option \<Rightarrow> execution_policy" where
  "build_root_execution_policy agent tools skills pc mem isol =
     (let isol' = (case isol of Some i \<Rightarrow> i
            | None \<Rightarrow> (case ad_isolation agent of Some i \<Rightarrow> i | None \<Rightarrow> IM_NONE));
          mem' = (case mem of Some m \<Rightarrow> Some m | None \<Rightarrow> ad_memory agent)
      in \<lparr>ep_tool_pool = tools, ep_skill_pool = skills, ep_permission_context = pc,
          ep_effective_permission_policies = [], ep_memory_scope = mem', ep_isolation_mode = isol',
          ep_trace = [(''source'', PStr ''root''), (''name'', PStr (ad_name agent))] @
            effective_trace tools skills (pc_mode pc) mem' isol'\<rparr>)"

definition resolve_agent_execution_policy ::
  "agent_definition \<Rightarrow> execution_policy option \<Rightarrow> tool_definition list \<Rightarrow> skill_definition list \<Rightarrow>
   permission_context \<Rightarrow> execution_policy" where
  "resolve_agent_execution_policy agent parent base_tools base_skills pc =
     (let tools = narrow_tool_pool base_tools (ad_tools agent) (ad_disallowed_tools agent);
          skills = resolve_skill_pool base_skills (ad_skills agent);
          mode = narrow_permission_mode (pc_mode pc) (ad_permission_mode agent);
          mem = narrow_memory_scope (Option.bind parent ep_memory_scope) (ad_memory agent);
          isol = narrow_isolation_mode (map_option ep_isolation_mode parent) (ad_isolation agent)
      in \<lparr>ep_tool_pool = tools, ep_skill_pool = skills,
          ep_permission_context = \<lparr>pc_session_id = pc_session_id pc, pc_mode = mode, pc_rules = pc_rules pc,
            pc_policies = pc_policies pc, pc_metadata = pc_metadata pc\<rparr>,
          ep_effective_permission_policies = [], ep_memory_scope = mem, ep_isolation_mode = isol,
          ep_trace =
            [(''source'', PStr ''agent''), (''name'', PStr (ad_name agent)),
             (''requested_tools'', strs (ad_tools agent)),
             (''requested_disallowed_tools'', strs (ad_disallowed_tools agent)),
             (''requested_skills'', strs (ad_skills agent)),
             (''requested_permission_mode'', of_opt (PStr o mode_value) (ad_permission_mode agent)),
             (''requested_memory_scope'', of_opt (PStr o memory_value) (ad_memory agent)),
             (''requested_isolation_mode'', of_opt (PStr o isolation_value) (ad_isolation agent))] @
            effective_trace tools skills mode mem isol\<rparr>)"

fun execution_context_value :: "skill_execution_context \<Rightarrow> string" where
  "execution_context_value Inline = ''inline''"
| "execution_context_value Fork = ''fork''"

definition resolve_skill_execution_policy ::
  "skill_definition \<Rightarrow> execution_policy option \<Rightarrow> tool_definition list \<Rightarrow> skill_definition list \<Rightarrow>
   permission_context \<Rightarrow> execution_policy" where
  "resolve_skill_execution_policy skill parent base_tools base_skills pc =
     (let tools = narrow_tool_pool base_tools (sd_allowed_tools skill) [];
          mem = Option.bind parent ep_memory_scope;
          isol = (case parent of None \<Rightarrow> IM_NONE | Some p \<Rightarrow> ep_isolation_mode p)
      in \<lparr>ep_tool_pool = tools, ep_skill_pool = base_skills,
          ep_permission_context = pc, ep_effective_permission_policies = [],
          ep_memory_scope = mem, ep_isolation_mode = isol,
          ep_trace =
            [(''source'', PStr ''skill''), (''name'', PStr (sd_name skill)),
             (''execution_context'', PStr (execution_context_value (sd_execution_context skill))),
             (''requested_allowed_tools'', strs (sd_allowed_tools skill))] @
            effective_trace tools base_skills (pc_mode pc) mem isol\<rparr>)"

text \<open>The permission service as an argument: \<open>None\<close> when it is not a permission engine.\<close>

definition with_effective_permission_policies ::
  "permission_engine option \<Rightarrow> execution_policy \<Rightarrow> execution_policy" where
  "with_effective_permission_policies engine p =
     (case engine of
        None \<Rightarrow> p
      | Some e \<Rightarrow> p\<lparr>ep_effective_permission_policies :=
          resolved_policies (resolve_context e (Some (ep_permission_context p))
            (pc_session_id (ep_permission_context p)))\<rparr>)"

text \<open>The pools and the context an invocation starts from (\<open>resolve_execution_policy\<close> of the agent
  execution service).\<close>

record agent_invocation =
  ai_session_id :: string
  ai_parent_policy :: "execution_policy option"
  ai_parent_tool_pool :: "tool_definition list"
  ai_parent_skill_pool :: "skill_definition list"
  ai_permission_context :: "permission_context option"

definition fresh_context :: "string \<Rightarrow> permission_context" where
  "fresh_context sid = \<lparr>pc_session_id = sid, pc_mode = M_DEFAULT, pc_rules = [], pc_policies = [],
     pc_metadata = []\<rparr>"

definition resolve_execution_policy ::
  "permission_engine option \<Rightarrow> tool_definition list \<Rightarrow> skill_definition list \<Rightarrow> agent_invocation \<Rightarrow>
   agent_definition \<Rightarrow> execution_policy" where
  "resolve_execution_policy engine registry_tools registry_skills invo agent =
     (let base_tools = (if ai_parent_tool_pool invo \<noteq> [] then ai_parent_tool_pool invo
            else case ai_parent_policy invo of Some p \<Rightarrow> ep_tool_pool p | None \<Rightarrow> registry_tools);
          base_skills = (if ai_parent_skill_pool invo \<noteq> [] then ai_parent_skill_pool invo
            else case ai_parent_policy invo of Some p \<Rightarrow> ep_skill_pool p | None \<Rightarrow> registry_skills);
          pc = (case ai_permission_context invo of Some c \<Rightarrow> c
            | None \<Rightarrow> (case ai_parent_policy invo of
                Some p \<Rightarrow> ep_permission_context p | None \<Rightarrow> fresh_context (ai_session_id invo)))
      in with_effective_permission_policies engine
          (resolve_agent_execution_policy agent (ai_parent_policy invo) base_tools base_skills pc))"

subsection \<open>The policy state\<close>

record execution_policy_state =
  es_effective :: execution_policy
  es_history :: "(string, pyval) dict list"

definition new_policy_state :: "execution_policy \<Rightarrow> execution_policy_state" where
  "new_policy_state p = \<lparr>es_effective = p, es_history = (if ep_trace p = [] then [] else [ep_trace p])\<rparr>"

definition apply_policy :: "execution_policy \<Rightarrow> execution_policy_state \<Rightarrow> execution_policy_state" where
  "apply_policy p s = \<lparr>es_effective = p,
     es_history = (if ep_trace p = [] then es_history s else es_history s @ [ep_trace p])\<rparr>"

definition policy_to_dict :: "permission_policy \<Rightarrow> pyval" where
  "policy_to_dict p = PDict (
     [(''name'', PStr (po_name p)), (''rules'', PList (map (PDict o rule_entries) (po_rules p)))] @
     opt_entry ''fallback_behavior'' (map_option (PStr o behavior_value) (po_fallback p)) @
     opt_entry ''fallback_message'' (map_option PStr (po_fallback_message p)) @
     opt_entry ''source'' (map_option PStr (po_source p)) @
     (if po_metadata p = [] then [] else [(''metadata'', PDict (po_metadata p))]) @
     (if po_fallback_metadata p = [] then [] else [(''fallback_metadata'', PDict (po_fallback_metadata p))]))"

definition serialize_policy :: "execution_policy \<Rightarrow> pyval" where
  "serialize_policy p =
     (let pc = ep_permission_context p;
          layers = (if ep_effective_permission_policies p \<noteq> [] then ep_effective_permission_policies p
                    else pc_policies pc)
      in PDict
        [(''tools'', strs (map td_name (ep_tool_pool p))), (''skills'', strs (map sd_name (ep_skill_pool p))),
         (''permission_mode'', PStr (mode_value (pc_mode pc))),
         (''permission_rules'', PList (map (PDict o rule_entries) (pc_rules pc))),
         (''permission_policies'', PList (map policy_to_dict layers)),
         (''permission_scopes'', strs (policy_scopes pc)),
         (''memory_scope'', of_opt (PStr o memory_value) (ep_memory_scope p)),
         (''isolation_mode'', PStr (isolation_value (ep_isolation_mode p))),
         (''trace'', PDict (ep_trace p))])"

definition state_snapshot :: "execution_policy_state \<Rightarrow> pyval" where
  "state_snapshot s = PDict [(''effective'', serialize_policy (es_effective s)),
     (''history'', PList (map PDict (es_history s)))]"

subsection \<open>Delegation\<close>

datatype projection_mode = Summary | Detailed

record delegation_policy =
  dp_max_depth :: int
  dp_projection :: projection_mode
  dp_summary_max_chars :: int

definition include_child_messages :: "delegation_policy \<Rightarrow> bool" where
  "include_child_messages p = (dp_projection p = Detailed)"

definition default_delegation :: delegation_policy where
  "default_delegation = \<lparr>dp_max_depth = 1, dp_projection = Summary, dp_summary_max_chars = 2000\<rparr>"

fun projection_value :: "projection_mode \<Rightarrow> string" where
  "projection_value Summary = ''summary''"
| "projection_value Detailed = ''detailed''"

definition delegation_serialize :: "delegation_policy \<Rightarrow> (string, pyval) dict" where
  "delegation_serialize p =
     [(''max_depth'', PInt (dp_max_depth p)),
      (''child_result_projection'', PStr (projection_value (dp_projection p))),
      (''summary_max_chars'', PInt (dp_summary_max_chars p))]"

definition get_or :: "(string, pyval) dict \<Rightarrow> string \<Rightarrow> pyval \<Rightarrow> pyval" where
  "get_or d k v = (case map_of d k of None \<Rightarrow> v | Some x \<Rightarrow> x)"

definition coerce_non_negative_int :: "pyval \<Rightarrow> int \<Rightarrow> int" where
  "coerce_non_negative_int v d = (case coerce_optional_int v of None \<Rightarrow> d | Some i \<Rightarrow> max 0 i)"

definition coerce_positive_int :: "pyval \<Rightarrow> int \<Rightarrow> int" where
  "coerce_positive_int v d =
     (case coerce_optional_int v of None \<Rightarrow> d | Some i \<Rightarrow> if 0 < i then i else d)"

definition projection_name :: "string \<Rightarrow> projection_mode option" where
  "projection_name s =
     (if s \<in> {''detailed'', ''detail'', ''messages'', ''full'', ''legacy''} then Some Detailed
      else if s \<in> {''summary'', ''summary_first'', ''summary-only'', ''summary_only''} then Some Summary
      else None)"

definition coerce_child_result_projection :: "(string, pyval) dict \<Rightarrow> projection_mode" where
  "coerce_child_result_projection d =
     (let explicit = get_or d ''child_result_projection'' (py_get d ''result_projection'');
          explicit = (if explicit = PNone then py_get d ''projection'' else explicit);
          include = get_or d ''include_child_messages''
            (get_or d ''include_messages'' (py_get d ''detailed_child_results''))
      in case (if explicit = PNone then None
               else projection_name (map lower_char (strip (py_str explicit)))) of
           Some m \<Rightarrow> m
         | None \<Rightarrow> if include = PBool True then Detailed else Summary)"

definition resolve_delegation_policy :: "(string, pyval) dict option \<Rightarrow> delegation_policy" where
  "resolve_delegation_policy md =
     (let raw = (case md of None \<Rightarrow> [] | Some d \<Rightarrow> coerce_mapping (py_get d ''delegation''))
      in \<lparr>dp_max_depth = coerce_non_negative_int (get_or raw ''max_depth'' (py_get raw ''max_child_depth'')) 1,
          dp_projection = coerce_child_result_projection raw,
          dp_summary_max_chars =
            coerce_positive_int (get_or raw ''summary_max_chars'' (py_get raw ''summary_max_length'')) 2000\<rparr>)"

definition delegation_depth_from_metadata :: "(string, pyval) dict option \<Rightarrow> int" where
  "delegation_depth_from_metadata md =
     (case md of None \<Rightarrow> 0
      | Some d \<Rightarrow> coerce_non_negative_int (get_or d ''delegation_depth'' (py_get d ''child_delegation_depth'')) 0)"

text \<open>\<open>DelegationPolicyError\<close>: the current depth, the attempted one and the limit.\<close>

datatype delegation_error = Delegation_Depth_Exceeded int int int

definition enforce_child_delegation_allowed ::
  "(string, pyval) dict option \<Rightarrow> (string, pyval) dict option \<Rightarrow> delegation_error + int" where
  "enforce_child_delegation_allowed runtime_md execution_md =
     (let p = resolve_delegation_policy runtime_md;
          depth = delegation_depth_from_metadata execution_md
      in if dp_max_depth p \<le> depth then Inl (Delegation_Depth_Exceeded depth (depth + 1) (dp_max_depth p))
         else Inr (depth + 1))"

text \<open>\<open>_with_child_delegation_depth\<close>; whether the invocation asks for a child run is an argument.\<close>

definition with_child_delegation_depth ::
  "(string, pyval) dict \<Rightarrow> bool \<Rightarrow> (string, pyval) dict \<Rightarrow> delegation_error + (string, pyval) dict" where
  "with_child_delegation_depth runtime_md child md =
     (if \<not> child then Inr md
      else rbind (enforce_child_delegation_allowed (Some runtime_md) (Some md)) (\<lambda>depth.
        Inr (AList.update ''delegation_depth'' (PInt depth) md)))"

end
