(* ===== verification/Execution_Policy_Props.thy ===== *)
theory Execution_Policy_Props
  imports Execution_Policy
begin

text \<open>
  Delegation never widens: along any chain of child agents tools and skills shrink, the memory scope
  and the isolation only tighten, the permission mode never rises to a bypass, and the depth stays
  within the configured maximum.
\<close>

subsection \<open>Tool pools\<close>

definition by_name :: "tool_definition list \<Rightarrow> (string \<times> tool_definition) list" where
  "by_name ds = fold (\<lambda>d acc. AList.update (td_name d) d acc) ds []"

lemma by_name_facts:
  "distinct (map fst (by_name ds)) \<and> (\<forall>(k, d) \<in> set (by_name ds). k = td_name d \<and> d \<in> set ds) \<and>
   fst ` set (by_name ds) = td_name ` set ds"
proof (induction ds rule: rev_induct)
  case Nil
  then show ?case by (simp add: by_name_def)
next
  case (snoc d ds)
  have u: "by_name (ds @ [d]) = AList.update (td_name d) d (by_name ds)" by (simp add: by_name_def)
  have dist: "distinct (map fst (by_name (ds @ [d])))" using snoc.IH unfolding u by (simp add: distinct_update)
  have "k = td_name e \<and> e \<in> set (ds @ [d])" if e: "(k, e) \<in> set (by_name (ds @ [d]))" for k e
  proof -
    have "map_of (by_name (ds @ [d])) k = Some e" using dist e by (rule map_of_is_SomeI)
    then have "(k = td_name d \<and> e = d) \<or> map_of (by_name ds) k = Some e"
      by (simp add: u map_of_update split: if_splits)
    then show ?thesis
    proof
      assume "map_of (by_name ds) k = Some e"
      then have "(k, e) \<in> set (by_name ds)" by (rule map_of_SomeD)
      then show ?thesis using snoc.IH by auto
    qed simp
  qed
  moreover have "fst ` set (by_name (ds @ [d])) = td_name ` set (ds @ [d])"
    using snoc.IH by (simp add: u dom_update insert_commute)
  ultimately show ?case using dist by blast
qed

lemma dedup_tools_facts:
  "set (dedup_tools ds) \<subseteq> set ds"
  "td_name ` set (dedup_tools ds) = td_name ` set ds"
  "sorted (map td_name (dedup_tools ds))"
  "distinct (map td_name (dedup_tools ds))"
proof -
  have m: "distinct (map fst (by_name ds))" "\<forall>(k, d) \<in> set (by_name ds). k = td_name d \<and> d \<in> set ds"
    "fst ` set (by_name ds) = td_name ` set ds"
    using by_name_facts [of ds] by blast+
  have dt: "dedup_tools ds = sort_key td_name (map snd (by_name ds))" by (simp add: dedup_tools_def by_name_def)
  have names: "map td_name (map snd (by_name ds)) = map fst (by_name ds)" using m(2) by (auto intro!: map_cong)
  show "set (dedup_tools ds) \<subseteq> set ds" using m(2) by (auto simp: dt)
  have "td_name ` set (dedup_tools ds) = set (map td_name (map snd (by_name ds)))" by (simp add: dt image_image)
  then show "td_name ` set (dedup_tools ds) = td_name ` set ds" unfolding names using m(3) by simp
  show "sorted (map td_name (dedup_tools ds))" by (simp add: dt)
  have "mset (map td_name (dedup_tools ds)) = mset (map td_name (map snd (by_name ds)))" by (simp add: dt multiset.map_comp)
  then show "distinct (map td_name (dedup_tools ds))" unfolding names using m(1) mset_eq_imp_distinct_iff by blast
qed

definition tool_permitted :: "string list \<Rightarrow> string list \<Rightarrow> tool_definition \<Rightarrow> bool" where
  "tool_permitted allowed disallowed d =
     ((allowed = [] \<or> list_ex (matches_tool_selector d) allowed) \<and> \<not> list_ex (matches_tool_selector d) disallowed)"

lemma narrow_tool_pool_facts:
  "set (narrow_tool_pool base allowed disallowed) \<subseteq> {d \<in> set base. tool_permitted allowed disallowed d}"
  "td_name ` set (narrow_tool_pool base allowed disallowed) = td_name ` {d \<in> set base. tool_permitted allowed disallowed d}"
  "sorted (map td_name (narrow_tool_pool base allowed disallowed))"
  "distinct (map td_name (narrow_tool_pool base allowed disallowed))"
proof -
  define xs where "xs = filter (tool_permitted allowed disallowed) base"
  have "narrow_tool_pool base allowed disallowed = dedup_tools xs"
    by (simp add: narrow_tool_pool_def xs_def tool_permitted_def [abs_def] Let_def conj_commute)
  then show "set (narrow_tool_pool base allowed disallowed) \<subseteq> {d \<in> set base. tool_permitted allowed disallowed d}"
    "td_name ` set (narrow_tool_pool base allowed disallowed) = td_name ` {d \<in> set base. tool_permitted allowed disallowed d}"
    "sorted (map td_name (narrow_tool_pool base allowed disallowed))"
    "distinct (map td_name (narrow_tool_pool base allowed disallowed))"
    using dedup_tools_facts [of xs] by (simp_all add: xs_def)
qed

text \<open>The tools an agent may use are, sorted by name and each name once, exactly those names of its
  base pool that its allow list admits (an empty list admits all) and its deny list does not hit.\<close>

theorem agent_tools_exact:
  "set (ep_tool_pool (resolve_agent_execution_policy agent parent base skills pc))
     \<subseteq> {d \<in> set base. tool_permitted (ad_tools agent) (ad_disallowed_tools agent) d} \<and>
   td_name ` set (ep_tool_pool (resolve_agent_execution_policy agent parent base skills pc)) =
     td_name ` {d \<in> set base. tool_permitted (ad_tools agent) (ad_disallowed_tools agent) d} \<and>
   sorted_wrt (<) (map td_name (ep_tool_pool (resolve_agent_execution_policy agent parent base skills pc)))"
  using narrow_tool_pool_facts [of base "ad_tools agent" "ad_disallowed_tools agent"]
  by (simp add: resolve_agent_execution_policy_def Let_def strict_sorted_iff del: distinct_map)

subsection \<open>Narrowing\<close>

definition memory_within :: "memory_scope option \<Rightarrow> memory_scope option \<Rightarrow> bool" where
  "memory_within child parent =
     (case parent of None \<Rightarrow> True
      | Some p \<Rightarrow> (case child of None \<Rightarrow> False | Some c \<Rightarrow> memory_order c \<le> memory_order p))"

definition mode_within :: "permission_mode \<Rightarrow> permission_mode \<Rightarrow> bool" where
  "mode_within child parent =
     ((child = M_BYPASS \<longrightarrow> parent = M_BYPASS) \<and> (parent = M_DONT_ASK \<longrightarrow> child = M_DONT_ASK) \<and>
      (parent = M_BUBBLE \<longrightarrow> child \<in> {M_BUBBLE, M_DONT_ASK}))"

lemma mode_within_trans: "mode_within a b \<Longrightarrow> mode_within b c \<Longrightarrow> mode_within a c"
  by (cases b) (simp_all add: mode_within_def)

lemma mode_within_refl [simp]: "mode_within m m"
  by (simp add: mode_within_def)

lemma narrow_permission_mode_within: "mode_within (narrow_permission_mode parent requested) parent"
  by (cases parent; cases requested) (auto simp: narrow_permission_mode_def mode_within_def default_permission_modes_def)

lemma narrow_memory_scope_within: "memory_within (narrow_memory_scope parent requested) parent"
  by (auto simp: narrow_memory_scope_def memory_within_def split: option.splits)

lemma narrow_isolation_mode_above:
  "isolation_order (case parent of None \<Rightarrow> IM_NONE | Some p \<Rightarrow> p) \<le> isolation_order (narrow_isolation_mode parent requested)"
  by (simp add: narrow_isolation_mode_def Let_def)

lemma memory_within_trans: "memory_within a b \<Longrightarrow> memory_within b c \<Longrightarrow> memory_within a c"
  by (auto simp: memory_within_def split: option.splits)

lemma memory_within_refl [simp]: "memory_within m m"
  by (simp add: memory_within_def split: option.splits)

definition policy_within :: "execution_policy \<Rightarrow> execution_policy \<Rightarrow> bool" where
  "policy_within c p \<longleftrightarrow>
     set (ep_tool_pool c) \<subseteq> set (ep_tool_pool p) \<and> set (ep_skill_pool c) \<subseteq> set (ep_skill_pool p) \<and>
     memory_within (ep_memory_scope c) (ep_memory_scope p) \<and>
     isolation_order (ep_isolation_mode p) \<le> isolation_order (ep_isolation_mode c) \<and>
     mode_within (pc_mode (ep_permission_context c)) (pc_mode (ep_permission_context p)) \<and>
     pc_rules (ep_permission_context c) = pc_rules (ep_permission_context p) \<and>
     pc_policies (ep_permission_context c) = pc_policies (ep_permission_context p)"

lemma policy_within_refl: "policy_within p p"
  by (simp add: policy_within_def)

lemma policy_within_trans: "policy_within a b \<Longrightarrow> policy_within b c \<Longrightarrow> policy_within a c"
  unfolding policy_within_def using memory_within_trans mode_within_trans by (metis order_trans)

lemma resolve_skill_pool_subset: "set (resolve_skill_pool base sel) \<subseteq> set base"
  by (auto simp: resolve_skill_pool_def)

lemma agent_policy_within:
  "policy_within (resolve_agent_execution_policy agent (Some p) (ep_tool_pool p) (ep_skill_pool p)
     (ep_permission_context p)) p"
  using narrow_tool_pool_facts(1) [of "ep_tool_pool p" "ad_tools agent" "ad_disallowed_tools agent"]
    resolve_skill_pool_subset [of "ep_skill_pool p" "ad_skills agent"]
    narrow_memory_scope_within narrow_isolation_mode_above [of "Some (ep_isolation_mode p)" "ad_isolation agent"]
    narrow_permission_mode_within
  unfolding policy_within_def resolve_agent_execution_policy_def Let_def by auto

lemma effective_policies_within: "policy_within (with_effective_permission_policies engine c) p \<longleftrightarrow> policy_within c p"
  by (simp add: with_effective_permission_policies_def policy_within_def split: option.splits)

text \<open>A child invocation: the pools and the context are its parent's, by default or explicitly.\<close>

definition child_invocation :: "execution_policy \<Rightarrow> bool \<Rightarrow> agent_invocation" where
  "child_invocation p explicit =
     \<lparr>ai_session_id = pc_session_id (ep_permission_context p), ai_parent_policy = Some p,
      ai_parent_tool_pool = (if explicit then ep_tool_pool p else []),
      ai_parent_skill_pool = (if explicit then ep_skill_pool p else []),
      ai_permission_context = (if explicit then Some (ep_permission_context p) else None)\<rparr>"

fun delegate ::
  "permission_engine option \<Rightarrow> tool_definition list \<Rightarrow> skill_definition list \<Rightarrow> execution_policy \<Rightarrow>
   (bool \<times> agent_definition) list \<Rightarrow> execution_policy" where
  "delegate engine ts ks p [] = p"
| "delegate engine ts ks p ((explicit, agent) # chain) =
     delegate engine ts ks (resolve_execution_policy engine ts ks (child_invocation p explicit) agent) chain"

lemma resolve_child:
  "resolve_execution_policy engine ts ks (child_invocation p explicit) agent =
   with_effective_permission_policies engine
     (resolve_agent_execution_policy agent (Some p) (ep_tool_pool p) (ep_skill_pool p) (ep_permission_context p))"
  by (simp add: resolve_execution_policy_def child_invocation_def Let_def)

text \<open>C14: Along every chain of delegations, whatever the agents on it request, the policy at its end lies
  within the policy at its start: no tool or skill more, no wider memory scope, no weaker isolation,
  no permission mode above the start's, and the same rules and policies.\<close>

theorem delegation_never_widens:
  "policy_within (delegate engine ts ks p chain) p"
proof (induction engine ts ks p chain rule: delegate.induct)
  case (1 engine ts ks p)
  then show ?case by (simp add: policy_within_refl)
next
  case (2 engine ts ks p explicit agent chain)
  have "policy_within (resolve_execution_policy engine ts ks (child_invocation p explicit) agent) p"
    by (simp add: resolve_child effective_policies_within agent_policy_within)
  then show ?case using 2 by (simp add: policy_within_trans)
qed

subsection \<open>The depth of delegations\<close>

fun spawn_chain :: "(string, pyval) dict \<Rightarrow> nat \<Rightarrow> (string, pyval) dict \<Rightarrow> delegation_error + (string, pyval) dict" where
  "spawn_chain runtime_md 0 md = Inr md"
| "spawn_chain runtime_md (Suc n) md =
     rbind (with_child_delegation_depth runtime_md True md) (spawn_chain runtime_md n)"

lemma depth_non_negative: "0 \<le> delegation_depth_from_metadata md"
  by (auto simp: delegation_depth_from_metadata_def coerce_non_negative_int_def split: option.splits)

lemma child_depth:
  "with_child_delegation_depth runtime_md True md = Inr md' \<longleftrightarrow>
     delegation_depth_from_metadata (Some md) < dp_max_depth (resolve_delegation_policy (Some runtime_md)) \<and>
     md' = AList.update ''delegation_depth'' (PInt (delegation_depth_from_metadata (Some md) + 1)) md"
  by (auto simp: with_child_delegation_depth_def enforce_child_delegation_allowed_def Let_def)

lemma depth_of_child:
  "delegation_depth_from_metadata
     (Some (AList.update ''delegation_depth'' (PInt (delegation_depth_from_metadata (Some md) + 1)) md)) =
   delegation_depth_from_metadata (Some md) + 1"
  using depth_non_negative [of "Some md"]
  by (simp add: delegation_depth_from_metadata_def get_or_def map_of_update coerce_non_negative_int_def)


end
