(* ===== verification/Request_Override.thy ===== *)
theory Request_Override
  imports Py_Parse
begin

text \<open>
  Request overrides (\<open>contracts.py\<close>): reading one from a mapping, merging two, and the stamp the hook
  bus puts on the one a hook returns (\<open>hooks/bus.py\<close>).  The effort and the invocation mode are values
  of any type, so \<open>PNone\<close> stands for their absence.
\<close>

record request_override =
  qo_model :: "string option"
  qo_effort :: pyval
  qo_route :: "string option"
  qo_invocation_mode :: pyval
  qo_max_output_tokens :: "int option"
  qo_source :: "string option"
  qo_field_sources :: "(string, string) dict"
  qo_resumable :: bool
  qo_metadata :: "(string, pyval) dict"

definition override_fields :: "string list" where
  "override_fields = [''requested_model'', ''requested_effort'', ''requested_model_route'',
     ''invocation_mode_override'', ''max_output_tokens_override'']"

definition field_set :: "request_override \<Rightarrow> string \<Rightarrow> bool" where
  "field_set o' f =
     (if f = ''requested_model'' then qo_model o' \<noteq> None
      else if f = ''requested_effort'' then qo_effort o' \<noteq> PNone
      else if f = ''requested_model_route'' then qo_route o' \<noteq> None
      else if f = ''invocation_mode_override'' then qo_invocation_mode o' \<noteq> PNone
      else f = ''max_output_tokens_override'' \<and> qo_max_output_tokens o' \<noteq> None)"

text \<open>\<open>__bool__\<close>.\<close>

definition override_truthy :: "request_override \<Rightarrow> bool" where
  "override_truthy o' = list_ex (field_set o') override_fields"

definition override_or_none :: "request_override \<Rightarrow> request_override option" where
  "override_or_none o' = (if override_truthy o' then Some o' else None)"

definition override_serialize :: "request_override \<Rightarrow> (string, pyval) dict" where
  "override_serialize o' =
     [(''requested_model'', case qo_model o' of None \<Rightarrow> PNone | Some s \<Rightarrow> PStr s),
      (''requested_effort'', qo_effort o'),
      (''requested_model_route'', case qo_route o' of None \<Rightarrow> PNone | Some s \<Rightarrow> PStr s),
      (''invocation_mode_override'', qo_invocation_mode o'),
      (''max_output_tokens_override'', case qo_max_output_tokens o' of None \<Rightarrow> PNone | Some i \<Rightarrow> PInt i),
      (''source'', case qo_source o' of None \<Rightarrow> PNone | Some s \<Rightarrow> PStr s),
      (''field_sources'', PDict (map (\<lambda>(k, v). (k, PStr v)) (qo_field_sources o'))),
      (''resumable'', PBool (qo_resumable o')),
      (''metadata'', PDict (qo_metadata o'))]"

definition get_or_get :: "(string, pyval) dict \<Rightarrow> string \<Rightarrow> string \<Rightarrow> pyval" where
  "get_or_get d k k' = (case map_of d k of None \<Rightarrow> py_get d k' | Some v \<Rightarrow> v)"

definition first_some :: "'a option \<Rightarrow> 'a option \<Rightarrow> 'a option" where
  "first_some a b = (case a of None \<Rightarrow> b | Some x \<Rightarrow> Some x)"

definition coerce_request_override :: "(string, pyval) dict \<Rightarrow> request_override option" where
  "coerce_request_override d =
     (let md = coerce_mapping (py_get d ''metadata'');
          src = first_some (coerce_str (py_get d ''source'')) (coerce_str (py_get d ''source_skill''));
          md' = (case src of
              None \<Rightarrow> md
            | Some s \<Rightarrow> if py_truthy (py_get md ''sources'') then md
                else AList.update ''sources'' (PList [PStr s]) md)
      in override_or_none
        \<lparr>qo_model = coerce_str (py_or (py_get d ''requested_model'') (py_get d ''model'')),
         qo_effort = get_or_get d ''requested_effort'' ''effort'',
         qo_route = coerce_str (py_or (py_get d ''requested_model_route'') (py_get d ''model_route'')),
         qo_invocation_mode = get_or_get d ''invocation_mode_override'' ''invocation_mode'',
         qo_max_output_tokens =
           coerce_optional_int (get_or_get d ''max_output_tokens_override'' ''max_output_tokens''),
         qo_source = src,
         qo_field_sources = map (\<lambda>(k, v). (k, py_str v))
           (filter (\<lambda>(k, v). v \<noteq> PNone) (coerce_mapping (py_get d ''field_sources''))),
         qo_resumable = py_truthy (py_get d ''resumable''),
         qo_metadata = md'\<rparr>)"

subsection \<open>Merging\<close>

definition resolved_field_source :: "request_override \<Rightarrow> request_override \<Rightarrow> string \<Rightarrow> string option" where
  "resolved_field_source cur incoming f =
     (let pick = (\<lambda>o'. case map_of (qo_field_sources o') f of
            Some s \<Rightarrow> if s \<noteq> [] then Some s else qo_source o' | None \<Rightarrow> qo_source o')
      in if field_set incoming f then pick incoming else pick cur)"

text \<open>\<open>metadata.get("sources", ())\<close> as a tuple: the elements of a list, the characters of a string, the
  keys of a dictionary.  A number, a bool or \<open>None\<close> there raises in Python; here it counts as empty.\<close>

fun elements_of :: "pyval \<Rightarrow> pyval list" where
  "elements_of (PList xs) = xs"
| "elements_of (PStr s) = map (\<lambda>c. PStr [c]) s"
| "elements_of (PDict d) = map (PStr o fst) d"
| "elements_of v = []"

definition merged_sources :: "request_override \<Rightarrow> request_override \<Rightarrow> string list" where
  "merged_sources cur incoming =
     rev (remdups (rev (List.map_filter coerce_str
       (elements_of (py_get (qo_metadata cur) ''sources'') @
        elements_of (py_get (qo_metadata incoming) ''sources'') @
        [case qo_source cur of None \<Rightarrow> PNone | Some s \<Rightarrow> PStr s,
         case qo_source incoming of None \<Rightarrow> PNone | Some s \<Rightarrow> PStr s]))))"

definition nonempty_or :: "string option \<Rightarrow> string option \<Rightarrow> string option" where
  "nonempty_or a b = (case a of Some s \<Rightarrow> if s \<noteq> [] then Some s else b | None \<Rightarrow> b)"

definition merge_request_override_state ::
  "request_override option \<Rightarrow> request_override option \<Rightarrow> request_override option" where
  "merge_request_override_state cur incoming =
     (case incoming of
        None \<Rightarrow> cur
      | Some i \<Rightarrow>
          (case cur of
             None \<Rightarrow> Some i
           | Some c \<Rightarrow>
               let md = py_update (qo_metadata c) (qo_metadata i);
                   srcs = merged_sources c i;
                   md = (if srcs = [] then md else AList.update ''sources'' (PList (map PStr srcs)) md);
                   md = (case qo_source i of
                       Some s \<Rightarrow>
                         if take 6 s = ''skill:'' \<and> map_of md ''source_skill'' = None
                         then md @ [(''source_skill'', PStr (drop 6 s))] else md
                     | None \<Rightarrow> md)
               in override_or_none
                 \<lparr>qo_model = first_some (qo_model i) (qo_model c),
                  qo_effort = (if qo_effort i \<noteq> PNone then qo_effort i else qo_effort c),
                  qo_route = first_some (qo_route i) (qo_route c),
                  qo_invocation_mode =
                    (if qo_invocation_mode i \<noteq> PNone then qo_invocation_mode i else qo_invocation_mode c),
                  qo_max_output_tokens = first_some (qo_max_output_tokens i) (qo_max_output_tokens c),
                  qo_source = nonempty_or (qo_source i) (qo_source c),
                  qo_field_sources = List.map_filter
                    (\<lambda>f. map_option (Pair f) (resolved_field_source c i f)) override_fields,
                  qo_resumable = (qo_resumable i \<or> qo_resumable c),
                  qo_metadata = md\<rparr>))"

subsection \<open>The stamp of a hook\<close>

definition set_default :: "'k \<Rightarrow> 'v \<Rightarrow> ('k, 'v) dict \<Rightarrow> ('k, 'v) dict" where
  "set_default k v d = (if map_of d k = None then d @ [(k, v)] else d)"

definition stamp_request_override ::
  "string \<Rightarrow> string \<Rightarrow> string \<Rightarrow> request_override option \<Rightarrow> request_override option" where
  "stamp_request_override rid owner source_kind st =
     (case st of
        None \<Rightarrow> None
      | Some s \<Rightarrow>
          let src = (case qo_source s of Some x \<Rightarrow> if x \<noteq> [] then x else rid | None \<Rightarrow> rid);
              fs = fold (\<lambda>f acc. if field_set s f then set_default f src acc else acc) override_fields
                (qo_field_sources s);
              md = set_default ''source_kind'' (PStr source_kind)
                (set_default ''owner'' (PStr owner) (set_default ''registration_id'' (PStr rid) (qo_metadata s)));
              srcs = filter (\<lambda>x. strip x \<noteq> []) (map py_str (elements_of (py_get md ''sources'')))
          in Some (s\<lparr>qo_source := Some src, qo_field_sources := fs,
               qo_metadata := AList.update ''sources''
                 (PList (map PStr (sort (remdups (src # srcs))))) md\<rparr>))"

end
