(* ===== verification/Hook_Data.thy ===== *)
theory Hook_Data
  imports Request_Override Permissions_Data
begin

text \<open>
  The hook platform (\<open>hooks/platform.py\<close>, \<open>hooks/models.py\<close>): kinds, scopes, contracts and the table of
  phases, and the part of the bus that works on one effect (\<open>hooks/bus.py\<close>): the coercion of what a
  handler returns, the filter of an effect by the contracts, and the aggregation of effects.
\<close>

subsection \<open>Kinds\<close>

datatype effect_class = Observe | Transform | Decide | Sidecar

datatype handler_kind = HK_CALLBACK | HK_HTTP | HK_COMMAND | HK_AGENT | HK_PROMPT

datatype source_kind = SK_RUNTIME_CONFIG | SK_HOST_API | SK_DEFINITION | SK_SESSION_API | SK_TURN_API
  | SK_COMPAT

datatype scope_lifetime = SESSION_TEMPLATE | SESSION | TURN

datatype activation = PENDING_ACTIVATION | ACTIVE | RELEASED | EXPIRED | REJECTED

datatype stop_disposition = HALT_FAILURE | BLOCK_SESSION | CONTINUE_SAME_TURN | ALLOW_TERMINAL

datatype phase_tier = Kernel_Public | Control_Plane_Public | Internal_Only

datatype support_level = Stable_Public | Advanced | Internal

definition external :: "handler_kind \<Rightarrow> bool" where
  "external k = (k \<noteq> HK_CALLBACK)"

fun source_value :: "source_kind \<Rightarrow> string" where
  "source_value SK_RUNTIME_CONFIG = ''runtime_config''"
| "source_value SK_HOST_API = ''host_api''"
| "source_value SK_DEFINITION = ''definition''"
| "source_value SK_SESSION_API = ''session_api''"
| "source_value SK_TURN_API = ''turn_api''"
| "source_value SK_COMPAT = ''compat''"

fun source_precedence :: "source_kind \<Rightarrow> nat" where
  "source_precedence SK_RUNTIME_CONFIG = 0"
| "source_precedence SK_HOST_API = 1"
| "source_precedence SK_DEFINITION = 2"
| "source_precedence SK_SESSION_API = 3"
| "source_precedence SK_TURN_API = 4"
| "source_precedence SK_COMPAT = 3"

fun class_value :: "effect_class \<Rightarrow> string" where
  "class_value Observe = ''observe''"
| "class_value Transform = ''transform''"
| "class_value Decide = ''decide''"
| "class_value Sidecar = ''sidecar''"

subsection \<open>Phases\<close>

record phase_contract =
  pk_phase :: string
  pk_tier :: phase_tier
  pk_support :: support_level
  pk_classes :: "effect_class list"
  pk_fields :: "string list"
  pk_external_allowed :: bool

definition phase_row ::
  "string \<Rightarrow> phase_tier \<Rightarrow> support_level \<Rightarrow> effect_class list \<Rightarrow> string list \<Rightarrow> bool \<Rightarrow> phase_contract"
where
  "phase_row p t s cs fs e = \<lparr>pk_phase = p, pk_tier = t, pk_support = s, pk_classes = cs, pk_fields = fs,
     pk_external_allowed = e\<rparr>"

definition public_phase_contracts :: "phase_contract list" where
  "public_phase_contracts =
     [phase_row ''SessionStart'' Kernel_Public Stable_Public [Observe, Sidecar]
        [''additional_context'', ''notifications'', ''metadata''] False,
      phase_row ''UserPromptSubmit'' Kernel_Public Advanced [Observe, Transform, Sidecar]
        [''additional_context'', ''notifications'', ''metadata''] False,
      phase_row ''PreToolUse'' Kernel_Public Stable_Public [Observe, Transform, Decide, Sidecar]
        [''updated_input'', ''continue_execution'', ''notifications'', ''metadata''] True,
      phase_row ''PostToolUse'' Kernel_Public Stable_Public [Observe, Decide, Sidecar]
        [''continue_execution'', ''notifications'', ''metadata''] True,
      phase_row ''PostToolUseFailure'' Kernel_Public Stable_Public [Observe, Sidecar]
        [''notifications'', ''metadata''] False,
      phase_row ''Stop'' Kernel_Public Stable_Public [Observe, Transform, Decide, Sidecar]
        [''additional_context'', ''continue_execution'', ''stop_disposition'', ''notifications'',
         ''injected_messages'', ''request_override'', ''metadata''] True,
      phase_row ''SubagentStop'' Kernel_Public Advanced [Observe, Sidecar]
        [''notifications'', ''metadata''] False,
      phase_row ''SessionEnd'' Kernel_Public Stable_Public [Observe, Sidecar]
        [''notifications'', ''metadata''] False,
      phase_row ''Notification'' Kernel_Public Stable_Public [Observe, Sidecar]
        [''notifications'', ''metadata''] False,
      phase_row ''Elicitation'' Kernel_Public Stable_Public [Observe, Decide, Sidecar]
        [''elicitation_result'', ''notifications'', ''metadata''] True,
      phase_row ''ElicitationResult'' Kernel_Public Stable_Public [Observe, Sidecar]
        [''notifications'', ''metadata''] False,
      phase_row ''PreCompact'' Kernel_Public Advanced [Observe, Sidecar]
        [''notifications'', ''metadata''] False,
      phase_row ''PostCompact'' Kernel_Public Advanced [Observe, Sidecar]
        [''notifications'', ''metadata''] False,
      phase_row ''PreContextAssemble'' Control_Plane_Public Advanced [Observe, Transform, Sidecar]
        [''additional_context'', ''notifications'', ''metadata''] False,
      phase_row ''PostContextAssemble'' Control_Plane_Public Advanced [Observe, Transform, Sidecar]
        [''additional_context'', ''request_override'', ''notifications'', ''metadata''] True,
      phase_row ''PreModelRequest'' Control_Plane_Public Stable_Public [Observe, Transform, Decide, Sidecar]
        [''continue_execution'', ''request_override'', ''notifications'', ''metadata''] True,
      phase_row ''PostModelResponse'' Control_Plane_Public Stable_Public [Observe, Transform, Sidecar]
        [''request_override'', ''injected_messages'', ''notifications'', ''metadata''] True,
      phase_row ''RecoveryDecision'' Control_Plane_Public Advanced [Observe, Transform, Decide, Sidecar]
        [''continue_execution'', ''request_override'', ''injected_messages'', ''metadata''] True]"

definition phase_contract_for :: "string \<Rightarrow> phase_contract" where
  "phase_contract_for p =
     (case List.find (\<lambda>c. pk_phase c = p) public_phase_contracts of
        Some c \<Rightarrow> c
      | None \<Rightarrow> phase_row p Internal_Only Internal [] [] False)"

definition is_public_phase :: "string \<Rightarrow> bool" where
  "is_public_phase p = (pk_tier (phase_contract_for p) \<noteq> Internal_Only)"

definition is_advanced_phase :: "string \<Rightarrow> bool" where
  "is_advanced_phase p = (pk_support (phase_contract_for p) = Advanced)"

definition hook_effect_fields :: "string list" where
  "hook_effect_fields = [''additional_context'', ''updated_input'', ''continue_execution'', ''notifications'',
     ''elicitation_result'', ''stop_disposition'', ''injected_messages'', ''request_override'', ''metadata'']"

subsection \<open>Registrations\<close>

record scope =
  sc_lifetime :: scope_lifetime
  sc_inherit :: bool
  sc_turn_id :: "string option"
  sc_session_id :: "string option"

record effect_contract =
  ec_classes :: "effect_class list"
  ec_fields :: "string list"
  ec_restrict :: bool

record hook_effect =
  he_additional_context :: "string list"
  he_updated_input :: "(string, pyval) dict option"
  he_continue :: bool
  he_notifications :: "string list"
  he_elicitation :: "(string, pyval) dict option"
  he_stop :: "string option"
  he_injected :: "pyval list"
  he_override :: "(string, pyval) dict option"
  he_metadata :: "(string, pyval) dict"

definition no_effect :: hook_effect where
  "no_effect = \<lparr>he_additional_context = [], he_updated_input = None, he_continue = True, he_notifications = [],
     he_elicitation = None, he_stop = None, he_injected = [], he_override = None, he_metadata = []\<rparr>"

text \<open>What a handler returns: an effect object, a text, a mapping, a sequence of these, or anything else.\<close>

datatype raw_result = Raw_Effect hook_effect | Raw_Text string | Raw_Mapping "(string, pyval) dict"
  | Raw_Sequence "raw_result list" | Raw_Other

text \<open>Of a handler manifest: whether a callback is attached, and the static effect of an authored
  document.\<close>

record handler_manifest =
  hm_kind :: handler_kind
  hm_binding :: "string option"
  hm_callback :: bool
  hm_static :: "raw_result option"

record registration =
  rg_id :: string
  rg_source_kind :: source_kind
  rg_source_ref :: string
  rg_owner :: string
  rg_phase :: string
  rg_session_id :: "string option"
  rg_turn_id :: "string option"
  rg_scope :: scope
  rg_matcher :: string
  rg_handler :: handler_manifest
  rg_contract :: effect_contract
  rg_once :: bool
  rg_metadata :: "(string, pyval) dict"
  rg_state :: activation
  rg_precedence :: "nat \<times> nat \<times> nat \<times> nat"
  rg_local_order :: nat
  rg_activation_turn_id :: "string option"
  rg_parent :: "string option"
  rg_rejection :: "string option"
  rg_descendants :: "string list"

subsection \<open>Coercing what a handler returns\<close>

datatype hook_error = Type_Error | Value_Error | Assertion_Error

text \<open>Iterating over a value: \<open>TypeError\<close> on \<open>None\<close>, a bool or a number.\<close>

fun iterate :: "pyval \<Rightarrow> hook_error + pyval list" where
  "iterate (PList xs) = Inr xs"
| "iterate (PStr s) = Inr (map (\<lambda>c. PStr [c]) s)"
| "iterate (PDict d) = Inr (map (PStr o fst) d)"
| "iterate v = Inl Type_Error"

fun disposition_of :: "string \<Rightarrow> stop_disposition option" where
  "disposition_of s =
     (if s = ''halt_failure'' then Some HALT_FAILURE
      else if s = ''block_session'' then Some BLOCK_SESSION
      else if s = ''continue_same_turn'' then Some CONTINUE_SAME_TURN
      else if s = ''allow_terminal'' then Some ALLOW_TERMINAL
      else None)"

fun disposition_value :: "stop_disposition \<Rightarrow> string" where
  "disposition_value HALT_FAILURE = ''halt_failure''"
| "disposition_value BLOCK_SESSION = ''block_session''"
| "disposition_value CONTINUE_SAME_TURN = ''continue_same_turn''"
| "disposition_value ALLOW_TERMINAL = ''allow_terminal''"

definition coerce_stop :: "pyval \<Rightarrow> string option" where
  "coerce_stop v = (if v = PNone then None else map_option disposition_value (disposition_of (py_str v)))"

definition get_default :: "(string, pyval) dict \<Rightarrow> string \<Rightarrow> pyval \<Rightarrow> pyval" where
  "get_default d k v = (case map_of d k of None \<Rightarrow> v | Some x \<Rightarrow> x)"

definition coerce_effect :: "(string, pyval) dict \<Rightarrow> hook_error + hook_effect" where
  "coerce_effect d =
     rbind (iterate (get_default d ''additional_context'' (PList []))) (\<lambda>ctx.
     rbind (iterate (get_default d ''notifications'' (PList []))) (\<lambda>nots.
     rbind (iterate (py_or (get_default d ''injected_messages'' (PList [])) (PList []))) (\<lambda>inj.
     Inr \<lparr>he_additional_context = map py_str ctx,
          he_updated_input = coerce_optional_mapping (py_get d ''updated_input''),
          he_continue = py_truthy (get_default d ''continue_execution'' (PBool True)),
          he_notifications = map py_str nots,
          he_elicitation = coerce_optional_mapping (py_get d ''elicitation_result''),
          he_stop = coerce_stop (py_get d ''stop_disposition''),
          he_injected = inj,
          he_override = coerce_optional_mapping (py_get d ''request_override''),
          he_metadata = coerce_mapping (py_get d ''metadata'')\<rparr>)))"

fun coerce_effects :: "raw_result \<Rightarrow> hook_error + hook_effect list" where
  "coerce_effects (Raw_Effect e) = Inr [e]"
| "coerce_effects (Raw_Text s) = Inr [no_effect\<lparr>he_additional_context := [s]\<rparr>]"
| "coerce_effects (Raw_Mapping d) = rbind (coerce_effect d) (\<lambda>e. Inr [e])"
| "coerce_effects (Raw_Sequence []) = Inr []"
| "coerce_effects (Raw_Sequence (r # rs)) =
     rbind (coerce_effects r) (\<lambda>es. rbind (coerce_effects (Raw_Sequence rs)) (\<lambda>fs. Inr (es @ fs)))"
| "coerce_effects Raw_Other = Inr []"

subsection \<open>The filter by the contracts\<close>

definition allowed_fields :: "string \<Rightarrow> effect_contract \<Rightarrow> string list" where
  "allowed_fields p c =
     (if ec_restrict c \<and> ec_fields c \<noteq> []
      then filter (\<lambda>f. f \<in> set (ec_fields c)) (pk_fields (phase_contract_for p))
      else pk_fields (phase_contract_for p))"

text \<open>Whether the effect has a value for a field (\<open>values\<close> of the code is not \<open>None\<close> there).\<close>

definition has_field :: "hook_effect \<Rightarrow> string \<Rightarrow> bool" where
  "has_field e f =
     (if f = ''additional_context'' then he_additional_context e \<noteq> []
      else if f = ''updated_input'' then he_updated_input e \<noteq> None
      else if f = ''continue_execution'' then \<not> he_continue e
      else if f = ''notifications'' then he_notifications e \<noteq> []
      else if f = ''elicitation_result'' then he_elicitation e \<noteq> None
      else if f = ''stop_disposition'' then he_stop e \<noteq> None
      else if f = ''injected_messages'' then he_injected e \<noteq> []
      else if f = ''request_override'' then he_override e \<noteq> None
      else f = ''metadata'' \<and> he_metadata e \<noteq> [])"

definition keep_fields :: "string list \<Rightarrow> hook_effect \<Rightarrow> hook_effect" where
  "keep_fields fs e =
     \<lparr>he_additional_context = (if ''additional_context'' \<in> set fs then he_additional_context e else []),
      he_updated_input = (if ''updated_input'' \<in> set fs then he_updated_input e else None),
      he_continue = (if ''continue_execution'' \<in> set fs then he_continue e else True),
      he_notifications = (if ''notifications'' \<in> set fs then he_notifications e else []),
      he_elicitation = (if ''elicitation_result'' \<in> set fs then he_elicitation e else None),
      he_stop = (if ''stop_disposition'' \<in> set fs
        then Option.bind (he_stop e) (map_option disposition_value \<circ> disposition_of) else None),
      he_injected = (if ''injected_messages'' \<in> set fs then he_injected e else []),
      he_override = (if ''request_override'' \<in> set fs then he_override e else None),
      he_metadata = (if ''metadata'' \<in> set fs then he_metadata e else [])\<rparr>"

record ignored_effect =
  ig_registration_id :: string
  ig_field :: string
  ig_reason :: string

definition sanitize_effect :: "hook_effect \<Rightarrow> registration \<Rightarrow> string \<Rightarrow> hook_effect \<times> ignored_effect list" where
  "sanitize_effect e r p =
     (let fs = allowed_fields p (rg_contract r)
      in (keep_fields fs e,
          map (\<lambda>f. \<lparr>ig_registration_id = rg_id r, ig_field = f, ig_reason = ''phase_contract:'' @ p\<rparr>)
            (filter (\<lambda>f. has_field e f \<and> f \<notin> set fs) hook_effect_fields)))"

end
