(* ===== verification/Hook_Bus.thy ===== *)
theory Hook_Bus
  imports Hook_Data
begin

text \<open>
  The hook bus (\<open>hooks/bus.py\<close>): the aggregation of effects, the registrations of a session with their
  activation states, the materialization of session templates, release and expiry, the inventory,
  and a dispatch.  A dispatch takes what each handler does as an argument, a function of the
  registration and of the bus at that moment that also returns the bus afterwards: a handler and the
  tasks that run while it is awaited may call the bus.  Fresh identifiers are arguments.
\<close>

subsection \<open>Aggregation\<close>

record injected_message =
  im_id :: "string option"
  im_role :: string
  im_content :: pyval
  im_metadata :: "(string, pyval) dict"

definition message_roles :: "string list" where
  "message_roles = [''system'', ''user'', ''assistant'', ''tool'', ''hook'', ''notification'']"

text \<open>\<open>_coerce_injected_messages\<close> on one value: a text, or a mapping whose role must be known; the
  content blocks are kept as a value.\<close>

fun coerce_injected :: "pyval \<Rightarrow> hook_error + injected_message list" where
  "coerce_injected (PStr s) =
     Inr [\<lparr>im_id = None, im_role = ''hook'', im_content = PStr s, im_metadata = [(''source'', PStr ''hook'')]\<rparr>]"
| "coerce_injected (PDict d) =
     (let role = py_str (get_default d ''role'' (PStr ''hook'')); mid = py_get d ''message_id''
      in rbind (ensure (role \<in> set message_roles) Value_Error) (\<lambda>_.
         Inr [\<lparr>im_id = (if py_truthy mid then Some (py_str mid) else None), im_role = role,
               im_content = get_default d ''content'' (PList []),
               im_metadata = coerce_mapping (py_get d ''metadata'')\<rparr>]))"
| "coerce_injected v = Inr []"

fun coerce_injected_messages :: "pyval list \<Rightarrow> hook_error + injected_message list" where
  "coerce_injected_messages [] = Inr []"
| "coerce_injected_messages (v # vs) =
     rbind (coerce_injected v) (\<lambda>ms. rbind (coerce_injected_messages vs) (\<lambda>ns. Inr (ms @ ns)))"

record aggregate =
  ag_context :: "string list"
  ag_updated_input :: "(string, pyval) dict option"
  ag_continue :: bool
  ag_notifications :: "string list"
  ag_elicitation :: "(string, pyval) dict option"
  ag_injected :: "injected_message list"
  ag_override :: "request_override option"
  ag_metadata :: "(string, pyval) dict"
  ag_dispositions :: "(string \<times> stop_disposition) list"
  ag_gates :: "string list"
  ag_updated_winner :: "(string \<times> string) option"
  ag_elicitation_winner :: "(string \<times> string) option"

definition no_aggregate :: aggregate where
  "no_aggregate = \<lparr>ag_context = [], ag_updated_input = None, ag_continue = True, ag_notifications = [],
     ag_elicitation = None, ag_injected = [], ag_override = None, ag_metadata = [], ag_dispositions = [],
     ag_gates = [], ag_updated_winner = None, ag_elicitation_winner = None\<rparr>"

definition effect_disposition :: "string \<Rightarrow> hook_effect \<Rightarrow> stop_disposition option" where
  "effect_disposition phase e =
     (case Option.bind (he_stop e) disposition_of of
        Some d \<Rightarrow> Some d
      | None \<Rightarrow> if phase = ''Stop'' \<and> \<not> he_continue e then Some BLOCK_SESSION else None)"

definition add_effect ::
  "string \<Rightarrow> aggregate \<Rightarrow> registration \<times> hook_effect \<Rightarrow> hook_error + aggregate" where
  "add_effect phase a re =
     (let (r, e) = re in
      rbind (coerce_injected_messages (he_injected e)) (\<lambda>ms.
      Inr \<lparr>ag_context = ag_context a @ he_additional_context e,
           ag_updated_input = (case he_updated_input e of None \<Rightarrow> ag_updated_input a | Some u \<Rightarrow> Some u),
           ag_continue = (ag_continue a \<and> he_continue e),
           ag_notifications = ag_notifications a @ he_notifications e,
           ag_elicitation = (case he_elicitation e of None \<Rightarrow> ag_elicitation a | Some u \<Rightarrow> Some u),
           ag_injected = ag_injected a @ ms,
           ag_override = (case he_override e of
               None \<Rightarrow> ag_override a
             | Some d \<Rightarrow> merge_request_override_state (ag_override a)
                 (stamp_request_override (rg_id r) (rg_owner r) (source_value (rg_source_kind r))
                   (coerce_request_override d))),
           ag_metadata = py_update (ag_metadata a) (he_metadata e),
           ag_dispositions = ag_dispositions a @
             (case effect_disposition phase e of None \<Rightarrow> [] | Some d \<Rightarrow> [(rg_id r, d)]),
           ag_gates = (if he_continue e then ag_gates a else ag_gates a @ [rg_id r]),
           ag_updated_winner = (if he_updated_input e = None then ag_updated_winner a
             else Some (rg_id r, rg_owner r)),
           ag_elicitation_winner = (if he_elicitation e = None then ag_elicitation_winner a
             else Some (rg_id r, rg_owner r))\<rparr>))"

fun aggregate_effects ::
  "string \<Rightarrow> aggregate \<Rightarrow> (registration \<times> hook_effect) list \<Rightarrow> hook_error + aggregate" where
  "aggregate_effects phase a [] = Inr a"
| "aggregate_effects phase a (re # res) = rbind (add_effect phase a re) (\<lambda>a. aggregate_effects phase a res)"

fun disposition_rank :: "stop_disposition \<Rightarrow> nat" where
  "disposition_rank ALLOW_TERMINAL = 0"
| "disposition_rank CONTINUE_SAME_TURN = 1"
| "disposition_rank BLOCK_SESSION = 2"
| "disposition_rank HALT_FAILURE = 3"

definition aggregate_stop_disposition :: "stop_disposition list \<Rightarrow> stop_disposition" where
  "aggregate_stop_disposition ds =
     fold (\<lambda>v w. if disposition_rank w < disposition_rank v then v else w) ds ALLOW_TERMINAL"

text \<open>The aggregate after the loop: the disposition, its winner (the last registration with it), and
  whether the execution goes on, which a stop decides by the disposition alone.\<close>

record dispatch_outcome =
  do_aggregate :: aggregate
  do_stop :: stop_disposition
  do_stop_winner :: "string option"
  do_continue :: bool

definition aggregate_dispatch_result ::
  "string \<Rightarrow> (registration \<times> hook_effect) list \<Rightarrow> hook_error + dispatch_outcome" where
  "aggregate_dispatch_result phase res =
     rbind (aggregate_effects phase no_aggregate res) (\<lambda>a.
       let d = aggregate_stop_disposition (map snd (ag_dispositions a))
       in Inr \<lparr>do_aggregate = a, do_stop = d,
               do_stop_winner = map_option fst (List.find (\<lambda>x. snd x = d) (rev (ag_dispositions a))),
               do_continue = (if phase = ''Stop'' then d \<noteq> BLOCK_SESSION \<and> d \<noteq> HALT_FAILURE
                              else ag_continue a)\<rparr>)"

subsection \<open>The state\<close>

record trace_registration =
  tr_registration_id :: string
  tr_owner :: string
  tr_source_kind :: source_kind
  tr_state :: activation
  tr_reason :: "string option"

record dispatch_trace =
  dt_dispatch_index :: nat
  dt_session_id :: string
  dt_turn_id :: "string option"
  dt_phase :: string
  dt_matched :: "trace_registration list"
  dt_blocked :: "trace_registration list"
  dt_ignored :: "ignored_effect list"

record hook_bus =
  hb_records :: "(string, registration) dict"
  hb_session_order :: "(string, string list) dict"
  hb_template_order :: "string list"
  hb_traces :: "(string, dispatch_trace list) dict"
  hb_materialized :: "(string, string list) dict"
  hb_bindings :: "string list"
  hb_policy :: "(string option \<times> handler_kind, bool) dict"
  hb_epochs :: "(string, nat) dict"
  hb_creation :: nat
  hb_dispatch :: nat

definition new_hook_bus :: hook_bus where
  "new_hook_bus = \<lparr>hb_records = [], hb_session_order = [], hb_template_order = [], hb_traces = [],
     hb_materialized = [], hb_bindings = [], hb_policy = [], hb_epochs = [], hb_creation = 0, hb_dispatch = 0\<rparr>"

definition session_ids :: "hook_bus \<Rightarrow> string \<Rightarrow> string list" where
  "session_ids b sid = (case map_of (hb_session_order b) sid of None \<Rightarrow> [] | Some ids \<Rightarrow> ids)"

definition set_state :: "string \<Rightarrow> activation \<Rightarrow> hook_bus \<Rightarrow> hook_bus" where
  "set_state rid st b =
     (case map_of (hb_records b) rid of
        None \<Rightarrow> b
      | Some r \<Rightarrow> b\<lparr>hb_records := AList.update rid (r\<lparr>rg_state := st\<rparr>) (hb_records b)\<rparr>)"

definition bind_callback :: "string \<Rightarrow> hook_bus \<Rightarrow> hook_bus" where
  "bind_callback name b = b\<lparr>hb_bindings := List.insert name (hb_bindings b)\<rparr>"

definition set_handler_policy :: "handler_kind \<Rightarrow> bool \<Rightarrow> string option \<Rightarrow> hook_bus \<Rightarrow> hook_bus" where
  "set_handler_policy k allowed phase b = b\<lparr>hb_policy := AList.update (phase, k) allowed (hb_policy b)\<rparr>"

definition handler_allowed :: "hook_bus \<Rightarrow> handler_kind \<Rightarrow> string \<Rightarrow> bool" where
  "handler_allowed b k phase =
     (if k = HK_CALLBACK then True
      else case map_of (hb_policy b) (Some phase, k) of
        Some a \<Rightarrow> a
      | None \<Rightarrow> (case map_of (hb_policy b) (None, k) of Some a \<Rightarrow> a | None \<Rightarrow> False))"

subsection \<open>Registering\<close>

record hook_request =
  hq_phase :: string
  hq_match :: string
  hq_scope :: scope
  hq_handler :: handler_manifest
  hq_contract :: effect_contract
  hq_owner_hint :: "string option"
  hq_source_ref :: "string option"
  hq_once :: bool
  hq_metadata :: "(string, pyval) dict"

definition resolve_scope :: "scope \<Rightarrow> string option \<Rightarrow> string option \<Rightarrow> scope_lifetime \<Rightarrow> scope" where
  "resolve_scope sc sid tid default_lifetime =
     (let t = nonempty_or (sc_turn_id sc) tid;
          s = nonempty_or (sc_session_id sc) sid
      in case sc_lifetime sc of
           TURN \<Rightarrow> sc\<lparr>sc_turn_id := t, sc_session_id := s\<rparr>
         | SESSION \<Rightarrow>
             if s = None \<and> default_lifetime = SESSION_TEMPLATE
             then sc\<lparr>sc_lifetime := SESSION_TEMPLATE, sc_turn_id := None, sc_session_id := None\<rparr>
             else sc\<lparr>sc_turn_id := None, sc_session_id := s\<rparr>
         | SESSION_TEMPLATE \<Rightarrow> sc\<lparr>sc_turn_id := None, sc_session_id := None\<rparr>)"

definition callback_rejection :: "handler_manifest \<Rightarrow> string list \<Rightarrow> bool \<Rightarrow> string option" where
  "callback_rejection m bindings require_bound =
     (if hm_kind m \<noteq> HK_CALLBACK then None
      else if hm_static m \<noteq> None \<or> hm_callback m then None
      else case hm_binding m of
        None \<Rightarrow> Some ''callback_handler_missing_target''
      | Some n \<Rightarrow> if require_bound \<and> n \<notin> set bindings then Some ''unresolved_callback_binding'' else None)"

definition validate_request ::
  "hook_request \<Rightarrow> source_kind \<Rightarrow> scope \<Rightarrow> string list \<Rightarrow> string list \<Rightarrow> bool \<Rightarrow> string option" where
  "validate_request q sk sc bindings allowed_phases allow_turn =
     (let pk = phase_contract_for (hq_phase q);
          bad_classes = sort (map class_value (filter (\<lambda>c. c \<notin> set (pk_classes pk))
            (remdups (ec_classes (hq_contract q)))));
          bad_fields = sort (filter (\<lambda>f. f \<notin> set (pk_fields pk)) (remdups (ec_fields (hq_contract q))))
      in if \<not> is_public_phase (hq_phase q) then Some ''phase_not_public''
         else if hq_phase q \<notin> set allowed_phases then
           Some (if is_advanced_phase (hq_phase q) then ''advanced_phase_requires_advanced_surface''
                 else ''phase_not_allowed_for_surface'')
         else if sc_lifetime sc = TURN \<and> sc_turn_id sc = None then Some ''invalid_turn_scope''
         else if sc_lifetime sc = TURN \<and> \<not> allow_turn then Some ''turn_scope_requires_advanced_surface''
         else if sc_lifetime sc = SESSION \<and> sc_session_id sc = None then Some ''invalid_session_scope''
         else if external (hm_kind (hq_handler q)) \<and> \<not> pk_external_allowed pk
           then Some ''external_handler_not_allowed_for_phase''
         else case callback_rejection (hq_handler q) bindings (sc_lifetime sc \<noteq> SESSION_TEMPLATE) of
             Some reason \<Rightarrow> Some reason
           | None \<Rightarrow>
               if bad_classes \<noteq> [] then Some (''unsupported_effect_classes:'' @ join '','' bad_classes)
               else if bad_fields \<noteq> [] then Some (''unsupported_effect_fields:'' @ join '','' bad_fields)
               else if sk \<in> {SK_RUNTIME_CONFIG, SK_HOST_API} \<and> sc_lifetime sc = TURN
                 then Some ''template_scope_cannot_be_turn''
               else None)"

definition next_epoch :: "string \<Rightarrow> hook_bus \<Rightarrow> nat \<times> hook_bus" where
  "next_epoch sid b =
     (let n = (case map_of (hb_epochs b) sid of None \<Rightarrow> 0 | Some n \<Rightarrow> n) + 1
      in (n, b\<lparr>hb_epochs := AList.update sid n (hb_epochs b)\<rparr>))"

definition add_record :: "registration \<Rightarrow> hook_bus \<Rightarrow> hook_bus" where
  "add_record r b = b\<lparr>hb_records := AList.update (rg_id r) r (hb_records b)\<rparr>"

definition add_to_session :: "string \<Rightarrow> string \<Rightarrow> hook_bus \<Rightarrow> hook_bus" where
  "add_to_session sid rid b =
     b\<lparr>hb_session_order := AList.update sid (session_ids b sid @ [rid]) (hb_session_order b)\<rparr>"

definition register_request ::
  "string \<Rightarrow> string \<Rightarrow> hook_request \<Rightarrow> source_kind \<Rightarrow> string option \<Rightarrow> string option \<Rightarrow> string option \<Rightarrow>
   string option \<Rightarrow> scope_lifetime \<Rightarrow> string list \<Rightarrow> bool \<Rightarrow> nat \<Rightarrow> hook_bus \<Rightarrow>
   (hook_error + string \<times> activation) \<times> hook_bus" where
  "register_request rid fallback_owner q sk owner source_ref sid tid default_lifetime allowed_phases allow_turn
     local_order b =
     (let the_owner = (case nonempty_or (hq_owner_hint q) (nonempty_or owner (Some fallback_owner)) of
            Some o' \<Rightarrow> o' | None \<Rightarrow> fallback_owner);
          the_ref = (case nonempty_or (hq_source_ref q) (nonempty_or source_ref (Some the_owner)) of
            Some o' \<Rightarrow> o' | None \<Rightarrow> the_owner);
          sc = resolve_scope (hq_scope q) sid tid default_lifetime;
          n = hb_creation b + 1;
          b = b\<lparr>hb_creation := n\<rparr>;
          record_of = (\<lambda>st ses prec rej. \<lparr>rg_id = rid, rg_source_kind = sk, rg_source_ref = the_ref, rg_owner = the_owner,
            rg_phase = hq_phase q, rg_session_id = ses, rg_turn_id = sc_turn_id sc, rg_scope = sc,
            rg_matcher = hq_match q, rg_handler = hq_handler q, rg_contract = hq_contract q, rg_once = hq_once q,
            rg_metadata = hq_metadata q, rg_state = st, rg_precedence = (source_precedence sk, prec, local_order, n),
            rg_local_order = local_order, rg_activation_turn_id = tid, rg_parent = None, rg_rejection = rej,
            rg_descendants = []\<rparr>)
      in case validate_request q sk sc (hb_bindings b) allowed_phases allow_turn of
           Some reason \<Rightarrow> (Inr (rid, REJECTED), add_record (record_of REJECTED sid n (Some reason)) b)
         | None \<Rightarrow>
             if sc_lifetime sc = SESSION_TEMPLATE then
               (Inr (rid, PENDING_ACTIVATION),
                add_record (record_of PENDING_ACTIVATION (nonempty_or sid (sc_session_id sc)) n None)
                  (b\<lparr>hb_template_order := hb_template_order b @ [rid]\<rparr>))
             else
               (case nonempty_or sid (sc_session_id sc) of
                  None \<Rightarrow> (Inl Assertion_Error, b)
                | Some s \<Rightarrow>
                    (let (epoch, b) = next_epoch s b
                     in (Inr (rid, ACTIVE),
                         add_record (record_of ACTIVE (Some s) epoch None) (add_to_session s rid b)))))"

subsection \<open>Templates, release and expiry\<close>

definition registration_state :: "string \<Rightarrow> hook_bus \<Rightarrow> activation" where
  "registration_state rid b = (case map_of (hb_records b) rid of None \<Rightarrow> RELEASED | Some r \<Rightarrow> rg_state r)"

definition materialized :: "hook_bus \<Rightarrow> string \<Rightarrow> string list" where
  "materialized b sid = (case map_of (hb_materialized b) sid of None \<Rightarrow> [] | Some ids \<Rightarrow> ids)"

definition materialize_template :: "string \<Rightarrow> string \<Rightarrow> string \<Rightarrow> hook_bus \<Rightarrow> hook_bus" where
  "materialize_template sid fresh tid b =
     (if tid \<in> set (materialized b sid) then b
      else case map_of (hb_records b) tid of
        None \<Rightarrow> b
      | Some t \<Rightarrow>
          if rg_state t \<noteq> PENDING_ACTIVATION then b
          else if callback_rejection (rg_handler t) (hb_bindings b) True \<noteq> None then b
          else
            (let n = hb_creation b + 1;
                 (epoch, b) = next_epoch sid (b\<lparr>hb_creation := n\<rparr>);
                 d = t\<lparr>rg_id := fresh, rg_session_id := Some sid, rg_turn_id := None,
                       rg_scope := (rg_scope t)\<lparr>sc_lifetime := SESSION, sc_turn_id := None, sc_session_id := Some sid\<rparr>,
                       rg_state := ACTIVE,
                       rg_precedence := (source_precedence (rg_source_kind t), epoch, rg_local_order t, n),
                       rg_activation_turn_id := None, rg_parent := Some (rg_id t), rg_rejection := None,
                       rg_descendants := []\<rparr>
             in add_record (t\<lparr>rg_descendants := rg_descendants t @ [fresh]\<rparr>)
                  ((add_to_session sid fresh (add_record d b))
                     \<lparr>hb_materialized := AList.update sid (materialized b sid @ [tid]) (hb_materialized b)\<rparr>)))"

text \<open>One fresh identifier for each template.\<close>

definition materialize_session :: "string \<Rightarrow> string list \<Rightarrow> hook_bus \<Rightarrow> hook_bus" where
  "materialize_session sid fresh b =
     fold (\<lambda>(f, tid). materialize_template sid f tid) (zip fresh (hb_template_order b))
       (b\<lparr>hb_materialized := AList.update sid (materialized b sid) (hb_materialized b)\<rparr>)"

definition release_if_active :: "string \<Rightarrow> hook_bus \<Rightarrow> hook_bus" where
  "release_if_active rid b =
     (case map_of (hb_records b) rid of
        None \<Rightarrow> b
      | Some r \<Rightarrow> if rg_state r = ACTIVE then set_state rid RELEASED b else b)"

definition release_registration :: "string \<Rightarrow> hook_bus \<Rightarrow> activation \<times> hook_bus" where
  "release_registration rid b =
     (case map_of (hb_records b) rid of
        None \<Rightarrow> (RELEASED, b)
      | Some r \<Rightarrow>
          if rg_state r \<in> {RELEASED, EXPIRED, REJECTED} then (rg_state r, b)
          else (RELEASED, fold release_if_active (rg_descendants r) (set_state rid RELEASED b)))"

definition change_session ::
  "string \<Rightarrow> (registration \<Rightarrow> bool) \<Rightarrow> activation \<Rightarrow> hook_bus \<Rightarrow> hook_bus" where
  "change_session sid P st b =
     fold (\<lambda>rid b. case map_of (hb_records b) rid of
         None \<Rightarrow> b
       | Some r \<Rightarrow> if P r \<and> rg_state r = ACTIVE then set_state rid st b else b) (session_ids b sid) b"

definition release_owner :: "string \<Rightarrow> string \<Rightarrow> hook_bus \<Rightarrow> hook_bus" where
  "release_owner sid owner b = change_session sid (\<lambda>r. rg_owner r = owner) RELEASED b"

definition clear_session :: "string \<Rightarrow> hook_bus \<Rightarrow> hook_bus" where
  "clear_session sid b = change_session sid (\<lambda>r. True) EXPIRED b"

definition release_turn :: "string \<Rightarrow> string option \<Rightarrow> hook_bus \<Rightarrow> hook_bus" where
  "release_turn sid tid b =
     (case tid of
        None \<Rightarrow> b
      | Some t \<Rightarrow> change_session sid (\<lambda>r. sc_lifetime (rg_scope r) = TURN \<and> rg_turn_id r = Some t) EXPIRED b)"

subsection \<open>Inventory\<close>

record inventory_query =
  iq_session_id :: "string option"
  iq_turn_id :: "string option"
  iq_phase :: "string option"
  iq_owner :: "string option"
  iq_source_kind :: "source_kind option"
  iq_state :: "activation option"
  iq_include_inactive :: bool
  iq_limit :: "int option"
  iq_cursor :: "string option"

definition record_matches_query :: "registration \<Rightarrow> inventory_query \<Rightarrow> bool" where
  "record_matches_query r q =
     ((iq_session_id q = None \<or> rg_session_id r = iq_session_id q) \<and>
      (iq_turn_id q = None \<or> rg_turn_id r = iq_turn_id q) \<and>
      (iq_phase q = None \<or> Some (rg_phase r) = iq_phase q) \<and>
      (iq_owner q = None \<or> Some (rg_owner r) = iq_owner q) \<and>
      (iq_source_kind q = None \<or> Some (rg_source_kind r) = iq_source_kind q) \<and>
      (case iq_state q of
         Some st \<Rightarrow> rg_state r = st
       | None \<Rightarrow> iq_include_inactive q \<or> rg_state r = ACTIVE))"

text \<open>\<open>int(cursor)\<close>, or 0 where that raises.\<close>

definition slice_with_cursor :: "'a list \<Rightarrow> string option \<Rightarrow> int option \<Rightarrow> 'a list" where
  "slice_with_cursor xs cursor lim =
     (let start = (case Option.bind cursor parse_int of None \<Rightarrow> 0 | Some i \<Rightarrow> nat (max i 0))
      in case lim of
           None \<Rightarrow> drop start xs
         | Some n \<Rightarrow> if n \<le> 0 then drop start xs else take (nat n) (drop start xs))"

definition inventory_key :: "registration \<Rightarrow> string \<times> (nat \<times> nat \<times> nat \<times> nat) \<times> string" where
  "inventory_key r = ((case rg_session_id r of None \<Rightarrow> [] | Some s \<Rightarrow> s), rg_precedence r, rg_id r)"

definition list_hooks :: "inventory_query \<Rightarrow> hook_bus \<Rightarrow> registration list" where
  "list_hooks q b =
     slice_with_cursor
       (sort_key inventory_key (filter (\<lambda>r. record_matches_query r q) (map snd (hb_records b))))
       (iq_cursor q) (iq_limit q)"

subsection \<open>Dispatch\<close>

definition matches_target :: "string \<Rightarrow> string option \<Rightarrow> bool" where
  "matches_target matcher target =
     (if matcher = ''*'' then True
      else case target of
        None \<Rightarrow> False
      | Some t \<Rightarrow> if list_ex (\<lambda>c. c \<in> set matcher) ''*?[]'' then fnmatch matcher t else matcher = t)"

definition target_fields :: "string list" where
  "target_fields = [''tool_name'', ''agent_name'', ''kind'', ''reason'', ''final_status'', ''prompt'', ''message'',
     ''candidate_action'']"

definition match_target :: "(string, pyval) dict \<Rightarrow> string option" where
  "match_target payload =
     (case List.find (\<lambda>f. py_get payload f \<noteq> PNone) target_fields of
        None \<Rightarrow> None
      | Some f \<Rightarrow> Some (py_str (py_get payload f)))"

definition child_execution :: "(string, pyval) dict \<Rightarrow> bool" where
  "child_execution ctx =
     (coerce_optional_value (py_get ctx ''parent_turn_id'') \<noteq> None \<or>
      coerce_optional_value (py_get ctx ''parent_run_id'') \<noteq> None)"

definition turn_scope_matches :: "registration \<Rightarrow> string option \<Rightarrow> bool" where
  "turn_scope_matches r tid = (sc_lifetime (rg_scope r) \<noteq> TURN \<or> rg_turn_id r = tid)"

definition dispatch_visible :: "registration \<Rightarrow> string option \<Rightarrow> (string, pyval) dict \<Rightarrow> bool" where
  "dispatch_visible r tid ctx =
     (\<not> child_execution ctx \<or> sc_inherit (rg_scope r) \<or>
      (rg_activation_turn_id r \<noteq> None \<and> rg_activation_turn_id r = tid))"

definition effective_turn :: "(string, pyval) dict \<Rightarrow> (string, pyval) dict \<Rightarrow> string option" where
  "effective_turn payload ctx =
     first_some (coerce_optional_value (py_get payload ''turn_id'')) (coerce_optional_value (py_get ctx ''turn_id''))"

text \<open>\<open>active_records\<close> in the order of their precedence.\<close>

definition active_records ::
  "string \<Rightarrow> string \<Rightarrow> string option \<Rightarrow> (string, pyval) dict \<Rightarrow> hook_bus \<Rightarrow> registration list" where
  "active_records sid phase tid ctx b =
     sort_key rg_precedence
       (filter (\<lambda>r. rg_state r = ACTIVE \<and> rg_phase r = phase \<and> turn_scope_matches r tid \<and>
           dispatch_visible r tid ctx)
         (List.map_filter (map_of (hb_records b)) (session_ids b sid)))"

datatype handler_result = Returns raw_result | Times_Out | Raises string

type_synonym handlers = "registration \<Rightarrow> hook_bus \<Rightarrow> handler_result \<times> hook_bus"

text \<open>\<open>_invoke_handler_manifest\<close>: a static effect, a callback, a callback bound by name, or an external
  handler; \<open>handlers\<close> is what the callbacks and the external handlers do.\<close>

definition invoke_handler_manifest :: "handlers \<Rightarrow> registration \<Rightarrow> hook_bus \<Rightarrow> handler_result \<times> hook_bus" where
  "invoke_handler_manifest hs r b =
     (case hm_static (rg_handler r) of
        Some e \<Rightarrow> (Returns e, b)
      | None \<Rightarrow>
          if hm_kind (rg_handler r) = HK_CALLBACK \<and> \<not> hm_callback (rg_handler r) \<and>
             (case hm_binding (rg_handler r) of None \<Rightarrow> True | Some n \<Rightarrow> n \<notin> set (hb_bindings b))
          then (Raises ''RuntimeError'', b)
          else hs r b)"

text \<open>The effects of a record or the reason why it is blocked; the coercion of the returned value is
  outside the \<open>try\<close>.\<close>

definition invoke_record ::
  "handlers \<Rightarrow> registration \<Rightarrow> hook_bus \<Rightarrow> (hook_error + hook_effect list \<times> string option) \<times> hook_bus" where
  "invoke_record hs r b =
     (let k = hm_kind (rg_handler r) in
      if external k \<and> \<not> pk_external_allowed (phase_contract_for (rg_phase r))
      then (Inr ([], Some ''phase_external_handler_denied''), b)
      else if external k \<and> \<not> handler_allowed b k (rg_phase r) then (Inr ([], Some ''policy_denied''), b)
      else case invoke_handler_manifest hs r b of
          (Times_Out, b) \<Rightarrow> (Inr ([], Some ''timeout''), b)
        | (Raises n, b) \<Rightarrow> (Inr ([], Some (''handler_error:'' @ n)), b)
        | (Returns raw, b) \<Rightarrow> (rbind (coerce_effects raw) (\<lambda>es. Inr (es, None)), b))"

definition current_state :: "hook_bus \<Rightarrow> registration \<Rightarrow> activation" where
  "current_state b r = (case map_of (hb_records b) (rg_id r) of None \<Rightarrow> rg_state r | Some c \<Rightarrow> rg_state c)"

definition trace_registration_of :: "hook_bus \<Rightarrow> registration \<times> string option \<Rightarrow> trace_registration" where
  "trace_registration_of b rr = \<lparr>tr_registration_id = rg_id (fst rr), tr_owner = rg_owner (fst rr),
     tr_source_kind = rg_source_kind (fst rr), tr_state = current_state b (fst rr), tr_reason = snd rr\<rparr>"

record dispatch_state =
  ds_matched :: "registration list"
  ds_blocked :: "trace_registration list"
  ds_effects :: "(registration \<times> hook_effect) list"
  ds_ignored :: "ignored_effect list"
  ds_once :: "registration list"

definition no_dispatch :: dispatch_state where
  "no_dispatch = \<lparr>ds_matched = [], ds_blocked = [], ds_effects = [], ds_ignored = [], ds_once = []\<rparr>"

definition after_record ::
  "string \<Rightarrow> registration \<Rightarrow> hook_effect list \<times> string option \<Rightarrow> hook_bus \<Rightarrow> dispatch_state \<Rightarrow> dispatch_state"
where
  "after_record phase r er b d =
     (let d = d\<lparr>ds_matched := ds_matched d @ [r]\<rparr> in
      case er of
        (es, Some reason) \<Rightarrow> d\<lparr>ds_blocked := ds_blocked d @ [trace_registration_of b (r, Some reason)]\<rparr>
      | (es, None) \<Rightarrow>
          d\<lparr>ds_effects := ds_effects d @ map (\<lambda>e. (r, fst (sanitize_effect e r phase))) es,
            ds_ignored := ds_ignored d @ concat (map (\<lambda>e. snd (sanitize_effect e r phase)) es),
            ds_once := (if rg_once r then ds_once d @ [r] else ds_once d)\<rparr>)"

fun run_records ::
  "handlers \<Rightarrow> string \<Rightarrow> string option \<Rightarrow> registration list \<Rightarrow> dispatch_state \<Rightarrow> hook_bus \<Rightarrow>
   (hook_error + dispatch_state) \<times> hook_bus" where
  "run_records hs phase target [] d b = (Inr d, b)"
| "run_records hs phase target (r # rs) d b =
     (if \<not> matches_target (rg_matcher r) target then run_records hs phase target rs d b
      else case invoke_record hs r b of
          (Inl e, b) \<Rightarrow> (Inl e, b)
        | (Inr er, b) \<Rightarrow> run_records hs phase target rs (after_record phase r er b d) b)"

definition expire_once :: "registration list \<Rightarrow> hook_bus \<Rightarrow> hook_bus" where
  "expire_once rs b =
     fold (\<lambda>r b. if current_state b r = ACTIVE then set_state (rg_id r) EXPIRED b else b) rs b"

definition record_trace :: "dispatch_trace \<Rightarrow> hook_bus \<Rightarrow> hook_bus" where
  "record_trace t b =
     (let old = (case map_of (hb_traces b) (dt_session_id t) of None \<Rightarrow> [] | Some ts \<Rightarrow> ts)
      in b\<lparr>hb_dispatch := dt_dispatch_index t,
           hb_traces := AList.update (dt_session_id t) (old @ [t]) (hb_traces b)\<rparr>)"

text \<open>The result of a dispatch: the matched registrations in order, the effects that count with their
  registrations, and the outcome.\<close>

record dispatch_result =
  dr_matched :: "registration list"
  dr_blocked :: "trace_registration list"
  dr_effects :: "(registration \<times> hook_effect) list"
  dr_ignored :: "ignored_effect list"
  dr_outcome :: dispatch_outcome

definition dispatch ::
  "handlers \<Rightarrow> string \<Rightarrow> string list \<Rightarrow> (string, pyval) dict \<Rightarrow> (string, pyval) dict \<Rightarrow> hook_bus \<Rightarrow>
   (hook_error + dispatch_result) \<times> hook_bus" where
  "dispatch hs sid fresh payload ctx b =
     (let b = materialize_session sid fresh b;
          phase = py_str (py_get payload ''phase'');
          tid = effective_turn payload ctx
      in case run_records hs phase (match_target payload) (active_records sid phase tid ctx b) no_dispatch b of
           (Inl e, b) \<Rightarrow> (Inl e, b)
         | (Inr d, b) \<Rightarrow>
             (case aggregate_dispatch_result phase (ds_effects d) of
                Inl e \<Rightarrow> (Inl e, b)
              | Inr out \<Rightarrow>
                  (let n = hb_dispatch b + 1;
                       trace = \<lparr>dt_dispatch_index = n, dt_session_id = sid, dt_turn_id = tid, dt_phase = phase,
                         dt_matched = map (\<lambda>r. trace_registration_of b (r, None)) (ds_matched d),
                         dt_blocked = ds_blocked d,
                         dt_ignored = ds_ignored d\<rparr>;
                       b = record_trace trace b
                   in (Inr \<lparr>dr_matched = ds_matched d, dr_blocked = ds_blocked d, dr_effects = ds_effects d,
                         dr_ignored = ds_ignored d, dr_outcome = out\<rparr>,
                       expire_once (ds_once d) b))))"

end
