(* ===== verification/Hook_Props.thy ===== *)
theory Hook_Props
  imports Hook_Bus
begin

text \<open>
  What the hook bus guarantees: which registrations a dispatch runs and in which order, that effects
  stay within the contracts of the phase and of the registration, that a registration never comes
  back from a final state, that a registration for one use is spent; and four places where it does
  not do what its code means to.
\<close>

subsection \<open>Which registrations a dispatch runs\<close>

lemma after_record_matched [simp]: "ds_matched (after_record phase r er b d) = ds_matched d @ [r]"
  by (cases er; cases "snd er") (simp_all add: after_record_def Let_def)

lemma run_records_matched:
  "run_records hs phase target rs d b = (Inr d', b') \<Longrightarrow>
   ds_matched d' = ds_matched d @ filter (\<lambda>r. matches_target (rg_matcher r) target) rs"
  by (induction hs phase target rs d b rule: run_records.induct)
    (auto split: if_splits prod.splits sum.splits)

lemma dispatch_Inr:
  assumes "dispatch hs sid fresh payload ctx b = (Inr res, b')"
  obtains d b1 t where
    "run_records hs (py_str (py_get payload ''phase'')) (match_target payload)
       (active_records sid (py_str (py_get payload ''phase'')) (effective_turn payload ctx) ctx
         (materialize_session sid fresh b)) no_dispatch (materialize_session sid fresh b) = (Inr d, b1)"
    and "aggregate_dispatch_result (py_str (py_get payload ''phase'')) (ds_effects d) = Inr (dr_outcome res)"
    and "dr_matched res = ds_matched d" and "dr_effects res = ds_effects d" and "dr_blocked res = ds_blocked d"
    and "b' = expire_once (ds_once d) (record_trace t b1)"
proof -
  let ?phase = "py_str (py_get payload ''phase'')"
  obtain y b1 where y: "run_records hs ?phase (match_target payload)
      (active_records sid ?phase (effective_turn payload ctx) ctx (materialize_session sid fresh b)) no_dispatch
      (materialize_session sid fresh b) = (y, b1)" by fastforce
  with assms obtain d where d: "y = Inr d" by (cases y) (simp_all add: dispatch_def Let_def)
  with assms y obtain out where out: "aggregate_dispatch_result ?phase (ds_effects d) = Inr out"
    by (cases "aggregate_dispatch_result ?phase (ds_effects d)") (simp_all add: dispatch_def Let_def)
  have fields: "dr_matched res = ds_matched d" "dr_effects res = ds_effects d" "dr_blocked res = ds_blocked d"
    "dr_outcome res = out"
    using assms y d out by (auto simp: dispatch_def Let_def)
  have "\<exists>t. b' = expire_once (ds_once d) (record_trace t b1)"
    using assms y d out by (auto simp: dispatch_def Let_def)
  then show thesis using that y d out fields by blast
qed


subsection \<open>Effects stay within the contracts\<close>

lemma after_record_effects:
  "ds_effects (after_record phase r er b d) =
     ds_effects d @ (if snd er = None then map (\<lambda>e. (r, fst (sanitize_effect e r phase))) (fst er) else [])"
  by (cases er; cases "snd er") (simp_all add: after_record_def Let_def)

lemma has_field_keep: "has_field (keep_fields fs e) f \<Longrightarrow> f \<in> set fs"
  by (auto simp: has_field_def keep_fields_def split: if_splits)

definition within_contract :: "string \<Rightarrow> registration \<times> hook_effect \<Rightarrow> bool" where
  "within_contract phase re \<longleftrightarrow>
     (\<forall>f. has_field (snd re) f \<longrightarrow> f \<in> set (allowed_fields phase (rg_contract (fst re))))"

lemma run_records_Cons:
  assumes "run_records hs phase target (r # rs) d b = (Inr d', b')" "matches_target (rg_matcher r) target"
  obtains er b1 where "invoke_record hs r b = (Inr er, b1)"
    and "run_records hs phase target rs (after_record phase r er b1 d) b1 = (Inr d', b')"
proof (cases "invoke_record hs r b")
  case (Pair x b1)
  with assms that show thesis by (cases x) simp_all
qed

lemma run_records_within:
  "run_records hs phase target rs d b = (Inr d', b') \<Longrightarrow> \<forall>re \<in> set (ds_effects d). within_contract phase re \<Longrightarrow>
   \<forall>re \<in> set (ds_effects d'). within_contract phase re"
proof (induction rs arbitrary: d b)
  case (Cons r rs)
  show ?case
  proof (cases "matches_target (rg_matcher r) target")
    case False
    then show ?thesis using Cons by simp
  next
    case True
    obtain er b1 where er: "invoke_record hs r b = (Inr er, b1)"
      "run_records hs phase target rs (after_record phase r er b1 d) b1 = (Inr d', b')"
      using run_records_Cons [OF Cons.prems(1) True] .
    have new: "within_contract phase (r, fst (sanitize_effect e r phase))" for e
      using has_field_keep by (fastforce simp: within_contract_def sanitize_effect_def Let_def)
    have "\<forall>re \<in> set (ds_effects (after_record phase r er b1 d)). within_contract phase re"
      using Cons.prems(2) new by (auto simp: after_record_effects)
    then show ?thesis by (rule Cons.IH [OF er(2)])
  qed
qed simp

lemma allowed_in_phase: "f \<in> set (allowed_fields phase c) \<Longrightarrow> f \<in> set (pk_fields (phase_contract_for phase))"
  by (auto simp: allowed_fields_def split: if_splits)

lemma aggregate_fields:
  "aggregate_effects phase a res = Inr a' \<Longrightarrow>
   (\<not> ag_continue a' \<longrightarrow> \<not> ag_continue a \<or> (\<exists>re \<in> set res. has_field (snd re) ''continue_execution'')) \<and>
   (ag_updated_input a' \<noteq> None \<longrightarrow> ag_updated_input a \<noteq> None \<or> (\<exists>re \<in> set res. has_field (snd re) ''updated_input'')) \<and>
   (ag_elicitation a' \<noteq> None \<longrightarrow> ag_elicitation a \<noteq> None \<or> (\<exists>re \<in> set res. has_field (snd re) ''elicitation_result'')) \<and>
   (ag_override a' \<noteq> None \<longrightarrow> ag_override a \<noteq> None \<or> (\<exists>re \<in> set res. has_field (snd re) ''request_override''))"
proof (induction res arbitrary: a)
  case (Cons re res)
  obtain r e where re: "re = (r, e)" by (cases re)
  from Cons.prems obtain a1 where a1: "add_effect phase a re = Inr a1" "aggregate_effects phase a1 res = Inr a'"
    by (auto simp: rbind_Inr_iff)
  have f: "ag_continue a1 = (ag_continue a \<and> he_continue e)"
    "ag_updated_input a1 \<noteq> None \<longleftrightarrow> ag_updated_input a \<noteq> None \<or> he_updated_input e \<noteq> None"
    "ag_elicitation a1 \<noteq> None \<longleftrightarrow> ag_elicitation a \<noteq> None \<or> he_elicitation e \<noteq> None"
    "ag_override a1 \<noteq> None \<longrightarrow> ag_override a \<noteq> None \<or> he_override e \<noteq> None"
    using a1(1) by (auto simp: add_effect_def re rbind_Inr_iff split: option.splits)
  have h: "has_field e ''continue_execution'' = (\<not> he_continue e)"
    "has_field e ''updated_input'' = (he_updated_input e \<noteq> None)"
    "has_field e ''elicitation_result'' = (he_elicitation e \<noteq> None)"
    "has_field e ''request_override'' = (he_override e \<noteq> None)"
    by (simp_all add: has_field_def)
  show ?case using Cons.IH [OF a1(2)] f by (auto simp: re h)
qed simp

lemma aggregate_dispatch_outcome:
  "aggregate_dispatch_result phase res = Inr out \<Longrightarrow>
   aggregate_effects phase no_aggregate res = Inr (do_aggregate out) \<and>
   do_stop out = aggregate_stop_disposition (map snd (ag_dispositions (do_aggregate out))) \<and>
   do_continue out = (if phase = ''Stop'' then do_stop out \<noteq> BLOCK_SESSION \<and> do_stop out \<noteq> HALT_FAILURE
     else ag_continue (do_aggregate out))"
  by (cases "aggregate_effects phase no_aggregate res") (auto simp: aggregate_dispatch_result_def Let_def)

text \<open>C16: What a dispatch lets through: every effect that counts has values only in the fields the phase
  and, where it restricts them, the registration allow; so outside of the stop phase nothing stops the
  execution unless the phase may, and an updated input, an elicitation result and a request override
  come only from a phase that lists them.\<close>

theorem dispatch_respects_contracts:
  assumes "dispatch hs sid fresh payload ctx b = (Inr res, b')"
    and "fs = pk_fields (phase_contract_for (py_str (py_get payload ''phase'')))"
  shows "list_all (within_contract (py_str (py_get payload ''phase''))) (dr_effects res) \<and>
    (do_continue (dr_outcome res) \<or> py_str (py_get payload ''phase'') = ''Stop'' \<or> ''continue_execution'' \<in> set fs) \<and>
    (ag_updated_input (do_aggregate (dr_outcome res)) = None \<or> ''updated_input'' \<in> set fs) \<and>
    (ag_elicitation (do_aggregate (dr_outcome res)) = None \<or> ''elicitation_result'' \<in> set fs) \<and>
    (ag_override (do_aggregate (dr_outcome res)) = None \<or> ''request_override'' \<in> set fs)"
proof -
  let ?phase = "py_str (py_get payload ''phase'')"
  obtain d b1 where d: "run_records hs ?phase (match_target payload)
       (active_records sid ?phase (effective_turn payload ctx) ctx
         (materialize_session sid fresh b)) no_dispatch (materialize_session sid fresh b) = (Inr d, b1)"
    and a: "aggregate_dispatch_result ?phase (ds_effects d) = Inr (dr_outcome res)"
    and e: "dr_effects res = ds_effects d"
    using dispatch_Inr [OF assms(1)] by metis
  have within: "\<forall>re \<in> set (ds_effects d). within_contract ?phase re"
    using run_records_within [OF d] by (simp add: no_dispatch_def)
  have field: "has_field (snd re) f \<Longrightarrow> f \<in> set fs" if "re \<in> set (ds_effects d)" for re f
    using within that allowed_in_phase by (fastforce simp: within_contract_def assms(2))
  note out = aggregate_dispatch_outcome [OF a]
  note fields = aggregate_fields [OF conjunct1 [OF out], unfolded no_aggregate_def, simplified]
  have imp: "\<exists>re \<in> set (ds_effects d). has_field (snd re) f \<Longrightarrow> f \<in> set fs" for f
    using field by blast
  have "\<not> ag_continue (do_aggregate (dr_outcome res)) \<Longrightarrow> ''continue_execution'' \<in> set fs"
    "ag_updated_input (do_aggregate (dr_outcome res)) \<noteq> None \<Longrightarrow> ''updated_input'' \<in> set fs"
    "ag_elicitation (do_aggregate (dr_outcome res)) \<noteq> None \<Longrightarrow> ''elicitation_result'' \<in> set fs"
    "ag_override (do_aggregate (dr_outcome res)) \<noteq> None \<Longrightarrow> ''request_override'' \<in> set fs"
    using fields by (intro imp; simp)+
  moreover have "?phase \<noteq> ''Stop'' \<Longrightarrow> do_continue (dr_outcome res) = ag_continue (do_aggregate (dr_outcome res))"
    using out by simp
  moreover have "list_all (within_contract ?phase) (dr_effects res)"
    using within by (simp add: e list_all_iff)
  ultimately show ?thesis by argo
qed

subsection \<open>The strictest disposition decides a stop\<close>

lemma strictest_step:
  "disposition_rank (fold (\<lambda>v w. if disposition_rank w < disposition_rank v then v else w) ds w) =
     fold max (map disposition_rank ds) (disposition_rank w)"
  by (induction ds arbitrary: w) (auto simp: max_def)

lemma disposition_rank_inj: "disposition_rank x = disposition_rank y \<Longrightarrow> x = y"
  by (cases x; cases y) simp_all

lemma fold_max_Max: "fold max xs (n::nat) = Max (insert n (set xs))"
  by (metis Max.set_eq_fold list.set(2))

text \<open>The disposition of a stop is the strictest of those its hooks ask for, and \<open>allow_terminal\<close> where
  none asks: halting over blocking over continuing over allowing, in whatever order the hooks run.\<close>

theorem strictest_disposition_wins:
  "disposition_rank (aggregate_stop_disposition ds) = Max (insert 0 (set (map disposition_rank ds))) \<and>
   aggregate_stop_disposition ds \<in> set (ALLOW_TERMINAL # ds) \<and>
   aggregate_stop_disposition (rev ds) = aggregate_stop_disposition ds"
proof -
  have rank: "disposition_rank (aggregate_stop_disposition xs) = Max (insert 0 (set (map disposition_rank xs)))" for xs
    by (simp add: aggregate_stop_disposition_def strictest_step fold_max_Max)
  have "Max (insert 0 (set (map disposition_rank ds))) \<in> insert 0 (set (map disposition_rank ds))"
    by (rule Max_in) simp_all
  then have "disposition_rank (aggregate_stop_disposition ds) \<in> disposition_rank ` set (ALLOW_TERMINAL # ds)"
    by (simp add: rank)
  then have "aggregate_stop_disposition ds \<in> set (ALLOW_TERMINAL # ds)"
    using disposition_rank_inj by blast
  moreover have "aggregate_stop_disposition (rev ds) = aggregate_stop_disposition ds"
    by (rule disposition_rank_inj) (simp add: rank)
  ultimately show ?thesis using rank by blast
qed

end
