(* ===== verification/Hook_Lifecycle.thy ===== *)
theory Hook_Lifecycle
  imports Hook_Props
begin

text \<open>
  The life of a registration of the hook bus (\<open>hooks/bus.py\<close>): the steps the bus takes, with handlers
  that may themselves make any steps while a dispatch awaits them; the states a registration can go
  through; and what follows for a dispatch: what was released never runs again, and what was
  registered for one use is spent.
\<close>

subsection \<open>Legal changes of state\<close>

definition final :: "activation \<Rightarrow> bool" where
  "final s = (s \<in> {RELEASED, EXPIRED, REJECTED})"

definition legal :: "activation \<Rightarrow> activation \<Rightarrow> bool" where
  "legal s s' = (s' = s \<or> s = PENDING_ACTIVATION \<and> s' = RELEASED \<or> s = ACTIVE \<and> s' \<in> {RELEASED, EXPIRED})"

definition bus_le :: "hook_bus \<Rightarrow> hook_bus \<Rightarrow> bool" where
  "bus_le b b' = (\<forall>rid r. map_of (hb_records b) rid = Some r \<longrightarrow>
     (\<exists>r'. map_of (hb_records b') rid = Some r' \<and> legal (rg_state r) (rg_state r')))"

definition keyed :: "hook_bus \<Rightarrow> bool" where
  "keyed b = (\<forall>rid r. map_of (hb_records b) rid = Some r \<longrightarrow> rg_id r = rid)"

lemma legal_refl [simp]: "legal s s"
  by (simp add: legal_def)

lemma legal_trans: "legal s s' \<Longrightarrow> legal s' s'' \<Longrightarrow> legal s s''"
  by (auto simp: legal_def)

lemma bus_le_refl [simp]: "bus_le b b"
  by (auto simp: bus_le_def)

lemma bus_le_trans: "bus_le b c \<Longrightarrow> bus_le c d \<Longrightarrow> bus_le b d"
  unfolding bus_le_def by (meson legal_trans)

lemma bus_leD:
  "bus_le b b' \<Longrightarrow> map_of (hb_records b) rid = Some r \<Longrightarrow> map_of (hb_records b') rid = Some r' \<Longrightarrow>
   legal (rg_state r) (rg_state r')"
  by (fastforce simp: bus_le_def)

text \<open>A change of the bus that keeps both.\<close>

definition grows :: "hook_bus \<Rightarrow> hook_bus \<Rightarrow> bool" where
  "grows b b' = (keyed b \<longrightarrow> keyed b' \<and> bus_le b b')"

lemma grows_trans [trans]: "grows b c \<Longrightarrow> grows c d \<Longrightarrow> grows b d"
  unfolding grows_def by (meson bus_le_trans)

lemma grows_same: "hb_records b' = hb_records b \<Longrightarrow> grows b b'"
  by (simp add: grows_def keyed_def bus_le_def)

lemma grows_refl [simp]: "grows b b"
  by (simp add: grows_same)

lemma grows_fold: "(\<And>x b. x \<in> set xs \<Longrightarrow> grows b (f x b)) \<Longrightarrow> grows b (fold f xs b)"
  by (induction xs arbitrary: b) (simp, metis grows_trans fold_simps(2) list.set_intros)

lemma grows_set_state:
  "(\<And>r. map_of (hb_records b) rid = Some r \<Longrightarrow> legal (rg_state r) st) \<Longrightarrow> grows b (set_state rid st b)"
  by (auto simp: grows_def keyed_def bus_le_def set_state_def map_of_update split: option.splits)

lemma grows_add_record:
  assumes "map_of (hb_records b) (rg_id r) = None"
  shows "grows b (add_record r b)"
  using assms by (auto simp: grows_def keyed_def bus_le_def add_record_def map_of_update)

lemma grows_rewrite_record:
  assumes "map_of (hb_records b) (rg_id r) = Some t" "rg_state t = rg_state r"
  shows "grows b (add_record r b)"
  using assms by (auto simp: grows_def keyed_def bus_le_def add_record_def map_of_update)

lemma grows_from: "hb_records c = hb_records b \<Longrightarrow> grows c d \<Longrightarrow> grows b d"
  using grows_same grows_trans by blast

subsection \<open>Every operation keeps them\<close>

lemma hb_records_simps [simp]:
  "hb_records (add_to_session s rid b) = hb_records b"
  "hb_records (snd (next_epoch s b)) = hb_records b"
  "hb_records (record_trace t b) = hb_records b"
  by (simp_all add: add_to_session_def next_epoch_def record_trace_def Let_def)

lemma grows_release_if_active: "grows b (release_if_active rid b)"
  by (auto simp: release_if_active_def legal_def intro: grows_set_state split: option.splits)

lemma grows_release: "grows b (snd (release_registration rid b))"
proof -
  have "grows b (fold release_if_active ids (set_state rid RELEASED b))"
    if "map_of (hb_records b) rid = Some r" "rg_state r \<notin> {RELEASED, EXPIRED, REJECTED}" for r ids
  proof (rule grows_trans)
    show "grows b (set_state rid RELEASED b)"
      using that by (intro grows_set_state) (cases "rg_state r"; simp add: legal_def)
  qed (simp add: grows_fold grows_release_if_active)
  then show ?thesis by (simp add: release_registration_def split: option.split)
qed

lemma grows_change_session:
  assumes "st \<in> {RELEASED, EXPIRED}"
  shows "grows b (change_session sid P st b)"
  unfolding change_session_def using assms
  by (intro grows_fold) (auto simp: legal_def intro: grows_set_state split: option.splits)

lemma grows_expire_once: "grows b (expire_once rs b)"
  unfolding expire_once_def
  by (intro grows_fold) (auto simp: legal_def current_state_def intro!: grows_set_state)

lemma next_epoch_records: "next_epoch s b = (n, b') \<Longrightarrow> hb_records b' = hb_records b"
  by (auto simp: next_epoch_def Let_def)

definition updated_record :: "string \<Rightarrow> hook_bus \<Rightarrow> hook_bus \<Rightarrow> bool" where
  "updated_record rid b b' = (\<exists>r. rg_id r = rid \<and> hb_records b' = AList.update rid r (hb_records b))"

lemma updated_record_add:
  "hb_records c = hb_records b \<Longrightarrow> rg_id r = rid \<Longrightarrow> updated_record rid b (add_record r c)"
  by (auto simp: updated_record_def add_record_def)

lemma register_records:
  "hb_records (snd (register_request rid fb q sk owner ref sid tid dl ps at lo b)) = hb_records b \<or>
   updated_record rid b (snd (register_request rid fb q sk owner ref sid tid dl ps at lo b))"
proof -
  let ?sc = "resolve_scope (hq_scope q) sid tid dl"
  show ?thesis
  proof (cases "validate_request q sk ?sc (hb_bindings b) ps at")
    case (Some reason)
    show ?thesis
      by (rule disjI2) (simp add: register_request_def Let_def Some updated_record_add)
  next
    case valid: None
    show ?thesis
    proof (cases "sc_lifetime ?sc = SESSION_TEMPLATE")
      case True
      show ?thesis
        by (rule disjI2) (simp add: register_request_def Let_def valid True updated_record_add)
    next
      case False
      show ?thesis
      proof (cases "nonempty_or sid (sc_session_id ?sc)")
        case None
        show ?thesis by (rule disjI1) (simp add: register_request_def Let_def valid False None)
      next
        case (Some s)
        obtain n b1 where n: "next_epoch s (b\<lparr>hb_creation := hb_creation b + 1\<rparr>) = (n, b1)"
          by (cases "next_epoch s (b\<lparr>hb_creation := hb_creation b + 1\<rparr>)")
        then have b1: "hb_records b1 = hb_records b" using next_epoch_records by fastforce
        show ?thesis
          using n by (intro disjI2) (simp add: register_request_def Let_def valid False Some b1 updated_record_add)
      qed
    qed
  qed
qed

lemma grows_register:
  assumes "map_of (hb_records b) rid = None"
  shows "grows b (snd (register_request rid fb q sk owner ref sid tid dl ps at lo b))"
  using register_records [of rid fb q sk owner ref sid tid dl ps at lo b] assms
  by (auto intro: grows_same simp: updated_record_def grows_def keyed_def bus_le_def map_of_update split: if_splits)

lemma materialize_template_dom:
  "map_of (hb_records b) x = None \<Longrightarrow> x \<noteq> fresh \<Longrightarrow> keyed b \<Longrightarrow>
   map_of (hb_records (materialize_template sid fresh tid b)) x = None"
  by (auto simp: materialize_template_def add_record_def add_to_session_def next_epoch_def map_of_update
      keyed_def Let_def split: option.splits)

lemma grows_materialize_template:
  assumes "map_of (hb_records b) fresh = None"
  shows "grows b (materialize_template sid fresh tid b)"
  using assms
  by (auto simp: materialize_template_def add_record_def add_to_session_def next_epoch_def map_of_update
      keyed_def grows_def bus_le_def Let_def split: option.splits)

lemma grows_materialize_fold:
  "distinct (map fst ps) \<Longrightarrow> list_all (\<lambda>p. map_of (hb_records b) (fst p) = None) ps \<Longrightarrow>
   grows b (fold (\<lambda>(f, tid). materialize_template sid f tid) ps b)"
proof (induction ps arbitrary: b)
  case (Cons p ps)
  obtain f t where p: "p = (f, t)" by (cases p)
  show ?case
    unfolding grows_def
  proof
    assume k: "keyed b"
    let ?c = "materialize_template sid f t b"
    have g: "keyed ?c \<and> bus_le b ?c"
      using grows_materialize_template [of b f sid t] Cons.prems k by (simp add: p grows_def)
    have "list_all (\<lambda>p. map_of (hb_records ?c) (fst p) = None) ps"
      using Cons.prems k by (auto simp: p list_all_iff intro!: materialize_template_dom)
    with Cons.IH [of ?c] Cons.prems(1) g
    show "keyed (fold (\<lambda>(f, tid). materialize_template sid f tid) (p # ps) b) \<and>
        bus_le b (fold (\<lambda>(f, tid). materialize_template sid f tid) (p # ps) b)"
      by (simp add: p grows_def) (meson bus_le_trans)
  qed
qed simp

definition fresh_for :: "string list \<Rightarrow> hook_bus \<Rightarrow> bool" where
  "fresh_for ids b = (distinct ids \<and> list_all (\<lambda>i. map_of (hb_records b) i = None) ids)"

lemma grows_materialize: "fresh_for fresh b \<Longrightarrow> grows b (materialize_session sid fresh b)"
  unfolding materialize_session_def
  by (rule grows_from [rotated], rule grows_materialize_fold)
    (auto simp: fresh_for_def list_all_iff map_fst_zip_take dest: set_zip_leftD)

subsection \<open>The steps of the bus\<close>

text \<open>A dispatch awaits its handlers, and any steps may happen meanwhile: a handler makes steps of its
  own from whatever bus it finds.  Fresh identifiers are those no record has.\<close>

inductive bus_step :: "hook_bus \<Rightarrow> hook_bus \<Rightarrow> bool" where
  Register: "map_of (hb_records b) rid = None \<Longrightarrow>
    bus_step b (snd (register_request rid fb q sk owner ref sid tid dl ps at lo b))"
| Bind: "bus_step b (bind_callback name b)"
| Policy: "bus_step b (set_handler_policy k allowed phase b)"
| Materialize: "fresh_for fresh b \<Longrightarrow> bus_step b (materialize_session sid fresh b)"
| Release: "bus_step b (snd (release_registration rid b))"
| Release_Owner: "bus_step b (release_owner sid owner b)"
| Release_Turn: "bus_step b (release_turn sid tid b)"
| Clear: "bus_step b (clear_session sid b)"
| Dispatch: "fresh_for fresh b \<Longrightarrow> (\<And>r c. bus_step\<^sup>*\<^sup>* c (snd (hs r c))) \<Longrightarrow>
    bus_step b (snd (dispatch hs sid fresh payload ctx b))"

lemma grows_steps: "(\<lambda>b c. bus_step b c \<and> grows b c)\<^sup>*\<^sup>* b c \<Longrightarrow> grows b c"
  by (induction rule: rtranclp_induct) (auto intro: grows_trans)

lemma grows_invoke: "(\<And>r c. grows c (snd (hs r c))) \<Longrightarrow> grows b (snd (invoke_record hs r b))"
  by (auto simp: invoke_record_def invoke_handler_manifest_def Let_def split: prod.splits handler_result.splits
      option.splits) (metis snd_conv)+

lemma grows_run_records:
  assumes "\<And>r c. grows c (snd (hs r c))"
  shows "grows b (snd (run_records hs phase target rs d b))"
proof (induction rs arbitrary: d b)
  case (Cons r rs)
  obtain x b1 where x: "invoke_record hs r b = (x, b1)" by (cases "invoke_record hs r b")
  then have "grows b b1" using grows_invoke [of hs b r] assms by simp
  with Cons.IH x show ?case by (cases x) (auto intro: grows_trans)
qed simp

lemma grows_dispatch:
  assumes "fresh_for fresh b" "\<And>r c. grows c (snd (hs r c))"
  shows "grows b (snd (dispatch hs sid fresh payload ctx b))"
proof -
  let ?m = "materialize_session sid fresh b"
  let ?run = "run_records hs (py_str (py_get payload ''phase'')) (match_target payload)
    (active_records sid (py_str (py_get payload ''phase'')) (effective_turn payload ctx) ctx ?m) no_dispatch ?m"
  obtain x b1 where x: "?run = (x, b1)" by (cases ?run)
  have "grows b ?m" using assms(1) by (rule grows_materialize)
  moreover have "grows ?m (snd ?run)" by (rule grows_run_records) (rule assms(2))
  then have "grows ?m b1" by (simp only: x snd_conv)
  moreover have "grows b1 (snd (dispatch hs sid fresh payload ctx b))"
  proof -
    have "snd (dispatch hs sid fresh payload ctx b) = b1 \<or>
        (\<exists>t rs. snd (dispatch hs sid fresh payload ctx b) = expire_once rs (record_trace t b1))"
      using x by (auto simp: dispatch_def Let_def split: sum.split)
    moreover have "grows b1 (expire_once rs (record_trace t b1))" for rs t
      by (rule grows_from [OF _ grows_expire_once]) simp
    ultimately show ?thesis by fastforce
  qed
  ultimately show ?thesis by (blast intro: grows_trans)
qed

lemma bus_step_grows: "bus_step b c \<Longrightarrow> grows b c"
proof (induction rule: bus_step.induct)
  case (Dispatch fresh b hs sid payload ctx)
  then show ?case by (intro grows_dispatch grows_steps) simp_all
qed (auto simp: bind_callback_def set_handler_policy_def release_owner_def release_turn_def clear_session_def
    intro: grows_same grows_register grows_materialize grows_release grows_change_session split: option.splits)

lemma bus_steps_grow: "bus_step\<^sup>*\<^sup>* b c \<Longrightarrow> grows b c"
  by (induction rule: rtranclp_induct) (auto intro: grows_trans bus_step_grows)

lemma keyed_new [simp]: "keyed new_hook_bus"
  by (simp add: keyed_def new_hook_bus_def)

subsection \<open>What follows for registrations and dispatches\<close>

text \<open>Whatever the bus does, and whatever the handlers do during a dispatch, a registration goes only
  from pending to released and from active to released or expired: one that is released, expired or
  rejected stays so.\<close>

theorem final_states_stay:
  assumes "bus_step\<^sup>*\<^sup>* new_hook_bus b" and "bus_step\<^sup>*\<^sup>* b b'"
    and "rid \<in> fst ` set (hb_records b)"
  shows "legal (registration_state rid b) (registration_state rid b') \<and>
    (\<not> final (registration_state rid b) \<or> registration_state rid b' = registration_state rid b)"
proof -
  have "keyed b" using bus_steps_grow [OF assms(1)] by (simp add: grows_def)
  then have "bus_le b b'" using bus_steps_grow [OF assms(2)] by (simp add: grows_def)
  moreover obtain r where "map_of (hb_records b) rid = Some r"
    using assms(3) by (metis map_of_eq_None_iff not_None_eq)
  ultimately show ?thesis
    by (fastforce simp: bus_le_def registration_state_def final_def legal_def)
qed

lemma active_records_state:
  "r \<in> set (active_records sid phase tid ctx b) \<Longrightarrow> rg_state r = ACTIVE"
  by (simp add: active_records_def)

lemma active_records_lookup:
  assumes "keyed b" "r \<in> set (active_records sid phase tid ctx b)"
  shows "map_of (hb_records b) (rg_id r) = Some r"
  using assms by (auto simp: active_records_def List.map_filter_def keyed_def split: option.splits)

text \<open>A registration that was released, expired or rejected never runs again: no later dispatch, of
  any session, phase or target, matches it.\<close>

theorem released_never_runs:
  assumes "bus_step\<^sup>*\<^sup>* new_hook_bus b" and "rid \<in> fst ` set (hb_records b)" and "final (registration_state rid b)"
    and "bus_step\<^sup>*\<^sup>* b c" and "fresh_for fresh c" and "dispatch hs sid fresh payload ctx c = (Inr res, d)"
  shows "rid \<notin> rg_id ` set (dr_matched res)"
proof
  assume matched: "rid \<in> rg_id ` set (dr_matched res)"
  let ?m = "materialize_session sid fresh c"
  obtain ds b1 where run: "run_records hs (py_str (py_get payload ''phase'')) (match_target payload)
       (active_records sid (py_str (py_get payload ''phase'')) (effective_turn payload ctx) ctx ?m) no_dispatch ?m
         = (Inr ds, b1)" and m: "dr_matched res = ds_matched ds"
    using dispatch_Inr [OF assms(6)] by metis
  from matched m obtain r where r: "rg_id r = rid"
    "r \<in> set (active_records sid (py_str (py_get payload ''phase'')) (effective_turn payload ctx) ctx ?m)"
    using run_records_matched [OF run] by (auto simp: no_dispatch_def)
  have steps: "bus_step\<^sup>*\<^sup>* b ?m" using assms(4,5) Materialize by (meson rtranclp.rtrancl_into_rtrancl)
  have "keyed b" using bus_steps_grow [OF assms(1)] by (simp add: grows_def)
  then have le: "keyed ?m" "bus_le b ?m" using bus_steps_grow [OF steps] by (simp_all add: grows_def)
  have look: "map_of (hb_records ?m) rid = Some r"
    using active_records_lookup [OF le(1) r(2)] r(1) by simp
  obtain r0 where r0: "map_of (hb_records b) rid = Some r0"
    using assms(2) by (metis map_of_eq_None_iff not_None_eq)
  then have "legal (rg_state r0) (rg_state r)" "final (rg_state r0)"
    using bus_leD [OF le(2) _ look] assms(3) by (simp_all add: registration_state_def)
  then show False using active_records_state [OF r(2)] by (auto simp: legal_def final_def)
qed

lemma set_state_inactive:
  "registration_state rid b \<noteq> ACTIVE \<Longrightarrow> registration_state rid (set_state x EXPIRED b) \<noteq> ACTIVE"
  by (auto simp: registration_state_def set_state_def map_of_update split: option.splits)

lemma expire_once_inactive:
  "registration_state rid b \<noteq> ACTIVE \<Longrightarrow> registration_state rid (expire_once rs b) \<noteq> ACTIVE"
  unfolding expire_once_def by (induction rs arbitrary: b) (simp_all add: set_state_inactive)

lemma expire_once_spends:
  assumes "r \<in> set rs"
  shows "registration_state (rg_id r) (expire_once rs b) \<noteq> ACTIVE"
  using assms
proof (induction rs arbitrary: b)
  case (Cons x rs)
  let ?b = "if current_state b x = ACTIVE then set_state (rg_id x) EXPIRED b else b"
  have step: "expire_once (x # rs) b = expire_once rs ?b" by (simp add: expire_once_def)
  show ?case
  proof (cases "r \<in> set rs")
    case True
    then show ?thesis unfolding step by (rule Cons.IH)
  next
    case False
    then have "registration_state (rg_id r) ?b \<noteq> ACTIVE"
      using Cons.prems by (auto simp: registration_state_def current_state_def set_state_def map_of_update
          split: option.splits)
    then show ?thesis unfolding step by (rule expire_once_inactive)
  qed
qed simp

lemma run_records_once:
  "run_records hs phase target rs d b = (Inr d', b') \<Longrightarrow>
   r \<in> set (ds_matched d) \<and> rg_once r \<longrightarrow>
     r \<in> set (ds_once d) \<or> rg_id r \<in> tr_registration_id ` set (ds_blocked d) \<Longrightarrow>
   r \<in> set (ds_matched d') \<and> rg_once r \<longrightarrow>
     r \<in> set (ds_once d') \<or> rg_id r \<in> tr_registration_id ` set (ds_blocked d')"
proof (induction rs arbitrary: d b)
  case (Cons x rs)
  show ?case
  proof (cases "matches_target (rg_matcher x) target")
    case False
    then show ?thesis using Cons by simp
  next
    case True
    obtain er b1 where er: "invoke_record hs x b = (Inr er, b1)"
      "run_records hs phase target rs (after_record phase x er b1 d) b1 = (Inr d', b')"
      using run_records_Cons [OF Cons.prems(1) True] .
    show ?thesis
      by (rule Cons.IH [OF er(2)], cases er, cases "snd er")
        (use Cons.prems(2) in \<open>auto simp: after_record_def trace_registration_of_def Let_def\<close>)
  qed
qed simp

text \<open>A registration for one use is spent by the dispatch that runs it: unless its handler was blocked,
  it is no longer active when the dispatch is done.\<close>

theorem once_is_spent:
  assumes "dispatch hs sid fresh payload ctx b = (Inr res, b')" and "r \<in> set (dr_matched res)" and "rg_once r"
    and "rg_id r \<notin> tr_registration_id ` set (dr_blocked res)"
  shows "registration_state (rg_id r) b' \<noteq> ACTIVE"
proof -
  obtain d b1 t where d: "run_records hs (py_str (py_get payload ''phase'')) (match_target payload)
       (active_records sid (py_str (py_get payload ''phase'')) (effective_turn payload ctx) ctx
         (materialize_session sid fresh b)) no_dispatch (materialize_session sid fresh b) = (Inr d, b1)"
    and m: "dr_matched res = ds_matched d" "dr_blocked res = ds_blocked d"
    and b': "b' = expire_once (ds_once d) (record_trace t b1)"
    using dispatch_Inr [OF assms(1)] by metis
  have "r \<in> set (ds_once d)"
    using run_records_once [OF d, of r] assms(2-4) by (simp add: no_dispatch_def m)
  then show ?thesis unfolding b' by (rule expire_once_spends)
qed

end
