(* ===== verification/Hook_Findings.thy ===== *)
theory Hook_Findings
  imports Hook_Lifecycle
begin

text \<open>
  Concrete buses: instances of the theorems on dispatches, and four places where the hook bus
  (\<open>hooks/bus.py\<close>) does not do what its code means to.
\<close>

definition demo_request :: "string \<Rightarrow> scope_lifetime \<Rightarrow> bool \<Rightarrow> hook_request" where
  "demo_request phase lt once = \<lparr>hq_phase = phase, hq_match = ''*'',
     hq_scope = \<lparr>sc_lifetime = lt, sc_inherit = True, sc_turn_id = None, sc_session_id = None\<rparr>,
     hq_handler = \<lparr>hm_kind = HK_CALLBACK, hm_binding = None, hm_callback = True, hm_static = None\<rparr>,
     hq_contract = \<lparr>ec_classes = [], ec_fields = [], ec_restrict = False\<rparr>,
     hq_owner_hint = Some ''me'', hq_source_ref = None, hq_once = once, hq_metadata = []\<rparr>"

definition demo_register ::
  "string \<Rightarrow> string option \<Rightarrow> scope_lifetime \<Rightarrow> hook_request \<Rightarrow> hook_bus \<Rightarrow> (hook_error + string \<times> activation) \<times> hook_bus"
where
  "demo_register rid sid lt q b =
     register_request rid ''fb'' q SK_HOST_API None None sid None lt (map pk_phase public_phase_contracts) True 0 b"

definition demo_bus :: hook_bus where
  "demo_bus = snd (demo_register ''h'' (Some ''s'') SESSION (demo_request ''SessionStart'' SESSION True) new_hook_bus)"

definition returning :: "raw_result \<Rightarrow> handlers" where
  "returning raw = (\<lambda>r b. (Returns raw, b))"

definition demo_payload :: "(string, pyval) dict" where
  "demo_payload = [(''phase'', PStr ''SessionStart'')]"

definition demo_dispatch :: "raw_result \<Rightarrow> hook_bus \<Rightarrow> (hook_error + dispatch_result) \<times> hook_bus" where
  "demo_dispatch raw b = dispatch (returning raw) ''s'' [] demo_payload [] b"

definition result_of :: "(hook_error + dispatch_result) \<times> hook_bus \<Rightarrow> dispatch_result" where
  "result_of x = projr (fst x)"

lemma dispatch_eqI:
  "isl (fst (demo_dispatch raw b)) = False \<Longrightarrow>
   dispatch (returning raw) ''s'' [] demo_payload [] b =
     (Inr (result_of (demo_dispatch raw b)), snd (demo_dispatch raw b))"
  by (cases "fst (demo_dispatch raw b)") (auto simp: demo_dispatch_def result_of_def prod_eq_iff)

lemma demo_runs: "isl (fst (demo_dispatch (Raw_Text ''hi'') demo_bus)) = False"
  by code_simp

lemma demo_matched: "map rg_id (dr_matched (result_of (demo_dispatch (Raw_Text ''hi'') demo_bus))) = [''h'']"
  by code_simp


theorem dispatch_respects_contracts_witness:
  "list_all (within_contract ''SessionStart'') (dr_effects (result_of (demo_dispatch (Raw_Text ''hi'') demo_bus)))"
proof -
  have "py_str (py_get demo_payload ''phase'') = ''SessionStart''" by code_simp
  then show ?thesis
    using dispatch_respects_contracts [OF dispatch_eqI [OF demo_runs] refl] by simp
qed

lemma demo_once:
  "list_all (\<lambda>r. rg_once r \<and> rg_id r = ''h'') (dr_matched (result_of (demo_dispatch (Raw_Text ''hi'') demo_bus)))"
  "dr_blocked (result_of (demo_dispatch (Raw_Text ''hi'') demo_bus)) = []"
  by code_simp+

theorem once_is_spent_witness:
  "registration_state ''h'' (snd (demo_dispatch (Raw_Text ''hi'') demo_bus)) \<noteq> ACTIVE"
proof -
  obtain r where "r \<in> set (dr_matched (result_of (demo_dispatch (Raw_Text ''hi'') demo_bus)))"
    using demo_matched by fastforce
  with demo_once show ?thesis
    using once_is_spent [OF dispatch_eqI [OF demo_runs], of r] by (auto simp: list_all_iff)
qed

definition released_bus :: hook_bus where
  "released_bus = snd (release_registration ''h'' demo_bus)"

lemma demo_steps: "bus_step\<^sup>*\<^sup>* new_hook_bus released_bus"
proof -
  have "bus_step new_hook_bus demo_bus"
    unfolding demo_bus_def demo_register_def by (rule Register) (simp add: new_hook_bus_def)
  moreover have "bus_step demo_bus released_bus"
    unfolding released_bus_def by (rule Release)
  ultimately show ?thesis by (meson converse_rtranclp_into_rtranclp r_into_rtranclp)
qed

lemma demo_released: "map fst (hb_records released_bus) = [''h'']" "registration_state ''h'' released_bus = RELEASED"
  by code_simp+

lemma demo_released_known: "''h'' \<in> fst ` set (hb_records released_bus)"
  using demo_released(1) by (metis list.set_intros(1) set_map)

lemma demo_released_runs: "isl (fst (demo_dispatch (Raw_Text ''hi'') released_bus)) = False"
  by code_simp

theorem released_never_runs_witness:
  "''h'' \<notin> rg_id ` set (dr_matched (result_of (demo_dispatch (Raw_Text ''hi'') released_bus)))"
  using released_never_runs [OF demo_steps demo_released_known _ rtranclp.rtrancl_refl _
    dispatch_eqI [OF demo_released_runs]] by (simp add: demo_released(2) final_def fresh_for_def)

theorem final_states_stay_witness:
  "registration_state ''h'' (clear_session ''s'' released_bus) = RELEASED"
proof -
  have "bus_step\<^sup>*\<^sup>* released_bus (clear_session ''s'' released_bus)" using Clear by blast
  then show ?thesis
    using final_states_stay [OF demo_steps _ demo_released_known] by (simp add: demo_released(2) final_def)
qed

subsection \<open>Where the bus does not do what it means to\<close>

text \<open>An exception of a handler is contained, and so is a time out: the record is blocked and the
  dispatch goes on.  What a handler returns is not: a mapping with \<open>None\<close> for its notifications makes
  the dispatch itself raise, after the registrations before it have run.\<close>

theorem none_in_a_result_raises:
  "fst (demo_dispatch (Raw_Mapping [(''notifications'', PNone)]) demo_bus) = Inl Type_Error \<and>
   isl (fst (dispatch (\<lambda>r b. (Raises ''ValueError'', b)) ''s'' [] demo_payload [] demo_bus)) = False"
proof
  show "fst (demo_dispatch (Raw_Mapping [(''notifications'', PNone)]) demo_bus) = Inl Type_Error" by code_simp
  show "isl (fst (dispatch (\<lambda>r b. (Raises ''ValueError'', b)) ''s'' [] demo_payload [] demo_bus)) = False"
    by code_simp
qed

text \<open>A handler that dispatches the same phase again, as a callback that starts a session may.\<close>

definition dispatching_again :: handlers where
  "dispatching_again = (\<lambda>r b. (Returns (Raw_Text ''x''), snd (demo_dispatch (Raw_Text ''hi'') b)))"

definition traced :: "string \<Rightarrow> hook_bus \<Rightarrow> string list list" where
  "traced sid b = (case map_of (hb_traces b) sid of
     None \<Rightarrow> [] | Some ts \<Rightarrow> map (map tr_registration_id \<circ> dt_matched) ts)"

text \<open>A registration for one use can run twice: it is spent only after the dispatch is done, so a
  dispatch that happens while its handler is awaited runs it again.\<close>

theorem once_runs_twice:
  "traced ''s'' (snd (dispatch dispatching_again ''s'' [] demo_payload [] demo_bus)) = [[''h''], [''h'']]"
  by code_simp

definition template_bus :: hook_bus where
  "template_bus = snd (demo_register ''t'' None SESSION_TEMPLATE
     (demo_request ''SessionStart'' SESSION_TEMPLATE False) new_hook_bus)"

definition matched_ids :: "string \<Rightarrow> string list \<Rightarrow> hook_bus \<Rightarrow> string list" where
  "matched_ids sid fresh b =
     (case fst (dispatch (returning (Raw_Text ''hi'')) sid fresh demo_payload [] b) of
        Inl e \<Rightarrow> [] | Inr res \<Rightarrow> map rg_id (dr_matched res))"

definition after_close :: hook_bus where
  "after_close = clear_session ''s'' (snd (dispatch (returning (Raw_Text ''hi'')) ''s'' [''a''] demo_payload [] template_bus))"

text \<open>A session that is closed and opened again under its identifier loses its templates: closing
  expires the session's copies and keeps the note that they were made, so they are not made again, while
  the template still serves any other session.\<close>

theorem reopened_session_loses_templates:
  "matched_ids ''s'' [''a''] template_bus = [''a''] \<and> matched_ids ''s'' [''b''] after_close = [] \<and>
   matched_ids ''u'' [''b''] after_close = [''b'']"
proof (intro conjI)
  show "matched_ids ''s'' [''a''] template_bus = [''a'']" by code_simp
  show "matched_ids ''s'' [''b''] after_close = []" by code_simp
  show "matched_ids ''u'' [''b''] after_close = [''b'']" by code_simp
qed

text \<open>A request for the scope of a turn without a session is not rejected like a session's: it trips over
  an assertion of the bus.\<close>

lemma turn_scope_without_session_asserts:
  "fst (register_request ''h'' ''fb'' (demo_request ''SessionStart'' TURN False) SK_SESSION_API None None None
     (Some ''t'') TURN (map pk_phase public_phase_contracts) True 0 new_hook_bus) = Inl Assertion_Error"
  by code_simp

end
