(* ===== verification/Messages.thy ===== *)
theory Messages
  imports Py_Values
begin

text \<open>
  Messages and their content blocks (\<open>contracts.py\<close>), with the payloads they are written to and read
  from.  A value a payload holds where the dataclass wants a string, a bool or a mapping of strings is
  coerced as the code does it, or raises.
\<close>

datatype message_role = Role_System | Role_User | Role_Assistant | Role_Tool | Role_Hook | Role_Notification

fun role_value :: "message_role \<Rightarrow> string" where
  "role_value Role_System = ''system''"
| "role_value Role_User = ''user''"
| "role_value Role_Assistant = ''assistant''"
| "role_value Role_Tool = ''tool''"
| "role_value Role_Hook = ''hook''"
| "role_value Role_Notification = ''notification''"

definition role_of :: "string \<Rightarrow> message_role option" where
  "role_of s = List.find (\<lambda>r. role_value r = s)
     [Role_System, Role_User, Role_Assistant, Role_Tool, Role_Hook, Role_Notification]"

datatype content_block =
    Text_Block string
  | Tool_Use_Block string string "(string, pyval) dict"
  | Tool_Result_Block string pyval bool
  | Thinking_Block string "string option"
  | Redacted_Thinking_Block "string option"

record message_attachment =
  ma_name :: string
  ma_path :: string
  ma_mime_type :: "string option"
  ma_metadata :: "(string, pyval) dict"

record runtime_message =
  rm_id :: string
  rm_role :: message_role
  rm_content :: "content_block list"
  rm_created_at :: time
  rm_attachments :: "message_attachment list"
  rm_metadata :: "(string, pyval) dict"

text \<open>\<open>coerce_content_blocks\<close> on a text.\<close>

definition text_content :: "string \<Rightarrow> content_block list" where
  "text_content s = (if s = [] then [] else [Text_Block s])"

subsection \<open>Payloads\<close>

datatype payload_error = Key_Missing | Bad_Type | Bad_Value

definition opt_text :: "string option \<Rightarrow> pyval" where
  "opt_text x = (case x of None \<Rightarrow> PNone | Some s \<Rightarrow> PStr s)"

definition serialize_content_block :: "content_block \<Rightarrow> pyval" where
  "serialize_content_block b =
     (case b of
        Text_Block t \<Rightarrow> PDict [(''type'', PStr ''text''), (''text'', PStr t)]
      | Tool_Use_Block i n inp \<Rightarrow>
          PDict [(''type'', PStr ''tool_use''), (''tool_use_id'', PStr i), (''name'', PStr n), (''input'', PDict inp)]
      | Tool_Result_Block i c e \<Rightarrow>
          PDict [(''type'', PStr ''tool_result''), (''tool_use_id'', PStr i), (''content'', c), (''is_error'', PBool e)]
      | Thinking_Block t s \<Rightarrow>
          PDict [(''type'', PStr ''thinking''), (''thinking'', PStr t), (''signature'', opt_text s)]
      | Redacted_Thinking_Block d \<Rightarrow> PDict [(''type'', PStr ''redacted_thinking''), (''data'', opt_text d)])"

definition key_or_raise :: "(string, pyval) dict \<Rightarrow> string \<Rightarrow> payload_error + pyval" where
  "key_or_raise d k = (case map_of d k of None \<Rightarrow> Inl Key_Missing | Some v \<Rightarrow> Inr v)"

text \<open>\<open>dict(value)\<close>: a mapping, or an iterable of pairs, whose keys are taken to be strings.\<close>

fun pair_of :: "pyval \<Rightarrow> (string \<times> pyval) option" where
  "pair_of (PList [PStr k, v]) = Some (k, v)"
| "pair_of (PStr [a, b]) = Some ([a], PStr [b])"
| "pair_of v = None"

fun as_dict :: "pyval \<Rightarrow> payload_error + (string, pyval) dict" where
  "as_dict (PDict d) = Inr d"
| "as_dict (PStr []) = Inr []"
| "as_dict (PList xs) =
     (if list_all (\<lambda>x. pair_of x \<noteq> None) xs then Inr (py_update [] (List.map_filter pair_of xs)) else Inl Bad_Value)"
| "as_dict v = Inl Bad_Type"

definition text_or :: "(string, pyval) dict \<Rightarrow> string \<Rightarrow> string \<Rightarrow> string" where
  "text_or d k s = (case map_of d k of None \<Rightarrow> s | Some v \<Rightarrow> py_str v)"

definition opt_text_of :: "pyval \<Rightarrow> string option" where
  "opt_text_of v = (if v = PNone then None else Some (py_str v))"

definition deserialize_content_block :: "pyval \<Rightarrow> payload_error + content_block" where
  "deserialize_content_block p =
     (case p of
        PDict d \<Rightarrow>
          rbind (key_or_raise d ''type'') (\<lambda>t.
            if py_str t = ''text'' then Inr (Text_Block (text_or d ''text'' []))
            else if py_str t = ''tool_use'' then
              rbind (key_or_raise d ''tool_use_id'') (\<lambda>i. rbind (key_or_raise d ''name'') (\<lambda>n.
              rbind (case map_of d ''input'' of None \<Rightarrow> Inr [] | Some v \<Rightarrow> as_dict v) (\<lambda>inp.
              Inr (Tool_Use_Block (py_str i) (py_str n) inp))))
            else if py_str t = ''tool_result'' then
              rbind (key_or_raise d ''tool_use_id'') (\<lambda>i.
              Inr (Tool_Result_Block (py_str i) (py_get d ''content'')
                (case map_of d ''is_error'' of None \<Rightarrow> False | Some v \<Rightarrow> py_truthy v)))
            else if py_str t = ''thinking'' then
              Inr (Thinking_Block (text_or d ''thinking'' []) (opt_text_of (py_get d ''signature'')))
            else if py_str t = ''redacted_thinking'' then
              Inr (Redacted_Thinking_Block (opt_text_of (py_get d ''data'')))
            else Inl Bad_Value)
      | _ \<Rightarrow> Inl Bad_Type)"

fun collect :: "('a \<Rightarrow> 'e + 'b) \<Rightarrow> 'a list \<Rightarrow> 'e + 'b list" where
  "collect f [] = Inr []"
| "collect f (x # xs) = rbind (f x) (\<lambda>y. rbind (collect f xs) (\<lambda>ys. Inr (y # ys)))"

definition deserialize_content_blocks :: "pyval \<Rightarrow> payload_error + content_block list" where
  "deserialize_content_blocks p =
     (case p of
        PStr s \<Rightarrow> Inr (text_content s)
      | PList bs \<Rightarrow> collect deserialize_content_block bs
      | _ \<Rightarrow> Inl Bad_Type)"

definition serialize_content_blocks :: "content_block list \<Rightarrow> pyval" where
  "serialize_content_blocks bs = PList (map serialize_content_block bs)"

subsection \<open>What is written is read back\<close>

lemma collect_map_Inr [simp]: "(\<And>x. x \<in> set xs \<Longrightarrow> f (g x) = Inr x) \<Longrightarrow> collect f (map g xs) = Inr xs"
  by (induction xs) auto

lemma opt_text_back [simp]: "opt_text_of (opt_text x) = x"
  by (cases x) (simp_all add: opt_text_def opt_text_of_def)

lemma deserialize_serialize_block [simp]: "deserialize_content_block (serialize_content_block b) = Inr b"
  by (cases b) (simp_all add: serialize_content_block_def deserialize_content_block_def key_or_raise_def
      text_or_def py_get_def)

lemma deserialize_serialize_blocks [simp]: "deserialize_content_blocks (serialize_content_blocks bs) = Inr bs"
  by (simp add: deserialize_content_blocks_def serialize_content_blocks_def)

lemma role_of_value [simp]: "role_of (role_value r) = Some r"
  by (cases r) (simp_all add: role_of_def)

end
