(* ===== verification/Session_Ingress.thy ===== *)
theory Session_Ingress
  imports Messages Request_Override
begin

text \<open>
  What a session makes of an inbound event (\<open>session_runtime/ingress.py\<close>, \<open>session_runtime/models.py\<close>):
  the kind of its admission, the message it leaves in the transcript, the outputs replayed to the host,
  the completion receipts, and the updates of the two contexts.  Fresh identifiers come from a supply:
  the number 0 is the message's, the others those of the replayed outputs in order.
\<close>

subsection \<open>Data\<close>

datatype admission_kind = Admit_Turn | Local_Only | Transcript_Only | Replay_Only | Reject

fun admission_value :: "admission_kind \<Rightarrow> string" where
  "admission_value Admit_Turn = ''admit_turn''"
| "admission_value Local_Only = ''local_only''"
| "admission_value Transcript_Only = ''transcript_only''"
| "admission_value Replay_Only = ''replay_only''"
| "admission_value Reject = ''reject''"

definition admission_of :: "string \<Rightarrow> admission_kind option" where
  "admission_of s = List.find (\<lambda>k. admission_value k = s) [Admit_Turn, Local_Only, Transcript_Only, Replay_Only, Reject]"

datatype inbound_type = User_Prompt | System_Message | Task_Notification | Host_Event

fun inbound_value :: "inbound_type \<Rightarrow> string" where
  "inbound_value User_Prompt = ''user_prompt''"
| "inbound_value System_Message = ''system_message''"
| "inbound_value Task_Notification = ''task_notification''"
| "inbound_value Host_Event = ''host_event''"

record inbound_event =
  ie_type :: inbound_type
  ie_content :: string
  ie_metadata :: "(string, pyval) dict"

record replay_output =
  ro_id :: string
  ro_role :: message_role
  ro_content :: "content_block list"
  ro_visibility :: string
  ro_source :: string
  ro_metadata :: "(string, pyval) dict"

record completion_receipt =
  cr_id :: string
  cr_kind :: string
  cr_payload :: pyval

record ingress_result =
  ir_kind :: admission_kind
  ir_reason :: string
  ir_messages :: "runtime_message list"
  ir_replay :: "replay_output list"
  ir_receipts :: "completion_receipt list"
  ir_prompt :: "(string, pyval) dict"
  ir_private :: "(string, pyval) dict"

text \<open>The \<open>ValueError\<close>s: an unknown role, and the contracts of a result.\<close>

datatype ingress_error = Unknown_Role string | Contract_Violated admission_kind

definition control_keys :: "string list" where
  "control_keys = [''admission_kind'', ''ingress_reason'', ''prompt_updates'', ''private_updates'', ''replay_outputs'',
     ''completion_receipts'', ''replay_text'', ''replay_role'', ''replay_visibility'', ''replay_source'',
     ''replay_metadata'', ''ingress_priority'', ''role'', ''source'', ''visibility'', ''transcript_visible'']"

definition private_only_keys :: "string list" where
  "private_only_keys = [''execution_policy_state'', ''permission_context'']"

subsection \<open>Admission and roles\<close>

definition resolve_admission_kind :: "inbound_type \<Rightarrow> (string, pyval) dict \<Rightarrow> admission_kind \<times> string option" where
  "resolve_admission_kind t md =
     (case py_get md ''admission_kind'' of
        PStr raw \<Rightarrow> (case admission_of raw of Some k \<Rightarrow> (k, None) | None \<Rightarrow> (Reject, Some raw))
      | _ \<Rightarrow> (case t of User_Prompt \<Rightarrow> Admit_Turn | System_Message \<Rightarrow> Admit_Turn
                | Task_Notification \<Rightarrow> Transcript_Only | Host_Event \<Rightarrow> Local_Only, None))"

fun coerce_message_role :: "pyval \<Rightarrow> message_role \<Rightarrow> ingress_error + message_role" where
  "coerce_message_role (PStr s) fallback = (case role_of s of None \<Rightarrow> Inl (Unknown_Role s) | Some r \<Rightarrow> Inr r)"
| "coerce_message_role v fallback = Inr fallback"

definition resolve_message_role :: "inbound_type \<Rightarrow> (string, pyval) dict \<Rightarrow> ingress_error + message_role" where
  "resolve_message_role t md =
     (if py_get md ''role'' \<noteq> PNone then coerce_message_role (py_get md ''role'') Role_User
      else Inr (case t of System_Message \<Rightarrow> Role_System | Task_Notification \<Rightarrow> Role_Notification | _ \<Rightarrow> Role_User))"

definition wants_transcript_entry :: "admission_kind \<Rightarrow> (string, pyval) dict \<Rightarrow> bool" where
  "wants_transcript_entry k md =
     (case py_get md ''transcript_visible'' of PBool b \<Rightarrow> b | _ \<Rightarrow> k \<in> {Admit_Turn, Transcript_Only})"

subsection \<open>The message\<close>

definition default_field ::
  "string \<Rightarrow> string \<Rightarrow> inbound_type \<Rightarrow> (string, pyval) dict \<Rightarrow> (string, pyval) dict \<Rightarrow> (string, pyval) dict" where
  "default_field k d t md filtered =
     (case py_get md k of
        PStr s \<Rightarrow> if s \<noteq> [] then set_default k (PStr s) filtered
          else if t \<noteq> User_Prompt then set_default k (PStr d) filtered else filtered
      | _ \<Rightarrow> if t \<noteq> User_Prompt then set_default k (PStr d) filtered else filtered)"

definition normalized_message_metadata :: "inbound_type \<Rightarrow> (string, pyval) dict \<Rightarrow> (string, pyval) dict" where
  "normalized_message_metadata t md =
     default_field ''visibility'' ''transcript'' t md
       (default_field ''source'' (inbound_value t) t md
         (filter (\<lambda>kv. fst kv \<notin> set control_keys \<and> fst kv \<notin> set private_only_keys) md))"

definition last_segment :: "string \<Rightarrow> string" where
  "last_segment p = rev (takeWhile (\<lambda>c. c \<noteq> CHR ''/'') (rev p))"

definition coerce_attachment :: "pyval \<Rightarrow> message_attachment option" where
  "coerce_attachment v =
     (case v of
        PDict d \<Rightarrow>
          (case py_get d ''path'' of
             PStr p \<Rightarrow>
               if strip p = [] then None
               else
                 (let fallback = (if last_segment (strip p) \<noteq> [] then last_segment (strip p) else strip p);
                      name = (case py_get d ''name'' of PStr n \<Rightarrow> if strip n \<noteq> [] then n else fallback | _ \<Rightarrow> fallback);
                      mime = py_get d ''mime_type''
                  in Some \<lparr>ma_name = strip name, ma_path = strip p,
                       ma_mime_type = (if py_truthy mime then Some (strip (py_str mime)) else None),
                       ma_metadata = filter (\<lambda>kv. fst kv \<notin> {''name'', ''path'', ''mime_type''}) d\<rparr>)
           | _ \<Rightarrow> None)
      | _ \<Rightarrow> None)"

definition coerce_attachments :: "(string, pyval) dict \<Rightarrow> message_attachment list" where
  "coerce_attachments md = (case py_get md ''attachments'' of PList xs \<Rightarrow> List.map_filter coerce_attachment xs | _ \<Rightarrow> [])"

definition build_normalized_messages ::
  "(nat \<Rightarrow> string) \<Rightarrow> time \<Rightarrow> inbound_event \<Rightarrow> admission_kind \<Rightarrow> ingress_error + runtime_message list" where
  "build_normalized_messages fresh now e k =
     (let md = ie_metadata e; wants = wants_transcript_entry k md in
      if k \<in> {Replay_Only, Reject} then Inr []
      else if ie_content e = [] \<and> \<not> wants then Inr []
      else if k = Local_Only \<and> \<not> wants then Inr []
      else rbind (resolve_message_role (ie_type e) md) (\<lambda>r.
        Inr [\<lparr>rm_id = fresh 0, rm_role = r, rm_content = text_content (ie_content e), rm_created_at = now,
              rm_attachments = coerce_attachments md,
              rm_metadata = normalized_message_metadata (ie_type e) md\<rparr>]))"

subsection \<open>Replayed outputs and receipts\<close>

definition str_or_text :: "pyval \<Rightarrow> string \<Rightarrow> string" where
  "str_or_text v s = py_str (py_or v (PStr s))"

definition raw_replay_output :: "string \<Rightarrow> inbound_type \<Rightarrow> (string, pyval) dict \<Rightarrow> ingress_error + replay_output" where
  "raw_replay_output fresh t d =
     rbind (coerce_message_role (py_get d ''role'') Role_Notification) (\<lambda>r.
     Inr \<lparr>ro_id = str_or_text (py_get d ''output_id'') fresh, ro_role = r,
          ro_content = text_content (str_or_text (py_get d ''content'') []),
          ro_visibility = str_or_text (py_get d ''visibility'') ''host'',
          ro_source = str_or_text (py_get d ''source'') (inbound_value t),
          ro_metadata = coerce_mapping (py_get d ''metadata'')\<rparr>)"

fun raw_replay_outputs :: "(nat \<Rightarrow> string) \<Rightarrow> nat \<Rightarrow> inbound_type \<Rightarrow> pyval list \<Rightarrow> ingress_error + replay_output list" where
  "raw_replay_outputs fresh i t [] = Inr []"
| "raw_replay_outputs fresh i t (PDict d # vs) =
     rbind (raw_replay_output (fresh i) t d) (\<lambda>r. rbind (raw_replay_outputs fresh (Suc i) t vs) (\<lambda>rs. Inr (r # rs)))"
| "raw_replay_outputs fresh i t (v # vs) = raw_replay_outputs fresh i t vs"

definition build_replay_outputs ::
  "(nat \<Rightarrow> string) \<Rightarrow> inbound_event \<Rightarrow> admission_kind \<Rightarrow> ingress_error + replay_output list" where
  "build_replay_outputs fresh e k =
     (let md = ie_metadata e; t = ie_type e in
      case py_get md ''replay_outputs'' of
        PList vs \<Rightarrow> raw_replay_outputs fresh 1 t vs
      | _ \<Rightarrow>
          (case py_get md ''replay_text'' of
             PStr (c # cs) \<Rightarrow>
               rbind (coerce_message_role (py_get md ''replay_role'') Role_Notification) (\<lambda>r.
               Inr [\<lparr>ro_id = fresh 1, ro_role = r, ro_content = text_content (c # cs),
                     ro_visibility = str_or_text (py_get md ''replay_visibility'') ''host'',
                     ro_source = str_or_text (py_get md ''replay_source'') (inbound_value t),
                     ro_metadata = coerce_mapping (py_get md ''replay_metadata'')\<rparr>])
           | _ \<Rightarrow>
               if k = Local_Only \<and> ie_content e \<noteq> []
               then Inr [\<lparr>ro_id = fresh 1, ro_role = Role_Notification, ro_content = text_content (ie_content e),
                     ro_visibility = ''host'', ro_source = inbound_value t, ro_metadata = []\<rparr>]
               else Inr []))"

definition coerce_receipt :: "pyval \<Rightarrow> completion_receipt option" where
  "coerce_receipt v =
     (case v of
        PDict d \<Rightarrow>
          (let i = strip (str_or_text (py_get d ''receipt_id'') []); k = strip (str_or_text (py_get d ''kind'') [])
           in if i = [] \<or> k = [] then None else Some \<lparr>cr_id = i, cr_kind = k, cr_payload = py_get d ''payload''\<rparr>)
      | _ \<Rightarrow> None)"

definition build_completion_receipts :: "(string, pyval) dict \<Rightarrow> completion_receipt list" where
  "build_completion_receipts md =
     (case py_get md ''completion_receipts'' of PList vs \<Rightarrow> List.map_filter coerce_receipt vs | _ \<Rightarrow> [])"

subsection \<open>The result\<close>

definition merge_context_updates :: "pyval list \<Rightarrow> (string, pyval) dict" where
  "merge_context_updates vs = fold (\<lambda>v d. py_update d (coerce_mapping v)) vs []"

definition metadata_private_updates :: "(string, pyval) dict \<Rightarrow> (string, pyval) dict" where
  "metadata_private_updates md = filter (\<lambda>kv. fst kv \<notin> set control_keys) md"

definition validate_result :: "ingress_result \<Rightarrow> bool" where
  "validate_result r \<longleftrightarrow>
     \<not> (ir_kind r \<in> {Admit_Turn, Transcript_Only} \<and> ir_messages r = []) \<and>
     \<not> (ir_kind r = Replay_Only \<and> ir_replay r = []) \<and>
     \<not> (ir_kind r \<noteq> Admit_Turn \<and> ir_prompt r \<noteq> []) \<and>
     \<not> (ir_kind r \<in> {Replay_Only, Reject} \<and> ir_messages r \<noteq> [])"

text \<open>The result by the kind's constructor: only an admitted turn takes the prompt updates, and the kinds
  that write nothing take no message.\<close>

definition result_of_kind ::
  "admission_kind \<Rightarrow> string \<Rightarrow> runtime_message list \<Rightarrow> replay_output list \<Rightarrow> completion_receipt list \<Rightarrow>
   (string, pyval) dict \<Rightarrow> (string, pyval) dict \<Rightarrow> ingress_error + ingress_result" where
  "result_of_kind k reason ms rs cs prompt private =
     (let r = \<lparr>ir_kind = k, ir_reason = reason, ir_messages = (if k \<in> {Replay_Only, Reject} then [] else ms),
            ir_replay = rs, ir_receipts = cs, ir_prompt = (if k = Admit_Turn then prompt else []), ir_private = private\<rparr>
      in if validate_result r then Inr r else Inl (Contract_Violated k))"

definition process_event ::
  "(nat \<Rightarrow> string) \<Rightarrow> time \<Rightarrow> (string, pyval) dict \<Rightarrow> (string, pyval) dict \<Rightarrow> inbound_event \<Rightarrow>
   ingress_error + ingress_result" where
  "process_event fresh now services_md session_md e =
     (let md = ie_metadata e;
          (k, invalid) = resolve_admission_kind (ie_type e) md;
          reason = str_or_text (py_get md ''ingress_reason'')
            (if invalid \<noteq> None then ''invalid_admission_kind'' else admission_value k)
      in rbind (build_normalized_messages fresh now e k) (\<lambda>ms.
         rbind (build_replay_outputs fresh e k) (\<lambda>rs.
         let prompt = merge_context_updates [py_get services_md ''ingress_prompt_defaults'',
               py_get session_md ''ingress_prompt_defaults'', py_get md ''prompt_updates''];
             private = merge_context_updates [py_get services_md ''ingress_private_defaults'',
               py_get session_md ''ingress_private_defaults'', PDict (metadata_private_updates md),
               PDict (case invalid of None \<Rightarrow> [] | Some raw \<Rightarrow> [(''invalid_admission_kind'', PStr raw)]),
               py_get md ''private_updates'']
         in result_of_kind k reason ms rs (build_completion_receipts md) prompt private)))"

end
