(* ===== verification/Private_Context.thy ===== *)
theory Private_Context
  imports Request_Override
begin

text \<open>
  The private context of a session or a turn (\<open>contracts.py\<close>): its fields, the flat mapping older code
  reads (\<open>compat_metadata\<close>), the way back, and the merge of updates through that mapping.
\<close>

record private_context =
  pc_permission :: pyval
  pc_policy_state :: pyval
  pc_run_id :: "string option"
  pc_parent_run_id :: "string option"
  pc_delegation_depth :: "int option"
  pc_requested_route :: "string option"
  pc_resolved_route :: "string option"
  pc_provider :: "string option"
  pc_invocation_mode :: pyval
  pc_diagnostics :: "(string, pyval) dict"
  pc_extensions :: "(string, pyval) dict"

definition no_private_context :: private_context where
  "no_private_context = \<lparr>pc_permission = PNone, pc_policy_state = PNone, pc_run_id = None, pc_parent_run_id = None,
     pc_delegation_depth = None, pc_requested_route = None, pc_resolved_route = None, pc_provider = None,
     pc_invocation_mode = PNone, pc_diagnostics = [], pc_extensions = []\<rparr>"

definition put_value :: "string \<Rightarrow> pyval \<Rightarrow> (string, pyval) dict \<Rightarrow> (string, pyval) dict" where
  "put_value k v d = (if v = PNone then d else AList.update k v d)"

definition opt_int_value :: "int option \<Rightarrow> pyval" where
  "opt_int_value x = (case x of None \<Rightarrow> PNone | Some i \<Rightarrow> PInt i)"

definition opt_str_value :: "string option \<Rightarrow> pyval" where
  "opt_str_value x = (case x of None \<Rightarrow> PNone | Some s \<Rightarrow> PStr s)"

definition compat_metadata :: "private_context \<Rightarrow> (string, pyval) dict" where
  "compat_metadata c =
     py_update
       (put_value ''invocation_mode'' (pc_invocation_mode c)
       (put_value ''provider_name'' (opt_str_value (pc_provider c))
       (put_value ''resolved_model_route'' (opt_str_value (pc_resolved_route c))
       (put_value ''requested_model_route'' (opt_str_value (pc_requested_route c))
       (put_value ''delegation_depth'' (opt_int_value (pc_delegation_depth c))
       (put_value ''parent_run_id'' (opt_str_value (pc_parent_run_id c))
       (put_value ''run_id'' (opt_str_value (pc_run_id c))
       (put_value ''execution_policy_state'' (pc_policy_state c)
       (put_value ''permission_context'' (pc_permission c) (pc_extensions c))))))))))
       (pc_diagnostics c)"

definition diagnostic_keys :: "string list" where
  "diagnostic_keys = [''memory_retrieval'', ''memory_diagnostics'', ''legacy_runtime_context_write_blocked'']"

definition is_diagnostic_key :: "string \<Rightarrow> bool" where
  "is_diagnostic_key k = (k \<in> set diagnostic_keys \<or> drop (length k - 12) k = ''_diagnostics'')"

definition context_field_keys :: "string list" where
  "context_field_keys = [''diagnostics'', ''prompt_updates'', ''compaction_summary'', ''compaction_boundary'',
     ''compaction_continuation'', ''permission_context'', ''execution_policy_state'', ''run_id'', ''parent_run_id'',
     ''delegation_depth'', ''requested_model_route'', ''resolved_model_route'', ''provider_name'', ''invocation_mode'']"

definition context_from_mapping :: "(string, pyval) dict \<Rightarrow> private_context" where
  "context_from_mapping d =
     \<lparr>pc_permission = py_get d ''permission_context'', pc_policy_state = py_get d ''execution_policy_state'',
      pc_run_id = coerce_str (py_get d ''run_id''), pc_parent_run_id = coerce_str (py_get d ''parent_run_id''),
      pc_delegation_depth = coerce_optional_int (py_get d ''delegation_depth''),
      pc_requested_route = coerce_str (py_get d ''requested_model_route''),
      pc_resolved_route = coerce_str (py_get d ''resolved_model_route''),
      pc_provider = coerce_str (py_get d ''provider_name''), pc_invocation_mode = py_get d ''invocation_mode'',
      pc_diagnostics = py_update (coerce_mapping (py_get d ''diagnostics''))
        (filter (\<lambda>kv. is_diagnostic_key (fst kv) \<and> fst kv \<noteq> ''diagnostics'') d),
      pc_extensions = filter (\<lambda>kv. \<not> is_diagnostic_key (fst kv) \<and> fst kv \<notin> set context_field_keys) d\<rparr>"

definition merge_private_context :: "private_context \<Rightarrow> (string, pyval) dict \<Rightarrow> private_context" where
  "merge_private_context c updates = context_from_mapping (py_update (compat_metadata c) updates)"

subsection \<open>Through the flat mapping and back\<close>

definition plain_text :: "string option \<Rightarrow> bool" where
  "plain_text x = (case x of None \<Rightarrow> True | Some s \<Rightarrow> strip s = s \<and> s \<noteq> [])"

definition normal_context :: "private_context \<Rightarrow> bool" where
  "normal_context c \<longleftrightarrow>
     list_all plain_text [pc_run_id c, pc_parent_run_id c, pc_requested_route c, pc_resolved_route c, pc_provider c] \<and>
     distinct (map fst (pc_extensions c)) \<and> distinct (map fst (pc_diagnostics c)) \<and>
     list_all (\<lambda>k. \<not> is_diagnostic_key k \<and> k \<notin> set context_field_keys) (map fst (pc_extensions c)) \<and>
     list_all (\<lambda>k. is_diagnostic_key k \<and> k \<noteq> ''diagnostics'') (map fst (pc_diagnostics c))"

lemma map_of_put_value: "map_of (put_value k v d) k' = (if k' = k \<and> v \<noteq> PNone then Some v else map_of d k')"
  by (simp add: put_value_def map_of_update)

lemma coerce_str_opt: "plain_text x \<Longrightarrow> coerce_str (opt_str_value x) = x"
  by (cases x) (simp_all add: plain_text_def opt_str_value_def)

lemma coerce_int_opt [simp]: "coerce_optional_int (opt_int_value x) = x"
  by (cases x) (simp_all add: opt_int_value_def)

lemma opt_str_value_none [simp]: "opt_str_value x = PNone \<longleftrightarrow> x = None"
  by (cases x) (simp_all add: opt_str_value_def)

lemma opt_int_value_none [simp]: "opt_int_value x = PNone \<longleftrightarrow> x = None"
  by (cases x) (simp_all add: opt_int_value_def)

lemma field_keys_not_diagnostic: "k \<in> set context_field_keys \<Longrightarrow> \<not> is_diagnostic_key k"
  by (auto simp: context_field_keys_def is_diagnostic_key_def diagnostic_keys_def)

lemma map_of_filter_keys: "map_of (filter (\<lambda>kv. P (fst kv)) d) k = (if P k then map_of d k else None)"
  by (induction d) auto

lemma map_of_rev_keys: "distinct (map fst d) \<Longrightarrow> map_of (rev d) = map_of d"
  by (rule map_of_inject_set [THEN iffD2]) (simp_all add: rev_map [symmetric])

text \<open>What the flat mapping of a normal context holds under each key.\<close>

definition field_value :: "private_context \<Rightarrow> string \<Rightarrow> pyval" where
  "field_value c k =
     (if k = ''invocation_mode'' then pc_invocation_mode c else if k = ''provider_name'' then opt_str_value (pc_provider c)
      else if k = ''resolved_model_route'' then opt_str_value (pc_resolved_route c)
      else if k = ''requested_model_route'' then opt_str_value (pc_requested_route c)
      else if k = ''delegation_depth'' then opt_int_value (pc_delegation_depth c)
      else if k = ''parent_run_id'' then opt_str_value (pc_parent_run_id c)
      else if k = ''run_id'' then opt_str_value (pc_run_id c)
      else if k = ''execution_policy_state'' then pc_policy_state c
      else if k = ''permission_context'' then pc_permission c else PNone)"

lemma field_value_none: "k \<notin> set context_field_keys \<Longrightarrow> field_value c k = PNone"
  by (simp add: field_value_def context_field_keys_def)

lemma distinct_put_value: "distinct (map fst d) \<Longrightarrow> distinct (map fst (put_value k v d))"
  by (simp add: put_value_def distinct_update)

lemma distinct_update_value: "distinct (map fst d) \<Longrightarrow> distinct (map fst (py_update d e))"
  unfolding py_update_def by (induction e arbitrary: d) (auto simp: distinct_update)

lemma distinct_compat: "distinct (map fst (pc_extensions c)) \<Longrightarrow> distinct (map fst (compat_metadata c))"
  by (simp add: compat_metadata_def distinct_update_value distinct_put_value)

lemma map_of_fields:
  "map_of
       (put_value ''invocation_mode'' (pc_invocation_mode c)
       (put_value ''provider_name'' (opt_str_value (pc_provider c))
       (put_value ''resolved_model_route'' (opt_str_value (pc_resolved_route c))
       (put_value ''requested_model_route'' (opt_str_value (pc_requested_route c))
       (put_value ''delegation_depth'' (opt_int_value (pc_delegation_depth c))
       (put_value ''parent_run_id'' (opt_str_value (pc_parent_run_id c))
       (put_value ''run_id'' (opt_str_value (pc_run_id c))
       (put_value ''execution_policy_state'' (pc_policy_state c)
       (put_value ''permission_context'' (pc_permission c) e))))))))) k =
     (if field_value c k = PNone then map_of e k else Some (field_value c k))"
proof (cases "k \<in> {''invocation_mode'', ''provider_name'', ''resolved_model_route'', ''requested_model_route'', ''delegation_depth'',
    ''parent_run_id'', ''run_id'', ''execution_policy_state'', ''permission_context''}")
  case True
  then show ?thesis
    by (elim insertE emptyE) (simp_all add: map_of_put_value field_value_def)
next
  case False
  then show ?thesis by (simp add: map_of_put_value field_value_def)
qed

lemma map_of_compat:
  assumes "normal_context c"
  shows "map_of (compat_metadata c) k =
    (if is_diagnostic_key k then map_of (pc_diagnostics c) k
     else if field_value c k = PNone then map_of (pc_extensions c) k else Some (field_value c k))"
proof -
  have diag: "map_of (pc_diagnostics c) k = None" if "\<not> is_diagnostic_key k"
    using that assms by (auto simp: normal_context_def list_all_iff map_of_eq_None_iff)
  have ext: "map_of (pc_extensions c) k = None" if "is_diagnostic_key k"
    using that assms by (auto simp: normal_context_def list_all_iff map_of_eq_None_iff)
  have field: "field_value c k = PNone" if "is_diagnostic_key k"
    using that field_keys_not_diagnostic by (blast intro: field_value_none)
  have base: "map_of (compat_metadata c) k = (case map_of (pc_diagnostics c) k of
        None \<Rightarrow> if field_value c k = PNone then map_of (pc_extensions c) k else Some (field_value c k)
      | Some v \<Rightarrow> Some v)"
    using assms by (simp only: compat_metadata_def map_of_py_update map_of_rev_keys normal_context_def map_of_fields simp_thms)
  show ?thesis using diag ext field by (cases "is_diagnostic_key k") (simp_all add: base split: option.split)
qed

lemma py_get_compat:
  assumes "normal_context c" "k \<in> set context_field_keys"
  shows "py_get (compat_metadata c) k = field_value c k"
proof -
  have "map_of (pc_extensions c) k = None"
    using assms by (auto simp: normal_context_def list_all_iff map_of_eq_None_iff)
  then show ?thesis using field_keys_not_diagnostic [OF assms(2)] by (simp add: py_get_def map_of_compat [OF assms(1)])
qed

text \<open>A private context in normal form survives the flat mapping older code reads: reading it back gives
  every field as it was, and every diagnostic and extension under its key; so merging no updates changes
  nothing.\<close>

theorem private_context_roundtrip:
  assumes "normal_context c"
  shows "merge_private_context c [] =
      c\<lparr>pc_diagnostics := pc_diagnostics (merge_private_context c []), pc_extensions := pc_extensions (merge_private_context c [])\<rparr> \<and>
    map_of (pc_diagnostics (merge_private_context c [])) = map_of (pc_diagnostics c) \<and>
    map_of (pc_extensions (merge_private_context c [])) = map_of (pc_extensions c)"
proof -
  let ?d = "compat_metadata c"
  have m: "merge_private_context c [] = context_from_mapping ?d"
    by (simp add: merge_private_context_def py_update_def)
  have vals: "py_get ?d ''permission_context'' = pc_permission c" "py_get ?d ''execution_policy_state'' = pc_policy_state c"
    "py_get ?d ''run_id'' = opt_str_value (pc_run_id c)" "py_get ?d ''parent_run_id'' = opt_str_value (pc_parent_run_id c)"
    "py_get ?d ''delegation_depth'' = opt_int_value (pc_delegation_depth c)"
    "py_get ?d ''requested_model_route'' = opt_str_value (pc_requested_route c)"
    "py_get ?d ''resolved_model_route'' = opt_str_value (pc_resolved_route c)"
    "py_get ?d ''provider_name'' = opt_str_value (pc_provider c)"
    "py_get ?d ''invocation_mode'' = pc_invocation_mode c" "py_get ?d ''diagnostics'' = PNone"
    by (simp_all add: py_get_compat [OF assms] context_field_keys_def field_value_def)
  have texts: "coerce_str (opt_str_value (pc_run_id c)) = pc_run_id c"
    "coerce_str (opt_str_value (pc_parent_run_id c)) = pc_parent_run_id c"
    "coerce_str (opt_str_value (pc_requested_route c)) = pc_requested_route c"
    "coerce_str (opt_str_value (pc_resolved_route c)) = pc_resolved_route c"
    "coerce_str (opt_str_value (pc_provider c)) = pc_provider c"
    using assms by (simp_all add: normal_context_def coerce_str_opt)
  have unique: "distinct (map fst ?d)" using assms by (simp add: distinct_compat normal_context_def)
  have diag: "map_of (pc_diagnostics (context_from_mapping ?d)) k = map_of (pc_diagnostics c) k" for k
  proof -
    let ?P = "\<lambda>k. is_diagnostic_key k \<and> k \<noteq> ''diagnostics''"
    have "map_of (pc_diagnostics (context_from_mapping ?d)) k = map_of (filter (\<lambda>kv. ?P (fst kv)) ?d) k"
      using unique by (simp add: context_from_mapping_def vals map_of_py_update map_of_rev_keys distinct_map_filter
          split: option.split)
    also have "\<dots> = map_of (pc_diagnostics c) k"
    proof (cases "?P k")
      case True
      then show ?thesis by (simp add: map_of_filter_keys [of ?P] map_of_compat [OF assms])
    next
      case False
      then have "k \<notin> fst ` set (pc_diagnostics c)" using assms by (auto simp: normal_context_def list_all_iff)
      then have "map_of (pc_diagnostics c) k = None" by (simp add: map_of_eq_None_iff)
      then show ?thesis using False by (subst map_of_filter_keys [of ?P]) (simp only: if_False)
    qed
    finally show ?thesis .
  qed
  have ext: "map_of (pc_extensions (context_from_mapping ?d)) k = map_of (pc_extensions c) k" for k
  proof -
    have "map_of (pc_extensions c) k = None" if "is_diagnostic_key k \<or> k \<in> set context_field_keys"
      using that assms by (auto simp: normal_context_def list_all_iff map_of_eq_None_iff)
    then show ?thesis
      using map_of_filter_keys [of "\<lambda>k. \<not> is_diagnostic_key k \<and> k \<notin> set context_field_keys" ?d k]
        map_of_compat [OF assms, of k] field_value_none [of k c]
      by (auto simp: context_from_mapping_def)
  qed
  show ?thesis using texts by (simp add: m fun_eq_iff diag ext) (simp add: context_from_mapping_def vals)
qed

text \<open>A context of the kind a delegated run has.\<close>

definition demo_context :: private_context where
  "demo_context = no_private_context\<lparr>pc_run_id := Some ''run-2'', pc_parent_run_id := Some ''run-1'',
     pc_delegation_depth := Some 1, pc_permission := PStr ''p'',
     pc_diagnostics := [(''memory_retrieval'', PInt 3)], pc_extensions := [(''tenant'', PStr ''t'')]\<rparr>"

lemma normal_demo_context: "normal_context demo_context"
  by (code_simp)

theorem private_context_roundtrip_witness:
  "map_of (pc_extensions (merge_private_context demo_context [])) ''tenant'' = Some (PStr ''t'')"
proof -
  have "map_of (pc_extensions (merge_private_context demo_context [])) = map_of (pc_extensions demo_context)"
    using private_context_roundtrip [OF normal_demo_context] by blast
  then show ?thesis by (simp add: demo_context_def no_private_context_def)
qed

end
