(* ===== verification/Transcript.thy ===== *)
theory Transcript
  imports Messages
begin

text \<open>
  The transcript stores (\<open>session_runtime/transcript.py\<close>): entries, session metadata and artifacts, in
  memory and in files.  A file's JSON text is taken to be the value that was written to it, and
  \<open>_json_safe_copy\<close> to be the value it copies.  \<open>datetime.isoformat\<close>, \<open>datetime.fromisoformat\<close> and the
  SHA-256 digest of a payload are arguments, and so are the \<open>uuid4\<close> suffixes a call may draw.
\<close>

record transcript_entry =
  te_session_id :: string
  te_turn_id :: "string option"
  te_message :: runtime_message
  te_created_at :: time

record artifact_entry =
  ae_ref :: string
  ae_producing_turn :: "string option"
  ae_kind :: string
  ae_digest :: string
  ae_created_at :: time
  ae_retention :: string
  ae_metadata :: "(string, pyval) dict"

subsection \<open>Payloads\<close>

definition serialize_attachment :: "message_attachment \<Rightarrow> pyval" where
  "serialize_attachment a = PDict [(''name'', PStr (ma_name a)), (''path'', PStr (ma_path a)),
     (''mime_type'', opt_text (ma_mime_type a)), (''metadata'', PDict (ma_metadata a))]"

definition serialize_entry :: "(time \<Rightarrow> string) \<Rightarrow> transcript_entry \<Rightarrow> pyval" where
  "serialize_entry to_iso e =
     (let m = te_message e in
      PDict [(''session_id'', PStr (te_session_id e)), (''turn_id'', opt_text (te_turn_id e)),
        (''created_at'', PStr (to_iso (te_created_at e))),
        (''message'', PDict [(''message_id'', PStr (rm_id m)), (''role'', PStr (role_value (rm_role m))),
          (''content'', serialize_content_blocks (rm_content m)), (''created_at'', PStr (to_iso (rm_created_at m))),
          (''attachments'', PList (map serialize_attachment (rm_attachments m))),
          (''metadata'', PDict (rm_metadata m))])])"

text \<open>The fields of a deserialized entry are taken as they are; a payload whose value is not of the
  field's type is refused here, where Python would keep it until it is used.\<close>

fun text_field :: "pyval \<Rightarrow> payload_error + string" where
  "text_field (PStr s) = Inr s"
| "text_field v = Inl Bad_Type"

fun opt_text_field :: "pyval \<Rightarrow> payload_error + string option" where
  "opt_text_field PNone = Inr None"
| "opt_text_field (PStr s) = Inr (Some s)"
| "opt_text_field v = Inl Bad_Type"

definition attachment_fields :: "string list" where
  "attachment_fields = [''name'', ''path'', ''mime_type'', ''metadata'']"

definition deserialize_attachment :: "pyval \<Rightarrow> payload_error + message_attachment" where
  "deserialize_attachment p =
     (case p of
        PDict d \<Rightarrow>
          rbind (ensure (list_all (\<lambda>k. k \<in> set attachment_fields) (map fst d) \<and>
              map_of d ''name'' \<noteq> None \<and> map_of d ''path'' \<noteq> None) Bad_Type) (\<lambda>_.
          rbind (text_field (py_get d ''name'')) (\<lambda>n.
          rbind (text_field (py_get d ''path'')) (\<lambda>q.
          rbind (opt_text_field (py_get d ''mime_type'')) (\<lambda>t.
          Inr \<lparr>ma_name = n, ma_path = q, ma_mime_type = t, ma_metadata = coerce_mapping (py_get d ''metadata'')\<rparr>))))
      | _ \<Rightarrow> Inl Bad_Type)"

definition instant :: "(string \<Rightarrow> time option) \<Rightarrow> pyval \<Rightarrow> payload_error + time" where
  "instant from_iso v =
     (case v of PStr s \<Rightarrow> (case from_iso s of None \<Rightarrow> Inl Bad_Value | Some t \<Rightarrow> Inr t) | _ \<Rightarrow> Inl Bad_Type)"

definition role_field :: "pyval \<Rightarrow> payload_error + message_role" where
  "role_field v = (case v of PStr s \<Rightarrow> (case role_of s of None \<Rightarrow> Inl Bad_Value | Some r \<Rightarrow> Inr r) | _ \<Rightarrow> Inl Bad_Value)"

definition deserialize_message :: "(string \<Rightarrow> time option) \<Rightarrow> pyval \<Rightarrow> payload_error + runtime_message" where
  "deserialize_message from_iso p =
     (case p of
        PDict d \<Rightarrow>
          rbind (case map_of d ''attachments'' of
              None \<Rightarrow> Inr []
            | Some (PList xs) \<Rightarrow> collect deserialize_attachment xs
            | Some v \<Rightarrow> Inl Bad_Type) (\<lambda>as.
          rbind (rbind (key_or_raise d ''message_id'') text_field) (\<lambda>i.
          rbind (rbind (key_or_raise d ''role'') role_field) (\<lambda>r.
          rbind (rbind (key_or_raise d ''content'') deserialize_content_blocks) (\<lambda>c.
          rbind (rbind (key_or_raise d ''created_at'') (instant from_iso)) (\<lambda>t.
          Inr \<lparr>rm_id = i, rm_role = r, rm_content = c, rm_created_at = t, rm_attachments = as,
               rm_metadata = coerce_mapping (py_get d ''metadata'')\<rparr>)))))
      | _ \<Rightarrow> Inl Bad_Type)"

definition deserialize_entry :: "(string \<Rightarrow> time option) \<Rightarrow> pyval \<Rightarrow> payload_error + transcript_entry" where
  "deserialize_entry from_iso p =
     (case p of
        PDict d \<Rightarrow>
          rbind (rbind (key_or_raise d ''message'') (deserialize_message from_iso)) (\<lambda>m.
          rbind (rbind (key_or_raise d ''session_id'') text_field) (\<lambda>s.
          rbind (opt_text_field (py_get d ''turn_id'')) (\<lambda>tid.
          rbind (rbind (key_or_raise d ''created_at'') (instant from_iso)) (\<lambda>t.
          Inr \<lparr>te_session_id = s, te_turn_id = tid, te_message = m, te_created_at = t\<rparr>))))
      | _ \<Rightarrow> Inl Bad_Type)"

definition serialize_artifact_entry :: "(time \<Rightarrow> string) \<Rightarrow> artifact_entry \<Rightarrow> pyval" where
  "serialize_artifact_entry to_iso e =
     PDict [(''artifact_ref'', PStr (ae_ref e)), (''producing_turn'', opt_text (ae_producing_turn e)),
       (''kind'', PStr (ae_kind e)), (''digest'', PStr (ae_digest e)), (''created_at'', PStr (to_iso (ae_created_at e))),
       (''retention_class'', PStr (ae_retention e)), (''metadata'', PDict (ae_metadata e))]"

definition deserialize_artifact_entry :: "(string \<Rightarrow> time option) \<Rightarrow> pyval \<Rightarrow> artifact_entry option" where
  "deserialize_artifact_entry from_iso p =
     (case p of
        PDict d \<Rightarrow>
          if py_get d ''artifact_ref'' = PNone \<or> py_get d ''kind'' = PNone \<or> py_get d ''digest'' = PNone \<or>
             py_get d ''created_at'' = PNone then None
          else (case from_iso (py_str (py_get d ''created_at'')) of
              None \<Rightarrow> None
            | Some t \<Rightarrow> Some \<lparr>ae_ref = py_str (py_get d ''artifact_ref''),
                ae_producing_turn = opt_text_of (py_get d ''producing_turn''), ae_kind = py_str (py_get d ''kind''),
                ae_digest = py_str (py_get d ''digest''), ae_created_at = t,
                ae_retention = py_str (py_or (py_get d ''retention_class'') (PStr ''session_lifetime'')),
                ae_metadata = coerce_mapping (py_get d ''metadata'')\<rparr>)
      | _ \<Rightarrow> None)"

subsection \<open>References to artifacts\<close>

fun collect_artifact_refs :: "pyval \<Rightarrow> string list" where
  "collect_artifact_refs (PDict d) =
     (case map_of d ''artifact_ref'' of None \<Rightarrow> [] | Some v \<Rightarrow> if v = PNone then [] else [py_str v]) @
     concat (map (collect_artifact_refs \<circ> snd) d)"
| "collect_artifact_refs (PList xs) = concat (map collect_artifact_refs xs)"
| "collect_artifact_refs v = []"

definition block_refs :: "content_block \<Rightarrow> string list" where
  "block_refs b = (case b of Tool_Result_Block i c e \<Rightarrow> collect_artifact_refs c | _ \<Rightarrow> [])"

definition referenced_artifact_refs :: "transcript_entry list \<Rightarrow> (string, pyval) dict option \<Rightarrow> string list" where
  "referenced_artifact_refs es md =
     concat (map (\<lambda>e. collect_artifact_refs (PDict (rm_metadata (te_message e))) @
         concat (map block_refs (rm_content (te_message e)))) es) @
     (case md of None \<Rightarrow> [] | Some d \<Rightarrow> collect_artifact_refs (PDict d))"

definition artifact_ref :: "string \<Rightarrow> string \<Rightarrow> string option \<Rightarrow> string" where
  "artifact_ref kind dig suffix =
     (let base = kind @ ''-'' @ take 12 dig in case suffix of None \<Rightarrow> base | Some s \<Rightarrow> base @ ''-'' @ s)"

text \<open>The first reference no entry of the manifest has; \<open>None\<close> where all the suffixes are used up.\<close>

definition fresh_artifact_ref :: "string \<Rightarrow> string \<Rightarrow> string list \<Rightarrow> string list \<Rightarrow> string option" where
  "fresh_artifact_ref kind dig suffixes used =
     List.find (\<lambda>r. r \<notin> set used) (artifact_ref kind dig None # map (artifact_ref kind dig \<circ> Some) suffixes)"

subsection \<open>In memory\<close>

record mem_transcripts =
  mt_sessions :: "(string, transcript_entry list) dict"
  mt_metadata :: "(string, (string, pyval) dict) dict"
  mt_artifacts :: "(string, (string, pyval) dict) dict"
  mt_manifests :: "(string, (string, artifact_entry) dict) dict"

definition new_mem_transcripts :: mem_transcripts where
  "new_mem_transcripts = \<lparr>mt_sessions = [], mt_metadata = [], mt_artifacts = [], mt_manifests = []\<rparr>"

definition dict_get :: "('k, 'v list) dict \<Rightarrow> 'k \<Rightarrow> 'v list" where
  "dict_get d k = (case map_of d k of None \<Rightarrow> [] | Some v \<Rightarrow> v)"

definition mt_append :: "transcript_entry \<Rightarrow> mem_transcripts \<Rightarrow> mem_transcripts" where
  "mt_append e s = s\<lparr>mt_sessions :=
     AList.update (te_session_id e) (dict_get (mt_sessions s) (te_session_id e) @ [e]) (mt_sessions s)\<rparr>"

definition mt_load :: "string \<Rightarrow> mem_transcripts \<Rightarrow> transcript_entry list" where
  "mt_load sid s = dict_get (mt_sessions s) sid"

definition mt_replace :: "string \<Rightarrow> transcript_entry list \<Rightarrow> mem_transcripts \<Rightarrow> mem_transcripts" where
  "mt_replace sid es s = s\<lparr>mt_sessions := AList.update sid es (mt_sessions s)\<rparr>"

definition mt_load_metadata :: "string \<Rightarrow> mem_transcripts \<Rightarrow> (string, pyval) dict option" where
  "mt_load_metadata sid s = map_of (mt_metadata s) sid"

definition mt_save_metadata :: "string \<Rightarrow> (string, pyval) dict \<Rightarrow> mem_transcripts \<Rightarrow> mem_transcripts" where
  "mt_save_metadata sid md s = s\<lparr>mt_metadata := AList.update sid md (mt_metadata s)\<rparr>"

definition mt_manifest :: "string \<Rightarrow> mem_transcripts \<Rightarrow> (string, artifact_entry) dict" where
  "mt_manifest sid s = dict_get (mt_manifests s) sid"

text \<open>What the two stores put into an entry.\<close>

definition new_artifact_entry ::
  "string \<Rightarrow> string option \<Rightarrow> string \<Rightarrow> string \<Rightarrow> time \<Rightarrow> string \<Rightarrow> (string, pyval) dict \<Rightarrow> artifact_entry" where
  "new_artifact_entry ref turn_id kind dig now retention md = \<lparr>ae_ref = ref, ae_producing_turn = turn_id,
     ae_kind = kind, ae_digest = dig, ae_created_at = now, ae_retention = retention, ae_metadata = md\<rparr>"

record artifact_request =
  ar_turn_id :: "string option"
  ar_kind :: string
  ar_payload :: pyval
  ar_metadata :: "(string, pyval) dict"
  ar_retention :: string
  ar_now :: time
  ar_suffixes :: "string list"

definition mt_persist_artifact ::
  "(pyval \<Rightarrow> string) \<Rightarrow> string \<Rightarrow> artifact_request \<Rightarrow> mem_transcripts \<Rightarrow> artifact_entry option \<times> mem_transcripts" where
  "mt_persist_artifact digest sid q s =
     (let dig = digest (ar_payload q); manifest = mt_manifest sid s
      in case fresh_artifact_ref (ar_kind q) dig (ar_suffixes q) (map fst manifest) of
           None \<Rightarrow> (None, s)
         | Some r \<Rightarrow>
             (let e = new_artifact_entry r (ar_turn_id q) (ar_kind q) dig (ar_now q) (ar_retention q) (ar_metadata q)
              in (Some e, s\<lparr>mt_manifests := AList.update sid (AList.update r e manifest) (mt_manifests s),
                    mt_artifacts := AList.update sid
                      (AList.update r (ar_payload q) (dict_get (mt_artifacts s) sid)) (mt_artifacts s)\<rparr>)))"

definition mt_load_artifact :: "string \<Rightarrow> string \<Rightarrow> mem_transcripts \<Rightarrow> (artifact_entry \<times> pyval) option" where
  "mt_load_artifact sid r s =
     (case map_of (mt_manifest sid s) r of
        None \<Rightarrow> None
      | Some e \<Rightarrow>
          (case map_of (dict_get (mt_artifacts s) sid) r of
             None \<Rightarrow> None
           | Some p \<Rightarrow> if p = PNone then None else Some (e, p)))"

definition by_sorted_keys :: "(string, 'v) dict \<Rightarrow> 'v list" where
  "by_sorted_keys d = List.map_filter (map_of d) (sort (map fst d))"

definition mt_list_artifacts :: "string \<Rightarrow> mem_transcripts \<Rightarrow> artifact_entry list" where
  "mt_list_artifacts sid s = by_sorted_keys (mt_manifest sid s)"

text \<open>The entries of a dictionary whose keys are not in a list.\<close>

definition drop_keys :: "string list \<Rightarrow> (string, 'v) dict \<Rightarrow> (string, 'v) dict" where
  "drop_keys ks d = filter (\<lambda>kv. fst kv \<notin> set ks) d"

definition mt_purge :: "string \<Rightarrow> mem_transcripts \<Rightarrow> string list \<times> mem_transcripts" where
  "mt_purge sid s =
     (let referenced = referenced_artifact_refs (mt_load sid s) (mt_load_metadata sid s);
          removed = filter (\<lambda>r. r \<notin> set referenced) (map fst (mt_manifest sid s))
      in (sort removed,
          (if map_of (mt_manifests s) sid = None then s
           else s\<lparr>mt_manifests := AList.update sid (drop_keys removed (mt_manifest sid s)) (mt_manifests s),
                  mt_artifacts := (case map_of (mt_artifacts s) sid of
                      None \<Rightarrow> mt_artifacts s
                    | Some d \<Rightarrow> AList.update sid (drop_keys removed d) (mt_artifacts s))\<rparr>)))"

subsection \<open>In files\<close>

text \<open>The files of the root directory, by the session or the session and reference their names have:
  the lines of \<open>.jsonl\<close>, \<open>.meta.json\<close>, \<open>manifest.json\<close> and the payloads.\<close>

record file_transcripts =
  ft_lines :: "(string, pyval list) dict"
  ft_meta :: "(string, pyval) dict"
  ft_manifests :: "(string, pyval) dict"
  ft_payloads :: "(string \<times> string, pyval) dict"

definition new_file_transcripts :: file_transcripts where
  "new_file_transcripts = \<lparr>ft_lines = [], ft_meta = [], ft_manifests = [], ft_payloads = []\<rparr>"

definition ft_append :: "(time \<Rightarrow> string) \<Rightarrow> transcript_entry \<Rightarrow> file_transcripts \<Rightarrow> file_transcripts" where
  "ft_append to_iso e s = s\<lparr>ft_lines := AList.update (te_session_id e)
     (dict_get (ft_lines s) (te_session_id e) @ [serialize_entry to_iso e]) (ft_lines s)\<rparr>"

definition ft_load ::
  "(string \<Rightarrow> time option) \<Rightarrow> string \<Rightarrow> file_transcripts \<Rightarrow> payload_error + transcript_entry list" where
  "ft_load from_iso sid s = collect (deserialize_entry from_iso) (dict_get (ft_lines s) sid)"

definition ft_replace ::
  "(time \<Rightarrow> string) \<Rightarrow> string \<Rightarrow> transcript_entry list \<Rightarrow> file_transcripts \<Rightarrow> file_transcripts" where
  "ft_replace to_iso sid es s = s\<lparr>ft_lines := AList.update sid (map (serialize_entry to_iso) es) (ft_lines s)\<rparr>"

definition ft_load_metadata :: "string \<Rightarrow> file_transcripts \<Rightarrow> (string, pyval) dict option" where
  "ft_load_metadata sid s = Option.bind (map_of (ft_meta s) sid) coerce_optional_mapping"

definition ft_save_metadata :: "string \<Rightarrow> (string, pyval) dict \<Rightarrow> file_transcripts \<Rightarrow> file_transcripts" where
  "ft_save_metadata sid md s = s\<lparr>ft_meta := AList.update sid (PDict md) (ft_meta s)\<rparr>"

definition read_manifest :: "(string \<Rightarrow> time option) \<Rightarrow> string \<Rightarrow> file_transcripts \<Rightarrow> (string, artifact_entry) dict"
where
  "read_manifest from_iso sid s =
     (case map_of (ft_manifests s) sid of
        Some (PList ps) \<Rightarrow>
          fold (\<lambda>e d. AList.update (ae_ref e) e d) (List.map_filter (deserialize_artifact_entry from_iso) ps) []
      | _ \<Rightarrow> [])"

definition write_manifest ::
  "(time \<Rightarrow> string) \<Rightarrow> string \<Rightarrow> (string, artifact_entry) dict \<Rightarrow> file_transcripts \<Rightarrow> file_transcripts" where
  "write_manifest to_iso sid manifest s = s\<lparr>ft_manifests := AList.update sid
     (PList (map (serialize_artifact_entry to_iso) (sort_key ae_ref (map snd manifest)))) (ft_manifests s)\<rparr>"

definition ft_persist_artifact ::
  "(time \<Rightarrow> string) \<Rightarrow> (string \<Rightarrow> time option) \<Rightarrow> (pyval \<Rightarrow> string) \<Rightarrow> string \<Rightarrow> artifact_request \<Rightarrow>
   file_transcripts \<Rightarrow> artifact_entry option \<times> file_transcripts" where
  "ft_persist_artifact to_iso from_iso digest sid q s =
     (let dig = digest (ar_payload q); manifest = read_manifest from_iso sid s
      in case fresh_artifact_ref (ar_kind q) dig (ar_suffixes q) (map fst manifest) of
           None \<Rightarrow> (None, s)
         | Some r \<Rightarrow>
             (let e = new_artifact_entry r (ar_turn_id q) (ar_kind q) dig (ar_now q) (ar_retention q) (ar_metadata q)
              in (Some e, write_manifest to_iso sid (AList.update r e manifest)
                    (s\<lparr>ft_payloads := AList.update (sid, r) (ar_payload q) (ft_payloads s)\<rparr>))))"

definition ft_load_artifact ::
  "(string \<Rightarrow> time option) \<Rightarrow> string \<Rightarrow> string \<Rightarrow> file_transcripts \<Rightarrow> (artifact_entry \<times> pyval) option" where
  "ft_load_artifact from_iso sid r s =
     (case map_of (read_manifest from_iso sid s) r of
        None \<Rightarrow> None
      | Some e \<Rightarrow> map_option (Pair e) (map_of (ft_payloads s) (sid, r)))"

definition ft_list_artifacts :: "(string \<Rightarrow> time option) \<Rightarrow> string \<Rightarrow> file_transcripts \<Rightarrow> artifact_entry list" where
  "ft_list_artifacts from_iso sid s = by_sorted_keys (read_manifest from_iso sid s)"

definition ft_purge ::
  "(time \<Rightarrow> string) \<Rightarrow> (string \<Rightarrow> time option) \<Rightarrow> string \<Rightarrow> file_transcripts \<Rightarrow>
   (payload_error + string list) \<times> file_transcripts" where
  "ft_purge to_iso from_iso sid s =
     (case ft_load from_iso sid s of
        Inl err \<Rightarrow> (Inl err, s)
      | Inr es \<Rightarrow>
          (let referenced = referenced_artifact_refs es (ft_load_metadata sid s);
               manifest = read_manifest from_iso sid s;
               removed = filter (\<lambda>r. r \<notin> set referenced) (map fst manifest)
           in (Inr (sort removed),
               write_manifest to_iso sid (drop_keys removed manifest)
                 (s\<lparr>ft_payloads := filter (\<lambda>kv. \<not> (fst (fst kv) = sid \<and> snd (fst kv) \<in> set removed)) (ft_payloads s)\<rparr>))))"

end
