(* ===== verification/Session_Control.thy ===== *)
theory Session_Control
  imports Session_Ingress Private_Context Transcript
begin

text \<open>
  The session controller (\<open>session_runtime/controller.py\<close>): the queue of commands, the loop that drains it,
  and what a turn's events do to the messages, the transcript and the session's metadata.

  \<open>stream_until_idle\<close> is a machine whose steps are the stretches of code between two awaits that can
  suspend, namely on the host, on the handlers of receipts and on the turn engine; the transcript stores
  never suspend.  Several drains may be under way.  The transcript store is given by its operations, with
  the state \<open>'t\<close>; the host, the receipt handlers and the engine are outside: what they do is the choice of
  the step.  No memory service is registered.  The skill roots discovered on disk are an argument.
\<close>

subsection \<open>Data\<close>

datatype session_status = SS_IDLE | SS_STARTING | SS_READY | SS_RUNNING | SS_WAITING | SS_INTERRUPTED
  | SS_COMPLETED | SS_FAILED | SS_STOPPED

record session_command =
  sc_command_id :: string
  sc_type :: inbound_type
  sc_content :: string
  sc_metadata :: "(string, pyval) dict"
  sc_created_at :: time
  sc_priority :: int

text \<open>Where a drain is: at the head of its loop, awaiting the host for the outputs to replay, awaiting the
  handlers of the receipts left, in the turn of a command, or returned or ended by an exception.\<close>

datatype drain = At_Head
  | In_Replay session_command ingress_result "string option" "replay_output list"
  | In_Receipts session_command ingress_result "string option" "completion_receipt list"
  | In_Turn session_command string
  | Ended

record session =
  ss_id :: string
  ss_status :: session_status
  ss_active_turn :: "string option"
  ss_queue :: "session_command list"
  ss_metadata :: "(string, pyval) dict"
  ss_messages :: "runtime_message list"
  ss_private :: private_context
  ss_drains :: "drain list"

definition new_session :: "string \<Rightarrow> pyval \<Rightarrow> session" where
  "new_session sid permission = \<lparr>ss_id = sid, ss_status = SS_IDLE, ss_active_turn = None, ss_queue = [],
     ss_metadata = [(''permission_context'', permission)], ss_messages = [], ss_private = no_private_context,
     ss_drains = []\<rparr>"

text \<open>The operations of a transcript store.\<close>

record 't transcript_api =
  ta_append :: "transcript_entry \<Rightarrow> 't \<Rightarrow> 't"
  ta_load :: "string \<Rightarrow> 't \<Rightarrow> transcript_entry list"
  ta_replace :: "string \<Rightarrow> transcript_entry list \<Rightarrow> 't \<Rightarrow> 't"
  ta_load_metadata :: "string \<Rightarrow> 't \<Rightarrow> (string, pyval) dict option"
  ta_save_metadata :: "string \<Rightarrow> (string, pyval) dict \<Rightarrow> 't \<Rightarrow> 't"

subsection \<open>The queue\<close>

definition default_priority :: "inbound_type \<Rightarrow> int" where
  "default_priority t = (case t of User_Prompt \<Rightarrow> 10 | System_Message \<Rightarrow> 50 | Task_Notification \<Rightarrow> 40 | Host_Event \<Rightarrow> 30)"

fun event_priority :: "pyval \<Rightarrow> int \<Rightarrow> int" where
  "event_priority (PInt i) fallback = i"
| "event_priority (PBool b) fallback = (if b then 1 else 0)"
| "event_priority (PStr s) fallback = (case parse_int s of None \<Rightarrow> fallback | Some i \<Rightarrow> i)"
| "event_priority v fallback = fallback"

definition normalize_event :: "string \<Rightarrow> time \<Rightarrow> inbound_event \<Rightarrow> session_command" where
  "normalize_event cid now e = \<lparr>sc_command_id = cid, sc_type = ie_type e, sc_content = ie_content e,
     sc_metadata = ie_metadata e, sc_created_at = now,
     sc_priority = event_priority (py_get (ie_metadata e) ''ingress_priority'') (default_priority (ie_type e))\<rparr>"

definition queue_key :: "session_command \<Rightarrow> int \<times> time" where
  "queue_key c = (- sc_priority c, sc_created_at c)"

definition enqueue_event :: "string \<Rightarrow> time \<Rightarrow> inbound_event \<Rightarrow> session \<Rightarrow> session" where
  "enqueue_event cid now e s = s\<lparr>ss_queue := sort_key queue_key (ss_queue s @ [normalize_event cid now e])\<rparr>"

definition event_of_command :: "session_command \<Rightarrow> inbound_event" where
  "event_of_command c = \<lparr>ie_type = sc_type c, ie_content = sc_content c, ie_metadata = sc_metadata c\<rparr>"

subsection \<open>Metadata\<close>

definition persisted_keys :: "string list" where
  "persisted_keys = [''team_id'', ''team_role'', ''team_member_id'', ''team_member_name'', ''leader_session_id'',
     ''team_last_control_message'', ''team_last_workflow_request'', ''team_last_workflow_update'',
     ''team_workflow_requests'', ''ingress_completion_receipt_failures'', ''last_ingress_completion_receipt_failure'',
     ''compaction'', ''compaction_summary'', ''compaction_boundary'', ''compaction_continuation'', ''control_plane'',
     ''context_generation'', ''resumable_request_override'']"

definition metadata_snapshot :: "(string, pyval) dict \<Rightarrow> (string, pyval) dict" where
  "metadata_snapshot md = map (\<lambda>k. (k, py_get md k)) (filter (\<lambda>k. py_get md k \<noteq> PNone) persisted_keys)"

definition persist_metadata :: "'t transcript_api \<Rightarrow> session \<Rightarrow> 't \<Rightarrow> 't" where
  "persist_metadata api s t = ta_save_metadata api (ss_id s) (metadata_snapshot (ss_metadata s)) t"

fun latest_compaction_payload :: "runtime_message list \<Rightarrow> (string, pyval) dict option" where
  "latest_compaction_payload ms =
     (case List.find (\<lambda>m. coerce_optional_mapping (py_get (rm_metadata m) ''compaction'') \<noteq> None) (rev ms) of
        None \<Rightarrow> None
      | Some m \<Rightarrow> coerce_optional_mapping (py_get (rm_metadata m) ''compaction''))"

definition put_or_pop :: "string \<Rightarrow> (string, pyval) dict option \<Rightarrow> (string, pyval) dict \<Rightarrow> (string, pyval) dict" where
  "put_or_pop k v md = (case v of None \<Rightarrow> AList.delete k md | Some d \<Rightarrow> AList.update k (PDict d) md)"

definition sync_compaction :: "runtime_message list \<Rightarrow> (string, pyval) dict \<Rightarrow> (string, pyval) dict" where
  "sync_compaction ms md =
     (let payload = latest_compaction_payload ms;
          part = (\<lambda>k. Option.bind payload (\<lambda>p. coerce_optional_mapping (py_get p k)))
      in put_or_pop ''compaction_continuation'' (part ''continuation'')
           (put_or_pop ''compaction_boundary'' (part ''boundary'')
             (put_or_pop ''compaction_summary'' (part ''summary'')
               (put_or_pop ''compaction'' payload md))))"

definition coerce_string_list :: "pyval \<Rightarrow> string list" where
  "coerce_string_list v =
     (case v of
        PStr s \<Rightarrow> if strip s = [] then [] else [strip s]
      | PList xs \<Rightarrow> filter (\<lambda>s. s \<noteq> []) (map (strip \<circ> py_str) xs)
      | _ \<Rightarrow> [])"

definition observed_paths :: "runtime_message list \<Rightarrow> string list" where
  "observed_paths ms = sort (remdups (concat (map (\<lambda>m. coerce_string_list (py_get (rm_metadata m) ''observed_paths'')) ms)))"

definition sync_skill_metadata ::
  "(string list \<Rightarrow> pyval list) \<Rightarrow> runtime_message list \<Rightarrow> (string, pyval) dict \<Rightarrow> (string, pyval) dict" where
  "sync_skill_metadata roots ms md =
     (let paths = observed_paths ms; found = roots paths;
          md = (if paths = [] then md else AList.update ''observed_paths'' (PList (map PStr paths)) md)
      in if found = [] then md else AList.update ''skill_dynamic_roots'' (PList found) md)"

text \<open>\<open>_record_message\<close>: the list, the transcript, the metadata derived from the messages.\<close>

definition record_message ::
  "'t transcript_api \<Rightarrow> (string list \<Rightarrow> pyval list) \<Rightarrow> time \<Rightarrow> string option \<Rightarrow> runtime_message \<Rightarrow> session \<times> 't \<Rightarrow> session \<times> 't"
where
  "record_message api roots now turn_id m st =
     (let (s, t) = st;
          ms = ss_messages s @ [m];
          t = ta_append api \<lparr>te_session_id = ss_id s, te_turn_id = turn_id, te_message = m, te_created_at = now\<rparr> t;
          s = s\<lparr>ss_messages := ms, ss_metadata := sync_skill_metadata roots ms (sync_compaction ms (ss_metadata s))\<rparr>
      in (s, persist_metadata api s t))"

definition apply_private_updates :: "(string, pyval) dict \<Rightarrow> session \<Rightarrow> session" where
  "apply_private_updates updates s = s\<lparr>ss_private := merge_private_context (ss_private s) updates,
     ss_metadata := py_update (ss_metadata s) updates\<rparr>"

definition restored_private_keys :: "string list" where
  "restored_private_keys = take 9 persisted_keys"

definition restore_private :: "(string, pyval) dict \<Rightarrow> private_context \<Rightarrow> private_context" where
  "restore_private md c =
     (let put = (\<lambda>k v ext. if v = PNone then AList.delete k ext else AList.update k v ext);
          ext = fold (\<lambda>k ext. put k (py_get md k) ext) restored_private_keys (pc_extensions c);
          override = (case py_get md ''resumable_request_override'' of PDict d \<Rightarrow> PDict d | _ \<Rightarrow> PNone)
      in c\<lparr>pc_extensions := put ''request_override'' override ext\<rparr>)"

definition sync_terminal_metadata :: "(string, pyval) dict \<Rightarrow> session \<Rightarrow> session" where
  "sync_terminal_metadata tmd s =
     (let md = ss_metadata s;
          md = (case py_get tmd ''control_plane'' of
              PDict cp \<Rightarrow>
                (let md = AList.update ''control_plane'' (PDict cp) md; g = py_get cp ''context_generation''
                 in if g = PNone then md else AList.update ''context_generation'' g md)
            | _ \<Rightarrow> md);
          state = Option.bind (coerce_optional_mapping (py_get tmd ''resumable_request_override'')) coerce_request_override;
          md = (case state of
              Some o' \<Rightarrow>
                if qo_resumable o' then AList.update ''resumable_request_override'' (PDict (override_serialize o')) md
                else AList.delete ''resumable_request_override'' md
            | None \<Rightarrow> AList.delete ''resumable_request_override'' md)
      in s\<lparr>ss_metadata := md, ss_private := restore_private md (ss_private s)\<rparr>)"

subsection \<open>The steps of a drain\<close>

text \<open>The events of a turn the controller acts on; the engine emits others too.\<close>

datatype turn_event = TE_Message runtime_message | TE_Compaction "runtime_message list"
  | TE_Terminal "string option" "(string, pyval) dict option" | TE_Other

definition set_drain :: "nat \<Rightarrow> drain \<Rightarrow> session \<Rightarrow> session" where
  "set_drain i d s = s\<lparr>ss_drains := (ss_drains s)[i := d]\<rparr>"

text \<open>At the head of the loop: the end of the queue, or a command up to the first await on the host.  An
  event that cannot be processed ends the drain with its exception; the command is gone.\<close>

definition take_command ::
  "'t transcript_api \<Rightarrow> (string list \<Rightarrow> pyval list) \<Rightarrow> (string, pyval) dict \<Rightarrow> (nat \<Rightarrow> string) \<Rightarrow> string \<Rightarrow> time \<Rightarrow> nat \<Rightarrow>
   session \<times> 't \<Rightarrow> session \<times> 't" where
  "take_command api roots services_md fresh turn_id now i st =
     (let (s, t) = st in
      case ss_queue s of
        [] \<Rightarrow> (set_drain i Ended s, t)
      | c # cs \<Rightarrow>
          (let s = s\<lparr>ss_queue := cs\<rparr> in
           case process_event fresh now services_md (ss_metadata s) (event_of_command c) of
             Inl err \<Rightarrow> (set_drain i Ended s, t)
           | Inr r \<Rightarrow>
               (let tid = (if ir_kind r = Admit_Turn \<or> ir_messages r \<noteq> [] then Some turn_id else None);
                    s = (if ir_kind r = Admit_Turn then s else s\<lparr>ss_active_turn := None\<rparr>);
                    (s, t) = fold (record_message api roots now tid) (ir_messages r) (s, t);
                    s = (if ir_private r = [] then s else apply_private_updates (ir_private r) s)
                in (set_drain i (In_Replay c r tid (ir_replay r)) s, t))))"

text \<open>The host has taken one more output; after the last the metadata is persisted.\<close>

definition replay_step :: "'t transcript_api \<Rightarrow> nat \<Rightarrow> session \<times> 't \<Rightarrow> session \<times> 't" where
  "replay_step api i st =
     (let (s, t) = st in
      case ss_drains s ! i of
        In_Replay c r tid (ro # ros) \<Rightarrow> (set_drain i (In_Replay c r tid ros) s, t)
      | In_Replay c r tid [] \<Rightarrow> (set_drain i (In_Receipts c r tid (ir_receipts r)) s, persist_metadata api s t)
      | _ \<Rightarrow> (s, t))"

definition history_with :: "pyval \<Rightarrow> pyval \<Rightarrow> pyval" where
  "history_with old failure = (case old of PList xs \<Rightarrow> PList (xs @ [failure]) | _ \<Rightarrow> old)"

text \<open>The handler of the next receipt has failed (with the text of its exception) or returned; after the
  last the turn begins, or the loop goes on.\<close>

definition receipt_step :: "'t transcript_api \<Rightarrow> string option \<Rightarrow> nat \<Rightarrow> session \<times> 't \<Rightarrow> session \<times> 't" where
  "receipt_step api failed i st =
     (let (s, t) = st in
      case ss_drains s ! i of
        In_Receipts c r tid (cr # crs) \<Rightarrow>
          (case failed of
             None \<Rightarrow> (set_drain i (In_Receipts c r tid crs) s, t)
           | Some err \<Rightarrow>
               (let failure = PDict [(''receipt_id'', PStr (cr_id cr)), (''kind'', PStr (cr_kind cr)), (''error'', PStr err)];
                    md = ss_metadata s;
                    old = (case map_of md ''ingress_completion_receipt_failures'' of None \<Rightarrow> PList [] | Some v \<Rightarrow> v);
                    md = AList.update ''ingress_completion_receipt_failures'' (history_with old failure) md;
                    s = s\<lparr>ss_metadata := AList.update ''last_ingress_completion_receipt_failure'' failure md\<rparr>
                in (set_drain i Ended s, persist_metadata api s t)))
      | In_Receipts c r tid [] \<Rightarrow>
          (case (ir_kind r = Admit_Turn, tid) of
             (True, Some turn_id) \<Rightarrow>
               (set_drain i (In_Turn c turn_id) (s\<lparr>ss_status := SS_RUNNING, ss_active_turn := Some turn_id\<rparr>), t)
           | _ \<Rightarrow> (set_drain i At_Head (if ss_status s = SS_WAITING then s else s\<lparr>ss_status := SS_READY\<rparr>), t))
      | _ \<Rightarrow> (s, t))"

definition apply_compaction ::
  "'t transcript_api \<Rightarrow> time \<Rightarrow> string option \<Rightarrow> runtime_message list \<Rightarrow> session \<times> 't \<Rightarrow> session \<times> 't" where
  "apply_compaction api now turn_id ms st =
     (let (s, t) = st;
          old = map (\<lambda>e. (rm_id (te_message e), e)) (rev (ta_load api (ss_id s) t));
          entry = (\<lambda>m. case map_of old (rm_id m) of
              Some e \<Rightarrow> e\<lparr>te_message := m\<rparr>
            | None \<Rightarrow> \<lparr>te_session_id = ss_id s, te_turn_id = turn_id, te_message = m, te_created_at = now\<rparr>);
          t = ta_replace api (ss_id s) (map entry ms) t;
          s = s\<lparr>ss_messages := ms, ss_metadata := sync_compaction ms (ss_metadata s)\<rparr>
      in (s, persist_metadata api s t))"

definition turn_event_step ::
  "'t transcript_api \<Rightarrow> (string list \<Rightarrow> pyval list) \<Rightarrow> time \<Rightarrow> turn_event \<Rightarrow> nat \<Rightarrow> session \<times> 't \<Rightarrow> session \<times> 't" where
  "turn_event_step api roots now ev i st =
     (let (s, t) = st in
      case ss_drains s ! i of
        In_Turn c turn_id \<Rightarrow>
          (case ev of
             TE_Message m \<Rightarrow> record_message api roots now (ss_active_turn s) m (s, t)
           | TE_Compaction [] \<Rightarrow> (s, t)
           | TE_Compaction (m # ms) \<Rightarrow> apply_compaction api now (ss_active_turn s) (m # ms) (s, t)
           | TE_Terminal hint tmd \<Rightarrow>
               (let s = (case tmd of None \<Rightarrow> s | Some d \<Rightarrow> sync_terminal_metadata d s);
                    t = persist_metadata api s t
                in (if hint = Some ''waiting'' then s\<lparr>ss_status := SS_WAITING\<rparr>
                    else if hint = Some ''interrupted'' then s\<lparr>ss_status := SS_INTERRUPTED\<rparr> else s, t))
           | TE_Other \<Rightarrow> (s, t))
      | _ \<Rightarrow> (s, t))"

text \<open>The engine's stream has ended.\<close>

definition end_turn :: "nat \<Rightarrow> session \<Rightarrow> session" where
  "end_turn i s =
     (case ss_drains s ! i of
        In_Turn c turn_id \<Rightarrow>
          (let s = s\<lparr>ss_active_turn := None\<rparr>
           in if ss_status s = SS_INTERRUPTED then set_drain i Ended s
              else set_drain i At_Head (if ss_status s = SS_WAITING then s else s\<lparr>ss_status := SS_READY\<rparr>))
      | _ \<Rightarrow> s)"

text \<open>An exception at any await, of the host or of the engine, or a caller that closes the generator.\<close>

definition abandon_drain :: "nat \<Rightarrow> session \<Rightarrow> session" where
  "abandon_drain i s = set_drain i Ended s"

subsection \<open>The operations of the session\<close>

text \<open>\<open>start\<close> after the hooks and the package callbacks it awaits.\<close>

definition start_session :: "session \<Rightarrow> session" where
  "start_session s = s\<lparr>ss_status := SS_READY\<rparr>"

definition begin_drain :: "session \<Rightarrow> session" where
  "begin_drain s = (let s = (if ss_status s = SS_IDLE then start_session s else s)
     in s\<lparr>ss_drains := ss_drains s @ [At_Head]\<rparr>)"

definition submit_runtime_event :: "string \<Rightarrow> time \<Rightarrow> inbound_event \<Rightarrow> bool \<Rightarrow> session \<Rightarrow> session" where
  "submit_runtime_event cid now e drain s =
     (let s = enqueue_event cid now e s;
          s = (if ss_status s = SS_IDLE then start_session s else s)
      in if \<not> drain \<or> ss_status s \<in> {SS_RUNNING, SS_INTERRUPTED} then s else begin_drain s)"

definition interrupt_session :: "session \<Rightarrow> session" where
  "interrupt_session s = s\<lparr>ss_status := SS_INTERRUPTED\<rparr>"

definition resume_session :: "'t transcript_api \<Rightarrow> (string list \<Rightarrow> pyval list) \<Rightarrow> session \<Rightarrow> 't \<Rightarrow> session" where
  "resume_session api roots s t =
     (let ms = map te_message (ta_load api (ss_id s) t);
          md = (case ta_load_metadata api (ss_id s) t of None \<Rightarrow> ss_metadata s | Some d \<Rightarrow> py_update (ss_metadata s) d);
          md = sync_compaction ms md;
          private = restore_private md (ss_private s);
          md = sync_skill_metadata roots ms md
      in s\<lparr>ss_messages := ms, ss_metadata := md, ss_private := private, ss_status := SS_READY, ss_active_turn := None\<rparr>)"

definition close_status :: "string \<Rightarrow> session_status" where
  "close_status final =
     (let n = map lower_char (strip final) in
      if n \<in> {''interrupt'', ''interrupted''} then SS_INTERRUPTED
      else if n \<in> {''error'', ''failed'', ''failure''} then SS_FAILED
      else if n \<in> {''stopped'', ''blocked''} then SS_STOPPED
      else SS_COMPLETED)"

definition close_session :: "string \<Rightarrow> session \<Rightarrow> session" where
  "close_session final s = s\<lparr>ss_active_turn := None, ss_status := close_status final\<rparr>"

end
