(* ===== verification/Transcript_Props.thy ===== *)
theory Transcript_Props
  imports Transcript Py_Parse
begin

text \<open>
  What a client of a transcript store may count on, as a locale both stores meet; the file store does
  what the one in memory does, payload and manifest files included; and what a purge removes.
\<close>

subsection \<open>The store protocol\<close>

locale transcript_store =
  fixes append :: "transcript_entry \<Rightarrow> 's \<Rightarrow> 's"
    and load :: "string \<Rightarrow> 's \<Rightarrow> transcript_entry list"
    and replace :: "string \<Rightarrow> transcript_entry list \<Rightarrow> 's \<Rightarrow> 's"
    and load_metadata :: "string \<Rightarrow> 's \<Rightarrow> (string, pyval) dict option"
    and save_metadata :: "string \<Rightarrow> (string, pyval) dict \<Rightarrow> 's \<Rightarrow> 's"
    and readable :: "'s \<Rightarrow> bool"
  assumes readable_append: "readable s \<Longrightarrow> readable (append e s)"
    and readable_replace: "readable s \<Longrightarrow> readable (replace sid es s)"
    and readable_save: "readable s \<Longrightarrow> readable (save_metadata sid md s)"
    and load_append: "readable s \<Longrightarrow>
      load sid (append e s) = (if sid = te_session_id e then load sid s @ [e] else load sid s)"
    and load_replace: "readable s \<Longrightarrow> load sid (replace sid' es s) = (if sid = sid' then es else load sid s)"
    and load_save: "readable s \<Longrightarrow> load sid (save_metadata sid' md s) = load sid s"
    and metadata_append: "load_metadata sid (append e s) = load_metadata sid s"
    and metadata_replace: "load_metadata sid (replace sid' es s) = load_metadata sid s"
    and metadata_save: "load_metadata sid (save_metadata sid' md s) = (if sid = sid' then Some md else load_metadata sid s)"
begin

lemma load_append_all:
  "readable s \<Longrightarrow> list_all (\<lambda>e. te_session_id e = sid) es \<Longrightarrow>
   load sid (fold append es s) = load sid s @ es \<and> readable (fold append es s)"
  by (induction es arbitrary: s) (simp_all add: load_append readable_append)

end

lemma dict_get_update [simp]: "dict_get (AList.update k v d) k' = (if k' = k then v else dict_get d k')"
  by (simp add: dict_get_def map_of_update)

interpretation mem_store: transcript_store mt_append mt_load mt_replace mt_load_metadata mt_save_metadata "\<lambda>_. True"
  by unfold_locales (simp_all add: mt_append_def mt_load_def mt_replace_def mt_load_metadata_def
      mt_save_metadata_def map_of_update)

subsection \<open>What is written is read back\<close>

lemma deserialize_serialize_attachment [simp]: "deserialize_attachment (serialize_attachment a) = Inr a"
  by (cases "ma_mime_type a")
    (simp_all add: deserialize_attachment_def serialize_attachment_def attachment_fields_def opt_text_def py_get_def)

lemma deserialize_serialize_entry [simp]:
  assumes "\<And>t. from_iso (to_iso t) = Some t"
  shows "deserialize_entry from_iso (serialize_entry to_iso e) = Inr e"
proof -
  have "opt_text_field (opt_text (te_turn_id e)) = Inr (te_turn_id e)"
    by (cases "te_turn_id e") (simp_all add: opt_text_def)
  then show ?thesis
    by (simp add: deserialize_entry_def serialize_entry_def deserialize_message_def Let_def key_or_raise_def py_get_def
        instant_def role_field_def assms)
qed

lemma deserialize_serialize_artifact [simp]:
  assumes "\<And>t. from_iso (to_iso t) = Some t" and "ae_retention e \<noteq> []"
  shows "deserialize_artifact_entry from_iso (serialize_artifact_entry to_iso e) = Some e"
  by (cases "ae_producing_turn e")
    (simp_all add: deserialize_artifact_entry_def serialize_artifact_entry_def py_get_def py_or_def assms
      opt_text_def opt_text_of_def)

lemma load_lines [simp]:
  assumes "\<And>t. from_iso (to_iso t) = Some t"
  shows "collect (deserialize_entry from_iso) (map (serialize_entry to_iso) es) = Inr es"
  using assms by simp

text \<open>The lines of every session are payloads of entries.\<close>

definition lines_written :: "(time \<Rightarrow> string) \<Rightarrow> file_transcripts \<Rightarrow> bool" where
  "lines_written to_iso s \<longleftrightarrow> (\<forall>sid. \<exists>es. dict_get (ft_lines s) sid = map (serialize_entry to_iso) es)"

definition ft_entries :: "(string \<Rightarrow> time option) \<Rightarrow> string \<Rightarrow> file_transcripts \<Rightarrow> transcript_entry list" where
  "ft_entries from_iso sid s = projr (ft_load from_iso sid s)"

text \<open>Both stores meet the store protocol: reading a session gives the entries appended to it since it
  was last replaced, in order, other sessions untouched, and its metadata as last saved; the file store
  does so when \<open>fromisoformat\<close> reads what \<open>isoformat\<close> wrote.\<close>

theorem file_store_meets_protocol:
  assumes "\<And>t. from_iso (to_iso t) = Some t"
  shows "transcript_store (ft_append to_iso) (ft_entries from_iso) (ft_replace to_iso) ft_load_metadata
    ft_save_metadata (lines_written to_iso)"
proof
  fix s :: file_transcripts and e :: transcript_entry and sid sid' :: string and md and es :: "transcript_entry list"
  have append: "\<exists>xs'. map (serialize_entry to_iso) xs @ [serialize_entry to_iso e] = map (serialize_entry to_iso) xs'" for xs
    by (intro exI [of _ "xs @ [e]"]) simp
  show "lines_written to_iso s \<Longrightarrow> lines_written to_iso (ft_append to_iso e s)"
    using append by (auto simp: lines_written_def ft_append_def) metis
  show "lines_written to_iso s \<Longrightarrow> lines_written to_iso (ft_replace to_iso sid es s)"
    by (auto simp: lines_written_def ft_replace_def)
  show "lines_written to_iso s \<Longrightarrow> lines_written to_iso (ft_save_metadata sid md s)"
    by (simp add: lines_written_def ft_save_metadata_def)
  show "ft_entries from_iso sid (ft_append to_iso e s) =
      (if sid = te_session_id e then ft_entries from_iso sid s @ [e] else ft_entries from_iso sid s)"
    if w: "lines_written to_iso s"
  proof -
    obtain xs where xs: "dict_get (ft_lines s) (te_session_id e) = map (serialize_entry to_iso) xs"
      using w by (auto simp: lines_written_def)
    have "collect (deserialize_entry from_iso) (map (serialize_entry to_iso) (xs @ [e])) = Inr (xs @ [e])"
      using assms by (rule load_lines)
    then show ?thesis using assms xs by (simp add: ft_entries_def ft_load_def ft_append_def)
  qed
  show "lines_written to_iso s \<Longrightarrow>
      ft_entries from_iso sid (ft_replace to_iso sid' es s) = (if sid = sid' then es else ft_entries from_iso sid s)"
    using assms by (simp add: ft_entries_def ft_load_def ft_replace_def)
  show "ft_entries from_iso sid (ft_save_metadata sid' md s) = ft_entries from_iso sid s"
    by (simp add: ft_entries_def ft_load_def ft_save_metadata_def)
  show "ft_load_metadata sid (ft_append to_iso e s) = ft_load_metadata sid s"
    "ft_load_metadata sid (ft_replace to_iso sid' es s) = ft_load_metadata sid s"
    "ft_load_metadata sid (ft_save_metadata sid' md s) = (if sid = sid' then Some md else ft_load_metadata sid s)"
    by (simp_all add: ft_load_metadata_def ft_append_def ft_replace_def ft_save_metadata_def map_of_update)
qed

subsection \<open>Manifests in files\<close>

definition manifest_ok :: "(string, artifact_entry) dict \<Rightarrow> bool" where
  "manifest_ok d \<longleftrightarrow> distinct (map fst d) \<and> list_all (\<lambda>(r, e). ae_ref e = r \<and> ae_retention e \<noteq> []) d"

lemma manifest_ok_keys: "manifest_ok d \<Longrightarrow> map ae_ref (map snd d) = map fst d"
  by (induction d) (auto simp: manifest_ok_def)

lemma manifest_ok_update:
  assumes "manifest_ok d" "ae_ref e = r" "ae_retention e \<noteq> []"
  shows "manifest_ok (AList.update r e d)"
proof -
  have "set (AList.update r e d) \<subseteq> insert (r, e) (set d)"
    by (induction d) auto
  then show ?thesis using assms by (fastforce simp: manifest_ok_def list_all_iff)
qed

lemma manifest_ok_drop: "manifest_ok d \<Longrightarrow> manifest_ok (drop_keys ks d)"
  by (auto simp: manifest_ok_def drop_keys_def list_all_iff distinct_map_filter)

lemma map_of_drop_keys [simp]: "map_of (drop_keys ks d) r = (if r \<in> set ks then None else map_of d r)"
  by (induction d) (auto simp: drop_keys_def)

lemma map_of_fold_update:
  "map_of (fold (\<lambda>e d. AList.update (ae_ref e) e d) es d) =
     (\<lambda>r. case map_of (rev (map (\<lambda>e. (ae_ref e, e)) es)) r of None \<Rightarrow> map_of d r | Some e \<Rightarrow> Some e)"
  by (induction es arbitrary: d) (auto simp: fun_eq_iff map_add_def map_of_update split: option.splits)

lemma distinct_fold_update:
  "distinct (map fst d) \<Longrightarrow> distinct (map fst (fold (\<lambda>e d. AList.update (ae_ref e) e d) es d))"
  by (induction es arbitrary: d) simp_all

lemma distinct_read_manifest: "distinct (map fst (read_manifest from_iso sid f))"
  by (auto simp: read_manifest_def distinct_fold_update split: option.split pyval.split)

lemma map_filter_back:
  "(\<And>x. x \<in> set xs \<Longrightarrow> f (g x) = Some x) \<Longrightarrow> List.map_filter f (map g xs) = xs"
  by (induction xs) (simp_all add: List.map_filter_def)

lemma map_of_sorted_entries:
  assumes "manifest_ok d"
  shows "map_of (rev (map (\<lambda>e. (ae_ref e, e)) (sort_key ae_ref (map snd d)))) = map_of d"
proof -
  let ?es = "sort_key ae_ref (map snd d)"
  have keys: "mset (map ae_ref ?es) = mset (map fst d)"
    by (metis (no_types) manifest_ok_keys [OF assms] mset_map mset_sort)
  then have dist: "distinct (map fst (rev (map (\<lambda>e. (ae_ref e, e)) ?es)))"
  proof -
    have "distinct (map ae_ref ?es)"
      using mset_eq_imp_distinct_iff [OF keys] assms by (simp only: manifest_ok_def)
    moreover have "map fst (rev (map (\<lambda>e. (ae_ref e, e)) ?es)) = rev (map ae_ref ?es)"
      by (simp add: rev_map comp_def)
    ultimately show ?thesis by (simp only: distinct_rev)
  qed
  have "(r, e) \<in> set (rev (map (\<lambda>e. (ae_ref e, e)) ?es)) \<longleftrightarrow> (r, e) \<in> set d" for r e
    using assms by (fastforce simp: manifest_ok_def list_all_iff image_iff split: prod.splits intro: bexI [of _ "(r, e)"])
  then have "set (rev (map (\<lambda>e. (ae_ref e, e)) ?es)) = set d" by auto
  then show ?thesis
    using map_of_inject_set [OF dist] assms by (simp add: manifest_ok_def)
qed

lemma read_write_manifest:
  assumes "\<And>t. from_iso (to_iso t) = Some t" and "manifest_ok d"
  shows "map_of (read_manifest from_iso sid (write_manifest to_iso sid' d f)) =
    (if sid = sid' then map_of d else map_of (read_manifest from_iso sid f))"
proof (cases "sid = sid'")
  case True
  have "List.map_filter (deserialize_artifact_entry from_iso)
      (map (serialize_artifact_entry to_iso) (sort_key ae_ref (map snd d))) = sort_key ae_ref (map snd d)"
    using assms by (intro map_filter_back) (auto simp: manifest_ok_def list_all_iff)
  then show ?thesis using True assms(2)
    by (simp add: read_manifest_def write_manifest_def map_of_update map_of_fold_update map_of_sorted_entries
        fun_eq_iff split: option.split)
qed (simp add: read_manifest_def write_manifest_def map_of_update)

subsection \<open>The stores agree\<close>

definition payload_kept ::
  "(string \<times> string, pyval) dict \<Rightarrow> (string, (string, pyval) dict) dict \<Rightarrow> string \<Rightarrow> string \<Rightarrow> bool" where
  "payload_kept files held sid r \<longleftrightarrow>
     (\<exists>p. p \<noteq> PNone \<and> map_of files (sid, r) = Some p \<and> map_of (dict_get held sid) r = Some p)"

definition represents ::
  "(time \<Rightarrow> string) \<Rightarrow> (string \<Rightarrow> time option) \<Rightarrow> mem_transcripts \<Rightarrow> file_transcripts \<Rightarrow> bool" where
  "represents to_iso from_iso m f \<longleftrightarrow>
     (\<forall>sid. dict_get (ft_lines f) sid = map (serialize_entry to_iso) (mt_load sid m)) \<and>
     (\<forall>sid. ft_load_metadata sid f = mt_load_metadata sid m) \<and>
     (\<forall>sid. map_of (read_manifest from_iso sid f) = map_of (mt_manifest sid m)) \<and>
     (\<forall>sid. manifest_ok (mt_manifest sid m)) \<and>
     (\<forall>sid r. r \<in> fst ` set (mt_manifest sid m) \<longrightarrow> payload_kept (ft_payloads f) (mt_artifacts m) sid r)"

lemma represents_new: "represents to_iso from_iso new_mem_transcripts new_file_transcripts"
  by (simp add: represents_def new_mem_transcripts_def new_file_transcripts_def dict_get_def mt_load_def
      ft_load_metadata_def mt_load_metadata_def read_manifest_def mt_manifest_def manifest_ok_def)

lemma representsD:
  assumes "represents to_iso from_iso m f"
  shows "dict_get (ft_lines f) sid = map (serialize_entry to_iso) (mt_load sid m)"
    and "ft_load_metadata sid f = mt_load_metadata sid m"
    and "map_of (read_manifest from_iso sid f) = map_of (mt_manifest sid m)"
    and "manifest_ok (mt_manifest sid m)"
    and "r \<in> fst ` set (mt_manifest sid m) \<Longrightarrow> payload_kept (ft_payloads f) (mt_artifacts m) sid r"
  using assms unfolding represents_def by blast+

lemma same_keys:
  assumes "distinct (map fst d)" "distinct (map fst d')" "map_of d = map_of d'"
  shows "mset (map fst d) = mset (map fst d')"
proof -
  have "set (map fst d) = set (map fst d')"
    using assms(3) by (metis dom_map_of_conv_image_fst set_map)
  then show ?thesis using assms(1,2) set_eq_iff_mset_eq_distinct by blast
qed

lemma represents_keys:
  assumes "represents to_iso from_iso m f"
  shows "mset (map fst (read_manifest from_iso sid f)) = mset (map fst (mt_manifest sid m))"
  using assms representsD(3,4) [OF assms] distinct_read_manifest
  by (intro same_keys) (auto simp: manifest_ok_def)

lemma read_manifest_ok:
  assumes "represents to_iso from_iso m f"
  shows "manifest_ok (read_manifest from_iso sid f)"
proof -
  have "set (read_manifest from_iso sid f) = set (mt_manifest sid m)"
    using representsD(3,4) [OF assms, of sid] map_of_inject_set [OF distinct_read_manifest]
    by (simp add: manifest_ok_def)
  then show ?thesis
    using representsD(4) [OF assms, of sid] distinct_read_manifest by (simp add: manifest_ok_def list_all_iff)
qed

lemma sorted_same: "mset xs = mset ys \<Longrightarrow> sort xs = sort (ys :: string list)"
  by (metis properties_for_sort sorted_sort mset_sort)

text \<open>The operations of the protocol and what they return.\<close>

datatype transcript_op = T_Append transcript_entry | T_Replace string "transcript_entry list"
  | T_Save_Metadata string "(string, pyval) dict" | T_Persist string artifact_request | T_Purge string
  | T_Load string | T_Load_Metadata string | T_Load_Artifact string string | T_List_Artifacts string

datatype transcript_result = R_Done | R_Entries "transcript_entry list" | R_Metadata "(string, pyval) dict option"
  | R_Persisted "artifact_entry option" | R_Artifact "(artifact_entry \<times> pyval) option"
  | R_Artifacts "artifact_entry list" | R_Removed "string list" | R_Raises payload_error

fun mem_step :: "(pyval \<Rightarrow> string) \<Rightarrow> transcript_op \<Rightarrow> mem_transcripts \<Rightarrow> transcript_result \<times> mem_transcripts" where
  "mem_step digest (T_Append e) m = (R_Done, mt_append e m)"
| "mem_step digest (T_Replace sid es) m = (R_Done, mt_replace sid es m)"
| "mem_step digest (T_Save_Metadata sid md) m = (R_Done, mt_save_metadata sid md m)"
| "mem_step digest (T_Persist sid q) m = (let (e, m') = mt_persist_artifact digest sid q m in (R_Persisted e, m'))"
| "mem_step digest (T_Purge sid) m = (let (rs, m') = mt_purge sid m in (R_Removed rs, m'))"
| "mem_step digest (T_Load sid) m = (R_Entries (mt_load sid m), m)"
| "mem_step digest (T_Load_Metadata sid) m = (R_Metadata (mt_load_metadata sid m), m)"
| "mem_step digest (T_Load_Artifact sid r) m = (R_Artifact (mt_load_artifact sid r m), m)"
| "mem_step digest (T_List_Artifacts sid) m = (R_Artifacts (mt_list_artifacts sid m), m)"

fun file_step ::
  "(time \<Rightarrow> string) \<Rightarrow> (string \<Rightarrow> time option) \<Rightarrow> (pyval \<Rightarrow> string) \<Rightarrow> transcript_op \<Rightarrow> file_transcripts \<Rightarrow>
   transcript_result \<times> file_transcripts" where
  "file_step to_iso from_iso digest (T_Append e) f = (R_Done, ft_append to_iso e f)"
| "file_step to_iso from_iso digest (T_Replace sid es) f = (R_Done, ft_replace to_iso sid es f)"
| "file_step to_iso from_iso digest (T_Save_Metadata sid md) f = (R_Done, ft_save_metadata sid md f)"
| "file_step to_iso from_iso digest (T_Persist sid q) f =
     (let (e, f') = ft_persist_artifact to_iso from_iso digest sid q f in (R_Persisted e, f'))"
| "file_step to_iso from_iso digest (T_Purge sid) f =
     (let (x, f') = ft_purge to_iso from_iso sid f in (case x of Inl err \<Rightarrow> R_Raises err | Inr rs \<Rightarrow> R_Removed rs, f'))"
| "file_step to_iso from_iso digest (T_Load sid) f =
     (case ft_load from_iso sid f of Inl err \<Rightarrow> R_Raises err | Inr es \<Rightarrow> R_Entries es, f)"
| "file_step to_iso from_iso digest (T_Load_Metadata sid) f = (R_Metadata (ft_load_metadata sid f), f)"
| "file_step to_iso from_iso digest (T_Load_Artifact sid r) f = (R_Artifact (ft_load_artifact from_iso sid r f), f)"
| "file_step to_iso from_iso digest (T_List_Artifacts sid) f = (R_Artifacts (ft_list_artifacts from_iso sid f), f)"

fun run_steps :: "('o \<Rightarrow> 's \<Rightarrow> 'r \<times> 's) \<Rightarrow> 'o list \<Rightarrow> 's \<Rightarrow> 'r list" where
  "run_steps step [] s = []"
| "run_steps step (x # xs) s = (let (r, s') = step x s in r # run_steps step xs s')"

text \<open>A persisted payload that is not \<open>None\<close>, and a retention class that is not empty.\<close>

fun ordinary_op :: "transcript_op \<Rightarrow> bool" where
  "ordinary_op (T_Persist sid q) = (ar_payload q \<noteq> PNone \<and> ar_retention q \<noteq> [])"
| "ordinary_op x = True"

lemma fresh_ref_perm: "set used = set used' \<Longrightarrow> fresh_artifact_ref k d ss used = fresh_artifact_ref k d ss used'"
  by (simp add: fresh_artifact_ref_def)

lemma represents_load: "represents to_iso from_iso m f \<Longrightarrow> (\<And>t. from_iso (to_iso t) = Some t) \<Longrightarrow>
  ft_load from_iso sid f = Inr (mt_load sid m)"
  by (simp add: ft_load_def representsD(1))

lemma represents_artifact:
  assumes "represents to_iso from_iso m f"
  shows "ft_load_artifact from_iso sid r f = mt_load_artifact sid r m"
proof (cases "map_of (mt_manifest sid m) r")
  case None
  then show ?thesis by (simp add: ft_load_artifact_def mt_load_artifact_def representsD(3) [OF assms])
next
  case (Some e)
  then have "r \<in> fst ` set (mt_manifest sid m)" by (metis domI dom_map_of_conv_image_fst)
  from representsD(5) [OF assms this] obtain p where
    p: "map_of (dict_get (mt_artifacts m) sid) r = Some p" "p \<noteq> PNone" "map_of (ft_payloads f) (sid, r) = Some p"
    by (auto simp: payload_kept_def)
  with Some show ?thesis
    by (simp add: ft_load_artifact_def mt_load_artifact_def representsD(3) [OF assms])
qed

lemma represents_list:
  assumes "represents to_iso from_iso m f"
  shows "ft_list_artifacts from_iso sid f = mt_list_artifacts sid m"
  unfolding ft_list_artifacts_def mt_list_artifacts_def by_sorted_keys_def
  by (simp only: sorted_same [OF represents_keys [OF assms, of sid]] representsD(3) [OF assms])

lemma represents_simple:
  assumes "represents to_iso from_iso m f" and "\<And>t. from_iso (to_iso t) = Some t"
  shows "represents to_iso from_iso (mt_append e m) (ft_append to_iso e f)"
    and "represents to_iso from_iso (mt_replace sid es m) (ft_replace to_iso sid es f)"
    and "represents to_iso from_iso (mt_save_metadata sid md m) (ft_save_metadata sid md f)"
  using assms(1)
  by (auto simp: represents_def mt_append_def ft_append_def mt_replace_def ft_replace_def mt_save_metadata_def
      ft_save_metadata_def mt_load_def mt_manifest_def mt_load_metadata_def ft_load_metadata_def read_manifest_def
      map_of_update)

lemma dict_get_None: "map_of d k = None \<Longrightarrow> dict_get d k = []"
  by (simp add: dict_get_def)

lemma payload_kept_update [simp]:
  "payload_kept (AList.update (sid, r) p files) (AList.update sid (AList.update r p (dict_get held sid)) held) sid' r' =
     (if sid' = sid \<and> r' = r then p \<noteq> PNone else payload_kept files held sid' r')"
  by (auto simp: payload_kept_def map_of_update)

lemma represents_persist:
  assumes rep: "represents to_iso from_iso m f" and clock: "\<And>t. from_iso (to_iso t) = Some t"
    and q: "ar_payload q \<noteq> PNone" "ar_retention q \<noteq> []"
  shows "fst (mt_persist_artifact digest sid q m) = fst (ft_persist_artifact to_iso from_iso digest sid q f) \<and>
    represents to_iso from_iso (snd (mt_persist_artifact digest sid q m))
      (snd (ft_persist_artifact to_iso from_iso digest sid q f))"
proof -
  let ?dig = "digest (ar_payload q)"
  have used: "set (map fst (read_manifest from_iso sid f)) = set (map fst (mt_manifest sid m))"
    using represents_keys [OF rep, of sid] by (metis set_mset_mset)
  note pick = fresh_ref_perm [OF used, of "ar_kind q" ?dig "ar_suffixes q"]
  show ?thesis
  proof (cases "fresh_artifact_ref (ar_kind q) ?dig (ar_suffixes q) (map fst (mt_manifest sid m))")
    case None
    then show ?thesis using rep
      by (simp add: mt_persist_artifact_def ft_persist_artifact_def Let_def pick del: map_eq_conv)
  next
    case (Some r)
    let ?e = "new_artifact_entry r (ar_turn_id q) (ar_kind q) ?dig (ar_now q) (ar_retention q) (ar_metadata q)"
    let ?m = "snd (mt_persist_artifact digest sid q m)"
    let ?f = "snd (ft_persist_artifact to_iso from_iso digest sid q f)"
    have m: "mt_persist_artifact digest sid q m = (Some ?e, m\<lparr>
        mt_manifests := AList.update sid (AList.update r ?e (mt_manifest sid m)) (mt_manifests m),
        mt_artifacts := AList.update sid (AList.update r (ar_payload q) (dict_get (mt_artifacts m) sid)) (mt_artifacts m)\<rparr>)"
      by (simp add: mt_persist_artifact_def Let_def Some)
    have f: "ft_persist_artifact to_iso from_iso digest sid q f =
        (Some ?e, write_manifest to_iso sid (AList.update r ?e (read_manifest from_iso sid f))
          (f\<lparr>ft_payloads := AList.update (sid, r) (ar_payload q) (ft_payloads f)\<rparr>))"
      by (simp add: ft_persist_artifact_def Let_def Some pick)
    have e: "ae_ref ?e = r" "ae_retention ?e \<noteq> []" using q(2) by (simp_all add: new_artifact_entry_def)
    have ok_read: "manifest_ok (read_manifest from_iso sid f)"
      by (rule read_manifest_ok [OF rep])
    have ok: "manifest_ok (AList.update r ?e (read_manifest from_iso sid f))"
      "\<And>sid'. manifest_ok (mt_manifest sid' ?m)"
      using manifest_ok_update [OF ok_read e] manifest_ok_update [OF representsD(4) [OF rep] e] representsD(4) [OF rep]
      by (simp_all add: m mt_manifest_def)
    have lines: "dict_get (ft_lines ?f) sid' = map (serialize_entry to_iso) (mt_load sid' ?m)" for sid'
      using representsD(1) [OF rep] by (simp add: m f write_manifest_def mt_load_def)
    have meta: "ft_load_metadata sid' ?f = mt_load_metadata sid' ?m" for sid'
      using representsD(2) [OF rep] by (simp add: m f write_manifest_def ft_load_metadata_def mt_load_metadata_def)
    have other: "read_manifest from_iso sid' (f\<lparr>ft_payloads := ps\<rparr>) = read_manifest from_iso sid' f" for sid' ps
      by (simp add: read_manifest_def)
    have manifest: "map_of (read_manifest from_iso sid' ?f) = map_of (mt_manifest sid' ?m)" for sid'
      using representsD(3) [OF rep] read_write_manifest [OF clock ok(1)]
      by (simp add: m f other mt_manifest_def map_of_update)
    have kept: "payload_kept (ft_payloads ?f) (mt_artifacts ?m) sid' r'" if "r' \<in> fst ` set (mt_manifest sid' ?m)" for sid' r'
      using that representsD(5) [OF rep, of r' sid'] q(1)
      by (auto simp: m f write_manifest_def mt_manifest_def map_of_update simp flip: dom_map_of_conv_image_fst
          split: if_splits)
    show ?thesis
      unfolding represents_def using lines meta manifest ok(2) kept by (simp add: m f)
  qed
qed

lemma keys_drop_keys [simp]: "fst ` set (drop_keys ks d) = fst ` set d - set ks"
  by (force simp: drop_keys_def)

lemma mt_purge_same:
  assumes "map_of (mt_manifests m) sid = None"
  shows "mt_purge sid m = ([], m)"
  using assms by (simp add: mt_purge_def Let_def mt_manifest_def dict_get_def)

lemma mt_manifest_purge:
  "mt_manifest sid' (snd (mt_purge sid m)) =
     (if sid' = sid then drop_keys (filter (\<lambda>r. r \<notin> set (referenced_artifact_refs (mt_load sid m) (mt_load_metadata sid m)))
         (map fst (mt_manifest sid m))) (mt_manifest sid m)
      else mt_manifest sid' m)"
proof (cases "map_of (mt_manifests m) sid = None")
  case True
  then show ?thesis by (simp add: mt_purge_same mt_manifest_def dict_get_None drop_keys_def)
qed (auto simp: mt_purge_def Let_def mt_manifest_def split: option.split)

lemma payload_kept_drop:
  assumes "payload_kept files held sid' r" and "sid' \<noteq> sid \<or> r \<notin> set ks"
  shows "payload_kept (filter (\<lambda>kv. \<not> (fst (fst kv) = sid \<and> snd (fst kv) \<in> set ks)) files)
    (case map_of held sid of None \<Rightarrow> held | Some d \<Rightarrow> AList.update sid (drop_keys ks d) held) sid' r"
proof -
  have "map_of (filter (\<lambda>kv. \<not> (fst (fst kv) = sid \<and> snd (fst kv) \<in> set ks)) files) (sid', r) = map_of files (sid', r)"
    using assms(2) by (induction files) auto
  moreover have "map_of (dict_get (case map_of held sid of None \<Rightarrow> held
      | Some d \<Rightarrow> AList.update sid (drop_keys ks d) held) sid') r = map_of (dict_get held sid') r"
    using assms(2) by (auto simp: dict_get_def map_of_update split: option.split)
  ultimately show ?thesis using assms(1) by (simp add: payload_kept_def)
qed

lemma represents_purge:
  assumes rep: "represents to_iso from_iso m f" and clock: "\<And>t. from_iso (to_iso t) = Some t"
  shows "fst (ft_purge to_iso from_iso sid f) = Inr (fst (mt_purge sid m)) \<and>
    represents to_iso from_iso (snd (mt_purge sid m)) (snd (ft_purge to_iso from_iso sid f))"
proof -
  let ?refs = "referenced_artifact_refs (mt_load sid m) (mt_load_metadata sid m)"
  let ?gone = "filter (\<lambda>r. r \<notin> set ?refs) (map fst (mt_manifest sid m))"
  let ?fgone = "filter (\<lambda>r. r \<notin> set ?refs) (map fst (read_manifest from_iso sid f))"
  let ?m = "snd (mt_purge sid m)"
  let ?f = "snd (ft_purge to_iso from_iso sid f)"
  note keys = represents_keys [OF rep, of sid]
  have gone: "set ?fgone = set ?gone" "sort ?fgone = sort ?gone"
    using keys by (auto simp: simp flip: set_mset_mset intro!: sorted_same)
  have f: "ft_purge to_iso from_iso sid f = (Inr (sort ?fgone), write_manifest to_iso sid
      (drop_keys ?fgone (read_manifest from_iso sid f))
      (f\<lparr>ft_payloads := filter (\<lambda>kv. \<not> (fst (fst kv) = sid \<and> snd (fst kv) \<in> set ?fgone)) (ft_payloads f)\<rparr>))"
    by (simp only: ft_purge_def Let_def represents_load [OF rep clock] representsD(2) [OF rep] sum.case)
  then have f: "ft_purge to_iso from_iso sid f = (Inr (sort ?gone), write_manifest to_iso sid
      (drop_keys ?gone (read_manifest from_iso sid f))
      (f\<lparr>ft_payloads := filter (\<lambda>kv. \<not> (fst (fst kv) = sid \<and> snd (fst kv) \<in> set ?gone)) (ft_payloads f)\<rparr>))"
    by (simp only: gone drop_keys_def)
  have res: "fst (mt_purge sid m) = sort ?gone" by (simp add: mt_purge_def Let_def)
  have sessions: "mt_sessions ?m = mt_sessions m" "mt_metadata ?m = mt_metadata m"
    by (simp_all add: mt_purge_def Let_def)
  have other: "read_manifest from_iso sid' (f\<lparr>ft_payloads := ps\<rparr>) = read_manifest from_iso sid' f" for sid' ps
    by (simp add: read_manifest_def)
  have lines: "dict_get (ft_lines ?f) sid' = map (serialize_entry to_iso) (mt_load sid' ?m)" for sid'
    using representsD(1) [OF rep] by (simp add: f write_manifest_def mt_load_def sessions)
  have meta: "ft_load_metadata sid' ?f = mt_load_metadata sid' ?m" for sid'
    using representsD(2) [OF rep] by (simp add: f write_manifest_def ft_load_metadata_def mt_load_metadata_def sessions)
  have manifest: "map_of (read_manifest from_iso sid' ?f) = map_of (mt_manifest sid' ?m)" for sid'
    unfolding f snd_conv read_write_manifest [OF clock manifest_ok_drop [OF read_manifest_ok [OF rep]]] other
      mt_manifest_purge
    by (auto simp: fun_eq_iff representsD(3) [OF rep])
  have ok: "manifest_ok (mt_manifest sid' ?m)" for sid'
    using representsD(4) [OF rep] by (simp add: mt_manifest_purge manifest_ok_drop)
  have kept: "payload_kept (ft_payloads ?f) (mt_artifacts ?m) sid' r" if r: "r \<in> fst ` set (mt_manifest sid' ?m)" for sid' r
  proof -
    have in_m: "r \<in> fst ` set (mt_manifest sid' m)" "sid' \<noteq> sid \<or> r \<notin> set ?gone"
      using r by (auto simp: mt_manifest_purge split: if_splits)
    have "mt_artifacts ?m = (case map_of (mt_artifacts m) sid of None \<Rightarrow> mt_artifacts m
        | Some d \<Rightarrow> AList.update sid (drop_keys ?gone d) (mt_artifacts m))" if "map_of (mt_manifests m) sid \<noteq> None"
      using that by (auto simp: mt_purge_def Let_def)
    moreover have "?gone = [] \<and> ?m = m" if "map_of (mt_manifests m) sid = None"
      using that by (simp add: mt_purge_same mt_manifest_def dict_get_None)
    ultimately show ?thesis
      using payload_kept_drop [OF representsD(5) [OF rep in_m(1)] in_m(2)] representsD(5) [OF rep in_m(1)]
      by (cases "map_of (mt_manifests m) sid = None") (simp_all add: f write_manifest_def)
  qed
  show ?thesis
    unfolding represents_def using lines meta manifest ok kept by (simp add: f res)
qed

lemma represents_step:
  assumes "represents to_iso from_iso m f" and "\<And>t. from_iso (to_iso t) = Some t" and "ordinary_op x"
  shows "fst (mem_step digest x m) = fst (file_step to_iso from_iso digest x f) \<and>
    represents to_iso from_iso (snd (mem_step digest x m)) (snd (file_step to_iso from_iso digest x f))"
proof (cases x)
  case (T_Persist sid q)
  then show ?thesis
    using represents_persist [OF assms(1,2), where q = q and digest = digest and sid = sid] assms(3)
    by (simp add: case_prod_beta)
next
  case (T_Purge sid)
  then show ?thesis
    using represents_purge [OF assms(1,2), of sid] by (simp add: case_prod_beta)
qed (use assms represents_simple [OF assms(1,2)] represents_load [OF assms(1,2)] representsD(2) [OF assms(1)]
    represents_artifact [OF assms(1)] represents_list [OF assms(1)] in simp_all)

text \<open>C30: The two stores answer every sequence of operations alike, appends, replacements, metadata,
  artifacts and purges, when \<open>fromisoformat\<close> reads what \<open>isoformat\<close> wrote; as long as no payload is \<open>None\<close>
  and no retention class is empty.\<close>

theorem transcript_stores_agree:
  assumes "\<And>t. from_iso (to_iso t) = Some t" and "list_all ordinary_op ops"
  shows "run_steps (file_step to_iso from_iso digest) ops new_file_transcripts =
    run_steps (mem_step digest) ops new_mem_transcripts"
proof -
  have "represents to_iso from_iso m f \<Longrightarrow> run_steps (file_step to_iso from_iso digest) ops f = run_steps (mem_step digest) ops m"
    for m f
    using assms(2)
  proof (induction ops arbitrary: m f)
    case (Cons x ops)
    have x: "ordinary_op x" "list_all ordinary_op ops" using Cons.prems(2) by simp_all
    note step = represents_step [OF Cons.prems(1) assms(1) x(1), of digest]
    show ?case using Cons.IH [OF conjunct2 [OF step] x(2)] step by (simp add: case_prod_beta)
  qed simp
  then show ?thesis using represents_new by blast
qed

subsection \<open>What a purge removes\<close>

text \<open>A purge removes exactly the artifacts that nothing refers to: it returns their references, sorted,
  and afterwards an artifact loads as before if a message or the metadata of the session refers to it, and
  not at all otherwise; other sessions and all entries stay.\<close>

theorem purge_keeps_referenced:
  "set (fst (mt_purge sid s)) =
     set (map fst (mt_manifest sid s)) - set (referenced_artifact_refs (mt_load sid s) (mt_load_metadata sid s)) \<and>
   sorted (fst (mt_purge sid s)) \<and>
   mt_load_artifact sid' r (snd (mt_purge sid s)) =
     (if sid' = sid \<and> r \<notin> set (referenced_artifact_refs (mt_load sid s) (mt_load_metadata sid s)) then None
      else mt_load_artifact sid' r s) \<and>
   mt_load sid' (snd (mt_purge sid s)) = mt_load sid' s"
proof -
  let ?refs = "referenced_artifact_refs (mt_load sid s) (mt_load_metadata sid s)"
  let ?gone = "filter (\<lambda>r. r \<notin> set ?refs) (map fst (mt_manifest sid s))"
  have res: "fst (mt_purge sid s) = sort ?gone" by (simp add: mt_purge_def Let_def)
  have man: "map_of (mt_manifest sid' (snd (mt_purge sid s))) r =
      (if sid' = sid \<and> r \<notin> set ?refs then None else map_of (mt_manifest sid' s) r)"
    by (auto simp: mt_manifest_purge map_of_eq_None_iff)
  have pay: "map_of (dict_get (mt_artifacts (snd (mt_purge sid s))) sid') r = map_of (dict_get (mt_artifacts s) sid') r"
    if "sid' \<noteq> sid \<or> r \<in> set ?refs"
    using that by (auto simp: mt_purge_def Let_def dict_get_def map_of_update split: option.split)
  have "mt_load_artifact sid' r (snd (mt_purge sid s)) =
      (if sid' = sid \<and> r \<notin> set ?refs then None else mt_load_artifact sid' r s)"
    using man pay by (auto simp: mt_load_artifact_def split: option.splits)
  moreover have "mt_load sid' (snd (mt_purge sid s)) = mt_load sid' s"
    by (simp add: mt_purge_def Let_def mt_load_def)
  ultimately show ?thesis by (auto simp: res)
qed

text \<open>Instances, with decimal numerals for the instants.\<close>

definition decimal_instant :: "string \<Rightarrow> time option" where
  "decimal_instant = parse_digits 0 False"

lemma decimal_instant_back: "decimal_instant (show_nat t) = Some t"
  by (simp add: decimal_instant_def parse_show_nat)

theorem file_store_meets_protocol_witness:
  "transcript_store (ft_append show_nat) (ft_entries decimal_instant) (ft_replace show_nat) ft_load_metadata
     ft_save_metadata (lines_written show_nat)"
  by (rule file_store_meets_protocol) (rule decimal_instant_back)

definition demo_artifact :: "pyval \<Rightarrow> artifact_request" where
  "demo_artifact p = \<lparr>ar_turn_id = None, ar_kind = ''log'', ar_payload = p, ar_metadata = [],
     ar_retention = ''session_lifetime'', ar_now = 3, ar_suffixes = [''a'', ''b'']\<rparr>"

definition demo_ops :: "transcript_op list" where
  "demo_ops = [T_Persist ''s'' (demo_artifact (PInt 1)), T_Persist ''s'' (demo_artifact (PInt 1)),
     T_Save_Metadata ''s'' [(''k'', PDict [(''artifact_ref'', PStr ''log-d-a'')])], T_Purge ''s'', T_List_Artifacts ''s'']"

theorem transcript_stores_agree_witness:
  "list_all ordinary_op demo_ops \<and>
   run_steps (file_step show_nat decimal_instant (\<lambda>_. ''d'')) demo_ops new_file_transcripts =
     run_steps (mem_step (\<lambda>_. ''d'')) demo_ops new_mem_transcripts"
proof -
  have "list_all ordinary_op demo_ops" by (simp add: demo_ops_def demo_artifact_def)
  then show ?thesis using transcript_stores_agree [OF decimal_instant_back] by blast
qed

text \<open>A payload that is \<open>None\<close> divides the stores: the one in files gives the artifact back, while the
  one in memory takes the payload for missing and denies the artifact it lists.\<close>

theorem none_payload_lost_in_memory:
  "run_steps (mem_step (\<lambda>_. ''d'')) [T_Persist ''s'' (demo_artifact PNone), T_Load_Artifact ''s'' ''log-d''] new_mem_transcripts
     = [R_Persisted (Some (new_artifact_entry ''log-d'' None ''log'' ''d'' 3 ''session_lifetime'' [])), R_Artifact None] \<and>
   run_steps (file_step show_nat decimal_instant (\<lambda>_. ''d''))
       [T_Persist ''s'' (demo_artifact PNone), T_Load_Artifact ''s'' ''log-d''] new_file_transcripts
     = [R_Persisted (Some (new_artifact_entry ''log-d'' None ''log'' ''d'' 3 ''session_lifetime'' [])),
        R_Artifact (Some (new_artifact_entry ''log-d'' None ''log'' ''d'' 3 ''session_lifetime'' [], PNone))]"
  by code_simp

end
