(* ===== verification/Session_Props.thy ===== *)
theory Session_Props
  imports Session_Control Transcript_Props
begin

text \<open>
  What the session controller guarantees: the contract of the ingress, the order of the queue, the
  agreement of the messages with the transcript under every interleaving, what a resumed session gets
  back; and where several drains, an abandoned turn or a malformed event break what the code means.
\<close>

subsection \<open>Ingress\<close>

lemma set_default_keys: "fst ` set (set_default k v d) \<subseteq> insert k (fst ` set d)"
  by (auto simp: set_default_def)

lemma default_field_keys: "fst ` set (default_field k v t md d) \<subseteq> insert k (fst ` set d)"
  using set_default_keys [of k _ d] by (auto simp: default_field_def split: pyval.split if_splits)

lemma normalized_metadata_keys:
  assumes "k \<in> fst ` set (normalized_message_metadata t md)"
  shows "k = ''visibility'' \<or> k = ''source'' \<or> k \<in> fst ` set md \<and> k \<notin> set control_keys \<and> k \<notin> set private_only_keys"
proof -
  let ?d = "filter (\<lambda>kv. fst kv \<notin> set control_keys \<and> fst kv \<notin> set private_only_keys) md"
  have "k \<in> insert ''visibility'' (insert ''source'' (fst ` set ?d))"
    using assms default_field_keys [of "''visibility''" "''transcript''" t md "default_field ''source'' (inbound_value t) t md ?d"]
      default_field_keys [of "''source''" "inbound_value t" t md ?d]
    unfolding normalized_message_metadata_def by blast
  then show ?thesis by auto
qed

definition public_metadata :: "runtime_message \<Rightarrow> bool" where
  "public_metadata m \<longleftrightarrow> list_all (\<lambda>k. k \<in> {''visibility'', ''source''} \<or> k \<notin> set control_keys \<and> k \<notin> set private_only_keys)
     (map fst (rm_metadata m))"

lemma normalized_message_public:
  "build_normalized_messages fresh now e k = Inr ms \<Longrightarrow> list_all public_metadata ms \<and> length ms \<le> 1"
  using normalized_metadata_keys
  by (fastforce simp: build_normalized_messages_def Let_def public_metadata_def list_all_iff rbind_Inr_iff
      split: if_splits)


text \<open>An event without control metadata is always taken, whatever its content: a prompt and a system
  message admit a turn, a task notification goes to the transcript, a host event stays with the host.\<close>

theorem plain_events_accepted:
  assumes "list_all (\<lambda>k. py_get (ie_metadata e) k = PNone)
    [''admission_kind'', ''role'', ''transcript_visible'', ''replay_outputs'', ''replay_text'']"
  shows "\<exists>r. process_event fresh now services_md session_md e = Inr r \<and>
    ir_kind r = (case ie_type e of User_Prompt \<Rightarrow> Admit_Turn | System_Message \<Rightarrow> Admit_Turn
      | Task_Notification \<Rightarrow> Transcript_Only | Host_Event \<Rightarrow> Local_Only)"
  using assms
  by (cases "ie_type e")
    (simp_all add: process_event_def resolve_admission_kind_def build_normalized_messages_def resolve_message_role_def
      wants_transcript_entry_def build_replay_outputs_def result_of_kind_def validate_result_def Let_def)

subsection \<open>The queue\<close>

lemma queue_key_le: "queue_key c \<le> queue_key d \<longleftrightarrow>
    sc_priority d < sc_priority c \<or> sc_priority c = sc_priority d \<and> sc_created_at c \<le> sc_created_at d"
  by (auto simp: queue_key_def less_eq_prod_def)

text \<open>Inserting an element that is the last of its own key.\<close>

lemma sort_snoc_split:
  assumes "sorted (map f xs)"
  shows "sort_key f (xs @ [x]) = filter (\<lambda>y. f y \<le> f x) xs @ [x] @ filter (\<lambda>y. \<not> f y \<le> f x) xs"
proof (rule properties_for_sort_key)
  show "mset (filter (\<lambda>y. f y \<le> f x) xs @ [x] @ filter (\<lambda>y. \<not> f y \<le> f x) xs) = mset (xs @ [x])"
    by simp
next
  fix k assume "k \<in> set (filter (\<lambda>y. f y \<le> f x) xs @ [x] @ filter (\<lambda>y. \<not> f y \<le> f x) xs)"
  show "filter (\<lambda>y. f k = f y) (filter (\<lambda>y. f y \<le> f x) xs @ [x] @ filter (\<lambda>y. \<not> f y \<le> f x) xs) =
      filter (\<lambda>y. f k = f y) (xs @ [x])"
  proof (cases "f k \<le> f x")
    case True
    have "filter (\<lambda>y. f k = f y) (filter (\<lambda>y. \<not> f y \<le> f x) xs) = []"
      using True by (auto simp: filter_empty_conv)
    moreover have "filter (\<lambda>y. f k = f y) (filter (\<lambda>y. f y \<le> f x) xs) = filter (\<lambda>y. f k = f y) xs"
      unfolding filter_filter using True by (intro filter_cong) auto
    ultimately show ?thesis by (cases "f k = f x") auto
  next
    case False
    have "filter (\<lambda>y. f k = f y) (filter (\<lambda>y. f y \<le> f x) xs) = []"
      using False by (auto simp: filter_empty_conv)
    moreover have "filter (\<lambda>y. f k = f y) (filter (\<lambda>y. \<not> f y \<le> f x) xs) = filter (\<lambda>y. f k = f y) xs"
      unfolding filter_filter using False by (intro filter_cong) auto
    ultimately show ?thesis using False by auto
  qed
next
  show "sorted (map f (filter (\<lambda>y. f y \<le> f x) xs @ [x] @ filter (\<lambda>y. \<not> f y \<le> f x) xs))"
    using assms by (auto simp: sorted_append sorted_filter)
qed

text \<open>A new command goes behind every queued command of at least its priority and before all of a lower
  one, as long as the clock does not go back: the highest priority first, first come first served within
  one priority, and none lost.\<close>

theorem enqueue_position:
  assumes "sorted (map queue_key (ss_queue s))" and "list_all (\<lambda>c. sc_created_at c \<le> now) (ss_queue s)"
  shows "ss_queue (enqueue_event cid now e s) =
      filter (\<lambda>c. sc_priority (normalize_event cid now e) \<le> sc_priority c) (ss_queue s) @ [normalize_event cid now e] @
      filter (\<lambda>c. sc_priority c < sc_priority (normalize_event cid now e)) (ss_queue s) \<and>
    sorted (map queue_key (ss_queue (enqueue_event cid now e s)))"
proof -
  let ?c = "normalize_event cid now e"
  have le: "queue_key d \<le> queue_key ?c \<longleftrightarrow> sc_priority ?c \<le> sc_priority d" if "d \<in> set (ss_queue s)" for d
    using assms(2) that by (auto simp: queue_key_le list_all_iff) (auto simp: normalize_event_def)
  have "ss_queue (enqueue_event cid now e s) =
      filter (\<lambda>d. queue_key d \<le> queue_key ?c) (ss_queue s) @ [?c] @ filter (\<lambda>d. \<not> queue_key d \<le> queue_key ?c) (ss_queue s)"
    using sort_snoc_split [OF assms(1)] by (simp add: enqueue_event_def)
  also have "filter (\<lambda>d. queue_key d \<le> queue_key ?c) (ss_queue s) = filter (\<lambda>d. sc_priority ?c \<le> sc_priority d) (ss_queue s)"
    by (rule filter_cong) (simp_all add: le)
  also have "filter (\<lambda>d. \<not> queue_key d \<le> queue_key ?c) (ss_queue s) = filter (\<lambda>d. sc_priority d < sc_priority ?c) (ss_queue s)"
    by (rule filter_cong) (auto simp: le)
  finally have "ss_queue (enqueue_event cid now e s) =
      filter (\<lambda>c. sc_priority ?c \<le> sc_priority c) (ss_queue s) @ [?c] @ filter (\<lambda>c. sc_priority c < sc_priority ?c) (ss_queue s)" .
  moreover have "sorted (map queue_key (ss_queue (enqueue_event cid now e s)))"
    by (simp add: enqueue_event_def)
  ultimately show ?thesis by blast
qed

subsection \<open>Messages and transcript\<close>

text \<open>The steps of a session over a store: its own operations, those of every drain, and the passing of a
  handler or of the host at an await.\<close>

inductive session_step ::
  "'t transcript_api \<Rightarrow> (string list \<Rightarrow> pyval list) \<Rightarrow> session \<times> 't \<Rightarrow> session \<times> 't \<Rightarrow> bool" for api roots where
  Enqueue: "session_step api roots (s, t) (enqueue_event cid now e s, t)"
| Submit: "session_step api roots (s, t) (submit_runtime_event cid now e drain s, t)"
| Start: "session_step api roots (s, t) (start_session s, t)"
| Begin: "session_step api roots (s, t) (begin_drain s, t)"
| Interrupt: "session_step api roots (s, t) (interrupt_session s, t)"
| Resume: "session_step api roots (s, t) (resume_session api roots s t, t)"
| Close: "session_step api roots (s, t) (close_session final s, t)"
| Take: "i < length (ss_drains s) \<Longrightarrow> ss_drains s ! i = At_Head \<Longrightarrow>
    session_step api roots (s, t) (take_command api roots services_md fresh turn_id now i (s, t))"
| Replay: "i < length (ss_drains s) \<Longrightarrow> session_step api roots (s, t) (replay_step api i (s, t))"
| Receipt: "i < length (ss_drains s) \<Longrightarrow> session_step api roots (s, t) (receipt_step api failed i (s, t))"
| Turn_Event: "i < length (ss_drains s) \<Longrightarrow> session_step api roots (s, t) (turn_event_step api roots now ev i (s, t))"
| End_Turn: "i < length (ss_drains s) \<Longrightarrow> session_step api roots (s, t) (end_turn i s, t)"
| Abandon: "i < length (ss_drains s) \<Longrightarrow> session_step api roots (s, t) (abandon_drain i s, t)"

definition store_of :: "'t transcript_api \<Rightarrow> ('t \<Rightarrow> bool) \<Rightarrow> bool" where
  "store_of api readable \<longleftrightarrow> transcript_store (ta_append api) (ta_load api) (ta_replace api) (ta_load_metadata api)
     (ta_save_metadata api) readable"

definition mirrors :: "'t transcript_api \<Rightarrow> ('t \<Rightarrow> bool) \<Rightarrow> session \<times> 't \<Rightarrow> bool" where
  "mirrors api readable st \<longleftrightarrow>
     readable (snd st) \<and> ss_messages (fst st) = map te_message (ta_load api (ss_id (fst st)) (snd st))"

lemma mirrors_save:
  assumes "store_of api readable" "mirrors api readable (s, t)"
    and "ss_messages s' = ss_messages s" "ss_id s' = ss_id s"
  shows "mirrors api readable (s', ta_save_metadata api sid md t)"
  using assms(2-4) transcript_store.readable_save [OF assms(1) [unfolded store_of_def]]
    transcript_store.load_save [OF assms(1) [unfolded store_of_def]] by (simp add: mirrors_def)

lemma mirrors_same:
  "mirrors api readable (s, t) \<Longrightarrow> ss_messages s' = ss_messages s \<Longrightarrow> ss_id s' = ss_id s \<Longrightarrow> mirrors api readable (s', t)"
  by (simp add: mirrors_def)

lemma mirrors_record:
  assumes "store_of api readable" "mirrors api readable st"
  shows "mirrors api readable (record_message api roots now tid m st) \<and>
    ss_id (fst (record_message api roots now tid m st)) = ss_id (fst st)"
proof -
  obtain s t where st: "st = (s, t)" by (cases st)
  note laws = transcript_store.readable_append [OF assms(1) [unfolded store_of_def]]
    transcript_store.load_append [OF assms(1) [unfolded store_of_def]]
    transcript_store.readable_save [OF assms(1) [unfolded store_of_def]]
    transcript_store.load_save [OF assms(1) [unfolded store_of_def]]
  show ?thesis using assms(2) laws
    by (simp add: st mirrors_def record_message_def Let_def persist_metadata_def)
qed

lemma mirrors_record_all:
  assumes "store_of api readable"
  shows "mirrors api readable st \<Longrightarrow> mirrors api readable (fold (record_message api roots now tid) ms st) \<and>
    ss_id (fst (fold (record_message api roots now tid) ms st)) = ss_id (fst st)"
proof (induction ms arbitrary: st)
  case (Cons m ms)
  note step = mirrors_record [OF assms Cons.prems, of roots now tid m]
  show ?case using Cons.IH [OF conjunct1 [OF step]] step by simp
qed simp

lemma mirrors_compaction:
  assumes "store_of api readable" "mirrors api readable (s, t)"
  shows "mirrors api readable (apply_compaction api now tid ms (s, t))"
proof -
  note laws = transcript_store.readable_replace [OF assms(1) [unfolded store_of_def]]
    transcript_store.load_replace [OF assms(1) [unfolded store_of_def]]
    transcript_store.readable_save [OF assms(1) [unfolded store_of_def]]
    transcript_store.load_save [OF assms(1) [unfolded store_of_def]]
  have "te_message (case x of Some e \<Rightarrow> e\<lparr>te_message := m\<rparr> | None \<Rightarrow> \<lparr>te_session_id = i, te_turn_id = tid, te_message = m,
      te_created_at = now\<rparr>) = m" for x i m
    by (cases x) simp_all
  then have "map te_message (map (\<lambda>m. case f m of Some e \<Rightarrow> e\<lparr>te_message := m\<rparr>
      | None \<Rightarrow> \<lparr>te_session_id = i, te_turn_id = tid, te_message = m, te_created_at = now\<rparr>) ms) = ms" for f i
    by (simp add: comp_def)
  then show ?thesis using assms(2) laws
    by (simp add: mirrors_def apply_compaction_def Let_def persist_metadata_def del: map_map)
qed

lemma set_drain_simps [simp]:
  "ss_messages (set_drain i d s) = ss_messages s" "ss_id (set_drain i d s) = ss_id s"
  by (simp_all add: set_drain_def)

lemma mirrors_take:
  assumes "store_of api readable" "mirrors api readable (s, t)"
  shows "mirrors api readable (take_command api roots services_md fresh turn_id now i (s, t))"
proof (cases "ss_queue s")
  case Nil
  then show ?thesis using mirrors_same [OF assms(2)] by (simp add: take_command_def)
next
  case (Cons c cs)
  show ?thesis
  proof (cases "process_event fresh now services_md (ss_metadata s) (event_of_command c)")
    case (Inl err)
    then show ?thesis using Cons mirrors_same [OF assms(2)] by (simp add: take_command_def)
  next
    case (Inr r)
    define s1 where "s1 = (if ir_kind r = Admit_Turn then s\<lparr>ss_queue := cs\<rparr> else s\<lparr>ss_queue := cs, ss_active_turn := None\<rparr>)"
    define tid where "tid = (if ir_kind r = Admit_Turn \<or> ir_messages r \<noteq> [] then Some turn_id else None)"
    obtain s2 t2 where st2: "fold (record_message api roots now tid) (ir_messages r) (s1, t) = (s2, t2)"
      by fastforce
    have "mirrors api readable (s1, t)" using mirrors_same [OF assms(2)] by (simp add: s1_def)
    from mirrors_record_all [OF assms(1) this, of roots now tid "ir_messages r"]
    have m2: "mirrors api readable (s2, t2)" by (simp add: st2)
    have "take_command api roots services_md fresh turn_id now i (s, t) =
        (set_drain i (In_Replay c r tid (ir_replay r)) (if ir_private r = [] then s2 else apply_private_updates (ir_private r) s2), t2)"
      using Cons Inr st2 by (simp add: take_command_def Let_def s1_def tid_def)
    then show ?thesis using mirrors_same [OF m2] by (simp add: apply_private_updates_def)
  qed
qed

lemma mirrors_replay:
  assumes "store_of api readable" "mirrors api readable (s, t)"
  shows "mirrors api readable (replay_step api i (s, t))"
  using assms mirrors_save [OF assms] mirrors_same [OF assms(2)]
  by (auto simp: replay_step_def persist_metadata_def split: drain.split list.split)

lemma mirrors_receipt:
  assumes "store_of api readable" "mirrors api readable (s, t)"
  shows "mirrors api readable (receipt_step api failed i (s, t))"
  using assms mirrors_save [OF assms] mirrors_same [OF assms(2)]
  by (auto simp: receipt_step_def persist_metadata_def Let_def split: drain.split list.split option.split bool.split)

lemma mirrors_turn_event:
  assumes "store_of api readable" "mirrors api readable (s, t)"
  shows "mirrors api readable (turn_event_step api roots now ev i (s, t))"
proof (cases "ss_drains s ! i")
  case (In_Turn c turn_id)
  show ?thesis
  proof (cases ev)
    case (TE_Message m)
    then show ?thesis using In_Turn mirrors_record [OF assms] by (simp add: turn_event_step_def)
  next
    case (TE_Compaction ms)
    then show ?thesis using In_Turn mirrors_compaction [OF assms] assms(2)
      by (cases ms) (simp_all add: turn_event_step_def)
  next
    case (TE_Terminal hint tmd)
    then show ?thesis using In_Turn mirrors_save [OF assms]
      by (simp add: turn_event_step_def Let_def persist_metadata_def sync_terminal_metadata_def split: option.split)
  qed (use In_Turn assms(2) in \<open>simp add: turn_event_step_def\<close>)
qed (use assms(2) in \<open>simp_all add: turn_event_step_def\<close>)

lemma mirrors_resume:
  assumes "mirrors api readable (s, t)"
  shows "mirrors api readable (resume_session api roots s t, t)"
  using assms by (simp add: mirrors_def resume_session_def Let_def)

lemma mirrors_step:
  assumes "session_step api roots st st'" "store_of api readable" "mirrors api readable st"
  shows "mirrors api readable st'"
  using assms
proof (induction rule: session_step.induct)
  case (Take i s t services_md fresh turn_id now)
  then show ?case by (intro mirrors_take)
next
  case (Replay i s t)
  then show ?case by (intro mirrors_replay)
next
  case (Receipt i s t failed)
  then show ?case by (intro mirrors_receipt)
next
  case (Turn_Event i s t now ev)
  then show ?case by (intro mirrors_turn_event)
next
  case (Resume s t)
  then show ?case by (intro mirrors_resume)
next
  case (End_Turn i s t)
  then show ?case by (elim mirrors_same) (simp_all add: end_turn_def Let_def split: drain.split)
qed (auto simp: enqueue_event_def submit_runtime_event_def start_session_def begin_drain_def interrupt_session_def
    close_session_def abandon_drain_def Let_def elim!: mirrors_same)

text \<open>C17: However drains, turns, compactions, submissions, interrupts and exceptions interleave, the messages a
  session works on are those of its transcript, in order, over any store that meets the protocol; so a
  session that is resumed at any moment has the messages it had.\<close>

theorem messages_match_transcript:
  assumes "store_of api readable" and "readable t0" and "ta_load api sid t0 = []"
    and "(session_step api roots)\<^sup>*\<^sup>* (new_session sid permission, t0) (s, t)"
  shows "ss_messages s = map te_message (ta_load api (ss_id s) t) \<and>
    ss_messages (resume_session api roots s t) = ss_messages s"
proof -
  have "mirrors api readable (new_session sid permission, t0)"
    using assms(2,3) by (simp add: mirrors_def new_session_def)
  from assms(4) this have "mirrors api readable (s, t)"
    by (induction rule: rtranclp_induct) (use mirrors_step [OF _ assms(1)] in blast)+
  then show ?thesis by (simp add: mirrors_def resume_session_def Let_def)
qed

subsection \<open>What a resumed session gets back\<close>

definition compaction_keys :: "string list" where
  "compaction_keys = [''compaction'', ''compaction_summary'', ''compaction_boundary'', ''compaction_continuation'']"

lemma py_get_update [simp]: "py_get (AList.update k v d) k' = (if k' = k then v else py_get d k')"
  by (simp add: py_get_def map_of_update)

lemma py_get_delete [simp]: "py_get (AList.delete k d) k' = (if k' = k then PNone else py_get d k')"
  by (simp add: py_get_def map_of_delete)

lemma py_get_put_or_pop: "k' \<noteq> k \<Longrightarrow> py_get (put_or_pop k v d) k' = py_get d k'"
  by (simp add: put_or_pop_def split: option.split)

lemma py_get_sync_compaction: "k \<notin> set compaction_keys \<Longrightarrow> py_get (sync_compaction ms d) k = py_get d k"
  by (simp add: sync_compaction_def Let_def compaction_keys_def py_get_put_or_pop)

lemma sync_compaction_cong:
  "k \<in> set compaction_keys \<Longrightarrow> py_get (sync_compaction ms d) k = py_get (sync_compaction ms d') k"
  by (auto simp: sync_compaction_def Let_def compaction_keys_def put_or_pop_def split: option.split)

lemma py_get_sync_skill: "k \<notin> {''observed_paths'', ''skill_dynamic_roots''} \<Longrightarrow> py_get (sync_skill_metadata roots ms d) k = py_get d k"
  by (simp add: sync_skill_metadata_def Let_def)

lemma distinct_persisted: "distinct persisted_keys"
  by (simp add: persisted_keys_def)

lemma map_of_snapshot: "map_of (metadata_snapshot d) k =
    (if k \<in> set persisted_keys \<and> py_get d k \<noteq> PNone then Some (py_get d k) else None)"
proof -
  have "map_of (map (\<lambda>k. (k, py_get d k)) ks) k = (if k \<in> set ks then Some (py_get d k) else None)" for ks
    by (induction ks) auto
  then show ?thesis by (simp add: metadata_snapshot_def)
qed

lemma distinct_snapshot: "distinct (map fst (metadata_snapshot d))"
  using distinct_persisted by (simp add: metadata_snapshot_def comp_def)

lemma map_of_rev_distinct: "distinct (map fst d) \<Longrightarrow> map_of (rev d) = map_of d"
  by (rule map_of_inject_set [THEN iffD2]) (simp_all add: rev_map [symmetric])

lemma py_get_py_update:
  "distinct (map fst e) \<Longrightarrow> py_get (py_update d e) k = (case map_of e k of None \<Rightarrow> py_get d k | Some v \<Rightarrow> v)"
  by (simp add: py_get_def map_of_py_update map_of_rev_distinct split: option.split)

lemma py_get_resumed:
  assumes "k \<in> set persisted_keys" "k \<notin> set compaction_keys"
    and "ta_load_metadata api sid t = Some (metadata_snapshot d)"
    and "py_get (ss_metadata s) k = PNone" "ss_id s = sid"
  shows "py_get (ss_metadata (resume_session api roots s t)) k = py_get d k"
proof -
  have "k \<notin> {''observed_paths'', ''skill_dynamic_roots''}"
    using assms(1) by (auto simp: persisted_keys_def)
  then show ?thesis
    using assms by (simp add: resume_session_def Let_def py_get_sync_skill py_get_sync_compaction py_get_py_update
        distinct_snapshot map_of_snapshot)
qed

text \<open>A session whose metadata was persisted is resumed, in a new controller, with the values it had under
  every persisted key; what the keys of the compaction hold is read off the messages again.\<close>

theorem resume_restores_metadata:
  assumes "ta_load_metadata api sid t = Some (metadata_snapshot d)"
  shows "list_all (\<lambda>k. py_get (ss_metadata (resume_session api roots (new_session sid permission) t)) k =
        (if k \<in> set compaction_keys
         then py_get (sync_compaction (map te_message (ta_load api sid t)) []) k else py_get d k)) persisted_keys"
proof -
  let ?s = "new_session sid permission"
  have "py_get (ss_metadata (resume_session api roots ?s t)) k = py_get d k"
    if "k \<in> set persisted_keys" "k \<notin> set compaction_keys" for k
  proof -
    have "k \<noteq> ''permission_context''" using that by (auto simp: persisted_keys_def)
    then show ?thesis using that assms by (intro py_get_resumed) (simp_all add: new_session_def py_get_def)
  qed
  moreover have "py_get (ss_metadata (resume_session api roots ?s t)) k =
      py_get (sync_compaction (map te_message (ta_load api sid t)) []) k" if "k \<in> set compaction_keys" for k
  proof -
    have "k \<notin> {''observed_paths'', ''skill_dynamic_roots''}" using that by (auto simp: compaction_keys_def)
    then show ?thesis using sync_compaction_cong [OF that]
      by (simp add: resume_session_def Let_def py_get_sync_skill new_session_def)
  qed
  ultimately show ?thesis by (simp add: list_all_iff)
qed

end
