(* ===== verification/Session_Findings.thy ===== *)
theory Session_Findings
  imports Session_Props
begin

text \<open>
  Concrete sessions over the store in memory: instances of the theorems, and the runs in which the
  controller does not do what its code means to.
\<close>

definition mem_api :: "mem_transcripts transcript_api" where
  "mem_api = \<lparr>ta_append = mt_append, ta_load = mt_load, ta_replace = mt_replace, ta_load_metadata = mt_load_metadata,
     ta_save_metadata = mt_save_metadata\<rparr>"

lemma mem_api_store: "store_of mem_api (\<lambda>_. True)"
  using mem_store.transcript_store_axioms by (simp add: store_of_def mem_api_def)

definition no_roots :: "string list \<Rightarrow> pyval list" where
  "no_roots ps = []"

definition prompt :: "string \<Rightarrow> inbound_event" where
  "prompt text = \<lparr>ie_type = User_Prompt, ie_content = text, ie_metadata = []\<rparr>"

definition demo_ids :: "nat \<Rightarrow> string" where
  "demo_ids n = ''m''"

text \<open>The steps a drain takes by itself, from the head of the loop into the turn, when the host and the
  handlers of receipts return.\<close>

definition take_demo :: "string \<Rightarrow> nat \<Rightarrow> session \<times> mem_transcripts \<Rightarrow> session \<times> mem_transcripts" where
  "take_demo turn_id i st = take_command mem_api no_roots [] demo_ids turn_id 1 i st"

definition into_turn :: "nat \<Rightarrow> session \<times> mem_transcripts \<Rightarrow> session \<times> mem_transcripts" where
  "into_turn i st = receipt_step mem_api None i (replay_step mem_api i st)"

definition in_session :: "(session \<Rightarrow> session) \<Rightarrow> session \<times> mem_transcripts \<Rightarrow> session \<times> mem_transcripts" where
  "in_session f st = (f (fst st), snd st)"

definition first_prompt :: "session \<times> mem_transcripts" where
  "first_prompt = in_session (submit_runtime_event ''c1'' 0 (prompt ''hello'') True) (new_session ''s'' PNone, new_mem_transcripts)"

fun in_turn :: "drain \<Rightarrow> bool" where
  "in_turn (In_Turn c t) = True"
| "in_turn d = False"

text \<open>A session can run two turns at once: an event that is submitted with \<open>drain\<close> while the first drain
  awaits the host in its ingress finds the status still \<open>ready\<close> and starts a second drain, and both reach
  the engine.\<close>

theorem two_turns_at_once:
  "map in_turn (ss_drains (fst (into_turn 1 (take_demo ''t2'' 1 (into_turn 0
      (in_session (submit_runtime_event ''c2'' 0 (prompt ''again'') True) (take_demo ''t1'' 0 first_prompt))))))) = [True, True]"
  by code_simp

text \<open>A turn that is abandoned, by an exception of the engine or the host or by a caller that stops reading
  the stream, leaves the session \<open>running\<close>; from then on no submitted event is drained.\<close>

definition abandoned :: "session \<times> mem_transcripts" where
  "abandoned = in_session (abandon_drain 0) (into_turn 0 (take_demo ''t1'' 0 first_prompt))"

lemma running_never_drains:
  "ss_status s = SS_RUNNING \<Longrightarrow> ss_drains (submit_runtime_event cid now e drain s) = ss_drains s"
  by (simp add: submit_runtime_event_def enqueue_event_def Let_def)

theorem abandoned_turn_blocks:
  "ss_status (fst abandoned) = SS_RUNNING \<and>
   ss_drains (submit_runtime_event cid now e drain (fst abandoned)) = [Ended] \<and>
   ss_status (submit_runtime_event cid now e drain (fst abandoned)) = SS_RUNNING"
proof -
  have "ss_status (fst abandoned) = SS_RUNNING" "ss_drains (fst abandoned) = [Ended]" by code_simp+
  then show ?thesis
    using running_never_drains by (simp add: submit_runtime_event_def enqueue_event_def Let_def)
qed

text \<open>An interrupt that comes while a drain is in its ingress is lost: there is nothing yet in the engine to
  abort, and the status it sets is overwritten when the turn begins.\<close>

theorem early_interrupt_lost:
  "ss_status (fst (in_session interrupt_session (take_demo ''t1'' 0 first_prompt))) = SS_INTERRUPTED \<and>
   ss_status (fst (into_turn 0 (in_session interrupt_session (take_demo ''t1'' 0 first_prompt)))) = SS_RUNNING"
  by code_simp

text \<open>A malformed event does not become a rejection, as an unknown admission kind does, but an exception: a
  role the runtime does not know ends the drain and the command is gone; so does a replay without outputs.\<close>

theorem malformed_event_raises:
  "process_event demo_ids 0 [] [] (prompt ''hello''\<lparr>ie_metadata := [(''role'', PStr ''boss'')]\<rparr>) = Inl (Unknown_Role ''boss'') \<and>
   process_event demo_ids 0 [] [] (prompt ''hello''\<lparr>ie_metadata := [(''admission_kind'', PStr ''replay_only'')]\<rparr>)
     = Inl (Contract_Violated Replay_Only) \<and>
   map_option ir_kind (case process_event demo_ids 0 [] [] (prompt ''hello''\<lparr>ie_metadata := [(''admission_kind'', PStr ''nonsense'')]\<rparr>)
       of Inl e \<Rightarrow> None | Inr r \<Rightarrow> Some r) = Some Reject"
  by code_simp

subsection \<open>Instances\<close>


theorem plain_events_accepted_witness:
  "\<exists>r. process_event demo_ids 0 [] [] (prompt []) = Inr r \<and> ir_kind r = Admit_Turn"
  using plain_events_accepted [of "prompt []" demo_ids 0 "[]" "[]"] by (simp add: prompt_def py_get_def)

theorem enqueue_position_witness:
  "map sc_command_id (ss_queue (enqueue_event ''c2'' 1
      \<lparr>ie_type = System_Message, ie_content = ''x'', ie_metadata = []\<rparr> (fst first_prompt))) = [''c2'', ''c1'']"
proof -
  have q: "sorted (map queue_key (ss_queue (fst first_prompt)))"
    "list_all (\<lambda>c. sc_created_at c \<le> 1) (ss_queue (fst first_prompt))" by code_simp+
  have e: "map sc_command_id (filter (\<lambda>c. 50 \<le> sc_priority c) (ss_queue (fst first_prompt))) = []"
    "map sc_command_id (filter (\<lambda>c. sc_priority c < 50) (ss_queue (fst first_prompt))) = [''c1'']" by code_simp+
  show ?thesis
    using enqueue_position [OF q, of "''c2''" "\<lparr>ie_type = System_Message, ie_content = ''x'', ie_metadata = []\<rparr>"] e
    by (simp add: normalize_event_def default_priority_def py_get_def)
qed

lemma first_prompt_steps: "(session_step mem_api no_roots)\<^sup>*\<^sup>* (new_session ''s'' PNone, new_mem_transcripts) first_prompt"
  unfolding first_prompt_def in_session_def by (simp add: r_into_rtranclp session_step.Submit)

theorem messages_match_transcript_witness:
  "ss_messages (fst (take_demo ''t1'' 0 first_prompt)) =
     map te_message (mt_load ''s'' (snd (take_demo ''t1'' 0 first_prompt))) \<and>
   length (ss_messages (fst (take_demo ''t1'' 0 first_prompt))) = 1"
proof -
  have "session_step mem_api no_roots first_prompt (take_demo ''t1'' 0 first_prompt)"
  proof -
    have "length (ss_drains (fst first_prompt)) = 1" "ss_drains (fst first_prompt) ! 0 = At_Head" by code_simp+
    then show ?thesis
      using session_step.Take [of 0 "fst first_prompt" mem_api no_roots "snd first_prompt" "[]" demo_ids "''t1''" 1]
      by (simp add: take_demo_def)
  qed
  then have steps: "(session_step mem_api no_roots)\<^sup>*\<^sup>* (new_session ''s'' PNone, new_mem_transcripts)
      (fst (take_demo ''t1'' 0 first_prompt), snd (take_demo ''t1'' 0 first_prompt))"
    using first_prompt_steps by simp
  have "mt_load ''s'' new_mem_transcripts = []" by code_simp
  moreover have "ss_id (fst (take_demo ''t1'' 0 first_prompt)) = ''s''" by code_simp
  moreover have "length (ss_messages (fst (take_demo ''t1'' 0 first_prompt))) = 1" by code_simp
  ultimately show ?thesis
    using messages_match_transcript [OF mem_api_store _ _ steps] by (simp add: mem_api_def)
qed

theorem resume_restores_metadata_witness:
  "py_get (ss_metadata (resume_session mem_api no_roots (new_session ''s'' PNone)
      (mt_save_metadata ''s'' (metadata_snapshot [(''team_id'', PStr ''red'')]) new_mem_transcripts))) ''team_id'' = PStr ''red''"
proof -
  have "ta_load_metadata mem_api ''s'' (mt_save_metadata ''s'' (metadata_snapshot [(''team_id'', PStr ''red'')]) new_mem_transcripts)
      = Some (metadata_snapshot [(''team_id'', PStr ''red'')])"
    by (simp add: mem_api_def mt_load_metadata_def mt_save_metadata_def map_of_update)
  from resume_restores_metadata [OF this, of no_roots PNone] show ?thesis
    by (simp add: persisted_keys_def compaction_keys_def py_get_def)
qed

end
