(* ===== verification/Turn_Stream.thy ===== *)
theory Turn_Stream
  imports Messages
begin

text \<open>
  What the turn engine makes of a model's stream (\<open>turn_engine/engine.py\<close>, \<open>_StreamAttemptState\<close> and
  \<open>_PendingBlock\<close>): events open, extend and close content blocks, tool uses become tool calls, and at the end
  the blocks are committed or discarded.  An exception leaves the state as far as it got, so an operation
  returns the state beside the exception.  A \<open>uuid4\<close> drawn for the n-th block is \<open>fresh n\<close>; the time to the
  first token is a float and not modelled.
\<close>

subsection \<open>Events\<close>

datatype block_type = BT_Text | BT_Tool_Use | BT_Tool_Result | BT_Thinking | BT_Redacted_Thinking

fun block_type_value :: "block_type \<Rightarrow> string" where
  "block_type_value BT_Text = ''text''"
| "block_type_value BT_Tool_Use = ''tool_use''"
| "block_type_value BT_Tool_Result = ''tool_result''"
| "block_type_value BT_Thinking = ''thinking''"
| "block_type_value BT_Redacted_Thinking = ''redacted_thinking''"

datatype stream_event_type = Message_Start | Content_Block_Start | Content_Block_Delta | Content_Block_Stop
  | Content_Delta | Tool_Call_Event | Message_Stop | Error_Event

record model_terminal =
  mt_stop_reason :: "string option"
  mt_usage :: "(string, pyval) dict"
  mt_request_id :: "string option"
  mt_error :: "string option"
  mt_abort_reason :: "string option"
  mt_metadata :: "(string, pyval) dict"

record stream_event =
  se_type :: stream_event_type
  se_payload :: "(string, pyval) dict"
  se_block_id :: "string option"
  se_block_type :: "string option"
  se_terminal :: "model_terminal option"

record tool_call =
  tc_call_id :: string
  tc_tool_name :: string
  tc_tool_input :: "(string, pyval) dict"

subsection \<open>Coercions\<close>

definition string_value :: "pyval \<Rightarrow> string option" where
  "string_value v = (if v = PNone then None else Some (py_str v))"

text \<open>\<open>a or b\<close> on optional strings: an empty one counts as absent.\<close>

definition text_else :: "string option \<Rightarrow> string option \<Rightarrow> string option" where
  "text_else a b = (case a of Some (c # cs) \<Rightarrow> Some (c # cs) | _ \<Rightarrow> b)"

definition dict_else :: "(string, pyval) dict \<Rightarrow> (string, pyval) dict \<Rightarrow> (string, pyval) dict" where
  "dict_else a b = (if a = [] then b else a)"

datatype stream_error = Unknown_Block_Type string | Unsupported_Block_Type

definition coerce_block_type :: "pyval \<Rightarrow> stream_error + block_type" where
  "coerce_block_type v =
     (if v = PNone then Inr BT_Text
      else case List.find (\<lambda>t. block_type_value t = py_str v)
          [BT_Text, BT_Tool_Use, BT_Tool_Result, BT_Thinking, BT_Redacted_Thinking] of
        None \<Rightarrow> Inl (Unknown_Block_Type (py_str v))
      | Some t \<Rightarrow> Inr t)"

definition event_block_type :: "stream_event \<Rightarrow> stream_error + block_type" where
  "event_block_type e = coerce_block_type
     (case se_block_type e of
        Some (c # cs) \<Rightarrow> PStr (c # cs)
      | _ \<Rightarrow> py_or (py_get (se_payload e) ''block_type'') (py_get (se_payload e) ''type''))"

definition payload_text :: "(string, pyval) dict \<Rightarrow> string" where
  "payload_text p =
     (case text_else (string_value (py_get p ''text'')) (text_else (string_value (py_get p ''delta''))
        (text_else (string_value (py_get p ''thinking'')) (text_else (string_value (py_get p ''data'')) None))) of
        None \<Rightarrow> [] | Some s \<Rightarrow> s)"

definition payload_tool_name :: "(string, pyval) dict \<Rightarrow> string option" where
  "payload_tool_name p = text_else (string_value (py_get p ''tool_name'')) (string_value (py_get p ''name''))"

definition payload_tool_input :: "(string, pyval) dict \<Rightarrow> (string, pyval) dict" where
  "payload_tool_input p = dict_else (coerce_mapping (py_get p ''tool_input'')) (coerce_mapping (py_get p ''input''))"

subsection \<open>The state of an attempt\<close>

record pending_block =
  pb_type :: block_type
  pb_id :: "string option"
  pb_text :: string
  pb_tool_name :: "string option"
  pb_tool_input :: "(string, pyval) dict"

definition to_block :: "string \<Rightarrow> pending_block \<Rightarrow> stream_error + content_block" where
  "to_block uuid p =
     (case pb_type p of
        BT_Text \<Rightarrow> Inr (Text_Block (pb_text p))
      | BT_Thinking \<Rightarrow> Inr (Thinking_Block (pb_text p) None)
      | BT_Redacted_Thinking \<Rightarrow> Inr (Redacted_Thinking_Block (if pb_text p = [] then None else Some (pb_text p)))
      | BT_Tool_Use \<Rightarrow>
          Inr (Tool_Use_Block (case text_else (pb_id p) None of None \<Rightarrow> uuid | Some i \<Rightarrow> i)
            (case pb_tool_name p of None \<Rightarrow> [] | Some n \<Rightarrow> n) (pb_tool_input p))
      | BT_Tool_Result \<Rightarrow> Inl Unsupported_Block_Type)"

record attempt_state =
  as_blocks :: "content_block list"
  as_pending :: "pending_block option"
  as_tool_calls :: "tool_call list"
  as_new_tool_calls :: "tool_call list"
  as_message_stopped :: bool
  as_closed_at_stop :: bool
  as_request_id :: "string option"
  as_usage :: "(string, pyval) dict"
  as_stop_reason :: "string option"
  as_error :: "string option"
  as_abort_reason :: "string option"
  as_metadata :: "(string, pyval) dict"

definition new_attempt :: attempt_state where
  "new_attempt = \<lparr>as_blocks = [], as_pending = None, as_tool_calls = [], as_new_tool_calls = [],
     as_message_stopped = False, as_closed_at_stop = False, as_request_id = None, as_usage = [],
     as_stop_reason = None, as_error = None, as_abort_reason = None, as_metadata = []\<rparr>"

definition merge_terminal :: "model_terminal option \<Rightarrow> attempt_state \<Rightarrow> attempt_state" where
  "merge_terminal t st =
     (case t of
        None \<Rightarrow> st
      | Some m \<Rightarrow>
          st\<lparr>as_request_id := text_else (mt_request_id m) (as_request_id st),
             as_usage := dict_else (mt_usage m) (as_usage st),
             as_stop_reason := text_else (mt_stop_reason m) (as_stop_reason st),
             as_error := text_else (mt_error m) (as_error st),
             as_abort_reason := text_else (mt_abort_reason m) (as_abort_reason st),
             as_metadata := py_update (as_metadata st) (mt_metadata m)\<rparr>)"

definition text_given :: "pyval \<Rightarrow> string option \<Rightarrow> string option" where
  "text_given v old = (case string_value v of None \<Rightarrow> old | Some s \<Rightarrow> Some s)"

definition merge_terminal_fields :: "stream_event \<Rightarrow> attempt_state \<Rightarrow> attempt_state" where
  "merge_terminal_fields e st0 =
     (let st = merge_terminal (se_terminal e) st0; p = se_payload e
      in st\<lparr>as_request_id := text_given (py_get p ''request_id'') (as_request_id st),
            as_usage := dict_else (coerce_mapping (py_get p ''usage'')) (as_usage st),
            as_stop_reason := text_given (py_get p ''stop_reason'') (as_stop_reason st),
            as_error := text_given (py_get p ''error'') (as_error st),
            as_abort_reason := text_given (py_get p ''abort_reason'') (as_abort_reason st),
            as_metadata := py_update (as_metadata st) (coerce_mapping (py_get p ''metadata''))\<rparr>)"

subsection \<open>Blocks\<close>

definition call_of :: "string \<Rightarrow> string \<Rightarrow> (string, pyval) dict \<Rightarrow> tool_call" where
  "call_of i n inp = \<lparr>tc_call_id = i, tc_tool_name = n, tc_tool_input = inp\<rparr>"

definition add_block :: "content_block \<Rightarrow> attempt_state \<Rightarrow> attempt_state" where
  "add_block b st =
     (let st = st\<lparr>as_blocks := as_blocks st @ [b]\<rparr>
      in case b of
           Tool_Use_Block i n inp \<Rightarrow>
             st\<lparr>as_tool_calls := as_tool_calls st @ [call_of i n inp],
                as_new_tool_calls := as_new_tool_calls st @ [call_of i n inp]\<rparr>
         | _ \<Rightarrow> st)"

definition finalize_pending :: "(nat \<Rightarrow> string) \<Rightarrow> attempt_state \<Rightarrow> attempt_state \<times> stream_error option" where
  "finalize_pending fresh st =
     (case as_pending st of
        None \<Rightarrow> (st, None)
      | Some p \<Rightarrow>
          (case to_block (fresh (length (as_blocks st))) p of
             Inl err \<Rightarrow> (st, Some err)
           | Inr b \<Rightarrow> ((add_block b st)\<lparr>as_pending := None\<rparr>, None)))"

text \<open>An exception of the first part passes over the second.\<close>

definition after :: "(attempt_state \<Rightarrow> attempt_state \<times> stream_error option) \<Rightarrow>
    attempt_state \<times> stream_error option \<Rightarrow> attempt_state \<times> stream_error option" where
  "after f r = (case snd r of None \<Rightarrow> f (fst r) | Some err \<Rightarrow> r)"

definition start_block :: "(nat \<Rightarrow> string) \<Rightarrow> stream_event \<Rightarrow> attempt_state \<Rightarrow> attempt_state \<times> stream_error option" where
  "start_block fresh e st =
     after (\<lambda>st.
       (case event_block_type e of
          Inl err \<Rightarrow> (st, Some err)
        | Inr t \<Rightarrow>
            (let p = se_payload e
             in (st\<lparr>as_pending := Some
                  \<lparr>pb_type = t,
                   pb_id = text_else (se_block_id e) (text_else (string_value (py_get p ''block_id''))
                     (text_else (string_value (py_get p ''tool_use_id'')) (string_value (py_get p ''call_id'')))),
                   pb_text = payload_text p, pb_tool_name = payload_tool_name p,
                   pb_tool_input = payload_tool_input p\<rparr>\<rparr>, None))))
       (finalize_pending fresh st)"

definition extend_pending :: "block_type \<Rightarrow> (string, pyval) dict \<Rightarrow> pending_block \<Rightarrow> pending_block" where
  "extend_pending t p b =
     (if t \<in> {BT_Text, BT_Thinking, BT_Redacted_Thinking} then b\<lparr>pb_text := pb_text b @ payload_text p\<rparr>
      else if t = BT_Tool_Use then
        b\<lparr>pb_tool_name := (case payload_tool_name p of None \<Rightarrow> pb_tool_name b | Some n \<Rightarrow> Some n),
          pb_tool_input := py_update (pb_tool_input b) (payload_tool_input p)\<rparr>
      else b)"

definition apply_block_delta ::
  "(nat \<Rightarrow> string) \<Rightarrow> stream_event \<Rightarrow> attempt_state \<Rightarrow> attempt_state \<times> stream_error option" where
  "apply_block_delta fresh e st =
     (case event_block_type e of
        Inl err \<Rightarrow> (st, Some err)
      | Inr t \<Rightarrow>
          (case as_pending st of
             None \<Rightarrow> start_block fresh e st
           | Some b \<Rightarrow>
               if pb_type b \<noteq> t then start_block fresh e st
               else (st\<lparr>as_pending := Some (extend_pending t (se_payload e) b)\<rparr>, None)))"

definition empty_text_block :: pending_block where
  "empty_text_block = \<lparr>pb_type = BT_Text, pb_id = None, pb_text = [], pb_tool_name = None, pb_tool_input = []\<rparr>"

definition append_legacy_text ::
  "(nat \<Rightarrow> string) \<Rightarrow> stream_event \<Rightarrow> attempt_state \<Rightarrow> attempt_state \<times> stream_error option" where
  "append_legacy_text fresh e st =
     (let t = (case string_value (py_get (se_payload e) ''text'') of None \<Rightarrow> [] | Some s \<Rightarrow> s)
      in if t = [] then (st, None)
         else case as_pending st of
             Some b \<Rightarrow>
               if pb_type b = BT_Text then (st\<lparr>as_pending := Some (b\<lparr>pb_text := pb_text b @ t\<rparr>)\<rparr>, None)
               else after (\<lambda>st. (st\<lparr>as_pending := Some (empty_text_block\<lparr>pb_text := t\<rparr>)\<rparr>, None)) (finalize_pending fresh st)
           | None \<Rightarrow> (st\<lparr>as_pending := Some (empty_text_block\<lparr>pb_text := t\<rparr>)\<rparr>, None))"

definition append_legacy_tool_call ::
  "(nat \<Rightarrow> string) \<Rightarrow> stream_event \<Rightarrow> attempt_state \<Rightarrow> attempt_state \<times> stream_error option" where
  "append_legacy_tool_call fresh e st =
     after (\<lambda>st.
       (let p = se_payload e
        in case string_value (py_get p ''tool_name'') of
             None \<Rightarrow> (st, None)
           | Some n \<Rightarrow>
               (let i = (case text_else (string_value (py_get p ''call_id''))
                         (text_else (string_value (py_get p ''tool_use_id'')) None) of
                       None \<Rightarrow> fresh (length (as_blocks st)) | Some i \<Rightarrow> i)
                in (add_block (Tool_Use_Block i n (payload_tool_input p)) st, None))))
       (finalize_pending fresh st)"

text \<open>\<open>observe\<close>.\<close>

definition observe :: "(nat \<Rightarrow> string) \<Rightarrow> stream_event \<Rightarrow> attempt_state \<Rightarrow> attempt_state \<times> stream_error option" where
  "observe fresh e st0 =
     (let st = merge_terminal_fields e st0
      in case se_type e of
           Message_Start \<Rightarrow> (st, None)
         | Content_Block_Start \<Rightarrow> start_block fresh e st
         | Content_Block_Delta \<Rightarrow> apply_block_delta fresh e st
         | Content_Block_Stop \<Rightarrow> finalize_pending fresh st
         | Content_Delta \<Rightarrow> append_legacy_text fresh e st
         | Tool_Call_Event \<Rightarrow> append_legacy_tool_call fresh e st
         | Message_Stop \<Rightarrow>
             finalize_pending fresh
               (st\<lparr>as_message_stopped := True,
                   as_closed_at_stop := (as_closed_at_stop st \<or> map_option pb_type (as_pending st) = Some BT_Tool_Use)\<rparr>)
         | Error_Event \<Rightarrow>
             (st\<lparr>as_error := text_else (string_value (py_get (se_payload e) ''error''))
                 (text_else (as_error st) (Some ''Model stream error''))\<rparr>, None))"

definition drain_new_tool_calls :: "attempt_state \<Rightarrow> tool_call list \<times> attempt_state" where
  "drain_new_tool_calls st = (as_new_tool_calls st, st\<lparr>as_new_tool_calls := []\<rparr>)"

text \<open>The loop over the stream: after each event the new tool calls are taken and handed to the executor, with
  their offset among all calls, unless the message's end closed the last of them.\<close>

definition closing_event :: "stream_event \<Rightarrow> attempt_state \<Rightarrow> bool" where
  "closing_event e st = (se_type e = Message_Stop \<and> as_closed_at_stop st)"

fun stream_loop ::
  "(nat \<Rightarrow> string) \<Rightarrow> bool \<Rightarrow> stream_event list \<Rightarrow> attempt_state \<Rightarrow>
   attempt_state \<times> (tool_call list \<times> nat) list \<times> stream_error option" where
  "stream_loop fresh executor [] st = (st, [], None)"
| "stream_loop fresh executor (e # es) st =
     (let (st1, err) = observe fresh e st in
      case err of
        Some x \<Rightarrow> (st1, [], Some x)
      | None \<Rightarrow>
          (let (new, st2) = (if executor then drain_new_tool_calls st1 else ([], st1));
               batch = (if new \<noteq> [] \<and> \<not> closing_event e st2
                 then [(new, length (as_tool_calls st2) - length new)] else []);
               (st3, handed, err) = stream_loop fresh executor es st2
           in (st3, batch @ handed, err)))"

subsection \<open>The end of the stream\<close>

definition synthesized_stop_reason :: "string option \<Rightarrow> bool \<Rightarrow> string option \<Rightarrow> string" where
  "synthesized_stop_reason abort stopped err =
     (if abort \<noteq> None then ''interrupted'' else if err \<noteq> None then ''error''
      else if stopped then ''message_stop'' else ''incomplete'')"

definition abort_reason_allows_tool_finalize :: "string option \<Rightarrow> bool" where
  "abort_reason_allows_tool_finalize r = (case r of None \<Rightarrow> False | Some s \<Rightarrow> take 13 s = ''tool_failure:'')"

definition discard_pending :: "(nat \<Rightarrow> string) \<Rightarrow> attempt_state \<Rightarrow> stream_error + content_block list" where
  "discard_pending fresh st =
     (case as_pending st of
        None \<Rightarrow> Inr []
      | Some p \<Rightarrow> rbind (to_block (fresh (length (as_blocks st))) p) (\<lambda>b. Inr [b]))"

record finalized =
  fz_committed :: "content_block list"
  fz_discarded :: "content_block list"
  fz_tool_calls :: "tool_call list"
  fz_terminal :: model_terminal

definition finalize_attempt ::
  "(nat \<Rightarrow> string) \<Rightarrow> string option \<Rightarrow> bool \<Rightarrow> attempt_state \<Rightarrow> stream_error + finalized" where
  "finalize_attempt fresh abort preserve st =
     (let terminal = \<lparr>mt_stop_reason = text_else (as_stop_reason st)
              (Some (synthesized_stop_reason abort (as_message_stopped st) (as_error st))),
            mt_usage = as_usage st, mt_request_id = as_request_id st, mt_error = as_error st,
            mt_abort_reason = text_else (as_abort_reason st) abort, mt_metadata = as_metadata st\<rparr>
      in if as_message_stopped st then
           Inr \<lparr>fz_committed = as_blocks st, fz_discarded = [], fz_tool_calls = as_tool_calls st, fz_terminal = terminal\<rparr>
         else rbind (discard_pending fresh st) (\<lambda>dropped.
           if preserve \<and> as_tool_calls st \<noteq> [] then
             Inr \<lparr>fz_committed = as_blocks st, fz_discarded = dropped, fz_tool_calls = as_tool_calls st, fz_terminal = terminal\<rparr>
           else
             Inr \<lparr>fz_committed = [], fz_discarded = as_blocks st @ dropped, fz_tool_calls = [], fz_terminal = terminal\<rparr>))"

end
