(* ===== verification/Turn_Recovery.thy ===== *)
theory Turn_Recovery
  imports "HOL-Library.Sublist" Turn_Stream Private_Context Context_Window Hook_Data
begin

text \<open>
  What follows an attempt of a turn (\<open>turn_engine/control_plane.py\<close>: the normalized outcome, the recovery
  state and the default policy; \<open>turn_engine/engine.py\<close>: what the recovery hook makes of the decision, the
  transition, the terminal and its effects).
\<close>

subsection \<open>Failures\<close>

datatype failure_class = FC_None | Context_Limit | Output_Limit | Media_Limit | Provider_Overload | Auth_Error
  | Tool_Schema_Error | Internal_Error

fun failure_value :: "failure_class \<Rightarrow> string" where
  "failure_value FC_None = ''none''"
| "failure_value Context_Limit = ''context_limit''"
| "failure_value Output_Limit = ''output_limit''"
| "failure_value Media_Limit = ''media_limit''"
| "failure_value Provider_Overload = ''provider_overload''"
| "failure_value Auth_Error = ''auth_error''"
| "failure_value Tool_Schema_Error = ''tool_schema_error''"
| "failure_value Internal_Error = ''internal_error''"

definition failure_classes :: "failure_class list" where
  "failure_classes = [FC_None, Context_Limit, Output_Limit, Media_Limit, Provider_Overload, Auth_Error,
     Tool_Schema_Error, Internal_Error]"

definition coerce_failure_class :: "pyval \<Rightarrow> failure_class option" where
  "coerce_failure_class v = (if v = PNone then None else List.find (\<lambda>c. failure_value c = py_str v) failure_classes)"

definition failure_class_from_terminal_reason :: "string option \<Rightarrow> string option \<Rightarrow> failure_class" where
  "failure_class_from_terminal_reason reason err =
     (if reason \<in> {Some ''prompt_too_long'', Some ''context_limit''} then Context_Limit
      else if reason \<in> {Some ''output_limit'', Some ''max_tokens''} then Output_Limit
      else if reason \<in> {Some ''image_error'', Some ''media_limit''} then Media_Limit
      else if reason = Some ''provider_overload'' then Provider_Overload
      else if reason = Some ''auth_error'' then Auth_Error
      else if err \<noteq> None \<and> reason \<in> {Some ''error'', None} then Internal_Error
      else FC_None)"

fun terminal_reason_for_failure_class :: "failure_class \<Rightarrow> string" where
  "terminal_reason_for_failure_class FC_None = ''end_turn''"
| "terminal_reason_for_failure_class Context_Limit = ''prompt_too_long''"
| "terminal_reason_for_failure_class Output_Limit = ''incomplete''"
| "terminal_reason_for_failure_class Media_Limit = ''image_error''"
| "terminal_reason_for_failure_class c = ''error''"

subsection \<open>The outcome of an attempt\<close>

record attempt_finished =
  af_iteration :: nat
  af_request_id :: "string option"
  af_stop_reason :: "string option"
  af_usage :: "(string, pyval) dict"
  af_error :: "string option"
  af_abort_reason :: "string option"
  af_produced_tool_calls :: bool
  af_tool_call_count :: nat
  af_metadata :: "(string, pyval) dict"

definition attempt_finished_from_terminal :: "nat \<Rightarrow> model_terminal \<Rightarrow> tool_call list \<Rightarrow> attempt_finished" where
  "attempt_finished_from_terminal i t calls =
     \<lparr>af_iteration = i, af_request_id = mt_request_id t, af_stop_reason = mt_stop_reason t, af_usage = mt_usage t,
      af_error = mt_error t, af_abort_reason = mt_abort_reason t, af_produced_tool_calls = (calls \<noteq> []),
      af_tool_call_count = length calls, af_metadata = mt_metadata t\<rparr>"

record recovery_input =
  ri_terminal_reason :: "string option"
  ri_failure_class :: failure_class
  ri_retryable :: bool
  ri_provider_error_code :: "string option"
  ri_error :: "string option"
  ri_abort_reason :: "string option"
  ri_produced_tool_calls :: bool
  ri_tool_call_count :: nat
  ri_max_turns_exhausted :: bool
  ri_executor_unavailable :: bool
  ri_metadata :: "(string, pyval) dict"

definition interrupted_input :: "recovery_input \<Rightarrow> bool" where
  "interrupted_input r =
     (let tool_failure = abort_reason_allows_tool_finalize (ri_abort_reason r)
      in ri_abort_reason r \<noteq> None \<and> \<not> tool_failure \<or> ri_terminal_reason r = Some ''interrupted'' \<and> \<not> tool_failure)"

definition terminal_failure :: "recovery_input \<Rightarrow> bool" where
  "terminal_failure r \<longleftrightarrow> ri_failure_class r \<noteq> FC_None \<or> interrupted_input r \<or> ri_max_turns_exhausted r \<or>
     ri_executor_unavailable r"

definition matches_recovery_rule ::
  "recovery_rule \<Rightarrow> string option \<Rightarrow> string option \<Rightarrow> int option \<Rightarrow> string \<Rightarrow> bool" where
  "matches_recovery_rule rule stop code status msg =
     ((case stop of None \<Rightarrow> False | Some s \<Rightarrow> s \<in> set (rr_stop_reasons rule)) \<or>
      (case code of None \<Rightarrow> False | Some c \<Rightarrow> c \<in> set (rr_provider_error_codes rule)) \<or>
      (case status of None \<Rightarrow> False | Some n \<Rightarrow> n \<in> set (rr_http_statuses rule)) \<or>
      (let lowered = map lower_char msg
       in lowered \<noteq> [] \<and> list_ex (\<lambda>f. sublist (map lower_char f) lowered) (rr_message_substrings rule)))"

text \<open>Of a context window only the hints matter here: those of the prepared context, or of the snapshot in the
  attempt's metadata.\<close>

definition window_hints :: "recovery_hints option option \<Rightarrow> (string, pyval) dict \<Rightarrow> recovery_hints option" where
  "window_hints prepared md =
     (case prepared of
        Some h \<Rightarrow> h
      | None \<Rightarrow> Option.bind (coerce_optional_mapping (py_get md ''context_window''))
          (\<lambda>d. coerce_minimal_recovery_classification_hints (py_get d ''recovery_classification_hints'')))"

definition classify_with_hints ::
  "(string, pyval) dict \<Rightarrow> string option \<Rightarrow> string option \<Rightarrow> recovery_hints option \<Rightarrow> (failure_class \<times> bool option) option" where
  "classify_with_hints md stop err hints =
     Option.bind hints (\<lambda>h.
       (let code = coerce_str (py_get md ''provider_error_code'');
            status = coerce_optional_int (py_get md ''http_status'');
            msg = join '' '' (List.map_filter (\<lambda>x. text_else x None)
              [err, coerce_str (py_get md ''error''), coerce_str (py_get md ''message''),
               coerce_str (py_get md ''provider_message'')])
        in if matches_recovery_rule (rh_context_limit h) stop code status msg
             then Some (Context_Limit, rr_retryable (rh_context_limit h))
           else (case rh_output_limit h of
               None \<Rightarrow> None
             | Some rule \<Rightarrow>
                 if matches_recovery_rule rule stop code status msg then Some (Output_Limit, rr_retryable rule) else None)))"

text \<open>\<open>normalize_attempt_outcome\<close>.\<close>

definition outcome_class :: "failure_class option \<Rightarrow> (failure_class \<times> bool option) option \<Rightarrow> failure_class \<Rightarrow> failure_class" where
  "outcome_class given hint by_reason =
     (case hint of
        Some (c, r) \<Rightarrow> if given \<in> {None, Some FC_None, Some Internal_Error} then c else the given
      | None \<Rightarrow> (case given of None \<Rightarrow> by_reason | Some c \<Rightarrow> c))"

definition outcome_retryable :: "bool option \<Rightarrow> (failure_class \<times> bool option) option \<Rightarrow> failure_class \<Rightarrow> bool" where
  "outcome_retryable given hint c =
     (let hinted = (case hint of None \<Rightarrow> None | Some (hc, r) \<Rightarrow> r);
          given = (if (case hint of None \<Rightarrow> False | Some (hc, r) \<Rightarrow> c = hc) \<and> hinted \<noteq> None then hinted else given)
      in case given of
           Some b \<Rightarrow> b
         | None \<Rightarrow>
             (case hinted of
                Some b \<Rightarrow> b
              | None \<Rightarrow> c \<in> {Context_Limit, Output_Limit, Media_Limit, Provider_Overload}))"

fun coerce_optional_bool :: "pyval \<Rightarrow> bool option" where
  "coerce_optional_bool (PBool b) = Some b"
| "coerce_optional_bool v = None"

definition normalize_attempt_outcome ::
  "attempt_finished \<Rightarrow> recovery_hints option option \<Rightarrow> bool \<Rightarrow> bool \<Rightarrow> recovery_input" where
  "normalize_attempt_outcome a prepared max_turns unavailable =
     (let md = af_metadata a;
          stop = first_some (coerce_str (py_get md ''stop_reason'')) (af_stop_reason a);
          hint = classify_with_hints md stop (af_error a) (window_hints prepared md);
          c = outcome_class (coerce_failure_class (py_get md ''failure_class'')) hint
            (failure_class_from_terminal_reason stop (af_error a))
      in \<lparr>ri_terminal_reason = stop, ri_failure_class = c,
          ri_retryable = outcome_retryable (coerce_optional_bool (py_get md ''retryable'')) hint c,
          ri_provider_error_code = coerce_str (py_get md ''provider_error_code''), ri_error = af_error a,
          ri_abort_reason = af_abort_reason a, ri_produced_tool_calls = af_produced_tool_calls a,
          ri_tool_call_count = af_tool_call_count a, ri_max_turns_exhausted = max_turns,
          ri_executor_unavailable = unavailable, ri_metadata = md\<rparr>)"

subsection \<open>Decisions\<close>

datatype recovery_action = Halt | Continue_Same_Turn | Rebuild_Request | Compact_And_Retry | Retry_With_Override

fun action_value :: "recovery_action \<Rightarrow> string" where
  "action_value Halt = ''halt''"
| "action_value Continue_Same_Turn = ''continue_same_turn''"
| "action_value Rebuild_Request = ''rebuild_request''"
| "action_value Compact_And_Retry = ''compact_and_retry''"
| "action_value Retry_With_Override = ''retry_with_override''"

record recovery_decision =
  rd_action :: recovery_action
  rd_reason :: string
  rd_metadata :: "(string, pyval) dict"
  rd_injected :: "runtime_message list"
  rd_override :: "request_override option"
  rd_terminal_reason :: "string option"

text \<open>\<open>RecoveryDecision.__post_init__\<close> on the metadata.\<close>

definition override_sources :: "request_override option \<Rightarrow> string list" where
  "override_sources o' =
     (case o' of
        None \<Rightarrow> []
      | Some q \<Rightarrow> sort (remdups (filter (\<lambda>s. s \<noteq> [])
          (map snd (qo_field_sources q) @ (case qo_source q of None \<Rightarrow> [] | Some s \<Rightarrow> [s])))))"

definition stamp_decision :: "recovery_decision \<Rightarrow> recovery_decision" where
  "stamp_decision d =
     (let md = set_default ''recovery_reason'' (PStr (rd_reason d))
            (set_default ''recovery_action'' (PStr (action_value (rd_action d))) (rd_metadata d));
          srcs = override_sources (rd_override d)
      in d\<lparr>rd_metadata := (if srcs = [] then md else set_default ''override_sources'' (PList (map PStr srcs)) md)\<rparr>)"

definition decision :: "recovery_action \<Rightarrow> string \<Rightarrow> (string, pyval) dict \<Rightarrow> runtime_message list \<Rightarrow>
    request_override option \<Rightarrow> string option \<Rightarrow> recovery_decision" where
  "decision a reason md injected o' terminal = stamp_decision
     \<lparr>rd_action = a, rd_reason = reason, rd_metadata = md, rd_injected = injected, rd_override = o', rd_terminal_reason = terminal\<rparr>"

record recovery_state =
  rs_retries :: "(string, nat) dict"
  rs_compactions :: "(string, nat) dict"
  rs_active :: "failure_class option"
  rs_pending_override :: "request_override option"
  rs_metadata :: "(string, pyval) dict"

definition new_recovery_state :: recovery_state where
  "new_recovery_state = \<lparr>rs_retries = [], rs_compactions = [], rs_active = None, rs_pending_override = None, rs_metadata = []\<rparr>"

definition count_of :: "(string, nat) dict \<Rightarrow> failure_class \<Rightarrow> nat" where
  "count_of d c = (case map_of d (failure_value c) of None \<Rightarrow> 0 | Some n \<Rightarrow> n)"

definition bump :: "failure_class \<Rightarrow> (string, nat) dict \<Rightarrow> (string, nat) dict" where
  "bump c d = AList.update (failure_value c) (count_of d c + 1) d"

definition after_decision :: "recovery_input \<Rightarrow> recovery_decision \<Rightarrow> recovery_state \<Rightarrow> recovery_state" where
  "after_decision r d s =
     (let c = ri_failure_class r; counted = (c \<noteq> FC_None \<and> rd_action d \<noteq> Halt)
      in \<lparr>rs_retries = (if counted \<and> rd_action d \<noteq> Compact_And_Retry then bump c (rs_retries s) else rs_retries s),
          rs_compactions = (if counted \<and> rd_action d = Compact_And_Retry then bump c (rs_compactions s) else rs_compactions s),
          rs_active = (if c = FC_None then None else Some c),
          rs_pending_override = (case rd_override d of
              Some q \<Rightarrow> if override_truthy q then Some q else rs_pending_override s | None \<Rightarrow> rs_pending_override s),
          rs_metadata = py_update (rs_metadata s)
            [(''last_action'', PStr (action_value (rd_action d))), (''last_reason'', PStr (rd_reason d))]\<rparr>)"

definition clear_pending_override :: "recovery_state \<Rightarrow> recovery_state" where
  "clear_pending_override s = s\<lparr>rs_pending_override := None\<rparr>"

subsection \<open>The default policy\<close>

record stop_outcome =
  so_disposition :: stop_disposition
  so_owners :: "string list"
  so_additional_context :: "string list"
  so_notifications :: "string list"
  so_injected :: "runtime_message list"
  so_override :: "request_override option"
  so_metadata :: "(string, pyval) dict"

record recovery_limits =
  rl_output_retries :: nat
  rl_overload_retries :: nat
  rl_compactions :: nat

definition default_limits :: recovery_limits where
  "default_limits = \<lparr>rl_output_retries = 1, rl_overload_retries = 1, rl_compactions = 1\<rparr>"

definition suggest_max_output_tokens :: "request_override option \<Rightarrow> (string, pyval) dict \<Rightarrow> int" where
  "suggest_max_output_tokens existing md =
     (case first_some (Option.bind existing qo_max_output_tokens) (coerce_optional_int (py_get md ''max_output_tokens'')) of
        None \<Rightarrow> 2048
      | Some n \<Rightarrow> max 256 (n * 2))"

definition recovery_continuation_message :: "string \<Rightarrow> time \<Rightarrow> string \<Rightarrow> runtime_message" where
  "recovery_continuation_message uuid now reason =
     \<lparr>rm_id = ''recovery-'' @ uuid, rm_role = Role_User, rm_content = text_content ''Continue from your previous response.'',
      rm_created_at = now, rm_attachments = [],
      rm_metadata = [(''recovery_injected'', PBool True), (''recovery_reason'', PStr reason)]\<rparr>"

definition output_limit_override :: "recovery_input \<Rightarrow> recovery_state \<Rightarrow> request_override option" where
  "output_limit_override r s = merge_request_override_state (rs_pending_override s)
     (Some \<lparr>qo_model = None, qo_effort = PNone, qo_route = None, qo_invocation_mode = PNone,
        qo_max_output_tokens = Some (suggest_max_output_tokens (rs_pending_override s) (ri_metadata r)),
        qo_source = Some ''recovery:output_limit'',
        qo_field_sources = [(''max_output_tokens_override'', ''recovery:output_limit'')], qo_resumable = False,
        qo_metadata = [(''sources'', PList [PStr ''recovery:output_limit''])]\<rparr>)"

definition policy_metadata :: "recovery_input \<Rightarrow> recovery_state \<Rightarrow> (string, pyval) dict" where
  "policy_metadata r s =
     [(''failure_class'', PStr (failure_value (ri_failure_class r))), (''retryable'', PBool (ri_retryable r)),
      (''policy_tag'', PStr ''default_recovery_policy''),
      (''retry_counters'', PDict (map (\<lambda>(k, n). (k, PInt (int n))) (rs_retries s))),
      (''prior_compaction_attempts'', PDict (map (\<lambda>(k, n). (k, PInt (int n))) (rs_compactions s)))]"

text \<open>The branches for a failed attempt.\<close>

definition evaluate_failure :: "recovery_limits \<Rightarrow> string \<Rightarrow> time \<Rightarrow> recovery_input \<Rightarrow> recovery_state \<Rightarrow> recovery_decision" where
  "evaluate_failure limits uuid now r s =
     (let md = policy_metadata r s; c = ri_failure_class r
      in if c \<in> {Context_Limit, Media_Limit} \<and> ri_retryable r \<and> count_of (rs_compactions s) c < rl_compactions limits then
           decision Compact_And_Retry (failure_value c) md [] None None
         else if c = Output_Limit \<and> ri_retryable r \<and> count_of (rs_retries s) Output_Limit < rl_output_retries limits then
           decision Retry_With_Override ''output_limit'' md [recovery_continuation_message uuid now ''output_limit'']
             (output_limit_override r s) None
         else if c = Provider_Overload \<and> ri_retryable r \<and> count_of (rs_retries s) Provider_Overload < rl_overload_retries limits then
           decision Rebuild_Request ''provider_overload'' md [] None None
         else
           decision Halt (if c \<noteq> FC_None then failure_value c else ''attempt_error'') md [] None
             (Some (terminal_reason_for_failure_class c)))"

text \<open>Of the prepared context the policy looks at the generation and the kinds of the effects.\<close>

definition evaluate_recovery ::
  "recovery_limits \<Rightarrow> string \<Rightarrow> time \<Rightarrow> recovery_input \<Rightarrow> stop_outcome option \<Rightarrow> recovery_state \<Rightarrow> (nat \<times> string list) option \<Rightarrow>
   recovery_decision" where
  "evaluate_recovery limits uuid now r stop s prepared =
     (let md = policy_metadata r s;
          smd = (case stop of None \<Rightarrow> md | Some o' \<Rightarrow> md @ [(''matched_hooks'', PList (map PStr (so_owners o')))]);
          completed = decision Halt ''attempt_completed''
            (case prepared of None \<Rightarrow> smd
             | Some (g, ks) \<Rightarrow> smd @ [(''context_generation'', PInt (int g)), (''context_effect_kinds'', PList (map PStr ks))])
            [] None (text_else (ri_terminal_reason r) (Some ''end_turn''));
          unstopped = (if ri_produced_tool_calls r then decision Continue_Same_Turn ''tool_replay_continuation'' smd [] None None
            else completed)
      in if ri_max_turns_exhausted r then decision Halt ''max_turns_exhausted'' md [] None (Some ''max_turns'')
         else if interrupted_input r then decision Halt ''attempt_interrupted'' md [] None (Some ''interrupted'')
         else if ri_executor_unavailable r then decision Halt ''tool_executor_unavailable'' md [] None (Some ''blocked'')
         else if terminal_failure r then evaluate_failure limits uuid now r s
         else case stop of
             Some o' \<Rightarrow>
               if so_disposition o' = CONTINUE_SAME_TURN then
                 decision Continue_Same_Turn ''stop_phase_continue'' (py_update smd (so_metadata o')) (so_injected o')
                   (so_override o') None
               else if so_disposition o' = BLOCK_SESSION then
                 decision Halt ''stop_hook_blocking'' (py_update smd (so_metadata o')) [] (so_override o') (Some ''blocked'')
               else unstopped
           | None \<Rightarrow> unstopped)"

subsection \<open>The hook on the decision, the transition, the terminal\<close>

record hook_outcome =
  ho_dispatch_id :: "string option"
  ho_owners :: "string list"
  ho_additional_context :: "string list"
  ho_continue :: bool
  ho_notifications :: "string list"
  ho_stop :: stop_disposition
  ho_injected :: "runtime_message list"
  ho_override :: "request_override option"
  ho_metadata :: "(string, pyval) dict"
  ho_winners :: "(string, pyval) dict"

definition stop_phase_outcome :: "hook_outcome \<Rightarrow> stop_outcome" where
  "stop_phase_outcome h =
     \<lparr>so_disposition = ho_stop h, so_owners = ho_owners h, so_additional_context = ho_additional_context h,
      so_notifications = ho_notifications h, so_injected = ho_injected h,
      so_override = Option.bind (ho_override h) override_or_none,
      so_metadata = py_update (ho_metadata h)
        [(''hook_dispatch_id'', opt_str_value (ho_dispatch_id h)), (''winner_summary'', PDict (ho_winners h))]\<rparr>"

definition apply_recovery_hook_result :: "recovery_input \<Rightarrow> hook_outcome \<Rightarrow> recovery_decision \<Rightarrow> recovery_decision" where
  "apply_recovery_hook_result r h d =
     (let o' = merge_request_override_state (rd_override d) (Option.bind (ho_override h) override_or_none);
          injected = rd_injected d @ ho_injected h;
          md = (case text_else (ho_dispatch_id h) None of None \<Rightarrow> rd_metadata d
            | Some i \<Rightarrow> AList.update ''recovery_hook_dispatch_id'' (PStr i) (rd_metadata d));
          md = (if ho_owners h = [] then md else AList.update ''recovery_hook_matched'' (PList (map PStr (ho_owners h))) md)
      in if \<not> ho_continue h then decision Halt ''recovery_hook_blocked'' md injected o' (Some ''blocked'')
         else if rd_action d = Halt \<and> ho_owners h \<noteq> [] then
           decision (if o' \<noteq> None then Retry_With_Override
               else if ri_produced_tool_calls r then Continue_Same_Turn else Rebuild_Request)
             ''recovery_hook_continue'' md injected o' None
         else stamp_decision (d\<lparr>rd_override := o', rd_injected := injected, rd_metadata := md\<rparr>))"

datatype terminal_reason = End_Turn | TR_Message_Stop | Blocked | Interrupted | Error | Max_Turns | Prompt_Too_Long
  | Image_Error | Incomplete

fun terminal_value :: "terminal_reason \<Rightarrow> string" where
  "terminal_value End_Turn = ''end_turn''"
| "terminal_value TR_Message_Stop = ''message_stop''"
| "terminal_value Blocked = ''blocked''"
| "terminal_value Interrupted = ''interrupted''"
| "terminal_value Error = ''error''"
| "terminal_value Max_Turns = ''max_turns''"
| "terminal_value Prompt_Too_Long = ''prompt_too_long''"
| "terminal_value Image_Error = ''image_error''"
| "terminal_value Incomplete = ''incomplete''"

definition terminal_reasons :: "terminal_reason list" where
  "terminal_reasons = [End_Turn, TR_Message_Stop, Blocked, Interrupted, Error, Max_Turns, Prompt_Too_Long, Image_Error, Incomplete]"

definition terminal_completed :: "terminal_reason \<Rightarrow> bool" where
  "terminal_completed r \<longleftrightarrow> r \<in> {End_Turn, TR_Message_Stop}"

definition terminal_reason_from_recovery :: "recovery_decision \<Rightarrow> terminal_reason" where
  "terminal_reason_from_recovery d =
     (case rd_terminal_reason d of
        None \<Rightarrow> End_Turn
      | Some s \<Rightarrow> (case List.find (\<lambda>r. terminal_value r = s) terminal_reasons of None \<Rightarrow> Error | Some r \<Rightarrow> r))"

datatype transition_reason = Next_Turn | Stop_Hook_Blocking | Max_Turns_Exhausted | Attempt_Completed
  | Attempt_Interrupted | Attempt_Error | Tool_Executor_Unavailable

datatype turn_phase = Prepare | Prefetch_Sidecars | Compact_Or_Rebuild | Build_Request | Stream_Attempt | Replay_Tools
  | Stop_Phase | Recovery_Decision | Advance_Or_Finish | Terminal

record turn_transition =
  tt_reason :: transition_reason
  tt_action :: recovery_action
  tt_next_phase :: turn_phase
  tt_metadata :: "(string, pyval) dict"

definition transition_reason_from_recovery :: "recovery_decision \<Rightarrow> recovery_input \<Rightarrow> transition_reason" where
  "transition_reason_from_recovery d r =
     (if rd_reason d = ''stop_hook_blocking'' then Stop_Hook_Blocking
      else if ri_max_turns_exhausted r then Max_Turns_Exhausted
      else if ri_executor_unavailable r then Tool_Executor_Unavailable
      else if interrupted_input r then Attempt_Interrupted
      else if terminal_failure r then Attempt_Error
      else if rd_action d = Continue_Same_Turn then Next_Turn
      else Attempt_Completed)"

definition transition_from_recovery ::
  "recovery_decision \<Rightarrow> recovery_input \<Rightarrow> stop_outcome option \<Rightarrow> (nat \<times> string list) option \<Rightarrow> turn_transition" where
  "transition_from_recovery d r stop prepared =
     (let md = rd_metadata d;
          md = (case stop of None \<Rightarrow> md
            | Some o' \<Rightarrow> if so_owners o' = [] then md else set_default ''matched_hooks'' (PList (map PStr (so_owners o'))) md);
          md = (case prepared of None \<Rightarrow> md
            | Some (g, ks) \<Rightarrow> set_default ''context_effect_kinds'' (PList (map PStr ks))
                (set_default ''context_generation'' (PInt (int g)) md))
      in \<lparr>tt_reason = transition_reason_from_recovery d r, tt_action = rd_action d,
          tt_next_phase = (if rd_action d = Halt then Terminal else Prepare), tt_metadata = md\<rparr>)"

record post_effects =
  pe_persist_memory :: bool
  pe_background_extraction :: bool
  pe_refresh_session :: bool
  pe_status_hint :: "string option"
  pe_stop_hooks :: "string list"

definition post_effects_for_terminal :: "terminal_reason \<Rightarrow> string list \<Rightarrow> post_effects" where
  "post_effects_for_terminal reason hooks =
     (if terminal_completed reason then
        \<lparr>pe_persist_memory = True, pe_background_extraction = True, pe_refresh_session = True,
         pe_status_hint = Some ''ready'', pe_stop_hooks = hooks\<rparr>
      else
        \<lparr>pe_persist_memory = False, pe_background_extraction = False, pe_refresh_session = (reason = Blocked),
         pe_status_hint = Some (if reason = Blocked then ''waiting'' else if reason = Interrupted then ''interrupted'' else ''ready''),
         pe_stop_hooks = hooks\<rparr>)"

record turn_terminal =
  te_reason :: terminal_reason
  te_usage :: "(string, pyval) dict"
  te_request_id :: "string option"
  te_error :: "string option"
  te_abort_reason :: "string option"
  te_provider_stop_reason :: "string option"
  te_transition :: turn_transition
  te_post_effects :: post_effects
  te_metadata :: "(string, pyval) dict"

definition turn_terminal_from_attempt ::
  "attempt_finished \<Rightarrow> terminal_reason \<Rightarrow> turn_transition \<Rightarrow> post_effects \<Rightarrow> (string, pyval) dict \<Rightarrow> turn_terminal" where
  "turn_terminal_from_attempt a reason t pe md =
     (let all = py_update (af_metadata a) md;
          all = (case af_stop_reason a of None \<Rightarrow> all
            | Some s \<Rightarrow> if s \<noteq> terminal_value reason then set_default ''attempt_stop_reason'' (PStr s) all else all)
      in \<lparr>te_reason = reason, te_usage = af_usage a, te_request_id = af_request_id a, te_error = af_error a,
          te_abort_reason = af_abort_reason a, te_provider_stop_reason = af_stop_reason a, te_transition = t,
          te_post_effects = pe, te_metadata = all\<rparr>)"

end
