(* ===== verification/Message_Protocol.thy ===== *)
theory Message_Protocol
  imports Messages
begin

text \<open>
  What of a conversation reaches a model (\<open>turn_engine/message_protocol.py\<close>): messages of the roles the API
  knows, with normalized blocks, each tool result paired with a tool use, neighbours of one role merged.
\<close>

subsection \<open>Pairing tool uses with their results\<close>

text \<open>The blocks with their positions.\<close>

type_synonym placed = "(nat \<times> nat) \<times> message_role \<times> content_block"

definition placed_blocks :: "nat \<Rightarrow> runtime_message \<Rightarrow> placed list" where
  "placed_blocks i m = map (\<lambda>(j, b). ((i, j), rm_role m, b)) (enumerate 0 (rm_content m))"

definition positions :: "runtime_message list \<Rightarrow> placed list" where
  "positions ms = concat (map (\<lambda>(i, m). placed_blocks i m) (enumerate 0 ms))"

text \<open>The first pass: the uses seen so far, the ids that have their result, the results that count.\<close>

record pairing =
  pr_pending :: "string list"
  pr_matched :: "string list"
  pr_valid :: "(nat \<times> nat) list"

definition no_pairing :: pairing where
  "no_pairing = \<lparr>pr_pending = [], pr_matched = [], pr_valid = []\<rparr>"

definition pair_step :: "placed \<Rightarrow> pairing \<Rightarrow> pairing" where
  "pair_step x p =
     (case x of (pos, role, b) \<Rightarrow>
       (case b of
          Tool_Use_Block i n inp \<Rightarrow> if role = Role_Assistant then p\<lparr>pr_pending := pr_pending p @ [i]\<rparr> else p
        | Tool_Result_Block i c err \<Rightarrow>
            if role = Role_User \<and> i \<in> set (pr_pending p) \<and> i \<notin> set (pr_matched p)
            then p\<lparr>pr_matched := pr_matched p @ [i], pr_valid := pr_valid p @ [pos]\<rparr> else p
        | _ \<Rightarrow> p))"

definition pairing_of :: "runtime_message list \<Rightarrow> pairing" where
  "pairing_of ms = fold pair_step (positions ms) no_pairing"

definition kept :: "pairing \<Rightarrow> nat \<times> nat \<Rightarrow> content_block \<Rightarrow> bool" where
  "kept p pos b =
     (case b of
        Tool_Use_Block i n inp \<Rightarrow> i \<in> set (pr_matched p)
      | Tool_Result_Block i c err \<Rightarrow> pos \<in> set (pr_valid p)
      | _ \<Rightarrow> True)"

definition repaired_content :: "pairing \<Rightarrow> nat \<Rightarrow> runtime_message \<Rightarrow> content_block list" where
  "repaired_content p i m = map snd (filter (\<lambda>(j, b). kept p (i, j) b) (enumerate 0 (rm_content m)))"

definition ensure_tool_result_pairing :: "runtime_message list \<Rightarrow> runtime_message list" where
  "ensure_tool_result_pairing ms =
     filter (\<lambda>m. rm_content m \<noteq> [])
       (map (\<lambda>(i, m). m\<lparr>rm_content := repaired_content (pairing_of ms) i m\<rparr>) (enumerate 0 ms))"

subsection \<open>Normalizing\<close>

text \<open>\<open>_normalize_payload\<close> makes lists of tuples and strings of keys; a JSON-like value is one already.\<close>

fun normalize_onto :: "content_block list \<Rightarrow> content_block list \<Rightarrow> content_block list" where
  "normalize_onto acc [] = acc"
| "normalize_onto acc (Text_Block t # bs) =
     (if t = [] then normalize_onto acc bs
      else case (acc, last acc) of
          (x # xs, Text_Block u) \<Rightarrow> normalize_onto (butlast acc @ [Text_Block (u @ t)]) bs
        | _ \<Rightarrow> normalize_onto (acc @ [Text_Block t]) bs)"
| "normalize_onto acc (Tool_Use_Block i n inp # bs) = normalize_onto (acc @ [Tool_Use_Block i (strip n) inp]) bs"
| "normalize_onto acc (Thinking_Block t sg # bs) =
     (if t = [] then normalize_onto acc bs else normalize_onto (acc @ [Thinking_Block t sg]) bs)"
| "normalize_onto acc (b # bs) = normalize_onto (acc @ [b]) bs"

definition normalize_blocks :: "content_block list \<Rightarrow> content_block list" where
  "normalize_blocks bs = normalize_onto [] bs"

definition normalize_message :: "runtime_message \<Rightarrow> runtime_message" where
  "normalize_message m = m\<lparr>rm_content := normalize_blocks (rm_content m)\<rparr>"

definition merge_messages :: "runtime_message \<Rightarrow> runtime_message \<Rightarrow> runtime_message" where
  "merge_messages l r = l\<lparr>rm_content := rm_content l @ rm_content r, rm_attachments := rm_attachments l @ rm_attachments r,
     rm_metadata := py_update (rm_metadata l) (rm_metadata r)\<rparr>"

definition merge_onto :: "runtime_message \<Rightarrow> runtime_message list \<Rightarrow> runtime_message list" where
  "merge_onto m acc =
     (if acc \<noteq> [] \<and> rm_role (last acc) = rm_role m then butlast acc @ [merge_messages (last acc) m] else acc @ [m])"

definition api_role :: "message_role \<Rightarrow> bool" where
  "api_role r \<longleftrightarrow> r \<in> {Role_System, Role_User, Role_Assistant}"

definition normalize_messages_for_api :: "runtime_message list \<Rightarrow> runtime_message list" where
  "normalize_messages_for_api ms =
     (let normalized = fold merge_onto (filter (\<lambda>m. rm_content m \<noteq> [])
            (map normalize_message (filter (\<lambda>m. api_role (rm_role m)) ms))) []
      in fold merge_onto (ensure_tool_result_pairing normalized) [])"

end
