(* ===== verification/Turn_Engine.thy ===== *)
theory Turn_Engine
  imports Turn_Recovery Message_Protocol
begin

text \<open>
  The loop of a turn (\<open>turn_engine/engine.py\<close>, \<open>_run_turn_stream_impl\<close>): one iteration prepares the
  context, builds a request, streams an attempt, runs its tools or asks the stop hook, decides on recovery and
  goes on or ends.  What the context control plane, the sidecars, the hooks, the model and the tools do in an
  iteration is a value of \<open>iteration_env\<close>; each await on them may raise.
\<close>

subsection \<open>The request override in the private context\<close>

record skill_override =
  sk_model :: "string option"
  sk_effort :: pyval
  sk_source :: "string option"

definition skill_or_none :: "skill_override \<Rightarrow> skill_override option" where
  "skill_or_none k = (if sk_model k \<noteq> None \<or> sk_effort k \<noteq> PNone \<or> sk_source k \<noteq> None then Some k else None)"

definition request_override_from_skill :: "skill_override option \<Rightarrow> request_override option" where
  "request_override_from_skill k =
     Option.bind (Option.bind k skill_or_none) (\<lambda>k.
       (let source = (case text_else (sk_source k) None of None \<Rightarrow> ''skill'' | Some s \<Rightarrow> s)
        in override_or_none
          \<lparr>qo_model = sk_model k, qo_effort = sk_effort k, qo_route = None, qo_invocation_mode = PNone,
           qo_max_output_tokens = None, qo_source = Some source,
           qo_field_sources = (if sk_model k = None then [] else [(''requested_model'', source)]) @
             (if sk_effort k = PNone then [] else [(''requested_effort'', source)]),
           qo_resumable = False, qo_metadata = [(''sources'', PList [PStr source]), (''source_kind'', PStr ''skill'')]\<rparr>))"

definition skill_from_request_override :: "request_override \<Rightarrow> skill_override option" where
  "skill_from_request_override q = skill_or_none
     \<lparr>sk_model = qo_model q, sk_effort = qo_effort q,
      sk_source = first_some (coerce_str (py_get (qo_metadata q) ''source_skill'')) (qo_source q)\<rparr>"

definition skill_serialize :: "skill_override \<Rightarrow> pyval" where
  "skill_serialize k = PDict [(''requested_model'', opt_str_value (sk_model k)), (''requested_effort'', sk_effort k),
     (''source_skill'', opt_str_value (sk_source k))]"

definition coerce_skill_override :: "pyval \<Rightarrow> skill_override option" where
  "coerce_skill_override v =
     Option.bind (coerce_optional_mapping v) (\<lambda>d. skill_or_none
       \<lparr>sk_model = coerce_str (py_get d ''requested_model''), sk_effort = py_get d ''requested_effort'',
        sk_source = coerce_str (py_get d ''source_skill'')\<rparr>)"

definition override_of_private :: "private_context \<Rightarrow> request_override option" where
  "override_of_private c =
     first_some (Option.bind (coerce_optional_mapping (py_get (pc_extensions c) ''request_override'')) coerce_request_override)
       (request_override_from_skill (coerce_skill_override (py_get (pc_extensions c) ''skill_request_override'')))"

definition clear_request_override :: "private_context \<Rightarrow> private_context" where
  "clear_request_override c =
     c\<lparr>pc_extensions := AList.delete ''skill_request_override'' (AList.delete ''request_override'' (pc_extensions c))\<rparr>"

definition empty_override :: request_override where
  "empty_override = \<lparr>qo_model = None, qo_effort = PNone, qo_route = None, qo_invocation_mode = PNone,
     qo_max_output_tokens = None, qo_source = None, qo_field_sources = [], qo_resumable = False, qo_metadata = []\<rparr>"

definition apply_request_override :: "request_override \<Rightarrow> private_context \<Rightarrow> private_context" where
  "apply_request_override pending c =
     (case merge_request_override_state (override_of_private c) (Some pending) of
        None \<Rightarrow> clear_request_override c
      | Some m \<Rightarrow>
          (let ext = AList.update ''request_override'' (PDict (override_serialize m)) (pc_extensions c)
           in c\<lparr>pc_extensions := (case skill_from_request_override m of
                Some k \<Rightarrow> AList.update ''skill_request_override'' (skill_serialize k) ext
              | None \<Rightarrow> AList.delete ''skill_request_override'' ext)\<rparr>))"

definition apply_decision :: "recovery_decision \<Rightarrow> private_context \<Rightarrow> private_context" where
  "apply_decision d c =
     (let c = (case rd_override d of None \<Rightarrow> c | Some q \<Rightarrow> apply_request_override q c)
      in if rd_action d = Compact_And_Retry
         then c\<lparr>pc_extensions := AList.update ''force_compaction'' (PBool True) (pc_extensions c)\<rparr> else c)"

definition clear_transient_flags :: "private_context \<Rightarrow> private_context" where
  "clear_transient_flags c = c\<lparr>pc_extensions := AList.delete ''force_compaction'' (pc_extensions c)\<rparr>"

definition serialize_resumable :: "request_override option \<Rightarrow> (string, pyval) dict option" where
  "serialize_resumable q = (case q of None \<Rightarrow> None | Some x \<Rightarrow> if qo_resumable x then Some (override_serialize x) else None)"

definition resumable_override_metadata ::
  "recovery_decision \<Rightarrow> private_context \<Rightarrow> request_override option \<Rightarrow> (string, pyval) dict option" where
  "resumable_override_metadata d c consumed =
     first_some (serialize_resumable (rd_override d))
       (first_some (if rd_terminal_reason d \<in> {Some ''end_turn'', Some ''message_stop''} then None else serialize_resumable consumed)
         (serialize_resumable (override_of_private c)))"

subsection \<open>Phases\<close>

fun allowed_phases :: "turn_phase \<Rightarrow> turn_phase list" where
  "allowed_phases Prepare = [Prefetch_Sidecars]"
| "allowed_phases Prefetch_Sidecars = [Compact_Or_Rebuild]"
| "allowed_phases Compact_Or_Rebuild = [Build_Request, Recovery_Decision]"
| "allowed_phases Build_Request = [Stream_Attempt]"
| "allowed_phases Stream_Attempt = [Replay_Tools, Stop_Phase, Recovery_Decision]"
| "allowed_phases Replay_Tools = [Recovery_Decision]"
| "allowed_phases Stop_Phase = [Recovery_Decision]"
| "allowed_phases Recovery_Decision = [Advance_Or_Finish]"
| "allowed_phases Advance_Or_Finish = [Prepare, Terminal]"
| "allowed_phases Terminal = []"

subsection \<open>The state of a turn and what it yields\<close>

datatype invocation_mode = Stream_Mode | Buffered_Completion

record model_request =
  mq_messages :: "runtime_message list"
  mq_model :: "string option"
  mq_effort :: pyval
  mq_max_output_tokens :: "int option"
  mq_route :: "string option"
  mq_mode :: "invocation_mode option"

text \<open>Progress of the stream, of the tools and of child runs is yielded too and carries no state.\<close>

datatype turn_yield = Yield_Compaction "runtime_message list" | Yield_Request model_request | Yield_Message runtime_message
  | Yield_Discarded "content_block list" | Yield_Attempt attempt_finished | Yield_Terminal turn_terminal

record turn_state =
  ts_phase :: turn_phase
  ts_phase_history :: "turn_phase list"
  ts_iteration :: nat
  ts_messages :: "runtime_message list"
  ts_private :: private_context
  ts_recovery :: recovery_state
  ts_consumed_override :: "request_override option"
  ts_attempts :: "attempt_finished list"
  ts_terminal :: "turn_terminal option"
  ts_yields :: "turn_yield list"

definition new_turn :: "runtime_message list \<Rightarrow> private_context \<Rightarrow> turn_state" where
  "new_turn ms c = \<lparr>ts_phase = Prepare, ts_phase_history = [Prepare], ts_iteration = 0, ts_messages = ms, ts_private = c,
     ts_recovery = new_recovery_state, ts_consumed_override = None, ts_attempts = [], ts_terminal = None, ts_yields = []\<rparr>"

text \<open>A stretch of the loop ends in a state, or raises with the text of the exception and the state it left.\<close>

type_synonym stretch = "turn_state \<times> string option"

definition goes_on :: "(turn_state \<Rightarrow> stretch) \<Rightarrow> stretch \<Rightarrow> stretch" where
  "goes_on f r = (case snd r of None \<Rightarrow> f (fst r) | Some err \<Rightarrow> r)"

definition set_turn_phase :: "turn_phase \<Rightarrow> turn_state \<Rightarrow> stretch" where
  "set_turn_phase p s =
     (if ts_phase s = p then (s, None)
      else if p \<in> set (allowed_phases (ts_phase s))
        then (s\<lparr>ts_phase := p, ts_phase_history := ts_phase_history s @ [p]\<rparr>, None)
      else (s, Some ''Illegal turn phase transition''))"

definition yields :: "turn_yield \<Rightarrow> turn_state \<Rightarrow> turn_state" where
  "yields y s = s\<lparr>ts_yields := ts_yields s @ [y]\<rparr>"

text \<open>A message joins the working messages and is yielded.\<close>

definition post_message :: "runtime_message \<Rightarrow> turn_state \<Rightarrow> turn_state" where
  "post_message m s = yields (Yield_Message m) (s\<lparr>ts_messages := ts_messages s @ [m]\<rparr>)"

subsection \<open>What an iteration meets\<close>

record prepared_context =
  pp_active_messages :: "runtime_message list"
  pp_transcript_messages :: "runtime_message list option"
  pp_generation :: nat
  pp_effect_kinds :: "string list"
  pp_window_hints :: "recovery_hints option option"
  pp_event_metadata :: "(string, pyval) dict"

record model_response =
  ms_message :: runtime_message
  ms_stop_reason :: "string option"
  ms_usage :: "(string, pyval) dict"
  ms_request_id :: "string option"
  ms_terminal :: "model_terminal option"

datatype model_run = Streamed "stream_event list" "string option" | Completed "string + model_response"

datatype turn_stage = At_Prepare | At_Assembly | At_Request | At_Post_Model | At_Stop | At_Decision | At_Tools

record request_defaults =
  df_model :: "string option"
  df_effort :: pyval
  df_route :: "string option"
  df_mode :: invocation_mode

record iteration_env =
  ie_fails :: "(turn_stage \<times> string) option"
  ie_hook_bus :: bool
  ie_prepared :: prepared_context
  ie_sidecars :: "private_context \<Rightarrow> private_context"
  ie_services_metadata :: "(string, pyval) dict"
  ie_post_context :: "request_override option"
  ie_pre_model :: "request_override option"
  ie_defaults :: request_defaults
  ie_model :: model_run
  ie_message_id :: string
  ie_uuid :: "nat \<Rightarrow> string"
  ie_recovery_uuid :: string
  ie_now :: time
  ie_abort_before :: "string option"
  ie_abort_streaming :: "string option"
  ie_abort_after :: "string option"
  ie_post_model :: hook_outcome
  ie_stop :: hook_outcome
  ie_recovery :: hook_outcome
  ie_executor :: bool
  ie_tool_message :: "runtime_message option"
  ie_skill_messages :: "runtime_message list"
  ie_skill_override :: "skill_override option"

text \<open>The reason of the abort signal when the model is called, when the attempt is closed and when the tools
  are due; a later abort overwrites the reason of an earlier one.\<close>

definition abort_at_close :: "iteration_env \<Rightarrow> string option" where
  "abort_at_close e = first_some (ie_abort_streaming e) (ie_abort_before e)"

definition abort_at_tools :: "iteration_env \<Rightarrow> string option" where
  "abort_at_tools e = first_some (ie_abort_after e) (abort_at_close e)"

definition may_fail :: "turn_stage \<Rightarrow> iteration_env \<Rightarrow> turn_state \<Rightarrow> stretch" where
  "may_fail g e s = (s, case ie_fails e of Some (h, err) \<Rightarrow> if h = g then Some err else None | None \<Rightarrow> None)"

definition prepared_summary :: "iteration_env \<Rightarrow> (nat \<times> string list) option" where
  "prepared_summary e = Some (pp_generation (ie_prepared e), pp_effect_kinds (ie_prepared e))"

subsection \<open>Preparing and requesting\<close>

definition prepare_stretch :: "iteration_env \<Rightarrow> turn_state \<Rightarrow> stretch" where
  "prepare_stretch e s =
     goes_on (\<lambda>s.
       (let s = (case pp_transcript_messages (ie_prepared e) of
               None \<Rightarrow> s
             | Some ms \<Rightarrow> yields (Yield_Compaction ms) (s\<lparr>ts_messages := ms\<rparr>))
        in (s\<lparr>ts_private := ie_sidecars e (clear_transient_flags (ts_private s))\<rparr>, None)))
     (goes_on (may_fail At_Prepare e)
     (goes_on (set_turn_phase Compact_Or_Rebuild)
     (set_turn_phase Prefetch_Sidecars (s\<lparr>ts_iteration := ts_iteration s + 1\<rparr>))))"

definition pending_override :: "iteration_env \<Rightarrow> private_context \<Rightarrow> request_override option" where
  "pending_override e c =
     merge_request_override_state
       (merge_request_override_state (override_of_private (merge_private_context c (ie_services_metadata e)))
         (Option.bind (ie_post_context e) override_or_none))
       (ie_pre_model e)"

definition coerce_invocation_mode :: "pyval \<Rightarrow> invocation_mode option" where
  "coerce_invocation_mode v =
     (if v = PNone then None else if py_str v = ''stream'' then Some Stream_Mode
      else if py_str v = ''buffered_completion'' then Some Buffered_Completion else None)"

definition build_request :: "iteration_env \<Rightarrow> request_override option \<Rightarrow> model_request" where
  "build_request e pending =
     (let d = ie_defaults e; ms = normalize_messages_for_api (pp_active_messages (ie_prepared e)) in
      case pending of
        None \<Rightarrow> \<lparr>mq_messages = ms, mq_model = df_model d, mq_effort = df_effort d, mq_max_output_tokens = None,
           mq_route = df_route d, mq_mode = Some (df_mode d)\<rparr>
      | Some q \<Rightarrow> \<lparr>mq_messages = ms, mq_model = first_some (qo_model q) (df_model d),
           mq_effort = (if qo_effort q = PNone then df_effort d else qo_effort q),
           mq_max_output_tokens = qo_max_output_tokens q, mq_route = first_some (qo_route q) (df_route d),
           mq_mode = (if qo_invocation_mode q = PNone then Some (df_mode d) else coerce_invocation_mode (qo_invocation_mode q))\<rparr>)"

text \<open>Without a hook bus the empty result stands for a hook's, and it has no \<open>request_override\<close>.\<close>

definition request_stretch :: "iteration_env \<Rightarrow> turn_state \<Rightarrow> stretch" where
  "request_stretch e s =
     goes_on (\<lambda>s.
       (let pending = pending_override e (ts_private s);
            s = yields (Yield_Request (build_request e pending)) (s\<lparr>ts_consumed_override := pending\<rparr>)
        in (if pending = None then s
            else s\<lparr>ts_private := clear_request_override (ts_private s), ts_recovery := clear_pending_override (ts_recovery s)\<rparr>,
            None)))
     (goes_on (may_fail At_Request e)
     (goes_on (\<lambda>s. (s, if ie_hook_bus e then None
         else Some (repr_str ''_EmptyHookResult'' @ '' object has no attribute '' @ repr_str ''request_override'')))
     (goes_on (set_turn_phase Build_Request) (may_fail At_Assembly e s))))"

subsection \<open>The attempt\<close>

definition text_entry :: "string \<Rightarrow> string option \<Rightarrow> (string, pyval) dict" where
  "text_entry k v = (case v of None \<Rightarrow> [] | Some s \<Rightarrow> [(k, PStr s)])"

record attempt_result =
  ar_blocks :: "content_block list"
  ar_discarded :: "content_block list"
  ar_tool_calls :: "tool_call list"
  ar_terminal :: model_terminal
  ar_message_id :: string

definition tool_calls_from_message :: "runtime_message \<Rightarrow> tool_call list" where
  "tool_calls_from_message m = List.map_filter
     (\<lambda>b. case b of Tool_Use_Block i n inp \<Rightarrow> Some (call_of i n inp) | _ \<Rightarrow> None) (rm_content m)"

definition no_terminal :: model_terminal where
  "no_terminal = \<lparr>mt_stop_reason = None, mt_usage = [], mt_request_id = None, mt_error = None, mt_abort_reason = None,
     mt_metadata = []\<rparr>"

definition terminal_from_response :: "model_response \<Rightarrow> string option \<Rightarrow> model_terminal" where
  "terminal_from_response r abort =
     (let t = (case ms_terminal r of None \<Rightarrow> no_terminal | Some t \<Rightarrow> t)
      in \<lparr>mt_stop_reason = text_else (ms_stop_reason r) (text_else (mt_stop_reason t) (Some (synthesized_stop_reason abort True None))),
          mt_usage = dict_else (ms_usage r) (mt_usage t), mt_request_id = text_else (ms_request_id r) (mt_request_id t),
          mt_error = mt_error t, mt_abort_reason = text_else (mt_abort_reason t) abort, mt_metadata = mt_metadata t\<rparr>)"

definition error_terminal :: "string \<Rightarrow> string option \<Rightarrow> model_terminal" where
  "error_terminal err abort = no_terminal\<lparr>mt_stop_reason := Some ''error'', mt_error := Some err, mt_abort_reason := abort\<rparr>"

fun stream_error_text :: "stream_error \<Rightarrow> string" where
  "stream_error_text (Unknown_Block_Type t) = repr_str t @ '' is not a valid ContentBlockType''"
| "stream_error_text Unsupported_Block_Type =
     ''Unsupported content block type: <ContentBlockType.TOOL_RESULT: '' @ repr_str ''tool_result'' @ ''>''"

definition error_event :: "string \<Rightarrow> string option \<Rightarrow> stream_event" where
  "error_event err abort = \<lparr>se_type = Error_Event, se_payload = [(''error'', PStr err)], se_block_id = None,
     se_block_type = None, se_terminal = Some (error_terminal err abort)\<rparr>"

definition streamed_attempt :: "iteration_env \<Rightarrow> stream_event list \<Rightarrow> string option \<Rightarrow> string + attempt_result" where
  "streamed_attempt e evs raised =
     (let (st, handed, err) = stream_loop (ie_uuid e) (ie_executor e) evs new_attempt;
          failure = (case err of Some x \<Rightarrow> Some (stream_error_text x) | None \<Rightarrow> raised);
          st = (case failure of None \<Rightarrow> st | Some x \<Rightarrow> fst (observe (ie_uuid e) (error_event x (abort_at_close e)) st))
      in case finalize_attempt (ie_uuid e) (abort_at_close e) (abort_reason_allows_tool_finalize (abort_at_close e)) st of
           Inl x \<Rightarrow> Inl (stream_error_text x)
         | Inr z \<Rightarrow> Inr \<lparr>ar_blocks = fz_committed z, ar_discarded = fz_discarded z, ar_tool_calls = fz_tool_calls z,
             ar_terminal = fz_terminal z, ar_message_id = ie_message_id e\<rparr>)"

definition buffered_attempt :: "iteration_env \<Rightarrow> string + model_response \<Rightarrow> attempt_result" where
  "buffered_attempt e r =
     (let failed = (\<lambda>err. \<lparr>ar_blocks = [], ar_discarded = [], ar_tool_calls = [],
              ar_terminal = error_terminal err (abort_at_close e), ar_message_id = ie_message_id e\<rparr>)
      in case r of
           Inl err \<Rightarrow> failed err
         | Inr m \<Rightarrow>
             (let t = terminal_from_response m (ie_abort_before e); calls = tool_calls_from_message (ms_message m)
              in if mt_stop_reason t = Some ''tool_use'' \<and> calls = []
                 then failed (''Buffered completion returned stop_reason '' @ repr_str ''tool_use'' @ '' without ToolUseBlock content'')
                 else \<lparr>ar_blocks = rm_content (ms_message m), ar_discarded = [], ar_tool_calls = calls, ar_terminal = t,
                   ar_message_id = (if rm_id (ms_message m) = [] then ie_message_id e else rm_id (ms_message m))\<rparr>))"

definition run_model :: "iteration_env \<Rightarrow> string + attempt_result" where
  "run_model e =
     (case ie_model e of
        Streamed evs raised \<Rightarrow> streamed_attempt e evs raised
      | Completed r \<Rightarrow> Inr (buffered_attempt e r))"

definition assistant_message_metadata :: "model_terminal \<Rightarrow> (string, pyval) dict" where
  "assistant_message_metadata t =
     py_update
       (text_entry ''stop_reason'' (mt_stop_reason t) @ text_entry ''request_id'' (mt_request_id t) @
        (if mt_usage t = [] then [] else [(''usage'', PDict (mt_usage t))]) @
        text_entry ''abort_reason'' (mt_abort_reason t) @ text_entry ''error'' (mt_error t))
       (mt_metadata t)"

definition post_assistant :: "iteration_env \<Rightarrow> attempt_result \<Rightarrow> turn_state \<Rightarrow> turn_state" where
  "post_assistant e a s =
     (if ar_blocks a = [] then s
      else post_message \<lparr>rm_id = ar_message_id a, rm_role = Role_Assistant, rm_content = ar_blocks a, rm_created_at = ie_now e,
        rm_attachments = [], rm_metadata = assistant_message_metadata (ar_terminal a)\<rparr> s)"

definition attempt_stretch :: "iteration_env \<Rightarrow> attempt_result \<Rightarrow> turn_state \<Rightarrow> stretch" where
  "attempt_stretch e a s =
     (let att = attempt_finished_from_terminal (ts_iteration s) (ar_terminal a) (ar_tool_calls a);
          s = post_assistant e a (s\<lparr>ts_attempts := ts_attempts s @ [att]\<rparr>);
          s = (if ar_discarded a = [] then s else yields (Yield_Discarded (ar_discarded a)) s);
          s = yields (Yield_Attempt att) s
      in goes_on (\<lambda>s.
           (let s = (case ho_override (ie_post_model e) of None \<Rightarrow> s
                | Some q \<Rightarrow> s\<lparr>ts_private := apply_request_override q (ts_private s)\<rparr>)
            in (fold post_message (ho_injected (ie_post_model e)) s, None)))
         (may_fail At_Post_Model e s))"

subsection \<open>Ending and going on\<close>

definition finish_turn ::
  "attempt_finished \<Rightarrow> recovery_decision \<Rightarrow> turn_transition \<Rightarrow> string list \<Rightarrow> (terminal_reason \<Rightarrow> (string, pyval) dict) \<Rightarrow>
   iteration_env \<Rightarrow> turn_state \<Rightarrow> stretch" where
  "finish_turn a d t hooks extra e s =
     (let reason = terminal_reason_from_recovery d;
          resumable = (case resumable_override_metadata d (ts_private s) (ts_consumed_override s) of
              None \<Rightarrow> [] | Some q \<Rightarrow> [(''resumable_request_override'', PDict q)]);
          md = py_update (py_update (py_update (rd_metadata d) (pp_event_metadata (ie_prepared e))) (extra reason)) resumable;
          te = turn_terminal_from_attempt a reason t (post_effects_for_terminal reason hooks) md
      in goes_on (\<lambda>s. (yields (Yield_Terminal te) s, None))
           (goes_on (set_turn_phase Terminal)
           (goes_on (\<lambda>s. (s\<lparr>ts_terminal := Some te\<rparr>, None)) (set_turn_phase Advance_Or_Finish s))))"

definition advance_turn :: "recovery_decision \<Rightarrow> turn_state \<Rightarrow> stretch" where
  "advance_turn d s =
     goes_on (set_turn_phase Prepare)
       (set_turn_phase Advance_Or_Finish
         (fold post_message (rd_injected d) (s\<lparr>ts_private := apply_decision d (ts_private s)\<rparr>)))"

definition last_attempt :: "turn_state \<Rightarrow> attempt_finished" where
  "last_attempt s = last (ts_attempts s)"

text \<open>The policy decides, and the state of the recovery takes note.\<close>

definition settle ::
  "recovery_limits \<Rightarrow> iteration_env \<Rightarrow> bool \<Rightarrow> bool \<Rightarrow> turn_state \<Rightarrow> recovery_decision \<times> turn_transition \<times> turn_state" where
  "settle limits e max_turns unavailable s =
     (let r = normalize_attempt_outcome (last_attempt s) (pp_window_hints (ie_prepared e)) max_turns unavailable;
          d = evaluate_recovery limits (ie_recovery_uuid e) (ie_now e) r None (ts_recovery s) (prepared_summary e)
      in (d, transition_from_recovery d r None (prepared_summary e), s\<lparr>ts_recovery := after_decision r d (ts_recovery s)\<rparr>))"

text \<open>An attempt without tool calls: the stop hook, the policy, the hook on its decision.\<close>

definition blocked_metadata :: "stop_outcome \<Rightarrow> terminal_reason \<Rightarrow> (string, pyval) dict" where
  "blocked_metadata o' reason =
     (if reason = Blocked then [(''continuation_blocked'', PBool True), (''matched_hooks'', PList (map PStr (so_owners o')))] else [])"

definition stop_stretch :: "recovery_limits \<Rightarrow> iteration_env \<Rightarrow> turn_state \<Rightarrow> stretch" where
  "stop_stretch limits e s =
     goes_on (\<lambda>s.
       (let o' = stop_phase_outcome (ie_stop e);
            r = normalize_attempt_outcome (last_attempt s) (pp_window_hints (ie_prepared e)) False False;
            d0 = evaluate_recovery limits (ie_recovery_uuid e) (ie_now e) r (Some o') (ts_recovery s) (prepared_summary e)
        in goes_on (\<lambda>s.
             (let d = apply_recovery_hook_result r (ie_recovery e) d0;
                  t = transition_from_recovery d r (Some o') (prepared_summary e);
                  s = s\<lparr>ts_recovery := after_decision r d (ts_recovery s)\<rparr>
              in if rd_action d = Halt then finish_turn (last_attempt s) d t (so_owners o') (blocked_metadata o') e s
                 else advance_turn d s))
           (may_fail At_Decision e s)))
     (goes_on (set_turn_phase Recovery_Decision)
     (goes_on (may_fail At_Stop e) (set_turn_phase Stop_Phase s)))"

text \<open>An attempt with tool calls.  An interrupt and a missing executor end the turn whatever the policy's action
  is.\<close>

definition no_extra :: "terminal_reason \<Rightarrow> (string, pyval) dict" where
  "no_extra reason = []"

definition unavailable_extra :: "terminal_reason \<Rightarrow> (string, pyval) dict" where
  "unavailable_extra reason = [(''continuation_blocked'', PBool True), (''tool_executor_unavailable'', PBool True)]"

definition stopped_tools :: "recovery_limits \<Rightarrow> iteration_env \<Rightarrow> bool \<Rightarrow> (terminal_reason \<Rightarrow> (string, pyval) dict) \<Rightarrow> turn_state \<Rightarrow> stretch" where
  "stopped_tools limits e unavailable extra s =
     goes_on (\<lambda>s.
       (let (d, t, s) = settle limits e False unavailable s in finish_turn (last_attempt s) d t [] extra e s))
     (set_turn_phase Recovery_Decision s)"

definition ran_tools :: "recovery_limits \<Rightarrow> nat \<Rightarrow> iteration_env \<Rightarrow> turn_state \<Rightarrow> stretch" where
  "ran_tools limits max_iterations e s =
     goes_on (\<lambda>s.
       (let s = (case ie_skill_override e of None \<Rightarrow> s
              | Some k \<Rightarrow> s\<lparr>ts_private := apply_request_override
                  (case request_override_from_skill (Some k) of Some q \<Rightarrow> q | None \<Rightarrow> empty_override) (ts_private s)\<rparr>);
            (d, t, s) = settle limits e (max_iterations \<le> ts_iteration s) False s;
            s = fold post_message ((case ie_tool_message e of None \<Rightarrow> [] | Some m \<Rightarrow> [m]) @ ie_skill_messages e) s
        in if rd_action d = Halt then finish_turn (last_attempt s) d t [] no_extra e s else advance_turn d s))
     (goes_on (set_turn_phase Recovery_Decision) (may_fail At_Tools e s))"

definition tools_stretch :: "recovery_limits \<Rightarrow> nat \<Rightarrow> iteration_env \<Rightarrow> turn_state \<Rightarrow> stretch" where
  "tools_stretch limits max_iterations e s =
     goes_on (\<lambda>s.
       if abort_at_tools e \<noteq> None \<and> \<not> abort_reason_allows_tool_finalize (abort_at_tools e) then stopped_tools limits e False no_extra s
       else if \<not> ie_executor e then stopped_tools limits e True unavailable_extra s
       else ran_tools limits max_iterations e s)
     (set_turn_phase Replay_Tools s)"

text \<open>The turns an agent is given.\<close>

definition turn_limit :: "nat option \<Rightarrow> nat" where
  "turn_limit max_turns = (case max_turns of None \<Rightarrow> 8 | Some n \<Rightarrow> if n = 0 then 8 else n)"

text \<open>One pass through the loop, and the handler around it.\<close>

definition iteration_body :: "recovery_limits \<Rightarrow> nat \<Rightarrow> iteration_env \<Rightarrow> turn_state \<Rightarrow> stretch" where
  "iteration_body limits max_iterations e s =
     goes_on (\<lambda>s.
       (case run_model e of
          Inl err \<Rightarrow> (s, Some err)
        | Inr a \<Rightarrow>
            goes_on (\<lambda>s. if ar_tool_calls a = [] then stop_stretch limits e s else tools_stretch limits max_iterations e s)
              (attempt_stretch e a s)))
     (goes_on (set_turn_phase Stream_Attempt)
     (goes_on (request_stretch e) (prepare_stretch e s)))"

definition unhandled :: "string \<Rightarrow> turn_state \<Rightarrow> turn_state" where
  "unhandled err s =
     (let a = (if ts_attempts s = [] then None else Some (last_attempt s));
          t = \<lparr>tt_reason = Attempt_Error, tt_action = Halt, tt_next_phase = Terminal,
               tt_metadata = [(''unhandled_exception'', PBool True)]\<rparr>;
          te = \<lparr>te_reason = Error, te_usage = (case a of None \<Rightarrow> [] | Some x \<Rightarrow> af_usage x),
               te_request_id = Option.bind a af_request_id, te_error = Some err, te_abort_reason = Option.bind a af_abort_reason,
               te_provider_stop_reason = Option.bind a af_stop_reason, te_transition = t,
               te_post_effects = post_effects_for_terminal Error [],
               te_metadata = [(''unhandled_exception'', PBool True)]\<rparr>
      in yields (Yield_Terminal te) (s\<lparr>ts_terminal := Some te, ts_phase := Terminal\<rparr>))"

definition turn_iteration :: "recovery_limits \<Rightarrow> nat \<Rightarrow> iteration_env \<Rightarrow> turn_state \<Rightarrow> turn_state" where
  "turn_iteration limits max_iterations e s =
     (case iteration_body limits max_iterations e s of
        (s, None) \<Rightarrow> s
      | (s, Some err) \<Rightarrow> unhandled err s)"

fun run_turn :: "recovery_limits \<Rightarrow> nat \<Rightarrow> iteration_env list \<Rightarrow> turn_state \<Rightarrow> turn_state" where
  "run_turn limits max_iterations [] s = s"
| "run_turn limits max_iterations (e # es) s =
     (if ts_phase s = Terminal then s else run_turn limits max_iterations es (turn_iteration limits max_iterations e s))"

end
