(* ===== verification/Turn_Engine_Props.thy ===== *)
theory Turn_Engine_Props
  imports Turn_Engine
begin

text \<open>
  Properties of the turn loop: its phases, its one terminal, the messages it yields, and the bound on its
  iterations.
\<close>

subsection \<open>Stretches\<close>

lemma goes_on_simps [simp]: "goes_on f (s, None) = f s" "goes_on f (s, Some err) = (s, Some err)"
  by (simp_all add: goes_on_def)

text \<open>A stretch ends in a state with \<open>Q\<close>, or it raises an exception with \<open>E\<close>.\<close>

definition ends_in :: "(turn_state \<Rightarrow> bool) \<Rightarrow> (string \<Rightarrow> turn_state \<Rightarrow> bool) \<Rightarrow> stretch \<Rightarrow> bool" where
  "ends_in Q E r = (case snd r of None \<Rightarrow> Q (fst r) | Some err \<Rightarrow> E err (fst r))"

lemma ends_in_simps [simp]: "ends_in Q E (s, None) = Q s" "ends_in Q E (s, Some err) = E err s"
  by (simp_all add: ends_in_def)

lemma ends_goes_on:
  assumes "ends_in Q E r" "\<And>s. Q s \<Longrightarrow> ends_in Q' E (f s)"
  shows "ends_in Q' E (goes_on f r)"
  using assms by (cases r; cases "snd r") auto

text \<open>The exceptions that come from outside of the loop.\<close>

definition env_error :: "iteration_env \<Rightarrow> string \<Rightarrow> bool" where
  "env_error e err \<longleftrightarrow> map_option snd (ie_fails e) = Some err \<or>
     \<not> ie_hook_bus e \<and> err = repr_str ''_EmptyHookResult'' @ '' object has no attribute '' @ repr_str ''request_override'' \<or>
     run_model e = Inl err"

lemma ends_may_fail:
  assumes "Q s" "\<And>err. env_error e err \<Longrightarrow> E err s"
  shows "ends_in Q E (may_fail g e s)"
  using assms by (cases "ie_fails e") (auto simp: may_fail_def ends_in_def env_error_def)

lemma ends_phase:
  assumes "p \<in> set (allowed_phases (ts_phase s))" "p \<noteq> ts_phase s"
    and "Q (s\<lparr>ts_phase := p, ts_phase_history := ts_phase_history s @ [p]\<rparr>)"
  shows "ends_in Q E (set_turn_phase p s)"
  using assms by (simp add: set_turn_phase_def)

subsection \<open>The state between two iterations\<close>

text \<open>What a consumer that applies each yielded compaction and message has in the end.\<close>

fun replay_yield :: "turn_yield \<Rightarrow> runtime_message list \<Rightarrow> runtime_message list" where
  "replay_yield (Yield_Compaction new) ms = new"
| "replay_yield (Yield_Message m) ms = ms @ [m]"
| "replay_yield y ms = ms"

definition replay_yields :: "runtime_message list \<Rightarrow> turn_yield list \<Rightarrow> runtime_message list" where
  "replay_yields ms ys = fold replay_yield ys ms"

fun is_terminal_yield :: "turn_yield \<Rightarrow> bool" where
  "is_terminal_yield (Yield_Terminal te) = True"
| "is_terminal_yield y = False"

definition legal_phases :: "turn_phase list \<Rightarrow> bool" where
  "legal_phases ps \<longleftrightarrow> successively (\<lambda>p q. q \<in> set (allowed_phases p)) ps"

definition running :: "runtime_message list \<Rightarrow> turn_state \<Rightarrow> bool" where
  "running ms0 s \<longleftrightarrow> ts_phase_history s \<noteq> [] \<and> last (ts_phase_history s) = ts_phase s \<and> legal_phases (ts_phase_history s) \<and>
     ts_terminal s = None \<and> list_all (\<lambda>y. \<not> is_terminal_yield y) (ts_yields s) \<and> replay_yields ms0 (ts_yields s) = ts_messages s"

lemma running_new: "running ms (new_turn ms c)"
  by (simp add: running_def new_turn_def legal_phases_def replay_yields_def)

lemma running_quiet [simp]:
  "running ms0 (s\<lparr>ts_iteration := i\<rparr>) = running ms0 s" "running ms0 (s\<lparr>ts_private := c\<rparr>) = running ms0 s"
  "running ms0 (s\<lparr>ts_recovery := r\<rparr>) = running ms0 s" "running ms0 (s\<lparr>ts_consumed_override := q\<rparr>) = running ms0 s"
  "running ms0 (s\<lparr>ts_attempts := a\<rparr>) = running ms0 s"
  by (simp_all add: running_def)

lemma running_yields [simp]:
  "running ms0 s \<Longrightarrow> running ms0 (yields (Yield_Request q) s)" "running ms0 s \<Longrightarrow> running ms0 (yields (Yield_Discarded bs) s)"
  "running ms0 s \<Longrightarrow> running ms0 (yields (Yield_Attempt a) s)" "running ms0 s \<Longrightarrow> running ms0 (post_message m s)"
  "running ms0 s \<Longrightarrow> running ms0 (yields (Yield_Compaction ms) (s\<lparr>ts_messages := ms\<rparr>))"
  by (simp_all add: running_def yields_def post_message_def replay_yields_def)

lemma running_posts [simp]: "running ms0 s \<Longrightarrow> running ms0 (fold post_message ms s)"
  by (induction ms arbitrary: s) simp_all

lemma running_phase:
  "running ms0 s \<Longrightarrow> p \<in> set (allowed_phases (ts_phase s)) \<Longrightarrow>
   running ms0 (s\<lparr>ts_phase := p, ts_phase_history := ts_phase_history s @ [p]\<rparr>)"
  by (auto simp: running_def legal_phases_def successively_append_iff)

lemma same_phase [simp]:
  "ts_phase (yields y s) = ts_phase s" "ts_phase (post_message m s) = ts_phase s" "ts_phase (fold post_message ms s) = ts_phase s"
proof -
  show "ts_phase (yields y s) = ts_phase s" for s by (simp add: yields_def)
  show post: "ts_phase (post_message m s) = ts_phase s" for s m by (simp add: yields_def post_message_def)
  show "ts_phase (fold post_message ms s) = ts_phase s" by (induction ms arbitrary: s) (simp_all add: post)
qed

definition at_phase :: "runtime_message list \<Rightarrow> turn_phase \<Rightarrow> turn_state \<Rightarrow> bool" where
  "at_phase ms0 p s \<longleftrightarrow> running ms0 s \<and> ts_phase s = p"

lemma to_phase:
  assumes "at_phase ms0 p s" "q \<in> set (allowed_phases p)" "q \<noteq> p"
  shows "ends_in (at_phase ms0 q) E (set_turn_phase q s)"
  using assms by (intro ends_phase) (auto simp: at_phase_def running_phase)

text \<open>Where an iteration ends: on the way to the next, or with the terminal as the last thing it yields.\<close>

definition ended :: "runtime_message list \<Rightarrow> turn_state \<Rightarrow> bool" where
  "ended ms0 s \<longleftrightarrow> ts_phase s = Terminal \<and> legal_phases (ts_phase_history s) \<and>
     (\<exists>te ys. ts_terminal s = Some te \<and> ts_yields s = ys @ [Yield_Terminal te] \<and> list_all (\<lambda>y. \<not> is_terminal_yield y) ys) \<and>
     replay_yields ms0 (ts_yields s) = ts_messages s"

definition iterated :: "runtime_message list \<Rightarrow> turn_state \<Rightarrow> bool" where
  "iterated ms0 s \<longleftrightarrow> at_phase ms0 Prepare s \<or> ended ms0 s"

definition raised :: "runtime_message list \<Rightarrow> iteration_env \<Rightarrow> string \<Rightarrow> turn_state \<Rightarrow> bool" where
  "raised ms0 e err s \<longleftrightarrow> env_error e err \<and> running ms0 s"

lemma at_phase_fail:
  "at_phase ms0 p s \<Longrightarrow> ends_in (at_phase ms0 p) (raised ms0 e) (may_fail g e s)"
  by (rule ends_may_fail) (simp_all add: at_phase_def raised_def)

lemma then_phase:
  assumes "ends_in (at_phase ms0 p) E r" "q \<in> set (allowed_phases p)" "q \<noteq> p"
  shows "ends_in (at_phase ms0 q) E (goes_on (set_turn_phase q) r)"
  using assms(1) by (rule ends_goes_on) (rule to_phase [OF _ assms(2,3)])

lemma then_fail:
  assumes "ends_in (at_phase ms0 p) (raised ms0 e) r"
  shows "ends_in (at_phase ms0 p) (raised ms0 e) (goes_on (may_fail g e) r)"
  using assms by (rule ends_goes_on) (rule at_phase_fail)

lemma then_do:
  assumes "ends_in (at_phase ms0 p) E r" "\<And>s. at_phase ms0 p s \<Longrightarrow> Q (f s)"
  shows "ends_in Q E (goes_on (\<lambda>s. (f s, None)) r)"
  using assms(1) by (rule ends_goes_on) (simp add: assms(2))

lemma prepare_ok:
  assumes "at_phase ms0 Prepare s"
  shows "ends_in (at_phase ms0 Compact_Or_Rebuild) (raised ms0 e) (prepare_stretch e s)"
proof -
  have "at_phase ms0 Prepare (s\<lparr>ts_iteration := ts_iteration s + 1\<rparr>)" using assms by (simp add: at_phase_def)
  then have "ends_in (at_phase ms0 Prefetch_Sidecars) (raised ms0 e)
      (set_turn_phase Prefetch_Sidecars (s\<lparr>ts_iteration := ts_iteration s + 1\<rparr>))" by (rule to_phase) simp_all
  then have "ends_in (at_phase ms0 Compact_Or_Rebuild) (raised ms0 e)
      (goes_on (set_turn_phase Compact_Or_Rebuild) (set_turn_phase Prefetch_Sidecars (s\<lparr>ts_iteration := ts_iteration s + 1\<rparr>)))"
    by (rule then_phase) simp_all
  note this [THEN then_fail, of At_Prepare]
  then show ?thesis unfolding prepare_stretch_def Let_def
    by (rule then_do) (auto simp: at_phase_def split: option.split)
qed

lemma request_ok:
  assumes "at_phase ms0 Compact_Or_Rebuild s"
  shows "ends_in (at_phase ms0 Build_Request) (raised ms0 e) (request_stretch e s)"
proof -
  have b: "ends_in (at_phase ms0 Build_Request) (raised ms0 e) (goes_on (set_turn_phase Build_Request) (may_fail At_Assembly e s))"
    using at_phase_fail [OF assms] by (rule then_phase) simp_all
  have "ends_in (at_phase ms0 Build_Request) (raised ms0 e) (goes_on (\<lambda>s. (s, if ie_hook_bus e then None
         else Some (repr_str ''_EmptyHookResult'' @ '' object has no attribute '' @ repr_str ''request_override'')))
      (goes_on (set_turn_phase Build_Request) (may_fail At_Assembly e s)))"
    using b by (rule ends_goes_on) (simp add: at_phase_def raised_def env_error_def)
  then have "ends_in (at_phase ms0 Build_Request) (raised ms0 e) (goes_on (may_fail At_Request e) (goes_on (\<lambda>s. (s, if ie_hook_bus e then None
         else Some (repr_str ''_EmptyHookResult'' @ '' object has no attribute '' @ repr_str ''request_override'')))
      (goes_on (set_turn_phase Build_Request) (may_fail At_Assembly e s))))"
    by (rule then_fail)
  then show ?thesis unfolding request_stretch_def Let_def
    by (rule then_do) (simp add: at_phase_def)
qed

lemma attempt_ok:
  assumes "at_phase ms0 Stream_Attempt s"
  shows "ends_in (at_phase ms0 Stream_Attempt) (raised ms0 e) (attempt_stretch e a s)"
proof -
  have "at_phase ms0 Stream_Attempt (post_assistant e a (s\<lparr>ts_attempts := ts_attempts s @ [att]\<rparr>))" for att
    using assms by (simp add: at_phase_def post_assistant_def)
  then have "ends_in (at_phase ms0 Stream_Attempt) (raised ms0 e) (may_fail At_Post_Model e
      (yields (Yield_Attempt att) (if ar_discarded a = [] then post_assistant e a (s\<lparr>ts_attempts := ts_attempts s @ [att]\<rparr>)
        else yields (Yield_Discarded (ar_discarded a)) (post_assistant e a (s\<lparr>ts_attempts := ts_attempts s @ [att]\<rparr>)))))" for att
    by (intro at_phase_fail) (simp add: at_phase_def)
  then show ?thesis unfolding attempt_stretch_def Let_def
    by (rule then_do) (simp add: at_phase_def split: option.split)
qed

lemma finish_ok:
  assumes "at_phase ms0 Recovery_Decision s"
  shows "ends_in (iterated ms0) E (finish_turn a d t hooks extra e s)"
proof -
  let ?s = "s\<lparr>ts_phase := Advance_Or_Finish, ts_phase_history := ts_phase_history s @ [Advance_Or_Finish]\<rparr>"
  have "set_turn_phase Advance_Or_Finish s = (?s, None)"
    using assms by (simp add: set_turn_phase_def at_phase_def)
  moreover have "set_turn_phase Terminal (?s\<lparr>ts_terminal := Some te\<rparr>) =
      (?s\<lparr>ts_terminal := Some te, ts_phase := Terminal, ts_phase_history := ts_phase_history s @ [Advance_Or_Finish, Terminal]\<rparr>, None)" for te
    by (simp add: set_turn_phase_def)
  moreover have "ended ms0 (yields (Yield_Terminal te)
      (?s\<lparr>ts_terminal := Some te, ts_phase := Terminal, ts_phase_history := ts_phase_history s @ [Advance_Or_Finish, Terminal]\<rparr>))" for te
    using assms by (auto simp: ended_def at_phase_def running_def yields_def replay_yields_def legal_phases_def successively_append_iff)
  ultimately show ?thesis unfolding finish_turn_def Let_def by (simp add: iterated_def)
qed

lemma advance_ok:
  assumes "at_phase ms0 Recovery_Decision s"
  shows "ends_in (iterated ms0) E (advance_turn d s)"
proof -
  have "at_phase ms0 Recovery_Decision (fold post_message (rd_injected d) (s\<lparr>ts_private := apply_decision d (ts_private s)\<rparr>))"
    using assms by (simp add: at_phase_def)
  then have "ends_in (at_phase ms0 Advance_Or_Finish) E
      (set_turn_phase Advance_Or_Finish (fold post_message (rd_injected d) (s\<lparr>ts_private := apply_decision d (ts_private s)\<rparr>)))"
    by (rule to_phase) simp_all
  then have "ends_in (at_phase ms0 Prepare) E (advance_turn d s)"
    unfolding advance_turn_def by (rule then_phase) simp_all
  then show ?thesis by (auto simp: ends_in_def iterated_def split: option.splits)
qed

lemma stop_ok:
  assumes "at_phase ms0 Stream_Attempt s"
  shows "ends_in (iterated ms0) (raised ms0 e) (stop_stretch limits e s)"
proof -
  have "ends_in (at_phase ms0 Stop_Phase) (raised ms0 e) (set_turn_phase Stop_Phase s)"
    using assms by (rule to_phase) simp_all
  note this [THEN then_fail, of At_Stop]
  then have "ends_in (at_phase ms0 Recovery_Decision) (raised ms0 e)
      (goes_on (set_turn_phase Recovery_Decision) (goes_on (may_fail At_Stop e) (set_turn_phase Stop_Phase s)))"
    by (rule then_phase) simp_all
  then show ?thesis unfolding stop_stretch_def
  proof (rule ends_goes_on)
    fix s assume s: "at_phase ms0 Recovery_Decision s"
    have "at_phase ms0 Recovery_Decision (s'\<lparr>ts_recovery := r\<rparr>)" if "at_phase ms0 Recovery_Decision s'" for s' r
      using that by (simp add: at_phase_def)
    then show "ends_in (iterated ms0) (raised ms0 e) (let o' = stop_phase_outcome (ie_stop e);
            r = normalize_attempt_outcome (last_attempt s) (pp_window_hints (ie_prepared e)) False False;
            d0 = evaluate_recovery limits (ie_recovery_uuid e) (ie_now e) r (Some o') (ts_recovery s) (prepared_summary e)
        in goes_on (\<lambda>s.
             (let d = apply_recovery_hook_result r (ie_recovery e) d0;
                  t = transition_from_recovery d r (Some o') (prepared_summary e);
                  s = s\<lparr>ts_recovery := after_decision r d (ts_recovery s)\<rparr>
              in if rd_action d = Halt then finish_turn (last_attempt s) d t (so_owners o') (blocked_metadata o') e s
                 else advance_turn d s))
           (may_fail At_Decision e s))"
      unfolding Let_def by (intro ends_goes_on [OF at_phase_fail [OF s]]) (simp add: finish_ok advance_ok)
  qed
qed

lemma settle_ok: "at_phase ms0 p s \<Longrightarrow> at_phase ms0 p (snd (snd (settle limits e m u s)))"
  by (simp add: settle_def Let_def at_phase_def)

lemma stopped_tools_ok:
  assumes "at_phase ms0 Replay_Tools s"
  shows "ends_in (iterated ms0) (raised ms0 e) (stopped_tools limits e u extra s)"
proof -
  have "ends_in (at_phase ms0 Recovery_Decision) (raised ms0 e) (set_turn_phase Recovery_Decision s)"
    using assms by (rule to_phase) simp_all
  then show ?thesis unfolding stopped_tools_def
    by (rule ends_goes_on) (simp add: case_prod_beta finish_ok settle_ok)
qed

lemma ran_tools_ok:
  assumes "at_phase ms0 Replay_Tools s"
  shows "ends_in (iterated ms0) (raised ms0 e) (ran_tools limits max_iterations e s)"
proof -
  have "ends_in (at_phase ms0 Recovery_Decision) (raised ms0 e) (goes_on (set_turn_phase Recovery_Decision) (may_fail At_Tools e s))"
    using at_phase_fail [OF assms] by (rule then_phase) simp_all
  then show ?thesis unfolding ran_tools_def
  proof (rule ends_goes_on)
    fix s assume s: "at_phase ms0 Recovery_Decision s"
    have o': "at_phase ms0 Recovery_Decision (case ie_skill_override e of None \<Rightarrow> s | Some k \<Rightarrow> s\<lparr>ts_private := f k s\<rparr>)" for f
      using s by (simp add: at_phase_def split: option.split)
    have p: "at_phase ms0 Recovery_Decision (fold post_message ms s')" if "at_phase ms0 Recovery_Decision s'" for ms s'
      using that by (simp add: at_phase_def)
    show "ends_in (iterated ms0) (raised ms0 e) (let s = (case ie_skill_override e of None \<Rightarrow> s
              | Some k \<Rightarrow> s\<lparr>ts_private := apply_request_override
                  (case request_override_from_skill (Some k) of Some q \<Rightarrow> q | None \<Rightarrow> empty_override) (ts_private s)\<rparr>);
            (d, t, s) = settle limits e (max_iterations \<le> ts_iteration s) False s;
            s = fold post_message ((case ie_tool_message e of None \<Rightarrow> [] | Some m \<Rightarrow> [m]) @ ie_skill_messages e) s
        in if rd_action d = Halt then finish_turn (last_attempt s) d t [] no_extra e s else advance_turn d s)"
      unfolding Let_def case_prod_beta
      by (split if_split, intro conjI impI) (rule finish_ok advance_ok, rule p, rule settle_ok, rule o')+
  qed
qed

lemma tools_ok:
  assumes "at_phase ms0 Stream_Attempt s"
  shows "ends_in (iterated ms0) (raised ms0 e) (tools_stretch limits max_iterations e s)"
proof -
  have "ends_in (at_phase ms0 Replay_Tools) (raised ms0 e) (set_turn_phase Replay_Tools s)"
    using assms by (rule to_phase) simp_all
  then show ?thesis unfolding tools_stretch_def
    by (rule ends_goes_on) (simp add: stopped_tools_ok ran_tools_ok)
qed

lemma body_ok:
  assumes "at_phase ms0 Prepare s"
  shows "ends_in (iterated ms0) (raised ms0 e) (iteration_body limits max_iterations e s)"
proof -
  have "ends_in (at_phase ms0 Build_Request) (raised ms0 e) (goes_on (request_stretch e) (prepare_stretch e s))"
    by (rule ends_goes_on [OF prepare_ok [OF assms] request_ok])
  then have "ends_in (at_phase ms0 Stream_Attempt) (raised ms0 e)
      (goes_on (set_turn_phase Stream_Attempt) (goes_on (request_stretch e) (prepare_stretch e s)))"
    by (rule then_phase) simp_all
  then show ?thesis unfolding iteration_body_def
  proof (rule ends_goes_on)
    fix s assume s: "at_phase ms0 Stream_Attempt s"
    show "ends_in (iterated ms0) (raised ms0 e) (case run_model e of
          Inl err \<Rightarrow> (s, Some err)
        | Inr a \<Rightarrow> goes_on (\<lambda>s. if ar_tool_calls a = [] then stop_stretch limits e s else tools_stretch limits max_iterations e s)
              (attempt_stretch e a s))"
    proof (cases "run_model e")
      case (Inl err)
      then show ?thesis using s by (simp add: raised_def env_error_def at_phase_def)
    next
      case (Inr a)
      then show ?thesis by (simp add: ends_goes_on [OF attempt_ok [OF s]] stop_ok tools_ok)
    qed
  qed
qed

subsection \<open>Runs\<close>

lemma ended_unhandled: "running ms0 s \<Longrightarrow> ended ms0 (unhandled err s)"
  by (simp add: running_def ended_def unhandled_def Let_def yields_def replay_yields_def)

lemma iteration_ok:
  assumes "at_phase ms0 Prepare s"
  shows "iterated ms0 (turn_iteration limits max_iterations e s)"
  using body_ok [OF assms, of e limits max_iterations] ended_unhandled
  by (auto simp: turn_iteration_def ends_in_def iterated_def raised_def split: prod.split option.splits)

lemma run_ok: "iterated ms0 s \<Longrightarrow> iterated ms0 (run_turn limits max_iterations es s)"
proof (induction es arbitrary: s)
  case (Cons e es)
  show ?case
  proof (cases "ts_phase s = Terminal")
    case False
    then have "at_phase ms0 Prepare s" using Cons.prems by (auto simp: iterated_def ended_def)
    then show ?thesis using False by (simp add: Cons.IH iteration_ok)
  qed (use Cons.prems in simp)
qed simp

lemma run_iterated: "iterated ms (run_turn limits max_iterations es (new_turn ms c))"
  by (rule run_ok) (simp add: iterated_def at_phase_def running_new, simp add: new_turn_def)

text \<open>C8: Whatever the hooks, the model and the tools do, a turn stands between two iterations either ready for
  the next, with no terminal yielded, or ended, with exactly one terminal, the last thing it yields; its phases
  only take the transitions the table allows.\<close>

theorem turn_ends_once:
  "let s = run_turn limits max_iterations es (new_turn ms c)
   in legal_phases (ts_phase_history s) \<and>
      (if ts_phase s = Terminal
       then list_ex is_terminal_yield [last (ts_yields s)] \<and> length (filter is_terminal_yield (ts_yields s)) = 1 \<and>
         map_option Yield_Terminal (ts_terminal s) = Some (last (ts_yields s))
       else ts_phase s = Prepare \<and> filter is_terminal_yield (ts_yields s) = [] \<and> ts_terminal s = None)"
  using run_iterated [of ms limits max_iterations es c]
  by (auto simp: Let_def iterated_def ended_def at_phase_def running_def list_all_iff filter_empty_conv)


text \<open>An iteration that calls nothing but the model, which answers in one piece.\<close>

definition silent_hook :: hook_outcome where
  "silent_hook = \<lparr>ho_dispatch_id = None, ho_owners = [], ho_additional_context = [], ho_continue = True, ho_notifications = [],
     ho_stop = ALLOW_TERMINAL, ho_injected = [], ho_override = None, ho_metadata = [], ho_winners = []\<rparr>"

definition plain_iteration :: "string \<Rightarrow> iteration_env" where
  "plain_iteration stop =
     \<lparr>ie_fails = None, ie_hook_bus = True,
      ie_prepared = \<lparr>pp_active_messages = [], pp_transcript_messages = None, pp_generation = 0, pp_effect_kinds = [],
        pp_window_hints = None, pp_event_metadata = []\<rparr>,
      ie_sidecars = id, ie_services_metadata = [], ie_post_context = None, ie_pre_model = None,
      ie_defaults = \<lparr>df_model = Some ''base'', df_effort = PNone, df_route = None, df_mode = Buffered_Completion\<rparr>,
      ie_model = Completed (Inr
        \<lparr>ms_message = \<lparr>rm_id = ''m1'', rm_role = Role_Assistant, rm_content = text_content ''done'', rm_created_at = 0,
           rm_attachments = [], rm_metadata = []\<rparr>,
         ms_stop_reason = Some stop, ms_usage = [], ms_request_id = None, ms_terminal = None\<rparr>),
      ie_message_id = ''m1'', ie_uuid = (\<lambda>n. replicate n CHR ''u''), ie_recovery_uuid = ''r'', ie_now = 0,
      ie_abort_before = None, ie_abort_streaming = None, ie_abort_after = None, ie_post_model = silent_hook,
      ie_stop = silent_hook, ie_recovery = silent_hook, ie_executor = True, ie_tool_message = None, ie_skill_messages = [],
      ie_skill_override = None\<rparr>"

text \<open>C40: An iteration raises only what it is given from outside: an exception of a hook, of the context control
  plane, of the tools or of the stream's last block, or the missing hook bus; the loop itself never takes a
  transition that is not allowed.\<close>

theorem iteration_raises_from_outside:
  assumes "ts_phase (run_turn limits max_iterations es (new_turn ms c)) \<noteq> Terminal"
    and "snd (iteration_body limits max_iterations e (run_turn limits max_iterations es (new_turn ms c))) = Some err"
  shows "env_error e err"
proof -
  have "at_phase ms Prepare (run_turn limits max_iterations es (new_turn ms c))"
    using run_iterated [of ms limits max_iterations es c] assms(1) by (auto simp: iterated_def ended_def)
  from body_ok [OF this, of e limits max_iterations] show ?thesis using assms(2) by (simp add: ends_in_def raised_def)
qed

lemma iteration_raises_from_outside_witness:
  "ts_phase (run_turn default_limits 1 [] (new_turn [] no_private_context)) \<noteq> Terminal \<and>
   snd (iteration_body default_limits 1 ((plain_iteration ''end_turn'')\<lparr>ie_fails := Some (At_Prepare, ''down'')\<rparr>)
     (run_turn default_limits 1 [] (new_turn [] no_private_context))) = Some ''down'' \<and>
   env_error ((plain_iteration ''end_turn'')\<lparr>ie_fails := Some (At_Prepare, ''down'')\<rparr>) ''down''"
proof -
  have a: "ts_phase (run_turn default_limits 1 [] (new_turn [] no_private_context)) \<noteq> Terminal" by (simp add: new_turn_def)
  have b: "snd (iteration_body default_limits 1 ((plain_iteration ''end_turn'')\<lparr>ie_fails := Some (At_Prepare, ''down'')\<rparr>)
     (run_turn default_limits 1 [] (new_turn [] no_private_context))) = Some ''down''"
    by (simp add: iteration_body_def prepare_stretch_def may_fail_def new_turn_def set_turn_phase_def)
  show ?thesis using iteration_raises_from_outside [OF a b] a b by simp
qed

subsection \<open>The bound on the iterations\<close>

text \<open>What the recovery may still spend.\<close>

definition credits :: "recovery_limits \<Rightarrow> recovery_state \<Rightarrow> nat" where
  "credits limits s =
     (rl_output_retries limits - count_of (rs_retries s) Output_Limit) +
     (rl_overload_retries limits - count_of (rs_retries s) Provider_Overload) +
     (rl_compactions limits - count_of (rs_compactions s) Context_Limit) +
     (rl_compactions limits - count_of (rs_compactions s) Media_Limit)"

lemma count_bump [simp]: "count_of (bump c d) c' = (if c = c' then count_of d c + 1 else count_of d c')"
proof -
  have "failure_value c' = failure_value c \<longleftrightarrow> c = c'" by (cases c; cases c') simp_all
  then show ?thesis by (simp add: count_of_def bump_def map_of_update)
qed

lemma stamp_same [simp]:
  "rd_action (stamp_decision d) = rd_action d" "rd_reason (stamp_decision d) = rd_reason d"
  "rd_injected (stamp_decision d) = rd_injected d" "rd_override (stamp_decision d) = rd_override d"
  "rd_terminal_reason (stamp_decision d) = rd_terminal_reason d"
  by (simp_all add: stamp_decision_def Let_def)

lemma decision_simps [simp]:
  "rd_action (decision a reason md injected q terminal) = a" "rd_reason (decision a reason md injected q terminal) = reason"
  "rd_terminal_reason (decision a reason md injected q terminal) = terminal"
  "rd_injected (decision a reason md injected q terminal) = injected"
  "rd_override (decision a reason md injected q terminal) = q"
  by (simp_all add: decision_def)

text \<open>A decision to go on after a failure spends a credit; without a failure it needs a continuing stop hook or
  tool calls, and turns to spare.\<close>

lemma failure_spends:
  assumes "rd_action (evaluate_failure limits u now r s) \<noteq> Halt" "rd_action d = rd_action (evaluate_failure limits u now r s)"
  shows "credits limits (after_decision r d s) < credits limits s"
  using assms
  by (auto simp: evaluate_failure_def Let_def after_decision_def credits_def split: if_splits)

lemma decision_spends:
  assumes "rd_action (evaluate_recovery limits u now r stop s prep) \<noteq> Halt"
    and "rd_action d = rd_action (evaluate_recovery limits u now r stop s prep)"
    and "map_option so_disposition stop \<noteq> Some CONTINUE_SAME_TURN"
  shows "credits limits (after_decision r d s) < credits limits s \<or>
    ri_failure_class r = FC_None \<and> ri_produced_tool_calls r \<and> \<not> ri_max_turns_exhausted r"
proof (cases "ri_failure_class r = FC_None")
  case True
  then show ?thesis using assms
    by (auto simp: evaluate_recovery_def Let_def terminal_failure_def split: if_splits option.splits)
next
  case False
  then have f: "terminal_failure r" by (simp add: terminal_failure_def)
  have "evaluate_recovery limits u now r stop s prep = evaluate_failure limits u now r s"
    using assms(1) f by (auto simp: evaluate_recovery_def Let_def split: if_splits)
  then show ?thesis using failure_spends assms by simp
qed

lemma credits_same: "ri_failure_class r = FC_None \<Longrightarrow> credits limits (after_decision r d s) = credits limits s"
  by (simp add: credits_def after_decision_def Let_def)

lemma credits_clear [simp]: "credits limits (clear_pending_override s) = credits limits s"
  by (simp add: credits_def clear_pending_override_def)

text \<open>The hooks leave the decision to the policy: the stop hook does not ask to go on, and no hook on the
  decision runs without blocking.\<close>

definition quiet_hooks :: "iteration_env \<Rightarrow> bool" where
  "quiet_hooks e \<longleftrightarrow> ho_stop (ie_stop e) \<noteq> CONTINUE_SAME_TURN \<and> (ho_owners (ie_recovery e) = [] \<or> \<not> ho_continue (ie_recovery e))"

lemma quiet_decision:
  assumes "quiet_hooks e" "rd_action (apply_recovery_hook_result r (ie_recovery e) d) \<noteq> Halt"
  shows "rd_action (apply_recovery_hook_result r (ie_recovery e) d) = rd_action d"
  using assms by (auto simp: apply_recovery_hook_result_def quiet_hooks_def Let_def split: if_splits)

definition budget :: "recovery_limits \<Rightarrow> nat \<Rightarrow> nat \<Rightarrow> turn_state \<Rightarrow> bool" where
  "budget limits k c s \<longleftrightarrow> ts_iteration s = k \<and> credits limits (ts_recovery s) = c"

definition spent :: "recovery_limits \<Rightarrow> nat \<Rightarrow> nat \<Rightarrow> nat \<Rightarrow> turn_state \<Rightarrow> bool" where
  "spent limits max_iterations k c s \<longleftrightarrow> ts_phase s = Terminal \<or> ts_iteration s = k \<and>
     (credits limits (ts_recovery s) < c \<or> credits limits (ts_recovery s) = c \<and> k < max_iterations)"

abbreviation any_error :: "string \<Rightarrow> turn_state \<Rightarrow> bool" where
  "any_error \<equiv> \<lambda>err s. True"

lemma budget_quiet [simp]:
  "budget limits k c (s\<lparr>ts_phase := p\<rparr>) = budget limits k c s" "budget limits k c (s\<lparr>ts_phase_history := h\<rparr>) = budget limits k c s"
  "budget limits k c (s\<lparr>ts_private := x\<rparr>) = budget limits k c s" "budget limits k c (s\<lparr>ts_messages := ms\<rparr>) = budget limits k c s"
  "budget limits k c (s\<lparr>ts_consumed_override := q\<rparr>) = budget limits k c s" "budget limits k c (s\<lparr>ts_attempts := a\<rparr>) = budget limits k c s"
  "budget limits k c (s\<lparr>ts_terminal := te\<rparr>) = budget limits k c s" "budget limits k c (yields y s) = budget limits k c s"
  "budget limits k c (post_message m s) = budget limits k c s"
  by (simp_all add: budget_def yields_def post_message_def)

lemma budget_posts [simp]: "budget limits k c (fold post_message ms s) = budget limits k c s"
  by (induction ms arbitrary: s) simp_all

lemma budget_phase: "budget limits k c s \<Longrightarrow> ends_in (budget limits k c) any_error (set_turn_phase p s)"
  by (simp add: set_turn_phase_def)

lemma may_fail_fst [simp]: "fst (may_fail g e s) = s"
  by (simp add: may_fail_def)

lemma fail_keeps: "Q s \<Longrightarrow> ends_in Q any_error (may_fail g e s)"
  by (simp add: ends_in_def split: option.split)

lemmas budget_fail = fail_keeps [where Q = "budget limits k c" for limits k c]

lemma spent_finish: "ends_in (spent limits max_iterations k c) any_error (finish_turn a d t hooks extra e s)"
proof -
  have "ends_in (\<lambda>s. ts_phase s = Terminal) any_error (set_turn_phase Terminal s)" for s
    by (simp add: set_turn_phase_def)
  then have "ends_in (\<lambda>s. ts_phase s = Terminal) any_error (goes_on (set_turn_phase Terminal) r)" for r
    by (cases r; cases "snd r") simp_all
  then show ?thesis unfolding finish_turn_def Let_def
    by (rule ends_goes_on) (simp add: spent_def)
qed

lemma spent_advance:
  assumes "budget limits k c' s" "c' < c \<or> c' = c \<and> k < max_iterations"
  shows "ends_in (spent limits max_iterations k c) any_error (advance_turn d s)"
proof -
  have "ends_in (budget limits k c') any_error (advance_turn d s)"
    unfolding advance_turn_def by (rule ends_goes_on [OF budget_phase budget_phase]) (simp_all add: assms(1))
  then show ?thesis using assms(2) by (auto simp: ends_in_def spent_def budget_def split: option.splits)
qed

lemma settle_spends:
  assumes "budget limits k c s" "rd_action (fst (settle limits e m u s)) \<noteq> Halt"
  shows "\<exists>c'. budget limits k c' (snd (snd (settle limits e m u s))) \<and> (c' < c \<or> c' = c \<and> \<not> m)"
proof -
  let ?r = "normalize_attempt_outcome (last_attempt s) (pp_window_hints (ie_prepared e)) m u"
  let ?d = "evaluate_recovery limits (ie_recovery_uuid e) (ie_now e) ?r None (ts_recovery s) (prepared_summary e)"
  have a: "rd_action ?d \<noteq> Halt" using assms(2) by (simp add: settle_def Let_def)
  have m: "ri_max_turns_exhausted ?r = m" by (simp add: normalize_attempt_outcome_def Let_def)
  have "credits limits (after_decision ?r ?d (ts_recovery s)) < credits limits (ts_recovery s) \<or>
      ri_failure_class ?r = FC_None \<and> \<not> m"
    using decision_spends [OF a refl] m by auto
  then show ?thesis using assms(1) credits_same by (force simp: settle_def Let_def budget_def)
qed

lemma spent_stop:
  assumes "budget limits k c s" "quiet_hooks e" "\<not> af_produced_tool_calls (last_attempt s)"
  shows "ends_in (spent limits max_iterations k c) any_error (stop_stretch limits e s)"
proof -
  let ?Q = "\<lambda>s. budget limits k c s \<and> \<not> af_produced_tool_calls (last_attempt s)"
  have p: "ends_in ?Q any_error (set_turn_phase p s)" if "?Q s" for p s
    using that by (simp add: set_turn_phase_def last_attempt_def)
  have "?Q s" using assms by simp
  note ends_goes_on [OF p [OF this] fail_keeps [where Q = ?Q]]
  then have start: "ends_in ?Q any_error
      (goes_on (set_turn_phase Recovery_Decision) (goes_on (may_fail At_Stop e) (set_turn_phase Stop_Phase s)))"
    by (rule ends_goes_on [OF _ p])
  show ?thesis unfolding stop_stretch_def
  proof (rule ends_goes_on [OF start])
    fix s assume s: "?Q s"
    let ?o = "stop_phase_outcome (ie_stop e)"
    let ?r = "normalize_attempt_outcome (last_attempt s) (pp_window_hints (ie_prepared e)) False False"
    let ?policy = "evaluate_recovery limits (ie_recovery_uuid e) (ie_now e) ?r (Some ?o) (ts_recovery s) (prepared_summary e)"
    let ?d = "apply_recovery_hook_result ?r (ie_recovery e) ?policy"
    have unproduced: "\<not> ri_produced_tool_calls ?r" using s by (simp add: normalize_attempt_outcome_def Let_def)
    have spends: "credits limits (after_decision ?r ?d (ts_recovery s)) < c" if "rd_action ?d \<noteq> Halt"
    proof -
      have same: "rd_action ?d = rd_action ?policy" by (rule quiet_decision [OF assms(2) that])
      have "map_option so_disposition (Some ?o) \<noteq> Some CONTINUE_SAME_TURN"
        using assms(2) by (simp add: quiet_hooks_def stop_phase_outcome_def)
      then show ?thesis
        using decision_spends [of limits _ _ ?r "Some ?o" "ts_recovery s" _ ?d] that same unproduced s
        by (auto simp: budget_def)
    qed
    have "ends_in (spent limits max_iterations k c) any_error
        (if rd_action ?d = Halt then finish_turn (last_attempt s') ?d t (so_owners ?o) (blocked_metadata ?o) e s'
         else advance_turn ?d s')" if "s' = s\<lparr>ts_recovery := after_decision ?r ?d (ts_recovery s)\<rparr>" for s' t
    proof (cases "rd_action ?d = Halt")
      case False
      have "budget limits k (credits limits (after_decision ?r ?d (ts_recovery s))) s'" using s that by (simp add: budget_def)
      then show ?thesis using False spends by (simp add: spent_advance)
    qed (simp add: spent_finish)
    then show "ends_in (spent limits max_iterations k c) any_error (let o' = ?o; r = ?r;
            d0 = evaluate_recovery limits (ie_recovery_uuid e) (ie_now e) r (Some o') (ts_recovery s) (prepared_summary e)
        in goes_on (\<lambda>s.
             (let d = apply_recovery_hook_result r (ie_recovery e) d0;
                  t = transition_from_recovery d r (Some o') (prepared_summary e);
                  s = s\<lparr>ts_recovery := after_decision r d (ts_recovery s)\<rparr>
              in if rd_action d = Halt then finish_turn (last_attempt s) d t (so_owners o') (blocked_metadata o') e s
                 else advance_turn d s))
           (may_fail At_Decision e s))"
      unfolding Let_def by (intro ends_goes_on [where Q = "\<lambda>s'. s' = s"]) (simp_all add: may_fail_def ends_in_def split: option.split)
  qed
qed

lemma spent_ran_tools:
  assumes "budget limits k c s"
  shows "ends_in (spent limits max_iterations k c) any_error (ran_tools limits max_iterations e s)"
proof -
  have "ends_in (budget limits k c) any_error (goes_on (set_turn_phase Recovery_Decision) (may_fail At_Tools e s))"
    by (rule ends_goes_on [OF budget_fail budget_phase]) (rule assms)
  then show ?thesis unfolding ran_tools_def
  proof (rule ends_goes_on)
    fix s assume s: "budget limits k c s"
    define s1 where "s1 = (case ie_skill_override e of None \<Rightarrow> s
              | Some k \<Rightarrow> s\<lparr>ts_private := apply_request_override
                  (case request_override_from_skill (Some k) of Some q \<Rightarrow> q | None \<Rightarrow> empty_override) (ts_private s)\<rparr>)"
    have s1: "budget limits k c s1" using s by (simp add: s1_def split: option.split)
    then have k: "ts_iteration s1 = k" by (simp add: budget_def)
    obtain d t s2 where settled: "settle limits e (max_iterations \<le> k) False s1 = (d, t, s2)" by (cases "settle limits e (max_iterations \<le> k) False s1")
    define s3 where "s3 = fold post_message ((case ie_tool_message e of None \<Rightarrow> [] | Some m \<Rightarrow> [m]) @ ie_skill_messages e) s2"
    have "ends_in (spent limits max_iterations k c) any_error
       (if rd_action d = Halt then finish_turn (last_attempt s3) d t [] no_extra e s3 else advance_turn d s3)"
    proof (cases "rd_action d = Halt")
      case False
      then obtain c' where c': "budget limits k c' s2" "c' < c \<or> c' = c \<and> \<not> max_iterations \<le> k"
        using settle_spends [OF s1, of e "max_iterations \<le> k" False] settled by auto
      have "budget limits k c' s3" using c'(1) by (simp add: s3_def)
      then show ?thesis using False c'(2) by (auto intro: spent_advance)
    qed (simp add: spent_finish)
    then show "ends_in (spent limits max_iterations k c) any_error (let s = (case ie_skill_override e of None \<Rightarrow> s
              | Some k \<Rightarrow> s\<lparr>ts_private := apply_request_override
                  (case request_override_from_skill (Some k) of Some q \<Rightarrow> q | None \<Rightarrow> empty_override) (ts_private s)\<rparr>);
            (d, t, s) = settle limits e (max_iterations \<le> ts_iteration s) False s;
            s = fold post_message ((case ie_tool_message e of None \<Rightarrow> [] | Some m \<Rightarrow> [m]) @ ie_skill_messages e) s
        in if rd_action d = Halt then finish_turn (last_attempt s) d t [] no_extra e s else advance_turn d s)"
      unfolding s1_def [symmetric] Let_def k settled prod.case s3_def [symmetric] .
  qed
qed

lemma ends_any: "ends_in (\<lambda>s. True) any_error r"
  by (simp add: ends_in_def split: option.split)

lemma spent_tools:
  assumes "budget limits k c s"
  shows "ends_in (spent limits max_iterations k c) any_error (tools_stretch limits max_iterations e s)"
proof -
  have finished: "ends_in (spent limits max_iterations k c) any_error (stopped_tools limits e u extra s)" for u extra s
    unfolding stopped_tools_def
    by (rule ends_goes_on [where Q = "\<lambda>s. True"]) (simp_all add: ends_any case_prod_beta spent_finish)
  show ?thesis unfolding tools_stretch_def
    by (rule ends_goes_on [OF budget_phase [OF assms]]) (simp add: spent_ran_tools finished)
qed

lemma budget_prepare:
  assumes "budget limits k c s"
  shows "ends_in (budget limits (Suc k) c) any_error (prepare_stretch e s)"
proof -
  have "budget limits (Suc k) c (s\<lparr>ts_iteration := ts_iteration s + 1\<rparr>)" using assms by (simp add: budget_def)
  note ends_goes_on [OF ends_goes_on [OF budget_phase [OF this] budget_phase] budget_fail]
  then have "ends_in (budget limits (Suc k) c) any_error (goes_on (may_fail At_Prepare e) (goes_on (set_turn_phase Compact_Or_Rebuild)
     (set_turn_phase Prefetch_Sidecars (s\<lparr>ts_iteration := ts_iteration s + 1\<rparr>))))" .
  then show ?thesis unfolding prepare_stretch_def Let_def
    by (rule ends_goes_on) (simp split: option.split)
qed

lemma budget_checked: "budget limits k c s \<Longrightarrow> ends_in (budget limits k c) any_error (s, x)"
  by (simp add: ends_in_def split: option.split)

lemma budget_request:
  assumes "budget limits k c s"
  shows "ends_in (budget limits k c) any_error (request_stretch e s)"
proof -
  have "ends_in (budget limits k c) any_error (goes_on (\<lambda>s. (s, if ie_hook_bus e then None
         else Some (repr_str ''_EmptyHookResult'' @ '' object has no attribute '' @ repr_str ''request_override'')))
      (goes_on (set_turn_phase Build_Request) (may_fail At_Assembly e s)))"
    by (rule ends_goes_on [OF ends_goes_on [OF budget_fail [OF assms] budget_phase] budget_checked])
  note ends_goes_on [OF this budget_fail]
  then have "ends_in (budget limits k c) any_error (goes_on (may_fail At_Request e) (goes_on (\<lambda>s. (s, if ie_hook_bus e then None
         else Some (repr_str ''_EmptyHookResult'' @ '' object has no attribute '' @ repr_str ''request_override'')))
      (goes_on (set_turn_phase Build_Request) (may_fail At_Assembly e s))))" .
  then show ?thesis unfolding request_stretch_def Let_def
    by (rule ends_goes_on) (simp add: budget_def yields_def)
qed

lemma kept_attempts [simp]:
  "ts_attempts (yields y s) = ts_attempts s" "ts_attempts (post_message m s) = ts_attempts s"
  "ts_attempts (fold post_message ms s) = ts_attempts s"
proof -
  show "ts_attempts (yields y s) = ts_attempts s" for s by (simp add: yields_def)
  show post: "ts_attempts (post_message m s) = ts_attempts s" for s m by (simp add: yields_def post_message_def)
  show "ts_attempts (fold post_message ms s) = ts_attempts s" by (induction ms arbitrary: s) (simp_all add: post)
qed

lemma budget_attempt:
  assumes "budget limits k c s"
  shows "ends_in (\<lambda>s. budget limits k c s \<and> af_produced_tool_calls (last_attempt s) = (ar_tool_calls a \<noteq> [])) any_error
    (attempt_stretch e a s)"
proof -
  let ?Q = "\<lambda>s. budget limits k c s \<and> af_produced_tool_calls (last_attempt s) = (ar_tool_calls a \<noteq> [])"
  show ?thesis unfolding attempt_stretch_def Let_def
    by (rule ends_goes_on [OF fail_keeps [where Q = ?Q]])
      (use assms in \<open>simp_all add: last_attempt_def post_assistant_def attempt_finished_from_terminal_def split: option.split\<close>)
qed

lemma iteration_spends:
  assumes "budget limits k c s" "quiet_hooks e"
  shows "spent limits max_iterations (Suc k) c (turn_iteration limits max_iterations e s)"
proof -
  have "ends_in (budget limits (Suc k) c) any_error (goes_on (set_turn_phase Stream_Attempt) (goes_on (request_stretch e) (prepare_stretch e s)))"
    by (rule ends_goes_on [OF ends_goes_on [OF budget_prepare [OF assms(1)] budget_request] budget_phase])
  then have "ends_in (spent limits max_iterations (Suc k) c) any_error (iteration_body limits max_iterations e s)"
    unfolding iteration_body_def
  proof (rule ends_goes_on)
    fix s assume s: "budget limits (Suc k) c s"
    show "ends_in (spent limits max_iterations (Suc k) c) any_error (case run_model e of
          Inl err \<Rightarrow> (s, Some err)
        | Inr a \<Rightarrow> goes_on (\<lambda>s. if ar_tool_calls a = [] then stop_stretch limits e s else tools_stretch limits max_iterations e s)
              (attempt_stretch e a s))"
      by (cases "run_model e") (simp_all add: ends_goes_on [OF budget_attempt [OF s]] spent_stop spent_tools assms(2))
  qed
  then show ?thesis
    by (auto simp: turn_iteration_def ends_in_def spent_def unhandled_def Let_def yields_def split: prod.split option.splits)
qed

lemma run_ends:
  assumes "list_all quiet_hooks es" "ts_phase s = Terminal \<or> budget limits k c s \<and> max_iterations - 1 - k + c < length es"
  shows "ts_phase (run_turn limits max_iterations es s) = Terminal"
  using assms
proof (induction es arbitrary: s k c)
  case (Cons e es)
  show ?case
  proof (cases "ts_phase s = Terminal")
    case False
    then have b: "budget limits k c s" "max_iterations - 1 - k + c \<le> length es" using Cons.prems(2) by auto
    let ?s = "turn_iteration limits max_iterations e s"
    let ?c = "credits limits (ts_recovery ?s)"
    have "spent limits max_iterations (Suc k) c ?s" using b(1) Cons.prems(1) by (simp add: iteration_spends)
    then have "ts_phase ?s = Terminal \<or> budget limits (Suc k) ?c ?s \<and> max_iterations - 1 - Suc k + ?c < length es"
      using b(2) by (auto simp: spent_def budget_def)
    then show ?thesis using False Cons.IH [of ?s "Suc k" ?c] Cons.prems(1) by simp
  qed simp
qed simp

text \<open>C9: With hooks that leave the decisions to the policy a turn ends, whatever the model and the tools do: after
  at most as many iterations as the turns it is given and the retries and compactions the policy allows.\<close>

theorem turn_bounded:
  assumes "list_all quiet_hooks es"
    and "turn_limit max_turns + rl_output_retries limits + rl_overload_retries limits + 2 * rl_compactions limits \<le> length es"
  shows "ts_phase (run_turn limits (turn_limit max_turns) es (new_turn ms c)) = Terminal"
proof (rule run_ends [OF assms(1) disjI2])
  have "credits limits new_recovery_state = rl_output_retries limits + rl_overload_retries limits + 2 * rl_compactions limits"
    by (simp add: credits_def new_recovery_state_def count_of_def)
  moreover have "1 \<le> turn_limit max_turns" by (simp add: turn_limit_def split: option.split)
  ultimately show "budget limits 0 (credits limits new_recovery_state) (new_turn ms c) \<and>
      turn_limit max_turns - 1 - 0 + credits limits new_recovery_state < length es"
    using assms(2) by (simp add: budget_def new_turn_def)
qed

lemma turn_bounded_witness:
  "list_all quiet_hooks (replicate 5 (plain_iteration ''max_tokens'')) \<and>
   ts_phase (run_turn default_limits (turn_limit (Some 1)) (replicate 5 (plain_iteration ''max_tokens'')) (new_turn [] no_private_context)) = Terminal"
proof -
  have q: "list_all quiet_hooks (replicate 5 (plain_iteration ''max_tokens''))"
    by (simp add: list_all_iff quiet_hooks_def plain_iteration_def silent_hook_def)
  show ?thesis using turn_bounded [OF q, of "Some 1" default_limits "[]" no_private_context] q by (simp add: default_limits_def turn_limit_def)
qed

end
