(* ===== verification/Turn_Outcomes.thy ===== *)
theory Turn_Outcomes
  imports Turn_Engine_Props
begin

text \<open>
  What a turn reports in the end: when the policy calls it completed, and where the loop and the policy report or
  do something else than the hooks, the provider or the definition of the agent asked for.
\<close>

subsection \<open>Completed turns\<close>

lemma terminal_decision [simp]:
  "terminal_reason_from_recovery (decision a reason md injected q terminal) =
     (case terminal of None \<Rightarrow> End_Turn
      | Some s \<Rightarrow> (case List.find (\<lambda>r. terminal_value r = s) terminal_reasons of None \<Rightarrow> Error | Some r \<Rightarrow> r))"
  by (simp add: terminal_reason_from_recovery_def)

lemma find_terminal:
  "terminal_completed (case List.find (\<lambda>r. terminal_value r = s) terminal_reasons of None \<Rightarrow> Error | Some r \<Rightarrow> r) \<longleftrightarrow>
   s = ''end_turn'' \<or> s = ''message_stop''"
  by (auto simp: terminal_reasons_def terminal_completed_def)

lemma failure_not_completed:
  "c \<noteq> FC_None \<Longrightarrow> terminal_reason_for_failure_class c \<noteq> ''end_turn'' \<and> terminal_reason_for_failure_class c \<noteq> ''message_stop''"
  by (cases c) simp_all

definition reports_completed :: "recovery_decision \<Rightarrow> bool" where
  "reports_completed d \<longleftrightarrow> rd_action d = Halt \<and> terminal_completed (terminal_reason_from_recovery d)"

lemma reports_decision [simp]:
  "reports_completed (decision a reason md injected q (Some s)) \<longleftrightarrow> a = Halt \<and> (s = ''end_turn'' \<or> s = ''message_stop'')"
  by (simp add: reports_completed_def find_terminal)

lemma failure_reports:
  "ri_failure_class r \<noteq> FC_None \<Longrightarrow> \<not> reports_completed (evaluate_failure limits u now r s)"
  using failure_not_completed
  by (auto simp: evaluate_failure_def Let_def) (auto simp: reports_completed_def)

text \<open>C32: The policy halts a turn as completed exactly when the attempt did not fail, was not interrupted and ran
  into no limit, called no tools, no stop hook asks to go on or to block, and the provider says the turn or the
  message ended, or nothing.\<close>

theorem completed_exactly:
  "reports_completed (evaluate_recovery limits u now r stop s prep) \<longleftrightarrow>
   \<not> terminal_failure r \<and> \<not> ri_produced_tool_calls r \<and>
   map_option so_disposition stop \<notin> {Some CONTINUE_SAME_TURN, Some BLOCK_SESSION} \<and>
   ri_terminal_reason r \<in> {None, Some [], Some ''end_turn'', Some ''message_stop''}"
proof (cases "terminal_failure r")
  case True
  then show ?thesis using failure_reports
    by (auto simp: evaluate_recovery_def Let_def terminal_failure_def)
next
  case False
  then have "ri_failure_class r = FC_None" "\<not> interrupted_input r" "\<not> ri_max_turns_exhausted r" "\<not> ri_executor_unavailable r"
    by (simp_all add: terminal_failure_def)
  moreover obtain t where "text_else (ri_terminal_reason r) (Some ''end_turn'') = Some t"
    "t = ''end_turn'' \<or> t = ''message_stop'' \<longleftrightarrow> ri_terminal_reason r \<in> {None, Some [], Some ''end_turn'', Some ''message_stop''}"
    by (cases "ri_terminal_reason r"; cases "the (ri_terminal_reason r)") (auto simp: text_else_def)
  ultimately show ?thesis using False
    by (auto simp: evaluate_recovery_def Let_def reports_completed_def find_terminal split: option.split)
qed

subsection \<open>Iterations without exceptions\<close>

abbreviation no_error :: "string \<Rightarrow> turn_state \<Rightarrow> bool" where
  "no_error \<equiv> \<lambda>err s. False"

definition smooth :: "iteration_env \<Rightarrow> bool" where
  "smooth e \<longleftrightarrow> ie_fails e = None \<and> ie_hook_bus e"

definition stands :: "turn_phase \<Rightarrow> nat \<Rightarrow> turn_state \<Rightarrow> bool" where
  "stands p k s \<longleftrightarrow> ts_phase s = p \<and> ts_iteration s = k"

lemma stands_quiet [simp]:
  "stands p k (yields y s) = stands p k s" "stands p k (post_message m s) = stands p k s"
  "stands p k (s\<lparr>ts_private := c\<rparr>) = stands p k s" "stands p k (s\<lparr>ts_messages := ms\<rparr>) = stands p k s"
  "stands p k (s\<lparr>ts_recovery := r\<rparr>) = stands p k s" "stands p k (s\<lparr>ts_consumed_override := q\<rparr>) = stands p k s"
  "stands p k (s\<lparr>ts_attempts := a\<rparr>) = stands p k s"
  by (simp_all add: stands_def yields_def post_message_def)

lemma stands_posts [simp]: "stands p k (fold post_message ms s) = stands p k s"
  by (induction ms arbitrary: s) simp_all

lemma stands_phase:
  "stands p k s \<Longrightarrow> q \<in> set (allowed_phases p) \<Longrightarrow> q \<noteq> p \<Longrightarrow> ends_in (stands q k) no_error (set_turn_phase q s)"
  by (auto simp: stands_def set_turn_phase_def)

lemma stands_then:
  assumes "ends_in (stands p k) no_error r" "q \<in> set (allowed_phases p)" "q \<noteq> p"
  shows "ends_in (stands q k) no_error (goes_on (set_turn_phase q) r)"
  using assms(1) by (rule ends_goes_on) (rule stands_phase [OF _ assms(2,3)])

lemma smooth_fail [simp]: "smooth e \<Longrightarrow> may_fail g e s = (s, None)"
  by (simp add: smooth_def may_fail_def)

lemma smooth_hooks [simp]: "smooth e \<Longrightarrow> ie_hook_bus e"
  by (simp add: smooth_def)

lemma goes_on_smooth: "smooth e \<Longrightarrow> goes_on (may_fail g e) r = r"
  by (cases r; cases "snd r") simp_all

lemma stands_prepare:
  assumes "smooth e" "stands Prepare k s"
  shows "ends_in (stands Compact_Or_Rebuild (Suc k)) no_error (prepare_stretch e s)"
proof -
  have "stands Prepare (Suc k) (s\<lparr>ts_iteration := ts_iteration s + 1\<rparr>)" using assms(2) by (simp add: stands_def)
  then have "ends_in (stands Prefetch_Sidecars (Suc k)) no_error (set_turn_phase Prefetch_Sidecars (s\<lparr>ts_iteration := ts_iteration s + 1\<rparr>))"
    by (rule stands_phase) simp_all
  then have "ends_in (stands Compact_Or_Rebuild (Suc k)) no_error
      (goes_on (set_turn_phase Compact_Or_Rebuild) (set_turn_phase Prefetch_Sidecars (s\<lparr>ts_iteration := ts_iteration s + 1\<rparr>)))"
    by (rule stands_then) simp_all
  then show ?thesis unfolding prepare_stretch_def goes_on_smooth [OF assms(1)] Let_def
    by (rule ends_goes_on) (simp split: option.split)
qed

lemma stands_request:
  assumes "smooth e" "stands Compact_Or_Rebuild k s"
  shows "ends_in (stands Build_Request k) no_error (request_stretch e s)"
proof -
  have "ends_in (stands Build_Request k) no_error (set_turn_phase Build_Request s)"
    using assms(2) by (rule stands_phase) simp_all
  then have "ends_in (stands Build_Request k) no_error (goes_on (\<lambda>s. (s, if ie_hook_bus e then None
         else Some (repr_str ''_EmptyHookResult'' @ '' object has no attribute '' @ repr_str ''request_override'')))
      (set_turn_phase Build_Request s))"
    by (rule ends_goes_on) (simp add: assms(1))
  then show ?thesis unfolding request_stretch_def goes_on_smooth [OF assms(1)] Let_def smooth_fail [OF assms(1)] goes_on_simps
    by (rule ends_goes_on) simp
qed

definition attempted :: "attempt_result \<Rightarrow> nat \<Rightarrow> turn_state \<Rightarrow> bool" where
  "attempted a k s \<longleftrightarrow> stands Stream_Attempt k s \<and>
     last_attempt s = attempt_finished_from_terminal k (ar_terminal a) (ar_tool_calls a)"

lemma stands_attempt:
  assumes "smooth e" "stands Stream_Attempt k s"
  shows "ends_in (attempted a k) no_error (attempt_stretch e a s)"
  using assms
  by (simp add: attempt_stretch_def Let_def attempted_def last_attempt_def post_assistant_def split: option.split)
    (simp add: stands_def)

lemma smooth_iteration:
  assumes e: "smooth e" "run_model e = Inr a" and s: "stands Prepare k s"
    and Q: "\<And>s. attempted a (Suc k) s \<Longrightarrow>
      ends_in Q no_error (if ar_tool_calls a = [] then stop_stretch limits e s else tools_stretch limits m e s)"
  shows "Q (turn_iteration limits m e s)"
proof -
  have "ends_in (stands Stream_Attempt (Suc k)) no_error
      (goes_on (set_turn_phase Stream_Attempt) (goes_on (request_stretch e) (prepare_stretch e s)))"
    by (rule stands_then [OF ends_goes_on [OF stands_prepare [OF e(1) s] stands_request [OF e(1)]]]) simp_all
  then have "ends_in Q no_error (iteration_body limits m e s)"
    unfolding iteration_body_def
    by (rule ends_goes_on) (simp add: e(2), rule ends_goes_on [OF stands_attempt [OF e(1)] Q])
  then show ?thesis
    by (auto simp: turn_iteration_def ends_in_def split: prod.split option.splits)
qed

subsection \<open>Where a turn does something else\<close>

text \<open>A stop hook that asks to halt as failed, the strongest disposition for the hook bus, changes nothing.\<close>

theorem halt_failure_ignored:
  "evaluate_recovery limits u now r (Some (o'\<lparr>so_disposition := HALT_FAILURE\<rparr>)) s prep =
   evaluate_recovery limits u now r (Some (o'\<lparr>so_disposition := ALLOW_TERMINAL\<rparr>)) s prep"
  by (simp add: evaluate_recovery_def Let_def)

text \<open>A hook on the decision that matches and does not stop anything resumes every halt, also of a completed or
  interrupted attempt.\<close>

theorem watching_hook_resumes:
  assumes "rd_action d = Halt" "ho_owners h \<noteq> []" "ho_continue h"
  shows "rd_action (apply_recovery_hook_result r h d) \<noteq> Halt"
  using assms by (simp add: apply_recovery_hook_result_def Let_def)

text \<open>A stop reason that the engine does not know is reported as an error, although nothing failed.\<close>

definition stopped_at_sequence :: recovery_input where
  "stopped_at_sequence = \<lparr>ri_terminal_reason = Some ''stop_sequence'', ri_failure_class = FC_None, ri_retryable = False,
     ri_provider_error_code = None, ri_error = None, ri_abort_reason = None, ri_produced_tool_calls = False,
     ri_tool_call_count = 0, ri_max_turns_exhausted = False, ri_executor_unavailable = False, ri_metadata = []\<rparr>"

theorem unknown_stop_is_error:
  "\<not> terminal_failure stopped_at_sequence \<and>
   terminal_reason_from_recovery (evaluate_recovery limits u now stopped_at_sequence None s prep) = Error"
  by (simp add: terminal_failure_def interrupted_input_def stopped_at_sequence_def evaluate_recovery_def Let_def text_else_def
      terminal_reasons_def)

text \<open>Without a hook bus every turn ends in an error.\<close>

lemma no_bus_request: "\<not> ie_hook_bus e \<Longrightarrow> snd (request_stretch e s) \<noteq> None"
proof -
  assume e: "\<not> ie_hook_bus e"
  let ?r = "goes_on (set_turn_phase Build_Request) (may_fail At_Assembly e s)"
  have "\<exists>err s'. goes_on (\<lambda>s. (s, if ie_hook_bus e then None
         else Some (repr_str ''_EmptyHookResult'' @ '' object has no attribute '' @ repr_str ''request_override''))) ?r = (s', Some err)"
    using e by (cases ?r; cases "snd ?r") auto
  then show ?thesis by (auto simp: request_stretch_def)
qed

lemma error_persists: "snd r \<noteq> None \<Longrightarrow> goes_on f r = r"
  by (cases r) (auto simp: goes_on_def)

theorem no_bus_no_turn:
  "\<not> ie_hook_bus e \<Longrightarrow> map_option te_reason (ts_terminal (turn_iteration limits m e s)) = Some Error"
proof -
  assume e: "\<not> ie_hook_bus e"
  have "snd (goes_on (request_stretch e) (prepare_stretch e s)) \<noteq> None"
    by (cases "prepare_stretch e s"; cases "snd (prepare_stretch e s)") (use no_bus_request [OF e] in auto)
  then have "snd (iteration_body limits m e s) \<noteq> None"
    unfolding iteration_body_def by (simp add: error_persists)
  then show ?thesis
    by (auto simp: turn_iteration_def unhandled_def Let_def yields_def split: prod.split)
qed

text \<open>A stop hook that asks to continue is not bounded by the turns of the agent: the turn that is given one
  goes on after any number of iterations.\<close>

definition eager_iteration :: iteration_env where
  "eager_iteration = (plain_iteration ''end_turn'')\<lparr>ie_stop := silent_hook\<lparr>ho_stop := CONTINUE_SAME_TURN\<rparr>\<rparr>"

definition plain_result :: "string \<Rightarrow> attempt_result" where
  "plain_result stop = \<lparr>ar_blocks = text_content ''done'', ar_discarded = [], ar_tool_calls = [],
     ar_terminal = no_terminal\<lparr>mt_stop_reason := Some stop\<rparr>, ar_message_id = ''m1''\<rparr>"

lemma eager_model: "run_model eager_iteration = Inr (plain_result ''end_turn'')"
  by (simp add: run_model_def eager_iteration_def plain_iteration_def buffered_attempt_def terminal_from_response_def
      no_terminal_def text_else_def dict_else_def abort_at_close_def tool_calls_from_message_def text_content_def plain_result_def
      List.map_filter_def)

lemma eager_smooth: "smooth eager_iteration"
  by (simp add: smooth_def eager_iteration_def plain_iteration_def)

lemma eager_stop:
  assumes "attempted (plain_result ''end_turn'') k s"
  shows "ends_in (stands Prepare k) no_error (stop_stretch default_limits eager_iteration s)"
proof -
  let ?Q = "\<lambda>p s. stands p k s \<and> last_attempt s = attempt_finished_from_terminal k (no_terminal\<lparr>mt_stop_reason := Some ''end_turn''\<rparr>) []"
  have p: "ends_in (?Q q) no_error (set_turn_phase q s)" if "?Q p s" "q \<in> set (allowed_phases p)" "q \<noteq> p" for p q s
    using that by (auto simp: stands_def set_turn_phase_def last_attempt_def)
  have "ends_in (?Q Stop_Phase) no_error (set_turn_phase Stop_Phase s)"
    using assms by (intro p [where p = Stream_Attempt]) (auto simp: attempted_def plain_result_def)
  then have "ends_in (?Q Recovery_Decision) no_error (goes_on (set_turn_phase Recovery_Decision) (set_turn_phase Stop_Phase s))"
    by (rule ends_goes_on) (rule p, assumption, simp_all)
  then show ?thesis unfolding stop_stretch_def goes_on_smooth [OF eager_smooth] smooth_fail [OF eager_smooth] goes_on_simps
  proof (rule ends_goes_on)
    fix s assume s: "?Q Recovery_Decision s"
    define r where "r = normalize_attempt_outcome (last_attempt s) (pp_window_hints (ie_prepared eager_iteration)) False False"
    define d where "d = apply_recovery_hook_result r (ie_recovery eager_iteration)
      (evaluate_recovery default_limits (ie_recovery_uuid eager_iteration) (ie_now eager_iteration) r
        (Some (stop_phase_outcome (ie_stop eager_iteration))) (ts_recovery s) (prepared_summary eager_iteration))"
    have "\<not> terminal_failure r"
      using conjunct2 [OF s] unfolding r_def
      by (simp add: py_get_def normalize_attempt_outcome_def attempt_finished_from_terminal_def no_terminal_def Let_def eager_iteration_def
          plain_iteration_def terminal_failure_def interrupted_input_def outcome_class_def classify_with_hints_def window_hints_def
          failure_class_from_terminal_reason_def coerce_failure_class_def first_some_def)
    then have d: "rd_action d = Continue_Same_Turn"
      by (simp add: d_def evaluate_recovery_def Let_def terminal_failure_def stop_phase_outcome_def eager_iteration_def
          apply_recovery_hook_result_def plain_iteration_def silent_hook_def)
    have "ends_in (stands Prepare k) no_error (advance_turn d s')" if "stands Recovery_Decision k s'" for s'
    proof -
      have "ends_in (stands Advance_Or_Finish k) no_error (set_turn_phase Advance_Or_Finish
         (fold post_message (rd_injected d) (s'\<lparr>ts_private := apply_decision d (ts_private s')\<rparr>)))"
        using that by (intro stands_phase [where p = Recovery_Decision]) simp_all
      then show ?thesis unfolding advance_turn_def by (rule stands_then) simp_all
    qed
    then show "ends_in (stands Prepare k) no_error
        (let o' = stop_phase_outcome (ie_stop eager_iteration);
             r = normalize_attempt_outcome (last_attempt s) (pp_window_hints (ie_prepared eager_iteration)) False False;
             d0 = evaluate_recovery default_limits (ie_recovery_uuid eager_iteration) (ie_now eager_iteration) r (Some o')
               (ts_recovery s) (prepared_summary eager_iteration)
         in let d = apply_recovery_hook_result r (ie_recovery eager_iteration) d0;
                t = transition_from_recovery d r (Some o') (prepared_summary eager_iteration);
                s = s\<lparr>ts_recovery := after_decision r d (ts_recovery s)\<rparr>
            in if rd_action d = Halt then finish_turn (last_attempt s) d t (so_owners o') (blocked_metadata o') eager_iteration s
               else advance_turn d s)"
      unfolding Let_def r_def [symmetric] d_def [symmetric] using d s by simp
  qed
qed

theorem continuing_stop_hook_never_ends:
  "stands Prepare n (run_turn default_limits 1 (replicate n eager_iteration) (new_turn ms c))"
proof -
  have step: "stands Prepare (Suc k) (turn_iteration default_limits 1 eager_iteration s)" if "stands Prepare k s" for k s
    by (rule smooth_iteration [OF eager_smooth eager_model that]) (simp add: plain_result_def eager_stop [unfolded plain_result_def])
  have "stands Prepare (k + n) (run_turn default_limits 1 (replicate n eager_iteration) s)" if "stands Prepare k s" for k s
    using that
  proof (induction n arbitrary: k s)
    case (Suc n)
    then have "ts_phase s \<noteq> Terminal" by (simp add: stands_def)
    then show ?case using Suc.IH [OF step [OF Suc.prems]] by simp
  qed simp
  from this [of 0 "new_turn ms c"] show ?thesis by (simp add: stands_def new_turn_def)
qed

text \<open>An interrupt that arrives when the attempt is closed and before its tools start ends the turn, but as
  completed: its memory is persisted, and the call of the tool stays without a result.\<close>

definition called_attempt :: attempt_result where
  "called_attempt = \<lparr>ar_blocks = [Tool_Use_Block ''c1'' ''write'' []], ar_discarded = [], ar_tool_calls = [call_of ''c1'' ''write'' []],
     ar_terminal = no_terminal\<lparr>mt_stop_reason := Some ''tool_use''\<rparr>, ar_message_id = ''m1''\<rparr>"

definition late_interrupt :: iteration_env where
  "late_interrupt = (plain_iteration ''tool_use'')
     \<lparr>ie_model := Completed (Inr
        \<lparr>ms_message = \<lparr>rm_id = ''m1'', rm_role = Role_Assistant, rm_content = [Tool_Use_Block ''c1'' ''write'' []], rm_created_at = 0,
           rm_attachments = [], rm_metadata = []\<rparr>,
         ms_stop_reason = Some ''tool_use'', ms_usage = [], ms_request_id = None, ms_terminal = None\<rparr>),
      ie_abort_after := Some ''user''\<rparr>"

lemma late_model: "run_model late_interrupt = Inr called_attempt"
  by (simp add: run_model_def late_interrupt_def plain_iteration_def buffered_attempt_def terminal_from_response_def
      no_terminal_def text_else_def dict_else_def abort_at_close_def tool_calls_from_message_def called_attempt_def
      List.map_filter_def)

definition taken_for_completed :: "turn_state \<Rightarrow> bool" where
  "taken_for_completed s \<longleftrightarrow> (case ts_terminal s of None \<Rightarrow> False
     | Some te \<Rightarrow> te_reason te = End_Turn \<and> pe_persist_memory (te_post_effects te))"

lemma finish_completed:
  assumes "stands Recovery_Decision k s" "terminal_reason_from_recovery d = End_Turn"
  shows "ends_in taken_for_completed no_error (finish_turn a d t hooks extra e s)"
  using assms
  by (simp add: finish_turn_def Let_def stands_def set_turn_phase_def taken_for_completed_def yields_def
      turn_terminal_from_attempt_def post_effects_for_terminal_def terminal_completed_def)

lemma late_settle:
  assumes "last_attempt s = attempt_finished_from_terminal k (ar_terminal called_attempt) (ar_tool_calls called_attempt)"
  shows "terminal_reason_from_recovery (fst (settle limits late_interrupt False False s)) = End_Turn"
proof -
  define r where "r = normalize_attempt_outcome (last_attempt s) (pp_window_hints (ie_prepared late_interrupt)) False False"
  have "\<not> terminal_failure r \<and> ri_produced_tool_calls r \<and> ri_failure_class r = FC_None"
    using assms unfolding r_def
    by (simp add: py_get_def normalize_attempt_outcome_def attempt_finished_from_terminal_def no_terminal_def Let_def
        called_attempt_def late_interrupt_def plain_iteration_def terminal_failure_def interrupted_input_def outcome_class_def
        classify_with_hints_def window_hints_def failure_class_from_terminal_reason_def coerce_failure_class_def first_some_def)
  then show ?thesis
    by (simp add: settle_def Let_def r_def [symmetric] evaluate_recovery_def terminal_failure_def)
qed

theorem late_interrupt_taken_for_completed:
  "abort_at_tools late_interrupt = Some ''user'' \<and>
   taken_for_completed (turn_iteration default_limits 1 late_interrupt (new_turn ms c))"
proof
  show abort: "abort_at_tools late_interrupt = Some ''user''"
    by (simp add: abort_at_tools_def late_interrupt_def first_some_def)
  have smooth: "smooth late_interrupt" by (simp add: smooth_def late_interrupt_def plain_iteration_def)
  have start: "stands Prepare 0 (new_turn ms c)" by (simp add: stands_def new_turn_def)
  show "taken_for_completed (turn_iteration default_limits 1 late_interrupt (new_turn ms c))"
  proof (rule smooth_iteration [OF smooth late_model start])
    fix s assume s: "attempted called_attempt (Suc 0) s"
    let ?Q = "\<lambda>p s. stands p 1 s \<and> last_attempt s = attempt_finished_from_terminal 1 (ar_terminal called_attempt) (ar_tool_calls called_attempt)"
    have p: "ends_in (?Q q) no_error (set_turn_phase q s)" if "?Q p s" "q \<in> set (allowed_phases p)" "q \<noteq> p" for p q s
      using that by (auto simp: stands_def set_turn_phase_def last_attempt_def)
    have tools: "ends_in (?Q Replay_Tools) no_error (set_turn_phase Replay_Tools s)"
      using s by (intro p [where p = Stream_Attempt]) (auto simp: attempted_def)
    have "ends_in taken_for_completed no_error (stopped_tools default_limits late_interrupt False no_extra s)"
      if "?Q Replay_Tools s" for s
    proof -
      have "ends_in (?Q Recovery_Decision) no_error (set_turn_phase Recovery_Decision s)" using that by (rule p) simp_all
      then show ?thesis unfolding stopped_tools_def case_prod_beta
      proof (rule ends_goes_on)
        fix s assume s: "?Q Recovery_Decision s"
        have "stands Recovery_Decision 1 (snd (snd (settle default_limits late_interrupt False False s)))"
          using s by (simp add: settle_def Let_def)
        note finish_completed [OF this late_settle [OF conjunct2 [OF s]]]
        then show "ends_in taken_for_completed no_error (let p = settle default_limits late_interrupt False False s
           in finish_turn (last_attempt (snd (snd p))) (fst p) (fst (snd p)) [] no_extra late_interrupt (snd (snd p)))"
          unfolding Let_def .
      qed
    qed
    then have "ends_in taken_for_completed no_error (tools_stretch default_limits 1 late_interrupt s)"
      unfolding tools_stretch_def abort
      by (intro ends_goes_on [OF tools]) (simp add: abort_reason_allows_tool_finalize_def)
    then show "ends_in taken_for_completed no_error (if ar_tool_calls called_attempt = [] then stop_stretch default_limits late_interrupt s
       else tools_stretch default_limits 1 late_interrupt s)"
      by (simp add: called_attempt_def)
  qed
qed

end
