(* ===== verification/Turn_Stream_Props.thy ===== *)
theory Turn_Stream_Props
  imports Turn_Stream
begin

text \<open>
  Properties of a stream attempt: what is committed, which tool calls come of it, and that the executor is
  handed every call once and in order.
\<close>

fun calls_in :: "content_block list \<Rightarrow> tool_call list" where
  "calls_in [] = []"
| "calls_in (Tool_Use_Block i n inp # bs) = call_of i n inp # calls_in bs"
| "calls_in (b # bs) = calls_in bs"

lemma calls_in_append [simp]: "calls_in (xs @ ys) = calls_in xs @ calls_in ys"
  by (induction xs rule: calls_in.induct) auto

text \<open>One event adds blocks and the calls they hold, and touches nothing of what was there.\<close>

definition extends :: "attempt_state \<Rightarrow> attempt_state \<Rightarrow> bool" where
  "extends st st' \<longleftrightarrow> (\<exists>bs. as_blocks st' = as_blocks st @ bs \<and> as_tool_calls st' = as_tool_calls st @ calls_in bs \<and>
     as_new_tool_calls st' = as_new_tool_calls st @ calls_in bs)"

lemma extends_refl [simp]: "extends st st"
  by (simp add: extends_def exI [of _ "[]"])

lemma extends_trans: "extends a b \<Longrightarrow> extends b c \<Longrightarrow> extends a c"
  unfolding extends_def by force

lemma extends_same:
  "as_blocks st' = as_blocks st \<Longrightarrow> as_tool_calls st' = as_tool_calls st \<Longrightarrow> as_new_tool_calls st' = as_new_tool_calls st \<Longrightarrow>
   extends st st'"
  by (simp add: extends_def exI [of _ "[]"])

lemma extends_add_block: "extends st (add_block b st)"
  unfolding extends_def by (intro exI [of _ "[b]"]) (cases b; simp add: add_block_def)

lemma extends_finalize_pending: "extends st (fst (finalize_pending fresh st))"
proof -
  have "extends st ((add_block b st)\<lparr>as_pending := None\<rparr>)" for b
    by (rule extends_trans [OF extends_add_block extends_same]) simp_all
  then show ?thesis by (simp add: finalize_pending_def split: option.split sum.split)
qed

lemma extends_after:
  assumes "extends st (fst r)" "\<And>s. extends s (fst (f s))"
  shows "extends st (fst (after f r))"
  using assms by (auto simp: after_def split: option.split intro: extends_trans)

lemma extends_start_block: "extends st (fst (start_block fresh e st))"
  unfolding start_block_def
  by (rule extends_after [OF extends_finalize_pending]) (simp add: Let_def extends_same split: sum.split)

lemma extends_delta: "extends st (fst (apply_block_delta fresh e st))"
  by (simp add: apply_block_delta_def extends_start_block extends_same split: sum.split option.split)

lemma extends_legacy_text: "extends st (fst (append_legacy_text fresh e st))"
  by (auto simp: append_legacy_text_def Let_def extends_same split: option.split
      intro!: extends_after [OF extends_finalize_pending])

lemma extends_legacy_tool_call: "extends st (fst (append_legacy_tool_call fresh e st))"
  unfolding append_legacy_tool_call_def
  by (rule extends_after [OF extends_finalize_pending]) (simp add: Let_def extends_add_block split: option.split)

lemma merge_terminal_same [simp]:
  "as_blocks (merge_terminal_fields e st) = as_blocks st"
  "as_tool_calls (merge_terminal_fields e st) = as_tool_calls st"
  "as_new_tool_calls (merge_terminal_fields e st) = as_new_tool_calls st"
  "as_pending (merge_terminal_fields e st) = as_pending st"
  "as_message_stopped (merge_terminal_fields e st) = as_message_stopped st"
  "as_closed_at_stop (merge_terminal_fields e st) = as_closed_at_stop st"
  by (simp_all add: merge_terminal_fields_def merge_terminal_def Let_def split: option.split)

lemma extends_observe: "extends st (fst (observe fresh e st))"
proof -
  have m: "extends st (merge_terminal_fields e st)" by (rule extends_same) simp_all
  have s: "extends st (merge_terminal_fields e st\<lparr>as_message_stopped := a, as_closed_at_stop := b\<rparr>)" for a b
    by (rule extends_same) simp_all
  have x: "extends st (merge_terminal_fields e st\<lparr>as_error := a\<rparr>)" for a
    by (rule extends_same) simp_all
  show ?thesis
    using m extends_trans [OF m extends_start_block] extends_trans [OF m extends_delta] extends_trans [OF m extends_legacy_text]
      extends_trans [OF m extends_legacy_tool_call] extends_trans [OF m extends_finalize_pending]
      extends_trans [OF s extends_finalize_pending] x
    by (simp add: observe_def Let_def split: stream_event_type.split)
qed

subsection \<open>Tool calls\<close>

definition calls_ok :: "attempt_state \<Rightarrow> bool" where
  "calls_ok st \<longleftrightarrow> as_tool_calls st = calls_in (as_blocks st)"

lemma calls_ok_extends: "extends st st' \<Longrightarrow> calls_ok st \<Longrightarrow> calls_ok st'"
  by (auto simp: extends_def calls_ok_def)

lemma calls_ok_new [simp]: "calls_ok new_attempt"
  by (simp add: calls_ok_def new_attempt_def)

lemma drain_same [simp]:
  "as_blocks (snd (drain_new_tool_calls st)) = as_blocks st"
  "as_tool_calls (snd (drain_new_tool_calls st)) = as_tool_calls st"
  "as_new_tool_calls (snd (drain_new_tool_calls st)) = []"
  "as_closed_at_stop (snd (drain_new_tool_calls st)) = as_closed_at_stop st"
  "as_message_stopped (snd (drain_new_tool_calls st)) = as_message_stopped st"
  "as_pending (snd (drain_new_tool_calls st)) = as_pending st"
  "fst (drain_new_tool_calls st) = as_new_tool_calls st"
  by (simp_all add: drain_new_tool_calls_def)

lemma calls_ok_drain: "calls_ok (snd (drain_new_tool_calls st)) = calls_ok st"
  by (simp add: calls_ok_def)

definition grows :: "attempt_state \<Rightarrow> attempt_state \<Rightarrow> bool" where
  "grows st st' \<longleftrightarrow> (\<exists>bs. as_blocks st' = as_blocks st @ bs \<and> as_tool_calls st' = as_tool_calls st @ calls_in bs)"

lemma loop_grows_refl [simp]: "grows st st"
  by (simp add: grows_def exI [of _ "[]"])

lemma loop_grows_trans: "grows a b \<Longrightarrow> grows b c \<Longrightarrow> grows a c"
  unfolding grows_def by force

lemma grows_extends: "extends a b \<Longrightarrow> grows a b"
  unfolding grows_def extends_def by blast

text \<open>The state the loop goes on with after an event.\<close>

definition next_attempt :: "(nat \<Rightarrow> string) \<Rightarrow> bool \<Rightarrow> stream_event \<Rightarrow> attempt_state \<Rightarrow> attempt_state" where
  "next_attempt fresh ex e st =
     (let st1 = fst (observe fresh e st) in if ex then snd (drain_new_tool_calls st1) else st1)"

lemma loop_next:
  "snd (observe fresh e st) = None \<Longrightarrow>
   fst (stream_loop fresh ex (e # es) st) = fst (stream_loop fresh ex es (next_attempt fresh ex e st)) \<and>
   snd (snd (stream_loop fresh ex (e # es) st)) = snd (snd (stream_loop fresh ex es (next_attempt fresh ex e st)))"
  by (simp add: Let_def case_prod_beta next_attempt_def)

lemma loop_raised: "snd (observe fresh e st) = Some err \<Longrightarrow>
   stream_loop fresh ex (e # es) st = (fst (observe fresh e st), [], Some err)"
  by (simp add: case_prod_beta)

declare stream_loop.simps(2) [simp del]

lemma grows_next: "grows st (next_attempt fresh ex e st)"
proof -
  have "grows st (fst (observe fresh e st))" by (rule grows_extends [OF extends_observe])
  then show ?thesis by (simp add: next_attempt_def Let_def grows_def)
qed

lemma grows_loop: "grows st (fst (stream_loop fresh ex es st))"
proof (induction es arbitrary: st)
  case (Cons e es)
  show ?case
  proof (cases "snd (observe fresh e st)")
    case None
    then show ?thesis using loop_grows_trans [OF grows_next Cons.IH] loop_next by metis
  next
    case (Some a)
    then show ?thesis using grows_extends [OF extends_observe] by (simp add: loop_raised)
  qed
qed simp

lemma calls_ok_grows: "grows st st' \<Longrightarrow> calls_ok st \<Longrightarrow> calls_ok st'"
  by (auto simp: grows_def calls_ok_def)

lemma calls_ok_loop: "calls_ok st \<Longrightarrow> calls_ok (fst (stream_loop fresh ex es st))"
  using calls_ok_grows grows_loop by blast

text \<open>The flags of the end of the message stay once they are set.\<close>

lemma finalize_pending_flags [simp]:
  "as_closed_at_stop (fst (finalize_pending fresh st)) = as_closed_at_stop st"
  "as_message_stopped (fst (finalize_pending fresh st)) = as_message_stopped st"
  by (auto simp: finalize_pending_def add_block_def Let_def split: option.split sum.split content_block.split)

lemma after_flag:
  "(\<And>s. P (fst (f s)) = P s) \<Longrightarrow> P (fst r) = b \<Longrightarrow> P (fst (after f r)) = b"
  by (simp add: after_def split: option.split)

lemma start_block_flags [simp]:
  "as_closed_at_stop (fst (start_block fresh e st)) = as_closed_at_stop st"
  "as_message_stopped (fst (start_block fresh e st)) = as_message_stopped st"
  unfolding start_block_def by (rule after_flag; simp add: Let_def split: sum.split)+

lemma add_block_flags [simp]:
  "as_closed_at_stop (add_block b st) = as_closed_at_stop st"
  "as_message_stopped (add_block b st) = as_message_stopped st"
  by (simp_all add: add_block_def Let_def split: content_block.split)

lemma delta_flags [simp]:
  "as_closed_at_stop (fst (apply_block_delta fresh e st)) = as_closed_at_stop st"
  "as_message_stopped (fst (apply_block_delta fresh e st)) = as_message_stopped st"
  by (simp_all add: apply_block_delta_def split: sum.split option.split)

lemma legacy_text_flags [simp]:
  "as_closed_at_stop (fst (append_legacy_text fresh e st)) = as_closed_at_stop st"
  "as_message_stopped (fst (append_legacy_text fresh e st)) = as_message_stopped st"
  by (auto simp: append_legacy_text_def Let_def split: option.split intro!: after_flag [where P = as_closed_at_stop]
      after_flag [where P = as_message_stopped])

lemma legacy_call_flags [simp]:
  "as_closed_at_stop (fst (append_legacy_tool_call fresh e st)) = as_closed_at_stop st"
  "as_message_stopped (fst (append_legacy_tool_call fresh e st)) = as_message_stopped st"
  unfolding append_legacy_tool_call_def by (rule after_flag; simp add: Let_def split: option.split)+

lemma flags_observe:
  "as_closed_at_stop st \<Longrightarrow> as_closed_at_stop (fst (observe fresh e st))"
  "as_message_stopped st \<Longrightarrow> as_message_stopped (fst (observe fresh e st))"
  by (simp_all add: observe_def Let_def split: stream_event_type.split)

lemma flags_next:
  "as_closed_at_stop (fst (observe fresh e st)) \<Longrightarrow> as_closed_at_stop (next_attempt fresh ex e st)"
  by (simp add: next_attempt_def Let_def)

lemma closed_loop: "as_closed_at_stop st \<Longrightarrow> as_closed_at_stop (fst (stream_loop fresh ex es st))"
proof (induction es arbitrary: st)
  case (Cons e es)
  then show ?case
    using flags_observe(1) flags_next loop_next loop_raised by (cases "snd (observe fresh e st)") (simp, metis fst_conv)+
qed simp

subsection \<open>What the executor is handed\<close>

text \<open>Batches of calls read against all calls of the attempt from position \<open>k\<close> on: in order, each at its
  offset, none overlapping the one before.\<close>

fun batches_at :: "nat \<Rightarrow> tool_call list \<Rightarrow> (tool_call list \<times> nat) list \<Rightarrow> bool" where
  "batches_at k calls [] = True"
| "batches_at k calls ((b, n) # bs) =
     (k \<le> n \<and> b \<noteq> [] \<and> b = take (length b) (drop n calls) \<and> batches_at (n + length b) calls bs)"

lemma batches_at_mono: "batches_at k calls bs \<Longrightarrow> j \<le> k \<Longrightarrow> batches_at j calls bs"
  by (cases bs) auto

definition batch_of :: "stream_event \<Rightarrow> attempt_state \<Rightarrow> (tool_call list \<times> nat) list" where
  "batch_of e st = (let new = as_new_tool_calls st in
     if new \<noteq> [] \<and> \<not> closing_event e st then [(new, length (as_tool_calls st) - length new)] else [])"

lemma loop_handed:
  "snd (observe fresh e st) = None \<Longrightarrow>
   fst (snd (stream_loop fresh True (e # es) st)) =
     batch_of e (fst (observe fresh e st)) @ fst (snd (stream_loop fresh True es (next_attempt fresh True e st)))"
  by (simp add: stream_loop.simps(2) Let_def case_prod_beta next_attempt_def batch_of_def closing_event_def)

lemma handed_from:
  assumes "as_new_tool_calls st = []"
  shows "batches_at (length (as_tool_calls st)) (as_tool_calls (fst (stream_loop fresh True es st)))
           (fst (snd (stream_loop fresh True es st))) \<and>
         (snd (snd (stream_loop fresh True es st)) = None \<and> \<not> as_closed_at_stop (fst (stream_loop fresh True es st)) \<longrightarrow>
           as_tool_calls (fst (stream_loop fresh True es st)) =
             as_tool_calls st @ concat (map fst (fst (snd (stream_loop fresh True es st)))))"
  using assms
proof (induction es arbitrary: st)
  case (Cons e es)
  show ?case
  proof (cases "snd (observe fresh e st)")
    case None
    let ?o = "fst (observe fresh e st)" let ?n = "next_attempt fresh True e st"
    let ?r = "stream_loop fresh True es ?n"
    obtain bs where bs: "as_tool_calls ?o = as_tool_calls st @ calls_in bs" "as_new_tool_calls ?o = calls_in bs"
      using extends_observe [of st fresh e] Cons.prems unfolding extends_def by auto
    have n: "as_new_tool_calls ?n = []" "as_tool_calls ?n = as_tool_calls ?o" "as_closed_at_stop ?n = as_closed_at_stop ?o"
      by (simp_all add: next_attempt_def Let_def)
    note IH = Cons.IH [OF n(1)]
    obtain cs where cs: "as_tool_calls (fst ?r) = as_tool_calls ?n @ cs"
      using grows_loop [of ?n fresh True es] unfolding grows_def by blast
    have unclosed: "\<not> closing_event e ?o" if "\<not> as_closed_at_stop (fst ?r)"
      using that closed_loop [of ?n fresh True es] n(3) by (auto simp: closing_event_def)
    show ?thesis
      using IH loop_next [OF None, of True es] cs bs n(2) unclosed
      by (auto simp: loop_handed [OF None] batch_of_def Let_def intro: batches_at_mono)
  next
    case (Some a)
    then show ?thesis by (simp add: loop_raised)
  qed
qed simp

text \<open>C33: While a model streams, the executor is handed the tool calls in the order the model made them, each at
  most once and at its offset; when nothing raises and the message's end closes no open tool use, it is handed
  every call of the attempt, and these are exactly the tool uses among the attempt's blocks.\<close>

theorem stream_hands_calls_once:
  "batches_at 0 (calls_in (as_blocks (fst (stream_loop fresh True es new_attempt))))
     (fst (snd (stream_loop fresh True es new_attempt))) \<and>
   (snd (snd (stream_loop fresh True es new_attempt)) = None \<and>
      \<not> as_closed_at_stop (fst (stream_loop fresh True es new_attempt)) \<longrightarrow>
    concat (map fst (fst (snd (stream_loop fresh True es new_attempt)))) =
      calls_in (as_blocks (fst (stream_loop fresh True es new_attempt))))"
proof -
  have "as_new_tool_calls new_attempt = []" "as_tool_calls new_attempt = []" by (simp_all add: new_attempt_def)
  moreover have "as_tool_calls (fst (stream_loop fresh True es new_attempt)) =
      calls_in (as_blocks (fst (stream_loop fresh True es new_attempt)))"
    using calls_ok_loop [OF calls_ok_new] by (simp add: calls_ok_def)
  ultimately show ?thesis using handed_from [of new_attempt fresh es] by simp
qed

subsection \<open>Texts\<close>

fun block_text :: "content_block \<Rightarrow> string" where
  "block_text (Text_Block t) = t"
| "block_text (Thinking_Block t sg) = t"
| "block_text (Redacted_Thinking_Block (Some d)) = d"
| "block_text b = []"

definition block_texts :: "content_block list \<Rightarrow> string" where
  "block_texts bs = concat (map block_text bs)"

lemma block_texts_simps [simp]: "block_texts [] = []" "block_texts (b # bs) = block_text b @ block_texts bs"
  "block_texts (bs @ cs) = block_texts bs @ block_texts cs"
  by (simp_all add: block_texts_def)

definition textual :: "block_type \<Rightarrow> bool" where
  "textual t \<longleftrightarrow> t \<in> {BT_Text, BT_Thinking, BT_Redacted_Thinking}"

definition pending_text :: "pending_block option \<Rightarrow> string" where
  "pending_text p = (case p of None \<Rightarrow> [] | Some b \<Rightarrow> if textual (pb_type b) then pb_text b else [])"

definition stream_text :: "attempt_state \<Rightarrow> string" where
  "stream_text st = block_texts (as_blocks st) @ pending_text (as_pending st)"

text \<open>The text an event brings.\<close>

definition typed_text :: "stream_event \<Rightarrow> string" where
  "typed_text e = (case event_block_type e of Inl err \<Rightarrow> [] | Inr t \<Rightarrow> if textual t then payload_text (se_payload e) else [])"

definition event_text :: "stream_event \<Rightarrow> string" where
  "event_text e =
     (if se_type e \<in> {Content_Block_Start, Content_Block_Delta} then typed_text e
      else if se_type e = Content_Delta then
        (case string_value (py_get (se_payload e) ''text'') of None \<Rightarrow> [] | Some s \<Rightarrow> s)
      else [])"

lemma to_block_text: "to_block u p = Inr b \<Longrightarrow> block_text b = pending_text (Some p)"
  by (auto simp: to_block_def pending_text_def textual_def split: block_type.splits)

lemma add_block_simps [simp]: "as_blocks (add_block b st) = as_blocks st @ [b]" "as_pending (add_block b st) = as_pending st"
  by (simp_all add: add_block_def Let_def split: content_block.split)

lemma finalize_pending_ok:
  "snd (finalize_pending fresh st) = None \<Longrightarrow>
   stream_text (fst (finalize_pending fresh st)) = stream_text st \<and> as_pending (fst (finalize_pending fresh st)) = None"
  by (auto simp: finalize_pending_def stream_text_def pending_text_def [of None] to_block_text split: option.splits sum.splits)

lemma finalize_pending_blocks:
  "snd (finalize_pending fresh st) = None \<Longrightarrow> block_texts (as_blocks (fst (finalize_pending fresh st))) = stream_text st"
  using finalize_pending_ok [of fresh st] by (auto simp: stream_text_def pending_text_def [of None])

lemma after_ok: "snd (after f r) = None \<Longrightarrow> snd r = None \<and> after f r = f (fst r)"
  by (auto simp: after_def split: option.splits)

lemma after_finalize_text:
  assumes "snd (after f (finalize_pending fresh st)) = None"
    and "\<And>s. as_pending s = None \<Longrightarrow> snd (f s) = None \<Longrightarrow> stream_text (fst (f s)) = block_texts (as_blocks s) @ t"
  shows "stream_text (fst (after f (finalize_pending fresh st))) = stream_text st @ t"
proof -
  note ok = after_ok [OF assms(1)]
  have "snd (f (fst (finalize_pending fresh st))) = None" using ok assms(1) by simp
  then show ?thesis
    using ok assms(2) [of "fst (finalize_pending fresh st)"] finalize_pending_ok [of fresh st] finalize_pending_blocks [of fresh st]
    by simp
qed

lemma start_block_text:
  assumes "snd (start_block fresh e st) = None"
  shows "stream_text (fst (start_block fresh e st)) = stream_text st @ typed_text e"
  using assms unfolding start_block_def
  by (rule after_finalize_text) (auto simp: stream_text_def pending_text_def typed_text_def Let_def split: sum.splits)

lemma delta_text:
  assumes "snd (apply_block_delta fresh e st) = None"
  shows "stream_text (fst (apply_block_delta fresh e st)) = stream_text st @ typed_text e"
proof -
  obtain t where t: "event_block_type e = Inr t"
    using assms by (auto simp: apply_block_delta_def split: sum.splits)
  show ?thesis
  proof (cases "\<exists>b. as_pending st = Some b \<and> pb_type b = t")
    case True
    then show ?thesis using t
      by (auto simp: apply_block_delta_def stream_text_def pending_text_def typed_text_def extend_pending_def textual_def)
  next
    case False
    then have "apply_block_delta fresh e st = start_block fresh e st"
      using t by (auto simp: apply_block_delta_def split: option.split)
    then show ?thesis using assms start_block_text by simp
  qed
qed

lemma legacy_text_text:
  assumes "snd (append_legacy_text fresh e st) = None"
  shows "stream_text (fst (append_legacy_text fresh e st)) = stream_text st @
    (case string_value (py_get (se_payload e) ''text'') of None \<Rightarrow> [] | Some s \<Rightarrow> s)"
proof -
  let ?t = "case string_value (py_get (se_payload e) ''text'') of None \<Rightarrow> [] | Some s \<Rightarrow> s"
  let ?f = "\<lambda>st. (st\<lparr>as_pending := Some (empty_text_block\<lparr>pb_text := ?t\<rparr>)\<rparr>, None :: stream_error option)"
  show ?thesis
  proof (cases "?t \<noteq> [] \<and> (\<exists>b. as_pending st = Some b \<and> pb_type b \<noteq> BT_Text)")
    case True
    then have e: "append_legacy_text fresh e st = after ?f (finalize_pending fresh st)"
      by (auto simp: append_legacy_text_def Let_def)
    show ?thesis using assms unfolding e
      by (rule after_finalize_text) (simp add: stream_text_def pending_text_def textual_def empty_text_block_def)
  next
    case False
    then show ?thesis
      by (auto simp: append_legacy_text_def Let_def stream_text_def pending_text_def textual_def empty_text_block_def
          split: option.split)
  qed
qed

lemma legacy_call_text:
  assumes "snd (append_legacy_tool_call fresh e st) = None"
  shows "stream_text (fst (append_legacy_tool_call fresh e st)) = stream_text st"
  using after_finalize_text [OF assms [unfolded append_legacy_tool_call_def], of "[]"]
  by (simp add: append_legacy_tool_call_def stream_text_def pending_text_def [of None] Let_def split: option.split)

lemma stream_text_merge [simp]: "stream_text (merge_terminal_fields e st) = stream_text st"
  by (simp add: stream_text_def)

lemma stream_text_flags [simp]:
  "stream_text (st\<lparr>as_message_stopped := a, as_closed_at_stop := b\<rparr>) = stream_text st"
  "stream_text (st\<lparr>as_error := x\<rparr>) = stream_text st"
  by (simp_all add: stream_text_def)

lemma observe_text:
  assumes "snd (observe fresh e st) = None"
  shows "stream_text (fst (observe fresh e st)) = stream_text st @ event_text e"
  using assms start_block_text [of fresh e] delta_text [of fresh e] legacy_text_text [of fresh e] legacy_call_text [of fresh e]
    finalize_pending_ok [of fresh]
  by (cases "se_type e") (simp_all add: observe_def event_text_def Let_def)

lemma next_text: "snd (observe fresh e st) = None \<Longrightarrow> stream_text (next_attempt fresh ex e st) = stream_text st @ event_text e"
  using observe_text [of fresh e st] by (simp add: next_attempt_def Let_def stream_text_def)

lemma loop_text:
  "snd (snd (stream_loop fresh ex es st)) = None \<Longrightarrow>
   stream_text (fst (stream_loop fresh ex es st)) = stream_text st @ concat (map event_text es)"
proof (induction es arbitrary: st)
  case (Cons e es)
  then have "snd (observe fresh e st) = None"
    by (cases "snd (observe fresh e st)") (simp_all add: loop_raised)
  then show ?case using Cons loop_next [of fresh e st ex es] by (simp add: next_text)
qed simp

subsection \<open>All or nothing\<close>

lemma observe_stopped: "as_message_stopped (fst (observe fresh e st)) = (as_message_stopped st \<or> se_type e = Message_Stop)"
  by (cases "se_type e") (simp_all add: observe_def Let_def)

lemma loop_stopped:
  "snd (snd (stream_loop fresh ex es st)) = None \<Longrightarrow>
   as_message_stopped (fst (stream_loop fresh ex es st)) = (as_message_stopped st \<or> Message_Stop \<in> set (map se_type es))"
proof (induction es arbitrary: st)
  case (Cons e es)
  then have n: "snd (observe fresh e st) = None"
    by (cases "snd (observe fresh e st)") (simp_all add: loop_raised)
  have "as_message_stopped (next_attempt fresh ex e st) = (as_message_stopped st \<or> se_type e = Message_Stop)"
    using observe_stopped [of fresh e st] by (simp add: next_attempt_def Let_def)
  then show ?case using Cons loop_next [OF n, of ex es] by auto
qed simp

lemma loop_last_stop:
  "snd (snd (stream_loop fresh ex es st)) = None \<Longrightarrow> es \<noteq> [] \<Longrightarrow> se_type (last es) = Message_Stop \<Longrightarrow>
   as_pending (fst (stream_loop fresh ex es st)) = None"
proof (induction es arbitrary: st)
  case (Cons e es)
  then have n: "snd (observe fresh e st) = None"
    by (cases "snd (observe fresh e st)") (simp_all add: loop_raised)
  show ?case
  proof (cases es)
    case Nil
    then have "as_pending (fst (observe fresh e st)) = None"
      using n Cons.prems finalize_pending_ok by (simp add: observe_def Let_def)
    then show ?thesis using Nil loop_next [OF n, of ex es] by (simp add: next_attempt_def Let_def)
  next
    case (Cons a as)
    then show ?thesis using Cons.IH [of "next_attempt fresh ex e st"] Cons.prems loop_next [OF n, of ex es] by simp
  qed
qed simp

lemma attempt_parts:
  assumes "snd (snd (stream_loop fresh ex es new_attempt)) = None"
    and "finalize_attempt fresh abort preserve (fst (stream_loop fresh ex es new_attempt)) = Inr z"
  shows "fz_tool_calls z = calls_in (fz_committed z)"
    and "es \<noteq> [] \<and> se_type (last es) = Message_Stop \<longrightarrow>
      fz_discarded z = [] \<and> block_texts (fz_committed z) = concat (map event_text es)"
    and "Message_Stop \<notin> set (map se_type es) \<and> \<not> preserve \<longrightarrow>
      fz_committed z = [] \<and> block_texts (fz_discarded z) = concat (map event_text es)"
proof -
  let ?st = "fst (stream_loop fresh ex es new_attempt)"
  have calls: "as_tool_calls ?st = calls_in (as_blocks ?st)"
    using calls_ok_loop [OF calls_ok_new] by (simp add: calls_ok_def)
  have texts: "stream_text ?st = concat (map event_text es)"
    using loop_text [OF assms(1)] by (simp add: stream_text_def pending_text_def new_attempt_def)
  have stopped: "as_message_stopped ?st = (Message_Stop \<in> set (map se_type es))"
    using loop_stopped [OF assms(1)] by (simp add: new_attempt_def)
  have dropped: "block_texts bs = pending_text (as_pending ?st)" if "discard_pending fresh ?st = Inr bs" for bs
    using that by (auto simp: discard_pending_def rbind_def to_block_text pending_text_def [of None] split: option.splits sum.splits)
  show "fz_tool_calls z = calls_in (fz_committed z)"
    using assms(2) calls by (auto simp: finalize_attempt_def Let_def rbind_def split: if_splits sum.splits)
  show "es \<noteq> [] \<and> se_type (last es) = Message_Stop \<longrightarrow>
      fz_discarded z = [] \<and> block_texts (fz_committed z) = concat (map event_text es)"
  proof
    assume es: "es \<noteq> [] \<and> se_type (last es) = Message_Stop"
    then have "as_pending ?st = None" using loop_last_stop [OF assms(1)] by blast
    moreover have "Message_Stop \<in> set (map se_type es)" using es by (metis last_in_set list.set_map imageI)
    ultimately show "fz_discarded z = [] \<and> block_texts (fz_committed z) = concat (map event_text es)"
      using assms(2) stopped texts by (auto simp: finalize_attempt_def Let_def stream_text_def pending_text_def)
  qed
  show "Message_Stop \<notin> set (map se_type es) \<and> \<not> preserve \<longrightarrow>
      fz_committed z = [] \<and> block_texts (fz_discarded z) = concat (map event_text es)"
    using assms(2) stopped texts dropped
    by (auto simp: finalize_attempt_def Let_def rbind_def stream_text_def split: sum.splits)
qed

text \<open>C10: An attempt commits all or nothing: when the stream ends with the end of the message every block is
  committed and the texts of the blocks are exactly what the events brought, in order; when the message's end
  never came, and no failing tool asks for what was observed, nothing is committed and all of it is discarded.
  Either way the tool calls are those of the committed blocks.\<close>

theorem attempt_all_or_nothing:
  assumes "snd (snd (stream_loop fresh ex es new_attempt)) = None"
    and "finalize_attempt fresh abort preserve (fst (stream_loop fresh ex es new_attempt)) = Inr z"
  shows "fz_tool_calls z = calls_in (fz_committed z) \<and>
    (es \<noteq> [] \<and> se_type (last es) = Message_Stop \<longrightarrow>
      fz_discarded z = [] \<and> block_texts (fz_committed z) = concat (map event_text es)) \<and>
    (Message_Stop \<notin> set (map se_type es) \<and> \<not> preserve \<longrightarrow>
      fz_committed z = [] \<and> block_texts (fz_discarded z) = concat (map event_text es))"
  using attempt_parts [OF assms] by blast

subsection \<open>Instances\<close>

definition stream_event_of :: "stream_event_type \<Rightarrow> (string, pyval) dict \<Rightarrow> stream_event" where
  "stream_event_of t p = \<lparr>se_type = t, se_payload = p, se_block_id = None, se_block_type = None, se_terminal = None\<rparr>"

definition demo_stream :: "stream_event list" where
  "demo_stream =
     [stream_event_of Message_Start [],
      stream_event_of Content_Block_Start [(''type'', PStr ''text''), (''text'', PStr ''Let me '')],
      stream_event_of Content_Block_Delta [(''type'', PStr ''text''), (''delta'', PStr ''look.'')],
      stream_event_of Content_Block_Start [(''type'', PStr ''tool_use''), (''name'', PStr ''read''), (''block_id'', PStr ''c1'')],
      stream_event_of Content_Block_Delta [(''type'', PStr ''tool_use''), (''input'', PDict [(''path'', PStr ''a'')])],
      stream_event_of Content_Block_Stop [],
      stream_event_of Message_Stop [(''stop_reason'', PStr ''tool_use'')]]"

theorem attempt_all_or_nothing_witness:
  "block_texts (fz_committed (projr (finalize_attempt (\<lambda>n. ''u'') None False
      (fst (stream_loop (\<lambda>n. ''u'') True demo_stream new_attempt))))) = ''Let me look.''"
proof -
  let ?r = "finalize_attempt (\<lambda>n. ''u'') None False (fst (stream_loop (\<lambda>n. ''u'') True demo_stream new_attempt))"
  have a: "snd (snd (stream_loop (\<lambda>n. ''u'') True demo_stream new_attempt)) = None" by code_simp
  have b: "?r = Inr (projr ?r)" by code_simp
  have c: "demo_stream \<noteq> [] \<and> se_type (last demo_stream) = Message_Stop" by code_simp
  have d: "concat (map event_text demo_stream) = ''Let me look.''" by code_simp
  show ?thesis using attempt_all_or_nothing [OF a b] c d by simp
qed

text \<open>\<open>stream_hands_calls_once\<close> on that stream: one batch with the call, at offset 0.\<close>

theorem stream_hands_calls_once_witness:
  "concat (map fst (fst (snd (stream_loop (\<lambda>n. ''u'') True demo_stream new_attempt)))) =
     [call_of ''c1'' ''read'' [(''path'', PStr ''a'')]]"
proof -
  let ?l = "stream_loop (\<lambda>n. ''u'') True demo_stream new_attempt"
  have "snd (snd ?l) = None" "\<not> as_closed_at_stop (fst ?l)"
    "calls_in (as_blocks (fst ?l)) = [call_of ''c1'' ''read'' [(''path'', PStr ''a'')]]" by code_simp+
  then show ?thesis using stream_hands_calls_once [of "\<lambda>n. ''u''" demo_stream] by simp
qed

end
