(* ===== verification/Message_Protocol_Props.thy ===== *)
theory Message_Protocol_Props
  imports Message_Protocol
begin

text \<open>
  Properties of the conversation a model is sent: every result answers an earlier use, every use has its
  result, roles alternate, and no text is lost.
\<close>

subsection \<open>Traces\<close>

type_synonym trace = "(message_role \<times> content_block) list"

definition message_trace :: "runtime_message \<Rightarrow> trace" where
  "message_trace m = map (Pair (rm_role m)) (rm_content m)"

definition trace_of :: "runtime_message list \<Rightarrow> trace" where
  "trace_of ms = concat (map message_trace ms)"

lemma trace_of_simps [simp]: "trace_of [] = []" "trace_of (m # ms) = message_trace m @ trace_of ms"
  "trace_of (xs @ ys) = trace_of xs @ trace_of ys"
  by (simp_all add: trace_of_def)

fun result_ids :: "trace \<Rightarrow> string list" where
  "result_ids [] = []"
| "result_ids ((r, Tool_Result_Block i c e) # tr) = i # result_ids tr"
| "result_ids (x # tr) = result_ids tr"

fun use_ids :: "trace \<Rightarrow> string list" where
  "use_ids [] = []"
| "use_ids ((r, Tool_Use_Block i n inp) # tr) = i # use_ids tr"
| "use_ids (x # tr) = use_ids tr"

text \<open>Every result stands in a user message and answers a use of an assistant message before it.\<close>

fun results_answer :: "string list \<Rightarrow> trace \<Rightarrow> bool" where
  "results_answer seen [] = True"
| "results_answer seen ((r, b) # tr) =
     (case b of
        Tool_Use_Block i n inp \<Rightarrow> results_answer (if r = Role_Assistant then i # seen else seen) tr
      | Tool_Result_Block i c e \<Rightarrow> r = Role_User \<and> i \<in> set seen \<and> results_answer seen tr
      | _ \<Rightarrow> results_answer seen tr)"

definition well_paired :: "trace \<Rightarrow> bool" where
  "well_paired tr \<longleftrightarrow> distinct (result_ids tr) \<and> list_all (\<lambda>i. i \<in> set (result_ids tr)) (use_ids tr) \<and> results_answer [] tr"

subsection \<open>Positions\<close>

definition positions_from :: "nat \<Rightarrow> runtime_message list \<Rightarrow> placed list" where
  "positions_from k ms = concat (map (\<lambda>(i, m). placed_blocks i m) (enumerate k ms))"

lemma positions_from_simps [simp]: "positions_from k [] = []"
  "positions_from k (m # ms) = placed_blocks k m @ positions_from (Suc k) ms"
  by (simp_all add: positions_from_def)

lemma positions_0: "positions ms = positions_from 0 ms"
  by (simp add: positions_def positions_from_def)

lemma map_snd_placed: "map snd (placed_blocks i m) = message_trace m"
  by (simp add: placed_blocks_def message_trace_def comp_def case_prod_beta)
    (simp add: map_map [symmetric, unfolded comp_def])

lemma map_snd_positions: "map snd (positions_from k ms) = trace_of ms"
  by (induction ms arbitrary: k) (simp_all add: map_snd_placed)

lemma fst_placed: "fst (fst x) = i" if "x \<in> set (placed_blocks i m)"
  using that by (auto simp: placed_blocks_def)

lemma fst_positions: "k \<le> fst (fst x)" if "x \<in> set (positions_from k ms)"
  using that by (induction ms arbitrary: k) (auto dest: fst_placed Suc_leD)

lemma distinct_placed: "distinct (map fst (placed_blocks i m))"
proof -
  have "map fst (placed_blocks i m) = map (Pair i) (map fst (enumerate 0 (rm_content m)))"
    by (rule nth_equalityI) (simp_all add: placed_blocks_def case_prod_beta nth_enumerate_eq)
  then show ?thesis by (simp add: distinct_map inj_on_def)
qed

lemma distinct_positions: "distinct (map fst (positions_from k ms))"
proof (induction ms arbitrary: k)
  case (Cons m ms)
  have "set (map fst (placed_blocks k m)) \<inter> set (map fst (positions_from (Suc k) ms)) = {}"
    using fst_placed [of _ k m] fst_positions [of _ "Suc k" ms] by force
  then show ?case using Cons by (simp add: distinct_placed)
qed simp

subsection \<open>The first pass\<close>

lemma pair_step_grows:
  "\<exists>ms vs. pr_matched (pair_step x p) = pr_matched p @ ms \<and> pr_valid (pair_step x p) = pr_valid p @ vs \<and>
     set vs \<subseteq> {fst x} \<and> set (pr_pending p) \<subseteq> set (pr_pending (pair_step x p))"
  by (cases x; cases "snd (snd x)") (auto simp: pair_step_def)

lemma fold_pair_grows:
  "\<exists>ms vs. pr_matched (fold pair_step xs p) = pr_matched p @ ms \<and> pr_valid (fold pair_step xs p) = pr_valid p @ vs \<and>
     set vs \<subseteq> fst ` set xs"
proof (induction xs arbitrary: p)
  case (Cons x xs)
  then obtain ms vs where "pr_matched (fold pair_step xs (pair_step x p)) = pr_matched (pair_step x p) @ ms"
    "pr_valid (fold pair_step xs (pair_step x p)) = pr_valid (pair_step x p) @ vs" "set vs \<subseteq> fst ` set xs" by blast
  moreover obtain ns us where "pr_matched (pair_step x p) = pr_matched p @ ns" "pr_valid (pair_step x p) = pr_valid p @ us"
    "set us \<subseteq> {fst x}" using pair_step_grows by blast
  ultimately show ?case by (intro exI [of _ "ns @ ms"] exI [of _ "us @ vs"]) auto
qed simp

lemma distinct_matched: "distinct (pr_matched p) \<Longrightarrow> distinct (pr_matched (fold pair_step xs p))"
proof (induction xs arbitrary: p)
  case (Cons x xs)
  have "distinct (pr_matched (pair_step x p))"
    using Cons.prems by (cases x; cases "snd (snd x)") (auto simp: pair_step_def)
  then show ?case using Cons.IH by simp
qed simp

definition kept_item :: "pairing \<Rightarrow> placed \<Rightarrow> bool" where
  "kept_item p x = kept p (fst x) (snd (snd x))"

lemma kept_item_simps [simp]:
  "kept_item p (pos, r, Tool_Use_Block i n inp) \<longleftrightarrow> i \<in> set (pr_matched p)"
  "kept_item p (pos, r, Tool_Result_Block i c e) \<longleftrightarrow> pos \<in> set (pr_valid p)"
  "kept_item p (pos, r, Text_Block t)" "kept_item p (pos, r, Thinking_Block u sg)" "kept_item p (pos, r, Redacted_Thinking_Block d)"
  by (simp_all add: kept_item_def kept_def)

lemma pair_step_simps [simp]:
  "pair_step (pos, r, Tool_Use_Block i n inp) q = (if r = Role_Assistant then q\<lparr>pr_pending := pr_pending q @ [i]\<rparr> else q)"
  "pair_step (pos, r, Tool_Result_Block i c e) q =
     (if r = Role_User \<and> i \<in> set (pr_pending q) \<and> i \<notin> set (pr_matched q)
      then q\<lparr>pr_matched := pr_matched q @ [i], pr_valid := pr_valid q @ [pos]\<rparr> else q)"
  "pair_step (pos, r, Text_Block t) q = q" "pair_step (pos, r, Thinking_Block u sg) q = q"
  "pair_step (pos, r, Redacted_Thinking_Block d) q = q"
  by (simp_all add: pair_step_def)

text \<open>A result at a fresh position counts in the end just when the step at it makes it count.\<close>

lemma result_step:
  assumes "distinct (map fst (x # xs))" "fst x \<notin> set (pr_valid q)" "x = (pos, r, Tool_Result_Block i c e)"
    and "p = fold pair_step (x # xs) q"
  shows "pos \<in> set (pr_valid p) \<longleftrightarrow> r = Role_User \<and> i \<in> set (pr_pending q) \<and> i \<notin> set (pr_matched q)"
proof -
  obtain vs where vs: "pr_valid p = pr_valid (pair_step x q) @ vs" "set vs \<subseteq> fst ` set xs"
    using fold_pair_grows [of xs "pair_step x q"] assms(4) by auto
  have "pos \<notin> set vs" using assms vs(2) by auto
  then show ?thesis using assms vs(1) by (auto simp: pair_step_def)
qed

lemma step_disjoint:
  assumes "distinct (map fst (x # xs))" "fst ` set (x # xs) \<inter> set (pr_valid q) = {}"
  shows "fst ` set xs \<inter> set (pr_valid (pair_step x q)) = {}"
proof -
  obtain vs where "pr_valid (pair_step x q) = pr_valid q @ vs" "set vs \<subseteq> {fst x}" using pair_step_grows by blast
  moreover have "fst x \<notin> fst ` set xs" "fst ` set xs \<inter> set (pr_valid q) = {}" using assms by auto
  ultimately show ?thesis by (metis Int_Un_distrib Int_empty_right Int_insert_right_if0 set_append subset_singletonD sup_bot.right_neutral)
qed

lemma pass_results:
  assumes "distinct (map fst xs)" "fst ` set xs \<inter> set (pr_valid q) = {}" "p = fold pair_step xs q"
  shows "pr_matched p = pr_matched q @ result_ids (map snd (filter (kept_item p) xs))"
  using assms
proof (induction xs arbitrary: q)
  case (Cons x xs)
  obtain pos r b where x: "x = (pos, r, b)" by (cases x) auto
  have step: "fst ` set xs \<inter> set (pr_valid (pair_step x q)) = {}"
    using step_disjoint Cons.prems(1,2) .
  have IH: "pr_matched p = pr_matched (pair_step x q) @ result_ids (map snd (filter (kept_item p) xs))"
    using Cons.IH [OF _ step] Cons.prems by simp
  show ?case
  proof (cases b)
    case (Tool_Result_Block i c e)
    have "pos \<in> set (pr_valid p) \<longleftrightarrow> r = Role_User \<and> i \<in> set (pr_pending q) \<and> i \<notin> set (pr_matched q)"
      by (rule result_step) (use Cons.prems x Tool_Result_Block in auto)
    then show ?thesis using IH by (simp add: x Tool_Result_Block)
  qed (use IH in \<open>simp_all add: x\<close>)
qed simp

lemma pass_answers:
  assumes "distinct (map fst xs)" "fst ` set xs \<inter> set (pr_valid q) = {}" "p = fold pair_step xs q"
    and "set (pr_pending q) \<inter> set (pr_matched p) \<subseteq> set seen"
  shows "results_answer seen (map snd (filter (kept_item p) xs))"
  using assms
proof (induction xs arbitrary: q seen)
  case (Cons x xs)
  obtain pos r b where x: "x = (pos, r, b)" by (cases x) auto
  have step: "fst ` set xs \<inter> set (pr_valid (pair_step x q)) = {}"
    using step_disjoint Cons.prems(1,2) .
  have IH: "set (pr_pending (pair_step x q)) \<inter> set (pr_matched p) \<subseteq> set seen' \<Longrightarrow>
      results_answer seen' (map snd (filter (kept_item p) xs))" for seen'
    using Cons.IH [OF _ step] Cons.prems by simp
  show ?case
  proof (cases b)
    case (Tool_Result_Block i c e)
    have v: "pos \<in> set (pr_valid p) \<longleftrightarrow> r = Role_User \<and> i \<in> set (pr_pending q) \<and> i \<notin> set (pr_matched q)"
      by (rule result_step) (use Cons.prems x Tool_Result_Block in auto)
    have "i \<in> set (pr_matched p)" if "pos \<in> set (pr_valid p)"
    proof -
      have "i \<in> set (pr_matched (pair_step x q))" using that v by (simp add: x Tool_Result_Block)
      then show ?thesis using fold_pair_grows [of xs "pair_step x q"] Cons.prems(3) by auto
    qed
    then have "results_answer seen (map snd (filter (kept_item p) xs))"
      "pos \<in> set (pr_valid p) \<Longrightarrow> r = Role_User \<and> i \<in> set seen"
      using v IH [of seen] Cons.prems(4) by (auto simp: x Tool_Result_Block split: if_splits)
    then show ?thesis by (simp add: x Tool_Result_Block)
  next
    case (Tool_Use_Block i n inp)
    have "results_answer (if kept_item p x \<and> r = Role_Assistant then i # seen else seen) (map snd (filter (kept_item p) xs))"
      by (rule IH) (use Cons.prems(4) in \<open>auto simp: x Tool_Use_Block split: if_splits\<close>)
    then show ?thesis by (cases "kept_item p x \<and> r = Role_Assistant") (auto simp: x Tool_Use_Block)
  qed (use IH [of seen] Cons.prems(4) in \<open>simp_all add: x\<close>)
qed simp

lemma kept_uses: "list_all (\<lambda>i. i \<in> set (pr_matched p)) (use_ids (map snd (filter (kept_item p) xs)))"
proof (induction xs)
  case (Cons x xs)
  then show ?case by (cases x; cases "snd (snd x)") simp_all
qed simp

lemma pass_pairs:
  assumes "distinct (map fst xs)"
  shows "well_paired (map snd (filter (kept_item (fold pair_step xs no_pairing)) xs))"
proof -
  have "pr_matched (fold pair_step xs no_pairing) = result_ids (map snd (filter (kept_item (fold pair_step xs no_pairing)) xs))"
    using pass_results [OF assms, of no_pairing] by (simp add: no_pairing_def)
  moreover have "distinct (pr_matched (fold pair_step xs no_pairing))"
    by (rule distinct_matched) (simp add: no_pairing_def)
  moreover have "results_answer [] (map snd (filter (kept_item (fold pair_step xs no_pairing)) xs))"
    by (rule pass_answers [OF assms _ refl]) (simp_all add: no_pairing_def)
  ultimately show ?thesis using kept_uses [of "fold pair_step xs no_pairing" xs] by (simp add: well_paired_def)
qed

subsection \<open>The second pass\<close>

lemma trace_drop_empty [simp]: "trace_of (filter (\<lambda>m. rm_content m \<noteq> []) ms) = trace_of ms"
  by (induction ms) (auto simp: message_trace_def)

lemma trace_repaired:
  "message_trace (m\<lparr>rm_content := repaired_content p i m\<rparr>) = map snd (filter (kept_item p) (placed_blocks i m))"
proof -
  have "map snd (filter (kept_item p) (map (\<lambda>(j, b). ((i, j), r, b)) ys)) = map (Pair r) (map snd (filter (\<lambda>(j, b). kept p (i, j) b) ys))"
    for r ys by (induction ys) (auto simp: kept_item_def)
  then show ?thesis by (simp add: message_trace_def repaired_content_def placed_blocks_def)
qed

lemma trace_repaired_all:
  "trace_of (map (\<lambda>(i, m). m\<lparr>rm_content := repaired_content p i m\<rparr>) (enumerate k ms)) =
   map snd (filter (kept_item p) (positions_from k ms))"
  by (induction ms arbitrary: k) (simp_all add: trace_repaired)

lemma ensure_well_paired: "well_paired (trace_of (ensure_tool_result_pairing ms))"
  using pass_pairs [OF distinct_positions [of 0 ms]]
  by (simp add: ensure_tool_result_pairing_def trace_repaired_all pairing_of_def positions_0)

subsection \<open>A paired conversation is left as it is\<close>

lemma pass_keeps:
  assumes "distinct (map fst xs)" "fst ` set xs \<inter> set (pr_valid q) = {}" "p = fold pair_step xs q"
    and "results_answer seen (map snd xs)" "set seen \<subseteq> set (pr_pending q)"
    and "distinct (result_ids (map snd xs))" "set (result_ids (map snd xs)) \<inter> set (pr_matched q) = {}"
  shows "list_all (\<lambda>x. case snd (snd x) of Tool_Result_Block i c e \<Rightarrow> fst x \<in> set (pr_valid p) | _ \<Rightarrow> True) xs \<and>
    set (result_ids (map snd xs)) \<subseteq> set (pr_matched p)"
  using assms
proof (induction xs arbitrary: q seen)
  case (Cons x xs)
  obtain pos r b where x: "x = (pos, r, b)" by (cases x) auto
  have step: "fst ` set xs \<inter> set (pr_valid (pair_step x q)) = {}"
    using step_disjoint Cons.prems(1,2) .
  have sub: "set (pr_matched (pair_step x q)) \<subseteq> set (pr_matched p)"
    using fold_pair_grows [of xs "pair_step x q"] Cons.prems(3) by auto
  have IH: "results_answer seen' (map snd xs) \<Longrightarrow> set seen' \<subseteq> set (pr_pending (pair_step x q)) \<Longrightarrow>
      distinct (result_ids (map snd xs)) \<Longrightarrow> set (result_ids (map snd xs)) \<inter> set (pr_matched (pair_step x q)) = {} \<Longrightarrow>
      list_all (\<lambda>x. case snd (snd x) of Tool_Result_Block i c e \<Rightarrow> fst x \<in> set (pr_valid p) | _ \<Rightarrow> True) xs \<and>
      set (result_ids (map snd xs)) \<subseteq> set (pr_matched p)" for seen'
    using Cons.IH [OF _ step] Cons.prems by simp
  show ?case
  proof (cases b)
    case (Tool_Result_Block i c e)
    have v: "pos \<in> set (pr_valid p) \<longleftrightarrow> r = Role_User \<and> i \<in> set (pr_pending q) \<and> i \<notin> set (pr_matched q)"
      by (rule result_step) (use Cons.prems x Tool_Result_Block in auto)
    have ok: "r = Role_User" "i \<in> set (pr_pending q)" "i \<notin> set (pr_matched q)" "results_answer seen (map snd xs)"
      using Cons.prems by (auto simp: x Tool_Result_Block)
    have m: "pr_matched (pair_step x q) = pr_matched q @ [i]" "pr_pending (pair_step x q) = pr_pending q"
      using ok by (simp_all add: x Tool_Result_Block pair_step_def)
    have "i \<in> set (pr_matched p)" using sub m by auto
    then show ?thesis using v ok IH [of seen] Cons.prems(5-7) by (simp add: x Tool_Result_Block m)
  next
    case (Tool_Use_Block i n inp)
    show ?thesis using IH [of "if r = Role_Assistant then i # seen else seen"] Cons.prems(4-7)
      by (auto simp: x Tool_Use_Block split: if_splits)
  qed (use IH [of seen] Cons.prems(4-7) in \<open>simp_all add: x\<close>)
qed simp

lemma use_ids_in: "(r, Tool_Use_Block i n inp) \<in> set tr \<Longrightarrow> i \<in> set (use_ids tr)"
  by (induction tr rule: use_ids.induct) auto

lemma paired_kept:
  assumes "well_paired (trace_of ms)"
  shows "list_all (kept_item (pairing_of ms)) (positions ms)"
proof -
  let ?xs = "positions ms" let ?p = "pairing_of ms"
  have d: "distinct (map fst ?xs)" by (simp add: positions_0 distinct_positions)
  have t: "map snd ?xs = trace_of ms" by (simp add: positions_0 map_snd_positions)
  have k: "list_all (\<lambda>x. case snd (snd x) of Tool_Result_Block i c e \<Rightarrow> fst x \<in> set (pr_valid ?p) | _ \<Rightarrow> True) ?xs"
    "set (result_ids (trace_of ms)) \<subseteq> set (pr_matched ?p)"
    using pass_keeps [OF d _ _, of no_pairing ?p "[]"] assms
    by (simp_all add: t pairing_of_def no_pairing_def well_paired_def)
  have "i \<in> set (pr_matched ?p)" if "x \<in> set ?xs" "snd (snd x) = Tool_Use_Block i n inp" for x i n inp
  proof -
    have "snd x \<in> set (trace_of ms)" using that(1) t by (metis image_eqI set_map)
    then have "i \<in> set (use_ids (trace_of ms))" using that(2) use_ids_in by (metis prod.collapse)
    then show ?thesis using assms k(2) by (auto simp: well_paired_def list_all_iff)
  qed
  then show ?thesis using k(1) by (auto simp: list_all_iff kept_item_def kept_def split: content_block.splits)
qed

lemma repaired_all_kept:
  "list_all (kept_item p) (placed_blocks i m) \<Longrightarrow> repaired_content p i m = rm_content m"
  by (simp add: repaired_content_def placed_blocks_def list_all_iff kept_item_def case_prod_beta filter_id_conv [THEN iffD2])

lemma ensure_paired:
  assumes "well_paired (trace_of ms)" "list_all (\<lambda>m. rm_content m \<noteq> []) ms"
  shows "ensure_tool_result_pairing ms = ms"
proof -
  have "map (\<lambda>(i, m). m\<lparr>rm_content := repaired_content p i m\<rparr>) (enumerate k ms') = ms'"
    if "list_all (kept_item p) (positions_from k ms')" for p k ms'
    using that by (induction ms' arbitrary: k) (simp_all add: repaired_all_kept)
  then show ?thesis
    using paired_kept [OF assms(1)] assms(2)
    by (simp add: ensure_tool_result_pairing_def positions_0 filter_id_conv [THEN iffD2] list_all_iff)
qed

lemma ensure_nonempty: "list_all (\<lambda>m. rm_content m \<noteq> []) (ensure_tool_result_pairing ms)"
  by (simp add: ensure_tool_result_pairing_def list_all_iff)

text \<open>Repairing the tool pairing leaves a conversation in which each result answers an earlier use of an
  assistant, no id is answered twice and no use is left without its result; doing it again changes nothing.\<close>

theorem pairing_repaired:
  "well_paired (trace_of (ensure_tool_result_pairing ms)) \<and>
   ensure_tool_result_pairing (ensure_tool_result_pairing ms) = ensure_tool_result_pairing ms"
  using ensure_well_paired ensure_nonempty by (simp add: ensure_paired)

subsection \<open>The conversation a model is sent\<close>

fun plain_text_of :: "content_block \<Rightarrow> string" where
  "plain_text_of (Text_Block t) = t"
| "plain_text_of b = []"

definition trace_text :: "trace \<Rightarrow> string" where
  "trace_text tr = concat (map (plain_text_of \<circ> snd) tr)"

lemma trace_text_simps [simp]: "trace_text [] = []" "trace_text (x # tr) = plain_text_of (snd x) @ trace_text tr"
  "trace_text (xs @ ys) = trace_text xs @ trace_text ys"
  by (simp_all add: trace_text_def)

lemma trace_text_message [simp]: "trace_text (message_trace m) = concat (map plain_text_of (rm_content m))"
  by (simp add: trace_text_def message_trace_def comp_def)

lemma trace_text_kept: "trace_text (map snd (filter (kept_item p) xs)) = trace_text (map snd xs)"
proof (induction xs)
  case (Cons x xs)
  then show ?case by (cases x; cases "snd (snd x)") simp_all
qed simp

lemma ensure_text: "trace_text (trace_of (ensure_tool_result_pairing ms)) = trace_text (trace_of ms)"
  by (simp add: ensure_tool_result_pairing_def trace_repaired_all trace_text_kept map_snd_positions)

lemma normalize_onto_text:
  "concat (map plain_text_of (normalize_onto acc bs)) = concat (map plain_text_of acc) @ concat (map plain_text_of bs)"
proof (induction acc bs rule: normalize_onto.induct)
  case (2 acc t bs)
  show ?case
  proof (cases acc rule: rev_cases)
    case (snoc ys y)
    then show ?thesis using 2 by (cases y; cases ys) auto
  qed (use 2 in auto)
qed auto

lemma normalize_text [simp]: "concat (map plain_text_of (rm_content (normalize_message m))) = concat (map plain_text_of (rm_content m))"
  by (simp add: normalize_message_def normalize_blocks_def normalize_onto_text)

lemma trace_merge [simp]: "trace_of (merge_onto m acc) = trace_of acc @ message_trace m"
  by (cases acc rule: rev_cases) (auto simp: merge_onto_def merge_messages_def message_trace_def)

lemma trace_fold_merge [simp]: "trace_of (fold merge_onto ms acc) = trace_of acc @ trace_of ms"
  by (induction ms arbitrary: acc) simp_all

definition alternating :: "runtime_message list \<Rightarrow> bool" where
  "alternating ms \<longleftrightarrow> successively (\<lambda>a b. rm_role a \<noteq> rm_role b) ms"

lemma role_merged [simp]: "rm_role (merge_messages l r) = rm_role l"
  by (simp add: merge_messages_def)

lemma alternating_merge: "alternating acc \<Longrightarrow> alternating (merge_onto m acc)"
  by (cases acc rule: rev_cases) (auto simp: merge_onto_def alternating_def successively_append_iff)

lemma alternating_fold: "alternating acc \<Longrightarrow> alternating (fold merge_onto ms acc)"
  by (induction ms arbitrary: acc) (simp_all add: alternating_merge)

definition sendable :: "runtime_message \<Rightarrow> bool" where
  "sendable m \<longleftrightarrow> api_role (rm_role m) \<and> rm_content m \<noteq> []"

lemma sendable_merge: "list_all sendable acc \<Longrightarrow> sendable m \<Longrightarrow> list_all sendable (merge_onto m acc)"
  by (cases acc rule: rev_cases) (auto simp: merge_onto_def sendable_def merge_messages_def)

lemma sendable_fold: "list_all sendable acc \<Longrightarrow> list_all sendable ms \<Longrightarrow> list_all sendable (fold merge_onto ms acc)"
  by (induction ms arbitrary: acc) (simp_all add: sendable_merge)

lemma sendable_ensure: "list_all sendable ms \<Longrightarrow> list_all sendable (ensure_tool_result_pairing ms)"
  by (auto simp: ensure_tool_result_pairing_def list_all_iff sendable_def in_set_enumerate_eq)

definition api_part :: "runtime_message list \<Rightarrow> runtime_message list" where
  "api_part ms = filter (\<lambda>m. api_role (rm_role m)) ms"

lemma text_normalized: "trace_text (trace_of (map normalize_message ms)) = trace_text (trace_of ms)"
  by (induction ms) simp_all

text \<open>C11: The conversation sent to a model is well formed, whatever the messages were: only roles the API
  knows, alternating, no message empty, every tool result answering an earlier use and every use answered
  once; and the text of the messages of those roles is all there, in order.\<close>

theorem api_conversation_well_formed:
  "well_paired (trace_of (normalize_messages_for_api ms)) \<and> alternating (normalize_messages_for_api ms) \<and>
   list_all sendable (normalize_messages_for_api ms) \<and>
   trace_text (trace_of (normalize_messages_for_api ms)) = trace_text (trace_of (api_part ms))"
proof -
  let ?n = "fold merge_onto (filter (\<lambda>m. rm_content m \<noteq> []) (map normalize_message (api_part ms))) []"
  have out: "normalize_messages_for_api ms = fold merge_onto (ensure_tool_result_pairing ?n) []"
    by (simp add: normalize_messages_for_api_def api_part_def)
  have "list_all sendable (filter (\<lambda>m. rm_content m \<noteq> []) (map normalize_message (api_part ms)))"
    by (auto simp: list_all_iff sendable_def api_part_def normalize_message_def)
  then have "list_all sendable ?n" by (simp add: sendable_fold)
  then have "list_all sendable (normalize_messages_for_api ms)"
    unfolding out by (simp add: sendable_fold sendable_ensure)
  moreover have "trace_text (trace_of (normalize_messages_for_api ms)) = trace_text (trace_of (api_part ms))"
    unfolding out by (simp add: ensure_text text_normalized)
  moreover have "alternating (normalize_messages_for_api ms)"
    unfolding out by (rule alternating_fold) (simp add: alternating_def)
  ultimately show ?thesis unfolding out by (simp add: ensure_well_paired)
qed

end
