(* ===== verification/Team_Data.thy ===== *)
theory Team_Data
  imports Messages Py_Parse Private_Context
begin

text \<open>
  Teams and their members (\<open>team_control_plane.py\<close>): the records and the payloads they are written to,
  the store in memory and the one in files.  \<open>datetime.isoformat\<close> of an instant in UTC and \<open>datetime.fromisoformat\<close>
  are arguments (\<open>isof\<close>, \<open>parsef\<close>), the latter with \<open>None\<close> for its \<open>ValueError\<close>.  A file's JSON text is taken to be the
  value that was written to it.
\<close>

subsection \<open>Instants as text\<close>

text \<open>\<open>str.replace\<close> with a pattern of at least one character.\<close>

fun replace_from :: "nat \<Rightarrow> string \<Rightarrow> string \<Rightarrow> string \<Rightarrow> string" where
  "replace_from skip old new [] = []"
| "replace_from skip old new (c # cs) =
     (if 0 < skip then replace_from (skip - 1) old new cs
      else if take (length old) (c # cs) = old then new @ replace_from (length old - 1) old new cs
      else c # replace_from 0 old new cs)"

definition utc_isoformat :: "(time \<Rightarrow> string) \<Rightarrow> time \<Rightarrow> string" where
  "utc_isoformat isof t = replace_from 0 ''+00:00'' ''Z'' (isof t)"

definition parse_utc_timestamp :: "(string \<Rightarrow> time option) \<Rightarrow> pyval \<Rightarrow> payload_error + time option" where
  "parse_utc_timestamp parsef v =
     (case v of
        PStr raw \<Rightarrow>
          (let s = strip raw; full = (if s \<noteq> [] \<and> last s = CHR ''Z'' then butlast s @ ''+00:00'' else s)
           in if s = [] then Inr None
              else (case parsef full of None \<Rightarrow> Inl Bad_Value | Some t \<Rightarrow> Inr (Some t)))
      | _ \<Rightarrow> Inr None)"

definition opt_time :: "(time \<Rightarrow> string) \<Rightarrow> time option \<Rightarrow> pyval" where
  "opt_time isof t = (case t of None \<Rightarrow> PNone | Some x \<Rightarrow> PStr (utc_isoformat isof x))"

text \<open>\<open>_parse_utc_timestamp(value) or utc_now()\<close>, \<open>str(value or default)\<close>, \<open>int(value or default)\<close>.\<close>

definition time_or :: "(string \<Rightarrow> time option) \<Rightarrow> time \<Rightarrow> pyval \<Rightarrow> payload_error + time" where
  "time_or parsef now v = rbind (parse_utc_timestamp parsef v) (\<lambda>t. Inr (case t of None \<Rightarrow> now | Some x \<Rightarrow> x))"

definition str_or_default :: "pyval \<Rightarrow> string \<Rightarrow> string" where
  "str_or_default v d = py_str (py_or v (PStr d))"

fun int_of :: "pyval \<Rightarrow> payload_error + int" where
  "int_of (PInt i) = Inr i"
| "int_of (PBool b) = Inr (if b then 1 else 0)"
| "int_of (PStr s) = (case parse_int s of None \<Rightarrow> Inl Bad_Value | Some i \<Rightarrow> Inr i)"
| "int_of v = Inl Bad_Type"

definition int_or_default :: "pyval \<Rightarrow> int \<Rightarrow> payload_error + int" where
  "int_or_default v d = int_of (py_or v (PInt d))"

text \<open>An enumeration read from its value.\<close>

definition enum_of :: "('a \<Rightarrow> string) \<Rightarrow> 'a list \<Rightarrow> string \<Rightarrow> payload_error + 'a" where
  "enum_of val xs s = (case List.find (\<lambda>x. val x = s) xs of None \<Rightarrow> Inl Bad_Value | Some x \<Rightarrow> Inr x)"

subsection \<open>Records\<close>

datatype team_role = TR_Leader | TR_Teammate

fun team_role_value :: "team_role \<Rightarrow> string" where
  "team_role_value TR_Leader = ''leader''"
| "team_role_value TR_Teammate = ''teammate''"

datatype team_status = Team_Active | Team_Deleted

fun team_status_value :: "team_status \<Rightarrow> string" where
  "team_status_value Team_Active = ''active''"
| "team_status_value Team_Deleted = ''deleted''"

datatype member_status = Member_Active | Member_Removed

fun member_status_value :: "member_status \<Rightarrow> string" where
  "member_status_value Member_Active = ''active''"
| "member_status_value Member_Removed = ''removed''"

record team =
  tm_id :: string
  tm_leader_session :: string
  tm_leader_member :: string
  tm_name :: "string option"
  tm_status :: team_status
  tm_created_at :: time
  tm_updated_at :: time
  tm_deleted_at :: "time option"
  tm_context :: "(string, pyval) dict"
  tm_schema :: int

record team_member =
  ter_team :: string
  ter_id :: string
  ter_name :: string
  ter_role :: team_role
  ter_status :: member_status
  ter_agent :: "string option"
  ter_session :: "string option"
  ter_created_at :: time
  ter_updated_at :: time
  ter_removed_at :: "time option"
  ter_defaults :: "(string, pyval) dict"
  ter_metadata :: "(string, pyval) dict"
  ter_schema :: int

abbreviation team_live :: "team \<Rightarrow> bool" where
  "team_live t \<equiv> tm_status t = Team_Active"

abbreviation member_live :: "team_member \<Rightarrow> bool" where
  "member_live m \<equiv> ter_status m = Member_Active"

definition member_with_status :: "time \<Rightarrow> member_status \<Rightarrow> team_member \<Rightarrow> team_member" where
  "member_with_status now st m =
     m\<lparr>ter_status := st, ter_removed_at := (if st = Member_Removed then Some now else None), ter_updated_at := now\<rparr>"

definition tombstone :: "time \<Rightarrow> team \<Rightarrow> team" where
  "tombstone now t = t\<lparr>tm_status := Team_Deleted, tm_deleted_at := Some now, tm_updated_at := now\<rparr>"

subsection \<open>Payloads\<close>

definition team_to_dict :: "(time \<Rightarrow> string) \<Rightarrow> team \<Rightarrow> (string, pyval) dict" where
  "team_to_dict isof t =
     [(''schema_version'', PInt (tm_schema t)), (''team_id'', PStr (tm_id t)),
      (''leader_session_id'', PStr (tm_leader_session t)), (''leader_member_id'', PStr (tm_leader_member t)),
      (''name'', opt_str_value (tm_name t)), (''status'', PStr (team_status_value (tm_status t))),
      (''created_at'', PStr (utc_isoformat isof (tm_created_at t))), (''updated_at'', PStr (utc_isoformat isof (tm_updated_at t))),
      (''deleted_at'', opt_time isof (tm_deleted_at t)), (''context_metadata'', PDict (tm_context t))]"

definition team_from_dict :: "(string \<Rightarrow> time option) \<Rightarrow> time \<Rightarrow> (string, pyval) dict \<Rightarrow> payload_error + team" where
  "team_from_dict parsef now d =
     rbind (int_or_default (py_get d ''schema_version'') 1) (\<lambda>schema.
     rbind (enum_of team_status_value [Team_Active, Team_Deleted] (str_or_default (py_get d ''status'') ''active'')) (\<lambda>st.
     rbind (time_or parsef now (py_get d ''created_at'')) (\<lambda>created.
     rbind (time_or parsef now (py_get d ''updated_at'')) (\<lambda>updated.
     rbind (parse_utc_timestamp parsef (py_get d ''deleted_at'')) (\<lambda>deleted.
     Inr \<lparr>tm_id = str_or_default (py_get d ''team_id'') [], tm_leader_session = str_or_default (py_get d ''leader_session_id'') [],
          tm_leader_member = str_or_default (py_get d ''leader_member_id'') [], tm_name = coerce_optional_value (py_get d ''name''),
          tm_status = st, tm_created_at = created, tm_updated_at = updated, tm_deleted_at = deleted,
          tm_context = coerce_mapping (py_get d ''context_metadata''), tm_schema = schema\<rparr>)))))"

definition member_to_dict :: "(time \<Rightarrow> string) \<Rightarrow> team_member \<Rightarrow> (string, pyval) dict" where
  "member_to_dict isof m =
     [(''schema_version'', PInt (ter_schema m)), (''team_id'', PStr (ter_team m)), (''member_id'', PStr (ter_id m)),
      (''name'', PStr (ter_name m)), (''role'', PStr (team_role_value (ter_role m))),
      (''status'', PStr (member_status_value (ter_status m))), (''agent_name'', opt_str_value (ter_agent m)),
      (''session_id'', opt_str_value (ter_session m)), (''created_at'', PStr (utc_isoformat isof (ter_created_at m))),
      (''updated_at'', PStr (utc_isoformat isof (ter_updated_at m))), (''removed_at'', opt_time isof (ter_removed_at m)),
      (''execution_defaults'', PDict (ter_defaults m)), (''metadata'', PDict (ter_metadata m))]"

definition member_from_dict :: "(string \<Rightarrow> time option) \<Rightarrow> time \<Rightarrow> (string, pyval) dict \<Rightarrow> payload_error + team_member" where
  "member_from_dict parsef now d =
     rbind (int_or_default (py_get d ''schema_version'') 1) (\<lambda>schema.
     rbind (enum_of team_role_value [TR_Leader, TR_Teammate] (str_or_default (py_get d ''role'') ''teammate'')) (\<lambda>role.
     rbind (enum_of member_status_value [Member_Active, Member_Removed] (str_or_default (py_get d ''status'') ''active'')) (\<lambda>st.
     rbind (time_or parsef now (py_get d ''created_at'')) (\<lambda>created.
     rbind (time_or parsef now (py_get d ''updated_at'')) (\<lambda>updated.
     rbind (parse_utc_timestamp parsef (py_get d ''removed_at'')) (\<lambda>removed.
     Inr \<lparr>ter_team = str_or_default (py_get d ''team_id'') [], ter_id = str_or_default (py_get d ''member_id'') [],
          ter_name = str_or_default (py_get d ''name'') [], ter_role = role, ter_status = st,
          ter_agent = coerce_optional_value (py_get d ''agent_name''), ter_session = coerce_optional_value (py_get d ''session_id''),
          ter_created_at = created, ter_updated_at = updated, ter_removed_at = removed,
          ter_defaults = coerce_mapping (py_get d ''execution_defaults''), ter_metadata = coerce_mapping (py_get d ''metadata''),
          ter_schema = schema\<rparr>))))))"

definition binding_to_dict :: "(time \<Rightarrow> string) \<Rightarrow> time \<Rightarrow> string \<Rightarrow> string \<Rightarrow> (string, pyval) dict" where
  "binding_to_dict isof now sid tid =
     [(''schema_version'', PInt 1), (''leader_session_id'', PStr sid), (''team_id'', PStr tid),
      (''created_at'', PStr (utc_isoformat isof now))]"

text \<open>Of a binding the stores read the team.\<close>

definition binding_team :: "(string \<Rightarrow> time option) \<Rightarrow> time \<Rightarrow> (string, pyval) dict \<Rightarrow> payload_error + string" where
  "binding_team parsef now d =
     rbind (int_or_default (py_get d ''schema_version'') 1) (\<lambda>schema.
     rbind (time_or parsef now (py_get d ''created_at'')) (\<lambda>created. Inr (str_or_default (py_get d ''team_id'') [])))"

subsection \<open>The store in memory\<close>

record team_store =
  st_teams :: "(string, team) dict"
  st_members :: "(string \<times> string, team_member) dict"
  st_bindings :: "(string, string) dict"

definition new_team_store :: team_store where
  "new_team_store = \<lparr>st_teams = [], st_members = [], st_bindings = []\<rparr>"

definition save_team :: "team \<Rightarrow> team_store \<Rightarrow> team_store" where
  "save_team t s = s\<lparr>st_teams := AList.update (tm_id t) t (st_teams s)\<rparr>"

definition load_team :: "team_store \<Rightarrow> string \<Rightarrow> team option" where
  "load_team s tid = map_of (st_teams s) tid"

definition save_member :: "team_member \<Rightarrow> team_store \<Rightarrow> team_store" where
  "save_member m s = s\<lparr>st_members := AList.update (ter_team m, ter_id m) m (st_members s)\<rparr>"

definition load_member :: "team_store \<Rightarrow> string \<Rightarrow> string \<Rightarrow> team_member option" where
  "load_member s tid mid = map_of (st_members s) (tid, mid)"

definition delete_leader_binding :: "string \<Rightarrow> team_store \<Rightarrow> team_store" where
  "delete_leader_binding sid s = s\<lparr>st_bindings := AList.delete sid (st_bindings s)\<rparr>"

text \<open>\<open>create_team\<close>; the left side is the \<open>FileExistsError\<close>.\<close>

definition store_create_team :: "team \<Rightarrow> team_member \<Rightarrow> team_store \<Rightarrow> string + team_store" where
  "store_create_team t leader s =
     (if map_of (st_teams s) (tm_id t) \<noteq> None then Inl (tm_id t)
      else if map_of (st_bindings s) (tm_leader_session t) \<noteq> None then Inl (tm_leader_session t)
      else Inr ((save_member leader (save_team t s))\<lparr>st_bindings := AList.update (tm_leader_session t) (tm_id t) (st_bindings s)\<rparr>))"

definition active_team_for_leader :: "string \<Rightarrow> team_store \<Rightarrow> team option \<times> team_store" where
  "active_team_for_leader sid s =
     (case map_of (st_bindings s) sid of
        None \<Rightarrow> (None, s)
      | Some tid \<Rightarrow>
          (case load_team s tid of
             Some t \<Rightarrow> if team_live t then (Some t, s) else (None, delete_leader_binding sid s)
           | None \<Rightarrow> (None, delete_leader_binding sid s)))"

definition listed :: "bool \<Rightarrow> bool \<Rightarrow> team_member \<Rightarrow> bool" where
  "listed active_only include_leader m \<longleftrightarrow> (active_only \<longrightarrow> member_live m) \<and> (include_leader \<or> ter_role m \<noteq> TR_Leader)"

definition list_members :: "bool \<Rightarrow> bool \<Rightarrow> string \<Rightarrow> team_store \<Rightarrow> team_member list" where
  "list_members active_only include_leader tid s =
     filter (listed active_only include_leader)
       (sort_key (\<lambda>m. (ter_created_at m, ter_id m)) (map snd (filter (\<lambda>kv. fst (fst kv) = tid) (st_members s))))"

definition find_member_by_name :: "string \<Rightarrow> string \<Rightarrow> team_store \<Rightarrow> team_member option" where
  "find_member_by_name tid n s = List.find (\<lambda>m. ter_name m = n) (list_members True True tid s)"

definition tombstone_team :: "time \<Rightarrow> team \<Rightarrow> team_store \<Rightarrow> team \<times> team_store" where
  "tombstone_team now t s = (tombstone now t, delete_leader_binding (tm_leader_session t) (save_team (tombstone now t) s))"

definition store_remove_member :: "time \<Rightarrow> string \<Rightarrow> string \<Rightarrow> team_store \<Rightarrow> team_member option \<times> team_store" where
  "store_remove_member now tid mid s =
     (case load_member s tid mid of
        None \<Rightarrow> (None, s)
      | Some m \<Rightarrow> (Some (member_with_status now Member_Removed m), save_member (member_with_status now Member_Removed m) s))"

definition purge_team :: "string \<Rightarrow> team_store \<Rightarrow> team_store" where
  "purge_team tid s =
     \<lparr>st_teams = AList.delete tid (st_teams s), st_members = filter (\<lambda>kv. fst (fst kv) \<noteq> tid) (st_members s),
      st_bindings = filter (\<lambda>kv. snd kv \<noteq> tid) (st_bindings s)\<rparr>"

end
