(* ===== verification/Team_Control.thy ===== *)
theory Team_Control
  imports Team_Data Execution_Policy
begin

text \<open>
  The control plane of teams (\<open>RuntimeTeamControlPlane\<close> in \<open>team_control_plane.py\<close>) over the store in memory:
  who the caller is, and the life of teams and members.  The events it emits, the private updates it queues for
  the leader's session, and what it asks of the runner manager are recorded in order; the manager may raise.
  Removing a member and deleting a team wait for the manager, so they come in two parts.
\<close>

subsection \<open>Errors and the state\<close>

datatype team_error = Team_Control_Error string string | File_Exists string | Bad_Default string | Runner_Raised string

record team_event =
  ev_type :: string
  ev_team :: string
  ev_leader_session :: string
  ev_member :: "string option"
  ev_message :: "string option"
  ev_correlation :: "string option"
  ev_payload :: "(string, pyval) dict"

record team_world =
  tw_store :: team_store
  tw_events :: "team_event list"
  tw_updates :: "(string \<times> (string, pyval) dict) list"
  tw_registered :: "(string \<times> string) list"

definition new_team_world :: team_world where
  "new_team_world = \<lparr>tw_store = new_team_store, tw_events = [], tw_updates = [], tw_registered = []\<rparr>"

definition emit_team_event :: "string \<Rightarrow> team \<Rightarrow> string \<Rightarrow> (string, pyval) dict \<Rightarrow> team_world \<Rightarrow> team_world" where
  "emit_team_event ty t mid payload w =
     w\<lparr>tw_events := tw_events w @ [\<lparr>ev_type = ty, ev_team = tm_id t, ev_leader_session = tm_leader_session t, ev_member = Some mid,
        ev_message = None, ev_correlation = None, ev_payload = payload\<rparr>]\<rparr>"

definition queue_private_updates :: "string \<Rightarrow> (string, pyval) dict \<Rightarrow> team_world \<Rightarrow> team_world" where
  "queue_private_updates sid updates w = w\<lparr>tw_updates := tw_updates w @ [(sid, updates)]\<rparr>"

definition team_private_context :: "team \<Rightarrow> team_member \<Rightarrow> (string, pyval) dict" where
  "team_private_context t m =
     [(''team_id'', PStr (tm_id t)), (''team_role'', PStr (team_role_value (ter_role m))), (''team_member_id'', PStr (ter_id m)),
      (''team_member_name'', PStr (ter_name m)), (''leader_session_id'', PStr (tm_leader_session t))]"

definition cleared_team_context :: "(string, pyval) dict" where
  "cleared_team_context = [(''team_id'', PNone), (''team_role'', PNone), (''team_member_id'', PNone),
     (''team_member_name'', PNone), (''leader_session_id'', PNone)]"

subsection \<open>The caller\<close>

record team_actor =
  ta_session :: string
  ta_team :: "team option"
  ta_member :: "team_member option"

definition live_member :: "team_store \<Rightarrow> string \<Rightarrow> string \<Rightarrow> team_member option" where
  "live_member s tid mid = (case load_member s tid mid of None \<Rightarrow> None | Some m \<Rightarrow> if member_live m then Some m else None)"

definition actor_team :: "string \<Rightarrow> (string, pyval) dict \<Rightarrow> team_store \<Rightarrow> team option \<times> team_store" where
  "actor_team sid ext s =
     (case Option.bind (coerce_optional_value (py_get ext ''team_id'')) (load_team s) of
        Some t \<Rightarrow> if team_live t then (Some t, s) else active_team_for_leader sid s
      | None \<Rightarrow> active_team_for_leader sid s)"

definition member_key :: "(string, pyval) dict \<Rightarrow> string option" where
  "member_key ext =
     (case coerce_optional_value (py_get ext ''team_member_id'') of
        Some i \<Rightarrow> Some i | None \<Rightarrow> coerce_optional_value (py_get ext ''teammate_id''))"

definition resolve_actor :: "string \<Rightarrow> (string, pyval) dict \<Rightarrow> team_store \<Rightarrow> team_actor \<times> team_store" where
  "resolve_actor sid ext s =
     (let (found, s) = actor_team sid ext s in
      case found of
        None \<Rightarrow> (\<lparr>ta_session = sid, ta_team = None, ta_member = None\<rparr>, s)
      | Some t \<Rightarrow>
          (\<lparr>ta_session = sid, ta_team = Some t, ta_member =
              (case Option.bind (member_key ext) (live_member s (tm_id t)) of
                 Some m \<Rightarrow> Some m
               | None \<Rightarrow>
                   if tm_leader_session t = sid \<or> coerce_optional_value (py_get ext ''team_role'') = Some ''leader''
                   then live_member s (tm_id t) (tm_leader_member t) else None)\<rparr>, s))"

definition is_teammate :: "team_actor \<Rightarrow> bool" where
  "is_teammate a \<longleftrightarrow> map_option ter_role (ta_member a) = Some TR_Teammate"

definition require_leader :: "team_actor \<Rightarrow> team_error + team \<times> team_member" where
  "require_leader a =
     (case (ta_team a, ta_member a) of
        (Some t, Some m) \<Rightarrow>
          if ter_role m = TR_Leader then Inr (t, m)
          else Inl (Team_Control_Error ''authority_denied'' ''Only the team leader can manage team lifecycle'')
      | _ \<Rightarrow> Inl (Team_Control_Error ''invalid_team_state'' ''The caller does not have an active runtime team''))"

definition require_active_team :: "string \<Rightarrow> (string, pyval) dict \<Rightarrow> team_store \<Rightarrow> (team_error + team) \<times> team_store" where
  "require_active_team sid ext s =
     (let (a, s) = resolve_actor sid ext s
      in (case ta_team a of
            None \<Rightarrow> Inl (Team_Control_Error ''invalid_team_state'' ''The caller does not have an active runtime team'')
          | Some t \<Rightarrow> Inr t, s))"

text \<open>The actor, its team and its leadership, with the store the lookup leaves.\<close>

definition leader_of :: "string \<Rightarrow> (string, pyval) dict \<Rightarrow> team_world \<Rightarrow> (team_error + team \<times> team_member) \<times> team_world" where
  "leader_of sid ext w =
     (let (a, s) = resolve_actor sid ext (tw_store w) in (require_leader a, w\<lparr>tw_store := s\<rparr>))"

subsection \<open>Creating a team\<close>

definition fresh_team :: "string \<Rightarrow> string \<Rightarrow> string \<Rightarrow> string option \<Rightarrow> time \<Rightarrow> team" where
  "fresh_team tid mid sid name now =
     \<lparr>tm_id = tid, tm_leader_session = sid, tm_leader_member = mid, tm_name = name, tm_status = Team_Active, tm_created_at = now,
      tm_updated_at = now, tm_deleted_at = None, tm_context = [(''team_scope'', PStr ''runtime'')], tm_schema = 1\<rparr>"

definition fresh_leader :: "string \<Rightarrow> string \<Rightarrow> string \<Rightarrow> time \<Rightarrow> team_member" where
  "fresh_leader tid mid sid now =
     \<lparr>ter_team = tid, ter_id = mid, ter_name = ''leader'', ter_role = TR_Leader, ter_status = Member_Active, ter_agent = None,
      ter_session = Some sid, ter_created_at = now, ter_updated_at = now, ter_removed_at = None, ter_defaults = [],
      ter_metadata = [(''leader_session_id'', PStr sid)], ter_schema = 1\<rparr>"

definition name_payload :: "team \<Rightarrow> bool \<Rightarrow> (string, pyval) dict" where
  "name_payload t created = [(''name'', opt_str_value (tm_name t)), (''created'', PBool created)]"

text \<open>The existing team, or a new one; if its keys are taken, the team that was created meanwhile.\<close>

definition found_or_created ::
  "string \<Rightarrow> string \<Rightarrow> string option \<Rightarrow> string \<Rightarrow> time \<Rightarrow> team_world \<Rightarrow> (team_error + team \<times> bool) \<times> team_world" where
  "found_or_created tid mid name sid now w =
     (let (existing, s) = active_team_for_leader sid (tw_store w); w = w\<lparr>tw_store := s\<rparr> in
      case existing of
        Some t \<Rightarrow> (Inr (t, False), w)
      | None \<Rightarrow>
          (let t = fresh_team tid mid sid name now in
           case store_create_team t (fresh_leader tid mid sid now) (tw_store w) of
             Inr s \<Rightarrow> (Inr (t, True), emit_team_event ''team.lifecycle.created'' t mid (name_payload t True) (w\<lparr>tw_store := s\<rparr>))
           | Inl x \<Rightarrow>
               (let (again, s) = active_team_for_leader sid (tw_store w)
                in (case again of None \<Rightarrow> Inl (File_Exists x) | Some t \<Rightarrow> Inr (t, False), w\<lparr>tw_store := s\<rparr>))))"

definition create_team ::
  "string \<Rightarrow> string \<Rightarrow> string option \<Rightarrow> string \<Rightarrow> (string, pyval) dict \<Rightarrow> time \<Rightarrow> team_world \<Rightarrow>
   (team_error + team \<times> bool) \<times> team_world" where
  "create_team tid mid name sid ext now w =
     (let (a, s) = resolve_actor sid ext (tw_store w); w = w\<lparr>tw_store := s\<rparr> in
      if is_teammate a then (Inl (Team_Control_Error ''authority_denied'' ''Teammates cannot create nested teams''), w)
      else
        (let (r, w) = found_or_created tid mid name sid now w in
         case r of
           Inl e \<Rightarrow> (Inl e, w)
         | Inr (t, created) \<Rightarrow>
             (case load_member (tw_store w) (tm_id t) (tm_leader_member t) of
                None \<Rightarrow> (Inl (Team_Control_Error ''invalid_team_state'' ''Active team is missing its leader member record''), w)
              | Some leader \<Rightarrow>
                  (let w = queue_private_updates (tm_leader_session t) (team_private_context t leader) w
                   in (Inr (t, created),
                       if created then w
                       else emit_team_event ''team.lifecycle.reused'' t (ter_id leader) (name_payload t False) w)))))"

subsection \<open>Members\<close>

definition name_head :: "char \<Rightarrow> bool" where
  "name_head c = (let n = (of_char c :: nat) in 48 \<le> n \<and> n \<le> 57 \<or> 65 \<le> n \<and> n \<le> 90 \<or> 97 \<le> n \<and> n \<le> 122)"

definition name_tail :: "char \<Rightarrow> bool" where
  "name_tail c \<longleftrightarrow> name_head c \<or> c \<in> {CHR ''.'', CHR ''_'', CHR ''-''}"

definition member_name_pattern :: "string \<Rightarrow> bool" where
  "member_name_pattern s = (case s of [] \<Rightarrow> False | c # cs \<Rightarrow> name_head c \<and> list_all name_tail cs \<and> length cs \<le> 63)"

definition validate_member_name :: "string \<Rightarrow> team_error + string" where
  "validate_member_name name =
     (let n = strip name in
      if n = [] then Inl (Team_Control_Error ''invalid_request'' ''Team member name must be non-empty'')
      else if n \<in> {''leader'', ''*''} then Inl (Team_Control_Error ''invalid_request'' (''Team member name '' @ repr_str n @ '' is reserved''))
      else if \<not> member_name_pattern n then Inl (Team_Control_Error ''invalid_request''
        (''Team member names may contain only letters, numbers, '' @ repr_str ''.'' @ '', '' @ repr_str ''_'' @ '' and '' @ repr_str ''-''))
      else Inr n)"

definition default_text :: "(string, pyval) dict \<Rightarrow> string \<Rightarrow> (string, pyval) dict" where
  "default_text d k = (case coerce_optional_value (py_get d k) of None \<Rightarrow> [] | Some s \<Rightarrow> [(k, PStr s)])"

definition default_enum :: "string list \<Rightarrow> (string, pyval) dict \<Rightarrow> string \<Rightarrow> team_error + (string, pyval) dict" where
  "default_enum values d k =
     (case coerce_optional_value (py_get d k) of
        None \<Rightarrow> Inr []
      | Some s \<Rightarrow> if s \<in> set values then Inr [(k, PStr s)] else Inl (Bad_Default s))"

text \<open>\<open>int(value)\<close> with \<open>None\<close> for its exceptions.\<close>

definition int_or_none :: "pyval \<Rightarrow> int option" where
  "int_or_none v = (case v of PNone \<Rightarrow> None | _ \<Rightarrow> (case int_of v of Inl e \<Rightarrow> None | Inr i \<Rightarrow> Some i))"

definition normalize_execution_defaults :: "(string, pyval) dict \<Rightarrow> team_error + (string, pyval) dict" where
  "normalize_execution_defaults d =
     rbind (default_enum (map mode_value [M_DEFAULT, M_PLAN, M_ACCEPT_EDITS, M_BYPASS, M_DONT_ASK, M_AUTO, M_BUBBLE]) d ''permission_mode'') (\<lambda>mode.
     rbind (default_enum (map isolation_value [IM_NONE, IM_WORKTREE, IM_REMOTE]) d ''isolation'') (\<lambda>isolation.
     Inr (default_text d ''cwd'' @ default_text d ''model'' @ default_text d ''model_route'' @ mode @ isolation @
       (case int_or_none (py_get d ''max_turns'') of None \<Rightarrow> [] | Some i \<Rightarrow> [(''max_turns'', PInt i)]))))"

definition fresh_member :: "team \<Rightarrow> string \<Rightarrow> string \<Rightarrow> string \<Rightarrow> (string, pyval) dict \<Rightarrow> time \<Rightarrow> team_member" where
  "fresh_member t mid name agent defaults now =
     \<lparr>ter_team = tm_id t, ter_id = mid, ter_name = name, ter_role = TR_Teammate, ter_status = Member_Active,
      ter_agent = Some agent, ter_session = Some (tm_leader_session t), ter_created_at = now, ter_updated_at = now,
      ter_removed_at = None, ter_defaults = defaults,
      ter_metadata = [(''leader_session_id'', PStr (tm_leader_session t))], ter_schema = 1\<rparr>"

text \<open>The member is saved before the runner manager is asked, which may raise.\<close>

definition register_member ::
  "string option \<Rightarrow> string \<Rightarrow> string \<Rightarrow> (string, pyval) dict \<Rightarrow> string \<Rightarrow> string \<Rightarrow> (string, pyval) dict \<Rightarrow> time \<Rightarrow> team_world \<Rightarrow>
   (team_error + team_member) \<times> team_world" where
  "register_member raises mid sid ext name agent defaults now w =
     (case leader_of sid ext w of
        (Inl e, w) \<Rightarrow> (Inl e, w)
      | (Inr (t, leader), w) \<Rightarrow>
          (case rbind (validate_member_name name) (\<lambda>n.
               rbind (ensure (find_member_by_name (tm_id t) n (tw_store w) = None)
                   (Team_Control_Error ''duplicate_member_name'' (''Team member name '' @ repr_str n @ '' is already in use''))) (\<lambda>_.
               rbind (normalize_execution_defaults defaults) (\<lambda>d. Inr (fresh_member t mid n agent d now)))) of
             Inl e \<Rightarrow> (Inl e, w)
           | Inr m \<Rightarrow>
               (let w = w\<lparr>tw_store := save_member m (tw_store w)\<rparr> in
                case raises of
                  Some err \<Rightarrow> (Inl (Runner_Raised err), w)
                | None \<Rightarrow>
                    (Inr m,
                     emit_team_event ''team.member.spawned'' t mid
                       [(''name'', PStr (ter_name m)), (''agent'', opt_str_value (ter_agent m)), (''requested_by'', PStr (ter_id leader))]
                       (w\<lparr>tw_registered := tw_registered w @ [(tm_id t, mid)]\<rparr>)))))"

text \<open>The first part of a removal finds the member; the second follows the runner manager.\<close>

definition begin_removal ::
  "string \<Rightarrow> (string, pyval) dict \<Rightarrow> string \<Rightarrow> team_world \<Rightarrow> (team_error + team \<times> team_member) \<times> team_world" where
  "begin_removal sid ext mid w =
     (case leader_of sid ext w of
        (Inl e, w) \<Rightarrow> (Inl e, w)
      | (Inr (t, leader), w) \<Rightarrow>
          (if mid = tm_leader_member t
           then Inl (Team_Control_Error ''authority_denied'' ''The leader member cannot be removed without deleting the team'')
           else case live_member (tw_store w) (tm_id t) mid of
               None \<Rightarrow> Inl (Team_Control_Error ''not_found'' (''Team member '' @ repr_str mid @ '' was not found''))
             | Some m \<Rightarrow> Inr (t, m), w))"

definition finish_removal :: "time \<Rightarrow> team \<Rightarrow> team_member \<Rightarrow> team_world \<Rightarrow> team_member \<times> team_world" where
  "finish_removal now t m w =
     (let (r, s) = store_remove_member now (tm_id t) (ter_id m) (tw_store w);
          removed = (case r of None \<Rightarrow> m | Some x \<Rightarrow> x)
      in (removed, emit_team_event ''team.member.removed'' t (ter_id m) [(''name'', PStr (ter_name removed))] (w\<lparr>tw_store := s\<rparr>)))"

definition remove_member ::
  "string option \<Rightarrow> string \<Rightarrow> (string, pyval) dict \<Rightarrow> string \<Rightarrow> time \<Rightarrow> team_world \<Rightarrow> (team_error + team_member) \<times> team_world" where
  "remove_member raises sid ext mid now w =
     (case begin_removal sid ext mid w of
        (Inl e, w) \<Rightarrow> (Inl e, w)
      | (Inr (t, m), w) \<Rightarrow>
          (case raises of
             Some err \<Rightarrow> (Inl (Runner_Raised err), w)
           | None \<Rightarrow> (let (r, w) = finish_removal now t m w in (Inr r, w))))"

subsection \<open>Deleting a team\<close>

definition begin_delete :: "string \<Rightarrow> (string, pyval) dict \<Rightarrow> team_world \<Rightarrow> (team_error + team \<times> team_member \<times> team_member list) \<times> team_world" where
  "begin_delete sid ext w =
     (case leader_of sid ext w of
        (Inl e, w) \<Rightarrow> (Inl e, w)
      | (Inr (t, leader), w) \<Rightarrow> (Inr (t, leader, list_members True True (tm_id t) (tw_store w)), w))"

definition finish_delete :: "time \<Rightarrow> team \<Rightarrow> team_member \<Rightarrow> team_member list \<Rightarrow> team_world \<Rightarrow> team \<times> team_world" where
  "finish_delete now t leader ms w =
     (let s = fold (\<lambda>m s. if ter_id m = tm_leader_member t then s else snd (store_remove_member now (tm_id t) (ter_id m) s)) ms (tw_store w);
          (gone, s) = tombstone_team now t s;
          s = snd (store_remove_member now (tm_id t) (tm_leader_member t) s)
      in (gone, emit_team_event ''team.lifecycle.deleted'' gone (ter_id leader) [(''deleted'', PBool True)]
           (queue_private_updates (tm_leader_session t) cleared_team_context (w\<lparr>tw_store := s\<rparr>))))"

definition delete_active_team ::
  "string option \<Rightarrow> string \<Rightarrow> (string, pyval) dict \<Rightarrow> time \<Rightarrow> team_world \<Rightarrow> (team_error + team) \<times> team_world" where
  "delete_active_team raises sid ext now w =
     (case begin_delete sid ext w of
        (Inl e, w) \<Rightarrow> (Inl e, w)
      | (Inr (t, leader, ms), w) \<Rightarrow>
          (case raises of
             Some err \<Rightarrow> (Inl (Runner_Raised err), w)
           | None \<Rightarrow> (let (gone, w) = finish_delete now t leader ms w in (Inr gone, w))))"

end
