(* ===== verification/Team_Control_Inv.thy ===== *)
theory Team_Control_Inv
  imports Team_Control
begin

text \<open>
  Properties of the control plane of teams: who a team's members are, and how many teams a session leads.  Callers
  interleave: between the two parts of a removal or of a deletion anything else may happen.
\<close>

subsection \<open>Interleaved callers\<close>

record team_system =
  sy_world :: team_world
  sy_removals :: "(team \<times> team_member) list"
  sy_deletes :: "(team \<times> team_member \<times> team_member list) list"

definition new_team_system :: team_system where
  "new_team_system = \<lparr>sy_world = new_team_world, sy_removals = [], sy_deletes = []\<rparr>"

text \<open>Fresh identifiers are in no use.\<close>

definition unused :: "string \<Rightarrow> string \<Rightarrow> team_world \<Rightarrow> bool" where
  "unused tid mid w \<longleftrightarrow> load_team (tw_store w) tid = None \<and> (\<forall>t. load_member (tw_store w) t mid = None) \<and>
     (\<forall>m. load_member (tw_store w) tid m = None)"

inductive team_step :: "team_system \<Rightarrow> team_system \<Rightarrow> bool" where
  creates: "unused tid mid (sy_world y) \<Longrightarrow>
    team_step y (y\<lparr>sy_world := snd (create_team tid mid name sid ext now (sy_world y))\<rparr>)"
| registers: "(\<forall>t. load_member (tw_store (sy_world y)) t mid = None) \<Longrightarrow>
    team_step y (y\<lparr>sy_world := snd (register_member raises mid sid ext name agent defaults now (sy_world y))\<rparr>)"
| asks_removal: "begin_removal sid ext mid (sy_world y) = (r, w) \<Longrightarrow>
    team_step y (y\<lparr>sy_world := w, sy_removals := (case r of Inl e \<Rightarrow> [] | Inr p \<Rightarrow> [p]) @ sy_removals y\<rparr>)"
| removes: "(t, m) \<in> set (sy_removals y) \<Longrightarrow>
    team_step y (y\<lparr>sy_world := snd (finish_removal now t m (sy_world y)), sy_removals := remove1 (t, m) (sy_removals y)\<rparr>)"
| removal_raises: "team_step y (y\<lparr>sy_removals := remove1 p (sy_removals y)\<rparr>)"
| asks_delete: "begin_delete sid ext (sy_world y) = (r, w) \<Longrightarrow>
    team_step y (y\<lparr>sy_world := w, sy_deletes := (case r of Inl e \<Rightarrow> [] | Inr p \<Rightarrow> [p]) @ sy_deletes y\<rparr>)"
| deletes: "(t, l, ms) \<in> set (sy_deletes y) \<Longrightarrow>
    team_step y (y\<lparr>sy_world := snd (finish_delete now t l ms (sy_world y)), sy_deletes := remove1 (t, l, ms) (sy_deletes y)\<rparr>)"
| delete_raises: "team_step y (y\<lparr>sy_deletes := remove1 q (sy_deletes y)\<rparr>)"

subsection \<open>The invariant of the store\<close>

definition keys_ok :: "team_store \<Rightarrow> bool" where
  "keys_ok s \<longleftrightarrow> (\<forall>k t. map_of (st_teams s) k = Some t \<longrightarrow> tm_id t = k) \<and>
     (\<forall>k m. map_of (st_members s) k = Some m \<longrightarrow> (ter_team m, ter_id m) = k) \<and> distinct (map fst (st_members s))"

definition names_unique :: "team_store \<Rightarrow> bool" where
  "names_unique s \<longleftrightarrow> (\<forall>tid i j m n. load_member s tid i = Some m \<and> load_member s tid j = Some n \<and> member_live m \<and>
     member_live n \<and> ter_name m = ter_name n \<longrightarrow> i = j)"

definition led_by :: "team_store \<Rightarrow> team \<Rightarrow> bool" where
  "led_by s t \<longleftrightarrow> (\<exists>m. load_member s (tm_id t) (tm_leader_member t) = Some m \<and> member_live m \<and> ter_role m = TR_Leader)"

definition teams_led :: "team_store \<Rightarrow> bool" where
  "teams_led s \<longleftrightarrow> (\<forall>tid t. load_team s tid = Some t \<and> team_live t \<longrightarrow> led_by s t)"

definition store_ok :: "team_store \<Rightarrow> bool" where
  "store_ok s \<longleftrightarrow> keys_ok s \<and> names_unique s \<and> teams_led s"

lemma load_save_member [simp]:
  "load_member (save_member m s) tid mid = (if tid = ter_team m \<and> mid = ter_id m then Some m else load_member s tid mid)"
  by (auto simp: load_member_def save_member_def map_of_update)

lemma load_save_team [simp]: "load_team (save_team t s) tid = (if tid = tm_id t then Some t else load_team s tid)"
  by (simp add: load_team_def save_team_def map_of_update)

lemma load_other [simp]:
  "load_team (save_member m s) tid = load_team s tid" "load_member (save_team t s) tid mid = load_member s tid mid"
  "load_team (delete_leader_binding sid s) tid = load_team s tid"
  "load_member (delete_leader_binding sid s) tid mid = load_member s tid mid"
  "load_team (s\<lparr>st_bindings := b\<rparr>) tid = load_team s tid" "load_member (s\<lparr>st_bindings := b\<rparr>) tid mid = load_member s tid mid"
  by (simp_all add: load_team_def load_member_def save_member_def save_team_def delete_leader_binding_def)

lemma keys_save [simp]:
  "keys_ok s \<Longrightarrow> keys_ok (save_member m s)" "keys_ok s \<Longrightarrow> keys_ok (save_team t s)"
  "keys_ok s \<Longrightarrow> keys_ok (delete_leader_binding sid s)" "keys_ok s \<Longrightarrow> keys_ok (s\<lparr>st_bindings := b\<rparr>)"
  by (auto simp: keys_ok_def save_member_def save_team_def delete_leader_binding_def map_of_update)

lemma store_ok_unbind [simp]: "store_ok s \<Longrightarrow> store_ok (delete_leader_binding sid s)" "store_ok s \<Longrightarrow> store_ok (s\<lparr>st_bindings := b\<rparr>)"
  by (auto simp: store_ok_def names_unique_def teams_led_def led_by_def)

lemma keys_load:
  assumes "keys_ok s"
  shows "load_team s tid = Some t \<Longrightarrow> tm_id t = tid" "load_member s tid mid = Some m \<Longrightarrow> ter_team m = tid \<and> ter_id m = mid"
  using assms by (auto simp: keys_ok_def load_team_def load_member_def)

lemma find_member_None:
  assumes "keys_ok s" "find_member_by_name tid n s = None" "load_member s tid mid = Some m" "member_live m"
  shows "ter_name m \<noteq> n"
proof -
  have "((tid, mid), m) \<in> set (st_members s)" using assms(3) by (simp add: load_member_def map_of_SomeD)
  then have "((tid, mid), m) \<in> set (filter (\<lambda>kv. fst (fst kv) = tid) (st_members s))" by simp
  then have "m \<in> snd ` set (filter (\<lambda>kv. fst (fst kv) = tid) (st_members s))" by (rule image_eqI [rotated]) simp
  then have "m \<in> set (list_members True True tid s)"
    using assms(4) by (simp add: list_members_def listed_def)
  moreover have "List.find (\<lambda>m. ter_name m = n) (list_members True True tid s) = None"
    using assms(2) by (simp add: find_member_by_name_def)
  ultimately show ?thesis by (simp add: find_None_iff)
qed

text \<open>A member that is removed keeps its name and its place.\<close>

lemma with_status_simps [simp]:
  "ter_team (member_with_status now st m) = ter_team m" "ter_id (member_with_status now st m) = ter_id m"
  "ter_name (member_with_status now st m) = ter_name m" "ter_role (member_with_status now st m) = ter_role m"
  "ter_status (member_with_status now st m) = st"
  by (simp_all add: member_with_status_def)

lemma remove_member_store:
  assumes "keys_ok s"
  shows "load_team (snd (store_remove_member now tid mid s)) k = load_team s k"
    and "load_member (snd (store_remove_member now tid mid s)) k i =
      (if k = tid \<and> i = mid then map_option (member_with_status now Member_Removed) (load_member s k i) else load_member s k i)"
    and "keys_ok (snd (store_remove_member now tid mid s))"
proof -
  have "(load_team (snd (store_remove_member now tid mid s)) k = load_team s k) \<and>
    (load_member (snd (store_remove_member now tid mid s)) k i =
      (if k = tid \<and> i = mid then map_option (member_with_status now Member_Removed) (load_member s k i) else load_member s k i)) \<and>
    keys_ok (snd (store_remove_member now tid mid s))"
  proof (cases "load_member s tid mid")
    case None
    then show ?thesis using assms by (simp add: store_remove_member_def)
  next
    case (Some m)
    then have "ter_team m = tid" "ter_id m = mid" using keys_load(2) [OF assms] by simp_all
    then show ?thesis using Some assms by (simp add: store_remove_member_def)
  qed
  then show "load_team (snd (store_remove_member now tid mid s)) k = load_team s k"
    "load_member (snd (store_remove_member now tid mid s)) k i =
      (if k = tid \<and> i = mid then map_option (member_with_status now Member_Removed) (load_member s k i) else load_member s k i)"
    "keys_ok (snd (store_remove_member now tid mid s))" by simp_all
qed

lemma store_ok_remove:
  assumes s: "store_ok s" and free: "\<And>t. load_team s tid = Some t \<Longrightarrow> team_live t \<Longrightarrow> mid \<noteq> tm_leader_member t"
  shows "store_ok (snd (store_remove_member now tid mid s))"
proof -
  have k: "keys_ok s" using s by (simp add: store_ok_def)
  note step = remove_member_store [OF k, of now tid mid]
  let ?s = "snd (store_remove_member now tid mid s)"
  have kept: "\<exists>m0. load_member s k i = Some m0 \<and> member_live m0 \<and> ter_name m0 = ter_name m"
    if "load_member ?s k i = Some m" "member_live m" for k i m
    using that by (auto simp: step split: if_splits)
  have "names_unique ?s"
    unfolding names_unique_def
  proof (intro allI impI, elim conjE)
    fix k i j m n assume a: "load_member ?s k i = Some m" "load_member ?s k j = Some n" "member_live m" "member_live n" "ter_name m = ter_name n"
    obtain m0 where "load_member s k i = Some m0" "member_live m0" "ter_name m0 = ter_name m" using kept [OF a(1,3)] by blast
    moreover obtain n0 where "load_member s k j = Some n0" "member_live n0" "ter_name n0 = ter_name n" using kept [OF a(2,4)] by blast
    ultimately show "i = j" using s a(5) unfolding store_ok_def names_unique_def by metis
  qed
  moreover have "teams_led ?s"
    unfolding teams_led_def
  proof (intro allI impI, elim conjE)
    fix k t assume "load_team ?s k = Some t" "team_live t"
    then have t: "load_team s k = Some t" "tm_id t = k" "team_live t" using step keys_load(1) [OF k] by auto
    then have "led_by s t" using s by (simp add: store_ok_def teams_led_def)
    then show "led_by ?s t" using free [of t] t by (auto simp: led_by_def step)
  qed
  ultimately show ?thesis using step(3) by (simp add: store_ok_def)
qed

subsection \<open>Each step keeps the invariant\<close>

lemma store_ok_active:
  "store_ok s \<Longrightarrow> store_ok (snd (active_team_for_leader sid s))"
  by (simp add: active_team_for_leader_def split: option.split)

lemma active_loads [simp]:
  "load_team (snd (active_team_for_leader sid s)) k = load_team s k"
  "load_member (snd (active_team_for_leader sid s)) k i = load_member s k i"
  by (simp_all add: active_team_for_leader_def split: option.split)

lemma active_found:
  "fst (active_team_for_leader sid s) = Some t \<Longrightarrow> \<exists>k. load_team s k = Some t \<and> team_live t"
  by (auto simp: active_team_for_leader_def split: option.splits if_splits)

text \<open>Looking a caller up only drops a binding without a live team.\<close>

lemma actor_team_store:
  "store_ok s \<Longrightarrow> store_ok (snd (actor_team sid ext s))"
  "load_team (snd (actor_team sid ext s)) k = load_team s k"
  "load_member (snd (actor_team sid ext s)) k i = load_member s k i"
  by (simp_all add: actor_team_def store_ok_active split: option.split)

lemma actor_team_found: "fst (actor_team sid ext s) = Some t \<Longrightarrow> \<exists>k. load_team s k = Some t \<and> team_live t"
proof -
  assume a: "fst (actor_team sid ext s) = Some t"
  show ?thesis
  proof (cases "Option.bind (coerce_optional_value (py_get ext ''team_id'')) (load_team s)")
    case None
    then show ?thesis using a active_found by (simp add: actor_team_def)
  next
    case (Some t')
    then obtain i where "load_team s i = Some t'" by (auto simp: bind_eq_Some_conv)
    then show ?thesis using a Some active_found [of sid s t] by (auto simp: actor_team_def split: if_splits)
  qed
qed

lemma resolve_store:
  "store_ok s \<Longrightarrow> store_ok (snd (resolve_actor sid ext s))"
  "load_team (snd (resolve_actor sid ext s)) k = load_team s k"
  "load_member (snd (resolve_actor sid ext s)) k i = load_member s k i"
  by (simp_all add: resolve_actor_def case_prod_beta Let_def actor_team_store split: option.split)

lemma live_member_eq: "(\<And>k i. load_member s' k i = load_member s k i) \<Longrightarrow> live_member s' tid mid = live_member s tid mid"
  by (simp add: live_member_def)

lemma live_member_Some: "live_member s tid mid = Some m \<longleftrightarrow> load_member s tid mid = Some m \<and> member_live m"
  by (auto simp: live_member_def split: option.split)

lemma resolved:
  assumes "fst (resolve_actor sid ext s) = a" "ta_team a = Some t"
  shows "\<exists>k. load_team s k = Some t \<and> team_live t"
proof -
  have "fst (actor_team sid ext s) = Some t"
    using assms by (auto simp: resolve_actor_def case_prod_beta Let_def split: option.splits)
  then show ?thesis by (rule actor_team_found)
qed

lemma leader_of_world:
  "store_ok (tw_store w) \<Longrightarrow> store_ok (tw_store (snd (leader_of sid ext w)))"
  "load_team (tw_store (snd (leader_of sid ext w))) k = load_team (tw_store w) k"
  "load_member (tw_store (snd (leader_of sid ext w))) k i = load_member (tw_store w) k i"
  by (simp_all add: leader_of_def case_prod_beta resolve_store)

lemma leader_of_found:
  assumes "fst (leader_of sid ext w) = Inr (t, l)"
  shows "\<exists>k. load_team (tw_store w) k = Some t \<and> team_live t" "ter_role l = TR_Leader"
proof -
  have "ta_team (fst (resolve_actor sid ext (tw_store w))) = Some t" "ter_role l = TR_Leader"
    using assms by (auto simp: leader_of_def case_prod_beta require_leader_def split: option.splits if_splits)
  then show "\<exists>k. load_team (tw_store w) k = Some t \<and> team_live t" "ter_role l = TR_Leader" using resolved by blast+
qed

text \<open>What every step but the end of a deletion does to the teams: they stay, and live ones stay bound to their leader.\<close>

definition teams_bound :: "team_store \<Rightarrow> bool" where
  "teams_bound s \<longleftrightarrow>
     (\<forall>k t. load_team s k = Some t \<and> team_live t \<longrightarrow> map_of (st_bindings s) (tm_leader_session t) = Some k)"

definition store_extends :: "team_store \<Rightarrow> team_store \<Rightarrow> bool" where
  "store_extends s s' \<longleftrightarrow> (\<forall>k t. load_team s k = Some t \<longrightarrow> load_team s' k = Some t) \<and> (teams_bound s \<longrightarrow> teams_bound s')"

lemma store_extends_refl: "store_extends s s"
  by (simp add: store_extends_def)

lemma store_extends_trans: "store_extends s s' \<Longrightarrow> store_extends s' s'' \<Longrightarrow> store_extends s s''"
  by (simp add: store_extends_def)

lemma store_extends_same: "(\<And>k. load_team s' k = load_team s k) \<Longrightarrow> st_bindings s' = st_bindings s \<Longrightarrow> store_extends s s'"
  by (simp add: store_extends_def teams_bound_def)

lemma bindings_simps [simp]:
  "st_bindings (save_member m s) = st_bindings s" "st_bindings (save_team t s) = st_bindings s"
  "st_bindings (delete_leader_binding sid s) = AList.delete sid (st_bindings s)"
  "st_bindings (snd (store_remove_member now tid mid s)) = st_bindings s"
  by (simp_all add: save_member_def save_team_def delete_leader_binding_def store_remove_member_def split: option.split)

lemma bound_unbind:
  assumes "teams_bound s" "\<And>k t. map_of (st_bindings s) sid = Some k \<Longrightarrow> load_team s k = Some t \<Longrightarrow> \<not> team_live t"
  shows "teams_bound (delete_leader_binding sid s)"
  unfolding teams_bound_def
proof (intro allI impI, elim conjE)
  fix k t assume "load_team (delete_leader_binding sid s) k = Some t" "team_live t"
  then have t: "load_team s k = Some t" "map_of (st_bindings s) (tm_leader_session t) = Some k" "team_live t"
    using assms(1) by (simp_all add: teams_bound_def)
  then have "tm_leader_session t \<noteq> sid" using assms(2) by blast
  then show "map_of (st_bindings (delete_leader_binding sid s)) (tm_leader_session t) = Some k" using t(2) by (simp add: delete_conv)
qed

lemma active_extends: "store_extends s (snd (active_team_for_leader sid s))"
proof -
  have "teams_bound s \<Longrightarrow> teams_bound (snd (active_team_for_leader sid s))"
    by (auto simp: active_team_for_leader_def split: option.split intro!: bound_unbind)
  then show ?thesis by (simp add: store_extends_def)
qed

lemma resolve_extends: "store_extends s (snd (resolve_actor sid ext s))"
proof -
  have "store_extends s (snd (actor_team sid ext s))"
    by (simp add: actor_team_def active_extends store_extends_refl split: option.split)
  then show ?thesis by (simp add: resolve_actor_def case_prod_beta Let_def split: option.split)
qed

lemma leader_of_extends: "store_extends (tw_store w) (tw_store (snd (leader_of sid ext w)))"
  by (simp add: leader_of_def case_prod_beta resolve_extends)

text \<open>Teams are only added and tombstoned: their leader's member stays the same.\<close>

definition keeps_teams :: "team_store \<Rightarrow> team_store \<Rightarrow> bool" where
  "keeps_teams s s' \<longleftrightarrow>
     (\<forall>k t. load_team s k = Some t \<longrightarrow> (\<exists>t'. load_team s' k = Some t' \<and> tm_leader_member t' = tm_leader_member t))"

lemma keeps_teamsI: "(\<And>k. load_team s' k = load_team s k) \<Longrightarrow> keeps_teams s s'"
  by (simp add: keeps_teams_def)

lemma keeps_teams_trans: "keeps_teams s s' \<Longrightarrow> keeps_teams s' s'' \<Longrightarrow> keeps_teams s s''"
  unfolding keeps_teams_def by metis

lemma team_world_simps [simp]:
  "tw_store (emit_team_event ty t mid p w) = tw_store w" "tw_store (queue_private_updates sid u w) = tw_store w"
  by (simp_all add: emit_team_event_def queue_private_updates_def)

lemma fresh_simps [simp]:
  "tm_id (fresh_team tid mid sid name now) = tid" "tm_leader_member (fresh_team tid mid sid name now) = mid"
  "tm_leader_session (fresh_team tid mid sid name now) = sid" "team_live (fresh_team tid mid sid name now)"
  "ter_team (fresh_leader tid mid sid now) = tid" "ter_id (fresh_leader tid mid sid now) = mid"
  "ter_role (fresh_leader tid mid sid now) = TR_Leader" "member_live (fresh_leader tid mid sid now)"
  by (simp_all add: fresh_team_def fresh_leader_def)

lemma fresh_member_simps [simp]:
  "ter_team (fresh_member t mid n a d now) = tm_id t" "ter_id (fresh_member t mid n a d now) = mid"
  "ter_name (fresh_member t mid n a d now) = n" "member_live (fresh_member t mid n a d now)"
  by (simp_all add: fresh_member_def)

lemma store_ok_add_member:
  assumes s: "store_ok s" and new: "load_member s (ter_team m) (ter_id m) = None"
    and name: "\<And>i n. load_member s (ter_team m) i = Some n \<Longrightarrow> member_live n \<Longrightarrow> ter_name n \<noteq> ter_name m"
  shows "store_ok (save_member m s)"
proof -
  have u: "i = j" if "load_member s k i = Some a" "load_member s k j = Some b" "member_live a" "member_live b" "ter_name a = ter_name b"
    for k i j a b using s that unfolding store_ok_def names_unique_def by blast
  have "names_unique (save_member m s)"
    unfolding names_unique_def
  proof (intro allI impI, elim conjE)
    fix k i j a b
    assume l: "load_member (save_member m s) k i = Some a" "load_member (save_member m s) k j = Some b" "member_live a" "member_live b"
      "ter_name a = ter_name b"
    show "i = j"
    proof (cases "k = ter_team m \<and> (i = ter_id m \<or> j = ter_id m)")
      case True
      then show ?thesis using l name [of i a] name [of j b] by (auto split: if_splits)
    next
      case False
      then show ?thesis using l u [of k i a j b] by (auto split: if_splits)
    qed
  qed
  moreover have "teams_led (save_member m s)"
    unfolding teams_led_def
  proof (intro allI impI, elim conjE)
    fix k t assume "load_team (save_member m s) k = Some t" "team_live t"
    then have "led_by s t" using s by (simp add: store_ok_def teams_led_def)
    then show "led_by (save_member m s) t" using new by (auto simp: led_by_def)
  qed
  ultimately show ?thesis using s by (simp add: store_ok_def)
qed

lemma store_ok_new_team:
  assumes s: "store_ok s" and new: "load_team s (tm_id t) = None" "\<And>i. load_member s (tm_id t) i = None"
    and l: "ter_team l = tm_id t" "ter_id l = tm_leader_member t" "ter_role l = TR_Leader" "member_live l"
  shows "store_ok (save_member l (save_team t s))"
proof -
  have "names_unique (save_member l (save_team t s))"
    using s new(2) l(1) unfolding store_ok_def names_unique_def by (simp split: if_splits)
  moreover have "led_by (save_member l (save_team t s)) u"
    if "load_team (save_member l (save_team t s)) k = Some u" "team_live u" for k u
  proof (cases "k = tm_id t")
    case True
    then show ?thesis using that l by (simp add: led_by_def)
  next
    case False
    then have u: "load_team s k = Some u" using that by simp
    then have "led_by s u" "tm_id u = k"
      using s that(2) keys_load(1) [of s k u] by (auto simp: store_ok_def teams_led_def)
    then show ?thesis using False l by (simp add: led_by_def)
  qed
  then have "teams_led (save_member l (save_team t s))" unfolding teams_led_def by blast
  ultimately show ?thesis using s by (simp add: store_ok_def)
qed

lemma create_store:
  assumes s: "store_ok s" and new: "load_team s (tm_id t) = None" "\<And>i. load_member s (tm_id t) i = None"
    and l: "ter_team l = tm_id t" "ter_id l = tm_leader_member t" "ter_role l = TR_Leader" "member_live l"
    and c: "store_create_team t l s = Inr s'"
  shows "store_ok s'" "store_extends s s'"
proof -
  have e: "s' = (save_member l (save_team t s))\<lparr>st_bindings := AList.update (tm_leader_session t) (tm_id t) (st_bindings s)\<rparr>"
    using c by (simp add: store_create_team_def split: if_splits)
  show "store_ok s'" using store_ok_new_team [OF s new l] by (simp add: e)
  have n: "map_of (st_bindings s) (tm_leader_session t) = None" using c by (auto simp: store_create_team_def split: if_splits)
  have "teams_bound s'" if b: "teams_bound s" using b n
    by (auto simp: e teams_bound_def map_of_update) (metis option.distinct(1))
  moreover have "load_team s k = Some u \<Longrightarrow> load_team s' k = Some u" for k u using new(1) by (auto simp: e)
  ultimately show "store_extends s s'" unfolding store_extends_def by blast
qed

lemma found_or_created_ok:
  assumes s: "store_ok (tw_store w)" and new: "unused tid mid w"
  shows "store_ok (tw_store (snd (found_or_created tid mid name sid now w)))"
    and "store_extends (tw_store w) (tw_store (snd (found_or_created tid mid name sid now w)))"
proof -
  obtain f s1 where f: "active_team_for_leader sid (tw_store w) = (f, s1)" by (cases "active_team_for_leader sid (tw_store w)")
  have s1: "store_ok s1" "load_team s1 k = load_team (tw_store w) k" "load_member s1 k i = load_member (tw_store w) k i" for k i
    using store_ok_active [OF s, of sid] active_loads [of sid "tw_store w"] by (simp_all add: f)
  have kt: "store_extends (tw_store w) s1" using active_extends [of "tw_store w" sid] by (simp add: f)
  let ?goal = "store_ok (tw_store (snd (found_or_created tid mid name sid now w))) \<and>
    store_extends (tw_store w) (tw_store (snd (found_or_created tid mid name sid now w)))"
  have ?goal
  proof (cases f)
    case (Some t)
    then show ?thesis using f s1(1) kt by (simp add: found_or_created_def)
  next
    case None
    show ?thesis
    proof (cases "store_create_team (fresh_team tid mid sid name now) (fresh_leader tid mid sid now) s1")
      case (Inl x)
      obtain g s2 where g: "active_team_for_leader sid s1 = (g, s2)" by (cases "active_team_for_leader sid s1")
      have "store_ok s2" "store_extends s1 s2"
        using store_ok_active [OF s1(1), of sid] active_extends [of s1 sid] by (simp_all add: g)
      then show ?thesis using f None Inl g kt store_extends_trans [of "tw_store w" s1 s2]
        by (simp add: found_or_created_def split: option.split)
    next
      case (Inr s2)
      have "load_team s1 tid = None" "load_member s1 tid i = None" for i using new s1(2,3) by (simp_all add: unused_def)
      then have "store_ok s2" "store_extends s1 s2"
        using create_store [OF s1(1) _ _ _ _ _ _ Inr] by simp_all
      then show ?thesis using f None Inr kt store_extends_trans [of "tw_store w" s1 s2] by (simp add: found_or_created_def Let_def)
    qed
  qed
  then show "store_ok (tw_store (snd (found_or_created tid mid name sid now w)))"
    "store_extends (tw_store w) (tw_store (snd (found_or_created tid mid name sid now w)))" by blast+
qed

lemma create_team_ok:
  assumes s: "store_ok (tw_store w)" and new: "unused tid mid w"
  shows "store_ok (tw_store (snd (create_team tid mid name sid ext now w)))"
    and "store_extends (tw_store w) (tw_store (snd (create_team tid mid name sid ext now w)))"
proof -
  obtain a s1 where a: "resolve_actor sid ext (tw_store w) = (a, s1)" by (cases "resolve_actor sid ext (tw_store w)")
  let ?w = "w\<lparr>tw_store := s1\<rparr>"
  have s1: "store_ok s1" "load_team s1 k = load_team (tw_store w) k" "load_member s1 k i = load_member (tw_store w) k i" for k i
    using resolve_store [where s = "tw_store w" and sid = sid and ext = ext] s by (simp_all add: a)
  have kt: "store_extends (tw_store w) s1" using resolve_extends [of "tw_store w" sid ext] by (simp add: a)
  have "unused tid mid ?w" using new s1(2,3) by (simp add: unused_def)
  then have f: "store_ok (tw_store (snd (found_or_created tid mid name sid now ?w)))"
    "store_extends s1 (tw_store (snd (found_or_created tid mid name sid now ?w)))"
    using found_or_created_ok [of ?w tid mid name sid now] s1(1) by simp_all
  have "tw_store (snd (create_team tid mid name sid ext now w)) = s1 \<or>
    tw_store (snd (create_team tid mid name sid ext now w)) = tw_store (snd (found_or_created tid mid name sid now ?w))"
    by (simp add: create_team_def a Let_def case_prod_beta split: sum.split option.split)
  then show "store_ok (tw_store (snd (create_team tid mid name sid ext now w)))"
    "store_extends (tw_store w) (tw_store (snd (create_team tid mid name sid ext now w)))"
    using s1(1) kt f store_extends_trans [OF kt f(2)] by auto
qed

lemma store_extends_keeps: "store_extends s s' \<Longrightarrow> keeps_teams s s'"
  by (simp add: store_extends_def keeps_teams_def)

lemma register_ok:
  assumes s: "store_ok (tw_store w)" and new: "\<And>t. load_member (tw_store w) t mid = None"
  shows "store_ok (tw_store (snd (register_member raises mid sid ext name agent defaults now w)))"
    and "store_extends (tw_store w) (tw_store (snd (register_member raises mid sid ext name agent defaults now w)))"
proof -
  obtain r w1 where r: "leader_of sid ext w = (r, w1)" by (cases "leader_of sid ext w")
  have s1: "store_ok (tw_store w1)" "load_member (tw_store w1) k i = load_member (tw_store w) k i" for k i
    using leader_of_world [where w = w and sid = sid and ext = ext] s by (simp_all add: r)
  have kt: "store_extends (tw_store w) (tw_store w1)" using leader_of_extends [of w sid ext] by (simp add: r)
  let ?w = "snd (register_member raises mid sid ext name agent defaults now w)"
  consider "tw_store ?w = tw_store w1" | t n d where "tw_store ?w = save_member (fresh_member t mid n agent d now) (tw_store w1)"
      "find_member_by_name (tm_id t) n (tw_store w1) = None"
  proof (cases r)
    case (Inl e)
    then show ?thesis using that(1) by (simp add: register_member_def r)
  next
    case (Inr p)
    obtain t l where p: "p = (t, l)" by (cases p)
    let ?m = "rbind (validate_member_name name) (\<lambda>n.
               rbind (ensure (find_member_by_name (tm_id t) n (tw_store w1) = None)
                   (Team_Control_Error ''duplicate_member_name'' (''Team member name '' @ repr_str n @ '' is already in use''))) (\<lambda>_.
               rbind (normalize_execution_defaults defaults) (\<lambda>d. Inr (fresh_member t mid n agent d now))))"
    show ?thesis
    proof (cases ?m)
      case (Inl e)
      then show ?thesis using that(1) by (simp add: register_member_def r \<open>r = Inr p\<close> p)
    next
      case (Inr m)
      then have "tw_store ?w = save_member m (tw_store w1)"
        by (simp add: register_member_def r \<open>r = Inr p\<close> p Let_def split: option.split)
      moreover obtain n d where "m = fresh_member t mid n agent d now" "find_member_by_name (tm_id t) n (tw_store w1) = None"
        using Inr by (auto simp: rbind_def ensure_def split: sum.splits if_splits)
      ultimately show ?thesis using that(2) by simp
    qed
  qed
  then have "store_ok (tw_store ?w) \<and> store_extends (tw_store w) (tw_store ?w)"
  proof cases
    case 1
    then show ?thesis using s1 kt by simp
  next
    case (2 t n d)
    have k: "keys_ok (tw_store w1)" using s1(1) by (simp add: store_ok_def)
    have "store_ok (tw_store ?w)"
      unfolding 2(1)
    proof (rule store_ok_add_member [OF s1(1)])
      show "load_member (tw_store w1) (ter_team (fresh_member t mid n agent d now)) (ter_id (fresh_member t mid n agent d now)) = None"
        using new s1(2) by simp
      show "ter_name x \<noteq> ter_name (fresh_member t mid n agent d now)"
        if "load_member (tw_store w1) (ter_team (fresh_member t mid n agent d now)) i = Some x" "member_live x" for i x
        using find_member_None [OF k 2(2)] that by simp
    qed
    moreover have "store_extends (tw_store w1) (tw_store ?w)" by (rule store_extends_same) (simp_all add: 2(1))
    ultimately show ?thesis using store_extends_trans [OF kt] by blast
  qed
  then show "store_ok (tw_store ?w)" "store_extends (tw_store w) (tw_store ?w)" by blast+
qed

text \<open>What a removal or a deletion under way knows of its team.\<close>

definition knows_team :: "team_store \<Rightarrow> team \<Rightarrow> bool" where
  "knows_team s t \<longleftrightarrow> (\<exists>t'. load_team s (tm_id t) = Some t' \<and> tm_leader_member t' = tm_leader_member t)"

lemma knows_keeps: "knows_team s t \<Longrightarrow> keeps_teams s s' \<Longrightarrow> knows_team s' t"
  unfolding knows_team_def keeps_teams_def by metis

lemma leader_of_knows:
  assumes s: "store_ok (tw_store w)" and r: "leader_of sid ext w = (Inr (t, l), w1)"
  shows "knows_team (tw_store w1) t"
proof -
  obtain k where "load_team (tw_store w) k = Some t" using leader_of_found(1) [of sid ext w t l] r by auto
  moreover from this have "tm_id t = k" using s keys_load(1) [of "tw_store w" k t] by (simp add: store_ok_def)
  ultimately show ?thesis using leader_of_world(2) [of sid ext w] r by (simp add: knows_team_def)
qed

lemma begin_removal_ok:
  assumes s: "store_ok (tw_store w)" and b: "begin_removal sid ext mid w = (r, w1)"
  shows "store_ok (tw_store w1)" "store_extends (tw_store w) (tw_store w1)"
    and "r = Inr (t, m) \<Longrightarrow> knows_team (tw_store w1) t \<and> ter_id m \<noteq> tm_leader_member t"
proof -
  obtain q w2 where q: "leader_of sid ext w = (q, w2)" by (cases "leader_of sid ext w")
  have w: "w1 = w2" using b by (simp add: begin_removal_def q split: sum.splits prod.splits)
  show "store_ok (tw_store w1)" "store_extends (tw_store w) (tw_store w1)"
    using leader_of_world(1) [OF s, of sid ext] leader_of_extends [of w sid ext] by (simp_all add: q w)
  assume r: "r = Inr (t, m)"
  obtain l where l: "q = Inr (t, l)" "mid \<noteq> tm_leader_member t" "live_member (tw_store w2) (tm_id t) mid = Some m"
    using b r by (auto simp: begin_removal_def q split: sum.splits prod.splits if_splits option.splits)
  have "ter_id m = mid"
    using l(3) leader_of_world(1) [OF s, of sid ext] keys_load(2) [of "tw_store w2" "tm_id t" mid m] by (simp add: live_member_Some store_ok_def q)
  then show "knows_team (tw_store w1) t \<and> ter_id m \<noteq> tm_leader_member t"
    using leader_of_knows [OF s, of sid ext t l w2] q l w by simp
qed

lemma begin_delete_ok:
  assumes s: "store_ok (tw_store w)" and b: "begin_delete sid ext w = (r, w1)"
  shows "store_ok (tw_store w1)" "store_extends (tw_store w) (tw_store w1)"
    and "r = Inr (t, l, ms) \<Longrightarrow> knows_team (tw_store w1) t"
proof -
  obtain q w2 where q: "leader_of sid ext w = (q, w2)" by (cases "leader_of sid ext w")
  have w: "w1 = w2" using b by (simp add: begin_delete_def q split: sum.splits prod.splits)
  show "store_ok (tw_store w1)" "store_extends (tw_store w) (tw_store w1)"
    using leader_of_world(1) [OF s, of sid ext] leader_of_extends [of w sid ext] by (simp_all add: q w)
  assume "r = Inr (t, l, ms)"
  then have "q = Inr (t, l)" using b by (auto simp: begin_delete_def q split: sum.splits prod.splits)
  then show "knows_team (tw_store w1) t" using leader_of_knows [OF s, of sid ext t l w2] q w by simp
qed

lemma remove_keeps: "keys_ok s \<Longrightarrow> keeps_teams s (snd (store_remove_member now tid mid s))"
  by (rule keeps_teamsI) (rule remove_member_store)

lemma remove_known:
  assumes s: "store_ok s" and k: "knows_team s t" and m: "mid \<noteq> tm_leader_member t"
  shows "store_ok (snd (store_remove_member now (tm_id t) mid s)) \<and> knows_team (snd (store_remove_member now (tm_id t) mid s)) t \<and>
    keeps_teams s (snd (store_remove_member now (tm_id t) mid s))"
proof -
  have "keeps_teams s (snd (store_remove_member now (tm_id t) mid s))" using s remove_keeps by (simp add: store_ok_def)
  moreover have "store_ok (snd (store_remove_member now (tm_id t) mid s))"
    using k m by (intro store_ok_remove s) (auto simp: knows_team_def)
  ultimately show ?thesis using knows_keeps [OF k] by blast
qed

lemma finish_removal_ok:
  assumes "store_ok (tw_store w)" "knows_team (tw_store w) t" "ter_id m \<noteq> tm_leader_member t"
  shows "store_ok (tw_store (snd (finish_removal now t m w)))" "store_extends (tw_store w) (tw_store (snd (finish_removal now t m w)))"
  using remove_known [OF assms] remove_member_store(1) assms(1)
  by (simp_all add: finish_removal_def case_prod_beta Let_def store_extends_same store_ok_def)

definition removed_members :: "time \<Rightarrow> team \<Rightarrow> team_member list \<Rightarrow> team_store \<Rightarrow> team_store" where
  "removed_members now t ms s =
     fold (\<lambda>m s. if ter_id m = tm_leader_member t then s else snd (store_remove_member now (tm_id t) (ter_id m) s)) ms s"

lemma finish_delete_store:
  "tw_store (snd (finish_delete now t l ms w)) =
     snd (store_remove_member now (tm_id t) (tm_leader_member t) (snd (tombstone_team now t (removed_members now t ms (tw_store w)))))"
  by (simp add: finish_delete_def removed_members_def case_prod_beta Let_def)

lemma removed_members_ok:
  "store_ok s \<Longrightarrow> knows_team s t \<Longrightarrow>
     store_ok (removed_members now t ms s) \<and> knows_team (removed_members now t ms s) t \<and> keeps_teams s (removed_members now t ms s)"
proof (induction ms arbitrary: s)
  case Nil
  then show ?case by (simp add: removed_members_def keeps_teamsI)
next
  case (Cons m ms)
  show ?case
  proof (cases "ter_id m = tm_leader_member t")
    case True
    then show ?thesis using Cons by (simp add: removed_members_def)
  next
    case False
    let ?s = "snd (store_remove_member now (tm_id t) (ter_id m) s)"
    have a: "store_ok ?s" "knows_team ?s t" "keeps_teams s ?s" using remove_known [OF Cons.prems False] by blast+
    have e: "removed_members now t (m # ms) s = removed_members now t ms ?s" using False by (simp add: removed_members_def)
    show ?thesis using Cons.IH [OF a(1,2)] keeps_teams_trans [OF a(3)] unfolding e by blast
  qed
qed

lemma tombstone_simps [simp]:
  "tm_id (tombstone now t) = tm_id t" "tm_leader_member (tombstone now t) = tm_leader_member t"
  "tm_leader_session (tombstone now t) = tm_leader_session t" "tm_status (tombstone now t) = Team_Deleted"
  by (simp_all add: tombstone_def)

lemma tombstone_ok:
  assumes s: "store_ok s" and k: "knows_team s t"
  shows "store_ok (snd (tombstone_team now t s))" "keeps_teams s (snd (tombstone_team now t s))"
    "load_team (snd (tombstone_team now t s)) (tm_id t) = Some (tombstone now t)"
  using s k by (auto simp: store_ok_def keeps_teams_def knows_team_def tombstone_team_def names_unique_def teams_led_def led_by_def)

lemma finish_delete_ok:
  assumes s: "store_ok (tw_store w)" and k: "knows_team (tw_store w) t"
  shows "store_ok (tw_store (snd (finish_delete now t l ms w)))"
    and "keeps_teams (tw_store w) (tw_store (snd (finish_delete now t l ms w)))"
proof -
  let ?r = "removed_members now t ms (tw_store w)" let ?s = "snd (tombstone_team now t ?r)"
  have r: "store_ok ?r" "knows_team ?r t" "keeps_teams (tw_store w) ?r" using removed_members_ok [OF s k] by blast+
  note g = tombstone_ok [OF r(1,2), of now]
  have "store_ok (snd (store_remove_member now (tm_id t) (tm_leader_member t) ?s))"
    by (rule store_ok_remove [OF g(1)]) (auto simp: g(3))
  moreover have "keeps_teams ?s (snd (store_remove_member now (tm_id t) (tm_leader_member t) ?s))"
    using g(1) remove_keeps by (simp add: store_ok_def)
  ultimately show "store_ok (tw_store (snd (finish_delete now t l ms w)))"
    "keeps_teams (tw_store w) (tw_store (snd (finish_delete now t l ms w)))"
    using keeps_teams_trans [OF r(3) keeps_teams_trans [OF g(2)]] by (simp_all add: finish_delete_store)
qed

subsection \<open>Every reachable system\<close>

lemma set_remove1D: "x \<in> set (remove1 a xs) \<Longrightarrow> x \<in> set xs"
  using set_remove1_subset [of a xs] by blast

definition system_ok :: "team_system \<Rightarrow> bool" where
  "system_ok y \<longleftrightarrow> store_ok (tw_store (sy_world y)) \<and>
     (\<forall>(t, m)\<in>set (sy_removals y). knows_team (tw_store (sy_world y)) t \<and> ter_id m \<noteq> tm_leader_member t) \<and>
     (\<forall>(t, l, ms)\<in>set (sy_deletes y). knows_team (tw_store (sy_world y)) t)"

lemma system_okI:
  assumes "system_ok y" "store_ok s" "keeps_teams (tw_store (sy_world y)) s" "tw_store (sy_world z) = s"
    and "\<And>t m. (t, m) \<in> set (sy_removals z) \<Longrightarrow> (t, m) \<in> set (sy_removals y) \<or> knows_team s t \<and> ter_id m \<noteq> tm_leader_member t"
    and "\<And>t l ms. (t, l, ms) \<in> set (sy_deletes z) \<Longrightarrow> (t, l, ms) \<in> set (sy_deletes y) \<or> knows_team s t"
  shows "system_ok z"
proof -
  have "knows_team s t" if "knows_team (tw_store (sy_world y)) t" for t using that assms(3) by (rule knows_keeps)
  then show ?thesis using assms(1,2,5,6) unfolding system_ok_def assms(4) by blast
qed

lemma team_step_ok: "team_step y z \<Longrightarrow> system_ok y \<Longrightarrow> system_ok z"
proof (induction rule: team_step.induct)
  case (creates tid mid y name sid ext now)
  then have s: "store_ok (tw_store (sy_world y))" by (simp add: system_ok_def)
  show ?case by (rule system_okI [OF creates(2) create_team_ok(1) [OF s creates(1)] store_extends_keeps [OF create_team_ok(2) [OF s creates(1)]]]) simp_all
next
  case (registers y mid raises sid ext name agent defaults now)
  then have s: "store_ok (tw_store (sy_world y))" by (simp add: system_ok_def)
  show ?case by (rule system_okI [OF registers(2) register_ok(1) [OF s] store_extends_keeps [OF register_ok(2) [OF s]]]) (simp_all add: registers(1))
next
  case (asks_removal sid ext mid y r w)
  then have s: "store_ok (tw_store (sy_world y))" by (simp add: system_ok_def)
  note b = begin_removal_ok [OF s asks_removal(1)]
  show ?case by (rule system_okI [OF asks_removal(2) b(1) store_extends_keeps [OF b(2)]]) (auto simp: b(3) split: sum.splits)
next
  case (removes t m y now)
  then have a: "store_ok (tw_store (sy_world y))" "knows_team (tw_store (sy_world y)) t" "ter_id m \<noteq> tm_leader_member t"
    by (auto simp: system_ok_def)
  show ?case
    by (rule system_okI [OF removes(2) finish_removal_ok(1) [OF a] store_extends_keeps [OF finish_removal_ok(2) [OF a]]]) (auto dest: set_remove1D)
next
  case (removal_raises y p)
  then show ?case by (auto simp: system_ok_def dest: set_remove1D)
next
  case (asks_delete sid ext y r w)
  then have s: "store_ok (tw_store (sy_world y))" by (simp add: system_ok_def)
  note b = begin_delete_ok [OF s asks_delete(1)]
  show ?case by (rule system_okI [OF asks_delete(2) b(1) store_extends_keeps [OF b(2)]]) (auto simp: b(3) split: sum.splits)
next
  case (deletes t l ms y now)
  then have a: "store_ok (tw_store (sy_world y))" "knows_team (tw_store (sy_world y)) t" by (auto simp: system_ok_def)
  show ?case
    by (rule system_okI [OF deletes(2) finish_delete_ok [OF a]]) (auto dest: set_remove1D)
next
  case (delete_raises y q)
  then show ?case by (auto simp: system_ok_def dest: set_remove1D)
qed

lemma system_ok_new: "system_ok new_team_system"
  by (simp add: system_ok_def new_team_system_def new_team_world_def new_team_store_def store_ok_def keys_ok_def names_unique_def
      teams_led_def load_team_def load_member_def)

lemma reachable_ok: "team_step\<^sup>*\<^sup>* new_team_system y \<Longrightarrow> system_ok y"
  by (induction rule: rtranclp_induct) (auto simp: system_ok_new team_step_ok)

subsection \<open>One deletion at a time\<close>

text \<open>The step that ends a deletion, on a team that is still as it was found.\<close>

definition found_live :: "team_store \<Rightarrow> team \<Rightarrow> bool" where
  "found_live s t \<longleftrightarrow> load_team s (tm_id t) = Some t \<and> team_live t"

lemma removed_members_same:
  "keys_ok s \<Longrightarrow> (\<forall>k. load_team (removed_members now t ms s) k = load_team s k) \<and>
     st_bindings (removed_members now t ms s) = st_bindings s \<and> keys_ok (removed_members now t ms s)"
proof (induction ms arbitrary: s)
  case Nil
  then show ?case by (simp add: removed_members_def)
next
  case (Cons m ms)
  let ?s = "snd (store_remove_member now (tm_id t) (ter_id m) s)"
  show ?case
  proof (cases "ter_id m = tm_leader_member t")
    case True
    then show ?thesis using Cons by (simp add: removed_members_def)
  next
    case False
    have e: "removed_members now t (m # ms) s = removed_members now t ms ?s" using False by (simp add: removed_members_def)
    show ?thesis using Cons.IH [of ?s] remove_member_store [OF Cons.prems] unfolding e by simp
  qed
qed

lemma finish_delete_loads:
  assumes "keys_ok (tw_store w)"
  shows "load_team (tw_store (snd (finish_delete now t l ms w))) k =
      (if k = tm_id t then Some (tombstone now t) else load_team (tw_store w) k)"
    and "st_bindings (tw_store (snd (finish_delete now t l ms w))) = AList.delete (tm_leader_session t) (st_bindings (tw_store w))"
proof -
  note r = removed_members_same [OF assms, of now t ms]
  have "keys_ok (snd (tombstone_team now t (removed_members now t ms (tw_store w))))" using r by (simp add: tombstone_team_def)
  from remove_member_store(1) [OF this]
  show "load_team (tw_store (snd (finish_delete now t l ms w))) k =
      (if k = tm_id t then Some (tombstone now t) else load_team (tw_store w) k)"
    "st_bindings (tw_store (snd (finish_delete now t l ms w))) = AList.delete (tm_leader_session t) (st_bindings (tw_store w))"
    using r by (simp_all add: finish_delete_store) (simp_all add: tombstone_team_def)
qed

lemma finish_delete_bound:
  assumes k: "keys_ok (tw_store w)" and b: "teams_bound (tw_store w)" and t: "found_live (tw_store w) t"
  shows "teams_bound (tw_store (snd (finish_delete now t l ms w)))"
  unfolding teams_bound_def
proof (intro allI impI, elim conjE)
  fix i u assume "load_team (tw_store (snd (finish_delete now t l ms w))) i = Some u" "team_live u"
  then have u: "load_team (tw_store w) i = Some u" "i \<noteq> tm_id t" by (auto simp: finish_delete_loads(1) [OF k] split: if_splits)
  then have "map_of (st_bindings (tw_store w)) (tm_leader_session u) = Some i"
    "map_of (st_bindings (tw_store w)) (tm_leader_session t) = Some (tm_id t)"
    using b t \<open>team_live u\<close> by (auto simp: teams_bound_def found_live_def)
  then show "map_of (st_bindings (tw_store (snd (finish_delete now t l ms w)))) (tm_leader_session u) = Some i"
    using u(2) by (auto simp: finish_delete_loads(2) [OF k] delete_conv)
qed

definition lone_step :: "team_system \<Rightarrow> team_system \<Rightarrow> bool" where
  "lone_step y z \<longleftrightarrow> team_step y z \<and> length (sy_deletes z) \<le> 1"

definition bound_ok :: "team_system \<Rightarrow> bool" where
  "bound_ok y \<longleftrightarrow> system_ok y \<and> teams_bound (tw_store (sy_world y)) \<and> length (sy_deletes y) \<le> 1 \<and>
     (\<forall>(t, l, ms)\<in>set (sy_deletes y). found_live (tw_store (sy_world y)) t)"

lemma bound_okI:
  assumes "bound_ok y" "store_extends (tw_store (sy_world y)) (tw_store (sy_world z))" "system_ok z" "length (sy_deletes z) \<le> 1"
    and "\<And>t l ms. (t, l, ms) \<in> set (sy_deletes z) \<Longrightarrow> (t, l, ms) \<in> set (sy_deletes y) \<or> found_live (tw_store (sy_world z)) t"
  shows "bound_ok z"
proof -
  have "found_live (tw_store (sy_world z)) t" if "found_live (tw_store (sy_world y)) t" for t
    using that assms(2) by (simp add: store_extends_def found_live_def)
  then have "\<forall>(t, l, ms)\<in>set (sy_deletes z). found_live (tw_store (sy_world z)) t"
    using assms(1,5) unfolding bound_ok_def by blast
  moreover have "teams_bound (tw_store (sy_world z))" using assms(1,2) by (simp add: bound_ok_def store_extends_def)
  ultimately show ?thesis using assms(3,4) by (simp add: bound_ok_def)
qed

lemma begin_delete_live:
  assumes s: "store_ok (tw_store w)" and b: "begin_delete sid ext w = (Inr (t, l, ms), w1)"
  shows "found_live (tw_store w1) t"
proof -
  obtain q w2 where q: "leader_of sid ext w = (q, w2)" by (cases "leader_of sid ext w")
  have e: "q = Inr (t, l)" "w1 = w2" using b by (auto simp: begin_delete_def q split: sum.splits prod.splits)
  obtain k where k: "load_team (tw_store w) k = Some t" "team_live t" using leader_of_found(1) [of sid ext w t l] q e by auto
  moreover have "tm_id t = k" using s k(1) keys_load(1) [of "tw_store w" k t] by (simp add: store_ok_def)
  ultimately show ?thesis using leader_of_world(2) [where w = w and sid = sid and ext = ext] by (simp add: found_live_def q e)
qed

lemma lone_step_ok:
  assumes "lone_step y z" "bound_ok y"
  shows "bound_ok z"
proof -
  have step: "team_step y z" and len: "length (sy_deletes z) \<le> 1" using assms(1) by (auto simp: lone_step_def)
  have y: "system_ok y" "store_ok (tw_store (sy_world y))" using assms(2) by (auto simp: bound_ok_def system_ok_def)
  have z: "system_ok z" using team_step_ok [OF step y(1)] .
  from step show ?thesis
  proof cases
    case (creates tid mid name sid ext now)
    then show ?thesis using create_team_ok(2) [OF y(2) creates(2)] by (intro bound_okI [OF assms(2) _ z len]) simp_all
  next
    case (registers mid raises sid ext name agent defaults now)
    then show ?thesis using register_ok(2) [OF y(2)] by (intro bound_okI [OF assms(2) _ z len]) simp_all
  next
    case (asks_removal sid ext mid r w)
    then show ?thesis using begin_removal_ok(2) [OF y(2) asks_removal(2)] by (intro bound_okI [OF assms(2) _ z len]) simp_all
  next
    case (removes t m now)
    then have "knows_team (tw_store (sy_world y)) t" "ter_id m \<noteq> tm_leader_member t" using y(1) by (auto simp: system_ok_def)
    then show ?thesis using finish_removal_ok(2) [OF y(2)] removes by (intro bound_okI [OF assms(2) _ z len]) simp_all
  next
    case (removal_raises p)
    then show ?thesis by (intro bound_okI [OF assms(2) _ z len]) (simp_all add: store_extends_refl)
  next
    case (asks_delete sid ext r w)
    show ?thesis
      using begin_delete_ok(2) [OF y(2) asks_delete(2)] begin_delete_live [OF y(2)] asks_delete
      by (intro bound_okI [OF assms(2) _ z len]) (auto split: sum.splits)
  next
    case (deletes t l ms now)
    have "sy_deletes y = [(t, l, ms)]"
      using deletes(2) assms(2) by (cases "sy_deletes y") (auto simp: bound_ok_def)
    moreover have "found_live (tw_store (sy_world y)) t" using deletes(2) assms(2) by (auto simp: bound_ok_def)
    ultimately show ?thesis
      using finish_delete_bound z deletes(1) assms(2) y(2) by (simp add: bound_ok_def store_ok_def)
  next
    case (delete_raises q)
    then show ?thesis by (intro bound_okI [OF assms(2) _ z len]) (auto simp: store_extends_refl dest: set_remove1D)
  qed
qed

lemma lone_reachable:
  assumes "lone_step\<^sup>*\<^sup>* new_team_system y"
  shows "bound_ok y"
  using assms
proof (induction rule: rtranclp_induct)
  case base
  then show ?case
    using system_ok_new by (simp add: bound_ok_def new_team_system_def new_team_world_def new_team_store_def teams_bound_def load_team_def)
next
  case (step y z)
  then show ?case using lone_step_ok by blast
qed

end
