(* ===== verification/Team_Control_Props.thy ===== *)
theory Team_Control_Props
  imports Team_Control_Inv
begin

text \<open>
  What holds of every reachable system of teams, and what overlapping deletions break, on concrete runs.
\<close>

subsection \<open>The claims\<close>

text \<open>C25: In every system that interleaved creations, registrations, removals and deletions can reach, no two live members
  of a team have the same name, and a team that is live has its leader's record, live and with the role of leader.\<close>

theorem members_of_live_teams:
  assumes "team_step\<^sup>*\<^sup>* new_team_system y" "s = tw_store (sy_world y)"
  shows "(\<forall>tid i j m n. load_member s tid i = Some m \<and> load_member s tid j = Some n \<and> member_live m \<and> member_live n \<and>
      ter_name m = ter_name n \<longrightarrow> i = j) \<and>
    (\<forall>tid t. load_team s tid = Some t \<and> team_live t \<longrightarrow>
      (\<exists>l. load_member s tid (tm_leader_member t) = Some l \<and> member_live l \<and> ter_role l = TR_Leader))"
proof -
  have s: "store_ok s" using reachable_ok [OF assms(1)] assms(2) by (simp add: system_ok_def)
  have "led_by s t \<and> tm_id t = tid" if "load_team s tid = Some t" "team_live t" for tid t
    using s that keys_load(1) [of s tid t] unfolding store_ok_def teams_led_def by blast
  then show ?thesis using s unfolding store_ok_def names_unique_def led_by_def by blast
qed

text \<open>C26: While deletions do not overlap, a session leads at most one live team, and it is the one the session is bound to.\<close>

theorem one_live_team_per_leader:
  assumes "lone_step\<^sup>*\<^sup>* new_team_system y" "s = tw_store (sy_world y)"
    and "load_team s a = Some t" "team_live t" "load_team s b = Some u" "team_live u" "tm_leader_session t = tm_leader_session u"
  shows "a = b \<and> fst (active_team_for_leader (tm_leader_session t) s) = Some t"
proof -
  have "teams_bound s" using lone_reachable [OF assms(1)] by (simp add: bound_ok_def assms(2))
  then have "map_of (st_bindings s) (tm_leader_session t) = Some a" "map_of (st_bindings s) (tm_leader_session u) = Some b"
    using assms(3-6) unfolding teams_bound_def by blast+
  then show ?thesis using assms(3,4,7) by (simp add: active_team_for_leader_def)
qed

subsection \<open>A run\<close>

definition demo_created :: "string \<Rightarrow> string \<Rightarrow> team_world \<Rightarrow> team_world" where
  "demo_created tid mid w = snd (create_team tid mid None ''s1'' [] 0 w)"

definition demo_crew :: team_world where
  "demo_crew = snd (register_member None ''m1'' ''s1'' [] ''ada'' ''coder'' [] 1 (demo_created ''t1'' ''l1'' new_team_world))"

definition demo_deletion :: "team \<times> team_member \<times> team_member list" where
  "demo_deletion = (case fst (begin_delete ''s1'' [] demo_crew) of Inr p \<Rightarrow> p)"

definition demo_deleted :: "team_world \<Rightarrow> team_world" where
  "demo_deleted w = (case demo_deletion of (t, l, ms) \<Rightarrow> snd (finish_delete 2 t l ms w))"

definition demo_orphan :: team_world where
  "demo_orphan = demo_created ''t3'' ''l3'' (demo_deleted (demo_created ''t2'' ''l2'' (demo_deleted demo_crew)))"

lemma no_member: "list_all (\<lambda>kv. snd (fst kv) \<noteq> mid) (st_members s) \<Longrightarrow> load_member s t mid = None"
  by (force simp: load_member_def list_all_iff map_of_eq_None_iff)

lemma unusedI:
  assumes "map_of (st_teams (tw_store w)) tid = None" "list_all (\<lambda>kv. snd (fst kv) \<noteq> mid) (st_members (tw_store w))"
    "list_all (\<lambda>kv. fst (fst kv) \<noteq> tid) (st_members (tw_store w))"
  shows "unused tid mid w"
  using assms(1,3) no_member [OF assms(2)] by (force simp: unused_def load_team_def load_member_def list_all_iff map_of_eq_None_iff)

lemma demo_team_steps:
  "unused ''t1'' ''l1'' new_team_world"
  "list_all (\<lambda>kv. snd (fst kv) \<noteq> ''m1'') (st_members (tw_store (demo_created ''t1'' ''l1'' new_team_world)))"
  "unused ''t2'' ''l2'' (demo_deleted demo_crew)"
  "unused ''t3'' ''l3'' (demo_deleted (demo_created ''t2'' ''l2'' (demo_deleted demo_crew)))"
  "begin_delete ''s1'' [] demo_crew = (Inr demo_deletion, demo_crew)"
  by (rule unusedI, code_simp, code_simp, code_simp, code_simp, rule unusedI, code_simp, code_simp, code_simp,
      rule unusedI, code_simp, code_simp, code_simp, code_simp)

definition demo_start :: team_system where
  "demo_start = \<lparr>sy_world = demo_crew, sy_removals = [], sy_deletes = []\<rparr>"

definition demo_end :: team_system where
  "demo_end = \<lparr>sy_world = demo_orphan, sy_removals = [], sy_deletes = []\<rparr>"

lemma demo_start_reached: "lone_step\<^sup>*\<^sup>* new_team_system demo_start"
proof -
  let ?y = "new_team_system\<lparr>sy_world := demo_created ''t1'' ''l1'' new_team_world\<rparr>"
  have "team_step new_team_system ?y"
    unfolding demo_created_def using creates [of "''t1''" "''l1''" new_team_system None "''s1''" "[]" 0]
    by (simp add: new_team_system_def demo_team_steps(1))
  then have a: "lone_step new_team_system ?y" by (simp add: lone_step_def new_team_system_def)
  have "team_step ?y (?y\<lparr>sy_world := demo_crew\<rparr>)"
    unfolding demo_crew_def
    using registers [of ?y "''m1''" None "''s1''" "[]" "''ada''" "''coder''" "[]" 1] no_member [OF demo_team_steps(2)] by simp
  then have "lone_step ?y demo_start" by (simp add: lone_step_def new_team_system_def demo_start_def)
  with a show ?thesis by (meson converse_rtranclp_into_rtranclp rtranclp.rtrancl_refl)
qed

lemma lone_team_steps: "lone_step\<^sup>*\<^sup>* y z \<Longrightarrow> team_step\<^sup>*\<^sup>* y z"
  by (erule rtranclp_mono [THEN predicate2D, rotated]) (simp add: lone_step_def le_fun_def)

lemma demo_end_reached: "team_step\<^sup>*\<^sup>* new_team_system demo_end"
proof -
  obtain t l ms where d: "demo_deletion = (t, l, ms)" by (cases demo_deletion)
  let ?a = "demo_start\<lparr>sy_deletes := [demo_deletion]\<rparr>" and ?b = "demo_start\<lparr>sy_deletes := [demo_deletion, demo_deletion]\<rparr>"
  let ?c = "?b\<lparr>sy_world := demo_deleted demo_crew, sy_deletes := [demo_deletion]\<rparr>"
  let ?d = "?c\<lparr>sy_world := demo_created ''t2'' ''l2'' (demo_deleted demo_crew)\<rparr>"
  let ?e = "?d\<lparr>sy_world := demo_deleted (demo_created ''t2'' ''l2'' (demo_deleted demo_crew)), sy_deletes := []\<rparr>"
  have "team_step demo_start ?a" using asks_delete [of "''s1''" "[]" demo_start] demo_team_steps(5) by (simp add: demo_start_def)
  moreover have "team_step ?a ?b" using asks_delete [of "''s1''" "[]" ?a] demo_team_steps(5) by (simp add: demo_start_def)
  moreover have "team_step ?b ?c" using deletes [of t l ms ?b 2] by (simp add: demo_start_def demo_deleted_def d)
  moreover have "team_step ?c ?d" using creates [of "''t2''" "''l2''" ?c] demo_team_steps(3) by (simp add: demo_start_def demo_created_def)
  moreover have "team_step ?d ?e" using deletes [of t l ms ?d 2] by (simp add: demo_start_def demo_deleted_def d)
  moreover have "team_step ?e demo_end"
    using creates [of "''t3''" "''l3''" ?e] demo_team_steps(4) by (simp add: demo_start_def demo_created_def demo_orphan_def demo_end_def)
  ultimately show ?thesis using lone_team_steps [OF demo_start_reached] by (meson rtranclp.rtrancl_into_rtrancl)
qed

lemma demo_orphan_teams:
  "list_all2 (\<lambda>x p. fst x = fst p \<and> tm_leader_session (snd x) = ''s1'' \<and> tm_status (snd x) = snd p)
     (st_teams (tw_store demo_orphan)) [(''t1'', Team_Deleted), (''t2'', Team_Active), (''t3'', Team_Active)]"
  by code_simp

text \<open>Two deletions that overlap leave the session with two live teams, one of them unbound: the second ends by dropping the
  binding of the team created meanwhile.\<close>

lemma overlapping_deletes:
  "\<exists>y t u. team_step\<^sup>*\<^sup>* new_team_system y \<and>
     load_team (tw_store (sy_world y)) ''t2'' = Some t \<and> team_live t \<and> tm_leader_session t = ''s1'' \<and>
     load_team (tw_store (sy_world y)) ''t3'' = Some u \<and> team_live u \<and> tm_leader_session u = ''s1''"
proof -
  obtain r t u where "st_teams (tw_store (sy_world demo_end)) = [(''t1'', r), (''t2'', t), (''t3'', u)]"
    "team_live t" "tm_leader_session t = ''s1''" "team_live u" "tm_leader_session u = ''s1''"
    using demo_orphan_teams by (auto simp: list_all2_Cons2 demo_end_def)
  then show ?thesis using demo_end_reached unfolding load_team_def by (intro exI [of _ demo_end] exI [of _ t] exI [of _ u]) simp
qed

lemma demo_members:
  "load_member (tw_store demo_crew) ''t1'' ''m1'' = Some (fresh_member (fresh_team ''t1'' ''l1'' ''s1'' None 0) ''m1'' ''ada'' ''coder'' [] 1)"
  "load_team (tw_store demo_crew) ''t1'' = Some (fresh_team ''t1'' ''l1'' ''s1'' None 0)"
  by code_simp+

lemma members_of_live_teams_witness:
  "load_member (tw_store demo_crew) ''t1'' ''m1'' \<noteq> None \<and>
     (\<exists>l. load_member (tw_store demo_crew) ''t1'' ''l1'' = Some l \<and> member_live l \<and> ter_role l = TR_Leader)"
proof -
  have r: "team_step\<^sup>*\<^sup>* new_team_system demo_start" "tw_store demo_crew = tw_store (sy_world demo_start)"
    using lone_team_steps [OF demo_start_reached] by (simp_all add: demo_start_def)
  have "team_live (fresh_team ''t1'' ''l1'' ''s1'' None 0)" "tm_leader_member (fresh_team ''t1'' ''l1'' ''s1'' None 0) = ''l1''" by simp_all
  then have "\<exists>l. load_member (tw_store demo_crew) ''t1'' ''l1'' = Some l \<and> member_live l \<and> ter_role l = TR_Leader"
    using conjunct2 [OF members_of_live_teams [OF r]] demo_members(2) by metis
  then show ?thesis using demo_members(1) by simp
qed

lemma one_live_team_per_leader_witness:
  "fst (active_team_for_leader ''s1'' (tw_store demo_crew)) = Some (fresh_team ''t1'' ''l1'' ''s1'' None 0)"
proof -
  have "tw_store demo_crew = tw_store (sy_world demo_start)" by (simp add: demo_start_def)
  from one_live_team_per_leader [OF demo_start_reached this demo_members(2) _ demo_members(2)] show ?thesis by simp
qed

end
