(* ===== verification/Team_Store.thy ===== *)
theory Team_Store
  imports Team_Data
begin

text \<open>
  The store of teams in files (\<open>FileBackedTeamStore\<close>): a directory is a map from file names, here the ids they
  are made of, to payloads.  It answers every sequence of operations as the store in memory does, up to the
  order of the members.
\<close>

subsection \<open>The store in files\<close>

record team_files =
  tf_teams :: "(string, (string, pyval) dict) dict"
  tf_members :: "(string \<times> string, (string, pyval) dict) dict"
  tf_bindings :: "(string, (string, pyval) dict) dict"

definition new_team_files :: team_files where
  "new_team_files = \<lparr>tf_teams = [], tf_members = [], tf_bindings = []\<rparr>"

definition opt_result :: "('a \<Rightarrow> 'e + 'b) \<Rightarrow> 'a option \<Rightarrow> 'e + 'b option" where
  "opt_result f x = (case x of None \<Rightarrow> Inr None | Some a \<Rightarrow> rbind (f a) (\<lambda>b. Inr (Some b)))"

definition f_save_team :: "(time \<Rightarrow> string) \<Rightarrow> team \<Rightarrow> team_files \<Rightarrow> team_files" where
  "f_save_team isof t s = s\<lparr>tf_teams := AList.update (tm_id t) (team_to_dict isof t) (tf_teams s)\<rparr>"

definition f_load_team :: "(string \<Rightarrow> time option) \<Rightarrow> time \<Rightarrow> team_files \<Rightarrow> string \<Rightarrow> payload_error + team option" where
  "f_load_team parsef now s tid = opt_result (team_from_dict parsef now) (map_of (tf_teams s) tid)"

definition f_save_member :: "(time \<Rightarrow> string) \<Rightarrow> team_member \<Rightarrow> team_files \<Rightarrow> team_files" where
  "f_save_member isof m s = s\<lparr>tf_members := AList.update (ter_team m, ter_id m) (member_to_dict isof m) (tf_members s)\<rparr>"

definition f_load_member ::
  "(string \<Rightarrow> time option) \<Rightarrow> time \<Rightarrow> team_files \<Rightarrow> string \<Rightarrow> string \<Rightarrow> payload_error + team_member option" where
  "f_load_member parsef now s tid mid = opt_result (member_from_dict parsef now) (map_of (tf_members s) (tid, mid))"

definition f_delete_leader_binding :: "string \<Rightarrow> team_files \<Rightarrow> team_files" where
  "f_delete_leader_binding sid s = s\<lparr>tf_bindings := AList.delete sid (tf_bindings s)\<rparr>"

definition f_create_team :: "(time \<Rightarrow> string) \<Rightarrow> time \<Rightarrow> team \<Rightarrow> team_member \<Rightarrow> team_files \<Rightarrow> string + team_files" where
  "f_create_team isof now t leader s =
     (if map_of (tf_teams s) (tm_id t) \<noteq> None then Inl (tm_id t)
      else if map_of (tf_bindings s) (tm_leader_session t) \<noteq> None then Inl (tm_leader_session t)
      else Inr ((f_save_member isof leader (f_save_team isof t s))
        \<lparr>tf_bindings := AList.update (tm_leader_session t) (binding_to_dict isof now (tm_leader_session t) (tm_id t)) (tf_bindings s)\<rparr>))"

definition f_active_team_for_leader ::
  "(string \<Rightarrow> time option) \<Rightarrow> time \<Rightarrow> string \<Rightarrow> team_files \<Rightarrow> payload_error + team option \<times> team_files" where
  "f_active_team_for_leader parsef now sid s =
     (case map_of (tf_bindings s) sid of
        None \<Rightarrow> Inr (None, s)
      | Some d \<Rightarrow>
          rbind (binding_team parsef now d) (\<lambda>tid.
          rbind (f_load_team parsef now s tid) (\<lambda>t.
          Inr (case t of
               Some t \<Rightarrow> if team_live t then (Some t, s) else (None, f_delete_leader_binding sid s)
             | None \<Rightarrow> (None, f_delete_leader_binding sid s)))))"

text \<open>The files of a team's members come in the order of their names.\<close>

definition f_list_members ::
  "(string \<Rightarrow> time option) \<Rightarrow> time \<Rightarrow> bool \<Rightarrow> bool \<Rightarrow> string \<Rightarrow> team_files \<Rightarrow> payload_error + team_member list" where
  "f_list_members parsef now active_only include_leader tid s =
     rbind (collect (member_from_dict parsef now)
         (map snd (sort_key (\<lambda>kv. snd (fst kv) @ ''.json'') (filter (\<lambda>kv. fst (fst kv) = tid) (tf_members s)))))
       (\<lambda>ms. Inr (filter (listed active_only include_leader) ms))"

definition f_find_member_by_name ::
  "(string \<Rightarrow> time option) \<Rightarrow> time \<Rightarrow> string \<Rightarrow> string \<Rightarrow> team_files \<Rightarrow> payload_error + team_member option" where
  "f_find_member_by_name parsef now tid n s =
     rbind (f_list_members parsef now True True tid s) (\<lambda>ms. Inr (List.find (\<lambda>m. ter_name m = n) ms))"

definition f_tombstone_team :: "(time \<Rightarrow> string) \<Rightarrow> time \<Rightarrow> team \<Rightarrow> team_files \<Rightarrow> team \<times> team_files" where
  "f_tombstone_team isof now t s =
     (tombstone now t, f_delete_leader_binding (tm_leader_session t) (f_save_team isof (tombstone now t) s))"

definition f_remove_member ::
  "(time \<Rightarrow> string) \<Rightarrow> (string \<Rightarrow> time option) \<Rightarrow> time \<Rightarrow> string \<Rightarrow> string \<Rightarrow> team_files \<Rightarrow>
   payload_error + team_member option \<times> team_files" where
  "f_remove_member isof parsef now tid mid s =
     rbind (f_load_member parsef now s tid mid) (\<lambda>m.
     Inr (case m of
        None \<Rightarrow> (None, s)
      | Some m \<Rightarrow> (Some (member_with_status now Member_Removed m), f_save_member isof (member_with_status now Member_Removed m) s)))"

text \<open>Purging removes the team's directory; the leader's binding is elsewhere and stays.\<close>

definition f_purge_team :: "string \<Rightarrow> team_files \<Rightarrow> team_files" where
  "f_purge_team tid s =
     s\<lparr>tf_teams := AList.delete tid (tf_teams s), tf_members := filter (\<lambda>kv. fst (fst kv) \<noteq> tid) (tf_members s)\<rparr>"

subsection \<open>What is written is read back\<close>

text \<open>What the code relies on of \<open>isoformat\<close> and \<open>fromisoformat\<close>: an instant in UTC is text without blanks that
  ends with its offset, and it is parsed back.\<close>

definition utc_codec :: "(time \<Rightarrow> string) \<Rightarrow> (string \<Rightarrow> time option) \<Rightarrow> bool" where
  "utc_codec isof parsef \<longleftrightarrow>
     (\<forall>t. \<exists>b. isof t = b @ ''+00:00'' \<and> b \<noteq> [] \<and> list_all (\<lambda>c. c \<noteq> CHR ''+'' \<and> \<not> is_space c) b \<and> parsef (isof t) = Some t)"

lemma replace_offset:
  "list_all (\<lambda>c. c \<noteq> CHR ''+'') b \<Longrightarrow> replace_from 0 ''+00:00'' ''Z'' (b @ ''+00:00'') = b @ ''Z''"
  by (induction b) auto

lemma strip_spaceless: "list_all (\<lambda>c. \<not> is_space c) s \<Longrightarrow> strip s = s"
proof -
  assume a: "list_all (\<lambda>c. \<not> is_space c) s"
  have d: "dropWhile is_space xs = xs" if "list_all (\<lambda>c. \<not> is_space c) xs" for xs
    using that by (cases xs) auto
  show ?thesis using a by (simp add: strip_def d)
qed

lemma timestamp_back:
  assumes "utc_codec isof parsef"
  shows "parse_utc_timestamp parsef (PStr (utc_isoformat isof t)) = Inr (Some t)"
proof -
  obtain b where b: "isof t = b @ ''+00:00''" "b \<noteq> []" "list_all (\<lambda>c. c \<noteq> CHR ''+'' \<and> \<not> is_space c) b"
    "parsef (isof t) = Some t" using assms unfolding utc_codec_def by blast
  have "utc_isoformat isof t = b @ ''Z''"
    unfolding utc_isoformat_def b(1) by (rule replace_offset) (use b(3) in \<open>auto simp: list_all_iff\<close>)
  moreover have "strip (b @ ''Z'') = b @ ''Z''"
    by (rule strip_spaceless) (use b(3) in \<open>auto simp: list_all_iff is_space_def\<close>)
  ultimately show ?thesis using b(1,4) by (simp add: parse_utc_timestamp_def)
qed

lemma opt_timestamp_back: "utc_codec isof parsef \<Longrightarrow> parse_utc_timestamp parsef (opt_time isof t) = Inr t"
  by (cases t) (simp_all add: opt_time_def timestamp_back, simp add: parse_utc_timestamp_def)

lemma time_or_back: "utc_codec isof parsef \<Longrightarrow> time_or parsef now (PStr (utc_isoformat isof t)) = Inr t"
  by (simp add: time_or_def timestamp_back)

lemma str_or_back [simp]: "str_or_default (PStr s) d = (if s = [] then d else s)"
  by (simp add: str_or_default_def py_or_def)

lemma int_or_back [simp]: "i \<noteq> 0 \<Longrightarrow> int_or_default (PInt i) d = Inr i"
  by (simp add: int_or_default_def py_or_def)

lemma opt_str_back: "plain_text x \<Longrightarrow> coerce_optional_value (opt_str_value x) = x"
  by (cases x) (simp_all add: plain_text_def opt_str_value_def)

lemma enum_back [simp]:
  "enum_of team_status_value [Team_Active, Team_Deleted] (team_status_value a) = Inr a"
  "enum_of team_role_value [TR_Leader, TR_Teammate] (team_role_value b) = Inr b"
  "enum_of member_status_value [Member_Active, Member_Removed] (member_status_value c) = Inr c"
  by (cases a, simp_all add: enum_of_def, cases b, simp_all, cases c, simp_all)

lemma values_nonempty [simp]: "team_status_value a \<noteq> []" "team_role_value b \<noteq> []" "member_status_value c \<noteq> []"
  by (cases a, simp_all, cases b, simp_all, cases c, simp_all)

definition normal_team :: "team \<Rightarrow> bool" where
  "normal_team t \<longleftrightarrow> tm_schema t \<noteq> 0 \<and> plain_text (tm_name t)"

definition normal_member :: "team_member \<Rightarrow> bool" where
  "normal_member m \<longleftrightarrow> ter_schema m \<noteq> 0 \<and> plain_text (ter_agent m) \<and> plain_text (ter_session m)"

lemma team_back:
  assumes "utc_codec isof parsef" "normal_team t"
  shows "team_from_dict parsef now (team_to_dict isof t) = Inr t"
  using assms
  by (simp add: team_from_dict_def team_to_dict_def py_get_def time_or_back opt_timestamp_back opt_str_back normal_team_def)

lemma member_back:
  assumes "utc_codec isof parsef" "normal_member m"
  shows "member_from_dict parsef now (member_to_dict isof m) = Inr m"
  using assms
  by (simp add: member_from_dict_def member_to_dict_def py_get_def time_or_back opt_timestamp_back opt_str_back normal_member_def)

lemma binding_back:
  assumes "utc_codec isof parsef"
  shows "binding_team parsef now (binding_to_dict isof now' sid tid) = Inr tid"
  using assms by (simp add: binding_team_def binding_to_dict_def py_get_def time_or_back)

subsection \<open>Both stores\<close>

definition file_payloads :: "('a \<Rightarrow> 'b) \<Rightarrow> ('k, 'a) dict \<Rightarrow> ('k, 'b) dict" where
  "file_payloads f d = map (\<lambda>(k, v). (k, f v)) d"

lemma file_payloads_update: "file_payloads f (AList.update k v d) = AList.update k (f v) (file_payloads f d)"
  by (induction d) (auto simp: file_payloads_def)

lemma file_payloads_lookup: "map_of (file_payloads f d) k = map_option f (map_of d k)"
  by (induction d) (auto simp: file_payloads_def)

lemma file_payloads_delete: "file_payloads f (AList.delete k d) = AList.delete k (file_payloads f d)"
  by (induction d) (auto simp: file_payloads_def)

lemma file_payloads_filter: "filter (\<lambda>kv. P (fst kv)) (file_payloads f d) = file_payloads f (filter (\<lambda>kv. P (fst kv)) d)"
  by (induction d) (auto simp: file_payloads_def)

lemma file_payloads_insort:
  "insort_key (\<lambda>kv. h (fst kv)) (k, g v) (file_payloads g d) = file_payloads g (insort_key (\<lambda>kv. h (fst kv)) (k, v) d)"
  unfolding file_payloads_def by (induction d) auto

lemma file_payloads_sort: "sort_key (\<lambda>kv. h (fst kv)) (file_payloads g d) = file_payloads g (sort_key (\<lambda>kv. h (fst kv)) d)"
proof (induction d)
  case (Cons x d)
  then show ?case using file_payloads_insort [of h "fst x" g "snd x"] by (cases x) (simp add: file_payloads_def)
qed (simp add: file_payloads_def)

text \<open>The files hold the payloads of what the memory holds, and each leader's binding names the same team.\<close>

definition same_bindings :: "(string \<Rightarrow> time option) \<Rightarrow> (string, string) dict \<Rightarrow> (string, (string, pyval) dict) dict \<Rightarrow> bool" where
  "same_bindings parsef b fb \<longleftrightarrow>
     (\<forall>sid. rel_option (\<lambda>tid d. \<forall>now. binding_team parsef now d = Inr tid) (map_of b sid) (map_of fb sid))"

definition values_ok :: "('v \<Rightarrow> bool) \<Rightarrow> ('k, 'v) dict \<Rightarrow> bool" where
  "values_ok P d \<longleftrightarrow> (\<forall>v \<in> snd ` set d. P v)"

definition stored :: "(time \<Rightarrow> string) \<Rightarrow> (string \<Rightarrow> time option) \<Rightarrow> team_store \<Rightarrow> team_files \<Rightarrow> bool" where
  "stored isof parsef s f \<longleftrightarrow>
     tf_teams f = file_payloads (team_to_dict isof) (st_teams s) \<and>
     tf_members f = file_payloads (member_to_dict isof) (st_members s) \<and>
     same_bindings parsef (st_bindings s) (tf_bindings f) \<and>
     values_ok normal_team (st_teams s) \<and> values_ok normal_member (st_members s)"

lemma values_ok_update: "values_ok P d \<Longrightarrow> P v \<Longrightarrow> values_ok P (AList.update k v d)"
  unfolding values_ok_def by (induction d) auto

lemma values_ok_lookup: "values_ok P d \<Longrightarrow> map_of d k = Some v \<Longrightarrow> P v"
  unfolding values_ok_def by (force dest: map_of_SomeD)

lemma same_bindings_delete: "same_bindings parsef b fb \<Longrightarrow> same_bindings parsef (AList.delete sid b) (AList.delete sid fb)"
  by (simp add: same_bindings_def map_of_delete)

lemma same_bindings_update:
  "same_bindings parsef b fb \<Longrightarrow> (\<And>now. binding_team parsef now d = Inr tid) \<Longrightarrow>
   same_bindings parsef (AList.update sid tid b) (AList.update sid d fb)"
  by (simp add: same_bindings_def map_of_update)

datatype team_op = Do_Create team team_member | Do_Save_Team team | Do_Save_Member team_member | Do_Load string
  | Do_Load_Member string string | Do_Active string | Do_List bool bool string | Do_Tombstone team
  | Do_Remove string string

datatype team_answer = Is_Done | Is_Taken string | Is_Team "team option" | Is_Member "team_member option"
  | Is_Members "team_member multiset" | Is_Unreadable

fun mem_team_step :: "time \<Rightarrow> team_op \<Rightarrow> team_store \<Rightarrow> team_answer \<times> team_store" where
  "mem_team_step now (Do_Create t m) s = (case store_create_team t m s of Inl x \<Rightarrow> (Is_Taken x, s) | Inr s' \<Rightarrow> (Is_Done, s'))"
| "mem_team_step now (Do_Save_Team t) s = (Is_Done, save_team t s)"
| "mem_team_step now (Do_Save_Member m) s = (Is_Done, save_member m s)"
| "mem_team_step now (Do_Load tid) s = (Is_Team (load_team s tid), s)"
| "mem_team_step now (Do_Load_Member tid mid) s = (Is_Member (load_member s tid mid), s)"
| "mem_team_step now (Do_Active sid) s = (let (t, s') = active_team_for_leader sid s in (Is_Team t, s'))"
| "mem_team_step now (Do_List a l tid) s = (Is_Members (mset (list_members a l tid s)), s)"
| "mem_team_step now (Do_Tombstone t) s = (let (t', s') = tombstone_team now t s in (Is_Team (Some t'), s'))"
| "mem_team_step now (Do_Remove tid mid) s = (let (m, s') = store_remove_member now tid mid s in (Is_Member m, s'))"

fun file_team_step ::
  "(time \<Rightarrow> string) \<Rightarrow> (string \<Rightarrow> time option) \<Rightarrow> time \<Rightarrow> team_op \<Rightarrow> team_files \<Rightarrow> team_answer \<times> team_files" where
  "file_team_step isof parsef now (Do_Create t m) f =
     (case f_create_team isof now t m f of Inl x \<Rightarrow> (Is_Taken x, f) | Inr f' \<Rightarrow> (Is_Done, f'))"
| "file_team_step isof parsef now (Do_Save_Team t) f = (Is_Done, f_save_team isof t f)"
| "file_team_step isof parsef now (Do_Save_Member m) f = (Is_Done, f_save_member isof m f)"
| "file_team_step isof parsef now (Do_Load tid) f =
     (case f_load_team parsef now f tid of Inl e \<Rightarrow> (Is_Unreadable, f) | Inr t \<Rightarrow> (Is_Team t, f))"
| "file_team_step isof parsef now (Do_Load_Member tid mid) f =
     (case f_load_member parsef now f tid mid of Inl e \<Rightarrow> (Is_Unreadable, f) | Inr m \<Rightarrow> (Is_Member m, f))"
| "file_team_step isof parsef now (Do_Active sid) f =
     (case f_active_team_for_leader parsef now sid f of Inl e \<Rightarrow> (Is_Unreadable, f) | Inr (t, f') \<Rightarrow> (Is_Team t, f'))"
| "file_team_step isof parsef now (Do_List a l tid) f =
     (case f_list_members parsef now a l tid f of Inl e \<Rightarrow> (Is_Unreadable, f) | Inr ms \<Rightarrow> (Is_Members (mset ms), f))"
| "file_team_step isof parsef now (Do_Tombstone t) f = (let (t', f') = f_tombstone_team isof now t f in (Is_Team (Some t'), f'))"
| "file_team_step isof parsef now (Do_Remove tid mid) f =
     (case f_remove_member isof parsef now tid mid f of Inl e \<Rightarrow> (Is_Unreadable, f) | Inr (m, f') \<Rightarrow> (Is_Member m, f'))"

text \<open>The records a caller writes have a schema version and no blank texts.\<close>

fun normal_op :: "team_op \<Rightarrow> bool" where
  "normal_op (Do_Create t m) = (normal_team t \<and> normal_member m)"
| "normal_op (Do_Save_Team t) = normal_team t"
| "normal_op (Do_Save_Member m) = normal_member m"
| "normal_op (Do_Tombstone t) = normal_team t"
| "normal_op op' = True"

fun answers :: "('op \<Rightarrow> 's \<Rightarrow> 'a \<times> 's) \<Rightarrow> 'op list \<Rightarrow> 's \<Rightarrow> 'a list" where
  "answers step [] s = []"
| "answers step (x # xs) s = (let (a, s') = step x s in a # answers step xs s')"

lemma stored_save_team: "stored isof parsef s f \<Longrightarrow> normal_team t \<Longrightarrow> stored isof parsef (save_team t s) (f_save_team isof t f)"
  by (simp add: stored_def save_team_def f_save_team_def file_payloads_update values_ok_update)

lemma stored_save_member:
  "stored isof parsef s f \<Longrightarrow> normal_member m \<Longrightarrow> stored isof parsef (save_member m s) (f_save_member isof m f)"
  by (simp add: stored_def save_member_def f_save_member_def file_payloads_update values_ok_update)

lemma stored_unbind:
  "stored isof parsef s f \<Longrightarrow> stored isof parsef (delete_leader_binding sid s) (f_delete_leader_binding sid f)"
  by (simp add: stored_def delete_leader_binding_def f_delete_leader_binding_def same_bindings_delete)

lemma stored_bind:
  assumes "utc_codec isof parsef" "stored isof parsef s f"
  shows "stored isof parsef (s\<lparr>st_bindings := AList.update sid tid (st_bindings s)\<rparr>)
    (f\<lparr>tf_bindings := AList.update sid (binding_to_dict isof now sid tid) (tf_bindings f)\<rparr>)"
  using assms(2) by (simp add: stored_def same_bindings_update binding_back [OF assms(1)])

lemma normal_loaded:
  assumes "stored isof parsef s f"
  shows "load_team s tid = Some t \<Longrightarrow> normal_team t" "load_member s tid mid = Some m \<Longrightarrow> normal_member m"
  using assms values_ok_lookup by (auto simp: stored_def load_team_def load_member_def)

lemma stored_load:
  assumes "utc_codec isof parsef" "stored isof parsef s f"
  shows "f_load_team parsef now f tid = Inr (load_team s tid)"
  using assms(2) normal_loaded(1) [OF assms(2), of tid] team_back [OF assms(1)]
  by (cases "load_team s tid") (simp_all add: stored_def f_load_team_def load_team_def opt_result_def file_payloads_lookup)

lemma stored_load_member:
  assumes "utc_codec isof parsef" "stored isof parsef s f"
  shows "f_load_member parsef now f tid mid = Inr (load_member s tid mid)"
  using assms(2) normal_loaded(2) [OF assms(2), of tid mid] member_back [OF assms(1)]
  by (cases "load_member s tid mid") (simp_all add: stored_def f_load_member_def load_member_def opt_result_def file_payloads_lookup)

lemma stored_list:
  assumes "utc_codec isof parsef" "stored isof parsef s f"
  shows "\<exists>ms. f_list_members parsef now a l tid f = Inr ms \<and> mset ms = mset (list_members a l tid s)"
proof -
  let ?kv = "filter (\<lambda>kv. fst (fst kv) = tid) (st_members s)"
  let ?sorted = "sort_key (\<lambda>kv. snd (fst kv) @ ''.json'') (filter (\<lambda>kv. fst (fst kv) = tid) (tf_members f))"
  have files: "filter (\<lambda>kv. fst (fst kv) = tid) (tf_members f) = file_payloads (member_to_dict isof) ?kv"
    using assms(2) file_payloads_filter [of "\<lambda>k. fst k = tid"] by (simp add: stored_def)
  have sorted: "?sorted = file_payloads (member_to_dict isof) (sort_key (\<lambda>kv. snd (fst kv) @ ''.json'') ?kv)"
    using files file_payloads_sort [of "\<lambda>k. snd k @ ''.json''"] by simp
  have "collect (member_from_dict parsef now) (map snd ?sorted) = Inr (map snd (sort_key (\<lambda>kv. snd (fst kv) @ ''.json'') ?kv))"
  proof -
    have "map snd ?sorted = map (member_to_dict isof) (map snd (sort_key (\<lambda>kv. snd (fst kv) @ ''.json'') ?kv))"
      unfolding sorted file_payloads_def by (simp add: case_prod_beta)
    moreover have "normal_member m" if "m \<in> set (map snd (sort_key (\<lambda>kv. snd (fst kv) @ ''.json'') ?kv))" for m
      using that assms(2) by (auto simp: stored_def values_ok_def)
    then have "collect (member_from_dict parsef now) (map (member_to_dict isof) (map snd (sort_key (\<lambda>kv. snd (fst kv) @ ''.json'') ?kv))) =
        Inr (map snd (sort_key (\<lambda>kv. snd (fst kv) @ ''.json'') ?kv))"
      by (intro collect_map_Inr member_back [OF assms(1)])
    ultimately show ?thesis by simp
  qed
  then have "f_list_members parsef now a l tid f =
      Inr (filter (listed a l) (map snd (sort_key (\<lambda>kv. snd (fst kv) @ ''.json'') ?kv)))"
    by (simp add: f_list_members_def)
  moreover have "mset (filter (listed a l) (map snd (sort_key (\<lambda>kv. snd (fst kv) @ ''.json'') ?kv))) = mset (list_members a l tid s)"
    by (simp add: list_members_def)
  ultimately show ?thesis by blast
qed

lemma stored_step:
  assumes codec: "utc_codec isof parsef" and s: "stored isof parsef s f" and x: "normal_op x"
  shows "fst (file_team_step isof parsef now x f) = fst (mem_team_step now x s) \<and>
    stored isof parsef (snd (mem_team_step now x s)) (snd (file_team_step isof parsef now x f))"
proof -
  note load = stored_load [OF codec s] and load_member = stored_load_member [OF codec s]
  have same: "map_of (tf_teams f) tid = None \<longleftrightarrow> map_of (st_teams s) tid = None" for tid
    using s by (simp add: stored_def file_payloads_lookup)
  have bound: "rel_option (\<lambda>tid d. \<forall>now. binding_team parsef now d = Inr tid) (map_of (st_bindings s) sid) (map_of (tf_bindings f) sid)" for sid
    using s by (simp add: stored_def same_bindings_def)
  show ?thesis
  proof (cases x)
    case (Do_Create t m)
    have n: "normal_team t" "normal_member m" using x Do_Create by simp_all
    have "stored isof parsef (save_member m (save_team t s)) (f_save_member isof m (f_save_team isof t f))"
      by (intro stored_save_member stored_save_team s n)
    note stored_bind [OF codec this, of "tm_leader_session t" "tm_id t" now]
    moreover have "st_bindings (save_member m (save_team t s)) = st_bindings s"
      "tf_bindings (f_save_member isof m (f_save_team isof t f)) = tf_bindings f"
      by (simp_all add: save_member_def save_team_def f_save_member_def f_save_team_def)
    moreover have "map_of (tf_bindings f) sid = None \<longleftrightarrow> map_of (st_bindings s) sid = None" for sid
      using bound [of sid] by (auto elim: option.rel_cases)
    ultimately show ?thesis using Do_Create s same by (simp add: store_create_team_def f_create_team_def)
  next
    case (Do_Active sid)
    show ?thesis using bound [of sid]
    proof (cases rule: option.rel_cases)
      case None
      then show ?thesis using Do_Active s by (simp add: active_team_for_leader_def f_active_team_for_leader_def)
    next
      case (Some tid d)
      then show ?thesis using Do_Active s load stored_unbind [OF s]
        by (auto simp: active_team_for_leader_def f_active_team_for_leader_def split: option.split)
    qed
  next
    case (Do_List a l tid)
    then show ?thesis using stored_list [OF codec s, of now a l tid] s by auto
  next
    case (Do_Tombstone t)
    have "normal_team (tombstone now t)" using x Do_Tombstone by (simp add: normal_team_def tombstone_def)
    then show ?thesis using Do_Tombstone s
      by (simp add: tombstone_team_def f_tombstone_team_def stored_unbind stored_save_team)
  next
    case (Do_Remove tid mid)
    have "normal_member (member_with_status now Member_Removed m)" if "load_member s tid mid = Some m" for m
      using normal_loaded(2) [OF s that] by (simp add: normal_member_def member_with_status_def)
    then show ?thesis using Do_Remove s load_member
      by (simp add: store_remove_member_def f_remove_member_def stored_save_member split: option.split)
  qed (use s x in \<open>simp_all add: load load_member stored_save_team stored_save_member\<close>)
qed

text \<open>The store of teams in files answers every sequence of operations, at whatever times, as the store in
  memory does, the members as a set.\<close>

theorem team_stores_agree:
  assumes "utc_codec isof parsef" "list_all (\<lambda>(now, x). normal_op x) ops"
  shows "answers (\<lambda>(now, x). file_team_step isof parsef now x) ops new_team_files =
    answers (\<lambda>(now, x). mem_team_step now x) ops new_team_store"
proof -
  have "answers (\<lambda>(now, x). file_team_step isof parsef now x) ops f = answers (\<lambda>(now, x). mem_team_step now x) ops s"
    if "stored isof parsef s f" for s f
    using that assms(2)
  proof (induction ops arbitrary: s f)
    case (Cons y ops)
    obtain now x where y: "y = (now, x)" by (cases y)
    have "normal_op x" using Cons.prems(2) y by simp
    note step = stored_step [OF assms(1) Cons.prems(1) this, of now]
    then show ?case using Cons.IH [OF conjunct2 [OF step]] Cons.prems(2) y by (simp add: case_prod_beta)
  qed simp
  moreover have "stored isof parsef new_team_store new_team_files"
    by (simp add: stored_def new_team_store_def new_team_files_def file_payloads_def same_bindings_def values_ok_def)
  ultimately show ?thesis by blast
qed

text \<open>Purging a team is where they differ: in files its leader's binding stays, and a second team for the same
  leader is refused until the binding is looked up.\<close>

theorem purge_leaves_binding:
  assumes "f_create_team isof now t leader new_team_files = Inr f" "tm_id t' \<noteq> tm_id t" "tm_leader_session t' = tm_leader_session t"
  shows "f_create_team isof now t' leader' (f_purge_team (tm_id t) f) = Inl (tm_leader_session t)"
  using assms by (auto simp: f_create_team_def f_purge_team_def new_team_files_def f_save_member_def f_save_team_def map_of_delete)

subsection \<open>Instances\<close>

definition plain_instant :: "time \<Rightarrow> string" where
  "plain_instant t = show_nat t @ ''+00:00''"

definition read_instant :: "string \<Rightarrow> time option" where
  "read_instant s = parse_digits 0 False (take (length s - 6) s)"

lemma plain_codec: "utc_codec plain_instant read_instant"
  unfolding utc_codec_def
proof (intro allI exI conjI)
  fix t
  show "plain_instant t = show_nat t @ ''+00:00''" by (simp add: plain_instant_def)
  show "show_nat t \<noteq> []" by (subst show_nat.simps) simp
  show "list_all (\<lambda>c. c \<noteq> CHR ''+'' \<and> \<not> is_space c) (show_nat t)"
    unfolding list_all_iff
  proof
    fix c assume "c \<in> set (show_nat t)"
    then obtain d where d: "d < 10" "c = digit_char d" using show_nat_chars by blast
    then have "of_char c = (48 + d :: nat)" by (simp add: digit_char_code)
    then show "c \<noteq> CHR ''+'' \<and> \<not> is_space c" by (auto simp: is_space_def Let_def)
  qed
  show "read_instant (plain_instant t) = Some t" by (simp add: read_instant_def plain_instant_def parse_show_nat)
qed

definition sample_team :: team where
  "sample_team = \<lparr>tm_id = ''t1'', tm_leader_session = ''s1'', tm_leader_member = ''m1'', tm_name = Some ''crew'',
     tm_status = Team_Active, tm_created_at = 5, tm_updated_at = 5, tm_deleted_at = None, tm_context = [], tm_schema = 1\<rparr>"

definition sample_member :: "string \<Rightarrow> team_role \<Rightarrow> string \<Rightarrow> team_member" where
  "sample_member mid role n = \<lparr>ter_team = ''t1'', ter_id = mid, ter_name = n, ter_role = role, ter_status = Member_Active,
     ter_agent = None, ter_session = Some ''s1'', ter_created_at = 5, ter_updated_at = 5, ter_removed_at = None,
     ter_defaults = [], ter_metadata = [], ter_schema = 1\<rparr>"

definition sample_ops :: "(time \<times> team_op) list" where
  "sample_ops = [(5, Do_Create sample_team (sample_member ''m1'' TR_Leader ''leader'')),
     (6, Do_Save_Member (sample_member ''m2'' TR_Teammate ''ada'')), (7, Do_Remove ''t1'' ''m2''), (8, Do_Active ''s1'')]"

theorem team_stores_agree_witness:
  "last (answers (\<lambda>(now, x). file_team_step plain_instant read_instant now x) sample_ops new_team_files) = Is_Team (Some sample_team)"
proof -
  have "list_all (\<lambda>(now, x). normal_op x) sample_ops" by code_simp
  note team_stores_agree [OF plain_codec this]
  moreover have "last (answers (\<lambda>(now, x). mem_team_step now x) sample_ops new_team_store) = Is_Team (Some sample_team)" by code_simp
  ultimately show ?thesis by simp
qed

end
