(* ===== verification/Team_Workflow_Data.thy ===== *)
theory Team_Workflow_Data
  imports Team_Data
begin

text \<open>
  Workflows of a team (\<open>team_workflows.py\<close>): a teammate asks its leader for a permission, or the leader asks a
  teammate to shut down.  The record with its history, the payloads it is written to and read from, the protocol
  messages that announce it and answer it, and what may be done to it.  \<open>fresh\<close> gives the \<open>uuid4\<close> of the transition
  at a position whose payload has none.
\<close>

subsection \<open>Kinds and statuses\<close>

datatype workflow_kind = WK_Permission | WK_Shutdown

fun workflow_kind_value :: "workflow_kind \<Rightarrow> string" where
  "workflow_kind_value WK_Permission = ''permission''"
| "workflow_kind_value WK_Shutdown = ''shutdown''"

definition workflow_kinds :: "workflow_kind list" where
  "workflow_kinds = [WK_Permission, WK_Shutdown]"

datatype workflow_status = WS_Pending | WS_Waiting_Host | WS_Acknowledged | WS_Completed | WS_Rejected | WS_Timed_Out | WS_Forced_Closed

fun workflow_status_value :: "workflow_status \<Rightarrow> string" where
  "workflow_status_value WS_Pending = ''pending''"
| "workflow_status_value WS_Waiting_Host = ''waiting_host''"
| "workflow_status_value WS_Acknowledged = ''acknowledged''"
| "workflow_status_value WS_Completed = ''completed''"
| "workflow_status_value WS_Rejected = ''rejected''"
| "workflow_status_value WS_Timed_Out = ''timed_out''"
| "workflow_status_value WS_Forced_Closed = ''forced_closed''"

definition workflow_statuses :: "workflow_status list" where
  "workflow_statuses = [WS_Pending, WS_Waiting_Host, WS_Acknowledged, WS_Completed, WS_Rejected, WS_Timed_Out, WS_Forced_Closed]"

definition terminal_statuses :: "workflow_status list" where
  "terminal_statuses = [WS_Completed, WS_Rejected, WS_Timed_Out, WS_Forced_Closed]"

datatype workflow_actor = WA_Leader | WA_Teammate | WA_Host | WA_Runtime

fun workflow_actor_value :: "workflow_actor \<Rightarrow> string" where
  "workflow_actor_value WA_Leader = ''leader''"
| "workflow_actor_value WA_Teammate = ''teammate''"
| "workflow_actor_value WA_Host = ''host''"
| "workflow_actor_value WA_Runtime = ''runtime''"

definition workflow_actors :: "workflow_actor list" where
  "workflow_actors = [WA_Leader, WA_Teammate, WA_Host, WA_Runtime]"

subsection \<open>Records\<close>

record workflow_transition =
  wt_id :: string
  wt_action :: string
  wt_actor_kind :: workflow_actor
  wt_actor :: "string option"
  wt_payload :: "(string, pyval) dict"
  wt_at :: time

record workflow =
  wk_id :: string
  wk_team :: string
  wk_kind :: workflow_kind
  wk_requester :: string
  wk_requester_name :: "string option"
  wk_responder :: "string option"
  wk_responder_name :: "string option"
  wk_leader_session :: "string option"
  wk_status :: workflow_status
  wk_request :: "(string, pyval) dict"
  wk_response :: "(string, pyval) dict option"
  wk_history :: "workflow_transition list"
  wk_messages :: "string list"
  wk_created_at :: time
  wk_updated_at :: time
  wk_deadline_at :: "time option"
  wk_terminal_at :: "time option"
  wk_metadata :: "(string, pyval) dict"
  wk_schema :: int

definition workflow_terminal :: "workflow \<Rightarrow> bool" where
  "workflow_terminal w \<longleftrightarrow> wk_status w \<in> set terminal_statuses"

definition allowed_workflow_actions :: "workflow \<Rightarrow> string list" where
  "allowed_workflow_actions w =
     (if workflow_terminal w then []
      else if wk_kind w = WK_Permission then (if wk_status w = WS_Pending then [''approve'', ''reject''] else [])
      else if wk_status w = WS_Pending then [''acknowledge'', ''complete'']
      else if wk_status w = WS_Acknowledged then [''complete''] else [])"

subsection \<open>Payloads\<close>

definition transition_to_dict :: "(time \<Rightarrow> string) \<Rightarrow> workflow_transition \<Rightarrow> (string, pyval) dict" where
  "transition_to_dict isof t =
     [(''transition_id'', PStr (wt_id t)), (''action'', PStr (wt_action t)),
      (''actor_kind'', PStr (workflow_actor_value (wt_actor_kind t))), (''actor_id'', opt_str_value (wt_actor t)),
      (''payload'', PDict (wt_payload t)), (''occurred_at'', PStr (utc_isoformat isof (wt_at t)))]"

definition transition_from_dict ::
  "(string \<Rightarrow> time option) \<Rightarrow> time \<Rightarrow> string \<Rightarrow> (string, pyval) dict \<Rightarrow> payload_error + workflow_transition" where
  "transition_from_dict parsef now fresh d =
     rbind (enum_of workflow_actor_value workflow_actors (str_or_default (py_get d ''actor_kind'') ''runtime'')) (\<lambda>kind.
     rbind (time_or parsef now (py_get d ''occurred_at'')) (\<lambda>at.
     Inr \<lparr>wt_id = str_or_default (py_get d ''transition_id'') fresh, wt_action = str_or_default (py_get d ''action'') [],
          wt_actor_kind = kind, wt_actor = coerce_optional_value (py_get d ''actor_id''),
          wt_payload = coerce_mapping (py_get d ''payload''), wt_at = at\<rparr>))"

text \<open>What every payload of a record has in the same way.\<close>

definition opt_dict_value :: "(string, pyval) dict option \<Rightarrow> pyval" where
  "opt_dict_value d = (case d of None \<Rightarrow> PNone | Some d \<Rightarrow> PDict d)"

definition workflow_to_dict :: "(time \<Rightarrow> string) \<Rightarrow> workflow \<Rightarrow> (string, pyval) dict" where
  "workflow_to_dict isof w =
     [(''schema_version'', PInt (wk_schema w)), (''workflow_id'', PStr (wk_id w)), (''team_id'', PStr (wk_team w)),
      (''workflow_kind'', PStr (workflow_kind_value (wk_kind w))), (''requester_member_id'', PStr (wk_requester w)),
      (''requester_name'', opt_str_value (wk_requester_name w)), (''responder_member_id'', opt_str_value (wk_responder w)),
      (''responder_name'', opt_str_value (wk_responder_name w)), (''leader_session_id'', opt_str_value (wk_leader_session w)),
      (''status'', PStr (workflow_status_value (wk_status w))), (''request_payload'', PDict (wk_request w)),
      (''response_payload'', opt_dict_value (wk_response w)),
      (''transition_history'', PList (map (\<lambda>t. PDict (transition_to_dict isof t)) (wk_history w))),
      (''message_ids'', PList (map PStr (wk_messages w))),
      (''created_at'', PStr (utc_isoformat isof (wk_created_at w))), (''updated_at'', PStr (utc_isoformat isof (wk_updated_at w))),
      (''deadline_at'', opt_time isof (wk_deadline_at w)), (''terminal_at'', opt_time isof (wk_terminal_at w)),
      (''metadata'', PDict (wk_metadata w))]"

text \<open>The items of a list that are mappings, and those that are texts.\<close>

definition dict_items :: "pyval \<Rightarrow> (string, pyval) dict list" where
  "dict_items v = (case v of PList xs \<Rightarrow> List.map_filter (\<lambda>x. case x of PDict d \<Rightarrow> Some d | _ \<Rightarrow> None) xs | _ \<Rightarrow> [])"

definition text_items :: "pyval \<Rightarrow> string list" where
  "text_items v = (case v of PList xs \<Rightarrow> List.map_filter (\<lambda>x. case x of PStr s \<Rightarrow> Some s | _ \<Rightarrow> None) xs | _ \<Rightarrow> [])"

fun transitions_from :: "(string \<Rightarrow> time option) \<Rightarrow> time \<Rightarrow> (nat \<Rightarrow> string) \<Rightarrow> nat \<Rightarrow> (string, pyval) dict list \<Rightarrow>
    payload_error + workflow_transition list" where
  "transitions_from parsef now fresh i [] = Inr []"
| "transitions_from parsef now fresh i (d # ds) =
     rbind (transition_from_dict parsef now (fresh i) d) (\<lambda>t.
     rbind (transitions_from parsef now fresh (i + 1) ds) (\<lambda>ts. Inr (t # ts)))"

definition workflow_from_dict ::
  "(string \<Rightarrow> time option) \<Rightarrow> time \<Rightarrow> (nat \<Rightarrow> string) \<Rightarrow> (string, pyval) dict \<Rightarrow> payload_error + workflow" where
  "workflow_from_dict parsef now fresh d =
     rbind (int_or_default (py_get d ''schema_version'') 1) (\<lambda>schema.
     rbind (enum_of workflow_kind_value workflow_kinds (str_or_default (py_get d ''workflow_kind'') ''permission'')) (\<lambda>kind.
     rbind (enum_of workflow_status_value workflow_statuses (str_or_default (py_get d ''status'') ''pending'')) (\<lambda>status.
     rbind (transitions_from parsef now fresh 0 (dict_items (py_get d ''transition_history''))) (\<lambda>history.
     rbind (time_or parsef now (py_get d ''created_at'')) (\<lambda>created.
     rbind (time_or parsef now (py_get d ''updated_at'')) (\<lambda>updated.
     rbind (parse_utc_timestamp parsef (py_get d ''deadline_at'')) (\<lambda>deadline.
     rbind (parse_utc_timestamp parsef (py_get d ''terminal_at'')) (\<lambda>terminal.
     Inr \<lparr>wk_id = str_or_default (py_get d ''workflow_id'') [], wk_team = str_or_default (py_get d ''team_id'') [], wk_kind = kind,
          wk_requester = str_or_default (py_get d ''requester_member_id'') [],
          wk_requester_name = coerce_optional_value (py_get d ''requester_name''),
          wk_responder = coerce_optional_value (py_get d ''responder_member_id''),
          wk_responder_name = coerce_optional_value (py_get d ''responder_name''),
          wk_leader_session = coerce_optional_value (py_get d ''leader_session_id''), wk_status = status,
          wk_request = coerce_mapping (py_get d ''request_payload''),
          wk_response = coerce_optional_mapping (py_get d ''response_payload''), wk_history = history,
          wk_messages = text_items (py_get d ''message_ids''), wk_created_at = created, wk_updated_at = updated,
          wk_deadline_at = deadline, wk_terminal_at = terminal,
          wk_metadata = coerce_mapping (py_get d ''metadata''), wk_schema = schema\<rparr>))))))))"

definition workflow_record_to_payload :: "(time \<Rightarrow> string) \<Rightarrow> workflow \<Rightarrow> (string, pyval) dict" where
  "workflow_record_to_payload isof w =
     [(''workflow_id'', PStr (wk_id w)), (''team_id'', PStr (wk_team w)),
      (''workflow_kind'', PStr (workflow_kind_value (wk_kind w))), (''requester_member_id'', PStr (wk_requester w)),
      (''requester_name'', opt_str_value (wk_requester_name w)), (''responder_member_id'', opt_str_value (wk_responder w)),
      (''responder_name'', opt_str_value (wk_responder_name w)), (''leader_session_id'', opt_str_value (wk_leader_session w)),
      (''status'', PStr (workflow_status_value (wk_status w))),
      (''allowed_actions'', PList (map PStr (allowed_workflow_actions w))), (''request_payload'', PDict (wk_request w)),
      (''response_payload'', opt_dict_value (wk_response w)), (''message_ids'', PList (map PStr (wk_messages w))),
      (''created_at'', PStr (utc_isoformat isof (wk_created_at w))), (''updated_at'', PStr (utc_isoformat isof (wk_updated_at w))),
      (''deadline_at'', opt_time isof (wk_deadline_at w)), (''terminal_at'', opt_time isof (wk_terminal_at w)),
      (''terminal'', PBool (workflow_terminal w)), (''metadata'', PDict (wk_metadata w))]"

subsection \<open>Protocol messages\<close>

definition first_text :: "string option list \<Rightarrow> string \<Rightarrow> string" where
  "first_text xs d = (case List.find (\<lambda>x. x \<noteq> None \<and> x \<noteq> Some []) xs of Some (Some s) \<Rightarrow> s | _ \<Rightarrow> d)"

definition workflow_request_summary :: "workflow \<Rightarrow> string" where
  "workflow_request_summary w =
     (let requester = first_text [wk_requester_name w] (wk_requester w) in
      case wk_kind w of
        WK_Permission \<Rightarrow>
          (let name = str_or_default (py_get (wk_request w) ''permission_name'') ''a privileged action'';
               start = ''Permission workflow '' @ [CHR 0x27] @ wk_id w @ [CHR 0x27] @ '': teammate '' @ [CHR 0x27] @ requester @ [CHR 0x27] @
                 '' requests permission for '' @ name
           in (case coerce_optional_value (py_get (wk_request w) ''permission_message'') of
                 Some msg \<Rightarrow> start @ '': '' @ msg | None \<Rightarrow> start))
      | WK_Shutdown \<Rightarrow>
          (let target = first_text [coerce_optional_value (py_get (wk_request w) ''member_name''),
                 coerce_optional_value (py_get (wk_request w) ''member_id''), wk_responder_name w, wk_responder w] requester;
               reason = first_text [coerce_optional_value (py_get (wk_request w) ''reason'')] ''graceful shutdown requested''
           in ''Shutdown workflow '' @ [CHR 0x27] @ wk_id w @ [CHR 0x27] @ '': stop teammate '' @ [CHR 0x27] @ target @ [CHR 0x27] @
                '' because '' @ reason))"

fun status_phrase :: "workflow_kind \<Rightarrow> workflow_status \<Rightarrow> string option" where
  "status_phrase WK_Permission WS_Waiting_Host = Some ''approved and waiting for host resolution''"
| "status_phrase WK_Permission WS_Completed = Some ''completed''"
| "status_phrase WK_Permission WS_Rejected = Some ''rejected''"
| "status_phrase WK_Permission WS_Timed_Out = Some ''timed out''"
| "status_phrase WK_Shutdown WS_Acknowledged = Some ''acknowledged''"
| "status_phrase WK_Shutdown WS_Completed = Some ''completed''"
| "status_phrase WK_Shutdown WS_Forced_Closed = Some ''forced closed''"
| "status_phrase WK_Shutdown WS_Timed_Out = Some ''timed out''"
| "status_phrase _ _ = None"

definition workflow_response_summary :: "workflow \<Rightarrow> string \<Rightarrow> string" where
  "workflow_response_summary w action =
     (case wk_kind w of WK_Permission \<Rightarrow> ''Permission workflow '' | WK_Shutdown \<Rightarrow> ''Shutdown workflow '') @
     [CHR 0x27] @ wk_id w @ [CHR 0x27] @ '' '' @
     (case status_phrase (wk_kind w) (wk_status w) of
        Some p \<Rightarrow> p | None \<Rightarrow> ''updated with '' @ [CHR 0x27] @ action @ [CHR 0x27])"

definition workflow_priority :: "workflow_kind \<Rightarrow> int" where
  "workflow_priority k = (if k = WK_Shutdown then 100 else 80)"

record request_protocol =
  rq_workflow :: string
  rq_kind :: workflow_kind
  rq_requester :: string
  rq_requester_name :: "string option"
  rq_responder :: "string option"
  rq_responder_name :: "string option"
  rq_actions :: "string list"
  rq_summary :: "string option"
  rq_payload :: "(string, pyval) dict"

record response_protocol =
  rs_workflow :: string
  rs_kind :: workflow_kind
  rs_status :: workflow_status
  rs_action :: string
  rs_actor_kind :: workflow_actor
  rs_actor :: "string option"
  rs_actions :: "string list"
  rs_summary :: "string option"
  rs_payload :: "(string, pyval) dict"

definition build_request_protocol :: "workflow \<Rightarrow> request_protocol" where
  "build_request_protocol w =
     \<lparr>rq_workflow = wk_id w, rq_kind = wk_kind w, rq_requester = wk_requester w, rq_requester_name = wk_requester_name w,
      rq_responder = wk_responder w, rq_responder_name = wk_responder_name w, rq_actions = allowed_workflow_actions w,
      rq_summary = Some (workflow_request_summary w), rq_payload = wk_request w\<rparr>"

definition build_response_protocol ::
  "workflow \<Rightarrow> string \<Rightarrow> workflow_actor \<Rightarrow> string option \<Rightarrow> (string, pyval) dict \<Rightarrow> response_protocol" where
  "build_response_protocol w action kind actor payload =
     \<lparr>rs_workflow = wk_id w, rs_kind = wk_kind w, rs_status = wk_status w, rs_action = action, rs_actor_kind = kind,
      rs_actor = actor, rs_actions = allowed_workflow_actions w, rs_summary = Some (workflow_response_summary w action),
      rs_payload = payload\<rparr>"

definition request_to_dict :: "request_protocol \<Rightarrow> (string, pyval) dict" where
  "request_to_dict p =
     [(''protocol_kind'', PStr ''request''), (''workflow_id'', PStr (rq_workflow p)),
      (''workflow_kind'', PStr (workflow_kind_value (rq_kind p))), (''requester_member_id'', PStr (rq_requester p)),
      (''requester_name'', opt_str_value (rq_requester_name p)), (''responder_member_id'', opt_str_value (rq_responder p)),
      (''responder_name'', opt_str_value (rq_responder_name p)), (''allowed_actions'', PList (map PStr (rq_actions p))),
      (''summary'', opt_str_value (rq_summary p)), (''payload'', PDict (rq_payload p))]"

definition response_to_dict :: "response_protocol \<Rightarrow> (string, pyval) dict" where
  "response_to_dict p =
     [(''protocol_kind'', PStr ''response''), (''workflow_id'', PStr (rs_workflow p)),
      (''workflow_kind'', PStr (workflow_kind_value (rs_kind p))), (''status'', PStr (workflow_status_value (rs_status p))),
      (''response_action'', PStr (rs_action p)), (''actor_kind'', PStr (workflow_actor_value (rs_actor_kind p))),
      (''actor_id'', opt_str_value (rs_actor p)), (''allowed_actions'', PList (map PStr (rs_actions p))),
      (''summary'', opt_str_value (rs_summary p)), (''payload'', PDict (rs_payload p))]"

text \<open>\<open>tuple(str(item).strip() for item in payload.get("allowed_actions", ()) if ...)\<close>: a missing key is empty, a
  mapping gives its keys, a text its characters, and anything else is not iterable.\<close>

definition iterated_items :: "(string, pyval) dict \<Rightarrow> string \<Rightarrow> payload_error + pyval list" where
  "iterated_items d k =
     (case map_of d k of
        None \<Rightarrow> Inr []
      | Some (PList xs) \<Rightarrow> Inr xs
      | Some (PDict kvs) \<Rightarrow> Inr (map (\<lambda>kv. PStr (fst kv)) kvs)
      | Some (PStr s) \<Rightarrow> Inr (map (\<lambda>c. PStr [c]) s)
      | Some v \<Rightarrow> Inl Bad_Type)"

definition stripped_items :: "pyval list \<Rightarrow> string list" where
  "stripped_items xs = filter (\<lambda>s. s \<noteq> []) (map (\<lambda>x. strip (py_str x)) xs)"

definition request_from_dict :: "(string, pyval) dict \<Rightarrow> payload_error + request_protocol" where
  "request_from_dict d =
     rbind (enum_of workflow_kind_value workflow_kinds (str_or_default (py_get d ''workflow_kind'') ''permission'')) (\<lambda>kind.
     rbind (iterated_items d ''allowed_actions'') (\<lambda>actions.
     Inr \<lparr>rq_workflow = str_or_default (py_get d ''workflow_id'') [], rq_kind = kind,
          rq_requester = str_or_default (py_get d ''requester_member_id'') [],
          rq_requester_name = coerce_optional_value (py_get d ''requester_name''),
          rq_responder = coerce_optional_value (py_get d ''responder_member_id''),
          rq_responder_name = coerce_optional_value (py_get d ''responder_name''), rq_actions = stripped_items actions,
          rq_summary = coerce_optional_value (py_get d ''summary''), rq_payload = coerce_mapping (py_get d ''payload'')\<rparr>))"

definition response_from_dict :: "(string, pyval) dict \<Rightarrow> payload_error + response_protocol" where
  "response_from_dict d =
     rbind (enum_of workflow_kind_value workflow_kinds (str_or_default (py_get d ''workflow_kind'') ''permission'')) (\<lambda>kind.
     rbind (enum_of workflow_status_value workflow_statuses (str_or_default (py_get d ''status'') ''pending'')) (\<lambda>status.
     rbind (enum_of workflow_actor_value workflow_actors (str_or_default (py_get d ''actor_kind'') ''runtime'')) (\<lambda>actor.
     rbind (iterated_items d ''allowed_actions'') (\<lambda>actions.
     Inr \<lparr>rs_workflow = str_or_default (py_get d ''workflow_id'') [], rs_kind = kind, rs_status = status,
          rs_action = str_or_default (py_get d ''response_action'') [], rs_actor_kind = actor,
          rs_actor = coerce_optional_value (py_get d ''actor_id''), rs_actions = stripped_items actions,
          rs_summary = coerce_optional_value (py_get d ''summary''), rs_payload = coerce_mapping (py_get d ''payload'')\<rparr>))))"

text \<open>A payload without a kind of protocol is read as a request.\<close>

definition parse_request_protocol :: "pyval \<Rightarrow> payload_error + request_protocol option" where
  "parse_request_protocol v =
     (case v of
        PDict d \<Rightarrow> if str_or_default (py_get d ''protocol_kind'') ''request'' \<noteq> ''request'' then Inr None
          else rbind (request_from_dict d) (\<lambda>p. Inr (Some p))
      | _ \<Rightarrow> Inr None)"

definition parse_response_protocol :: "pyval \<Rightarrow> payload_error + response_protocol option" where
  "parse_response_protocol v =
     (case v of
        PDict d \<Rightarrow> if str_or_default (py_get d ''protocol_kind'') [] \<noteq> ''response'' then Inr None
          else rbind (response_from_dict d) (\<lambda>p. Inr (Some p))
      | _ \<Rightarrow> Inr None)"

end
