(* ===== verification/Team_Workflow_Store.thy ===== *)
theory Team_Workflow_Store
  imports Team_Workflow_Data Team_Store
begin

text \<open>
  The stores of workflows (\<open>InMemoryTeamWorkflowStore\<close>, \<open>FileBackedTeamWorkflowStore\<close>): the records, and the indices
  by team, by responder and by being pending or terminal, which every write keeps up to date.  The locale states
  the protocol both follow: every listing is the scan of all the records that the index stands for.
\<close>

subsection \<open>The store in memory\<close>

record workflow_store =
  ws_records :: "(string, workflow) dict"
  ws_team_ids :: "(string, string set) dict"
  ws_responder_ids :: "(string, string set) dict"
  ws_pending_ids :: "string set"
  ws_terminal_ids :: "string set"

definition new_workflow_store :: workflow_store where
  "new_workflow_store = \<lparr>ws_records = [], ws_team_ids = [], ws_responder_ids = [], ws_pending_ids = {}, ws_terminal_ids = {}\<rparr>"

definition ids_at :: "(string, string set) dict \<Rightarrow> string \<Rightarrow> string set" where
  "ids_at d k = (case map_of d k of None \<Rightarrow> {} | Some ids \<Rightarrow> ids)"

definition add_id :: "string \<Rightarrow> string \<Rightarrow> (string, string set) dict \<Rightarrow> (string, string set) dict" where
  "add_id k i d = AList.update k (insert i (ids_at d k)) d"

definition remove_id :: "string \<Rightarrow> string \<Rightarrow> (string, string set) dict \<Rightarrow> (string, string set) dict" where
  "remove_id k i d =
     (case map_of d k of
        None \<Rightarrow> d
      | Some ids \<Rightarrow> if ids - {i} = {} then AList.delete k d else AList.update k (ids - {i}) d)"

definition unindex :: "workflow \<Rightarrow> workflow_store \<Rightarrow> workflow_store" where
  "unindex p s =
     s\<lparr>ws_team_ids := remove_id (wk_team p) (wk_id p) (ws_team_ids s),
       ws_responder_ids := (case wk_responder p of
          Some r \<Rightarrow> if r = [] then ws_responder_ids s else remove_id r (wk_id p) (ws_responder_ids s)
        | None \<Rightarrow> ws_responder_ids s),
       ws_pending_ids := ws_pending_ids s - {wk_id p}, ws_terminal_ids := ws_terminal_ids s - {wk_id p}\<rparr>"

definition index :: "workflow \<Rightarrow> workflow_store \<Rightarrow> workflow_store" where
  "index w s =
     s\<lparr>ws_team_ids := add_id (wk_team w) (wk_id w) (ws_team_ids s),
       ws_responder_ids := (case wk_responder w of
          Some r \<Rightarrow> if r = [] then ws_responder_ids s else add_id r (wk_id w) (ws_responder_ids s)
        | None \<Rightarrow> ws_responder_ids s),
       ws_terminal_ids := (if workflow_terminal w then insert (wk_id w) (ws_terminal_ids s) else ws_terminal_ids s),
       ws_pending_ids := (if workflow_terminal w then ws_pending_ids s else insert (wk_id w) (ws_pending_ids s))\<rparr>"

definition update_indices :: "workflow option \<Rightarrow> workflow option \<Rightarrow> workflow_store \<Rightarrow> workflow_store" where
  "update_indices now previous s =
     (let s = (case previous of None \<Rightarrow> s | Some p \<Rightarrow> unindex p s) in (case now of None \<Rightarrow> s | Some w \<Rightarrow> index w s))"

definition load_workflow :: "string \<Rightarrow> workflow_store \<Rightarrow> workflow option" where
  "load_workflow i s = map_of (ws_records s) i"

definition save_workflow :: "workflow \<Rightarrow> workflow_store \<Rightarrow> workflow_store" where
  "save_workflow w s =
     update_indices (Some w) (load_workflow (wk_id w) s) (s\<lparr>ws_records := AList.update (wk_id w) w (ws_records s)\<rparr>)"

text \<open>The left side is the \<open>FileExistsError\<close>.\<close>

definition create_workflow :: "workflow \<Rightarrow> workflow_store \<Rightarrow> string + workflow_store" where
  "create_workflow w s =
     (if load_workflow (wk_id w) s \<noteq> None then Inl (wk_id w)
      else Inr (update_indices (Some w) None (s\<lparr>ws_records := AList.update (wk_id w) w (ws_records s)\<rparr>)))"

definition delete_workflow :: "string \<Rightarrow> workflow_store \<Rightarrow> workflow_store" where
  "delete_workflow i s =
     (case load_workflow i s of
        None \<Rightarrow> s | Some p \<Rightarrow> update_indices None (Some p) (s\<lparr>ws_records := AList.delete i (ws_records s)\<rparr>))"

definition sort_records :: "workflow list \<Rightarrow> workflow list" where
  "sort_records ws = sort_key (\<lambda>w. (wk_created_at w, wk_id w)) ws"

definition records_from_ids :: "string set \<Rightarrow> workflow_store \<Rightarrow> workflow list" where
  "records_from_ids ids s = sort_records (List.map_filter (\<lambda>i. load_workflow i s) (sorted_list_of_set ids))"

definition filter_pending :: "bool option \<Rightarrow> workflow list \<Rightarrow> workflow list" where
  "filter_pending pending_only ws =
     (case pending_only of None \<Rightarrow> ws | Some True \<Rightarrow> filter (\<lambda>w. \<not> workflow_terminal w) ws | Some False \<Rightarrow> filter workflow_terminal ws)"

definition list_all_workflows :: "workflow_store \<Rightarrow> workflow list" where
  "list_all_workflows s = sort_records (map snd (ws_records s))"

definition list_pending :: "workflow_store \<Rightarrow> workflow list" where
  "list_pending s = records_from_ids (ws_pending_ids s) s"

definition list_terminal :: "workflow_store \<Rightarrow> workflow list" where
  "list_terminal s = records_from_ids (ws_terminal_ids s) s"

definition list_for_team :: "string \<Rightarrow> bool option \<Rightarrow> workflow_store \<Rightarrow> workflow list" where
  "list_for_team tid pending_only s = filter_pending pending_only (records_from_ids (ids_at (ws_team_ids s) tid) s)"

definition list_for_responder :: "string \<Rightarrow> bool option \<Rightarrow> workflow_store \<Rightarrow> workflow list" where
  "list_for_responder mid pending_only s = filter_pending pending_only (records_from_ids (ids_at (ws_responder_ids s) mid) s)"

subsection \<open>The store in files\<close>

record workflow_files =
  wf_workflows :: "(string, (string, pyval) dict) dict"
  wf_teams :: "(string, (string, pyval) dict) dict"
  wf_responders :: "(string, (string, pyval) dict) dict"
  wf_pending :: "(string, pyval) dict option"
  wf_terminal :: "(string, pyval) dict option"

definition new_workflow_files :: workflow_files where
  "new_workflow_files = \<lparr>wf_workflows = [], wf_teams = [], wf_responders = [], wf_pending = None, wf_terminal = None\<rparr>"

definition load_index :: "(string, pyval) dict option \<Rightarrow> string set" where
  "load_index f =
     (case f of
        None \<Rightarrow> {}
      | Some d \<Rightarrow> (case py_get d ''workflow_ids'' of PList xs \<Rightarrow> set (stripped_items xs) | _ \<Rightarrow> {}))"

definition write_index :: "string set \<Rightarrow> (string, pyval) dict" where
  "write_index ids = [(''workflow_ids'', PList (map PStr (sorted_list_of_set ids)))]"

definition file_add_id :: "string \<Rightarrow> string \<Rightarrow> (string, (string, pyval) dict) dict \<Rightarrow> (string, (string, pyval) dict) dict" where
  "file_add_id k i d = AList.update k (write_index (insert i (load_index (map_of d k)))) d"

definition file_remove_id :: "string \<Rightarrow> string \<Rightarrow> (string, (string, pyval) dict) dict \<Rightarrow> (string, (string, pyval) dict) dict" where
  "file_remove_id k i d = AList.update k (write_index (load_index (map_of d k) - {i})) d"

definition file_unindex :: "workflow \<Rightarrow> workflow_files \<Rightarrow> workflow_files" where
  "file_unindex p s =
     s\<lparr>wf_teams := file_remove_id (wk_team p) (wk_id p) (wf_teams s),
       wf_responders := (case wk_responder p of
          Some r \<Rightarrow> if r = [] then wf_responders s else file_remove_id r (wk_id p) (wf_responders s)
        | None \<Rightarrow> wf_responders s),
       wf_terminal := (if workflow_terminal p then Some (write_index (load_index (wf_terminal s) - {wk_id p})) else wf_terminal s),
       wf_pending := (if workflow_terminal p then wf_pending s else Some (write_index (load_index (wf_pending s) - {wk_id p})))\<rparr>"

definition file_index :: "workflow \<Rightarrow> workflow_files \<Rightarrow> workflow_files" where
  "file_index w s =
     s\<lparr>wf_teams := file_add_id (wk_team w) (wk_id w) (wf_teams s),
       wf_responders := (case wk_responder w of
          Some r \<Rightarrow> if r = [] then wf_responders s else file_add_id r (wk_id w) (wf_responders s)
        | None \<Rightarrow> wf_responders s),
       wf_terminal := (if workflow_terminal w then Some (write_index (insert (wk_id w) (load_index (wf_terminal s)))) else wf_terminal s),
       wf_pending := (if workflow_terminal w then wf_pending s else Some (write_index (insert (wk_id w) (load_index (wf_pending s)))))\<rparr>"

definition file_update_indices :: "workflow option \<Rightarrow> workflow option \<Rightarrow> workflow_files \<Rightarrow> workflow_files" where
  "file_update_indices now previous s =
     (let s = (case previous of None \<Rightarrow> s | Some p \<Rightarrow> file_unindex p s) in (case now of None \<Rightarrow> s | Some w \<Rightarrow> file_index w s))"

text \<open>The codec: how a record is written and how a payload is read.\<close>

type_synonym workflow_reader = "(string, pyval) dict \<Rightarrow> payload_error + workflow"

definition file_load_workflow :: "workflow_reader \<Rightarrow> string \<Rightarrow> workflow_files \<Rightarrow> payload_error + workflow option" where
  "file_load_workflow rd i s = opt_result rd (map_of (wf_workflows s) i)"

definition file_save_workflow ::
  "workflow_reader \<Rightarrow> (workflow \<Rightarrow> (string, pyval) dict) \<Rightarrow> workflow \<Rightarrow> workflow_files \<Rightarrow> payload_error + workflow_files" where
  "file_save_workflow rd wr w s =
     rbind (file_load_workflow rd (wk_id w) s) (\<lambda>previous.
     Inr (file_update_indices (Some w) previous (s\<lparr>wf_workflows := AList.update (wk_id w) (wr w) (wf_workflows s)\<rparr>)))"

definition file_create_workflow :: "(workflow \<Rightarrow> (string, pyval) dict) \<Rightarrow> workflow \<Rightarrow> workflow_files \<Rightarrow> string + workflow_files" where
  "file_create_workflow wr w s =
     (if map_of (wf_workflows s) (wk_id w) \<noteq> None then Inl (wk_id w)
      else Inr (file_update_indices (Some w) None (s\<lparr>wf_workflows := AList.update (wk_id w) (wr w) (wf_workflows s)\<rparr>)))"

definition file_delete_workflow :: "workflow_reader \<Rightarrow> string \<Rightarrow> workflow_files \<Rightarrow> payload_error + workflow_files" where
  "file_delete_workflow rd i s =
     rbind (file_load_workflow rd i s) (\<lambda>p.
     Inr (case p of
            None \<Rightarrow> s
          | Some p \<Rightarrow> file_update_indices None (Some p) (s\<lparr>wf_workflows := AList.delete i (wf_workflows s)\<rparr>)))"

fun file_load_each :: "workflow_reader \<Rightarrow> workflow_files \<Rightarrow> string list \<Rightarrow> payload_error + workflow list" where
  "file_load_each rd s [] = Inr []"
| "file_load_each rd s (i # is) =
     rbind (file_load_workflow rd i s) (\<lambda>w.
     rbind (file_load_each rd s is) (\<lambda>ws. Inr (case w of None \<Rightarrow> ws | Some w \<Rightarrow> w # ws)))"

definition file_records_from_ids :: "workflow_reader \<Rightarrow> string set \<Rightarrow> workflow_files \<Rightarrow> payload_error + workflow list" where
  "file_records_from_ids rd ids s = rbind (file_load_each rd s (sorted_list_of_set ids)) (\<lambda>ws. Inr (sort_records ws))"

text \<open>\<open>list_all\<close> reads the files in the order of their names.\<close>

definition file_list_all_workflows :: "workflow_reader \<Rightarrow> workflow_files \<Rightarrow> payload_error + workflow list" where
  "file_list_all_workflows rd s =
     rbind (file_load_each rd s (map (\<lambda>n. take (length n - 5) n) (sort (map (\<lambda>kv. fst kv @ ''.json'') (wf_workflows s)))))
       (\<lambda>ws. Inr (sort_records ws))"

definition file_list_pending :: "workflow_reader \<Rightarrow> workflow_files \<Rightarrow> payload_error + workflow list" where
  "file_list_pending rd s = file_records_from_ids rd (load_index (wf_pending s)) s"

definition file_list_terminal :: "workflow_reader \<Rightarrow> workflow_files \<Rightarrow> payload_error + workflow list" where
  "file_list_terminal rd s = file_records_from_ids rd (load_index (wf_terminal s)) s"

definition file_list_for_team :: "workflow_reader \<Rightarrow> string \<Rightarrow> bool option \<Rightarrow> workflow_files \<Rightarrow> payload_error + workflow list" where
  "file_list_for_team rd tid pending_only s =
     rbind (file_records_from_ids rd (load_index (map_of (wf_teams s) tid)) s) (\<lambda>ws. Inr (filter_pending pending_only ws))"

definition file_list_for_responder :: "workflow_reader \<Rightarrow> string \<Rightarrow> bool option \<Rightarrow> workflow_files \<Rightarrow> payload_error + workflow list" where
  "file_list_for_responder rd mid pending_only s =
     rbind (file_records_from_ids rd (load_index (map_of (wf_responders s) mid)) s) (\<lambda>ws. Inr (filter_pending pending_only ws))"

end
