(* ===== verification/Team_Workflows.thy ===== *)
theory Team_Workflows
  imports Team_Workflow_Store Team_Control
begin

text \<open>
  The workflow service (\<open>RuntimeTeamWorkflowService\<close> in \<open>team_workflows.py\<close>) over the store in memory.  An operation
  that changes a workflow awaits twice after it has saved the record, for the host that is told of the event and for
  the message bus that carries the answer; what it does between two awaits is a stretch, and what it will do next
  is a flight.  The bus answers with the id of the message, or raises.  \<open>tid\<close> is the id of the transition a
  stretch records, \<open>now\<close> its reading of the clock; a workflow's lock is held by the flights that hold it in the code.
  A deadline's task that is due and waits for the lock counts as one that still sleeps.
\<close>

subsection \<open>The state\<close>

datatype workflow_error = Workflow_Error string string | Workflow_Exists string

record control_message =
  cm_team :: string
  cm_sender :: string
  cm_recipient :: string
  cm_type :: string
  cm_correlation :: string
  cm_payload :: "(string, pyval) dict"
  cm_allow_response :: bool

datatype ending = End_Respond | End_Locked | End_Worker | End_Recover "workflow list"

record answer_flight =
  af_record :: workflow
  af_action :: string
  af_kind :: workflow_actor
  af_actor :: "string option"
  af_payload :: "(string, pyval) dict"
  af_ending :: ending

text \<open>A request is sent to each of the recipients in turn (\<open>None\<close>: the responder).  \<open>Told\<close> and \<open>Announced\<close> wait for
  the host, \<open>Answering\<close> and \<open>Requesting\<close> for the bus.\<close>

datatype flight = Announced workflow "string option list" | Requesting workflow "string option list"
  | Told answer_flight | Answering answer_flight

fun flight_record :: "flight \<Rightarrow> workflow" where
  "flight_record (Announced w rs) = w"
| "flight_record (Requesting w rs) = w"
| "flight_record (Told a) = af_record a"
| "flight_record (Answering a) = af_record a"

fun flight_ending :: "flight \<Rightarrow> ending option" where
  "flight_ending (Told a) = Some (af_ending a)"
| "flight_ending (Answering a) = Some (af_ending a)"
| "flight_ending _ = None"

record workflow_world =
  ww_store :: workflow_store
  ww_teams :: team_store
  ww_bus :: bool
  ww_events :: "team_event list"
  ww_sent :: "control_message list"
  ww_deadlines :: "string set"
  ww_waiters :: "(nat \<times> string) list"
  ww_resolved :: "(nat \<times> workflow) list"
  ww_locked :: "string set"
  ww_flights :: "flight list"

subsection \<open>Records\<close>

definition mutate_record ::
  "string \<Rightarrow> time \<Rightarrow> workflow_status \<Rightarrow> string \<Rightarrow> workflow_actor \<Rightarrow> string option \<Rightarrow> (string, pyval) dict \<Rightarrow>
   (string, pyval) dict option \<Rightarrow> workflow_status option \<Rightarrow> string option \<Rightarrow> workflow \<Rightarrow> workflow" where
  "mutate_record tid now status action kind actor payload response terminal message w =
     w\<lparr>wk_status := status, wk_response := response,
       wk_history := wk_history w @ [\<lparr>wt_id = tid, wt_action = action, wt_actor_kind = kind, wt_actor = actor, wt_payload = payload, wt_at = now\<rparr>],
       wk_messages := (case message of None \<Rightarrow> wk_messages w | Some m \<Rightarrow> if m \<in> set (wk_messages w) then wk_messages w else wk_messages w @ [m]),
       wk_updated_at := now, wk_terminal_at := (if terminal \<noteq> None then Some now else wk_terminal_at w)\<rparr>"

definition response_of :: "workflow \<Rightarrow> (string, pyval) dict" where
  "response_of w = (case wk_response w of None \<Rightarrow> [] | Some d \<Rightarrow> d)"

definition apply_action ::
  "string \<Rightarrow> time \<Rightarrow> string \<Rightarrow> workflow_actor \<Rightarrow> string option \<Rightarrow> (string, pyval) dict \<Rightarrow> workflow \<Rightarrow> workflow" where
  "apply_action tid now action kind actor payload w =
     (let decided = (\<lambda>d. py_update (response_of w) (py_update [(''leader_decision'', PStr d)] payload));
          (status, terminal, response) =
            (if wk_kind w = WK_Permission then
               if action = ''approve'' then (WS_Waiting_Host, None, decided ''approve'')
               else if action = ''reject'' then (WS_Rejected, Some WS_Rejected, decided ''reject'')
               else (wk_status w, None, response_of w)
             else if action = ''acknowledge'' then (WS_Acknowledged, None, py_update (response_of w) payload)
             else if action = ''complete'' then (WS_Completed, Some WS_Completed, py_update (response_of w) payload)
             else (wk_status w, None, response_of w))
      in mutate_record tid now status action kind actor payload (Some response) terminal None w)"

definition workflow_actor_kind :: "team_actor \<Rightarrow> workflow_actor" where
  "workflow_actor_kind a =
     (case ta_member a of None \<Rightarrow> WA_Host | Some m \<Rightarrow> if ter_role m = TR_Leader then WA_Leader else WA_Teammate)"

text \<open>\<open>None\<close>: the caller may do it.\<close>

definition validate_authority :: "workflow \<Rightarrow> team_actor option \<Rightarrow> workflow_actor \<Rightarrow> workflow_error option" where
  "validate_authority w a kind =
     (let stranger = Some (Workflow_Error ''invalid_team_state'' ''The caller does not have an active runtime team for this workflow'') in
      if kind = WA_Host then None
      else case a of
        None \<Rightarrow> stranger
      | Some a \<Rightarrow>
          (case (ta_team a, ta_member a) of
             (Some t, Some m) \<Rightarrow>
               if tm_id t \<noteq> wk_team w then stranger
               else if wk_kind w = WK_Permission then
                 if ter_role m \<noteq> TR_Leader
                 then Some (Workflow_Error ''authority_denied'' ''Only the team leader can resolve permission workflows'') else None
               else if Some (ter_id m) = wk_responder w \<or> ter_role m = TR_Leader then None
               else Some (Workflow_Error ''authority_denied'' ''Only the targeted teammate or team leader can resolve this shutdown workflow'')
           | _ \<Rightarrow> stranger))"

definition terminal_for :: "workflow_kind \<Rightarrow> workflow_status" where
  "terminal_for k = (if k = WK_Shutdown then WS_Forced_Closed else WS_Timed_Out)"

definition expired_record :: "(time \<Rightarrow> string) \<Rightarrow> string \<Rightarrow> time \<Rightarrow> workflow \<Rightarrow> workflow" where
  "expired_record isof tid now w =
     mutate_record tid now (terminal_for (wk_kind w)) ''deadline_expired'' WA_Runtime (Some ''deadline'')
       [(''deadline_at'', opt_time isof (wk_deadline_at w))]
       (Some (py_update (response_of w) [(''deadline_expired'', PBool True)])) (Some (terminal_for (wk_kind w))) None w"

definition event_type_for :: "workflow \<Rightarrow> string" where
  "event_type_for w =
     (case wk_status w of
        WS_Completed \<Rightarrow> ''team.workflow.completed'' | WS_Rejected \<Rightarrow> ''team.workflow.rejected''
      | WS_Timed_Out \<Rightarrow> ''team.workflow.timed_out'' | WS_Forced_Closed \<Rightarrow> ''team.workflow.forced_closed''
      | _ \<Rightarrow> ''team.workflow.updated'')"

subsection \<open>Events, messages, deadlines and waiters\<close>

definition emit_workflow_event ::
  "(time \<Rightarrow> string) \<Rightarrow> string \<Rightarrow> (string, pyval) dict \<Rightarrow> workflow \<Rightarrow> workflow_world \<Rightarrow> workflow_world" where
  "emit_workflow_event isof ty payload w y =
     y\<lparr>ww_events := ww_events y @ [\<lparr>ev_type = ty, ev_team = wk_team w,
         ev_leader_session = (case wk_leader_session w of None \<Rightarrow> [] | Some s \<Rightarrow> s), ev_member = Some (wk_requester w), ev_message = None,
         ev_correlation = Some (wk_id w), ev_payload = py_update (workflow_record_to_payload isof w) payload\<rparr>]\<rparr>"

definition request_message :: "workflow \<Rightarrow> string option \<Rightarrow> control_message option" where
  "request_message w recipient =
     (case (case recipient of Some r \<Rightarrow> if r = [] then wk_responder w else Some r | None \<Rightarrow> wk_responder w) of
        None \<Rightarrow> None
      | Some r \<Rightarrow> Some \<lparr>cm_team = wk_team w, cm_sender = wk_requester w, cm_recipient = r,
          cm_type = workflow_kind_value (wk_kind w) @ ''_request'', cm_correlation = wk_id w,
          cm_payload = py_update (request_to_dict (build_request_protocol w)) [(''workflow_priority'', PInt (workflow_priority (wk_kind w)))],
          cm_allow_response = False\<rparr>)"

text \<open>The sender of an answer: the actor if it is a live member, else the responder if it is one, else the leader.\<close>

definition live_candidate :: "team_store \<Rightarrow> string \<Rightarrow> string option \<Rightarrow> string option" where
  "live_candidate s tid i =
     (case coerce_optional_string i of None \<Rightarrow> None | Some c \<Rightarrow> map_option ter_id (live_member s tid c))"

definition response_sender :: "team_store \<Rightarrow> team \<Rightarrow> workflow \<Rightarrow> workflow_actor \<Rightarrow> string option \<Rightarrow> string" where
  "response_sender s t w kind actor =
     (case (if kind \<in> {WA_Leader, WA_Teammate, WA_Runtime} then live_candidate s (tm_id t) actor else None) of
        Some i \<Rightarrow> i
      | None \<Rightarrow> (case live_candidate s (tm_id t) (wk_responder w) of Some i \<Rightarrow> i | None \<Rightarrow> tm_leader_member t))"

definition response_message :: "team_store \<Rightarrow> answer_flight \<Rightarrow> control_message option" where
  "response_message s a =
     (let w = af_record a in
      case (wk_leader_session w, load_team s (wk_team w)) of
        (Some sid, Some t) \<Rightarrow>
          Some \<lparr>cm_team = wk_team w, cm_sender = response_sender s t w (af_kind a) (af_actor a), cm_recipient = tm_leader_member t,
            cm_type = workflow_kind_value (wk_kind w) @ ''_response'', cm_correlation = wk_id w,
            cm_payload = response_to_dict (build_response_protocol w (af_action a) (af_kind a) (af_actor a) (af_payload a)),
            cm_allow_response = True\<rparr>
      | _ \<Rightarrow> None)"

definition store_record :: "workflow \<Rightarrow> workflow_world \<Rightarrow> workflow_world" where
  "store_record w y = y\<lparr>ww_store := save_workflow w (ww_store y)\<rparr>"

definition add_flight :: "flight \<Rightarrow> workflow_world \<Rightarrow> workflow_world" where
  "add_flight f y = y\<lparr>ww_flights := ww_flights y @ [f]\<rparr>"

definition drop_flight :: "flight \<Rightarrow> workflow_world \<Rightarrow> workflow_world" where
  "drop_flight f y = y\<lparr>ww_flights := remove1 f (ww_flights y)\<rparr>"

definition take_lock :: "string \<Rightarrow> workflow_world \<Rightarrow> workflow_world" where
  "take_lock i y = y\<lparr>ww_locked := insert i (ww_locked y)\<rparr>"

definition release_lock :: "string \<Rightarrow> workflow_world \<Rightarrow> workflow_world" where
  "release_lock i y = y\<lparr>ww_locked := ww_locked y - {i}\<rparr>"

text \<open>Cancelling the deadline's task ends it wherever it is: also in the middle of its own report, where it holds the lock.\<close>

definition workers_flight :: "string \<Rightarrow> flight \<Rightarrow> bool" where
  "workers_flight i f \<longleftrightarrow> wk_id (flight_record f) = i \<and> flight_ending f = Some End_Worker"

definition cancel_deadline :: "string \<Rightarrow> workflow_world \<Rightarrow> workflow_world" where
  "cancel_deadline i y =
     (if i \<notin> ww_deadlines y then y
      else y\<lparr>ww_deadlines := ww_deadlines y - {i}, ww_flights := filter (\<lambda>f. \<not> workers_flight i f) (ww_flights y),
             ww_locked := (if list_ex (workers_flight i) (ww_flights y) then ww_locked y - {i} else ww_locked y)\<rparr>)"

definition schedule_deadline :: "workflow \<Rightarrow> workflow_world \<Rightarrow> workflow_world" where
  "schedule_deadline w y =
     (let y = cancel_deadline (wk_id w) y
      in if workflow_terminal w \<or> wk_deadline_at w = None then y else y\<lparr>ww_deadlines := insert (wk_id w) (ww_deadlines y)\<rparr>)"

definition resolve_waiters :: "workflow \<Rightarrow> workflow_world \<Rightarrow> workflow_world" where
  "resolve_waiters w y =
     y\<lparr>ww_waiters := filter (\<lambda>x. snd x \<noteq> wk_id w) (ww_waiters y),
       ww_resolved := ww_resolved y @ map (\<lambda>x. (fst x, w)) (filter (\<lambda>x. snd x = wk_id w) (ww_waiters y))\<rparr>"

subsection \<open>Reading\<close>

definition refresh_record_deadline ::
  "(time \<Rightarrow> string) \<Rightarrow> string \<Rightarrow> time \<Rightarrow> workflow \<Rightarrow> workflow_world \<Rightarrow> (workflow \<times> bool) \<times> workflow_world" where
  "refresh_record_deadline isof tid now w y =
     (case wk_deadline_at w of
        None \<Rightarrow> ((w, False), y)
      | Some d \<Rightarrow>
          if workflow_terminal w \<or> now < d then ((w, False), y)
          else (let w' = expired_record isof tid now w in ((w', True), cancel_deadline (wk_id w) (store_record w' y))))"

definition get_workflow :: "(time \<Rightarrow> string) \<Rightarrow> string \<Rightarrow> time \<Rightarrow> string \<Rightarrow> workflow_world \<Rightarrow> workflow option \<times> workflow_world" where
  "get_workflow isof tid now i y =
     (case load_workflow i (ww_store y) of
        None \<Rightarrow> (None, y)
      | Some w \<Rightarrow> (let ((w', expired), y) = refresh_record_deadline isof tid now w y in (Some w', schedule_deadline w' y)))"

definition is_pending :: "(time \<Rightarrow> string) \<Rightarrow> string \<Rightarrow> time \<Rightarrow> string \<Rightarrow> workflow_world \<Rightarrow> bool \<times> workflow_world" where
  "is_pending isof tid now i y =
     (let (w, y) = get_workflow isof tid now i y in (case w of None \<Rightarrow> False | Some w \<Rightarrow> \<not> workflow_terminal w, y))"

fun tracked_loop ::
  "(time \<Rightarrow> string) \<Rightarrow> (nat \<Rightarrow> string) \<Rightarrow> time \<Rightarrow> workflow list \<Rightarrow> workflow_world \<Rightarrow> workflow list \<times> workflow_world" where
  "tracked_loop isof tids now [] y = ([], y)"
| "tracked_loop isof tids now (w # ws) y =
     (let ((w', expired), y) = refresh_record_deadline isof (tids (length ws)) now w y;
          (rest, y) = tracked_loop isof tids now ws (schedule_deadline w' y)
      in (w' # rest, y))"

definition tracked_records ::
  "(time \<Rightarrow> string) \<Rightarrow> (nat \<Rightarrow> string) \<Rightarrow> time \<Rightarrow> bool option \<Rightarrow> workflow list \<Rightarrow> workflow_world \<Rightarrow> workflow list \<times> workflow_world" where
  "tracked_records isof tids now pending_only ws y =
     (let (ws', y) = tracked_loop isof tids now ws y in (sort_records (filter_pending pending_only ws'), y))"

definition list_workflows ::
  "(time \<Rightarrow> string) \<Rightarrow> (nat \<Rightarrow> string) \<Rightarrow> time \<Rightarrow> string option \<Rightarrow> string option \<Rightarrow> bool option \<Rightarrow> workflow_world \<Rightarrow>
   workflow list \<times> workflow_world" where
  "list_workflows isof tids now team_id responder pending_only y =
     tracked_records isof tids now pending_only
       (case (team_id, responder, pending_only) of
          (Some t, _, _) \<Rightarrow> list_for_team t pending_only (ww_store y)
        | (None, Some r, _) \<Rightarrow> list_for_responder r pending_only (ww_store y)
        | (None, None, Some True) \<Rightarrow> list_pending (ww_store y)
        | (None, None, Some False) \<Rightarrow> list_terminal (ww_store y)
        | (None, None, None) \<Rightarrow> list_all_workflows (ww_store y)) y"

definition require_record :: "string \<Rightarrow> workflow_world \<Rightarrow> workflow_error + workflow" where
  "require_record i y =
     (case load_workflow i (ww_store y) of
        None \<Rightarrow> Inl (Workflow_Error ''not_found'' (''Workflow '' @ repr_str i @ '' was not found'')) | Some w \<Rightarrow> Inr w)"

definition wrong_kind :: "string \<Rightarrow> string \<Rightarrow> workflow_error" where
  "wrong_kind i k = Workflow_Error ''invalid_workflow_kind'' (''Workflow '' @ repr_str i @ '' is not a '' @ k @ '' workflow'')"

text \<open>One look of the loop that waits for a permission: an error, a record to return, or \<open>None\<close>, which sleeps.\<close>

definition poll_permission :: "time \<Rightarrow> string \<Rightarrow> workflow_world \<Rightarrow> workflow_error + workflow option" where
  "poll_permission now i y =
     rbind (require_record i y) (\<lambda>w.
     rbind (ensure (wk_kind w = WK_Permission) (wrong_kind i ''permission'')) (\<lambda>_.
     Inr (if wk_status w \<noteq> WS_Pending then Some w
          else case wk_deadline_at w of None \<Rightarrow> None | Some d \<Rightarrow> if d \<le> now then Some w else None)))"

text \<open>The left part is the record of a workflow that has ended, else the future is left waiting.\<close>

definition wait_for_terminal :: "nat \<Rightarrow> string \<Rightarrow> workflow_world \<Rightarrow> (workflow_error + workflow option) \<times> workflow_world" where
  "wait_for_terminal future i y =
     (case require_record i y of
        Inl e \<Rightarrow> (Inl e, y)
      | Inr w \<Rightarrow> if workflow_terminal w then (Inr (Some w), y) else (Inr None, y\<lparr>ww_waiters := ww_waiters y @ [(future, i)]\<rparr>))"

subsection \<open>The end of a flight\<close>

text \<open>An expired record is reported to the host, and its answer follows.\<close>

definition expiry_flight :: "ending \<Rightarrow> workflow \<Rightarrow> answer_flight" where
  "expiry_flight e w =
     \<lparr>af_record = w, af_action = ''deadline_expired'', af_kind = WA_Runtime, af_actor = Some ''deadline'', af_payload = response_of w,
      af_ending = e\<rparr>"

definition report_expiry :: "(time \<Rightarrow> string) \<Rightarrow> ending \<Rightarrow> workflow \<Rightarrow> workflow_world \<Rightarrow> workflow_world" where
  "report_expiry isof e w y =
     add_flight (Told (expiry_flight e w)) (emit_workflow_event isof (event_type_for w) [(''deadline_expired'', PBool True)] w y)"

text \<open>\<open>recover_pending\<close>: the records that were pending at the start, one after the other.\<close>

fun recover_loop :: "(time \<Rightarrow> string) \<Rightarrow> (nat \<Rightarrow> string) \<Rightarrow> time \<Rightarrow> workflow list \<Rightarrow> workflow_world \<Rightarrow> workflow_world" where
  "recover_loop isof tids now [] y = y"
| "recover_loop isof tids now (w # ws) y =
     (let ((w', expired), y) = refresh_record_deadline isof (tids (length ws)) now w y
      in if expired then report_expiry isof (End_Recover ws) w' y else recover_loop isof tids now ws (schedule_deadline w' y))"

definition recover_pending :: "(time \<Rightarrow> string) \<Rightarrow> (nat \<Rightarrow> string) \<Rightarrow> time \<Rightarrow> workflow_world \<Rightarrow> workflow_world" where
  "recover_pending isof tids now y = recover_loop isof tids now (list_pending (ww_store y)) y"

definition end_flight :: "(time \<Rightarrow> string) \<Rightarrow> (nat \<Rightarrow> string) \<Rightarrow> time \<Rightarrow> answer_flight \<Rightarrow> workflow_world \<Rightarrow> workflow_world" where
  "end_flight isof tids now a y =
     (let w = af_record a in
      case af_ending a of
        End_Respond \<Rightarrow>
          release_lock (wk_id w) (if workflow_terminal w then resolve_waiters w (cancel_deadline (wk_id w) y) else y)
      | End_Locked \<Rightarrow> release_lock (wk_id w) (resolve_waiters w y)
      | End_Worker \<Rightarrow> (let y = release_lock (wk_id w) (resolve_waiters w y) in y\<lparr>ww_deadlines := ww_deadlines y - {wk_id w}\<rparr>)
      | End_Recover ws \<Rightarrow> recover_loop isof tids now ws (resolve_waiters w y))"

text \<open>The record is saved again with the id of the message that carried it, whatever was saved meanwhile.\<close>

definition transport_record :: "string \<Rightarrow> time \<Rightarrow> string \<Rightarrow> (string, pyval) dict \<Rightarrow> string \<Rightarrow> workflow \<Rightarrow> workflow" where
  "transport_record tid now action extra mid w =
     mutate_record tid now (wk_status w) action WA_Runtime (Some ''message_bus'') ((''message_id'', PStr mid) # extra) (wk_response w)
       None (Some mid) w"

definition note_transport :: "string \<Rightarrow> time \<Rightarrow> string \<Rightarrow> (string, pyval) dict \<Rightarrow> string option \<Rightarrow> workflow \<Rightarrow> workflow_world \<Rightarrow>
    workflow \<times> workflow_world" where
  "note_transport tid now action extra mid w y =
     (case mid of
        None \<Rightarrow> (w, y)
      | Some m \<Rightarrow> if m \<in> set (wk_messages w) then (w, y)
          else (let w' = transport_record tid now action extra m w in (w', store_record w' y)))"

text \<open>\<open>_emit_workflow_response\<close>, from the host's answer to the bus, and from the bus's answer to the end.\<close>

definition send_answer :: "(time \<Rightarrow> string) \<Rightarrow> (nat \<Rightarrow> string) \<Rightarrow> time \<Rightarrow> answer_flight \<Rightarrow> workflow_world \<Rightarrow> workflow_world" where
  "send_answer isof tids now a y =
     (let y = drop_flight (Told a) y in
      case (if ww_bus y then response_message (ww_teams y) a else None) of
        None \<Rightarrow> end_flight isof tids now a y
      | Some m \<Rightarrow> add_flight (Answering a) (y\<lparr>ww_sent := ww_sent y @ [m]\<rparr>))"

definition answer_sent ::
  "(time \<Rightarrow> string) \<Rightarrow> string \<Rightarrow> (nat \<Rightarrow> string) \<Rightarrow> time \<Rightarrow> string option \<Rightarrow> answer_flight \<Rightarrow> workflow_world \<Rightarrow> workflow_world" where
  "answer_sent isof tid tids now mid a y =
     end_flight isof tids now a
       (snd (note_transport tid now ''transport_response'' [(''response_action'', PStr (af_action a))] mid (af_record a)
          (drop_flight (Answering a) y)))"

text \<open>\<open>_emit_workflow_request\<close>, once for each recipient; a recipient that is not there is passed over.\<close>

fun send_requests :: "workflow \<Rightarrow> string option list \<Rightarrow> workflow_world \<Rightarrow> workflow_world" where
  "send_requests w [] y = y"
| "send_requests w (r # rs) y =
     (case (if ww_bus y then request_message w r else None) of
        None \<Rightarrow> send_requests w rs y
      | Some m \<Rightarrow> add_flight (Requesting w rs) (y\<lparr>ww_sent := ww_sent y @ [m]\<rparr>))"

definition announced :: "workflow \<Rightarrow> string option list \<Rightarrow> workflow_world \<Rightarrow> workflow_world" where
  "announced w rs y = send_requests w rs (drop_flight (Announced w rs) y)"

definition request_sent :: "string \<Rightarrow> time \<Rightarrow> string option \<Rightarrow> workflow \<Rightarrow> string option list \<Rightarrow> workflow_world \<Rightarrow> workflow_world" where
  "request_sent tid now mid w rs y =
     (let (w', y) = note_transport tid now ''transport_request'' [] mid w (drop_flight (Requesting w rs) y) in send_requests w' rs y)"

subsection \<open>Creating workflows\<close>

definition fresh_workflow ::
  "workflow_kind \<Rightarrow> string \<Rightarrow> time \<Rightarrow> time \<Rightarrow> team \<Rightarrow> string \<Rightarrow> string \<Rightarrow> string \<Rightarrow> string \<Rightarrow> (string, pyval) dict \<Rightarrow> workflow" where
  "fresh_workflow k wid now deadline t requester requester_name responder responder_name payload =
     \<lparr>wk_id = wid, wk_team = tm_id t, wk_kind = k, wk_requester = requester, wk_requester_name = Some requester_name,
      wk_responder = Some responder, wk_responder_name = Some responder_name, wk_leader_session = Some (tm_leader_session t),
      wk_status = WS_Pending, wk_request = payload, wk_response = None, wk_history = [], wk_messages = [], wk_created_at = now,
      wk_updated_at = now, wk_deadline_at = Some deadline, wk_terminal_at = None,
      wk_metadata = [(''response_channel'', PStr (if k = WK_Permission then ''leader'' else ''runtime''))], wk_schema = 1\<rparr>"

definition start_workflow :: "(time \<Rightarrow> string) \<Rightarrow> workflow \<Rightarrow> string option list \<Rightarrow> workflow_world \<Rightarrow> (workflow_error + workflow) \<times> workflow_world" where
  "start_workflow isof w rs y =
     (case create_workflow w (ww_store y) of
        Inl i \<Rightarrow> (Inl (Workflow_Exists i), y)
      | Inr s \<Rightarrow> (Inr w, add_flight (Announced w rs)
          (emit_workflow_event isof ''team.workflow.created'' [(''phase'', PStr ''request'')] w (schedule_deadline w (y\<lparr>ww_store := s\<rparr>)))))"

text \<open>A timeout of zero or none is the service's own; it is added to the clock.\<close>

definition create_permission_workflow ::
  "(time \<Rightarrow> string) \<Rightarrow> time \<Rightarrow> time option \<Rightarrow> string \<Rightarrow> time \<Rightarrow> team \<Rightarrow> string \<Rightarrow> string \<Rightarrow> string \<Rightarrow> string \<Rightarrow>
   (string, pyval) dict \<Rightarrow> workflow_world \<Rightarrow> (workflow_error + workflow) \<times> workflow_world" where
  "create_permission_workflow isof own timeout wid now t requester requester_name responder responder_name payload y =
     start_workflow isof (fresh_workflow WK_Permission wid now (now + (case timeout of None \<Rightarrow> own | Some d \<Rightarrow> if d = 0 then own else d)) t
       requester requester_name responder responder_name payload) [None] y"

definition create_shutdown_workflow ::
  "(time \<Rightarrow> string) \<Rightarrow> time \<Rightarrow> time option \<Rightarrow> string \<Rightarrow> time \<Rightarrow> team \<Rightarrow> string \<Rightarrow> string \<Rightarrow> string \<Rightarrow> string \<Rightarrow>
   (string, pyval) dict \<Rightarrow> workflow_world \<Rightarrow> (workflow_error + workflow) \<times> workflow_world" where
  "create_shutdown_workflow isof own timeout wid now t requester requester_name responder responder_name payload y =
     start_workflow isof (fresh_workflow WK_Shutdown wid now (now + (case timeout of None \<Rightarrow> own | Some d \<Rightarrow> if d = 0 then own else d)) t
       requester requester_name responder responder_name payload)
       (None # (if tm_leader_member t \<noteq> responder then [Some (tm_leader_member t)] else [])) y"

subsection \<open>Responding\<close>

definition respond_check ::
  "string \<Rightarrow> string \<Rightarrow> workflow_actor \<Rightarrow> team_actor option \<Rightarrow> bool \<Rightarrow> workflow_world \<Rightarrow> workflow_error + workflow" where
  "respond_check i action kind actor bypass y =
     rbind (require_record i y) (\<lambda>w.
     rbind (ensure (\<not> workflow_terminal w) (Workflow_Error ''terminal_workflow'' (''Workflow '' @ repr_str i @ '' is already terminal''))) (\<lambda>_.
     rbind (ensure (action \<in> set (allowed_workflow_actions w))
       (Workflow_Error ''invalid_action'' (''Action '' @ repr_str action @ '' is not allowed for workflow '' @ repr_str i))) (\<lambda>_.
     case (if bypass then None else validate_authority w actor kind) of Some e \<Rightarrow> Inl e | None \<Rightarrow> Inr w)))"

text \<open>\<open>_respond\<close> up to its first await, when it has the lock; an error releases it.\<close>

definition respond ::
  "(time \<Rightarrow> string) \<Rightarrow> string \<Rightarrow> time \<Rightarrow> string \<Rightarrow> string \<Rightarrow> workflow_actor \<Rightarrow> string option \<Rightarrow> team_actor option \<Rightarrow> (string, pyval) dict \<Rightarrow>
   bool \<Rightarrow> workflow_world \<Rightarrow> (workflow_error + workflow) \<times> workflow_world" where
  "respond isof tid now i action kind actor_id actor payload bypass y =
     (let action = map lower_char (strip action) in
      case respond_check i action kind actor bypass y of
        Inl e \<Rightarrow> (Inl e, y)
      | Inr w \<Rightarrow>
          (let w' = apply_action tid now action kind actor_id payload w;
               y = schedule_deadline w' (store_record w' (take_lock i y))
           in (Inr w', add_flight (Told \<lparr>af_record = w', af_action = action, af_kind = kind, af_actor = actor_id, af_payload = payload,
                 af_ending = End_Respond\<rparr>)
                (emit_workflow_event isof (event_type_for w') [(''action'', PStr action)] w' y))))"

definition respond_model ::
  "(time \<Rightarrow> string) \<Rightarrow> string \<Rightarrow> time \<Rightarrow> string \<Rightarrow> (string, pyval) dict \<Rightarrow> string \<Rightarrow> string \<Rightarrow> (string, pyval) dict \<Rightarrow> workflow_world \<Rightarrow>
   (workflow_error + workflow) \<times> workflow_world" where
  "respond_model isof tid now sid ext i action payload y =
     (let (a, s) = resolve_actor sid ext (ww_teams y); y = y\<lparr>ww_teams := s\<rparr> in
      case (ta_team a, ta_member a) of
        (Some t, Some m) \<Rightarrow> respond isof tid now i action (workflow_actor_kind a) (Some (ter_id m)) (Some a) payload False y
      | _ \<Rightarrow> (Inl (Workflow_Error ''invalid_team_state'' ''The caller does not have an active runtime team for this workflow''), y))"

definition respond_host ::
  "(time \<Rightarrow> string) \<Rightarrow> string \<Rightarrow> time \<Rightarrow> string option \<Rightarrow> string \<Rightarrow> string \<Rightarrow> (string, pyval) dict \<Rightarrow> workflow_world \<Rightarrow>
   (workflow_error + workflow) \<times> workflow_world" where
  "respond_host isof tid now host i action payload y = respond isof tid now i action WA_Host host None payload False y"

definition acknowledge_shutdown ::
  "(time \<Rightarrow> string) \<Rightarrow> string \<Rightarrow> time \<Rightarrow> string \<Rightarrow> workflow_actor \<Rightarrow> string option \<Rightarrow> (string, pyval) dict \<Rightarrow> workflow_world \<Rightarrow>
   (workflow_error + workflow) \<times> workflow_world" where
  "acknowledge_shutdown isof tid now i kind actor_id payload y = respond isof tid now i ''acknowledge'' kind actor_id None payload True y"

definition complete_shutdown ::
  "(time \<Rightarrow> string) \<Rightarrow> string \<Rightarrow> time \<Rightarrow> string \<Rightarrow> workflow_actor \<Rightarrow> string option \<Rightarrow> (string, pyval) dict \<Rightarrow> workflow_world \<Rightarrow>
   (workflow_error + workflow) \<times> workflow_world" where
  "complete_shutdown isof tid now i kind actor_id payload y = respond isof tid now i ''complete'' kind actor_id None payload True y"

subsection \<open>The host's outcome, closing by force and the deadline\<close>

text \<open>What follows a record that ends under its lock; the answer carries its response.\<close>

definition conclude ::
  "(time \<Rightarrow> string) \<Rightarrow> string \<Rightarrow> workflow_actor \<Rightarrow> string option \<Rightarrow> (string, pyval) dict \<Rightarrow> workflow \<Rightarrow> workflow_world \<Rightarrow> workflow_world" where
  "conclude isof action kind actor_id event w y =
     (let y = cancel_deadline (wk_id w) (store_record w (take_lock (wk_id w) y))
      in add_flight (Told \<lparr>af_record = w, af_action = action, af_kind = kind, af_actor = actor_id, af_payload = response_of w,
           af_ending = End_Locked\<rparr>) (emit_workflow_event isof (event_type_for w) event w y))"

record host_outcome =
  ho_allow :: bool
  ho_behavior :: string
  ho_message :: "string option"
  ho_source :: "string option"
  ho_details :: "(string, pyval) dict"

definition host_decided :: "string \<Rightarrow> time \<Rightarrow> string option \<Rightarrow> host_outcome \<Rightarrow> workflow \<Rightarrow> workflow" where
  "host_decided tid now host oc w =
     (let st = (if ho_allow oc then WS_Completed else WS_Rejected) in
      mutate_record tid now st (if ho_allow oc then ''host_allow'' else ''host_deny'') WA_Host host
        [(''behavior'', PStr (ho_behavior oc)), (''message'', opt_str_value (ho_message oc)), (''source'', opt_str_value (ho_source oc)),
         (''details'', PDict (ho_details oc))]
        (Some (py_update (response_of w)
          [(''host_behavior'', PStr (ho_behavior oc)), (''host_message'', opt_str_value (ho_message oc)),
           (''host_source'', opt_str_value (ho_source oc)), (''host_details'', PDict (ho_details oc))])) (Some st) None w)"

definition record_permission_host_outcome ::
  "(time \<Rightarrow> string) \<Rightarrow> string \<Rightarrow> time \<Rightarrow> string option \<Rightarrow> string \<Rightarrow> host_outcome \<Rightarrow> workflow_world \<Rightarrow>
   (workflow_error + workflow) \<times> workflow_world" where
  "record_permission_host_outcome isof tid now host i oc y =
     (case rbind (require_record i y) (\<lambda>w. rbind (ensure (wk_kind w = WK_Permission) (wrong_kind i ''permission'')) (\<lambda>_. Inr w)) of
        Inl e \<Rightarrow> (Inl e, y)
      | Inr w \<Rightarrow>
          if workflow_terminal w then (Inr w, y)
          else if wk_status w \<noteq> WS_Waiting_Host
          then (Inl (Workflow_Error ''invalid_workflow_state'' ''Permission host results require a leader-approved workflow''), y)
          else (let w' = host_decided tid now host oc w; action = (if ho_allow oc then ''host_allow'' else ''host_deny'')
                in (Inr w', conclude isof action WA_Host host [(''action'', PStr action)] w' y)))"

definition forced_closed :: "string \<Rightarrow> time \<Rightarrow> string \<Rightarrow> string option \<Rightarrow> workflow \<Rightarrow> workflow" where
  "forced_closed tid now reason actor_id w =
     mutate_record tid now WS_Forced_Closed ''force_close'' WA_Runtime actor_id [(''reason'', PStr reason)]
       (Some [(''forced_close_reason'', PStr reason)]) (Some WS_Forced_Closed) None w"

definition force_close_shutdown ::
  "(time \<Rightarrow> string) \<Rightarrow> string \<Rightarrow> time \<Rightarrow> string \<Rightarrow> string \<Rightarrow> string option \<Rightarrow> workflow_world \<Rightarrow> (workflow_error + workflow) \<times> workflow_world" where
  "force_close_shutdown isof tid now i reason actor_id y =
     (case rbind (require_record i y) (\<lambda>w. rbind (ensure (wk_kind w = WK_Shutdown) (wrong_kind i ''shutdown'')) (\<lambda>_. Inr w)) of
        Inl e \<Rightarrow> (Inl e, y)
      | Inr w \<Rightarrow>
          if workflow_terminal w then (Inr w, y)
          else (let w' = forced_closed tid now reason actor_id w
                in (Inr w', conclude isof ''force_close'' WA_Runtime actor_id [(''reason'', PStr reason)] w' y)))"

text \<open>The deadline's task, when its sleep is over and it has the lock.\<close>

definition deadline_fires :: "(time \<Rightarrow> string) \<Rightarrow> string \<Rightarrow> time \<Rightarrow> string \<Rightarrow> workflow_world \<Rightarrow> workflow_world" where
  "deadline_fires isof tid now i y =
     (case load_workflow i (ww_store y) of
        None \<Rightarrow> y\<lparr>ww_deadlines := ww_deadlines y - {i}\<rparr>
      | Some w \<Rightarrow>
          if workflow_terminal w then y\<lparr>ww_deadlines := ww_deadlines y - {i}\<rparr>
          else (let w' = expired_record isof tid now w in report_expiry isof End_Worker w' (store_record w' (take_lock i y))))"

end
