(* ===== verification/Team_Workflow_Index.thy ===== *)
theory Team_Workflow_Index
  imports Team_Workflow_Store
begin

text \<open>
  The protocol of the workflow stores, and that both stores follow it: a listing is the scan of all the records.
\<close>

subsection \<open>The protocol\<close>

datatype workflow_query = Q_All | Q_Pending | Q_Terminal | Q_Team string "bool option" | Q_Responder string "bool option"

definition pending_matches :: "bool option \<Rightarrow> workflow \<Rightarrow> bool" where
  "pending_matches p w \<longleftrightarrow> p = None \<or> p = Some (\<not> workflow_terminal w)"

fun selects :: "workflow_query \<Rightarrow> workflow \<Rightarrow> bool" where
  "selects Q_All w = True"
| "selects Q_Pending w = (\<not> workflow_terminal w)"
| "selects Q_Terminal w = workflow_terminal w"
| "selects (Q_Team t p) w = (wk_team w = t \<and> pending_matches p w)"
| "selects (Q_Responder r p) w = (r \<noteq> [] \<and> wk_responder w = Some r \<and> pending_matches p w)"

definition ids_where :: "(string \<Rightarrow> workflow option) \<Rightarrow> (workflow \<Rightarrow> bool) \<Rightarrow> string set" where
  "ids_where m P = {i. \<exists>w. m i = Some w \<and> P w}"

definition listing :: "workflow_query \<Rightarrow> (string \<Rightarrow> workflow option) \<Rightarrow> workflow list" where
  "listing q m = sort_records (map (\<lambda>i. the (m i)) (sorted_list_of_set (ids_where m (selects q))))"

definition keyed_records :: "(string \<Rightarrow> workflow option) \<Rightarrow> bool" where
  "keyed_records m \<longleftrightarrow> finite (dom m) \<and> (\<forall>i w. m i = Some w \<longrightarrow> wk_id w = i)"

datatype workflow_op = Do_Create_Workflow workflow | Do_Save_Workflow workflow | Do_Delete_Workflow string
  | Do_Load_Workflow string | Do_List_Workflows workflow_query

datatype workflow_answer = Answer_Done | Answer_Taken string | Answer_Workflow "workflow option"
  | Answer_Workflows "workflow list" | Answer_Unreadable

text \<open>The reference: the records alone, scanned at every listing.\<close>

fun scan_step :: "workflow_op \<Rightarrow> (string \<Rightarrow> workflow option) \<Rightarrow> workflow_answer \<times> (string \<Rightarrow> workflow option)" where
  "scan_step (Do_Create_Workflow w) m = (if m (wk_id w) \<noteq> None then (Answer_Taken (wk_id w), m) else (Answer_Done, m(wk_id w \<mapsto> w)))"
| "scan_step (Do_Save_Workflow w) m = (Answer_Done, m(wk_id w \<mapsto> w))"
| "scan_step (Do_Delete_Workflow i) m = (Answer_Done, m(i := None))"
| "scan_step (Do_Load_Workflow i) m = (Answer_Workflow (m i), m)"
| "scan_step (Do_List_Workflows q) m = (Answer_Workflows (listing q m), m)"

fun op_record :: "workflow_op \<Rightarrow> workflow option" where
  "op_record (Do_Create_Workflow w) = Some w"
| "op_record (Do_Save_Workflow w) = Some w"
| "op_record x = None"

locale workflow_protocol =
  fixes run_op :: "workflow_op \<Rightarrow> 's \<Rightarrow> workflow_answer \<times> 's" and view :: "'s \<Rightarrow> string \<Rightarrow> workflow option"
    and good :: "'s \<Rightarrow> bool" and writable :: "workflow \<Rightarrow> bool"
  assumes answers: "good s \<Longrightarrow> pred_option writable (op_record x) \<Longrightarrow> fst (run_op x s) = fst (scan_step x (view s))"
    and views: "good s \<Longrightarrow> pred_option writable (op_record x) \<Longrightarrow> view (snd (run_op x s)) = snd (scan_step x (view s))"
    and keeps: "good s \<Longrightarrow> pred_option writable (op_record x) \<Longrightarrow> good (snd (run_op x s))"
begin

lemma answers_scan:
  "good s \<Longrightarrow> list_all (\<lambda>x. pred_option writable (op_record x)) xs \<Longrightarrow> answers run_op xs s = answers scan_step xs (view s)"
proof (induction xs arbitrary: s)
  case (Cons x xs)
  then have x: "pred_option writable (op_record x)" by simp
  then show ?case
    using Cons.IH [OF keeps [OF Cons.prems(1) x]] Cons.prems answers [OF Cons.prems(1) x] views [OF Cons.prems(1) x]
    by (simp add: case_prod_beta Let_def)
qed simp

end

subsection \<open>Listings\<close>

lemma sort_records_unique:
  assumes "distinct xs" "distinct ys" "set xs = set ys" "inj_on wk_id (set xs)"
  shows "sort_records xs = sort_records ys"
  unfolding sort_records_def
proof (rule sort_key_inj_key_eq)
  show "mset xs = mset (sort_key (\<lambda>w. (wk_created_at w, wk_id w)) ys)"
    using assms(1-3) by (simp add: set_eq_iff_mset_eq_distinct)
  show "inj_on (\<lambda>w. (wk_created_at w, wk_id w)) (set xs)" using assms(4) by (auto simp: inj_on_def)
qed simp

lemma keyed_inj: "keyed_records m \<Longrightarrow> inj_on wk_id (ran m)"
  by (auto simp: inj_on_def keyed_records_def ran_def)

lemma keyed_update [simp]: "keyed_records m \<Longrightarrow> keyed_records (m(wk_id w \<mapsto> w))" "keyed_records m \<Longrightarrow> keyed_records (m(i := None))"
  by (auto simp: keyed_records_def)

lemma finite_ids: "keyed_records m \<Longrightarrow> finite (ids_where m P)"
  unfolding keyed_records_def ids_where_def by (erule conjE, erule finite_subset [rotated]) auto

lemma ids_list:
  assumes "keyed_records m"
  shows "distinct (map (\<lambda>i. the (m i)) (sorted_list_of_set (ids_where m P)))"
    "set (map (\<lambda>i. the (m i)) (sorted_list_of_set (ids_where m P))) = {w \<in> ran m. P w}"
proof -
  have "inj_on (\<lambda>i. the (m i)) (ids_where m P)"
  proof (rule inj_onI)
    fix i j assume "i \<in> ids_where m P" "j \<in> ids_where m P" and e: "the (m i) = the (m j)"
    then obtain v w where "m i = Some v" "m j = Some w" by (auto simp: ids_where_def)
    then show "i = j" using e assms unfolding keyed_records_def by (metis option.sel)
  qed
  then show "distinct (map (\<lambda>i. the (m i)) (sorted_list_of_set (ids_where m P)))"
    using finite_ids [OF assms] by (simp add: distinct_map)
  show "set (map (\<lambda>i. the (m i)) (sorted_list_of_set (ids_where m P))) = {w \<in> ran m. P w}"
    using finite_ids [OF assms] by (force simp: ids_where_def ran_def)
qed

lemma listing_unique:
  assumes "keyed_records m" "distinct ws" "set ws = {w \<in> ran m. selects q w}"
  shows "sort_records ws = listing q m"
  unfolding listing_def
  using ids_list [OF assms(1), of "selects q"] keyed_inj [OF assms(1)] assms(2,3)
  by (intro sort_records_unique) (auto intro: inj_on_subset)

lemma filter_pending_sorted: "filter_pending p (sort_records ws) = sort_records (filter (pending_matches p) ws)"
proof (cases p)
  case None
  then show ?thesis by (simp add: filter_pending_def pending_matches_def)
next
  case (Some b)
  then show ?thesis
    by (cases b) (simp_all add: filter_pending_def sort_records_def filter_sort pending_matches_def [abs_def])
qed

text \<open>From an index to the listing it stands for.\<close>

definition indexed_records :: "(string \<Rightarrow> workflow option) \<Rightarrow> string set \<Rightarrow> workflow list" where
  "indexed_records m ids = map (\<lambda>i. the (m i)) (sorted_list_of_set ids)"

lemma indexed_listing:
  assumes "keyed_records m" "\<And>w. selects q w \<longleftrightarrow> P w \<and> pending_matches p w"
  shows "filter_pending p (sort_records (indexed_records m (ids_where m P))) = listing q m"
  unfolding filter_pending_sorted indexed_records_def
  using ids_list [OF assms(1), of P] assms(2) by (intro listing_unique [OF assms(1)]) auto

lemma filter_pending_None: "filter_pending None ws = ws"
  by (simp add: filter_pending_def)

subsection \<open>Indices\<close>

text \<open>What the four indices hold of the records.\<close>

definition indexes ::
  "(string \<Rightarrow> string set) \<Rightarrow> (string \<Rightarrow> string set) \<Rightarrow> string set \<Rightarrow> string set \<Rightarrow> (string \<Rightarrow> workflow option) \<Rightarrow> bool" where
  "indexes T R P E m \<longleftrightarrow>
     T = (\<lambda>t. ids_where m (\<lambda>w. wk_team w = t)) \<and> R = (\<lambda>r. ids_where m (\<lambda>w. r \<noteq> [] \<and> wk_responder w = Some r)) \<and>
     P = ids_where m (\<lambda>w. \<not> workflow_terminal w) \<and> E = ids_where m workflow_terminal"

lemma ids_where_update:
  "m i = None \<Longrightarrow> ids_where (m(i \<mapsto> w)) Q = (if Q w then insert i (ids_where m Q) else ids_where m Q)"
  "ids_where (m(i := None)) Q = ids_where m Q - {i}"
  by (auto simp: ids_where_def)

definition with_id :: "bool \<Rightarrow> string \<Rightarrow> string \<Rightarrow> (string \<Rightarrow> string set) \<Rightarrow> string \<Rightarrow> string set" where
  "with_id b k i f = (if b then f(k := insert i (f k)) else f)"

definition without_id :: "bool \<Rightarrow> string \<Rightarrow> string \<Rightarrow> (string \<Rightarrow> string set) \<Rightarrow> string \<Rightarrow> string set" where
  "without_id b k i f = (if b then f(k := f k - {i}) else f)"

abbreviation has_responder :: "workflow \<Rightarrow> bool" where
  "has_responder w \<equiv> wk_responder w \<noteq> None \<and> wk_responder w \<noteq> Some []"

lemma indexes_add:
  assumes "indexes T R P E m" "m (wk_id w) = None"
  shows "indexes (with_id True (wk_team w) (wk_id w) T) (with_id (has_responder w) (the (wk_responder w)) (wk_id w) R)
    (if workflow_terminal w then P else insert (wk_id w) P) (if workflow_terminal w then insert (wk_id w) E else E)
    (m(wk_id w \<mapsto> w))"
  using assms by (auto simp: indexes_def with_id_def ids_where_update fun_eq_iff)

lemma indexes_drop:
  assumes "indexes T R P E m" "m i = Some p" "wk_id p = i"
  shows "indexes (without_id True (wk_team p) i T) (without_id (has_responder p) (the (wk_responder p)) i R)
    (P - {i}) (E - {i}) (m(i := None))"
proof -
  have [simp]: "i \<in> ids_where m Q \<longleftrightarrow> Q p" for Q using assms(2) by (simp add: ids_where_def)
  then show ?thesis using assms(1) by (auto simp: indexes_def without_id_def ids_where_update(2) fun_eq_iff)
qed

subsection \<open>The store in memory follows the protocol\<close>

fun mem_workflow_step :: "workflow_op \<Rightarrow> workflow_store \<Rightarrow> workflow_answer \<times> workflow_store" where
  "mem_workflow_step (Do_Create_Workflow w) s =
     (case create_workflow w s of Inl i \<Rightarrow> (Answer_Taken i, s) | Inr s' \<Rightarrow> (Answer_Done, s'))"
| "mem_workflow_step (Do_Save_Workflow w) s = (Answer_Done, save_workflow w s)"
| "mem_workflow_step (Do_Delete_Workflow i) s = (Answer_Done, delete_workflow i s)"
| "mem_workflow_step (Do_Load_Workflow i) s = (Answer_Workflow (load_workflow i s), s)"
| "mem_workflow_step (Do_List_Workflows q) s =
     (Answer_Workflows (case q of
        Q_All \<Rightarrow> list_all_workflows s | Q_Pending \<Rightarrow> list_pending s | Q_Terminal \<Rightarrow> list_terminal s
      | Q_Team t p \<Rightarrow> list_for_team t p s | Q_Responder r p \<Rightarrow> list_for_responder r p s), s)"

definition mem_records :: "workflow_store \<Rightarrow> string \<Rightarrow> workflow option" where
  "mem_records s i = load_workflow i s"

definition mem_good :: "workflow_store \<Rightarrow> bool" where
  "mem_good s \<longleftrightarrow> keyed_records (mem_records s) \<and> distinct (map fst (ws_records s)) \<and>
     indexes (ids_at (ws_team_ids s)) (ids_at (ws_responder_ids s)) (ws_pending_ids s) (ws_terminal_ids s) (mem_records s)"

lemma ids_at_add: "ids_at (add_id k i d) = with_id True k i (ids_at d)"
  by (auto simp: ids_at_def add_id_def with_id_def map_of_update fun_eq_iff)

lemma ids_at_remove: "ids_at (remove_id k i d) = without_id True k i (ids_at d)"
  by (auto simp: ids_at_def remove_id_def without_id_def map_of_update map_of_delete fun_eq_iff split: option.split)

lemma index_simps:
  "ids_at (ws_team_ids (index w s)) = with_id True (wk_team w) (wk_id w) (ids_at (ws_team_ids s))"
  "ids_at (ws_responder_ids (index w s)) = with_id (has_responder w) (the (wk_responder w)) (wk_id w) (ids_at (ws_responder_ids s))"
  "ws_pending_ids (index w s) = (if workflow_terminal w then ws_pending_ids s else insert (wk_id w) (ws_pending_ids s))"
  "ws_terminal_ids (index w s) = (if workflow_terminal w then insert (wk_id w) (ws_terminal_ids s) else ws_terminal_ids s)"
  "ws_records (index w s) = ws_records s"
  by (simp_all add: index_def ids_at_add split: option.split) (simp_all add: with_id_def)

lemma unindex_simps:
  "ids_at (ws_team_ids (unindex p s)) = without_id True (wk_team p) (wk_id p) (ids_at (ws_team_ids s))"
  "ids_at (ws_responder_ids (unindex p s)) = without_id (has_responder p) (the (wk_responder p)) (wk_id p) (ids_at (ws_responder_ids s))"
  "ws_pending_ids (unindex p s) = ws_pending_ids s - {wk_id p}" "ws_terminal_ids (unindex p s) = ws_terminal_ids s - {wk_id p}"
  "ws_records (unindex p s) = ws_records s"
  by (simp_all add: unindex_def ids_at_remove split: option.split) (simp_all add: without_id_def)

definition mem_indexed :: "workflow_store \<Rightarrow> (string \<Rightarrow> workflow option) \<Rightarrow> bool" where
  "mem_indexed s m \<longleftrightarrow> indexes (ids_at (ws_team_ids s)) (ids_at (ws_responder_ids s)) (ws_pending_ids s) (ws_terminal_ids s) m"

lemma mem_indexed_update:
  assumes "mem_indexed s m" "keyed_records m"
  shows "m (wk_id w) = None \<Longrightarrow> mem_indexed (update_indices (Some w) None s) (m(wk_id w \<mapsto> w))"
    and "m i = Some p \<Longrightarrow> mem_indexed (update_indices None (Some p) s) (m(i := None))"
    and "m (wk_id w) = Some p \<Longrightarrow> mem_indexed (update_indices (Some w) (Some p) s) (m(wk_id w \<mapsto> w))"
proof -
  have add: "mem_indexed (index w s) (m(wk_id w \<mapsto> w))" if "mem_indexed s m" "m (wk_id w) = None" for s m
    using indexes_add that by (simp add: mem_indexed_def index_simps del: fun_upd_apply)
  have drop: "mem_indexed (unindex p s) (m(i := None))" if "m i = Some p" for i p
  proof -
    have "wk_id p = i" using that assms(2) by (simp add: keyed_records_def)
    from indexes_drop [OF assms(1) [unfolded mem_indexed_def] that this] this
    show ?thesis by (simp add: mem_indexed_def unindex_simps)
  qed
  show "m (wk_id w) = None \<Longrightarrow> mem_indexed (update_indices (Some w) None s) (m(wk_id w \<mapsto> w))"
    using add [OF assms(1)] by (simp add: update_indices_def)
  show "m i = Some p \<Longrightarrow> mem_indexed (update_indices None (Some p) s) (m(i := None))"
    using drop by (simp add: update_indices_def)
  show "m (wk_id w) = Some p \<Longrightarrow> mem_indexed (update_indices (Some w) (Some p) s) (m(wk_id w \<mapsto> w))"
    using add [OF drop, of "wk_id w" p] by (simp add: update_indices_def)
qed

lemma update_indices_records [simp]: "ws_records (update_indices a b s) = ws_records s"
  by (simp add: update_indices_def index_simps unindex_simps split: option.split)

lemma mem_records_write: "mem_records (s\<lparr>ws_records := AList.update i w (ws_records s)\<rparr>) = (mem_records s)(i \<mapsto> w)"
  by (auto simp: mem_records_def load_workflow_def map_of_update fun_eq_iff)

lemma mem_records_simps [simp]:
  "mem_records (update_indices a b s) = mem_records s"
  "mem_indexed (s\<lparr>ws_records := r\<rparr>) m = mem_indexed s m"
  by (auto simp: mem_records_def load_workflow_def mem_indexed_def fun_eq_iff)

lemma mem_saved:
  assumes "mem_good s"
  shows "mem_records (save_workflow w s) = (mem_records s)(wk_id w \<mapsto> w)" "mem_good (save_workflow w s)"
proof -
  let ?s = "s\<lparr>ws_records := AList.update (wk_id w) w (ws_records s)\<rparr>"
  have k: "keyed_records (mem_records s)" "mem_indexed s (mem_records s)" "distinct (map fst (ws_records s))"
    using assms by (simp_all add: mem_good_def mem_indexed_def)
  show m: "mem_records (save_workflow w s) = (mem_records s)(wk_id w \<mapsto> w)"
    by (simp add: save_workflow_def mem_records_write)
  have "mem_indexed (save_workflow w s) ((mem_records s)(wk_id w \<mapsto> w))"
    using mem_indexed_update(1,3) [of ?s "mem_records s" w] k(1,2)
    by (cases "load_workflow (wk_id w) s") (simp_all add: save_workflow_def mem_records_def)
  then show "mem_good (save_workflow w s)"
    using k by (simp add: mem_good_def m mem_indexed_def) (simp add: save_workflow_def distinct_update)
qed

lemma mem_created:
  assumes "mem_good s" "mem_records s (wk_id w) = None"
  shows "create_workflow w s = Inr (save_workflow w s)"
  using assms by (simp add: create_workflow_def save_workflow_def mem_records_def)

lemma mem_deleted:
  assumes "mem_good s"
  shows "mem_records (delete_workflow i s) = (mem_records s)(i := None)" "mem_good (delete_workflow i s)"
proof -
  have k: "keyed_records (mem_records s)" "mem_indexed s (mem_records s)" "distinct (map fst (ws_records s))"
    using assms by (simp_all add: mem_good_def mem_indexed_def)
  have "mem_records (delete_workflow i s) = (mem_records s)(i := None) \<and> mem_good (delete_workflow i s)"
  proof (cases "load_workflow i s")
    case None
    then have "mem_records s i = None" by (simp add: mem_records_def)
    then have "(mem_records s)(i := None) = mem_records s" by (simp add: fun_upd_idem)
    then show ?thesis using None assms by (simp add: delete_workflow_def)
  next
    case (Some p)
    let ?s = "s\<lparr>ws_records := AList.delete i (ws_records s)\<rparr>"
    have m: "mem_records ?s = (mem_records s)(i := None)"
      by (auto simp: mem_records_def load_workflow_def map_of_delete fun_eq_iff)
    have "mem_indexed (update_indices None (Some p) ?s) ((mem_records s)(i := None))"
      using mem_indexed_update(2) [of ?s "mem_records s" i p] k(1,2) Some by (simp add: mem_records_def)
    then show ?thesis
      using Some k m by (simp add: delete_workflow_def mem_good_def mem_indexed_def distinct_delete)
  qed
  then show "mem_records (delete_workflow i s) = (mem_records s)(i := None)" "mem_good (delete_workflow i s)" by blast+
qed

lemma map_filter_all: "list_all (\<lambda>i. f i \<noteq> None) xs \<Longrightarrow> List.map_filter f xs = map (\<lambda>i. the (f i)) xs"
  by (induction xs) (auto simp: map_filter_simps)

lemma records_from_index:
  assumes "keyed_records (mem_records s)"
  shows "records_from_ids (ids_where (mem_records s) P) s = sort_records (indexed_records (mem_records s) (ids_where (mem_records s) P))"
proof -
  have "list_all (\<lambda>i. load_workflow i s \<noteq> None) (sorted_list_of_set (ids_where (mem_records s) P))"
    using finite_ids [OF assms] by (auto simp: list_all_iff ids_where_def mem_records_def)
  from map_filter_all [OF this] show ?thesis
    by (simp add: records_from_ids_def indexed_records_def mem_records_def)
qed

lemma mem_listed:
  assumes "mem_good s"
  shows "fst (mem_workflow_step (Do_List_Workflows q) s) = Answer_Workflows (listing q (mem_records s))"
proof -
  let ?m = "mem_records s"
  have k: "keyed_records ?m" and d: "distinct (map fst (ws_records s))"
    and i: "ids_at (ws_team_ids s) = (\<lambda>t. ids_where ?m (\<lambda>w. wk_team w = t))"
      "ids_at (ws_responder_ids s) = (\<lambda>r. ids_where ?m (\<lambda>w. r \<noteq> [] \<and> wk_responder w = Some r))"
      "ws_pending_ids s = ids_where ?m (\<lambda>w. \<not> workflow_terminal w)" "ws_terminal_ids s = ids_where ?m workflow_terminal"
    using assms by (simp_all add: mem_good_def indexes_def)
  have ran: "set (map snd (ws_records s)) = ran ?m"
    using d by (simp add: mem_records_def [abs_def] load_workflow_def ran_distinct)
  have inj: "inj_on fst (set (ws_records s))" using d by (simp add: distinct_map)
  have ids: "wk_id w = i" if "(i, w) \<in> set (ws_records s)" for i w
    using that k d by (simp add: keyed_records_def mem_records_def load_workflow_def)
  have "inj_on snd (set (ws_records s))"
    by (rule inj_onI) (metis ids prod.collapse)
  then have dist: "distinct (map snd (ws_records s))" using d by (simp add: distinct_map)
  show ?thesis
  proof (cases q)
    case Q_All
    then show ?thesis using listing_unique [OF k dist, of Q_All] ran by (simp add: list_all_workflows_def)
  next
    case Q_Pending
    then show ?thesis
      using indexed_listing [OF k, of Q_Pending "\<lambda>w. \<not> workflow_terminal w" None]
      by (simp add: list_pending_def i records_from_index [OF k] filter_pending_None pending_matches_def)
  next
    case Q_Terminal
    then show ?thesis
      using indexed_listing [OF k, of Q_Terminal workflow_terminal None]
      by (simp add: list_terminal_def i records_from_index [OF k] filter_pending_None pending_matches_def)
  next
    case (Q_Team t p)
    then show ?thesis
      using indexed_listing [OF k, of "Q_Team t p" "\<lambda>w. wk_team w = t" p]
      by (simp add: list_for_team_def i records_from_index [OF k])
  next
    case (Q_Responder r p)
    then show ?thesis
      using indexed_listing [OF k, of "Q_Responder r p" "\<lambda>w. r \<noteq> [] \<and> wk_responder w = Some r" p]
      by (simp add: list_for_responder_def i records_from_index [OF k])
  qed
qed

interpretation mw: workflow_protocol mem_workflow_step mem_records mem_good "\<lambda>w. True"
proof
  fix x s assume s: "mem_good s"
  have "fst (mem_workflow_step x s) = fst (scan_step x (mem_records s)) \<and>
    mem_records (snd (mem_workflow_step x s)) = snd (scan_step x (mem_records s)) \<and> mem_good (snd (mem_workflow_step x s))"
  proof (cases x)
    case (Do_Create_Workflow w)
    show ?thesis
    proof (cases "mem_records s (wk_id w)")
      case None
      then show ?thesis using Do_Create_Workflow s mem_created [OF s None] mem_saved [OF s, of w] by simp
    next
      case (Some p)
      then show ?thesis using Do_Create_Workflow s by (simp add: create_workflow_def mem_records_def)
    qed
  next
    case (Do_List_Workflows q)
    then show ?thesis using mem_listed [OF s, of q] s by simp
  qed (use s mem_saved [OF s] mem_deleted [OF s] in \<open>simp_all add: mem_records_def [symmetric]\<close>)
  then show "fst (mem_workflow_step x s) = fst (scan_step x (mem_records s))"
    "mem_records (snd (mem_workflow_step x s)) = snd (scan_step x (mem_records s))" "mem_good (snd (mem_workflow_step x s))" by blast+
qed

lemma mem_good_new: "mem_good new_workflow_store" "mem_records new_workflow_store = Map.empty"
proof -
  show m: "mem_records new_workflow_store = Map.empty" by (auto simp: mem_records_def load_workflow_def new_workflow_store_def)
  show "mem_good new_workflow_store"
    by (simp add: mem_good_def m keyed_records_def indexes_def ids_where_def) (simp add: new_workflow_store_def ids_at_def fun_eq_iff)
qed

end
