(* ===== verification/Team_Workflow_Inv.thy ===== *)
theory Team_Workflow_Inv
  imports Team_Workflows Team_Workflow_Index
begin

text \<open>
  Properties of the workflow service.  Callers, deadlines, the host and the bus interleave; a record may be saved
  over a newer one.  What every record carries is its history, and the history accounts for its status.
\<close>

subsection \<open>Interleaved callers\<close>

inductive workflow_step :: "(time \<Rightarrow> string) \<Rightarrow> workflow_world \<Rightarrow> workflow_world \<Rightarrow> bool" for isof where
  asks_permission: "workflow_step isof y
    (snd (create_permission_workflow isof own timeout wid now t requester requester_name responder responder_name payload y))"
| asks_shutdown: "workflow_step isof y
    (snd (create_shutdown_workflow isof own timeout wid now t requester requester_name responder responder_name payload y))"
| member_responds: "i \<notin> ww_locked y \<Longrightarrow> workflow_step isof y (snd (respond_model isof tid now sid ext i action payload y))"
| host_responds: "i \<notin> ww_locked y \<Longrightarrow> workflow_step isof y (snd (respond_host isof tid now host i action payload y))"
| acknowledges: "i \<notin> ww_locked y \<Longrightarrow> workflow_step isof y (snd (acknowledge_shutdown isof tid now i kind actor payload y))"
| completes: "i \<notin> ww_locked y \<Longrightarrow> workflow_step isof y (snd (complete_shutdown isof tid now i kind actor payload y))"
| host_decides: "i \<notin> ww_locked y \<Longrightarrow> workflow_step isof y (snd (record_permission_host_outcome isof tid now host i oc y))"
| closes: "i \<notin> ww_locked y \<Longrightarrow> workflow_step isof y (snd (force_close_shutdown isof tid now i reason actor y))"
| fires: "i \<in> ww_deadlines y \<Longrightarrow> i \<notin> ww_locked y \<Longrightarrow> workflow_step isof y (deadline_fires isof tid now i y)"
| reads: "workflow_step isof y (snd (get_workflow isof tid now i y))"
| lists: "workflow_step isof y (snd (list_workflows isof tids now team_id responder pending_only y))"
| recovers: "workflow_step isof y (recover_pending isof tids now y)"
| waits: "workflow_step isof y (snd (wait_for_terminal future i y))"
| host_hears_request: "Announced w rs \<in> set (ww_flights y) \<Longrightarrow> workflow_step isof y (announced w rs y)"
| bus_takes_request: "Requesting w rs \<in> set (ww_flights y) \<Longrightarrow> workflow_step isof y (request_sent tid now mid w rs y)"
| host_hears: "Told a \<in> set (ww_flights y) \<Longrightarrow> workflow_step isof y (send_answer isof tids now a y)"
| bus_takes_answer: "Answering a \<in> set (ww_flights y) \<Longrightarrow> workflow_step isof y (answer_sent isof tid tids now mid a y)"
| teams_change: "workflow_step isof y (y\<lparr>ww_teams := s\<rparr>)"

definition new_workflow_world :: "team_store \<Rightarrow> bool \<Rightarrow> workflow_world" where
  "new_workflow_world s bus = \<lparr>ww_store = new_workflow_store, ww_teams = s, ww_bus = bus, ww_events = [], ww_sent = [],
     ww_deadlines = {}, ww_waiters = [], ww_resolved = [], ww_locked = {}, ww_flights = []\<rparr>"

subsection \<open>The history of a record\<close>

text \<open>The moves of a workflow: who may take it from a status where.\<close>

fun workflow_move :: "workflow_kind \<Rightarrow> workflow_status \<Rightarrow> workflow_transition \<Rightarrow> workflow_status option" where
  "workflow_move k s t =
     (let a = wt_action t; by = wt_actor_kind t in
      if a \<in> {''transport_request'', ''transport_response''} then Some s
      else if s \<in> set terminal_statuses then None
      else if a = ''deadline_expired'' then Some (terminal_for k)
      else if k = WK_Permission then
        if s = WS_Pending \<and> a = ''approve'' \<and> by \<in> {WA_Leader, WA_Host} then Some WS_Waiting_Host
        else if s = WS_Pending \<and> a = ''reject'' \<and> by \<in> {WA_Leader, WA_Host} then Some WS_Rejected
        else if s = WS_Waiting_Host \<and> a = ''host_allow'' \<and> by = WA_Host then Some WS_Completed
        else if s = WS_Waiting_Host \<and> a = ''host_deny'' \<and> by = WA_Host then Some WS_Rejected
        else None
      else if s = WS_Pending \<and> a = ''acknowledge'' then Some WS_Acknowledged
      else if s \<in> {WS_Pending, WS_Acknowledged} \<and> a = ''complete'' then Some WS_Completed
      else if a = ''force_close'' then Some WS_Forced_Closed
      else None)"

declare workflow_move.simps [simp del]

fun replay :: "workflow_kind \<Rightarrow> workflow_status \<Rightarrow> workflow_transition list \<Rightarrow> workflow_status option" where
  "replay k s [] = Some s"
| "replay k s (t # ts) = (case workflow_move k s t of None \<Rightarrow> None | Some s' \<Rightarrow> replay k s' ts)"

definition explained :: "workflow \<Rightarrow> bool" where
  "explained w \<longleftrightarrow> replay (wk_kind w) WS_Pending (wk_history w) = Some (wk_status w) \<and> (workflow_terminal w \<longleftrightarrow> wk_terminal_at w \<noteq> None)"

lemma replay_snoc: "replay k s ts = Some s' \<Longrightarrow> replay k s (ts @ [t]) = workflow_move k s' t"
  by (induction ts arbitrary: s) (auto split: option.splits)

lemma mutate_simps [simp]:
  "wk_kind (mutate_record tid now st a k ac p r t m w) = wk_kind w" "wk_status (mutate_record tid now st a k ac p r t m w) = st"
  "wk_id (mutate_record tid now st a k ac p r t m w) = wk_id w" "wk_team (mutate_record tid now st a k ac p r t m w) = wk_team w"
  "wk_responder (mutate_record tid now st a k ac p r t m w) = wk_responder w"
  "wk_deadline_at (mutate_record tid now st a k ac p r t m w) = wk_deadline_at w"
  "wk_terminal_at (mutate_record tid now st a k ac p r t m w) = (if t \<noteq> None then Some now else wk_terminal_at w)"
  "wk_history (mutate_record tid now st a k ac p r t m w) =
     wk_history w @ [\<lparr>wt_id = tid, wt_action = a, wt_actor_kind = k, wt_actor = ac, wt_payload = p, wt_at = now\<rparr>]"
  by (simp_all add: mutate_record_def)

lemma explained_mutate:
  assumes "explained w"
    and "workflow_move (wk_kind w) (wk_status w) \<lparr>wt_id = tid, wt_action = a, wt_actor_kind = k, wt_actor = ac, wt_payload = p, wt_at = now\<rparr> = Some st"
    and "if st \<in> set terminal_statuses then t \<noteq> None \<or> workflow_terminal w else t = None \<and> \<not> workflow_terminal w"
  shows "explained (mutate_record tid now st a k ac p r t m w)"
  using assms by (auto simp: explained_def replay_snoc workflow_terminal_def split: if_splits)

lemma explained_expired: "explained w \<Longrightarrow> \<not> workflow_terminal w \<Longrightarrow> explained (expired_record isof tid now w)"
  unfolding expired_record_def
  by (rule explained_mutate) (auto simp: workflow_move.simps workflow_terminal_def terminal_for_def terminal_statuses_def)

lemma explained_transport:
  "explained w \<Longrightarrow> a \<in> {''transport_request'', ''transport_response''} \<Longrightarrow> explained (transport_record tid now a e mid w)"
  unfolding transport_record_def
  by (rule explained_mutate) (auto simp: workflow_move.simps workflow_terminal_def)

lemma explained_host: "explained w \<Longrightarrow> wk_kind w = WK_Permission \<Longrightarrow> wk_status w = WS_Waiting_Host \<Longrightarrow> explained (host_decided tid now host oc w)"
  unfolding host_decided_def Let_def
  by (rule explained_mutate) (auto simp: workflow_move.simps workflow_terminal_def terminal_statuses_def)

lemma explained_forced: "explained w \<Longrightarrow> wk_kind w = WK_Shutdown \<Longrightarrow> \<not> workflow_terminal w \<Longrightarrow> explained (forced_closed tid now r ac w)"
  unfolding forced_closed_def
  by (rule explained_mutate) (auto simp: workflow_move.simps workflow_terminal_def terminal_statuses_def)

lemma explained_fresh: "explained (fresh_workflow k wid now d t rq rn rs sn p)"
  by (simp add: explained_def fresh_workflow_def workflow_terminal_def terminal_statuses_def)

text \<open>An action that is allowed, taken by an actor who may take it.\<close>

lemma explained_action:
  assumes "explained w" "\<not> workflow_terminal w" "action \<in> set (allowed_workflow_actions w)"
    and "wk_kind w = WK_Permission \<Longrightarrow> kind \<in> {WA_Leader, WA_Host}"
  shows "explained (apply_action tid now action kind ac p w)"
proof (cases "wk_kind w")
  case WK_Permission
  then have "wk_status w = WS_Pending" "action = ''approve'' \<or> action = ''reject''"
    using assms(2,3) by (auto simp: allowed_workflow_actions_def split: if_splits)
  then show ?thesis
    using assms(1,2,4) WK_Permission unfolding apply_action_def Let_def
    by (elim disjE) (simp_all, (rule explained_mutate; simp add: workflow_move.simps terminal_statuses_def)+)
next
  case WK_Shutdown
  then have "wk_status w \<in> {WS_Pending, WS_Acknowledged}" "action = ''acknowledge'' \<and> wk_status w = WS_Pending \<or> action = ''complete''"
    using assms(2,3) by (auto simp: allowed_workflow_actions_def split: if_splits)
  then show ?thesis
    using assms(1,2) WK_Shutdown unfolding apply_action_def Let_def
    by (elim disjE conjE) (simp_all, (rule explained_mutate; auto simp: workflow_move.simps terminal_statuses_def)+)
qed

subsection \<open>Every record has an explanation\<close>

fun ending_ok :: "ending \<Rightarrow> bool" where
  "ending_ok (End_Recover ws) = list_all explained ws"
| "ending_ok e = True"

definition flight_ok :: "flight \<Rightarrow> bool" where
  "flight_ok f \<longleftrightarrow> explained (flight_record f) \<and> pred_option ending_ok (flight_ending f)"

definition world_ok :: "workflow_world \<Rightarrow> bool" where
  "world_ok y \<longleftrightarrow> mem_good (ww_store y) \<and> (\<forall>i w. load_workflow i (ww_store y) = Some w \<longrightarrow> explained w) \<and>
     (\<forall>f \<in> set (ww_flights y). flight_ok f)"

lemma load_saved [simp]: "load_workflow i (save_workflow w s) = (if i = wk_id w then Some w else load_workflow i s)"
  by (simp add: save_workflow_def load_workflow_def map_of_update)

lemma world_simps [simp]:
  "ww_store (add_flight f y) = ww_store y" "ww_flights (add_flight f y) = ww_flights y @ [f]"
  "ww_store (drop_flight f y) = ww_store y" "ww_flights (drop_flight f y) = remove1 f (ww_flights y)"
  "ww_store (take_lock i y) = ww_store y" "ww_flights (take_lock i y) = ww_flights y"
  "ww_store (release_lock i y) = ww_store y" "ww_flights (release_lock i y) = ww_flights y"
  "ww_store (emit_workflow_event isof ty p w y) = ww_store y" "ww_flights (emit_workflow_event isof ty p w y) = ww_flights y"
  "ww_store (resolve_waiters w y) = ww_store y" "ww_flights (resolve_waiters w y) = ww_flights y"
  "ww_store (store_record w y) = save_workflow w (ww_store y)" "ww_flights (store_record w y) = ww_flights y"
  "ww_store (cancel_deadline i y) = ww_store y" "ww_store (schedule_deadline w y) = ww_store y"
  by (simp_all add: add_flight_def drop_flight_def take_lock_def release_lock_def emit_workflow_event_def resolve_waiters_def
      store_record_def cancel_deadline_def schedule_deadline_def Let_def)

lemma cancelled_flights: "set (ww_flights (cancel_deadline i y)) \<subseteq> set (ww_flights y)"
  "set (ww_flights (schedule_deadline w y)) \<subseteq> set (ww_flights y)"
  by (auto simp: cancel_deadline_def schedule_deadline_def Let_def)

lemma world_okI:
  assumes "world_ok y" "ww_store z = ww_store y" "set (ww_flights z) \<subseteq> set (ww_flights y)"
  shows "world_ok z"
  using assms by (auto simp: world_ok_def)

lemma world_ok_quiet [intro]:
  assumes "world_ok y"
  shows "world_ok (take_lock i y)" "world_ok (release_lock i y)" "world_ok (emit_workflow_event isof ty p w y)"
    "world_ok (resolve_waiters w y)" "world_ok (cancel_deadline i y)" "world_ok (schedule_deadline w y)" "world_ok (drop_flight f y)"
    "world_ok (y\<lparr>ww_deadlines := d\<rparr>)" "world_ok (y\<lparr>ww_sent := m\<rparr>)" "world_ok (y\<lparr>ww_teams := s\<rparr>)" "world_ok (y\<lparr>ww_waiters := x\<rparr>)"
  by (rule world_okI [OF assms]; simp add: cancelled_flights set_remove1_subset)+

lemma world_ok_store [intro]: "world_ok y \<Longrightarrow> explained w \<Longrightarrow> world_ok (store_record w y)"
  using mem_saved(2) by (auto simp: world_ok_def)

lemma world_ok_flight [intro]: "world_ok y \<Longrightarrow> flight_ok f \<Longrightarrow> world_ok (add_flight f y)"
  by (auto simp: world_ok_def)

lemma world_ok_load: "world_ok y \<Longrightarrow> load_workflow i (ww_store y) = Some w \<Longrightarrow> explained w"
  by (simp add: world_ok_def)

lemma required: "require_record i y = Inr w \<longleftrightarrow> load_workflow i (ww_store y) = Some w"
  by (simp add: require_record_def split: option.split)

lemma refresh_ok:
  assumes "world_ok y" "explained w"
  shows "explained (fst (fst (refresh_record_deadline isof tid now w y)))" "world_ok (snd (refresh_record_deadline isof tid now w y))"
  using assms explained_expired [OF assms(2)]
  by (auto simp: refresh_record_deadline_def Let_def split: option.splits intro!: world_ok_quiet(5) world_ok_store)

lemma flight_ok_expiry: "explained w \<Longrightarrow> ending_ok e \<Longrightarrow> flight_ok (Told (expiry_flight e w))"
  by (simp add: flight_ok_def expiry_flight_def)

lemma report_ok: "world_ok y \<Longrightarrow> explained w \<Longrightarrow> ending_ok e \<Longrightarrow> world_ok (report_expiry isof e w y)"
  unfolding report_expiry_def by (intro world_ok_flight world_ok_quiet flight_ok_expiry)

lemma recover_loop_Cons:
  "recover_loop isof tids now (w # ws) y =
     (let r = refresh_record_deadline isof (tids (length ws)) now w y
      in if snd (fst r) then report_expiry isof (End_Recover ws) (fst (fst r)) (snd r)
         else recover_loop isof tids now ws (schedule_deadline (fst (fst r)) (snd r)))"
  by (simp add: case_prod_beta Let_def)

lemma recover_ok: "world_ok y \<Longrightarrow> list_all explained ws \<Longrightarrow> world_ok (recover_loop isof tids now ws y)"
proof (induction ws arbitrary: y)
  case (Cons w ws)
  have w: "explained w" "list_all explained ws" using Cons.prems(2) by simp_all
  note r = refresh_ok [OF Cons.prems(1) w(1), of isof "tids (length ws)" now]
  show ?case
    unfolding recover_loop_Cons Let_def
    using report_ok [OF r(2,1), of "End_Recover ws"] Cons.IH [OF world_ok_quiet(6) [OF r(2)] w(2)] w(2) by simp
qed simp

lemma end_ok:
  assumes "world_ok y" "flight_ok (Told a)"
  shows "world_ok (end_flight isof tids now a y)"
  using assms by (auto simp: end_flight_def Let_def flight_ok_def split: ending.split intro!: recover_ok)

lemma noted_ok:
  assumes "world_ok y" "explained w" "action \<in> {''transport_request'', ''transport_response''}"
  shows "explained (fst (note_transport tid now action e mid w y))" "world_ok (snd (note_transport tid now action e mid w y))"
  using assms explained_transport [OF assms(2,3)] by (auto simp: note_transport_def Let_def split: option.split)

lemma send_requests_ok: "world_ok y \<Longrightarrow> explained w \<Longrightarrow> world_ok (send_requests w rs y)"
  by (induction rs) (auto simp: flight_ok_def split: option.split)

lemma flight_of: "world_ok y \<Longrightarrow> f \<in> set (ww_flights y) \<Longrightarrow> flight_ok f"
  by (simp add: world_ok_def)

lemma answering_ok: "flight_ok (Told a) = flight_ok (Answering a)"
  by (simp add: flight_ok_def)

lemma send_answer_ok: "world_ok y \<Longrightarrow> flight_ok (Told a) \<Longrightarrow> world_ok (send_answer isof tids now a y)"
  by (auto simp: send_answer_def Let_def answering_ok split: option.split intro!: end_ok)

lemma answer_sent_ok: "world_ok y \<Longrightarrow> flight_ok (Answering a) \<Longrightarrow> world_ok (answer_sent isof tid tids now mid a y)"
  unfolding answer_sent_def
  by (rule end_ok, rule noted_ok(2)) (auto simp: flight_ok_def)

lemma request_sent_ok: "world_ok y \<Longrightarrow> flight_ok (Requesting w rs) \<Longrightarrow> world_ok (request_sent tid now mid w rs y)"
  using noted_ok [of "drop_flight (Requesting w rs) y" w "''transport_request''" tid now "[]" mid] world_ok_quiet(7) [of y "Requesting w rs"]
  by (simp add: request_sent_def case_prod_beta Let_def flight_ok_def send_requests_ok)

lemma start_ok:
  assumes y: "world_ok y" and w: "explained w"
  shows "world_ok (snd (start_workflow isof w rs y))"
proof (cases "create_workflow w (ww_store y)")
  case (Inl i)
  then show ?thesis using y by (simp add: start_workflow_def)
next
  case (Inr s)
  then have "load_workflow (wk_id w) (ww_store y) = None" by (simp add: create_workflow_def split: if_splits)
  then have "s = save_workflow w (ww_store y)" using Inr y mem_created [of "ww_store y" w] by (simp add: world_ok_def mem_records_def)
  then have "world_ok (y\<lparr>ww_store := s\<rparr>)" using world_ok_store [OF y w] by (simp add: store_record_def)
  then show ?thesis using Inr w by (auto simp: start_workflow_def flight_ok_def intro!: world_ok_flight world_ok_quiet)
qed

text \<open>Who responds is who may respond.\<close>

lemma respond_check_ok:
  "respond_check i action kind actor bypass y = Inr w \<longleftrightarrow>
     load_workflow i (ww_store y) = Some w \<and> \<not> workflow_terminal w \<and> action \<in> set (allowed_workflow_actions w) \<and>
     (bypass \<or> validate_authority w actor kind = None)"
  by (auto simp: respond_check_def rbind_Inr_iff ensure_Inr_iff required split: option.splits if_splits)

lemma respond_ok:
  assumes y: "world_ok y"
    and may: "\<And>w. respond_check i (map lower_char (strip action)) kind actor bypass y = Inr w \<Longrightarrow> wk_kind w = WK_Permission \<Longrightarrow>
      kind \<in> {WA_Leader, WA_Host}"
  shows "world_ok (snd (respond isof tid now i action kind actor_id actor payload bypass y))"
proof (cases "respond_check i (map lower_char (strip action)) kind actor bypass y")
  case (Inl e)
  then show ?thesis using y by (simp add: respond_def)
next
  case (Inr w)
  then have "explained w" using world_ok_load [OF y, of i w] by (simp add: respond_check_ok)
  then have w: "explained (apply_action tid now (map lower_char (strip action)) kind actor_id payload w)"
    using Inr may [OF Inr] by (intro explained_action) (auto simp: respond_check_ok)
  then show ?thesis
    using Inr y by (auto simp: respond_def Let_def flight_ok_def intro!: world_ok_flight world_ok_quiet world_ok_store)
qed

lemma conclude_ok: "world_ok y \<Longrightarrow> explained w \<Longrightarrow> world_ok (conclude isof action kind actor event w y)"
  by (auto simp: conclude_def Let_def flight_ok_def intro!: world_ok_flight world_ok_quiet world_ok_store)

lemma get_ok: "world_ok y \<Longrightarrow> world_ok (snd (get_workflow isof tid now i y))"
proof (cases "load_workflow i (ww_store y)")
  case (Some w)
  assume y: "world_ok y"
  from refresh_ok(2) [OF y world_ok_load [OF y Some], of isof tid now]
  show ?thesis using Some by (simp add: get_workflow_def case_prod_beta Let_def world_ok_quiet(6))
qed (simp add: get_workflow_def)

lemma tracked_ok: "world_ok y \<Longrightarrow> list_all explained ws \<Longrightarrow> world_ok (snd (tracked_loop isof tids now ws y))"
proof (induction ws arbitrary: y)
  case (Cons w ws)
  then have "world_ok (snd (refresh_record_deadline isof (tids (length ws)) now w y))" by (intro refresh_ok) simp_all
  from Cons.IH [OF world_ok_quiet(6) [OF this]] Cons.prems show ?case by (simp add: case_prod_beta Let_def)
qed simp

lemma set_sort_records [simp]: "set (sort_records ws) = set ws"
  by (simp add: sort_records_def)

lemma listed_records:
  assumes "world_ok y" "w \<in> set (records_from_ids ids (ww_store y))"
  shows "explained w"
proof -
  obtain i where "load_workflow i (ww_store y) = Some w"
    using assms(2) by (auto simp: records_from_ids_def List.map_filter_def)
  then show ?thesis by (rule world_ok_load [OF assms(1)])
qed

lemma filter_pending_subset: "set (filter_pending p ws) \<subseteq> set ws"
  by (auto simp: filter_pending_def split: option.splits bool.splits)

lemma listings_explained:
  assumes y: "world_ok y"
  shows "list_all explained (list_pending (ww_store y))" "list_all explained (list_terminal (ww_store y))"
    "list_all explained (list_for_team t p (ww_store y))" "list_all explained (list_for_responder r p (ww_store y))"
    "list_all explained (list_all_workflows (ww_store y))"
proof -
  show "list_all explained (list_pending (ww_store y))" "list_all explained (list_terminal (ww_store y))"
    "list_all explained (list_for_team t p (ww_store y))" "list_all explained (list_for_responder r p (ww_store y))"
    using listed_records [OF y] filter_pending_subset
    by (auto simp: list_all_iff list_pending_def list_terminal_def list_for_team_def list_for_responder_def dest!: subsetD [OF filter_pending_subset])
  have "explained w" if "(i, w) \<in> set (ws_records (ww_store y))" for i w
  proof -
    have "load_workflow i (ww_store y) = Some w" using that y by (simp add: world_ok_def mem_good_def load_workflow_def)
    then show ?thesis by (rule world_ok_load [OF y])
  qed
  then show "list_all explained (list_all_workflows (ww_store y))" by (auto simp: list_all_iff list_all_workflows_def)
qed

lemma list_workflows_ok: "world_ok y \<Longrightarrow> world_ok (snd (list_workflows isof tids now t r p y))"
  unfolding list_workflows_def tracked_records_def
  by (auto simp: case_prod_beta Let_def intro!: tracked_ok listings_explained split: option.split bool.split)

lemma recover_pending_ok: "world_ok y \<Longrightarrow> world_ok (recover_pending isof tids now y)"
  unfolding recover_pending_def by (intro recover_ok listings_explained)

lemma member_may_decide:
  assumes "validate_authority w (Some a) (workflow_actor_kind a) = None" "wk_kind w = WK_Permission"
  shows "workflow_actor_kind a \<in> {WA_Leader, WA_Host}"
  using assms by (auto simp: validate_authority_def workflow_actor_kind_def Let_def split: option.splits if_splits)

lemma respond_model_ok: "world_ok y \<Longrightarrow> world_ok (snd (respond_model isof tid now sid ext i action payload y))"
proof -
  assume y: "world_ok y"
  obtain a s where a: "resolve_actor sid ext (ww_teams y) = (a, s)" by (cases "resolve_actor sid ext (ww_teams y)")
  have "world_ok (snd (respond isof tid now i action (workflow_actor_kind a) actor_id (Some a) payload False (y\<lparr>ww_teams := s\<rparr>)))" for actor_id
    by (rule respond_ok [OF world_ok_quiet(10) [OF y]]) (auto simp: respond_check_ok dest: member_may_decide)
  then show ?thesis using y by (auto simp: respond_model_def a Let_def split: option.split)
qed

lemma internal_ok:
  "world_ok y \<Longrightarrow> action \<in> {''acknowledge'', ''complete''} \<Longrightarrow> world_ok (snd (respond isof tid now i action kind actor_id None payload True y))"
  by (rule respond_ok)
    (auto simp: respond_check_ok allowed_workflow_actions_def lower_char_def strip_def is_space_def split: if_splits)

lemma outcome_ok: "world_ok y \<Longrightarrow> world_ok (snd (record_permission_host_outcome isof tid now host i oc y))"
  by (auto simp: record_permission_host_outcome_def rbind_Inr_iff ensure_Inr_iff required Let_def
      intro!: conclude_ok explained_host dest: world_ok_load split: sum.split)

lemma forced_ok: "world_ok y \<Longrightarrow> world_ok (snd (force_close_shutdown isof tid now i reason actor y))"
  by (auto simp: force_close_shutdown_def rbind_Inr_iff ensure_Inr_iff required Let_def
      intro!: conclude_ok explained_forced dest: world_ok_load split: sum.split)

lemma fires_ok: "world_ok y \<Longrightarrow> world_ok (deadline_fires isof tid now i y)"
  by (auto simp: deadline_fires_def Let_def intro!: report_ok world_ok_store world_ok_quiet explained_expired dest: world_ok_load
      split: option.split)

lemma workflow_step_ok: "workflow_step isof y z \<Longrightarrow> world_ok y \<Longrightarrow> world_ok z"
proof (induction rule: workflow_step.induct)
  case (host_responds i y tid now host action payload)
  then show ?case unfolding respond_host_def by (intro respond_ok) simp_all
next
  case (waits y future i)
  then show ?case by (simp add: wait_for_terminal_def world_ok_quiet(11) split: sum.split)
next
  case (host_hears_request w rs y)
  then show ?case
    using flight_of [OF host_hears_request(2,1)] by (auto simp: announced_def flight_ok_def intro!: send_requests_ok world_ok_quiet)
next
  case (teams_change y s)
  then show ?case by (rule world_ok_quiet(10))
qed (auto simp: create_permission_workflow_def create_shutdown_workflow_def acknowledge_shutdown_def complete_shutdown_def
    intro!: start_ok explained_fresh respond_model_ok internal_ok outcome_ok forced_ok fires_ok get_ok list_workflows_ok recover_pending_ok
      send_answer_ok answer_sent_ok request_sent_ok dest: flight_of)

lemma new_world_ok: "world_ok (new_workflow_world s bus)"
  using mem_good_new by (simp add: world_ok_def new_workflow_world_def) (simp add: new_workflow_store_def load_workflow_def)

lemma workflows_reachable: "(workflow_step isof)\<^sup>*\<^sup>* (new_workflow_world s bus) y \<Longrightarrow> world_ok y"
  by (induction rule: rtranclp_induct) (auto simp: new_world_ok workflow_step_ok)

end
