(* ===== verification/Team_Workflow_Files.thy ===== *)
theory Team_Workflow_Files
  imports Team_Workflow_Index
begin

text \<open>
  The payload of a workflow is read back as it was written, and the store in files follows the protocol of the
  stores: both stores answer as the scan does.
\<close>

subsection \<open>The round trip of a record\<close>

definition plain_id :: "string \<Rightarrow> bool" where
  "plain_id i \<longleftrightarrow> strip i = i \<and> i \<noteq> []"

definition normal_transition :: "workflow_transition \<Rightarrow> bool" where
  "normal_transition t \<longleftrightarrow> wt_id t \<noteq> [] \<and> plain_text (wt_actor t)"

definition normal_workflow :: "workflow \<Rightarrow> bool" where
  "normal_workflow w \<longleftrightarrow> wk_schema w \<noteq> 0 \<and> plain_id (wk_id w) \<and> list_all normal_transition (wk_history w) \<and>
     list_all plain_text [wk_requester_name w, wk_responder w, wk_responder_name w, wk_leader_session w]"

lemma workflow_enum_back [simp]:
  "enum_of workflow_kind_value workflow_kinds (workflow_kind_value k) = Inr k"
  "enum_of workflow_status_value workflow_statuses (workflow_status_value s) = Inr s"
  "enum_of workflow_actor_value workflow_actors (workflow_actor_value a) = Inr a"
proof -
  show "enum_of workflow_kind_value workflow_kinds (workflow_kind_value k) = Inr k"
    by (cases k) (simp_all add: enum_of_def workflow_kinds_def)
  show "enum_of workflow_status_value workflow_statuses (workflow_status_value s) = Inr s"
    by (cases s) (simp_all add: enum_of_def workflow_statuses_def)
  show "enum_of workflow_actor_value workflow_actors (workflow_actor_value a) = Inr a"
    by (cases a) (simp_all add: enum_of_def workflow_actors_def)
qed

lemma workflow_values_nonempty [simp]:
  "workflow_kind_value k \<noteq> []" "workflow_status_value s \<noteq> []" "workflow_actor_value a \<noteq> []"
proof -
  show "workflow_kind_value k \<noteq> []" by (cases k) simp_all
  show "workflow_status_value s \<noteq> []" by (cases s) simp_all
  show "workflow_actor_value a \<noteq> []" by (cases a) simp_all
qed

lemma transition_back:
  assumes "utc_codec isof parsef" "normal_transition t"
  shows "transition_from_dict parsef now fresh (transition_to_dict isof t) = Inr t"
  using assms
  by (simp add: transition_from_dict_def transition_to_dict_def py_get_def time_or_back opt_str_back normal_transition_def)

lemma transitions_back:
  "utc_codec isof parsef \<Longrightarrow> list_all normal_transition ts \<Longrightarrow>
     transitions_from parsef now fresh i (map (transition_to_dict isof) ts) = Inr ts"
  by (induction ts arbitrary: i) (simp_all add: transition_back)

lemma items_back:
  "dict_items (PList (map (\<lambda>t. PDict (f t)) ts)) = map f ts" "text_items (PList (map PStr xs)) = xs"
proof -
  have "List.map_filter (\<lambda>x. case x of PDict d \<Rightarrow> Some d | _ \<Rightarrow> None) (map (\<lambda>t. PDict (f t)) ts) = map f ts"
    by (induction ts) (simp_all add: map_filter_simps)
  then show "dict_items (PList (map (\<lambda>t. PDict (f t)) ts)) = map f ts" by (simp add: dict_items_def)
  have "List.map_filter (\<lambda>x. case x of PStr s \<Rightarrow> Some s | _ \<Rightarrow> None) (map PStr xs) = xs"
    by (induction xs) (simp_all add: map_filter_simps)
  then show "text_items (PList (map PStr xs)) = xs" by (simp add: text_items_def)
qed

lemma opt_dict_back [simp]: "coerce_optional_mapping (opt_dict_value d) = d"
  by (cases d) (simp_all add: opt_dict_value_def)

lemma workflow_back:
  assumes "utc_codec isof parsef" "normal_workflow w"
  shows "workflow_from_dict parsef now fresh (workflow_to_dict isof w) = Inr w"
  using assms
  by (simp add: workflow_from_dict_def workflow_to_dict_def py_get_def time_or_back opt_timestamp_back opt_str_back
      normal_workflow_def items_back transitions_back plain_id_def)


subsection \<open>The store in files follows the protocol\<close>

fun file_workflow_step ::
  "workflow_reader \<Rightarrow> (workflow \<Rightarrow> (string, pyval) dict) \<Rightarrow> workflow_op \<Rightarrow> workflow_files \<Rightarrow> workflow_answer \<times> workflow_files" where
  "file_workflow_step rd wr (Do_Create_Workflow w) f =
     (case file_create_workflow wr w f of Inl i \<Rightarrow> (Answer_Taken i, f) | Inr f' \<Rightarrow> (Answer_Done, f'))"
| "file_workflow_step rd wr (Do_Save_Workflow w) f =
     (case file_save_workflow rd wr w f of Inl e \<Rightarrow> (Answer_Unreadable, f) | Inr f' \<Rightarrow> (Answer_Done, f'))"
| "file_workflow_step rd wr (Do_Delete_Workflow i) f =
     (case file_delete_workflow rd i f of Inl e \<Rightarrow> (Answer_Unreadable, f) | Inr f' \<Rightarrow> (Answer_Done, f'))"
| "file_workflow_step rd wr (Do_Load_Workflow i) f =
     (case file_load_workflow rd i f of Inl e \<Rightarrow> (Answer_Unreadable, f) | Inr w \<Rightarrow> (Answer_Workflow w, f))"
| "file_workflow_step rd wr (Do_List_Workflows q) f =
     (case (case q of
        Q_All \<Rightarrow> file_list_all_workflows rd f | Q_Pending \<Rightarrow> file_list_pending rd f | Q_Terminal \<Rightarrow> file_list_terminal rd f
      | Q_Team t p \<Rightarrow> file_list_for_team rd t p f | Q_Responder r p \<Rightarrow> file_list_for_responder rd r p f) of
        Inl e \<Rightarrow> (Answer_Unreadable, f) | Inr ws \<Rightarrow> (Answer_Workflows ws, f))"

definition file_records :: "workflow_reader \<Rightarrow> workflow_files \<Rightarrow> string \<Rightarrow> workflow option" where
  "file_records rd f i = (case map_of (wf_workflows f) i of None \<Rightarrow> None | Some d \<Rightarrow> (case rd d of Inl e \<Rightarrow> None | Inr w \<Rightarrow> Some w))"

definition file_ids :: "(string, (string, pyval) dict) dict \<Rightarrow> string \<Rightarrow> string set" where
  "file_ids d k = load_index (map_of d k)"

definition file_indexed :: "workflow_files \<Rightarrow> (string \<Rightarrow> workflow option) \<Rightarrow> bool" where
  "file_indexed f m \<longleftrightarrow> indexes (file_ids (wf_teams f)) (file_ids (wf_responders f)) (load_index (wf_pending f)) (load_index (wf_terminal f)) m"

definition readable :: "workflow_reader \<Rightarrow> workflow_files \<Rightarrow> bool" where
  "readable rd f \<longleftrightarrow> (\<forall>i d. map_of (wf_workflows f) i = Some d \<longrightarrow> (\<exists>w. rd d = Inr w \<and> wk_id w = i \<and> plain_id i))"

definition file_good :: "workflow_reader \<Rightarrow> workflow_files \<Rightarrow> bool" where
  "file_good rd f \<longleftrightarrow> readable rd f \<and> distinct (map fst (wf_workflows f)) \<and> file_indexed f (file_records rd f)"

definition workflow_codec :: "workflow_reader \<Rightarrow> (workflow \<Rightarrow> (string, pyval) dict) \<Rightarrow> (workflow \<Rightarrow> bool) \<Rightarrow> bool" where
  "workflow_codec rd wr writable \<longleftrightarrow> (\<forall>w. writable w \<longrightarrow> rd (wr w) = Inr w \<and> plain_id (wk_id w))"

text \<open>An index is read back as it was written, if its ids have no blanks around them.\<close>

lemma index_back:
  assumes "finite ids" "\<And>i. i \<in> ids \<Longrightarrow> plain_id i"
  shows "load_index (Some (write_index ids)) = ids"
proof -
  have "stripped_items (map PStr xs) = xs" if "list_all plain_id xs" for xs
    using that by (induction xs) (simp_all add: stripped_items_def plain_id_def)
  moreover have "list_all plain_id (sorted_list_of_set ids)" using assms by (simp add: list_all_iff)
  ultimately show ?thesis using assms(1) by (simp add: load_index_def write_index_def py_get_def)
qed

lemma file_load_ok: "readable rd f \<Longrightarrow> file_load_workflow rd i f = Inr (file_records rd f i)"
  by (cases "map_of (wf_workflows f) i") (force simp: readable_def file_load_workflow_def file_records_def opt_result_def)+

lemma file_keyed: "readable rd f \<Longrightarrow> keyed_records (file_records rd f)"
  unfolding keyed_records_def readable_def
proof (intro conjI allI impI)
  show "finite (dom (file_records rd f))"
    by (rule finite_subset [OF _ finite_dom_map_of [of "wf_workflows f"]]) (auto simp: file_records_def split: option.splits)
qed (force simp: file_records_def split: option.splits sum.splits)

definition plain_records :: "(string \<Rightarrow> workflow option) \<Rightarrow> bool" where
  "plain_records m \<longleftrightarrow> (\<forall>i \<in> dom m. plain_id i)"

lemma file_records_plain: "readable rd f \<Longrightarrow> plain_records (file_records rd f)"
  by (force simp: readable_def plain_records_def file_records_def split: option.splits)

text \<open>The ids an index holds are plain and finitely many.\<close>

definition plain_ids :: "string set \<Rightarrow> bool" where
  "plain_ids ids \<longleftrightarrow> finite ids \<and> (\<forall>i \<in> ids. plain_id i)"

lemma plain_ids_back: "plain_ids ids \<Longrightarrow> load_index (Some (write_index ids)) = ids"
  by (simp add: index_back plain_ids_def)

lemma plain_ids_change [simp]: "plain_ids ids \<Longrightarrow> plain_id i \<Longrightarrow> plain_ids (insert i ids)" "plain_ids ids \<Longrightarrow> plain_ids (ids - {i})"
  by (simp_all add: plain_ids_def)

lemma indexed_plain:
  assumes "indexes T R P E m" "keyed_records m" "plain_records m"
  shows "plain_ids (T k)" "plain_ids (R k)" "plain_ids P" "plain_ids E"
  using assms finite_ids [OF assms(2)] by (auto simp: indexes_def plain_ids_def ids_where_def plain_records_def)

lemma file_ids_add:
  "plain_ids (file_ids d k) \<Longrightarrow> plain_id i \<Longrightarrow> file_ids (file_add_id k i d) = with_id True k i (file_ids d)"
  by (auto simp: file_ids_def file_add_id_def with_id_def map_of_update fun_eq_iff plain_ids_back)

lemma file_ids_remove: "plain_ids (file_ids d k) \<Longrightarrow> file_ids (file_remove_id k i d) = without_id True k i (file_ids d)"
  by (auto simp: file_ids_def file_remove_id_def without_id_def map_of_update fun_eq_iff plain_ids_back)

lemma file_index_indexed:
  assumes x: "file_indexed f m" and k: "keyed_records m" and p: "plain_records m"
    and new: "m (wk_id w) = None" "plain_id (wk_id w)"
  shows "file_indexed (file_index w f) (m(wk_id w \<mapsto> w))"
proof -
  note plain = indexed_plain [OF x [unfolded file_indexed_def] k p]
  have r: "file_ids (wf_responders (file_index w f)) =
      with_id (has_responder w) (the (wk_responder w)) (wk_id w) (file_ids (wf_responders f))"
    using plain new by (simp add: file_index_def file_ids_add split: option.split) (simp add: with_id_def)
  have t: "file_ids (wf_teams (file_index w f)) = with_id True (wk_team w) (wk_id w) (file_ids (wf_teams f))"
    "load_index (wf_pending (file_index w f)) =
      (if workflow_terminal w then load_index (wf_pending f) else insert (wk_id w) (load_index (wf_pending f)))"
    "load_index (wf_terminal (file_index w f)) =
      (if workflow_terminal w then insert (wk_id w) (load_index (wf_terminal f)) else load_index (wf_terminal f))"
    using plain new(2) by (simp_all add: file_index_def file_ids_add plain_ids_back)
  show ?thesis
    using indexes_add [OF x [unfolded file_indexed_def] new(1)] unfolding file_indexed_def r t .
qed

lemma file_unindex_indexed:
  assumes x: "file_indexed f m" and k: "keyed_records m" and p: "plain_records m" and w: "m i = Some w"
  shows "file_indexed (file_unindex w f) (m(i := None))"
proof -
  note plain = indexed_plain [OF x [unfolded file_indexed_def] k p]
  have i: "wk_id w = i" using k w by (simp add: keyed_records_def)
  have r: "file_ids (wf_responders (file_unindex w f)) =
      without_id (has_responder w) (the (wk_responder w)) i (file_ids (wf_responders f))"
    using plain i by (simp add: file_unindex_def file_ids_remove split: option.split) (simp add: without_id_def)
  have "i \<notin> ids_where m Q" if "\<not> Q w" for Q using that w by (simp add: ids_where_def)
  then have o: "workflow_terminal w \<Longrightarrow> load_index (wf_pending f) - {i} = load_index (wf_pending f)"
    "\<not> workflow_terminal w \<Longrightarrow> load_index (wf_terminal f) - {i} = load_index (wf_terminal f)"
    using x by (auto simp: file_indexed_def indexes_def)
  have "load_index (wf_pending (file_unindex w f)) = load_index (wf_pending f) - {i}"
    "load_index (wf_terminal (file_unindex w f)) = load_index (wf_terminal f) - {i}"
    using plain o i by (auto simp: file_unindex_def plain_ids_back)
  then show ?thesis
    using indexes_drop [OF x [unfolded file_indexed_def] w i] plain i r
    by (simp add: file_indexed_def) (simp add: file_unindex_def file_ids_remove)
qed

lemma file_update_simps [simp]:
  "wf_workflows (file_update_indices a b f) = wf_workflows f"
  "file_indexed (f\<lparr>wf_workflows := d\<rparr>) m = file_indexed f m"
  "file_records rd (file_update_indices a b f) = file_records rd f"
  "readable rd (file_update_indices a b f) = readable rd f"
proof -
  show w: "wf_workflows (file_update_indices a b f) = wf_workflows f"
  proof -
    have "wf_workflows (file_index w g) = wf_workflows g" "wf_workflows (file_unindex w g) = wf_workflows g" for w g
      by (simp_all add: file_index_def file_unindex_def)
    then show ?thesis by (simp add: file_update_indices_def split: option.split)
  qed
  show "file_records rd (file_update_indices a b f) = file_records rd f"
    "readable rd (file_update_indices a b f) = readable rd f" by (auto simp: file_records_def readable_def w fun_eq_iff)
qed (simp add: file_indexed_def)

lemma file_written:
  assumes "readable rd f" "rd (wr w) = Inr w" "plain_id (wk_id w)"
  shows "file_records rd (f\<lparr>wf_workflows := AList.update (wk_id w) (wr w) (wf_workflows f)\<rparr>) = (file_records rd f)(wk_id w \<mapsto> w)"
    "readable rd (f\<lparr>wf_workflows := AList.update (wk_id w) (wr w) (wf_workflows f)\<rparr>)"
  using assms by (auto simp: file_records_def readable_def map_of_update fun_eq_iff)

lemma file_dropped:
  assumes "readable rd f"
  shows "file_records rd (f\<lparr>wf_workflows := AList.delete i (wf_workflows f)\<rparr>) = (file_records rd f)(i := None)"
    "readable rd (f\<lparr>wf_workflows := AList.delete i (wf_workflows f)\<rparr>)"
  using assms by (auto simp: file_records_def readable_def map_of_delete fun_eq_iff)

lemma file_saved:
  assumes g: "file_good rd f" and w: "rd (wr w) = Inr w" "plain_id (wk_id w)"
  shows "\<exists>f'. file_save_workflow rd wr w f = Inr f' \<and> file_records rd f' = (file_records rd f)(wk_id w \<mapsto> w) \<and> file_good rd f'"
    and "file_records rd f (wk_id w) = None \<Longrightarrow>
      \<exists>f'. file_create_workflow wr w f = Inr f' \<and> file_save_workflow rd wr w f = Inr f'"
proof -
  let ?m = "file_records rd f" and ?f = "f\<lparr>wf_workflows := AList.update (wk_id w) (wr w) (wf_workflows f)\<rparr>"
  have r: "readable rd f" and x: "file_indexed f ?m" and d: "distinct (map fst (wf_workflows f))" using g by (simp_all add: file_good_def)
  note k = file_keyed [OF r] and p = file_records_plain [OF r]
  have x': "file_indexed ?f ?m" using x by simp
  define f' where "f' = file_update_indices (Some w) (?m (wk_id w)) ?f"
  have "file_indexed f' (?m(wk_id w \<mapsto> w))"
  proof (cases "?m (wk_id w)")
    case None
    then show ?thesis using file_index_indexed [OF x' k p None w(2)] by (simp add: f'_def file_update_indices_def)
  next
    case (Some v)
    have "plain_records (?m(wk_id w := None))" using p by (simp add: plain_records_def)
    from file_index_indexed [OF file_unindex_indexed [OF x' k p Some] keyed_update(2) [OF k] this _ w(2)]
    show ?thesis using Some by (simp add: f'_def file_update_indices_def)
  qed
  then have "file_good rd f'"
    using file_written [OF r, of wr w] w d by (simp add: file_good_def f'_def distinct_update)
  moreover have "file_records rd f' = ?m(wk_id w \<mapsto> w)" using file_written [OF r, of wr w] w by (simp add: f'_def)
  moreover have "file_save_workflow rd wr w f = Inr f'" by (simp add: file_save_workflow_def file_load_ok [OF r] f'_def)
  ultimately show "\<exists>f'. file_save_workflow rd wr w f = Inr f' \<and> file_records rd f' = ?m(wk_id w \<mapsto> w) \<and> file_good rd f'" by blast
  assume n: "?m (wk_id w) = None"
  then have "map_of (wf_workflows f) (wk_id w) = None"
    using r by (force simp: file_records_def readable_def split: option.splits)
  then show "\<exists>f'. file_create_workflow wr w f = Inr f' \<and> file_save_workflow rd wr w f = Inr f'"
    using n by (simp add: file_create_workflow_def file_save_workflow_def file_load_ok [OF r])
qed

lemma file_deleted:
  assumes g: "file_good rd f"
  shows "\<exists>f'. file_delete_workflow rd i f = Inr f' \<and> file_records rd f' = (file_records rd f)(i := None) \<and> file_good rd f'"
proof -
  let ?m = "file_records rd f" and ?f = "f\<lparr>wf_workflows := AList.delete i (wf_workflows f)\<rparr>"
  have r: "readable rd f" and x: "file_indexed f ?m" and d: "distinct (map fst (wf_workflows f))" using g by (simp_all add: file_good_def)
  show ?thesis
  proof (cases "?m i")
    case None
    then have "?m(i := None) = ?m" by (simp add: fun_upd_idem)
    then show ?thesis using None g by (simp add: file_delete_workflow_def file_load_ok [OF r])
  next
    case (Some p)
    have "file_indexed ?f ?m" using x by simp
    from file_unindex_indexed [OF this file_keyed [OF r] file_records_plain [OF r] Some]
    have "file_indexed (file_update_indices None (Some p) ?f) (?m(i := None))" by (simp add: file_update_indices_def)
    then show ?thesis
      using Some d file_dropped [OF r, of i] by (simp add: file_delete_workflow_def file_load_ok [OF r] file_good_def distinct_delete)
  qed
qed

lemma file_each:
  assumes "readable rd f" "list_all (\<lambda>i. file_records rd f i \<noteq> None) is"
  shows "file_load_each rd f is = Inr (map (\<lambda>i. the (file_records rd f i)) is)"
  using assms(2) by (induction "is") (auto simp: file_load_ok [OF assms(1)])

lemma file_from_index:
  assumes "readable rd f"
  shows "file_records_from_ids rd (ids_where (file_records rd f) P) f =
    Inr (sort_records (indexed_records (file_records rd f) (ids_where (file_records rd f) P)))"
proof -
  have "list_all (\<lambda>i. file_records rd f i \<noteq> None) (sorted_list_of_set (ids_where (file_records rd f) P))"
    using finite_ids [OF file_keyed [OF assms]] by (auto simp: list_all_iff ids_where_def)
  from file_each [OF assms this] show ?thesis by (simp add: file_records_from_ids_def indexed_records_def)
qed

lemma file_listed:
  assumes g: "file_good rd f"
  shows "fst (file_workflow_step rd wr (Do_List_Workflows q) f) = Answer_Workflows (listing q (file_records rd f))"
proof -
  let ?m = "file_records rd f"
  have r: "readable rd f" and d: "distinct (map fst (wf_workflows f))" using g by (simp_all add: file_good_def)
  have i: "\<And>t. load_index (map_of (wf_teams f) t) = ids_where ?m (\<lambda>w. wk_team w = t)"
    "\<And>t. load_index (map_of (wf_responders f) t) = ids_where ?m (\<lambda>w. t \<noteq> [] \<and> wk_responder w = Some t)"
    "load_index (wf_pending f) = ids_where ?m (\<lambda>w. \<not> workflow_terminal w)" "load_index (wf_terminal f) = ids_where ?m workflow_terminal"
    using g by (simp_all add: file_good_def file_indexed_def indexes_def file_ids_def fun_eq_iff)
  note k = file_keyed [OF r] and at = file_from_index [OF r]
  show ?thesis
  proof (cases q)
    case Q_All
    let ?is = "map (\<lambda>n. take (length n - 5) n) (sort (map (\<lambda>kv. fst kv @ ''.json'') (wf_workflows f)))"
    have m: "mset ?is = mset (map fst (wf_workflows f))"
      by (simp add: image_mset.compositionality comp_def)
    have dom: "dom ?m = set (map fst (wf_workflows f))"
    proof -
      have "?m i \<noteq> None \<longleftrightarrow> map_of (wf_workflows f) i \<noteq> None" for i using r by (force simp: file_records_def readable_def split: option.split)
      then have "dom ?m = dom (map_of (wf_workflows f))" by (simp add: dom_def)
      then show ?thesis by (simp add: dom_map_of_conv_image_fst)
    qed
    have ids: "distinct ?is" "set ?is = dom ?m"
      using d m dom mset_eq_setD [OF m] mset_eq_imp_distinct_iff [OF m] by simp_all
    obtain js where js: "js = ?is" by simp
    note ids = ids [folded js]
    have "list_all (\<lambda>i. ?m i \<noteq> None) js" unfolding list_all_iff ids(2) by blast
    from file_each [OF r this]
    have "file_list_all_workflows rd f = Inr (sort_records (map (\<lambda>i. the (?m i)) js))"
      unfolding js by (simp add: file_list_all_workflows_def)
    moreover have "sort_records (map (\<lambda>i. the (?m i)) js) = listing Q_All ?m"
    proof (rule listing_unique [OF k])
      have "inj_on (\<lambda>i. the (?m i)) (dom ?m)"
      proof (rule inj_onI)
        fix i j assume "i \<in> dom ?m" "j \<in> dom ?m" "the (?m i) = the (?m j)"
        then show "i = j" using k unfolding keyed_records_def by (metis domD option.sel)
      qed
      then show "distinct (map (\<lambda>i. the (?m i)) js)" using ids by (simp add: distinct_map)
      show "set (map (\<lambda>i. the (?m i)) js) = {w \<in> ran ?m. selects Q_All w}"
        unfolding set_map ids(2) by (force simp: ran_def)
    qed
    ultimately show ?thesis using Q_All by simp
  next
    case Q_Pending
    then show ?thesis
      using indexed_listing [OF k, of Q_Pending "\<lambda>w. \<not> workflow_terminal w" None]
      by (simp add: file_list_pending_def i at filter_pending_None pending_matches_def)
  next
    case Q_Terminal
    then show ?thesis
      using indexed_listing [OF k, of Q_Terminal workflow_terminal None]
      by (simp add: file_list_terminal_def i at filter_pending_None pending_matches_def)
  next
    case (Q_Team t p)
    then show ?thesis
      using indexed_listing [OF k, of "Q_Team t p" "\<lambda>w. wk_team w = t" p] by (simp add: file_list_for_team_def i at)
  next
    case (Q_Responder t p)
    then show ?thesis
      using indexed_listing [OF k, of "Q_Responder t p" "\<lambda>w. t \<noteq> [] \<and> wk_responder w = Some t" p]
      by (simp add: file_list_for_responder_def i at)
  qed
qed

lemma files_protocol:
  assumes c: "workflow_codec rd wr writable"
  shows "workflow_protocol (file_workflow_step rd wr) (file_records rd) (file_good rd) writable"
proof
  fix x f assume g: "file_good rd f" and x: "pred_option writable (op_record x)"
  have r: "readable rd f" using g by (simp add: file_good_def)
  have w: "rd (wr w) = Inr w" "plain_id (wk_id w)" if "writable w" for w using c that by (simp_all add: workflow_codec_def)
  have "fst (file_workflow_step rd wr x f) = fst (scan_step x (file_records rd f)) \<and>
    file_records rd (snd (file_workflow_step rd wr x f)) = snd (scan_step x (file_records rd f)) \<and>
    file_good rd (snd (file_workflow_step rd wr x f))"
  proof (cases x)
    case (Do_Create_Workflow v)
    then have v: "writable v" using x by simp
    show ?thesis
    proof (cases "file_records rd f (wk_id v)")
      case None
      then show ?thesis using Do_Create_Workflow file_saved [where wr = wr and w = v, OF g w [OF v]] by auto
    next
      case (Some p)
      then have "map_of (wf_workflows f) (wk_id v) \<noteq> None" by (auto simp: file_records_def split: option.splits)
      then show ?thesis using Do_Create_Workflow Some g by (simp add: file_create_workflow_def)
    qed
  next
    case (Do_Save_Workflow v)
    then show ?thesis using x file_saved(1) [where wr = wr and w = v, OF g] w [of v] by auto
  next
    case (Do_Delete_Workflow i)
    then show ?thesis using file_deleted [OF g, of i] by auto
  next
    case (Do_List_Workflows q)
    then show ?thesis using file_listed [OF g, of wr q] g by (auto split: sum.splits)
  qed (use g r in \<open>simp add: file_load_ok\<close>)
  then show "fst (file_workflow_step rd wr x f) = fst (scan_step x (file_records rd f))"
    "file_records rd (snd (file_workflow_step rd wr x f)) = snd (scan_step x (file_records rd f))"
    "file_good rd (snd (file_workflow_step rd wr x f))" by blast+
qed

lemma file_good_new: "file_good rd new_workflow_files" "file_records rd new_workflow_files = Map.empty"
proof -
  show m: "file_records rd new_workflow_files = Map.empty" by (auto simp: file_records_def new_workflow_files_def)
  show "file_good rd new_workflow_files"
    by (simp add: file_good_def m file_indexed_def indexes_def ids_where_def)
      (simp add: new_workflow_files_def readable_def file_ids_def load_index_def fun_eq_iff)
qed


definition sample_workflow :: "string \<Rightarrow> workflow_status \<Rightarrow> workflow" where
  "sample_workflow i st =
     \<lparr>wk_id = i, wk_team = ''t1'', wk_kind = WK_Permission, wk_requester = ''m1'', wk_requester_name = Some ''ada'',
      wk_responder = Some ''l1'', wk_responder_name = None, wk_leader_session = Some ''s1'', wk_status = st,
      wk_request = [(''permission_name'', PStr ''edit'')], wk_response = None,
      wk_history = [\<lparr>wt_id = ''x1'', wt_action = ''approve'', wt_actor_kind = WA_Leader, wt_actor = Some ''l1'', wt_payload = [], wt_at = 4\<rparr>],
      wk_messages = [''g1''], wk_created_at = 3, wk_updated_at = 4, wk_deadline_at = Some 9, wk_terminal_at = None,
      wk_metadata = [], wk_schema = 1\<rparr>"

lemma sample_normal: "normal_workflow (sample_workflow ''w1'' st)"
  by (simp add: normal_workflow_def sample_workflow_def plain_id_def normal_transition_def plain_text_def strip_def is_space_def)


definition sample_workflow_ops :: "workflow_op list" where
  "sample_workflow_ops = [Do_Create_Workflow (sample_workflow ''w1'' WS_Waiting_Host), Do_List_Workflows Q_Pending,
     Do_Save_Workflow (sample_workflow ''w1'' WS_Completed), Do_List_Workflows Q_Pending, Do_List_Workflows (Q_Team ''t1'' (Some False))]"


end
