(* ===== verification/Team_Workflow_Props.thy ===== *)
theory Team_Workflow_Props
  imports Team_Workflow_Inv Team_Workflow_Files
begin

text \<open>
  What the workflow service guarantees in every reachable state, what a response needs, what a reader sees, and the
  runs in which a response is lost and a waiter is left behind.
\<close>

subsection \<open>Histories\<close>

lemma move_into:
  "workflow_move WK_Permission s t = Some WS_Completed \<Longrightarrow>
     s = WS_Completed \<or> s = WS_Waiting_Host \<and> wt_action t = ''host_allow'' \<and> wt_actor_kind t = WA_Host"
  "workflow_move WK_Permission s t = Some WS_Waiting_Host \<Longrightarrow>
     s = WS_Waiting_Host \<or> s = WS_Pending \<and> wt_action t = ''approve'' \<and> wt_actor_kind t \<in> {WA_Leader, WA_Host}"
  by (auto simp: workflow_move.simps terminal_for_def Let_def split: if_splits)

lemma replay_append: "replay k s (xs @ ys) = (case replay k s xs of None \<Rightarrow> None | Some s' \<Rightarrow> replay k s' ys)"
  by (induction xs arbitrary: s) (auto split: option.split)

lemma replay_into:
  assumes "replay k s h = Some s'" "s \<noteq> s'"
  shows "\<exists>xs t ys s0. h = xs @ t # ys \<and> replay k s xs = Some s0 \<and> s0 \<noteq> s' \<and> workflow_move k s0 t = Some s'"
  using assms
proof (induction h rule: rev_induct)
  case (snoc t h)
  obtain s1 where s1: "replay k s h = Some s1" "workflow_move k s1 t = Some s'"
    using snoc.prems(1) by (auto simp: replay_append split: option.splits)
  show ?case
  proof (cases "s1 = s'")
    case True
    then obtain xs u ys s0 where "h = xs @ u # ys" "replay k s xs = Some s0" "s0 \<noteq> s'" "workflow_move k s0 u = Some s'"
      using snoc.IH s1(1) snoc.prems(2) by blast
    then show ?thesis by (intro exI [of _ xs] exI [of _ u] exI [of _ "ys @ [t]"] exI [of _ s0]) simp
  next
    case False
    then show ?thesis using s1 by blast
  qed
qed simp

text \<open>C18: In every reachable state, however callers, deadlines, the host and the bus interleave, the status of a stored workflow
  is what its own history leads to, move by move, and it has an end time exactly if it has ended.\<close>

theorem workflow_history_explains:
  assumes "(workflow_step isof)\<^sup>*\<^sup>* (new_workflow_world s bus) y" "load_workflow i (ww_store y) = Some w"
  shows "replay (wk_kind w) WS_Pending (wk_history w) = Some (wk_status w) \<and> (workflow_terminal w \<longleftrightarrow> wk_terminal_at w \<noteq> None)"
  using world_ok_load [OF workflows_reachable [OF assms(1)] assms(2)] by (simp add: explained_def)

text \<open>C19: A permission is granted only after the leader or the host has approved it and the host has allowed it afterwards:
  both are in its history, in this order.\<close>

theorem permission_needs_both:
  assumes "(workflow_step isof)\<^sup>*\<^sup>* (new_workflow_world s bus) y" "load_workflow i (ww_store y) = Some w"
    and "wk_kind w = WK_Permission" "wk_status w = WS_Completed"
  shows "\<exists>xs t ys u zs. wk_history w = xs @ t # ys @ u # zs \<and> wt_action t = ''approve'' \<and> wt_actor_kind t \<in> {WA_Leader, WA_Host} \<and>
    wt_action u = ''host_allow'' \<and> wt_actor_kind u = WA_Host"
proof -
  have "explained w" by (rule world_ok_load [OF workflows_reachable [OF assms(1)] assms(2)])
  then have "replay WK_Permission WS_Pending (wk_history w) = Some WS_Completed" using assms(3,4) by (simp add: explained_def)
  from replay_into [OF this] obtain xs u zs s0 where u: "wk_history w = xs @ u # zs" "replay WK_Permission WS_Pending xs = Some s0"
    "s0 \<noteq> WS_Completed" "workflow_move WK_Permission s0 u = Some WS_Completed" by blast
  have m: "s0 = WS_Waiting_Host" "wt_action u = ''host_allow''" "wt_actor_kind u = WA_Host" using move_into(1) [OF u(4)] u(3) by auto
  from replay_into [of WK_Permission WS_Pending xs WS_Waiting_Host] u(2) m(1)
  obtain ps t qs s1 where t: "xs = ps @ t # qs" "s1 \<noteq> WS_Waiting_Host" "workflow_move WK_Permission s1 t = Some WS_Waiting_Host" by auto
  have "wt_action t = ''approve''" "wt_actor_kind t \<in> {WA_Leader, WA_Host}" using move_into(2) [OF t(3)] t(2) by auto
  then show ?thesis
    using u(1) t(1) m by (intro exI [of _ ps] exI [of _ t] exI [of _ qs] exI [of _ u] exI [of _ zs]) simp
qed

subsection \<open>Responding\<close>

definition may_respond :: "workflow \<Rightarrow> team \<Rightarrow> team_member \<Rightarrow> bool" where
  "may_respond w t m \<longleftrightarrow> tm_id t = wk_team w \<and>
     (ter_role m = TR_Leader \<or> wk_kind w = WK_Shutdown \<and> wk_responder w = Some (ter_id m))"

lemma authority_iff:
  assumes "ta_team a = Some t" "ta_member a = Some m"
  shows "validate_authority w (Some a) (workflow_actor_kind a) = None \<longleftrightarrow> may_respond w t m"
  using assms by (cases "wk_kind w") (auto simp: validate_authority_def workflow_actor_kind_def may_respond_def Let_def)

lemma respond_result:
  "(\<exists>w'. fst (respond isof tid now i action kind aid actor payload bypass y) = Inr w') \<longleftrightarrow>
     (\<exists>w. respond_check i (map lower_char (strip action)) kind actor bypass y = Inr w)"
  by (simp add: respond_def Let_def split: sum.split)


subsection \<open>Reading\<close>

definition shown_open :: "time \<Rightarrow> workflow \<Rightarrow> bool" where
  "shown_open now w \<longleftrightarrow> workflow_terminal w \<or> wk_deadline_at w = None \<or> now < the (wk_deadline_at w)"

lemma expired_terminal: "workflow_terminal (expired_record isof tid now w)"
  by (simp add: workflow_terminal_def expired_record_def terminal_for_def terminal_statuses_def)

lemma refreshed_shown: "shown_open now (fst (fst (refresh_record_deadline isof tid now w y)))"
  by (auto simp: refresh_record_deadline_def shown_open_def expired_terminal Let_def split: option.split)

lemma tracked_shown: "list_all (shown_open now) (fst (tracked_loop isof tids now ws y))"
  by (induction ws arbitrary: y) (simp_all add: case_prod_beta Let_def refreshed_shown)

text \<open>A reader never sees a workflow open after its deadline: what a listing returns has ended, or its deadline is yet to
  come; a listing of the pending ones returns only open ones.\<close>

theorem listings_not_expired:
  assumes "w \<in> set (fst (list_workflows isof tids now t r p y))"
  shows "(workflow_terminal w \<or> wk_deadline_at w = None \<or> now < the (wk_deadline_at w)) \<and> (p = Some True \<longrightarrow> \<not> workflow_terminal w)"
proof -
  obtain ws where w: "w \<in> set (filter_pending p (fst (tracked_loop isof tids now ws y)))"
    using assms by (auto simp: list_workflows_def tracked_records_def case_prod_beta Let_def)
  then have "w \<in> set (fst (tracked_loop isof tids now ws y))" using filter_pending_subset by blast
  then have "shown_open now w" using tracked_shown by (simp add: list_all_iff)
  moreover have "p = Some True \<longrightarrow> \<not> workflow_terminal w" using w by (auto simp: filter_pending_def)
  ultimately show ?thesis by (simp add: shown_open_def)
qed

subsection \<open>What has ended\<close>

definition ended_as :: "string \<Rightarrow> workflow_status \<Rightarrow> workflow_world \<Rightarrow> bool" where
  "ended_as i st y \<longleftrightarrow> st \<in> set terminal_statuses \<and> (\<exists>w. load_workflow i (ww_store y) = Some w \<and> wk_status w = st)"

definition harmless :: "string \<Rightarrow> workflow_status \<Rightarrow> workflow \<Rightarrow> bool" where
  "harmless i st w \<longleftrightarrow> (wk_id w = i \<longrightarrow> wk_status w = st)"

fun ending_harmless :: "string \<Rightarrow> workflow_status \<Rightarrow> ending \<Rightarrow> bool" where
  "ending_harmless i st (End_Recover ws) = list_all (harmless i st) ws"
| "ending_harmless i st e = True"

text \<open>No flight carries an older version of the workflow.\<close>

definition no_older :: "string \<Rightarrow> workflow_status \<Rightarrow> workflow_world \<Rightarrow> bool" where
  "no_older i st y \<longleftrightarrow> (\<forall>f \<in> set (ww_flights y). harmless i st (flight_record f) \<and> pred_option (ending_harmless i st) (flight_ending f))"

lemma ended_store [simp]: "ended_as i st y \<Longrightarrow> harmless i st w \<Longrightarrow> ended_as i st (store_record w y)"
  by (auto simp: ended_as_def harmless_def)

lemma ended_simps [simp]:
  "ended_as i st (add_flight f y) = ended_as i st y" "ended_as i st (drop_flight f y) = ended_as i st y"
  "ended_as i st (take_lock j y) = ended_as i st y" "ended_as i st (release_lock j y) = ended_as i st y"
  "ended_as i st (emit_workflow_event isof ty p w y) = ended_as i st y" "ended_as i st (resolve_waiters w y) = ended_as i st y"
  "ended_as i st (cancel_deadline j y) = ended_as i st y" "ended_as i st (schedule_deadline w y) = ended_as i st y"
  "ended_as i st (report_expiry isof e w y) = ended_as i st y"
  "ended_as i st (y\<lparr>ww_deadlines := d\<rparr>) = ended_as i st y" "ended_as i st (y\<lparr>ww_sent := m\<rparr>) = ended_as i st y"
  "ended_as i st (y\<lparr>ww_teams := s\<rparr>) = ended_as i st y" "ended_as i st (y\<lparr>ww_waiters := x\<rparr>) = ended_as i st y"
  by (simp_all add: ended_as_def report_expiry_def)

lemma ended_refresh: "ended_as i st y \<Longrightarrow> harmless i st w \<Longrightarrow> ended_as i st (snd (refresh_record_deadline isof tid now w y))"
  by (auto simp: refresh_record_deadline_def Let_def harmless_def ended_as_def workflow_terminal_def expired_record_def split: option.split)

lemma ended_tracked: "ended_as i st y \<Longrightarrow> list_all (harmless i st) ws \<Longrightarrow> ended_as i st (snd (tracked_loop isof tids now ws y))"
  by (induction ws arbitrary: y) (simp_all add: case_prod_beta Let_def ended_refresh)

lemma ended_recover: "ended_as i st y \<Longrightarrow> list_all (harmless i st) ws \<Longrightarrow> ended_as i st (recover_loop isof tids now ws y)"
proof (induction ws arbitrary: y)
  case (Cons w ws)
  then show ?case unfolding recover_loop_Cons by (simp add: Let_def ended_refresh)
qed simp

lemma ended_noted: "ended_as i st y \<Longrightarrow> harmless i st w \<Longrightarrow> ended_as i st (snd (note_transport tid now a e mid w y))"
  by (simp add: note_transport_def Let_def transport_record_def harmless_def split: option.split)

lemma ended_requests: "ended_as i st y \<Longrightarrow> ended_as i st (send_requests w rs y)"
  by (induction rs) (simp_all split: option.split)

lemma ended_flight: "ended_as i st y \<Longrightarrow> ending_harmless i st (af_ending a) \<Longrightarrow> ended_as i st (end_flight isof tids now a y)"
  by (cases "af_ending a") (simp_all add: end_flight_def Let_def ended_recover)

lemma ended_harmless:
  assumes "ended_as i st y" "world_ok y" "load_workflow j (ww_store y) = Some w"
  shows "harmless i st w" "\<not> workflow_terminal w \<Longrightarrow> wk_id w \<noteq> i"
proof -
  have "wk_id w = j" using assms(2,3) by (simp add: world_ok_def mem_good_def keyed_records_def mem_records_def)
  then show "harmless i st w" "\<not> workflow_terminal w \<Longrightarrow> wk_id w \<noteq> i"
    using assms(1,3) by (auto simp: ended_as_def harmless_def workflow_terminal_def)
qed

lemma ended_elsewhere: "wk_id w \<noteq> i \<Longrightarrow> harmless i st w"
  by (simp add: harmless_def)

lemma changed_ids [simp]:
  "wk_id (apply_action tid now a k ac p w) = wk_id w" "wk_id (expired_record isof tid now w) = wk_id w"
  "wk_id (host_decided tid now host oc w) = wk_id w" "wk_id (forced_closed tid now r ac w) = wk_id w"
  by (simp_all add: apply_action_def expired_record_def host_decided_def forced_closed_def Let_def)

lemma ended_respond:
  assumes y: "ended_as i st y" "world_ok y"
  shows "ended_as i st (snd (respond isof tid now j action kind aid actor payload bypass y))"
proof (cases "respond_check j (map lower_char (strip action)) kind actor bypass y")
  case (Inr w)
  then have "wk_id w \<noteq> i" using ended_harmless(2) [OF y, of j w] by (simp add: respond_check_ok)
  then show ?thesis using Inr y by (simp add: respond_def Let_def ended_elsewhere)
qed (simp add: respond_def y)

lemma ended_conclude: "ended_as i st y \<Longrightarrow> wk_id w \<noteq> i \<Longrightarrow> ended_as i st (conclude isof a k ac e w y)"
  by (simp add: conclude_def Let_def ended_elsewhere)

lemma ended_start:
  assumes "ended_as i st y"
  shows "ended_as i st (snd (start_workflow isof w rs y))"
proof (cases "create_workflow w (ww_store y)")
  case (Inr s)
  then have "load_workflow (wk_id w) (ww_store y) = None" and s: "ws_records s = AList.update (wk_id w) w (ws_records (ww_store y))"
    by (auto simp: create_workflow_def split: if_splits)
  then have "wk_id w \<noteq> i" using assms by (auto simp: ended_as_def)
  then have "ended_as i st (y\<lparr>ww_store := s\<rparr>)" using assms s by (simp add: ended_as_def load_workflow_def map_of_update)
  then show ?thesis using Inr by (simp add: start_workflow_def)
qed (simp add: start_workflow_def assms)

lemma listings_harmless:
  assumes y: "ended_as i st y" "world_ok y"
  shows "list_all (harmless i st) (list_pending (ww_store y))" "list_all (harmless i st) (list_terminal (ww_store y))"
    "list_all (harmless i st) (list_for_team t p (ww_store y))" "list_all (harmless i st) (list_for_responder r p (ww_store y))"
    "list_all (harmless i st) (list_all_workflows (ww_store y))"
proof -
  have a: "harmless i st w" if "w \<in> set (records_from_ids ids (ww_store y))" for ids w
    using that ended_harmless(1) [OF y] by (auto simp: records_from_ids_def List.map_filter_def)
  then show "list_all (harmless i st) (list_pending (ww_store y))" "list_all (harmless i st) (list_terminal (ww_store y))"
    "list_all (harmless i st) (list_for_team t p (ww_store y))" "list_all (harmless i st) (list_for_responder r p (ww_store y))"
    by (auto simp: list_all_iff list_pending_def list_terminal_def list_for_team_def list_for_responder_def dest!: subsetD [OF filter_pending_subset])
  have "harmless i st w" if "(j, w) \<in> set (ws_records (ww_store y))" for j w
    using that y(2) ended_harmless(1) [OF y, of j w] by (simp add: world_ok_def mem_good_def load_workflow_def)
  then show "list_all (harmless i st) (list_all_workflows (ww_store y))" by (auto simp: list_all_iff list_all_workflows_def)
qed

lemma ended_listed: "ended_as i st y \<Longrightarrow> world_ok y \<Longrightarrow> ended_as i st (snd (list_workflows isof tids now t r p y))"
  unfolding list_workflows_def tracked_records_def
  by (auto simp: case_prod_beta Let_def intro!: ended_tracked listings_harmless split: option.split bool.split)

lemma ended_get: "ended_as i st y \<Longrightarrow> world_ok y \<Longrightarrow> ended_as i st (snd (get_workflow isof tid now j y))"
  by (simp add: get_workflow_def case_prod_beta Let_def ended_refresh ended_harmless(1) split: option.split)

lemma ended_outcome:
  "ended_as i st y \<Longrightarrow> world_ok y \<Longrightarrow> ended_as i st (snd (record_permission_host_outcome isof tid now host j oc y))"
  using ended_harmless(2) [of i st y j]
  by (auto simp: record_permission_host_outcome_def rbind_Inr_iff ensure_Inr_iff required Let_def intro!: ended_conclude split: sum.split)

lemma ended_forced: "ended_as i st y \<Longrightarrow> world_ok y \<Longrightarrow> ended_as i st (snd (force_close_shutdown isof tid now j reason actor y))"
  using ended_harmless(2) [of i st y j]
  by (auto simp: force_close_shutdown_def rbind_Inr_iff ensure_Inr_iff required Let_def intro!: ended_conclude split: sum.split)

lemma ended_fires: "ended_as i st y \<Longrightarrow> world_ok y \<Longrightarrow> ended_as i st (deadline_fires isof tid now j y)"
  using ended_harmless(2) [of i st y j] by (auto simp: deadline_fires_def Let_def ended_elsewhere split: option.split)

lemma ended_step:
  assumes "workflow_step isof y z" "ended_as i st y" "world_ok y" "no_older i st y"
  shows "ended_as i st z"
proof -
  have f: "harmless i st (flight_record f) \<and> pred_option (ending_harmless i st) (flight_ending f)" if "f \<in> set (ww_flights y)" for f
    using assms(4) that by (simp add: no_older_def)
  note e = assms(2) and o = assms(3)
  from assms(1) show ?thesis
  proof cases
    case (member_responds j tid now sid ext action payload)
    have "ended_as i st (snd (respond isof tid now j action k aid a payload False (y\<lparr>ww_teams := s\<rparr>)))" for k aid a s
      using e o by (intro ended_respond) (simp_all add: world_ok_quiet(10))
    then show ?thesis using member_responds e by (simp add: respond_model_def case_prod_beta Let_def split: option.split)
  next
    case (host_hears_request w rs)
    then show ?thesis using e by (simp add: announced_def ended_requests)
  next
    case (bus_takes_request w rs tid now mid)
    then show ?thesis using e f [OF bus_takes_request(2)] by (simp add: request_sent_def case_prod_beta Let_def ended_requests ended_noted)
  next
    case (host_hears a tids now)
    then show ?thesis using e f [OF host_hears(2)] by (simp add: send_answer_def Let_def ended_flight split: option.split)
  next
    case (bus_takes_answer a tid tids now mid)
    then show ?thesis using e f [OF bus_takes_answer(2)] by (simp add: answer_sent_def ended_flight ended_noted)
  next
    case (waits future j)
    then show ?thesis using e by (simp add: wait_for_terminal_def split: sum.split)
  qed (use e o in \<open>simp_all add: create_permission_workflow_def create_shutdown_workflow_def ended_start respond_host_def
      acknowledge_shutdown_def complete_shutdown_def ended_respond ended_outcome ended_forced ended_fires ended_get ended_listed
      recover_pending_def ended_recover listings_harmless\<close>)
qed

text \<open>C28: A workflow that has ended keeps its status at every step, as long as no message on its way carries an older version of it.\<close>

theorem ended_workflow_stays:
  assumes "(workflow_step isof)\<^sup>*\<^sup>* (new_workflow_world s bus) y" "workflow_step isof y z"
    and "load_workflow i (ww_store y) = Some w" "workflow_terminal w" "no_older i (wk_status w) y"
  shows "\<exists>w'. load_workflow i (ww_store z) = Some w' \<and> wk_status w' = wk_status w"
proof -
  have "ended_as i (wk_status w) y" using assms(3,4) by (simp add: ended_as_def workflow_terminal_def)
  from ended_step [OF assms(2) this workflows_reachable [OF assms(1)] assms(5)]
  show ?thesis by (simp add: ended_as_def)
qed

subsection \<open>Waiters\<close>

lemma refresh_waiters [simp]:
  "ww_waiters (snd (refresh_record_deadline isof tid now w y)) = ww_waiters y"
  "ww_resolved (snd (refresh_record_deadline isof tid now w y)) = ww_resolved y"
  by (simp_all add: refresh_record_deadline_def Let_def store_record_def cancel_deadline_def split: option.split)

lemma quiet_waiters [simp]:
  "ww_waiters (schedule_deadline w y) = ww_waiters y" "ww_resolved (schedule_deadline w y) = ww_resolved y"
  "ww_waiters (cancel_deadline i y) = ww_waiters y" "ww_resolved (cancel_deadline i y) = ww_resolved y"
  "ww_waiters (release_lock i y) = ww_waiters y" "ww_resolved (release_lock i y) = ww_resolved y"
  "ww_waiters (report_expiry isof e w y) = ww_waiters y" "ww_resolved (report_expiry isof e w y) = ww_resolved y"
  "ww_waiters (drop_flight f y) = ww_waiters y" "ww_resolved (drop_flight f y) = ww_resolved y"
  "ww_waiters (snd (note_transport tid now a ex mid w y)) = ww_waiters y"
  "ww_resolved (snd (note_transport tid now a ex mid w y)) = ww_resolved y"
  by (simp_all add: schedule_deadline_def cancel_deadline_def release_lock_def report_expiry_def add_flight_def emit_workflow_event_def
      drop_flight_def note_transport_def store_record_def Let_def split: option.split)

lemma recover_waiters [simp]:
  "ww_waiters (recover_loop isof tids now ws y) = ww_waiters y" "ww_resolved (recover_loop isof tids now ws y) = ww_resolved y"
  by (induction ws arbitrary: y) (simp_all add: recover_loop_Cons Let_def del: recover_loop.simps(2))

text \<open>When the bus has taken the answer that ends a workflow, every caller that waited for the end has the record and none
  is left waiting.\<close>

theorem end_wakes_waiters:
  assumes "af_ending a \<noteq> End_Respond \<or> workflow_terminal (af_record a)"
    and "z = answer_sent isof tid tids now mid a y"
  shows "list_all (\<lambda>(f, i). i \<noteq> wk_id (af_record a)) (ww_waiters z) \<and>
    ww_resolved z = ww_resolved y @ map (\<lambda>x. (fst x, af_record a)) (filter (\<lambda>x. snd x = wk_id (af_record a)) (ww_waiters y))"
  using assms
  by (cases "af_ending a") (auto simp: answer_sent_def end_flight_def resolve_waiters_def Let_def list_all_iff)

subsection \<open>Runs\<close>

definition demo_workflow_world :: workflow_world where
  "demo_workflow_world = new_workflow_world (tw_store (snd (create_team ''t1'' ''l1'' None ''s1'' [] 0 new_team_world))) True"

definition demo_wf_team :: team where
  "demo_wf_team = fresh_team ''t1'' ''l1'' ''s1'' None 0"

definition demo_asked :: workflow_world where
  "demo_asked = snd (create_permission_workflow plain_instant 9 None ''w1'' 1 demo_wf_team ''m1'' ''ada'' ''l1'' ''leader'' [] demo_workflow_world)"

definition demo_record :: workflow where
  "demo_record = fresh_workflow WK_Permission ''w1'' 1 10 demo_wf_team ''m1'' ''ada'' ''l1'' ''leader'' []"

text \<open>The leader approves while the request is still on its way, inside the bus's delivery; then the bus answers.\<close>

definition demo_requested :: workflow_world where
  "demo_requested = announced demo_record [None] demo_asked"

definition demo_approved :: workflow_world where
  "demo_approved = snd (respond_model plain_instant ''x1'' 2 ''s1'' [] ''w1'' ''approve'' [] demo_requested)"

definition demo_lost :: workflow_world where
  "demo_lost = request_sent ''x2'' 3 (Some ''g1'') demo_record [] demo_approved"

definition demo_waiting :: workflow_world where
  "demo_waiting = snd (wait_for_terminal 0 ''w1'' demo_asked)"

text \<open>The deadline's task reports the expiry, and a caller reads the workflow before the host has answered.\<close>

definition demo_expired :: workflow_world where
  "demo_expired = deadline_fires plain_instant ''x1'' 10 ''w1'' demo_waiting"

definition demo_left :: workflow_world where
  "demo_left = snd (get_workflow plain_instant ''x2'' 11 ''w1'' demo_expired)"

lemma demo_flights:
  "list_ex (\<lambda>f. f = Announced demo_record [None]) (ww_flights demo_asked)"
  "list_ex (\<lambda>f. f = Requesting demo_record []) (ww_flights demo_approved)"
  "''w1'' \<notin> ww_locked demo_requested" "''w1'' \<in> ww_deadlines demo_waiting" "''w1'' \<notin> ww_locked demo_waiting"
  by code_simp+

abbreviation wf_reached :: "workflow_world \<Rightarrow> bool" where
  "wf_reached y \<equiv> \<exists>s bus. (workflow_step plain_instant)\<^sup>*\<^sup>* (new_workflow_world s bus) y"

lemma wf_next: "wf_reached y \<Longrightarrow> workflow_step plain_instant y z \<Longrightarrow> wf_reached z"
  by (meson rtranclp.rtrancl_into_rtrancl)

lemma demo_asked_reached: "wf_reached demo_asked"
proof -
  have "wf_reached demo_workflow_world" unfolding demo_workflow_world_def by blast
  from wf_next [OF this] show ?thesis unfolding demo_asked_def by (meson asks_permission)
qed

lemma demo_approved_reached: "wf_reached demo_approved"
proof -
  have "workflow_step plain_instant demo_asked demo_requested"
    using demo_flights(1) host_hears_request unfolding demo_requested_def by (auto simp: list_ex_iff)
  from wf_next [OF demo_asked_reached this] have "wf_reached demo_requested" .
  from wf_next [OF this] show ?thesis
    unfolding demo_approved_def using member_responds [OF demo_flights(3)] by blast
qed

lemma demo_lost_step: "workflow_step plain_instant demo_approved demo_lost"
  using demo_flights(2) bus_takes_request unfolding demo_lost_def by (auto simp: list_ex_iff)

text \<open>A response that is taken while the request is being delivered is lost: the record that was sent is saved over it, with its
  status and its history.\<close>

lemma response_during_request_lost:
  "\<exists>y z. wf_reached y \<and> workflow_step plain_instant y z \<and>
     map_option wk_status (load_workflow ''w1'' (ww_store y)) = Some WS_Waiting_Host \<and>
     map_option wk_status (load_workflow ''w1'' (ww_store z)) = Some WS_Pending"
proof -
  have "map_option wk_status (load_workflow ''w1'' (ww_store demo_approved)) = Some WS_Waiting_Host"
    "map_option wk_status (load_workflow ''w1'' (ww_store demo_lost)) = Some WS_Pending" by code_simp+
  then show ?thesis using demo_approved_reached demo_lost_step by blast
qed

lemma demo_left_reached: "wf_reached demo_left"
proof -
  have "workflow_step plain_instant demo_asked demo_waiting" unfolding demo_waiting_def by (rule waits)
  from wf_next [OF demo_asked_reached this] have "wf_reached demo_waiting" .
  from wf_next [OF this] have "wf_reached demo_expired"
    unfolding demo_expired_def using fires [OF demo_flights(4,5)] by blast
  from wf_next [OF this] show ?thesis unfolding demo_left_def using reads by blast
qed

text \<open>A caller that waits for the end of a workflow is left behind when somebody reads the workflow while its expiry is reported:
  the read cancels the report, and nothing is left that would wake the caller.\<close>

lemma reader_leaves_waiter:
  "\<exists>y. wf_reached y \<and> ww_waiters y = [(0, ''w1'')] \<and> ww_deadlines y = {} \<and>
     list_all (\<lambda>f. flight_ending f = None) (ww_flights y) \<and>
     map_option wk_status (load_workflow ''w1'' (ww_store y)) = Some WS_Timed_Out"
proof -
  have "ww_waiters demo_left = [(0, ''w1'')]" "ww_deadlines demo_left = {}"
    "list_all (\<lambda>f. flight_ending f = None) (ww_flights demo_left)"
    "map_option wk_status (load_workflow ''w1'' (ww_store demo_left)) = Some WS_Timed_Out" by code_simp+
  then show ?thesis using demo_left_reached by blast
qed

subsection \<open>Instances\<close>

lemma demo_stored:
  "load_workflow ''w1'' (ww_store demo_approved) = Some (apply_action ''x1'' 2 ''approve'' WA_Leader (Some ''l1'') [] demo_record)"
  by code_simp

lemma workflow_history_explains_witness:
  "replay WK_Permission WS_Pending (wk_history (apply_action ''x1'' 2 ''approve'' WA_Leader (Some ''l1'') [] demo_record)) = Some WS_Waiting_Host"
proof -
  obtain s bus where "(workflow_step plain_instant)\<^sup>*\<^sup>* (new_workflow_world s bus) demo_approved" using demo_approved_reached by blast
  from workflow_history_explains [OF this demo_stored] show ?thesis
    by (simp add: apply_action_def demo_record_def fresh_workflow_def Let_def)
qed

definition demo_answer :: answer_flight where
  "demo_answer = \<lparr>af_record = apply_action ''x1'' 2 ''approve'' WA_Leader (Some ''l1'') [] demo_record, af_action = ''approve'',
     af_kind = WA_Leader, af_actor = Some ''l1'', af_payload = [], af_ending = End_Respond\<rparr>"

definition demo_answering :: workflow_world where
  "demo_answering = send_answer plain_instant (\<lambda>i. ''u'') 3 demo_answer demo_approved"

definition demo_answered :: workflow_world where
  "demo_answered = answer_sent plain_instant ''x2'' (\<lambda>i. ''u'') 3 None demo_answer demo_answering"

definition demo_granted :: workflow_world where
  "demo_granted = snd (record_permission_host_outcome plain_instant ''x3'' 4 (Some ''host'') ''w1''
     \<lparr>ho_allow = True, ho_behavior = ''allow'', ho_message = None, ho_source = None, ho_details = []\<rparr> demo_answered)"

lemma demo_answer_flights:
  "list_ex (\<lambda>f. f = Told demo_answer) (ww_flights demo_approved)" "list_ex (\<lambda>f. f = Answering demo_answer) (ww_flights demo_answering)"
  "''w1'' \<notin> ww_locked demo_answered"
  "map_option (\<lambda>w. (wk_kind w, wk_status w)) (load_workflow ''w1'' (ww_store demo_granted)) = Some (WK_Permission, WS_Completed)"
  by code_simp+

lemma demo_granted_reached: "wf_reached demo_granted"
proof -
  have "workflow_step plain_instant demo_approved demo_answering"
    using demo_answer_flights(1) host_hears unfolding demo_answering_def by (auto simp: list_ex_iff)
  from wf_next [OF demo_approved_reached this] have "wf_reached demo_answering" .
  moreover have "workflow_step plain_instant demo_answering demo_answered"
    using demo_answer_flights(2) bus_takes_answer unfolding demo_answered_def by (auto simp: list_ex_iff)
  ultimately have "wf_reached demo_answered" by (rule wf_next)
  from wf_next [OF this] show ?thesis unfolding demo_granted_def using host_decides [OF demo_answer_flights(3)] by blast
qed

lemma permission_needs_both_witness:
  "\<exists>w xs t ys u zs. load_workflow ''w1'' (ww_store demo_granted) = Some w \<and> wk_history w = xs @ t # ys @ u # zs \<and>
     wt_action t = ''approve'' \<and> wt_action u = ''host_allow''"
proof -
  obtain w where w: "load_workflow ''w1'' (ww_store demo_granted) = Some w" "wk_kind w = WK_Permission" "wk_status w = WS_Completed"
    using demo_answer_flights(4) by auto
  obtain s bus where "(workflow_step plain_instant)\<^sup>*\<^sup>* (new_workflow_world s bus) demo_granted" using demo_granted_reached by blast
  from permission_needs_both [OF this w] show ?thesis using w(1) by blast
qed

definition demo_leader_actor :: team_actor where
  "demo_leader_actor = \<lparr>ta_session = ''s1'', ta_team = Some demo_wf_team, ta_member = Some (fresh_leader ''t1'' ''l1'' ''s1'' 0)\<rparr>"

lemma demo_wf_resolved: "resolve_actor ''s1'' [] (ww_teams demo_requested) = (demo_leader_actor, ww_teams demo_requested)"
  "load_workflow ''w1'' (ww_store demo_requested) = Some demo_record"
  by code_simp+


lemma demo_listed: "list_workflows plain_instant (\<lambda>i. ''u'') 3 None None (Some True) demo_asked = ([demo_record], demo_asked)"
  by code_simp

lemma listings_not_expired_witness:
  "workflow_terminal demo_record \<or> wk_deadline_at demo_record = None \<or> 3 < the (wk_deadline_at demo_record)"
  using listings_not_expired [of demo_record plain_instant "\<lambda>i. ''u''" 3 None None "Some True" demo_asked] by (auto simp: demo_listed)

definition demo_silent :: workflow_world where
  "demo_silent = snd (create_permission_workflow plain_instant 9 None ''w1'' 1 demo_wf_team ''m1'' ''ada'' ''l1'' ''leader'' []
     (new_workflow_world new_team_store False))"

definition demo_ended :: workflow_world where
  "demo_ended = deadline_fires plain_instant ''x1'' 10 ''w1'' (announced demo_record [None] demo_silent)"

lemma demo_silent_facts:
  "list_ex (\<lambda>f. f = Announced demo_record [None]) (ww_flights demo_silent)"
  "''w1'' \<in> ww_deadlines (announced demo_record [None] demo_silent)" "''w1'' \<notin> ww_locked (announced demo_record [None] demo_silent)"
  "load_workflow ''w1'' (ww_store demo_ended) = Some (expired_record plain_instant ''x1'' 10 demo_record)"
  "ww_flights demo_ended = [Told (expiry_flight End_Worker (expired_record plain_instant ''x1'' 10 demo_record))]"
  by code_simp+

lemma demo_ended_reached: "wf_reached demo_ended"
proof -
  have "wf_reached (new_workflow_world new_team_store False)" by blast
  from wf_next [OF this] have "wf_reached demo_silent" unfolding demo_silent_def by (meson asks_permission)
  moreover have "workflow_step plain_instant demo_silent (announced demo_record [None] demo_silent)"
    using demo_silent_facts(1) host_hears_request by (auto simp: list_ex_iff)
  ultimately have "wf_reached (announced demo_record [None] demo_silent)" by (rule wf_next)
  from wf_next [OF this] show ?thesis unfolding demo_ended_def using fires [OF demo_silent_facts(2,3)] by blast
qed

lemma ended_workflow_stays_witness:
  "\<exists>w. load_workflow ''w1'' (ww_store (snd (get_workflow plain_instant ''x2'' 11 ''w1'' demo_ended))) = Some w \<and> wk_status w = WS_Timed_Out"
proof -
  let ?w = "expired_record plain_instant ''x1'' 10 demo_record"
  obtain s bus where r: "(workflow_step plain_instant)\<^sup>*\<^sup>* (new_workflow_world s bus) demo_ended" using demo_ended_reached by blast
  have "no_older ''w1'' (wk_status ?w) demo_ended"
    by (simp add: no_older_def demo_silent_facts(5) expiry_flight_def harmless_def)
  from ended_workflow_stays [OF r reads demo_silent_facts(4) expired_terminal this, of "''x2''" 11 "''w1''"]
  show ?thesis by (simp add: expired_record_def terminal_for_def demo_record_def fresh_workflow_def)
qed

lemma demo_waiters: "ww_waiters demo_waiting = [(0, ''w1'')]" "ww_resolved demo_waiting = []"
  by code_simp+

lemma end_wakes_waiters_witness:
  "ww_resolved (answer_sent plain_instant ''x2'' (\<lambda>i. ''u'') 3 None (demo_answer\<lparr>af_ending := End_Locked\<rparr>) demo_waiting) =
     [(0, af_record demo_answer)]"
  using end_wakes_waiters [of "demo_answer\<lparr>af_ending := End_Locked\<rparr>", OF _ refl, of plain_instant "''x2''" "\<lambda>i. ''u''" 3 None demo_waiting]
  by (simp add: demo_waiters demo_answer_def demo_record_def fresh_workflow_def)

end
