(* ===== verification/Team_Messages.thy ===== *)
theory Team_Messages
  imports Team_Workflow_Files
begin

text \<open>
  Messages of a team (\<open>team_message_bus.py\<close>): the envelope with its deliveries, its payload, and the store in memory
  and the one in files.  The locale states the contract of \<open>TeamMessageStore\<close>; both stores follow it, so they answer
  alike.
\<close>

subsection \<open>Envelopes\<close>

datatype message_kind = MK_Direct | MK_Broadcast | MK_Control

fun message_kind_value :: "message_kind \<Rightarrow> string" where
  "message_kind_value MK_Direct = ''direct''"
| "message_kind_value MK_Broadcast = ''broadcast''"
| "message_kind_value MK_Control = ''control''"

definition message_kinds :: "message_kind list" where
  "message_kinds = [MK_Direct, MK_Broadcast, MK_Control]"

record team_sender =
  tsd_member :: string
  tsd_role :: team_role
  tsd_name :: string

record team_delivery =
  tdl_id :: string
  tdl_recipient :: string
  tdl_role :: team_role
  tdl_name :: string
  tdl_route :: string
  tdl_queued :: bool
  tdl_created_at :: time
  tdl_delivered_at :: "time option"
  tdl_metadata :: "(string, pyval) dict"

record team_envelope =
  ten_id :: string
  ten_team :: string
  ten_sender :: team_sender
  ten_kind :: message_kind
  ten_public_to :: string
  ten_content :: string
  ten_deliveries :: "team_delivery list"
  ten_created_at :: time
  ten_correlation :: "string option"
  ten_metadata :: "(string, pyval) dict"
  ten_schema :: int

definition sender_from_member :: "team_member \<Rightarrow> team_sender" where
  "sender_from_member m = \<lparr>tsd_member = ter_id m, tsd_role = ter_role m, tsd_name = ter_name m\<rparr>"

definition delivery_pending :: "team_delivery \<Rightarrow> bool" where
  "delivery_pending d \<longleftrightarrow> tdl_delivered_at d = None"

definition mark_delivered :: "time \<Rightarrow> team_delivery \<Rightarrow> team_delivery" where
  "mark_delivered now d = d\<lparr>tdl_queued := False, tdl_delivered_at := Some now\<rparr>"

subsection \<open>Payloads\<close>

definition sender_to_dict :: "team_sender \<Rightarrow> (string, pyval) dict" where
  "sender_to_dict x =
     [(''member_id'', PStr (tsd_member x)), (''role'', PStr (team_role_value (tsd_role x))), (''name'', PStr (tsd_name x))]"

definition sender_from_dict :: "(string, pyval) dict \<Rightarrow> payload_error + team_sender" where
  "sender_from_dict d =
     rbind (enum_of team_role_value [TR_Leader, TR_Teammate] (str_or_default (py_get d ''role'') ''teammate'')) (\<lambda>role.
     Inr \<lparr>tsd_member = str_or_default (py_get d ''member_id'') [], tsd_role = role, tsd_name = str_or_default (py_get d ''name'') []\<rparr>)"

definition delivery_to_dict :: "(time \<Rightarrow> string) \<Rightarrow> team_delivery \<Rightarrow> (string, pyval) dict" where
  "delivery_to_dict isof d =
     [(''delivery_id'', PStr (tdl_id d)), (''recipient_member_id'', PStr (tdl_recipient d)),
      (''recipient_role'', PStr (team_role_value (tdl_role d))), (''recipient_name'', PStr (tdl_name d)),
      (''route'', PStr (tdl_route d)), (''queued'', PBool (tdl_queued d)),
      (''created_at'', PStr (utc_isoformat isof (tdl_created_at d))), (''delivered_at'', opt_time isof (tdl_delivered_at d)),
      (''metadata'', PDict (tdl_metadata d))]"

text \<open>\<open>bool(payload.get("queued", True))\<close>: only a missing key has the default.\<close>

definition delivery_from_dict :: "(string \<Rightarrow> time option) \<Rightarrow> time \<Rightarrow> (string, pyval) dict \<Rightarrow> payload_error + team_delivery" where
  "delivery_from_dict parsef now d =
     rbind (enum_of team_role_value [TR_Leader, TR_Teammate] (str_or_default (py_get d ''recipient_role'') ''teammate'')) (\<lambda>role.
     rbind (time_or parsef now (py_get d ''created_at'')) (\<lambda>created.
     rbind (parse_utc_timestamp parsef (py_get d ''delivered_at'')) (\<lambda>delivered.
     Inr \<lparr>tdl_id = str_or_default (py_get d ''delivery_id'') [], tdl_recipient = str_or_default (py_get d ''recipient_member_id'') [],
          tdl_role = role, tdl_name = str_or_default (py_get d ''recipient_name'') [], tdl_route = str_or_default (py_get d ''route'') [],
          tdl_queued = (case map_of d ''queued'' of None \<Rightarrow> True | Some v \<Rightarrow> py_truthy v), tdl_created_at = created,
          tdl_delivered_at = delivered, tdl_metadata = coerce_mapping (py_get d ''metadata'')\<rparr>)))"

definition envelope_to_dict :: "(time \<Rightarrow> string) \<Rightarrow> team_envelope \<Rightarrow> (string, pyval) dict" where
  "envelope_to_dict isof e =
     [(''schema_version'', PInt (ten_schema e)), (''message_id'', PStr (ten_id e)), (''team_id'', PStr (ten_team e)),
      (''sender'', PDict (sender_to_dict (ten_sender e))), (''kind'', PStr (message_kind_value (ten_kind e))),
      (''public_to'', PStr (ten_public_to e)), (''content'', PStr (ten_content e)),
      (''deliveries'', PList (map (\<lambda>d. PDict (delivery_to_dict isof d)) (ten_deliveries e))),
      (''created_at'', PStr (utc_isoformat isof (ten_created_at e))), (''correlation_id'', opt_str_value (ten_correlation e)),
      (''metadata'', PDict (ten_metadata e))]"

definition envelope_from_dict :: "(string \<Rightarrow> time option) \<Rightarrow> time \<Rightarrow> (string, pyval) dict \<Rightarrow> payload_error + team_envelope" where
  "envelope_from_dict parsef now d =
     rbind (int_or_default (py_get d ''schema_version'') 1) (\<lambda>schema.
     rbind (sender_from_dict (coerce_mapping (py_get d ''sender''))) (\<lambda>sender.
     rbind (enum_of message_kind_value message_kinds (str_or_default (py_get d ''kind'') ''direct'')) (\<lambda>kind.
     rbind (collect (delivery_from_dict parsef now) (dict_items (py_get d ''deliveries''))) (\<lambda>ds.
     rbind (time_or parsef now (py_get d ''created_at'')) (\<lambda>created.
     Inr \<lparr>ten_id = str_or_default (py_get d ''message_id'') [], ten_team = str_or_default (py_get d ''team_id'') [],
          ten_sender = sender, ten_kind = kind, ten_public_to = str_or_default (py_get d ''public_to'') [],
          ten_content = str_or_default (py_get d ''content'') [], ten_deliveries = ds, ten_created_at = created,
          ten_correlation = coerce_optional_value (py_get d ''correlation_id''),
          ten_metadata = coerce_mapping (py_get d ''metadata''), ten_schema = schema\<rparr>)))))"

definition normal_envelope :: "team_envelope \<Rightarrow> bool" where
  "normal_envelope e \<longleftrightarrow> ten_schema e \<noteq> 0 \<and> plain_text (ten_correlation e)"

lemma message_kind_back [simp]: "enum_of message_kind_value message_kinds (message_kind_value k) = Inr k"
  by (cases k) (simp_all add: enum_of_def message_kinds_def)

lemma message_kind_nonempty [simp]: "message_kind_value k \<noteq> []"
  by (cases k) simp_all

lemma sender_back: "sender_from_dict (sender_to_dict x) = Inr x"
  by (simp add: sender_from_dict_def sender_to_dict_def py_get_def)

lemma delivery_back: "utc_codec isof parsef \<Longrightarrow> delivery_from_dict parsef now (delivery_to_dict isof d) = Inr d"
  by (simp add: delivery_from_dict_def delivery_to_dict_def py_get_def time_or_back opt_timestamp_back)

lemma envelope_back:
  assumes "utc_codec isof parsef" "normal_envelope e"
  shows "envelope_from_dict parsef now (envelope_to_dict isof e) = Inr e"
  using assms collect_map_Inr [of "ten_deliveries e" "delivery_from_dict parsef now" "delivery_to_dict isof"]
  by (simp add: envelope_from_dict_def envelope_to_dict_def py_get_def time_or_back opt_str_back items_back
      normal_envelope_def sender_back delivery_back)

subsection \<open>The stores\<close>

type_synonym message_store = "(string \<times> string, team_envelope) dict"

definition envelope_key :: "team_envelope \<Rightarrow> string \<times> string" where
  "envelope_key e = (ten_team e, ten_id e)"

text \<open>The left side is the \<open>FileExistsError\<close>.\<close>

definition publish_envelope :: "team_envelope \<Rightarrow> message_store \<Rightarrow> string + message_store" where
  "publish_envelope e s = (if map_of s (envelope_key e) \<noteq> None then Inl (ten_id e) else Inr (AList.update (envelope_key e) e s))"

definition save_envelope :: "team_envelope \<Rightarrow> message_store \<Rightarrow> message_store" where
  "save_envelope e s = AList.update (envelope_key e) e s"

definition load_envelope :: "string \<Rightarrow> string \<Rightarrow> message_store \<Rightarrow> team_envelope option" where
  "load_envelope tid mid s = map_of s (tid, mid)"

definition addressed_to :: "string option \<Rightarrow> team_envelope \<Rightarrow> bool" where
  "addressed_to r e = (case r of None \<Rightarrow> True | Some m \<Rightarrow> list_ex (\<lambda>d. tdl_recipient d = m) (ten_deliveries e))"

definition sort_envelopes :: "team_envelope list \<Rightarrow> team_envelope list" where
  "sort_envelopes es = sort_key (\<lambda>e. (ten_created_at e, ten_id e)) es"

definition list_messages :: "string \<Rightarrow> string option \<Rightarrow> message_store \<Rightarrow> team_envelope list" where
  "list_messages tid r s =
     sort_envelopes (filter (addressed_to r) (map snd (filter (\<lambda>kv. fst (fst kv) = tid) s)))"

text \<open>The files, by team and message.\<close>

type_synonym message_files = "(string \<times> string, (string, pyval) dict) dict"

definition file_publish_envelope :: "(time \<Rightarrow> string) \<Rightarrow> team_envelope \<Rightarrow> message_files \<Rightarrow> string + message_files" where
  "file_publish_envelope isof e f =
     (if map_of f (envelope_key e) \<noteq> None then Inl (ten_id e) else Inr (AList.update (envelope_key e) (envelope_to_dict isof e) f))"

definition file_save_envelope :: "(time \<Rightarrow> string) \<Rightarrow> team_envelope \<Rightarrow> message_files \<Rightarrow> message_files" where
  "file_save_envelope isof e f = AList.update (envelope_key e) (envelope_to_dict isof e) f"

definition file_load_envelope ::
  "(string \<Rightarrow> time option) \<Rightarrow> time \<Rightarrow> string \<Rightarrow> string \<Rightarrow> message_files \<Rightarrow> payload_error + team_envelope option" where
  "file_load_envelope parsef now tid mid f = opt_result (envelope_from_dict parsef now) (map_of f (tid, mid))"

text \<open>A team's files come in the order of their names.\<close>

definition file_list_messages ::
  "(string \<Rightarrow> time option) \<Rightarrow> time \<Rightarrow> string \<Rightarrow> string option \<Rightarrow> message_files \<Rightarrow> payload_error + team_envelope list" where
  "file_list_messages parsef now tid r f =
     rbind (collect (envelope_from_dict parsef now)
         (map snd (sort_key (\<lambda>kv. snd (fst kv) @ ''.json'') (filter (\<lambda>kv. fst (fst kv) = tid) f))))
       (\<lambda>es. Inr (sort_envelopes (filter (addressed_to r) es)))"

subsection \<open>The contract of a store\<close>

datatype message_op = Do_Publish team_envelope | Do_Save_Envelope team_envelope | Do_Load_Envelope string string
  | Do_List_Messages string "string option"

datatype message_answer = Message_Done | Message_Taken string | Message_Is "team_envelope option" | Messages_Are "team_envelope list"
  | Message_Unreadable

definition team_ids :: "string \<Rightarrow> (string \<times> string \<Rightarrow> team_envelope option) \<Rightarrow> string set" where
  "team_ids tid m = {i. m (tid, i) \<noteq> None}"

definition team_messages :: "string \<Rightarrow> string option \<Rightarrow> (string \<times> string \<Rightarrow> team_envelope option) \<Rightarrow> team_envelope list" where
  "team_messages tid r m =
     sort_envelopes (filter (addressed_to r) (map (\<lambda>i. the (m (tid, i))) (sorted_list_of_set (team_ids tid m))))"

text \<open>The reference: the envelopes by team and message.\<close>

fun message_step :: "message_op \<Rightarrow> (string \<times> string \<Rightarrow> team_envelope option) \<Rightarrow>
    message_answer \<times> (string \<times> string \<Rightarrow> team_envelope option)" where
  "message_step (Do_Publish e) m =
     (if m (envelope_key e) \<noteq> None then (Message_Taken (ten_id e), m) else (Message_Done, m(envelope_key e \<mapsto> e)))"
| "message_step (Do_Save_Envelope e) m = (Message_Done, m(envelope_key e \<mapsto> e))"
| "message_step (Do_Load_Envelope tid mid) m = (Message_Is (m (tid, mid)), m)"
| "message_step (Do_List_Messages tid r) m = (Messages_Are (team_messages tid r m), m)"

fun op_envelope :: "message_op \<Rightarrow> team_envelope option" where
  "op_envelope (Do_Publish e) = Some e"
| "op_envelope (Do_Save_Envelope e) = Some e"
| "op_envelope x = None"

locale message_protocol =
  fixes run_op :: "time \<Rightarrow> message_op \<Rightarrow> 's \<Rightarrow> message_answer \<times> 's" and held :: "'s \<Rightarrow> string \<times> string \<Rightarrow> team_envelope option"
    and sound :: "'s \<Rightarrow> bool" and writable :: "team_envelope \<Rightarrow> bool"
  assumes follows: "sound s \<Longrightarrow> pred_option writable (op_envelope x) \<Longrightarrow>
      fst (run_op now x s) = fst (message_step x (held s)) \<and> held (snd (run_op now x s)) = snd (message_step x (held s)) \<and>
      sound (snd (run_op now x s))"
begin

lemma answers_reference:
  "sound s \<Longrightarrow> list_all (\<lambda>(now, x). pred_option writable (op_envelope x)) xs \<Longrightarrow>
   answers (\<lambda>(now, x). run_op now x) xs s = answers message_step (map snd xs) (held s)"
proof (induction xs arbitrary: s)
  case (Cons y xs)
  obtain now x where y: "y = (now, x)" by (cases y)
  then have "pred_option writable (op_envelope x)" using Cons.prems(2) by simp
  note step = follows [OF Cons.prems(1) this, of now]
  then show ?case using Cons.IH [of "snd (run_op now x s)"] Cons.prems y by (simp add: case_prod_beta Let_def)
qed simp

end

subsection \<open>Both stores follow it\<close>

fun mem_message_step :: "message_op \<Rightarrow> message_store \<Rightarrow> message_answer \<times> message_store" where
  "mem_message_step (Do_Publish e) s = (case publish_envelope e s of Inl i \<Rightarrow> (Message_Taken i, s) | Inr s' \<Rightarrow> (Message_Done, s'))"
| "mem_message_step (Do_Save_Envelope e) s = (Message_Done, save_envelope e s)"
| "mem_message_step (Do_Load_Envelope tid mid) s = (Message_Is (load_envelope tid mid s), s)"
| "mem_message_step (Do_List_Messages tid r) s = (Messages_Are (list_messages tid r s), s)"

fun file_message_step ::
  "(time \<Rightarrow> string) \<Rightarrow> (string \<Rightarrow> time option) \<Rightarrow> time \<Rightarrow> message_op \<Rightarrow> message_files \<Rightarrow> message_answer \<times> message_files" where
  "file_message_step isof parsef now (Do_Publish e) f =
     (case file_publish_envelope isof e f of Inl i \<Rightarrow> (Message_Taken i, f) | Inr f' \<Rightarrow> (Message_Done, f'))"
| "file_message_step isof parsef now (Do_Save_Envelope e) f = (Message_Done, file_save_envelope isof e f)"
| "file_message_step isof parsef now (Do_Load_Envelope tid mid) f =
     (case file_load_envelope parsef now tid mid f of Inl e \<Rightarrow> (Message_Unreadable, f) | Inr e \<Rightarrow> (Message_Is e, f))"
| "file_message_step isof parsef now (Do_List_Messages tid r) f =
     (case file_list_messages parsef now tid r f of Inl e \<Rightarrow> (Message_Unreadable, f) | Inr es \<Rightarrow> (Messages_Are es, f))"

text \<open>Every envelope is kept under its own team and id, once.\<close>

definition keyed_store :: "message_store \<Rightarrow> bool" where
  "keyed_store s \<longleftrightarrow> distinct (map fst s) \<and> (\<forall>kv \<in> set s. envelope_key (snd kv) = fst kv)"

lemma update_entry: "kv \<in> set (AList.update k v d) \<Longrightarrow> kv = (k, v) \<or> kv \<in> set d"
  by (induction d) (auto split: if_splits)

lemma keyed_store_update: "keyed_store s \<Longrightarrow> keyed_store (AList.update (envelope_key e) e s)"
  unfolding keyed_store_def by (auto dest!: update_entry)

lemma keyed_store_lookup: "keyed_store s \<Longrightarrow> map_of s k = Some e \<Longrightarrow> envelope_key e = k"
  unfolding keyed_store_def by (force dest: map_of_SomeD)

lemma sort_envelopes_unique:
  assumes "mset es = mset es'" "inj_on ten_id (set es)"
  shows "sort_envelopes es = sort_envelopes es'"
  unfolding sort_envelopes_def
proof (rule sort_key_inj_key_eq)
  show "mset es = mset (sort_key (\<lambda>e. (ten_created_at e, ten_id e)) es')" using assms(1) by simp
  show "inj_on (\<lambda>e. (ten_created_at e, ten_id e)) (set es)" using assms(2) by (auto simp: inj_on_def)
qed simp

lemma team_entries:
  assumes "keyed_store s"
  shows "mset (map snd (filter (\<lambda>kv. fst (fst kv) = tid) s)) =
    mset (map (\<lambda>i. the (map_of s (tid, i))) (sorted_list_of_set (team_ids tid (map_of s))))"
    "inj_on ten_id (set (map snd (filter (\<lambda>kv. fst (fst kv) = tid) s)))"
proof -
  let ?es = "map snd (filter (\<lambda>kv. fst (fst kv) = tid) s)" and ?ids = "team_ids tid (map_of s)"
  have d: "distinct (map fst s)" and k: "\<And>kv. kv \<in> set s \<Longrightarrow> envelope_key (snd kv) = fst kv"
    using assms by (auto simp: keyed_store_def)
  have mem: "e \<in> set ?es \<longleftrightarrow> map_of s (tid, ten_id e) = Some e \<and> ten_team e = tid" for e
  proof -
    have "e \<in> set ?es \<longleftrightarrow> (\<exists>kk. (kk, e) \<in> set s \<and> fst kk = tid)" by (auto simp: image_iff)
    also have "\<dots> \<longleftrightarrow> ((tid, ten_id e), e) \<in> set s \<and> ten_team e = tid"
    proof -
      have "kk = (ten_team e, ten_id e)" if "(kk, e) \<in> set s" for kk using k [OF that] by (simp add: envelope_key_def)
      then show ?thesis by (metis fst_conv)
    qed
    finally show ?thesis using d by (simp add: map_of_eq_Some_iff)
  qed
  then show inj: "inj_on ten_id (set ?es)" 
  proof (intro inj_onI)
    fix x y assume "x \<in> set ?es" "y \<in> set ?es" "ten_id x = ten_id y"
    then show "x = y" using mem [of x] mem [of y] by simp
  qed
  have "distinct ?es"
  proof -
    have "inj_on snd (set s)" by (rule inj_onI) (metis k prod.expand)
    moreover have "distinct s" using d by (simp add: distinct_map)
    ultimately show ?thesis by (auto simp: distinct_map inj_on_def)
  qed
  moreover have fin: "finite ?ids"
  proof (rule finite_subset)
    show "?ids \<subseteq> snd ` dom (map_of s)" by (force simp: team_ids_def)
  qed (simp add: finite_dom_map_of)
  have held: "map_of s (tid, i) = Some e \<Longrightarrow> ten_id e = i \<and> ten_team e = tid" for i e
    using keyed_store_lookup [OF assms] by (fastforce simp: envelope_key_def)
  have "inj_on (\<lambda>i. the (map_of s (tid, i))) ?ids"
  proof (rule inj_onI)
    fix i j assume "i \<in> ?ids" "j \<in> ?ids" and e: "the (map_of s (tid, i)) = the (map_of s (tid, j))"
    then obtain x y where "map_of s (tid, i) = Some x" "map_of s (tid, j) = Some y" by (auto simp: team_ids_def)
    then show "i = j" using e held [of i x] held [of j y] by simp
  qed
  then have "distinct (map (\<lambda>i. the (map_of s (tid, i))) (sorted_list_of_set ?ids))" using fin by (simp add: distinct_map)
  moreover have "set ?es = set (map (\<lambda>i. the (map_of s (tid, i))) (sorted_list_of_set ?ids))"
  proof (rule set_eqI)
    fix e
    have "e \<in> set (map (\<lambda>i. the (map_of s (tid, i))) (sorted_list_of_set ?ids)) \<longleftrightarrow> (\<exists>i. map_of s (tid, i) = Some e)"
      using fin by (force simp: team_ids_def image_iff)
    then show "e \<in> set ?es \<longleftrightarrow> e \<in> set (map (\<lambda>i. the (map_of s (tid, i))) (sorted_list_of_set ?ids))"
      unfolding mem using held by auto
  qed
  ultimately show "mset ?es = mset (map (\<lambda>i. the (map_of s (tid, i))) (sorted_list_of_set ?ids))"
    by (simp only: set_eq_iff_mset_eq_distinct [symmetric])
qed

lemma messages_listed:
  assumes "keyed_store s"
  shows "list_messages tid r s = team_messages tid r (map_of s)"
  unfolding list_messages_def team_messages_def
proof (rule sort_envelopes_unique)
  show "mset (filter (addressed_to r) (map snd (filter (\<lambda>kv. fst (fst kv) = tid) s))) =
      mset (filter (addressed_to r) (map (\<lambda>i. the (map_of s (tid, i))) (sorted_list_of_set (team_ids tid (map_of s)))))"
    using team_entries(1) [OF assms, of tid] by (simp only: mset_filter)
  show "inj_on ten_id (set (filter (addressed_to r) (map snd (filter (\<lambda>kv. fst (fst kv) = tid) s))))"
    using team_entries(2) [OF assms, of tid] by (rule inj_on_subset) auto
qed

lemma mem_follows:
  assumes "keyed_store s"
  shows "fst (mem_message_step x s) = fst (message_step x (map_of s)) \<and>
    map_of (snd (mem_message_step x s)) = snd (message_step x (map_of s)) \<and> keyed_store (snd (mem_message_step x s))"
  using assms by (cases x) (simp_all add: publish_envelope_def save_envelope_def load_envelope_def map_of_update
      keyed_store_update messages_listed)

interpretation mem_messages: message_protocol "\<lambda>now. mem_message_step" map_of keyed_store "\<lambda>_. True"
  by unfold_locales (rule mem_follows)

text \<open>The files hold the payloads of a store in memory, and are read as it.\<close>

definition message_payloads :: "(time \<Rightarrow> string) \<Rightarrow> message_store \<Rightarrow> message_files \<Rightarrow> bool" where
  "message_payloads isof s f \<longleftrightarrow> f = file_payloads (envelope_to_dict isof) s \<and> keyed_store s \<and> values_ok normal_envelope s"

lemma files_published:
  "message_payloads isof s f \<Longrightarrow> normal_envelope e \<Longrightarrow>
   message_payloads isof (AList.update (envelope_key e) e s) (AList.update (envelope_key e) (envelope_to_dict isof e) f)"
  by (simp add: message_payloads_def file_payloads_update values_ok_update keyed_store_update)

lemma files_loaded:
  assumes "utc_codec isof parsef" "message_payloads isof s f"
  shows "file_load_envelope parsef now tid mid f = Inr (map_of s (tid, mid))"
proof -
  have "map_of s (tid, mid) = Some e \<Longrightarrow> normal_envelope e" for e
    using assms(2) values_ok_lookup by (auto simp: message_payloads_def)
  then show ?thesis using assms(2) envelope_back [OF assms(1)]
    by (cases "map_of s (tid, mid)") (simp_all add: message_payloads_def file_load_envelope_def opt_result_def file_payloads_lookup)
qed

lemma files_listed:
  assumes "utc_codec isof parsef" "message_payloads isof s f"
  shows "file_list_messages parsef now tid r f = Inr (team_messages tid r (map_of s))"
proof -
  let ?kv = "filter (\<lambda>kv. fst (fst kv) = tid) s"
  let ?sorted = "sort_key (\<lambda>kv. snd (fst kv) @ ''.json'') ?kv"
  have "filter (\<lambda>kv. fst (fst kv) = tid) f = file_payloads (envelope_to_dict isof) ?kv"
    using assms(2) file_payloads_filter [of "\<lambda>k. fst k = tid"] by (simp add: message_payloads_def)
  then have files: "sort_key (\<lambda>kv. snd (fst kv) @ ''.json'') (filter (\<lambda>kv. fst (fst kv) = tid) f) =
      file_payloads (envelope_to_dict isof) ?sorted"
    using file_payloads_sort [of "\<lambda>k. snd k @ ''.json''"] by simp
  have "map snd (file_payloads (envelope_to_dict isof) ?sorted) = map (envelope_to_dict isof) (map snd ?sorted)"
    by (simp add: file_payloads_def case_prod_beta)
  moreover have "normal_envelope e" if "e \<in> set (map snd ?sorted)" for e
    using that assms(2) by (auto simp: message_payloads_def values_ok_def)
  then have "collect (envelope_from_dict parsef now) (map (envelope_to_dict isof) (map snd ?sorted)) = Inr (map snd ?sorted)"
    by (intro collect_map_Inr envelope_back [OF assms(1)])
  ultimately have "file_list_messages parsef now tid r f = Inr (sort_envelopes (filter (addressed_to r) (map snd ?sorted)))"
    by (simp add: file_list_messages_def files)
  moreover have "sort_envelopes (filter (addressed_to r) (map snd ?sorted)) = list_messages tid r s"
    unfolding list_messages_def
  proof (rule sort_envelopes_unique)
    show "inj_on ten_id (set (filter (addressed_to r) (map snd ?sorted)))"
      using team_entries(2) [of s tid] assms(2) by (auto simp: message_payloads_def intro: inj_on_subset)
  qed simp
  moreover have "list_messages tid r s = team_messages tid r (map_of s)"
    using assms(2) by (intro messages_listed) (simp add: message_payloads_def)
  ultimately show ?thesis by simp
qed

text \<open>What a store of files holds: for each file, the envelope it is read as.\<close>

definition file_envelopes :: "(string \<Rightarrow> time option) \<Rightarrow> time \<Rightarrow> message_files \<Rightarrow> string \<times> string \<Rightarrow> team_envelope option" where
  "file_envelopes parsef now f k =
     (case map_of f k of None \<Rightarrow> None | Some d \<Rightarrow> (case envelope_from_dict parsef now d of Inl e \<Rightarrow> None | Inr e \<Rightarrow> Some e))"

lemma file_envelopes_held:
  assumes "utc_codec isof parsef" "message_payloads isof s f"
  shows "file_envelopes parsef now f = map_of s"
proof
  fix k
  have "map_of s k = Some e \<Longrightarrow> normal_envelope e" for e
    using assms(2) values_ok_lookup by (auto simp: message_payloads_def)
  then show "file_envelopes parsef now f k = map_of s k" using assms(2) envelope_back [OF assms(1)]
    by (cases "map_of s k") (simp_all add: message_payloads_def file_envelopes_def file_payloads_lookup)
qed

definition written_messages :: "(time \<Rightarrow> string) \<Rightarrow> message_files \<Rightarrow> bool" where
  "written_messages isof f \<longleftrightarrow> (\<exists>s. message_payloads isof s f)"

lemma file_follows:
  assumes codec: "utc_codec isof parsef" and w: "written_messages isof f" and x: "pred_option normal_envelope (op_envelope x)"
  shows "fst (file_message_step isof parsef now x f) = fst (message_step x (file_envelopes parsef 0 f)) \<and>
    file_envelopes parsef 0 (snd (file_message_step isof parsef now x f)) = snd (message_step x (file_envelopes parsef 0 f)) \<and>
    written_messages isof (snd (file_message_step isof parsef now x f))"
proof -
  obtain s where s: "message_payloads isof s f" using w unfolding written_messages_def ..
  note held = file_envelopes_held [OF codec s]
  note reads = files_loaded [OF codec s] files_listed [OF codec s]
  have absent: "map_of f k = None \<longleftrightarrow> map_of s k = None" for k using s by (simp add: message_payloads_def file_payloads_lookup)
  have put: "message_payloads isof (AList.update (envelope_key e) e s) (AList.update (envelope_key e) (envelope_to_dict isof e) f)"
    if "normal_envelope e" for e using files_published [OF s that] .
  show ?thesis
  proof (cases x)
    case (Do_Publish e)
    then show ?thesis using x s put [of e] file_envelopes_held [OF codec put [of e]]
      by (auto simp: file_publish_envelope_def absent held written_messages_def map_of_update)
  next
    case (Do_Save_Envelope e)
    then show ?thesis using x put [of e] file_envelopes_held [OF codec put [of e]]
      by (auto simp: file_save_envelope_def held written_messages_def map_of_update)
  qed (use s in \<open>auto simp: reads held written_messages_def\<close>)
qed

interpretation file_messages: message_protocol "file_message_step plain_instant read_instant" "file_envelopes read_instant 0"
  "written_messages plain_instant" normal_envelope
  by unfold_locales (rule file_follows [OF plain_codec])

lemma files_follow:
  "utc_codec isof parsef \<Longrightarrow>
   message_protocol (file_message_step isof parsef) (file_envelopes parsef 0) (written_messages isof) normal_envelope"
  by unfold_locales (rule file_follows)

text \<open>The store of messages in files answers every sequence of operations, at whatever times, as the store in
  memory does, the listings in the same order.\<close>

theorem message_stores_agree:
  assumes "utc_codec isof parsef" "list_all (\<lambda>(now, x). pred_option normal_envelope (op_envelope x)) ops"
  shows "answers (\<lambda>(now, x). file_message_step isof parsef now x) ops [] = answers (\<lambda>(now, x). mem_message_step x) ops []"
proof -
  have "written_messages isof []" unfolding written_messages_def
    by (rule exI [of _ "[]"]) (simp add: message_payloads_def file_payloads_def keyed_store_def values_ok_def)
  moreover have "list_all (\<lambda>(now, x). pred_option (\<lambda>_. True) (op_envelope x)) ops"
    by (simp add: list_all_iff case_prod_beta option.pred_True)
  ultimately show ?thesis
    using message_protocol.answers_reference [OF files_follow [OF assms(1)] _ assms(2)] mem_messages.answers_reference [of "[]" ops]
    by (simp add: keyed_store_def file_envelopes_def [abs_def])
qed

definition sample_delivery :: "string \<Rightarrow> string \<Rightarrow> team_delivery" where
  "sample_delivery i m = \<lparr>tdl_id = i, tdl_recipient = m, tdl_role = TR_Teammate, tdl_name = m, tdl_route = ''teammate_runner'',
     tdl_queued = True, tdl_created_at = 5, tdl_delivered_at = None, tdl_metadata = [(''public_to'', PStr ''*'')]\<rparr>"

definition sample_envelope :: "string \<Rightarrow> time \<Rightarrow> team_envelope" where
  "sample_envelope i now = \<lparr>ten_id = i, ten_team = ''t1'', ten_sender = \<lparr>tsd_member = ''m1'', tsd_role = TR_Leader, tsd_name = ''leader''\<rparr>,
     ten_kind = MK_Broadcast, ten_public_to = ''*'', ten_content = ''hello'',
     ten_deliveries = [sample_delivery ''d2'' ''m2'', sample_delivery ''d3'' ''m3''], ten_created_at = now, ten_correlation = None,
     ten_metadata = [], ten_schema = 1\<rparr>"

definition sample_message_ops :: "(time \<times> message_op) list" where
  "sample_message_ops = [(5, Do_Publish (sample_envelope ''b'' 5)), (6, Do_Publish (sample_envelope ''a'' 6)),
     (7, Do_Publish (sample_envelope ''a'' 7)), (8, Do_List_Messages ''t1'' (Some ''m3''))]"

theorem message_stores_agree_witness:
  "answers (\<lambda>(now, x). file_message_step plain_instant read_instant now x) sample_message_ops [] =
     [Message_Done, Message_Done, Message_Taken ''a'', Messages_Are [sample_envelope ''b'' 5, sample_envelope ''a'' 6]]"
proof -
  have "list_all (\<lambda>(now, x). pred_option normal_envelope (op_envelope x)) sample_message_ops"
    by (simp add: sample_message_ops_def sample_envelope_def normal_envelope_def plain_text_def)
  note message_stores_agree [OF plain_codec this]
  moreover have "answers (\<lambda>(now, x). mem_message_step x) sample_message_ops [] =
      [Message_Done, Message_Done, Message_Taken ''a'', Messages_Are [sample_envelope ''b'' 5, sample_envelope ''a'' 6]]" by code_simp
  ultimately show ?thesis by simp
qed

end
