(* ===== verification/Team_Message_Bus.thy ===== *)
theory Team_Message_Bus
  imports Team_Messages Team_Workflows Session_Ingress
begin

text \<open>
  The message bus of teams (\<open>RuntimeTeamMessageBus\<close> in \<open>team_message_bus.py\<close>, with the two handlers of the team
  package) over the store in memory.  A message is published, then its deliveries are routed one after the other: to
  the leader as an event of its session, to a teammate through the runner manager.  Each routing awaits the session or
  the manager, and then the host that is told; what is routed next is a job.  \<open>sessions\<close> gives the status of a session
  the registry has, at the time it is asked.  The ids of new messages, deliveries and outputs are arguments.
\<close>

subsection \<open>The state\<close>

datatype bus_error = Bus_Control string string | Bus_Exists string | Bus_Payload payload_error | Bus_Raised string

record dispatched =
  tdp_team :: string
  tdp_member :: string
  tdp_prompt :: string
  tdp_sender :: "(string, pyval) dict"
  tdp_correlation :: "string option"
  tdp_metadata :: "(string, pyval) dict"

text \<open>What is left of an operation: its deliveries, and for the replay of a session that opens, that session.\<close>

record bus_job =
  bj_id :: nat
  bj_team :: team
  bj_replaying :: bool
  bj_opening :: "string option"
  bj_left :: "(team_envelope \<times> team_delivery) list"

datatype bus_flight = Submitting string team_envelope team_delivery bus_job | Dispatching team_member team_envelope team_delivery bus_job
  | Reporting bus_job

record bus_world =
  bw_messages :: message_store
  bw_work :: workflow_world
  bw_workflows :: bool
  bw_handed :: "(string \<times> inbound_event) list"
  bw_dispatched :: "dispatched list"
  bw_events :: "team_event list"
  bw_flights :: "bus_flight list"
  bw_ended :: "(nat \<times> bus_error option) list"

definition add_bus_flight :: "bus_flight \<Rightarrow> bus_world \<Rightarrow> bus_world" where
  "add_bus_flight f w = w\<lparr>bw_flights := bw_flights w @ [f]\<rparr>"

definition drop_bus_flight :: "bus_flight \<Rightarrow> bus_world \<Rightarrow> bus_world" where
  "drop_bus_flight f w = w\<lparr>bw_flights := remove1 f (bw_flights w)\<rparr>"

definition end_job :: "bus_job \<Rightarrow> bus_error option \<Rightarrow> bus_world \<Rightarrow> bus_world" where
  "end_job j r w = w\<lparr>bw_ended := bw_ended w @ [(bj_id j, r)]\<rparr>"

abbreviation bus_teams :: "bus_world \<Rightarrow> team_store" where
  "bus_teams w \<equiv> ww_teams (bw_work w)"

definition set_bus_teams :: "team_store \<Rightarrow> bus_world \<Rightarrow> bus_world" where
  "set_bus_teams s w = w\<lparr>bw_work := (bw_work w)\<lparr>ww_teams := s\<rparr>\<rparr>"

subsection \<open>The leader's event\<close>

definition delivery_ack_receipt :: "string \<Rightarrow> string \<Rightarrow> string \<Rightarrow> pyval" where
  "delivery_ack_receipt tid mid did =
     PDict [(''receipt_id'', PStr did), (''kind'', PStr ''weavert.team.delivery_ack''),
            (''payload'', PDict [(''team_id'', PStr tid), (''message_id'', PStr mid), (''delivery_id'', PStr did)])]"

definition receipts_of :: "team \<Rightarrow> team_envelope \<Rightarrow> team_delivery \<Rightarrow> pyval" where
  "receipts_of t e d = PList [delivery_ack_receipt (tm_id t) (ten_id e) (tdl_id d)]"

text \<open>The workflow service is asked, which may find the deadline past.\<close>

definition workflow_request_is_actionable ::
  "(time \<Rightarrow> string) \<Rightarrow> string \<Rightarrow> time \<Rightarrow> bool \<Rightarrow> team \<Rightarrow> string \<Rightarrow> workflow_world \<Rightarrow> bool \<times> workflow_world" where
  "workflow_request_is_actionable isof tid now bound t i y =
     (if strip i = [] \<or> \<not> bound then (False, y)
      else (let (r, y) = get_workflow isof tid now i y
            in (case r of None \<Rightarrow> False
                | Some w \<Rightarrow> wk_team w = tm_id t \<and> \<not> workflow_terminal w \<and> allowed_workflow_actions w \<noteq> [], y)))"

definition last_control_message :: "team \<Rightarrow> team_envelope \<Rightarrow> string \<Rightarrow> (string, pyval) dict" where
  "last_control_message t e control_type =
     [(''team_id'', PStr (tm_id t)), (''message_id'', PStr (ten_id e)), (''control_type'', PStr control_type),
      (''sender_member_id'', PStr (tsd_member (ten_sender e))), (''sender_name'', PStr (tsd_name (ten_sender e))),
      (''correlation_id'', opt_str_value (ten_correlation e)), (''content'', PStr (ten_content e)), (''payload'', PDict (ten_metadata e))]"

definition request_event :: "team \<Rightarrow> team_envelope \<Rightarrow> team_delivery \<Rightarrow> string \<Rightarrow> request_protocol \<Rightarrow> int \<Rightarrow> inbound_event" where
  "request_event t e d control_type p priority =
     (let private = PDict [(''workflow_id'', PStr (rq_workflow p)), (''workflow_kind'', PStr (workflow_kind_value (rq_kind p))),
            (''requester_member_id'', PStr (rq_requester p)), (''requester_name'', opt_str_value (rq_requester_name p)),
            (''allowed_actions'', PList (map PStr (rq_actions p)))]
      in \<lparr>ie_type = Host_Event,
          ie_content = (case rq_summary p of Some s \<Rightarrow> s
             | None \<Rightarrow> ''Team workflow '' @ [CHR 0x27] @ rq_workflow p @ [CHR 0x27] @ '' requires a response''),
          ie_metadata =
            [(''admission_kind'', PStr ''admit_turn''), (''role'', PStr ''user''), (''source'', PStr ''team_workflow_request''),
             (''visibility'', PStr ''transcript''), (''workflow_id'', PStr (rq_workflow p)),
             (''workflow_kind'', PStr (workflow_kind_value (rq_kind p))), (''workflow_requester_member_id'', PStr (rq_requester p)),
             (''workflow_requester_name'', opt_str_value (rq_requester_name p)), (''completion_receipts'', receipts_of t e d),
             (''ingress_priority'', PInt priority),
             (''private_updates'', PDict [(''team_last_workflow_request'', private),
                (''team_workflow_requests'', PDict [(rq_workflow p, private)]),
                (''team_last_control_message'', PDict (last_control_message t e control_type))])]\<rparr>)"

definition logical_sender :: "team_envelope \<Rightarrow> response_protocol \<Rightarrow> pyval \<times> string \<times> string" where
  "logical_sender e p =
     (let actor = coerce_optional_string (rs_actor p) in
      case rs_actor_kind p of
        WA_Host \<Rightarrow> (PNone, first_text [actor] ''host'', ''host'')
      | WA_Runtime \<Rightarrow> (if actor = Some (tsd_member (ten_sender e)) then opt_str_value actor else PNone, first_text [actor] ''runtime'', ''runtime'')
      | _ \<Rightarrow> (PStr (tsd_member (ten_sender e)), tsd_name (ten_sender e), team_role_value (tsd_role (ten_sender e))))"

definition response_event :: "string \<Rightarrow> team \<Rightarrow> team_envelope \<Rightarrow> team_delivery \<Rightarrow> string \<Rightarrow> response_protocol \<Rightarrow> inbound_event" where
  "response_event oid t e d control_type p =
     (let (sender, name, role) = logical_sender e p;
          actor_kind = PStr (workflow_actor_value (rs_actor_kind p)); actor = opt_str_value (rs_actor p)
      in \<lparr>ie_type = Host_Event, ie_content = [],
          ie_metadata =
            [(''admission_kind'', PStr ''replay_only''), (''completion_receipts'', receipts_of t e d),
             (''private_updates'', PDict
               [(''team_last_workflow_update'', PDict
                   [(''workflow_id'', PStr (rs_workflow p)), (''workflow_kind'', PStr (workflow_kind_value (rs_kind p))),
                    (''status'', PStr (workflow_status_value (rs_status p))), (''response_action'', PStr (rs_action p)),
                    (''actor_kind'', actor_kind), (''actor_id'', actor)]),
                (''team_last_control_message'', PDict
                   [(''team_id'', PStr (tm_id t)), (''message_id'', PStr (ten_id e)), (''control_type'', PStr control_type),
                    (''sender_member_id'', sender), (''sender_name'', PStr name), (''sender_role'', PStr role),
                    (''transport_sender_member_id'', PStr (tsd_member (ten_sender e))),
                    (''transport_sender_name'', PStr (tsd_name (ten_sender e))),
                    (''transport_sender_role'', PStr (team_role_value (tsd_role (ten_sender e)))), (''actor_kind'', actor_kind),
                    (''actor_id'', actor), (''correlation_id'', opt_str_value (ten_correlation e)), (''content'', PStr (ten_content e)),
                    (''payload'', PDict (ten_metadata e))])]),
             (''replay_outputs'', PList [PDict
               [(''output_id'', PStr oid), (''role'', PStr ''notification''),
                (''content'', PStr (case rs_summary p of Some s \<Rightarrow> s
                   | None \<Rightarrow> ''Team workflow '' @ [CHR 0x27] @ rs_workflow p @ [CHR 0x27] @ '' updated'')),
                (''visibility'', PStr ''host''), (''source'', PStr ''team_workflow_update''),
                (''metadata'', PDict [(''team_id'', PStr (tm_id t)), (''message_id'', PStr (ten_id e)),
                   (''correlation_id'', opt_str_value (ten_correlation e)), (''workflow_id'', PStr (rs_workflow p)),
                   (''actor_kind'', actor_kind), (''actor_id'', actor)])]]),
             (''source'', PStr ''team_workflow_update''), (''visibility'', PStr ''private'')]\<rparr>)"

definition control_event :: "string \<Rightarrow> team \<Rightarrow> team_envelope \<Rightarrow> team_delivery \<Rightarrow> string \<Rightarrow> inbound_event" where
  "control_event oid t e d control_type =
     \<lparr>ie_type = Host_Event, ie_content = [],
      ie_metadata =
        [(''admission_kind'', PStr ''replay_only''), (''completion_receipts'', receipts_of t e d),
         (''private_updates'', PDict [(''team_last_control_message'', PDict (last_control_message t e control_type))]),
         (''replay_outputs'', PList [PDict
           [(''output_id'', PStr oid), (''role'', PStr ''notification''),
            (''content'', PStr (''Team control message '' @ [CHR 0x27] @ control_type @ [CHR 0x27] @ '' from '' @ tsd_name (ten_sender e))),
            (''visibility'', PStr ''host''), (''source'', PStr ''team_control''),
            (''metadata'', PDict [(''team_id'', PStr (tm_id t)), (''message_id'', PStr (ten_id e)),
               (''correlation_id'', opt_str_value (ten_correlation e))])]]),
         (''source'', PStr ''team_control_message''), (''visibility'', PStr ''private'')]\<rparr>"

definition public_event :: "team \<Rightarrow> team_envelope \<Rightarrow> team_delivery \<Rightarrow> inbound_event" where
  "public_event t e d =
     \<lparr>ie_type = Host_Event, ie_content = ''Message from '' @ tsd_name (ten_sender e) @ '': '' @ ten_content e,
      ie_metadata =
        [(''admission_kind'', PStr ''admit_turn''), (''role'', PStr ''user''), (''source'', PStr ''team_message''),
         (''visibility'', PStr ''transcript''), (''team_id'', PStr (tm_id t)), (''team_message_id'', PStr (ten_id e)),
         (''team_message_kind'', PStr (message_kind_value (ten_kind e))), (''team_sender_member_id'', PStr (tsd_member (ten_sender e))),
         (''team_sender_name'', PStr (tsd_name (ten_sender e))), (''team_sender_role'', PStr (team_role_value (tsd_role (ten_sender e)))),
         (''team_recipient_member_id'', PStr (tdl_recipient d)), (''correlation_id'', opt_str_value (ten_correlation e)),
         (''completion_receipts'', receipts_of t e d),
         (''private_updates'', PDict [(''team_last_message'', PDict
            [(''team_id'', PStr (tm_id t)), (''message_id'', PStr (ten_id e)), (''sender_member_id'', PStr (tsd_member (ten_sender e))),
             (''sender_name'', PStr (tsd_name (ten_sender e))), (''public_to'', PStr (ten_public_to e)),
             (''correlation_id'', opt_str_value (ten_correlation e))])])]\<rparr>"

definition control_type_of :: "team_envelope \<Rightarrow> string" where
  "control_type_of e = str_or_default (py_get (ten_metadata e) ''control_type'') (ten_content e)"

text \<open>An answer, or what a control message without a protocol of its own becomes.\<close>

definition informed_event :: "string \<Rightarrow> team \<Rightarrow> team_envelope \<Rightarrow> team_delivery \<Rightarrow> payload_error + inbound_event" where
  "informed_event oid t e d =
     rbind (parse_response_protocol (PDict (ten_metadata e))) (\<lambda>p.
     Inr (case p of Some p \<Rightarrow> response_event oid t e d (control_type_of e) p | None \<Rightarrow> control_event oid t e d (control_type_of e)))"

definition leader_ingress_event ::
  "(time \<Rightarrow> string) \<Rightarrow> string \<Rightarrow> string \<Rightarrow> time \<Rightarrow> bool \<Rightarrow> team \<Rightarrow> team_envelope \<Rightarrow> team_delivery \<Rightarrow> workflow_world \<Rightarrow>
   (payload_error + inbound_event) \<times> workflow_world" where
  "leader_ingress_event isof tid oid now bound t e d y =
     (if ten_kind e \<noteq> MK_Control then (Inr (public_event t e d), y)
      else (case parse_request_protocol (PDict (ten_metadata e)) of
          Inl err \<Rightarrow> (Inl err, y)
        | Inr None \<Rightarrow> (informed_event oid t e d, y)
        | Inr (Some p) \<Rightarrow>
            (let (actionable, y) = workflow_request_is_actionable isof tid now bound t (rq_workflow p) y in
             (if actionable
              then rbind (int_or_default (py_get (ten_metadata e) ''workflow_priority'') (workflow_priority (rq_kind p)))
                     (\<lambda>priority. Inr (request_event t e d (control_type_of e) p priority))
              else informed_event oid t e d, y))))"

definition teammate_prompt :: "team_envelope \<Rightarrow> payload_error + string" where
  "teammate_prompt e =
     (if ten_kind e \<noteq> MK_Control then Inr (''Team message from '' @ tsd_name (ten_sender e) @ '': '' @ ten_content e)
      else rbind (parse_request_protocol (PDict (ten_metadata e))) (\<lambda>p.
        case Option.bind p rq_summary of
          Some s \<Rightarrow> Inr s
        | None \<Rightarrow> rbind (parse_response_protocol (PDict (ten_metadata e))) (\<lambda>r.
            Inr (case Option.bind r rs_summary of
                   Some s \<Rightarrow> s | None \<Rightarrow> ''Team control message from '' @ tsd_name (ten_sender e) @ '': '' @ ten_content e))))"

subsection \<open>Routing\<close>

definition emit_routed ::
  "team \<Rightarrow> team_envelope \<Rightarrow> string \<Rightarrow> (string, pyval) dict \<Rightarrow> bus_world \<Rightarrow> bus_world" where
  "emit_routed t e mid payload w =
     w\<lparr>bw_events := bw_events w @ [\<lparr>ev_type = ''team.message.routed'', ev_team = tm_id t, ev_leader_session = tm_leader_session t,
        ev_member = Some mid, ev_message = Some (ten_id e), ev_correlation = ten_correlation e, ev_payload = payload\<rparr>]\<rparr>"

definition leader_routed :: "bool \<Rightarrow> string \<Rightarrow> team_envelope \<Rightarrow> team_delivery \<Rightarrow> (string, pyval) dict" where
  "leader_routed drained status e d =
     [(''route'', PStr (tdl_route d)), (''recipient_name'', PStr (tdl_name d)), (''queued'', PBool True), (''drained'', PBool drained),
      (''session_status'', PStr status), (''kind'', PStr (message_kind_value (ten_kind e))), (''public_to'', PStr (ten_public_to e))]"

definition teammate_routed :: "team_member \<Rightarrow> team_envelope \<Rightarrow> team_delivery \<Rightarrow> (string, pyval) dict" where
  "teammate_routed m e d =
     [(''route'', PStr (tdl_route d)), (''recipient_name'', PStr (ter_name m)), (''queued'', PBool True),
      (''kind'', PStr (message_kind_value (ten_kind e))), (''public_to'', PStr (ten_public_to e))]"

text \<open>The end of a routing: the host is told, and the job waits for it.\<close>

definition leader_told :: "bool \<Rightarrow> string \<Rightarrow> team_envelope \<Rightarrow> team_delivery \<Rightarrow> bus_job \<Rightarrow> bus_world \<Rightarrow> bus_world" where
  "leader_told drained status e d j w =
     add_bus_flight (Reporting j) (emit_routed (bj_team j) e (tdl_recipient d) (leader_routed drained status e d) w)"

definition teammate_told :: "team_member \<Rightarrow> team_envelope \<Rightarrow> team_delivery \<Rightarrow> bus_job \<Rightarrow> bus_world \<Rightarrow> bus_world" where
  "teammate_told m e d j w =
     add_bus_flight (Reporting j) (emit_routed (bj_team j) e (ter_id m) (teammate_routed m e d) w)"

definition hand_event :: "string \<Rightarrow> inbound_event \<Rightarrow> bus_world \<Rightarrow> bus_world" where
  "hand_event sid ev w = w\<lparr>bw_handed := bw_handed w @ [(sid, ev)]\<rparr>"

text \<open>\<open>_route_to_leader\<close> up to its first await.  A session that opens takes the event into its queue; another is submitted
  it and may drain; without a session the message waits in the store.\<close>

definition route_to_leader ::
  "(time \<Rightarrow> string) \<Rightarrow> (string \<Rightarrow> string option) \<Rightarrow> string \<Rightarrow> string \<Rightarrow> time \<Rightarrow> team_envelope \<Rightarrow> team_delivery \<Rightarrow> bus_job \<Rightarrow> bus_world \<Rightarrow> bus_world" where
  "route_to_leader isof sessions tid oid now e d j w =
     (let (r, y) = leader_ingress_event isof tid oid now (bw_workflows w) (bj_team j) e d (bw_work w); w = w\<lparr>bw_work := y\<rparr> in
      case r of
        Inl err \<Rightarrow> end_job j (Some (Bus_Payload err)) w
      | Inr ev \<Rightarrow>
          (case bj_opening j of
             Some sid \<Rightarrow> leader_told False ''session_open'' e d j (hand_event sid ev w)
           | None \<Rightarrow>
               (case sessions (tm_leader_session (bj_team j)) of
                  None \<Rightarrow> leader_told False ''offline'' e d j w
                | Some status \<Rightarrow> add_bus_flight (Submitting status e d j) (hand_event (tm_leader_session (bj_team j)) ev w))))"

definition dispatch_of :: "team \<Rightarrow> team_member \<Rightarrow> string \<Rightarrow> team_envelope \<Rightarrow> team_delivery \<Rightarrow> dispatched" where
  "dispatch_of t m prompt e d =
     \<lparr>tdp_team = tm_id t, tdp_member = ter_id m, tdp_prompt = prompt,
      tdp_sender = [(''type'', PStr (team_role_value (tsd_role (ten_sender e)))), (''id'', PStr (tsd_member (ten_sender e)))],
      tdp_correlation = ten_correlation e,
      tdp_metadata = py_update (py_update
        [(''team_message_id'', PStr (ten_id e)), (''team_message_kind'', PStr (message_kind_value (ten_kind e))),
         (''team_message_to'', PStr (ten_public_to e)), (''team_sender_member_id'', PStr (tsd_member (ten_sender e))),
         (''team_sender_name'', PStr (tsd_name (ten_sender e))), (''team_sender_role'', PStr (team_role_value (tsd_role (ten_sender e)))),
         (''correlation_id'', opt_str_value (ten_correlation e))] (ten_metadata e)) (tdl_metadata d)\<rparr>"

definition route_to_teammate :: "team_envelope \<Rightarrow> team_delivery \<Rightarrow> bus_job \<Rightarrow> bus_world \<Rightarrow> bus_world" where
  "route_to_teammate e d j w =
     (case live_member (bus_teams w) (tm_id (bj_team j)) (tdl_recipient d) of
        None \<Rightarrow> end_job j (Some (Bus_Control ''invalid_recipient'' ''The resolved teammate recipient is no longer active'')) w
      | Some m \<Rightarrow>
          (case teammate_prompt e of
             Inl err \<Rightarrow> end_job j (Some (Bus_Payload err)) w
           | Inr prompt \<Rightarrow> add_bus_flight (Dispatching m e d j) (w\<lparr>bw_dispatched := bw_dispatched w @ [dispatch_of (bj_team j) m prompt e d]\<rparr>)))"

text \<open>The next delivery of a job; the last one ends it.  A replay routes to the leader whatever the recipient's role.\<close>

definition route_next ::
  "(time \<Rightarrow> string) \<Rightarrow> (string \<Rightarrow> string option) \<Rightarrow> string \<Rightarrow> string \<Rightarrow> time \<Rightarrow> bus_job \<Rightarrow> bus_world \<Rightarrow> bus_world" where
  "route_next isof sessions tid oid now j w =
     (case bj_left j of
        [] \<Rightarrow> end_job j None w
      | (e, d) # rest \<Rightarrow>
          (let j = j\<lparr>bj_left := rest\<rparr> in
           if bj_replaying j \<or> tdl_role d = TR_Leader then route_to_leader isof sessions tid oid now e d j w
           else route_to_teammate e d j w))"

text \<open>What follows an await: the session's answer with whether it drained, the manager's, or the host's.\<close>

definition submitted :: "string option \<Rightarrow> bool \<Rightarrow> string \<Rightarrow> team_envelope \<Rightarrow> team_delivery \<Rightarrow> bus_job \<Rightarrow> bus_world \<Rightarrow> bus_world" where
  "submitted raises drained status e d j w =
     (let w = drop_bus_flight (Submitting status e d j) w in
      case raises of Some err \<Rightarrow> end_job j (Some (Bus_Raised err)) w | None \<Rightarrow> leader_told drained status e d j w)"

definition accepted :: "string option \<Rightarrow> team_member \<Rightarrow> team_envelope \<Rightarrow> team_delivery \<Rightarrow> bus_job \<Rightarrow> bus_world \<Rightarrow> bus_world" where
  "accepted raises m e d j w =
     (let w = drop_bus_flight (Dispatching m e d j) w in
      case raises of Some err \<Rightarrow> end_job j (Some (Bus_Raised err)) w | None \<Rightarrow> teammate_told m e d j w)"

definition reported ::
  "(time \<Rightarrow> string) \<Rightarrow> (string \<Rightarrow> string option) \<Rightarrow> string \<Rightarrow> string \<Rightarrow> time \<Rightarrow> bus_job \<Rightarrow> bus_world \<Rightarrow> bus_world" where
  "reported isof sessions tid oid now j w = route_next isof sessions tid oid now j (drop_bus_flight (Reporting j) w)"

subsection \<open>Sending\<close>

definition resolve_public_recipients :: "team \<Rightarrow> team_member \<Rightarrow> string \<Rightarrow> team_store \<Rightarrow> bus_error + team_member list \<times> message_kind" where
  "resolve_public_recipients t sender recipient s =
     (let n = strip recipient in
      if n = [] then Inl (Bus_Control ''invalid_request'' ''team_send requires a non-empty recipient'')
      else if n = ''*'' then Inr (filter (\<lambda>m. ter_id m \<noteq> ter_id sender) (list_members True True (tm_id t) s), MK_Broadcast)
      else if n = ''leader'' then
        (case live_member s (tm_id t) (tm_leader_member t) of
           None \<Rightarrow> Inl (Bus_Control ''invalid_team_state'' ''The active team is missing its leader member'')
         | Some leader \<Rightarrow> Inr ([leader], MK_Direct))
      else if list_ex (\<lambda>c. c \<in> set n) [CHR ''/'', CHR '':'', CHR 0x5C]
        then Inl (Bus_Control ''invalid_recipient'' (''Public team recipients resolve only within the caller'' @ [CHR 0x27] @ ''s active team''))
      else
        (case find_member_by_name (tm_id t) n s of
           Some m \<Rightarrow> if member_live m \<and> ter_role m \<noteq> TR_Leader then Inr ([m], MK_Direct)
             else Inl (Bus_Control ''invalid_recipient'' (''No active teammate named '' @ [CHR 0x27] @ n @ [CHR 0x27] @
               '' exists in the caller'' @ [CHR 0x27] @ ''s active team''))
         | None \<Rightarrow> Inl (Bus_Control ''invalid_recipient'' (''No active teammate named '' @ [CHR 0x27] @ n @ [CHR 0x27] @
             '' exists in the caller'' @ [CHR 0x27] @ ''s active team''))))"

definition route_of :: "team_member \<Rightarrow> string" where
  "route_of m = (if ter_role m = TR_Leader then ''leader_ingress'' else ''teammate_runner'')"

definition delivery_for :: "string \<Rightarrow> time \<Rightarrow> (string, pyval) dict \<Rightarrow> team_member \<Rightarrow> team_delivery" where
  "delivery_for did now md m =
     \<lparr>tdl_id = did, tdl_recipient = ter_id m, tdl_role = ter_role m, tdl_name = ter_name m, tdl_route = route_of m,
      tdl_queued = True, tdl_created_at = now, tdl_delivered_at = None, tdl_metadata = md\<rparr>"

definition public_envelope ::
  "string \<Rightarrow> (nat \<Rightarrow> string) \<Rightarrow> time \<Rightarrow> team \<Rightarrow> team_member \<Rightarrow> message_kind \<Rightarrow> string \<Rightarrow> string \<Rightarrow> team_member list \<Rightarrow> team_envelope" where
  "public_envelope mid dids now t sender kind recipient content ms =
     \<lparr>ten_id = mid, ten_team = tm_id t, ten_sender = sender_from_member sender, ten_kind = kind, ten_public_to = recipient,
      ten_content = content,
      ten_deliveries = map (\<lambda>(i, m). delivery_for (dids i) now [(''public_to'', PStr recipient)] m) (enumerate 0 ms),
      ten_created_at = now, ten_correlation = None, ten_metadata = [], ten_schema = 1\<rparr>"

text \<open>The message is published and the job that routes it begins.  The envelope is what the caller gets when the job ends
  without error; the error of a job that fails is recorded as its end.\<close>

definition publish_and_route ::
  "(time \<Rightarrow> string) \<Rightarrow> (string \<Rightarrow> string option) \<Rightarrow> string \<Rightarrow> string \<Rightarrow> time \<Rightarrow> nat \<Rightarrow> team \<Rightarrow> team_envelope \<Rightarrow> bus_world \<Rightarrow>
   (bus_error + team_envelope) \<times> bus_world" where
  "publish_and_route isof sessions tid oid now jid t e w =
     (case publish_envelope e (bw_messages w) of
        Inl i \<Rightarrow> (Inl (Bus_Exists i), w)
      | Inr s \<Rightarrow> (Inr e, route_next isof sessions tid oid now
          \<lparr>bj_id = jid, bj_team = t, bj_replaying = False, bj_opening = None, bj_left = map (Pair e) (ten_deliveries e)\<rparr>
          (w\<lparr>bw_messages := s\<rparr>)))"

definition send_public_message ::
  "(time \<Rightarrow> string) \<Rightarrow> (string \<Rightarrow> string option) \<Rightarrow> string \<Rightarrow> (nat \<Rightarrow> string) \<Rightarrow> string \<Rightarrow> string \<Rightarrow> time \<Rightarrow> nat \<Rightarrow> string \<Rightarrow>
   (string, pyval) dict \<Rightarrow> string \<Rightarrow> string \<Rightarrow> bus_world \<Rightarrow> (bus_error + team_envelope) \<times> bus_world" where
  "send_public_message isof sessions mid dids tid oid now jid sid ext recipient content w =
     (let (a, s) = resolve_actor sid ext (bus_teams w); w = set_bus_teams s w in
      case (ta_team a, ta_member a) of
        (Some t, Some sender) \<Rightarrow>
          (case resolve_public_recipients t sender recipient s of
             Inl err \<Rightarrow> (Inl err, w)
           | Inr (ms, kind) \<Rightarrow>
               publish_and_route isof sessions tid oid now jid t (public_envelope mid dids now t sender kind recipient content ms) w)
      | _ \<Rightarrow> (Inl (Bus_Control ''invalid_team_state'' ''The caller does not have an active runtime team''), w))"

definition has_suffix :: "string \<Rightarrow> string \<Rightarrow> bool" where
  "has_suffix suffix s \<longleftrightarrow> length suffix \<le> length s \<and> drop (length s - length suffix) s = suffix"

text \<open>A control message that is an answer comes only from the workflow service.\<close>

definition response_refused :: "bool \<Rightarrow> string \<Rightarrow> (string, pyval) dict \<Rightarrow> bus_error + unit" where
  "response_refused allow control_type payload =
     (let no = Bus_Control ''invalid_request'' ''Workflow responses must use the runtime-owned workflow response surfaces'' in
      if allow then Inr ()
      else if has_suffix ''_response'' control_type then Inl no
      else (case parse_response_protocol (PDict payload) of
              Inl err \<Rightarrow> Inl (Bus_Payload err) | Inr (Some p) \<Rightarrow> Inl no | Inr None \<Rightarrow> Inr ()))"

definition control_metadata :: "string \<Rightarrow> (string, pyval) dict \<Rightarrow> (string, pyval) dict" where
  "control_metadata control_type payload = py_update [(''control_type'', PStr control_type)] payload"

definition control_envelope ::
  "string \<Rightarrow> string \<Rightarrow> string \<Rightarrow> time \<Rightarrow> string \<Rightarrow> string option \<Rightarrow> team_member \<Rightarrow> team_member \<Rightarrow> string \<Rightarrow> (string, pyval) dict \<Rightarrow>
   team_envelope" where
  "control_envelope mid did cid now tid correlation sender recipient control_type payload =
     \<lparr>ten_id = mid, ten_team = tid, ten_sender = sender_from_member sender, ten_kind = MK_Control,
      ten_public_to = ter_name recipient, ten_content = control_type,
      ten_deliveries = [delivery_for did now (control_metadata control_type payload) recipient],
      ten_created_at = now, ten_correlation = Some (first_text [correlation] cid),
      ten_metadata = control_metadata control_type payload, ten_schema = 1\<rparr>"

definition control_checked ::
  "bool \<Rightarrow> string \<Rightarrow> string \<Rightarrow> string \<Rightarrow> string \<Rightarrow> (string, pyval) dict \<Rightarrow> team_store \<Rightarrow> bus_error + team \<times> team_member \<times> team_member" where
  "control_checked allow tid sender recipient control_type payload s =
     (case load_team s tid of
        Some t \<Rightarrow>
          rbind (ensure (team_live t) (Bus_Control ''invalid_team_state'' ''Team is not active'')) (\<lambda>_.
          rbind (response_refused allow control_type payload) (\<lambda>_.
          case live_member s tid sender of
            None \<Rightarrow> Inl (Bus_Control ''not_found'' ''Sender was not found'')
          | Some m \<Rightarrow>
              (case live_member s tid recipient of
                 None \<Rightarrow> Inl (Bus_Control ''not_found'' ''Recipient was not found'') | Some r \<Rightarrow> Inr (t, m, r))))
      | None \<Rightarrow> Inl (Bus_Control ''invalid_team_state'' ''Team is not active''))"

definition send_control_message ::
  "(time \<Rightarrow> string) \<Rightarrow> (string \<Rightarrow> string option) \<Rightarrow> string \<Rightarrow> string \<Rightarrow> string \<Rightarrow> string \<Rightarrow> string \<Rightarrow> time \<Rightarrow> nat \<Rightarrow> control_message \<Rightarrow>
   bus_world \<Rightarrow> (bus_error + team_envelope) \<times> bus_world" where
  "send_control_message isof sessions mid did cid tid oid now jid m w =
     (let control_type = strip (cm_type m) in
      case control_checked (cm_allow_response m) (cm_team m) (cm_sender m) (cm_recipient m) control_type (cm_payload m) (bus_teams w) of
        Inl err \<Rightarrow> (Inl err, w)
      | Inr (t, sender, recipient) \<Rightarrow>
          publish_and_route isof sessions tid oid now jid t
            (control_envelope mid did cid now (cm_team m) (Some (cm_correlation m)) sender recipient control_type (cm_payload m)) w)"

subsection \<open>Acknowledgement and replay\<close>

definition awaits :: "string \<Rightarrow> team_delivery \<Rightarrow> bool" where
  "awaits did d \<longleftrightarrow> tdl_id d = did \<and> delivery_pending d"

definition acknowledge_delivery :: "time \<Rightarrow> string \<Rightarrow> string \<Rightarrow> string \<Rightarrow> message_store \<Rightarrow> bool \<times> message_store" where
  "acknowledge_delivery now tid mid did s =
     (case load_envelope tid mid s of
        None \<Rightarrow> (False, s)
      | Some e \<Rightarrow>
          if \<not> list_ex (awaits did) (ten_deliveries e) then (False, s)
          else (True, save_envelope
            (e\<lparr>ten_deliveries := map (\<lambda>d. if awaits did d then mark_delivered now d else d) (ten_deliveries e)\<rparr>) s))"

text \<open>The package's handler of a receipt, with the delivery the receipt names.\<close>

definition receipt_delivery :: "completion_receipt \<Rightarrow> (string \<times> string \<times> string) option" where
  "receipt_delivery r =
     (case cr_payload r of
        PDict d \<Rightarrow>
          (let tid = strip (str_or_default (py_get d ''team_id'') []); mid = strip (str_or_default (py_get d ''message_id'') []);
               did = strip (str_or_default (py_get d ''delivery_id'') [])
           in if tid = [] \<or> mid = [] \<or> did = [] then None else Some (tid, mid, did))
      | _ \<Rightarrow> None)"

definition acknowledge_team_delivery :: "time \<Rightarrow> completion_receipt \<Rightarrow> bus_world \<Rightarrow> bus_world" where
  "acknowledge_team_delivery now r w =
     (case receipt_delivery r of
        None \<Rightarrow> w
      | Some (tid, mid, did) \<Rightarrow> w\<lparr>bw_messages := snd (acknowledge_delivery now tid mid did (bw_messages w))\<rparr>)"

definition leader_pending :: "string \<Rightarrow> team_delivery \<Rightarrow> bool" where
  "leader_pending leader d \<longleftrightarrow> tdl_recipient d = leader \<and> tdl_route d = ''leader_ingress'' \<and> delivery_pending d"

definition pending_leader_messages :: "string \<Rightarrow> string \<Rightarrow> message_store \<Rightarrow> (team_envelope \<times> team_delivery) list" where
  "pending_leader_messages tid leader s =
     concat (map (\<lambda>e. map (Pair e) (filter (leader_pending leader) (ten_deliveries e))) (list_messages tid (Some leader) s))"

text \<open>\<open>opening\<close> is the session of a replay that is given one.\<close>

definition replay_pending_leader_messages ::
  "(time \<Rightarrow> string) \<Rightarrow> (string \<Rightarrow> string option) \<Rightarrow> string \<Rightarrow> string \<Rightarrow> time \<Rightarrow> nat \<Rightarrow> string \<Rightarrow> string option \<Rightarrow> bus_world \<Rightarrow> bus_world" where
  "replay_pending_leader_messages isof sessions tid oid now jid sid opening w =
     (let (found, s) = active_team_for_leader sid (bus_teams w); w = set_bus_teams s w in
      case found of
        None \<Rightarrow> w
      | Some t \<Rightarrow>
          (case live_member s (tm_id t) (tm_leader_member t) of
             None \<Rightarrow> w
           | Some leader \<Rightarrow>
               route_next isof sessions tid oid now
                 \<lparr>bj_id = jid, bj_team = t, bj_replaying = True, bj_opening = opening,
                  bj_left = pending_leader_messages (tm_id t) (ter_id leader) (bw_messages w)\<rparr> w))"

text \<open>The package's handler of a session that opens, which does nothing when the session has commands already.\<close>

definition session_opened ::
  "(time \<Rightarrow> string) \<Rightarrow> (string \<Rightarrow> string option) \<Rightarrow> string \<Rightarrow> string \<Rightarrow> time \<Rightarrow> nat \<Rightarrow> string \<Rightarrow> bool \<Rightarrow> bus_world \<Rightarrow> bus_world" where
  "session_opened isof sessions tid oid now jid sid queued w =
     (if queued then w else replay_pending_leader_messages isof sessions tid oid now jid sid (Some sid) w)"

end
