(* ===== verification/Team_Message_Props.thy ===== *)
theory Team_Message_Props
  imports Team_Message_Bus
begin

text \<open>
  What the message bus guarantees: a published message stays and each of its deliveries changes once, when its receipt
  is handled; the event it becomes for the leader's session is one the session's ingress takes, with the receipt that
  settles it; a session that opens is handed what is pending.
\<close>

subsection \<open>Steps\<close>

text \<open>Whatever the workflow service and the control plane do in between; a step that handles a receipt is labelled with it.\<close>

inductive bus_moves :: "(time \<Rightarrow> string) \<Rightarrow> completion_receipt option \<Rightarrow> bus_world \<Rightarrow> bus_world \<Rightarrow> bool" for isof where
  sends_public: "bus_moves isof None w (snd (send_public_message isof sessions mid dids tid oid now jid sid ext recipient content w))"
| sends_control: "bus_moves isof None w (snd (send_control_message isof sessions mid did cid tid oid now jid m w))"
| submits: "Submitting status e d j \<in> set (bw_flights w) \<Longrightarrow> bus_moves isof None w (submitted raises drained status e d j w)"
| accepts: "Dispatching m e d j \<in> set (bw_flights w) \<Longrightarrow> bus_moves isof None w (accepted raises m e d j w)"
| reports: "Reporting j \<in> set (bw_flights w) \<Longrightarrow> bus_moves isof None w (reported isof sessions tid oid now j w)"
| opens: "bus_moves isof None w (session_opened isof sessions tid oid now jid sid queued w)"
| replays: "bus_moves isof None w (replay_pending_leader_messages isof sessions tid oid now jid sid None w)"
| works: "bus_moves isof None w (w\<lparr>bw_work := y\<rparr>)"
| handles: "bus_moves isof (Some r) w (acknowledge_team_delivery now r w)"

inductive bus_run :: "(time \<Rightarrow> string) \<Rightarrow> completion_receipt list \<Rightarrow> bus_world \<Rightarrow> bus_world \<Rightarrow> bool" for isof where
  run_none: "bus_run isof [] w w"
| run_more: "bus_run isof rs w w' \<Longrightarrow> bus_moves isof r w' w'' \<Longrightarrow>
    bus_run isof (rs @ (case r of None \<Rightarrow> [] | Some r \<Rightarrow> [r])) w w''"

definition new_bus_world :: "workflow_world \<Rightarrow> bool \<Rightarrow> bus_world" where
  "new_bus_world y bound = \<lparr>bw_messages = [], bw_work = y, bw_workflows = bound, bw_handed = [], bw_dispatched = [], bw_events = [],
     bw_flights = [], bw_ended = []\<rparr>"

subsection \<open>Routing leaves the messages\<close>

lemma bus_simps [simp]:
  "bw_messages (add_bus_flight f w) = bw_messages w" "bw_messages (drop_bus_flight f w) = bw_messages w"
  "bw_messages (end_job j r w) = bw_messages w" "bw_messages (set_bus_teams s w) = bw_messages w"
  "bw_messages (leader_told drained status e d j w) = bw_messages w" "bw_messages (teammate_told m e d j w) = bw_messages w"
  "bw_messages (hand_event sid ev w) = bw_messages w" "bw_messages (submitted raises drained status e d j w) = bw_messages w"
  "bw_messages (accepted raises m e d j w) = bw_messages w"
  by (simp_all add: add_bus_flight_def drop_bus_flight_def end_job_def set_bus_teams_def leader_told_def teammate_told_def
      emit_routed_def hand_event_def submitted_def accepted_def Let_def split: option.split)

lemma route_messages [simp]:
  "bw_messages (route_to_leader isof sessions tid oid now e d j w) = bw_messages w"
  "bw_messages (route_to_teammate e d j w) = bw_messages w"
  "bw_messages (route_next isof sessions tid oid now j w) = bw_messages w"
  "bw_messages (reported isof sessions tid oid now j w) = bw_messages w"
proof -
  show l: "bw_messages (route_to_leader isof sessions tid oid now e d j w) = bw_messages w" for e d j w
    by (simp add: route_to_leader_def case_prod_beta Let_def split: option.split sum.split)
  show t: "bw_messages (route_to_teammate e d j w) = bw_messages w" for e d j w
    by (simp add: route_to_teammate_def split: option.split sum.split)
  show n: "bw_messages (route_next isof sessions tid oid now j w) = bw_messages w" for j w
    by (simp add: route_next_def l t Let_def split: list.split)
  show "bw_messages (reported isof sessions tid oid now j w) = bw_messages w"
    by (simp add: reported_def n)
qed

lemma replay_messages [simp]:
  "bw_messages (replay_pending_leader_messages isof sessions tid oid now jid sid opening w) = bw_messages w"
  "bw_messages (session_opened isof sessions tid oid now jid sid queued w) = bw_messages w"
  by (simp_all add: replay_pending_leader_messages_def session_opened_def case_prod_beta Let_def split: option.split)

lemma sent_messages:
  "bw_messages (snd (publish_and_route isof sessions tid oid now jid t e w)) =
     (case publish_envelope e (bw_messages w) of Inl i \<Rightarrow> bw_messages w | Inr s \<Rightarrow> s)"
  by (simp add: publish_and_route_def split: sum.split)

text \<open>A step that sends publishes a message whose deliveries are all pending, or leaves the store.\<close>

definition published :: "message_store \<Rightarrow> message_store \<Rightarrow> bool" where
  "published s s' \<longleftrightarrow> s' = s \<or> (\<exists>e. publish_envelope e s = Inr s' \<and> list_all delivery_pending (ten_deliveries e))"

lemma published_sent:
  "list_all delivery_pending (ten_deliveries e) \<Longrightarrow>
   published (bw_messages w) (bw_messages (snd (publish_and_route isof sessions tid oid now jid t e w)))"
  by (auto simp: published_def sent_messages split: sum.split)

lemma public_published:
  "published (bw_messages w) (bw_messages (snd (send_public_message isof sessions mid dids tid oid now jid sid ext recipient content w)))"
proof -
  have pending: "list_all delivery_pending (ten_deliveries (public_envelope mid dids now t sender kind recipient content ms))" for t sender kind ms
    by (simp add: public_envelope_def list_all_iff delivery_for_def delivery_pending_def case_prod_beta)
  let ?s = "snd (resolve_actor sid ext (bus_teams w))"
  have "published (bw_messages w) (bw_messages (snd (publish_and_route isof sessions tid oid now jid t
      (public_envelope mid dids now t sender kind recipient content ms) (set_bus_teams ?s w))))" for t sender kind ms
    using published_sent [OF pending, of "set_bus_teams ?s w"] by simp
  then show ?thesis
    by (simp add: send_public_message_def case_prod_beta Let_def published_def split: option.split sum.split)
qed

lemma control_published:
  "published (bw_messages w) (bw_messages (snd (send_control_message isof sessions mid did cid tid oid now jid m w)))"
proof -
  have "published (bw_messages w) (bw_messages (snd (publish_and_route isof sessions tid oid now jid t
      (control_envelope mid did cid now tid' correlation sender recipient control_type payload) w)))"
    for t tid' correlation sender recipient control_type payload
    by (rule published_sent) (simp add: control_envelope_def delivery_for_def delivery_pending_def)
  then show ?thesis by (simp add: send_control_message_def case_prod_beta Let_def published_def split: sum.split)
qed

text \<open>What a step does to the messages.\<close>

lemma bus_step_messages:
  assumes "bus_moves isof r w w'"
  shows "case r of
      None \<Rightarrow> published (bw_messages w) (bw_messages w')
    | Some r \<Rightarrow> (case receipt_delivery r of
        None \<Rightarrow> bw_messages w' = bw_messages w
      | Some (tid, mid, did) \<Rightarrow> \<exists>now. bw_messages w' = snd (acknowledge_delivery now tid mid did (bw_messages w)))"
  using assms
proof cases
  case handles
  then show ?thesis by (auto simp: acknowledge_team_delivery_def split: option.split)
qed (simp_all add: public_published control_published, simp_all add: published_def)

subsection \<open>What is published stays\<close>

definition settle_delivery :: "time \<Rightarrow> string \<Rightarrow> team_envelope \<Rightarrow> team_envelope" where
  "settle_delivery now did e = e\<lparr>ten_deliveries := map (\<lambda>d. if awaits did d then mark_delivered now d else d) (ten_deliveries e)\<rparr>"

lemma settle_simps [simp]:
  "ten_id (settle_delivery now did e) = ten_id e" "ten_team (settle_delivery now did e) = ten_team e" "envelope_key (settle_delivery now did e) = envelope_key e"
  "ten_created_at (settle_delivery now did e) = ten_created_at e"
  "ten_deliveries (settle_delivery now did e) = map (\<lambda>d. if awaits did d then mark_delivered now d else d) (ten_deliveries e)"
  by (simp_all add: settle_delivery_def envelope_key_def)

lemma settle_none: "\<not> list_ex (awaits did) (ten_deliveries e) \<Longrightarrow> settle_delivery now did e = e"
proof -
  assume "\<not> list_ex (awaits did) (ten_deliveries e)"
  then have "map (\<lambda>d. if awaits did d then mark_delivered now d else d) (ten_deliveries e) = ten_deliveries e"
    by (simp add: list_ex_iff map_idI)
  then show ?thesis by (simp add: settle_delivery_def)
qed

lemma acknowledged:
  assumes "keyed_store s"
  shows "keyed_store (snd (acknowledge_delivery now tid mid did s))"
    "map_of (snd (acknowledge_delivery now tid mid did s)) =
      (map_of s)((tid, mid) := map_option (settle_delivery now did) (map_of s (tid, mid)))"
proof -
  have "keyed_store (snd (acknowledge_delivery now tid mid did s)) \<and> map_of (snd (acknowledge_delivery now tid mid did s)) =
      (map_of s)((tid, mid) := map_option (settle_delivery now did) (map_of s (tid, mid)))"
  proof (cases "map_of s (tid, mid)")
    case (Some e)
    then have key: "envelope_key (settle_delivery now did e) = (tid, mid)" using keyed_store_lookup [OF assms] by simp
    show ?thesis
    proof (cases "list_ex (awaits did) (ten_deliveries e)")
      case True
      then have "acknowledge_delivery now tid mid did s = (True, AList.update (tid, mid) (settle_delivery now did e) s)"
        using Some key by (simp add: acknowledge_delivery_def load_envelope_def save_envelope_def settle_delivery_def)
      then show ?thesis using Some keyed_store_update [OF assms, of "settle_delivery now did e"] key by (simp add: map_of_update)
    qed (use Some assms in \<open>simp add: acknowledge_delivery_def load_envelope_def settle_none fun_upd_idem\<close>)
  qed (use assms in \<open>simp add: acknowledge_delivery_def load_envelope_def fun_upd_idem\<close>)
  then show "keyed_store (snd (acknowledge_delivery now tid mid did s))"
    "map_of (snd (acknowledge_delivery now tid mid did s)) =
      (map_of s)((tid, mid) := map_option (settle_delivery now did) (map_of s (tid, mid)))" by simp_all
qed

lemma published_held:
  assumes "published s s'" "keyed_store s"
  shows "keyed_store s'" "map_of s k = Some e \<Longrightarrow> map_of s' k = Some e"
    "map_of s' k = Some e \<Longrightarrow> map_of s k = None \<Longrightarrow> list_all delivery_pending (ten_deliveries e)"
  using assms unfolding published_def publish_envelope_def
  by (auto simp: keyed_store_update map_of_update split: if_splits)

definition delivery_settles :: "team_delivery \<Rightarrow> team_delivery \<Rightarrow> bool" where
  "delivery_settles d d' \<longleftrightarrow> d' = d \<or> delivery_pending d \<and> (\<exists>now. d' = mark_delivered now d)"

definition envelope_settles :: "team_envelope \<Rightarrow> team_envelope \<Rightarrow> bool" where
  "envelope_settles e e' \<longleftrightarrow>
     e' = e\<lparr>ten_deliveries := ten_deliveries e'\<rparr> \<and> list_all2 delivery_settles (ten_deliveries e) (ten_deliveries e')"

lemma mark_pending [simp]: "\<not> delivery_pending (mark_delivered now d)"
  by (simp add: mark_delivered_def delivery_pending_def)

lemma envelope_settles_refl: "envelope_settles e e"
  by (simp add: envelope_settles_def delivery_settles_def list_all2_same)

lemma envelope_settles_trans:
  assumes "envelope_settles e e'" "envelope_settles e' e''"
  shows "envelope_settles e e''"
proof -
  have step: "delivery_settles a c" if "delivery_settles a b" "delivery_settles b c" for a b c
    using that by (auto simp: delivery_settles_def)
  have "list_all2 delivery_settles (ten_deliveries e) (ten_deliveries e')" "list_all2 delivery_settles (ten_deliveries e') (ten_deliveries e'')"
    using assms by (simp_all add: envelope_settles_def)
  then have "list_all2 delivery_settles (ten_deliveries e) (ten_deliveries e'')"
    using step by (auto simp: list_all2_conv_all_nth)
  then show ?thesis using assms unfolding envelope_settles_def by (metis team_envelope.update_convs(7) team_envelope.surjective)
qed

lemma settle_settles: "envelope_settles e (settle_delivery now did e)"
  by (auto simp: envelope_settles_def settle_delivery_def list_all2_conv_all_nth delivery_settles_def awaits_def)

text \<open>What a store holds of a message after a run, and whose receipts were handled.\<close>

definition receipt_names :: "completion_receipt list \<Rightarrow> string \<Rightarrow> string \<Rightarrow> string \<Rightarrow> bool" where
  "receipt_names rs tid mid did \<longleftrightarrow> Some (tid, mid, did) \<in> receipt_delivery ` set rs"

definition only_acknowledged :: "completion_receipt list \<Rightarrow> message_store \<Rightarrow> bool" where
  "only_acknowledged rs s \<longleftrightarrow> (\<forall>tid mid e d. map_of s (tid, mid) = Some e \<longrightarrow> d \<in> set (ten_deliveries e) \<longrightarrow>
     delivery_pending d \<or> receipt_names rs tid mid (tdl_id d))"

lemma only_acknowledged_more: "only_acknowledged rs s \<Longrightarrow> only_acknowledged (rs @ xs) s"
  unfolding only_acknowledged_def receipt_names_def set_append image_Un by blast

lemma bus_step_held:
  assumes "bus_moves isof r w w'" "keyed_store (bw_messages w)"
  shows "keyed_store (bw_messages w')"
    "map_of (bw_messages w) k = Some e \<Longrightarrow> \<exists>e'. map_of (bw_messages w') k = Some e' \<and> envelope_settles e e'"
    "only_acknowledged rs (bw_messages w) \<Longrightarrow>
       only_acknowledged (rs @ (case r of None \<Rightarrow> [] | Some r \<Rightarrow> [r])) (bw_messages w')"
proof -
  note step = bus_step_messages [OF assms(1)]
  have "keyed_store (bw_messages w') \<and>
    (\<forall>k e. map_of (bw_messages w) k = Some e \<longrightarrow> (\<exists>e'. map_of (bw_messages w') k = Some e' \<and> envelope_settles e e')) \<and>
    (only_acknowledged rs (bw_messages w) \<longrightarrow>
       only_acknowledged (rs @ (case r of None \<Rightarrow> [] | Some r \<Rightarrow> [r])) (bw_messages w'))"
  proof (cases r)
    case None
    then have p: "published (bw_messages w) (bw_messages w')" using step by simp
    have "only_acknowledged rs (bw_messages w')" if "only_acknowledged rs (bw_messages w)"
      using that published_held(2,3) [OF p assms(2)] unfolding only_acknowledged_def list_all_iff by (metis option.exhaust option.inject)
    then show ?thesis using None published_held(1,2) [OF p assms(2)] envelope_settles_refl by auto
  next
    case (Some x)
    show ?thesis
    proof (cases "receipt_delivery x")
      case None
      then have "bw_messages w' = bw_messages w" using step Some by simp
      then show ?thesis using assms(2) envelope_settles_refl Some by (auto intro: only_acknowledged_more)
    next
      case (Some z)
      obtain tid mid did where z: "z = (tid, mid, did)" by (cases z)
      then obtain now where w': "bw_messages w' = snd (acknowledge_delivery now tid mid did (bw_messages w))"
        using step Some \<open>r = Some x\<close> by auto
      note ack = acknowledged [OF assms(2), of now tid mid did]
      have "only_acknowledged (rs @ [x]) (bw_messages w')" if "only_acknowledged rs (bw_messages w)"
        using that Some z unfolding w' only_acknowledged_def ack(2) receipt_names_def
        by (fastforce simp: awaits_def mark_delivered_def split: if_splits)
      then show ?thesis using \<open>r = Some x\<close> ack envelope_settles_refl settle_settles by (auto simp: w')
    qed
  qed
  then show "keyed_store (bw_messages w')"
    "map_of (bw_messages w) k = Some e \<Longrightarrow> \<exists>e'. map_of (bw_messages w') k = Some e' \<and> envelope_settles e e'"
    "only_acknowledged rs (bw_messages w) \<Longrightarrow>
       only_acknowledged (rs @ (case r of None \<Rightarrow> [] | Some r \<Rightarrow> [r])) (bw_messages w')" by blast+
qed

lemma bus_run_held:
  assumes "bus_run isof rs w w'" "keyed_store (bw_messages w)"
  shows "keyed_store (bw_messages w') \<and>
    (\<forall>k e. map_of (bw_messages w) k = Some e \<longrightarrow> (\<exists>e'. map_of (bw_messages w') k = Some e' \<and> envelope_settles e e')) \<and>
    (only_acknowledged [] (bw_messages w) \<longrightarrow> only_acknowledged rs (bw_messages w'))"
  using assms
proof induction
  case run_none
  then show ?case using envelope_settles_refl by blast
next
  case (run_more rs w w' r w'')
  then have keyed: "keyed_store (bw_messages w')" by blast
  note step = bus_step_held [OF run_more.hyps(2) keyed]
  have "\<exists>e'. map_of (bw_messages w'') k = Some e' \<and> envelope_settles e e'" if "map_of (bw_messages w) k = Some e" for k e
    using run_more.IH [OF run_more.prems] that step(2) envelope_settles_trans by meson
  then show ?case using run_more.IH [OF run_more.prems] step(1,3) by blast
qed

lemma new_bus_store [simp]: "keyed_store (bw_messages (new_bus_world y bound))" "only_acknowledged rs (bw_messages (new_bus_world y bound))"
  by (simp_all add: new_bus_world_def keyed_store_def only_acknowledged_def)

text \<open>A published message stays in the store as it was sent, whatever happens after: of each of its deliveries
  only the mark that it was delivered is set, at most once.\<close>

theorem published_message_stays:
  assumes "bus_run isof rs (new_bus_world y bound) w" "load_envelope tid mid (bw_messages w) = Some e" "bus_run isof rs' w w'"
  shows "\<exists>e'. load_envelope tid mid (bw_messages w') = Some e' \<and> envelope_settles e e'"
  using bus_run_held [OF assms(1)] bus_run_held [OF assms(3)] assms(2) by (simp add: load_envelope_def)

text \<open>C22: A delivery is marked delivered only when the receipt that names it has been handled: sending, routing and
  replaying never do it.\<close>

theorem delivered_only_acknowledged:
  assumes "bus_run isof rs (new_bus_world y bound) w" "load_envelope tid mid (bw_messages w) = Some e" "d \<in> set (ten_deliveries e)"
    "\<not> delivery_pending d"
  shows "receipt_names rs tid mid (tdl_id d)"
proof -
  have "only_acknowledged rs (bw_messages w)" using bus_run_held [OF assms(1)] by simp
  then show ?thesis using assms(2-4) unfolding only_acknowledged_def load_envelope_def by blast
qed

subsection \<open>The leader's session takes the event\<close>

lemma admitted_event:
  assumes "py_get (ie_metadata ev) ''admission_kind'' = PStr ''admit_turn''" "py_get (ie_metadata ev) ''role'' = PStr ''user''"
    "py_get (ie_metadata ev) ''transcript_visible'' = PNone" "py_get (ie_metadata ev) ''replay_outputs'' = PNone"
    "py_get (ie_metadata ev) ''replay_text'' = PNone"
  shows "\<exists>r. process_event fresh now services session ev = Inr r \<and> ir_kind r = Admit_Turn \<and>
    ir_receipts r = build_completion_receipts (ie_metadata ev)"
proof -
  have "resolve_admission_kind (ie_type ev) (ie_metadata ev) = (Admit_Turn, None)"
    by (simp add: resolve_admission_kind_def assms(1) admission_of_def)
  moreover have "resolve_message_role (ie_type ev) (ie_metadata ev) = Inr Role_User"
    by (simp add: resolve_message_role_def assms(2) role_of_def)
  then have "\<exists>m. build_normalized_messages fresh now ev Admit_Turn = Inr [m]"
    by (simp add: build_normalized_messages_def wants_transcript_entry_def assms(3) Let_def)
  moreover have "build_replay_outputs fresh ev Admit_Turn = Inr []"
    by (simp add: build_replay_outputs_def assms(4,5))
  ultimately show ?thesis by (auto simp: process_event_def result_of_kind_def validate_result_def Let_def)
qed

lemma replayed_event:
  assumes "py_get (ie_metadata ev) ''admission_kind'' = PStr ''replay_only''"
    "py_get (ie_metadata ev) ''replay_outputs'' = PList [PDict d]" "py_get d ''role'' = PStr ''notification''"
  shows "\<exists>r. process_event fresh now services session ev = Inr r \<and> ir_kind r = Replay_Only \<and>
    ir_receipts r = build_completion_receipts (ie_metadata ev)"
proof -
  have "resolve_admission_kind (ie_type ev) (ie_metadata ev) = (Replay_Only, None)"
    by (simp add: resolve_admission_kind_def assms(1) admission_of_def)
  moreover have "build_normalized_messages fresh now ev Replay_Only = Inr []"
    by (simp add: build_normalized_messages_def)
  moreover have "\<exists>r. build_replay_outputs fresh ev Replay_Only = Inr [r]"
    by (simp add: build_replay_outputs_def assms(2,3) raw_replay_output_def role_of_def)
  ultimately show ?thesis by (auto simp: process_event_def result_of_kind_def validate_result_def Let_def)
qed

definition taken_with_receipt :: "team \<Rightarrow> team_envelope \<Rightarrow> team_delivery \<Rightarrow> inbound_event \<Rightarrow> bool" where
  "taken_with_receipt t e d ev \<longleftrightarrow> py_get (ie_metadata ev) ''completion_receipts'' = receipts_of t e d \<and>
     (\<forall>fresh now services session. \<exists>r. process_event fresh now services session ev = Inr r \<and> ir_kind r \<in> {Admit_Turn, Replay_Only} \<and>
        ir_receipts r = build_completion_receipts (ie_metadata ev))"

lemma admitted_taken:
  assumes "py_get (ie_metadata ev) ''completion_receipts'' = receipts_of t e d"
    "py_get (ie_metadata ev) ''admission_kind'' = PStr ''admit_turn''" "py_get (ie_metadata ev) ''role'' = PStr ''user''"
    "py_get (ie_metadata ev) ''transcript_visible'' = PNone" "py_get (ie_metadata ev) ''replay_outputs'' = PNone"
    "py_get (ie_metadata ev) ''replay_text'' = PNone"
  shows "taken_with_receipt t e d ev"
  unfolding taken_with_receipt_def using assms(1) admitted_event [OF assms(2-6)] by fastforce

lemma replayed_taken:
  assumes "py_get (ie_metadata ev) ''completion_receipts'' = receipts_of t e d"
    "py_get (ie_metadata ev) ''admission_kind'' = PStr ''replay_only''"
    "\<exists>x. py_get (ie_metadata ev) ''replay_outputs'' = PList [PDict x] \<and> py_get x ''role'' = PStr ''notification''"
  shows "taken_with_receipt t e d ev"
proof -
  obtain x where "py_get (ie_metadata ev) ''replay_outputs'' = PList [PDict x]" "py_get x ''role'' = PStr ''notification''"
    using assms(3) by blast
  from replayed_event [OF assms(2) this] show ?thesis unfolding taken_with_receipt_def using assms(1) by fastforce
qed

lemma events_taken:
  "taken_with_receipt t e d (request_event t e d ct p priority)" "taken_with_receipt t e d (response_event oid t e d ct rp)"
  "taken_with_receipt t e d (control_event oid t e d ct)" "taken_with_receipt t e d (public_event t e d)"
proof -
  show "taken_with_receipt t e d (request_event t e d ct p priority)"
    by (rule admitted_taken) (simp_all add: request_event_def py_get_def Let_def)
  show "taken_with_receipt t e d (public_event t e d)"
    by (rule admitted_taken) (simp_all add: public_event_def py_get_def)
  show "taken_with_receipt t e d (control_event oid t e d ct)"
    by (rule replayed_taken) (simp_all add: control_event_def py_get_def)
  show "taken_with_receipt t e d (response_event oid t e d ct rp)"
    by (rule replayed_taken) (simp_all add: response_event_def py_get_def Let_def case_prod_beta)
qed

lemma leader_event_taken:
  "fst (leader_ingress_event isof tid oid now bound t e d y) = Inr ev \<Longrightarrow> taken_with_receipt t e d ev"
  by (auto simp: leader_ingress_event_def informed_event_def case_prod_beta Let_def events_taken result_simps
      split: if_splits sum.splits option.splits)

subsection \<open>The receipt settles the delivery\<close>

lemma insort_key_map: "(\<And>x. f (g x) = f x) \<Longrightarrow> insort_key f (g x) (map g xs) = map g (insort_key f x xs)"
  by (induction xs) auto

lemma sort_key_map: "(\<And>x. f (g x) = f x) \<Longrightarrow> sort_key f (map g xs) = map g (sort_key f xs)"
  by (induction xs) (simp_all add: insort_key_map)

definition settle_message :: "time \<Rightarrow> string \<Rightarrow> string \<Rightarrow> team_envelope \<Rightarrow> team_envelope" where
  "settle_message now mid did e = (if ten_id e = mid then settle_delivery now did e else e)"

lemma settled_recipients:
  "list_ex (\<lambda>d. tdl_recipient d = m) (map (\<lambda>d. if awaits did d then mark_delivered now d else d) ds) = list_ex (\<lambda>d. tdl_recipient d = m) ds"
  by (induction ds) (auto simp: mark_delivered_def)

lemma settle_message_simps [simp]:
  "ten_id (settle_message now mid did e) = ten_id e" "ten_created_at (settle_message now mid did e) = ten_created_at e"
  "addressed_to r (settle_message now mid did e) = addressed_to r e"
  by (simp_all add: settle_message_def addressed_to_def settled_recipients split: option.split)

lemma listed_settled:
  assumes "keyed_store s"
  shows "list_messages tid r (snd (acknowledge_delivery now tid mid did s)) = map (settle_message now mid did) (list_messages tid r s)"
proof -
  let ?m = "map_of s" and ?m' = "(map_of s)((tid, mid) := map_option (settle_delivery now did) (map_of s (tid, mid)))"
  note ack = acknowledged [OF assms, of now tid mid did]
  have ids: "team_ids tid ?m' = team_ids tid ?m" by (auto simp: team_ids_def)
  have fin: "finite (team_ids tid ?m)"
    by (rule finite_subset [where B = "snd ` dom (map_of s)"]) (force simp: team_ids_def, simp add: finite_dom_map_of)
  have each: "the (?m' (tid, i)) = settle_message now mid did (the (?m (tid, i)))" if held: "i \<in> team_ids tid ?m" for i
  proof -
    obtain e where e: "map_of s (tid, i) = Some e" using held by (auto simp: team_ids_def)
    then have "ten_id e = i" using keyed_store_lookup [OF assms] by (fastforce simp: envelope_key_def)
    then show ?thesis using e by (auto simp: settle_message_def)
  qed
  have "map (\<lambda>i. the (?m' (tid, i))) (sorted_list_of_set (team_ids tid ?m)) =
      map (settle_message now mid did) (map (\<lambda>i. the (?m (tid, i))) (sorted_list_of_set (team_ids tid ?m)))"
    using fin each by (simp only: map_map o_def map_eq_conv set_sorted_list_of_set ball_simps) blast
  then have "team_messages tid r ?m' = map (settle_message now mid did) (team_messages tid r ?m)"
    unfolding team_messages_def ids sort_envelopes_def
    by (simp only: filter_map sort_key_map [of _ "settle_message now mid did"] settle_message_simps o_def)
  then show ?thesis using ack by (simp add: messages_listed assms)
qed

definition pending_ids :: "string \<Rightarrow> string \<Rightarrow> message_store \<Rightarrow> (string \<times> string) list" where
  "pending_ids tid leader s = map (\<lambda>(e, d). (ten_id e, tdl_id d)) (pending_leader_messages tid leader s)"

lemma pending_settled:
  assumes "keyed_store s"
  shows "pending_ids tid leader (snd (acknowledge_delivery now tid mid did s)) =
    filter (\<lambda>k. k \<noteq> (mid, did)) (pending_ids tid leader s)"
proof -
  have one: "map (\<lambda>d. (ten_id e, tdl_id d)) (filter (leader_pending leader) (ten_deliveries (settle_message now mid did e))) =
      filter (\<lambda>k. k \<noteq> (mid, did)) (map (\<lambda>d. (ten_id e, tdl_id d)) (filter (leader_pending leader) (ten_deliveries e)))" for e
  proof -
    have same: "map (\<lambda>d. (mid, tdl_id d)) (filter (leader_pending leader) (map (\<lambda>d. if awaits did d then mark_delivered now d else d) ds)) =
        filter (\<lambda>k. k \<noteq> (mid, did)) (map (\<lambda>d. (mid, tdl_id d)) (filter (leader_pending leader) ds))" for ds
      by (induction ds) (auto simp: leader_pending_def awaits_def)
    have other: "filter (\<lambda>k. k \<noteq> (mid, did)) (map (\<lambda>d. (ten_id e, tdl_id d)) ds) = map (\<lambda>d. (ten_id e, tdl_id d)) ds" if "ten_id e \<noteq> mid" for ds :: "team_delivery list"
      using that by (induction ds) auto
    show ?thesis
    proof (cases "ten_id e = mid")
      case True
      then show ?thesis using same [of "ten_deliveries e"] by (simp only: settle_message_def settle_simps if_True simp_thms)
    next
      case False
      then show ?thesis using other [OF False] by (simp only: settle_message_def if_False)
    qed
  qed
  have "pending_ids tid leader s' =
      concat (map (\<lambda>e. map (\<lambda>d. (ten_id e, tdl_id d)) (filter (leader_pending leader) (ten_deliveries e))) (list_messages tid (Some leader) s'))" for s'
    by (simp add: pending_ids_def pending_leader_messages_def map_concat o_def)
  then show ?thesis by (simp add: listed_settled [OF assms] filter_concat o_def one)
qed

text \<open>C20: Whatever message is routed to the leader, the session's ingress takes its event, as a turn or as an output of
  the host, and handling the receipts of the result settles that delivery and no other: the replay no longer has it.\<close>

theorem leader_message_settles:
  assumes "bus_run isof rs (new_bus_world y0 bound) w" "fst (leader_ingress_event isof tid oid now bound t e d y) = Inr ev"
    "list_all plain_id [tm_id t, ten_id e, tdl_id d]"
  shows "\<exists>r. process_event fresh now' services session ev = Inr r \<and> ir_kind r \<in> {Admit_Turn, Replay_Only} \<and>
    pending_ids (tm_id t) leader (bw_messages (fold (acknowledge_team_delivery now'') (ir_receipts r) w)) =
      filter (\<lambda>k. k \<noteq> (ten_id e, tdl_id d)) (pending_ids (tm_id t) leader (bw_messages w))"
proof -
  have keyed: "keyed_store (bw_messages w)" using bus_run_held [OF assms(1)] by simp
  have ids: "strip (tm_id t) = tm_id t" "tm_id t \<noteq> []" "strip (ten_id e) = ten_id e" "ten_id e \<noteq> []"
    "strip (tdl_id d) = tdl_id d" "tdl_id d \<noteq> []" using assms(3) by (simp_all add: plain_id_def)
  note taken = leader_event_taken [OF assms(2)]
  then obtain r where r: "process_event fresh now' services session ev = Inr r" "ir_kind r \<in> {Admit_Turn, Replay_Only}"
    "ir_receipts r = build_completion_receipts (ie_metadata ev)" unfolding taken_with_receipt_def by blast
  let ?receipt = "\<lparr>cr_id = tdl_id d, cr_kind = ''weavert.team.delivery_ack'',
     cr_payload = PDict [(''team_id'', PStr (tm_id t)), (''message_id'', PStr (ten_id e)), (''delivery_id'', PStr (tdl_id d))]\<rparr>"
  have "strip ''weavert.team.delivery_ack'' = ''weavert.team.delivery_ack''" by code_simp
  then have "coerce_receipt (delivery_ack_receipt (tm_id t) (ten_id e) (tdl_id d)) = Some ?receipt"
    using ids by (simp add: coerce_receipt_def delivery_ack_receipt_def py_get_def str_or_text_def py_or_def Let_def)
  then have "ir_receipts r = [?receipt]"
    using r(3) taken by (simp add: taken_with_receipt_def receipts_of_def build_completion_receipts_def List.map_filter_def)
  moreover have "receipt_delivery ?receipt = Some (tm_id t, ten_id e, tdl_id d)"
    using ids by (simp add: receipt_delivery_def py_get_def)
  ultimately have "bw_messages (fold (acknowledge_team_delivery now'') (ir_receipts r) w) =
      snd (acknowledge_delivery now'' (tm_id t) (ten_id e) (tdl_id d) (bw_messages w))"
    by (simp add: acknowledge_team_delivery_def)
  then show ?thesis using r pending_settled [OF keyed] by auto
qed

end
