(* ===== verification/Team_Message_Routing.thy ===== *)
theory Team_Message_Routing
  imports Team_Message_Props Team_Control_Props
begin

text \<open>
  Where the messages of the bus arrive when nothing intervenes: a session that opens is handed every pending message of
  its team's leader, and a broadcast reaches every other live member.  The conditions under which a message cannot be
  routed are the ones the last section is about.
\<close>

subsection \<open>A job to its end\<close>

definition resume_flight ::
  "(time \<Rightarrow> string) \<Rightarrow> (string \<Rightarrow> string option) \<Rightarrow> string \<Rightarrow> string \<Rightarrow> time \<Rightarrow> bus_flight \<Rightarrow> bus_world \<Rightarrow> bus_world" where
  "resume_flight isof sessions tid oid now f w =
     (case f of
        Submitting status e d j \<Rightarrow> submitted None (status = ''waiting'') status e d j w
      | Dispatching m e d j \<Rightarrow> accepted None m e d j w
      | Reporting j \<Rightarrow> reported isof sessions tid oid now j w)"

text \<open>The fuel is the number of awaits: two for each delivery are enough.\<close>

fun play_job ::
  "(time \<Rightarrow> string) \<Rightarrow> (string \<Rightarrow> string option) \<Rightarrow> (nat \<Rightarrow> string) \<Rightarrow> (nat \<Rightarrow> string) \<Rightarrow> time \<Rightarrow> nat \<Rightarrow> bus_world \<Rightarrow> bus_world" where
  "play_job isof sessions tids oids now 0 w = w"
| "play_job isof sessions tids oids now (Suc n) w =
     (case bw_flights w of
        [f] \<Rightarrow> play_job isof sessions tids oids now n (resume_flight isof sessions (tids n) (oids n) now f w)
      | _ \<Rightarrow> w)"

lemma play_stopped [simp]: "bw_flights w = [] \<Longrightarrow> play_job isof sessions tids oids now n w = w"
  by (cases n) simp_all

definition to_leader :: "bus_job \<Rightarrow> team_envelope \<times> team_delivery \<Rightarrow> bool" where
  "to_leader j x \<longleftrightarrow> bj_replaying j \<or> tdl_role (snd x) = TR_Leader"

definition target_session :: "(string \<Rightarrow> string option) \<Rightarrow> bus_job \<Rightarrow> string option" where
  "target_session sessions j =
     (case bj_opening j of
        Some sid \<Rightarrow> Some sid
      | None \<Rightarrow> if sessions (tm_leader_session (bj_team j)) = None then None else Some (tm_leader_session (bj_team j)))"

text \<open>A message whose protocol can be read.\<close>

definition readable_message :: "team_envelope \<Rightarrow> bool" where
  "readable_message e \<longleftrightarrow> ten_kind e = MK_Control \<longrightarrow>
     \<not> isl (parse_request_protocol (PDict (ten_metadata e))) \<and> \<not> isl (parse_response_protocol (PDict (ten_metadata e))) \<and>
     (\<forall>k. \<not> isl (int_or_default (py_get (ten_metadata e) ''workflow_priority'') (workflow_priority k)))"

definition routable :: "team_store \<Rightarrow> bus_job \<Rightarrow> team_envelope \<times> team_delivery \<Rightarrow> bool" where
  "routable s j x \<longleftrightarrow> readable_message (fst x) \<and>
     (to_leader j x \<or> map_option ter_id (live_member s (tm_id (bj_team j)) (tdl_recipient (snd x))) = Some (tdl_recipient (snd x)))"

lemma readable_event:
  assumes "readable_message e"
  shows "\<exists>ev. fst (leader_ingress_event isof tid oid now bound t e d y) = Inr ev"
proof (cases "ten_kind e = MK_Control")
  case True
  then have r: "\<not> isl (parse_request_protocol (PDict (ten_metadata e)))" "\<not> isl (parse_response_protocol (PDict (ten_metadata e)))"
    "\<And>k. \<not> isl (int_or_default (py_get (ten_metadata e) ''workflow_priority'') (workflow_priority k))"
    using assms by (simp_all add: readable_message_def)
  obtain q where q: "parse_request_protocol (PDict (ten_metadata e)) = Inr q" using r(1) by (metis sum.collapse(2))
  obtain a where a: "parse_response_protocol (PDict (ten_metadata e)) = Inr a" using r(2) by (metis sum.collapse(2))
  have i: "\<exists>i. int_or_default (py_get (ten_metadata e) ''workflow_priority'') (workflow_priority k) = Inr i" for k
    using r(3) [of k] by (metis sum.collapse(2))
  have "\<exists>ev. informed_event oid t e d = Inr ev" by (simp add: informed_event_def a)
  moreover have "\<exists>ev. rbind (int_or_default (py_get (ten_metadata e) ''workflow_priority'') (workflow_priority k)) (\<lambda>p. Inr (f p)) = Inr ev"
    for k and f :: "int \<Rightarrow> inbound_event"
    using i [of k] by auto
  ultimately show ?thesis using True q
    by (cases q) (simp_all add: leader_ingress_event_def case_prod_beta Let_def)
qed (simp add: leader_ingress_event_def)

lemma readable_prompt:
  assumes "readable_message e"
  shows "\<exists>p. teammate_prompt e = Inr p"
proof (cases "ten_kind e = MK_Control")
  case True
  then obtain q a where "parse_request_protocol (PDict (ten_metadata e)) = Inr q" "parse_response_protocol (PDict (ten_metadata e)) = Inr a"
    using assms unfolding readable_message_def by (metis sum.collapse(2))
  then show ?thesis using True by (simp add: teammate_prompt_def split: option.split)
qed (simp add: teammate_prompt_def)

lemma get_workflow_teams [simp]: "ww_teams (snd (get_workflow isof tid now i y)) = ww_teams y"
  by (simp add: get_workflow_def refresh_record_deadline_def schedule_deadline_def cancel_deadline_def store_record_def
      case_prod_beta Let_def split: option.split)

lemma leader_event_teams [simp]: "ww_teams (snd (leader_ingress_event isof tid oid now bound t e d y)) = ww_teams y"
  by (simp add: leader_ingress_event_def workflow_request_is_actionable_def case_prod_beta Let_def split: sum.split option.split)

subsection \<open>One delivery\<close>

text \<open>What has been added between two worlds: events for sessions, dispatches and nothing else.\<close>

definition bus_added :: "bus_world \<Rightarrow> (string \<times> inbound_event) list \<Rightarrow> dispatched list \<Rightarrow> bus_world \<Rightarrow> bool" where
  "bus_added w hs ds w' \<longleftrightarrow> bw_messages w' = bw_messages w \<and> bus_teams w' = bus_teams w \<and> bw_flights w' = bw_flights w \<and>
     bw_ended w' = bw_ended w \<and> bw_handed w' = bw_handed w @ hs \<and> bw_dispatched w' = bw_dispatched w @ ds"

lemma bus_added_trans: "bus_added w hs ds w' \<Longrightarrow> bus_added w' hs' ds' w'' \<Longrightarrow> bus_added w (hs @ hs') (ds @ ds') w''"
  by (simp add: bus_added_def)

lemma flight_simps [simp]:
  "bw_flights (add_bus_flight f w) = bw_flights w @ [f]" "bw_flights (drop_bus_flight f w) = remove1 f (bw_flights w)"
  "bw_flights (hand_event sid ev w) = bw_flights w" "bw_flights (end_job j r w) = bw_flights w"
  "bw_flights (leader_told drained status e d j w) = bw_flights w @ [Reporting j]"
  "bw_flights (teammate_told m e d j w) = bw_flights w @ [Reporting j]"
  by (simp_all add: add_bus_flight_def drop_bus_flight_def hand_event_def end_job_def leader_told_def teammate_told_def emit_routed_def)

lemma added_simps:
  "bw_flights w = [] \<Longrightarrow> bus_added w [] [] (drop_bus_flight (Reporting j) (leader_told drained status e d j w))"
  "bw_flights w = [] \<Longrightarrow> bus_added w [] [] (drop_bus_flight (Reporting j) (teammate_told m e d j w))"
  "bw_flights w = [] \<Longrightarrow> bus_added w [] [] (drop_bus_flight f (add_bus_flight f w))"
  "bus_added w [(sid, ev)] [] (hand_event sid ev w)" "bus_added w [] [x] (w\<lparr>bw_dispatched := bw_dispatched w @ [x]\<rparr>)"
  "ww_teams y = bus_teams w \<Longrightarrow> bus_added w [] [] (w\<lparr>bw_work := y\<rparr>)"
  by (simp_all add: bus_added_def drop_bus_flight_def leader_told_def teammate_told_def emit_routed_def add_bus_flight_def hand_event_def)

definition job_goes_on ::
  "(time \<Rightarrow> string) \<Rightarrow> (string \<Rightarrow> string option) \<Rightarrow> (nat \<Rightarrow> string) \<Rightarrow> (nat \<Rightarrow> string) \<Rightarrow> time \<Rightarrow> bus_world \<Rightarrow> bus_job \<Rightarrow> bus_world \<Rightarrow> bool" where
  "job_goes_on isof sessions tids oids now w j w2 \<longleftrightarrow>
     (\<forall>n\<ge>2. \<exists>m tid oid. n \<le> m + 2 \<and> play_job isof sessions tids oids now n w =
        play_job isof sessions tids oids now m (route_next isof sessions tid oid now j w2))"

lemma reporting_goes_on:
  assumes "bw_flights w = [Reporting j]"
  shows "job_goes_on isof sessions tids oids now w j (drop_bus_flight (Reporting j) w)"
  unfolding job_goes_on_def
proof (intro allI impI)
  fix n :: nat assume "2 \<le> n"
  then obtain m where "n = Suc m" by (cases n) auto
  then have "play_job isof sessions tids oids now n w =
      play_job isof sessions tids oids now m (route_next isof sessions (tids m) (oids m) now j (drop_bus_flight (Reporting j) w))"
    using assms by (simp add: resume_flight_def reported_def)
  then show "\<exists>m tid oid. n \<le> m + 2 \<and> play_job isof sessions tids oids now n w =
      play_job isof sessions tids oids now m (route_next isof sessions tid oid now j (drop_bus_flight (Reporting j) w))"
    using \<open>n = Suc m\<close> by (intro exI [of _ m] exI [of _ "tids m"] exI [of _ "oids m"]) simp
qed

lemma awaiting_goes_on:
  assumes "bw_flights w = [f]" "\<And>tid oid. resume_flight isof sessions tid oid now f w = w1" "bw_flights w1 = [Reporting j]"
  shows "job_goes_on isof sessions tids oids now w j (drop_bus_flight (Reporting j) w1)"
  unfolding job_goes_on_def
proof (intro allI impI)
  fix n :: nat assume "2 \<le> n"
  then obtain m where "n = Suc (Suc m)" by (metis add_2_eq_Suc le_Suc_ex)
  then have "play_job isof sessions tids oids now n w =
      play_job isof sessions tids oids now m (route_next isof sessions (tids m) (oids m) now j (drop_bus_flight (Reporting j) w1))"
    using assms by (simp add: resume_flight_def [of _ _ _ _ _ "Reporting j"] reported_def)
  then show "\<exists>m tid oid. n \<le> m + 2 \<and> play_job isof sessions tids oids now n w =
      play_job isof sessions tids oids now m (route_next isof sessions tid oid now j (drop_bus_flight (Reporting j) w1))"
    using \<open>n = Suc (Suc m)\<close> by (intro exI [of _ m] exI [of _ "tids m"] exI [of _ "oids m"]) simp
qed

text \<open>An event for the session that is the one of this delivery.\<close>

definition handed_rightly :: "string \<Rightarrow> team \<Rightarrow> team_envelope \<times> team_delivery \<Rightarrow> string \<times> inbound_event \<Rightarrow> bool" where
  "handed_rightly sid t x h \<longleftrightarrow> fst h = sid \<and> taken_with_receipt t (fst x) (snd x) (snd h)"

lemma leader_step:
  assumes quiet: "bw_flights w = []" and ev: "readable_message e"
  shows "\<exists>w2 hs. bus_added w hs [] w2 \<and> job_goes_on isof sessions tids oids now (route_to_leader isof sessions tid oid now e d j w) j w2 \<and>
    list_all2 (handed_rightly (the (target_session sessions j)) (bj_team j)) (if target_session sessions j = None then [] else [(e, d)]) hs"
proof -
  obtain ev where ev: "fst (leader_ingress_event isof tid oid now (bw_workflows w) (bj_team j) e d (bw_work w)) = Inr ev"
    using readable_event [OF ev] by blast
  note taken = leader_event_taken [OF this]
  define u where "u = w\<lparr>bw_work := snd (leader_ingress_event isof tid oid now (bw_workflows w) (bj_team j) e d (bw_work w))\<rparr>"
  have u: "bus_added w [] [] u" "bw_flights u = []" using quiet added_simps(6) by (simp_all add: u_def)
  consider (given) sid where "bj_opening j = Some sid"
    | (offline) "bj_opening j = None" "sessions (tm_leader_session (bj_team j)) = None"
    | (online) st where "bj_opening j = None" "sessions (tm_leader_session (bj_team j)) = Some st" by force
  then show ?thesis
  proof cases
    case given
    let ?v = "hand_event sid ev u"
    have "route_to_leader isof sessions tid oid now e d j w = leader_told False ''session_open'' e d j ?v"
      using ev given by (simp add: route_to_leader_def u_def Let_def case_prod_beta)
    then have g: "job_goes_on isof sessions tids oids now (route_to_leader isof sessions tid oid now e d j w) j
        (drop_bus_flight (Reporting j) (leader_told False ''session_open'' e d j ?v))" using u(2) by (simp add: reporting_goes_on)
    have a: "bus_added w ([] @ ([(sid, ev)] @ [])) ([] @ ([] @ [])) (drop_bus_flight (Reporting j) (leader_told False ''session_open'' e d j ?v))"
      by (intro bus_added_trans [OF u(1)] bus_added_trans [OF added_simps(4)] added_simps(1)) (simp add: u(2))
    show ?thesis
      by (rule exI, rule exI [of _ "[(sid, ev)]"], intro conjI, use a in simp, rule g)
        (use given taken in \<open>simp add: target_session_def handed_rightly_def\<close>)
  next
    case offline
    have "route_to_leader isof sessions tid oid now e d j w = leader_told False ''offline'' e d j u"
      using ev offline by (simp add: route_to_leader_def u_def Let_def case_prod_beta)
    then have g: "job_goes_on isof sessions tids oids now (route_to_leader isof sessions tid oid now e d j w) j
        (drop_bus_flight (Reporting j) (leader_told False ''offline'' e d j u))" using u(2) by (simp add: reporting_goes_on)
    have a: "bus_added w ([] @ []) ([] @ []) (drop_bus_flight (Reporting j) (leader_told False ''offline'' e d j u))"
      by (intro bus_added_trans [OF u(1)] added_simps(1) u(2))
    show ?thesis
      by (rule exI, rule exI [of _ "[]"], intro conjI, use a in simp, rule g) (use offline in \<open>simp add: target_session_def\<close>)
  next
    case online
    let ?sid = "tm_leader_session (bj_team j)"
    let ?v = "hand_event ?sid ev u" and ?f = "Submitting st e d j"
    let ?w1 = "leader_told (st = ''waiting'') st e d j (drop_bus_flight ?f (add_bus_flight ?f ?v))"
    have "route_to_leader isof sessions tid oid now e d j w = add_bus_flight ?f ?v"
      using ev online by (simp add: route_to_leader_def u_def Let_def case_prod_beta)
    moreover have "resume_flight isof sessions tid' oid' now ?f (add_bus_flight ?f ?v) = ?w1" for tid' oid'
      by (simp add: resume_flight_def submitted_def Let_def)
    ultimately have g: "job_goes_on isof sessions tids oids now (route_to_leader isof sessions tid oid now e d j w) j
        (drop_bus_flight (Reporting j) ?w1)" using u(2) by (simp add: awaiting_goes_on)
    have a: "bus_added w ([] @ ([(?sid, ev)] @ ([] @ []))) ([] @ ([] @ ([] @ []))) (drop_bus_flight (Reporting j) ?w1)"
      by (intro bus_added_trans [OF u(1)] bus_added_trans [OF added_simps(4)] bus_added_trans [OF added_simps(3) [where f = ?f]] added_simps(1))
        (simp_all add: u(2))
    show ?thesis
      by (rule exI, rule exI [of _ "[(?sid, ev)]"], intro conjI, use a in simp, rule g)
        (use online taken in \<open>simp add: target_session_def handed_rightly_def\<close>)
  qed
qed

lemma teammate_step:
  assumes quiet: "bw_flights w = []" and e: "readable_message e"
    and m: "map_option ter_id (live_member (bus_teams w) (tm_id (bj_team j)) (tdl_recipient d)) = Some (tdl_recipient d)"
  shows "\<exists>w2 x. bus_added w [] [x] w2 \<and> job_goes_on isof sessions tids oids now (route_to_teammate e d j w) j w2 \<and>
    tdp_member x = tdl_recipient d"
proof -
  obtain m where m: "live_member (bus_teams w) (tm_id (bj_team j)) (tdl_recipient d) = Some m" "ter_id m = tdl_recipient d"
    using m by blast
  obtain p where p: "teammate_prompt e = Inr p" using readable_prompt [OF e] by blast
  let ?x = "dispatch_of (bj_team j) m p e d" and ?f = "Dispatching m e d j"
  let ?v = "w\<lparr>bw_dispatched := bw_dispatched w @ [?x]\<rparr>"
  let ?w1 = "teammate_told m e d j (drop_bus_flight ?f (add_bus_flight ?f ?v))"
  have "route_to_teammate e d j w = add_bus_flight ?f ?v" using m p by (simp add: route_to_teammate_def)
  moreover have "resume_flight isof sessions tid oid now ?f (add_bus_flight ?f ?v) = ?w1" for tid oid
    by (simp add: resume_flight_def accepted_def Let_def)
  ultimately have g: "job_goes_on isof sessions tids oids now (route_to_teammate e d j w) j (drop_bus_flight (Reporting j) ?w1)"
    using quiet by (simp add: awaiting_goes_on)
  have a: "bus_added w ([] @ ([] @ [])) ([?x] @ ([] @ [])) (drop_bus_flight (Reporting j) ?w1)"
    by (intro bus_added_trans [OF added_simps(5)] bus_added_trans [OF added_simps(3) [where f = ?f]] added_simps(2)) (simp_all add: quiet)
  show ?thesis
    by (rule exI, rule exI [of _ ?x], intro conjI, use a in simp, rule g) (simp add: dispatch_of_def m(2))
qed

subsection \<open>All of them\<close>

definition routed_all :: "(string \<Rightarrow> string option) \<Rightarrow> bus_job \<Rightarrow> bus_world \<Rightarrow> bus_world \<Rightarrow> bool" where
  "routed_all sessions j w w' \<longleftrightarrow> (\<exists>w1 hs ds. bus_added w hs ds w1 \<and> w' = end_job (j\<lparr>bj_left := []\<rparr>) None w1 \<and>
     list_all2 (handed_rightly (the (target_session sessions j)) (bj_team j))
       (if target_session sessions j = None then [] else filter (to_leader j) (bj_left j)) hs \<and>
     map tdp_member ds = map (\<lambda>x. tdl_recipient (snd x)) (filter (\<lambda>x. \<not> to_leader j x) (bj_left j)))"

lemma job_routes_all:
  assumes "bw_flights w = []" "list_all (routable (bus_teams w) j) (bj_left j)" "2 * length (bj_left j) \<le> n"
  shows "routed_all sessions j w (play_job isof sessions tids oids now n (route_next isof sessions tid oid now j w))"
  using assms
proof (induction "bj_left j" arbitrary: j w n tid oid)
  case Nil
  then have "route_next isof sessions tid oid now j w = end_job (j\<lparr>bj_left := []\<rparr>) None w" by (simp add: route_next_def end_job_def)
  moreover have "bus_added w [] [] w" by (simp add: bus_added_def)
  ultimately show ?case using Nil unfolding routed_all_def by (intro exI [of _ w] exI [of _ "[]"]) simp
next
  case (Cons x rest)
  obtain e d where x: "x = (e, d)" by (cases x)
  define j' where "j' = j\<lparr>bj_left := rest\<rparr>"
  have left: "bj_left j = (e, d) # rest" using Cons.hyps(2) x by simp
  have fields: "bj_team j' = bj_team j" "bj_opening j' = bj_opening j" "bj_replaying j' = bj_replaying j" "bj_left j' = rest"
    by (simp_all add: j'_def)
  have same [simp]: "to_leader j' = to_leader j" "target_session sessions j' = target_session sessions j" "bj_left j' = rest"
    "bj_team j' = bj_team j" "j'\<lparr>bj_left := []\<rparr> = j\<lparr>bj_left := []\<rparr>" "routable s j' = routable s j" for s
    unfolding fun_eq_iff to_leader_def target_session_def handed_rightly_def routable_def fields by (simp_all add: j'_def)
  have r: "routable (bus_teams w) j (e, d)" "list_all (routable (bus_teams w) j) rest" using Cons.prems(2) left by simp_all
  have "\<exists>w2 hs ds. bus_added w hs ds w2 \<and> job_goes_on isof sessions tids oids now (route_next isof sessions tid oid now j w) j' w2 \<and>
    list_all2 (handed_rightly (the (target_session sessions j)) (bj_team j))
      (if target_session sessions j = None then [] else filter (to_leader j) [(e, d)]) hs \<and>
    map tdp_member ds = map (\<lambda>x. tdl_recipient (snd x)) (filter (\<lambda>x. \<not> to_leader j x) [(e, d)])"
  proof (cases "to_leader j (e, d)")
    case True
    then have "route_next isof sessions tid oid now j w = route_to_leader isof sessions tid oid now e d j' w"
      using left by (simp add: route_next_def to_leader_def j'_def)
    then show ?thesis using leader_step [OF Cons.prems(1), of e isof sessions tids oids now tid oid d j'] r(1) True
      by (force simp: routable_def)
  next
    case False
    then have "route_next isof sessions tid oid now j w = route_to_teammate e d j' w"
      using left by (simp add: route_next_def to_leader_def j'_def)
    moreover have "bj_team j' = bj_team j" by (simp add: j'_def)
    ultimately show ?thesis using teammate_step [OF Cons.prems(1), of e j' d isof sessions tids oids now] r(1) False
      by (force simp: routable_def)
  qed
  then obtain w2 hs ds where w2: "bus_added w hs ds w2"
    "job_goes_on isof sessions tids oids now (route_next isof sessions tid oid now j w) j' w2"
    "list_all2 (handed_rightly (the (target_session sessions j)) (bj_team j))
      (if target_session sessions j = None then [] else filter (to_leader j) [(e, d)]) hs"
    "map tdp_member ds = map (\<lambda>x. tdl_recipient (snd x)) (filter (\<lambda>x. \<not> to_leader j x) [(e, d)])" by blast
  have "2 \<le> n" using Cons.prems(3) left by simp
  then obtain m tid' oid' where m: "n \<le> m + 2" "play_job isof sessions tids oids now n (route_next isof sessions tid oid now j w) =
      play_job isof sessions tids oids now m (route_next isof sessions tid' oid' now j' w2)"
    using w2(2) unfolding job_goes_on_def by blast
  have "routed_all sessions j' w2 (play_job isof sessions tids oids now m (route_next isof sessions tid' oid' now j' w2))"
    using Cons.prems m(1) left w2(1) r(2) by (intro Cons.hyps(1)) (simp_all add: bus_added_def)
  then obtain w3 hs' ds' where w3: "bus_added w2 hs' ds' w3"
    "play_job isof sessions tids oids now m (route_next isof sessions tid' oid' now j' w2) = end_job (j\<lparr>bj_left := []\<rparr>) None w3"
    "list_all2 (handed_rightly (the (target_session sessions j)) (bj_team j))
      (if target_session sessions j = None then [] else filter (to_leader j) rest) hs'"
    "map tdp_member ds' = map (\<lambda>x. tdl_recipient (snd x)) (filter (\<lambda>x. \<not> to_leader j x) rest)"
    unfolding routed_all_def by (simp only: same) blast
  have "list_all2 (handed_rightly (the (target_session sessions j)) (bj_team j))
      (if target_session sessions j = None then [] else filter (to_leader j) (bj_left j)) (hs @ hs')"
  proof (cases "target_session sessions j = None")
    case False
    have "filter (to_leader j) (bj_left j) = filter (to_leader j) [(e, d)] @ filter (to_leader j) rest" using left by simp
    then show ?thesis using w2(3) w3(3) False by (simp only: if_False list_all2_appendI)
  qed (use w2(3) w3(3) in simp)
  moreover have "map tdp_member (ds @ ds') = map (\<lambda>x. tdl_recipient (snd x)) (filter (\<lambda>x. \<not> to_leader j x) (bj_left j))"
    using w2(4) w3(4) left by (simp split: if_splits)
  ultimately show ?case unfolding routed_all_def m(2) w3(2) using bus_added_trans [OF w2(1) w3(1)] by blast
qed

subsection \<open>A session that opens\<close>


subsection \<open>A broadcast\<close>

lemma listed_live:
  assumes "keys_ok s" "m \<in> set (list_members True True tid s)"
  shows "live_member s tid (ter_id m) = Some m"
proof -
  obtain k where k: "(k, m) \<in> set (st_members s)" "fst k = tid" "member_live m"
    using assms(2) by (auto simp: list_members_def listed_def)
  then have "map_of (st_members s) k = Some m" using assms(1) by (simp add: keys_ok_def map_of_eq_Some_iff)
  moreover have "(ter_team m, ter_id m) = k" using calculation assms(1) unfolding keys_ok_def by blast
  ultimately show ?thesis using k(2,3) by (auto simp: live_member_Some load_member_def)
qed

lemma filter_by_image:
  "map f xs = map g ys \<Longrightarrow> map p xs = map q ys \<Longrightarrow> map f (filter (\<lambda>x. P (p x)) xs) = map g (filter (\<lambda>y. P (q y)) ys)"
proof (induction xs arbitrary: ys)
  case (Cons x xs)
  then show ?case by (cases ys) auto
qed simp

lemma broadcast_deliveries:
  "map tdl_recipient (ten_deliveries (public_envelope mid dids now t sender kind recipient content ms)) = map ter_id ms"
  "map tdl_role (ten_deliveries (public_envelope mid dids now t sender kind recipient content ms)) = map ter_role ms"
  by (simp_all add: public_envelope_def delivery_for_def case_prod_beta o_def) (simp_all flip: map_map [of _ snd, unfolded o_def])

text \<open>In whatever state the control plane has reached, a broadcast is a message with a delivery for every live member of
  the team but its sender; with no failure and nothing in between it is dispatched to every teammate of them and handed
  to the leader's session, in the order of joining, and ends without error.\<close>

theorem broadcast_reaches_all:
  assumes "team_step\<^sup>*\<^sup>* new_team_system y" "bus_teams w = tw_store (sy_world y)"
    "resolve_actor sid ext (bus_teams w) = (a, s)" "ta_team a = Some t" "ta_member a = Some sender" "strip recipient = ''*''"
    "load_envelope (tm_id t) mid (bw_messages w) = None" "bw_flights w = []"
    "others = filter (\<lambda>m. ter_id m \<noteq> ter_id sender) (list_members True True (tm_id t) s)" "2 * length others \<le> n"
    "send_public_message isof sessions mid dids tid oid now jid sid ext recipient content w = (r, w1)"
    "w2 = play_job isof sessions tids oids now n w1"
  shows "\<exists>e ds hs. r = Inr e \<and> map tdl_recipient (ten_deliveries e) = map ter_id others \<and>
    bw_dispatched w2 = bw_dispatched w @ ds \<and> map tdp_member ds = map ter_id (filter (\<lambda>m. ter_role m \<noteq> TR_Leader) others) \<and>
    bw_handed w2 = bw_handed w @ hs \<and>
    (case sessions (tm_leader_session t) of None \<Rightarrow> hs = []
     | Some st \<Rightarrow> list_all2 (handed_rightly (tm_leader_session t) t)
         (filter (\<lambda>x. tdl_role (snd x) = TR_Leader) (map (Pair e) (ten_deliveries e))) hs) \<and>
    bw_ended w2 = bw_ended w @ [(jid, None)]"
proof -
  let ?e = "public_envelope mid dids now t sender MK_Broadcast recipient content others"
  let ?j = "\<lparr>bj_id = jid, bj_team = t, bj_replaying = False, bj_opening = None, bj_left = map (Pair ?e) (ten_deliveries ?e)\<rparr>"
  have "store_ok (bus_teams w)" using reachable_ok [OF assms(1)] assms(2) by (simp add: system_ok_def)
  then have "keys_ok s" using resolve_store(1) [of "bus_teams w" sid ext] assms(3) by (simp add: store_ok_def)
  note live = listed_live [OF this]
  note recipients = broadcast_deliveries [of mid dids now t sender MK_Broadcast recipient content others]
  let ?u = "(set_bus_teams s w)\<lparr>bw_messages := AList.update (envelope_key ?e) ?e (bw_messages w)\<rparr>"
  have sent: "(r, w1) = (Inr ?e, route_next isof sessions tid oid now ?j ?u)"
    using assms(3-7,9,11) by (simp add: send_public_message_def resolve_public_recipients_def publish_and_route_def publish_envelope_def
        load_envelope_def envelope_key_def public_envelope_def Let_def)
  have "tdl_recipient d \<in> ter_id ` set others" if "d \<in> set (ten_deliveries ?e)" for d
    using that recipients(1) by (metis image_eqI list.set_map)
  then have "list_all (routable (bus_teams ?u) ?j) (bj_left ?j)"
    using live assms(9) by (fastforce simp: list_all_iff routable_def readable_message_def public_envelope_def set_bus_teams_def)
  then have "routed_all sessions ?j ?u (play_job isof sessions tids oids now n (route_next isof sessions tid oid now ?j ?u))"
    using assms(8,10) recipients(1) by (intro job_routes_all) (simp_all add: set_bus_teams_def, metis length_map)
  then obtain u hs ds where u: "bus_added ?u hs ds u" "w2 = end_job (?j\<lparr>bj_left := []\<rparr>) None u"
    "list_all2 (handed_rightly (the (target_session sessions ?j)) t)
      (if target_session sessions ?j = None then [] else filter (to_leader ?j) (bj_left ?j)) hs"
    "map tdp_member ds = map (\<lambda>x. tdl_recipient (snd x)) (filter (\<lambda>x. \<not> to_leader ?j x) (bj_left ?j))"
    using sent assms(12) unfolding routed_all_def by auto
  have bound: "to_leader ?j = (\<lambda>x. tdl_role (snd x) = TR_Leader)" by (simp add: to_leader_def fun_eq_iff)
  have "map tdp_member ds = map tdl_recipient (filter (\<lambda>d. tdl_role d \<noteq> TR_Leader) (ten_deliveries ?e))"
    using u(4) by (simp add: bound filter_map o_def)
  then have "map tdp_member ds = map ter_id (filter (\<lambda>m. ter_role m \<noteq> TR_Leader) others)"
    using filter_by_image [OF recipients, of "\<lambda>r. r \<noteq> TR_Leader"] by simp
  then show ?thesis using sent u recipients(1)
    by (intro exI [of _ ?e] exI [of _ ds] exI [of _ hs])
      (auto simp: bus_added_def end_job_def target_session_def bound set_bus_teams_def split: option.split)
qed

subsection \<open>The request of a workflow\<close>

lemma request_type:
  "strip (workflow_kind_value k @ ''_request'') = workflow_kind_value k @ ''_request''"
  "\<not> has_suffix ''_response'' (workflow_kind_value k @ ''_request'')"
proof -
  have "strip (workflow_kind_value WK_Permission @ ''_request'') = workflow_kind_value WK_Permission @ ''_request''"
    "\<not> has_suffix ''_response'' (workflow_kind_value WK_Permission @ ''_request'')"
    "strip (workflow_kind_value WK_Shutdown @ ''_request'') = workflow_kind_value WK_Shutdown @ ''_request''"
    "\<not> has_suffix ''_response'' (workflow_kind_value WK_Shutdown @ ''_request'')" by code_simp+
  then show "strip (workflow_kind_value k @ ''_request'') = workflow_kind_value k @ ''_request''"
    "\<not> has_suffix ''_response'' (workflow_kind_value k @ ''_request'')" by (cases k; simp only:)+
qed

lemma request_metadata:
  assumes "request_message v r = Some m"
  shows "strip (cm_type m) = cm_type m" "response_refused False (cm_type m) (cm_payload m) = Inr ()"
    "control_metadata ct (cm_payload m) = (''control_type'', PStr ct) # cm_payload m"
    "\<exists>p. parse_request_protocol (PDict (control_metadata ct (cm_payload m))) = Inr (Some p) \<and> rq_workflow p = wk_id v"
    "parse_response_protocol (PDict (control_metadata ct (cm_payload m))) = Inr None"
    "int_or_default (py_get (control_metadata ct (cm_payload m)) ''workflow_priority'') d = Inr (workflow_priority (wk_kind v))"
proof -
  have ty: "cm_type m = workflow_kind_value (wk_kind v) @ ''_request''"
    and payload: "cm_payload m = request_to_dict (build_request_protocol v) @ [(''workflow_priority'', PInt (workflow_priority (wk_kind v)))]"
    using assms by (auto simp: request_message_def py_update_def request_to_dict_def split: option.splits)
  show "strip (cm_type m) = cm_type m" by (simp only: ty request_type)
  have kind: "py_get (cm_payload m) ''protocol_kind'' = PStr ''request''" by (simp add: payload request_to_dict_def py_get_def)
  then show "response_refused False (cm_type m) (cm_payload m) = Inr ()"
    by (simp add: response_refused_def ty request_type parse_response_protocol_def)
  show ct: "control_metadata ct (cm_payload m) = (''control_type'', PStr ct) # cm_payload m"
    by (simp add: control_metadata_def payload py_update_def request_to_dict_def)
  show "\<exists>p. parse_request_protocol (PDict (control_metadata ct (cm_payload m))) = Inr (Some p) \<and> rq_workflow p = wk_id v"
    unfolding ct by (simp add: payload parse_request_protocol_def request_from_dict_def request_to_dict_def build_request_protocol_def py_get_def
        iterated_items_def)
  show "parse_response_protocol (PDict (control_metadata ct (cm_payload m))) = Inr None"
    unfolding ct using kind by (simp add: parse_response_protocol_def py_get_def)
  have "workflow_priority (wk_kind v) \<noteq> 0" by (simp add: workflow_priority_def)
  then show "int_or_default (py_get (control_metadata ct (cm_payload m)) ''workflow_priority'') d = Inr (workflow_priority (wk_kind v))"
    unfolding ct by (simp add: payload request_to_dict_def py_get_def)
qed

lemma shown_actions:
  assumes "load_workflow i (ww_store y) = Some v"
  shows "\<exists>w'. fst (get_workflow isof tid now i y) = Some w' \<and> wk_team w' = wk_team v \<and>
    (\<not> workflow_terminal w' \<and> allowed_workflow_actions w' \<noteq> [] \<longleftrightarrow>
       allowed_workflow_actions v \<noteq> [] \<and> (\<forall>dl. wk_deadline_at v = Some dl \<longrightarrow> now < dl))"
proof -
  have over: "workflow_terminal (expired_record isof tid now v)" "wk_team (expired_record isof tid now v) = wk_team v"
    by (simp_all add: expired_record_def mutate_record_def workflow_terminal_def terminal_for_def terminal_statuses_def)
  have ended: "workflow_terminal v \<Longrightarrow> allowed_workflow_actions v = []" by (simp add: allowed_workflow_actions_def)
  show ?thesis using assms over ended
    by (cases "wk_deadline_at v") (auto simp: get_workflow_def refresh_record_deadline_def Let_def)
qed

text \<open>C23: The request of a workflow, as the service sends it, is never refused by the bus as an answer, and when it reaches the
  leader it opens a turn exactly if something may still be done to the workflow and its deadline has not passed; a
  request that is replayed late is only reported.\<close>

theorem request_asks_while_open:
  assumes "request_message v0 recipient = Some m" "load_workflow (wk_id v0) (ww_store y) = Some v" "wk_team v = tm_id t"
    "strip (wk_id v0) \<noteq> []"
    "e = control_envelope mid did cid sent (cm_team m) (Some (cm_correlation m)) sender leader (strip (cm_type m)) (cm_payload m)"
  shows "response_refused (cm_allow_response m) (strip (cm_type m)) (cm_payload m) = Inr () \<and>
    (\<exists>ev. fst (leader_ingress_event isof tid oid now True t e d y) = Inr ev \<and>
      (py_get (ie_metadata ev) ''admission_kind'' = PStr ''admit_turn'' \<longleftrightarrow>
        allowed_workflow_actions v \<noteq> [] \<and> (\<forall>dl. wk_deadline_at v = Some dl \<longrightarrow> now < dl)))"
proof -
  have allow: "cm_allow_response m = False" using assms(1) by (auto simp: request_message_def split: option.splits)
  note sent = request_metadata [OF assms(1)]
  have md: "ten_kind e = MK_Control" "ten_metadata e = control_metadata (cm_type m) (cm_payload m)"
    by (simp_all add: assms(5) control_envelope_def sent(1))
  obtain p where p: "parse_request_protocol (PDict (ten_metadata e)) = Inr (Some p)" "rq_workflow p = wk_id v0"
    using sent(4) [of "cm_type m"] md(2) by auto
  obtain w' where w': "fst (get_workflow isof tid now (wk_id v0) y) = Some w'" "wk_team w' = wk_team v"
    "\<not> workflow_terminal w' \<and> allowed_workflow_actions w' \<noteq> [] \<longleftrightarrow>
       allowed_workflow_actions v \<noteq> [] \<and> (\<forall>dl. wk_deadline_at v = Some dl \<longrightarrow> now < dl)"
    using shown_actions [OF assms(2)] by blast
  have actionable: "fst (workflow_request_is_actionable isof tid now True t (wk_id v0) y) \<longleftrightarrow>
      allowed_workflow_actions v \<noteq> [] \<and> (\<forall>dl. wk_deadline_at v = Some dl \<longrightarrow> now < dl)"
    using w' assms(3,4) by (simp add: workflow_request_is_actionable_def case_prod_beta Let_def)
  have told: "informed_event oid t e d = Inr (control_event oid t e d (control_type_of e))"
    using sent(5) md(2) by (simp add: informed_event_def)
  have admits: "py_get (ie_metadata (request_event t e d ct q i)) ''admission_kind'' = PStr ''admit_turn''"
    "py_get (ie_metadata (control_event oid t e d ct)) ''admission_kind'' = PStr ''replay_only''" for ct q i
    by (simp_all add: request_event_def control_event_def py_get_def Let_def)
  show ?thesis
  proof (cases "fst (workflow_request_is_actionable isof tid now True t (wk_id v0) y)")
    case True
    then have "fst (leader_ingress_event isof tid oid now True t e d y) =
        Inr (request_event t e d (control_type_of e) p (workflow_priority (wk_kind v0)))"
      using p md sent(6) by (simp add: leader_ingress_event_def case_prod_beta Let_def)
    then show ?thesis using True actionable admits sent(1,2) allow by simp
  next
    case False
    then have "fst (leader_ingress_event isof tid oid now True t e d y) = Inr (control_event oid t e d (control_type_of e))"
      using p md told by (simp add: leader_ingress_event_def case_prod_beta Let_def)
    then show ?thesis using False actionable admits sent(1,2) allow by simp
  qed
qed

end
