(* ===== verification/Team_Message_Demo.thy ===== *)
theory Team_Message_Demo
  imports Team_Message_Routing Team_Workflow_Inv
begin

text \<open>
  The message bus at concrete inputs: a run from a member's message to its receipt, and the messages that are not
  delivered: one that cannot be read stops every replay, and a broadcast ends at the first member who has left.
\<close>

subsection \<open>A message and its receipt\<close>

definition no_session :: "string \<Rightarrow> string option" where
  "no_session sid = None"

definition demo_bus_world :: bus_world where
  "demo_bus_world = new_bus_world (new_workflow_world (tw_store demo_crew) True) True"

definition demo_delivery_ids :: "nat \<Rightarrow> string" where
  "demo_delivery_ids i = ''d'' @ show_nat i"

definition demo_send :: "string \<Rightarrow> string \<Rightarrow> (string, pyval) dict \<Rightarrow> string \<Rightarrow> bus_world \<Rightarrow> (bus_error + team_envelope) \<times> bus_world" where
  "demo_send mid sid ext recipient w = send_public_message plain_instant no_session mid demo_delivery_ids ''x'' ''o'' 5 0 sid ext recipient ''hi'' w"

definition demo_sent :: bus_world where
  "demo_sent = snd (demo_send ''g1'' ''s1'' [(''team_member_id'', PStr ''m1'')] ''leader'' demo_bus_world)"

definition demo_told :: bus_world where
  "demo_told = play_job plain_instant no_session demo_delivery_ids demo_delivery_ids 6 2 demo_sent"

definition demo_opened :: bus_world where
  "demo_opened = play_job plain_instant no_session demo_delivery_ids demo_delivery_ids 7 2 (session_opened plain_instant no_session ''x'' ''o'' 7 1 ''s1'' False demo_told)"

definition demo_receipt :: completion_receipt where
  "demo_receipt = \<lparr>cr_id = ''d0'', cr_kind = ''weavert.team.delivery_ack'',
     cr_payload = PDict [(''team_id'', PStr ''t1''), (''message_id'', PStr ''g1''), (''delivery_id'', PStr ''d0'')]\<rparr>"

definition demo_acknowledged :: bus_world where
  "demo_acknowledged = acknowledge_team_delivery 9 demo_receipt demo_sent"

lemma demo_facts:
  "map (\<lambda>x. (ten_id (fst x), tdl_id (snd x))) (pending_leader_messages ''t1'' ''l1'' (bw_messages demo_told)) = [(''g1'', ''d0'')]"
  "pending_leader_messages ''t1'' ''l1'' (bw_messages demo_acknowledged) = []"
  "map fst (bw_handed demo_opened) = [''s1'']" "bw_flights demo_told = []"
  by code_simp+

lemma demo_run:
  "bus_run plain_instant [] demo_bus_world demo_sent" "bus_run plain_instant [demo_receipt] demo_sent demo_acknowledged"
proof -
  have "bus_moves plain_instant None demo_bus_world demo_sent"
    unfolding demo_sent_def demo_send_def by (rule sends_public)
  from run_more [OF run_none this] show "bus_run plain_instant [] demo_bus_world demo_sent" by simp
  have "bus_moves plain_instant (Some demo_receipt) demo_sent demo_acknowledged"
    unfolding demo_acknowledged_def by (rule handles)
  from run_more [OF run_none this] show "bus_run plain_instant [demo_receipt] demo_sent demo_acknowledged" by simp
qed

lemma demo_run_all: "bus_run plain_instant [demo_receipt] demo_bus_world demo_acknowledged"
proof -
  have "bus_moves plain_instant (Some demo_receipt) demo_sent demo_acknowledged"
    unfolding demo_acknowledged_def by (rule handles)
  from run_more [OF demo_run(1) this] show ?thesis by simp
qed

definition demo_delivery :: team_delivery where
  "demo_delivery = \<lparr>tdl_id = ''d0'', tdl_recipient = ''l1'', tdl_role = TR_Leader, tdl_name = ''leader'', tdl_route = ''leader_ingress'',
     tdl_queued = True, tdl_created_at = 5, tdl_delivered_at = None, tdl_metadata = [(''public_to'', PStr ''leader'')]\<rparr>"

definition demo_envelope :: team_envelope where
  "demo_envelope = \<lparr>ten_id = ''g1'', ten_team = ''t1'', ten_sender = \<lparr>tsd_member = ''m1'', tsd_role = TR_Teammate, tsd_name = ''ada''\<rparr>,
     ten_kind = MK_Direct, ten_public_to = ''leader'', ten_content = ''hi'', ten_deliveries = [demo_delivery], ten_created_at = 5,
     ten_correlation = None, ten_metadata = [], ten_schema = 1\<rparr>"

lemma demo_messages:
  "bw_messages demo_sent = [((''t1'', ''g1''), demo_envelope)]"
  "bw_messages demo_acknowledged = [((''t1'', ''g1''), demo_envelope\<lparr>ten_deliveries := [mark_delivered 9 demo_delivery]\<rparr>)]"
  by code_simp+

theorem published_message_stays_witness:
  "\<exists>e'. load_envelope ''t1'' ''g1'' (bw_messages demo_acknowledged) = Some e' \<and> envelope_settles demo_envelope e'"
  using published_message_stays [OF demo_run(1) [unfolded demo_bus_world_def] _ demo_run(2), of "''t1''" "''g1''" demo_envelope]
  by (simp add: demo_messages(1) load_envelope_def)

theorem delivered_only_acknowledged_witness: "receipt_names [demo_receipt] ''t1'' ''g1'' ''d0''"
  using delivered_only_acknowledged [OF demo_run_all [unfolded demo_bus_world_def], of "''t1''" "''g1''"
      "demo_envelope\<lparr>ten_deliveries := [mark_delivered 9 demo_delivery]\<rparr>" "mark_delivered 9 demo_delivery"]
  by (simp add: demo_messages(2) load_envelope_def) (simp add: mark_delivered_def demo_delivery_def)

definition demo_team :: team where
  "demo_team = fresh_team ''t1'' ''l1'' ''s1'' None 0"

theorem leader_message_settles_witness:
  "\<exists>r. process_event demo_delivery_ids 6 [] [] (public_event demo_team demo_envelope demo_delivery) = Inr r \<and>
     pending_ids ''t1'' ''l1'' (bw_messages (fold (acknowledge_team_delivery 9) (ir_receipts r) demo_sent)) = []"
proof -
  have "fst (leader_ingress_event plain_instant ''x'' ''o'' 6 True demo_team demo_envelope demo_delivery (bw_work demo_bus_world)) =
      Inr (public_event demo_team demo_envelope demo_delivery)"
    by (simp add: leader_ingress_event_def demo_envelope_def)
  moreover have "list_all plain_id [tm_id demo_team, ten_id demo_envelope, tdl_id demo_delivery]" by code_simp
  ultimately obtain r where "process_event demo_delivery_ids 6 [] [] (public_event demo_team demo_envelope demo_delivery) = Inr r"
    "pending_ids (tm_id demo_team) ''l1'' (bw_messages (fold (acknowledge_team_delivery 9) (ir_receipts r) demo_sent)) =
      filter (\<lambda>k. k \<noteq> (ten_id demo_envelope, tdl_id demo_delivery)) (pending_ids (tm_id demo_team) ''l1'' (bw_messages demo_sent))"
    using leader_message_settles [OF demo_run(1) [unfolded demo_bus_world_def]] by blast
  moreover have "filter (\<lambda>k. k \<noteq> (ten_id demo_envelope, tdl_id demo_delivery)) (pending_ids (tm_id demo_team) ''l1'' (bw_messages demo_sent)) = []"
    by code_simp
  moreover have "tm_id demo_team = ''t1''" by (simp add: demo_team_def fresh_team_def)
  ultimately show ?thesis by auto
qed

lemma demo_told_facts:
  "fst (active_team_for_leader ''s1'' (bus_teams demo_told)) = Some demo_team"
  "live_member (bus_teams demo_told) ''t1'' ''l1'' = Some (fresh_leader ''t1'' ''l1'' ''s1'' 0)"
  "pending_leader_messages ''t1'' ''l1'' (bw_messages demo_told) = [(demo_envelope, demo_delivery)]"
  by code_simp+


theorem broadcast_reaches_all_witness:
  "map tdp_member (bw_dispatched (play_job plain_instant no_session demo_delivery_ids demo_delivery_ids 5 2 (snd (demo_send ''g1'' ''s1'' [] ''*'' demo_bus_world)))) = [''m1'']"
proof -
  let ?s = "tw_store demo_crew"
  have teams: "bus_teams demo_bus_world = tw_store (sy_world demo_start)" by (simp add: demo_bus_world_def demo_start_def new_bus_world_def new_workflow_world_def)
  obtain a s where a: "resolve_actor ''s1'' [] (bus_teams demo_bus_world) = (a, s)" by fastforce
  have actor: "ta_team a = Some demo_team" "ta_member a = Some (fresh_leader ''t1'' ''l1'' ''s1'' 0)"
    "map ter_id (filter (\<lambda>m. ter_id m \<noteq> ter_id (fresh_leader ''t1'' ''l1'' ''s1'' 0)) (list_members True True (tm_id demo_team) s)) = [''m1'']"
    "map ter_id (filter (\<lambda>m. ter_role m \<noteq> TR_Leader)
      (filter (\<lambda>m. ter_id m \<noteq> ter_id (fresh_leader ''t1'' ''l1'' ''s1'' 0)) (list_members True True (tm_id demo_team) s))) = [''m1'']"
  proof -
    have "a = fst (resolve_actor ''s1'' [] (bus_teams demo_bus_world))" "s = snd (resolve_actor ''s1'' [] (bus_teams demo_bus_world))" using a by simp_all
    then show "ta_team a = Some demo_team" "ta_member a = Some (fresh_leader ''t1'' ''l1'' ''s1'' 0)"
      "map ter_id (filter (\<lambda>m. ter_id m \<noteq> ter_id (fresh_leader ''t1'' ''l1'' ''s1'' 0)) (list_members True True (tm_id demo_team) s)) = [''m1'']"
      "map ter_id (filter (\<lambda>m. ter_role m \<noteq> TR_Leader)
        (filter (\<lambda>m. ter_id m \<noteq> ter_id (fresh_leader ''t1'' ''l1'' ''s1'' 0)) (list_members True True (tm_id demo_team) s))) = [''m1'']"
      by (simp only:, code_simp)+
  qed
  have empty: "load_envelope (tm_id demo_team) ''g1'' (bw_messages demo_bus_world) = None" "bw_flights demo_bus_world = []" "bw_dispatched demo_bus_world = []"
    by (simp_all add: demo_bus_world_def new_bus_world_def load_envelope_def)
  have star: "strip ''*'' = ''*''" by code_simp
  have two: "2 * length (filter (\<lambda>m. ter_id m \<noteq> ter_id (fresh_leader ''t1'' ''l1'' ''s1'' 0)) (list_members True True (tm_id demo_team) s)) \<le> 2"
    using arg_cong [OF actor(3), of length] by simp
  obtain r w where sent: "send_public_message plain_instant no_session ''g1'' demo_delivery_ids ''x'' ''o'' 5 0 ''s1'' [] ''*'' ''hi'' demo_bus_world = (r, w)" by fastforce
  note all = broadcast_reaches_all [OF lone_team_steps [OF demo_start_reached] teams a actor(1,2) star empty(1,2) refl two sent refl,
      where tids = demo_delivery_ids and oids = demo_delivery_ids]
  then have "map tdp_member (bw_dispatched (play_job plain_instant no_session demo_delivery_ids demo_delivery_ids 5 2 w)) = [''m1'']"
    using actor(4) empty(3) by auto
  then show ?thesis using sent by (simp add: demo_send_def)
qed

definition demo_bus_request :: control_message where
  "demo_bus_request = the (request_message (sample_workflow ''w1'' WS_Pending) None)"

definition demo_work :: workflow_world where
  "demo_work = store_record (sample_workflow ''w1'' WS_Pending) (new_workflow_world (tw_store demo_crew) True)"

definition demo_ask :: team_envelope where
  "demo_ask = control_envelope ''g2'' ''d2'' ''c2'' 3 (cm_team demo_bus_request) (Some (cm_correlation demo_bus_request))
     (fresh_member demo_team ''m1'' ''ada'' ''coder'' [] 1) (fresh_leader ''t1'' ''l1'' ''s1'' 0) (strip (cm_type demo_bus_request)) (cm_payload demo_bus_request)"

theorem request_asks_while_open_witness:
  "\<exists>ev. fst (leader_ingress_event plain_instant ''x'' ''o'' 8 True demo_team demo_ask demo_delivery demo_work) = Inr ev \<and>
     py_get (ie_metadata ev) ''admission_kind'' = PStr ''admit_turn''"
proof -
  let ?v = "sample_workflow ''w1'' WS_Pending"
  have "request_message ?v None = Some demo_bus_request"
    by (simp add: demo_bus_request_def request_message_def sample_workflow_def)
  moreover have "load_workflow (wk_id ?v) (ww_store demo_work) = Some ?v"
    by (simp add: demo_work_def store_record_def load_saved)
  moreover have "wk_team ?v = tm_id demo_team" "strip (wk_id ?v) \<noteq> []" "allowed_workflow_actions ?v \<noteq> []" "wk_deadline_at ?v = Some 9"
    by code_simp+
  ultimately show ?thesis
    using request_asks_while_open [OF _ _ _ _ demo_ask_def, of ?v None demo_work ?v demo_team plain_instant "''x''" "''o''" 8 demo_delivery]
    by auto
qed

subsection \<open>What is not delivered\<close>

text \<open>A control message whose \<open>workflow_kind\<close> is none of the two is published and then cannot be routed; every replay
  stops at it, and what was sent to the leader after it is never handed over.\<close>

definition demo_unreadable :: bus_world where
  "demo_unreadable = snd (send_control_message plain_instant no_session ''g0'' ''p0'' ''c0'' ''x'' ''o'' 4 0
     \<lparr>cm_team = ''t1'', cm_sender = ''m1'', cm_recipient = ''l1'', cm_type = ''note'', cm_correlation = [],
      cm_payload = [(''workflow_kind'', PStr ''review'')], cm_allow_response = False\<rparr> demo_bus_world)"

definition demo_blocked :: bus_world where
  "demo_blocked = play_job plain_instant no_session demo_delivery_ids demo_delivery_ids 6 2
     (snd (demo_send ''g1'' ''s1'' [(''team_member_id'', PStr ''m1'')] ''leader'' demo_unreadable))"

definition demo_blocked_open :: bus_world where
  "demo_blocked_open = play_job plain_instant no_session demo_delivery_ids demo_delivery_ids 7 4
     (session_opened plain_instant no_session ''x'' ''o'' 7 1 ''s1'' False demo_blocked)"

theorem unreadable_message_blocks_replay:
  "pending_ids ''t1'' ''l1'' (bw_messages demo_blocked) = [(''g0'', ''p0''), (''g1'', ''d0'')] \<and>
   bw_handed demo_blocked_open = [] \<and> last (bw_ended demo_blocked_open) = (1, Some (Bus_Payload Bad_Value)) \<and>
   pending_ids ''t1'' ''l1'' (bw_messages demo_blocked_open) = [(''g0'', ''p0''), (''g1'', ''d0'')]"
  by (intro conjI) code_simp+

text \<open>A broadcast to three teammates: while the first is dispatched to, the second is removed, and the third, who is
  live, is not dispatched to.\<close>

definition bigger_crew :: team_world where
  "bigger_crew = snd (register_member None ''m3'' ''s1'' [] ''cyd'' ''coder'' [] 3
     (snd (register_member None ''m2'' ''s1'' [] ''bob'' ''coder'' [] 2 demo_crew)))"

definition smaller_crew :: team_store where
  "smaller_crew = snd (store_remove_member 5 ''t1'' ''m2'' (tw_store bigger_crew))"

definition demo_broadcast :: bus_world where
  "demo_broadcast = snd (demo_send ''g1'' ''s1'' [] ''*'' (new_bus_world (new_workflow_world (tw_store bigger_crew) True) True))"

definition demo_cut :: bus_world where
  "demo_cut = play_job plain_instant no_session demo_delivery_ids demo_delivery_ids 6 6
     (demo_broadcast\<lparr>bw_work := new_workflow_world smaller_crew True\<rparr>)"

theorem broadcast_cut_short:
  "map tdl_recipient (ten_deliveries (the (load_envelope ''t1'' ''g1'' (bw_messages demo_cut)))) = [''m1'', ''m2'', ''m3''] \<and>
   map ter_id (list_members True False ''t1'' (bus_teams demo_cut)) = [''m1'', ''m3''] \<and>
   map tdp_member (bw_dispatched demo_cut) = [''m1''] \<and> bw_flights demo_cut = [] \<and>
   map (\<lambda>x. map_option (\<lambda>e. case e of Bus_Control c _ \<Rightarrow> c | _ \<Rightarrow> []) (snd x)) (bw_ended demo_cut) = [Some ''invalid_recipient'']"
  by (intro conjI) code_simp+

end
