(* ===== verification/Spec2Isabelle.thy ===== *)
theory Spec2Isabelle
  imports Prelude Task_Lists_Views Jobs_Control Mailbox_Props Packages_Props Permissions_Props
    Tool_Scheduler_Props Context_Window_Props Execution_Policy_Props Hook_Findings
    Session_Findings Turn_Outcomes Turn_Stream_Props Message_Protocol_Props
    Team_Control_Props Team_Store Team_Workflow_Props Team_Message_Demo
begin

text \<open>
  Verification library of WeaveRT's framework core (\<open>packages/framework-core/src/weavert\<close>; every path
  below is relative to that directory).

  \<^bold>\<open>The program\<close>.  WeaveRT runs AI agents.  A session takes inbound events, runs turns of a model, and
  lets the model call tools.  Around that loop stand services, each with its own state: task lists and
  jobs record what is to be done and what runs in the background; teammates exchange messages through
  mailboxes; packages are resolved into an order of activation when the runtime starts; every tool call
  passes the permission engine, is narrowed by the execution policy of the agent that makes it, and is
  scheduled beside the other calls of its turn; hooks observe and influence all of this at named phases;
  context windows bound what a request may hold.

  \<^bold>\<open>Conventions\<close> (\<open>Prelude\<close>, \<open>Py_Values\<close>, \<open>Py_Parse\<close>).  An exception is the left side of a sum, an
  ordered dictionary an association list, a JSON-like value a \<open>pyval\<close>; \<open>str\<close>, \<open>repr\<close>, truth,
  \<open>dict.update\<close> and \<open>int(str)\<close> are defined there.  Instants are natural numbers; a reading of the clock,
  a fresh \<open>uuid4\<close> and whatever code outside the repository does (executors, handlers, tools, hosts) are
  arguments.  Where the code awaits such code, either the whole operation takes an \<open>env\<close> argument that
  says what happens meanwhile, or the component is a step relation whose steps interleave.  Floats and
  non-ASCII text are not modelled; strings are their UTF-8 bytes.

  \<^bold>\<open>Task lists\<close> (\<open>task_lists.py\<close>; theories \<open>Task_Lists_Data\<close>, \<open>_Graph\<close>, \<open>_Service\<close>, \<open>_Inv\<close>, \<open>_Api\<close>,
  \<open>_Props\<close>, \<open>_Views\<close>).  The entries and snapshots, the dependency graph, every mutation of the default
  service, and its public operations over the store protocol (locale \<open>task_list_store\<close>, interpreted by
  the in-memory store).  Shown: all reachable lists have unique ids, well-formed entries and a mutual,
  acyclic graph; what each mutation does; the orchestration view partitions the tasks; strict mode keeps
  one task in progress per owner.

  \<^bold>\<open>Jobs\<close> (\<open>jobs.py\<close>; \<open>Jobs_Data\<close>, \<open>_Service\<close>, \<open>_Props\<close>, \<open>_Control\<close>).  Records, the transition table,
  submission with its executor, control, recovery, watchers, the payload codec (locale \<open>job_store\<close>).
  Shown: a job only moves along the table and never leaves a terminal state, its times are ordered, what
  a submission leaves behind on every path, the codec's round trip.

  \<^bold>\<open>Teammate mailbox\<close> (\<open>teammate_orchestration/mailbox.py\<close>, \<open>models.py\<close>; \<open>Mailbox_Data\<close>, \<open>Mailbox\<close>,
  \<open>Mailbox_Contract\<close>, \<open>Mailbox_Props\<close>).  The in-memory and the file-backed store, both against the locale
  \<open>mailbox_contract\<close>: no run of a client loses or duplicates a message, the oldest ready one is claimed,
  retries end in the dead letters.

  \<^bold>\<open>Package resolution\<close> (\<open>package_system/resolution.py\<close>, \<open>protocols.py\<close>; \<open>Packages_Data\<close>, \<open>_Resolve\<close>,
  \<open>_Search\<close>, \<open>_Props\<close>).  Version order, catalog, and the backtracking resolver as a machine over its
  continuations.  Shown: a result is closed under dependencies, meets every constraint and is ordered;
  and there is a result whenever there is a valid selection.  The machine needs no fuel: a measure on
  the unselected packages and the branches left makes it total.

  \<^bold>\<open>Permissions\<close> (\<open>permissions/*.py\<close>, \<open>tool_resolution.py\<close>; \<open>Permissions_Data\<close>, \<open>Permissions\<close>,
  \<open>Permissions_Props\<close>).  Rules, layered policies, presets, hooks and prompts.  Shown: exactly when the
  engine allows, that the read-only preset blocks, and what a hook's input does to a tool's own check.

  \<^bold>\<open>Tool orchestration\<close> (\<open>tool_orchestration.py\<close>, \<open>tool_lifecycle.py\<close>; \<open>Tool_Scheduler\<close>, \<open>_Inv\<close>,
  \<open>_Props\<close>).  Every asyncio task of a turn's calls is an entry with a phase, and the event loop a step
  relation.  Shown: two running calls never conflict, the oldest unfinished call can always move, every
  schedule ends, results come back in the order of the calls.

  \<^bold>\<open>Context windows\<close> (\<open>context_window.py\<close>; \<open>Context_Window\<close>, \<open>_Props\<close>).  Selectors, profiles, snapshots,
  estimates, payloads.  Shown: the overlap test is exact for selectors without classes, profiles without
  diagnostics resolve to their most specific match, a snapshot only narrows.

  \<^bold>\<open>Execution policy\<close> (\<open>execution_policy.py\<close>, parts of \<open>agent_execution_service.py\<close> and
  \<open>agent_runtime.py\<close>; \<open>Execution_Policy\<close>, \<open>_Props\<close>).  Shown: no chain of delegations widens tools, memory
  scope or permission mode, and chains are bounded by the delegation depth.

  \<^bold>\<open>Hooks\<close> (\<open>hooks/bus.py\<close>, \<open>platform.py\<close>, \<open>models.py\<close> and the request overrides of \<open>contracts.py\<close>;
  \<open>Request_Override\<close>, \<open>Hook_Data\<close>, \<open>Hook_Bus\<close>, \<open>Hook_Props\<close>, \<open>Hook_Lifecycle\<close>, \<open>Hook_Findings\<close>).  The
  phase table, registrations, templates, dispatch.  A handler is a function of the bus that returns the
  bus, so it may call the bus itself.  Shown: which registrations a dispatch runs and in which order,
  that effects stay within their contracts, that a released registration never runs again.

  \<^bold>\<open>Transcripts\<close> (\<open>session_runtime/transcript.py\<close>, the messages of \<open>contracts.py\<close>; \<open>Messages\<close>,
  \<open>Transcript\<close>, \<open>Transcript_Props\<close>).  Messages and their payloads, the store in memory and the one in files
  (locale \<open>transcript_store\<close>).  Shown: both answer every sequence of operations alike, and a purge removes
  exactly the artifacts nothing refers to.

  \<^bold>\<open>Sessions\<close> (\<open>session_runtime/controller.py\<close>, \<open>ingress.py\<close>, \<open>models.py\<close>, the private context of
  \<open>contracts.py\<close>; \<open>Private_Context\<close>, \<open>Session_Ingress\<close>, \<open>Session_Control\<close>, \<open>_Props\<close>, \<open>_Findings\<close>).  What
  an event becomes, and the session: its queue, messages, metadata and drains.  \<open>stream_until_idle\<close> is a
  machine whose steps are the stretches of code between two awaits that can suspend (the host's
  notifications, the receipt handlers, the engine's events); other operations and other drains happen between
  the steps.  The transcript stores never suspend; any store that keeps what it is given will do.  Shown: what
  the ingress promises of its result, the place of an event in the queue, that messages and transcript agree
  in every reachable state, and that a resumed session has the metadata its predecessor persisted; beside
  them what a second drain, an early interrupt and an abandoned turn do.

  \<^bold>\<open>The turn engine\<close> (\<open>turn_engine/engine.py\<close>, the recovery policy of \<open>control_plane.py\<close>,
  \<open>message_protocol.py\<close>).  \<open>Turn_Stream\<close>: the attempt that collects a model's stream into blocks and tool
  calls.  \<open>Message_Protocol\<close>: the pairing of tool uses and results and the conversation that goes to the model.
  \<open>Turn_Recovery\<close>: what an attempt's outcome is, the default policy, the hook on its decision, the terminal.
  \<open>Turn_Engine\<close>: the loop.  One iteration is a chain of stretches between the awaits on the control plane, the
  hooks, the model and the tools; what these answer, and whether they raise, is a value of \<open>iteration_env\<close>, and
  a turn is run on a list of them (\<open>run_turn\<close>), so its length is the fuel.  \<open>turn_bounded\<close> shows how long a list
  is enough: the turns of the agent and the retries and compactions of the policy.  The time to the first token,
  the progress events and the text of the composed prompt carry no state and are left out.  Shown in
  \<open>Turn_Stream_Props\<close>, \<open>Message_Protocol_Props\<close>, \<open>Turn_Engine_Props\<close> and \<open>Turn_Outcomes\<close>: each call is handed
  to the tools once, an attempt is committed or dropped, the repaired conversation is well formed, a turn yields
  one terminal and ends, what it yields carries its messages, when it is completed; and what stop hooks, hooks on
  the decision, late interrupts and unknown stop reasons make of it.

  \<^bold>\<open>Teams\<close> (\<open>team_control_plane.py\<close>; \<open>Team_Data\<close>, \<open>Team_Store\<close>, \<open>Team_Control\<close>, \<open>Team_Control_Inv\<close>,
  \<open>Team_Control_Props\<close>).  Teams and members with their payloads, the store in memory and the one in files, and
  the operations of the control plane: who the caller is, creating a team, registering and removing members,
  deleting a team.  A removal and a deletion await the runner manager, so they are two steps each, and
  \<open>team_step\<close> interleaves them with everything else.  Shown: both stores give the same answers; names of live
  members are unique and live teams are led in every reachable system; a session leads one live team as long as
  deletions do not overlap, and two when they do.

  \<^bold>\<open>Team workflows\<close> (\<open>team_workflows.py\<close>; \<open>Team_Workflow_Data\<close>, \<open>_Store\<close>, \<open>_Index\<close>, \<open>_Files\<close>,
  \<open>Team_Workflows\<close>, \<open>Team_Workflow_Inv\<close>, \<open>_Props\<close>).  The records with their payloads and protocol messages, both
  stores with their indices (locale \<open>workflow_protocol\<close>: a listing is the scan of the records), and the service.
  What an operation does between two awaits is a stretch, what it will do next a flight in the state, and
  \<open>workflow_step\<close> interleaves them.  Shown: a record's history accounts for its status in every reachable state;
  a permission needs the approval and then the host; who may respond; readers see nothing expired; a workflow that
  has ended stays so unless an older version is on its way; and the runs in which a response is lost and a waiter
  is left behind.

  \<^bold>\<open>Team messages\<close> (\<open>team_message_bus.py\<close>, and the two handlers of the team package's \<open>assembly.py\<close>;
  \<open>Team_Messages\<close>, \<open>Team_Message_Bus\<close>, \<open>_Props\<close>, \<open>_Routing\<close>, \<open>_Demo\<close>).  Envelopes with their deliveries and
  payloads, both stores (locale \<open>message_protocol\<close>), and the bus over the teams' store and the workflow service:
  sending, routing to the leader's session or through the runner manager, acknowledging by the receipt of the
  session's ingress, replaying when a session opens.  The deliveries an operation still has to route are a job, what it
  awaits a flight, and \<open>bus_moves\<close> interleaves them with whatever the other services do.  Shown: a published
  message stays and is delivered only by its receipt; the ingress (\<open>Session_Ingress\<close>) takes every event of the bus
  and its receipt settles that delivery alone; a session that opens is handed all that is pending; a broadcast
  reaches all; a workflow's request opens a turn exactly while it is open; and the two ways in which a message is
  not delivered.  \<open>play_job\<close> runs a job without interference; two rounds for each delivery are enough.

  \<^bold>\<open>Not modelled\<close>.  The preparation of a turn's context, the runtime kernel, memory, the model clients
  and the product kits (see the manifest, which lists each part with its reason): their state is spread
  over services outside of the core or their work is input and output.
\<close>

end
